(* ===== verification/Prelude.thy ===== *)
theory Prelude
  imports Main "HOL-Library.AList" "HOL-Library.Char_ord" "HOL-Library.List_Lexorder"
    "HOL-Library.Word" "HOL-Library.Multiset"
begin

text \<open>
  What every component of the development shares: the collections of rewrite rules, instants
  and durations, Go maps as association lists, the outcome of an operation that may fail,
  \<open>sort.Slice\<close>, and the fragments of Go's \<open>strings\<close> and \<open>strconv\<close>
  packages the program relies on.
\<close>

named_theorems validators \<open>definitions of the Validate methods and their guards\<close>
named_theorems operations \<open>definitions of the state-changing operations\<close>

section \<open>Instants and durations\<close>

text \<open>
  A \<open>time.Time\<close> is the number of nanoseconds since Go's zero time (January 1 of year 1,
  UTC), so \<open>IsZero\<close> is equality with 0, \<open>Before\<close> and \<open>After\<close> are the
  order and \<open>Equal\<close> is equality; \<open>UTC()\<close> does not move the instant. A
  \<open>time.Duration\<close> is a signed 64-bit number of nanoseconds, held as an int; where the
  code's arithmetic can leave that range the wrap-around or the saturation is written out.
\<close>

type_synonym time = int
type_synonym duration = int

definition IsZero :: "time \<Rightarrow> bool" where
  "IsZero t \<longleftrightarrow> t = 0"

definition Second :: duration where
  "Second = 1000000000"

definition Minute :: duration where
  "Minute = 60 * Second"

definition Hour :: duration where
  "Hour = 60 * Minute"

definition minDuration :: duration where
  "minDuration = - (2 ^ 63)"

definition maxDuration :: duration where
  "maxDuration = 2 ^ 63 - 1"

text \<open>\<open>Time.Sub\<close> saturates at the extreme durations.\<close>

definition time_Sub :: "time \<Rightarrow> time \<Rightarrow> duration" where
  "time_Sub t u = max minDuration (min maxDuration (t - u))"

text \<open>Conversions between 64-bit integers, with two's complement wrap-around.\<close>

definition to_uint64 :: "int \<Rightarrow> int" where
  "to_uint64 x = x mod 2 ^ 64"

definition to_int64 :: "int \<Rightarrow> int" where
  "to_int64 x = (x + 2 ^ 63) mod 2 ^ 64 - 2 ^ 63"

lemma IsZero_zero [simp]: "IsZero 0"
  by (simp add: IsZero_def)

lemma IsZero_pos [simp]: "0 < t \<Longrightarrow> \<not> IsZero t"
  by (simp add: IsZero_def)

lemma duration_units [simp]:
  "Second = 1000000000" "Minute = 60000000000" "Hour = 3600000000000"
  by (simp_all add: Second_def Minute_def Hour_def)

lemma to_int64_id: "minDuration \<le> x \<Longrightarrow> x \<le> maxDuration \<Longrightarrow> to_int64 x = x"
  by (simp add: to_int64_def minDuration_def maxDuration_def)

lemma to_uint64_id: "0 \<le> x \<Longrightarrow> x < 2 ^ 64 \<Longrightarrow> to_uint64 x = x"
  by (simp add: to_uint64_def)

lemma to_uint64_nonneg [simp]: "0 \<le> to_uint64 x"
  by (simp add: to_uint64_def)

section \<open>Operations that may fail\<close>

text \<open>
  A Go function with results \<open>(value, error)\<close> is a sum, \<open>Inl\<close> the error; a
  function whose only result is an error is an option, \<open>None\<close> for \<open>nil\<close>. An
  operation on a component's state returns its result beside the next state, because the code
  may have changed the state before it fails.
\<close>

fun guard :: "'e option \<Rightarrow> 'a \<Rightarrow> 'e + 'a" where
  "guard None a = Inr a"
| "guard (Some e) a = Inl e"

lemma guard_Inr [simp]: "guard r a = Inr b \<longleftrightarrow> r = None \<and> a = b"
  by (cases r) auto

lemma guard_Inl [simp]: "guard r a = Inl e \<longleftrightarrow> r = Some e"
  by (cases r) auto

definition is_ok :: "'e + 'a \<Rightarrow> bool" where
  "is_ok r \<longleftrightarrow> (case r of Inl _ \<Rightarrow> False | Inr _ \<Rightarrow> True)"

lemma is_ok_simps [simp]: "is_ok (Inr a)" "\<not> is_ok (Inl e)"
  by (simp_all add: is_ok_def)

lemma is_okE: "is_ok r \<Longrightarrow> (\<And>a. r = Inr a \<Longrightarrow> P) \<Longrightarrow> P"
  by (cases r) auto

section \<open>Go maps\<close>

text \<open>
  A Go map is an association list with distinct keys: \<open>map_of\<close> reads it,
  \<open>AList.update\<close> assigns and \<open>AList.delete\<close> removes. A \<open>range\<close> loop
  visits the entries in the order of the list. Go leaves that order open, so a property of such
  a loop is stated for lists in any order.
\<close>

abbreviation distinct_keys :: "('k \<times> 'v) list \<Rightarrow> bool" where
  "distinct_keys m \<equiv> distinct (map fst m)"

declare map_of_eq_Some_iff [simp del] Some_eq_map_of_iff [simp del]

lemma map_of_update [simp]: "map_of (AList.update k v m) = (map_of m)(k \<mapsto> v)"
  by (rule update_conv')

lemma map_of_delete [simp]: "map_of (AList.delete k m) = (map_of m)(k := None)"
  by (rule delete_conv')

lemma distinct_keys_update [simp, intro]: "distinct_keys m \<Longrightarrow> distinct_keys (AList.update k v m)"
  by (rule distinct_update)

lemma distinct_keys_delete [simp, intro]: "distinct_keys m \<Longrightarrow> distinct_keys (AList.delete k m)"
  by (rule distinct_delete)

lemma map_of_mset_eq:
  assumes "mset m = mset m'" and "distinct_keys m"
  shows "map_of m = map_of m'" and "distinct_keys m'"
proof -
  have keys: "mset (map fst m) = mset (map fst m')"
    using assms(1) by (simp add: mset_map)
  show d: "distinct_keys m'"
    using keys assms(2) by (metis mset_eq_imp_distinct_iff)
  have "set m = set m'"
    using assms(1) by (rule mset_eq_setD)
  then show "map_of m = map_of m'"
    using assms(2) d by (metis map_of_inject_set)
qed

lemma in_set_map_of: "distinct_keys m \<Longrightarrow> (k, v) \<in> set m \<longleftrightarrow> map_of m k = Some v"
  by (metis map_of_SomeD map_of_is_SomeI)

lemma values_update:
  "distinct_keys m \<Longrightarrow>
     (k, v) \<in> set (AList.update k' v' m) \<longleftrightarrow> (if k = k' then v = v' else (k, v) \<in> set m)"
  using in_set_map_of [of "AList.update k' v' m" k v] in_set_map_of [of m k v]
  by (auto simp del: in_set_map_of)

section \<open>Sorting\<close>

text \<open>
  \<open>sort.Slice\<close> leaves a permutation of its argument that is ordered by the comparator.
  Insertion sort is one such permutation; for the comparators of the program, which are total
  on the elements they meet, it is the only one.
\<close>

fun insert_by :: "('a \<Rightarrow> 'a \<Rightarrow> bool) \<Rightarrow> 'a \<Rightarrow> 'a list \<Rightarrow> 'a list" where
  "insert_by lt x [] = [x]"
| "insert_by lt x (y # ys) = (if lt y x then y # insert_by lt x ys else x # y # ys)"

definition sort_Slice :: "('a \<Rightarrow> 'a \<Rightarrow> bool) \<Rightarrow> 'a list \<Rightarrow> 'a list" where
  "sort_Slice lt xs = foldr (insert_by lt) xs []"

lemma mset_insert_by [simp]: "mset (insert_by lt x xs) = add_mset x (mset xs)"
  by (induction xs) auto

lemma mset_sort_Slice [simp]: "mset (sort_Slice lt xs) = mset xs"
  by (induction xs) (auto simp: sort_Slice_def)

lemma set_sort_Slice [simp]: "set (sort_Slice lt xs) = set xs"
  by (metis mset_sort_Slice set_mset_mset)

lemma length_sort_Slice [simp]: "length (sort_Slice lt xs) = length xs"
  by (metis mset_sort_Slice size_mset)

lemma sort_Slice_Nil_iff [simp]: "sort_Slice lt xs = [] \<longleftrightarrow> xs = []"
  by (metis length_sort_Slice length_0_conv)

lemma set_insert_by [simp]: "set (insert_by lt x xs) = insert x (set xs)"
  by (metis mset_insert_by set_mset_add_mset_insert set_mset_mset)

text \<open>
  The comparators are strict orders: \<open>asymmetric\<close> and \<open>transitive\<close> in the sense
  that their negation is transitive too (a weak order).
\<close>

lemma sorted_insert_by:
  assumes weak: "\<And>a b c. \<not> lt b a \<Longrightarrow> \<not> lt c b \<Longrightarrow> \<not> lt c a"
    and asym: "\<And>a b. lt a b \<Longrightarrow> \<not> lt b a"
    and "sorted_wrt (\<lambda>a b. \<not> lt b a) xs"
  shows "sorted_wrt (\<lambda>a b. \<not> lt b a) (insert_by lt x xs)"
  using assms(3)
proof (induction xs)
  case Nil
  show ?case by simp
next
  case (Cons y ys)
  then show ?case
    using weak [of y x] by (auto dest: asym)
qed

lemma sorted_sort_Slice:
  assumes "\<And>a b c. \<not> lt b a \<Longrightarrow> \<not> lt c b \<Longrightarrow> \<not> lt c a"
    and "\<And>a b. lt a b \<Longrightarrow> \<not> lt b a"
  shows "sorted_wrt (\<lambda>a b. \<not> lt b a) (sort_Slice lt xs)"
proof (induction xs)
  case Nil
  show ?case by (simp add: sort_Slice_def)
next
  case (Cons x xs)
  then show ?case
    using sorted_insert_by [OF assms] by (simp add: sort_Slice_def)
qed

lemma hd_sort_Slice_least:
  assumes "\<And>a b c. \<not> lt b a \<Longrightarrow> \<not> lt c b \<Longrightarrow> \<not> lt c a"
    and asym: "\<And>a b. lt a b \<Longrightarrow> \<not> lt b a"
    and "x \<in> set xs"
  shows "\<not> lt x (hd (sort_Slice lt xs))"
proof -
  have s: "sorted_wrt (\<lambda>a b. \<not> lt b a) (sort_Slice lt xs)"
    by (rule sorted_sort_Slice [OF assms(1,2)])
  have "x \<in> set (sort_Slice lt xs)" using assms(3) by simp
  with s show ?thesis
    by (cases "sort_Slice lt xs") (auto dest: asym)
qed

lemma hd_sort_Slice_in: "xs \<noteq> [] \<Longrightarrow> hd (sort_Slice lt xs) \<in> set xs"
  by (metis hd_in_set set_sort_Slice sort_Slice_Nil_iff)

text \<open>With a comparator that is total on the elements, the result ignores their order.\<close>

lemma sort_Slice_perm:
  assumes weak: "\<And>a b c. \<not> lt b a \<Longrightarrow> \<not> lt c b \<Longrightarrow> \<not> lt c a"
    and asym: "\<And>a b. lt a b \<Longrightarrow> \<not> lt b a"
    and total: "\<And>a b. a \<in> set xs \<Longrightarrow> b \<in> set xs \<Longrightarrow> \<not> lt a b \<Longrightarrow> \<not> lt b a \<Longrightarrow> a = b"
    and perm: "mset xs = mset ys"
  shows "sort_Slice lt xs = sort_Slice lt ys"
proof -
  have eq: "zs = zs'"
    if "sorted_wrt (\<lambda>a b. \<not> lt b a) zs" "sorted_wrt (\<lambda>a b. \<not> lt b a) zs'"
      "mset zs = mset zs'" "set zs \<subseteq> set xs" for zs zs'
    using that
  proof (induction zs arbitrary: zs')
    case Nil
    then show ?case by simp
  next
    case (Cons z zs)
    obtain z' ws where zs': "zs' = z' # ws"
      using Cons.prems(3) by (cases zs') auto
    have sub: "set (z # zs) = set zs'"
      using Cons.prems(3) by (metis set_mset_mset)
    have "\<not> lt z' z"
      using Cons.prems(1) sub zs' asym by (metis list.set_intros(1) set_ConsD sorted_wrt.simps(2))
    moreover have "\<not> lt z z'"
      using Cons.prems(2) sub zs' asym by (metis list.set_intros(1) set_ConsD sorted_wrt.simps(2))
    moreover have "z \<in> set xs" and "z' \<in> set xs"
      using Cons.prems(4) sub zs' by auto
    ultimately have "z = z'" using total by blast
    with Cons zs' show ?case by auto
  qed
  show ?thesis
    by (rule eq) (simp_all add: sorted_sort_Slice [OF weak asym] perm)
qed

section \<open>Strings\<close>

text \<open>
  A Go string is a sequence of bytes: a list of characters, each a byte. \<open>TrimSpace\<close>
  strips, at either end, the ASCII white space and the UTF-8 encodings of U+0085, U+00A0,
  U+1680, U+2000 to U+200A, U+2028, U+2029, U+202F, U+205F and U+3000.
\<close>

definition white_space :: "string list" where
  "white_space = [
    [CHR 0x09], [CHR 0x0A], [CHR 0x0B], [CHR 0x0C], [CHR 0x0D], [CHR 0x20], [CHR 0xC2, CHR 0x85],
    [CHR 0xC2, CHR 0xA0], [CHR 0xE1, CHR 0x9A, CHR 0x80], [CHR 0xE2, CHR 0x80, CHR 0x80],
    [CHR 0xE2, CHR 0x80, CHR 0x81], [CHR 0xE2, CHR 0x80, CHR 0x82],
    [CHR 0xE2, CHR 0x80, CHR 0x83], [CHR 0xE2, CHR 0x80, CHR 0x84],
    [CHR 0xE2, CHR 0x80, CHR 0x85], [CHR 0xE2, CHR 0x80, CHR 0x86],
    [CHR 0xE2, CHR 0x80, CHR 0x87], [CHR 0xE2, CHR 0x80, CHR 0x88],
    [CHR 0xE2, CHR 0x80, CHR 0x89], [CHR 0xE2, CHR 0x80, CHR 0x8A],
    [CHR 0xE2, CHR 0x80, CHR 0xA8], [CHR 0xE2, CHR 0x80, CHR 0xA9],
    [CHR 0xE2, CHR 0x80, CHR 0xAF], [CHR 0xE2, CHR 0x81, CHR 0x9F],
    [CHR 0xE3, CHR 0x80, CHR 0x80]]"

fun strip_prefix :: "string \<Rightarrow> string \<Rightarrow> string option" where
  "strip_prefix [] s = Some s"
| "strip_prefix (p # ps) [] = None"
| "strip_prefix (p # ps) (c # cs) = (if p = c then strip_prefix ps cs else None)"

definition HasPrefix :: "string \<Rightarrow> string \<Rightarrow> bool" where
  "HasPrefix s p \<longleftrightarrow> strip_prefix p s \<noteq> None"

definition TrimPrefix :: "string \<Rightarrow> string \<Rightarrow> string" where
  "TrimPrefix s p = (case strip_prefix p s of Some r \<Rightarrow> r | None \<Rightarrow> s)"

fun strip_one :: "string list \<Rightarrow> string \<Rightarrow> string option" where
  "strip_one [] s = None"
| "strip_one (w # ws) s = (case strip_prefix w s of Some r \<Rightarrow> Some r | None \<Rightarrow> strip_one ws s)"

fun trim_left :: "string list \<Rightarrow> nat \<Rightarrow> string \<Rightarrow> string" where
  "trim_left ws 0 s = s"
| "trim_left ws (Suc n) s = (case strip_one ws s of Some r \<Rightarrow> trim_left ws n r | None \<Rightarrow> s)"

definition TrimSpace :: "string \<Rightarrow> string" where
  "TrimSpace s =
     (let l = trim_left white_space (length s) s
      in rev (trim_left (map rev white_space) (length l) (rev l)))"

text \<open>A text that neither begins nor ends like white space is left alone.\<close>

definition space_heads :: "string" where
  "space_heads = [CHR 0x09, CHR 0x0A, CHR 0x0B, CHR 0x0C, CHR 0x0D, CHR 0x20, CHR 0xC2, CHR 0xE1, CHR 0xE2, CHR 0xE3]"

definition space_lasts :: "string" where
  "space_lasts = [CHR 0x09, CHR 0x0A, CHR 0x0B, CHR 0x0C, CHR 0x0D, CHR 0x20, CHR 0x80, CHR 0x81, CHR 0x82,
     CHR 0x83, CHR 0x84, CHR 0x85, CHR 0x86, CHR 0x87, CHR 0x88, CHR 0x89, CHR 0x8A, CHR 0x9F, CHR 0xA0,
     CHR 0xA8, CHR 0xA9, CHR 0xAF]"

lemma white_space_ends:
  "list_all (\<lambda>w. w \<noteq> [] \<and> hd w \<in> set space_heads \<and> last w \<in> set space_lasts) white_space"
  by (simp add: white_space_def space_heads_def space_lasts_def)

lemma strip_prefix_Some: "strip_prefix p s = Some r \<Longrightarrow> s = p @ r"
  by (induction p s rule: strip_prefix.induct) (auto split: if_splits)

lemma strip_one_Some: "strip_one ws s = Some r \<Longrightarrow> \<exists>w \<in> set ws. s = w @ r"
  by (induction ws) (auto split: option.splits dest: strip_prefix_Some)

lemma trim_left_id: "strip_one ws s = None \<Longrightarrow> trim_left ws n s = s"
  by (cases n) auto

lemma TrimSpace_id:
  assumes "s = [] \<or> hd s \<notin> set space_heads \<and> last s \<notin> set space_lasts"
  shows "TrimSpace s = s"
proof -
  have ends: "w \<noteq> [] \<and> hd w \<in> set space_heads \<and> last w \<in> set space_lasts" if "w \<in> set white_space" for w
    using white_space_ends that by (simp add: list_all_iff)
  have "strip_one white_space s = None"
  proof (rule ccontr)
    assume "strip_one white_space s \<noteq> None"
    then obtain r w where "w \<in> set white_space" "s = w @ r" using strip_one_Some by blast
    with ends [of w] assms show False by auto
  qed
  moreover have "strip_one (map rev white_space) (rev s) = None"
  proof (rule ccontr)
    assume "strip_one (map rev white_space) (rev s) \<noteq> None"
    then obtain r w where w: "w \<in> set white_space" "rev s = rev w @ r" using strip_one_Some by fastforce
    from arg_cong [OF w(2), of rev] have "s = rev r @ w" by simp
    with ends [OF w(1)] assms show False by auto
  qed
  ultimately show ?thesis by (simp add: TrimSpace_def Let_def trim_left_id)
qed

fun Contains :: "string \<Rightarrow> string \<Rightarrow> bool" where
  "Contains [] p \<longleftrightarrow> p = []"
| "Contains (c # cs) p \<longleftrightarrow> HasPrefix (c # cs) p \<or> Contains cs p"

text \<open>Decimal rendering, as \<open>%d\<close> and \<open>strconv.FormatUint\<close> do it.\<close>

fun FormatNat :: "nat \<Rightarrow> string" where
  "FormatNat n = (if n < 10 then [char_of (48 + n)] else FormatNat (n div 10) @ [char_of (48 + n mod 10)])"

declare FormatNat.simps [simp del]

definition FormatInt :: "int \<Rightarrow> string" where
  "FormatInt i = (if i < 0 then ''-'' @ FormatNat (nat (- i)) else FormatNat (nat i))"

text \<open>\<open>%q\<close> in an error text: the value between double quotes (escapes are not rendered).\<close>

definition quoted :: "string \<Rightarrow> string" where
  "quoted s = [CHR 0x22] @ s @ [CHR 0x22]"

section \<open>Chains of guards\<close>

text \<open>
  A validator is a chain of guards, each ending with an error. It accepts when no guard does:
  these rules take a chain apart one guard at a time.
\<close>

lemma guard_if_None: "(if b then Some e else x) = None \<longleftrightarrow> \<not> b \<and> x = None"
  by simp

lemma guard_case_None: "(case x of Some e \<Rightarrow> Some e | None \<Rightarrow> y) = None \<longleftrightarrow> x = None \<and> y = None"
  by (cases x) simp_all

lemma guard_end_None: "(if b then Some e else None) = None \<longleftrightarrow> \<not> b"
  by simp

lemmas guards_None = guard_if_None guard_case_None guard_end_None

end
