(* ===== verification/Errors.thy ===== *)
theory Errors
  imports Prelude
begin

text \<open>
  \<open>core/errors.go\<close> and the sentinel errors of \<open>broker\<close> and \<open>storage\<close>:
  error values, their texts, unwrapping (\<open>errors.As\<close>, \<open>errors.Is\<close>) and the
  normalised operation error. An error made by \<open>errors.New\<close> or, without \<open>%w\<close>,
  by \<open>fmt.Errorf\<close> is \<open>Err\<close> with its text; \<open>ErrAt\<close> is a text followed by a
  formatted instant; \<open>ErrWrap\<close> is \<open>fmt.Errorf\<close> with \<open>%w\<close> at its end and
  \<open>ErrJoin\<close> is \<open>errors.Join\<close> of two errors. \<open>ErrModel\<close> is the error of a
  language model, of \<open>operator/model.go\<close>.
\<close>

type_synonym Platform = string

section \<open>Categories and error values\<close>

datatype ErrorCategory =
    ErrorUnsupported | ErrorUnauthorized | ErrorRateLimited | ErrorQuotaExceeded
  | ErrorValidationRequired | ErrorTemporaryFailure | ErrorPermanentFailure
  | ErrorConfirmationRequired | ErrorAmbiguousResult | ErrorConflict
  | ErrorCategoryOther string

datatype sentinel =
    ErrLeaseLost | ErrTaskNotFound | ErrTaskNotFailed | ErrTaskNotRequeueable
  | ErrTaskNotCancellable | ErrTaskDeadlineExpired | ErrTaskControlConflict
  | ErrApplicationInRunningCampaign | ErrApplicationActiveTailoringSaga
  | ErrRevisionConflict | ErrApplicationRemoved | ErrAuthSessionNotFound
  | ErrProfileMutationLocked | ErrApplicationNotFound | ErrApplicationTailoringNotFound
  | ErrConversationNotFound | ErrProfileDraftNotFound | ErrConversationMessageConflict
  | ErrConversationObservationStale | ErrProfileStateChanged | ErrResumeTailoringSkillLimit
  | DeadlineExceeded

datatype error =
    Err string
  | ErrAt string time
  | ErrWrap string error
  | ErrJoin error error
  | ErrSentinel sentinel
  | ErrOperation OperationError
  | ErrModel ModelError
and OperationError =
  OperationError (oe_Category: ErrorCategory) (oe_Operation: string) (oe_Platform: Platform)
    (oe_Message: string) (oe_RetryAfter: "time option") (oe_Metadata: "(string \<times> string) list")
    (oe_Cause: "error option")
and ModelError =
  ModelError (me_Kind: string) (me_Operation: string) (me_StatusCode: int) (me_Message: string)
    (me_Cause: "error option")

text \<open>\<open>context.Context\<close>: what \<open>ctx.Err()\<close> returns when the operation looks.\<close>

type_synonym ctx = "error option"

definition NoCategory :: ErrorCategory where
  "NoCategory = ErrorCategoryOther []"

fun category_text :: "ErrorCategory \<Rightarrow> string" where
  "category_text ErrorUnsupported = ''unsupported''"
| "category_text ErrorUnauthorized = ''unauthorized''"
| "category_text ErrorRateLimited = ''rate_limited''"
| "category_text ErrorQuotaExceeded = ''quota_exceeded''"
| "category_text ErrorValidationRequired = ''validation_required''"
| "category_text ErrorTemporaryFailure = ''temporary_failure''"
| "category_text ErrorPermanentFailure = ''permanent_failure''"
| "category_text ErrorConfirmationRequired = ''confirmation_required''"
| "category_text ErrorAmbiguousResult = ''ambiguous_result''"
| "category_text ErrorConflict = ''conflict''"
| "category_text (ErrorCategoryOther s) = s"

fun sentinel_text :: "sentinel \<Rightarrow> string" where
  "sentinel_text ErrLeaseLost = ''task lease is no longer active''"
| "sentinel_text ErrTaskNotFound = ''task not found''"
| "sentinel_text ErrTaskNotFailed = ''task is not failed''"
| "sentinel_text ErrTaskNotRequeueable = ''task is not failed or dismissed''"
| "sentinel_text ErrTaskNotCancellable = ''task is not queued and cannot be cancelled''"
| "sentinel_text ErrTaskDeadlineExpired = ''task deadline has expired''"
| "sentinel_text ErrTaskControlConflict = ''task changed during operator control''"
| "sentinel_text ErrApplicationInRunningCampaign = ''application belongs to a running campaign''"
| "sentinel_text ErrApplicationActiveTailoringSaga = ''application has an active resume tailoring saga''"
| "sentinel_text ErrRevisionConflict = ''repository revision conflict''"
| "sentinel_text ErrApplicationRemoved = ''application was removed from the working set''"
| "sentinel_text ErrAuthSessionNotFound = ''auth session not found''"
| "sentinel_text ErrProfileMutationLocked = ''profile already has an active mutation workflow''"
| "sentinel_text ErrApplicationNotFound = ''application not found''"
| "sentinel_text ErrApplicationTailoringNotFound = ''application tailoring not found''"
| "sentinel_text ErrConversationNotFound = ''conversation not found''"
| "sentinel_text ErrProfileDraftNotFound = ''profile draft not found''"
| "sentinel_text ErrConversationMessageConflict = ''conversation message identity conflicts with different content''"
| "sentinel_text ErrConversationObservationStale = ''conversation observation is older than the stored state''"
| "sentinel_text ErrProfileStateChanged = ''profile state changed since proposal''"
| "sentinel_text ErrResumeTailoringSkillLimit =
     ''resume tailoring cannot add every vacancy skill without dropping an existing skill''"
| "sentinel_text DeadlineExceeded = ''context deadline exceeded''"

section \<open>Operation errors\<close>

fun ValidErrorCategory :: "ErrorCategory \<Rightarrow> bool" where
  "ValidErrorCategory (ErrorCategoryOther _) = False"
| "ValidErrorCategory _ = True"

text \<open>\<open>Error()\<close> of an error value; the instant of \<open>ErrAt\<close> is rendered in nanoseconds.\<close>

definition ModelError_Error :: "ModelError \<Rightarrow> string" where
  "ModelError_Error err =
     (let message = TrimSpace (me_Message err); message = (if message = [] then me_Kind err else message)
      in if me_Operation err = [] then message else me_Operation err @ '': '' @ message)"

fun Error_text :: "error \<Rightarrow> string" and OperationError_Error :: "OperationError \<Rightarrow> string" where
  "Error_text (Err s) = s"
| "Error_text (ErrAt s t) = s @ FormatInt t"
| "Error_text (ErrWrap s e) = s @ '': '' @ Error_text e"
| "Error_text (ErrJoin e e') = Error_text e @ CHR 0x0A # Error_text e'"
| "Error_text (ErrSentinel s) = sentinel_text s"
| "Error_text (ErrOperation oe) = OperationError_Error oe"
| "Error_text (ErrModel me) = ModelError_Error me"
| "OperationError_Error (OperationError category operation platform message retry meta cause) =
     (let prefix = (if operation \<noteq> [] then operation @ '': '' @ category_text category
                    else category_text category)
      in if message \<noteq> [] then prefix @ '': '' @ message
         else case cause of Some c \<Rightarrow> prefix @ '': '' @ Error_text c | None \<Rightarrow> prefix)"

definition OperationError_Validate :: "OperationError \<Rightarrow> error option" where
  "OperationError_Validate err =
     (if \<not> ValidErrorCategory (oe_Category err)
      then Some (Err (''unknown error category '' @ quoted (category_text (oe_Category err))))
      else if oe_Operation err = [] then Some (Err ''operation error requires operation'')
      else if oe_Category err \<noteq> ErrorRateLimited \<and> oe_Category err \<noteq> ErrorQuotaExceeded
              \<and> oe_RetryAfter err \<noteq> None
      then Some (Err ''retry_after is only valid for rate_limited or quota_exceeded errors'')
      else None)"

text \<open>\<open>errors.As(err, &operationError)\<close>: the first operation error along the chain.\<close>

fun errors_As :: "error \<Rightarrow> OperationError option" where
  "errors_As (ErrOperation oe) = Some oe"
| "errors_As (ErrModel (ModelError kind operation status message (Some c))) = errors_As c"
| "errors_As (ErrWrap s e) = errors_As e"
| "errors_As (ErrJoin e e') = (case errors_As e of Some oe \<Rightarrow> Some oe | None \<Rightarrow> errors_As e')"
| "errors_As _ = None"

text \<open>\<open>errors.Is(err, sentinel)\<close>: an operation error unwraps to its cause.\<close>

fun errors_Is :: "error \<Rightarrow> sentinel \<Rightarrow> bool" and cause_Is :: "OperationError \<Rightarrow> sentinel \<Rightarrow> bool" where
  "errors_Is (ErrSentinel s) s' = (s = s')"
| "errors_Is (ErrWrap t e) s' = errors_Is e s'"
| "errors_Is (ErrJoin e e') s' = (errors_Is e s' \<or> errors_Is e' s')"
| "errors_Is (ErrOperation oe) s' = cause_Is oe s'"
| "errors_Is (ErrModel (ModelError kind operation status message (Some c))) s' = errors_Is c s'"
| "errors_Is _ s' = False"
| "cause_Is (OperationError category operation platform message retry meta cause) s' =
     (case cause of Some c \<Rightarrow> errors_Is c s' | None \<Rightarrow> False)"

text \<open>\<open>errors.As(err, &modelError)\<close>: the first model error along the chain.\<close>

fun errors_As_model :: "error \<Rightarrow> ModelError option" where
  "errors_As_model (ErrModel me) = Some me"
| "errors_As_model (ErrOperation (OperationError category operation platform message retry meta (Some c))) =
     errors_As_model c"
| "errors_As_model (ErrWrap s e) = errors_As_model e"
| "errors_As_model (ErrJoin e e') = (case errors_As_model e of Some me \<Rightarrow> Some me | None \<Rightarrow> errors_As_model e')"
| "errors_As_model _ = None"

definition ErrorIsCategory :: "error \<Rightarrow> ErrorCategory \<Rightarrow> bool" where
  "ErrorIsCategory err category =
     (case errors_As err of Some oe \<Rightarrow> oe_Category oe = category | None \<Rightarrow> False)"

definition AllowsTransportFallback :: "error \<Rightarrow> bool" where
  "AllowsTransportFallback err = ErrorIsCategory err ErrorUnsupported"

lemma OperationError_Validate_None:
  "OperationError_Validate oe = None \<longleftrightarrow>
     ValidErrorCategory (oe_Category oe) \<and> oe_Operation oe \<noteq> [] \<and>
     (oe_RetryAfter oe \<noteq> None \<longrightarrow> oe_Category oe \<in> {ErrorRateLimited, ErrorQuotaExceeded})"
  by (auto simp: OperationError_Validate_def)

end
