(* ===== verification/Interfaces.thy ===== *)
theory Interfaces
  imports Errors
begin

text \<open>
  The contracts that several components share, each a locale: a record with a status and an
  update stamp that moves along a transition table; a store whose saves are guarded by an
  expected revision. The theory of each component that meets a contract interprets its locale
  on the component's own definitions.
\<close>

section \<open>Runs of operations\<close>

text \<open>
  A caller that keeps going after an error: an operation that fails leaves the record as it
  was.
\<close>

fun keep_going :: "('o \<Rightarrow> 'r \<Rightarrow> error + 'r) \<Rightarrow> 'o list \<Rightarrow> 'r \<Rightarrow> 'r" where
  "keep_going apply_op [] r = r"
| "keep_going apply_op (x # xs) r =
     (case apply_op x r of Inl _ \<Rightarrow> keep_going apply_op xs r | Inr r' \<Rightarrow> keep_going apply_op xs r')"

lemma keep_going_append:
  "keep_going f (xs @ ys) r = keep_going f ys (keep_going f xs r)"
  by (induction xs arbitrary: r) (auto split: sum.splits)

text \<open>What every successful operation keeps, a run keeps.\<close>

lemma keep_going_invariant:
  assumes "\<And>x r r'. P r \<Longrightarrow> f x r = Inr r' \<Longrightarrow> P r'" and "P r"
  shows "P (keep_going f xs r)"
  using assms(2) by (induction xs arbitrary: r) (auto split: sum.splits intro: assms(1))

lemma keep_going_rel:
  assumes refl: "\<And>r. R r r" and trans: "\<And>a b c. R a b \<Longrightarrow> R b c \<Longrightarrow> R a c"
    and step: "\<And>x r r'. f x r = Inr r' \<Longrightarrow> R r r'"
  shows "R r (keep_going f xs r)"
  by (induction xs arbitrary: r) (auto split: sum.splits intro: refl dest: step trans)

section \<open>Status machines\<close>

locale status_machine =
  fixes allowed :: "'s \<Rightarrow> 's \<Rightarrow> bool"
    and status :: "'r \<Rightarrow> 's"
    and stamp :: "'r \<Rightarrow> time"
    and transition :: "'s \<Rightarrow> time \<Rightarrow> 'r \<Rightarrow> error + 'r"
  assumes transition_allowed: "transition to now r = Inr r' \<Longrightarrow> allowed (status r) to"
    and transition_status: "transition to now r = Inr r' \<Longrightarrow> status r' = to"
    and transition_stamp: "transition to now r = Inr r' \<Longrightarrow> stamp r' = now \<and> stamp r \<le> now"
begin

abbreviation moves :: "('s \<times> time) list \<Rightarrow> 'r \<Rightarrow> 'r" where
  "moves \<equiv> keep_going (\<lambda>(to, now). transition to now)"

lemma terminal_stuck:
  assumes "\<And>to. \<not> allowed (status r) to"
  shows "moves xs r = r"
proof (induction xs)
  case Nil
  show ?case by simp
next
  case (Cons x xs)
  obtain to now where x: "x = (to, now)" by (cases x)
  have "\<exists>e. transition to now r = Inl e"
    using assms transition_allowed [of to now r] by (cases "transition to now r") blast+
  with Cons x show ?case by auto
qed

lemma moves_stamp_mono: "stamp r \<le> stamp (moves xs r)"
  by (rule keep_going_rel [where R = "\<lambda>a b. stamp a \<le> stamp b"])
    (auto dest: transition_stamp)

lemma moves_path: "(status r, status (moves xs r)) \<in> {(a, b). allowed a b}\<^sup>*"
proof (rule keep_going_rel [where R = "\<lambda>a b. (status a, status b) \<in> {(a, b). allowed a b}\<^sup>*"])
  fix x and r :: 'r and r'
  assume "(case x of (to, now) \<Rightarrow> transition to now) r = Inr r'"
  then show "(status r, status r') \<in> {(a, b). allowed a b}\<^sup>*"
    by (cases x) (auto dest: transition_allowed transition_status)
qed (auto intro: rtrancl_trans)

text \<open>A set of statuses that the table never leaves is never left.\<close>

lemma moves_closed:
  assumes "\<And>a b. a \<in> S \<Longrightarrow> allowed a b \<Longrightarrow> b \<in> S" and "status r \<in> S"
  shows "status (moves xs r) \<in> S"
proof (rule keep_going_invariant [where P = "\<lambda>r. status r \<in> S"])
  fix x and r :: 'r and r'
  assume "status r \<in> S" and "(case x of (to, now) \<Rightarrow> transition to now) r = Inr r'"
  then show "status r' \<in> S"
    by (cases x) (auto dest: transition_allowed transition_status intro: assms(1))
qed (rule assms(2))

text \<open>
  If the only way into a status is from \<open>via\<close>, a run that ends there from another status
  has been in \<open>via\<close> on the way.
\<close>

lemma moves_via:
  assumes only: "\<And>a. allowed a goal \<Longrightarrow> a = via"
    and "status r \<noteq> goal" and "status (moves xs r) = goal"
  shows "\<exists>ys zs. xs = ys @ zs \<and> status (moves ys r) = via"
  using assms(3)
proof (induction xs rule: rev_induct)
  case Nil
  then show ?case using assms(2) by simp
next
  case (snoc x xs)
  obtain to now where x: "x = (to, now)" by (cases x)
  let ?m = "moves xs r"
  have eq: "moves (xs @ [x]) r = (case transition to now ?m of Inl _ \<Rightarrow> ?m | Inr r' \<Rightarrow> r')"
    by (simp add: keep_going_append x split: sum.splits)
  show ?case
  proof (cases "transition to now ?m")
    case (Inl e)
    then have "status ?m = goal" using snoc.prems eq by simp
    then obtain ys zs where "xs = ys @ zs" "status (moves ys r) = via"
      using snoc.IH by blast
    then show ?thesis by (metis append.assoc)
  next
    case (Inr r')
    then have "allowed (status ?m) goal"
      using snoc.prems eq transition_allowed transition_status by fastforce
    then have "status ?m = via" by (rule only)
    then show ?thesis by blast
  qed
qed

end

section \<open>Stores guarded by a revision\<close>

text \<open>
  \<open>save c rev s\<close> stores \<open>c\<close> if the stored record still has revision \<open>rev\<close>.
  The laws are what a caller needs to know that its write was not lost.
\<close>

locale revisioned_store =
  fixes lookup :: "'w \<Rightarrow> 'k \<Rightarrow> 'r option"
    and key :: "'r \<Rightarrow> 'k"
    and revision :: "'r \<Rightarrow> 'n :: linorder"
    and save :: "'r \<Rightarrow> 'n \<Rightarrow> 'w \<Rightarrow> error option \<times> 'w"
  assumes save_ok: "save c n w = (None, w') \<Longrightarrow>
      lookup w' = (lookup w)(key c \<mapsto> c) \<and> (\<exists>old. lookup w (key c) = Some old \<and> revision old = n)"
    and save_fail: "save c n w = (Some e, w') \<Longrightarrow> w' = w"
    and save_grows: "save c n w = (None, w') \<Longrightarrow> n < revision c"
begin

text \<open>
  Two writers that read the same revision: the second save fails, and the first one's record
  stays, with any number of other saves between.
\<close>

lemma lost_update_prevented:
  assumes "save a n w = (None, w')" and "key b = key a"
  shows "\<exists>e. save b n w' = (Some e, w')"
proof (cases "save b n w'")
  case (Pair r w'')
  show ?thesis
  proof (cases r)
    case None
    with Pair have "\<exists>old. lookup w' (key a) = Some old \<and> revision old = n"
      using save_ok [of b n w' w''] assms(2) by auto
    moreover have "lookup w' (key a) = Some a" using save_ok [OF assms(1)] by simp
    ultimately show ?thesis using save_grows [OF assms(1)] by simp
  next
    case (Some e)
    with Pair show ?thesis using save_fail by fastforce
  qed
qed

lemma save_frame:
  assumes "save c n w = (r, w')" and "k \<noteq> key c"
  shows "lookup w' k = lookup w k"
  using assms save_ok [of c n w w'] save_fail [of c n w _ w'] by (cases r) auto

text \<open>Saves of other writers, whose results this writer does not see.\<close>

abbreviation saves :: "('r \<times> 'n) list \<Rightarrow> 'w \<Rightarrow> 'w" where
  "saves xs w \<equiv> fold (\<lambda>(c, n) w. snd (save c n w)) xs w"

lemma saves_grow:
  assumes "lookup w k = Some old"
  shows "\<exists>new. lookup (saves xs w) k = Some new \<and> (new = old \<or> revision old < revision new)"
  using assms
proof (induction xs arbitrary: w old)
  case (Cons x xs)
  obtain c n where x: "x = (c, n)" by (cases x)
  obtain r w' where w': "save c n w = (r, w')" by (cases "save c n w")
  have "\<exists>mid. lookup w' k = Some mid \<and> (mid = old \<or> revision old < revision mid)"
  proof (cases "r = None \<and> k = key c")
    case True
    then have "lookup w' k = Some c" "revision old = n"
      using save_ok [of c n w w'] w' Cons.prems by auto
    then show ?thesis using save_grows [of c n w w'] w' True by auto
  next
    case False
    then have "lookup w' k = lookup w k"
      using save_frame [OF w'] save_fail [of c n w _ w'] w' by (cases r) auto
    then show ?thesis using Cons.prems by simp
  qed
  then obtain mid where mid: "lookup w' k = Some mid" "mid = old \<or> revision old < revision mid" by blast
  from Cons.IH [OF mid(1)] mid(2) x w' show ?case by fastforce
qed simp

text \<open>
  A save that succeeds replaces the very record its writer read, whatever the other writers
  did since.
\<close>

lemma save_replaces_read:
  assumes "lookup w (key b) = Some old" and "save b (revision old) (saves xs w) = (None, w')"
  shows "lookup (saves xs w) (key b) = Some old"
  using saves_grow [OF assms(1), of xs] save_ok [OF assms(2)] by auto

end

end
