(* ===== verification/GoJson.thy ===== *)
theory GoJson
  imports Prelude
begin

text \<open>
  \<open>encoding/json.Valid\<close>, on which task payloads, scheduled payloads and search
  queries rely: the scanner of Go's package as a pushdown automaton that reads one byte at a
  time. The stack records whether the scanner is in an object key, an object value or an array;
  its depth is bounded as in the package.
\<close>

datatype json_ctx = ParseObjectKey | ParseObjectValue | ParseArrayValue

datatype json_state =
    BeginValueOrEmpty | BeginValue | BeginStringOrEmpty | BeginString | EndValue | EndTop
  | InString | InStringEsc | InStringEscU nat
  | Neg | State1 | State0 | StateDot | StateDot0 | StateE | StateESign | StateE0
  | InLiteral string

type_synonym json_scanner = "json_state \<times> json_ctx list"

definition maxNestingDepth :: nat where
  "maxNestingDepth = 10000"

definition json_space :: "char \<Rightarrow> bool" where
  "json_space c \<longleftrightarrow> c \<in> {CHR '' '', CHR 0x09, CHR 0x0A, CHR 0x0D}"

definition json_digit :: "char \<Rightarrow> bool" where
  "json_digit c \<longleftrightarrow> CHR ''0'' \<le> c \<and> c \<le> CHR ''9''"

definition json_hex :: "char \<Rightarrow> bool" where
  "json_hex c \<longleftrightarrow> json_digit c \<or> (CHR ''a'' \<le> c \<and> c \<le> CHR ''f'') \<or> (CHR ''A'' \<le> c \<and> c \<le> CHR ''F'')"

definition json_push :: "json_ctx \<Rightarrow> json_state \<Rightarrow> json_ctx list \<Rightarrow> json_scanner option" where
  "json_push p st ps = (if length ps + 1 \<le> maxNestingDepth then Some (st, p # ps) else None)"

definition json_pop :: "json_ctx list \<Rightarrow> json_scanner" where
  "json_pop ps = (if ps = [] then (EndTop, []) else (EndValue, ps))"

fun json_end_value :: "char \<Rightarrow> json_ctx list \<Rightarrow> json_scanner option" where
  "json_end_value c [] = (if json_space c then Some (EndTop, []) else None)"
| "json_end_value c (p # ps) =
     (if json_space c then Some (EndValue, p # ps)
      else case p of
        ParseObjectKey \<Rightarrow>
          if c = CHR '':'' then Some (BeginValue, ParseObjectValue # ps) else None
      | ParseObjectValue \<Rightarrow>
          if c = CHR '','' then Some (BeginString, ParseObjectKey # ps)
          else if c = CHR ''}'' then Some (json_pop ps) else None
      | ParseArrayValue \<Rightarrow>
          if c = CHR '','' then Some (BeginValue, ParseArrayValue # ps)
          else if c = CHR '']'' then Some (json_pop ps) else None)"

definition json_begin_value :: "char \<Rightarrow> json_ctx list \<Rightarrow> json_scanner option" where
  "json_begin_value c ps =
     (if json_space c then Some (BeginValue, ps)
      else if c = CHR ''{'' then json_push ParseObjectKey BeginStringOrEmpty ps
      else if c = CHR ''['' then json_push ParseArrayValue BeginValueOrEmpty ps
      else if c = CHR 0x22 then Some (InString, ps)
      else if c = CHR ''-'' then Some (Neg, ps)
      else if c = CHR ''0'' then Some (State0, ps)
      else if c = CHR ''t'' then Some (InLiteral ''rue'', ps)
      else if c = CHR ''f'' then Some (InLiteral ''alse'', ps)
      else if c = CHR ''n'' then Some (InLiteral ''ull'', ps)
      else if json_digit c then Some (State1, ps)
      else None)"

definition json_begin_string :: "char \<Rightarrow> json_ctx list \<Rightarrow> json_scanner option" where
  "json_begin_string c ps =
     (if json_space c then Some (BeginString, ps)
      else if c = CHR 0x22 then Some (InString, ps) else None)"

definition json_state0 :: "char \<Rightarrow> json_ctx list \<Rightarrow> json_scanner option" where
  "json_state0 c ps =
     (if c = CHR ''.'' then Some (StateDot, ps)
      else if c = CHR ''e'' \<or> c = CHR ''E'' then Some (StateE, ps)
      else json_end_value c ps)"

definition json_esign :: "char \<Rightarrow> json_ctx list \<Rightarrow> json_scanner option" where
  "json_esign c ps = (if json_digit c then Some (StateE0, ps) else None)"

fun json_step :: "char \<Rightarrow> json_scanner \<Rightarrow> json_scanner option" where
  "json_step c (BeginValueOrEmpty, ps) =
     (if json_space c then Some (BeginValueOrEmpty, ps)
      else if c = CHR '']'' then json_end_value c ps else json_begin_value c ps)"
| "json_step c (BeginValue, ps) = json_begin_value c ps"
| "json_step c (BeginStringOrEmpty, ps) =
     (if json_space c then Some (BeginStringOrEmpty, ps)
      else if c = CHR ''}'' then json_end_value c (ParseObjectValue # tl ps)
      else json_begin_string c ps)"
| "json_step c (BeginString, ps) = json_begin_string c ps"
| "json_step c (EndValue, ps) = json_end_value c ps"
| "json_step c (EndTop, ps) = (if json_space c then Some (EndTop, ps) else None)"
| "json_step c (InString, ps) =
     (if c = CHR 0x22 then Some (EndValue, ps)
      else if c = CHR 0x5C then Some (InStringEsc, ps)
      else if c < CHR 0x20 then None else Some (InString, ps))"
| "json_step c (InStringEsc, ps) =
     (if c \<in> set ''bfnrt/'' \<or> c = CHR 0x5C \<or> c = CHR 0x22 then Some (InString, ps)
      else if c = CHR ''u'' then Some (InStringEscU 4, ps) else None)"
| "json_step c (InStringEscU n, ps) =
     (if json_hex c then (if n \<le> 1 then Some (InString, ps) else Some (InStringEscU (n - 1), ps))
      else None)"
| "json_step c (Neg, ps) =
     (if c = CHR ''0'' then Some (State0, ps)
      else if json_digit c then Some (State1, ps) else None)"
| "json_step c (State1, ps) = (if json_digit c then Some (State1, ps) else json_state0 c ps)"
| "json_step c (State0, ps) = json_state0 c ps"
| "json_step c (StateDot, ps) = (if json_digit c then Some (StateDot0, ps) else None)"
| "json_step c (StateDot0, ps) =
     (if json_digit c then Some (StateDot0, ps)
      else if c = CHR ''e'' \<or> c = CHR ''E'' then Some (StateE, ps)
      else json_end_value c ps)"
| "json_step c (StateE, ps) =
     (if c = CHR ''+'' \<or> c = CHR ''-'' then Some (StateESign, ps) else json_esign c ps)"
| "json_step c (StateESign, ps) = json_esign c ps"
| "json_step c (StateE0, ps) = (if json_digit c then Some (StateE0, ps) else json_end_value c ps)"
| "json_step c (InLiteral [], ps) = json_end_value c ps"
| "json_step c (InLiteral (l # ls), ps) =
     (if c = l then Some (if ls = [] then EndValue else InLiteral ls, ps) else None)"

fun json_run :: "string \<Rightarrow> json_scanner \<Rightarrow> json_scanner option" where
  "json_run [] s = Some s"
| "json_run (c # cs) s = (case json_step c s of Some s' \<Rightarrow> json_run cs s' | None \<Rightarrow> None)"

text \<open>At the end of the input the scanner reads one more space; only \<open>EndTop\<close> is a value.\<close>

definition json_Valid :: "string \<Rightarrow> bool" where
  "json_Valid s =
     (case json_run s (BeginValue, []) of
        None \<Rightarrow> False
      | Some (EndTop, _) \<Rightarrow> True
      | Some s' \<Rightarrow>
          (case json_step (CHR '' '') s' of Some (EndTop, _) \<Rightarrow> True | _ \<Rightarrow> False))"

lemma json_run_append:
  "json_run (xs @ ys) s = (case json_run xs s of Some s' \<Rightarrow> json_run ys s' | None \<Rightarrow> None)"
  by (induction xs arbitrary: s) (auto split: option.splits)

lemma json_Valid_Nil [simp]: "\<not> json_Valid []"
  by (simp add: json_Valid_def json_begin_value_def json_space_def)

lemma json_Valid_object [simp]: "json_Valid ''{}''"
  by code_simp

lemma json_Valid_sample: "json_Valid ''{ ~a~ }'' = False"
  by code_simp

end
