(* ===== verification/Task.thy ===== *)
theory Task
  imports Interfaces GoJson
begin

text \<open>
  \<open>core/task.go\<close>: the durable task, its status machine and the operations that move
  it. A method with a pointer receiver takes the task and returns the changed one, or the error
  of an early return; on every error path the code leaves the receiver as it was. The guard
  against a \<open>nil\<close> receiver has no counterpart: a task here is never absent.
\<close>

section \<open>Data\<close>

type_synonym TaskID = string
type_synonym ProfileID = string
type_synonym CorrelationID = string
type_synonym RawMessage = string

datatype TaskType =
    TaskVacancySearchPage | TaskApplicationCampaign | TaskApplicationSubmit
  | TaskApplicationRemove | TaskApplicationRetention | TaskApplicationStateSync
  | TaskApplicationAnswerCovered | TaskQuestionnaireAnswer | TaskTestComplete
  | TaskTestCapture | TaskReviewAnswer | TaskConversationReply | TaskConversationSend
  | TaskConversationFollowUp | TaskConversationFollowUpSelect | TaskConversationDiscover
  | TaskConversationMarkRead | TaskConversationSync | TaskVacancyInspect | TaskResumePublish
  | TaskResumeTouch | TaskResumeUpdate | TaskProfileActivityObserve
  | TaskProfileActivityMaintain | TaskApplicationValidationCheck | TaskProfileSessionRefresh
  | TaskProfileBootstrap | TaskProfileStateReconcile | TaskProfileStateImport
  | TaskProfileStateApply | TaskSkillVerificationStart | TaskSkillVerificationSync
  | TaskCalendarFindSlots | TaskCalendarCreateEvent | TaskChallengeRespond
  | TaskNotificationDeliver | TaskTypeOther string

fun task_type_text :: "TaskType \<Rightarrow> string" where
  "task_type_text TaskVacancySearchPage = ''vacancy.search_page''"
| "task_type_text TaskApplicationCampaign = ''application.campaign''"
| "task_type_text TaskApplicationSubmit = ''application.submit''"
| "task_type_text TaskApplicationRemove = ''application.remove''"
| "task_type_text TaskApplicationRetention = ''application.retention''"
| "task_type_text TaskApplicationStateSync = ''application.state.sync''"
| "task_type_text TaskApplicationAnswerCovered = ''application.answer_covered''"
| "task_type_text TaskQuestionnaireAnswer = ''questionnaire.answer''"
| "task_type_text TaskTestComplete = ''test.complete''"
| "task_type_text TaskTestCapture = ''test.capture''"
| "task_type_text TaskReviewAnswer = ''review.answer''"
| "task_type_text TaskConversationReply = ''conversation.reply''"
| "task_type_text TaskConversationSend = ''conversation.send''"
| "task_type_text TaskConversationFollowUp = ''conversation.follow_up''"
| "task_type_text TaskConversationFollowUpSelect = ''conversation.follow_up.select''"
| "task_type_text TaskConversationDiscover = ''conversation.discover''"
| "task_type_text TaskConversationMarkRead = ''conversation.mark_read''"
| "task_type_text TaskConversationSync = ''conversation.sync''"
| "task_type_text TaskVacancyInspect = ''vacancy.inspect''"
| "task_type_text TaskResumePublish = ''resume.publish''"
| "task_type_text TaskResumeTouch = ''resume.touch''"
| "task_type_text TaskResumeUpdate = ''resume.update''"
| "task_type_text TaskProfileActivityObserve = ''profile.activity.observe''"
| "task_type_text TaskProfileActivityMaintain = ''profile.activity.maintain''"
| "task_type_text TaskApplicationValidationCheck = ''application.validation.refresh''"
| "task_type_text TaskProfileSessionRefresh = ''profile.session_refresh''"
| "task_type_text TaskProfileBootstrap = ''profile.bootstrap''"
| "task_type_text TaskProfileStateReconcile = ''profile_state.reconcile''"
| "task_type_text TaskProfileStateImport = ''profile.state.import''"
| "task_type_text TaskProfileStateApply = ''profile_state.apply''"
| "task_type_text TaskSkillVerificationStart = ''skill_verification.start''"
| "task_type_text TaskSkillVerificationSync = ''skill_verification.sync''"
| "task_type_text TaskCalendarFindSlots = ''calendar.find_slots''"
| "task_type_text TaskCalendarCreateEvent = ''calendar.create_event''"
| "task_type_text TaskChallengeRespond = ''challenge.respond''"
| "task_type_text TaskNotificationDeliver = ''notification.deliver''"
| "task_type_text (TaskTypeOther s) = s"

definition NoTaskType :: TaskType where
  "NoTaskType = TaskTypeOther []"

datatype TaskStatus =
    TaskNew | TaskProcessing | TaskWaitingConfirmation | TaskRetryScheduled
  | TaskCompleted | TaskFailed | TaskDismissed | TaskStatusOther string

fun task_status_text :: "TaskStatus \<Rightarrow> string" where
  "task_status_text TaskNew = ''new''"
| "task_status_text TaskProcessing = ''processing''"
| "task_status_text TaskWaitingConfirmation = ''waiting_confirmation''"
| "task_status_text TaskRetryScheduled = ''retry_scheduled''"
| "task_status_text TaskCompleted = ''completed''"
| "task_status_text TaskFailed = ''failed''"
| "task_status_text TaskDismissed = ''dismissed''"
| "task_status_text (TaskStatusOther s) = s"

type_synonym TaskPriority = int

definition TaskPriorityMin :: TaskPriority where
  "TaskPriorityMin = -1000"

definition TaskPriorityNormal :: TaskPriority where
  "TaskPriorityNormal = 0"

definition TaskPriorityMax :: TaskPriority where
  "TaskPriorityMax = 1000"

definition TaskPriorityProfileStateApply :: TaskPriority where
  "TaskPriorityProfileStateApply = TaskPriorityMax"

definition TaskPriority_Validate :: "TaskPriority \<Rightarrow> error option" where
  "TaskPriority_Validate priority =
     (if priority < TaskPriorityMin \<or> priority > TaskPriorityMax
      then Some (Err (''task priority must be between '' @ FormatInt TaskPriorityMin @ '' and ''
                 @ FormatInt TaskPriorityMax))
      else None)"

record TaskFailure =
  failure_Category :: ErrorCategory
  failure_Message :: string

record Task =
  task_ID :: TaskID
  task_Type :: TaskType
  task_Status :: TaskStatus
  task_IdempotencyKey :: string
  task_Source :: string
  task_Platform :: Platform
  task_ProfileID :: ProfileID
  task_CorrelationID :: CorrelationID
  task_Payload :: RawMessage
  task_Priority :: TaskPriority
  task_Attempts :: int
  task_AvailableAt :: time
  task_Deadline :: "time option"
  task_CreatedAt :: time
  task_UpdatedAt :: time
  task_Failure :: "TaskFailure option"

record NewTaskParams =
  ntp_ID :: TaskID
  ntp_Type :: TaskType
  ntp_IdempotencyKey :: string
  ntp_Source :: string
  ntp_Platform :: Platform
  ntp_ProfileID :: ProfileID
  ntp_CorrelationID :: CorrelationID
  ntp_Payload :: RawMessage
  ntp_Priority :: TaskPriority
  ntp_AvailableAt :: time
  ntp_Deadline :: "time option"

text \<open>\<open>!now.Before(deadline)\<close>, on a deadline that may be absent.\<close>

definition expired :: "time option \<Rightarrow> time \<Rightarrow> bool" where
  "expired deadline now = (case deadline of None \<Rightarrow> False | Some d \<Rightarrow> d \<le> now)"

lemma expired_simps [simp]: "\<not> expired None now" "expired (Some d) now \<longleftrightarrow> d \<le> now"
  by (simp_all add: expired_def)

lemma expired_mono: "expired d t \<Longrightarrow> t \<le> u \<Longrightarrow> expired d u"
  by (cases d) auto

section \<open>Operations\<close>

definition NewTask :: "NewTaskParams \<Rightarrow> time \<Rightarrow> error + Task" where
  "NewTask params now =
     (if ntp_ID params = [] \<or> ntp_Type params = NoTaskType \<or> ntp_IdempotencyKey params = []
         \<or> ntp_Source params = [] \<or> ntp_CorrelationID params = []
      then Inl (Err ''task requires id, type, idempotency key, source and correlation id'')
      else if IsZero now then Inl (Err ''task requires current time'')
      else if ntp_Payload params = [] \<or> \<not> json_Valid (ntp_Payload params)
      then Inl (Err ''task requires valid JSON payload'')
      else case TaskPriority_Validate (ntp_Priority params) of Some e \<Rightarrow> Inl e | None \<Rightarrow>
      (let availableAt = (if IsZero (ntp_AvailableAt params) then now else ntp_AvailableAt params)
       in if expired (ntp_Deadline params) now
          then Inl (Err ''task deadline must be in the future'')
          else if expired (ntp_Deadline params) availableAt
          then Inl (Err ''task must become available before its deadline'')
          else Inr \<lparr>task_ID = ntp_ID params, task_Type = ntp_Type params, task_Status = TaskNew,
            task_IdempotencyKey = ntp_IdempotencyKey params, task_Source = ntp_Source params,
            task_Platform = ntp_Platform params, task_ProfileID = ntp_ProfileID params,
            task_CorrelationID = ntp_CorrelationID params, task_Payload = ntp_Payload params,
            task_Priority = ntp_Priority params, task_Attempts = 0, task_AvailableAt = availableAt,
            task_Deadline = ntp_Deadline params, task_CreatedAt = now, task_UpdatedAt = now,
            task_Failure = None\<rparr>))"

fun taskTransitionAllowed :: "TaskStatus \<Rightarrow> TaskStatus \<Rightarrow> bool" where
  "taskTransitionAllowed TaskNew to = (to \<in> {TaskProcessing, TaskFailed})"
| "taskTransitionAllowed TaskProcessing to =
     (to \<in> {TaskWaitingConfirmation, TaskRetryScheduled, TaskCompleted, TaskFailed})"
| "taskTransitionAllowed TaskWaitingConfirmation to = (to \<in> {TaskProcessing, TaskFailed})"
| "taskTransitionAllowed TaskRetryScheduled to = (to \<in> {TaskProcessing, TaskFailed})"
| "taskTransitionAllowed from to = False"

definition Task_Transition :: "TaskStatus \<Rightarrow> time \<Rightarrow> Task \<Rightarrow> error + Task" where
  "Task_Transition to now task =
     (if IsZero now \<or> now < task_UpdatedAt task
      then Inl (Err ''task transition time must not move backwards'')
      else if \<not> taskTransitionAllowed (task_Status task) to
      then Inl (Err (''task transition '' @ task_status_text (task_Status task) @ '' -> ''
                @ task_status_text to @ '' is not allowed''))
      else if to = TaskProcessing \<and> now < task_AvailableAt task
      then Inl (ErrAt ''task is unavailable until '' (task_AvailableAt task))
      else if to = TaskProcessing \<and> expired (task_Deadline task) now
      then Inl (Err ''task deadline has expired'')
      else Inr (task\<lparr>
        task_Attempts := (if to = TaskProcessing then task_Attempts task + 1 else task_Attempts task),
        task_Status := to, task_UpdatedAt := now,
        task_Failure := (if to \<noteq> TaskFailed then None else task_Failure task)\<rparr>))"

definition failure_of :: "OperationError \<Rightarrow> TaskFailure" where
  "failure_of oe = \<lparr>failure_Category = oe_Category oe, failure_Message = oe_Message oe\<rparr>"

fun retryable_category :: "ErrorCategory \<Rightarrow> bool" where
  "retryable_category category \<longleftrightarrow>
     category \<in> {ErrorTemporaryFailure, ErrorRateLimited, ErrorQuotaExceeded, ErrorUnauthorized,
       ErrorValidationRequired, ErrorConfirmationRequired, ErrorAmbiguousResult}"

definition Task_ScheduleRetry ::
  "time \<Rightarrow> OperationError option \<Rightarrow> time \<Rightarrow> Task \<Rightarrow> error + Task" where
  "Task_ScheduleRetry retryAt operationError now task =
     (case operationError of None \<Rightarrow> Inl (Err ''retry requires operation error'') | Some oe \<Rightarrow>
      case OperationError_Validate oe of Some e \<Rightarrow> Inl e | None \<Rightarrow>
      if \<not> retryable_category (oe_Category oe)
      then Inl (Err (''error category '' @ quoted (category_text (oe_Category oe)) @ '' is not retryable''))
      else if retryAt \<le> now then Inl (Err ''retry time must be in the future'')
      else if expired (task_Deadline task) retryAt
      then Inl (Err ''retry time must be before task deadline'')
      else case Task_Transition TaskRetryScheduled now task of Inl e \<Rightarrow> Inl e | Inr t \<Rightarrow>
        Inr (t\<lparr>task_AvailableAt := retryAt, task_Failure := Some (failure_of oe)\<rparr>))"

definition Task_Fail :: "OperationError option \<Rightarrow> time \<Rightarrow> Task \<Rightarrow> error + Task" where
  "Task_Fail operationError now task =
     (case operationError of None \<Rightarrow> Inl (Err ''task failure requires operation error'') | Some oe \<Rightarrow>
      case OperationError_Validate oe of Some e \<Rightarrow> Inl e | None \<Rightarrow>
      case Task_Transition TaskFailed now task of Inl e \<Rightarrow> Inl e | Inr t \<Rightarrow>
        Inr (t\<lparr>task_Failure := Some (failure_of oe)\<rparr>))"

definition Task_Requeue :: "time \<Rightarrow> Task \<Rightarrow> error + Task" where
  "Task_Requeue now task =
     (if task_Status task \<notin> {TaskFailed, TaskDismissed}
      then Inl (Err ''only a failed or dismissed task can be requeued'')
      else if IsZero now \<or> now < task_UpdatedAt task
      then Inl (Err ''task requeue time must not move backwards'')
      else if expired (task_Deadline task) now then Inl (Err ''task deadline has expired'')
      else Inr (task\<lparr>task_Status := TaskNew, task_Attempts := 0, task_AvailableAt := now,
        task_UpdatedAt := now, task_Failure := None\<rparr>))"

definition Task_RestartFailed :: "time \<Rightarrow> Task \<Rightarrow> error + Task" where
  "Task_RestartFailed now task =
     (if task_Status task \<noteq> TaskFailed
      then Inl (Err ''only a failed task can be restarted'')
      else if IsZero now \<or> now < task_UpdatedAt task
      then Inl (Err ''task restart time must not move backwards'')
      else if expired (task_Deadline task) now then Inl (Err ''task deadline has expired'')
      else Inr (task\<lparr>task_Status := TaskNew, task_Attempts := 0, task_AvailableAt := now,
        task_UpdatedAt := now, task_Failure := None\<rparr>))"

definition Task_CancelQueued :: "string \<Rightarrow> time \<Rightarrow> Task \<Rightarrow> error + Task" where
  "Task_CancelQueued reason now task =
     (if task_Status task \<notin> {TaskNew, TaskRetryScheduled}
      then Inl (Err (''only a queued task can be cancelled, not '' @ task_status_text (task_Status task)))
      else if IsZero now \<or> now < task_UpdatedAt task
      then Inl (Err ''task cancellation time must not move backwards'')
      else let r = TrimSpace reason; r' = (if r = [] then ''cancelled by the operator'' else r)
           in Inr (task\<lparr>task_Status := TaskDismissed,
                task_Failure := Some \<lparr>failure_Category = ErrorPermanentFailure, failure_Message = r'\<rparr>,
                task_UpdatedAt := now\<rparr>))"

definition Task_DismissFailure :: "time \<Rightarrow> Task \<Rightarrow> error + Task" where
  "Task_DismissFailure now task =
     (if task_Status task \<noteq> TaskFailed
      then Inl (Err ''only a failed task can be dismissed'')
      else if IsZero now \<or> now < task_UpdatedAt task
      then Inl (Err ''task dismissal time must not move backwards'')
      else Inr (task\<lparr>task_Status := TaskDismissed, task_UpdatedAt := now\<rparr>))"

declare TaskPriority_Validate_def [validators] OperationError_Validate_def [validators]
declare Task_Transition_def [operations] Task_ScheduleRetry_def [operations] Task_Fail_def [operations]
  Task_Requeue_def [operations] Task_RestartFailed_def [operations] Task_CancelQueued_def [operations]
  Task_DismissFailure_def [operations]

section \<open>Any caller's operations on one task\<close>

datatype task_op =
    OpTransition TaskStatus time
  | OpScheduleRetry time "OperationError option" time
  | OpFail "OperationError option" time
  | OpRequeue time
  | OpRestartFailed time
  | OpCancelQueued string time
  | OpDismissFailure time

fun apply_task_op :: "task_op \<Rightarrow> Task \<Rightarrow> error + Task" where
  "apply_task_op (OpTransition to now) = Task_Transition to now"
| "apply_task_op (OpScheduleRetry retryAt oe now) = Task_ScheduleRetry retryAt oe now"
| "apply_task_op (OpFail oe now) = Task_Fail oe now"
| "apply_task_op (OpRequeue now) = Task_Requeue now"
| "apply_task_op (OpRestartFailed now) = Task_RestartFailed now"
| "apply_task_op (OpCancelQueued reason now) = Task_CancelQueued reason now"
| "apply_task_op (OpDismissFailure now) = Task_DismissFailure now"

abbreviation run_task_ops :: "task_op list \<Rightarrow> Task \<Rightarrow> Task" where
  "run_task_ops \<equiv> keep_going apply_task_op"

text \<open>What never changes in a task, and its update stamp never moving back.\<close>

definition same_identity :: "Task \<Rightarrow> Task \<Rightarrow> bool" where
  "same_identity t u \<longleftrightarrow>
     task_ID u = task_ID t \<and> task_Type u = task_Type t \<and> task_IdempotencyKey u = task_IdempotencyKey t
     \<and> task_Source u = task_Source t \<and> task_Platform u = task_Platform t
     \<and> task_ProfileID u = task_ProfileID t \<and> task_CorrelationID u = task_CorrelationID t
     \<and> task_Payload u = task_Payload t \<and> task_Priority u = task_Priority t
     \<and> task_Deadline u = task_Deadline t \<and> task_CreatedAt u = task_CreatedAt t"

lemma same_identity_refl [simp]: "same_identity t t"
  by (simp add: same_identity_def)

lemma same_identity_trans: "same_identity t u \<Longrightarrow> same_identity u v \<Longrightarrow> same_identity t v"
  by (simp add: same_identity_def)

lemma apply_task_op_identity: "apply_task_op x t = Inr u \<Longrightarrow> same_identity t u"
  by (cases x) (auto simp: operations same_identity_def Let_def split: if_splits option.splits sum.splits)

lemma apply_task_op_stamp: "apply_task_op x t = Inr u \<Longrightarrow> task_UpdatedAt t \<le> task_UpdatedAt u"
  by (cases x) (auto simp: operations Let_def split: if_splits option.splits sum.splits)

text \<open>What \<open>NewTask\<close> establishes and every operation keeps.\<close>

definition task_wf :: "Task \<Rightarrow> bool" where
  "task_wf t \<longleftrightarrow>
     task_ID t \<noteq> [] \<and> task_Type t \<noteq> NoTaskType \<and> task_IdempotencyKey t \<noteq> []
     \<and> task_CorrelationID t \<noteq> [] \<and> json_Valid (task_Payload t)
     \<and> TaskPriorityMin \<le> task_Priority t \<and> task_Priority t \<le> TaskPriorityMax
     \<and> 0 \<le> task_Attempts t \<and> task_CreatedAt t \<le> task_UpdatedAt t
     \<and> \<not> expired (task_Deadline t) (task_AvailableAt t)"

lemma NewTask_wf: "NewTask params now = Inr t \<Longrightarrow> task_wf t"
  by (auto simp: NewTask_def task_wf_def validators Let_def split: if_splits option.splits)

lemma apply_task_op_wf:
  assumes "task_wf t" and "apply_task_op x t = Inr u"
  shows "task_wf u"
  using assms by (cases x)
    (auto simp: operations task_wf_def Let_def split: if_splits option.splits sum.splits)

interpretation task_machine: status_machine taskTransitionAllowed task_Status task_UpdatedAt Task_Transition
  by unfold_locales (auto simp: Task_Transition_def split: if_splits)

lemma Task_Transition_cases:
  assumes "Task_Transition to now t = Inr u"
  shows "taskTransitionAllowed (task_Status t) to" and "task_Status u = to"
    and "task_UpdatedAt u = now" and "task_UpdatedAt t \<le> now"
  using assms task_machine.transition_allowed task_machine.transition_status
    task_machine.transition_stamp by blast+

text \<open>A completed task stays as it is, whatever is done to it.\<close>

lemma apply_task_op_completed: "task_Status t = TaskCompleted \<Longrightarrow> \<not> is_ok (apply_task_op x t)"
  by (cases x) (auto simp: operations Let_def is_ok_def split: option.splits)

text \<open>When a retry can be scheduled, and what it leaves.\<close>

lemma ScheduleRetry_iff:
  "Task_ScheduleRetry retryAt (Some oe) now t = Inr u \<longleftrightarrow>
     OperationError_Validate oe = None \<and> retryable_category (oe_Category oe)
     \<and> task_Status t = TaskProcessing \<and> \<not> IsZero now \<and> task_UpdatedAt t \<le> now \<and> now < retryAt
     \<and> \<not> expired (task_Deadline t) retryAt
     \<and> u = t\<lparr>task_Status := TaskRetryScheduled, task_UpdatedAt := now, task_AvailableAt := retryAt,
           task_Failure := Some (failure_of oe)\<rparr>"
proof -
  have "taskTransitionAllowed s TaskRetryScheduled \<longleftrightarrow> s = TaskProcessing" for s
    by (cases s) auto
  then show ?thesis
    by (auto simp: Task_ScheduleRetry_def Task_Transition_def
        simp del: taskTransitionAllowed.simps retryable_category.simps split: option.splits if_splits)
qed

section \<open>Properties\<close>

text \<open>
  A task made by \<open>NewTask\<close> keeps, under any sequence of the seven operations with any
  arguments, its identity (id, type, key, payload, profile, priority, deadline, creation time)
  and its well-formedness: non-empty keys, valid JSON payload, priority in bounds, attempts not
  negative, an update stamp not before creation and availability strictly before the deadline.
\<close>

theorem task_life_wf:
  assumes "NewTask params now = Inr t"
  shows "task_wf (run_task_ops ops t) \<and> same_identity t (run_task_ops ops t)
    \<and> task_UpdatedAt t \<le> task_UpdatedAt (run_task_ops ops t)"
proof (intro conjI)
  show "task_wf (run_task_ops ops t)"
    by (rule keep_going_invariant [where P = task_wf, OF apply_task_op_wf NewTask_wf [OF assms]])
  show "same_identity t (run_task_ops ops t)"
    by (rule keep_going_rel [where R = same_identity])
      (auto intro: same_identity_trans dest: apply_task_op_identity)
  show "task_UpdatedAt t \<le> task_UpdatedAt (run_task_ops ops t)"
    by (rule keep_going_rel [where R = "\<lambda>a b. task_UpdatedAt a \<le> task_UpdatedAt b"])
      (auto dest: apply_task_op_stamp)
qed

definition sample_params :: NewTaskParams where
  "sample_params = \<lparr>ntp_ID = ''t1'', ntp_Type = TaskApplicationSubmit, ntp_IdempotencyKey = ''k1'',
     ntp_Source = ''test'', ntp_Platform = ''hh'', ntp_ProfileID = ''main'', ntp_CorrelationID = ''c1'',
     ntp_Payload = ''{}'', ntp_Priority = 5, ntp_AvailableAt = 0, ntp_Deadline = Some 500\<rparr>"

definition sample_task :: Task where
  "sample_task = \<lparr>task_ID = ''t1'', task_Type = TaskApplicationSubmit, task_Status = TaskNew,
     task_IdempotencyKey = ''k1'', task_Source = ''test'', task_Platform = ''hh'',
     task_ProfileID = ''main'', task_CorrelationID = ''c1'', task_Payload = ''{}'', task_Priority = 5,
     task_Attempts = 0, task_AvailableAt = 100, task_Deadline = Some 500, task_CreatedAt = 100,
     task_UpdatedAt = 100, task_Failure = None\<rparr>"

lemma NewTask_sample: "NewTask sample_params 100 = Inr sample_task"
  by (simp add: NewTask_def sample_params_def sample_task_def NoTaskType_def validators
      TaskPriorityMin_def TaskPriorityMax_def)

theorem task_life_wf_witness:
  "task_wf (run_task_ops [OpTransition TaskProcessing 120, OpTransition TaskCompleted 130] sample_task)"
  using task_life_wf [OF NewTask_sample] by blast

text \<open>
  Completion is final: no sequence of operations, with any arguments, changes a completed
  task.
\<close>

theorem task_completed_final:
  assumes "task_Status t = TaskCompleted"
  shows "run_task_ops ops t = t"
proof (induction ops)
  case (Cons x ops)
  have "\<exists>e. apply_task_op x t = Inl e"
    using apply_task_op_completed [OF assms, of x] by (cases "apply_task_op x t") auto
  with Cons show ?case by auto
qed simp

theorem task_completed_final_witness:
  "run_task_ops [OpRequeue 200, OpFail None 200] (sample_task\<lparr>task_Status := TaskCompleted\<rparr>)
     = sample_task\<lparr>task_Status := TaskCompleted\<rparr>"
  by (rule task_completed_final) simp

text \<open>
  The retry window: once a retry is scheduled, the task may be taken up again exactly from
  its retry instant until its deadline, and that window is not empty. Scheduling changes
  nothing but the status, the stamp, the availability and the recorded failure; in particular
  it keeps the attempt counter.
\<close>

theorem retry_window:
  assumes "Task_ScheduleRetry retryAt (Some oe) now t = Inr u"
  shows "(is_ok (Task_Transition TaskProcessing later u) \<longleftrightarrow>
        \<not> IsZero later \<and> retryAt \<le> later \<and> \<not> expired (task_Deadline t) later)
    \<and> (\<not> IsZero retryAt \<longrightarrow> is_ok (Task_Transition TaskProcessing retryAt u))
    \<and> u = t\<lparr>task_Status := TaskRetryScheduled, task_UpdatedAt := now, task_AvailableAt := retryAt,
           task_Failure := Some (failure_of oe)\<rparr>"
  using assms unfolding ScheduleRetry_iff
  by (elim conjE, hypsubst) (auto simp: Task_Transition_def)

definition sample_rate_limit :: OperationError where
  "sample_rate_limit = OperationError ErrorRateLimited ''applications.submit'' ''hh'' ''wait'' None [] None"

theorem retry_window_witness:
  "is_ok (Task_Transition TaskProcessing 300 (sample_task\<lparr>task_Status := TaskRetryScheduled,
     task_UpdatedAt := 120, task_AvailableAt := 200, task_Failure := Some (failure_of sample_rate_limit)\<rparr>))"
proof -
  have "Task_ScheduleRetry 200 (Some sample_rate_limit) 120 (sample_task\<lparr>task_Status := TaskProcessing\<rparr>) =
    Inr (sample_task\<lparr>task_Status := TaskRetryScheduled, task_UpdatedAt := 120, task_AvailableAt := 200,
      task_Failure := Some (failure_of sample_rate_limit)\<rparr>)"
    unfolding ScheduleRetry_iff
    by (simp add: sample_task_def sample_rate_limit_def OperationError_Validate_def)
  from retry_window [OF this, of 300] show ?thesis by (simp add: sample_task_def)
qed

end
