(* ===== verification/Broker.thy ===== *)
theory Broker
  imports Task GoCrypto
begin

text \<open>
  \<open>broker/queue.go\<close> and \<open>broker/memory/queue.go\<close>: the task queue with leases.
  Its three Go maps are the fields of \<open>Queue\<close>; the mutex makes every method one atomic
  step from a queue to a queue. Copies made by \<open>cloneTask\<close> are the identity here, because
  values are not shared. The 16 bytes read from \<open>crypto/rand\<close>, or the error of reading
  them, are an argument of \<open>Claim\<close>.
\<close>

section \<open>Data\<close>

record ClaimParams =
  cp_WorkerID :: string
  cp_TaskType :: TaskType
  cp_BlockedByTaskType :: TaskType
  cp_Now :: time
  cp_LeaseDuration :: duration

record TaskLease =
  lease_Task :: Task
  lease_WorkerID :: string
  lease_Token :: string
  lease_Until :: time

record leaseState =
  ls_workerID :: string
  ls_token :: string
  ls_until :: time

record Queue =
  q_tasks :: "(string \<times> Task) list"
  q_taskKeys :: "(TaskID \<times> string) list"
  q_leases :: "(TaskID \<times> leaseState) list"

record candidate =
  cand_key :: string
  cand_available :: time
  cand_task :: Task

definition NewQueue :: Queue where
  "NewQueue = \<lparr>q_tasks = [], q_taskKeys = [], q_leases = []\<rparr>"

text \<open>The zero value of \<open>core.Task\<close>, read from a map at a missing key.\<close>

definition zero_Task :: Task where
  "zero_Task = \<lparr>task_ID = [], task_Type = NoTaskType, task_Status = TaskStatusOther [],
     task_IdempotencyKey = [], task_Source = [], task_Platform = [], task_ProfileID = [],
     task_CorrelationID = [], task_Payload = [], task_Priority = 0, task_Attempts = 0,
     task_AvailableAt = 0, task_Deadline = None, task_CreatedAt = 0, task_UpdatedAt = 0,
     task_Failure = None\<rparr>"

definition ClaimParams_Validate :: "ClaimParams \<Rightarrow> error option" where
  "ClaimParams_Validate params =
     (if cp_WorkerID params = [] then Some (Err ''task claim requires worker id'')
      else if IsZero (cp_Now params) then Some (Err ''task claim requires current time'')
      else if cp_LeaseDuration params \<le> 0
      then Some (Err ''task claim requires positive lease duration'')
      else if cp_BlockedByTaskType params \<noteq> NoTaskType \<and> cp_TaskType params = NoTaskType
      then Some (Err ''task claim blocker requires task type'')
      else if cp_BlockedByTaskType params \<noteq> NoTaskType
              \<and> cp_BlockedByTaskType params = cp_TaskType params
      then Some (Err ''task claim cannot be blocked by its own type'')
      else None)"

section \<open>Enqueueing and reading\<close>

definition Enqueue :: "ctx \<Rightarrow> Task \<Rightarrow> Queue \<Rightarrow> (error + bool) \<times> Queue" where
  "Enqueue ctx task queue =
     (case ctx of Some e \<Rightarrow> (Inl e, queue) | None \<Rightarrow>
      if task_ID task = [] \<or> task_Type task = NoTaskType \<or> task_IdempotencyKey task = []
         \<or> task_CorrelationID task = []
      then (Inl (Err ''queued task requires id, type, idempotency key and correlation id''), queue)
      else if task_Status task \<noteq> TaskNew \<or> task_Payload task = [] \<or> \<not> json_Valid (task_Payload task)
      then (Inl (Err ''queue accepts only initialized new tasks with valid JSON payload''), queue)
      else case TaskPriority_Validate (task_Priority task) of Some e \<Rightarrow> (Inl e, queue) | None \<Rightarrow>
      case map_of (q_tasks queue) (task_IdempotencyKey task) of
        Some existing \<Rightarrow>
          if task_Type existing \<noteq> task_Type task \<or> task_Platform existing \<noteq> task_Platform task
             \<or> task_ProfileID existing \<noteq> task_ProfileID task \<or> task_Payload existing \<noteq> task_Payload task
          then (Inl (Err ''task idempotency key conflicts with a different command''), queue)
          else (Inr False, queue)
      | None \<Rightarrow>
          if map_of (q_taskKeys queue) (task_ID task) \<noteq> None
          then (Inl (Err ''task id conflicts with an existing task''), queue)
          else (Inr True, queue\<lparr>
            q_tasks := AList.update (task_IdempotencyKey task) task (q_tasks queue),
            q_taskKeys := AList.update (task_ID task) (task_IdempotencyKey task) (q_taskKeys queue)\<rparr>))"

definition TaskByIdempotencyKey :: "ctx \<Rightarrow> string \<Rightarrow> Queue \<Rightarrow> error + Task" where
  "TaskByIdempotencyKey ctx key queue =
     (case ctx of Some e \<Rightarrow> Inl e | None \<Rightarrow>
      if key = [] then Inl (Err ''task idempotency key is required'')
      else case map_of (q_tasks queue) key of
        None \<Rightarrow> Inl (ErrSentinel ErrTaskNotFound) | Some task \<Rightarrow> Inr task)"

definition TaskByID :: "ctx \<Rightarrow> TaskID \<Rightarrow> Queue \<Rightarrow> error + Task" where
  "TaskByID ctx taskID queue =
     (case ctx of Some e \<Rightarrow> Inl e | None \<Rightarrow>
      if taskID = [] then Inl (Err ''task id is required'')
      else case map_of (q_taskKeys queue) taskID of
        None \<Rightarrow> Inl (ErrSentinel ErrTaskNotFound)
      | Some key \<Rightarrow>
          (case map_of (q_tasks queue) key of None \<Rightarrow> Inr zero_Task | Some task \<Rightarrow> Inr task))"

definition Queue_Tasks :: "Queue \<Rightarrow> Task list" where
  "Queue_Tasks queue =
     sort_Slice (\<lambda>a b. task_IdempotencyKey a < task_IdempotencyKey b) (map snd (q_tasks queue))"

section \<open>Operator control\<close>

definition controlSettledTask ::
  "ctx \<Rightarrow> string \<Rightarrow> time \<Rightarrow> (Task \<Rightarrow> error + Task) \<Rightarrow> Queue \<Rightarrow> (error + Task) \<times> Queue" where
  "controlSettledTask ctx key now update queue =
     (case ctx of Some e \<Rightarrow> (Inl e, queue) | None \<Rightarrow>
      if key = [] \<or> IsZero now
      then (Inl (Err ''settled task control requires idempotency key, current time and update''), queue)
      else case map_of (q_tasks queue) key of
        None \<Rightarrow> (Inl (ErrSentinel ErrTaskNotFound), queue)
      | Some task \<Rightarrow>
          if task_Status task \<noteq> TaskFailed \<and> task_Status task \<noteq> TaskDismissed
          then (Inl (ErrSentinel ErrTaskNotRequeueable), queue)
          else case update task of Inl e \<Rightarrow> (Inl e, queue) | Inr task' \<Rightarrow>
            (Inr task', queue\<lparr>q_tasks := AList.update key task' (q_tasks queue),
               q_leases := AList.delete (task_ID task') (q_leases queue)\<rparr>))"

definition controlFailedTask ::
  "ctx \<Rightarrow> string \<Rightarrow> time \<Rightarrow> (Task \<Rightarrow> error + Task) \<Rightarrow> Queue \<Rightarrow> (error + Task) \<times> Queue" where
  "controlFailedTask ctx key now update queue =
     (case ctx of Some e \<Rightarrow> (Inl e, queue) | None \<Rightarrow>
      if key = [] \<or> IsZero now
      then (Inl (Err ''failed task control requires idempotency key, current time and update''), queue)
      else case map_of (q_tasks queue) key of
        None \<Rightarrow> (Inl (ErrSentinel ErrTaskNotFound), queue)
      | Some task \<Rightarrow>
          if task_Status task \<noteq> TaskFailed
          then (Inl (ErrSentinel ErrTaskNotFailed), queue)
          else case update task of Inl e \<Rightarrow> (Inl e, queue) | Inr task' \<Rightarrow>
            (Inr task', queue\<lparr>q_tasks := AList.update key task' (q_tasks queue),
               q_leases := AList.delete (task_ID task') (q_leases queue)\<rparr>))"

definition RestartFailedTask :: "ctx \<Rightarrow> string \<Rightarrow> time \<Rightarrow> Queue \<Rightarrow> (error + Task) \<times> Queue" where
  "RestartFailedTask ctx key now queue =
     controlFailedTask ctx key now
       (\<lambda>task. if expired (task_Deadline task) now then Inl (ErrSentinel ErrTaskDeadlineExpired)
               else Task_RestartFailed now task) queue"

definition DismissFailedTask :: "ctx \<Rightarrow> string \<Rightarrow> time \<Rightarrow> Queue \<Rightarrow> (error + Task) \<times> Queue" where
  "DismissFailedTask ctx key now queue = controlFailedTask ctx key now (Task_DismissFailure now) queue"

definition RequeueTask :: "ctx \<Rightarrow> string \<Rightarrow> time \<Rightarrow> Queue \<Rightarrow> (error + Task) \<times> Queue" where
  "RequeueTask ctx key now queue = controlSettledTask ctx key now (Task_Requeue now) queue"

definition CancelQueuedTask :: "ctx \<Rightarrow> string \<Rightarrow> string \<Rightarrow> time \<Rightarrow> Queue \<Rightarrow> (error + Task) \<times> Queue" where
  "CancelQueuedTask ctx key reason now queue =
     (case ctx of Some e \<Rightarrow> (Inl e, queue) | None \<Rightarrow>
      if key = [] \<or> IsZero now
      then (Inl (Err ''queued task cancellation requires idempotency key and current time''), queue)
      else case map_of (q_tasks queue) key of
        None \<Rightarrow> (Inl (ErrSentinel ErrTaskNotFound), queue)
      | Some task \<Rightarrow>
          if task_Status task \<notin> {TaskNew, TaskRetryScheduled}
          then (Inl (ErrSentinel ErrTaskNotCancellable), queue)
          else case Task_CancelQueued reason now task of Inl e \<Rightarrow> (Inl e, queue) | Inr task' \<Rightarrow>
            (Inr task', queue\<lparr>q_tasks := AList.update key task' (q_tasks queue)\<rparr>))"

section \<open>Claiming\<close>

definition active_status :: "TaskStatus \<Rightarrow> bool" where
  "active_status s \<longleftrightarrow> s \<in> {TaskNew, TaskProcessing, TaskWaitingConfirmation, TaskRetryScheduled}"

definition deadline_failure :: TaskFailure where
  "deadline_failure = \<lparr>failure_Category = ErrorPermanentFailure, failure_Message = ''task deadline expired''\<rparr>"

definition expire_task :: "time \<Rightarrow> string \<times> Task \<Rightarrow> Queue \<Rightarrow> Queue" where
  "expire_task now kt queue =
     (let key = fst kt; task = snd kt
      in if \<not> expired (task_Deadline task) now then queue
         else if active_status (task_Status task)
         then queue\<lparr>
           q_tasks := AList.update key (task\<lparr>task_Status := TaskFailed, task_UpdatedAt := now,
             task_Failure := Some deadline_failure\<rparr>) (q_tasks queue),
           q_leases := AList.delete (task_ID task) (q_leases queue)\<rparr>
         else queue)"

definition expireOverdue :: "time \<Rightarrow> Queue \<Rightarrow> Queue" where
  "expireOverdue now queue = fold (expire_task now) (q_tasks queue) queue"

definition newer_task :: "Task \<Rightarrow> Task \<Rightarrow> bool" where
  "newer_task task latest \<longleftrightarrow> task_UpdatedAt latest < task_UpdatedAt task
     \<or> (task_UpdatedAt task = task_UpdatedAt latest \<and> task_ID latest < task_ID task)"

fun blocking_scan ::
  "TaskType \<Rightarrow> ProfileID \<Rightarrow> Task option \<Rightarrow> (string \<times> Task) list \<Rightarrow> bool" where
  "blocking_scan taskType profileID latest [] =
     (case latest of None \<Rightarrow> False | Some t \<Rightarrow> task_Status t = TaskFailed)"
| "blocking_scan taskType profileID latest ((key, task) # rest) =
     (if task_Type task \<noteq> taskType \<or> task_ProfileID task \<noteq> profileID
      then blocking_scan taskType profileID latest rest
      else if active_status (task_Status task) then True
      else if task_Status task \<in> {TaskCompleted, TaskFailed, TaskDismissed}
              \<and> (case latest of None \<Rightarrow> True | Some l \<Rightarrow> newer_task task l)
      then blocking_scan taskType profileID (Some task) rest
      else blocking_scan taskType profileID latest rest)"

definition hasBlockingTask :: "TaskType \<Rightarrow> ProfileID \<Rightarrow> Queue \<Rightarrow> bool" where
  "hasBlockingTask taskType profileID queue = blocking_scan taskType profileID None (q_tasks queue)"

definition eligibleAt :: "Task \<Rightarrow> time \<Rightarrow> Queue \<Rightarrow> time \<times> bool" where
  "eligibleAt task now queue =
     (if task_Status task \<in> {TaskNew, TaskRetryScheduled}
      then (task_AvailableAt task, task_AvailableAt task \<le> now)
      else if task_Status task = TaskProcessing
      then (case map_of (q_leases queue) (task_ID task) of
              None \<Rightarrow> (task_UpdatedAt task, True)
            | Some state \<Rightarrow> if ls_until state \<le> now then (ls_until state, True) else (0, False))
      else (0, False))"

definition claim_candidate :: "ClaimParams \<Rightarrow> Queue \<Rightarrow> string \<times> Task \<Rightarrow> candidate option" where
  "claim_candidate params queue kt =
     (let key = fst kt; task = snd kt
      in if cp_TaskType params \<noteq> NoTaskType \<and> task_Type task \<noteq> cp_TaskType params then None
         else if cp_BlockedByTaskType params \<noteq> NoTaskType
                 \<and> hasBlockingTask (cp_BlockedByTaskType params) (task_ProfileID task) queue then None
         else let e = eligibleAt task (cp_Now params) queue
              in if snd e then Some \<lparr>cand_key = key, cand_available = fst e, cand_task = task\<rparr> else None)"

definition claim_candidates :: "ClaimParams \<Rightarrow> Queue \<Rightarrow> candidate list" where
  "claim_candidates params queue = List.map_filter (claim_candidate params queue) (q_tasks queue)"

definition candidate_less :: "candidate \<Rightarrow> candidate \<Rightarrow> bool" where
  "candidate_less a b =
     (if task_Priority (cand_task a) \<noteq> task_Priority (cand_task b)
      then task_Priority (cand_task a) > task_Priority (cand_task b)
      else if cand_available a \<noteq> cand_available b then cand_available a < cand_available b
      else if task_CreatedAt (cand_task a) \<noteq> task_CreatedAt (cand_task b)
      then task_CreatedAt (cand_task a) < task_CreatedAt (cand_task b)
      else task_ID (cand_task a) < task_ID (cand_task b))"

definition randomToken :: "error + byte list \<Rightarrow> error + string" where
  "randomToken value = (case value of Inl e \<Rightarrow> Inl e | Inr bs \<Rightarrow> Inr (hex_EncodeToString bs))"

definition leaseFrom :: "Task \<Rightarrow> leaseState \<Rightarrow> TaskLease" where
  "leaseFrom task state = \<lparr>lease_Task = task, lease_WorkerID = ls_workerID state,
     lease_Token = ls_token state, lease_Until = ls_until state\<rparr>"

definition claim_until :: "ClaimParams \<Rightarrow> Task \<Rightarrow> time" where
  "claim_until params task =
     (let until = cp_Now params + cp_LeaseDuration params
      in case task_Deadline task of None \<Rightarrow> until | Some d \<Rightarrow> if d < until then d else until)"

definition claimed_task :: "time \<Rightarrow> Task \<Rightarrow> Task" where
  "claimed_task now task = task\<lparr>task_Status := TaskProcessing, task_Attempts := task_Attempts task + 1,
     task_UpdatedAt := now, task_Failure := None\<rparr>"

definition Claim ::
  "ctx \<Rightarrow> ClaimParams \<Rightarrow> error + byte list \<Rightarrow> Queue \<Rightarrow> (error + TaskLease option) \<times> Queue" where
  "Claim ctx params rand queue =
     (case ctx of Some e \<Rightarrow> (Inl e, queue) | None \<Rightarrow>
      case ClaimParams_Validate params of Some e \<Rightarrow> (Inl e, queue) | None \<Rightarrow>
      let queue1 = expireOverdue (cp_Now params) queue;
          candidates = claim_candidates params queue1
      in if candidates = [] then (Inr None, queue1)
         else let selected = hd (sort_Slice candidate_less candidates)
              in case randomToken rand of Inl e \<Rightarrow> (Inl e, queue1) | Inr token \<Rightarrow>
                 let task = claimed_task (cp_Now params) (cand_task selected);
                     state = \<lparr>ls_workerID = cp_WorkerID params, ls_token = token,
                              ls_until = claim_until params (cand_task selected)\<rparr>
                 in (Inr (Some (leaseFrom task state)),
                     queue1\<lparr>q_tasks := AList.update (cand_key selected) task (q_tasks queue1),
                       q_leases := AList.update (task_ID task) state (q_leases queue1)\<rparr>))"

section \<open>Working under a lease\<close>

definition validateLeaseInput :: "TaskLease \<Rightarrow> time \<Rightarrow> error option" where
  "validateLeaseInput lease now =
     (if task_ID (lease_Task lease) = [] \<or> lease_WorkerID lease = [] \<or> lease_Token lease = []
         \<or> IsZero (lease_Until lease)
      then Some (Err ''task lease is incomplete'')
      else if task_Status (lease_Task lease) \<noteq> TaskProcessing
      then Some (Err ''task lease does not contain a processing task'')
      else if IsZero now then Some (Err ''task lease operation requires current time'')
      else if lease_Until lease \<le> now then Some (ErrSentinel ErrLeaseLost)
      else if expired (task_Deadline (lease_Task lease)) now then Some (ErrSentinel ErrLeaseLost)
      else None)"

definition activeLease :: "TaskLease \<Rightarrow> time \<Rightarrow> Queue \<Rightarrow> error + (string \<times> Task \<times> leaseState)" where
  "activeLease lease now queue =
     (case map_of (q_taskKeys queue) (task_ID (lease_Task lease)) of
        None \<Rightarrow> Inl (ErrSentinel ErrLeaseLost)
      | Some key \<Rightarrow>
          let task = (case map_of (q_tasks queue) key of None \<Rightarrow> zero_Task | Some t \<Rightarrow> t)
          in case map_of (q_leases queue) (task_ID task) of
               None \<Rightarrow> Inl (ErrSentinel ErrLeaseLost)
             | Some state \<Rightarrow>
                 if task_Status task \<noteq> TaskProcessing \<or> ls_workerID state \<noteq> lease_WorkerID lease
                    \<or> ls_token state \<noteq> lease_Token lease \<or> ls_until state \<le> now
                 then Inl (ErrSentinel ErrLeaseLost)
                 else if expired (task_Deadline task) now then Inl (ErrSentinel ErrLeaseLost)
                 else Inr (key, task, state))"

definition Extend ::
  "ctx \<Rightarrow> TaskLease \<Rightarrow> time \<Rightarrow> time \<Rightarrow> Queue \<Rightarrow> (error + TaskLease) \<times> Queue" where
  "Extend ctx lease now until queue =
     (case ctx of Some e \<Rightarrow> (Inl e, queue) | None \<Rightarrow>
      case validateLeaseInput lease now of Some e \<Rightarrow> (Inl e, queue) | None \<Rightarrow>
      if until \<le> lease_Until lease
      then (Inl (Err ''extended lease must end after current lease''), queue)
      else if (case task_Deadline (lease_Task lease) of None \<Rightarrow> False | Some d \<Rightarrow> d < until)
      then (Inl (Err ''extended lease must not exceed task deadline''), queue)
      else case activeLease lease now queue of Inl e \<Rightarrow> (Inl e, queue) | Inr (key, task, state) \<Rightarrow>
        let state' = state\<lparr>ls_until := until\<rparr>; task' = task\<lparr>task_UpdatedAt := now\<rparr>
        in (Inr (leaseFrom task' state'),
            queue\<lparr>q_tasks := AList.update key task' (q_tasks queue),
              q_leases := AList.update (task_ID task') state' (q_leases queue)\<rparr>))"

definition finish ::
  "ctx \<Rightarrow> TaskLease \<Rightarrow> time \<Rightarrow> (Task \<Rightarrow> error + Task) \<Rightarrow> Queue \<Rightarrow> error option \<times> Queue" where
  "finish ctx lease now transition queue =
     (case ctx of Some e \<Rightarrow> (Some e, queue) | None \<Rightarrow>
      case validateLeaseInput lease now of Some e \<Rightarrow> (Some e, queue) | None \<Rightarrow>
      case activeLease lease now queue of Inl e \<Rightarrow> (Some e, queue) | Inr (key, task, state) \<Rightarrow>
      case transition task of Inl e \<Rightarrow> (Some e, queue) | Inr task' \<Rightarrow>
        (None, queue\<lparr>q_tasks := AList.update key task' (q_tasks queue),
           q_leases := AList.delete (task_ID task') (q_leases queue)\<rparr>))"

definition Complete :: "ctx \<Rightarrow> TaskLease \<Rightarrow> time \<Rightarrow> Queue \<Rightarrow> error option \<times> Queue" where
  "Complete ctx lease now queue = finish ctx lease now (Task_Transition TaskCompleted now) queue"

definition is_pacing :: "OperationError option \<Rightarrow> bool" where
  "is_pacing operationError =
     (case operationError of None \<Rightarrow> False
      | Some oe \<Rightarrow> map_of (oe_Metadata oe) ''pacing'' = Some ''true'')"

text \<open>A pacing wait does not burn an attempt.\<close>

definition retry_update :: "OperationError option \<Rightarrow> time \<Rightarrow> time \<Rightarrow> Task \<Rightarrow> error + Task" where
  "retry_update operationError retryAt now task =
     (case Task_ScheduleRetry retryAt operationError now task of Inl e \<Rightarrow> Inl e | Inr t \<Rightarrow>
        if is_pacing operationError \<and> task_Attempts t > 0
        then Inr (t\<lparr>task_Attempts := task_Attempts t - 1\<rparr>) else Inr t)"

definition Retry ::
  "ctx \<Rightarrow> TaskLease \<Rightarrow> OperationError option \<Rightarrow> time \<Rightarrow> time \<Rightarrow> Queue \<Rightarrow> error option \<times> Queue" where
  "Retry ctx lease operationError retryAt now queue =
     finish ctx lease now (retry_update operationError retryAt now) queue"

definition Fail ::
  "ctx \<Rightarrow> TaskLease \<Rightarrow> OperationError option \<Rightarrow> time \<Rightarrow> Queue \<Rightarrow> error option \<times> Queue" where
  "Fail ctx lease operationError now queue = finish ctx lease now (Task_Fail operationError now) queue"

end
