(* ===== verification/Broker_Inv.thy ===== *)
theory Broker_Inv
  imports Broker
begin

text \<open>
  The queue as a state machine: its steps, its invariant, and the facts about claims and
  leases that the properties rest on. The invariant says how the three maps agree: keys and ids
  are in bijection, a lease exists exactly for a processing task, and every stored task has the
  shape its status promises.
\<close>

section \<open>Steps\<close>

datatype queue_event =
    EvEnqueue ctx Task
  | EvClaim ctx ClaimParams "error + byte list"
  | EvExtend ctx TaskLease time time
  | EvComplete ctx TaskLease time
  | EvRetry ctx TaskLease "OperationError option" time time
  | EvFail ctx TaskLease "OperationError option" time
  | EvRestart ctx string time
  | EvDismiss ctx string time
  | EvRequeue ctx string time
  | EvCancel ctx string string time

inductive queue_step :: "Queue \<Rightarrow> queue_event \<Rightarrow> Queue \<Rightarrow> bool" where
  step_enqueue: "Enqueue ctx task q = (r, q') \<Longrightarrow> queue_step q (EvEnqueue ctx task) q'"
| step_claim: "Claim ctx params rand q = (r, q') \<Longrightarrow> queue_step q (EvClaim ctx params rand) q'"
| step_extend: "Extend ctx lease now until q = (r, q') \<Longrightarrow> queue_step q (EvExtend ctx lease now until) q'"
| step_complete: "Complete ctx lease now q = (r, q') \<Longrightarrow> queue_step q (EvComplete ctx lease now) q'"
| step_retry: "Retry ctx lease oe retryAt now q = (r, q') \<Longrightarrow> queue_step q (EvRetry ctx lease oe retryAt now) q'"
| step_fail: "Fail ctx lease oe now q = (r, q') \<Longrightarrow> queue_step q (EvFail ctx lease oe now) q'"
| step_restart: "RestartFailedTask ctx key now q = (r, q') \<Longrightarrow> queue_step q (EvRestart ctx key now) q'"
| step_dismiss: "DismissFailedTask ctx key now q = (r, q') \<Longrightarrow> queue_step q (EvDismiss ctx key now) q'"
| step_requeue: "RequeueTask ctx key now q = (r, q') \<Longrightarrow> queue_step q (EvRequeue ctx key now) q'"
| step_cancel: "CancelQueuedTask ctx key reason now q = (r, q') \<Longrightarrow> queue_step q (EvCancel ctx key reason now) q'"

inductive queue_run :: "Queue \<Rightarrow> queue_event list \<Rightarrow> Queue \<Rightarrow> bool" where
  run_refl: "queue_run q [] q"
| run_step: "queue_step q ev q' \<Longrightarrow> queue_run q' evs q'' \<Longrightarrow> queue_run q (ev # evs) q''"

inductive_cases queue_run_ConsE: "queue_run q (ev # evs) q'"
inductive_simps queue_step_claim: "queue_step q (EvClaim ctx params rand) q'"

section \<open>The invariant\<close>

definition task_ok :: "Task \<Rightarrow> bool" where
  "task_ok t \<longleftrightarrow> task_ID t \<noteq> [] \<and> json_Valid (task_Payload t)
     \<and> TaskPriorityMin \<le> task_Priority t \<and> task_Priority t \<le> TaskPriorityMax
     \<and> task_Status t \<in> {TaskNew, TaskProcessing, TaskRetryScheduled, TaskCompleted, TaskFailed, TaskDismissed}
     \<and> (task_Status t \<in> {TaskRetryScheduled, TaskFailed, TaskDismissed} \<longrightarrow> task_Failure t \<noteq> None)"

definition tasks_keyed :: "Queue \<Rightarrow> bool" where
  "tasks_keyed q \<longleftrightarrow> (\<forall>k t. map_of (q_tasks q) k = Some t \<longrightarrow>
     task_ok t \<and> task_IdempotencyKey t = k \<and> map_of (q_taskKeys q) (task_ID t) = Some k)"

definition keys_backed :: "Queue \<Rightarrow> bool" where
  "keys_backed q \<longleftrightarrow> (\<forall>i k. map_of (q_taskKeys q) i = Some k \<longrightarrow>
     (\<exists>t. map_of (q_tasks q) k = Some t \<and> task_ID t = i))"

definition leases_match :: "Queue \<Rightarrow> bool" where
  "leases_match q \<longleftrightarrow> (\<forall>k t. map_of (q_tasks q) k = Some t \<longrightarrow>
     (map_of (q_leases q) (task_ID t) \<noteq> None) = (task_Status t = TaskProcessing))"

definition leases_known :: "Queue \<Rightarrow> bool" where
  "leases_known q \<longleftrightarrow> (\<forall>i. map_of (q_leases q) i \<noteq> None \<longrightarrow> map_of (q_taskKeys q) i \<noteq> None)"

definition queue_inv :: "Queue \<Rightarrow> bool" where
  "queue_inv q \<longleftrightarrow>
     distinct_keys (q_tasks q) \<and> distinct_keys (q_taskKeys q) \<and> distinct_keys (q_leases q)
     \<and> tasks_keyed q \<and> keys_backed q \<and> leases_match q \<and> leases_known q"

lemma queue_inv_distinct:
  assumes "queue_inv q"
  shows "distinct_keys (q_tasks q)" and "distinct_keys (q_taskKeys q)" and "distinct_keys (q_leases q)"
  using assms by (simp_all add: queue_inv_def)

lemma queue_inv_task:
  assumes "queue_inv q" and "map_of (q_tasks q) k = Some t"
  shows "task_ok t" and "task_IdempotencyKey t = k" and "map_of (q_taskKeys q) (task_ID t) = Some k"
    and "(map_of (q_leases q) (task_ID t) \<noteq> None) = (task_Status t = TaskProcessing)"
proof -
  have "tasks_keyed q" and "leases_match q" using assms(1) by (simp_all add: queue_inv_def)
  from this(1) show "task_ok t" "task_IdempotencyKey t = k" "map_of (q_taskKeys q) (task_ID t) = Some k"
    using assms(2) by (simp_all add: tasks_keyed_def)
  show "(map_of (q_leases q) (task_ID t) \<noteq> None) = (task_Status t = TaskProcessing)"
    using \<open>leases_match q\<close> assms(2) unfolding leases_match_def by (elim allE impE)
qed

lemma queue_inv_key:
  assumes "queue_inv q" and "map_of (q_taskKeys q) i = Some k"
  shows "\<exists>t. map_of (q_tasks q) k = Some t \<and> task_ID t = i"
  using assms by (simp add: queue_inv_def keys_backed_def)

lemma queue_inv_leases_known:
  "queue_inv q \<Longrightarrow> map_of (q_leases q) i \<noteq> None \<Longrightarrow> map_of (q_taskKeys q) i \<noteq> None"
  by (simp add: queue_inv_def leases_known_def)

lemma queue_inv_ids:
  assumes "queue_inv q" and "map_of (q_tasks q) k = Some t" and "map_of (q_tasks q) k' = Some t'"
    and "task_ID t = task_ID t'"
  shows "k = k'" and "t = t'"
proof -
  show "k = k'"
    using queue_inv_task(3) [OF assms(1,2)] queue_inv_task(3) [OF assms(1,3)] assms(4) by simp
  with assms show "t = t'" by simp
qed

lemma queue_inv_in_tasks:
  "queue_inv q \<Longrightarrow> (k, t) \<in> set (q_tasks q) \<longleftrightarrow> map_of (q_tasks q) k = Some t"
  by (rule in_set_map_of [OF queue_inv_distinct(1)])

lemma NewQueue_inv: "queue_inv NewQueue"
  by (simp add: queue_inv_def NewQueue_def tasks_keyed_def keys_backed_def leases_match_def
      leases_known_def)

text \<open>Replacing one task, and its lease with it, keeps the invariant.\<close>

lemma queue_inv_put:
  assumes inv: "queue_inv q" and t: "map_of (q_tasks q) k = Some t"
    and same: "task_ID t' = task_ID t" "task_IdempotencyKey t' = task_IdempotencyKey t"
    and ok: "task_ok t'"
    and d: "distinct_keys ls"
    and ls: "\<And>i. i \<noteq> task_ID t \<Longrightarrow> map_of ls i = map_of (q_leases q) i"
    and lt: "map_of ls (task_ID t) \<noteq> None \<longleftrightarrow> task_Status t' = TaskProcessing"
  shows "queue_inv (q\<lparr>q_tasks := AList.update k t' (q_tasks q), q_leases := ls\<rparr>)"
proof -
  let ?q = "q\<lparr>q_tasks := AList.update k t' (q_tasks q), q_leases := ls\<rparr>"
  have old: "map_of (q_taskKeys q) (task_ID t) = Some k" "task_IdempotencyKey t = k"
    using queue_inv_task [OF inv t] by simp_all
  have other: "task_ID u \<noteq> task_ID t" if "map_of (q_tasks q) k' = Some u" "k' \<noteq> k" for k' u
    using queue_inv_ids [OF inv that(1) t] that(2) by blast
  have "tasks_keyed ?q"
    using queue_inv_task [OF inv] old same ok by (auto simp: tasks_keyed_def)
  moreover have "keys_backed ?q"
    unfolding keys_backed_def
  proof (intro allI impI)
    fix i k'
    assume "map_of (q_taskKeys ?q) i = Some k'"
    then have "map_of (q_taskKeys q) i = Some k'" by simp
    then obtain u where "map_of (q_tasks q) k' = Some u" "task_ID u = i"
      using queue_inv_key [OF inv] by blast
    then show "\<exists>u. map_of (q_tasks ?q) k' = Some u \<and> task_ID u = i"
      using t same(1) by (cases "k' = k") auto
  qed
  moreover have "leases_match ?q"
    unfolding leases_match_def
  proof (intro allI impI)
    fix k' u
    assume u: "map_of (q_tasks ?q) k' = Some u"
    show "(map_of (q_leases ?q) (task_ID u) \<noteq> None) = (task_Status u = TaskProcessing)"
    proof (cases "k' = k")
      case True
      with u lt same(1) show ?thesis by simp
    next
      case False
      with u have u': "map_of (q_tasks q) k' = Some u" by simp
      show ?thesis
        using queue_inv_task(4) [OF inv u'] ls [OF other [OF u' False]] by simp
    qed
  qed
  moreover have "leases_known ?q"
    unfolding leases_known_def
  proof (intro allI impI)
    fix i
    assume "map_of (q_leases ?q) i \<noteq> None"
    then show "map_of (q_taskKeys ?q) i \<noteq> None"
      using ls [of i] old(1) queue_inv_leases_known [OF inv, of i] by (cases "i = task_ID t") auto
  qed
  ultimately show ?thesis
    using queue_inv_distinct [OF inv] d by (simp add: queue_inv_def)
qed

lemma queue_inv_put_delete:
  assumes "queue_inv q" and "map_of (q_tasks q) k = Some t"
    and "task_ID t' = task_ID t" "task_IdempotencyKey t' = task_IdempotencyKey t"
    and "task_ok t'" and "task_Status t' \<noteq> TaskProcessing"
  shows "queue_inv (q\<lparr>q_tasks := AList.update k t' (q_tasks q),
           q_leases := AList.delete (task_ID t') (q_leases q)\<rparr>)"
  using assms by (intro queue_inv_put [OF assms(1,2)]) (auto simp: queue_inv_distinct)

lemma queue_inv_put_lease:
  assumes "queue_inv q" and "map_of (q_tasks q) k = Some t"
    and "task_ID t' = task_ID t" "task_IdempotencyKey t' = task_IdempotencyKey t"
    and "task_ok t'" and "task_Status t' = TaskProcessing"
  shows "queue_inv (q\<lparr>q_tasks := AList.update k t' (q_tasks q),
           q_leases := AList.update (task_ID t') s (q_leases q)\<rparr>)"
  using assms by (intro queue_inv_put [OF assms(1,2)]) (auto simp: queue_inv_distinct)

section \<open>What an operation does to one task\<close>

lemma same_identityD:
  assumes "same_identity t u"
  shows "task_ID u = task_ID t" and "task_IdempotencyKey u = task_IdempotencyKey t"
    and "task_Type u = task_Type t" and "task_ProfileID u = task_ProfileID t"
    and "task_Deadline u = task_Deadline t" and "task_Priority u = task_Priority t"
    and "task_Payload u = task_Payload t"
  using assms by (simp_all add: same_identity_def)

lemma Task_op_identity:
  shows "Task_Transition to now t = Inr u \<Longrightarrow> same_identity t u"
    and "Task_ScheduleRetry retryAt oe now t = Inr u \<Longrightarrow> same_identity t u"
    and "Task_Fail oe now t = Inr u \<Longrightarrow> same_identity t u"
    and "Task_Requeue now t = Inr u \<Longrightarrow> same_identity t u"
    and "Task_RestartFailed now t = Inr u \<Longrightarrow> same_identity t u"
    and "Task_CancelQueued reason now t = Inr u \<Longrightarrow> same_identity t u"
    and "Task_DismissFailure now t = Inr u \<Longrightarrow> same_identity t u"
  by (metis apply_task_op.simps apply_task_op_identity)+

lemma retry_update_identity: "retry_update oe retryAt now t = Inr u \<Longrightarrow> same_identity t u"
  by (auto simp: retry_update_def dest!: Task_op_identity(2) split: sum.splits if_splits)
    (auto simp: same_identity_def)

lemma task_ok_identity:
  "task_ok t \<Longrightarrow> same_identity t u \<Longrightarrow>
     task_Status u \<in> {TaskNew, TaskProcessing, TaskRetryScheduled, TaskCompleted, TaskFailed, TaskDismissed} \<Longrightarrow>
     (task_Status u \<in> {TaskRetryScheduled, TaskFailed, TaskDismissed} \<longrightarrow> task_Failure u \<noteq> None) \<Longrightarrow> task_ok u"
  by (auto simp: task_ok_def same_identity_def)

text \<open>The four ways a lease holder or an operator settles a task.\<close>

definition settles :: "(Task \<Rightarrow> error + Task) \<Rightarrow> bool" where
  "settles f \<longleftrightarrow> (\<forall>t u. task_ok t \<longrightarrow> f t = Inr u \<longrightarrow>
     same_identity t u \<and> task_ok u \<and> task_Status u \<noteq> TaskProcessing)"

lemma settlesI:
  assumes "\<And>t u. f t = Inr u \<Longrightarrow> same_identity t u"
    and "\<And>t u. task_ok t \<Longrightarrow> f t = Inr u \<Longrightarrow>
      task_Status u \<in> {TaskNew, TaskCompleted} \<or>
      task_Status u \<in> {TaskRetryScheduled, TaskFailed, TaskDismissed} \<and> task_Failure u \<noteq> None"
  shows "settles f"
  unfolding settles_def
proof (intro allI impI)
  fix t u assume t: "task_ok t" "f t = Inr u"
  have "same_identity t u" by (rule assms(1) [OF t(2)])
  with assms(2) [OF t] t(1) show "same_identity t u \<and> task_ok u \<and> task_Status u \<noteq> TaskProcessing"
    by (auto intro: task_ok_identity)
qed

section \<open>Expiry\<close>

definition expire_one :: "time \<Rightarrow> Task \<Rightarrow> Task" where
  "expire_one now t = (if expired (task_Deadline t) now \<and> active_status (task_Status t)
     then t\<lparr>task_Status := TaskFailed, task_UpdatedAt := now, task_Failure := Some deadline_failure\<rparr>
     else t)"

lemma expire_one_identity [simp]: "same_identity t (expire_one now t)"
  by (simp add: expire_one_def same_identity_def)

lemma expire_one_ID [simp]: "task_ID (expire_one now t) = task_ID t"
  by (simp add: expire_one_def)

lemma expire_task_tasks [simp]:
  "map_of (q_tasks q) k = Some t \<Longrightarrow>
     map_of (q_tasks (expire_task now (k, t) q)) = (map_of (q_tasks q))(k \<mapsto> expire_one now t)"
  by (auto simp: expire_task_def expire_one_def Let_def)

lemma expire_task_keys [simp]: "q_taskKeys (expire_task now kt q) = q_taskKeys q"
  by (simp add: expire_task_def Let_def)

lemma expire_task_leases:
  "map_of (q_leases (expire_task now (k, t) q)) i =
     (if task_ID t = i \<and> expire_one now t \<noteq> t \<and> active_status (task_Status t) then None
      else map_of (q_leases q) i)"
  by (auto simp: expire_task_def expire_one_def active_status_def Let_def dest: arg_cong [where f = task_Status])

lemma expire_task_inv:
  assumes "queue_inv q" and "map_of (q_tasks q) k = Some t"
  shows "queue_inv (expire_task now (k, t) q)"
proof (cases "expired (task_Deadline t) now \<and> active_status (task_Status t)")
  case True
  have "task_ok t" by (rule queue_inv_task(1) [OF assms])
  then have "task_ok (t\<lparr>task_Status := TaskFailed, task_UpdatedAt := now, task_Failure := Some deadline_failure\<rparr>)"
    by (simp add: task_ok_def)
  with True queue_inv_put_delete [OF assms, of "expire_one now t"] show ?thesis
    by (simp add: expire_task_def expire_one_def)
next
  case False
  with assms(1) show ?thesis by (auto simp: expire_task_def)
qed

definition present :: "(string \<times> Task) list \<Rightarrow> Queue \<Rightarrow> bool" where
  "present xs q \<longleftrightarrow> distinct_keys xs \<and> (\<forall>kt \<in> set xs. map_of (q_tasks q) (fst kt) = Some (snd kt))"

lemma present_tasks: "queue_inv q \<Longrightarrow> present (q_tasks q) q"
  unfolding present_def
  by (metis in_set_map_of prod.collapse queue_inv_distinct(1))

lemma present_step:
  assumes "present ((k, t) # xs) q"
  shows "present xs (expire_task now (k, t) q)" and "map_of (q_tasks q) k = Some t"
    and "map_of xs k = None"
  using assms by (auto simp: present_def map_of_eq_None_iff)

lemma fold_expire:
  assumes "queue_inv q" and "present xs q"
  shows "queue_inv (fold (expire_task now) xs q)
    \<and> map_of (q_tasks (fold (expire_task now) xs q)) k =
      (case map_of xs k of None \<Rightarrow> map_of (q_tasks q) k | Some t \<Rightarrow> Some (expire_one now t))
    \<and> q_taskKeys (fold (expire_task now) xs q) = q_taskKeys q"
  using assms
proof (induction xs arbitrary: q)
  case (Cons x xs)
  obtain k0 t0 where x: "x = (k0, t0)" by (cases x)
  note p = present_step [OF Cons.prems(2) [unfolded x]]
  have "queue_inv (expire_task now (k0, t0) q)"
    by (rule expire_task_inv [OF Cons.prems(1) p(2)])
  from Cons.IH [OF this p(1)] show ?case
    using p(2,3) x by (auto split: option.splits)
qed simp

lemma expireOverdue_inv: "queue_inv q \<Longrightarrow> queue_inv (expireOverdue now q)"
  unfolding expireOverdue_def using fold_expire present_tasks by blast

lemma expireOverdue_tasks:
  assumes "queue_inv q"
  shows "map_of (q_tasks (expireOverdue now q)) k = map_option (expire_one now) (map_of (q_tasks q) k)"
  using fold_expire [OF assms present_tasks [OF assms], of now k]
  by (auto simp: expireOverdue_def split: option.splits)

lemma expireOverdue_keys: "queue_inv q \<Longrightarrow> q_taskKeys (expireOverdue now q) = q_taskKeys q"
  unfolding expireOverdue_def using fold_expire present_tasks by blast

text \<open>Expiry only removes leases.\<close>

lemma fold_expire_leases:
  "map_of (q_leases (fold (expire_task now) xs q)) i = Some s \<Longrightarrow> map_of (q_leases q) i = Some s"
proof (induction xs arbitrary: q)
  case (Cons x xs)
  then have "map_of (q_leases (expire_task now x q)) i = Some s" by simp
  then show ?case by (cases x) (simp add: expire_task_leases split: if_splits)
qed simp

lemma expireOverdue_leases:
  "map_of (q_leases (expireOverdue now q)) i = Some s \<Longrightarrow> map_of (q_leases q) i = Some s"
  unfolding expireOverdue_def by (rule fold_expire_leases)

lemma expireOverdue_lease_of:
  assumes "queue_inv q" and "map_of (q_tasks (expireOverdue now q)) k = Some t"
    and "task_Status t = TaskProcessing"
  shows "map_of (q_tasks q) k = Some t"
    and "map_of (q_leases (expireOverdue now q)) (task_ID t) = map_of (q_leases q) (task_ID t)"
proof -
  obtain t0 where t0: "map_of (q_tasks q) k = Some t0" "t = expire_one now t0"
    using assms(2) expireOverdue_tasks [OF assms(1)] by auto
  with assms(3) have "t = t0" by (auto simp: expire_one_def split: if_splits)
  with t0 show "map_of (q_tasks q) k = Some t" by simp
  have "map_of (q_leases (expireOverdue now q)) (task_ID t) \<noteq> None"
    using queue_inv_task(4) [OF expireOverdue_inv [OF assms(1)] assms(2)] assms(3) by simp
  then obtain s where "map_of (q_leases (expireOverdue now q)) (task_ID t) = Some s" by blast
  with expireOverdue_leases [OF this]
  show "map_of (q_leases (expireOverdue now q)) (task_ID t) = map_of (q_leases q) (task_ID t)" by simp
qed

section \<open>Candidates\<close>

lemma claim_candidates_iff:
  "c \<in> set (claim_candidates params q) \<longleftrightarrow>
     (\<exists>kt \<in> set (q_tasks q). claim_candidate params q kt = Some c)"
  by (force simp: claim_candidates_def List.map_filter_def)

text \<open>When a stored task may be claimed, in one place.\<close>

definition claimable :: "ClaimParams \<Rightarrow> Queue \<Rightarrow> Task \<Rightarrow> bool" where
  "claimable params q t \<longleftrightarrow>
     (cp_TaskType params = NoTaskType \<or> task_Type t = cp_TaskType params)
     \<and> (cp_BlockedByTaskType params = NoTaskType
          \<or> \<not> hasBlockingTask (cp_BlockedByTaskType params) (task_ProfileID t) q)
     \<and> snd (eligibleAt t (cp_Now params) q)"

lemma claim_candidate_Some:
  "claim_candidate params q (k, t) = Some c \<longleftrightarrow>
     claimable params q t
     \<and> c = \<lparr>cand_key = k, cand_available = fst (eligibleAt t (cp_Now params) q), cand_task = t\<rparr>"
  by (auto simp: claim_candidate_def claimable_def Let_def)

lemma claim_candidatesD:
  assumes "queue_inv q" and "c \<in> set (claim_candidates params q)"
  shows "map_of (q_tasks q) (cand_key c) = Some (cand_task c)"
    and "claimable params q (cand_task c)"
    and "cand_available c = fst (eligibleAt (cand_task c) (cp_Now params) q)"
proof -
  obtain k t where kt: "(k, t) \<in> set (q_tasks q)" "claim_candidate params q (k, t) = Some c"
    using assms(2) claim_candidates_iff by force
  from kt(1) have "map_of (q_tasks q) k = Some t" using queue_inv_in_tasks [OF assms(1)] by simp
  with kt(2) show "map_of (q_tasks q) (cand_key c) = Some (cand_task c)"
    and "claimable params q (cand_task c)"
    and "cand_available c = fst (eligibleAt (cand_task c) (cp_Now params) q)"
    by (auto simp: claim_candidate_Some)
qed

lemma claim_candidatesI:
  assumes "queue_inv q" and "map_of (q_tasks q) k = Some t" and "claimable params q t"
  shows "\<lparr>cand_key = k, cand_available = fst (eligibleAt t (cp_Now params) q), cand_task = t\<rparr>
    \<in> set (claim_candidates params q)"
  using assms queue_inv_in_tasks [OF assms(1)] claim_candidate_Some claim_candidates_iff by metis

text \<open>The order of the candidates is a strict order, total on tasks with distinct ids.\<close>

lemma candidate_less_asym: "candidate_less a b \<Longrightarrow> \<not> candidate_less b a"
  by (auto simp: candidate_less_def split: if_splits)

lemma candidate_less_weak:
  "\<not> candidate_less b a \<Longrightarrow> \<not> candidate_less c b \<Longrightarrow> \<not> candidate_less c a"
  by (auto simp: candidate_less_def split: if_splits)

lemma candidate_less_total:
  "\<not> candidate_less a b \<Longrightarrow> \<not> candidate_less b a \<Longrightarrow> task_ID (cand_task a) = task_ID (cand_task b)"
  by (auto simp: candidate_less_def split: if_splits)

definition claim_selected :: "ClaimParams \<Rightarrow> Queue \<Rightarrow> candidate" where
  "claim_selected params q = hd (sort_Slice candidate_less (claim_candidates params q))"

lemma claim_selected_in:
  "claim_candidates params q \<noteq> [] \<Longrightarrow> claim_selected params q \<in> set (claim_candidates params q)"
  unfolding claim_selected_def by (rule hd_sort_Slice_in)

lemma claim_selected_least:
  "c \<in> set (claim_candidates params q) \<Longrightarrow> \<not> candidate_less c (claim_selected params q)"
  unfolding claim_selected_def
  by (rule hd_sort_Slice_least [OF candidate_less_weak candidate_less_asym])

section \<open>The outcomes of a claim\<close>

lemma Claim_found:
  assumes "Claim ctx params rand q = (Inr (Some lease), q')"
  defines "q1 \<equiv> expireOverdue (cp_Now params) q"
  defines "c \<equiv> claim_selected params q1"
  shows "claim_candidates params q1 \<noteq> []"
    and "lease_Task lease = claimed_task (cp_Now params) (cand_task c)"
    and "lease_WorkerID lease = cp_WorkerID params"
    and "lease_Until lease = claim_until params (cand_task c)"
    and "\<exists>bs. rand = Inr bs \<and> lease_Token lease = hex_EncodeToString bs"
    and "ClaimParams_Validate params = None"
    and "q' = q1\<lparr>q_tasks := AList.update (cand_key c) (lease_Task lease) (q_tasks q1),
        q_leases := AList.update (task_ID (lease_Task lease))
          \<lparr>ls_workerID = lease_WorkerID lease, ls_token = lease_Token lease, ls_until = lease_Until lease\<rparr>
          (q_leases q1)\<rparr>"
  using assms(1) unfolding q1_def c_def
  by (auto simp: Claim_def claim_selected_def leaseFrom_def randomToken_def Let_def
      split: option.splits if_splits sum.splits)

lemma Claim_other:
  assumes "Claim ctx params rand q = (r, q')" and "\<And>lease. r \<noteq> Inr (Some lease)"
  shows "q' = q \<or> q' = expireOverdue (cp_Now params) q"
  using assms by (auto simp: Claim_def Let_def split: option.splits if_splits sum.splits)

lemma Claim_none:
  assumes "Claim ctx params rand q = (Inr None, q')"
  shows "claim_candidates params (expireOverdue (cp_Now params) q) = []"
  using assms by (auto simp: Claim_def Let_def split: option.splits if_splits sum.splits)

lemma claimed_task_simps [simp]:
  "task_ID (claimed_task now t) = task_ID t" "task_IdempotencyKey (claimed_task now t) = task_IdempotencyKey t"
  "task_Status (claimed_task now t) = TaskProcessing" "task_ProfileID (claimed_task now t) = task_ProfileID t"
  "task_Priority (claimed_task now t) = task_Priority t" "task_Deadline (claimed_task now t) = task_Deadline t"
  "task_Type (claimed_task now t) = task_Type t" "task_CreatedAt (claimed_task now t) = task_CreatedAt t"
  by (simp_all add: claimed_task_def)

lemma claimed_task_identity: "same_identity t (claimed_task now t)"
  by (simp add: claimed_task_def same_identity_def)

lemma Claim_found_task:
  assumes "queue_inv q" and "Claim ctx params rand q = (Inr (Some lease), q')"
  defines "q1 \<equiv> expireOverdue (cp_Now params) q"
  defines "c \<equiv> claim_selected params q1"
  shows "map_of (q_tasks q1) (cand_key c) = Some (cand_task c)" and "claimable params q1 (cand_task c)"
    and "task_ID (lease_Task lease) = task_ID (cand_task c)"
proof -
  have "c \<in> set (claim_candidates params q1)"
    unfolding c_def q1_def by (rule claim_selected_in [OF Claim_found(1) [OF assms(2)]])
  moreover have inv: "queue_inv q1" unfolding q1_def by (rule expireOverdue_inv [OF assms(1)])
  ultimately show "map_of (q_tasks q1) (cand_key c) = Some (cand_task c)"
    and "claimable params q1 (cand_task c)" using claim_candidatesD by blast+
  show "task_ID (lease_Task lease) = task_ID (cand_task c)"
    using Claim_found(2) [OF assms(2)] by (simp add: c_def q1_def)
qed

section \<open>The operations keep the invariant\<close>

lemma settles_operations:
  shows "settles (Task_Transition TaskCompleted now)"
    and "settles (retry_update oe retryAt now)"
    and "settles (Task_Fail oe now)"
    and "settles (Task_Requeue now)"
    and "settles (\<lambda>task. if expired (task_Deadline task) now then Inl (ErrSentinel ErrTaskDeadlineExpired)
               else Task_RestartFailed now task)"
proof -
  show "settles (Task_Transition TaskCompleted now)"
    by (rule settlesI, erule Task_op_identity(1)) (auto dest: Task_Transition_cases(2))
  show "settles (retry_update oe retryAt now)"
    by (rule settlesI, erule retry_update_identity)
      (auto simp: retry_update_def Task_ScheduleRetry_def Task_Transition_def
         split: option.splits sum.splits if_splits)
  show "settles (Task_Fail oe now)"
    by (rule settlesI, erule Task_op_identity(3))
      (auto simp: Task_Fail_def Task_Transition_def split: option.splits sum.splits if_splits)
  show "settles (Task_Requeue now)"
    by (rule settlesI, erule Task_op_identity(4)) (auto simp: Task_Requeue_def split: if_splits)
  show "settles (\<lambda>task. if expired (task_Deadline task) now then Inl (ErrSentinel ErrTaskDeadlineExpired)
               else Task_RestartFailed now task)"
    by (rule settlesI)
      (auto simp: Task_RestartFailed_def same_identity_def split: if_splits)
qed

lemma DismissFailure_ok:
  assumes "task_ok t" and "Task_DismissFailure now t = Inr u"
  shows "same_identity t u \<and> task_ok u \<and> task_Status u \<noteq> TaskProcessing"
  using assms Task_op_identity(7) [OF assms(2)]
  by (auto simp: Task_DismissFailure_def task_ok_def split: if_splits)

lemma settles_dismiss: "settles (Task_DismissFailure now)"
  unfolding settles_def using DismissFailure_ok by blast

lemma activeLease_Inr:
  assumes "queue_inv q" and "activeLease lease now q = Inr (k, t, s)"
  shows "map_of (q_tasks q) k = Some t" and "task_ID t = task_ID (lease_Task lease)"
    and "map_of (q_leases q) (task_ID t) = Some s" and "task_Status t = TaskProcessing"
    and "ls_token s = lease_Token lease" and "ls_workerID s = lease_WorkerID lease" and "now < ls_until s"
    and "\<not> expired (task_Deadline t) now"
proof -
  from assms(2) have k: "map_of (q_taskKeys q) (task_ID (lease_Task lease)) = Some k"
    by (auto simp: activeLease_def Let_def split: option.splits if_splits)
  then obtain u where u: "map_of (q_tasks q) k = Some u" "task_ID u = task_ID (lease_Task lease)"
    using queue_inv_key [OF assms(1)] by blast
  with k assms(2) show "map_of (q_tasks q) k = Some t" and "task_ID t = task_ID (lease_Task lease)"
    and "map_of (q_leases q) (task_ID t) = Some s" and "task_Status t = TaskProcessing"
    and "ls_token s = lease_Token lease" and "ls_workerID s = lease_WorkerID lease" and "now < ls_until s"
    and "\<not> expired (task_Deadline t) now"
    by (auto simp: activeLease_def Let_def split: option.splits if_splits)
qed

lemma finish_cases:
  assumes "finish ctx lease now f q = (r, q')"
  obtains e where "r = Some e" "q' = q"
  | k t s u where "r = None" "ctx = None" "validateLeaseInput lease now = None"
      "activeLease lease now q = Inr (k, t, s)" "f t = Inr u"
      "q' = q\<lparr>q_tasks := AList.update k u (q_tasks q), q_leases := AList.delete (task_ID u) (q_leases q)\<rparr>"
proof (cases "ctx = None \<and> validateLeaseInput lease now = None")
  case False
  then obtain e where "ctx = Some e \<or> (ctx = None \<and> validateLeaseInput lease now = Some e)"
    by (metis not_Some_eq)
  with assms that(1) [of e] show ?thesis by (auto simp: finish_def)
next
  case True
  show ?thesis
  proof (cases "activeLease lease now q")
    case (Inl e)
    with assms True that(1) [of e] show ?thesis by (auto simp: finish_def)
  next
    case (Inr kts)
    obtain k t s where kts: "kts = (k, t, s)" by (cases kts)
    show ?thesis
    proof (cases "f t")
      case (Inl e)
      then show ?thesis
        using assms True \<open>activeLease lease now q = Inr kts\<close> kts that(1) [of e] by (auto simp: finish_def)
    next
      case f: (Inr u)
      show ?thesis
        by (rule that(2) [of k t s u]) (use assms True Inr kts f in \<open>auto simp: finish_def\<close>)
    qed
  qed
qed

lemma finish_inv:
  assumes "queue_inv q" and "settles f" and "finish ctx lease now f q = (r, q')"
  shows "queue_inv q'"
  using assms(3)
proof (cases rule: finish_cases)
  case 1
  with assms(1) show ?thesis by simp
next
  case (2 k t s u)
  note t = activeLease_Inr(1) [OF assms(1) 2(4)]
  have "same_identity t u \<and> task_ok u \<and> task_Status u \<noteq> TaskProcessing"
    using assms(2) queue_inv_task(1) [OF assms(1) t] 2(5) by (simp add: settles_def)
  with 2(6) show ?thesis
    using queue_inv_put_delete [OF assms(1) t, of u] by (simp add: same_identity_def)
qed

lemma control_cases:
  assumes "controlFailedTask ctx key now f q = (r, q') \<or> controlSettledTask ctx key now f q = (r, q')"
  obtains e where "r = Inl e" "q' = q"
  | t u where "r = Inr u" "map_of (q_tasks q) key = Some t" "f t = Inr u"
      "task_Status t \<in> {TaskFailed, TaskDismissed}"
      "q' = q\<lparr>q_tasks := AList.update key u (q_tasks q), q_leases := AList.delete (task_ID u) (q_leases q)\<rparr>"
proof (cases "r")
  case (Inl e)
  with assms that(1) show ?thesis
    by (auto simp: controlFailedTask_def controlSettledTask_def split: option.splits sum.splits if_splits)
next
  case (Inr u)
  then obtain t where "map_of (q_tasks q) key = Some t"
    using assms by (auto simp: controlFailedTask_def controlSettledTask_def split: option.splits if_splits)
  with Inr assms that(2) [OF Inr] show ?thesis
    by (auto simp: controlFailedTask_def controlSettledTask_def split: option.splits sum.splits if_splits)
qed

lemma control_inv:
  assumes "queue_inv q" and "settles f"
    and "controlFailedTask ctx key now f q = (r, q') \<or> controlSettledTask ctx key now f q = (r, q')"
  shows "queue_inv q'"
  using assms(3)
proof (cases rule: control_cases)
  case 1
  with assms(1) show ?thesis by simp
next
  case (2 t u)
  have "same_identity t u \<and> task_ok u \<and> task_Status u \<noteq> TaskProcessing"
    using assms(2) queue_inv_task(1) [OF assms(1) 2(2)] 2(3) by (simp add: settles_def)
  with 2(5) show ?thesis
    using queue_inv_put_delete [OF assms(1) 2(2), of u] by (simp add: same_identity_def)
qed

lemma Enqueue_cases:
  assumes "Enqueue ctx t q = (r, q')"
  obtains "r \<noteq> Inr True" "q' = q"
  | "r = Inr True" "ctx = None" "task_ok t" "task_Status t = TaskNew"
      "map_of (q_tasks q) (task_IdempotencyKey t) = None" "map_of (q_taskKeys q) (task_ID t) = None"
      "q' = q\<lparr>q_tasks := AList.update (task_IdempotencyKey t) t (q_tasks q),
             q_taskKeys := AList.update (task_ID t) (task_IdempotencyKey t) (q_taskKeys q)\<rparr>"
proof (cases "r = Inr True")
  case False
  with assms that(1) show ?thesis
    by (auto simp: Enqueue_def split: option.splits if_splits)
next
  case True
  with assms that(2) [OF True] show ?thesis
    by (auto simp: Enqueue_def task_ok_def validators split: option.splits if_splits)
qed

lemma Enqueue_inv:
  assumes "queue_inv q" and "Enqueue ctx t q = (r, q')"
  shows "queue_inv q'"
  using assms(2)
proof (cases rule: Enqueue_cases)
  case 1
  with assms(1) show ?thesis by simp
next
  case 2
  let ?k = "task_IdempotencyKey t"
  have noid: "task_ID u \<noteq> task_ID t" if "map_of (q_tasks q) k = Some u" for k u
    using queue_inv_task(3) [OF assms(1) that] 2(6) by auto
  have nokey: "k \<noteq> ?k" if "map_of (q_taskKeys q) i = Some k" for i k
    using queue_inv_key [OF assms(1) that] 2(5) by auto
  have nolease: "map_of (q_leases q) (task_ID t) = None"
    using queue_inv_leases_known [OF assms(1), of "task_ID t"] 2(6) by blast
  have "tasks_keyed q'"
    using queue_inv_task [OF assms(1)] 2(3,7) noid by (auto simp: tasks_keyed_def)
  moreover have "keys_backed q'"
    using queue_inv_key [OF assms(1)] nokey 2(7) by (auto simp: keys_backed_def)
  moreover have "leases_match q'"
    using queue_inv_task(4) [OF assms(1)] nolease 2(4,7) by (auto simp: leases_match_def)
  moreover have "leases_known q'"
    using queue_inv_leases_known [OF assms(1)] 2(7) by (auto simp: leases_known_def)
  ultimately show ?thesis
    using queue_inv_distinct [OF assms(1)] 2(7) by (simp add: queue_inv_def)
qed

lemma Claim_inv:
  assumes "queue_inv q" and "Claim ctx params rand q = (r, q')"
  shows "queue_inv q'"
proof (cases "\<exists>lease. r = Inr (Some lease)")
  case False
  then have "q' = q \<or> q' = expireOverdue (cp_Now params) q"
    using Claim_other [OF assms(2)] by blast
  with assms(1) expireOverdue_inv show ?thesis by blast
next
  case True
  then obtain lease where lease: "Claim ctx params rand q = (Inr (Some lease), q')"
    using assms(2) by blast
  let ?q1 = "expireOverdue (cp_Now params) q"
  let ?c = "claim_selected params ?q1"
  note found = Claim_found [OF lease] and task = Claim_found_task [OF assms(1) lease]
  have inv1: "queue_inv ?q1" by (rule expireOverdue_inv [OF assms(1)])
  have "task_ok (lease_Task lease)"
    using queue_inv_task(1) [OF inv1 task(1)] found(2) by (auto simp: task_ok_def claimed_task_def)
  then show ?thesis
    using queue_inv_put_lease [OF inv1 task(1), of "lease_Task lease"] found(2) found(7) by simp
qed

lemma Extend_cases:
  assumes "Extend ctx lease now until q = (r, q')"
  obtains e where "r = Inl e" "q' = q"
  | k t s where "r = Inr (leaseFrom (t\<lparr>task_UpdatedAt := now\<rparr>) (s\<lparr>ls_until := until\<rparr>))"
      "activeLease lease now q = Inr (k, t, s)" "lease_Until lease < until"
      "validateLeaseInput lease now = None"
      "q' = q\<lparr>q_tasks := AList.update k (t\<lparr>task_UpdatedAt := now\<rparr>) (q_tasks q),
              q_leases := AList.update (task_ID t) (s\<lparr>ls_until := until\<rparr>) (q_leases q)\<rparr>"
proof (cases r)
  case (Inl e)
  with assms that(1) show ?thesis
    by (auto simp: Extend_def Let_def split: option.splits if_splits sum.splits prod.splits)
next
  case (Inr l)
  then obtain k t s where "activeLease lease now q = Inr (k, t, s)"
    using assms by (auto simp: Extend_def Let_def split: option.splits if_splits sum.splits)
  with Inr assms that(2) show ?thesis
    by (auto simp: Extend_def Let_def split: option.splits if_splits)
qed

lemma Extend_inv:
  assumes "queue_inv q" and "Extend ctx lease now until q = (r, q')"
  shows "queue_inv q'"
  using assms(2)
proof (cases rule: Extend_cases)
  case 1
  with assms(1) show ?thesis by simp
next
  case (2 k t s)
  note act = activeLease_Inr [OF assms(1) 2(2)]
  have "task_ok (t\<lparr>task_UpdatedAt := now\<rparr>)"
    using queue_inv_task(1) [OF assms(1) act(1)] by (simp add: task_ok_def)
  then show ?thesis
    using queue_inv_put_lease [OF assms(1) act(1), of "t\<lparr>task_UpdatedAt := now\<rparr>"] act(4) 2(5) by simp
qed

lemma Cancel_cases:
  assumes "CancelQueuedTask ctx key reason now q = (r, q')"
  obtains e where "r = Inl e" "q' = q"
  | t u where "r = Inr u" "map_of (q_tasks q) key = Some t" "Task_CancelQueued reason now t = Inr u"
      "task_Status t \<in> {TaskNew, TaskRetryScheduled}"
      "q' = q\<lparr>q_tasks := AList.update key u (q_tasks q)\<rparr>"
proof (cases r)
  case (Inl e)
  with assms that(1) show ?thesis
    by (auto simp: CancelQueuedTask_def split: option.splits sum.splits if_splits)
next
  case (Inr u)
  then obtain t where "map_of (q_tasks q) key = Some t"
    using assms by (auto simp: CancelQueuedTask_def split: option.splits if_splits)
  with Inr assms that(2) [OF Inr] show ?thesis
    by (auto simp: CancelQueuedTask_def split: option.splits sum.splits if_splits)
qed

lemma Cancel_inv:
  assumes "queue_inv q" and "CancelQueuedTask ctx key reason now q = (r, q')"
  shows "queue_inv q'"
  using assms(2)
proof (cases rule: Cancel_cases)
  case 1
  with assms(1) show ?thesis by simp
next
  case (2 t u)
  note t = queue_inv_task [OF assms(1) 2(2)]
  have u: "same_identity t u" "task_Status u = TaskDismissed" "task_Failure u \<noteq> None"
    using 2(3) Task_op_identity(6) [OF 2(3)] by (auto simp: Task_CancelQueued_def Let_def split: if_splits)
  have "task_ok u" by (rule task_ok_identity [OF t(1) u(1)]) (use u in simp_all)
  moreover have "map_of (q_leases q) (task_ID t) = None" using t(4) 2(4) by auto
  ultimately have "queue_inv (q\<lparr>q_tasks := AList.update key u (q_tasks q), q_leases := q_leases q\<rparr>)"
    using u same_identityD(1,2) [OF u(1)] queue_inv_distinct [OF assms(1)]
    by (intro queue_inv_put [OF assms(1) 2(2)]) simp_all
  then show ?thesis using 2(5) by simp
qed

lemma queue_step_inv: "queue_step q ev q' \<Longrightarrow> queue_inv q \<Longrightarrow> queue_inv q'"
proof (induction rule: queue_step.induct)
  case step_enqueue then show ?case using Enqueue_inv by blast
next
  case step_claim then show ?case using Claim_inv by blast
next
  case step_extend then show ?case using Extend_inv by blast
next
  case step_complete then show ?case
    unfolding Complete_def using finish_inv settles_operations(1) by blast
next
  case step_retry then show ?case
    unfolding Retry_def using finish_inv settles_operations(2) by blast
next
  case step_fail then show ?case
    unfolding Fail_def using finish_inv settles_operations(3) by blast
next
  case step_restart then show ?case
    unfolding RestartFailedTask_def using control_inv settles_operations(5) by blast
next
  case step_dismiss then show ?case
    unfolding DismissFailedTask_def using control_inv settles_dismiss by blast
next
  case step_requeue then show ?case
    unfolding RequeueTask_def using control_inv settles_operations(4) by blast
next
  case step_cancel then show ?case using Cancel_inv by blast
qed

lemma queue_run_inv: "queue_run q evs q' \<Longrightarrow> queue_inv q \<Longrightarrow> queue_inv q'"
  by (induction rule: queue_run.induct) (auto dest: queue_step_inv)

end
