(* ===== verification/Broker_Order.thy ===== *)
theory Broker_Order
  imports Broker_Inv
begin

text \<open>
  Go visits the entries of a map in an unspecified order. The two loops of \<open>Claim\<close> over
  the stored tasks, the search for a blocking task and the collection of candidates, give the
  same answer for every order, because ids are unique.
\<close>

section \<open>The blocking task\<close>

definition terminal_status :: "TaskStatus \<Rightarrow> bool" where
  "terminal_status s \<longleftrightarrow> s \<in> {TaskCompleted, TaskFailed, TaskDismissed}"

lemma newer_task_trans: "newer_task a b \<Longrightarrow> newer_task b c \<Longrightarrow> newer_task a c"
  by (auto simp: newer_task_def)

lemma newer_task_irrefl [simp]: "\<not> newer_task a a"
  by (simp add: newer_task_def)

lemma newer_task_total: "task_ID a \<noteq> task_ID b \<Longrightarrow> newer_task a b \<or> newer_task b a"
  by (auto simp: newer_task_def)

text \<open>The tasks of one type and profile, and the latest settled one among a set of tasks.\<close>

definition of_lane :: "TaskType \<Rightarrow> ProfileID \<Rightarrow> Task \<Rightarrow> bool" where
  "of_lane ty pid t \<longleftrightarrow> task_Type t = ty \<and> task_ProfileID t = pid"

definition latest_failed :: "Task set \<Rightarrow> bool" where
  "latest_failed C \<longleftrightarrow> (\<exists>t \<in> C. task_Status t = TaskFailed \<and> (\<forall>u \<in> C. \<not> newer_task u t))"

definition lane_settled :: "TaskType \<Rightarrow> ProfileID \<Rightarrow> (string \<times> Task) list \<Rightarrow> Task set" where
  "lane_settled ty pid xs = {t \<in> snd ` set xs. of_lane ty pid t \<and> terminal_status (task_Status t)}"

definition lane_active :: "TaskType \<Rightarrow> ProfileID \<Rightarrow> (string \<times> Task) list \<Rightarrow> bool" where
  "lane_active ty pid xs \<longleftrightarrow> (\<exists>t \<in> snd ` set xs. of_lane ty pid t \<and> active_status (task_Status t))"

lemma lane_active_simps [simp]:
  "\<not> lane_active ty pid []"
  "lane_active ty pid ((k, t) # xs) \<longleftrightarrow> (of_lane ty pid t \<and> active_status (task_Status t)) \<or> lane_active ty pid xs"
  by (auto simp: lane_active_def)

lemma blocking_scan_Cons:
  "blocking_scan ty pid latest ((k, t) # xs) =
     (if \<not> of_lane ty pid t then blocking_scan ty pid latest xs
      else if active_status (task_Status t) then True
      else if terminal_status (task_Status t) \<and> (case latest of None \<Rightarrow> True | Some l \<Rightarrow> newer_task t l)
      then blocking_scan ty pid (Some t) xs else blocking_scan ty pid latest xs)"
  by (simp add: of_lane_def terminal_status_def)

declare blocking_scan.simps(2) [simp del]

lemma lane_settled_Nil [simp]: "lane_settled ty pid [] = {}"
  by (simp add: lane_settled_def)

lemma lane_settled_Cons:
  "lane_settled ty pid ((k, t) # xs) =
     (if of_lane ty pid t \<and> terminal_status (task_Status t) then insert t (lane_settled ty pid xs)
      else lane_settled ty pid xs)"
  by (auto simp: lane_settled_def)

lemma latest_failed_drop:
  assumes "newer_task t l"
  shows "latest_failed (insert l (insert t C)) = latest_failed (insert t C)"
proof -
  have "\<not> newer_task l x" if "\<forall>u \<in> insert t C. \<not> newer_task u x" for x
    using that newer_task_trans [OF assms] by blast
  with assms show ?thesis unfolding latest_failed_def by blast
qed

lemma blocking_scan_iff:
  assumes "inj_on task_ID (set_option latest \<union> lane_settled ty pid xs)"
  shows "blocking_scan ty pid latest xs \<longleftrightarrow>
     lane_active ty pid xs \<or> latest_failed (set_option latest \<union> lane_settled ty pid xs)"
  using assms
proof (induction xs arbitrary: latest)
  case Nil
  show ?case by (cases latest) (simp_all add: latest_failed_def)
next
  case (Cons x xs)
  obtain k t where x: "x = (k, t)" by (cases x)
  note settled = lane_settled_Cons [of ty pid k t xs, folded x]
  consider (other) "\<not> of_lane ty pid t" | (active) "of_lane ty pid t" "active_status (task_Status t)"
    | (settled) "of_lane ty pid t" "\<not> active_status (task_Status t)" "terminal_status (task_Status t)"
    | (unknown) "of_lane ty pid t" "\<not> active_status (task_Status t)" "\<not> terminal_status (task_Status t)"
    by blast
  then show ?case
  proof cases
    case other
    with Cons x settled show ?thesis by (simp add: blocking_scan_Cons)
  next
    case active
    with x show ?thesis by (simp add: blocking_scan_Cons)
  next
    case unknown
    with Cons x settled show ?thesis by (simp add: blocking_scan_Cons)
  next
    case lane: settled
    let ?C = "lane_settled ty pid xs"
    have C: "lane_settled ty pid (x # xs) = insert t ?C" using settled lane by simp
    show ?thesis
    proof (cases "case latest of None \<Rightarrow> True | Some l \<Rightarrow> newer_task t l")
      case True
      then have "blocking_scan ty pid latest (x # xs) = blocking_scan ty pid (Some t) xs"
        using lane x by (simp add: blocking_scan_Cons)
      moreover have "inj_on task_ID (set_option (Some t) \<union> ?C)"
        using Cons.prems C by (auto intro: inj_on_subset)
      moreover have "latest_failed (set_option latest \<union> insert t ?C) = latest_failed (insert t ?C)"
        using True latest_failed_drop [of t _ ?C] by (cases latest) (simp_all add: insert_commute)
      ultimately show ?thesis using Cons.IH [of "Some t"] C lane x by simp
    next
      case False
      then obtain l where l: "latest = Some l" "\<not> newer_task t l" by (cases latest) auto
      then have "blocking_scan ty pid latest (x # xs) = blocking_scan ty pid (Some l) xs"
        using lane x by (simp add: blocking_scan_Cons)
      moreover have "inj_on task_ID (set_option (Some l) \<union> ?C)"
        using Cons.prems C l by (auto intro: inj_on_subset)
      moreover have "latest_failed (insert l (insert t ?C)) = latest_failed (insert l ?C)"
      proof (cases "t = l")
        case False
        then have "task_ID t \<noteq> task_ID l"
          using Cons.prems C l(1) by (auto dest: inj_onD)
        then have "newer_task l t" using newer_task_total l(2) by blast
        then show ?thesis using latest_failed_drop [of l t ?C] by (simp add: insert_commute)
      qed simp
      ultimately show ?thesis using Cons.IH [of "Some l"] C l lane x by (simp add: insert_commute)
    qed
  qed
qed

lemma lane_settled_inj:
  assumes "queue_inv q"
  shows "inj_on task_ID (lane_settled ty pid (q_tasks q))"
  unfolding inj_on_def lane_settled_def
  using queue_inv_ids(2) [OF assms] queue_inv_in_tasks [OF assms] by auto

lemma hasBlockingTask_iff:
  assumes "queue_inv q"
  shows "hasBlockingTask ty pid q \<longleftrightarrow>
     (\<exists>k t. map_of (q_tasks q) k = Some t \<and> of_lane ty pid t \<and> active_status (task_Status t))
     \<or> latest_failed (lane_settled ty pid (q_tasks q))"
  unfolding hasBlockingTask_def
proof -
  have ex: "(\<exists>t \<in> snd ` set (q_tasks q). P t) \<longleftrightarrow> (\<exists>k t. map_of (q_tasks q) k = Some t \<and> P t)" for P
    using queue_inv_in_tasks [OF assms] by force
  show "blocking_scan ty pid None (q_tasks q) \<longleftrightarrow>
     (\<exists>k t. map_of (q_tasks q) k = Some t \<and> of_lane ty pid t \<and> active_status (task_Status t))
     \<or> latest_failed (lane_settled ty pid (q_tasks q))"
    using blocking_scan_iff [of None ty pid "q_tasks q"] lane_settled_inj [OF assms, of ty pid]
    unfolding ex lane_active_def by simp
qed

section \<open>Queues with the same contents\<close>

definition same_contents :: "Queue \<Rightarrow> Queue \<Rightarrow> bool" where
  "same_contents p q \<longleftrightarrow> map_of (q_tasks p) = map_of (q_tasks q)
     \<and> map_of (q_taskKeys p) = map_of (q_taskKeys q) \<and> map_of (q_leases p) = map_of (q_leases q)"

lemma same_contents_mset:
  assumes "queue_inv p" and "queue_inv q" and "same_contents p q"
  shows "mset (q_tasks p) = mset (q_tasks q)"
proof -
  have "set (q_tasks p) = set (q_tasks q)"
    using queue_inv_in_tasks [OF assms(1)] queue_inv_in_tasks [OF assms(2)] assms(3)
    by (auto simp: same_contents_def)
  moreover have "distinct (q_tasks p)" "distinct (q_tasks q)"
    using queue_inv_distinct(1) [OF assms(1)] queue_inv_distinct(1) [OF assms(2)]
    by (simp_all add: distinct_map)
  ultimately show ?thesis by (simp add: set_eq_iff_mset_eq_distinct)
qed

lemma same_contents_blocking:
  assumes "queue_inv p" and "queue_inv q" and "same_contents p q"
  shows "hasBlockingTask ty pid p = hasBlockingTask ty pid q"
proof -
  have "lane_settled ty pid (q_tasks p) = lane_settled ty pid (q_tasks q)"
    using same_contents_mset [OF assms] by (auto simp: lane_settled_def dest: mset_eq_setD)
  then show ?thesis
    using assms(3) by (simp add: hasBlockingTask_iff [OF assms(1)] hasBlockingTask_iff [OF assms(2)]
        same_contents_def)
qed

lemma same_contents_candidates:
  assumes "queue_inv p" and "queue_inv q" and "same_contents p q"
  shows "mset (claim_candidates params p) = mset (claim_candidates params q)"
proof -
  have "eligibleAt t now p = eligibleAt t now q" for t now
    using assms(3) by (simp add: eligibleAt_def same_contents_def)
  then have "claim_candidate params p = claim_candidate params q"
    unfolding claim_candidate_def Let_def using same_contents_blocking [OF assms] by (simp cong: if_cong)
  then show ?thesis
    using same_contents_mset [OF assms]
    by (simp add: claim_candidates_def List.map_filter_def mset_map mset_filter)
qed

lemma same_contents_expire:
  assumes "queue_inv p" and "queue_inv q" and "same_contents p q"
  shows "same_contents (expireOverdue now p) (expireOverdue now q)"
proof -
  have tasks: "map_of (q_tasks (expireOverdue now p)) = map_of (q_tasks (expireOverdue now q))"
    using assms(3) by (auto simp: expireOverdue_tasks assms(1,2) same_contents_def)
  have leases: "map_of (q_leases (expireOverdue now r)) i =
      (case map_of (q_taskKeys r) i of None \<Rightarrow> None | Some k \<Rightarrow>
         (case map_of (q_tasks (expireOverdue now r)) k of None \<Rightarrow> None
          | Some t \<Rightarrow> if task_Status t = TaskProcessing then map_of (q_leases r) i else None))"
    if inv: "queue_inv r" for r i
  proof (cases "map_of (q_taskKeys r) i")
    case None
    then have "map_of (q_leases (expireOverdue now r)) i = None"
      using queue_inv_leases_known [OF expireOverdue_inv [OF inv], of now i]
      unfolding expireOverdue_keys [OF inv] by blast
    with None show ?thesis by simp
  next
    case (Some k)
    obtain t where t: "map_of (q_tasks (expireOverdue now r)) k = Some t" "task_ID t = i"
      using queue_inv_key [OF expireOverdue_inv [OF inv], of now i k] Some
      by (auto simp: expireOverdue_keys [OF inv])
    show ?thesis
    proof (cases "task_Status t = TaskProcessing")
      case True
      with expireOverdue_lease_of(2) [OF inv t(1) True] t Some show ?thesis by simp
    next
      case False
      with queue_inv_task(4) [OF expireOverdue_inv [OF inv] t(1)] t Some show ?thesis by simp
    qed
  qed
  show ?thesis
    unfolding same_contents_def
  proof (intro conjI)
    show "map_of (q_leases (expireOverdue now p)) = map_of (q_leases (expireOverdue now q))"
      using assms(3) tasks by (intro ext) (simp add: leases assms(1,2) same_contents_def cong: option.case_cong if_cong)
  qed (use tasks assms in \<open>auto simp: expireOverdue_keys same_contents_def\<close>)
qed

lemma same_contents_selected:
  assumes "queue_inv p" and "queue_inv q" and "same_contents p q"
  shows "claim_selected params p = claim_selected params q"
proof -
  have "a = b"
    if "a \<in> set (claim_candidates params p)" "b \<in> set (claim_candidates params p)"
      "\<not> candidate_less a b" "\<not> candidate_less b a" for a b
  proof -
    note a = claim_candidatesD [OF assms(1) that(1)] and b = claim_candidatesD [OF assms(1) that(2)]
    have "task_ID (cand_task a) = task_ID (cand_task b)"
      by (rule candidate_less_total [OF that(3,4)])
    from queue_inv_ids [OF assms(1) a(1) b(1) this] a(3) b(3) show "a = b" by simp
  qed
  then have "sort_Slice candidate_less (claim_candidates params p)
      = sort_Slice candidate_less (claim_candidates params q)"
    by (intro sort_Slice_perm [OF candidate_less_weak candidate_less_asym _
          same_contents_candidates [OF assms]])
  then show ?thesis by (simp add: claim_selected_def)
qed

lemma Claim_unfold:
  "Claim ctx params rand q =
     (case ctx of Some e \<Rightarrow> (Inl e, q) | None \<Rightarrow>
      case ClaimParams_Validate params of Some e \<Rightarrow> (Inl e, q) | None \<Rightarrow>
      let q1 = expireOverdue (cp_Now params) q
      in if claim_candidates params q1 = [] then (Inr None, q1)
         else let c = claim_selected params q1
              in case randomToken rand of Inl e \<Rightarrow> (Inl e, q1) | Inr token \<Rightarrow>
                 let task = claimed_task (cp_Now params) (cand_task c);
                     state = \<lparr>ls_workerID = cp_WorkerID params, ls_token = token,
                              ls_until = claim_until params (cand_task c)\<rparr>
                 in (Inr (Some (leaseFrom task state)),
                     q1\<lparr>q_tasks := AList.update (cand_key c) task (q_tasks q1),
                       q_leases := AList.update (task_ID task) state (q_leases q1)\<rparr>))"
  unfolding Claim_def claim_selected_def Let_def by (rule refl)

lemma Claim_same_contents:
  assumes "queue_inv p" and "queue_inv q" and "same_contents p q"
  shows "fst (Claim ctx params rand p) = fst (Claim ctx params rand q)
    \<and> same_contents (snd (Claim ctx params rand p)) (snd (Claim ctx params rand q))"
proof -
  let ?p1 = "expireOverdue (cp_Now params) p" and ?q1 = "expireOverdue (cp_Now params) q"
  have inv: "queue_inv ?p1" "queue_inv ?q1" and same: "same_contents ?p1 ?q1"
    using expireOverdue_inv same_contents_expire assms by simp_all
  have "claim_candidates params ?p1 = [] \<longleftrightarrow> claim_candidates params ?q1 = []"
    using same_contents_candidates [OF inv same, of params] by (metis mset_zero_iff)
  then show ?thesis
    using same_contents_selected [OF inv same, of params] same assms(3)
    by (auto simp: Claim_unfold Let_def same_contents_def split: option.splits sum.splits)
qed

end
