(* ===== verification/Broker_Facts.thy ===== *)
theory Broker_Facts
  imports Broker_Order
begin

text \<open>
  Facts about the queue that several of its properties share: a claimable task was there before
  expiry, where a lease token comes from, that a stored task persists with its identity, and
  that no step touches a completed task.
\<close>

section \<open>Supporting facts\<close>

lemma activeness_of_claimable:
  assumes "claimable params q t"
  shows "active_status (task_Status t)"
proof (rule ccontr)
  assume "\<not> active_status (task_Status t)"
  then have "\<not> snd (eligibleAt t (cp_Now params) q)"
    by (auto simp: eligibleAt_def active_status_def)
  with assms show False by (simp add: claimable_def)
qed

lemma expire_one_active:
  "active_status (task_Status (expire_one now t)) \<Longrightarrow> expire_one now t = t \<and> \<not> expired (task_Deadline t) now"
  by (auto simp: expire_one_def active_status_def split: if_splits)

text \<open>A claimable task of the queue after expiry was stored unchanged before it.\<close>

lemma claimable_before_expiry:
  assumes "queue_inv q" and "map_of (q_tasks (expireOverdue now q)) k = Some t"
    and "claimable params (expireOverdue now q) t"
  shows "map_of (q_tasks q) k = Some t" and "\<not> expired (task_Deadline t) now"
proof -
  obtain t0 where t0: "map_of (q_tasks q) k = Some t0" "t = expire_one now t0"
    using assms(2) expireOverdue_tasks [OF assms(1)] by auto
  with expire_one_active activeness_of_claimable [OF assms(3)]
  have "t = t0 \<and> \<not> expired (task_Deadline t0) now" by metis
  with t0 show "map_of (q_tasks q) k = Some t" and "\<not> expired (task_Deadline t) now" by simp_all
qed

lemma claim_until_bounds:
  assumes "ClaimParams_Validate params = None" and "\<not> expired (task_Deadline t) (cp_Now params)"
  shows "cp_Now params < claim_until params t"
    and "claim_until params t \<le> cp_Now params + cp_LeaseDuration params"
    and "task_Deadline t = Some d \<Longrightarrow> claim_until params t \<le> d"
proof -
  have "0 < cp_LeaseDuration params"
    using assms(1) by (auto simp: ClaimParams_Validate_def split: if_splits)
  then show "cp_Now params < claim_until params t"
    and "claim_until params t \<le> cp_Now params + cp_LeaseDuration params"
    using assms(2) by (auto simp: claim_until_def Let_def split: option.splits)
  show "task_Deadline t = Some d \<Longrightarrow> claim_until params t \<le> d"
    by (simp add: claim_until_def Let_def)
qed

text \<open>Where the token of a lease comes from, step by step.\<close>

lemma finish_leases:
  assumes "finish ctx lease now f q = (r, q')" and "map_of (q_leases q') i = Some s"
  shows "map_of (q_leases q) i = Some s"
  using assms(1)
proof (cases rule: finish_cases)
  case 1
  with assms(2) show ?thesis by simp
next
  case (2 k t s' u)
  with assms(2) show ?thesis by (simp split: if_splits)
qed

lemma control_leases:
  assumes "controlFailedTask ctx key now f q = (r, q') \<or> controlSettledTask ctx key now f q = (r, q')"
    and "map_of (q_leases q') i = Some s"
  shows "map_of (q_leases q) i = Some s"
  using assms(1)
proof (cases rule: control_cases)
  case 1
  with assms(2) show ?thesis by simp
next
  case (2 t u)
  with assms(2) show ?thesis by (simp split: if_splits)
qed

definition claim_token :: "queue_event \<Rightarrow> string option" where
  "claim_token ev = (case ev of EvClaim _ _ (Inr bs) \<Rightarrow> Some (hex_EncodeToString bs) | _ \<Rightarrow> None)"

lemma Claim_leases:
  assumes "queue_inv q" and "Claim ctx params rand q = (r, q')" and "map_of (q_leases q') i = Some s"
  shows "map_of (q_leases q) i = Some s \<or> (\<exists>bs. rand = Inr bs \<and> ls_token s = hex_EncodeToString bs)"
proof (cases "\<exists>lease. r = Inr (Some lease)")
  case False
  then have "q' = q \<or> q' = expireOverdue (cp_Now params) q"
    using Claim_other [OF assms(2)] by blast
  with assms(3) expireOverdue_leases show ?thesis by blast
next
  case True
  then obtain lease where lease: "Claim ctx params rand q = (Inr (Some lease), q')"
    using assms(2) by blast
  obtain bs where bs: "rand = Inr bs" "lease_Token lease = hex_EncodeToString bs"
    using Claim_found(5) [OF lease] by blast
  show ?thesis
  proof (cases "i = task_ID (lease_Task lease)")
    case True
    have "map_of (q_leases q') i = Some \<lparr>ls_workerID = lease_WorkerID lease,
        ls_token = lease_Token lease, ls_until = lease_Until lease\<rparr>"
      unfolding Claim_found(7) [OF lease] True by simp
    from trans [OF assms(3) [symmetric] this] have "ls_token s = lease_Token lease" by simp
    with bs show ?thesis by simp
  next
    case False
    then have "map_of (q_leases (expireOverdue (cp_Now params) q)) i = Some s"
      using assms(3) unfolding Claim_found(7) [OF lease] by simp
    then show ?thesis using expireOverdue_leases by blast
  qed
qed

lemma Extend_leases:
  assumes "queue_inv q" and "Extend ctx lease now until q = (r, q')" and "map_of (q_leases q') i = Some s"
  shows "\<exists>s'. map_of (q_leases q) i = Some s' \<and> ls_token s' = ls_token s"
  using assms(2)
proof (cases rule: Extend_cases)
  case 1
  with assms(3) show ?thesis by simp
next
  case (2 k t s')
  with assms(3) activeLease_Inr(3) [OF assms(1) 2(2)] show ?thesis by (auto split: if_splits)
qed

lemma Cancel_leases: "CancelQueuedTask ctx key reason now q = (r, q') \<Longrightarrow> q_leases q' = q_leases q"
  by (erule Cancel_cases) simp_all

lemma Enqueue_leases: "Enqueue ctx t q = (r, q') \<Longrightarrow> q_leases q' = q_leases q"
  by (erule Enqueue_cases) simp_all

lemma queue_step_token:
  assumes "queue_step q ev q'" and "queue_inv q" and "map_of (q_leases q') i = Some s"
  shows "(\<exists>s'. map_of (q_leases q) i = Some s' \<and> ls_token s' = ls_token s)
    \<or> claim_token ev = Some (ls_token s)"
  using assms
proof (induction rule: queue_step.induct)
  case step_enqueue then show ?case using Enqueue_leases by metis
next
  case (step_claim ctx params rand q r q')
  then show ?case using Claim_leases [of q ctx params rand r q' i s] by (auto simp: claim_token_def)
next
  case step_extend then show ?case using Extend_leases by blast
next
  case step_complete then show ?case unfolding Complete_def using finish_leases by metis
next
  case step_retry then show ?case unfolding Retry_def using finish_leases by metis
next
  case step_fail then show ?case unfolding Fail_def using finish_leases by metis
next
  case step_restart then show ?case unfolding RestartFailedTask_def using control_leases by metis
next
  case step_dismiss then show ?case unfolding DismissFailedTask_def using control_leases by metis
next
  case step_requeue then show ?case unfolding RequeueTask_def using control_leases by metis
next
  case step_cancel then show ?case using Cancel_leases by metis
qed

lemma queue_run_token:
  assumes "queue_run q evs q'" and "queue_inv q"
    and "\<And>s. map_of (q_leases q) i = Some s \<Longrightarrow> ls_token s \<noteq> tok"
    and "Some tok \<notin> claim_token ` set evs"
  shows "map_of (q_leases q') i = Some s \<Longrightarrow> ls_token s \<noteq> tok"
  using assms
proof (induction arbitrary: s rule: queue_run.induct)
  case (run_refl q)
  then show ?case by blast
next
  case (run_step q ev q1 evs q2)
  have "ls_token s1 \<noteq> tok" if "map_of (q_leases q1) i = Some s1" for s1
    using queue_step_token [OF run_step.hyps(1) run_step.prems(2) that] run_step.prems(3,4) by force
  with run_step.IH run_step.prems queue_step_inv [OF run_step.hyps(1)] show ?case by auto
qed

text \<open>A stored task never disappears and never changes its identity.\<close>

lemma put_persist:
  assumes "map_of (q_tasks q) k = Some t" and "map_of (q_tasks q) k' = Some t'" and "same_identity t' u"
  shows "\<exists>v. map_of (AList.update k' u (q_tasks q)) k = Some v \<and> same_identity t v"
  using assms by (cases "k = k'") auto

lemma finish_persist:
  assumes "queue_inv q" and "finish ctx lease now f q = (r, q')"
    and "\<And>t u. f t = Inr u \<Longrightarrow> same_identity t u" and "map_of (q_tasks q) k = Some t"
  shows "\<exists>u. map_of (q_tasks q') k = Some u \<and> same_identity t u"
  using assms(2)
proof (cases rule: finish_cases)
  case 1
  with assms(4) show ?thesis by auto
next
  case (2 k' t' s u)
  with put_persist [OF assms(4) activeLease_Inr(1) [OF assms(1) 2(4)] assms(3) [OF 2(5)]]
  show ?thesis by simp
qed

lemma control_persist:
  assumes "controlFailedTask ctx key now f q = (r, q') \<or> controlSettledTask ctx key now f q = (r, q')"
    and "\<And>t u. f t = Inr u \<Longrightarrow> same_identity t u" and "map_of (q_tasks q) k = Some t"
  shows "\<exists>u. map_of (q_tasks q') k = Some u \<and> same_identity t u"
  using assms(1)
proof (cases rule: control_cases)
  case 1
  with assms(3) show ?thesis by auto
next
  case (2 t' u)
  with put_persist [OF assms(3) 2(2) assms(2) [OF 2(3)]] show ?thesis by simp
qed

lemma expire_persist:
  assumes "queue_inv q" and "map_of (q_tasks q) k = Some t"
  shows "\<exists>u. map_of (q_tasks (expireOverdue now q)) k = Some u \<and> same_identity t u"
  using assms by (simp add: expireOverdue_tasks)

lemma Claim_persist:
  assumes "queue_inv q" and "Claim ctx params rand q = (r, q')" and "map_of (q_tasks q) k = Some t"
  shows "\<exists>u. map_of (q_tasks q') k = Some u \<and> same_identity t u"
proof (cases "\<exists>lease. r = Inr (Some lease)")
  case False
  then have "q' = q \<or> q' = expireOverdue (cp_Now params) q"
    using Claim_other [OF assms(2)] by blast
  with assms(3) expire_persist [OF assms(1,3)] show ?thesis by auto
next
  case True
  then obtain lease where lease: "Claim ctx params rand q = (Inr (Some lease), q')"
    using assms(2) by blast
  obtain u where u: "map_of (q_tasks (expireOverdue (cp_Now params) q)) k = Some u" "same_identity t u"
    using expire_persist [OF assms(1,3)] by blast
  show ?thesis
    using put_persist [OF u(1) Claim_found_task(1) [OF assms(1) lease] claimed_task_identity]
      Claim_found(2,7) [OF lease] same_identity_trans [OF u(2)] by auto
qed

lemma queue_step_persist:
  assumes "queue_step q ev q'" and "queue_inv q" and "map_of (q_tasks q) k = Some t"
  shows "\<exists>u. map_of (q_tasks q') k = Some u \<and> same_identity t u"
  using assms
proof (induction rule: queue_step.induct)
  case (step_enqueue ctx task q r q')
  from step_enqueue(1) show ?case
    by (rule Enqueue_cases) (use step_enqueue(3) in auto)
next
  case step_claim then show ?case using Claim_persist by blast
next
  case (step_extend ctx lease now until q r q')
  from step_extend(1) show ?case
  proof (cases rule: Extend_cases)
    case 1
    with step_extend(3) show ?thesis by auto
  next
    case (2 k' t' s)
    have "same_identity t' (t'\<lparr>task_UpdatedAt := now\<rparr>)" by (simp add: same_identity_def)
    with put_persist [OF step_extend(3) activeLease_Inr(1) [OF step_extend(2) 2(2)]] 2(5)
    show ?thesis by simp
  qed
next
  case step_complete then show ?case
    unfolding Complete_def using finish_persist Task_op_identity(1) by blast
next
  case step_retry then show ?case
    unfolding Retry_def using finish_persist retry_update_identity by blast
next
  case step_fail then show ?case
    unfolding Fail_def using finish_persist Task_op_identity(3) by blast
next
  case (step_restart ctx key now q r q')
  have "same_identity t u" if "(if expired (task_Deadline t) now then Inl (ErrSentinel ErrTaskDeadlineExpired)
       else Task_RestartFailed now t) = Inr u" for t u
    using that Task_op_identity(5) by (simp split: if_splits)
  with step_restart show ?case unfolding RestartFailedTask_def using control_persist by blast
next
  case step_dismiss then show ?case
    unfolding DismissFailedTask_def using control_persist Task_op_identity(7) by blast
next
  case step_requeue then show ?case
    unfolding RequeueTask_def using control_persist Task_op_identity(4) by blast
next
  case (step_cancel ctx key reason now q r q')
  from step_cancel(1) show ?case
  proof (cases rule: Cancel_cases)
    case 1
    with step_cancel(3) show ?thesis by auto
  next
    case (2 t' u)
    with put_persist [OF step_cancel(3) 2(2) Task_op_identity(6) [OF 2(3)]] show ?thesis by simp
  qed
qed

lemma queue_run_persist:
  assumes "queue_run q evs q'" and "queue_inv q" and "map_of (q_tasks q) k = Some t"
  shows "\<exists>u. map_of (q_tasks q') k = Some u \<and> same_identity t u"
  using assms
proof (induction arbitrary: t rule: queue_run.induct)
  case (run_step q ev q1 evs q2)
  obtain u where u: "map_of (q_tasks q1) k = Some u" "same_identity t u"
    using queue_step_persist [OF run_step.hyps(1) run_step.prems] by blast
  obtain v where "map_of (q_tasks q2) k = Some v" "same_identity u v"
    using run_step.IH [OF queue_step_inv [OF run_step.hyps(1) run_step.prems(1)] u(1)] by blast
  with u(2) show ?case using same_identity_trans by blast
qed auto

text \<open>No step touches a completed task.\<close>

lemma finish_completed:
  assumes "queue_inv q" and "finish ctx lease now f q = (r, q')"
    and "map_of (q_tasks q) k = Some t" and "task_Status t = TaskCompleted"
  shows "map_of (q_tasks q') k = Some t"
  using assms(2)
proof (cases rule: finish_cases)
  case 1
  with assms(3) show ?thesis by simp
next
  case (2 k' t' s u)
  from activeLease_Inr(1,4) [OF assms(1) 2(4)] assms(3,4) have "k \<noteq> k'" by auto
  with 2(6) assms(3) show ?thesis by simp
qed

lemma control_completed:
  assumes "controlFailedTask ctx key now f q = (r, q') \<or> controlSettledTask ctx key now f q = (r, q')"
    and "map_of (q_tasks q) k = Some t" and "task_Status t = TaskCompleted"
  shows "map_of (q_tasks q') k = Some t"
  using assms(1)
proof (cases rule: control_cases)
  case 1
  with assms(2) show ?thesis by simp
next
  case (2 t' u)
  with assms(2,3) have "k \<noteq> key" by auto
  with 2(5) assms(2) show ?thesis by simp
qed

lemma Claim_completed:
  assumes "queue_inv q" and "Claim ctx params rand q = (r, q')"
    and "map_of (q_tasks q) k = Some t" and "task_Status t = TaskCompleted"
  shows "map_of (q_tasks q') k = Some t"
proof -
  have "expire_one now t = t" for now using assms(4) by (simp add: expire_one_def active_status_def)
  then have exp: "map_of (q_tasks (expireOverdue now q)) k = Some t" for now
    using assms(3) expireOverdue_tasks [OF assms(1)] by simp
  show ?thesis
  proof (cases "\<exists>lease. r = Inr (Some lease)")
    case False
    then have "q' = q \<or> q' = expireOverdue (cp_Now params) q"
      using Claim_other [OF assms(2)] by blast
    with assms(3) exp show ?thesis by auto
  next
    case True
    then obtain lease where lease: "Claim ctx params rand q = (Inr (Some lease), q')"
      using assms(2) by blast
    let ?c = "claim_selected params (expireOverdue (cp_Now params) q)"
    have "active_status (task_Status (cand_task ?c))"
      using activeness_of_claimable Claim_found_task(2) [OF assms(1) lease] by blast
    then have "k \<noteq> cand_key ?c"
      using Claim_found_task(1) [OF assms(1) lease] exp assms(4) by (auto simp: active_status_def)
    then show ?thesis using Claim_found(7) [OF lease] exp by simp
  qed
qed

lemma queue_step_completed:
  assumes "queue_step q ev q'" and "queue_inv q"
    and "map_of (q_tasks q) k = Some t" and "task_Status t = TaskCompleted"
  shows "map_of (q_tasks q') k = Some t"
  using assms
proof (induction rule: queue_step.induct)
  case (step_enqueue ctx task q r q')
  from step_enqueue(1) show ?case
    by (rule Enqueue_cases) (use step_enqueue(3) in auto)
next
  case step_claim then show ?case using Claim_completed by blast
next
  case (step_extend ctx lease now until q r q')
  from step_extend(1) show ?case
  proof (cases rule: Extend_cases)
    case 1
    with step_extend(3) show ?thesis by simp
  next
    case (2 k' t' s)
    from activeLease_Inr(1,4) [OF step_extend(2) 2(2)] step_extend(3,4) have "k \<noteq> k'" by auto
    with 2(5) step_extend(3) show ?thesis by simp
  qed
next
  case step_complete then show ?case unfolding Complete_def using finish_completed by blast
next
  case step_retry then show ?case unfolding Retry_def using finish_completed by blast
next
  case step_fail then show ?case unfolding Fail_def using finish_completed by blast
next
  case step_restart then show ?case unfolding RestartFailedTask_def using control_completed by blast
next
  case step_dismiss then show ?case unfolding DismissFailedTask_def using control_completed by blast
next
  case step_requeue then show ?case unfolding RequeueTask_def using control_completed by blast
next
  case (step_cancel ctx key reason now q r q')
  from step_cancel(1) show ?case
  proof (cases rule: Cancel_cases)
    case 1
    with step_cancel(3) show ?thesis by simp
  next
    case (2 t' u)
    with step_cancel(3,4) have "k \<noteq> key" by auto
    with 2(5) step_cancel(3) show ?thesis by simp
  qed
qed

lemma queue_run_completed:
  assumes "queue_run q evs q'" and "queue_inv q"
    and "map_of (q_tasks q) k = Some t" and "task_Status t = TaskCompleted"
  shows "map_of (q_tasks q') k = Some t"
  using assms
  by (induction rule: queue_run.induct) (auto dest: queue_step_completed queue_step_inv)

end
