(* ===== verification/Broker_Ready.thy ===== *)
theory Broker_Ready
  imports Broker_Facts
begin

text \<open>
  What a claim promises, stated over the stored tasks and leases alone, without the functions the
  broker computes it with: when a task is overdue, since when a task waits for a worker, when a
  profile's lane holds back its tasks, which tasks are therefore ready, and which of two ready
  tasks goes first. The lemmas connect these predicates to the scan of the code.
\<close>

section \<open>The contract of a claim\<close>

definition unfinished_task :: "Task \<Rightarrow> bool" where
  "unfinished_task t \<longleftrightarrow> task_Status t = TaskNew \<or> task_Status t = TaskProcessing
     \<or> task_Status t = TaskWaitingConfirmation \<or> task_Status t = TaskRetryScheduled"

definition past_deadline :: "time \<Rightarrow> Task \<Rightarrow> bool" where
  "past_deadline now t \<longleftrightarrow> (\<exists>d. task_Deadline t = Some d \<and> d \<le> now)"

text \<open>An unfinished_task task past its deadline counts as failed at the instant of the claim.\<close>

definition failed_by :: "time \<Rightarrow> Task \<Rightarrow> bool" where
  "failed_by now t \<longleftrightarrow> task_Status t = TaskFailed \<or> unfinished_task t \<and> past_deadline now t"

definition settled_by :: "time \<Rightarrow> Task \<Rightarrow> bool" where
  "settled_by now t \<longleftrightarrow> failed_by now t \<or> task_Status t = TaskCompleted \<or> task_Status t = TaskDismissed"

definition settled_at :: "time \<Rightarrow> Task \<Rightarrow> time" where
  "settled_at now t = (if unfinished_task t \<and> past_deadline now t then now else task_UpdatedAt t)"

definition stored_task :: "Queue \<Rightarrow> Task \<Rightarrow> bool" where
  "stored_task q t \<longleftrightarrow> (\<exists>k. map_of (q_tasks q) k = Some t)"

text \<open>A lane is held back by work in progress, or when what settled last in it is a failure.\<close>

definition lane_blocked :: "TaskType \<Rightarrow> ProfileID \<Rightarrow> time \<Rightarrow> Queue \<Rightarrow> bool" where
  "lane_blocked ty pid now q \<longleftrightarrow>
     (\<exists>t. stored_task q t \<and> of_lane ty pid t \<and> unfinished_task t \<and> \<not> past_deadline now t)
     \<or> (\<exists>t. stored_task q t \<and> of_lane ty pid t \<and> failed_by now t
          \<and> (\<forall>u. stored_task q u \<and> of_lane ty pid u \<and> settled_by now u \<longrightarrow>
               settled_at now u < settled_at now t
               \<or> settled_at now u = settled_at now t \<and> task_ID u \<le> task_ID t))"

text \<open>Since when a task waits: from its own instant, or from the end of the lease that ran out.\<close>

definition waiting_since :: "Queue \<Rightarrow> Task \<Rightarrow> time option" where
  "waiting_since q t =
     (case task_Status t of
        TaskNew \<Rightarrow> Some (task_AvailableAt t)
      | TaskRetryScheduled \<Rightarrow> Some (task_AvailableAt t)
      | TaskProcessing \<Rightarrow> map_option ls_until (map_of (q_leases q) (task_ID t))
      | _ \<Rightarrow> None)"

definition ready_task :: "ClaimParams \<Rightarrow> Queue \<Rightarrow> Task \<Rightarrow> bool" where
  "ready_task params q t \<longleftrightarrow>
     (cp_TaskType params = NoTaskType \<or> task_Type t = cp_TaskType params)
     \<and> \<not> past_deadline (cp_Now params) t
     \<and> (\<exists>since. waiting_since q t = Some since \<and> since \<le> cp_Now params)
     \<and> (cp_BlockedByTaskType params = NoTaskType
        \<or> \<not> lane_blocked (cp_BlockedByTaskType params) (task_ProfileID t) (cp_Now params) q)"

text \<open>The documented order: priority, then the longest wait, then age, then the id.\<close>

definition goes_first :: "Queue \<Rightarrow> Task \<Rightarrow> Task \<Rightarrow> bool" where
  "goes_first q t u \<longleftrightarrow>
     task_Priority t > task_Priority u
     \<or> task_Priority t = task_Priority u
       \<and> (the (waiting_since q t) < the (waiting_since q u)
          \<or> the (waiting_since q t) = the (waiting_since q u)
            \<and> (task_CreatedAt t < task_CreatedAt u
               \<or> task_CreatedAt t = task_CreatedAt u \<and> task_ID t \<le> task_ID u))"

section \<open>The scan of the code meets the contract\<close>

lemma unfinished_active: "unfinished_task t \<longleftrightarrow> active_status (task_Status t)"
  by (auto simp: unfinished_task_def active_status_def)

lemma past_deadline_expired: "past_deadline now t \<longleftrightarrow> expired (task_Deadline t) now"
  by (cases "task_Deadline t") (simp_all add: past_deadline_def)

lemma expire_one_seen:
  shows "active_status (task_Status (expire_one now t)) \<longleftrightarrow> unfinished_task t \<and> \<not> past_deadline now t"
    and "task_Status (expire_one now t) = TaskFailed \<longleftrightarrow> failed_by now t"
    and "terminal_status (task_Status (expire_one now t)) \<longleftrightarrow> settled_by now t"
    and "task_UpdatedAt (expire_one now t) = settled_at now t"
    and "of_lane ty pid (expire_one now t) \<longleftrightarrow> of_lane ty pid t"
proof -
  show "active_status (task_Status (expire_one now t)) \<longleftrightarrow> unfinished_task t \<and> \<not> past_deadline now t"
    by (auto simp: expire_one_def unfinished_active past_deadline_expired active_status_def)
  show "task_Status (expire_one now t) = TaskFailed \<longleftrightarrow> failed_by now t"
    by (auto simp: expire_one_def failed_by_def unfinished_active past_deadline_expired)
  show "terminal_status (task_Status (expire_one now t)) \<longleftrightarrow> settled_by now t"
    by (auto simp: expire_one_def settled_by_def failed_by_def unfinished_active past_deadline_expired
        terminal_status_def active_status_def)
  show "task_UpdatedAt (expire_one now t) = settled_at now t"
    by (simp add: expire_one_def settled_at_def unfinished_active past_deadline_expired)
  show "of_lane ty pid (expire_one now t) \<longleftrightarrow> of_lane ty pid t"
    by (simp add: expire_one_def of_lane_def)
qed

lemma stored_after_expiry:
  assumes "queue_inv q"
  shows "(\<exists>k. map_of (q_tasks (expireOverdue now q)) k = Some t) \<longleftrightarrow> (\<exists>u. stored_task q u \<and> t = expire_one now u)"
  unfolding stored_task_def expireOverdue_tasks [OF assms] by auto

lemma lane_settled_iff:
  assumes "queue_inv q"
  shows "t \<in> lane_settled ty pid (q_tasks q) \<longleftrightarrow>
    (\<exists>k. map_of (q_tasks q) k = Some t) \<and> of_lane ty pid t \<and> terminal_status (task_Status t)"
proof -
  have "t \<in> snd ` set (q_tasks q) \<longleftrightarrow> (\<exists>k. (k, t) \<in> set (q_tasks q))" by force
  then show ?thesis by (simp add: lane_settled_def queue_inv_in_tasks [OF assms])
qed

lemma lane_settled_seen:
  assumes "queue_inv q"
  shows "lane_settled ty pid (q_tasks (expireOverdue now q)) =
    expire_one now ` {u. stored_task q u \<and> of_lane ty pid u \<and> settled_by now u}"
proof (rule set_eqI)
  fix t
  show "t \<in> lane_settled ty pid (q_tasks (expireOverdue now q)) \<longleftrightarrow>
    t \<in> expire_one now ` {u. stored_task q u \<and> of_lane ty pid u \<and> settled_by now u}"
    unfolding lane_settled_iff [OF expireOverdue_inv [OF assms]] stored_after_expiry [OF assms]
    using expire_one_seen(3,5) by auto
qed

lemma not_newer_seen:
  "\<not> newer_task (expire_one now u) (expire_one now t) \<longleftrightarrow>
     settled_at now u < settled_at now t
     \<or> settled_at now u = settled_at now t \<and> task_ID u \<le> task_ID t"
  by (auto simp: newer_task_def expire_one_seen(4))

lemma lane_blocked_iff:
  assumes "queue_inv q"
  shows "hasBlockingTask ty pid (expireOverdue now q) \<longleftrightarrow> lane_blocked ty pid now q"
proof -
  have "latest_failed (lane_settled ty pid (q_tasks (expireOverdue now q))) \<longleftrightarrow>
     (\<exists>t. stored_task q t \<and> of_lane ty pid t \<and> failed_by now t
        \<and> (\<forall>u. stored_task q u \<and> of_lane ty pid u \<and> settled_by now u \<longrightarrow>
             \<not> newer_task (expire_one now u) (expire_one now t)))"
    unfolding latest_failed_def lane_settled_seen [OF assms] bex_simps(7) ball_simps(9)
    using expire_one_seen(2) [of now] settled_by_def by auto
  moreover have "(\<exists>k t. map_of (q_tasks (expireOverdue now q)) k = Some t \<and> of_lane ty pid t
       \<and> active_status (task_Status t)) \<longleftrightarrow>
     (\<exists>t. stored_task q t \<and> of_lane ty pid t \<and> unfinished_task t \<and> \<not> past_deadline now t)"
    using stored_after_expiry [OF assms] expire_one_seen(1,5) by metis
  ultimately show ?thesis
    unfolding hasBlockingTask_iff [OF expireOverdue_inv [OF assms]] lane_blocked_def not_newer_seen by blast
qed

text \<open>A stored task that is not overdue is seen as it is, with its own lease.\<close>

lemma eligible_waiting:
  assumes "queue_inv q" and "map_of (q_tasks q) k = Some t" and "\<not> past_deadline now t"
  shows "map_of (q_tasks (expireOverdue now q)) k = Some t"
    and "snd (eligibleAt t now (expireOverdue now q)) \<longleftrightarrow> (\<exists>a. waiting_since q t = Some a \<and> a \<le> now)"
    and "snd (eligibleAt t now (expireOverdue now q)) \<Longrightarrow>
      waiting_since q t = Some (fst (eligibleAt t now (expireOverdue now q)))"
proof -
  show t1: "map_of (q_tasks (expireOverdue now q)) k = Some t"
    using assms by (simp add: expireOverdue_tasks expire_one_def past_deadline_expired)
  have lease: "\<exists>s. map_of (q_leases q) (task_ID t) = Some s
      \<and> map_of (q_leases (expireOverdue now q)) (task_ID t) = Some s" if "task_Status t = TaskProcessing"
    using expireOverdue_lease_of(2) [OF assms(1) t1 that] queue_inv_task(4) [OF assms(1,2)] that by auto
  show "snd (eligibleAt t now (expireOverdue now q)) \<longleftrightarrow> (\<exists>a. waiting_since q t = Some a \<and> a \<le> now)"
    using lease by (cases "task_Status t") (auto simp: eligibleAt_def waiting_since_def split: if_splits)
  show "snd (eligibleAt t now (expireOverdue now q)) \<Longrightarrow>
      waiting_since q t = Some (fst (eligibleAt t now (expireOverdue now q)))"
    using lease by (cases "task_Status t") (auto simp: eligibleAt_def waiting_since_def split: if_splits)
qed

lemma claimable_ready:
  assumes "queue_inv q"
  shows "map_of (q_tasks (expireOverdue (cp_Now params) q)) k = Some t
      \<and> claimable params (expireOverdue (cp_Now params) q) t
    \<longleftrightarrow> map_of (q_tasks q) k = Some t \<and> ready_task params q t"
proof
  assume l: "map_of (q_tasks (expireOverdue (cp_Now params) q)) k = Some t
      \<and> claimable params (expireOverdue (cp_Now params) q) t"
  then have t: "map_of (q_tasks q) k = Some t" "\<not> past_deadline (cp_Now params) t"
    using claimable_before_expiry [OF assms] by (auto simp: past_deadline_expired)
  with l show "map_of (q_tasks q) k = Some t \<and> ready_task params q t"
    by (simp add: ready_task_def claimable_def lane_blocked_iff [OF assms] eligible_waiting(2) [OF assms t])
next
  assume r: "map_of (q_tasks q) k = Some t \<and> ready_task params q t"
  then have t: "map_of (q_tasks q) k = Some t" "\<not> past_deadline (cp_Now params) t"
    by (simp_all add: ready_task_def)
  with r show "map_of (q_tasks (expireOverdue (cp_Now params) q)) k = Some t
      \<and> claimable params (expireOverdue (cp_Now params) q) t"
    by (simp add: ready_task_def claimable_def lane_blocked_iff [OF assms] eligible_waiting [OF assms t])
qed

lemma ready_waiting:
  assumes "queue_inv q" and "map_of (q_tasks q) k = Some t" and "ready_task params q t"
  shows "the (waiting_since q t) = fst (eligibleAt t (cp_Now params) (expireOverdue (cp_Now params) q))"
proof -
  from assms(3) have "\<not> past_deadline (cp_Now params) t"
    and "\<exists>a. waiting_since q t = Some a \<and> a \<le> cp_Now params" by (simp_all add: ready_task_def)
  with eligible_waiting(2,3) [OF assms(1,2)] show ?thesis by auto
qed

text \<open>The task that was stored and is now leased, and the others that were ready.\<close>

lemma Claim_takes_ready:
  assumes "queue_inv q" and "Claim ctx params rand q = (Inr (Some lease), q')"
  obtains k t where "map_of (q_tasks q) k = Some t" and "ready_task params q t"
    and "lease_Task lease = claimed_task (cp_Now params) t"
    and "lease_Until lease = claim_until params t"
    and "q' = (expireOverdue (cp_Now params) q)\<lparr>
        q_tasks := AList.update k (lease_Task lease) (q_tasks (expireOverdue (cp_Now params) q)),
        q_leases := AList.update (task_ID t) \<lparr>ls_workerID = cp_WorkerID params,
          ls_token = lease_Token lease, ls_until = lease_Until lease\<rparr>
          (q_leases (expireOverdue (cp_Now params) q))\<rparr>"
    and "\<And>k' u. map_of (q_tasks q) k' = Some u \<Longrightarrow> ready_task params q u \<Longrightarrow> goes_first q t u"
proof -
  let ?q1 = "expireOverdue (cp_Now params) q"
  let ?c = "claim_selected params ?q1"
  note found = Claim_found [OF assms(2)] and task = Claim_found_task [OF assms]
  have inv1: "queue_inv ?q1" by (rule expireOverdue_inv [OF assms(1)])
  from claimable_ready [OF assms(1)] task(1,2)
  have t: "map_of (q_tasks q) (cand_key ?c) = Some (cand_task ?c)" "ready_task params q (cand_task ?c)" by blast+
  have avail: "cand_available ?c = the (waiting_since q (cand_task ?c))"
    using claim_candidatesD(3) [OF inv1 claim_selected_in [OF found(1)]] ready_waiting [OF assms(1) t] by simp
  show thesis
  proof (rule that [OF t found(2,4)])
    show "q' = ?q1\<lparr>
        q_tasks := AList.update (cand_key ?c) (lease_Task lease) (q_tasks ?q1),
        q_leases := AList.update (task_ID (cand_task ?c)) \<lparr>ls_workerID = cp_WorkerID params,
          ls_token = lease_Token lease, ls_until = lease_Until lease\<rparr> (q_leases ?q1)\<rparr>"
      using found(3,7) task(3) by simp
    fix k' u
    assume u: "map_of (q_tasks q) k' = Some u" "ready_task params q u"
    with claimable_ready [OF assms(1)]
    have "map_of (q_tasks ?q1) k' = Some u" "claimable params ?q1 u" by blast+
    from claim_selected_least [OF claim_candidatesI [OF inv1 this]] avail ready_waiting [OF assms(1) u]
    show "goes_first q (cand_task ?c) u"
      by (auto simp: candidate_less_def goes_first_def split: if_splits)
  qed
qed

text \<open>A lease the queue accepts is the recorded one.\<close>

lemma activeLease_recorded:
  assumes "queue_inv q" and "map_of (q_tasks q) k = Some t" and "task_Status t = TaskProcessing"
    and "map_of (q_leases q) (task_ID t) = Some s" and "task_ID (lease_Task lease) = task_ID t"
  shows "activeLease lease now q =
    (if lease_WorkerID lease = ls_workerID s \<and> lease_Token lease = ls_token s
        \<and> now < ls_until s \<and> \<not> past_deadline now t
     then Inr (k, t, s) else Inl (ErrSentinel ErrLeaseLost))"
  using assms(2-5) queue_inv_task(3) [OF assms(1,2)]
  by (auto simp: activeLease_def Let_def past_deadline_expired)

end
