(* ===== verification/Broker_Props.thy ===== *)
theory Broker_Props
  imports Broker_Ready
begin

text \<open>
  The properties of the task queue: what a claim may return and in which order, that the result
  does not depend on the order in which Go visits a map, that a stale lease can change nothing,
  that enqueueing deduplicates for ever, that a completed task is final, and that deadlines and
  pacing waits do what they promise.
\<close>

lemma claim_candidates_nonempty:
  assumes "queue_inv q"
  shows "claim_candidates params q \<noteq> [] \<longleftrightarrow> (\<exists>k t. map_of (q_tasks q) k = Some t \<and> claimable params q t)"
proof
  assume "claim_candidates params q \<noteq> []"
  then obtain c where "c \<in> set (claim_candidates params q)" using hd_in_set by blast
  from claim_candidatesD(1,2) [OF assms this]
  show "\<exists>k t. map_of (q_tasks q) k = Some t \<and> claimable params q t" by (intro exI conjI)
next
  assume "\<exists>k t. map_of (q_tasks q) k = Some t \<and> claimable params q t"
  then obtain k t where "map_of (q_tasks q) k = Some t" "claimable params q t" by (elim exE conjE)
  from claim_candidatesI [OF assms this] show "claim_candidates params q \<noteq> []" by auto
qed

lemma failed_terminal: "task_Status t = TaskFailed \<Longrightarrow> terminal_status (task_Status t)"
  by (simp add: terminal_status_def)

section \<open>Samples\<close>

definition sample_claim :: "time \<Rightarrow> ClaimParams" where
  "sample_claim now = \<lparr>cp_WorkerID = ''w1'', cp_TaskType = TaskApplicationSubmit,
     cp_BlockedByTaskType = NoTaskType, cp_Now = now, cp_LeaseDuration = 60\<rparr>"

definition sample_lease :: TaskLease where
  "sample_lease = \<lparr>lease_Task = claimed_task 120 sample_task, lease_WorkerID = ''w1'',
     lease_Token = ''01'', lease_Until = 180\<rparr>"

definition sample_queue :: Queue where
  "sample_queue = \<lparr>q_tasks = [(''k1'', sample_task)], q_taskKeys = [(''t1'', ''k1'')], q_leases = []\<rparr>"

definition sample_leased :: Queue where
  "sample_leased = \<lparr>q_tasks = [(''k1'', claimed_task 120 sample_task)], q_taskKeys = [(''t1'', ''k1'')],
     q_leases = [(''t1'', \<lparr>ls_workerID = ''w1'', ls_token = ''01'', ls_until = 180\<rparr>)]\<rparr>"

lemma sample_enqueue: "Enqueue None sample_task NewQueue = (Inr True, sample_queue)"
  by (simp add: Enqueue_def NewQueue_def sample_task_def sample_queue_def NoTaskType_def validators
      TaskPriorityMin_def TaskPriorityMax_def)

lemma sample_token: "hex_EncodeToString [1] = ''01''"
  by code_simp

lemma sample_claimed:
  "Claim None (sample_claim 120) (Inr [1]) sample_queue = (Inr (Some sample_lease), sample_leased)"
  by (simp add: Claim_def sample_queue_def sample_claim_def sample_lease_def sample_leased_def sample_task_def
      ClaimParams_Validate_def NoTaskType_def Let_def expireOverdue_def expire_task_def claim_candidates_def
      claim_candidate_def List.map_filter_def eligibleAt_def sort_Slice_def randomToken_def
      sample_token claim_until_def leaseFrom_def claimed_task_def)

lemma sample_run: "queue_run NewQueue [EvEnqueue None sample_task] sample_queue"
  by (rule queue_run.run_step [OF queue_step.step_enqueue [OF sample_enqueue] queue_run.run_refl])

lemma sample_run_leased:
  "queue_run NewQueue [EvEnqueue None sample_task, EvClaim None (sample_claim 120) (Inr [1])] sample_leased"
  by (rule queue_run.run_step [OF queue_step.step_enqueue [OF sample_enqueue]
        queue_run.run_step [OF queue_step.step_claim [OF sample_claimed] queue_run.run_refl]])

lemma sample_inv: "queue_inv sample_queue" and sample_leased_inv: "queue_inv sample_leased"
  using queue_run_inv [OF sample_run NewQueue_inv] queue_run_inv [OF sample_run_leased NewQueue_inv]
  by simp_all

section \<open>Properties\<close>

text \<open>
  C11. In every queue that any sequence of operations (with any arguments, leases and instants,
  failing or not) can reach from the empty one, the three maps agree: ids and idempotency keys
  are in bijection, a lease exists exactly for a processing task, stored payloads and priorities
  are valid, no task is waiting for confirmation, and a failed, dismissed or parked task carries
  its failure.
\<close>

theorem queue_maps_agree:
  assumes "queue_run NewQueue evs q"
  shows "queue_inv q"
  by (rule queue_run_inv [OF assms NewQueue_inv])

theorem queue_maps_agree_witness: "queue_inv sample_leased"
  by (rule queue_maps_agree [OF sample_run_leased])

text \<open>
  C1. What a claim does. The task it returns was stored and ready: of the requested type, in a
  lane that is not held back, its deadline not passed, and either due (new or parked with its
  instant reached) or processing under a lease that has run out, so no task under a live lease is
  ever handed out again. The lease is for the claiming worker, ends after now, and not after the
  deadline or the requested duration. In the queue left behind the task is stored as processing
  with one more attempt, the lease is accepted until it ends, and no lease of another worker or
  with another token is accepted for that task at any instant. Every other task is left as it
  was, except that overdue unfinished ones are failed.
\<close>

theorem claim_safe:
  assumes "queue_inv q" and "Claim ctx params rand q = (Inr (Some lease), q')"
  shows "\<exists>k t. map_of (q_tasks q) k = Some t \<and> ready_task params q t
    \<and> lease_Task lease = claimed_task (cp_Now params) t
    \<and> lease_WorkerID lease = cp_WorkerID params \<and> cp_Now params < lease_Until lease
    \<and> lease_Until lease \<le> cp_Now params + cp_LeaseDuration params
    \<and> (\<forall>d. task_Deadline t = Some d \<longrightarrow> lease_Until lease \<le> d)
    \<and> map_of (q_tasks q') k = Some (lease_Task lease)
    \<and> (\<forall>n. cp_Now params \<le> n \<and> n < lease_Until lease \<longrightarrow>
         activeLease lease n q' = Inr (k, lease_Task lease, \<lparr>ls_workerID = lease_WorkerID lease,
           ls_token = lease_Token lease, ls_until = lease_Until lease\<rparr>))
    \<and> (\<forall>other n r. task_ID (lease_Task other) = task_ID t \<and> activeLease other n q' = Inr r \<longrightarrow>
         lease_WorkerID other = lease_WorkerID lease \<and> lease_Token other = lease_Token lease
         \<and> n < lease_Until lease)
    \<and> (\<forall>k'. k' \<noteq> k \<longrightarrow>
         map_of (q_tasks q') k' = map_option (expire_one (cp_Now params)) (map_of (q_tasks q) k'))"
proof -
  obtain k t where t: "map_of (q_tasks q) k = Some t" "ready_task params q t"
      "lease_Task lease = claimed_task (cp_Now params) t" "lease_Until lease = claim_until params t"
    and q': "q' = (expireOverdue (cp_Now params) q)\<lparr>
        q_tasks := AList.update k (lease_Task lease) (q_tasks (expireOverdue (cp_Now params) q)),
        q_leases := AList.update (task_ID t) \<lparr>ls_workerID = cp_WorkerID params,
          ls_token = lease_Token lease, ls_until = lease_Until lease\<rparr>
          (q_leases (expireOverdue (cp_Now params) q))\<rparr>"
    using Claim_takes_ready [OF assms] by blast
  note found = Claim_found(3,6) [OF assms(2)]
  have "\<not> expired (task_Deadline t) (cp_Now params)"
    using t(2) by (simp add: ready_task_def past_deadline_expired)
  note bounds = claim_until_bounds [OF found(2) this, folded t(4)]
  have leased: "map_of (q_tasks q') k = Some (lease_Task lease)"
      "task_Status (lease_Task lease) = TaskProcessing" "task_ID (lease_Task lease) = task_ID t"
      "map_of (q_leases q') (task_ID (lease_Task lease)) = Some \<lparr>ls_workerID = lease_WorkerID lease,
          ls_token = lease_Token lease, ls_until = lease_Until lease\<rparr>"
    using found(1) by (simp_all add: q' t(3) claimed_task_def)
  note active = activeLease_recorded [OF Claim_inv [OF assms] leased(1,2,4)]
  have "activeLease lease n q' = Inr (k, lease_Task lease, \<lparr>ls_workerID = lease_WorkerID lease,
      ls_token = lease_Token lease, ls_until = lease_Until lease\<rparr>)" if "n < lease_Until lease" for n
    using that bounds(3) active [OF refl]
    by (fastforce simp: past_deadline_def t(3) claimed_task_def)
  moreover have "lease_WorkerID other = lease_WorkerID lease \<and> lease_Token other = lease_Token lease
      \<and> n < lease_Until lease"
    if "task_ID (lease_Task other) = task_ID t" "activeLease other n q' = Inr r" for other n r
    using that active [of other n] leased(3) by (simp split: if_splits)
  moreover have "map_of (q_tasks q') k' = map_option (expire_one (cp_Now params)) (map_of (q_tasks q) k')"
    if "k' \<noteq> k" for k'
    using that by (simp add: q' expireOverdue_tasks [OF assms(1)])
  ultimately show ?thesis using t(1-3) found(1) bounds leased(1) by blast
qed

theorem claim_safe_witness:
  "\<exists>k t. map_of (q_tasks sample_queue) k = Some t \<and> lease_Task sample_lease = claimed_task 120 t
    \<and> map_of (q_tasks sample_leased) k = Some (lease_Task sample_lease)"
  using claim_safe [OF sample_inv sample_claimed] by (auto simp: sample_claim_def)

text \<open>
  C6. Which of the ready tasks a claim takes: the stored task that goes first in the documented
  order. It is ready, the lease carries it, and no other ready task of the queue has a higher
  priority; with equal priority none waits for longer (since its instant, or since its lease ran
  out); then none was created earlier; then none has a smaller id.
\<close>

theorem claim_order:
  assumes "queue_inv q" and "Claim ctx params rand q = (Inr (Some lease), q')"
  shows "\<exists>k t. map_of (q_tasks q) k = Some t \<and> ready_task params q t
    \<and> lease_Task lease = claimed_task (cp_Now params) t
    \<and> map_of (q_tasks q') k = Some (claimed_task (cp_Now params) t)
    \<and> (\<forall>k' u. map_of (q_tasks q) k' = Some u \<and> ready_task params q u \<longrightarrow> goes_first q t u)"
  using assms
proof (rule Claim_takes_ready)
  fix k t
  assume t: "map_of (q_tasks q) k = Some t" "ready_task params q t"
      "lease_Task lease = claimed_task (cp_Now params) t"
    and q': "q' = (expireOverdue (cp_Now params) q)\<lparr>
        q_tasks := AList.update k (lease_Task lease) (q_tasks (expireOverdue (cp_Now params) q)),
        q_leases := AList.update (task_ID t) \<lparr>ls_workerID = cp_WorkerID params,
          ls_token = lease_Token lease, ls_until = lease_Until lease\<rparr>
          (q_leases (expireOverdue (cp_Now params) q))\<rparr>"
    and first: "\<And>k' u. map_of (q_tasks q) k' = Some u \<Longrightarrow> ready_task params q u \<Longrightarrow> goes_first q t u"
  have "map_of (q_tasks q') k = Some (claimed_task (cp_Now params) t)" by (simp add: q' t(3))
  with t first show ?thesis by blast
qed

theorem claim_order_witness:
  "\<exists>k t. map_of (q_tasks sample_queue) k = Some t \<and> ready_task (sample_claim 120) sample_queue t
    \<and> lease_Task sample_lease = claimed_task 120 t"
  using claim_order [OF sample_inv sample_claimed] by (auto simp: sample_claim_def)

text \<open>
  C7. A claim finds work exactly when there is some: with a live context, valid parameters and
  random bytes at hand it never fails, it returns a lease if some stored task is ready (due at
  the instant of the claim or before, or its lease over by then; not overdue; its lane not held
  back), and no lease if none is.
\<close>

theorem claim_complete:
  assumes "queue_inv q" and "ClaimParams_Validate params = None"
  shows "((\<exists>lease. fst (Claim None params (Inr bs) q) = Inr (Some lease))
      \<longleftrightarrow> (\<exists>t. stored_task q t \<and> ready_task params q t))
    \<and> is_ok (fst (Claim None params (Inr bs) q))"
proof -
  let ?q1 = "expireOverdue (cp_Now params) q"
  have found: "claim_candidates params ?q1 \<noteq> [] \<longleftrightarrow> (\<exists>t. stored_task q t \<and> ready_task params q t)"
    unfolding claim_candidates_nonempty [OF expireOverdue_inv [OF assms(1)]] claimable_ready [OF assms(1)]
    by (auto simp: stored_task_def)
  show ?thesis
    using assms(2) unfolding found [symmetric] by (simp_all add: Claim_unfold randomToken_def Let_def)
qed

theorem claim_complete_witness: "is_ok (fst (Claim None (sample_claim 120) (Inr [1]) sample_queue))"
  by (rule claim_complete [OF sample_inv, THEN conjunct2])
    (simp add: sample_claim_def ClaimParams_Validate_def NoTaskType_def)

text \<open>
  The order in which Go visits its maps does not matter: on two queues with the same
  contents, in any order of their entries, a claim returns the same result and leaves the same
  contents.
\<close>

theorem claim_order_independent:
  assumes "queue_inv p" and "queue_inv q" and "same_contents p q"
  shows "fst (Claim ctx params rand p) = fst (Claim ctx params rand q)
    \<and> same_contents (snd (Claim ctx params rand p)) (snd (Claim ctx params rand q))"
  by (rule Claim_same_contents [OF assms])

theorem claim_order_independent_witness:
  "fst (Claim None (sample_claim 120) (Inr [1]) sample_queue) = Inr (Some sample_lease)"
  using claim_order_independent [OF sample_inv sample_inv, of None "sample_claim 120" "Inr [1]"]
    sample_claimed by (simp add: same_contents_def)

text \<open>
  C39. A stale lease is powerless: once the lease recorded for a task does not carry a worker's
  token any more (it was settled, expired, or taken over), then as long as no claim draws that
  token again, completing, retrying, failing or extending with the old lease fails and changes
  nothing, whatever happened in between and whatever instant the worker believes it is.
\<close>

theorem stale_lease_rejected:
  assumes "queue_inv q" and "queue_run q evs q'"
    and "\<forall>s. map_of (q_leases q) (task_ID (lease_Task lease)) = Some s \<longrightarrow> ls_token s \<noteq> lease_Token lease"
    and "Some (lease_Token lease) \<notin> claim_token ` set evs"
  shows "(\<exists>e. Complete ctx lease now q' = (Some e, q'))
    \<and> (\<exists>e. Retry ctx lease oe retryAt now q' = (Some e, q'))
    \<and> (\<exists>e. Fail ctx lease oe now q' = (Some e, q'))
    \<and> (\<exists>e. Extend ctx lease now until q' = (Inl e, q'))"
proof (intro conjI)
  have inv: "queue_inv q'" by (rule queue_run_inv [OF assms(2,1)])
  have lost: "activeLease lease now q' \<noteq> Inr r" for r
  proof
    assume act: "activeLease lease now q' = Inr r"
    obtain k t s where r: "r = (k, t, s)" by (cases r)
    note a = activeLease_Inr [OF inv act [unfolded r]]
    from a(2,3) have "map_of (q_leases q') (task_ID (lease_Task lease)) = Some s" by simp
    from queue_run_token [OF assms(2,1) _ assms(4) this] assms(3) a(5) show False by blast
  qed
  have fin: "\<exists>e. finish ctx lease now f q' = (Some e, q')" for f
  proof -
    obtain r q'' where eq: "finish ctx lease now f q' = (r, q'')" by (cases "finish ctx lease now f q'")
    then show ?thesis
      by (cases rule: finish_cases) (simp_all add: eq lost)
  qed
  show "\<exists>e. Complete ctx lease now q' = (Some e, q')" unfolding Complete_def by (rule fin)
  show "\<exists>e. Retry ctx lease oe retryAt now q' = (Some e, q')" unfolding Retry_def by (rule fin)
  show "\<exists>e. Fail ctx lease oe now q' = (Some e, q')" unfolding Fail_def by (rule fin)
  show "\<exists>e. Extend ctx lease now until q' = (Inl e, q')"
  proof -
    obtain r q'' where eq: "Extend ctx lease now until q' = (r, q'')" by (cases "Extend ctx lease now until q'")
    then show ?thesis
      by (cases rule: Extend_cases) (simp_all add: eq lost)
  qed
qed

definition sample_reclaimed :: Queue where
  "sample_reclaimed = \<lparr>q_tasks = [(''k1'', claimed_task 200 (claimed_task 120 sample_task))],
     q_taskKeys = [(''t1'', ''k1'')],
     q_leases = [(''t1'', \<lparr>ls_workerID = ''w1'', ls_token = ''02'', ls_until = 260\<rparr>)]\<rparr>"

lemma sample_token2: "hex_EncodeToString [2] = ''02''"
  by code_simp

lemma sample_reclaim:
  "snd (Claim None (sample_claim 200) (Inr [2]) sample_leased) = sample_reclaimed"
  by (simp add: Claim_def sample_leased_def sample_claim_def sample_reclaimed_def sample_task_def
      ClaimParams_Validate_def NoTaskType_def Let_def expireOverdue_def expire_task_def claim_candidates_def
      claim_candidate_def List.map_filter_def eligibleAt_def sort_Slice_def randomToken_def
      sample_token2 claim_until_def leaseFrom_def claimed_task_def)

lemma sample_reclaimed_inv: "queue_inv sample_reclaimed"
  using Claim_inv [OF sample_leased_inv, of None "sample_claim 200" "Inr [2]"] sample_reclaim
  by (metis prod.collapse)

theorem stale_lease_rejected_witness: "\<exists>e. Complete None sample_lease 170 sample_reclaimed = (Some e, sample_reclaimed)"
  by (rule stale_lease_rejected [OF sample_reclaimed_inv queue_run.run_refl, THEN conjunct1])
    (simp_all add: sample_reclaimed_def sample_lease_def sample_task_def)

text \<open>
  Enqueueing deduplicates for ever: after a command was accepted, and whatever the workers
  and operators did since, enqueueing the same command again (same key, type, platform, profile
  and payload, under any id) is acknowledged without effect, and a different command under that
  key is refused.
\<close>

theorem enqueue_idempotent:
  assumes "queue_inv q" and "Enqueue ctx t q = (Inr True, q1)" and "queue_run q1 evs q2"
    and "task_IdempotencyKey u = task_IdempotencyKey t"
    and "task_ID u \<noteq> []" and "task_Type u \<noteq> NoTaskType" and "task_CorrelationID u \<noteq> []"
    and "task_Status u = TaskNew" and "json_Valid (task_Payload u)"
    and "TaskPriority_Validate (task_Priority u) = None"
  shows "Enqueue None u q2 =
    (if task_Type u = task_Type t \<and> task_Platform u = task_Platform t
        \<and> task_ProfileID u = task_ProfileID t \<and> task_Payload u = task_Payload t
     then Inr False
     else Inl (Err ''task idempotency key conflicts with a different command''), q2)"
proof -
  have "map_of (q_tasks q1) (task_IdempotencyKey t) = Some t" and key: "task_IdempotencyKey t \<noteq> []"
    using assms(2) by (auto simp: Enqueue_def split: option.splits if_splits)
  then obtain v where v: "map_of (q_tasks q2) (task_IdempotencyKey t) = Some v" "same_identity t v"
    using queue_run_persist [OF assms(3) Enqueue_inv [OF assms(1,2)]] by blast
  have "task_Payload u \<noteq> []" using assms(9) by auto
  with v key assms(4-10) show ?thesis
    by (auto simp: Enqueue_def same_identity_def)
qed

theorem enqueue_idempotent_witness:
  "Enqueue None (sample_task\<lparr>task_ID := ''t9''\<rparr>) sample_leased = (Inr False, sample_leased)"
proof -
  have "queue_run sample_queue [EvClaim None (sample_claim 120) (Inr [1])] sample_leased"
    by (rule queue_run.run_step [OF queue_step.step_claim [OF sample_claimed] queue_run.run_refl])
  from enqueue_idempotent [OF NewQueue_inv sample_enqueue this, of "sample_task\<lparr>task_ID := ''t9''\<rparr>"]
  show ?thesis
    by (simp add: sample_task_def NoTaskType_def validators TaskPriorityMin_def TaskPriorityMax_def)
qed

text \<open>
  Completion is final in the queue: no sequence of claims, lease operations, expiries and
  operator commands changes the record of a completed task.
\<close>

theorem queue_completed_final:
  assumes "queue_inv q" and "queue_run q evs q'"
    and "map_of (q_tasks q) k = Some t" and "task_Status t = TaskCompleted"
  shows "map_of (q_tasks q') k = Some t"
  by (rule queue_run_completed [OF assms(2,1,3,4)])

definition sample_done :: Task where
  "sample_done = (claimed_task 120 sample_task)\<lparr>task_Status := TaskCompleted, task_UpdatedAt := 130\<rparr>"

definition sample_completed :: Queue where
  "sample_completed = \<lparr>q_tasks = [(''k1'', sample_done)], q_taskKeys = [(''t1'', ''k1'')], q_leases = []\<rparr>"

lemma sample_complete: "Complete None sample_lease 130 sample_leased = (None, sample_completed)"
  by (simp add: Complete_def finish_def validateLeaseInput_def activeLease_def Task_Transition_def
      sample_lease_def sample_leased_def sample_completed_def sample_done_def sample_task_def
      claimed_task_def Let_def)

theorem queue_completed_final_witness:
  "map_of (q_tasks (snd (RequeueTask None ''k1'' 300 sample_completed))) ''k1'' = Some sample_done"
proof -
  have "queue_inv sample_completed"
    using queue_step_inv [OF queue_step.step_complete [OF sample_complete] sample_leased_inv] .
  moreover have "queue_run sample_completed [EvRequeue None ''k1'' 300]
      (snd (RequeueTask None ''k1'' 300 sample_completed))"
    by (rule queue_run.run_step [OF queue_step.step_requeue [OF prod.collapse [symmetric]] queue_run.run_refl])
  ultimately show ?thesis
    by (rule queue_completed_final) (simp_all add: sample_completed_def sample_done_def)
qed

text \<open>
  Deadlines are enforced by every claim that gets past its parameters: each active task
  whose deadline has passed is failed with \<open>permanent_failure\<close> at the claim's instant and loses
  its lease, whatever the claim itself returns; every other task that the claim does not hand
  out is left as it was.
\<close>

theorem claim_expires_overdue:
  assumes "queue_inv q" and "Claim None params rand q = (r, q')" and "ClaimParams_Validate params = None"
    and "map_of (q_tasks q) k = Some t"
  shows "(expired (task_Deadline t) (cp_Now params) \<and> active_status (task_Status t) \<longrightarrow>
      map_of (q_tasks q') k = Some (t\<lparr>task_Status := TaskFailed, task_UpdatedAt := cp_Now params,
        task_Failure := Some deadline_failure\<rparr>) \<and> map_of (q_leases q') (task_ID t) = None)
    \<and> (\<not> (expired (task_Deadline t) (cp_Now params) \<and> active_status (task_Status t)) \<longrightarrow>
      (\<forall>lease. r = Inr (Some lease) \<longrightarrow> task_ID (lease_Task lease) \<noteq> task_ID t) \<longrightarrow>
      map_of (q_tasks q') k = Some t)"
proof (intro conjI; (intro impI)?)
  let ?q1 = "expireOverdue (cp_Now params) q"
  have inv1: "queue_inv ?q1" and inv': "queue_inv q'"
    using expireOverdue_inv [OF assms(1)] Claim_inv [OF assms(1,2)] by simp_all
  have t1: "map_of (q_tasks ?q1) k = Some (expire_one (cp_Now params) t)"
    using expireOverdue_tasks [OF assms(1)] assms(4) by simp
  have other: "map_of (q_tasks q') k = map_of (q_tasks ?q1) k"
    if "\<And>lease. r = Inr (Some lease) \<Longrightarrow> task_ID (lease_Task lease) \<noteq> task_ID t"
  proof (cases "\<exists>lease. r = Inr (Some lease)")
    case True
    then obtain lease where r: "r = Inr (Some lease)" by blast
    note lease = assms(2) [unfolded r]
    have "cand_key (claim_selected params ?q1) \<noteq> k"
    proof
      assume "cand_key (claim_selected params ?q1) = k"
      with Claim_found_task(1) [OF assms(1) lease] t1
      have "cand_task (claim_selected params ?q1) = expire_one (cp_Now params) t" by simp
      with Claim_found_task(3) [OF assms(1) lease] that [OF r] show False by simp
    qed
    then show ?thesis using Claim_found(7) [OF lease] by simp
  next
    case False
    with assms(2,3) show ?thesis
      by (auto simp: Claim_unfold Let_def split: if_splits sum.splits)
  qed
  show "map_of (q_tasks q') k = Some t"
    if "\<not> (expired (task_Deadline t) (cp_Now params) \<and> active_status (task_Status t))"
      "\<forall>lease. r = Inr (Some lease) \<longrightarrow> task_ID (lease_Task lease) \<noteq> task_ID t"
    using other that t1 by (auto simp: expire_one_def)
  assume late: "expired (task_Deadline t) (cp_Now params) \<and> active_status (task_Status t)"
  have "task_ID (lease_Task lease) \<noteq> task_ID t" if r: "r = Inr (Some lease)" for lease
  proof
    assume eq: "task_ID (lease_Task lease) = task_ID t"
    note lease = assms(2) [unfolded r]
    note task = Claim_found_task [OF assms(1) lease]
    have "task_ID (cand_task (claim_selected params ?q1)) = task_ID (expire_one (cp_Now params) t)"
      using task(3) eq by simp
    from queue_inv_ids(2) [OF inv1 task(1) t1 this]
    have "active_status (task_Status (expire_one (cp_Now params) t))"
      using activeness_of_claimable [OF task(2)] by simp
    with late show False by (simp add: expire_one_def active_status_def)
  qed
  from other [OF this] t1 late
  have t': "map_of (q_tasks q') k = Some (t\<lparr>task_Status := TaskFailed, task_UpdatedAt := cp_Now params,
        task_Failure := Some deadline_failure\<rparr>)"
    by (simp add: expire_one_def)
  moreover from queue_inv_task(4) [OF inv' t'] have "map_of (q_leases q') (task_ID t) = None" by simp
  ultimately show "map_of (q_tasks q') k = Some (t\<lparr>task_Status := TaskFailed, task_UpdatedAt := cp_Now params,
        task_Failure := Some deadline_failure\<rparr>) \<and> map_of (q_leases q') (task_ID t) = None" by simp
qed

theorem claim_expires_overdue_witness:
  "map_of (q_leases (snd (Claim None (sample_claim 500) (Inr [1]) sample_leased))) ''t1'' = None"
proof -
  have p: "ClaimParams_Validate (sample_claim 500) = None"
    by (simp add: sample_claim_def ClaimParams_Validate_def NoTaskType_def)
  have t: "map_of (q_tasks sample_leased) ''k1'' = Some (claimed_task 120 sample_task)"
    by (simp add: sample_leased_def)
  from claim_expires_overdue [OF sample_leased_inv prod.collapse [symmetric] p t, of "Inr [1]"]
  show ?thesis by (simp add: sample_claim_def sample_task_def active_status_def)
qed

text \<open>
  Attempts count real attempts: claiming a task and then parking it for a retry leaves its
  attempt counter one higher, except that a wait reported with the pacing mark leaves it where
  it was before the claim.
\<close>

theorem retry_attempts:
  assumes "queue_inv q" and "Claim ctx params rand q = (Inr (Some lease), q1)"
    and "Retry ctx' lease (Some oe) retryAt now q1 = (None, q2)"
    and "map_of (q_tasks q) k = Some t" and "task_ID t = task_ID (lease_Task lease)" and "0 \<le> task_Attempts t"
  shows "\<exists>u. map_of (q_tasks q2) k = Some u \<and> task_Status u = TaskRetryScheduled \<and> task_AvailableAt u = retryAt
    \<and> task_Attempts u = task_Attempts t + (if is_pacing (Some oe) then 0 else 1)"
proof -
  let ?q0 = "expireOverdue (cp_Now params) q"
  let ?c = "claim_selected params ?q0"
  note task = Claim_found_task [OF assms(1,2)]
  note before = claimable_before_expiry [OF assms(1) task(1,2)]
  have "cand_key ?c = k" "cand_task ?c = t"
    using queue_inv_ids [OF assms(1) before(1) assms(4)] task(3) assms(5) by simp_all
  then have c: "map_of (q_tasks q1) k = Some (claimed_task (cp_Now params) t)"
    using Claim_found(2,7) [OF assms(2)] by simp
  from assms(3) [unfolded Retry_def] show ?thesis
  proof (cases rule: finish_cases)
    case (2 k' t' s u)
    note act = activeLease_Inr [OF Claim_inv [OF assms(1,2)] 2(4)]
    have "k' = k" "t' = claimed_task (cp_Now params) t"
      using queue_inv_ids [OF Claim_inv [OF assms(1,2)] act(1) c] act(2) assms(5) by simp_all
    with 2(5,6) assms(6) show ?thesis
      by (auto simp: retry_update_def ScheduleRetry_iff claimed_task_def split: sum.splits if_splits)
  qed simp
qed

definition sample_pacing :: OperationError where
  "sample_pacing = OperationError ErrorRateLimited ''applications.submit'' ''hh'' ''wait'' None
     [(''pacing'', ''true'')] None"

theorem retry_attempts_witness:
  "\<exists>u. map_of (q_tasks (snd (Retry None sample_lease (Some sample_pacing) 200 130 sample_leased))) ''k1'' = Some u
     \<and> task_Attempts u = 0"
proof -
  have t: "map_of (q_tasks sample_queue) ''k1'' = Some sample_task" by (simp add: sample_queue_def)
  have "fst (Retry None sample_lease (Some sample_pacing) 200 130 sample_leased) = None"
    by (simp add: Retry_def finish_def validateLeaseInput_def activeLease_def retry_update_def
        Task_ScheduleRetry_def OperationError_Validate_def Task_Transition_def sample_pacing_def
        sample_lease_def sample_leased_def sample_task_def claimed_task_def Let_def)
  then have r: "Retry None sample_lease (Some sample_pacing) 200 130 sample_leased
      = (None, snd (Retry None sample_lease (Some sample_pacing) 200 130 sample_leased))"
    by (metis prod.collapse)
  from retry_attempts [OF sample_inv sample_claimed r t] show ?thesis
    by (auto simp: sample_lease_def sample_task_def is_pacing_def sample_pacing_def)
qed

text \<open>
  When a profile's tasks are held back: for a blocking type, exactly while that profile has
  an active task of the type, or the latest settled one (by update time, then id) is failed. A
  later completed or dismissed one lifts the block.
\<close>

theorem blocking_spec:
  assumes "queue_inv q"
  shows "hasBlockingTask ty pid q \<longleftrightarrow>
    (\<exists>k t. map_of (q_tasks q) k = Some t \<and> of_lane ty pid t \<and> active_status (task_Status t))
    \<or> (\<exists>k t. map_of (q_tasks q) k = Some t \<and> of_lane ty pid t \<and> task_Status t = TaskFailed
        \<and> (\<forall>k' u. map_of (q_tasks q) k' = Some u \<longrightarrow> of_lane ty pid u \<longrightarrow> terminal_status (task_Status u)
             \<longrightarrow> \<not> newer_task u t))"
proof -
  have "latest_failed (lane_settled ty pid (q_tasks q)) \<longleftrightarrow>
     (\<exists>k t. map_of (q_tasks q) k = Some t \<and> of_lane ty pid t \<and> task_Status t = TaskFailed
        \<and> (\<forall>k' u. map_of (q_tasks q) k' = Some u \<longrightarrow> of_lane ty pid u \<longrightarrow> terminal_status (task_Status u)
             \<longrightarrow> \<not> newer_task u t))"
    unfolding latest_failed_def Bex_def Ball_def lane_settled_iff [OF assms]
    using failed_terminal by blast
  then show ?thesis by (simp only: hasBlockingTask_iff [OF assms])
qed

theorem blocking_spec_witness: "hasBlockingTask TaskApplicationSubmit ''main'' sample_queue"
  by (simp only: blocking_spec [OF sample_inv])
    (auto simp: sample_queue_def sample_task_def of_lane_def active_status_def)

end
