(* ===== verification/Worker.thy ===== *)
theory Worker
  imports Broker_Props
begin

text \<open>
  \<open>worker/worker.go\<close>: the worker that claims a task, runs its handler under a lease
  kept alive by a heartbeat, and settles the task by the handler's outcome. The consumer it
  works on is an interface: a record of five operations on a world of any type, with a contract
  (the locale \<open>task_consumer\<close>) that the in-memory queue is proved to meet. What the
  concurrent goroutines of \<open>execute\<close> deliver to its \<open>select\<close> is a list of
  signals, in the order in which the loop picks them, each with the clock reading and the state
  of the context it is handled under. Logging is left out.
\<close>

section \<open>Configuration\<close>

record Config =
  wc_ID :: string
  wc_TaskType :: TaskType
  wc_BlockedByTaskType :: TaskType
  wc_LeaseDuration :: duration
  wc_HeartbeatInterval :: duration
  wc_PollInterval :: duration
  wc_RetryBaseDelay :: duration
  wc_BlockedRetryDelay :: duration
  wc_MaxAttempts :: int

definition Config_Validate :: "Config \<Rightarrow> error option" where
  "Config_Validate config =
     (if wc_ID config = [] \<or> wc_TaskType config = NoTaskType
      then Some (Err ''worker requires id and task type'')
      else if wc_BlockedByTaskType config = wc_TaskType config
      then Some (Err ''worker task type cannot block itself'')
      else if wc_LeaseDuration config \<le> 0 \<or> wc_HeartbeatInterval config \<le> 0
              \<or> wc_HeartbeatInterval config \<ge> wc_LeaseDuration config
      then Some (Err ''worker requires heartbeat interval shorter than a positive lease duration'')
      else if wc_PollInterval config \<le> 0 \<or> wc_RetryBaseDelay config \<le> 0
              \<or> wc_BlockedRetryDelay config \<le> 0 \<or> wc_MaxAttempts config < 1
      then Some (Err ''worker requires positive polling, retry delays and max attempts'')
      else None)"

section \<open>Classifying the handler's error\<close>

text \<open>
  \<open>strings.ToUpper\<close>, as far as ASCII text can be found in its result: ASCII letters are
  raised, and of the other letters only the dotless i (U+0131) and the long s (U+017F) become
  ASCII ones. All other bytes belong to runes whose upper case is not ASCII, and are left alone.
\<close>

fun ToUpper :: "string \<Rightarrow> string" where
  "ToUpper [] = []"
| "ToUpper [c] = [if CHR ''a'' \<le> c \<and> c \<le> CHR ''z'' then char_of (of_char c - 32 :: nat) else c]"
| "ToUpper (c # d # s) =
     (if c = CHR 0xC4 \<and> d = CHR 0xB1 then CHR ''I'' # ToUpper s
      else if c = CHR 0xC5 \<and> d = CHR 0xBF then CHR ''S'' # ToUpper s
      else (if CHR ''a'' \<le> c \<and> c \<le> CHR ''z'' then char_of (of_char c - 32 :: nat) else c) # ToUpper (d # s))"

definition isSQLiteBusy :: "error \<Rightarrow> bool" where
  "isSQLiteBusy err =
     (let text = ToUpper (Error_text err)
      in Contains text ''SQLITE_BUSY'' \<or> Contains text ''DATABASE IS LOCKED''
         \<or> Contains text ''DATABASE TABLE IS LOCKED'')"

definition handlerFailureMessage :: "error \<Rightarrow> string" where
  "handlerFailureMessage err =
     (let maximum = 300; text = TrimSpace (Error_text err)
      in if text \<noteq> [] then ''handler failed: '' @ (if length text > maximum then take maximum text else text)
         else ''handler failed'')"

definition handler_error :: "ErrorCategory \<Rightarrow> TaskType \<Rightarrow> error \<Rightarrow> OperationError" where
  "handler_error category taskType err =
     OperationError category (task_type_text taskType) [] (handlerFailureMessage err) None [] (Some err)"

definition normalizeError :: "error \<Rightarrow> TaskType \<Rightarrow> OperationError" where
  "normalizeError err taskType =
     (if (case errors_As err of None \<Rightarrow> False | Some oe \<Rightarrow> OperationError_Validate oe = None)
      then the (errors_As err)
      else if isSQLiteBusy err then handler_error ErrorTemporaryFailure taskType err
      else if errors_Is err ErrApplicationInRunningCampaign \<or> errors_Is err ErrApplicationActiveTailoringSaga
      then handler_error ErrorTemporaryFailure taskType err
      else handler_error ErrorPermanentFailure taskType err)"

fun retryable :: "ErrorCategory \<Rightarrow> bool" where
  "retryable category \<longleftrightarrow>
     category \<in> {ErrorTemporaryFailure, ErrorRateLimited, ErrorQuotaExceeded,
       ErrorValidationRequired, ErrorConfirmationRequired, ErrorAmbiguousResult}"

section \<open>When to retry\<close>

text \<open>The loop \<open>for attempt := 1; attempt < attempts && delay < time.Hour; attempt++\<close>.\<close>

function backoff :: "int \<Rightarrow> int \<Rightarrow> duration \<Rightarrow> duration" where
  "backoff attempt attempts delay =
     (if attempt < attempts \<and> delay < Hour then backoff (attempt + 1) attempts (delay * 2) else delay)"
  by auto

termination
  by (relation "measure (\<lambda>(attempt, attempts, delay). nat (attempts - attempt))") auto

declare backoff.simps [simp del]

definition retryAt :: "Config \<Rightarrow> OperationError \<Rightarrow> int \<Rightarrow> time \<Rightarrow> time" where
  "retryAt config operationError attempts now =
     (if (case oe_RetryAfter operationError of None \<Rightarrow> False | Some after \<Rightarrow> now < after)
      then the (oe_RetryAfter operationError)
      else if oe_Category operationError \<in> {ErrorValidationRequired, ErrorConfirmationRequired}
      then now + wc_BlockedRetryDelay config
      else let delay = backoff 1 attempts (wc_RetryBaseDelay config)
           in if delay > Hour then now + Hour else now + delay)"

section \<open>The consumer and the worker's steps\<close>

record 's TaskConsumer =
  con_Claim :: "ctx \<Rightarrow> ClaimParams \<Rightarrow> 's \<Rightarrow> (error + TaskLease option) \<times> 's"
  con_Extend :: "ctx \<Rightarrow> TaskLease \<Rightarrow> time \<Rightarrow> time \<Rightarrow> 's \<Rightarrow> (error + TaskLease) \<times> 's"
  con_Complete :: "ctx \<Rightarrow> TaskLease \<Rightarrow> time \<Rightarrow> 's \<Rightarrow> error option \<times> 's"
  con_Retry :: "ctx \<Rightarrow> TaskLease \<Rightarrow> OperationError option \<Rightarrow> time \<Rightarrow> time \<Rightarrow> 's \<Rightarrow> error option \<times> 's"
  con_Fail :: "ctx \<Rightarrow> TaskLease \<Rightarrow> OperationError option \<Rightarrow> time \<Rightarrow> 's \<Rightarrow> error option \<times> 's"

text \<open>The auth guard's own error is only logged.\<close>

type_synonym 's AuthGuard = "ctx \<Rightarrow> Task \<Rightarrow> 's \<Rightarrow> error option \<times> 's"

record 's Worker =
  w_consumer :: "'s TaskConsumer"
  w_config :: Config
  w_guard :: "'s AuthGuard option"

definition run_guard :: "'s Worker \<Rightarrow> ctx \<Rightarrow> Task \<Rightarrow> OperationError \<Rightarrow> 's \<Rightarrow> 's" where
  "run_guard worker ctx task operationError s =
     (if oe_Category operationError = ErrorUnauthorized
      then case w_guard worker of None \<Rightarrow> s | Some g \<Rightarrow> snd (g ctx task s) else s)"

definition Worker_finish ::
  "'s Worker \<Rightarrow> ctx \<Rightarrow> TaskLease \<Rightarrow> error option \<Rightarrow> time \<Rightarrow> 's \<Rightarrow> error option \<times> 's" where
  "Worker_finish worker ctx lease handlerErr now s =
     (case handlerErr of
        None \<Rightarrow> con_Complete (w_consumer worker) ctx lease now s
      | Some err \<Rightarrow>
          let operationError = normalizeError err (task_Type (lease_Task lease));
              s1 = run_guard worker ctx (lease_Task lease) operationError s
          in if retryable (oe_Category operationError)
                \<and> task_Attempts (lease_Task lease) < wc_MaxAttempts (w_config worker)
             then con_Retry (w_consumer worker) ctx lease (Some operationError)
                    (retryAt (w_config worker) operationError (task_Attempts (lease_Task lease)) now) now s1
             else con_Fail (w_consumer worker) ctx lease (Some operationError) now s1)"

datatype signal =
    CtxDone error
  | HandlerDone "error option" ctx time
  | Heartbeat ctx time

definition heartbeat_until :: "Config \<Rightarrow> TaskLease \<Rightarrow> time \<Rightarrow> time" where
  "heartbeat_until config lease now =
     (let until = now + wc_LeaseDuration config
      in case task_Deadline (lease_Task lease) of
           Some d \<Rightarrow> if d < until then d else until
         | None \<Rightarrow> until)"

text \<open>
  \<open>execute\<close> on the signals picked so far: \<open>None\<close> while the loop is still waiting,
  else what it returned.
\<close>

fun execute :: "'s Worker \<Rightarrow> TaskLease \<Rightarrow> signal list \<Rightarrow> 's \<Rightarrow> error option option \<times> 's" where
  "execute worker lease [] s = (None, s)"
| "execute worker lease (CtxDone e # signals) s = (Some (Some e), s)"
| "execute worker lease (HandlerDone handlerErr ctx now # signals) s =
     (case Worker_finish worker ctx lease handlerErr now s of (r, s') \<Rightarrow> (Some r, s'))"
| "execute worker lease (Heartbeat ctx now # signals) s =
     (let until = heartbeat_until (w_config worker) lease now
      in if until \<le> lease_Until lease then execute worker lease signals s
         else case con_Extend (w_consumer worker) ctx lease now until s of
                (Inl e, s') \<Rightarrow> (Some (Some e), s')
              | (Inr extended, s') \<Rightarrow> execute worker extended signals s')"

definition worker_claim :: "Config \<Rightarrow> time \<Rightarrow> ClaimParams" where
  "worker_claim config now = \<lparr>cp_WorkerID = wc_ID config, cp_TaskType = wc_TaskType config,
     cp_BlockedByTaskType = wc_BlockedByTaskType config, cp_Now = now,
     cp_LeaseDuration = wc_LeaseDuration config\<rparr>"

text \<open>\<open>RunOnce\<close>: whether a task was found and the error, once \<open>execute\<close> has returned.\<close>

definition RunOnce ::
  "'s Worker \<Rightarrow> ctx \<Rightarrow> time \<Rightarrow> signal list \<Rightarrow> 's \<Rightarrow> (bool \<times> error option) option \<times> 's" where
  "RunOnce worker ctx now signals s =
     (case con_Claim (w_consumer worker) ctx (worker_claim (w_config worker) now) s of
        (Inl e, s') \<Rightarrow> (Some (False, Some e), s')
      | (Inr None, s') \<Rightarrow> (Some (False, None), s')
      | (Inr (Some lease), s') \<Rightarrow>
          (case execute worker lease signals s' of
             (None, s'') \<Rightarrow> (None, s'')
           | (Some None, s'') \<Rightarrow> (Some (True, None), s'')
           | (Some (Some e), s'') \<Rightarrow>
               (Some (True, Some (ErrWrap (''worker '' @ wc_ID (w_config worker) @ '' task ''
                  @ task_ID (lease_Task lease)) e)), s'')))"

text \<open>
  \<open>Run\<close> on the rounds seen so far. A round is one \<open>RunOnce\<close> and what the loop sees
  of its context afterwards: after an error, the value of \<open>ctx.Err()\<close>; after an empty
  claim, whether the \<open>select\<close> picks the cancelled context or the ticker. \<open>None\<close> while
  the loop is running.
\<close>

record round =
  round_ctx :: ctx
  round_now :: time
  round_signals :: "signal list"
  round_after :: ctx

fun Run :: "'s Worker \<Rightarrow> round list \<Rightarrow> 's \<Rightarrow> error option \<times> 's" where
  "Run worker [] s = (None, s)"
| "Run worker (r # rounds) s =
     (case RunOnce worker (round_ctx r) (round_now r) (round_signals r) s of
        (None, s') \<Rightarrow> (None, s')
      | (Some (worked, Some e), s') \<Rightarrow>
          (case round_after r of Some c \<Rightarrow> (Some c, s') | None \<Rightarrow> (Some e, s'))
      | (Some (worked, None), s') \<Rightarrow>
          if worked then Run worker rounds s'
          else (case round_after r of Some c \<Rightarrow> (Some c, s') | None \<Rightarrow> Run worker rounds s'))"

section \<open>The worker's contract with its consumer\<close>

text \<open>
  An operation that settles a lease by an update of its task: under a live context and a held
  lease it stores the updated task and nothing else, or returns the update's error and changes
  nothing; otherwise it fails and changes nothing.
\<close>

definition lease_settles ::
  "('s \<Rightarrow> bool) \<Rightarrow> ('s \<Rightarrow> TaskID \<Rightarrow> Task option) \<Rightarrow> (TaskLease \<Rightarrow> time \<Rightarrow> 's \<Rightarrow> Task option) \<Rightarrow>
   (ctx \<Rightarrow> TaskLease \<Rightarrow> time \<Rightarrow> 's \<Rightarrow> error option \<times> 's) \<Rightarrow> (time \<Rightarrow> Task \<Rightarrow> error + Task) \<Rightarrow> bool" where
  "lease_settles ok recs held op f \<longleftrightarrow> (\<forall>ctx l now s. ok s \<longrightarrow>
     (case held l now s of
        None \<Rightarrow> \<exists>e. op ctx l now s = (Some e, s)
      | Some t \<Rightarrow>
          (case ctx of Some c \<Rightarrow> op ctx l now s = (Some c, s) | None \<Rightarrow>
           (case f now t of
              Inl e \<Rightarrow> op ctx l now s = (Some e, s)
            | Inr u \<Rightarrow> \<exists>s'. op ctx l now s = (None, s') \<and> ok s' \<and> recs s' = (recs s)(task_ID t \<mapsto> u)))))"

text \<open>What the worker makes of a held task, by the handler's outcome.\<close>

definition settle_task :: "Config \<Rightarrow> TaskLease \<Rightarrow> error option \<Rightarrow> time \<Rightarrow> Task \<Rightarrow> error + Task" where
  "settle_task config lease handlerErr now t =
     (case handlerErr of
        None \<Rightarrow> Task_Transition TaskCompleted now t
      | Some err \<Rightarrow>
          let oe = normalizeError err (task_Type (lease_Task lease))
          in if retryable (oe_Category oe) \<and> task_Attempts (lease_Task lease) < wc_MaxAttempts config
             then retry_update (Some oe) (retryAt config oe (task_Attempts (lease_Task lease)) now) now t
             else Task_Fail (Some oe) now t)"

text \<open>A guard that leaves the queue alone, whatever else it does to the world.\<close>

definition guard_apart ::
  "('s \<Rightarrow> bool) \<Rightarrow> ('s \<Rightarrow> TaskID \<Rightarrow> Task option) \<Rightarrow> (TaskLease \<Rightarrow> time \<Rightarrow> 's \<Rightarrow> Task option) \<Rightarrow> 's Worker \<Rightarrow> bool" where
  "guard_apart ok recs held worker \<longleftrightarrow> (\<forall>g ctx task s. w_guard worker = Some g \<longrightarrow> ok s \<longrightarrow>
     ok (snd (g ctx task s)) \<and> recs (snd (g ctx task s)) = recs s
     \<and> (\<forall>l now. held l now (snd (g ctx task s)) = held l now s))"

locale task_consumer =
  fixes consumer :: "'s TaskConsumer"
    and ok :: "'s \<Rightarrow> bool"
    and recs :: "'s \<Rightarrow> TaskID \<Rightarrow> Task option"
    and held :: "TaskLease \<Rightarrow> time \<Rightarrow> 's \<Rightarrow> Task option"
  assumes held_rec: "ok s \<Longrightarrow> held l now s = Some t \<Longrightarrow>
      recs s (task_ID (lease_Task l)) = Some t \<and> task_ID t = task_ID (lease_Task l) \<and> task_Status t = TaskProcessing"
    and complete: "lease_settles ok recs held (con_Complete consumer) (Task_Transition TaskCompleted)"
    and retry: "lease_settles ok recs held (\<lambda>ctx l. con_Retry consumer ctx l oe r) (retry_update oe r)"
    and fail: "lease_settles ok recs held (\<lambda>ctx l. con_Fail consumer ctx l oe) (Task_Fail oe)"
    and extend_ok: "ok s \<Longrightarrow> con_Extend consumer ctx l now until s = (Inr l', s') \<Longrightarrow>
      ok s' \<and> recs s' = (recs s)(task_ID (lease_Task l) \<mapsto> lease_Task l')
      \<and> task_ID (lease_Task l') = task_ID (lease_Task l) \<and> held l now s \<noteq> None"
    and extend_fail: "ok s \<Longrightarrow> con_Extend consumer ctx l now until s = (Inl e, s') \<Longrightarrow> s' = s"
begin

lemma guard_ok:
  assumes "guard_apart ok recs held worker" and "ok s"
  shows "ok (run_guard worker ctx task oe s)" and "recs (run_guard worker ctx task oe s) = recs s"
    and "held l now (run_guard worker ctx task oe s) = held l now s"
  using assms by (auto simp: guard_apart_def run_guard_def split: option.splits)

lemma settlesD:
  assumes "lease_settles ok recs held op f" and "ok s" and "op ctx l now s = (r, s')"
  shows "ok s'" and "i \<noteq> task_ID (lease_Task l) \<Longrightarrow> recs s' i = recs s i"
    and "held l now s = Some t \<Longrightarrow> ctx = None \<Longrightarrow> f now t = Inr u \<Longrightarrow>
      r = None \<and> recs s' = (recs s)(task_ID (lease_Task l) \<mapsto> u)"
    and "held l now s = Some t \<Longrightarrow> ctx = None \<Longrightarrow> f now t = Inl e \<Longrightarrow> r = Some e \<and> s' = s"
    and "held l now s = None \<Longrightarrow> r \<noteq> None \<and> s' = s"
proof -
  have law: "case held l now s of
        None \<Rightarrow> \<exists>e. op ctx l now s = (Some e, s)
      | Some t \<Rightarrow>
          (case ctx of Some c \<Rightarrow> op ctx l now s = (Some c, s) | None \<Rightarrow>
           (case f now t of
              Inl e \<Rightarrow> op ctx l now s = (Some e, s)
            | Inr u \<Rightarrow> \<exists>s'. op ctx l now s = (None, s') \<and> ok s' \<and> recs s' = (recs s)(task_ID t \<mapsto> u)))"
    using assms(1,2) by (simp add: lease_settles_def)
  show "ok s'" and "i \<noteq> task_ID (lease_Task l) \<Longrightarrow> recs s' i = recs s i"
    using law assms(2,3) held_rec [OF assms(2), of l now]
    by (auto split: option.splits sum.splits)
  show "held l now s = Some t \<Longrightarrow> ctx = None \<Longrightarrow> f now t = Inr u \<Longrightarrow>
      r = None \<and> recs s' = (recs s)(task_ID (lease_Task l) \<mapsto> u)"
    using law assms(3) held_rec [OF assms(2), of l now t] by auto
  show "held l now s = Some t \<Longrightarrow> ctx = None \<Longrightarrow> f now t = Inl e \<Longrightarrow> r = Some e \<and> s' = s"
    and "held l now s = None \<Longrightarrow> r \<noteq> None \<and> s' = s"
    using law assms(3) by auto
qed

text \<open>\<open>finish\<close> is one of the three operations, after the guard.\<close>

lemma finish_settles:
  assumes "guard_apart ok recs held worker" and "w_consumer worker = consumer" and "ok s"
    and "Worker_finish worker ctx lease handlerErr now s = (r, s')"
  shows "\<exists>op f s1. lease_settles ok recs held op f \<and> ok s1 \<and> recs s1 = recs s
      \<and> held lease now s1 = held lease now s \<and> op ctx lease now s1 = (r, s')
      \<and> f now = settle_task (w_config worker) lease handlerErr now"
proof (cases handlerErr)
  case None
  show ?thesis
    by (rule exI [of _ "con_Complete consumer"], rule exI [of _ "Task_Transition TaskCompleted"], rule exI [of _ s])
      (use assms complete None in \<open>simp add: Worker_finish_def settle_task_def fun_eq_iff\<close>)
next
  case (Some err)
  let ?oe = "normalizeError err (task_Type (lease_Task lease))"
  let ?s1 = "run_guard worker ctx (lease_Task lease) ?oe s"
  let ?at = "retryAt (w_config worker) ?oe (task_Attempts (lease_Task lease)) now"
  note g = guard_ok [OF assms(1,3), where ctx = ctx and task = "lease_Task lease" and oe = ?oe]
  show ?thesis
  proof (cases "retryable (oe_Category ?oe) \<and>
      task_Attempts (lease_Task lease) < wc_MaxAttempts (w_config worker)")
    case True
    show ?thesis
      by (rule exI [of _ "\<lambda>ctx l. con_Retry consumer ctx l (Some ?oe) ?at"],
          rule exI [of _ "retry_update (Some ?oe) ?at"], rule exI [of _ ?s1])
        (use assms(2,4) Some g True retry in \<open>simp add: Worker_finish_def settle_task_def fun_eq_iff Let_def\<close>)
  next
    case False
    show ?thesis
      by (rule exI [of _ "\<lambda>ctx l. con_Fail consumer ctx l (Some ?oe)"],
          rule exI [of _ "Task_Fail (Some ?oe)"], rule exI [of _ ?s1])
        (use assms(2,4) Some g False fail in \<open>auto simp: Worker_finish_def settle_task_def fun_eq_iff Let_def\<close>)
  qed
qed

lemma finish_outcome:
  assumes "guard_apart ok recs held worker" and "w_consumer worker = consumer" and "ok s"
    and "Worker_finish worker ctx lease handlerErr now s = (r, s')"
  shows "ok s'" and "i \<noteq> task_ID (lease_Task lease) \<Longrightarrow> recs s' i = recs s i"
    and "held lease now s = Some t \<Longrightarrow> ctx = None \<Longrightarrow>
      settle_task (w_config worker) lease handlerErr now t = Inr u \<Longrightarrow>
      r = None \<and> recs s' = (recs s)(task_ID (lease_Task lease) \<mapsto> u)"
    and "held lease now s = Some t \<Longrightarrow> ctx = None \<Longrightarrow>
      settle_task (w_config worker) lease handlerErr now t = Inl e \<Longrightarrow> r = Some e \<and> recs s' = recs s"
    and "held lease now s = None \<Longrightarrow> r \<noteq> None \<and> recs s' = recs s"
proof -
  obtain op f s1 where law: "lease_settles ok recs held op f" and s1: "ok s1" "recs s1 = recs s"
      "held lease now s1 = held lease now s" and op: "op ctx lease now s1 = (r, s')"
      and f: "f now = settle_task (w_config worker) lease handlerErr now"
    using finish_settles [OF assms] by blast
  note D = settlesD [OF law s1(1) op]
  show "ok s'" by (rule D(1))
  show "i \<noteq> task_ID (lease_Task lease) \<Longrightarrow> recs s' i = recs s i" using D(2) s1(2) by simp
  show "held lease now s = Some t \<Longrightarrow> ctx = None \<Longrightarrow>
      settle_task (w_config worker) lease handlerErr now t = Inr u \<Longrightarrow>
      r = None \<and> recs s' = (recs s)(task_ID (lease_Task lease) \<mapsto> u)" using D(3) s1 f by simp
  show "held lease now s = Some t \<Longrightarrow> ctx = None \<Longrightarrow>
      settle_task (w_config worker) lease handlerErr now t = Inl e \<Longrightarrow> r = Some e \<and> recs s' = recs s"
    using D(4) s1 f by simp
  show "held lease now s = None \<Longrightarrow> r \<noteq> None \<and> recs s' = recs s" using D(5) s1 by simp
qed

text \<open>Executing a lease touches no other task.\<close>

lemma execute_frame:
  assumes "guard_apart ok recs held worker" and "w_consumer worker = consumer" and "ok s"
    and "execute worker lease signals s = (r, s')"
  shows "ok s' \<and> (\<forall>i. i \<noteq> task_ID (lease_Task lease) \<longrightarrow> recs s' i = recs s i)"
  using assms(3,4)
proof (induction signals arbitrary: lease s)
  case Nil
  then show ?case by simp
next
  case (Cons sig signals)
  show ?case
  proof (cases sig)
    case (CtxDone e)
    with Cons.prems show ?thesis by simp
  next
    case (HandlerDone herr ctx now)
    obtain r' where "Worker_finish worker ctx lease herr now s = (r', s')"
      using Cons.prems(2) HandlerDone by (auto split: prod.splits)
    from finish_outcome(1,2) [OF assms(1,2) Cons.prems(1) this] show ?thesis by blast
  next
    case (Heartbeat ctx now)
    let ?until = "heartbeat_until (w_config worker) lease now"
    show ?thesis
    proof (cases "?until \<le> lease_Until lease")
      case True
      with Cons Heartbeat show ?thesis by (simp add: Let_def)
    next
      case False
      obtain x s1 where ext: "con_Extend consumer ctx lease now ?until s = (x, s1)"
        by (cases "con_Extend consumer ctx lease now ?until s")
      show ?thesis
      proof (cases x)
        case (Inl e)
        have "s1 = s" by (rule extend_fail [OF Cons.prems(1) ext [unfolded Inl]])
        moreover have "s' = s1" using ext Inl False Cons.prems(2) Heartbeat assms(2) by (simp add: Let_def)
        ultimately show ?thesis using Cons.prems(1) by simp
      next
        case (Inr l')
        note e = extend_ok [OF Cons.prems(1) ext [unfolded Inr]]
        have "execute worker l' signals s1 = (r, s')"
          using Cons.prems(2) Heartbeat False ext Inr assms(2) by (simp add: Let_def)
        from Cons.IH [OF _ this] e show ?thesis by simp
      qed
    qed
  qed
qed

end

end
