(* ===== verification/Worker_Queue.thy ===== *)
theory Worker_Queue
  imports Worker
begin

text \<open>
  The worker on the in-memory queue: the queue meets the worker's contract, and what follows
  for the worker's retries, attempts and outcomes.
\<close>

section \<open>The in-memory queue as a consumer\<close>

text \<open>
  The world holds the queue, the number of random draws so far (the queue's claims read
  \<open>crypto/rand\<close>, here a function of that number) and anything else the auth guard may
  act on.
\<close>

record 'g memory_world =
  mw_queue :: Queue
  mw_draws :: nat
  mw_rest :: 'g

definition memory_consumer :: "(nat \<Rightarrow> error + byte list) \<Rightarrow> 'g memory_world TaskConsumer" where
  "memory_consumer draw = \<lparr>
     con_Claim = \<lambda>ctx params w. (case Claim ctx params (draw (mw_draws w)) (mw_queue w) of
       (r, q) \<Rightarrow> (r, w\<lparr>mw_queue := q, mw_draws := mw_draws w + 1\<rparr>)),
     con_Extend = \<lambda>ctx lease now until w. (case Extend ctx lease now until (mw_queue w) of
       (r, q) \<Rightarrow> (r, w\<lparr>mw_queue := q\<rparr>)),
     con_Complete = \<lambda>ctx lease now w. (case Complete ctx lease now (mw_queue w) of
       (r, q) \<Rightarrow> (r, w\<lparr>mw_queue := q\<rparr>)),
     con_Retry = \<lambda>ctx lease oe at now w. (case Retry ctx lease oe at now (mw_queue w) of
       (r, q) \<Rightarrow> (r, w\<lparr>mw_queue := q\<rparr>)),
     con_Fail = \<lambda>ctx lease oe now w. (case Fail ctx lease oe now (mw_queue w) of
       (r, q) \<Rightarrow> (r, w\<lparr>mw_queue := q\<rparr>))\<rparr>"

definition memory_guard :: "(ctx \<Rightarrow> Task \<Rightarrow> 'g \<Rightarrow> error option \<times> 'g) \<Rightarrow> 'g memory_world AuthGuard" where
  "memory_guard g = (\<lambda>ctx task w. (case g ctx task (mw_rest w) of (r, x) \<Rightarrow> (r, w\<lparr>mw_rest := x\<rparr>)))"

definition memory_worker ::
  "(nat \<Rightarrow> error + byte list) \<Rightarrow> Config \<Rightarrow> (ctx \<Rightarrow> Task \<Rightarrow> 'g \<Rightarrow> error option \<times> 'g) option \<Rightarrow>
   'g memory_world Worker" where
  "memory_worker draw config g = \<lparr>w_consumer = memory_consumer draw, w_config = config,
     w_guard = map_option memory_guard g\<rparr>"

definition memory_recs :: "'g memory_world \<Rightarrow> TaskID \<Rightarrow> Task option" where
  "memory_recs w i = (case map_of (q_taskKeys (mw_queue w)) i of
     None \<Rightarrow> None | Some k \<Rightarrow> map_of (q_tasks (mw_queue w)) k)"

text \<open>The task that a lease still holds at an instant.\<close>

definition memory_held :: "TaskLease \<Rightarrow> time \<Rightarrow> 'g memory_world \<Rightarrow> Task option" where
  "memory_held lease now w =
     (if validateLeaseInput lease now = None
      then case activeLease lease now (mw_queue w) of Inl e \<Rightarrow> None | Inr (k, t, s) \<Rightarrow> Some t
      else None)"

abbreviation memory_ok :: "'g memory_world \<Rightarrow> bool" where
  "memory_ok w \<equiv> queue_inv (mw_queue w)"

lemma memory_held_Some:
  assumes "memory_held lease now w = Some t"
  obtains k s where "validateLeaseInput lease now = None" "activeLease lease now (mw_queue w) = Inr (k, t, s)"
  using assms that by (auto simp: memory_held_def split: if_splits sum.splits)

lemma memory_held_None:
  "memory_held lease now w = None \<longleftrightarrow> validateLeaseInput lease now \<noteq> None
     \<or> (\<exists>e. activeLease lease now (mw_queue w) = Inl e)"
  by (auto simp: memory_held_def split: sum.splits)

lemma memory_recs_iff:
  assumes "queue_inv (mw_queue w)"
  shows "memory_recs w i = Some t \<longleftrightarrow> (\<exists>k. map_of (q_tasks (mw_queue w)) k = Some t \<and> task_ID t = i)"
proof
  assume "memory_recs w i = Some t"
  then obtain k where "map_of (q_taskKeys (mw_queue w)) i = Some k" "map_of (q_tasks (mw_queue w)) k = Some t"
    by (auto simp: memory_recs_def split: option.splits)
  with queue_inv_key [OF assms] show "\<exists>k. map_of (q_tasks (mw_queue w)) k = Some t \<and> task_ID t = i"
    by fastforce
next
  assume "\<exists>k. map_of (q_tasks (mw_queue w)) k = Some t \<and> task_ID t = i"
  then obtain k where k: "map_of (q_tasks (mw_queue w)) k = Some t" "task_ID t = i" by blast
  with queue_inv_task(3) [OF assms k(1)] show "memory_recs w i = Some t" by (simp add: memory_recs_def)
qed

lemma memory_recs_put:
  assumes "queue_inv (mw_queue w)" and "map_of (q_tasks (mw_queue w)) k = Some t" and "task_ID u = task_ID t"
  shows "memory_recs (w\<lparr>mw_queue := mw_queue w\<lparr>q_tasks := AList.update k u (q_tasks (mw_queue w)), q_leases := ls\<rparr>\<rparr>)
    = (memory_recs w)(task_ID t \<mapsto> u)"
proof (rule ext)
  fix i
  show "memory_recs (w\<lparr>mw_queue := mw_queue w\<lparr>q_tasks := AList.update k u (q_tasks (mw_queue w)), q_leases := ls\<rparr>\<rparr>) i
    = ((memory_recs w)(task_ID t \<mapsto> u)) i"
  proof (cases "i = task_ID t")
    case True
    with queue_inv_task(3) [OF assms(1,2)] show ?thesis by (simp add: memory_recs_def)
  next
    case False
    then have "map_of (q_taskKeys (mw_queue w)) i \<noteq> Some k"
      using queue_inv_key [OF assms(1), of i k] assms(2) by auto
    then have "map_of (AList.update k u (q_tasks (mw_queue w))) k' = map_of (q_tasks (mw_queue w)) k'"
      if "map_of (q_taskKeys (mw_queue w)) i = Some k'" for k'
      using that by auto
    with False show ?thesis by (simp add: memory_recs_def split: option.split)
  qed
qed

text \<open>The three settling operations are \<open>finish\<close> with an update that keeps the id.\<close>

lemma memory_settles:
  fixes f :: "time \<Rightarrow> Task \<Rightarrow> error + Task"
  assumes "\<And>now. settles (f now)" and "\<And>now t u. f now t = Inr u \<Longrightarrow> same_identity t u"
  shows "lease_settles memory_ok memory_recs memory_held
    (\<lambda>ctx l now w. case finish ctx l now (f now) (mw_queue w) of (r, q) \<Rightarrow> (r, w\<lparr>mw_queue := q\<rparr>)) f"
  unfolding lease_settles_def
proof (intro allI impI, goal_cases)
  case (1 ctx l now w)
  show ?case
  proof (cases "memory_held l now w")
    case None
    then consider (invalid) e where "validateLeaseInput l now = Some e"
      | (lost) e where "validateLeaseInput l now = None" "activeLease l now (mw_queue w) = Inl e"
      by (auto simp: memory_held_None)
    then have "\<exists>e. finish ctx l now (f now) (mw_queue w) = (Some e, mw_queue w)"
      by cases (auto simp: finish_def split: option.splits)
    with None show ?thesis by auto
  next
    case (Some t)
    then obtain k s where l: "validateLeaseInput l now = None" "activeLease l now (mw_queue w) = Inr (k, t, s)"
      by (rule memory_held_Some)
    note t = activeLease_Inr(1) [OF 1 l(2)]
    show ?thesis
    proof (cases "ctx = None \<and> is_ok (f now t)")
      case False
      with l Some show ?thesis by (cases ctx; cases "f now t") (simp_all add: finish_def)
    next
      case True
      then obtain u where u: "f now t = Inr u" and ctx: "ctx = None" by (auto elim: is_okE)
      let ?q = "mw_queue w\<lparr>q_tasks := AList.update k u (q_tasks (mw_queue w)),
          q_leases := AList.delete (task_ID u) (q_leases (mw_queue w))\<rparr>"
      have fin: "finish ctx l now (f now) (mw_queue w) = (None, ?q)"
        using l u ctx by (simp add: finish_def)
      have "queue_inv ?q" by (rule finish_inv [OF 1 assms(1) fin])
      moreover have "memory_recs (w\<lparr>mw_queue := ?q\<rparr>) = (memory_recs w)(task_ID t \<mapsto> u)"
        by (rule memory_recs_put [OF 1 t same_identityD(1) [OF assms(2) [OF u]]])
      ultimately show ?thesis using Some ctx u fin by simp
    qed
  qed
qed

interpretation memory: task_consumer "memory_consumer draw" memory_ok memory_recs memory_held
proof (unfold_locales, goal_cases)
  case (1 w l now t)
  from 1(2) obtain k s where l: "validateLeaseInput l now = None" "activeLease l now (mw_queue w) = Inr (k, t, s)"
    by (rule memory_held_Some)
  with activeLease_Inr(1,2,4) [OF 1(1) l(2)] memory_recs_iff [OF 1(1)] show ?case by auto
next
  case 2
  show ?case
    using memory_settles [of "Task_Transition TaskCompleted", OF settles_operations(1) Task_op_identity(1)]
    by (simp add: memory_consumer_def Complete_def)
next
  case (3 oe r)
  show ?case
    using memory_settles [of "retry_update oe r", OF settles_operations(2) retry_update_identity]
    by (simp add: memory_consumer_def Retry_def)
next
  case (4 oe)
  show ?case
    using memory_settles [of "Task_Fail oe", OF settles_operations(3) Task_op_identity(3)]
    by (simp add: memory_consumer_def Fail_def)
next
  case (5 w ctx l now until l' w')
  then obtain q where q: "Extend ctx l now until (mw_queue w) = (Inr l', q)" "w' = w\<lparr>mw_queue := q\<rparr>"
    by (auto simp: memory_consumer_def split: prod.splits)
  from q(1) show ?case
  proof (cases rule: Extend_cases)
    case (2 k t s)
    note act = activeLease_Inr [OF 5(1) 2(2)]
    have "lease_Task l' = t\<lparr>task_UpdatedAt := now\<rparr>" using 2(1) by (simp add: leaseFrom_def)
    moreover have "memory_recs w' = (memory_recs w)(task_ID t \<mapsto> t\<lparr>task_UpdatedAt := now\<rparr>)"
      unfolding q(2) 2(5) by (rule memory_recs_put [OF 5(1) act(1)]) simp
    moreover have "queue_inv q" by (rule Extend_inv [OF 5(1) q(1)])
    moreover have "memory_held l now w = Some t" using 2(2,4) by (simp add: memory_held_def)
    ultimately show ?thesis using act(2) q(2) by simp
  qed simp
next
  case (6 w ctx l now until e w')
  then obtain q where q: "Extend ctx l now until (mw_queue w) = (Inl e, q)" "w' = w\<lparr>mw_queue := q\<rparr>"
    by (auto simp: memory_consumer_def split: prod.splits)
  from q(1) show ?case
    by (cases rule: Extend_cases) (simp_all add: q(2))
qed

lemma memory_guard_queue: "mw_queue (snd (memory_guard g ctx task w)) = mw_queue w"
  by (simp add: memory_guard_def split: prod.split)

lemma memory_worker_apart: "guard_apart memory_ok memory_recs memory_held (memory_worker draw config (g :: (ctx \<Rightarrow> Task \<Rightarrow> 'a \<Rightarrow> error option \<times> 'a) option))"
proof -
  have "memory_recs (snd (memory_guard h ctx task w)) = memory_recs w"
    and "memory_held l now (snd (memory_guard h ctx task w)) = memory_held l now w" for h ctx task l now
    and w :: "'a memory_world"
    unfolding memory_recs_def memory_held_def memory_guard_queue by (rule refl)+
  then show ?thesis
    by (auto simp: guard_apart_def memory_worker_def memory_guard_queue)
qed

lemma memory_worker_consumer [simp]: "w_consumer (memory_worker draw config g) = memory_consumer draw"
  and memory_worker_config [simp]: "w_config (memory_worker draw config g) = config"
  by (simp_all add: memory_worker_def)

section \<open>Backoff and error classification\<close>

lemma backoff_closed:
  "0 < delay \<Longrightarrow> min Hour (backoff attempt attempts delay) = min Hour (delay * 2 ^ nat (attempts - attempt))"
proof (induction attempt attempts delay rule: backoff.induct)
  case (1 attempt attempts delay)
  show ?case
  proof (cases "attempt < attempts \<and> delay < Hour")
    case True
    then have "nat (attempts - attempt) = Suc (nat (attempts - (attempt + 1)))" by linarith
    with 1 True show ?thesis by (simp add: backoff.simps [of attempt] mult.assoc del: duration_units)
  next
    case False
    have "attempts \<le> attempt \<Longrightarrow> nat (attempts - attempt) = 0" by simp
    moreover have "delay * 1 \<le> delay * 2 ^ nat (attempts - attempt)"
      using 1(2) by (intro mult_left_mono) simp_all
    ultimately show ?thesis
      using False by (auto simp: backoff.simps [of attempt] min_def simp del: duration_units)
  qed
qed

lemma Config_Validate_None:
  assumes "Config_Validate config = None"
  shows "wc_ID config \<noteq> []" and "wc_TaskType config \<noteq> NoTaskType"
    and "wc_BlockedByTaskType config \<noteq> wc_TaskType config" and "0 < wc_LeaseDuration config"
    and "0 < wc_RetryBaseDelay config" and "0 < wc_BlockedRetryDelay config" and "1 \<le> wc_MaxAttempts config"
  using assms by (auto simp: Config_Validate_def split: if_splits)

lemma retryAt_future:
  assumes "Config_Validate config = None"
  shows "now < retryAt config oe attempts now"
proof -
  note c = Config_Validate_None [OF assms]
  have "min Hour (backoff 1 attempts (wc_RetryBaseDelay config)) > 0"
    unfolding backoff_closed [OF c(5)] using c(5) by simp
  then show ?thesis
    using c(6) by (auto simp: retryAt_def Let_def split: option.splits)
qed

lemma task_type_text_Nil: "task_type_text ty = [] \<longleftrightarrow> ty = NoTaskType"
  by (cases ty) (simp_all add: NoTaskType_def)

lemma handler_error_valid:
  "ValidErrorCategory category \<Longrightarrow> ty \<noteq> NoTaskType \<Longrightarrow> OperationError_Validate (handler_error category ty err) = None"
  by (simp add: OperationError_Validate_None handler_error_def task_type_text_Nil)

lemma normalizeError_cases:
  "(\<exists>oe. errors_As err = Some oe \<and> OperationError_Validate oe = None \<and> normalizeError err ty = oe)
   \<or> normalizeError err ty \<in> {handler_error ErrorTemporaryFailure ty err, handler_error ErrorPermanentFailure ty err}"
  by (auto simp: normalizeError_def split: option.splits)

lemma normalizeError_valid: "ty \<noteq> NoTaskType \<Longrightarrow> OperationError_Validate (normalizeError err ty) = None"
  using normalizeError_cases [of err ty] handler_error_valid by auto

lemma retryable_imp: "retryable category \<Longrightarrow> retryable_category category"
  by auto

section \<open>What settling makes of a task\<close>

text \<open>The statuses that a held task can be settled into, with the instant and the failure.\<close>

lemma settle_completed:
  "task_Status t = TaskProcessing \<Longrightarrow> \<not> IsZero now \<Longrightarrow> task_UpdatedAt t \<le> now \<Longrightarrow>
   \<exists>u. settle_task config lease None now t = Inr u \<and> task_Status u = TaskCompleted \<and> task_Failure u = None"
  by (simp add: settle_task_def Task_Transition_def)

lemma settle_failed:
  assumes "task_Status t = TaskProcessing" and "\<not> IsZero now" and "task_UpdatedAt t \<le> now"
    and "OperationError_Validate oe = None" and "oe = normalizeError err (task_Type (lease_Task lease))"
    and "\<not> (retryable (oe_Category oe) \<and> task_Attempts (lease_Task lease) < wc_MaxAttempts config)"
  shows "\<exists>u. settle_task config lease (Some err) now t = Inr u \<and> task_Status u = TaskFailed
    \<and> task_Failure u = Some (failure_of oe)"
proof -
  have "settle_task config lease (Some err) now t = Task_Fail (Some oe) now t"
    using assms(5,6) by (auto simp: settle_task_def Let_def)
  with assms(1-4) show ?thesis by (simp add: Task_Fail_def Task_Transition_def)
qed

lemma settle_retried:
  assumes "task_Status t = TaskProcessing" and "\<not> IsZero now" and "task_UpdatedAt t \<le> now"
    and "OperationError_Validate oe = None" and "oe = normalizeError err (task_Type (lease_Task lease))"
    and "retryable (oe_Category oe)" and "task_Attempts (lease_Task lease) < wc_MaxAttempts config"
    and "Config_Validate config = None"
  defines "at \<equiv> retryAt config oe (task_Attempts (lease_Task lease)) now"
  shows "expired (task_Deadline t) at \<Longrightarrow> settle_task config lease (Some err) now t
      = Inl (Err ''retry time must be before task deadline'')"
    and "\<not> expired (task_Deadline t) at \<Longrightarrow> \<exists>u. settle_task config lease (Some err) now t = Inr u
      \<and> task_Status u = TaskRetryScheduled \<and> task_AvailableAt u = at \<and> task_Failure u = Some (failure_of oe)"
proof -
  have at: "now < at" unfolding at_def by (rule retryAt_future [OF assms(8)])
  have cat: "retryable_category (oe_Category oe)" by (rule retryable_imp [OF assms(6)])
  have eq: "settle_task config lease (Some err) now t = retry_update (Some oe) at now t"
    using assms(5-7) by (auto simp: settle_task_def at_def Let_def)
  show "expired (task_Deadline t) at \<Longrightarrow> settle_task config lease (Some err) now t
      = Inl (Err ''retry time must be before task deadline'')"
    using at cat assms(4)
    by (simp add: eq retry_update_def Task_ScheduleRetry_def del: retryable_category.simps)
  assume "\<not> expired (task_Deadline t) at"
  then have "Task_ScheduleRetry at (Some oe) now t = Inr (t\<lparr>task_Status := TaskRetryScheduled,
      task_UpdatedAt := now, task_AvailableAt := at, task_Failure := Some (failure_of oe)\<rparr>)"
    unfolding ScheduleRetry_iff using at cat assms(1-4) by blast
  then show "\<exists>u. settle_task config lease (Some err) now t = Inr u
      \<and> task_Status u = TaskRetryScheduled \<and> task_AvailableAt u = at \<and> task_Failure u = Some (failure_of oe)"
    by (simp add: eq retry_update_def)
qed

end
