(* ===== verification/Worker_Props.thy ===== *)
theory Worker_Props
  imports Worker_Queue
begin

text \<open>
  The properties of the worker on the in-memory queue: its backoff, its classification of
  errors, the outcome of every handler result, isolation, and that work gets done.
\<close>

section \<open>Samples\<close>

definition sample_config :: Config where
  "sample_config = \<lparr>wc_ID = ''w1'', wc_TaskType = TaskApplicationSubmit, wc_BlockedByTaskType = NoTaskType,
     wc_LeaseDuration = 60, wc_HeartbeatInterval = 20, wc_PollInterval = 10, wc_RetryBaseDelay = 100,
     wc_BlockedRetryDelay = 50, wc_MaxAttempts = 3\<rparr>"

definition sample_world :: "unit memory_world" where
  "sample_world = \<lparr>mw_queue = sample_leased, mw_draws = 0, mw_rest = ()\<rparr>"

definition sample_worker :: "Config \<Rightarrow> unit memory_world Worker" where
  "sample_worker config = memory_worker (\<lambda>n. Inr [1]) config None"

lemma sample_config_valid: "Config_Validate sample_config = None"
  by (simp add: Config_Validate_def sample_config_def NoTaskType_def)

lemma sample_held: "memory_held sample_lease 130 sample_world = Some (claimed_task 120 sample_task)"
  by (simp add: memory_held_def sample_world_def validateLeaseInput_def activeLease_def sample_lease_def
      sample_leased_def sample_task_def claimed_task_def Let_def)

lemma sample_world_ok: "memory_ok sample_world"
  by (simp add: sample_world_def sample_leased_inv)

section \<open>Properties\<close>

text \<open>
  The retry instant: under a validated configuration it is always in the future. A
  platform's own future \<open>RetryAfter\<close> is taken as it is; a validation or a confirmation waits
  the configured delay; everything else waits the base delay doubled per attempt after the
  first, capped at an hour.
\<close>

theorem retry_backoff:
  assumes "Config_Validate config = None"
  shows "now < retryAt config oe attempts now \<and> retryAt config oe attempts now =
    (case oe_RetryAfter oe of
       Some after \<Rightarrow> if now < after then after
         else if oe_Category oe \<in> {ErrorValidationRequired, ErrorConfirmationRequired}
         then now + wc_BlockedRetryDelay config
         else now + min Hour (wc_RetryBaseDelay config * 2 ^ nat (attempts - 1))
     | None \<Rightarrow> if oe_Category oe \<in> {ErrorValidationRequired, ErrorConfirmationRequired}
         then now + wc_BlockedRetryDelay config
         else now + min Hour (wc_RetryBaseDelay config * 2 ^ nat (attempts - 1)))"
proof -
  note c = backoff_closed [OF Config_Validate_None(5) [OF assms], of 1 attempts, symmetric]
  show ?thesis
    unfolding c using retryAt_future [OF assms]
    by (auto simp: retryAt_def Let_def min_def simp del: duration_units split: option.splits)
qed

theorem retry_backoff_witness:
  "retryAt sample_config sample_pacing 3 1000 = 1400"
  using retry_backoff [OF sample_config_valid, of 1000 sample_pacing 3]
  by (simp add: sample_pacing_def sample_config_def)

text \<open>
  Whatever error a handler returns, the worker settles with a valid operation error: an
  operation error that is valid is kept as it is, everything else becomes a temporary failure
  (SQLite contention, an application still owned by a campaign or a tailoring saga) or a
  permanent one.
\<close>

theorem normalizeError_spec:
  assumes "taskType \<noteq> NoTaskType"
  shows "OperationError_Validate (normalizeError err taskType) = None
    \<and> (\<forall>oe. errors_As err = Some oe \<longrightarrow> OperationError_Validate oe = None \<longrightarrow> normalizeError err taskType = oe)
    \<and> (errors_As err = None \<longrightarrow> oe_Category (normalizeError err taskType) =
         (if isSQLiteBusy err \<or> errors_Is err ErrApplicationInRunningCampaign
             \<or> errors_Is err ErrApplicationActiveTailoringSaga
          then ErrorTemporaryFailure else ErrorPermanentFailure))"
  using normalizeError_valid [OF assms, of err]
  by (simp add: normalizeError_def handler_error_def)

theorem normalizeError_spec_witness:
  "OperationError_Validate (normalizeError (ErrSentinel ErrApplicationInRunningCampaign) TaskApplicationRemove) = None"
  using normalizeError_spec [of TaskApplicationRemove "ErrSentinel ErrApplicationInRunningCampaign"]
  by (simp add: NoTaskType_def)

text \<open>
  C9. What settling does, for every handler outcome, while the lease is held and the context
  live: success completes the task; a retryable error before the last allowed attempt parks it
  at the retry instant; any other error fails it with that error on record. One case is not
  settled: if the retry instant is not before the task's deadline, the worker gets an error and
  the task stays processing.
\<close>

theorem worker_outcome:
  assumes "Config_Validate config = None" and "memory_ok w" and "memory_held lease now w = Some t"
    and "\<not> IsZero now" and "task_UpdatedAt t \<le> now" and "task_Type (lease_Task lease) \<noteq> NoTaskType"
    and "Worker_finish (memory_worker draw config g) None lease handlerErr now w = (r, w')"
  defines "i \<equiv> task_ID (lease_Task lease)" and "attempts \<equiv> task_Attempts (lease_Task lease)"
  shows "case handlerErr of
      None \<Rightarrow> r = None \<and> (\<exists>u. memory_recs w' = (memory_recs w)(i \<mapsto> u) \<and> task_Status u = TaskCompleted)
    | Some err \<Rightarrow>
        let oe = normalizeError err (task_Type (lease_Task lease)); at = retryAt config oe attempts now
        in if retryable (oe_Category oe) \<and> attempts < wc_MaxAttempts config
           then if expired (task_Deadline t) at
                then r = Some (Err ''retry time must be before task deadline'') \<and> memory_recs w' = memory_recs w
                else r = None \<and> (\<exists>u. memory_recs w' = (memory_recs w)(i \<mapsto> u)
                       \<and> task_Status u = TaskRetryScheduled \<and> task_AvailableAt u = at)
           else r = None \<and> (\<exists>u. memory_recs w' = (memory_recs w)(i \<mapsto> u) \<and> task_Status u = TaskFailed
                  \<and> task_Failure u = Some (failure_of oe))"
proof -
  note outcome = memory.finish_outcome [OF memory_worker_apart memory_worker_consumer assms(2,7), unfolded memory_worker_config]
  note st = conjunct2 [OF conjunct2 [OF memory.held_rec [OF assms(2,3)]]]
  show ?thesis
  proof (cases handlerErr)
    case None
    obtain u where u: "settle_task config lease None now t = Inr u" "task_Status u = TaskCompleted"
      using settle_completed [OF st assms(4,5)] by blast
    from outcome(3) [OF assms(3) refl, unfolded None, OF u(1)] u(2) show ?thesis
      by (auto simp: None i_def)
  next
    case (Some err)
    let ?oe = "normalizeError err (task_Type (lease_Task lease))"
    let ?at = "retryAt config ?oe attempts now"
    note valid = normalizeError_valid [OF assms(6), of err]
    note settled = outcome(3) [OF assms(3) refl, unfolded Some]
    consider (park) "retryable (oe_Category ?oe)" "attempts < wc_MaxAttempts config" "\<not> expired (task_Deadline t) ?at"
      | (late) "retryable (oe_Category ?oe)" "attempts < wc_MaxAttempts config" "expired (task_Deadline t) ?at"
      | (last) "\<not> (retryable (oe_Category ?oe) \<and> attempts < wc_MaxAttempts config)" by blast
    then show ?thesis
    proof cases
      case park
      obtain u where "settle_task config lease (Some err) now t = Inr u" "task_Status u = TaskRetryScheduled"
          "task_AvailableAt u = ?at"
        using settle_retried(2) [OF st assms(4,5) valid refl park(1) park(2) [unfolded attempts_def] assms(1)]
          park(3) by (auto simp: attempts_def)
      with settled park show ?thesis by (auto simp: Some i_def Let_def simp del: retryable.simps)
    next
      case late
      have "settle_task config lease (Some err) now t = Inl (Err ''retry time must be before task deadline'')"
        using settle_retried(1) [OF st assms(4,5) valid refl late(1) late(2) [unfolded attempts_def] assms(1)]
          late(3) by (simp add: attempts_def)
      with outcome(4) [OF assms(3) refl, unfolded Some] late show ?thesis
        by (simp add: Some Let_def del: retryable.simps)
    next
      case last
      obtain u where "settle_task config lease (Some err) now t = Inr u" "task_Status u = TaskFailed"
          "task_Failure u = Some (failure_of ?oe)"
        using settle_failed [OF st assms(4,5) valid refl last [unfolded attempts_def]] by blast
      with settled last show ?thesis by (auto simp: Some i_def Let_def simp del: retryable.simps)
    qed
  qed
qed

theorem worker_outcome_witness:
  "fst (Worker_finish (sample_worker sample_config) None sample_lease None 130 sample_world) = None"
proof -
  have eq: "Worker_finish (memory_worker (\<lambda>n. Inr [1]) sample_config None) None sample_lease None 130 sample_world
      = (fst (Worker_finish (sample_worker sample_config) None sample_lease None 130 sample_world),
         snd (Worker_finish (sample_worker sample_config) None sample_lease None 130 sample_world))"
    by (simp add: sample_worker_def)
  have "task_Type (lease_Task sample_lease) \<noteq> NoTaskType"
    by (simp add: sample_lease_def sample_task_def NoTaskType_def)
  from worker_outcome [OF sample_config_valid sample_world_ok sample_held _ _ this eq]
  show ?thesis by (simp add: claimed_task_def)
qed

text \<open>What a claim of the worker does to the records, and whose task it takes.\<close>

definition expiring :: "ctx \<Rightarrow> ClaimParams \<Rightarrow> Task option \<Rightarrow> Task option" where
  "expiring ctx params t =
     (if ctx = None \<and> ClaimParams_Validate params = None then map_option (expire_one (cp_Now params)) t else t)"

lemma memory_claim:
  assumes "memory_ok w" and "con_Claim (memory_consumer draw) ctx params w = (c, w1)"
  shows "memory_ok w1"
    and "(\<And>lease. c = Inr (Some lease) \<Longrightarrow> i \<noteq> task_ID (lease_Task lease)) \<Longrightarrow>
      memory_recs w1 i = expiring ctx params (memory_recs w i)"
    and "c = Inr (Some lease) \<Longrightarrow> \<exists>t. memory_recs w (task_ID (lease_Task lease)) = Some t
      \<and> ready_task params (mw_queue w) t"
proof -
  obtain q' where cl: "Claim ctx params (draw (mw_draws w)) (mw_queue w) = (c, q')"
    and w1: "w1 = w\<lparr>mw_queue := q', mw_draws := mw_draws w + 1\<rparr>"
    using assms(2) by (auto simp: memory_consumer_def split: prod.splits)
  let ?q1 = "expireOverdue (cp_Now params) (mw_queue w)"
  have seen: "memory_recs (v\<lparr>mw_queue := ?q1\<rparr>) i = map_option (expire_one (cp_Now params)) (memory_recs w i)" for v i
    by (simp add: memory_recs_def expireOverdue_keys [OF assms(1)] expireOverdue_tasks [OF assms(1)] split: option.split)
  show "memory_ok w1" using Claim_inv [OF assms(1) cl] by (simp add: w1)
  show "\<exists>t. memory_recs w (task_ID (lease_Task lease)) = Some t \<and> ready_task params (mw_queue w) t"
    if c: "c = Inr (Some lease)"
  proof (rule Claim_takes_ready [OF assms(1) cl [unfolded c]])
    fix k t
    assume t: "map_of (q_tasks (mw_queue w)) k = Some t" "ready_task params (mw_queue w) t"
      "lease_Task lease = claimed_task (cp_Now params) t"
    have "task_ID (lease_Task lease) = task_ID t" by (simp add: t(3) claimed_task_def)
    then have "memory_recs w (task_ID (lease_Task lease)) = Some t"
      using t(1) by (intro memory_recs_iff [OF assms(1), THEN iffD2] exI [of _ k] conjI) simp_all
    with t(2) show ?thesis by (intro exI [of _ t] conjI)
  qed
  show "memory_recs w1 i = expiring ctx params (memory_recs w i)"
    if other: "\<And>lease. c = Inr (Some lease) \<Longrightarrow> i \<noteq> task_ID (lease_Task lease)"
  proof (cases "\<exists>lease. c = Inr (Some lease)")
    case True
    then obtain lease where c: "c = Inr (Some lease)" by blast
    note live = Claim_found(6) [OF cl [unfolded c]]
    have ctx: "ctx = None" using cl c by (cases ctx) (auto simp: Claim_def)
    obtain k t where t: "map_of (q_tasks (mw_queue w)) k = Some t" "lease_Task lease = claimed_task (cp_Now params) t"
      and q': "q' = ?q1\<lparr>q_tasks := AList.update k (lease_Task lease) (q_tasks ?q1),
        q_leases := AList.update (task_ID t) \<lparr>ls_workerID = cp_WorkerID params,
          ls_token = lease_Token lease, ls_until = lease_Until lease\<rparr> (q_leases ?q1)\<rparr>"
      using Claim_takes_ready [OF assms(1) cl [unfolded c]] by blast
    have "map_of (q_taskKeys (mw_queue w)) i \<noteq> Some k"
      using queue_inv_key [OF assms(1), of i k] t other [OF c] by (auto simp: claimed_task_def)
    then have "memory_recs w1 i = memory_recs (w\<lparr>mw_queue := ?q1\<rparr>) i"
      by (auto simp: memory_recs_def w1 q' expireOverdue_keys [OF assms(1)] split: option.split)
    with seen ctx live show ?thesis by (simp add: expiring_def)
  next
    case False
    have "q' = (if ctx = None \<and> ClaimParams_Validate params = None then ?q1 else mw_queue w)"
      using cl False by (auto simp: Claim_unfold Let_def split: option.splits if_splits sum.splits)
    moreover have "memory_recs (w\<lparr>mw_queue := q, mw_draws := n\<rparr>) i = memory_recs (w\<lparr>mw_queue := q\<rparr>) i" for q n
      by (simp add: memory_recs_def split: option.split)
    ultimately show ?thesis using seen [of w i] by (simp add: w1 expiring_def)
  qed
qed

text \<open>
  C8. A worker minds its own task. In one round, whatever the context, the clock, the heartbeats,
  cancellations and handler results, at most one task is taken, it was ready when the round began,
  and every other record is as before, except that a claim that got past its context and its
  parameters has failed the unfinished tasks whose deadline had passed. Executing any lease, in any
  state of the queue, changes no record but the leased task's; and settling a lease that is not
  held any more is an error that changes no record at all.
\<close>

theorem worker_isolated:
  assumes "memory_ok w"
  shows "(RunOnce (memory_worker draw config g) ctx now signals w = (out, w') \<longrightarrow> memory_ok w' \<and>
      (\<exists>taken. (\<forall>i. taken \<noteq> Some i \<longrightarrow>
            memory_recs w' i = expiring ctx (worker_claim config now) (memory_recs w i))
        \<and> (\<forall>i. taken = Some i \<longrightarrow>
            (\<exists>t. memory_recs w i = Some t \<and> ready_task (worker_claim config now) (mw_queue w) t))))
    \<and> (execute (memory_worker draw config g) lease signals w = (r, w') \<longrightarrow>
      memory_ok w' \<and> (\<forall>i. i \<noteq> task_ID (lease_Task lease) \<longrightarrow> memory_recs w' i = memory_recs w i))
    \<and> (Worker_finish (memory_worker draw config g) ctx lease handlerErr now w = (e, w') \<longrightarrow>
      memory_held lease now w = None \<longrightarrow> e \<noteq> None \<and> memory_recs w' = memory_recs w)"
proof (intro conjI)
  note frame = memory.execute_frame [OF memory_worker_apart memory_worker_consumer]
  show "execute (memory_worker draw config g) lease signals w = (r, w') \<longrightarrow>
      memory_ok w' \<and> (\<forall>i. i \<noteq> task_ID (lease_Task lease) \<longrightarrow> memory_recs w' i = memory_recs w i)"
    using frame [OF assms] by blast
  show "Worker_finish (memory_worker draw config g) ctx lease handlerErr now w = (e, w') \<longrightarrow>
      memory_held lease now w = None \<longrightarrow> e \<noteq> None \<and> memory_recs w' = memory_recs w"
    using memory.finish_outcome(5) [OF memory_worker_apart memory_worker_consumer assms] by blast
  show "RunOnce (memory_worker draw config g) ctx now signals w = (out, w') \<longrightarrow> memory_ok w' \<and>
      (\<exists>taken. (\<forall>i. taken \<noteq> Some i \<longrightarrow>
            memory_recs w' i = expiring ctx (worker_claim config now) (memory_recs w i))
        \<and> (\<forall>i. taken = Some i \<longrightarrow>
            (\<exists>t. memory_recs w i = Some t \<and> ready_task (worker_claim config now) (mw_queue w) t)))"
  proof
    assume run: "RunOnce (memory_worker draw config g) ctx now signals w = (out, w')"
    obtain c w1 where cl: "con_Claim (memory_consumer draw) ctx (worker_claim config now) w = (c, w1)" by fastforce
    note m = memory_claim [OF assms cl]
    show "memory_ok w' \<and> (\<exists>taken. (\<forall>i. taken \<noteq> Some i \<longrightarrow>
            memory_recs w' i = expiring ctx (worker_claim config now) (memory_recs w i))
        \<and> (\<forall>i. taken = Some i \<longrightarrow>
            (\<exists>t. memory_recs w i = Some t \<and> ready_task (worker_claim config now) (mw_queue w) t)))"
    proof (cases "\<exists>lease. c = Inr (Some lease)")
      case True
      then obtain l where c: "c = Inr (Some l)" by blast
      obtain x w2 where ex: "execute (memory_worker draw config g) l signals w1 = (x, w2)" by fastforce
      have "w' = w2"
        using run cl c ex by (auto simp: RunOnce_def memory_worker_def split: option.splits)
      with frame [OF m(1) ex] m(2,3) c show ?thesis
        by (intro conjI exI [of _ "Some (task_ID (lease_Task l))"]) auto
    next
      case False
      then have "w' = w1"
        using run cl by (auto simp: RunOnce_def memory_worker_def split: sum.splits option.splits)
      with m(1,2) False show ?thesis by (intro conjI exI [of _ None]) auto
    qed
  qed
qed

theorem worker_isolated_witness:
  "memory_recs (snd (execute (sample_worker sample_config) sample_lease [Heartbeat None 130] sample_world)) ''t2''
     = memory_recs sample_world ''t2''
   \<and> memory_ok (snd (RunOnce (sample_worker sample_config) None 200 [HandlerDone None None 210] sample_world))"
  using worker_isolated [OF sample_world_ok, THEN conjunct2, THEN conjunct1, THEN mp, OF prod.collapse [symmetric],
      of "\<lambda>n. Inr [1]" sample_config None sample_lease "[Heartbeat None 130]"]
    worker_isolated [OF sample_world_ok, THEN conjunct1, THEN mp, OF prod.collapse [symmetric],
      of "\<lambda>n. Inr [1]" sample_config None None 200 "[HandlerDone None None 210]"]
  by (simp add: sample_worker_def sample_lease_def sample_task_def)

lemma worker_claim_valid:
  assumes "Config_Validate config = None" and "0 < now"
  shows "ClaimParams_Validate (worker_claim config now) = None"
  using Config_Validate_None [OF assms(1)] assms(2)
  by (auto simp: ClaimParams_Validate_def worker_claim_def)

lemma hex_nonempty: "bs \<noteq> [] \<Longrightarrow> hex_EncodeToString bs \<noteq> []"
  by (cases bs) (simp_all add: hex_EncodeToString_def)

text \<open>A fresh lease is held until it runs out.\<close>

lemma claim_held:
  assumes "queue_inv q" and "Claim ctx params rand q = (Inr (Some lease), q')"
    and "0 < cp_Now params" and "rand = Inr bs" and "bs \<noteq> []" and "cp_Now params \<le> later"
    and "later < lease_Until lease" and "\<not> expired (task_Deadline (lease_Task lease)) later"
  shows "memory_held lease later \<lparr>mw_queue = q', mw_draws = n, mw_rest = x\<rparr> = Some (lease_Task lease)"
    and "task_Status (lease_Task lease) = TaskProcessing" and "task_UpdatedAt (lease_Task lease) = cp_Now params"
proof -
  let ?c = "claim_selected params (expireOverdue (cp_Now params) q)"
  note found = Claim_found [OF assms(2)] and task = Claim_found_task [OF assms(1,2)]
  have inv1: "queue_inv (expireOverdue (cp_Now params) q)" by (rule expireOverdue_inv [OF assms(1)])
  have params: "cp_WorkerID params \<noteq> []"
    using found(6) by (auto simp: ClaimParams_Validate_def split: if_splits)
  have token: "lease_Token lease \<noteq> []" using found(5) assms(4,5) hex_nonempty by auto
  have id: "task_ID (lease_Task lease) \<noteq> []"
    using queue_inv_task(1) [OF inv1 task(1)] task(3) by (simp add: task_ok_def)
  show st: "task_Status (lease_Task lease) = TaskProcessing"
    and "task_UpdatedAt (lease_Task lease) = cp_Now params"
    unfolding found(2) by (simp_all add: claimed_task_def)
  have "validateLeaseInput lease later = None"
    using params token id st assms(3,6-8) found(3) by (simp add: validateLeaseInput_def)
  moreover have "activeLease lease later q' = Inr (cand_key ?c, lease_Task lease,
      \<lparr>ls_workerID = lease_WorkerID lease, ls_token = lease_Token lease, ls_until = lease_Until lease\<rparr>)"
    using queue_inv_task(3) [OF inv1 task(1)] task(3) st assms(7,8)
    by (simp add: activeLease_def found(7) Let_def)
  ultimately show "memory_held lease later \<lparr>mw_queue = q', mw_draws = n, mw_rest = x\<rparr> = Some (lease_Task lease)"
    by (simp add: memory_held_def)
qed

lemma claim_fresh:
  assumes "queue_inv q" and "ClaimParams_Validate params = None" and "cp_Now params \<le> later"
    and "\<And>k t. map_of (q_tasks q) k = Some t \<Longrightarrow> \<not> expired (task_Deadline t) later"
    and "map_of (q_tasks q) k = Some t" and "claimable params (expireOverdue (cp_Now params) q) t"
    and "later < cp_Now params + cp_LeaseDuration params"
  obtains lease q' where "Claim None params (Inr bs) q = (Inr (Some lease), q')" and "later < lease_Until lease"
    and "\<not> expired (task_Deadline (lease_Task lease)) later"
    and "\<exists>k t0. map_of (q_tasks q) k = Some t0 \<and> same_identity t0 (lease_Task lease)"
proof -
  let ?q1 = "expireOverdue (cp_Now params) q"
  have alive: "\<not> expired (task_Deadline t0) (cp_Now params)" if "map_of (q_tasks q) k0 = Some t0" for k0 t0
    using assms(4) [OF that] expired_mono [OF _ assms(3)] by blast
  have "map_of (q_tasks ?q1) k = Some t"
    using expireOverdue_tasks [OF assms(1)] assms(5) alive [OF assms(5)] by (simp add: expire_one_def)
  with assms(6) have ne: "claim_candidates params ?q1 \<noteq> []"
    using claim_candidates_nonempty [OF expireOverdue_inv [OF assms(1)]] by blast
  then obtain lease q' where claim: "Claim None params (Inr bs) q = (Inr (Some lease), q')"
    using assms(2) by (simp add: Claim_unfold randomToken_def Let_def)
  let ?c = "claim_selected params ?q1"
  note found = Claim_found [OF claim] and task = Claim_found_task [OF assms(1) claim]
  note before = claimable_before_expiry [OF assms(1) task(1,2)]
  have "\<not> expired (task_Deadline (cand_task ?c)) later" by (rule assms(4) [OF before(1)])
  then have "later < lease_Until lease" "\<not> expired (task_Deadline (lease_Task lease)) later"
    using assms(7) found(2,4) by (auto simp: claim_until_def Let_def split: option.splits)
  moreover have "same_identity (cand_task ?c) (lease_Task lease)"
    unfolding found(2) by (rule claimed_task_identity)
  ultimately show ?thesis using that [OF claim] before(1) by blast
qed

text \<open>
  Work gets done: if some task is claimable for the worker, random bytes are available, and
  the handler succeeds while the lease and the deadlines last, one round of the loop claims a
  task and completes it, without an error.
\<close>

theorem worker_completes:
  assumes "Config_Validate config = None" and "memory_ok w" and "0 < now" and "now \<le> later"
    and "later < now + wc_LeaseDuration config"
    and "\<And>k t. map_of (q_tasks (mw_queue w)) k = Some t \<Longrightarrow> \<not> expired (task_Deadline t) later"
    and "draw (mw_draws w) = Inr bs" and "bs \<noteq> []"
    and "map_of (q_tasks (mw_queue w)) k = Some t"
    and "claimable (worker_claim config now) (expireOverdue now (mw_queue w)) t"
  shows "\<exists>i t0 u w'. RunOnce (memory_worker draw config g) None now [HandlerDone None None later] w
      = (Some (True, None), w') \<and> memory_recs w i = Some t0 \<and> memory_recs w' i = Some u
      \<and> task_Status u = TaskCompleted"
proof -
  let ?params = "worker_claim config now" and ?worker = "memory_worker draw config g"
  have p: "cp_Now ?params = now" "cp_LeaseDuration ?params = wc_LeaseDuration config"
    by (simp_all add: worker_claim_def)
  obtain lease q' where claim: "Claim None ?params (Inr bs) (mw_queue w) = (Inr (Some lease), q')"
    and lease: "later < lease_Until lease" "\<not> expired (task_Deadline (lease_Task lease)) later"
    and old: "\<exists>k t0. map_of (q_tasks (mw_queue w)) k = Some t0 \<and> same_identity t0 (lease_Task lease)"
    using claim_fresh [OF assms(2) worker_claim_valid [OF assms(1,3)], of later k t] assms(4-6,9,10)
    unfolding p by blast
  let ?w1 = "\<lparr>mw_queue = q', mw_draws = mw_draws w + 1, mw_rest = mw_rest w\<rparr>"
  have con: "con_Claim (memory_consumer draw) None ?params w = (Inr (Some lease), ?w1)"
    using claim assms(7) by (simp add: memory_consumer_def)
  have ok: "memory_ok ?w1" using Claim_inv [OF assms(2) claim] by simp
  note held = claim_held [OF assms(2) claim, unfolded p, OF assms(3) refl assms(8,4) lease]
  obtain u where u: "settle_task config lease None later (lease_Task lease) = Inr u" "task_Status u = TaskCompleted"
    using settle_completed [OF held(2), of later config lease] held(3) assms(3,4) by auto
  obtain r w' where fin: "Worker_finish ?worker None lease None later ?w1 = (r, w')"
    by (cases "Worker_finish ?worker None lease None later ?w1")
  from memory.finish_outcome(3) [OF memory_worker_apart memory_worker_consumer ok fin held(1) refl] u(1)
  have settled: "r = None" "memory_recs w' = (memory_recs ?w1)(task_ID (lease_Task lease) \<mapsto> u)" by simp_all
  have "RunOnce ?worker None now [HandlerDone None None later] w = (Some (True, None), w')"
    using con fin settled(1) by (simp add: RunOnce_def)
  moreover obtain t0 where "memory_recs w (task_ID (lease_Task lease)) = Some t0"
    using old memory_recs_iff [OF assms(2)] by (metis same_identityD(1))
  ultimately show ?thesis using settled(2) u(2) by auto
qed

theorem worker_completes_witness:
  "\<exists>i u w'. RunOnce (sample_worker sample_config) None 120 [HandlerDone None None 130]
     \<lparr>mw_queue = sample_queue, mw_draws = 0, mw_rest = ()\<rparr> = (Some (True, None), w')
     \<and> memory_recs w' i = Some u \<and> task_Status u = TaskCompleted"
proof -
  have t: "map_of (q_tasks sample_queue) ''k1'' = Some sample_task" by (simp add: sample_queue_def)
  have "claimable (worker_claim sample_config 120) (expireOverdue 120 sample_queue) sample_task"
    by (simp add: claimable_def worker_claim_def sample_config_def sample_task_def NoTaskType_def eligibleAt_def)
  moreover have "\<not> expired (task_Deadline u) 130" if "map_of (q_tasks sample_queue) k = Some u" for k u
    using that by (auto simp: sample_queue_def sample_task_def split: if_splits)
  ultimately show ?thesis
    using worker_completes [OF sample_config_valid, where draw = "\<lambda>n. Inr [1]" and g = None and now = 120
      and w = "\<lparr>mw_queue = sample_queue, mw_draws = 0, mw_rest = ()\<rparr>" and later = 130 and bs = "[1]"] t sample_inv
    by (simp add: sample_worker_def sample_config_def) blast
qed

definition sample_temporary :: error where
  "sample_temporary = ErrOperation
     (OperationError ErrorTemporaryFailure ''conversations.send'' ''hh'' ''try later'' None [] None)"

text \<open>
  The unsettled case stops the whole worker: a temporary failure shortly before the task's
  deadline, with a base delay that reaches past it, ends \<open>Run\<close> with an error, and the
  task stays processing under its lease.
\<close>

theorem worker_stops_on_late_retry:
  "Run (sample_worker (sample_config\<lparr>wc_RetryBaseDelay := 1000\<rparr>))
     [\<lparr>round_ctx = None, round_now = 120, round_signals = [HandlerDone (Some sample_temporary) None 130],
        round_after = None\<rparr>]
     \<lparr>mw_queue = sample_queue, mw_draws = 0, mw_rest = ()\<rparr>
   = (Some (ErrWrap ''worker w1 task t1'' (Err ''retry time must be before task deadline'')),
      \<lparr>mw_queue = sample_leased, mw_draws = 1, mw_rest = ()\<rparr>)"
proof -
  let ?worker = "sample_worker (sample_config\<lparr>wc_RetryBaseDelay := 1000\<rparr>)"
  let ?w0 = "\<lparr>mw_queue = sample_queue, mw_draws = 0, mw_rest = ()\<rparr>"
    and ?w1 = "\<lparr>mw_queue = sample_leased, mw_draws = 1, mw_rest = ()\<rparr>"
  have params: "worker_claim (w_config ?worker) 120 = sample_claim 120"
    by (simp add: worker_claim_def sample_worker_def sample_config_def sample_claim_def)
  have claim: "con_Claim (w_consumer ?worker) None (sample_claim 120) ?w0 = (Inr (Some sample_lease), ?w1)"
    using sample_claimed by (simp add: sample_worker_def memory_consumer_def)
  have "Worker_finish ?worker None sample_lease (Some sample_temporary) 130 ?w1
      = (Some (Err ''retry time must be before task deadline''), ?w1)"
    by (simp add: Worker_finish_def normalizeError_def sample_temporary_def OperationError_Validate_def
        run_guard_def sample_worker_def sample_config_def memory_consumer_def retryAt_def backoff.simps
        Retry_def finish_def validateLeaseInput_def activeLease_def retry_update_def Task_ScheduleRetry_def
        sample_lease_def sample_leased_def sample_task_def claimed_task_def Let_def)
  with claim params show ?thesis
    by (simp add: RunOnce_def) (simp add: sample_worker_def sample_config_def sample_lease_def sample_task_def)
qed

end
