(* ===== verification/Scheduler.thy ===== *)
theory Scheduler
  imports Broker_Props
begin

text \<open>
  \<open>scheduler/scheduler.go\<close>: job definitions, their schedules and deterministic jitter,
  and the pass that turns due schedules into tasks. The store, the queue, the id generator, the
  gate and the list of pauses are interfaces: operations on a world of any type. What the code
  takes from packages outside the repository is a parameter: the time zone database
  (\<open>time.LoadLocation\<close>) and the cron parser, whose schedules are functions from an
  instant to the next one.
\<close>

section \<open>Definitions and entries\<close>

record Definition =
  def_JobTag :: string
  def_TriggerIndex :: int
  def_Expression :: string
  def_Timezone :: string
  def_Interval :: duration
  def_ActionType :: TaskType
  def_Platform :: Platform
  def_ProfileID :: ProfileID
  def_Payload :: RawMessage
  def_Priority :: TaskPriority
  def_JitterMin :: duration
  def_JitterMax :: duration

record Entry = Definition +
  entry_NextRunAt :: time

record Pause =
  pause_JobTag :: string
  pause_ProfileID :: ProfileID
  pause_Reason :: string
  pause_CreatedAt :: time

type_synonym Schedule = "time \<Rightarrow> time"

record schedule_lib =
  lib_LoadLocation :: "string \<Rightarrow> error option"
  lib_ParseStandard :: "string \<Rightarrow> error + Schedule"

definition intervalSchedule_Next :: "duration \<Rightarrow> Schedule" where
  "intervalSchedule_Next every now = now + every"

definition parseSchedule :: "schedule_lib \<Rightarrow> 'a Definition_scheme \<Rightarrow> error + Schedule" where
  "parseSchedule lib definition =
     (if def_Interval definition > 0 then Inr (intervalSchedule_Next (def_Interval definition))
      else case lib_LoadLocation lib (def_Timezone definition) of
        Some e \<Rightarrow> Inl (ErrWrap (''job '' @ def_JobTag definition @ '' timezone'') e)
      | None \<Rightarrow>
          (case lib_ParseStandard lib (''CRON_TZ='' @ def_Timezone definition @ '' '' @ def_Expression definition) of
             Inl e \<Rightarrow> Inl (ErrWrap (''job '' @ def_JobTag definition @ '' cron'') e)
           | Inr schedule \<Rightarrow> Inr schedule))"

definition Definition_Validate :: "schedule_lib \<Rightarrow> 'a Definition_scheme \<Rightarrow> error option" where
  "Definition_Validate lib definition =
     (if def_JobTag definition = [] \<or> def_TriggerIndex definition < 0
         \<or> def_ActionType definition = NoTaskType \<or> def_Platform definition = []
         \<or> def_ProfileID definition = [] \<or> def_Payload definition = []
         \<or> \<not> json_Valid (def_Payload definition)
      then Some (Err ''scheduled job definition is incomplete'')
      else if \<not> (def_Interval definition > 0 \<and> def_Expression definition = [])
              \<and> \<not> (def_Interval definition = 0 \<and> def_Expression definition \<noteq> []
                     \<and> def_Timezone definition \<noteq> [])
      then Some (Err ''scheduled job requires either a cron expression with timezone or an interval'')
      else if def_JitterMin definition < 0 \<or> def_JitterMax definition < def_JitterMin definition
      then Some (Err ''scheduled job has invalid jitter bounds'')
      else case TaskPriority_Validate (def_Priority definition) of
        Some e \<Rightarrow> Some (ErrWrap (''scheduled job '' @ def_JobTag definition) e)
      | None \<Rightarrow>
          (case parseSchedule lib definition of Inl e \<Rightarrow> Some e | Inr _ \<Rightarrow> None))"

section \<open>Keys and jitter\<close>

text \<open>\<open>UnixNano\<close>: nanoseconds since 1970 as an int64; an instant is counted from year 1.\<close>

definition unixEpoch :: time where
  "unixEpoch = 62135596800 * Second"

definition UnixNano :: "time \<Rightarrow> int" where
  "UnixNano t = to_int64 (t - unixEpoch)"

definition schedule_text :: "string \<Rightarrow> int \<Rightarrow> time \<Rightarrow> string" where
  "schedule_text tag triggerIndex scheduledAt =
     tag @ [CHR 0x00] @ FormatInt triggerIndex @ [CHR 0x00] @ FormatInt (UnixNano scheduledAt)"

definition scheduleIdempotencyKey :: "string \<Rightarrow> int \<Rightarrow> time \<Rightarrow> string" where
  "scheduleIdempotencyKey tag triggerIndex scheduledAt =
     ''job.cron:'' @ hex_EncodeToString (sha256_Sum256 (schedule_text tag triggerIndex scheduledAt))"

text \<open>
  The span is computed on uint64. A span of 0 would make the remainder panic: \<open>None\<close>.
\<close>

definition deterministicJitter :: "string \<Rightarrow> duration \<Rightarrow> duration \<Rightarrow> duration option" where
  "deterministicJitter key minimum maximum =
     (if maximum \<le> minimum then Some minimum
      else let digest = sha256_Sum256 key;
               span = to_uint64 (to_uint64 (to_int64 (maximum - minimum)) + 1)
           in if span = 0 then None
              else Some (to_int64 (minimum + to_int64 (int (be_nat (take 8 digest)) mod span))))"

section \<open>The scheduler's environment\<close>

type_synonym 's Gate = "ctx \<Rightarrow> Definition \<Rightarrow> 's \<Rightarrow> (error + bool) \<times> 's"

record 's Scheduler =
  sch_lib :: schedule_lib
  sch_SyncSchedules :: "ctx \<Rightarrow> Entry list \<Rightarrow> time \<Rightarrow> 's \<Rightarrow> error option \<times> 's"
  sch_DueSchedules :: "ctx \<Rightarrow> time \<Rightarrow> int \<Rightarrow> 's \<Rightarrow> (error + Entry list) \<times> 's"
  sch_HasActiveScheduledTask :: "ctx \<Rightarrow> string \<Rightarrow> ProfileID \<Rightarrow> 's \<Rightarrow> (error + bool) \<times> 's"
  sch_AdvanceSchedule :: "ctx \<Rightarrow> string \<Rightarrow> int \<Rightarrow> time \<Rightarrow> time \<Rightarrow> time \<Rightarrow> 's \<Rightarrow> (error + bool) \<times> 's"
  sch_Enqueue :: "ctx \<Rightarrow> Task \<Rightarrow> 's \<Rightarrow> (error + bool) \<times> 's"
  sch_NewID :: "string \<Rightarrow> 's \<Rightarrow> (error + string) \<times> 's"
  sch_gate :: "'s Gate option"
  sch_pauses :: "(ctx \<Rightarrow> 's \<Rightarrow> (error + Pause list) \<times> 's) option"

text \<open>\<open>Sync\<close> validates every definition before it stores any.\<close>

fun sync_entries :: "schedule_lib \<Rightarrow> time \<Rightarrow> Definition list \<Rightarrow> error + Entry list" where
  "sync_entries lib now [] = Inr []"
| "sync_entries lib now (definition # rest) =
     (case Definition_Validate lib definition of Some e \<Rightarrow> Inl e | None \<Rightarrow>
      case parseSchedule lib definition of Inl e \<Rightarrow> Inl e | Inr schedule \<Rightarrow>
      case sync_entries lib now rest of Inl e \<Rightarrow> Inl e | Inr entries \<Rightarrow>
      Inr (Definition.extend definition (Entry.fields (schedule now)) # entries))"

definition Sync :: "'s Scheduler \<Rightarrow> ctx \<Rightarrow> time \<Rightarrow> Definition list \<Rightarrow> 's \<Rightarrow> error option \<times> 's" where
  "Sync scheduler ctx now definitions s =
     (case sync_entries (sch_lib scheduler) now definitions of
        Inl e \<Rightarrow> (Some e, s)
      | Inr entries \<Rightarrow> sch_SyncSchedules scheduler ctx entries now s)"

text \<open>The parameters of the task for an entry; a panic of the jitter ends the call like an error.\<close>

definition panic :: "string \<Rightarrow> error" where
  "panic message = Err (''panic: '' @ message)"

definition entry_key :: "Entry \<Rightarrow> string" where
  "entry_key entry = scheduleIdempotencyKey (def_JobTag entry) (def_TriggerIndex entry) (entry_NextRunAt entry)"

definition scheduled_params :: "Entry \<Rightarrow> string \<Rightarrow> string \<Rightarrow> duration \<Rightarrow> NewTaskParams" where
  "scheduled_params entry taskID correlationID jitter = \<lparr>ntp_ID = taskID, ntp_Type = def_ActionType entry,
     ntp_IdempotencyKey = entry_key entry, ntp_Source = ''cron:'' @ def_JobTag entry,
     ntp_Platform = def_Platform entry, ntp_ProfileID = def_ProfileID entry,
     ntp_CorrelationID = correlationID, ntp_Payload = def_Payload entry, ntp_Priority = def_Priority entry,
     ntp_AvailableAt = entry_NextRunAt entry + jitter, ntp_Deadline = None\<rparr>"

definition enqueue :: "'s Scheduler \<Rightarrow> ctx \<Rightarrow> Entry \<Rightarrow> time \<Rightarrow> 's \<Rightarrow> error option \<times> 's" where
  "enqueue scheduler ctx entry now s =
     (case sch_NewID scheduler ''task'' s of (Inl e, s1) \<Rightarrow> (Some e, s1) | (Inr taskID, s1) \<Rightarrow>
      case sch_NewID scheduler ''correlation'' s1 of (Inl e, s2) \<Rightarrow> (Some e, s2) | (Inr correlationID, s2) \<Rightarrow>
      case deterministicJitter (entry_key entry) (def_JitterMin entry) (def_JitterMax entry) of
        None \<Rightarrow> (Some (panic ''integer divide by zero''), s2)
      | Some jitter \<Rightarrow>
      case NewTask (scheduled_params entry taskID correlationID jitter) now of
        Inl e \<Rightarrow> (Some e, s2)
      | Inr task \<Rightarrow>
      case sch_Enqueue scheduler ctx task s2 of
        (Inl e, s3) \<Rightarrow> (Some (ErrWrap (''enqueue scheduled job '' @ def_JobTag entry) e), s3)
      | (Inr _, s3) \<Rightarrow> (None, s3))"

section \<open>The pass over the due schedules\<close>

text \<open>The key of the set of pauses: tag and profile with a NUL between.\<close>

definition pause_key :: "string \<Rightarrow> ProfileID \<Rightarrow> string" where
  "pause_key tag profileID = tag @ [CHR 0x00] @ profileID"

definition allowed_by_gate :: "'s Scheduler \<Rightarrow> ctx \<Rightarrow> Entry \<Rightarrow> 's \<Rightarrow> (error + bool) \<times> 's" where
  "allowed_by_gate scheduler ctx entry s =
     (case sch_gate scheduler of None \<Rightarrow> (Inr True, s) | Some gate \<Rightarrow> gate ctx (Definition.truncate entry) s)"

text \<open>The body of the loop: whether the entry was advanced, or the error that ends the pass.\<close>

definition reconcile_entry ::
  "'s Scheduler \<Rightarrow> ctx \<Rightarrow> time \<Rightarrow> string set \<Rightarrow> Entry \<Rightarrow> 's \<Rightarrow> (error + bool) \<times> 's" where
  "reconcile_entry scheduler ctx now paused entry s =
     (case parseSchedule (sch_lib scheduler) entry of Inl e \<Rightarrow> (Inl e, s) | Inr schedule \<Rightarrow>
      if pause_key (def_JobTag entry) (def_ProfileID entry) \<in> paused
      then sch_AdvanceSchedule scheduler ctx (def_JobTag entry) (def_TriggerIndex entry)
             (entry_NextRunAt entry) (schedule now) now s
      else case sch_HasActiveScheduledTask scheduler ctx (def_JobTag entry) (def_ProfileID entry) s of
        (Inl e, s1) \<Rightarrow> (Inl e, s1)
      | (Inr active, s1) \<Rightarrow>
          (case (if active then (Inr False, s1) else allowed_by_gate scheduler ctx entry s1) of
             (Inl e, s2) \<Rightarrow> (Inl e, s2)
           | (Inr allow, s2) \<Rightarrow>
               (case (if allow then enqueue scheduler ctx entry now s2 else (None, s2)) of
                  (Some e, s3) \<Rightarrow> (Inl e, s3)
                | (None, s3) \<Rightarrow>
                    sch_AdvanceSchedule scheduler ctx (def_JobTag entry) (def_TriggerIndex entry)
                      (entry_NextRunAt entry) (schedule now) now s3)))"

fun reconcile_entries ::
  "'s Scheduler \<Rightarrow> ctx \<Rightarrow> time \<Rightarrow> string set \<Rightarrow> nat \<Rightarrow> Entry list \<Rightarrow> 's \<Rightarrow> (nat \<times> error option) \<times> 's" where
  "reconcile_entries scheduler ctx now paused advanced [] s = ((advanced, None), s)"
| "reconcile_entries scheduler ctx now paused advanced (entry # rest) s =
     (case reconcile_entry scheduler ctx now paused entry s of
        (Inl e, s') \<Rightarrow> ((advanced, Some e), s')
      | (Inr changed, s') \<Rightarrow>
          reconcile_entries scheduler ctx now paused (if changed then advanced + 1 else advanced) rest s')"

definition paused_set :: "Pause list \<Rightarrow> string set" where
  "paused_set items = (\<lambda>p. pause_key (pause_JobTag p) (pause_ProfileID p)) ` set items"

definition ReconcileDue :: "'s Scheduler \<Rightarrow> ctx \<Rightarrow> time \<Rightarrow> 's \<Rightarrow> (nat \<times> error option) \<times> 's" where
  "ReconcileDue scheduler ctx now s =
     (case sch_DueSchedules scheduler ctx now 100 s of (Inl e, s1) \<Rightarrow> ((0, Some e), s1) | (Inr entries, s1) \<Rightarrow>
      case (case sch_pauses scheduler of None \<Rightarrow> (Inr [], s1) | Some pauses \<Rightarrow> pauses ctx s1) of
        (Inl e, s2) \<Rightarrow> ((0, Some e), s2)
      | (Inr items, s2) \<Rightarrow> reconcile_entries scheduler ctx now (paused_set items) 0 entries s2)"

end
