(* ===== verification/Texts.thy ===== *)
theory Texts
  imports Prelude
begin

text \<open>
  Facts about Go's string functions that several components use: prefixes, white space that is
  trimmed once and for all, and decimal texts that determine their number.
\<close>

section \<open>Prefixes\<close>

lemma strip_prefix_append: "strip_prefix p (p @ s) = Some s"
  by (induction p) simp_all

lemma HasPrefix_append [simp]: "HasPrefix (p @ s) p"
  by (simp add: HasPrefix_def strip_prefix_append)

lemma TrimPrefix_append [simp]: "TrimPrefix (p @ s) p = s"
  by (simp add: TrimPrefix_def strip_prefix_append)

section \<open>Trimming is idempotent\<close>

lemma strip_prefix_longer: "strip_prefix p s = Some r \<Longrightarrow> strip_prefix p (s @ t) = Some (r @ t)"
  by (induction p s rule: strip_prefix.induct) (auto split: if_splits)

lemma strip_one_shorter: "strip_one ws (s @ t) = None \<Longrightarrow> strip_one ws s = None"
proof (induction ws)
  case (Cons w ws)
  then have "strip_prefix w (s @ t) = None" "strip_one ws (s @ t) = None"
    by (auto split: option.splits)
  moreover from this(1) have "strip_prefix w s = None"
    using strip_prefix_longer [of w s _ t] by (cases "strip_prefix w s") auto
  ultimately show ?case using Cons.IH by simp
qed simp

lemma trim_left_suffix: "\<exists>pre. s = pre @ trim_left ws n s"
proof (induction n arbitrary: s)
  case (Suc n)
  show ?case
  proof (cases "strip_one ws s")
    case (Some r)
    then obtain w where "s = w @ r" using strip_one_Some by blast
    moreover obtain pre where "r = pre @ trim_left ws n r" using Suc by blast
    ultimately show ?thesis using Some by (intro exI [of _ "w @ pre"]) simp
  qed simp
qed simp

lemma trim_left_done:
  assumes "\<And>w. w \<in> set ws \<Longrightarrow> w \<noteq> []" and "length s \<le> n"
  shows "strip_one ws (trim_left ws n s) = None"
  using assms(2)
proof (induction n arbitrary: s)
  case 0
  then show ?case using assms(1) strip_one_Some [of ws "[]"] by (cases "strip_one ws []") auto
next
  case (Suc n)
  show ?case
  proof (cases "strip_one ws s")
    case (Some r)
    then obtain w where "w \<in> set ws" "s = w @ r" using strip_one_Some by blast
    with assms(1) Suc.prems have "length r \<le> n" by (cases w) auto
    with Suc.IH Some show ?thesis by simp
  qed simp
qed

lemma TrimSpace_idem [simp]: "TrimSpace (TrimSpace s) = TrimSpace s"
proof -
  let ?ws = white_space
  define l where "l = trim_left ?ws (length s) s"
  define m where "m = TrimSpace s"
  have ne: "w \<noteq> []" if "w \<in> set ?ws" for w using white_space_ends that by (simp add: list_all_iff)
  have m: "rev m = trim_left (map rev ?ws) (length l) (rev l)"
    by (simp add: m_def TrimSpace_def Let_def l_def)
  obtain pre where "rev l = pre @ rev m" using trim_left_suffix [of "rev l"] unfolding m by blast
  from arg_cong [OF this, of rev] have "l = m @ rev pre" by simp
  moreover have "strip_one ?ws l = None" unfolding l_def by (rule trim_left_done [OF ne]) simp_all
  ultimately have left: "strip_one ?ws m = None" using strip_one_shorter by metis
  have right: "strip_one (map rev ?ws) (rev m) = None"
    unfolding m by (rule trim_left_done) (use ne in auto)
  have "TrimSpace m = m"
    using left right by (simp add: TrimSpace_def Let_def trim_left_id)
  then show ?thesis by (simp add: m_def)
qed

section \<open>Decimal texts\<close>

definition nat_of_digits :: "string \<Rightarrow> nat" where
  "nat_of_digits s = foldl (\<lambda>a c. 10 * a + (of_char c - 48)) 0 s"

lemma FormatNat_value: "nat_of_digits (FormatNat n) = n"
proof (induction n rule: FormatNat.induct)
  case (1 n)
  show ?case
  proof (cases "n < 10")
    case True
    then show ?thesis by (simp add: FormatNat.simps [of n] nat_of_digits_def)
  next
    case False
    have "nat_of_digits (FormatNat n) = 10 * nat_of_digits (FormatNat (n div 10)) + n mod 10"
      using False by (subst FormatNat.simps) (simp add: nat_of_digits_def)
    with 1 [OF False] show ?thesis by simp
  qed
qed

lemma FormatNat_chars: "c \<in> set (FormatNat n) \<Longrightarrow> (of_char c :: nat) \<in> {48..57}"
proof (induction n rule: FormatNat.induct)
  case (1 n)
  show ?case
  proof (cases "n < 10")
    case True
    with 1(2) show ?thesis by (simp add: FormatNat.simps [of n])
  next
    case False
    then have "c \<in> set (FormatNat (n div 10)) \<or> c = char_of (48 + n mod 10)"
      using 1(2) by (subst (asm) FormatNat.simps) auto
    moreover have "n mod 10 < 10" by simp
    ultimately show ?thesis using 1(1) [OF False] by auto
  qed
qed

lemma FormatNat_ne: "FormatNat n \<noteq> []"
  by (simp add: FormatNat.simps [of n])

lemma FormatInt_chars: "c \<in> set (FormatInt i) \<Longrightarrow> c \<noteq> CHR 0x00"
  using FormatNat_chars [of c] by (force simp: FormatInt_def split: if_splits)

lemma FormatInt_inject: "FormatInt i = FormatInt j \<Longrightarrow> i = j"
proof -
  have sign: "FormatNat n \<noteq> CHR ''-'' # s" for n s
    using FormatNat_chars [of "CHR ''-''" n] by force
  have num: "FormatNat n = FormatNat m \<longleftrightarrow> n = m" for n m
    by (metis FormatNat_value)
  assume "FormatInt i = FormatInt j"
  then show "i = j"
    using sign sign [symmetric] by (auto simp: FormatInt_def num split: if_splits)
qed

lemma split_at_last:
  assumes "xs @ a # ys = xs' @ a # ys'" and "a \<notin> set ys" and "a \<notin> set ys'"
  shows "xs = xs' \<and> ys = ys'"
proof -
  have r: "rev ys @ a # rev xs = rev ys' @ a # rev xs'"
    using arg_cong [OF assms(1), of rev] by simp
  have "takeWhile (\<lambda>c. c \<noteq> a) (rev zs @ a # ws) = rev zs" if "a \<notin> set zs" for zs ws
    using that by (subst takeWhile_append2) auto
  with arg_cong [OF r, of "takeWhile (\<lambda>c. c \<noteq> a)"] assms(2,3) have "ys = ys'" by simp
  with assms(1) show ?thesis by simp
qed

end
