(* ===== verification/Scheduler_Props.thy ===== *)
theory Scheduler_Props
  imports Scheduler Texts
begin

text \<open>
  What the scheduler relies on in its queue and store (the locale \<open>schedule_queue\<close>), the
  in-memory queue as such an environment, and the properties: jitter stays in its bounds, keys
  identify occurrences, a repeated pass enqueues nothing twice, and a pass creates tasks for the
  due and unpaused entries only.
\<close>

section \<open>The scheduler's contract with its environment\<close>

definition same_command :: "Task \<Rightarrow> Task \<Rightarrow> bool" where
  "same_command t u \<longleftrightarrow> task_Type t = task_Type u \<and> task_Platform t = task_Platform u
     \<and> task_ProfileID t = task_ProfileID u \<and> task_Payload t = task_Payload u"

text \<open>The task that an entry asks for, made at an instant under some ids.\<close>

definition task_for :: "Entry \<Rightarrow> time \<Rightarrow> Task \<Rightarrow> bool" where
  "task_for entry now t \<longleftrightarrow> (\<exists>i c jitter.
     deterministicJitter (entry_key entry) (def_JitterMin entry) (def_JitterMax entry) = Some jitter
     \<and> NewTask (scheduled_params entry i c jitter) now = Inr t)"

text \<open>Only tasks for unpaused entries are added, and no stored task is replaced.\<close>

definition added_by ::
  "('s \<Rightarrow> string \<Rightarrow> Task option) \<Rightarrow> time \<Rightarrow> string set \<Rightarrow> Entry set \<Rightarrow> 's \<Rightarrow> 's \<Rightarrow> bool" where
  "added_by recs now paused entries s s' \<longleftrightarrow>
     (\<forall>k t. recs s k = Some t \<longrightarrow> recs s' k = Some t) \<and>
     (\<forall>k t. recs s k = None \<longrightarrow> recs s' k = Some t \<longrightarrow> (\<exists>entry \<in> entries. k = entry_key entry
        \<and> task_for entry now t \<and> pause_key (def_JobTag entry) (def_ProfileID entry) \<notin> paused))"

lemma added_by_same: "recs s' = recs s \<Longrightarrow> added_by recs now paused entries s s'"
  by (simp add: added_by_def)

lemma added_by_trans:
  assumes "added_by recs now paused entries s s'" and "added_by recs now paused entries s' s''"
  shows "added_by recs now paused entries s s''"
  using assms unfolding added_by_def by (metis not_Some_eq)

lemma added_by_mono:
  "added_by recs now paused entries s s' \<Longrightarrow> entries \<subseteq> entries' \<Longrightarrow> added_by recs now paused entries' s s'"
  unfolding added_by_def by blast

locale schedule_queue =
  fixes sch :: "'s Scheduler"
    and recs :: "'s \<Rightarrow> string \<Rightarrow> Task option"
  assumes enqueue_new: "sch_Enqueue sch ctx t s = (Inr True, s') \<Longrightarrow>
      recs s (task_IdempotencyKey t) = None \<and> recs s' = (recs s)(task_IdempotencyKey t \<mapsto> t)"
    and enqueue_old: "sch_Enqueue sch ctx t s = (Inr False, s') \<Longrightarrow>
      recs s' = recs s \<and> (\<exists>u. recs s (task_IdempotencyKey t) = Some u \<and> same_command u t)"
    and enqueue_err: "sch_Enqueue sch ctx t s = (Inl e, s') \<Longrightarrow> recs s' = recs s"
    and ids_frame: "sch_NewID sch p s = (x, s') \<Longrightarrow> recs s' = recs s"
    and active_frame: "sch_HasActiveScheduledTask sch ctx tag pid s = (b, s') \<Longrightarrow> recs s' = recs s"
    and advance_frame: "sch_AdvanceSchedule sch ctx tag index expected next now s = (b, s') \<Longrightarrow> recs s' = recs s"
    and gate_frame: "sch_gate sch = Some gate \<Longrightarrow> gate ctx d s = (b, s') \<Longrightarrow> recs s' = recs s"
begin

lemma NewTask_key: "NewTask params now = Inr t \<Longrightarrow> task_IdempotencyKey t = ntp_IdempotencyKey params"
  by (auto simp: NewTask_def Let_def split: if_splits option.splits)

lemma enqueue_recs:
  assumes "enqueue sch ctx entry now s = (r, s')"
  shows "recs s' = recs s \<or>
      (\<exists>t. task_for entry now t \<and> recs s (entry_key entry) = None \<and> recs s' = (recs s)(entry_key entry \<mapsto> t))"
    and "r = None \<Longrightarrow> recs s' (entry_key entry) \<noteq> None"
proof -
  obtain x1 s1 where ids1: "sch_NewID sch ''task'' s = (x1, s1)" by (cases "sch_NewID sch ''task'' s")
  obtain x2 s2 where ids2: "sch_NewID sch ''correlation'' s1 = (x2, s2)"
    by (cases "sch_NewID sch ''correlation'' s1")
  have frame: "recs s1 = recs s" "recs s2 = recs s" using ids_frame ids1 ids2 by metis+
  have cases: "(recs s' = recs s \<or>
      (\<exists>t. task_for entry now t \<and> recs s (entry_key entry) = None \<and> recs s' = (recs s)(entry_key entry \<mapsto> t)))
      \<and> (r = None \<longrightarrow> recs s' (entry_key entry) \<noteq> None)"
  proof (cases "\<exists>i c j t. x1 = Inr i \<and> x2 = Inr c
      \<and> deterministicJitter (entry_key entry) (def_JitterMin entry) (def_JitterMax entry) = Some j
      \<and> NewTask (scheduled_params entry i c j) now = Inr t")
    case False
    with assms ids1 ids2 frame show ?thesis
      by (auto simp: enqueue_def split: sum.splits option.splits)
  next
    case True
    then obtain i c j t where t: "x1 = Inr i" "x2 = Inr c"
      "deterministicJitter (entry_key entry) (def_JitterMin entry) (def_JitterMax entry) = Some j"
      "NewTask (scheduled_params entry i c j) now = Inr t" by blast
    have key: "task_IdempotencyKey t = entry_key entry"
      using NewTask_key [OF t(4)] by (simp add: scheduled_params_def)
    have made: "task_for entry now t" using t(3,4) by (auto simp: task_for_def)
    obtain y s3 where enq: "sch_Enqueue sch ctx t s2 = (y, s3)" by (cases "sch_Enqueue sch ctx t s2")
    then have res: "s' = s3" "r = None \<longleftrightarrow> is_ok y"
      using assms ids1 ids2 t by (auto simp: enqueue_def split: sum.splits)
    show ?thesis
    proof (cases y)
      case (Inl e)
      with enqueue_err [of ctx t s2 e s3] enq res frame show ?thesis by auto
    next
      case (Inr b)
      show ?thesis
      proof (cases b)
        case True
        with enqueue_new [of ctx t s2 s3] enq Inr res frame key made show ?thesis by auto
      next
        case False
        with enqueue_old [of ctx t s2 s3] enq Inr res frame key show ?thesis by auto
      qed
    qed
  qed
  show "recs s' = recs s \<or>
      (\<exists>t. task_for entry now t \<and> recs s (entry_key entry) = None \<and> recs s' = (recs s)(entry_key entry \<mapsto> t))"
    and "r = None \<Longrightarrow> recs s' (entry_key entry) \<noteq> None" using cases by blast+
qed

lemma gate_recs: "allowed_by_gate sch ctx entry s = (b, s') \<Longrightarrow> recs s' = recs s"
  using gate_frame by (auto simp: allowed_by_gate_def split: option.splits)

lemma reconcile_entry_added:
  assumes "reconcile_entry sch ctx now paused entry s = (r, s')"
  shows "added_by recs now paused {entry} s s'"
proof (cases "is_ok (parseSchedule (sch_lib sch) entry)")
  case False
  then show ?thesis
    using assms by (cases "parseSchedule (sch_lib sch) entry") (auto simp: reconcile_entry_def added_by_same)
next
  case True
  then obtain schedule where sched: "parseSchedule (sch_lib sch) entry = Inr schedule" by (rule is_okE)
  show ?thesis
  proof (cases "pause_key (def_JobTag entry) (def_ProfileID entry) \<in> paused")
    case True
    with assms sched have "recs s' = recs s"
      by (intro advance_frame) (simp add: reconcile_entry_def)
    then show ?thesis by (rule added_by_same)
  next
    case unpaused: False
    obtain x s1 where act: "sch_HasActiveScheduledTask sch ctx (def_JobTag entry) (def_ProfileID entry) s = (x, s1)"
      by (cases "sch_HasActiveScheduledTask sch ctx (def_JobTag entry) (def_ProfileID entry) s")
    note f1 = active_frame [OF act]
    show ?thesis
    proof (cases x)
      case (Inl e)
      with assms sched unpaused act f1 show ?thesis by (simp add: reconcile_entry_def added_by_same)
    next
      case active: (Inr active)
      obtain y s2 where gate: "(if active then (Inr False, s1) else allowed_by_gate sch ctx entry s1) = (y, s2)"
        by (cases "if active then (Inr False, s1) else allowed_by_gate sch ctx entry s1")
      then have f2: "recs s2 = recs s1" using gate_recs by (auto split: if_splits)
      show ?thesis
      proof (cases y)
        case (Inl e)
        with assms sched unpaused act active gate f1 f2 show ?thesis
          by (simp add: reconcile_entry_def added_by_same)
      next
        case allow: (Inr allow)
        obtain z s3 where enq: "(if allow then enqueue sch ctx entry now s2 else (None, s2)) = (z, s3)"
          by (cases "if allow then enqueue sch ctx entry now s2 else (None, s2)")
        have "recs s3 = recs s2 \<or> (\<exists>t. task_for entry now t \<and> recs s2 (entry_key entry) = None
            \<and> recs s3 = (recs s2)(entry_key entry \<mapsto> t))"
          using enq enqueue_recs(1) by (auto split: if_splits)
        then have "added_by recs now paused {entry} s2 s3"
          using unpaused by (auto simp: added_by_def split: if_splits)
        then have a3: "added_by recs now paused {entry} s s3"
          using f1 f2 by (simp add: added_by_def)
        show ?thesis
        proof (cases z)
          case (Some e)
          with assms sched unpaused act active gate allow enq a3 show ?thesis by (simp add: reconcile_entry_def)
        next
          case None
          with assms sched unpaused act active gate allow enq
          have "sch_AdvanceSchedule sch ctx (def_JobTag entry) (def_TriggerIndex entry)
              (entry_NextRunAt entry) (schedule now) now s3 = (r, s')" by (simp add: reconcile_entry_def)
          from advance_frame [OF this] a3 show ?thesis by (simp add: added_by_def)
        qed
      qed
    qed
  qed
qed

lemma reconcile_entries_added:
  assumes "reconcile_entries sch ctx now paused n entries s = ((m, r), s')"
  shows "added_by recs now paused (set entries) s s' \<and> n \<le> m \<and> m \<le> n + length entries"
  using assms
proof (induction entries arbitrary: n s)
  case Nil
  then show ?case by (simp add: added_by_same)
next
  case (Cons entry rest)
  obtain x s1 where one: "reconcile_entry sch ctx now paused entry s = (x, s1)"
    by (cases "reconcile_entry sch ctx now paused entry s")
  have a1: "added_by recs now paused (set (entry # rest)) s s1"
    by (rule added_by_mono [OF reconcile_entry_added [OF one]]) simp
  show ?case
  proof (cases x)
    case (Inl e)
    with Cons.prems one a1 show ?thesis by simp
  next
    case (Inr changed)
    with Cons.prems one
    have "reconcile_entries sch ctx now paused (if changed then n + 1 else n) rest s1 = ((m, r), s')" by simp
    from Cons.IH [OF this] have "added_by recs now paused (set rest) s1 s'" and "n \<le> m"
      and "m \<le> n + length (entry # rest)" by (auto split: if_splits)
    moreover from this(1) have "added_by recs now paused (set (entry # rest)) s1 s'"
      by (rule added_by_mono) auto
    ultimately show ?thesis using added_by_trans [OF a1] by blast
  qed
qed

text \<open>An entry that nothing holds back has its task once the pass is over without an error.\<close>

lemma reconcile_entry_creates:
  assumes "reconcile_entry sch ctx now paused entry s = (Inr changed, s')"
    and "pause_key (def_JobTag entry) (def_ProfileID entry) \<notin> paused" and "sch_gate sch = None"
    and "\<And>s1. fst (sch_HasActiveScheduledTask sch ctx (def_JobTag entry) (def_ProfileID entry) s1) = Inr False"
  shows "recs s' (entry_key entry) \<noteq> None"
proof -
  obtain schedule where sched: "parseSchedule (sch_lib sch) entry = Inr schedule"
    using assms(1) by (auto simp: reconcile_entry_def split: sum.splits)
  obtain s1 where act: "sch_HasActiveScheduledTask sch ctx (def_JobTag entry) (def_ProfileID entry) s = (Inr False, s1)"
    using assms(4) [of s] by (metis prod.collapse)
  obtain z s2 where enq: "enqueue sch ctx entry now s1 = (z, s2)" by (cases "enqueue sch ctx entry now s1")
  have z: "z = None" and adv: "sch_AdvanceSchedule sch ctx (def_JobTag entry) (def_TriggerIndex entry)
      (entry_NextRunAt entry) (schedule now) now s2 = (Inr changed, s')"
    using assms(1-3) sched act enq
    by (auto simp: reconcile_entry_def allowed_by_gate_def split: option.splits)
  from enqueue_recs(2) [OF enq z] advance_frame [OF adv] show ?thesis by simp
qed

lemma reconcile_entries_creates:
  assumes "reconcile_entries sch ctx now paused n entries s = ((m, None), s')" and "entry \<in> set entries"
    and "pause_key (def_JobTag entry) (def_ProfileID entry) \<notin> paused" and "sch_gate sch = None"
    and "\<And>s1. fst (sch_HasActiveScheduledTask sch ctx (def_JobTag entry) (def_ProfileID entry) s1) = Inr False"
  shows "recs s' (entry_key entry) \<noteq> None"
  using assms(1,2)
proof (induction entries arbitrary: n s)
  case (Cons e rest)
  obtain x s1 where one: "reconcile_entry sch ctx now paused e s = (x, s1)"
    by (cases "reconcile_entry sch ctx now paused e s")
  obtain changed where x: "x = Inr changed" using Cons.prems(1) one by (cases x) auto
  have rest: "reconcile_entries sch ctx now paused (if changed then n + 1 else n) rest s1 = ((m, None), s')"
    using Cons.prems(1) one x by simp
  show ?case
  proof (cases "entry = e")
    case True
    then have "recs s1 (entry_key entry) \<noteq> None"
      using reconcile_entry_creates one x assms(3-5) by blast
    moreover have "added_by recs now paused (set rest) s1 s'"
      using reconcile_entries_added [OF rest] by blast
    ultimately show ?thesis by (auto simp: added_by_def)
  next
    case False
    with Cons.IH [OF rest] Cons.prems(2) show ?thesis by simp
  qed
qed simp

end

section \<open>The in-memory queue under a scheduler\<close>

text \<open>
  A scheduler whose store, ids, gate and pauses live beside the queue: \<open>base\<close> works on
  the rest of the world, and looking for an active scheduled task may read the queue.
\<close>

record 'g schedule_world =
  sw_queue :: Queue
  sw_rest :: 'g

definition on_rest :: "('g \<Rightarrow> 'a \<times> 'g) \<Rightarrow> 'g schedule_world \<Rightarrow> 'a \<times> 'g schedule_world" where
  "on_rest f w = (case f (sw_rest w) of (a, g) \<Rightarrow> (a, w\<lparr>sw_rest := g\<rparr>))"

definition memory_scheduler ::
  "'g Scheduler \<Rightarrow> (ctx \<Rightarrow> string \<Rightarrow> ProfileID \<Rightarrow> Queue \<Rightarrow> 'g \<Rightarrow> (error + bool) \<times> 'g) \<Rightarrow>
   'g schedule_world Scheduler" where
  "memory_scheduler base active = \<lparr>sch_lib = sch_lib base,
     sch_SyncSchedules = \<lambda>ctx entries now. on_rest (sch_SyncSchedules base ctx entries now),
     sch_DueSchedules = \<lambda>ctx now limit. on_rest (sch_DueSchedules base ctx now limit),
     sch_HasActiveScheduledTask = \<lambda>ctx tag pid w. on_rest (active ctx tag pid (sw_queue w)) w,
     sch_AdvanceSchedule = \<lambda>ctx tag index expected next now.
       on_rest (sch_AdvanceSchedule base ctx tag index expected next now),
     sch_Enqueue = \<lambda>ctx task w. (case Enqueue ctx task (sw_queue w) of (r, q) \<Rightarrow> (r, w\<lparr>sw_queue := q\<rparr>)),
     sch_NewID = \<lambda>prefix. on_rest (sch_NewID base prefix),
     sch_gate = map_option (\<lambda>gate ctx d. on_rest (gate ctx d)) (sch_gate base),
     sch_pauses = map_option (\<lambda>pauses ctx. on_rest (pauses ctx)) (sch_pauses base)\<rparr>"

abbreviation sw_recs :: "'g schedule_world \<Rightarrow> string \<Rightarrow> Task option" where
  "sw_recs w \<equiv> map_of (q_tasks (sw_queue w))"

lemma on_rest_queue: "on_rest f w = (a, w') \<Longrightarrow> sw_queue w' = sw_queue w"
  by (auto simp: on_rest_def split: prod.splits)

lemma memory_enqueue:
  assumes "sch_Enqueue (memory_scheduler base active) ctx t w = (r, w')"
  obtains q where "Enqueue ctx t (sw_queue w) = (r, q)" and "w' = w\<lparr>sw_queue := q\<rparr>"
  using assms by (auto simp: memory_scheduler_def split: prod.splits)

interpretation memory_queue: schedule_queue "memory_scheduler base active" sw_recs
proof (unfold_locales, goal_cases)
  case (1 ctx t w w')
  then obtain q where q: "Enqueue ctx t (sw_queue w) = (Inr True, q)" "w' = w\<lparr>sw_queue := q\<rparr>"
    by (rule memory_enqueue)
  from q(1) show ?case by (rule Enqueue_cases) (simp_all add: q(2))
next
  case (2 ctx t w w')
  then obtain q where q: "Enqueue ctx t (sw_queue w) = (Inr False, q)" "w' = w\<lparr>sw_queue := q\<rparr>"
    by (rule memory_enqueue)
  then show ?case
    by (auto simp: Enqueue_def same_command_def split: option.splits if_splits)
next
  case (3 ctx t w e w')
  then obtain q where q: "Enqueue ctx t (sw_queue w) = (Inl e, q)" "w' = w\<lparr>sw_queue := q\<rparr>"
    by (rule memory_enqueue)
  from q(1) show ?case by (rule Enqueue_cases) (simp_all add: q(2))
next
  case 4 then show ?case by (auto simp: memory_scheduler_def dest: on_rest_queue)
next
  case 5 then show ?case by (auto simp: memory_scheduler_def dest: on_rest_queue)
next
  case 6 then show ?case by (auto simp: memory_scheduler_def dest: on_rest_queue)
next
  case 7 then show ?case by (auto simp: memory_scheduler_def dest: on_rest_queue)
qed

section \<open>Keys and jitter\<close>

text \<open>The text that is hashed for a schedule's key determines the tag, the index and the instant.\<close>

lemma schedule_text_inject:
  assumes "schedule_text tag i at = schedule_text tag' i' at'"
  shows "tag = tag' \<and> i = i' \<and> UnixNano at = UnixNano at'"
proof -
  note split = split_at_last [of _ "CHR 0x00"]
  have nul: "CHR 0x00 \<notin> set (FormatInt j)" for j using FormatInt_chars by blast
  have eq: "(tag @ CHR 0x00 # FormatInt i) @ CHR 0x00 # FormatInt (UnixNano at)
      = (tag' @ CHR 0x00 # FormatInt i') @ CHR 0x00 # FormatInt (UnixNano at')"
    using assms by (simp add: schedule_text_def)
  from split [OF this nul nul] have "tag @ CHR 0x00 # FormatInt i = tag' @ CHR 0x00 # FormatInt i'"
    and at: "FormatInt (UnixNano at) = FormatInt (UnixNano at')" by blast+
  from split [OF this(1) nul nul] have "tag = tag'" "FormatInt i = FormatInt i'" by blast+
  with at FormatInt_inject show ?thesis by blast
qed

lemma jitter_bounds:
  assumes "0 \<le> minimum" and "minimum \<le> maximum" and "maximum \<le> maxDuration"
  shows "\<exists>j. deterministicJitter key minimum maximum = Some j \<and> minimum \<le> j \<and> j \<le> maximum"
proof (cases "maximum = minimum")
  case True
  then show ?thesis by (simp add: deterministicJitter_def)
next
  case False
  let ?x = "int (be_nat (take 8 (sha256_Sum256 key)))"
  have range: "minDuration \<le> maximum - minimum" "maximum - minimum \<le> maxDuration"
    using assms by (simp_all add: minDuration_def)
  have span: "to_uint64 (to_uint64 (to_int64 (maximum - minimum)) + 1) = maximum - minimum + 1"
    using assms to_int64_id [OF range] by (simp add: to_uint64_id maxDuration_def)
  define y where "y = ?x mod (maximum - minimum + 1)"
  have y: "0 \<le> y" "y \<le> maximum - minimum"
    using assms pos_mod_bound [of "maximum - minimum + 1" ?x] by (simp_all add: y_def)
  then have "to_int64 y = y" "to_int64 (minimum + y) = minimum + y"
    using assms by (intro to_int64_id; simp add: minDuration_def)+
  with False y assms show ?thesis
    by (simp add: deterministicJitter_def Let_def span y_def [symmetric])
qed

section \<open>Samples\<close>

definition sample_entry :: Entry where
  "sample_entry = \<lparr>def_JobTag = ''daily'', def_TriggerIndex = 0, def_Expression = [], def_Timezone = [],
     def_Interval = 600, def_ActionType = TaskApplicationCampaign, def_Platform = ''hh'',
     def_ProfileID = ''main'', def_Payload = ''{}'', def_Priority = 0, def_JitterMin = 5, def_JitterMax = 5,
     entry_NextRunAt = 100\<rparr>"

text \<open>A store with one due entry and no active tasks; ids are counted.\<close>

definition sample_base :: "nat Scheduler" where
  "sample_base = \<lparr>sch_lib = \<lparr>lib_LoadLocation = \<lambda>_. None, lib_ParseStandard = \<lambda>_. Inl (Err ''no cron'')\<rparr>,
     sch_SyncSchedules = \<lambda>ctx entries now n. (None, n), sch_DueSchedules = \<lambda>ctx now limit n. (Inr [sample_entry], n),
     sch_HasActiveScheduledTask = \<lambda>ctx tag pid n. (Inr False, n),
     sch_AdvanceSchedule = \<lambda>ctx tag index expected next now n. (Inr True, n),
     sch_Enqueue = \<lambda>ctx task n. (Inr True, n),
     sch_NewID = \<lambda>prefix n. (Inr (prefix @ replicate n CHR ''x''), n + 1), sch_gate = None, sch_pauses = None\<rparr>"

abbreviation no_active :: "ctx \<Rightarrow> string \<Rightarrow> ProfileID \<Rightarrow> Queue \<Rightarrow> nat \<Rightarrow> (error + bool) \<times> nat" where
  "no_active \<equiv> \<lambda>ctx tag pid q n. (Inr False, n)"

definition sample_schedule_world :: "nat schedule_world" where
  "sample_schedule_world = \<lparr>sw_queue = NewQueue, sw_rest = 0\<rparr>"

definition sample_scheduled_task :: Task where
  "sample_scheduled_task = \<lparr>task_ID = ''task'', task_Type = TaskApplicationCampaign, task_Status = TaskNew,
     task_IdempotencyKey = entry_key sample_entry, task_Source = ''cron:daily'', task_Platform = ''hh'',
     task_ProfileID = ''main'', task_CorrelationID = ''correlationx'', task_Payload = ''{}'', task_Priority = 0,
     task_Attempts = 0, task_AvailableAt = 105, task_Deadline = None, task_CreatedAt = 110, task_UpdatedAt = 110,
     task_Failure = None\<rparr>"

definition sample_scheduled_world :: "nat schedule_world" where
  "sample_scheduled_world = \<lparr>sw_queue = \<lparr>q_tasks = [(entry_key sample_entry, sample_scheduled_task)],
     q_taskKeys = [(''task'', entry_key sample_entry)], q_leases = []\<rparr>, sw_rest = 2\<rparr>"

lemma entry_key_ne [simp]: "entry_key entry \<noteq> []"
  by (simp add: entry_key_def scheduleIdempotencyKey_def)

lemma sample_enqueued:
  "enqueue (memory_scheduler sample_base no_active) None sample_entry 110 sample_schedule_world
     = (None, sample_scheduled_world)"
proof -
  have "NewTask (scheduled_params sample_entry ''task'' ''correlationx'' 5) 110 = Inr sample_scheduled_task"
    by (simp add: NewTask_def scheduled_params_def sample_scheduled_task_def sample_entry_def NoTaskType_def
        validators TaskPriorityMin_def TaskPriorityMax_def)
  moreover have "deterministicJitter (entry_key sample_entry) 5 5 = Some 5"
    by (simp add: deterministicJitter_def)
  moreover have "def_JitterMin sample_entry = 5" "def_JitterMax sample_entry = 5"
    by (simp_all add: sample_entry_def)
  moreover have "Enqueue None sample_scheduled_task NewQueue = (Inr True, sw_queue sample_scheduled_world)"
    by (simp add: Enqueue_def NewQueue_def sample_scheduled_task_def sample_scheduled_world_def NoTaskType_def
        validators TaskPriorityMin_def TaskPriorityMax_def)
  ultimately show ?thesis
    by (simp add: enqueue_def memory_scheduler_def on_rest_def sample_base_def sample_schedule_world_def
        sample_scheduled_world_def)
qed

section \<open>Properties\<close>

text \<open>
  The jitter of a validated definition never panics and stays between its bounds, for every
  key: no occurrence is delayed by less than the minimum or more than the maximum, at the full
  width of a duration.
\<close>

theorem jitter_within_bounds:
  assumes "Definition_Validate lib definition = None" and "def_JitterMax definition \<le> maxDuration"
  shows "\<exists>j. deterministicJitter key (def_JitterMin definition) (def_JitterMax definition) = Some j
    \<and> def_JitterMin definition \<le> j \<and> j \<le> def_JitterMax definition"
  using assms by (intro jitter_bounds) (auto simp: Definition_Validate_def split: if_splits)

theorem jitter_within_bounds_witness:
  "\<exists>j. deterministicJitter ''k'' 5 5 = Some j \<and> 5 \<le> j \<and> j \<le> 5"
proof -
  have "Definition_Validate (sch_lib sample_base) sample_entry = None"
    by (simp add: Definition_Validate_def sample_entry_def NoTaskType_def validators
        TaskPriorityMin_def TaskPriorityMax_def parseSchedule_def)
  from jitter_within_bounds [OF this, of "''k''"] show ?thesis
    by (simp add: sample_entry_def maxDuration_def)
qed

text \<open>
  Occurrences are told apart: within the range of \<open>UnixNano\<close>, the text hashed for a
  schedule's key determines the job tag (whatever bytes it has), the trigger index and the
  instant, and two keys are equal exactly if SHA-256 gives their texts the same digest.
\<close>

theorem schedule_key_identifies:
  assumes "minDuration \<le> at - unixEpoch" "at - unixEpoch \<le> maxDuration"
    and "minDuration \<le> at' - unixEpoch" "at' - unixEpoch \<le> maxDuration"
  shows "(schedule_text tag i at = schedule_text tag' i' at' \<longleftrightarrow> tag = tag' \<and> i = i' \<and> at = at')
    \<and> (scheduleIdempotencyKey tag i at = scheduleIdempotencyKey tag' i' at' \<longleftrightarrow>
        sha256_Sum256 (schedule_text tag i at) = sha256_Sum256 (schedule_text tag' i' at'))"
proof -
  have "UnixNano at = UnixNano at' \<longleftrightarrow> at = at'"
    using assms by (simp add: UnixNano_def to_int64_id)
  then show ?thesis
    using schedule_text_inject [of tag i at tag' i' at'] by (auto simp: scheduleIdempotencyKey_def hex_Encode_inject)
qed

theorem schedule_key_identifies_witness:
  "schedule_text ''daily'' 1 unixEpoch \<noteq> schedule_text ''daily'' 11 unixEpoch"
  using schedule_key_identifies [of unixEpoch unixEpoch "''daily''" 1 "''daily''" 11]
  by (simp add: minDuration_def maxDuration_def)

text \<open>How an entry's task gets into the queue.\<close>

lemma enqueue_shape:
  assumes "enqueue (memory_scheduler base active) ctx entry now w = (r, w')"
  shows "r \<noteq> None \<and> sw_queue w' = sw_queue w \<or>
    (\<exists>i c j t x. deterministicJitter (entry_key entry) (def_JitterMin entry) (def_JitterMax entry) = Some j
       \<and> NewTask (scheduled_params entry i c j) now = Inr t
       \<and> Enqueue ctx t (sw_queue w) = (x, sw_queue w') \<and> (r = None \<longleftrightarrow> is_ok x))"
proof -
  let ?sch = "memory_scheduler base active"
  obtain x1 w1 where ids1: "sch_NewID ?sch ''task'' w = (x1, w1)" by (cases "sch_NewID ?sch ''task'' w")
  obtain x2 w2 where ids2: "sch_NewID ?sch ''correlation'' w1 = (x2, w2)" by (cases "sch_NewID ?sch ''correlation'' w1")
  have frame: "sw_queue w1 = sw_queue w" "sw_queue w2 = sw_queue w"
    using on_rest_queue [of "sch_NewID base ''task''" w x1 w1]
      on_rest_queue [of "sch_NewID base ''correlation''" w1 x2 w2] ids1 ids2
    by (simp_all add: memory_scheduler_def)
  show ?thesis
  proof (cases "\<exists>i c j t. x1 = Inr i \<and> x2 = Inr c
      \<and> deterministicJitter (entry_key entry) (def_JitterMin entry) (def_JitterMax entry) = Some j
      \<and> NewTask (scheduled_params entry i c j) now = Inr t")
    case False
    with assms ids1 ids2 frame show ?thesis
      by (auto simp: enqueue_def split: sum.splits option.splits)
  next
    case True
    then obtain i c j t where t: "x1 = Inr i" "x2 = Inr c"
      "deterministicJitter (entry_key entry) (def_JitterMin entry) (def_JitterMax entry) = Some j"
      "NewTask (scheduled_params entry i c j) now = Inr t" by blast
    obtain x w3 where enq: "sch_Enqueue ?sch ctx t w2 = (x, w3)" by (cases "sch_Enqueue ?sch ctx t w2")
    then obtain q where q: "Enqueue ctx t (sw_queue w2) = (x, q)" "w3 = w2\<lparr>sw_queue := q\<rparr>"
      by (rule memory_enqueue)
    have "w' = w3" "r = None \<longleftrightarrow> is_ok x"
      using assms ids1 ids2 t enq by (auto simp: enqueue_def split: sum.splits)
    with q frame t(3,4) show ?thesis by (intro disjI2) auto
  qed
qed

lemma scheduled_task:
  assumes "NewTask (scheduled_params entry i c j) now = Inr t"
  shows "task_IdempotencyKey t = entry_key entry" and "task_Type t = def_ActionType entry"
    and "task_Platform t = def_Platform entry" and "task_ProfileID t = def_ProfileID entry"
    and "task_Payload t = def_Payload entry" and "task_ID t \<noteq> []" and "task_CorrelationID t \<noteq> []"
    and "task_Status t = TaskNew" and "json_Valid (task_Payload t)" and "task_Type t \<noteq> NoTaskType"
    and "TaskPriority_Validate (task_Priority t) = None"
  using assms by (auto simp: NewTask_def scheduled_params_def Let_def split: if_splits option.splits)

lemma scheduled_again:
  assumes "NewTask (scheduled_params entry i c j) now = Inr t" and "i' \<noteq> []" "c' \<noteq> []" "\<not> IsZero now'"
  shows "\<exists>t'. NewTask (scheduled_params entry i' c' j) now' = Inr t'"
  using assms by (auto simp: NewTask_def scheduled_params_def Let_def split: if_splits option.splits)

lemma Enqueue_stored:
  assumes "Enqueue ctx t q = (x, q')" and "is_ok x"
  shows "\<exists>u. map_of (q_tasks q') (task_IdempotencyKey t) = Some u \<and> same_command u t"
  using assms by (auto simp: Enqueue_def same_command_def split: option.splits if_splits)

text \<open>
  A pass that is repeated enqueues nothing twice: once an entry's task was enqueued, then
  after any work of workers and operators on the queue, enqueueing the same occurrence again
  (as after a crash before the schedule was advanced), at any later instant and under new ids,
  leaves the queue as it is, and succeeds if ids can be drawn.
\<close>

theorem enqueue_once:
  assumes "queue_inv (sw_queue w)"
    and "enqueue (memory_scheduler base active) ctx entry now w = (None, w1)"
    and "queue_run (sw_queue w1) evs (sw_queue w2)"
    and "enqueue (memory_scheduler base active) ctx' entry now' w2 = (r, w3)"
  shows "sw_queue w3 = sw_queue w2
    \<and> ((\<forall>p g. \<exists>i g'. sch_NewID base p g = (Inr i, g') \<and> i \<noteq> []) \<and> ctx' = None \<and> \<not> IsZero now' \<longrightarrow> r = None)"
proof (intro conjI; (intro impI)?)
  obtain i c j t x where t: "deterministicJitter (entry_key entry) (def_JitterMin entry) (def_JitterMax entry) = Some j"
      "NewTask (scheduled_params entry i c j) now = Inr t" and enq: "Enqueue ctx t (sw_queue w) = (x, sw_queue w1)" "is_ok x"
    using enqueue_shape [OF assms(2)] by blast
  note t1 = scheduled_task [OF t(2)]
  have inv1: "queue_inv (sw_queue w1)" by (rule Enqueue_inv [OF assms(1) enq(1)])
  obtain u where u: "map_of (q_tasks (sw_queue w1)) (entry_key entry) = Some u" "same_command u t"
    using Enqueue_stored [OF enq] t1(1) by auto
  obtain v where v: "map_of (q_tasks (sw_queue w2)) (entry_key entry) = Some v" "same_identity u v"
    using queue_run_persist [OF assms(3) inv1 u(1)] by blast
  have same: "Enqueue ctx' t' (sw_queue w2) = (x', q') \<Longrightarrow> q' = sw_queue w2"
    if "NewTask (scheduled_params entry i' c' j') now' = Inr t'" for i' c' j' t' x' q'
    by (erule Enqueue_cases) (use v(1) scheduled_task(1) [OF that] in simp_all)
  show "sw_queue w3 = sw_queue w2"
    using enqueue_shape [OF assms(4)] same by blast
  assume "(\<forall>p g. \<exists>i g'. sch_NewID base p g = (Inr i, g') \<and> i \<noteq> []) \<and> ctx' = None \<and> \<not> IsZero now'"
  then have ids: "\<And>p g. \<exists>i g'. sch_NewID base p g = (Inr i, g') \<and> i \<noteq> []" and "ctx' = None" "\<not> IsZero now'"
    by blast+
  obtain i1 g1 where i1: "sch_NewID base ''task'' (sw_rest w2) = (Inr i1, g1)" "i1 \<noteq> []" using ids by blast
  obtain i2 g2 where i2: "sch_NewID base ''correlation'' g1 = (Inr i2, g2)" "i2 \<noteq> []" using ids by blast
  obtain t' where t': "NewTask (scheduled_params entry i1 i2 j) now' = Inr t'"
    using scheduled_again [OF t(2) i1(2) i2(2) \<open>\<not> IsZero now'\<close>] by blast
  note t2 = scheduled_task [OF t']
  have "same_command v t'"
    using u(2) v(2) t1 t2 by (simp add: same_command_def same_identity_def)
  then have "Enqueue None t' (sw_queue w2) = (Inr False, sw_queue w2)"
    using v(1) t2 by (auto simp: Enqueue_def same_command_def)
  with assms(4) i1(1) i2(1) t(1) t' \<open>ctx' = None\<close> show "r = None"
    by (simp add: enqueue_def memory_scheduler_def on_rest_def)
qed

theorem enqueue_once_witness:
  "sw_queue (snd (enqueue (memory_scheduler sample_base no_active) None sample_entry 200 sample_scheduled_world))
     = sw_queue sample_scheduled_world"
  by (rule enqueue_once [OF _ sample_enqueued queue_run.run_refl prod.collapse [symmetric], THEN conjunct1])
    (simp add: sample_schedule_world_def NewQueue_inv)

text \<open>
  What a pass may do to the queue: it never replaces or removes a task, and every task it
  adds is the one of a due entry whose job and profile are not paused, under that occurrence's
  key. It advances at most one schedule per due entry.
\<close>

theorem reconcile_adds_due_only:
  assumes "sch_DueSchedules base ctx now 100 (sw_rest w) = (Inr due, g1)"
    and "sch_pauses base = Some pauses" and "pauses ctx g1 = (Inr items, g2)"
    and "ReconcileDue (memory_scheduler base active) ctx now w = ((n, r), w')"
  shows "(\<forall>k t. sw_recs w k = Some t \<longrightarrow> sw_recs w' k = Some t) \<and>
    (\<forall>k t. sw_recs w k = None \<longrightarrow> sw_recs w' k = Some t \<longrightarrow>
       (\<exists>entry \<in> set due. k = entry_key entry \<and> task_for entry now t
          \<and> (\<forall>p \<in> set items. pause_key (pause_JobTag p) (pause_ProfileID p)
               \<noteq> pause_key (def_JobTag entry) (def_ProfileID entry))))
    \<and> n \<le> length due"
proof -
  let ?w2 = "w\<lparr>sw_rest := g2\<rparr>"
  have "reconcile_entries (memory_scheduler base active) ctx now (paused_set items) 0 due ?w2 = ((n, r), w')"
    using assms by (simp add: ReconcileDue_def memory_scheduler_def on_rest_def)
  note added = memory_queue.reconcile_entries_added [OF this]
  have unpaused: "pause_key tag pid \<notin> paused_set items \<longleftrightarrow>
      (\<forall>p \<in> set items. pause_key (pause_JobTag p) (pause_ProfileID p) \<noteq> pause_key tag pid)" for tag pid
    unfolding paused_set_def image_iff by metis
  show ?thesis using added unfolding added_by_def unpaused by simp
qed

text \<open>A store whose only due job is paused.\<close>

definition sample_paused_base :: "nat Scheduler" where
  "sample_paused_base = sample_base\<lparr>sch_pauses := Some (\<lambda>ctx n. (Inr [\<lparr>pause_JobTag = ''daily'',
     pause_ProfileID = ''main'', pause_Reason = [], pause_CreatedAt = 1\<rparr>], n))\<rparr>"

theorem reconcile_adds_due_only_witness:
  "\<forall>k. sw_recs (snd (ReconcileDue (memory_scheduler sample_paused_base no_active) None 110 sample_schedule_world)) k
     = None"
proof
  fix k
  let ?w = "sample_schedule_world"
  let ?run = "ReconcileDue (memory_scheduler sample_paused_base no_active) None 110 ?w"
  have "?run = ((fst (fst ?run), snd (fst ?run)), snd ?run)" by simp
  note claim = reconcile_adds_due_only [OF _ _ _ this, of "[sample_entry]" 0
      "\<lambda>ctx n. (Inr [\<lparr>pause_JobTag = ''daily'', pause_ProfileID = ''main'', pause_Reason = [], pause_CreatedAt = 1\<rparr>], n)"
      "[\<lparr>pause_JobTag = ''daily'', pause_ProfileID = ''main'', pause_Reason = [], pause_CreatedAt = 1\<rparr>]" 0]
  have "sw_recs ?w k = None" by (simp add: sample_schedule_world_def NewQueue_def)
  moreover have "\<not> (sw_recs ?w k = None \<and> sw_recs (snd ?run) k \<noteq> None)"
    using claim by (auto simp: sample_paused_base_def sample_base_def sample_schedule_world_def sample_entry_def)
  ultimately show "sw_recs (snd ?run) k = None" by blast
qed

text \<open>
  A pass that reports no error has dealt with every due entry: an unpaused entry without a
  gate and without an active task of its job has its task in the queue afterwards.
\<close>

theorem reconcile_creates:
  assumes "sch_DueSchedules base ctx now 100 (sw_rest w) = (Inr due, g1)"
    and "sch_pauses base = None" and "sch_gate base = None" and "entry \<in> set due"
    and "\<And>q g. fst (active ctx (def_JobTag entry) (def_ProfileID entry) q g) = Inr False"
    and "ReconcileDue (memory_scheduler base active) ctx now w = ((n, None), w')"
  shows "\<exists>t. sw_recs w' (entry_key entry) = Some t \<and> (sw_recs w (entry_key entry) = None \<longrightarrow>
    (\<exists>e \<in> set due. entry_key e = entry_key entry \<and> task_for e now t))"
proof -
  let ?w1 = "w\<lparr>sw_rest := g1\<rparr>"
  have pass: "reconcile_entries (memory_scheduler base active) ctx now (paused_set []) 0 due ?w1 = ((n, None), w')"
    using assms(1,2,6) by (simp add: ReconcileDue_def memory_scheduler_def on_rest_def)
  have "fst (sch_HasActiveScheduledTask (memory_scheduler base active) ctx (def_JobTag entry) (def_ProfileID entry) s)
      = Inr False" for s
    using assms(5) by (simp add: memory_scheduler_def on_rest_def split: prod.split) (metis fst_conv)
  then have "sw_recs w' (entry_key entry) \<noteq> None"
    by (intro memory_queue.reconcile_entries_creates [OF pass assms(4)])
      (simp_all add: paused_set_def memory_scheduler_def assms(3))
  then obtain t where "sw_recs w' (entry_key entry) = Some t" by blast
  with memory_queue.reconcile_entries_added [OF pass] show ?thesis
    unfolding added_by_def by (intro exI [of _ t]) (simp, metis)
qed

theorem reconcile_creates_witness:
  "sw_recs (snd (ReconcileDue (memory_scheduler sample_base no_active) None 110 sample_schedule_world))
     (entry_key sample_entry) \<noteq> None"
proof -
  let ?run = "ReconcileDue (memory_scheduler sample_base no_active) None 110 sample_schedule_world"
  let ?sch = "memory_scheduler sample_base no_active"
  have ops: "sch_HasActiveScheduledTask ?sch ctx tag pid w = (Inr False, w)"
    "sch_AdvanceSchedule ?sch ctx tag index expected next now w = (Inr True, w)" "sch_gate ?sch = None"
    "sch_DueSchedules ?sch ctx now limit w = (Inr [sample_entry], w)" "sch_pauses ?sch = None"
    for ctx tag pid w index expected "next" now limit
    by (simp_all add: memory_scheduler_def on_rest_def sample_base_def)
  have "parseSchedule lib sample_entry = Inr (intervalSchedule_Next 600)" for lib
    by (simp add: parseSchedule_def sample_entry_def)
  then have run: "?run = ((1, None), sample_scheduled_world)"
    using sample_enqueued
    by (simp add: ReconcileDue_def reconcile_entry_def paused_set_def allowed_by_gate_def ops)
  have "sch_DueSchedules sample_base None 110 100 (sw_rest sample_schedule_world) = (Inr [sample_entry], 0)"
    by (simp add: sample_base_def sample_schedule_world_def)
  from reconcile_creates [OF this _ _ _ _ run, of sample_entry] show ?thesis
    unfolding run by (auto simp: sample_base_def)
qed

end
