(* ===== verification/Application.thy ===== *)
theory Application
  imports Interfaces GoCrypto Task
begin

text \<open>
  \<open>core/identity.go\<close>, \<open>core/application.go\<close>,
  \<open>core/application_platform_state.go\<close>, \<open>core/application_removal.go\<close> and
  \<open>core/model.go\<close>: the keys, the application to a vacancy and its status machine, the
  provenance of its prepared message, the state observed on the platform, the rules of removal,
  and the pages of a vacancy search. A method that changes its receiver returns the changed
  record, or the error of an early return; the code has then changed nothing.
\<close>

section \<open>Keys\<close>

type_synonym SearchID = string
type_synonym ApplicationID = string

record VacancyKey =
  vk_Platform :: Platform
  vk_ExternalID :: string

definition VacancyKey_Validate :: "VacancyKey \<Rightarrow> error option" where
  "VacancyKey_Validate key =
     (if TrimSpace (vk_Platform key) = [] then Some (Err ''vacancy key requires platform'')
      else if TrimSpace (vk_ExternalID key) = [] then Some (Err ''vacancy key requires external id'')
      else None)"

definition VacancyKey_String :: "VacancyKey \<Rightarrow> string" where
  "VacancyKey_String key = vk_Platform key @ '':'' @ vk_ExternalID key"

record ApplicationKey =
  ak_ProfileID :: ProfileID
  ak_Vacancy :: VacancyKey

definition ApplicationKey_Validate :: "ApplicationKey \<Rightarrow> error option" where
  "ApplicationKey_Validate key =
     (if TrimSpace (ak_ProfileID key) = [] then Some (Err ''application key requires profile id'')
      else case VacancyKey_Validate (ak_Vacancy key) of
        Some e \<Rightarrow> Some (ErrWrap ''application key'' e) | None \<Rightarrow> None)"

section \<open>Provenance of a prepared message\<close>

record Provenance =
  pv_Version :: int
  pv_Source :: string
  pv_OperatorTag :: string
  pv_OperatorVersion :: string
  pv_Model :: string
  pv_ProviderResponseID :: string
  pv_FailureKind :: string
  pv_FallbackSource :: string
  pv_MessagePoolTag :: string
  pv_MessagePoolDigest :: string
  pv_TemplateTag :: string
  pv_ResumeFactsTag :: string
  pv_ResumeFactsDigest :: string
  pv_InputDigest :: string
  pv_OutputDigest :: string
  pv_EvidenceDigest :: string
  pv_EvidenceClaims :: int

definition zero_Provenance :: Provenance where
  "zero_Provenance = \<lparr>pv_Version = 0, pv_Source = [], pv_OperatorTag = [], pv_OperatorVersion = [],
     pv_Model = [], pv_ProviderResponseID = [], pv_FailureKind = [], pv_FallbackSource = [],
     pv_MessagePoolTag = [], pv_MessagePoolDigest = [], pv_TemplateTag = [], pv_ResumeFactsTag = [],
     pv_ResumeFactsDigest = [], pv_InputDigest = [], pv_OutputDigest = [], pv_EvidenceDigest = [],
     pv_EvidenceClaims = 0\<rparr>"

definition Provenance_IsZero :: "Provenance \<Rightarrow> bool" where
  "Provenance_IsZero provenance \<longleftrightarrow> provenance = zero_Provenance"

definition validApplicationDigest :: "string \<Rightarrow> bool" where
  "validApplicationDigest value \<longleftrightarrow> HasPrefix value ''sha256:'' \<and>
     (case hex_DecodeString (TrimPrefix value ''sha256:'') of
        None \<Rightarrow> False | Some decoded \<Rightarrow> length decoded = 32)"

definition validateModelFields :: "bool \<Rightarrow> Provenance \<Rightarrow> error option" where
  "validateModelFields requireInput p =
     (if TrimSpace (pv_OperatorTag p) = [] \<or> TrimSpace (pv_OperatorVersion p) = []
         \<or> TrimSpace (pv_ResumeFactsTag p) = [] \<or> \<not> validApplicationDigest (pv_ResumeFactsDigest p)
      then Some (Err ''model provenance requires operator, version and resume facts'')
      else if requireInput \<and> \<not> validApplicationDigest (pv_InputDigest p)
      then Some (Err ''model provenance requires input digest'')
      else if pv_InputDigest p \<noteq> [] \<and> \<not> validApplicationDigest (pv_InputDigest p)
      then Some (Err ''model provenance contains invalid input digest'')
      else if pv_Source p = ''model'' \<and> TrimSpace (pv_Model p) = []
      then Some (Err ''model provenance requires resolved model'')
      else if pv_Version p < 2 \<and> (pv_EvidenceDigest p \<noteq> [] \<or> pv_EvidenceClaims p \<noteq> 0)
      then Some (Err ''legacy model provenance cannot contain evidence'')
      else if pv_Version p \<ge> 2 \<and> pv_Source p \<noteq> ''model''
              \<and> (pv_EvidenceDigest p \<noteq> [] \<or> pv_EvidenceClaims p \<noteq> 0)
      then Some (Err ''only successful model provenance may contain evidence'')
      else None)"

text \<open>The two cases that draw the message from a pool; \<open>who\<close> opens the error texts.\<close>

definition validatePoolFields :: "string \<Rightarrow> Provenance \<Rightarrow> error option" where
  "validatePoolFields who p =
     (if TrimSpace (pv_MessagePoolTag p) = [] \<or> TrimSpace (pv_TemplateTag p) = []
      then Some (Err (who @ '' provenance requires pool and template tags''))
      else if pv_Version p \<ge> 3 \<and> \<not> validApplicationDigest (pv_MessagePoolDigest p)
      then Some (Err (who @ '' provenance requires content digest''))
      else None)"

definition validateSource :: "Provenance \<Rightarrow> error option" where
  "validateSource p =
     (if pv_Source p \<in> {''static'', ''template''} then None
      else if pv_Source p = ''message_pool'' then validatePoolFields ''message pool'' p
      else if pv_Source p = ''model'' then validateModelFields True p
      else if pv_Source p = ''model_fallback''
      then (case validateModelFields False p of Some e \<Rightarrow> Some e | None \<Rightarrow>
        if TrimSpace (pv_FailureKind p) = []
        then Some (Err ''model fallback provenance requires failure kind'')
        else if pv_FallbackSource p \<in> {''static'', ''template''} then None
        else if pv_FallbackSource p = ''message_pool'' then validatePoolFields ''model fallback message pool'' p
        else Some (Err (''model fallback provenance has unsupported source '' @ quoted (pv_FallbackSource p))))
      else Some (Err (''application preparation provenance has unsupported source '' @ quoted (pv_Source p))))"

definition Provenance_Validate :: "Provenance \<Rightarrow> error option" where
  "Provenance_Validate p =
     (if Provenance_IsZero p then None
      else if pv_Version p \<notin> {1, 2, 3}
      then Some (Err (''application preparation provenance has unsupported version '' @ FormatInt (pv_Version p)))
      else case validateSource p of Some e \<Rightarrow> Some e | None \<Rightarrow>
      if \<not> validApplicationDigest (pv_OutputDigest p)
      then Some (Err ''application preparation provenance requires output digest'')
      else if pv_Version p < 3 \<and> pv_MessagePoolDigest p \<noteq> []
      then Some (Err ''application provenance before v3 cannot contain message pool digest'')
      else if pv_Version p \<ge> 3 \<and> pv_Source p \<noteq> ''message_pool''
              \<and> \<not> (pv_Source p = ''model_fallback'' \<and> pv_FallbackSource p = ''message_pool'')
              \<and> pv_MessagePoolDigest p \<noteq> []
      then Some (Err ''only message pool provenance may contain content digest'')
      else None)"

definition applicationPreparationTextDigest :: "string \<Rightarrow> string" where
  "applicationPreparationTextDigest value = ''sha256:'' @ hex_EncodeToString (sha256_Sum256 value)"

section \<open>The application\<close>

datatype ApplicationStatus =
    ApplicationNew | ApplicationPreparing | ApplicationWaitingValidation | ApplicationWaitingApproval
  | ApplicationReady | ApplicationSubmitting | ApplicationPendingReconcile | ApplicationSubmitted
  | ApplicationDryRun | ApplicationSkipped | ApplicationFailed | ApplicationStatusOther string

fun application_status_text :: "ApplicationStatus \<Rightarrow> string" where
  "application_status_text ApplicationNew = ''new''"
| "application_status_text ApplicationPreparing = ''preparing''"
| "application_status_text ApplicationWaitingValidation = ''waiting_validation''"
| "application_status_text ApplicationWaitingApproval = ''waiting_approval''"
| "application_status_text ApplicationReady = ''ready''"
| "application_status_text ApplicationSubmitting = ''submitting''"
| "application_status_text ApplicationPendingReconcile = ''pending_reconciliation''"
| "application_status_text ApplicationSubmitted = ''submitted''"
| "application_status_text ApplicationDryRun = ''dry_run''"
| "application_status_text ApplicationSkipped = ''skipped''"
| "application_status_text ApplicationFailed = ''failed''"
| "application_status_text (ApplicationStatusOther s) = s"

record Application =
  app_ID :: ApplicationID
  app_Key :: ApplicationKey
  app_Status :: ApplicationStatus
  app_Attempts :: int
  app_ExternalNegotiationID :: string
  app_FailureCategory :: ErrorCategory
  app_FailureMessage :: string
  app_DecisionCode :: string
  app_DecisionReason :: string
  app_PreparedResumeID :: string
  app_PreparedMessage :: string
  app_PreparationProvenance :: Provenance
  app_CreatedAt :: time
  app_UpdatedAt :: time
  app_PreparedAt :: "time option"
  app_SubmittedAt :: "time option"

definition QuestionnaireDecisionActionable :: "string \<Rightarrow> bool" where
  "QuestionnaireDecisionActionable code \<longleftrightarrow>
     code \<in> {''questionnaire_required'', ''vacancy_test_required'', ''platform_validation_required''}"

definition NewApplication :: "ApplicationID \<Rightarrow> ApplicationKey \<Rightarrow> time \<Rightarrow> error + Application" where
  "NewApplication appID key now =
     (if appID = [] then Inl (Err ''application requires id'')
      else case ApplicationKey_Validate key of Some e \<Rightarrow> Inl e | None \<Rightarrow>
      if IsZero now then Inl (Err ''application requires current time'')
      else Inr \<lparr>app_ID = appID, app_Key = key, app_Status = ApplicationNew, app_Attempts = 0,
        app_ExternalNegotiationID = [], app_FailureCategory = NoCategory, app_FailureMessage = [],
        app_DecisionCode = [], app_DecisionReason = [], app_PreparedResumeID = [], app_PreparedMessage = [],
        app_PreparationProvenance = zero_Provenance, app_CreatedAt = now, app_UpdatedAt = now,
        app_PreparedAt = None, app_SubmittedAt = None\<rparr>)"

fun applicationTransitionAllowed :: "ApplicationStatus \<Rightarrow> ApplicationStatus \<Rightarrow> bool" where
  "applicationTransitionAllowed ApplicationNew to =
     (to \<in> {ApplicationPreparing, ApplicationSkipped, ApplicationFailed})"
| "applicationTransitionAllowed ApplicationPreparing to =
     (to \<in> {ApplicationWaitingValidation, ApplicationWaitingApproval, ApplicationReady, ApplicationDryRun,
       ApplicationSkipped, ApplicationFailed})"
| "applicationTransitionAllowed ApplicationWaitingValidation to =
     (to \<in> {ApplicationPreparing, ApplicationReady, ApplicationSkipped, ApplicationFailed})"
| "applicationTransitionAllowed ApplicationWaitingApproval to =
     (to \<in> {ApplicationPreparing, ApplicationReady, ApplicationSkipped, ApplicationFailed})"
| "applicationTransitionAllowed ApplicationReady to =
     (to \<in> {ApplicationSubmitting, ApplicationWaitingValidation, ApplicationWaitingApproval,
       ApplicationDryRun, ApplicationSkipped, ApplicationFailed})"
| "applicationTransitionAllowed ApplicationSubmitting to =
     (to \<in> {ApplicationSubmitted, ApplicationReady, ApplicationWaitingValidation, ApplicationSkipped,
       ApplicationPendingReconcile, ApplicationFailed})"
| "applicationTransitionAllowed ApplicationPendingReconcile to =
     (to \<in> {ApplicationSubmitted, ApplicationFailed})"
| "applicationTransitionAllowed ApplicationFailed to = (to = ApplicationReady)"
| "applicationTransitionAllowed ApplicationSkipped to = (to = ApplicationReady)"
| "applicationTransitionAllowed from to = False"

definition Application_Transition :: "ApplicationStatus \<Rightarrow> time \<Rightarrow> Application \<Rightarrow> error + Application" where
  "Application_Transition to now application =
     (if IsZero now \<or> now < app_UpdatedAt application
      then Inl (Err ''application transition time must not move backwards'')
      else if \<not> applicationTransitionAllowed (app_Status application) to
      then Inl (Err (''application transition '' @ application_status_text (app_Status application) @ '' -> ''
                @ application_status_text to @ '' is not allowed''))
      else let a = application\<lparr>app_Status := to, app_UpdatedAt := now\<rparr>;
               b = (if to = ApplicationSubmitting then a\<lparr>app_Attempts := app_Attempts a + 1\<rparr> else a)
           in Inr (if to = ApplicationSubmitted
                   then b\<lparr>app_SubmittedAt := Some now, app_FailureCategory := NoCategory, app_FailureMessage := []\<rparr>
                   else b))"

definition Application_Fail :: "OperationError option \<Rightarrow> time \<Rightarrow> Application \<Rightarrow> error + Application" where
  "Application_Fail operationError now application =
     (case operationError of None \<Rightarrow> Inl (Err ''application failure requires operation error'') | Some oe \<Rightarrow>
      case OperationError_Validate oe of Some e \<Rightarrow> Inl e | None \<Rightarrow>
      case Application_Transition ApplicationFailed now application of Inl e \<Rightarrow> Inl e | Inr a \<Rightarrow>
        Inr (a\<lparr>app_FailureCategory := oe_Category oe, app_FailureMessage := oe_Message oe\<rparr>))"

definition Application_ResetForRetry :: "time \<Rightarrow> Application \<Rightarrow> error + Application" where
  "Application_ResetForRetry now application =
     (if app_Status application \<notin> {ApplicationWaitingValidation, ApplicationFailed, ApplicationSkipped}
      then Inl (Err (''application cannot be retried from status '' @ application_status_text (app_Status application)))
      else case Application_Transition ApplicationReady now application of Inl e \<Rightarrow> Inl e | Inr a \<Rightarrow>
        Inr (a\<lparr>app_DecisionCode := [], app_DecisionReason := [], app_PreparedResumeID := [],
          app_PreparedMessage := [], app_PreparationProvenance := zero_Provenance, app_PreparedAt := None,
          app_FailureCategory := NoCategory, app_FailureMessage := []\<rparr>))"

definition RecordPreparationWithProvenance ::
  "string \<Rightarrow> string \<Rightarrow> string \<Rightarrow> string \<Rightarrow> Provenance \<Rightarrow> time \<Rightarrow> Application \<Rightarrow> error + Application" where
  "RecordPreparationWithProvenance code reason resumeID message provenance now application =
     (if app_Status application \<noteq> ApplicationPreparing \<and> app_Status application \<noteq> ApplicationReady
      then Inl (Err (''application preparation is not allowed in status ''
                @ application_status_text (app_Status application)))
      else let code' = TrimSpace code; reason' = TrimSpace reason in
      if code' = [] \<or> reason' = []
      then Inl (Err ''application preparation requires decision code and reason'')
      else case Provenance_Validate provenance of Some e \<Rightarrow> Inl e | None \<Rightarrow>
      let message' = TrimSpace message in
      if \<not> Provenance_IsZero provenance \<and> pv_OutputDigest provenance \<noteq> applicationPreparationTextDigest message'
      then Inl (Err ''application preparation provenance output digest does not match message'')
      else if IsZero now \<or> now < app_UpdatedAt application
      then Inl (Err ''application preparation time must not move backwards'')
      else Inr (application\<lparr>app_DecisionCode := code', app_DecisionReason := reason',
        app_PreparedResumeID := TrimSpace resumeID, app_PreparedMessage := message',
        app_PreparationProvenance := provenance, app_PreparedAt := Some now, app_UpdatedAt := now\<rparr>))"

definition RecordPreparation ::
  "string \<Rightarrow> string \<Rightarrow> string \<Rightarrow> string \<Rightarrow> time \<Rightarrow> Application \<Rightarrow> error + Application" where
  "RecordPreparation code reason resumeID message now application =
     RecordPreparationWithProvenance code reason resumeID message zero_Provenance now application"

section \<open>The state observed on the platform, and removal\<close>

datatype ApplicationDisposition =
    DispositionPending | DispositionInvited | DispositionRejected | DispositionHidden
  | DispositionUnknown | DispositionOther string

record ApplicationPlatformState =
  aps_ApplicationID :: ApplicationID
  aps_ExternalNegotiationID :: string
  aps_PlatformState :: string
  aps_Disposition :: ApplicationDisposition
  aps_ViewedByOpponent :: "bool option"
  aps_PlatformUpdatedAt :: "time option"
  aps_ObservedAt :: time

definition ApplicationPlatformState_Validate :: "ApplicationPlatformState \<Rightarrow> error option" where
  "ApplicationPlatformState_Validate state =
     (if aps_ApplicationID state = [] \<or> TrimSpace (aps_ExternalNegotiationID state) = []
         \<or> TrimSpace (aps_PlatformState state) = [] \<or> IsZero (aps_ObservedAt state)
      then Some (Err ''application platform state requires application, negotiation, state and observation time'')
      else if aps_Disposition state \<notin> {DispositionPending, DispositionInvited, DispositionRejected,
                DispositionHidden, DispositionUnknown}
      then Some (Err ''application platform state has invalid disposition'')
      else if (case aps_PlatformUpdatedAt state of None \<Rightarrow> False | Some t \<Rightarrow> IsZero t)
      then Some (Err ''application platform state has invalid platform update time'')
      else None)"

definition FreshApplicationObservation :: "time \<Rightarrow> time \<Rightarrow> bool" where
  "FreshApplicationObservation observedAt now \<longleftrightarrow>
     \<not> IsZero observedAt \<and> observedAt \<le> now \<and> time_Sub now observedAt \<le> 5 * Minute"

text \<open>A removal reason stays a string: \<open>Validate\<close> trims it before it compares.\<close>

type_synonym ApplicationRemovalReason = string

record ApplicationRemoval =
  rm_Reason :: ApplicationRemovalReason
  rm_StaleBefore :: time
  rm_ObservedAt :: time

record ApplicationTombstone =
  tomb_ApplicationID :: ApplicationID
  tomb_Key :: ApplicationKey
  tomb_Reason :: ApplicationRemovalReason
  tomb_RemovedAt :: time
  tomb_Status :: ApplicationStatus

definition Eligible :: "ApplicationRemoval \<Rightarrow> Application \<Rightarrow> ApplicationPlatformState \<Rightarrow> time \<Rightarrow> bool" where
  "Eligible request application state now =
     (if rm_Reason request = ''manual'' then True
      else if rm_Reason request = ''retention_validation''
      then app_Status application \<in> {ApplicationWaitingValidation, ApplicationSkipped}
      else if app_Status application \<noteq> ApplicationSubmitted \<or> aps_ApplicationID state \<noteq> app_ID application
      then False
      else if rm_Reason request = ''retention_rejected''
      then (if aps_Disposition state \<noteq> DispositionRejected then False
            else if aps_ObservedAt state = rm_ObservedAt request
                    \<and> FreshApplicationObservation (aps_ObservedAt state) now then True
            else True)
      else if rm_Reason request = ''retention_stale''
      then (if aps_ObservedAt state \<noteq> rm_ObservedAt request
               \<or> \<not> FreshApplicationObservation (aps_ObservedAt state) now then False
            else aps_Disposition state = DispositionPending \<and> \<not> IsZero (rm_StaleBefore request)
                 \<and> (case app_SubmittedAt application of None \<Rightarrow> False | Some at \<Rightarrow> at \<le> rm_StaleBefore request))
      else False)"

definition RemovalReason_Validate :: "ApplicationRemovalReason \<Rightarrow> error option" where
  "RemovalReason_Validate reason =
     (if TrimSpace reason \<in> {''manual'', ''retention_rejected'', ''retention_stale'', ''retention_validation''}
      then None else Some (Err ''application removal has invalid reason''))"

definition ApplicationTombstone_Validate :: "ApplicationTombstone \<Rightarrow> error option" where
  "ApplicationTombstone_Validate tombstone =
     (if tomb_ApplicationID tombstone = [] \<or> IsZero (tomb_RemovedAt tombstone)
      then Some (Err ''application tombstone requires application and removal time'')
      else case ApplicationKey_Validate (tomb_Key tombstone) of Some e \<Rightarrow> Some e | None \<Rightarrow>
      RemovalReason_Validate (tomb_Reason tombstone))"

section \<open>Vacancies and search pages\<close>

text \<open>
  The values of the free-form attributes, by the Go types the code tells apart: no value, a bool,
  a string, a slice of strings, a slice of values, a map, a number or a \<open>fmt.Stringer\<close> by
  its text (\<open>strconv\<close>'s shortest form without an exponent), and any other value.
\<close>

datatype attribute =
    AttrNil | AttrBool bool | AttrText string | AttrTexts "string list" | AttrItems "attribute list"
  | AttrMap "(string \<times> attribute) list" | AttrNumber string | AttrOther string

datatype VacancyState = VacancyStateUnknown | VacancyStateOpen | VacancyStateArchived | VacancyStateOther string

record Vacancy =
  vac_Platform :: Platform
  vac_ExternalID :: string
  vac_URL :: string
  vac_Title :: string
  vac_Employer :: string
  vac_State :: VacancyState
  vac_PublishedAt :: "time option"
  vac_ObservedAt :: time
  vac_Attributes :: "(string \<times> attribute) list"

definition Vacancy_Key :: "Vacancy \<Rightarrow> VacancyKey" where
  "Vacancy_Key vacancy = \<lparr>vk_Platform = vac_Platform vacancy, vk_ExternalID = vac_ExternalID vacancy\<rparr>"

definition Vacancy_Validate :: "Vacancy \<Rightarrow> error option" where
  "Vacancy_Validate vacancy =
     (case VacancyKey_Validate (Vacancy_Key vacancy) of Some e \<Rightarrow> Some e | None \<Rightarrow>
      if vac_Title vacancy = [] then Some (Err ''vacancy requires title'')
      else if IsZero (vac_ObservedAt vacancy) then Some (Err ''vacancy requires observed_at'')
      else if vac_State vacancy \<in> {VacancyStateUnknown, VacancyStateOpen, VacancyStateArchived} then None
      else Some (Err ''vacancy has invalid state''))"

record SearchPage =
  page_Vacancies :: "Vacancy list"
  page_NextCursor :: string
  page_Done :: bool

text \<open>The loop over the vacancies, with the keys seen so far and the current index.\<close>

fun validate_vacancies :: "string set \<Rightarrow> nat \<Rightarrow> Vacancy list \<Rightarrow> error option" where
  "validate_vacancies seen index [] = None"
| "validate_vacancies seen index (vacancy # rest) =
     (case Vacancy_Validate vacancy of
        Some e \<Rightarrow> Some (ErrWrap (''vacancy '' @ FormatNat index) e)
      | None \<Rightarrow>
          let key = VacancyKey_String (Vacancy_Key vacancy)
          in if key \<in> seen then Some (Err (''search page contains duplicate vacancy '' @ key))
             else validate_vacancies (insert key seen) (index + 1) rest)"

definition SearchPage_Validate :: "SearchPage \<Rightarrow> error option" where
  "SearchPage_Validate page =
     (if page_Done page \<and> page_NextCursor page \<noteq> []
      then Some (Err ''completed search page must not contain next cursor'')
      else validate_vacancies {} 0 (page_Vacancies page))"

record VacancyDiscovery =
  vd_VacancyKey :: VacancyKey
  vd_SearchID :: SearchID
  vd_ProfileID :: ProfileID
  vd_DiscoveredAt :: time

definition VacancyDiscovery_Validate :: "VacancyDiscovery \<Rightarrow> error option" where
  "VacancyDiscovery_Validate discovery =
     (case VacancyKey_Validate (vd_VacancyKey discovery) of Some e \<Rightarrow> Some e | None \<Rightarrow>
      if vd_SearchID discovery = [] then Some (Err ''vacancy discovery requires search id'')
      else if IsZero (vd_DiscoveredAt discovery) then Some (Err ''vacancy discovery requires discovered_at'')
      else None)"

end
