(* ===== verification/Application_Props.thy ===== *)
theory Application_Props
  imports Application Texts
begin

text \<open>
  The life of an application under any sequence of its operations, what a recorded provenance
  guarantees, and which applications the retention rules may remove.
\<close>

section \<open>Any caller's operations\<close>

datatype application_op =
    AppTransition ApplicationStatus time
  | AppFail "OperationError option" time
  | AppReset time
  | AppRecord string string string string Provenance time

fun apply_application_op :: "application_op \<Rightarrow> Application \<Rightarrow> error + Application" where
  "apply_application_op (AppTransition to now) = Application_Transition to now"
| "apply_application_op (AppFail oe now) = Application_Fail oe now"
| "apply_application_op (AppReset now) = Application_ResetForRetry now"
| "apply_application_op (AppRecord code reason resume message provenance now) =
     RecordPreparationWithProvenance code reason resume message provenance now"

abbreviation run_application_ops :: "application_op list \<Rightarrow> Application \<Rightarrow> Application" where
  "run_application_ops \<equiv> keep_going apply_application_op"

declare Application_Fail_def [operations] Application_ResetForRetry_def [operations]
  RecordPreparationWithProvenance_def [operations]

interpretation application_machine:
  status_machine applicationTransitionAllowed app_Status app_UpdatedAt Application_Transition
  by unfold_locales (auto simp: Application_Transition_def Let_def split: if_splits)

text \<open>What a transition changes.\<close>

lemma Application_Transition_Inr:
  assumes "Application_Transition to now a = Inr b"
  shows "applicationTransitionAllowed (app_Status a) to" and "app_Status b = to"
    and "app_UpdatedAt b = now" and "app_UpdatedAt a \<le> now"
    and "app_Attempts b = app_Attempts a + (if to = ApplicationSubmitting then 1 else 0)"
    and "app_SubmittedAt b = (if to = ApplicationSubmitted then Some now else app_SubmittedAt a)"
    and "app_ID b = app_ID a" and "app_Key b = app_Key a" and "app_CreatedAt b = app_CreatedAt a"
    and "app_PreparedMessage b = app_PreparedMessage a"
    and "app_PreparationProvenance b = app_PreparationProvenance a" and "app_PreparedAt b = app_PreparedAt a"
    and "app_DecisionCode b = app_DecisionCode a"
  using assms by (auto simp: Application_Transition_def Let_def split: if_splits)

text \<open>What \<open>NewApplication\<close> establishes and every operation keeps.\<close>

definition attempted :: "ApplicationStatus \<Rightarrow> bool" where
  "attempted s \<longleftrightarrow> s \<in> {ApplicationSubmitting, ApplicationPendingReconcile, ApplicationSubmitted}"

definition message_proven :: "Application \<Rightarrow> bool" where
  "message_proven a \<longleftrightarrow> Provenance_Validate (app_PreparationProvenance a) = None \<and>
     (app_PreparationProvenance a \<noteq> zero_Provenance \<longrightarrow>
        pv_OutputDigest (app_PreparationProvenance a) = applicationPreparationTextDigest (app_PreparedMessage a))"

definition application_wf :: "Application \<Rightarrow> bool" where
  "application_wf a \<longleftrightarrow> app_ID a \<noteq> [] \<and> ApplicationKey_Validate (app_Key a) = None
     \<and> app_CreatedAt a \<le> app_UpdatedAt a \<and> 0 \<le> app_Attempts a
     \<and> (attempted (app_Status a) \<longrightarrow> 1 \<le> app_Attempts a)
     \<and> (app_SubmittedAt a \<noteq> None) = (app_Status a = ApplicationSubmitted)
     \<and> (app_SubmittedAt a = None \<or> app_SubmittedAt a = Some (app_UpdatedAt a))
     \<and> message_proven a"

lemma zero_Provenance_valid [simp]: "Provenance_Validate zero_Provenance = None"
  by (simp add: Provenance_Validate_def Provenance_IsZero_def)

lemma NewApplication_wf: "NewApplication i key now = Inr a \<Longrightarrow> application_wf a"
  by (auto simp: NewApplication_def application_wf_def message_proven_def attempted_def
      split: if_splits option.splits)

lemma into_attempted:
  assumes "applicationTransitionAllowed s to" and "attempted to"
  shows "to = ApplicationSubmitting \<or> attempted s"
  using assms by (cases s) (auto simp: attempted_def)

lemma submitted_stuck: "\<not> applicationTransitionAllowed ApplicationSubmitted to"
  and dry_run_stuck: "\<not> applicationTransitionAllowed ApplicationDryRun to" by simp_all

lemma Application_Transition_wf:
  assumes "application_wf a" and "Application_Transition to now a = Inr b"
  shows "application_wf b"
proof -
  note t = Application_Transition_Inr [OF assms(2)]
  have "app_Status a \<noteq> ApplicationSubmitted" using t(1) submitted_stuck by metis
  then have "app_SubmittedAt a = None" using assms(1) by (simp add: application_wf_def)
  moreover have "attempted to \<longrightarrow> to = ApplicationSubmitting \<or> 1 \<le> app_Attempts a"
    using into_attempted [OF t(1)] assms(1) by (auto simp: application_wf_def)
  ultimately show ?thesis
    using assms(1) t by (auto simp: application_wf_def message_proven_def)
qed

lemma RecordPreparation_Inr:
  assumes "RecordPreparationWithProvenance code reason resume message provenance now a = Inr b"
  shows "app_Status a \<in> {ApplicationPreparing, ApplicationReady}" and "Provenance_Validate provenance = None"
    and "provenance \<noteq> zero_Provenance \<longrightarrow>
      pv_OutputDigest provenance = applicationPreparationTextDigest (TrimSpace message)"
    and "app_UpdatedAt a \<le> now"
    and "b = a\<lparr>app_DecisionCode := TrimSpace code, app_DecisionReason := TrimSpace reason,
        app_PreparedResumeID := TrimSpace resume, app_PreparedMessage := TrimSpace message,
        app_PreparationProvenance := provenance, app_PreparedAt := Some now, app_UpdatedAt := now\<rparr>"
  using assms unfolding RecordPreparationWithProvenance_def Let_def Provenance_IsZero_def
  by (auto split: if_splits option.splits)

lemma apply_application_op_wf:
  assumes "application_wf a" and "apply_application_op x a = Inr b"
  shows "application_wf b"
proof (cases x)
  case (AppTransition to now)
  with assms show ?thesis by (simp add: Application_Transition_wf)
next
  case (AppFail oe now)
  then obtain c e where c: "Application_Transition ApplicationFailed now a = Inr c"
    "b = c\<lparr>app_FailureCategory := oe_Category e, app_FailureMessage := oe_Message e\<rparr>"
    using assms(2) by (auto simp: operations split: option.splits sum.splits)
  from Application_Transition_wf [OF assms(1) c(1)] show ?thesis
    by (simp add: c(2) application_wf_def message_proven_def)
next
  case (AppReset now)
  then obtain c where c: "Application_Transition ApplicationReady now a = Inr c"
    "b = c\<lparr>app_DecisionCode := [], app_DecisionReason := [], app_PreparedResumeID := [],
          app_PreparedMessage := [], app_PreparationProvenance := zero_Provenance, app_PreparedAt := None,
          app_FailureCategory := NoCategory, app_FailureMessage := []\<rparr>"
    using assms(2) by (auto simp: operations split: if_splits sum.splits)
  from Application_Transition_wf [OF assms(1) c(1)] show ?thesis
    by (simp add: c(2) application_wf_def message_proven_def)
next
  case (AppRecord code reason resume message provenance now)
  note r = RecordPreparation_Inr [OF assms(2) [unfolded AppRecord apply_application_op.simps]]
  show ?thesis
    using assms(1) r(1-4) by (auto simp: r(5) application_wf_def message_proven_def attempted_def)
qed

lemma apply_application_op_identity:
  assumes "apply_application_op x a = Inr b"
  shows "app_ID b = app_ID a \<and> app_Key b = app_Key a \<and> app_CreatedAt b = app_CreatedAt a"
proof (cases x)
  case (AppTransition to now)
  with assms show ?thesis using Application_Transition_Inr(7-9) [of to now a b] by simp
next
  case (AppFail oe now)
  then obtain c e where "Application_Transition ApplicationFailed now a = Inr c"
    "b = c\<lparr>app_FailureCategory := oe_Category e, app_FailureMessage := oe_Message e\<rparr>"
    using assms by (auto simp: operations split: option.splits sum.splits)
  then show ?thesis using Application_Transition_Inr(7-9) [of ApplicationFailed now a c] by simp
next
  case (AppReset now)
  then obtain c where "Application_Transition ApplicationReady now a = Inr c"
    "b = c\<lparr>app_DecisionCode := [], app_DecisionReason := [], app_PreparedResumeID := [],
          app_PreparedMessage := [], app_PreparationProvenance := zero_Provenance, app_PreparedAt := None,
          app_FailureCategory := NoCategory, app_FailureMessage := []\<rparr>"
    using assms by (auto simp: operations split: if_splits sum.splits)
  then show ?thesis using Application_Transition_Inr(7-9) [of ApplicationReady now a c] by simp
next
  case (AppRecord code reason resume message provenance now)
  show ?thesis
    unfolding RecordPreparation_Inr(5) [OF assms [unfolded AppRecord apply_application_op.simps]] by simp
qed

lemma apply_application_op_stuck:
  assumes "app_Status a \<in> {ApplicationSubmitted, ApplicationDryRun}"
  shows "\<exists>e. apply_application_op x a = Inl e"
proof -
  have no: "Application_Transition to now a \<noteq> Inr b" for to now b
    using assms by (auto dest: Application_Transition_Inr(1))
  then have "\<exists>e. Application_Transition to now a = Inl e" for to now
    by (cases "Application_Transition to now a") auto
  with no show ?thesis
    using assms by (cases x) (auto simp: operations split: option.split sum.split)
qed

section \<open>Digests, observations and pages\<close>

lemma computed_digest_decodes:
  "hex_DecodeString (TrimPrefix (applicationPreparationTextDigest m) ''sha256:'') = Some (sha256_Sum256 m)"
  unfolding applicationPreparationTextDigest_def TrimPrefix_append by (rule hex_roundtrip)

lemma computed_digest_valid: "validApplicationDigest (applicationPreparationTextDigest m)"
  unfolding validApplicationDigest_def computed_digest_decodes
  by (simp add: applicationPreparationTextDigest_def del: append_Cons append_Nil)

lemma Fresh_iff:
  "FreshApplicationObservation at now \<longleftrightarrow> at \<noteq> 0 \<and> at \<le> now \<and> now - at \<le> 5 * Minute"
  by (auto simp: FreshApplicationObservation_def time_Sub_def IsZero_def minDuration_def maxDuration_def)

lemma validate_vacancies_None:
  "validate_vacancies seen n vs = None \<longleftrightarrow>
     (\<forall>v \<in> set vs. Vacancy_Validate v = None \<and> VacancyKey_String (Vacancy_Key v) \<notin> seen)
     \<and> distinct (map (VacancyKey_String \<circ> Vacancy_Key) vs)"
proof (induction vs arbitrary: seen n)
  case (Cons v vs)
  let ?key = "VacancyKey_String (Vacancy_Key v)"
  have "?key \<notin> (VacancyKey_String \<circ> Vacancy_Key) ` set vs \<longleftrightarrow>
      (\<forall>u \<in> set vs. VacancyKey_String (Vacancy_Key u) \<noteq> ?key)"
    unfolding image_iff comp_def by metis
  then show ?case
    by (simp add: Cons.IH Let_def ball_conj_distrib split: option.split) blast
qed simp

text \<open>
  A finding: two different vacancies count as duplicates when a platform name contains the
  separator, because the text of a key does not tell where the platform ends.
\<close>

definition colliding_vacancy :: "string \<Rightarrow> string \<Rightarrow> Vacancy" where
  "colliding_vacancy platform externalID = \<lparr>vac_Platform = platform, vac_ExternalID = externalID, vac_URL = [],
     vac_Title = ''engineer'', vac_Employer = [], vac_State = VacancyStateOpen, vac_PublishedAt = None,
     vac_ObservedAt = 1, vac_Attributes = []\<rparr>"

lemma search_page_false_duplicate:
  "Vacancy_Key (colliding_vacancy ''a:b'' ''c'') \<noteq> Vacancy_Key (colliding_vacancy ''a'' ''b:c'')"
  "SearchPage_Validate \<lparr>page_Vacancies = [colliding_vacancy ''a:b'' ''c'', colliding_vacancy ''a'' ''b:c''],
     page_NextCursor = [], page_Done = True\<rparr> \<noteq> None"
proof -
  show "Vacancy_Key (colliding_vacancy ''a:b'' ''c'') \<noteq> Vacancy_Key (colliding_vacancy ''a'' ''b:c'')"
    by (simp add: Vacancy_Key_def colliding_vacancy_def)
  have "validate_vacancies {} 0 [colliding_vacancy ''a:b'' ''c'', colliding_vacancy ''a'' ''b:c''] \<noteq> None"
    unfolding validate_vacancies_None
    by (simp add: Vacancy_Key_def VacancyKey_String_def colliding_vacancy_def)
  then show "SearchPage_Validate \<lparr>page_Vacancies = [colliding_vacancy ''a:b'' ''c'', colliding_vacancy ''a'' ''b:c''],
     page_NextCursor = [], page_Done = True\<rparr> \<noteq> None"
    by (simp add: SearchPage_Validate_def del: validate_vacancies.simps)
qed

text \<open>A finding: the retention of rejected applications does not look at the observation it was given.\<close>

lemma rejected_ignores_observation:
  assumes "rm_Reason request = ''retention_rejected''"
  shows "Eligible request a state now = Eligible (request\<lparr>rm_ObservedAt := anything\<rparr>) a state now'"
  using assms by (simp add: Eligible_def)

section \<open>Properties\<close>

text \<open>
  C12. The life of an application: under any sequence of transitions, failures, resets and
  recorded preparations, with any arguments, an application keeps its id, key and creation time
  and stays well-formed. In particular it is submitted exactly if it has a submission instant,
  it never is without at least one attempt, and a recorded provenance is valid and carries the
  digest of the very message on record.
\<close>

theorem application_life:
  assumes "NewApplication i key now = Inr a"
  shows "application_wf (run_application_ops ops a) \<and> app_ID (run_application_ops ops a) = i
    \<and> app_Key (run_application_ops ops a) = key \<and> app_CreatedAt (run_application_ops ops a) = now"
proof (intro conjI)
  show "application_wf (run_application_ops ops a)"
    by (rule keep_going_invariant [where P = application_wf, OF apply_application_op_wf NewApplication_wf [OF assms]])
  have "app_ID (run_application_ops ops a) = app_ID a \<and> app_Key (run_application_ops ops a) = app_Key a
      \<and> app_CreatedAt (run_application_ops ops a) = app_CreatedAt a"
    by (intro keep_going_rel [where R = "\<lambda>b c. app_ID c = app_ID b \<and> app_Key c = app_Key b
        \<and> app_CreatedAt c = app_CreatedAt b"]) (auto dest: apply_application_op_identity)
  with assms show "app_ID (run_application_ops ops a) = i" "app_Key (run_application_ops ops a) = key"
    "app_CreatedAt (run_application_ops ops a) = now"
    by (auto simp: NewApplication_def split: if_splits option.splits)
qed

definition sample_key :: ApplicationKey where
  "sample_key = \<lparr>ak_ProfileID = ''main'', ak_Vacancy = \<lparr>vk_Platform = ''hh'', vk_ExternalID = ''42''\<rparr>\<rparr>"

definition sample_application :: Application where
  "sample_application = \<lparr>app_ID = ''a1'', app_Key = sample_key, app_Status = ApplicationNew, app_Attempts = 0,
        app_ExternalNegotiationID = [], app_FailureCategory = NoCategory, app_FailureMessage = [],
        app_DecisionCode = [], app_DecisionReason = [], app_PreparedResumeID = [], app_PreparedMessage = [],
        app_PreparationProvenance = zero_Provenance, app_CreatedAt = 100, app_UpdatedAt = 100,
        app_PreparedAt = None, app_SubmittedAt = None\<rparr>"

lemma sample_texts [simp]: "TrimSpace ''main'' = ''main''" "TrimSpace ''hh'' = ''hh''" "TrimSpace ''42'' = ''42''"
  by (simp_all add: TrimSpace_id space_heads_def space_lasts_def)

lemma sample_key_valid: "ApplicationKey_Validate sample_key = None"
  by (simp add: ApplicationKey_Validate_def VacancyKey_Validate_def sample_key_def)

lemma NewApplication_sample: "NewApplication ''a1'' sample_key 100 = Inr sample_application"
  by (simp add: NewApplication_def sample_key_valid sample_application_def)

theorem application_life_witness:
  "application_wf (run_application_ops [AppTransition ApplicationPreparing 110, AppTransition ApplicationReady 120,
     AppTransition ApplicationSubmitting 130, AppTransition ApplicationSubmitted 140] sample_application)"
  using application_life [OF NewApplication_sample] by blast

text \<open>
  A submitted application and a dry run are final: no operation with any arguments changes
  them.
\<close>

theorem application_final:
  assumes "app_Status a \<in> {ApplicationSubmitted, ApplicationDryRun}"
  shows "run_application_ops ops a = a"
proof (induction ops)
  case (Cons x ops)
  obtain e where "apply_application_op x a = Inl e"
    using apply_application_op_stuck [OF assms] by blast
  with Cons show ?case by simp
qed simp

theorem application_final_witness:
  "run_application_ops [AppReset 200, AppFail None 200, AppTransition ApplicationReady 300]
     (sample_application\<lparr>app_Status := ApplicationDryRun\<rparr>) = sample_application\<lparr>app_Status := ApplicationDryRun\<rparr>"
  by (rule application_final) simp

text \<open>
  When a preparation is recorded: exactly in the statuses preparing and ready, with a
  decision code and reason that are not blank, at an instant that has not moved back, with a
  valid provenance whose output digest, if it has one, decodes to the SHA-256 digest of the
  trimmed message. The digest the code computes is always one that it accepts.
\<close>

theorem preparation_recorded_iff:
  "is_ok (RecordPreparationWithProvenance code reason resume message provenance now a) \<longleftrightarrow>
     app_Status a \<in> {ApplicationPreparing, ApplicationReady} \<and> TrimSpace code \<noteq> [] \<and> TrimSpace reason \<noteq> []
     \<and> Provenance_Validate provenance = None \<and> \<not> IsZero now \<and> app_UpdatedAt a \<le> now
     \<and> (provenance = zero_Provenance
        \<or> pv_OutputDigest provenance = ''sha256:'' @ hex_EncodeToString (sha256_Sum256 (TrimSpace message))
          \<and> hex_DecodeString (TrimPrefix (pv_OutputDigest provenance) ''sha256:'')
              = Some (sha256_Sum256 (TrimSpace message)))"
proof -
  have "pv_OutputDigest provenance = applicationPreparationTextDigest (TrimSpace message) \<longleftrightarrow>
      pv_OutputDigest provenance = ''sha256:'' @ hex_EncodeToString (sha256_Sum256 (TrimSpace message))
      \<and> hex_DecodeString (TrimPrefix (pv_OutputDigest provenance) ''sha256:'') = Some (sha256_Sum256 (TrimSpace message))"
    using computed_digest_decodes [of "TrimSpace message"] by (auto simp: applicationPreparationTextDigest_def)
  then show ?thesis
    unfolding RecordPreparationWithProvenance_def Let_def Provenance_IsZero_def
    by (auto simp del: append_Cons split: option.split)
qed

text \<open>
  What automatic removal may take: nothing but an application that waits for validation or
  was skipped, a submitted one that the platform rejected, or, by age, a submitted one that is
  still pending in an observation at most five minutes old, and was submitted by the cutoff. So
  an application with an invitation is never removed automatically.
\<close>

theorem automatic_removal:
  assumes "Eligible request a state now" and "rm_Reason request \<noteq> ''manual''"
  shows "app_Status a \<in> {ApplicationWaitingValidation, ApplicationSkipped} \<and> rm_Reason request = ''retention_validation''
    \<or> app_Status a = ApplicationSubmitted \<and> aps_ApplicationID state = app_ID a \<and>
      (rm_Reason request = ''retention_rejected'' \<and> aps_Disposition state = DispositionRejected
       \<or> rm_Reason request = ''retention_stale'' \<and> aps_Disposition state = DispositionPending
         \<and> aps_ObservedAt state \<le> now \<and> now - aps_ObservedAt state \<le> 5 * Minute
         \<and> aps_ObservedAt state = rm_ObservedAt request
         \<and> (\<exists>at. app_SubmittedAt a = Some at \<and> at \<le> rm_StaleBefore request))"
  using assms unfolding Eligible_def Fresh_iff
  by (auto simp del: duration_units split: if_splits option.splits)

definition sample_submitted :: Application where
  "sample_submitted = sample_application\<lparr>app_Status := ApplicationSubmitted, app_SubmittedAt := Some 200\<rparr>"

definition sample_state :: "ApplicationDisposition \<Rightarrow> ApplicationPlatformState" where
  "sample_state d = \<lparr>aps_ApplicationID = ''a1'', aps_ExternalNegotiationID = ''n1'', aps_PlatformState = ''response'',
     aps_Disposition = d, aps_ViewedByOpponent = None, aps_PlatformUpdatedAt = None, aps_ObservedAt = 900\<rparr>"

theorem automatic_removal_witness:
  "\<exists>at. app_SubmittedAt sample_submitted = Some at \<and> at \<le> 500"
proof -
  have "Eligible \<lparr>rm_Reason = ''retention_stale'', rm_StaleBefore = 500, rm_ObservedAt = 900\<rparr>
      sample_submitted (sample_state DispositionPending) 1000"
    by (simp add: Eligible_def sample_submitted_def sample_application_def sample_state_def
        FreshApplicationObservation_def time_Sub_def minDuration_def maxDuration_def)
  from automatic_removal [OF this] show ?thesis by (simp add: sample_submitted_def)
qed

text \<open>
  A valid search page: every vacancy on it is valid, no vacancy appears twice, and a
  finished search has no cursor.
\<close>

theorem search_page_valid:
  assumes "SearchPage_Validate page = None"
  shows "(\<forall>v \<in> set (page_Vacancies page). Vacancy_Validate v = None)
    \<and> distinct (map Vacancy_Key (page_Vacancies page)) \<and> (page_Done page \<longrightarrow> page_NextCursor page = [])"
proof -
  have "validate_vacancies {} 0 (page_Vacancies page) = None" and "page_Done page \<longrightarrow> page_NextCursor page = []"
    using assms by (auto simp: SearchPage_Validate_def split: if_splits)
  moreover from this(1) have "distinct (map VacancyKey_String (map Vacancy_Key (page_Vacancies page)))"
    by (simp add: validate_vacancies_None)
  then have "distinct (map Vacancy_Key (page_Vacancies page))"
    by (rule distinct_map [THEN iffD1, THEN conjunct1])
  ultimately show ?thesis by (simp add: validate_vacancies_None)
qed

theorem search_page_valid_witness:
  "distinct (map Vacancy_Key [colliding_vacancy ''hh'' ''42'', colliding_vacancy ''hh'' ''main''])"
proof -
  have "SearchPage_Validate \<lparr>page_Vacancies = [colliding_vacancy ''hh'' ''42'', colliding_vacancy ''hh'' ''main''],
      page_NextCursor = ''p2'', page_Done = False\<rparr> = None"
    unfolding SearchPage_Validate_def validate_vacancies_None
    by (simp add: validate_vacancies_None Vacancy_Validate_def VacancyKey_Validate_def Vacancy_Key_def
        VacancyKey_String_def colliding_vacancy_def del: validate_vacancies.simps)
  from search_page_valid [OF this] show ?thesis by simp
qed

end
