(* ===== verification/Budget.thy ===== *)
theory Budget
  imports Application
begin

text \<open>
  \<open>core/application_budget.go\<close> and \<open>storage/memory/application_budget.go\<close>: the daily
  budget of applications per profile and platform. The state is the repository's map
  \<open>applicationBudgets\<close> from an application to its one reservation; the repository's mutex
  makes every operation one step on it.
\<close>

section \<open>Data\<close>

datatype ApplicationExecutionMode =
    ExecutionDryRun | ExecutionApproval | ExecutionSubmit | ExecutionOther string

definition ApplicationExecutionMode_Validate :: "ApplicationExecutionMode \<Rightarrow> error option" where
  "ApplicationExecutionMode_Validate mode =
     (if mode \<in> {ExecutionDryRun, ExecutionApproval, ExecutionSubmit} then None
      else Some (Err ''unknown application execution mode''))"

datatype ApplicationBudgetState = BudgetReserved | BudgetCommitted | BudgetReleased

record ApplicationBudgetReservation =
  br_ApplicationID :: ApplicationID
  br_ProfileID :: ProfileID
  br_Platform :: Platform
  br_WindowStart :: time
  br_WindowEnd :: time
  br_Limit :: int
  br_State :: ApplicationBudgetState
  br_CreatedAt :: time
  br_UpdatedAt :: time

record ApplicationBudgetUsage =
  bu_ProfileID :: ProfileID
  bu_Platform :: Platform
  bu_WindowStart :: time
  bu_WindowEnd :: time
  bu_Limit :: int
  bu_Used :: int
  bu_Found :: bool

record ReserveApplicationBudgetParams =
  rp_ApplicationID :: ApplicationID
  rp_ProfileID :: ProfileID
  rp_Platform :: Platform
  rp_WindowStart :: time
  rp_WindowEnd :: time
  rp_Limit :: int
  rp_Now :: time

type_synonym Budgets = "(ApplicationID \<times> ApplicationBudgetReservation) list"

definition Exhausted :: "ApplicationBudgetUsage \<Rightarrow> bool" where
  "Exhausted usage \<longleftrightarrow> bu_Found usage \<and> bu_Limit usage > 0 \<and> bu_Used usage \<ge> bu_Limit usage"

definition ReserveParams_Validate :: "ReserveApplicationBudgetParams \<Rightarrow> error option" where
  "ReserveParams_Validate params =
     (if rp_ApplicationID params = [] \<or> rp_ProfileID params = [] \<or> rp_Platform params = []
      then Some (Err ''application budget requires application, profile and platform'')
      else if IsZero (rp_WindowStart params) \<or> IsZero (rp_WindowEnd params)
              \<or> \<not> rp_WindowEnd params > rp_WindowStart params
      then Some (Err ''application budget requires a valid time window'')
      else if rp_Limit params < 1 then Some (Err ''application budget limit must be positive'')
      else if IsZero (rp_Now params) \<or> rp_Now params < rp_WindowStart params
              \<or> \<not> rp_Now params < rp_WindowEnd params
      then Some (Err ''application budget time must belong to its window'')
      else None)"

section \<open>Operations\<close>

text \<open>A reservation that takes part of the budget of a profile, a platform and a window.\<close>

definition counts_for :: "ProfileID \<Rightarrow> Platform \<Rightarrow> time \<Rightarrow> ApplicationBudgetReservation \<Rightarrow> bool" where
  "counts_for profileID platform windowStart r \<longleftrightarrow> br_ProfileID r = profileID \<and> br_Platform r = platform
     \<and> br_WindowStart r = windowStart \<and> br_State r \<noteq> BudgetReleased"

definition budget_used :: "ProfileID \<Rightarrow> Platform \<Rightarrow> time \<Rightarrow> Budgets \<Rightarrow> nat" where
  "budget_used profileID platform windowStart budgets =
     length (filter (\<lambda>kr. counts_for profileID platform windowStart (snd kr)) budgets)"

definition quota_error :: "ReserveApplicationBudgetParams \<Rightarrow> OperationError" where
  "quota_error params = OperationError ErrorQuotaExceeded ''applications.budget.reserve'' (rp_Platform params)
     ''daily application budget is exhausted'' (Some (rp_WindowEnd params)) [] None"

text \<open>The part after the look at an existing reservation: count, and reserve if there is room.\<close>

definition reserve_slot ::
  "ReserveApplicationBudgetParams \<Rightarrow> Budgets \<Rightarrow> (error + ApplicationBudgetReservation) \<times> Budgets" where
  "reserve_slot params budgets =
     (if int (budget_used (rp_ProfileID params) (rp_Platform params) (rp_WindowStart params) budgets) \<ge> rp_Limit params
      then (Inl (ErrOperation (quota_error params)), budgets)
      else let reservation = \<lparr>br_ApplicationID = rp_ApplicationID params, br_ProfileID = rp_ProfileID params,
                 br_Platform = rp_Platform params, br_WindowStart = rp_WindowStart params,
                 br_WindowEnd = rp_WindowEnd params, br_Limit = rp_Limit params, br_State = BudgetReserved,
                 br_CreatedAt = rp_Now params, br_UpdatedAt = rp_Now params\<rparr>
           in (Inr reservation, AList.update (rp_ApplicationID params) reservation budgets))"

definition ReserveApplicationBudget ::
  "ctx \<Rightarrow> ReserveApplicationBudgetParams \<Rightarrow> Budgets \<Rightarrow> (error + ApplicationBudgetReservation) \<times> Budgets" where
  "ReserveApplicationBudget ctx params budgets =
     (case ctx of Some e \<Rightarrow> (Inl e, budgets) | None \<Rightarrow>
      case ReserveParams_Validate params of Some e \<Rightarrow> (Inl e, budgets) | None \<Rightarrow>
      case map_of budgets (rp_ApplicationID params) of
        None \<Rightarrow> reserve_slot params budgets
      | Some reservation \<Rightarrow>
          if br_ProfileID reservation \<noteq> rp_ProfileID params \<or> br_Platform reservation \<noteq> rp_Platform params
          then (Inl (Err ''application budget reservation conflicts with another window''), budgets)
          else let sameWindow = (br_WindowStart reservation = rp_WindowStart params
                                 \<and> br_WindowEnd reservation = rp_WindowEnd params)
               in if \<not> sameWindow \<and> \<not> br_WindowStart reservation < rp_WindowStart params
                  then (Inl (Err ''application budget reservation conflicts with another window''), budgets)
                  else if sameWindow \<and> br_State reservation \<noteq> BudgetReleased
                  then (Inr reservation, budgets)
                  else if \<not> sameWindow
                  then reserve_slot params (AList.update (rp_ApplicationID params)
                         (reservation\<lparr>br_State := BudgetReleased, br_UpdatedAt := rp_Now params\<rparr>) budgets)
                  else reserve_slot params budgets)"

definition finishApplicationBudget ::
  "ctx \<Rightarrow> ApplicationID \<Rightarrow> ApplicationBudgetState \<Rightarrow> time \<Rightarrow> Budgets \<Rightarrow> error option \<times> Budgets" where
  "finishApplicationBudget ctx applicationID target now budgets =
     (case ctx of Some e \<Rightarrow> (Some e, budgets) | None \<Rightarrow>
      if applicationID = [] \<or> IsZero now
      then (Some (Err ''application budget update requires application and current time''), budgets)
      else case map_of budgets applicationID of
        None \<Rightarrow> if target = BudgetReleased then (None, budgets)
                else (Some (Err ''application budget reservation not found''), budgets)
      | Some reservation \<Rightarrow>
          if now < br_UpdatedAt reservation
          then (Some (Err ''application budget update time must not move backwards''), budgets)
          else if br_State reservation = target then (None, budgets)
          else if br_State reservation \<noteq> BudgetReserved
          then (Some (Err ''application budget reservation is already final''), budgets)
          else (None, AList.update applicationID
                  (reservation\<lparr>br_State := target, br_UpdatedAt := now\<rparr>) budgets))"

definition CommitApplicationBudget :: "ctx \<Rightarrow> ApplicationID \<Rightarrow> time \<Rightarrow> Budgets \<Rightarrow> error option \<times> Budgets" where
  "CommitApplicationBudget ctx applicationID now budgets =
     finishApplicationBudget ctx applicationID BudgetCommitted now budgets"

definition ReleaseApplicationBudget :: "ctx \<Rightarrow> ApplicationID \<Rightarrow> time \<Rightarrow> Budgets \<Rightarrow> error option \<times> Budgets" where
  "ReleaseApplicationBudget ctx applicationID now budgets =
     finishApplicationBudget ctx applicationID BudgetReleased now budgets"

definition ApplicationBudget :: "ApplicationID \<Rightarrow> Budgets \<Rightarrow> ApplicationBudgetReservation option" where
  "ApplicationBudget applicationID budgets = map_of budgets applicationID"

text \<open>The loop visits the map's entries in the order of the list.\<close>

definition count_usage ::
  "ApplicationID \<times> ApplicationBudgetReservation \<Rightarrow> ApplicationBudgetUsage \<Rightarrow> ApplicationBudgetUsage" where
  "count_usage kr usage =
     (let reservation = snd kr
      in if \<not> counts_for (bu_ProfileID usage) (bu_Platform usage) (bu_WindowStart usage) reservation then usage
         else usage\<lparr>bu_Used := bu_Used usage + 1, bu_Found := True, bu_Limit := br_Limit reservation,
                bu_WindowEnd := br_WindowEnd reservation\<rparr>)"

definition BudgetUsage ::
  "ctx \<Rightarrow> ProfileID \<Rightarrow> Platform \<Rightarrow> time \<Rightarrow> Budgets \<Rightarrow> error + ApplicationBudgetUsage" where
  "BudgetUsage ctx profileID platform windowStart budgets =
     (case ctx of Some e \<Rightarrow> Inl e | None \<Rightarrow>
      if profileID = [] \<or> platform = [] \<or> IsZero windowStart
      then Inl (Err ''application budget usage requires profile, platform and window'')
      else Inr (fold count_usage budgets
        \<lparr>bu_ProfileID = profileID, bu_Platform = platform, bu_WindowStart = windowStart, bu_WindowEnd = 0,
         bu_Limit = 0, bu_Used = 0, bu_Found = False\<rparr>))"

section \<open>The operations on a store\<close>

datatype budget_op =
    OpReserve ctx ReserveApplicationBudgetParams
  | OpCommit ctx ApplicationID time
  | OpRelease ctx ApplicationID time

fun budget_step :: "budget_op \<Rightarrow> Budgets \<Rightarrow> Budgets" where
  "budget_step (OpReserve ctx params) budgets = snd (ReserveApplicationBudget ctx params budgets)"
| "budget_step (OpCommit ctx i now) budgets = snd (CommitApplicationBudget ctx i now budgets)"
| "budget_step (OpRelease ctx i now) budgets = snd (ReleaseApplicationBudget ctx i now budgets)"

abbreviation run_budget :: "budget_op list \<Rightarrow> Budgets \<Rightarrow> Budgets" where
  "run_budget ops budgets \<equiv> fold budget_step ops budgets"

text \<open>The live reservations of a bucket whose own limit is at most \<open>k\<close>.\<close>

definition live_below :: "ProfileID \<Rightarrow> Platform \<Rightarrow> time \<Rightarrow> int \<Rightarrow> Budgets \<Rightarrow> nat" where
  "live_below p f w k budgets =
     length (filter (\<lambda>kr. counts_for p f w (snd kr) \<and> br_Limit (snd kr) \<le> k) budgets)"

definition budgets_inv :: "Budgets \<Rightarrow> bool" where
  "budgets_inv budgets \<longleftrightarrow> distinct_keys budgets \<and> (\<forall>p f w k. 0 \<le> k \<longrightarrow> int (live_below p f w k budgets) \<le> k)
     \<and> (\<forall>i r. map_of budgets i = Some r \<longrightarrow> br_ApplicationID r = i \<and> 1 \<le> br_Limit r)"

text \<open>Assigning one entry of a map changes a count by that entry.\<close>

lemma length_filter_update:
  assumes "distinct_keys m"
  shows "length (filter (\<lambda>kr. P (snd kr)) (AList.update k v m)) + (case map_of m k of Some u \<Rightarrow> if P u then 1 else 0 | None \<Rightarrow> 0)
    = length (filter (\<lambda>kr. P (snd kr)) m) + (if P v then 1 else 0)"
  using assms
proof (induction m)
  case (Cons x m)
  obtain k' u where x: "x = (k', u)" by (cases x)
  show ?case
  proof (cases "k' = k")
    case True
    with x show ?thesis by simp
  next
    case False
    with Cons x show ?thesis by simp
  qed
qed simp

end
