(* ===== verification/Budget_Props.thy ===== *)
theory Budget_Props
  imports Budget Worker_Queue
begin

text \<open>
  The budget is never overspent, in any run of its operations; reserving is idempotent within a
  window; a window with room takes a reservation; and an exhausted window makes the worker wait
  for its end.
\<close>

section \<open>The invariant\<close>

lemma live_below_put:
  assumes "distinct_keys m"
  shows "live_below p f w k (AList.update i v m)
      + (case map_of m i of Some u \<Rightarrow> if counts_for p f w u \<and> br_Limit u \<le> k then 1 else 0 | None \<Rightarrow> 0)
    = live_below p f w k m + (if counts_for p f w v \<and> br_Limit v \<le> k then 1 else 0)"
  unfolding live_below_def by (rule length_filter_update [OF assms])

lemma live_below_used: "live_below p f w k m \<le> budget_used p f w m"
  unfolding live_below_def budget_used_def by (induction m) auto

lemma budgets_invD:
  assumes "budgets_inv m"
  shows "distinct_keys m" and "0 \<le> k \<Longrightarrow> int (live_below p f w k m) \<le> k"
    and "map_of m i = Some r \<Longrightarrow> br_ApplicationID r = i \<and> 1 \<le> br_Limit r"
  using assms by (simp_all add: budgets_inv_def)

text \<open>An update that does not add to any count keeps the invariant.\<close>

lemma budgets_inv_put:
  assumes "budgets_inv m" and "map_of m i = Some u" and "br_ApplicationID v = br_ApplicationID u"
    and "br_Limit v = br_Limit u" and "\<And>p f w. counts_for p f w v \<Longrightarrow> counts_for p f w u"
  shows "budgets_inv (AList.update i v m)"
proof -
  note inv = budgets_invD [OF assms(1)]
  have "live_below p f w k (AList.update i v m) \<le> live_below p f w k m" for p f w k
    using live_below_put [OF inv(1), of p f w k i v] assms(2,4) assms(5) [of p f w] by (auto split: if_splits)
  then have "int (live_below p f w k (AList.update i v m)) \<le> k" if "0 \<le> k" for p f w k
    using inv(2) [OF that, of p f w] by (meson of_nat_mono order_trans)
  then show ?thesis
    using inv(1,3) assms(2-4) by (auto simp: budgets_inv_def)
qed

lemma reserve_slot_inv:
  assumes "budgets_inv m" and "1 \<le> rp_Limit params"
    and "\<And>u. map_of m (rp_ApplicationID params) = Some u \<Longrightarrow> br_State u = BudgetReleased"
  shows "budgets_inv (snd (reserve_slot params m))"
proof (cases "int (budget_used (rp_ProfileID params) (rp_Platform params) (rp_WindowStart params) m) \<ge> rp_Limit params")
  case True
  with assms(1) show ?thesis by (simp add: reserve_slot_def)
next
  case False
  note inv = budgets_invD [OF assms(1)]
  let ?i = "rp_ApplicationID params"
  let ?v = "\<lparr>br_ApplicationID = ?i, br_ProfileID = rp_ProfileID params, br_Platform = rp_Platform params,
      br_WindowStart = rp_WindowStart params, br_WindowEnd = rp_WindowEnd params, br_Limit = rp_Limit params,
      br_State = BudgetReserved, br_CreatedAt = rp_Now params, br_UpdatedAt = rp_Now params\<rparr>"
  have put: "live_below p f w k (AList.update ?i ?v m)
      = live_below p f w k m + (if counts_for p f w ?v \<and> rp_Limit params \<le> k then 1 else 0)" for p f w k
    using live_below_put [OF inv(1), of p f w k ?i ?v] assms(3)
    by (auto simp: counts_for_def split: option.splits)
  have "int (live_below p f w k (AList.update ?i ?v m)) \<le> k" if "0 \<le> k" for p f w k
  proof (cases "counts_for p f w ?v \<and> rp_Limit params \<le> k")
    case True
    then have "int (live_below p f w k m) < rp_Limit params"
      using False live_below_used [of p f w k m] by (simp add: counts_for_def)
    with True put [of p f w k] show ?thesis by simp
  next
    case False
    with put [of p f w k] inv(2) [OF that, of p f w] show ?thesis by simp
  qed
  then have "budgets_inv (AList.update ?i ?v m)"
    using inv(1,3) assms(2) by (auto simp: budgets_inv_def)
  with False show ?thesis by (simp add: reserve_slot_def Let_def)
qed

lemma Reserve_inv:
  assumes "budgets_inv m"
  shows "budgets_inv (snd (ReserveApplicationBudget ctx params m))"
proof (cases "ctx = None \<and> ReserveParams_Validate params = None")
  case False
  with assms show ?thesis by (auto simp: ReserveApplicationBudget_def split: option.splits)
next
  case True
  then have limit: "1 \<le> rp_Limit params" by (auto simp: ReserveParams_Validate_def split: if_splits)
  show ?thesis
  proof (cases "map_of m (rp_ApplicationID params)")
    case None
    with True reserve_slot_inv [OF assms limit] show ?thesis by (simp add: ReserveApplicationBudget_def)
  next
    case (Some u)
    let ?v = "u\<lparr>br_State := BudgetReleased, br_UpdatedAt := rp_Now params\<rparr>"
    let ?m = "AList.update (rp_ApplicationID params) ?v m"
    have "budgets_inv ?m"
      by (rule budgets_inv_put [OF assms Some]) (simp_all add: counts_for_def)
    then have "budgets_inv (snd (reserve_slot params ?m))"
      by (rule reserve_slot_inv [OF _ limit]) auto
    moreover have "budgets_inv (snd (reserve_slot params m))" if "br_State u = BudgetReleased"
      by (rule reserve_slot_inv [OF assms limit]) (use Some that in auto)
    ultimately show ?thesis
      using True Some assms by (auto simp: ReserveApplicationBudget_def Let_def)
  qed
qed

lemma finish_budget_inv:
  assumes "budgets_inv m"
  shows "budgets_inv (snd (finishApplicationBudget ctx i target now m))"
proof -
  have "budgets_inv (AList.update i (u\<lparr>br_State := target, br_UpdatedAt := now\<rparr>) m)"
    if "map_of m i = Some u" "br_State u = BudgetReserved" for u
    by (rule budgets_inv_put [OF assms that(1)]) (use that(2) in \<open>simp_all add: counts_for_def\<close>)
  with assms show ?thesis by (auto simp: finishApplicationBudget_def split: option.splits)
qed

lemma budget_step_inv: "budgets_inv m \<Longrightarrow> budgets_inv (budget_step x m)"
  by (cases x) (simp_all add: Reserve_inv finish_budget_inv CommitApplicationBudget_def ReleaseApplicationBudget_def)

lemma run_budget_inv: "budgets_inv m \<Longrightarrow> budgets_inv (run_budget ops m)"
  by (induction ops arbitrary: m) (simp_all add: budget_step_inv)

lemma budgets_inv_Nil: "budgets_inv []"
  by (simp add: budgets_inv_def live_below_def)

section \<open>Reserving\<close>

text \<open>A full bucket holds a reservation whose own limit is at least the number in use.\<close>

lemma used_within_some_limit:
  assumes "budgets_inv m" and "0 < budget_used p f w m"
  shows "\<exists>i r. map_of m i = Some r \<and> counts_for p f w r \<and> int (budget_used p f w m) \<le> br_Limit r"
proof (rule ccontr)
  assume no: "\<not> ?thesis"
  let ?k = "int (budget_used p f w m) - 1"
  have below: "br_Limit r \<le> ?k" if "(i, r) \<in> set m" "counts_for p f w r" for i r
  proof -
    have "map_of m i = Some r" using that(1) in_set_map_of [OF budgets_invD(1) [OF assms(1)]] by blast
    with no that(2) show ?thesis by force
  qed
  have "live_below p f w ?k m = budget_used p f w m"
    unfolding live_below_def using below
    by (subst (2) budget_used_def, intro arg_cong [where f = length] filter_cong) auto
  with budgets_invD(2) [OF assms(1), of ?k p f w] assms(2) show False by simp
qed

lemma used_after_reserve:
  assumes "distinct_keys m" and "\<And>u. map_of m (br_ApplicationID r) = Some u \<Longrightarrow> \<not> counts_for p f w u"
  shows "budget_used p f w (AList.update (br_ApplicationID r) r m)
    = budget_used p f w m + (if counts_for p f w r then 1 else 0)"
  using length_filter_update [OF assms(1), of "counts_for p f w" "br_ApplicationID r" r] assms(2)
  by (auto simp: budget_used_def split: option.splits)

section \<open>Samples and a finding\<close>

definition sample_reserve :: "ApplicationID \<Rightarrow> int \<Rightarrow> ReserveApplicationBudgetParams" where
  "sample_reserve i limit = \<lparr>rp_ApplicationID = i, rp_ProfileID = ''main'', rp_Platform = ''hh'',
     rp_WindowStart = 100, rp_WindowEnd = 900, rp_Limit = limit, rp_Now = 200\<rparr>"

definition sample_reservation :: "ApplicationID \<Rightarrow> int \<Rightarrow> ApplicationBudgetReservation" where
  "sample_reservation i limit = \<lparr>br_ApplicationID = i, br_ProfileID = ''main'', br_Platform = ''hh'',
     br_WindowStart = 100, br_WindowEnd = 900, br_Limit = limit, br_State = BudgetReserved,
     br_CreatedAt = 200, br_UpdatedAt = 200\<rparr>"

lemma sample_reserve_valid: "1 \<le> limit \<Longrightarrow> i \<noteq> [] \<Longrightarrow> ReserveParams_Validate (sample_reserve i limit) = None"
  by (simp add: ReserveParams_Validate_def sample_reserve_def)

lemma sample_reserved: "ReserveApplicationBudget None (sample_reserve ''a'' 1) []
    = (Inr (sample_reservation ''a'' 1), [(''a'', sample_reservation ''a'' 1)])"
  by (simp add: ReserveApplicationBudget_def sample_reserve_valid)
    (simp add: reserve_slot_def budget_used_def sample_reserve_def sample_reservation_def Let_def)

text \<open>
  When the limit changed within a window, the reported usage depends on the order in which the
  map is visited: the limit of the last entry wins, and with it whether the budget counts as
  exhausted.
\<close>

lemma usage_depends_on_map_order:
  "map_option Exhausted (case BudgetUsage None ''main'' ''hh'' 100
      [(''a'', sample_reservation ''a'' 1), (''b'', sample_reservation ''b'' 5)] of Inr u \<Rightarrow> Some u | _ \<Rightarrow> None)
   \<noteq> map_option Exhausted (case BudgetUsage None ''main'' ''hh'' 100
      [(''b'', sample_reservation ''b'' 5), (''a'', sample_reservation ''a'' 1)] of Inr u \<Rightarrow> Some u | _ \<Rightarrow> None)"
  by (simp add: BudgetUsage_def count_usage_def counts_for_def sample_reservation_def Exhausted_def Let_def)

section \<open>Properties\<close>

text \<open>
  C10. The budget is never overspent. In any run of reservations, commits and releases from an
  empty store, with any arguments and changing limits: of the live reservations of a profile, a
  platform and a window that were made under a limit of at most \<open>k\<close> there are at most
  \<open>k\<close>, for every \<open>k\<close>; and whenever a window is used at all, one of its reservations was
  made under a limit no smaller than the number in use.
\<close>

theorem budget_never_overspent:
  "(0 \<le> k \<longrightarrow> int (live_below p f w k (run_budget ops [])) \<le> k)
    \<and> (0 < budget_used p f w (run_budget ops []) \<longrightarrow>
      (\<exists>i r. map_of (run_budget ops []) i = Some r \<and> counts_for p f w r
        \<and> int (budget_used p f w (run_budget ops [])) \<le> br_Limit r))"
  using budgets_invD(2) [OF run_budget_inv [OF budgets_inv_Nil, of ops]]
    used_within_some_limit [OF run_budget_inv [OF budgets_inv_Nil, of ops]] by blast

theorem budget_never_overspent_witness:
  "live_below ''main'' ''hh'' 100 1 (run_budget [OpReserve None (sample_reserve ''a'' 1),
     OpReserve None (sample_reserve ''b'' 1), OpReserve None (sample_reserve ''c'' 5)] []) \<le> 1"
  using budget_never_overspent [of 1 "''main''" "''hh''" 100 "[OpReserve None (sample_reserve ''a'' 1),
     OpReserve None (sample_reserve ''b'' 1), OpReserve None (sample_reserve ''c'' 5)]"] by simp

text \<open>
  A first reservation is made exactly if the window has room: then the count goes up by one
  and the reservation is on record; else the store stays as it is and the error says that the
  quota is exceeded until the window ends.
\<close>

theorem reserve_iff_room:
  assumes "distinct_keys m" and "ReserveParams_Validate params = None"
    and "map_of m (rp_ApplicationID params) = None"
    and "ReserveApplicationBudget None params m = (r, m')"
  defines "used \<equiv> budget_used (rp_ProfileID params) (rp_Platform params) (rp_WindowStart params)"
  shows "if int (used m) < rp_Limit params
    then \<exists>v. r = Inr v \<and> map_of m' = (map_of m)(rp_ApplicationID params \<mapsto> v) \<and> br_State v = BudgetReserved
      \<and> used m' = used m + 1
    else r = Inl (ErrOperation (quota_error params)) \<and> m' = m"
proof -
  have slot: "reserve_slot params m = (r, m')"
    using assms(2-4) by (simp add: ReserveApplicationBudget_def)
  show ?thesis
  proof (cases "int (used m) < rp_Limit params")
    case False
    with slot show ?thesis by (simp add: reserve_slot_def used_def)
  next
    case True
    then obtain v where v: "r = Inr v" "m' = AList.update (br_ApplicationID v) v m" "br_State v = BudgetReserved"
      "br_ApplicationID v = rp_ApplicationID params"
      "counts_for (rp_ProfileID params) (rp_Platform params) (rp_WindowStart params) v"
      using slot by (auto simp: reserve_slot_def used_def counts_for_def Let_def)
    have "used m' = used m + 1"
      unfolding used_def v(2) using used_after_reserve [OF assms(1), of v] assms(3) v(4,5) by simp
    with True v show ?thesis by simp
  qed
qed

theorem reserve_iff_room_witness:
  "fst (ReserveApplicationBudget None (sample_reserve ''b'' 1) [(''a'', sample_reservation ''a'' 1)])
     = Inl (ErrOperation (quota_error (sample_reserve ''b'' 1)))"
proof -
  let ?m = "[(''a'', sample_reservation ''a'' 1)]"
  have used: "budget_used ''main'' ''hh'' 100 ?m = 1"
    by (simp add: budget_used_def counts_for_def sample_reservation_def)
  have "map_of ?m (rp_ApplicationID (sample_reserve ''b'' 1)) = None" by (simp add: sample_reserve_def)
  from reserve_iff_room [OF _ sample_reserve_valid this prod.collapse [symmetric]] used show ?thesis
    by (simp add: sample_reserve_def)
qed

text \<open>
  Reserving is idempotent within its window: once an application holds a reservation, asking
  again for the same profile, platform and window, under any limit and at any instant of the
  window, also after it was committed, returns what is stored and changes nothing, even if the
  window is full by then.
\<close>

theorem reserve_idempotent:
  assumes "map_of m (rp_ApplicationID params) = Some r" and "br_State r \<noteq> BudgetReleased"
    and "br_ProfileID r = rp_ProfileID params" and "br_Platform r = rp_Platform params"
    and "br_WindowStart r = rp_WindowStart params" and "br_WindowEnd r = rp_WindowEnd params"
    and "ReserveParams_Validate params = None"
  shows "ReserveApplicationBudget None params m = (Inr r, m)
    \<and> (CommitApplicationBudget None (rp_ApplicationID params) now m = (None, m') \<longrightarrow>
      (\<exists>r'. ReserveApplicationBudget None params m' = (Inr r', m') \<and> br_State r' = BudgetCommitted))"
proof (intro conjI; (intro impI)?)
  have again: "ReserveApplicationBudget None params n = (Inr v, n)"
    if "map_of n (rp_ApplicationID params) = Some v" "br_State v \<noteq> BudgetReleased"
      "br_ProfileID v = br_ProfileID r" "br_Platform v = br_Platform r"
      "br_WindowStart v = br_WindowStart r" "br_WindowEnd v = br_WindowEnd r" for n v
    using assms(3-7) that by (simp add: ReserveApplicationBudget_def)
  show "ReserveApplicationBudget None params m = (Inr r, m)" by (rule again) (use assms in simp_all)
  assume "CommitApplicationBudget None (rp_ApplicationID params) now m = (None, m')"
  then have "map_of m' (rp_ApplicationID params) = Some r \<and> br_State r = BudgetCommitted
      \<or> map_of m' (rp_ApplicationID params) = Some (r\<lparr>br_State := BudgetCommitted, br_UpdatedAt := now\<rparr>)"
    using assms(1) by (auto simp: CommitApplicationBudget_def finishApplicationBudget_def split: if_splits)
  then show "\<exists>r'. ReserveApplicationBudget None params m' = (Inr r', m') \<and> br_State r' = BudgetCommitted"
    using again by fastforce
qed

theorem reserve_idempotent_witness:
  "ReserveApplicationBudget None (sample_reserve ''a'' 7) [(''a'', sample_reservation ''a'' 1)]
     = (Inr (sample_reservation ''a'' 1), [(''a'', sample_reservation ''a'' 1)])"
  by (rule reserve_idempotent [OF _ _ _ _ _ _ sample_reserve_valid, THEN conjunct1])
    (simp_all add: sample_reserve_def sample_reservation_def)

text \<open>
  An exhausted budget makes the worker wait for the end of the window: the quota error goes
  through the worker's classification unchanged, is retried, and its retry instant is the end of
  the window, whatever the attempt and the configuration.
\<close>

theorem quota_waits_for_window:
  assumes "ReserveParams_Validate params = None" and "now < rp_WindowEnd params"
    and "fst (ReserveApplicationBudget None params m) = Inl (ErrOperation oe)"
  shows "normalizeError (ErrOperation oe) taskType = oe \<and> retryable (oe_Category oe)
    \<and> retryAt config oe attempts now = rp_WindowEnd params"
proof -
  have "oe = quota_error params"
    using assms(3) by (auto simp: ReserveApplicationBudget_def reserve_slot_def assms(1) Let_def
        split: option.splits if_splits)
  moreover have "OperationError_Validate (quota_error params) = None"
    by (simp add: quota_error_def OperationError_Validate_def)
  ultimately show ?thesis
    using assms(2) by (simp add: normalizeError_def retryAt_def) (simp add: quota_error_def)
qed

definition sample_worker_config :: Config where
  "sample_worker_config = \<lparr>wc_ID = ''w1'', wc_TaskType = TaskApplicationSubmit, wc_BlockedByTaskType = NoTaskType,
     wc_LeaseDuration = 60, wc_HeartbeatInterval = 20, wc_PollInterval = 10, wc_RetryBaseDelay = 100,
     wc_BlockedRetryDelay = 50, wc_MaxAttempts = 3\<rparr>"

theorem quota_waits_for_window_witness:
  "retryAt sample_worker_config (quota_error (sample_reserve ''b'' 1)) 1 300 = 900"
proof -
  have "fst (ReserveApplicationBudget None (sample_reserve ''b'' 1) [(''a'', sample_reservation ''a'' 1)])
      = Inl (ErrOperation (quota_error (sample_reserve ''b'' 1)))"
    by (simp add: ReserveApplicationBudget_def sample_reserve_valid)
      (simp add: sample_reserve_def reserve_slot_def budget_used_def counts_for_def sample_reservation_def)
  from quota_waits_for_window [OF sample_reserve_valid _ this] show ?thesis by (simp add: sample_reserve_def)
qed

end
