(* ===== verification/Pacing.thy ===== *)
theory Pacing
  imports Application
begin

text \<open>
  \<open>core/application_pacing.go\<close> and \<open>storage/memory/application_pacing.go\<close>: the slots
  that keep the submissions of a profile on a platform apart. The state is the repository's map
  \<open>applicationPacing\<close> from an application to its one reservation. The two loops compute a
  maximum, so they do not depend on the order of the map.
\<close>

section \<open>Data\<close>

record ApplicationPaceReservation =
  pr_ApplicationID :: ApplicationID
  pr_ProfileID :: ProfileID
  pr_Platform :: Platform
  pr_ScheduledAt :: time
  pr_Interval :: duration
  pr_AcquiredAt :: "time option"

record AcquireApplicationPaceParams =
  pp_ApplicationID :: ApplicationID
  pp_ProfileID :: ProfileID
  pp_Platform :: Platform
  pp_Interval :: duration
  pp_Now :: time

type_synonym Paces = "(ApplicationID \<times> ApplicationPaceReservation) list"

definition PaceParams_Validate :: "AcquireApplicationPaceParams \<Rightarrow> error option" where
  "PaceParams_Validate params =
     (if pp_ApplicationID params = [] \<or> pp_ProfileID params = [] \<or> pp_Platform params = []
      then Some (Err ''application pacing requires application, profile and platform'')
      else if pp_Interval params \<le> 0 then Some (Err ''application pacing interval must be positive'')
      else if IsZero (pp_Now params) then Some (Err ''application pacing requires current time'')
      else None)"

section \<open>Operations\<close>

definition other_in_lane :: "ApplicationPaceReservation \<Rightarrow> ApplicationID \<Rightarrow> ApplicationPaceReservation \<Rightarrow> bool" where
  "other_in_lane current applicationID reservation \<longleftrightarrow> applicationID \<noteq> pr_ApplicationID current
     \<and> pr_ProfileID reservation = pr_ProfileID current \<and> pr_Platform reservation = pr_Platform current"

definition applicationPacingTail :: "ApplicationPaceReservation \<Rightarrow> time \<Rightarrow> Paces \<Rightarrow> time" where
  "applicationPacingTail current floor paces =
     fold (\<lambda>(applicationID, reservation) tail.
       if \<not> other_in_lane current applicationID reservation then tail
       else let candidate = pr_ScheduledAt reservation + pr_Interval reservation
            in if tail < candidate then candidate else tail) paces floor"

definition later_of :: "time option \<Rightarrow> duration \<Rightarrow> time \<Rightarrow> time" where
  "later_of acquired interval nxt =
     (case acquired of None \<Rightarrow> nxt | Some a \<Rightarrow> if nxt < a + interval then a + interval else nxt)"

definition applicationPacingNextAllowed :: "ApplicationPaceReservation \<Rightarrow> Paces \<Rightarrow> time" where
  "applicationPacingNextAllowed current paces =
     later_of (pr_AcquiredAt current) (pr_Interval current)
       (fold (\<lambda>(applicationID, reservation) nxt.
          if \<not> other_in_lane current applicationID reservation then nxt
          else later_of (pr_AcquiredAt reservation) (pr_Interval reservation) nxt) paces 0)"

definition new_pace :: "AcquireApplicationPaceParams \<Rightarrow> Paces \<Rightarrow> ApplicationPaceReservation" where
  "new_pace params paces =
     (let reservation = \<lparr>pr_ApplicationID = pp_ApplicationID params, pr_ProfileID = pp_ProfileID params,
            pr_Platform = pp_Platform params, pr_ScheduledAt = pp_Now params, pr_Interval = pp_Interval params,
            pr_AcquiredAt = None\<rparr>
      in reservation\<lparr>pr_ScheduledAt := applicationPacingTail reservation (pp_Now params) paces\<rparr>)"

definition AcquireApplicationPace ::
  "ctx \<Rightarrow> AcquireApplicationPaceParams \<Rightarrow> Paces \<Rightarrow> (error + ApplicationPaceReservation \<times> bool) \<times> Paces" where
  "AcquireApplicationPace ctx params paces =
     (case ctx of Some e \<Rightarrow> (Inl e, paces) | None \<Rightarrow>
      case PaceParams_Validate params of Some e \<Rightarrow> (Inl e, paces) | None \<Rightarrow>
      let existing = map_of paces (pp_ApplicationID params) in
      if (case existing of None \<Rightarrow> False | Some r \<Rightarrow>
            pr_ProfileID r \<noteq> pp_ProfileID params \<or> pr_Platform r \<noteq> pp_Platform params)
      then (Inl (Err ''application pacing reservation conflicts with another profile or platform''), paces)
      else let reservation = (case existing of None \<Rightarrow> new_pace params paces | Some r \<Rightarrow> r) in
      if pp_Now params < pr_ScheduledAt reservation
      then (Inr (reservation, False), AList.update (pp_ApplicationID params) reservation paces)
      else let nextAllowed = applicationPacingNextAllowed reservation paces in
      if pp_Now params < nextAllowed
      then let r = reservation\<lparr>pr_ScheduledAt := applicationPacingTail reservation nextAllowed paces,
                     pr_AcquiredAt := None\<rparr>
           in (Inr (r, False), AList.update (pp_ApplicationID params) r paces)
      else let r = reservation\<lparr>pr_AcquiredAt := Some (pp_Now params)\<rparr>
           in (Inr (r, True), AList.update (pp_ApplicationID params) r paces))"

section \<open>The two loops\<close>

lemma later_of_ge: "nxt \<le> later_of a i nxt"
  by (auto simp: later_of_def split: option.splits)

lemma later_of_le_iff: "later_of a i nxt \<le> now \<longleftrightarrow> nxt \<le> now \<and> (\<forall>x. a = Some x \<longrightarrow> x + i \<le> now)"
  by (auto simp: later_of_def split: option.splits)

lemma fold_next_le_iff:
  "fold (\<lambda>(k, r) nxt. if \<not> other_in_lane c k r then nxt else later_of (pr_AcquiredAt r) (pr_Interval r) nxt) paces start \<le> now
   \<longleftrightarrow> start \<le> now \<and> (\<forall>(k, r) \<in> set paces. other_in_lane c k r \<longrightarrow>
         (\<forall>a. pr_AcquiredAt r = Some a \<longrightarrow> a + pr_Interval r \<le> now))"
proof (induction paces arbitrary: start)
  case (Cons x paces)
  obtain k r where x: "x = (k, r)" by (cases x)
  show ?case
    by (cases "other_in_lane c k r") (simp_all add: x Cons.IH later_of_le_iff conj_assoc)
qed simp

text \<open>The gate is open exactly when every remembered acquisition of the lane is far enough back.\<close>

lemma nextAllowed_le_iff:
  "applicationPacingNextAllowed c paces \<le> now \<longleftrightarrow> 0 \<le> now
     \<and> (\<forall>a. pr_AcquiredAt c = Some a \<longrightarrow> a + pr_Interval c \<le> now)
     \<and> (\<forall>(k, r) \<in> set paces. other_in_lane c k r \<longrightarrow> (\<forall>a. pr_AcquiredAt r = Some a \<longrightarrow> a + pr_Interval r \<le> now))"
  unfolding applicationPacingNextAllowed_def later_of_le_iff fold_next_le_iff by blast

lemma fold_tail_ge:
  "start \<le> fold (\<lambda>(k, r) tail. if \<not> other_in_lane c k r then tail
       else let candidate = pr_ScheduledAt r + pr_Interval r in if tail < candidate then candidate else tail) paces start"
proof (induction paces arbitrary: start)
  case (Cons x paces)
  obtain k r where x: "x = (k, r)" by (cases x)
  let ?start = "if \<not> other_in_lane c k r then start
       else let candidate = pr_ScheduledAt r + pr_Interval r in if start < candidate then candidate else start"
  have "start \<le> ?start" by (simp add: Let_def)
  also note Cons.IH [of ?start]
  finally show ?case by (simp add: x)
qed simp

lemma tail_ge: "floor \<le> applicationPacingTail c floor paces"
  unfolding applicationPacingTail_def by (rule fold_tail_ge)

end
