(* ===== verification/Pacing_Props.thy ===== *)
theory Pacing_Props
  imports Pacing
begin

text \<open>
  When a slot is granted, what a refusal returns, that submissions keep their distance as long
  as no application asks again after it was allowed, and that asking again breaks it.
\<close>

section \<open>One call\<close>

definition pace_of :: "AcquireApplicationPaceParams \<Rightarrow> Paces \<Rightarrow> ApplicationPaceReservation" where
  "pace_of params paces = (case map_of paces (pp_ApplicationID params) of
     None \<Rightarrow> new_pace params paces | Some r \<Rightarrow> r)"

lemma Acquire_cases:
  assumes "AcquireApplicationPace ctx params paces = (res, paces')"
  obtains e where "res = Inl e" "paces' = paces"
  | r where "res = Inr (r, False)" "pp_Now params < pr_ScheduledAt r"
      "paces' = AList.update (pp_ApplicationID params) r paces"
  | r where "res = Inr (r, True)" "r = (pace_of params paces)\<lparr>pr_AcquiredAt := Some (pp_Now params)\<rparr>"
      "applicationPacingNextAllowed (pace_of params paces) paces \<le> pp_Now params"
      "pr_ScheduledAt r \<le> pp_Now params" "ctx = None" "PaceParams_Validate params = None"
      "pr_ProfileID r = pp_ProfileID params" "pr_Platform r = pp_Platform params"
      "paces' = AList.update (pp_ApplicationID params) r paces"
proof (cases "\<exists>e. res = Inl e")
  case True
  then obtain e where e: "res = Inl e" by blast
  with assms have "paces' = paces"
    by (auto simp: AcquireApplicationPace_def Let_def split: option.splits if_splits)
  with e that(1) show ?thesis by blast
next
  case False
  let ?r = "pace_of params paces"
  have ok: "ctx = None" "PaceParams_Validate params = None"
    using assms False by (auto simp: AcquireApplicationPace_def split: option.splits)
  have lane: "pr_ProfileID ?r = pp_ProfileID params \<and> pr_Platform ?r = pp_Platform params"
    using assms False ok
    by (auto simp: AcquireApplicationPace_def pace_of_def new_pace_def Let_def split: option.splits if_splits)
  have body: "(res, paces') =
     (if pp_Now params < pr_ScheduledAt ?r
      then (Inr (?r, False), AList.update (pp_ApplicationID params) ?r paces)
      else let nextAllowed = applicationPacingNextAllowed ?r paces in
      if pp_Now params < nextAllowed
      then let r = ?r\<lparr>pr_ScheduledAt := applicationPacingTail ?r nextAllowed paces, pr_AcquiredAt := None\<rparr>
           in (Inr (r, False), AList.update (pp_ApplicationID params) r paces)
      else let r = ?r\<lparr>pr_AcquiredAt := Some (pp_Now params)\<rparr>
           in (Inr (r, True), AList.update (pp_ApplicationID params) r paces))"
    using assms False ok lane
    by (cases "map_of paces (pp_ApplicationID params)")
      (simp_all add: AcquireApplicationPace_def pace_of_def Let_def split: if_splits)
  consider (early) "pp_Now params < pr_ScheduledAt ?r"
    | (gate) "\<not> pp_Now params < pr_ScheduledAt ?r" "pp_Now params < applicationPacingNextAllowed ?r paces"
    | (granted) "\<not> pp_Now params < pr_ScheduledAt ?r" "\<not> pp_Now params < applicationPacingNextAllowed ?r paces"
    by blast
  then show ?thesis
  proof cases
    case early
    with body that(2) [of ?r] show ?thesis by simp
  next
    case gate
    let ?s = "?r\<lparr>pr_ScheduledAt := applicationPacingTail ?r (applicationPacingNextAllowed ?r paces) paces,
        pr_AcquiredAt := None\<rparr>"
    have "pp_Now params < pr_ScheduledAt ?s"
      using gate(2) tail_ge [of "applicationPacingNextAllowed ?r paces" ?r paces] by simp
    with body gate that(2) [of ?s] show ?thesis by (simp add: Let_def)
  next
    case granted
    with body lane ok that(3) [of "?r\<lparr>pr_AcquiredAt := Some (pp_Now params)\<rparr>"] show ?thesis
      by (simp add: Let_def)
  qed
qed

section \<open>A run of calls\<close>

text \<open>The store, and the reservations that were allowed so far, in order.\<close>

definition pace_step ::
  "ctx \<times> AcquireApplicationPaceParams \<Rightarrow> Paces \<times> ApplicationPaceReservation list \<Rightarrow>
   Paces \<times> ApplicationPaceReservation list" where
  "pace_step call state = (case AcquireApplicationPace (fst call) (snd call) (fst state) of
     (Inr (r, True), paces) \<Rightarrow> (paces, snd state @ [r])
   | (_, paces) \<Rightarrow> (paces, snd state))"

abbreviation pace_run :: "(ctx \<times> AcquireApplicationPaceParams) list \<Rightarrow> Paces \<times> ApplicationPaceReservation list" where
  "pace_run calls \<equiv> fold pace_step calls ([], [])"

definition spaced :: "ApplicationPaceReservation \<Rightarrow> ApplicationPaceReservation \<Rightarrow> bool" where
  "spaced a b \<longleftrightarrow> (pr_ProfileID a = pr_ProfileID b \<longrightarrow> pr_Platform a = pr_Platform b \<longrightarrow>
     (\<exists>x y. pr_AcquiredAt a = Some x \<and> pr_AcquiredAt b = Some y \<and> x + pr_Interval a \<le> y))"

text \<open>No application asks again after it was allowed.\<close>

definition asks_once :: "(ctx \<times> AcquireApplicationPaceParams) list \<Rightarrow> bool" where
  "asks_once calls \<longleftrightarrow> (\<forall>before call after. calls = before @ call # after \<longrightarrow>
     pp_ApplicationID (snd call) \<notin> pr_ApplicationID ` set (snd (pace_run before)))"

definition paces_inv :: "Paces \<times> ApplicationPaceReservation list \<Rightarrow> bool" where
  "paces_inv state \<longleftrightarrow> distinct_keys (fst state)
     \<and> (\<forall>i r. map_of (fst state) i = Some r \<longrightarrow> pr_ApplicationID r = i)
     \<and> (\<forall>r \<in> set (snd state). map_of (fst state) (pr_ApplicationID r) = Some r \<and> pr_AcquiredAt r \<noteq> None)
     \<and> sorted_wrt spaced (snd state)"

lemma asks_once_snoc:
  assumes "asks_once (calls @ [call])"
  shows "asks_once calls" and "pp_ApplicationID (snd call) \<notin> pr_ApplicationID ` set (snd (pace_run calls))"
  using assms unfolding asks_once_def by (metis append.assoc append_Cons, blast)

lemma new_pace_ID [simp]: "pr_ApplicationID (new_pace params paces) = pp_ApplicationID params"
  by (simp add: new_pace_def Let_def)

lemma pace_step_inv:
  assumes "paces_inv (paces, trace)" and "pp_ApplicationID (snd call) \<notin> pr_ApplicationID ` set trace"
  shows "paces_inv (pace_step call (paces, trace))"
proof -
  obtain ctx params where call: "call = (ctx, params)" by (cases call)
  obtain res paces' where acq: "AcquireApplicationPace ctx params paces = (res, paces')"
    by (cases "AcquireApplicationPace ctx params paces")
  let ?i = "pp_ApplicationID params"
  have inv: "distinct_keys paces" "\<And>i r. map_of paces i = Some r \<Longrightarrow> pr_ApplicationID r = i"
    "\<And>r. r \<in> set trace \<Longrightarrow> map_of paces (pr_ApplicationID r) = Some r \<and> pr_AcquiredAt r \<noteq> None"
    "sorted_wrt spaced trace"
    using assms(1) by (simp_all add: paces_inv_def)
  have new: "pr_ApplicationID r \<noteq> ?i" if "r \<in> set trace" for r
    using assms(2) that call by (metis image_eqI snd_conv)
  from acq show ?thesis
  proof (cases rule: Acquire_cases)
    case 1
    with assms(1) acq show ?thesis by (simp add: pace_step_def call)
  next
    case (2 r)
    have "pr_ApplicationID r = ?i"
      using acq 2(1) inv(2) by (auto simp: AcquireApplicationPace_def Let_def split: option.splits if_splits)
    with inv new show ?thesis
      by (auto simp: pace_step_def call acq 2(1) paces_inv_def 2(3))
  next
    case (3 r)
    have id: "pr_ApplicationID (pace_of params paces) = ?i"
      using inv(2) by (auto simp: pace_of_def split: option.splits)
    have "spaced a r" if a: "a \<in> set trace" for a
      unfolding spaced_def
    proof (intro impI)
      assume lane: "pr_ProfileID a = pr_ProfileID r" "pr_Platform a = pr_Platform r"
      obtain x where x: "pr_AcquiredAt a = Some x" using inv(3) [OF a] by blast
      have "(pr_ApplicationID a, a) \<in> set paces" using inv(1,3) a in_set_map_of by fast
      moreover have "other_in_lane (pace_of params paces) (pr_ApplicationID a) a"
        using lane new [OF a] id by (simp add: other_in_lane_def 3(2))
      ultimately have "x + pr_Interval a \<le> pp_Now params"
        using 3(3) x unfolding nextAllowed_le_iff by blast
      with x 3(2) show "\<exists>x y. pr_AcquiredAt a = Some x \<and> pr_AcquiredAt r = Some y \<and> x + pr_Interval a \<le> y"
        by simp
    qed
    then have "sorted_wrt spaced (trace @ [r])" using inv(4) by (simp add: sorted_wrt_append)
    with inv new id show ?thesis
      by (auto simp: pace_step_def call acq 3(1) paces_inv_def 3(9) 3(2))
  qed
qed

lemma pace_run_inv: "asks_once calls \<Longrightarrow> paces_inv (pace_run calls)"
proof (induction calls rule: rev_induct)
  case Nil
  show ?case by (simp add: paces_inv_def)
next
  case (snoc call calls)
  note once = asks_once_snoc [OF snoc.prems]
  show ?case
    using pace_step_inv [of "fst (pace_run calls)" "snd (pace_run calls)" call] snoc.IH [OF once(1)] once(2) by simp
qed

section \<open>Properties\<close>

definition sample_pace :: "ApplicationID \<Rightarrow> time \<Rightarrow> ctx \<times> AcquireApplicationPaceParams" where
  "sample_pace i now = (None, \<lparr>pp_ApplicationID = i, pp_ProfileID = ''main'', pp_Platform = ''hh'',
     pp_Interval = 60, pp_Now = now\<rparr>)"

definition sample_slot :: "ApplicationID \<Rightarrow> time \<Rightarrow> time option \<Rightarrow> ApplicationPaceReservation" where
  "sample_slot i at acquired = \<lparr>pr_ApplicationID = i, pr_ProfileID = ''main'', pr_Platform = ''hh'',
     pr_ScheduledAt = at, pr_Interval = 60, pr_AcquiredAt = acquired\<rparr>"

lemmas pace_evaluation = AcquireApplicationPace_def PaceParams_Validate_def new_pace_def applicationPacingTail_def
  applicationPacingNextAllowed_def later_of_def other_in_lane_def sample_pace_def sample_slot_def Let_def

text \<open>
  What an answer means. A slot is granted only at an instant that has reached the
  application's own slot and lies at least the interval behind every remembered acquisition of
  the same profile and platform, its own included. A refusal returns a slot in the future. The
  returned reservation is the one on record, and no other reservation changes.
\<close>

theorem pace_answer:
  assumes "AcquireApplicationPace ctx params paces = (Inr (r, granted), paces')"
  shows "map_of paces' = (map_of paces)(pp_ApplicationID params \<mapsto> r)
    \<and> (\<not> granted \<longrightarrow> pp_Now params < pr_ScheduledAt r)
    \<and> (granted \<longrightarrow> pr_AcquiredAt r = Some (pp_Now params) \<and> pr_ScheduledAt r \<le> pp_Now params
      \<and> (\<forall>old a. map_of paces (pp_ApplicationID params) = Some old \<longrightarrow> pr_AcquiredAt old = Some a
           \<longrightarrow> a + pr_Interval old \<le> pp_Now params)
      \<and> (\<forall>(k, x) \<in> set paces. other_in_lane r k x \<longrightarrow>
           (\<forall>a. pr_AcquiredAt x = Some a \<longrightarrow> a + pr_Interval x \<le> pp_Now params)))"
proof (intro conjI; (intro impI)?)
  from assms show "map_of paces' = (map_of paces)(pp_ApplicationID params \<mapsto> r)"
    by (cases rule: Acquire_cases) auto
  from assms show "\<not> granted \<Longrightarrow> pp_Now params < pr_ScheduledAt r"
    by (cases rule: Acquire_cases) auto
  assume granted
  with assms have g: "r = (pace_of params paces)\<lparr>pr_AcquiredAt := Some (pp_Now params)\<rparr>"
    "applicationPacingNextAllowed (pace_of params paces) paces \<le> pp_Now params"
    "pr_ScheduledAt r \<le> pp_Now params"
    by (cases rule: Acquire_cases; simp)+
  have lane: "other_in_lane r = other_in_lane (pace_of params paces)"
    by (intro ext) (simp add: g(1) other_in_lane_def)
  show "pr_AcquiredAt r = Some (pp_Now params) \<and> pr_ScheduledAt r \<le> pp_Now params
      \<and> (\<forall>old a. map_of paces (pp_ApplicationID params) = Some old \<longrightarrow> pr_AcquiredAt old = Some a
           \<longrightarrow> a + pr_Interval old \<le> pp_Now params)
      \<and> (\<forall>(k, x) \<in> set paces. other_in_lane r k x \<longrightarrow>
           (\<forall>a. pr_AcquiredAt x = Some a \<longrightarrow> a + pr_Interval x \<le> pp_Now params))"
    unfolding lane using g(1,3) g(2) [unfolded nextAllowed_le_iff]
    by (auto simp: pace_of_def)
qed

lemma sample_pace_granted: "AcquireApplicationPace None (snd (sample_pace ''a'' 100)) []
    = (Inr (sample_slot ''a'' 100 (Some 100), True), [(''a'', sample_slot ''a'' 100 (Some 100))])"
  by (simp add: pace_evaluation)

lemma sample_pace_refused: "AcquireApplicationPace None (snd (sample_pace ''b'' 110)) [(''a'', sample_slot ''a'' 100 (Some 100))]
    = (Inr (sample_slot ''b'' 160 None, False), [(''a'', sample_slot ''a'' 100 (Some 100)), (''b'', sample_slot ''b'' 160 None)])"
  by (simp add: pace_evaluation)

theorem pace_answer_witness: "pp_Now (snd (sample_pace ''b'' 110)) < pr_ScheduledAt (sample_slot ''b'' 160 None)"
  using pace_answer [OF sample_pace_refused] by simp

text \<open>
  C40. Submissions keep their distance. In any run of calls from an empty store, at any
  instants and with any intervals, if no application asks again after it was allowed, then any
  two granted slots of one profile and platform are at least the earlier one's interval apart,
  in the order in which they were granted.
\<close>

theorem pacing_spaced:
  assumes "asks_once calls"
  shows "sorted_wrt (\<lambda>a b. pr_ProfileID a = pr_ProfileID b \<longrightarrow> pr_Platform a = pr_Platform b \<longrightarrow>
    (\<exists>x y. pr_AcquiredAt a = Some x \<and> pr_AcquiredAt b = Some y \<and> x + pr_Interval a \<le> y)) (snd (pace_run calls))"
  using pace_run_inv [OF assms] unfolding paces_inv_def spaced_def [abs_def] by blast

lemma sample_pace_run: "pace_run [sample_pace ''a'' 100] =
    ([(''a'', sample_slot ''a'' 100 (Some 100))], [sample_slot ''a'' 100 (Some 100)])"
  using sample_pace_granted by (simp add: pace_step_def sample_pace_def)

theorem pacing_spaced_witness:
  "sorted_wrt spaced (snd (pace_run [sample_pace ''a'' 100, sample_pace ''b'' 160]))"
proof -
  have "asks_once [sample_pace ''a'' 100, sample_pace ''b'' 160]"
    unfolding asks_once_def
  proof (intro allI impI)
    fix before call after
    assume eq: "[sample_pace ''a'' 100, sample_pace ''b'' 160] = before @ call # after"
    then consider "before = []" "call = sample_pace ''a'' 100" | "before = [sample_pace ''a'' 100]" "call = sample_pace ''b'' 160"
      by (auto simp: Cons_eq_append_conv)
    then show "pp_ApplicationID (snd call) \<notin> pr_ApplicationID ` set (snd (pace_run before))"
    proof cases
      case 2
      show ?thesis unfolding 2 sample_pace_run by (simp add: sample_pace_def sample_slot_def)
    qed simp
  qed
  from pacing_spaced [OF this] show ?thesis unfolding spaced_def [abs_def] .
qed

text \<open>
  Asking again breaks the distance. With an interval of 60, the application \<open>a\<close> waits
  for its slot, is granted it late, at 150, and asks again at 155 (as a retried submission
  does): it is refused, and its acquisition is forgotten. So \<open>b\<close>, of the same profile and
  platform, is granted a slot at 160, ten after the submission of \<open>a\<close>.
\<close>

theorem pacing_forgets_acquisition:
  "map (\<lambda>r. (pr_ApplicationID r, pr_AcquiredAt r)) (snd (pace_run [sample_pace ''z'' 40, sample_pace ''a'' 50,
     sample_pace ''b'' 60, sample_pace ''a'' 150, sample_pace ''a'' 155, sample_pace ''b'' 160]))
   = [(''z'', Some 40), (''a'', Some 150), (''b'', Some 160)]"
  by (simp add: pace_step_def pace_evaluation)

end
