(* ===== verification/Campaign.thy ===== *)
theory Campaign
  imports Application
begin

text \<open>
  \<open>core/search_run.go\<close>, \<open>core/application_campaign.go\<close>, and the parts of
  \<open>storage/memory/repository.go\<close> and \<open>storage/memory/application_campaign.go\<close> that store
  them: the durable cursors of searches and campaigns, guarded by a revision. A revision is a
  64-bit word that wraps around. A method that validates its receiver after it has changed it
  returns its error beside the changed record; an early return leaves the record as it was.
\<close>

type_synonym revision = "64 word"
type_synonym ApplicationCampaignID = string

definition FormatUint :: "revision \<Rightarrow> string" where
  "FormatUint r = FormatNat (unat r)"

section \<open>Search runs\<close>

record SearchRun =
  run_SearchID :: SearchID
  run_Adapter :: string
  run_Platform :: Platform
  run_SearchProfileID :: ProfileID
  run_TargetProfiles :: "ProfileID list"
  run_CorrelationID :: CorrelationID
  run_Query :: RawMessage
  run_Cursor :: string
  run_Done :: bool
  run_Generation :: revision
  run_Revision :: revision
  run_CreatedAt :: time
  run_UpdatedAt :: time

fun validate_targets :: "ProfileID set \<Rightarrow> ProfileID list \<Rightarrow> error option" where
  "validate_targets seen [] = None"
| "validate_targets seen (p # ps) =
     (if p = [] then Some (Err ''search run contains empty target profile'')
      else if p \<in> seen then Some (Err (''search run contains duplicate target profile '' @ quoted p))
      else validate_targets (insert p seen) ps)"

definition SearchRun_Validate :: "SearchRun \<Rightarrow> error option" where
  "SearchRun_Validate run =
     (if run_SearchID run = [] \<or> TrimSpace (run_Adapter run) = [] \<or> run_Platform run = []
         \<or> run_SearchProfileID run = [] \<or> run_CorrelationID run = []
      then Some (Err ''search run requires search id, adapter, platform, search profile and correlation id'')
      else if run_TargetProfiles run = [] then Some (Err ''search run requires target profiles'')
      else case validate_targets {} (run_TargetProfiles run) of Some e \<Rightarrow> Some e | None \<Rightarrow>
      if run_Query run = [] \<or> \<not> json_Valid (run_Query run)
      then Some (Err ''search run requires valid JSON query'')
      else if run_Done run \<and> run_Cursor run \<noteq> []
      then Some (Err ''completed search run must not retain a cursor'')
      else if run_Revision run = 0 \<or> IsZero (run_CreatedAt run) \<or> IsZero (run_UpdatedAt run)
              \<or> run_UpdatedAt run < run_CreatedAt run
      then Some (Err ''search run requires valid revision and timestamps'')
      else None)"

definition NewSearchRun ::
  "SearchID \<Rightarrow> string \<Rightarrow> Platform \<Rightarrow> ProfileID \<Rightarrow> ProfileID list \<Rightarrow> RawMessage \<Rightarrow> CorrelationID \<Rightarrow> time \<Rightarrow>
   error + SearchRun" where
  "NewSearchRun searchID adapter platform searchProfileID targetProfiles query correlationID now =
     (let run = \<lparr>run_SearchID = searchID, run_Adapter = adapter, run_Platform = platform,
            run_SearchProfileID = searchProfileID, run_TargetProfiles = targetProfiles,
            run_CorrelationID = correlationID, run_Query = query, run_Cursor = [], run_Done = False,
            run_Generation = 1, run_Revision = 1, run_CreatedAt = now, run_UpdatedAt = now\<rparr>
      in case SearchRun_Validate run of Some e \<Rightarrow> Inl e | None \<Rightarrow> Inr run)"

definition SearchRun_Advance :: "string \<Rightarrow> bool \<Rightarrow> time \<Rightarrow> SearchRun \<Rightarrow> error option \<times> SearchRun" where
  "SearchRun_Advance nextCursor finished now run =
     (if run_Done run then (Some (Err ''completed search run cannot advance''), run)
      else if finished \<and> nextCursor \<noteq> []
      then (Some (Err ''completed search page must not contain next cursor''), run)
      else if \<not> finished \<and> nextCursor = []
      then (Some (Err ''incomplete search page requires next cursor''), run)
      else if IsZero now \<or> now < run_UpdatedAt run
      then (Some (Err ''search run update time must not move backwards''), run)
      else let run' = run\<lparr>run_Cursor := nextCursor, run_Done := finished,
                 run_Revision := run_Revision run + 1, run_UpdatedAt := now\<rparr>
           in (SearchRun_Validate run', run'))"

text \<open>The key uses the first 8 bytes of the cursor's digest.\<close>

definition SearchPageIdempotencyKey :: "SearchID \<Rightarrow> revision \<Rightarrow> string \<Rightarrow> error + string" where
  "SearchPageIdempotencyKey searchID generation cursor =
     (if searchID = [] then Inl (Err ''search page idempotency key requires search id'')
      else Inr (''search-page:'' @ searchID @ '':'' @ FormatUint generation @ '':''
             @ hex_EncodeToString (take 8 (sha256_Sum256 cursor))))"

type_synonym SearchRuns = "(SearchID \<times> SearchRun) list"

definition same_search :: "SearchRun \<Rightarrow> SearchRun \<Rightarrow> bool" where
  "same_search stored candidate \<longleftrightarrow> run_Adapter stored = run_Adapter candidate
     \<and> run_Platform stored = run_Platform candidate
     \<and> run_SearchProfileID stored = run_SearchProfileID candidate
     \<and> run_TargetProfiles stored = run_TargetProfiles candidate \<and> run_Query stored = run_Query candidate"

definition CreateSearchRun :: "ctx \<Rightarrow> SearchRun \<Rightarrow> SearchRuns \<Rightarrow> (error + SearchRun \<times> bool) \<times> SearchRuns" where
  "CreateSearchRun ctx candidate runs =
     (case ctx of Some e \<Rightarrow> (Inl e, runs) | None \<Rightarrow>
      case SearchRun_Validate candidate of Some e \<Rightarrow> (Inl e, runs) | None \<Rightarrow>
      case map_of runs (run_SearchID candidate) of
        Some stored \<Rightarrow>
          if \<not> same_search stored candidate
          then let updated = candidate\<lparr>run_CreatedAt := run_CreatedAt stored,
                     run_Generation := run_Generation stored + 1, run_Revision := run_Revision stored + 1,
                     run_UpdatedAt := (if run_UpdatedAt candidate < run_UpdatedAt stored
                                       then run_UpdatedAt stored else run_UpdatedAt candidate)\<rparr>
               in (Inr (updated, True), AList.update (run_SearchID candidate) updated runs)
          else (Inr (stored, False), runs)
      | None \<Rightarrow> (Inr (candidate, True), AList.update (run_SearchID candidate) candidate runs))"

definition GetSearchRun :: "ctx \<Rightarrow> SearchID \<Rightarrow> SearchRuns \<Rightarrow> error + SearchRun" where
  "GetSearchRun ctx searchID runs =
     (case ctx of Some e \<Rightarrow> Inl e | None \<Rightarrow>
      if searchID = [] then Inl (Err ''search run requires search id'')
      else case map_of runs searchID of
        None \<Rightarrow> Inl (Err ''search run not found'') | Some run \<Rightarrow> Inr run)"

definition SaveSearchRun :: "ctx \<Rightarrow> SearchRun \<Rightarrow> revision \<Rightarrow> SearchRuns \<Rightarrow> error option \<times> SearchRuns" where
  "SaveSearchRun ctx candidate expectedRevision runs =
     (case ctx of Some e \<Rightarrow> (Some e, runs) | None \<Rightarrow>
      case SearchRun_Validate candidate of Some e \<Rightarrow> (Some e, runs) | None \<Rightarrow>
      if run_Revision candidate \<noteq> expectedRevision + 1
      then (Some (Err ''search run revision must advance by one''), runs)
      else case map_of runs (run_SearchID candidate) of
        None \<Rightarrow> (Some (ErrSentinel ErrRevisionConflict), runs)
      | Some stored \<Rightarrow>
          if run_Revision stored \<noteq> expectedRevision then (Some (ErrSentinel ErrRevisionConflict), runs)
          else (None, AList.update (run_SearchID candidate) candidate runs))"

section \<open>Campaigns\<close>

datatype ApplicationCampaignStatus =
    CampaignRunning | CampaignTargetReached | CampaignExhausted | CampaignPausedBudget
  | CampaignPausedRate | CampaignFailed | CampaignStatusOther string

fun campaign_status_text :: "ApplicationCampaignStatus \<Rightarrow> string" where
  "campaign_status_text CampaignRunning = ''running''"
| "campaign_status_text CampaignTargetReached = ''target_reached''"
| "campaign_status_text CampaignExhausted = ''exhausted''"
| "campaign_status_text CampaignPausedBudget = ''paused_budget''"
| "campaign_status_text CampaignPausedRate = ''paused_rate_limit''"
| "campaign_status_text CampaignFailed = ''failed''"
| "campaign_status_text (CampaignStatusOther s) = s"

record ApplicationCampaign =
  camp_ID :: ApplicationCampaignID
  camp_JobTag :: string
  camp_Profiles :: "ProfileID list"
  camp_Routes :: "SearchID list"
  camp_TargetSuccessful :: int
  camp_DiscoverOnly :: bool
  camp_MaxInFlight :: int
  camp_RouteIndex :: int
  camp_Cursor :: string
  camp_RouteDone :: bool
  camp_Status :: ApplicationCampaignStatus
  camp_StopReason :: string
  camp_CorrelationID :: CorrelationID
  camp_Revision :: revision
  camp_CreatedAt :: time
  camp_UpdatedAt :: time

record NewApplicationCampaignParams =
  ncp_ID :: ApplicationCampaignID
  ncp_JobTag :: string
  ncp_Profiles :: "ProfileID list"
  ncp_Routes :: "SearchID list"
  ncp_TargetSuccessful :: int
  ncp_DiscoverOnly :: bool
  ncp_MaxInFlight :: int
  ncp_CorrelationID :: CorrelationID

fun validate_ids :: "string \<Rightarrow> string set \<Rightarrow> string list \<Rightarrow> error option" where
  "validate_ids label seen [] = None"
| "validate_ids label seen (v # vs) =
     (if TrimSpace v = [] then Some (Err (''application campaign contains an empty '' @ label))
      else if v \<in> seen then Some (Err (''application campaign contains duplicate '' @ label @ '' '' @ quoted v))
      else validate_ids label (insert v seen) vs)"

definition validateCampaignIDs :: "string list \<Rightarrow> string \<Rightarrow> error option" where
  "validateCampaignIDs values label =
     (if values = [] then Some (Err (''application campaign requires at least one '' @ label))
      else validate_ids label {} values)"

definition stopped_status :: "ApplicationCampaignStatus \<Rightarrow> bool" where
  "stopped_status s \<longleftrightarrow> s \<in> {CampaignTargetReached, CampaignExhausted, CampaignPausedBudget,
     CampaignPausedRate, CampaignFailed}"

definition Campaign_Validate :: "ApplicationCampaign \<Rightarrow> error option" where
  "Campaign_Validate campaign =
     (if camp_ID campaign = [] \<or> camp_JobTag campaign = [] \<or> camp_CorrelationID campaign = []
      then Some (Err ''application campaign requires id, job tag and correlation id'')
      else case validateCampaignIDs (camp_Profiles campaign) ''profile'' of Some e \<Rightarrow> Some e | None \<Rightarrow>
      case validateCampaignIDs (camp_Routes campaign) ''route'' of Some e \<Rightarrow> Some e | None \<Rightarrow>
      if camp_TargetSuccessful campaign < 1 \<or> camp_MaxInFlight campaign < 1
      then Some (Err ''application campaign target and max in flight must be positive'')
      else if camp_RouteIndex campaign < 0 \<or> camp_RouteIndex campaign \<ge> int (length (camp_Routes campaign))
      then Some (Err ''application campaign route index is out of bounds'')
      else if camp_RouteDone campaign \<and> camp_Cursor campaign \<noteq> []
      then Some (Err ''completed campaign route must not retain a cursor'')
      else if camp_Status campaign = CampaignRunning \<and> camp_StopReason campaign \<noteq> []
      then Some (Err ''running application campaign must not have a stop reason'')
      else if stopped_status (camp_Status campaign) \<and> TrimSpace (camp_StopReason campaign) = []
      then Some (Err ''stopped application campaign requires a reason'')
      else if camp_Status campaign \<noteq> CampaignRunning \<and> \<not> stopped_status (camp_Status campaign)
      then Some (Err (''unknown application campaign status '' @ quoted (campaign_status_text (camp_Status campaign))))
      else if camp_Revision campaign = 0 \<or> IsZero (camp_CreatedAt campaign) \<or> IsZero (camp_UpdatedAt campaign)
              \<or> camp_UpdatedAt campaign < camp_CreatedAt campaign
      then Some (Err ''application campaign requires valid revision and timestamps'')
      else None)"

definition NewApplicationCampaign :: "NewApplicationCampaignParams \<Rightarrow> time \<Rightarrow> error + ApplicationCampaign" where
  "NewApplicationCampaign params now =
     (let campaign = \<lparr>camp_ID = ncp_ID params, camp_JobTag = TrimSpace (ncp_JobTag params),
            camp_Profiles = ncp_Profiles params, camp_Routes = ncp_Routes params,
            camp_TargetSuccessful = ncp_TargetSuccessful params, camp_DiscoverOnly = ncp_DiscoverOnly params,
            camp_MaxInFlight = ncp_MaxInFlight params, camp_RouteIndex = 0, camp_Cursor = [],
            camp_RouteDone = False, camp_Status = CampaignRunning, camp_StopReason = [],
            camp_CorrelationID = ncp_CorrelationID params, camp_Revision = 1, camp_CreatedAt = now,
            camp_UpdatedAt = now\<rparr>
      in case Campaign_Validate campaign of Some e \<Rightarrow> Inl e | None \<Rightarrow> Inr campaign)"

definition campaign_advanceRevision :: "time \<Rightarrow> ApplicationCampaign \<Rightarrow> error + ApplicationCampaign" where
  "campaign_advanceRevision now campaign =
     (if IsZero now \<or> now < camp_UpdatedAt campaign
      then Inl (Err ''application campaign update time must not move backwards'')
      else Inr (campaign\<lparr>camp_Revision := camp_Revision campaign + 1, camp_UpdatedAt := now\<rparr>))"

text \<open>The common end of the methods: advance the revision, change the record, validate it.\<close>

definition campaign_update ::
  "time \<Rightarrow> (ApplicationCampaign \<Rightarrow> ApplicationCampaign) \<Rightarrow> ApplicationCampaign \<Rightarrow> error option \<times> ApplicationCampaign" where
  "campaign_update now f campaign =
     (case campaign_advanceRevision now campaign of
        Inl e \<Rightarrow> (Some e, campaign)
      | Inr advanced \<Rightarrow> (Campaign_Validate (f advanced), f advanced))"

definition AdvancePage ::
  "string \<Rightarrow> bool \<Rightarrow> time \<Rightarrow> ApplicationCampaign \<Rightarrow> error option \<times> ApplicationCampaign" where
  "AdvancePage nextCursor finished now campaign =
     (if camp_Status campaign \<noteq> CampaignRunning \<or> camp_RouteDone campaign
      then (Some (Err ''application campaign route cannot advance''), campaign)
      else if finished \<and> nextCursor \<noteq> []
      then (Some (Err ''completed campaign page must not contain a cursor''), campaign)
      else if \<not> finished \<and> TrimSpace nextCursor = []
      then (Some (Err ''incomplete campaign page requires a cursor''), campaign)
      else campaign_update now (\<lambda>c. c\<lparr>camp_Cursor := nextCursor, camp_RouteDone := finished\<rparr>) campaign)"

definition AdvanceRoute :: "time \<Rightarrow> ApplicationCampaign \<Rightarrow> error option \<times> ApplicationCampaign" where
  "AdvanceRoute now campaign =
     (if camp_Status campaign \<noteq> CampaignRunning \<or> \<not> camp_RouteDone campaign
         \<or> camp_RouteIndex campaign + 1 \<ge> int (length (camp_Routes campaign))
      then (Some (Err ''application campaign has no completed route to advance''), campaign)
      else campaign_update now (\<lambda>c. c\<lparr>camp_RouteIndex := camp_RouteIndex c + 1, camp_Cursor := [],
             camp_RouteDone := False\<rparr>) campaign)"

definition WaitForApplications :: "time \<Rightarrow> ApplicationCampaign \<Rightarrow> error option \<times> ApplicationCampaign" where
  "WaitForApplications now campaign =
     (if camp_Status campaign \<noteq> CampaignRunning
      then (Some (Err ''only a running application campaign can wait''), campaign)
      else campaign_update now (\<lambda>c. c) campaign)"

definition Campaign_Stop ::
  "ApplicationCampaignStatus \<Rightarrow> string \<Rightarrow> time \<Rightarrow> ApplicationCampaign \<Rightarrow> error option \<times> ApplicationCampaign" where
  "Campaign_Stop status reason now campaign =
     (if camp_Status campaign \<noteq> CampaignRunning
      then (Some (Err ''only a running application campaign can stop''), campaign)
      else if \<not> stopped_status status
      then (Some (Err ''application campaign requires a terminal or paused status''), campaign)
      else let reason' = TrimSpace reason
           in if reason' = [] then (Some (Err ''application campaign stop requires a reason''), campaign)
              else campaign_update now (\<lambda>c. c\<lparr>camp_Status := status, camp_StopReason := reason'\<rparr>) campaign)"

definition Campaign_Resume :: "time \<Rightarrow> ApplicationCampaign \<Rightarrow> error option \<times> ApplicationCampaign" where
  "Campaign_Resume now campaign =
     (if camp_Status campaign \<noteq> CampaignPausedBudget \<and> camp_Status campaign \<noteq> CampaignPausedRate
      then (Some (Err ''only a paused application campaign can resume''), campaign)
      else campaign_update now (\<lambda>c. c\<lparr>camp_Status := CampaignRunning, camp_StopReason := []\<rparr>) campaign)"

record CampaignApplication =
  ca_CampaignID :: ApplicationCampaignID
  ca_RouteIndex :: int
  ca_ApplicationID :: ApplicationID
  ca_DiscoveredAt :: time

definition CampaignApplication_Validate :: "CampaignApplication \<Rightarrow> error option" where
  "CampaignApplication_Validate item =
     (if ca_CampaignID item = [] \<or> ca_ApplicationID item = [] \<or> ca_RouteIndex item < 0
         \<or> IsZero (ca_DiscoveredAt item)
      then Some (Err ''campaign application requires campaign, route, application and discovery time'')
      else None)"

definition CampaignTickIdempotencyKey :: "ApplicationCampaignID \<Rightarrow> revision \<Rightarrow> error + string" where
  "CampaignTickIdempotencyKey campaignID n =
     (if campaignID = [] \<or> n = 0
      then Inl (Err ''campaign tick idempotency requires campaign and revision'')
      else Inr (''application.campaign:'' @ hex_EncodeToString
             (sha256_Sum256 (campaignID @ [CHR 0x00] @ FormatUint n))))"

section \<open>The campaign store\<close>

type_synonym Campaigns = "(ApplicationCampaignID \<times> ApplicationCampaign) list"
type_synonym CampaignLinks = "((ApplicationCampaignID \<times> ApplicationID) \<times> CampaignApplication) list"

definition sameCampaignDefinition :: "ApplicationCampaign \<Rightarrow> ApplicationCampaign \<Rightarrow> bool" where
  "sameCampaignDefinition left right \<longleftrightarrow> camp_ID left = camp_ID right \<and> camp_JobTag left = camp_JobTag right
     \<and> camp_Profiles left = camp_Profiles right \<and> camp_Routes left = camp_Routes right
     \<and> camp_TargetSuccessful left = camp_TargetSuccessful right
     \<and> camp_MaxInFlight left = camp_MaxInFlight right \<and> camp_CorrelationID left = camp_CorrelationID right"

definition CreateApplicationCampaign ::
  "ctx \<Rightarrow> ApplicationCampaign \<Rightarrow> Campaigns \<Rightarrow> (error + ApplicationCampaign \<times> bool) \<times> Campaigns" where
  "CreateApplicationCampaign ctx candidate campaigns =
     (case ctx of Some e \<Rightarrow> (Inl e, campaigns) | None \<Rightarrow>
      case Campaign_Validate candidate of Some e \<Rightarrow> (Inl e, campaigns) | None \<Rightarrow>
      case map_of campaigns (camp_ID candidate) of
        Some stored \<Rightarrow>
          if \<not> sameCampaignDefinition stored candidate
          then (Inl (Err ''application campaign conflicts with changed definition''), campaigns)
          else (Inr (stored, False), campaigns)
      | None \<Rightarrow> (Inr (candidate, True), AList.update (camp_ID candidate) candidate campaigns))"

definition GetApplicationCampaign :: "ctx \<Rightarrow> ApplicationCampaignID \<Rightarrow> Campaigns \<Rightarrow> error + ApplicationCampaign" where
  "GetApplicationCampaign ctx campaignID campaigns =
     (case ctx of Some e \<Rightarrow> Inl e | None \<Rightarrow>
      if campaignID = [] then Inl (Err ''application campaign requires id'')
      else case map_of campaigns campaignID of
        None \<Rightarrow> Inl (Err ''application campaign not found'') | Some c \<Rightarrow> Inr c)"

definition campaign_later :: "ApplicationCampaign \<Rightarrow> ApplicationCampaign \<Rightarrow> bool" where
  "campaign_later a b = (if camp_UpdatedAt a \<noteq> camp_UpdatedAt b then camp_UpdatedAt a > camp_UpdatedAt b
     else camp_ID a > camp_ID b)"

definition ListApplicationCampaigns :: "ctx \<Rightarrow> int \<Rightarrow> Campaigns \<Rightarrow> error + ApplicationCampaign list" where
  "ListApplicationCampaigns ctx limit campaigns =
     (case ctx of Some e \<Rightarrow> Inl e | None \<Rightarrow>
      if limit < 1 \<or> limit > 100
      then Inl (Err ''application campaign list limit must be between 1 and 100'')
      else Inr (take (nat limit) (sort_Slice campaign_later (map snd campaigns))))"

definition SaveApplicationCampaign ::
  "ctx \<Rightarrow> ApplicationCampaign \<Rightarrow> revision \<Rightarrow> Campaigns \<Rightarrow> error option \<times> Campaigns" where
  "SaveApplicationCampaign ctx candidate expectedRevision campaigns =
     (case ctx of Some e \<Rightarrow> (Some e, campaigns) | None \<Rightarrow>
      case Campaign_Validate candidate of Some e \<Rightarrow> (Some e, campaigns) | None \<Rightarrow>
      if camp_Revision candidate \<noteq> expectedRevision + 1
      then (Some (Err ''application campaign revision must advance by one''), campaigns)
      else case map_of campaigns (camp_ID candidate) of
        None \<Rightarrow> (Some (ErrSentinel ErrRevisionConflict), campaigns)
      | Some stored \<Rightarrow>
          if camp_Revision stored \<noteq> expectedRevision then (Some (ErrSentinel ErrRevisionConflict), campaigns)
          else if \<not> sameCampaignDefinition stored candidate
          then (Some (Err ''application campaign immutable definition changed''), campaigns)
          else (None, AList.update (camp_ID candidate) candidate campaigns))"

text \<open>Linking needs the repository's applications only to see whether the target exists.\<close>

definition LinkCampaignApplication ::
  "ctx \<Rightarrow> CampaignApplication \<Rightarrow> Campaigns \<Rightarrow> ApplicationID set \<Rightarrow> CampaignLinks \<Rightarrow> (error + bool) \<times> CampaignLinks" where
  "LinkCampaignApplication ctx item campaigns applicationIDs links =
     (case ctx of Some e \<Rightarrow> (Inl e, links) | None \<Rightarrow>
      case CampaignApplication_Validate item of Some e \<Rightarrow> (Inl e, links) | None \<Rightarrow>
      case map_of campaigns (ca_CampaignID item) of
        None \<Rightarrow> (Inl (Err ''application campaign not found''), links)
      | Some campaign \<Rightarrow>
          if ca_RouteIndex item \<ge> int (length (camp_Routes campaign))
          then (Inl (Err ''campaign application route is out of bounds''), links)
          else if ca_ApplicationID item \<notin> applicationIDs
          then (Inl (Err ''campaign application target not found''), links)
          else if map_of links (ca_CampaignID item, ca_ApplicationID item) \<noteq> None then (Inr False, links)
          else (Inr True, AList.update (ca_CampaignID item, ca_ApplicationID item) item links))"

definition link_before :: "CampaignApplication \<Rightarrow> CampaignApplication \<Rightarrow> bool" where
  "link_before a b = (if ca_RouteIndex a \<noteq> ca_RouteIndex b then ca_RouteIndex a < ca_RouteIndex b
     else if ca_DiscoveredAt a \<noteq> ca_DiscoveredAt b then ca_DiscoveredAt a < ca_DiscoveredAt b
     else ca_ApplicationID a < ca_ApplicationID b)"

definition ListCampaignApplications ::
  "ctx \<Rightarrow> ApplicationCampaignID \<Rightarrow> Campaigns \<Rightarrow> CampaignLinks \<Rightarrow> error + CampaignApplication list" where
  "ListCampaignApplications ctx campaignID campaigns links =
     (case ctx of Some e \<Rightarrow> Inl e | None \<Rightarrow>
      if campaignID = [] then Inl (Err ''application campaign requires id'')
      else if map_of campaigns campaignID = None then Inl (Err ''application campaign not found'')
      else Inr (sort_Slice link_before (map snd (filter (\<lambda>kv. fst (fst kv) = campaignID) links))))"

end
