(* ===== verification/Campaign_Props.thy ===== *)
theory Campaign_Props
  imports Campaign Texts
begin

text \<open>
  Search runs and campaigns: every operation either does its whole work or leaves the record
  as it was, a campaign moves through its routes in order, a save cannot lose another writer's
  save, and a changed search starts a new generation.
\<close>

section \<open>The stores\<close>

text \<open>A revision that wraps around to 0 is refused, so a saved revision is the greater one.\<close>

lemma revision_grows: "(r :: revision) + 1 \<noteq> 0 \<Longrightarrow> r < r + 1"
  using measure_unat [of "r + 1"] by (simp add: word_less_nat_alt)

interpretation campaigns: revisioned_store map_of camp_ID camp_Revision "SaveApplicationCampaign None"
proof (unfold_locales, goal_cases)
  case (1 c n w w')
  then show ?case
    by (auto simp: SaveApplicationCampaign_def split: option.splits if_splits)
next
  case (2 c n w e w')
  then show ?case by (auto simp: SaveApplicationCampaign_def split: option.splits if_splits)
next
  case (3 c n w w')
  then show ?case
    by (auto simp: SaveApplicationCampaign_def Campaign_Validate_def intro!: revision_grows
      split: option.splits if_splits)
qed

interpretation searches: revisioned_store map_of run_SearchID run_Revision "SaveSearchRun None"
proof (unfold_locales, goal_cases)
  case (1 c n w w')
  then show ?case by (auto simp: SaveSearchRun_def split: option.splits if_splits)
next
  case (2 c n w e w')
  then show ?case by (auto simp: SaveSearchRun_def split: option.splits if_splits)
next
  case (3 c n w w')
  then show ?case
    by (auto simp: SaveSearchRun_def SearchRun_Validate_def intro!: revision_grows
      split: option.splits if_splits)
qed

section \<open>Operations on a campaign\<close>

datatype campaign_op =
    CampPage string bool time
  | CampRoute time
  | CampWait time
  | CampStop ApplicationCampaignStatus string time
  | CampResume time

fun apply_campaign_op :: "campaign_op \<Rightarrow> ApplicationCampaign \<Rightarrow> error option \<times> ApplicationCampaign" where
  "apply_campaign_op (CampPage nextCursor finished now) = AdvancePage nextCursor finished now"
| "apply_campaign_op (CampRoute now) = AdvanceRoute now"
| "apply_campaign_op (CampWait now) = WaitForApplications now"
| "apply_campaign_op (CampStop status reason now) = Campaign_Stop status reason now"
| "apply_campaign_op (CampResume now) = Campaign_Resume now"

text \<open>How far a campaign has come: its route, and whether that route is done.\<close>

definition camp_position :: "ApplicationCampaign \<Rightarrow> int" where
  "camp_position c = 2 * camp_RouteIndex c + (if camp_RouteDone c then 1 else 0)"

definition campaign_step :: "ApplicationCampaign \<Rightarrow> ApplicationCampaign \<Rightarrow> bool" where
  "campaign_step c c' \<longleftrightarrow> sameCampaignDefinition c c' \<and> camp_DiscoverOnly c' = camp_DiscoverOnly c
     \<and> camp_CreatedAt c' = camp_CreatedAt c \<and> camp_UpdatedAt c \<le> camp_UpdatedAt c'
     \<and> camp_position c \<le> camp_position c'"

lemma sameCampaignDefinition_refl [simp]: "sameCampaignDefinition c c"
  by (simp add: sameCampaignDefinition_def)

lemma campaign_step_refl [simp]: "campaign_step c c"
  by (simp add: campaign_step_def)

lemma campaign_step_trans: "campaign_step a b \<Longrightarrow> campaign_step b c \<Longrightarrow> campaign_step a c"
  by (auto simp: campaign_step_def sameCampaignDefinition_def)

text \<open>The update shared by the operations: on a valid result it is the only outcome.\<close>

lemma campaign_update_cases:
  assumes "campaign_update now f c = (r, c')"
    and "\<And>d. \<lbrakk>d = c\<lparr>camp_Revision := camp_Revision c + 1, camp_UpdatedAt := now\<rparr>; camp_UpdatedAt c \<le> now; now \<noteq> 0\<rbrakk>
      \<Longrightarrow> Campaign_Validate (f d) = None \<and> camp_Revision (f d) = camp_Revision c + 1 \<and> campaign_step c (f d)"
  shows "(\<exists>e. r = Some e \<and> c' = c) \<or> (r = None \<and> Campaign_Validate c' = None
    \<and> camp_Revision c' = camp_Revision c + 1 \<and> campaign_step c c')"
  using assms by (auto simp: campaign_update_def campaign_advanceRevision_def IsZero_def split: if_splits)

lemma next_revision_nonzero: "(r :: revision) \<noteq> -1 \<Longrightarrow> r + 1 \<noteq> 0"
  by (metis add.commute add_eq_0_iff)

lemma Campaign_Validate_None:
  "Campaign_Validate c = None \<longleftrightarrow> camp_ID c \<noteq> [] \<and> camp_JobTag c \<noteq> [] \<and> camp_CorrelationID c \<noteq> []
     \<and> validateCampaignIDs (camp_Profiles c) ''profile'' = None \<and> validateCampaignIDs (camp_Routes c) ''route'' = None
     \<and> 1 \<le> camp_TargetSuccessful c \<and> 1 \<le> camp_MaxInFlight c
     \<and> 0 \<le> camp_RouteIndex c \<and> camp_RouteIndex c < int (length (camp_Routes c))
     \<and> (camp_RouteDone c \<longrightarrow> camp_Cursor c = [])
     \<and> (camp_Status c = CampaignRunning \<and> camp_StopReason c = []
        \<or> stopped_status (camp_Status c) \<and> TrimSpace (camp_StopReason c) \<noteq> [])
     \<and> camp_Revision c \<noteq> 0 \<and> camp_CreatedAt c \<noteq> 0 \<and> camp_UpdatedAt c \<noteq> 0 \<and> camp_CreatedAt c \<le> camp_UpdatedAt c"
proof -
  have "\<not> stopped_status CampaignRunning" by (simp add: stopped_status_def)
  then show ?thesis
    unfolding Campaign_Validate_def guards_None IsZero_def by auto
qed

lemma campaign_op_atomic:
  assumes "Campaign_Validate c = None" and "camp_Revision c \<noteq> -1" and "apply_campaign_op x c = (r, c')"
  shows "(\<exists>e. r = Some e \<and> c' = c) \<or> (r = None \<and> Campaign_Validate c' = None
    \<and> camp_Revision c' = camp_Revision c + 1 \<and> campaign_step c c')"
proof -
  note V = assms(1) [unfolded Campaign_Validate_None]
  note simps = Campaign_Validate_None campaign_step_def sameCampaignDefinition_def camp_position_def
  have update: ?thesis if "campaign_update now f c = (r, c')"
    "\<And>d. \<lbrakk>d = c\<lparr>camp_Revision := camp_Revision c + 1, camp_UpdatedAt := now\<rparr>; camp_UpdatedAt c \<le> now; now \<noteq> 0\<rbrakk>
      \<Longrightarrow> Campaign_Validate (f d) = None \<and> camp_Revision (f d) = camp_Revision c + 1 \<and> campaign_step c (f d)" for now f
    by (rule campaign_update_cases [OF that])
  note rev1 = next_revision_nonzero [OF assms(2)]
  show ?thesis
  proof (cases x)
    case (CampPage nextCursor finished now)
    then consider "\<exists>e. r = Some e \<and> c' = c"
      | "campaign_update now (\<lambda>c. c\<lparr>camp_Cursor := nextCursor, camp_RouteDone := finished\<rparr>) c = (r, c')"
        "\<not> camp_RouteDone c" "finished \<longrightarrow> nextCursor = []"
      using assms(3) by (auto simp: AdvancePage_def split: if_splits)
    then show ?thesis
    proof cases
      case 2
      from 2(1) show ?thesis by (rule update) (use V rev1 2(2,3) in \<open>auto simp: simps\<close>)
    qed blast
  next
    case (CampRoute now)
    then consider "\<exists>e. r = Some e \<and> c' = c"
      | "campaign_update now (\<lambda>c. c\<lparr>camp_RouteIndex := camp_RouteIndex c + 1, camp_Cursor := [],
          camp_RouteDone := False\<rparr>) c = (r, c')" "camp_RouteDone c"
        "camp_RouteIndex c + 1 < int (length (camp_Routes c))"
      using assms(3) by (auto simp: AdvanceRoute_def split: if_splits)
    then show ?thesis
    proof cases
      case 2
      from 2(1) show ?thesis by (rule update) (use V rev1 2(2,3) in \<open>auto simp: simps\<close>)
    qed blast
  next
    case (CampWait now)
    then consider "\<exists>e. r = Some e \<and> c' = c" | "campaign_update now (\<lambda>c. c) c = (r, c')"
      using assms(3) by (auto simp: WaitForApplications_def split: if_splits)
    then show ?thesis
    proof cases
      case 2
      then show ?thesis by (rule update) (use V rev1 in \<open>auto simp: simps\<close>)
    qed blast
  next
    case (CampStop status reason now)
    then consider "\<exists>e. r = Some e \<and> c' = c"
      | "campaign_update now (\<lambda>c. c\<lparr>camp_Status := status, camp_StopReason := TrimSpace reason\<rparr>) c = (r, c')"
        "stopped_status status" "TrimSpace reason \<noteq> []"
      using assms(3) by (auto simp: Campaign_Stop_def Let_def split: if_splits)
    then show ?thesis
    proof cases
      case 2
      from 2(1) show ?thesis by (rule update) (use V rev1 2(2,3) in \<open>auto simp: simps\<close>)
    qed blast
  next
    case (CampResume now)
    then consider "\<exists>e. r = Some e \<and> c' = c"
      | "campaign_update now (\<lambda>c. c\<lparr>camp_Status := CampaignRunning, camp_StopReason := []\<rparr>) c = (r, c')"
      using assms(3) by (auto simp: Campaign_Resume_def split: if_splits)
    then show ?thesis
    proof cases
      case 2
      then show ?thesis by (rule update) (use V rev1 in \<open>auto simp: simps\<close>)
    qed blast
  qed
qed

text \<open>A run of operations, with the number of those that succeeded.\<close>

fun campaign_run :: "campaign_op list \<Rightarrow> ApplicationCampaign \<Rightarrow> nat \<times> ApplicationCampaign" where
  "campaign_run [] c = (0, c)"
| "campaign_run (x # xs) c =
     (case apply_campaign_op x c of
        (Some e, c') \<Rightarrow> campaign_run xs c'
      | (None, c') \<Rightarrow> (case campaign_run xs c' of (n, d) \<Rightarrow> (Suc n, d)))"

lemma campaign_run_sound:
  assumes "Campaign_Validate c = None" and "unat (camp_Revision c) + length xs < 2 ^ 64"
    and "campaign_run xs c = (n, d)"
  shows "Campaign_Validate d = None \<and> campaign_step c d \<and> unat (camp_Revision d) = unat (camp_Revision c) + n
    \<and> n \<le> length xs"
  using assms
proof (induction xs arbitrary: c n)
  case (Cons x xs)
  obtain r c' where x: "apply_campaign_op x c = (r, c')" by (cases "apply_campaign_op x c")
  have small: "unat (camp_Revision c) + 1 < 2 ^ 64" using Cons.prems(2) by simp
  then have "camp_Revision c \<noteq> -1" by (auto simp: unsigned_minus_1_eq_mask mask_eq_exp_minus_1)
  from campaign_op_atomic [OF Cons.prems(1) this x] show ?case
  proof (elim disjE exE conjE)
    fix e assume "r = Some e" "c' = c"
    with Cons.IH [OF Cons.prems(1)] Cons.prems(2,3) x show ?thesis by force
  next
    assume ok: "r = None" "Campaign_Validate c' = None" "camp_Revision c' = camp_Revision c + 1" "campaign_step c c'"
    obtain m where m: "campaign_run xs c' = (m, d)" "n = Suc m"
      using Cons.prems(3) x ok(1) by (auto split: prod.splits)
    have rev': "unat (camp_Revision c') = unat (camp_Revision c) + 1"
      unfolding ok(3) using small by (simp add: unat_word_ariths)
    then have "unat (camp_Revision c') + length xs < 2 ^ 64" using Cons.prems(2) by simp
    from Cons.IH [OF ok(2) this m(1)] rev' m(2) campaign_step_trans [OF ok(4)] show ?thesis by auto
  qed
qed simp

lemma NewApplicationCampaign_valid:
  assumes "NewApplicationCampaign params now = Inr c"
  shows "Campaign_Validate c = None \<and> camp_Revision c = 1 \<and> camp_position c = 0"
  using assms by (auto simp: NewApplicationCampaign_def Let_def camp_position_def split: option.splits)

section \<open>Properties\<close>

text \<open>
  C13. A campaign, whatever operations are tried on it in whatever order: it stays valid (its
  route index within its routes, its stop reason present exactly when it is stopped), its
  definition never changes, it moves through its routes only forwards, its stamp never goes
  back, and its revision counts the operations that succeeded.
\<close>

theorem campaign_life:
  assumes "NewApplicationCampaign params now = Inr c" and "length xs < 2 ^ 64 - 1"
    and "campaign_run xs c = (n, d)"
  shows "Campaign_Validate d = None \<and> sameCampaignDefinition c d \<and> camp_DiscoverOnly d = camp_DiscoverOnly c
    \<and> camp_position c \<le> camp_position d \<and> camp_RouteIndex d < int (length (camp_Routes c))
    \<and> camp_UpdatedAt c \<le> camp_UpdatedAt d \<and> camp_CreatedAt d = now
    \<and> (camp_Status d = CampaignRunning \<longleftrightarrow> camp_StopReason d = [])
    \<and> unat (camp_Revision d) = 1 + n \<and> n \<le> length xs"
proof -
  note new = NewApplicationCampaign_valid [OF assms(1)]
  have "unat (camp_Revision c) + length xs < 2 ^ 64" using new assms(2) by simp
  note run = campaign_run_sound [OF new [THEN conjunct1] this assms(3)]
  have "camp_CreatedAt c = now"
    using assms(1) by (auto simp: NewApplicationCampaign_def Let_def split: option.splits)
  moreover have "camp_Status d = CampaignRunning \<longleftrightarrow> camp_StopReason d = []"
    using run by (auto simp: Campaign_Validate_None stopped_status_def TrimSpace_id space_heads_def space_lasts_def)
  ultimately show ?thesis
    using run new by (auto simp: campaign_step_def sameCampaignDefinition_def Campaign_Validate_None)
qed

definition sample_campaign :: NewApplicationCampaignParams where
  "sample_campaign = \<lparr>ncp_ID = ''c1'', ncp_JobTag = ''go'', ncp_Profiles = [''p1''], ncp_Routes = [''s1'', ''s2''],
     ncp_TargetSuccessful = 5, ncp_DiscoverOnly = False, ncp_MaxInFlight = 2, ncp_CorrelationID = ''k1''\<rparr>"

text \<open>The first route is read in two pages, the campaign moves on, pauses, fails to move and resumes.\<close>

definition sample_campaign_ops :: "campaign_op list" where
  "sample_campaign_ops = [CampPage ''next'' False 2, CampPage [] True 3, CampRoute 4,
     CampStop CampaignPausedRate ''limit'' 5, CampRoute 6, CampResume 7]"

definition sample_running :: ApplicationCampaign where
  "sample_running = \<lparr>camp_ID = ''c1'', camp_JobTag = ''go'', camp_Profiles = [''p1''],
     camp_Routes = [''s1'', ''s2''], camp_TargetSuccessful = 5, camp_DiscoverOnly = False,
     camp_MaxInFlight = 2, camp_RouteIndex = 0, camp_Cursor = [], camp_RouteDone = False,
     camp_Status = CampaignRunning, camp_StopReason = [], camp_CorrelationID = ''k1'', camp_Revision = 1,
     camp_CreatedAt = 1, camp_UpdatedAt = 1\<rparr>"

lemmas campaign_eval = Campaign_Validate_def validateCampaignIDs_def stopped_status_def IsZero_def
  TrimSpace_id space_heads_def space_lasts_def Let_def

lemma sample_campaign_start: "NewApplicationCampaign sample_campaign 1 = Inr sample_running"
  by (simp add: NewApplicationCampaign_def sample_campaign_def sample_running_def campaign_eval)

lemma sample_campaign_run:
  "campaign_run sample_campaign_ops sample_running =
     (5, sample_running\<lparr>camp_RouteIndex := 1, camp_Revision := 6, camp_UpdatedAt := 7\<rparr>)"
  by (simp add: sample_campaign_ops_def sample_running_def AdvancePage_def AdvanceRoute_def Campaign_Stop_def
      Campaign_Resume_def campaign_update_def campaign_advanceRevision_def campaign_eval)

theorem campaign_life_witness:
  "unat (camp_Revision (sample_running\<lparr>camp_RouteIndex := 1, camp_Revision := 6, camp_UpdatedAt := 7\<rparr>)) = 1 + 5"
  using campaign_life [OF sample_campaign_start _ sample_campaign_run]
  by (simp add: sample_campaign_ops_def)

text \<open>The key of a search page names its search and its generation.\<close>

lemma FormatUint_inject: "FormatUint a = FormatUint b \<Longrightarrow> a = b"
  by (metis FormatNat_value FormatUint_def word_unat_eq_iff)

lemma page_key_injective:
  assumes "SearchPageIdempotencyKey i g c = Inr k" and "SearchPageIdempotencyKey i' g' c' = Inr k"
  shows "i = i' \<and> g = g'"
proof -
  let ?digest = "\<lambda>c. hex_EncodeToString (take 8 (sha256_Sum256 c))"
  have colon: "CHR '':'' \<notin> set (FormatUint g)" for g
    using FormatNat_chars [of "CHR '':''" "unat g"] by (auto simp: FormatUint_def)
  have "i @ CHR '':'' # FormatUint g @ CHR '':'' # ?digest c = i' @ CHR '':'' # FormatUint g' @ CHR '':'' # ?digest c'"
    using assms by (auto simp: SearchPageIdempotencyKey_def split: if_splits)
  then have "(i @ CHR '':'' # FormatUint g) @ CHR '':'' # ?digest c = (i' @ CHR '':'' # FormatUint g') @ CHR '':'' # ?digest c'"
    by simp
  then have "i @ CHR '':'' # FormatUint g = i' @ CHR '':'' # FormatUint g'"
    by (subst (asm) append_eq_append_conv) simp_all
  then show ?thesis
    using split_at_last [OF _ colon colon] FormatUint_inject by blast
qed

text \<open>
  A search whose definition changed starts again: creating its run over a stored one gives
  a run that has read nothing, with the new definition, the next generation and revision, the
  old creation time and a stamp that does not go back; no other run is touched, and no page of
  the new generation shares its key with a page of the old one, so none is taken for done.
\<close>

theorem search_restart:
  assumes "NewSearchRun i adapter platform profile targets query correlation now = Inr candidate"
    and "map_of runs i = Some stored" and "\<not> same_search stored candidate"
    and "CreateSearchRun None candidate runs = (Inr (run, created), runs')"
  shows "created \<and> map_of runs' = (map_of runs)(i \<mapsto> run)
    \<and> run_Cursor run = [] \<and> \<not> run_Done run \<and> same_search candidate run
    \<and> run_Generation run = run_Generation stored + 1 \<and> run_Revision run = run_Revision stored + 1
    \<and> run_CreatedAt run = run_CreatedAt stored \<and> run_UpdatedAt run = max now (run_UpdatedAt stored)
    \<and> (\<forall>c c' k. SearchPageIdempotencyKey i (run_Generation stored) c = Inr k \<longrightarrow>
         SearchPageIdempotencyKey i (run_Generation run) c' \<noteq> Inr k)"
proof -
  have new: "run_SearchID candidate = i" "run_Cursor candidate = []" "\<not> run_Done candidate"
    "run_UpdatedAt candidate = now" "SearchRun_Validate candidate = None"
    using assms(1) by (auto simp: NewSearchRun_def Let_def split: option.splits)
  have run: "run = candidate\<lparr>run_CreatedAt := run_CreatedAt stored,
      run_Generation := run_Generation stored + 1, run_Revision := run_Revision stored + 1,
      run_UpdatedAt := max now (run_UpdatedAt stored)\<rparr>" "created" "runs' = AList.update i run runs"
    using assms(2-4) new by (auto simp: CreateSearchRun_def Let_def max_def)
  have keys: "SearchPageIdempotencyKey i (run_Generation run) c' \<noteq> Inr k"
    if "SearchPageIdempotencyKey i (run_Generation stored) c = Inr k" for c c' k
    using page_key_injective [OF that, of i "run_Generation run" c'] run(1) by auto
  show ?thesis
    by (intro conjI allI impI keys) (use run new in \<open>auto simp: update_conv' same_search_def\<close>)
qed

definition sample_search :: SearchRun where
  "sample_search = \<lparr>run_SearchID = ''s1'', run_Adapter = ''hh'', run_Platform = ''hh'',
     run_SearchProfileID = ''p1'', run_TargetProfiles = [''p1''], run_CorrelationID = ''k1'',
     run_Query = ''{}'', run_Cursor = ''page2'', run_Done = False, run_Generation = 1, run_Revision = 4,
     run_CreatedAt = 1, run_UpdatedAt = 9\<rparr>"

lemma json_Valid_one: "json_Valid ''1''"
  by code_simp

lemma sample_search_new:
  "NewSearchRun ''s1'' ''hh'' ''hh'' ''p1'' [''p1''] ''1'' ''k1'' 20 =
     Inr (sample_search\<lparr>run_Query := ''1'', run_Cursor := [], run_Revision := 1,
       run_CreatedAt := 20, run_UpdatedAt := 20\<rparr>)"
  by (simp add: NewSearchRun_def sample_search_def SearchRun_Validate_def json_Valid_one
      TrimSpace_id space_heads_def space_lasts_def)

theorem search_restart_witness:
  "fst (CreateSearchRun None (sample_search\<lparr>run_Query := ''1'', run_Cursor := [], run_Revision := 1,
       run_CreatedAt := 20, run_UpdatedAt := 20\<rparr>) [(''s1'', sample_search)])
   = Inr (sample_search\<lparr>run_Query := ''1'', run_Cursor := [], run_Generation := 2, run_Revision := 5,
       run_UpdatedAt := 20\<rparr>, True)"
proof -
  let ?c = "sample_search\<lparr>run_Query := ''1'', run_Cursor := [], run_Revision := 1,
       run_CreatedAt := 20, run_UpdatedAt := 20\<rparr>"
  let ?runs = "[(''s1'', sample_search)]"
  have valid: "SearchRun_Validate ?c = None"
    using sample_search_new by (auto simp: NewSearchRun_def sample_search_def Let_def split: option.splits)
  have differ: "\<not> same_search sample_search ?c" "map_of ?runs ''s1'' = Some sample_search"
    by (simp_all add: same_search_def sample_search_def)
  have result: "CreateSearchRun None ?c ?runs = (Inr (?c\<lparr>run_CreatedAt := 1, run_Generation := 2,
      run_Revision := 5\<rparr>, True), AList.update ''s1'' (?c\<lparr>run_CreatedAt := 1, run_Generation := 2,
      run_Revision := 5\<rparr>) ?runs)"
    using valid differ by (simp add: CreateSearchRun_def sample_search_def Let_def)
  from search_restart [OF sample_search_new differ(2,1) result] result show ?thesis
    by (simp add: sample_search_def)
qed

text \<open>The stored definition of a campaign leaves out whether it only discovers: a save can change it.\<close>

lemma save_changes_discover_only:
  "\<exists>c campaigns campaigns'. map_of campaigns (camp_ID sample_running) = Some sample_running
     \<and> \<not> camp_DiscoverOnly sample_running \<and> camp_DiscoverOnly c
     \<and> SaveApplicationCampaign None c 1 campaigns = (None, campaigns')"
proof -
  let ?c = "sample_running\<lparr>camp_DiscoverOnly := True, camp_Revision := 2\<rparr>"
  have "SaveApplicationCampaign None ?c 1 [(''c1'', sample_running)] = (None, [(''c1'', ?c)])"
    by (simp add: SaveApplicationCampaign_def sample_running_def sameCampaignDefinition_def campaign_eval)
  then show ?thesis by (intro exI [of _ ?c] exI) (auto simp: sample_running_def)
qed

end
