(* ===== verification/AuthSession.thy ===== *)
theory AuthSession
  imports Application
begin

text \<open>
  \<open>core/auth_session.go\<close> and \<open>storage/memory/auth_session.go\<close>: one interactive
  login with its current manual step, and the store that keeps it. A method validates the
  session after it has changed it, so it returns its error beside the changed record; an early
  return leaves the record as it was.
\<close>

type_synonym AuthSessionID = string

datatype AuthSessionStatus =
    AuthSessionCreated | AuthSessionWaitingIdentifier | AuthSessionWaitingOTP | AuthSessionWaitingPassword
  | AuthSessionWaitingCaptcha | AuthSessionExchanging | AuthSessionStoring | AuthSessionCompleted
  | AuthSessionExpired | AuthSessionCancelled | AuthSessionFailed | AuthSessionStatusOther string

fun auth_status_text :: "AuthSessionStatus \<Rightarrow> string" where
  "auth_status_text AuthSessionCreated = ''created''"
| "auth_status_text AuthSessionWaitingIdentifier = ''waiting_identifier''"
| "auth_status_text AuthSessionWaitingOTP = ''waiting_otp''"
| "auth_status_text AuthSessionWaitingPassword = ''waiting_password''"
| "auth_status_text AuthSessionWaitingCaptcha = ''waiting_captcha''"
| "auth_status_text AuthSessionExchanging = ''exchanging''"
| "auth_status_text AuthSessionStoring = ''storing''"
| "auth_status_text AuthSessionCompleted = ''completed''"
| "auth_status_text AuthSessionExpired = ''expired''"
| "auth_status_text AuthSessionCancelled = ''cancelled''"
| "auth_status_text AuthSessionFailed = ''failed''"
| "auth_status_text (AuthSessionStatusOther s) = s"

datatype AuthChallengeKind =
    AuthChallengeOTP | AuthChallengePassword | AuthChallengeCaptcha | AuthChallengeOther string

fun challenge_kind_text :: "AuthChallengeKind \<Rightarrow> string" where
  "challenge_kind_text AuthChallengeOTP = ''otp''"
| "challenge_kind_text AuthChallengePassword = ''password''"
| "challenge_kind_text AuthChallengeCaptcha = ''captcha''"
| "challenge_kind_text (AuthChallengeOther s) = s"

section \<open>Text checks\<close>

text \<open>
  The decoder of \<open>range\<close> over a string and of \<open>unicode/utf8\<close>: a lead byte with
  the range of its second byte, then continuation bytes. It gives the rune and the number of
  bytes after the lead.
\<close>

definition continuation :: "nat \<Rightarrow> bool" where
  "continuation b \<longleftrightarrow> 0x80 \<le> b \<and> b \<le> 0xBF"

definition second_byte :: "nat \<Rightarrow> nat \<Rightarrow> bool" where
  "second_byte lead b \<longleftrightarrow>
     (if lead = 0xE0 then 0xA0 \<le> b \<and> b \<le> 0xBF
      else if lead = 0xED then 0x80 \<le> b \<and> b \<le> 0x9F
      else if lead = 0xF0 then 0x90 \<le> b \<and> b \<le> 0xBF
      else if lead = 0xF4 then 0x80 \<le> b \<and> b \<le> 0x8F
      else continuation b)"

fun utf8_multi :: "nat \<Rightarrow> nat list \<Rightarrow> (nat \<times> nat) option" where
  "utf8_multi lead (b1 # bs) =
     (if \<not> second_byte lead b1 then None
      else if 0xC2 \<le> lead \<and> lead \<le> 0xDF then Some ((lead - 0xC0) * 64 + (b1 - 0x80), 1)
      else if 0xE0 \<le> lead \<and> lead \<le> 0xEF
      then (case bs of b2 # _ \<Rightarrow> if continuation b2
              then Some ((lead - 0xE0) * 4096 + (b1 - 0x80) * 64 + (b2 - 0x80), 2) else None
            | [] \<Rightarrow> None)
      else if 0xF0 \<le> lead \<and> lead \<le> 0xF4
      then (case bs of b2 # b3 # _ \<Rightarrow> if continuation b2 \<and> continuation b3
              then Some ((lead - 0xF0) * 262144 + (b1 - 0x80) * 4096 + (b2 - 0x80) * 64 + (b3 - 0x80), 3) else None
            | _ \<Rightarrow> None)
      else None)"
| "utf8_multi lead [] = None"

function utf8_runes :: "nat list \<Rightarrow> nat list option" where
  "utf8_runes [] = Some []"
| "utf8_runes (b # bs) =
     (if b < 0x80 then map_option (Cons b) (utf8_runes bs)
      else case utf8_multi b bs of None \<Rightarrow> None
           | Some (r, k) \<Rightarrow> map_option (Cons r) (utf8_runes (drop k bs)))"
  by pat_completeness auto
termination by (relation "measure length") auto

text \<open>\<open>unicode.IsControl\<close>: the two control ranges of Latin-1.\<close>

definition IsControl :: "nat \<Rightarrow> bool" where
  "IsControl r \<longleftrightarrow> r < 0x20 \<or> (0x7F \<le> r \<and> r < 0xA0)"

definition validateAuthText :: "string \<Rightarrow> nat \<Rightarrow> string \<Rightarrow> error option" where
  "validateAuthText text maximumRunes label =
     (case utf8_runes (map of_char text) of
        None \<Rightarrow> Some (Err (label @ '' is not valid UTF-8''))
      | Some runes \<Rightarrow>
          if length runes > maximumRunes then Some (Err (label @ '' is too long''))
          else if \<exists>r \<in> set runes. IsControl r \<and> r \<noteq> 10 \<and> r \<noteq> 9
          then Some (Err (label @ '' contains an unsupported control character''))
          else None)"

section \<open>Sessions\<close>

record AuthChallenge =
  ch_ID :: string
  ch_Kind :: AuthChallengeKind
  ch_MediaType :: string
  ch_Prompt :: string
  ch_Deadline :: time

text \<open>A zero \<open>now\<close> skips the comparison with the deadline.\<close>

definition AuthChallenge_Validate :: "time \<Rightarrow> AuthChallenge \<Rightarrow> error option" where
  "AuthChallenge_Validate now challenge =
     (if TrimSpace (ch_ID challenge) = [] then Some (Err ''auth challenge requires id'')
      else if ch_Kind challenge \<notin> {AuthChallengeOTP, AuthChallengePassword, AuthChallengeCaptcha}
      then Some (Err (''unknown auth challenge kind '' @ quoted (challenge_kind_text (ch_Kind challenge))))
      else if length (ch_MediaType challenge) > 64 then Some (Err ''auth challenge media type is too long'')
      else case validateAuthText (ch_Prompt challenge) 512 ''auth challenge prompt'' of Some e \<Rightarrow> Some e | None \<Rightarrow>
      if IsZero (ch_Deadline challenge) \<or> (now \<noteq> 0 \<and> \<not> ch_Deadline challenge > now)
      then Some (Err ''auth challenge requires a future deadline'')
      else None)"

record AuthSession =
  au_ID :: AuthSessionID
  au_Platform :: Platform
  au_ProfileID :: ProfileID
  au_Status :: AuthSessionStatus
  au_Challenge :: "AuthChallenge option"
  au_CredentialReference :: string
  au_CredentialRevision :: "64 word"
  au_BrowserStateReference :: string
  au_BrowserStateDigest :: string
  au_FailureCategory :: ErrorCategory
  au_FailureMessage :: string
  au_Revision :: "64 word"
  au_ExpiresAt :: time
  au_CreatedAt :: time
  au_UpdatedAt :: time

record NewAuthSessionParams =
  nap_ID :: AuthSessionID
  nap_Platform :: Platform
  nap_ProfileID :: ProfileID
  nap_CredentialReference :: string
  nap_BrowserStateReference :: string
  nap_ExpiresAt :: time

definition challengeKindFromStatus :: "AuthSessionStatus \<Rightarrow> AuthChallengeKind" where
  "challengeKindFromStatus status =
     (case status of AuthSessionWaitingOTP \<Rightarrow> AuthChallengeOTP
      | AuthSessionWaitingPassword \<Rightarrow> AuthChallengePassword
      | AuthSessionWaitingCaptcha \<Rightarrow> AuthChallengeCaptcha
      | _ \<Rightarrow> AuthChallengeOther [])"

definition challengeKindMatchesStatus :: "AuthChallengeKind \<Rightarrow> AuthSessionStatus \<Rightarrow> bool" where
  "challengeKindMatchesStatus kind status \<longleftrightarrow> challengeKindFromStatus status = kind"

definition authStatusForChallengeKind :: "AuthChallengeKind \<Rightarrow> AuthSessionStatus" where
  "authStatusForChallengeKind kind =
     (case kind of AuthChallengeOTP \<Rightarrow> AuthSessionWaitingOTP
      | AuthChallengePassword \<Rightarrow> AuthSessionWaitingPassword
      | _ \<Rightarrow> AuthSessionWaitingCaptcha)"

definition AuthSession_IsTerminal :: "AuthSession \<Rightarrow> bool" where
  "AuthSession_IsTerminal session \<longleftrightarrow>
     au_Status session \<in> {AuthSessionCompleted, AuthSessionExpired, AuthSessionCancelled, AuthSessionFailed}"

definition WaitingChallenge :: "AuthSession \<Rightarrow> bool" where
  "WaitingChallenge session \<longleftrightarrow>
     au_Status session \<in> {AuthSessionWaitingOTP, AuthSessionWaitingPassword, AuthSessionWaitingCaptcha}"

definition statusOrEmpty :: "AuthSession \<Rightarrow> string" where
  "statusOrEmpty session =
     (if auth_status_text (au_Status session) = [] then ''unknown'' else auth_status_text (au_Status session))"

text \<open>
  The switch of \<open>Validate\<close>: what a session may hold in its status. The cases share the
  message of the status they reject.
\<close>

definition in_status :: "string \<Rightarrow> AuthSession \<Rightarrow> error option" where
  "in_status what session =
     Some (Err (''auth session in status '' @ quoted (auth_status_text (au_Status session)) @ what))"

definition validate_completed :: "AuthSession \<Rightarrow> error option" where
  "validate_completed session =
     (if au_Challenge session \<noteq> None then Some (Err ''completed auth session cannot keep a challenge'')
      else let credentialStored = au_CredentialReference session \<noteq> [] \<and> au_CredentialRevision session > 0;
               stateStored = au_BrowserStateReference session \<noteq> []
                 \<and> validApplicationDigest (au_BrowserStateDigest session)
      in if \<not> credentialStored \<and> \<not> stateStored
      then Some (Err ''completed auth session requires a stored credential or browser state'')
      else if au_CredentialReference session = [] \<and> au_CredentialRevision session \<noteq> 0
      then Some (Err ''auth session credential revision requires a credential reference'')
      else if au_BrowserStateReference session = [] \<and> au_BrowserStateDigest session \<noteq> []
      then Some (Err ''auth session browser state digest requires a state reference'')
      else if au_FailureCategory session \<noteq> NoCategory
      then Some (Err ''completed auth session cannot contain a failure'')
      else None)"

definition validate_status :: "AuthSession \<Rightarrow> error option" where
  "validate_status session =
     (let s = au_Status session in
      if s \<in> {AuthSessionCreated, AuthSessionWaitingIdentifier, AuthSessionExchanging, AuthSessionStoring}
      then if au_Challenge session \<noteq> None then in_status '' cannot keep a challenge'' session
           else if au_FailureCategory session \<noteq> NoCategory then in_status '' cannot contain a failure'' session
           else None
      else if s \<in> {AuthSessionWaitingOTP, AuthSessionWaitingPassword, AuthSessionWaitingCaptcha}
      then (case au_Challenge session of
              None \<Rightarrow> in_status '' requires a challenge'' session
            | Some challenge \<Rightarrow>
                case AuthChallenge_Validate 0 challenge of Some e \<Rightarrow> Some e | None \<Rightarrow>
                if \<not> challengeKindMatchesStatus (ch_Kind challenge) s
                then Some (Err ''auth challenge kind does not match session status'')
                else if au_FailureCategory session \<noteq> NoCategory
                then in_status '' cannot contain a failure'' session
                else None)
      else if s = AuthSessionCompleted then validate_completed session
      else if s \<in> {AuthSessionExpired, AuthSessionCancelled}
      then if au_Challenge session \<noteq> None \<or> au_FailureCategory session \<noteq> NoCategory
           then in_status '' cannot contain a result'' session else None
      else if s = AuthSessionFailed
      then if au_Challenge session \<noteq> None then Some (Err ''failed auth session cannot contain a challenge'')
           else if \<not> ValidErrorCategory (au_FailureCategory session)
           then Some (Err ''failed auth session requires a known failure category'') else None
      else Some (Err (''unknown auth session status '' @ quoted (auth_status_text s))))"

definition AuthSession_Validate :: "AuthSession \<Rightarrow> error option" where
  "AuthSession_Validate session =
     (if au_ID session = [] \<or> au_Platform session = [] \<or> au_ProfileID session = []
      then Some (Err ''auth session requires id, platform and profile'')
      else if au_Revision session = 0 \<or> IsZero (au_CreatedAt session) \<or> IsZero (au_UpdatedAt session)
              \<or> au_UpdatedAt session < au_CreatedAt session \<or> IsZero (au_ExpiresAt session)
      then Some (Err ''auth session requires revision and valid timestamps'')
      else if au_Status session \<noteq> AuthSessionCompleted
              \<and> (au_CredentialRevision session \<noteq> 0 \<or> au_BrowserStateDigest session \<noteq> [])
      then Some (Err ''auth session artifact revisions are only valid for a completed session'')
      else case validate_status session of Some e \<Rightarrow> Some e | None \<Rightarrow>
      if au_Status session \<noteq> AuthSessionFailed \<and> au_FailureCategory session \<noteq> NoCategory
      then Some (Err ''only failed auth sessions may contain a failure category'')
      else if au_Status session \<noteq> AuthSessionFailed \<and> au_FailureMessage session \<noteq> []
      then Some (Err ''only failed auth sessions may contain a failure message'')
      else validateAuthText (au_FailureMessage session) 512 ''auth failure message'')"

definition NewAuthSession :: "NewAuthSessionParams \<Rightarrow> time \<Rightarrow> error + AuthSession" where
  "NewAuthSession params now =
     (let session = \<lparr>au_ID = nap_ID params, au_Platform = nap_Platform params,
            au_ProfileID = nap_ProfileID params, au_Status = AuthSessionCreated, au_Challenge = None,
            au_CredentialReference = TrimSpace (nap_CredentialReference params), au_CredentialRevision = 0,
            au_BrowserStateReference = TrimSpace (nap_BrowserStateReference params),
            au_BrowserStateDigest = [], au_FailureCategory = NoCategory, au_FailureMessage = [],
            au_Revision = 1, au_ExpiresAt = nap_ExpiresAt params, au_CreatedAt = now, au_UpdatedAt = now\<rparr>
      in case AuthSession_Validate session of Some e \<Rightarrow> Inl e | None \<Rightarrow>
         if \<not> au_ExpiresAt session > au_CreatedAt session
         then Inl (Err ''auth session requires an expiry after creation'')
         else Inr session)"

section \<open>Operations\<close>

definition auth_advance :: "time \<Rightarrow> AuthSession \<Rightarrow> error + AuthSession" where
  "auth_advance now session =
     (if IsZero now \<or> now < au_UpdatedAt session
      then Inl (Err ''auth session update time must not move backwards'')
      else Inr (session\<lparr>au_Revision := au_Revision session + 1, au_UpdatedAt := now\<rparr>))"

text \<open>The common end of the methods: advance, change, validate.\<close>

definition auth_update :: "time \<Rightarrow> (AuthSession \<Rightarrow> AuthSession) \<Rightarrow> AuthSession \<Rightarrow> error option \<times> AuthSession" where
  "auth_update now f session =
     (case auth_advance now session of
        Inl e \<Rightarrow> (Some e, session)
      | Inr advanced \<Rightarrow> (AuthSession_Validate (f advanced), f advanced))"

definition refuse_status :: "string \<Rightarrow> AuthSession \<Rightarrow> error option \<times> AuthSession" where
  "refuse_status what session = (Some (Err (what @ quoted (statusOrEmpty session))), session)"

definition BeginIdentifier :: "time \<Rightarrow> AuthSession \<Rightarrow> error option \<times> AuthSession" where
  "BeginIdentifier now session =
     (if au_Status session \<noteq> AuthSessionCreated
      then (Some (Err ''only a created auth session can request an identifier''), session)
      else auth_update now (\<lambda>s. s\<lparr>au_Status := AuthSessionWaitingIdentifier\<rparr>) session)"

definition RequireChallenge :: "AuthChallenge \<Rightarrow> time \<Rightarrow> AuthSession \<Rightarrow> error option \<times> AuthSession" where
  "RequireChallenge challenge now session =
     (if au_Status session \<notin> {AuthSessionWaitingIdentifier, AuthSessionWaitingOTP, AuthSessionWaitingPassword,
           AuthSessionWaitingCaptcha, AuthSessionExchanging}
      then refuse_status ''cannot require a challenge in status '' session
      else case AuthChallenge_Validate now challenge of Some e \<Rightarrow> (Some e, session) | None \<Rightarrow>
      if ch_Deadline challenge > au_ExpiresAt session
      then (Some (Err ''auth challenge deadline must not outlive the session''), session)
      else if (case au_Challenge session of None \<Rightarrow> False
               | Some held \<Rightarrow> ch_ID held = ch_ID challenge \<and> ch_Kind held = ch_Kind challenge)
      then (None, session)
      else auth_update now (\<lambda>s. s\<lparr>au_Challenge := Some challenge,
             au_Status := authStatusForChallengeKind (ch_Kind challenge)\<rparr>) session)"

definition BeginExchange :: "time \<Rightarrow> AuthSession \<Rightarrow> error option \<times> AuthSession" where
  "BeginExchange now session =
     (if \<not> WaitingChallenge session \<and> au_Status session \<noteq> AuthSessionWaitingIdentifier
      then refuse_status ''cannot begin exchange in status '' session
      else auth_update now (\<lambda>s. s\<lparr>au_Challenge := None, au_Status := AuthSessionExchanging\<rparr>) session)"

definition BeginStoring :: "time \<Rightarrow> AuthSession \<Rightarrow> error option \<times> AuthSession" where
  "BeginStoring now session =
     (if au_Status session \<noteq> AuthSessionExchanging
      then refuse_status ''cannot begin storing in status '' session
      else if TrimSpace (au_CredentialReference session) = [] \<and> TrimSpace (au_BrowserStateReference session) = []
      then (Some (Err ''auth session storing requires a credential or browser state reference''), session)
      else auth_update now (\<lambda>s. s\<lparr>au_Status := AuthSessionStoring\<rparr>) session)"

definition AuthSession_Complete :: "64 word \<Rightarrow> string \<Rightarrow> time \<Rightarrow> AuthSession \<Rightarrow> error option \<times> AuthSession" where
  "AuthSession_Complete credentialRevision digest now session =
     (if au_Status session \<noteq> AuthSessionStoring
      then refuse_status ''cannot complete auth session in status '' session
      else let browserStateDigest = TrimSpace digest;
               credentialStored = au_CredentialReference session \<noteq> [] \<and> credentialRevision > 0;
               stateStored = au_BrowserStateReference session \<noteq> [] \<and> browserStateDigest \<noteq> []
      in if \<not> credentialStored \<and> \<not> stateStored
      then (Some (Err ''completed auth session requires a stored credential or browser state''), session)
      else if au_CredentialReference session = [] \<and> credentialRevision \<noteq> 0
      then (Some (Err ''auth session credential revision requires a credential reference''), session)
      else if au_BrowserStateReference session = [] \<and> browserStateDigest \<noteq> []
      then (Some (Err ''auth session browser state digest requires a state reference''), session)
      else if browserStateDigest \<noteq> [] \<and> \<not> validApplicationDigest browserStateDigest
      then (Some (Err ''auth session browser state digest must be sha256:<hex>''), session)
      else auth_update now (\<lambda>s. s\<lparr>au_CredentialRevision := credentialRevision,
             au_BrowserStateDigest := browserStateDigest, au_Status := AuthSessionCompleted\<rparr>) session)"

definition AuthSession_Fail :: "ErrorCategory \<Rightarrow> string \<Rightarrow> time \<Rightarrow> AuthSession \<Rightarrow> error option \<times> AuthSession" where
  "AuthSession_Fail category message now session =
     (if AuthSession_IsTerminal session then refuse_status ''cannot fail auth session in status '' session
      else if \<not> ValidErrorCategory category
      then (Some (Err (''unknown error category '' @ quoted (category_text category))), session)
      else case validateAuthText message 512 ''auth failure message'' of Some e \<Rightarrow> (Some e, session) | None \<Rightarrow>
      auth_update now (\<lambda>s. s\<lparr>au_Challenge := None, au_Status := AuthSessionFailed,
        au_FailureCategory := category, au_FailureMessage := message\<rparr>) session)"

definition AuthSession_Cancel :: "time \<Rightarrow> AuthSession \<Rightarrow> error option \<times> AuthSession" where
  "AuthSession_Cancel now session =
     (if AuthSession_IsTerminal session then refuse_status ''cannot cancel auth session in status '' session
      else auth_update now (\<lambda>s. s\<lparr>au_Challenge := None, au_Status := AuthSessionCancelled\<rparr>) session)"

definition AuthSession_Expire :: "time \<Rightarrow> AuthSession \<Rightarrow> error option \<times> AuthSession" where
  "AuthSession_Expire now session =
     (if AuthSession_IsTerminal session then refuse_status ''cannot expire auth session in status '' session
      else if now < au_ExpiresAt session
      then (Some (Err ''auth session expiry has not been reached''), session)
      else auth_update now (\<lambda>s. s\<lparr>au_Challenge := None, au_Status := AuthSessionExpired\<rparr>) session)"

section \<open>The session store\<close>

type_synonym AuthSessions = "(AuthSessionID \<times> AuthSession) list"

definition sameAuthSessionInputs :: "AuthSession \<Rightarrow> AuthSession \<Rightarrow> bool" where
  "sameAuthSessionInputs left right \<longleftrightarrow> au_Platform left = au_Platform right
     \<and> au_ProfileID left = au_ProfileID right \<and> au_CreatedAt left = au_CreatedAt right
     \<and> au_ExpiresAt left = au_ExpiresAt right"

definition CreateAuthSession ::
  "ctx \<Rightarrow> AuthSession \<Rightarrow> AuthSessions \<Rightarrow> (error + AuthSession \<times> bool) \<times> AuthSessions" where
  "CreateAuthSession ctx candidate sessions =
     (case ctx of Some e \<Rightarrow> (Inl e, sessions) | None \<Rightarrow>
      case AuthSession_Validate candidate of Some e \<Rightarrow> (Inl e, sessions) | None \<Rightarrow>
      case map_of sessions (au_ID candidate) of
        Some stored \<Rightarrow>
          if \<not> sameAuthSessionInputs stored candidate
          then (Inl (Err ''auth session id conflicts with different contents''), sessions)
          else (Inr (stored, False), sessions)
      | None \<Rightarrow> (Inr (candidate, True), AList.update (au_ID candidate) candidate sessions))"

definition GetAuthSession :: "ctx \<Rightarrow> AuthSessionID \<Rightarrow> AuthSessions \<Rightarrow> error + AuthSession" where
  "GetAuthSession ctx sessionID sessions =
     (case ctx of Some e \<Rightarrow> Inl e | None \<Rightarrow>
      if sessionID = [] then Inl (Err ''auth session requires id'')
      else case map_of sessions sessionID of
        None \<Rightarrow> Inl (ErrSentinel ErrAuthSessionNotFound) | Some session \<Rightarrow> Inr session)"

definition SaveAuthSession ::
  "ctx \<Rightarrow> AuthSession \<Rightarrow> 64 word \<Rightarrow> AuthSessions \<Rightarrow> error option \<times> AuthSessions" where
  "SaveAuthSession ctx candidate expectedRevision sessions =
     (case ctx of Some e \<Rightarrow> (Some e, sessions) | None \<Rightarrow>
      case AuthSession_Validate candidate of Some e \<Rightarrow> (Some e, sessions) | None \<Rightarrow>
      case map_of sessions (au_ID candidate) of
        None \<Rightarrow> (Some (ErrSentinel ErrAuthSessionNotFound), sessions)
      | Some stored \<Rightarrow>
          if au_Revision stored \<noteq> expectedRevision \<or> au_Revision candidate \<le> expectedRevision
          then (Some (ErrSentinel ErrRevisionConflict), sessions)
          else if \<not> sameAuthSessionInputs stored candidate
          then (Some (Err ''auth session immutable inputs changed''), sessions)
          else (None, AList.update (au_ID candidate) candidate sessions))"

end
