(* ===== verification/AuthSession_Props.thy ===== *)
theory AuthSession_Props
  imports AuthSession
begin

text \<open>
  Logins: every operation does its whole work or leaves the session as it was, a session moves
  along the status table, a challenge never outlives its session, a completed session has an
  artifact and went through storing, and a finished one never moves again.
\<close>

section \<open>The store\<close>

interpretation auth_sessions: revisioned_store map_of au_ID au_Revision "SaveAuthSession None"
proof (unfold_locales, goal_cases)
  case (1 c n w w')
  then show ?case by (auto simp: SaveAuthSession_def split: option.splits if_splits)
next
  case (2 c n w e w')
  then show ?case by (auto simp: SaveAuthSession_def split: option.splits if_splits)
next
  case (3 c n w w')
  then show ?case by (auto simp: SaveAuthSession_def split: option.splits if_splits)
qed

section \<open>Operations\<close>

datatype auth_op =
    AuIdentifier time
  | AuChallenge AuthChallenge time
  | AuExchange time
  | AuStoring time
  | AuComplete "64 word" string time
  | AuFail ErrorCategory string time
  | AuCancel time
  | AuExpire time

fun apply_auth_op :: "auth_op \<Rightarrow> AuthSession \<Rightarrow> error option \<times> AuthSession" where
  "apply_auth_op (AuIdentifier now) = BeginIdentifier now"
| "apply_auth_op (AuChallenge challenge now) = RequireChallenge challenge now"
| "apply_auth_op (AuExchange now) = BeginExchange now"
| "apply_auth_op (AuStoring now) = BeginStoring now"
| "apply_auth_op (AuComplete revision digest now) = AuthSession_Complete revision digest now"
| "apply_auth_op (AuFail category message now) = AuthSession_Fail category message now"
| "apply_auth_op (AuCancel now) = AuthSession_Cancel now"
| "apply_auth_op (AuExpire now) = AuthSession_Expire now"

text \<open>The statuses a session may move to, as a table over their names.\<close>

definition auth_terminal :: "AuthSessionStatus set" where
  "auth_terminal = {AuthSessionCompleted, AuthSessionExpired, AuthSessionCancelled, AuthSessionFailed}"

definition auth_waiting :: "AuthSessionStatus set" where
  "auth_waiting = {AuthSessionWaitingOTP, AuthSessionWaitingPassword, AuthSessionWaitingCaptcha}"

definition auth_allowed :: "AuthSessionStatus \<Rightarrow> AuthSessionStatus \<Rightarrow> bool" where
  "auth_allowed a b \<longleftrightarrow>
     (a = AuthSessionCreated \<and> b = AuthSessionWaitingIdentifier)
     \<or> (a \<in> insert AuthSessionWaitingIdentifier (insert AuthSessionExchanging auth_waiting) \<and> b \<in> auth_waiting)
     \<or> (a \<in> insert AuthSessionWaitingIdentifier auth_waiting \<and> b = AuthSessionExchanging)
     \<or> (a = AuthSessionExchanging \<and> b = AuthSessionStoring)
     \<or> (a = AuthSessionStoring \<and> b = AuthSessionCompleted)
     \<or> (a \<notin> auth_terminal \<and> b \<in> {AuthSessionFailed, AuthSessionCancelled, AuthSessionExpired})"

text \<open>What holds of every session: it is valid, and its challenge ends before it does.\<close>

definition auth_ok :: "AuthSession \<Rightarrow> bool" where
  "auth_ok s \<longleftrightarrow> AuthSession_Validate s = None
     \<and> (\<forall>challenge. au_Challenge s = Some challenge \<longrightarrow> ch_Deadline challenge \<le> au_ExpiresAt s)"

definition auth_step :: "AuthSession \<Rightarrow> AuthSession \<Rightarrow> bool" where
  "auth_step s s' \<longleftrightarrow> auth_ok s' \<and> sameAuthSessionInputs s s' \<and> au_ID s' = au_ID s
     \<and> au_CredentialReference s' = au_CredentialReference s
     \<and> au_BrowserStateReference s' = au_BrowserStateReference s
     \<and> au_UpdatedAt s \<le> au_UpdatedAt s' \<and> au_Revision s' = au_Revision s + 1
     \<and> auth_allowed (au_Status s) (au_Status s')"

lemma validateAuthText_empty [simp]: "validateAuthText [] n label = None"
  by (simp add: validateAuthText_def)

lemma ValidErrorCategory_NoCategory [simp]: "\<not> ValidErrorCategory NoCategory"
  by (simp add: NoCategory_def)

text \<open>A valid challenge is valid at every earlier instant, and at no instant.\<close>

lemma AuthChallenge_Validate_zero:
  "AuthChallenge_Validate now challenge = None \<Longrightarrow> AuthChallenge_Validate 0 challenge = None"
  by (auto simp: AuthChallenge_Validate_def split: option.splits if_splits)

lemma challenge_status:
  "AuthChallenge_Validate now challenge = None \<Longrightarrow>
     authStatusForChallengeKind (ch_Kind challenge) \<in> auth_waiting
     \<and> challengeKindMatchesStatus (ch_Kind challenge) (authStatusForChallengeKind (ch_Kind challenge))"
  by (auto simp: AuthChallenge_Validate_def authStatusForChallengeKind_def auth_waiting_def
      challengeKindMatchesStatus_def challengeKindFromStatus_def split: if_splits)

text \<open>What a session of each group of statuses has to satisfy to be valid.\<close>

definition auth_base :: "AuthSession \<Rightarrow> bool" where
  "auth_base s \<longleftrightarrow> au_ID s \<noteq> [] \<and> au_Platform s \<noteq> [] \<and> au_ProfileID s \<noteq> []
     \<and> au_Revision s \<noteq> 0 \<and> au_CreatedAt s \<noteq> 0 \<and> au_UpdatedAt s \<noteq> 0 \<and> au_ExpiresAt s \<noteq> 0
     \<and> au_CreatedAt s \<le> au_UpdatedAt s"

definition auth_plain :: "AuthSession \<Rightarrow> bool" where
  "auth_plain s \<longleftrightarrow> au_CredentialRevision s = 0 \<and> au_BrowserStateDigest s = []
     \<and> au_FailureCategory s = NoCategory \<and> au_FailureMessage s = []"

lemma Validate_base: "AuthSession_Validate s = None \<Longrightarrow> auth_base s"
  by (auto simp: AuthSession_Validate_def auth_base_def IsZero_def split: if_splits)

lemma Validate_live:
  assumes "AuthSession_Validate s = None" "au_Status s \<notin> auth_terminal"
  shows "auth_plain s"
  using assms by (auto simp: AuthSession_Validate_def auth_plain_def auth_terminal_def
      split: if_splits option.splits)

lemma Validate_no_challenge:
  assumes "AuthSession_Validate s = None" "au_Status s \<notin> auth_waiting"
  shows "au_Challenge s = None"
proof -
  have "validate_status s = None"
    using assms(1) by (auto simp: AuthSession_Validate_def split: if_splits option.splits)
  then show ?thesis
    using assms(2) by (auto simp: validate_status_def validate_completed_def Let_def in_status_def
        auth_waiting_def split: if_splits)
qed

lemmas valid_intro_simps = AuthSession_Validate_def validate_status_def auth_base_def auth_plain_def IsZero_def
  Let_def auth_waiting_def auth_terminal_def

lemma Validate_intro_plain:
  assumes "auth_base s" "auth_plain s" "au_Challenge s = None"
    "au_Status s \<in> {AuthSessionCreated, AuthSessionWaitingIdentifier, AuthSessionExchanging, AuthSessionStoring,
       AuthSessionExpired, AuthSessionCancelled}"
  shows "AuthSession_Validate s = None"
  using assms by (auto simp: valid_intro_simps)

lemma Validate_intro_waiting:
  assumes "auth_base s" "auth_plain s" "au_Challenge s = Some challenge"
    "AuthChallenge_Validate now challenge = None"
    "au_Status s = authStatusForChallengeKind (ch_Kind challenge)"
  shows "AuthSession_Validate s = None"
  using assms challenge_status [OF assms(4)] AuthChallenge_Validate_zero [OF assms(4)]
  by (auto simp: valid_intro_simps)

lemma Validate_intro_failed:
  assumes "auth_base s" "au_CredentialRevision s = 0" "au_BrowserStateDigest s = []" "au_Challenge s = None"
    "au_Status s = AuthSessionFailed" "ValidErrorCategory (au_FailureCategory s)"
    "validateAuthText (au_FailureMessage s) 512 ''auth failure message'' = None"
  shows "AuthSession_Validate s = None"
  using assms by (auto simp: valid_intro_simps)

lemma Validate_intro_completed:
  assumes "auth_base s" "au_Challenge s = None" "au_Status s = AuthSessionCompleted"
    "au_FailureCategory s = NoCategory" "au_FailureMessage s = []" "validate_completed s = None"
  shows "AuthSession_Validate s = None"
  using assms by (auto simp: valid_intro_simps)

section \<open>Atomic operations\<close>

lemma auth_update_cases:
  assumes "auth_update now f s = (r, s')"
    and "\<And>d. \<lbrakk>d = s\<lparr>au_Revision := au_Revision s + 1, au_UpdatedAt := now\<rparr>; au_UpdatedAt s \<le> now; now \<noteq> 0\<rbrakk>
      \<Longrightarrow> auth_step s (f d)"
  shows "(\<exists>e. r = Some e \<and> s' = s) \<or> (r = None \<and> auth_step s s')"
  using assms by (auto simp: auth_update_def auth_advance_def IsZero_def auth_step_def auth_ok_def split: if_splits)

lemma next_word_nonzero: "(r :: 64 word) \<noteq> -1 \<Longrightarrow> r + 1 \<noteq> 0"
  by (metis add.commute add_eq_0_iff)

text \<open>
  The update of an operation, whatever it changes: enough that it keeps the identity of the
  session, moves along the table and gives a valid session.
\<close>

definition auth_frame :: "AuthSession \<Rightarrow> AuthSession \<Rightarrow> bool" where
  "auth_frame d d' \<longleftrightarrow> sameAuthSessionInputs d d' \<and> au_ID d' = au_ID d
     \<and> au_CredentialReference d' = au_CredentialReference d
     \<and> au_BrowserStateReference d' = au_BrowserStateReference d
     \<and> au_UpdatedAt d' = au_UpdatedAt d \<and> au_Revision d' = au_Revision d"

lemmas frame_simps = auth_frame_def sameAuthSessionInputs_def

lemma auth_move:
  assumes "auth_ok s" "au_Revision s \<noteq> -1" "auth_update now f s = (r, s')"
    and frame: "\<And>d. auth_frame d (f d)" and table: "\<And>d. auth_allowed (au_Status s) (au_Status (f d))"
    and bound: "\<And>v t challenge. au_Challenge (f (s\<lparr>au_Revision := v, au_UpdatedAt := t\<rparr>)) = Some challenge \<Longrightarrow>
      ch_Deadline challenge \<le> au_ExpiresAt s"
    and valid: "\<And>v t. auth_base (f (s\<lparr>au_Revision := v, au_UpdatedAt := t\<rparr>)) \<Longrightarrow>
      AuthSession_Validate (f (s\<lparr>au_Revision := v, au_UpdatedAt := t\<rparr>)) = None"
  shows "s' = s \<or> (r = None \<and> auth_step s s')"
proof -
  have base: "auth_base s" using Validate_base assms(1) unfolding auth_ok_def by blast
  from assms(3) have "(\<exists>e. r = Some e \<and> s' = s) \<or> (r = None \<and> auth_step s s')"
  proof (rule auth_update_cases)
    fix d assume d: "d = s\<lparr>au_Revision := au_Revision s + 1, au_UpdatedAt := now\<rparr>" "au_UpdatedAt s \<le> now" "now \<noteq> 0"
    have eq: "au_Revision (f d) = au_Revision s + 1" "au_UpdatedAt (f d) = now" "au_ExpiresAt (f d) = au_ExpiresAt s"
      "sameAuthSessionInputs s (f d)" "au_ID (f d) = au_ID s"
      "au_CredentialReference (f d) = au_CredentialReference s"
      "au_BrowserStateReference (f d) = au_BrowserStateReference s"
      using frame [of d] d(1) by (auto simp: frame_simps)
    have "auth_base (f d)"
      using base next_word_nonzero [OF assms(2)] d eq by (auto simp: auth_base_def sameAuthSessionInputs_def)
    then have "AuthSession_Validate (f d) = None"
      using valid [where v = "au_Revision s + 1" and t = now] unfolding d(1) [symmetric] by blast
    then show "auth_step s (f d)"
      using eq d(2) table [of d] bound [where v = "au_Revision s + 1" and t = now] unfolding d(1) [symmetric]
      by (auto simp: auth_step_def auth_ok_def)
  qed
  then show ?thesis by blast
qed

text \<open>The five operations that leave neither a challenge nor a result.\<close>

lemma auth_move_plain:
  assumes "auth_ok s" "au_Revision s \<noteq> -1"
    and "auth_update now (\<lambda>s. s\<lparr>au_Challenge := None, au_Status := b\<rparr>) s = (r, s')"
    and "auth_allowed (au_Status s) b" "au_Status s \<notin> auth_terminal"
    and "b \<in> {AuthSessionCreated, AuthSessionWaitingIdentifier, AuthSessionExchanging, AuthSessionStoring,
       AuthSessionExpired, AuthSessionCancelled}"
  shows "s' = s \<or> (r = None \<and> auth_step s s')"
proof -
  have "auth_plain s" using Validate_live assms(1,5) unfolding auth_ok_def by blast
  show ?thesis
    by (rule auth_move [OF assms(1-3)])
      (use assms(4,6) \<open>auth_plain s\<close> in \<open>auto simp: frame_simps auth_plain_def intro!: Validate_intro_plain\<close>)
qed

lemma auth_update_no_challenge:
  assumes "au_Challenge s = None"
  shows "auth_update now (\<lambda>s. s\<lparr>au_Status := b\<rparr>) s
    = auth_update now (\<lambda>s. s\<lparr>au_Challenge := None, au_Status := b\<rparr>) s"
proof -
  have "d\<lparr>au_Status := b\<rparr> = d\<lparr>au_Challenge := None, au_Status := b\<rparr>"
    if "d = s\<lparr>au_Revision := v, au_UpdatedAt := t\<rparr>" for d v t
    using assms that by (cases s) simp
  then show ?thesis by (simp add: auth_update_def auth_advance_def)
qed

lemma RequireChallenge_atomic:
  assumes "auth_ok s" "au_Revision s \<noteq> -1" "RequireChallenge challenge now s = (r, s')"
  shows "s' = s \<or> (r = None \<and> auth_step s s')"
proof -
  let ?f = "\<lambda>s. s\<lparr>au_Challenge := Some challenge, au_Status := authStatusForChallengeKind (ch_Kind challenge)\<rparr>"
  from assms(3) consider "s' = s"
    | "auth_update now ?f s = (r, s')" "AuthChallenge_Validate now challenge = None"
      "ch_Deadline challenge \<le> au_ExpiresAt s"
      "au_Status s \<in> insert AuthSessionWaitingIdentifier (insert AuthSessionExchanging auth_waiting)"
    by (auto simp: RequireChallenge_def refuse_status_def auth_waiting_def split: if_splits option.splits)
  then show ?thesis
  proof cases
    case 2
    have "auth_plain s"
      using Validate_live [of s] assms(1) 2(4) by (auto simp: auth_ok_def auth_waiting_def auth_terminal_def)
    with 2 challenge_status [OF 2(2)] show ?thesis
      by (intro auth_move [OF assms(1,2) 2(1)])
        (auto simp: frame_simps auth_allowed_def auth_plain_def intro!: Validate_intro_waiting [OF _ _ _ 2(2)])
  qed blast
qed

lemma AuthSession_Complete_atomic:
  assumes "auth_ok s" "au_Revision s \<noteq> -1" "AuthSession_Complete revision digest now s = (r, s')"
  shows "s' = s \<or> (r = None \<and> auth_step s s')"
proof -
  let ?f = "\<lambda>s. s\<lparr>au_CredentialRevision := revision, au_BrowserStateDigest := TrimSpace digest,
    au_Status := AuthSessionCompleted\<rparr>"
  let ?d = "s\<lparr>au_CredentialRevision := revision, au_BrowserStateDigest := TrimSpace digest\<rparr>"
  from assms(3) consider "s' = s"
    | "auth_update now ?f s = (r, s')" "au_Status s = AuthSessionStoring"
      "(au_CredentialReference s \<noteq> [] \<and> revision > 0)
        \<or> (au_BrowserStateReference s \<noteq> [] \<and> validApplicationDigest (TrimSpace digest))"
      "au_CredentialReference s = [] \<longrightarrow> revision = 0" "au_BrowserStateReference s = [] \<longrightarrow> TrimSpace digest = []"
    by (auto simp: AuthSession_Complete_def refuse_status_def Let_def split: if_splits)
  then show ?thesis
  proof cases
    case 2
    have s: "auth_plain s" "au_Challenge s = None"
      using Validate_live [of s] Validate_no_challenge [of s] assms(1) 2(2)
      by (auto simp: auth_ok_def auth_waiting_def auth_terminal_def)
    show ?thesis
      by (rule auth_move [OF assms(1,2) 2(1)])
        (use 2(2-5) s in \<open>auto simp: frame_simps auth_allowed_def auth_plain_def validate_completed_def Let_def
          intro!: Validate_intro_completed\<close>)
  qed blast
qed

lemma AuthSession_Fail_atomic:
  assumes "auth_ok s" "au_Revision s \<noteq> -1" "AuthSession_Fail category message now s = (r, s')"
  shows "s' = s \<or> (r = None \<and> auth_step s s')"
proof -
  let ?f = "\<lambda>s. s\<lparr>au_Challenge := None, au_Status := AuthSessionFailed,
    au_FailureCategory := category, au_FailureMessage := message\<rparr>"
  from assms(3) consider "s' = s"
    | "auth_update now ?f s = (r, s')" "au_Status s \<notin> auth_terminal" "ValidErrorCategory category"
      "validateAuthText message 512 ''auth failure message'' = None"
    by (auto simp: AuthSession_Fail_def refuse_status_def AuthSession_IsTerminal_def auth_terminal_def
        split: if_splits option.splits)
  then show ?thesis
  proof cases
    case 2
    have s: "auth_plain s" using Validate_live [of s] assms(1) 2(2) by (simp add: auth_ok_def)
    show ?thesis
      by (rule auth_move [OF assms(1,2) 2(1)])
        (use 2(2-4) s in \<open>auto simp: frame_simps auth_allowed_def auth_plain_def intro!: Validate_intro_failed\<close>)
  qed blast
qed

text \<open>
  An operation leaves the session as it was, or it succeeds and moves it one step; asking again
  for the challenge that is already open succeeds and changes nothing.
\<close>

lemma auth_op_atomic:
  assumes "auth_ok s" "au_Revision s \<noteq> -1" "apply_auth_op x s = (r, s')"
  shows "s' = s \<or> (r = None \<and> auth_step s s')"
proof -
  have move: ?thesis
    if "s' = s \<or> (auth_update now (\<lambda>s. s\<lparr>au_Challenge := None, au_Status := b\<rparr>) s = (r, s')
        \<and> auth_allowed (au_Status s) b \<and> au_Status s \<notin> auth_terminal)"
      "b \<in> {AuthSessionCreated, AuthSessionWaitingIdentifier, AuthSessionExchanging, AuthSessionStoring,
         AuthSessionExpired, AuthSessionCancelled}" for now b
    using that auth_move_plain [OF assms(1,2)] by blast
  note defs = BeginIdentifier_def BeginExchange_def BeginStoring_def AuthSession_Cancel_def AuthSession_Expire_def
    refuse_status_def AuthSession_IsTerminal_def WaitingChallenge_def auth_allowed_def
    auth_waiting_def auth_terminal_def
  have nc: "au_Status s \<in> {AuthSessionCreated, AuthSessionExchanging} \<Longrightarrow> au_Challenge s = None"
    using Validate_no_challenge [of s] assms(1) by (auto simp: auth_ok_def auth_waiting_def)
  show ?thesis
  proof (cases x)
    case (AuIdentifier now)
    show ?thesis
      by (rule move [where now = now and b = AuthSessionWaitingIdentifier])
        (use assms(3) AuIdentifier nc in \<open>auto simp: auth_update_no_challenge defs split: if_splits\<close>)
  next
    case (AuExchange now)
    show ?thesis
      by (rule move [where now = now and b = AuthSessionExchanging])
        (use assms(3) AuExchange in \<open>auto simp: defs split: if_splits\<close>)
  next
    case (AuStoring now)
    show ?thesis
      by (rule move [where now = now and b = AuthSessionStoring])
        (use assms(3) AuStoring nc in \<open>auto simp: auth_update_no_challenge defs split: if_splits\<close>)
  next
    case (AuCancel now)
    show ?thesis
      by (rule move [where now = now and b = AuthSessionCancelled])
        (use assms(3) AuCancel in \<open>auto simp: defs split: if_splits\<close>)
  next
    case (AuExpire now)
    show ?thesis
      by (rule move [where now = now and b = AuthSessionExpired])
        (use assms(3) AuExpire in \<open>auto simp: defs split: if_splits\<close>)
  next
    case (AuChallenge challenge now)
    then show ?thesis using RequireChallenge_atomic [OF assms(1,2)] assms(3) by simp
  next
    case (AuComplete revision digest now)
    then show ?thesis using AuthSession_Complete_atomic [OF assms(1,2)] assms(3) by simp
  next
    case (AuFail category message now)
    then show ?thesis using AuthSession_Fail_atomic [OF assms(1,2)] assms(3) by simp
  qed
qed

section \<open>A whole login\<close>

definition auth_run :: "auth_op list \<Rightarrow> AuthSession \<Rightarrow> AuthSession" where
  "auth_run xs s = fold (\<lambda>x s. snd (apply_auth_op x s)) xs s"

text \<open>What a run keeps: the inputs and the references, the order of the stamps, the table.\<close>

definition auth_steps :: "AuthSession \<Rightarrow> AuthSession \<Rightarrow> bool" where
  "auth_steps s s' \<longleftrightarrow> sameAuthSessionInputs s s' \<and> au_ID s' = au_ID s
     \<and> au_CredentialReference s' = au_CredentialReference s
     \<and> au_BrowserStateReference s' = au_BrowserStateReference s
     \<and> au_UpdatedAt s \<le> au_UpdatedAt s'
     \<and> (au_Status s, au_Status s') \<in> {(a, b). auth_allowed a b}\<^sup>*"

lemma auth_steps_refl [simp]: "auth_steps s s"
  by (simp add: auth_steps_def sameAuthSessionInputs_def)

lemma auth_step_steps: "auth_step s s' \<Longrightarrow> auth_steps s' s'' \<Longrightarrow> auth_steps s s''"
  by (auto simp: auth_step_def auth_steps_def sameAuthSessionInputs_def intro: converse_rtrancl_into_rtrancl)

lemma auth_run_sound:
  assumes "auth_ok s" "unat (au_Revision s) + length xs < 2 ^ 64"
  shows "auth_ok (auth_run xs s) \<and> auth_steps s (auth_run xs s)
    \<and> unat (au_Revision (auth_run xs s)) \<le> unat (au_Revision s) + length xs"
  using assms
proof (induction xs arbitrary: s)
  case (Cons x xs)
  obtain r s' where x: "apply_auth_op x s = (r, s')" by (cases "apply_auth_op x s")
  have run: "auth_run (x # xs) s = auth_run xs s'" by (simp add: auth_run_def x)
  have small: "unat (au_Revision s) + 1 < 2 ^ 64" using Cons.prems(2) by simp
  then have "au_Revision s \<noteq> -1" by (auto simp: unsigned_minus_1_eq_mask mask_eq_exp_minus_1)
  from auth_op_atomic [OF Cons.prems(1) this x] show ?case
  proof (elim disjE conjE)
    assume "s' = s"
    then show ?thesis using Cons.IH [OF Cons.prems(1)] Cons.prems(2) run by simp
  next
    assume "r = None" and step: "auth_step s s'"
    have "unat (au_Revision s') = unat (au_Revision s) + 1"
      using step small by (simp add: auth_step_def unat_word_ariths)
    then show ?thesis
      using Cons.IH [of s'] Cons.prems(2) run step auth_step_steps [OF step]
      by (simp add: auth_step_def)
  qed
qed (simp add: auth_run_def)

lemma auth_run_append: "auth_run (xs @ ys) s = auth_run ys (auth_run xs s)"
  by (simp add: auth_run_def)

text \<open>The only way into the completed status is from storing.\<close>

lemma auth_run_storing:
  assumes "auth_ok s" "unat (au_Revision s) + length xs < 2 ^ 64"
    and "au_Status s \<noteq> AuthSessionCompleted" "au_Status (auth_run xs s) = AuthSessionCompleted"
  shows "\<exists>ys zs. xs = ys @ zs \<and> au_Status (auth_run ys s) = AuthSessionStoring"
  using assms(2,4)
proof (induction xs rule: rev_induct)
  case Nil
  then show ?case using assms(3) by (simp add: auth_run_def)
next
  case (snoc x xs)
  let ?m = "auth_run xs s"
  obtain r t where x: "apply_auth_op x ?m = (r, t)" by (cases "apply_auth_op x ?m")
  have t: "auth_run (xs @ [x]) s = t" by (simp add: auth_run_def x [unfolded auth_run_def])
  have ok: "auth_ok ?m" "unat (au_Revision ?m) + 1 < 2 ^ 64"
    using auth_run_sound [OF assms(1), of xs] snoc.prems(1) by auto
  then have "au_Revision ?m \<noteq> -1" by (auto simp: unsigned_minus_1_eq_mask mask_eq_exp_minus_1)
  from auth_op_atomic [OF ok(1) this x] show ?case
  proof (elim disjE conjE)
    assume "t = ?m"
    then obtain ys zs where "xs = ys @ zs" "au_Status (auth_run ys s) = AuthSessionStoring"
      using snoc.IH snoc.prems t by auto
    then show ?thesis by (metis append.assoc)
  next
    assume "auth_step ?m t"
    then have "au_Status ?m = AuthSessionStoring"
      using snoc.prems(2) t by (auto simp: auth_step_def auth_allowed_def auth_waiting_def)
    then show ?thesis by blast
  qed
qed

lemma NewAuthSession_ok:
  assumes "NewAuthSession params now = Inr s"
  shows "auth_ok s \<and> au_Revision s = 1 \<and> au_Status s = AuthSessionCreated"
  using assms by (auto simp: NewAuthSession_def Let_def auth_ok_def split: option.splits if_splits)

lemma Validate_completed:
  assumes "AuthSession_Validate s = None" "au_Status s = AuthSessionCompleted"
  shows "(au_CredentialReference s \<noteq> [] \<and> au_CredentialRevision s > 0)
    \<or> (au_BrowserStateReference s \<noteq> [] \<and> validApplicationDigest (au_BrowserStateDigest s))"
proof -
  have "validate_completed s = None"
    using assms by (auto simp: AuthSession_Validate_def validate_status_def Let_def split: if_splits option.splits)
  then show ?thesis by (auto simp: validate_completed_def Let_def split: if_splits)
qed

section \<open>Properties\<close>

text \<open>Which operation may move a session from which status to which.\<close>

fun auth_move :: "auth_op \<Rightarrow> AuthSessionStatus \<Rightarrow> AuthSessionStatus \<Rightarrow> bool" where
  "auth_move (AuIdentifier now) a b \<longleftrightarrow> a = AuthSessionCreated \<and> b = AuthSessionWaitingIdentifier"
| "auth_move (AuChallenge challenge now) a b \<longleftrightarrow>
     a \<in> insert AuthSessionWaitingIdentifier (insert AuthSessionExchanging auth_waiting)
     \<and> (ch_Kind challenge = AuthChallengeOTP \<and> b = AuthSessionWaitingOTP
        \<or> ch_Kind challenge = AuthChallengePassword \<and> b = AuthSessionWaitingPassword
        \<or> ch_Kind challenge = AuthChallengeCaptcha \<and> b = AuthSessionWaitingCaptcha)"
| "auth_move (AuExchange now) a b \<longleftrightarrow>
     a \<in> insert AuthSessionWaitingIdentifier auth_waiting \<and> b = AuthSessionExchanging"
| "auth_move (AuStoring now) a b \<longleftrightarrow> a = AuthSessionExchanging \<and> b = AuthSessionStoring"
| "auth_move (AuComplete revision digest now) a b \<longleftrightarrow> a = AuthSessionStoring \<and> b = AuthSessionCompleted"
| "auth_move (AuFail category message now) a b \<longleftrightarrow> a \<notin> auth_terminal \<and> b = AuthSessionFailed"
| "auth_move (AuCancel now) a b \<longleftrightarrow> a \<notin> auth_terminal \<and> b = AuthSessionCancelled"
| "auth_move (AuExpire now) a b \<longleftrightarrow> a \<notin> auth_terminal \<and> b = AuthSessionExpired"

lemma auth_op_move:
  assumes "apply_auth_op x s = (None, s')"
  shows "s' = s \<or> auth_move x (au_Status s) (au_Status s')"
proof -
  have upd: "au_Status s' = au_Status (f (s\<lparr>au_Revision := au_Revision s + 1, au_UpdatedAt := now\<rparr>))"
    if "auth_update now f s = (None, s')" for now f
    using that by (auto simp: auth_update_def auth_advance_def split: if_splits)
  show ?thesis
  proof (cases x)
    case (AuIdentifier now)
    with assms show ?thesis by (auto simp: BeginIdentifier_def dest: upd split: if_splits)
  next
    case (AuChallenge challenge now)
    with assms have "s' = s \<or> au_Status s \<in> insert AuthSessionWaitingIdentifier (insert AuthSessionExchanging auth_waiting)
        \<and> AuthChallenge_Validate now challenge = None
        \<and> auth_update now (\<lambda>s. s\<lparr>au_Challenge := Some challenge,
             au_Status := authStatusForChallengeKind (ch_Kind challenge)\<rparr>) s = (None, s')"
      by (auto simp: RequireChallenge_def refuse_status_def auth_waiting_def split: if_splits option.splits)
    moreover have "ch_Kind challenge \<in> {AuthChallengeOTP, AuthChallengePassword, AuthChallengeCaptcha}"
      if "AuthChallenge_Validate now challenge = None"
      using that by (auto simp: AuthChallenge_Validate_def split: if_splits)
    ultimately show ?thesis
      using upd [of now] AuChallenge by (auto simp: authStatusForChallengeKind_def)
  next
    case (AuExchange now)
    with assms show ?thesis
      by (auto simp: BeginExchange_def refuse_status_def auth_waiting_def WaitingChallenge_def dest: upd split: if_splits)
  next
    case (AuStoring now)
    with assms show ?thesis by (auto simp: BeginStoring_def refuse_status_def dest: upd split: if_splits)
  next
    case (AuComplete revision digest now)
    with assms show ?thesis
      by (auto simp: AuthSession_Complete_def refuse_status_def Let_def dest: upd split: if_splits)
  next
    case (AuFail category message now)
    with assms show ?thesis
      by (auto simp: AuthSession_Fail_def refuse_status_def auth_terminal_def AuthSession_IsTerminal_def
          dest: upd split: if_splits option.splits)
  next
    case (AuCancel now)
    with assms show ?thesis
      by (auto simp: AuthSession_Cancel_def refuse_status_def auth_terminal_def AuthSession_IsTerminal_def
          dest: upd split: if_splits)
  next
    case (AuExpire now)
    with assms show ?thesis
      by (auto simp: AuthSession_Expire_def refuse_status_def auth_terminal_def AuthSession_IsTerminal_def
          dest: upd split: if_splits)
  qed
qed

lemma auth_step_of_run:
  assumes "auth_ok s" "unat (au_Revision s) + length xs < 2 ^ 64" "xs = ys @ x # zs"
    and "apply_auth_op x (auth_run ys s) = (r, s')"
  shows "s' = auth_run ys s \<or> r = None \<and> au_Revision s' = au_Revision (auth_run ys s) + 1
    \<and> auth_move x (au_Status (auth_run ys s)) (au_Status s')"
proof -
  have "auth_ok (auth_run ys s)" "unat (au_Revision (auth_run ys s)) + 1 < 2 ^ 64"
    using auth_run_sound [OF assms(1), of ys] assms(2,3) by auto
  then have "auth_ok (auth_run ys s)" "au_Revision (auth_run ys s) \<noteq> -1"
    by (auto simp: unsigned_minus_1_eq_mask mask_eq_exp_minus_1)
  from auth_op_atomic [OF this assms(4)] auth_op_move show ?thesis
    using assms(4) by (auto simp: auth_step_def)
qed

text \<open>A finished login refuses every operation and stays as it was.\<close>

lemma auth_final:
  assumes "au_Status s \<in> auth_terminal"
  shows "\<exists>e. apply_auth_op x s = (Some e, s)"
  using assms by (cases x) (auto simp: auth_terminal_def BeginIdentifier_def RequireChallenge_def
      BeginExchange_def BeginStoring_def AuthSession_Complete_def AuthSession_Fail_def AuthSession_Cancel_def
      AuthSession_Expire_def refuse_status_def WaitingChallenge_def AuthSession_IsTerminal_def)

lemma auth_run_final:
  assumes "au_Status s \<in> auth_terminal"
  shows "auth_run zs s = s"
  using assms
proof (induction zs)
  case (Cons x zs)
  obtain e where "apply_auth_op x s = (Some e, s)" using auth_final [OF Cons.prems] by blast
  with Cons show ?case by (simp add: auth_run_def)
qed (simp add: auth_run_def)

text \<open>
  C14. A login, whatever operations in whatever order its callers try. Each operation either leaves
  the session as it was, and always does when it fails, or moves it once along the status table: an
  identifier is asked for only in a created session; a challenge is required only while one is
  awaited or an exchange runs, and the session then waits for that kind of challenge; an exchange
  begins only from a waiting session, storing only from an exchange, completion only from storing;
  and failing, cancelling and expiring end only an unfinished session. A finished session stays
  exactly as it is. The session stays valid throughout, keeps its inputs and references, its stamp
  never goes back, no challenge outlives it, and a completed session has a stored credential or
  browser state and went through storing.
\<close>

theorem auth_life:
  assumes "NewAuthSession params now = Inr s" and "length xs < 2 ^ 64 - 1" and "t = auth_run xs s"
  shows "AuthSession_Validate t = None \<and> auth_steps s t
    \<and> (\<forall>ys x zs. xs = ys @ x # zs \<longrightarrow> (case apply_auth_op x (auth_run ys s) of (r, s') \<Rightarrow>
        s' = auth_run (ys @ [x]) s
        \<and> (s' = auth_run ys s \<or> r = None \<and> au_Revision s' = au_Revision (auth_run ys s) + 1
             \<and> auth_move x (au_Status (auth_run ys s)) (au_Status s'))))
    \<and> (\<forall>ys zs. xs = ys @ zs \<and> au_Status (auth_run ys s) \<in> auth_terminal \<longrightarrow> t = auth_run ys s)
    \<and> (\<forall>challenge. au_Challenge t = Some challenge \<longrightarrow> ch_Deadline challenge \<le> au_ExpiresAt s)
    \<and> (au_Status t = AuthSessionCompleted \<longrightarrow>
        ((au_CredentialReference s \<noteq> [] \<and> au_CredentialRevision t > 0)
         \<or> (au_BrowserStateReference s \<noteq> [] \<and> validApplicationDigest (au_BrowserStateDigest t)))
        \<and> (\<exists>ys zs. xs = ys @ zs \<and> au_Status (auth_run ys s) = AuthSessionStoring))"
proof -
  note new = NewAuthSession_ok [OF assms(1)]
  have bound: "unat (au_Revision s) + length xs < 2 ^ 64" using new assms(2) by simp
  note run = auth_run_sound [OF new [THEN conjunct1] bound, folded assms(3)]
  have refs: "sameAuthSessionInputs s t" "au_CredentialReference t = au_CredentialReference s"
    "au_BrowserStateReference t = au_BrowserStateReference s"
    using run by (auto simp: auth_steps_def)
  then have base: "au_ExpiresAt t = au_ExpiresAt s" by (simp add: sameAuthSessionInputs_def)
  have steps: "case apply_auth_op x (auth_run ys s) of (r, s') \<Rightarrow> s' = auth_run (ys @ [x]) s
        \<and> (s' = auth_run ys s \<or> r = None \<and> au_Revision s' = au_Revision (auth_run ys s) + 1
             \<and> auth_move x (au_Status (auth_run ys s)) (au_Status s'))"
    if "xs = ys @ x # zs" for ys x zs
    using auth_step_of_run [OF new [THEN conjunct1] bound that]
    by (cases "apply_auth_op x (auth_run ys s)") (simp add: auth_run_def)
  have final: "t = auth_run ys s" if "xs = ys @ zs" "au_Status (auth_run ys s) \<in> auth_terminal" for ys zs
    using auth_run_final [OF that(2), of zs] that(1) by (simp add: assms(3) auth_run_append)
  have valid: "AuthSession_Validate t = None"
    and chal: "\<forall>challenge. au_Challenge t = Some challenge \<longrightarrow> ch_Deadline challenge \<le> au_ExpiresAt s"
    using run by (simp_all add: auth_ok_def base)
  have comp: "((au_CredentialReference s \<noteq> [] \<and> au_CredentialRevision t > 0)
         \<or> (au_BrowserStateReference s \<noteq> [] \<and> validApplicationDigest (au_BrowserStateDigest t)))
        \<and> (\<exists>ys zs. xs = ys @ zs \<and> au_Status (auth_run ys s) = AuthSessionStoring)"
    if c: "au_Status t = AuthSessionCompleted"
    using Validate_completed [OF valid c] refs auth_run_storing [OF new [THEN conjunct1] bound] new c assms(3) by simp
  show ?thesis
    using valid run steps final chal comp by blast
qed

definition sample_login :: NewAuthSessionParams where
  "sample_login = \<lparr>nap_ID = ''a1'', nap_Platform = ''hh'', nap_ProfileID = ''p1'',
     nap_CredentialReference = ''cred'', nap_BrowserStateReference = [], nap_ExpiresAt = 100\<rparr>"

definition sample_otp :: AuthChallenge where
  "sample_otp = \<lparr>ch_ID = ''c1'', ch_Kind = AuthChallengeOTP, ch_MediaType = [], ch_Prompt = ''code'',
     ch_Deadline = 50\<rparr>"

definition sample_login_ops :: "auth_op list" where
  "sample_login_ops = [AuIdentifier 2, AuChallenge sample_otp 3, AuExchange 4, AuStoring 5, AuComplete 7 [] 6]"

definition sample_session :: AuthSession where
  "sample_session = \<lparr>au_ID = ''a1'', au_Platform = ''hh'', au_ProfileID = ''p1'',
     au_Status = AuthSessionCreated, au_Challenge = None, au_CredentialReference = ''cred'',
     au_CredentialRevision = 0, au_BrowserStateReference = [], au_BrowserStateDigest = [],
     au_FailureCategory = NoCategory, au_FailureMessage = [], au_Revision = 1, au_ExpiresAt = 100,
     au_CreatedAt = 1, au_UpdatedAt = 1\<rparr>"

lemma sample_session_start: "NewAuthSession sample_login 1 = Inr sample_session"
  by (simp add: NewAuthSession_def sample_login_def sample_session_def AuthSession_Validate_def
      validate_status_def TrimSpace_id space_heads_def space_lasts_def)

lemma sample_session_run: "au_Status (auth_run sample_login_ops sample_session) = AuthSessionCompleted"
proof -
  have prompt: "validateAuthText ''code'' n label = (if 4 > n then Some (Err (label @ '' is too long'')) else None)" for n label
    by (simp add: validateAuthText_def IsControl_def)
  show ?thesis
    by (simp add: auth_run_def sample_login_ops_def sample_session_def sample_otp_def prompt
        BeginIdentifier_def RequireChallenge_def BeginExchange_def BeginStoring_def AuthSession_Complete_def
        auth_update_def auth_advance_def AuthSession_Validate_def validate_status_def validate_completed_def
        AuthChallenge_Validate_def WaitingChallenge_def authStatusForChallengeKind_def
        challengeKindMatchesStatus_def challengeKindFromStatus_def
        TrimSpace_id space_heads_def space_lasts_def Let_def)
qed

theorem auth_life_witness:
  "\<exists>ys zs. sample_login_ops = ys @ zs \<and> au_Status (auth_run ys sample_session) = AuthSessionStoring"
  using auth_life [OF sample_session_start _ refl, of sample_login_ops] sample_session_run
  by (simp add: sample_login_ops_def)

end
