(* ===== verification/Conversation.thy ===== *)
theory Conversation
  imports Application
begin

text \<open>
  \<open>core/conversation.go\<close>: conversations with their messages, as the platform reports
  them and as the applicant sends them, and follow-ups, the timed reminders in a conversation.
  Every method checks its arguments before it changes its receiver, so an operation gives the
  changed record or an error. A revision is a 64-bit word.
\<close>

type_synonym ConversationID = string
type_synonym MessageID = string
type_synonym FollowUpID = string

section \<open>Messages\<close>

datatype ConversationStatus =
    ConversationActive | ConversationClosed | ConversationRejected | ConversationArchived
  | ConversationStatusOther string

definition NoConversationStatus :: ConversationStatus where
  "NoConversationStatus = ConversationStatusOther []"

definition known_conversation_status :: "ConversationStatus \<Rightarrow> bool" where
  "known_conversation_status s \<longleftrightarrow>
     s \<in> {ConversationActive, ConversationClosed, ConversationRejected, ConversationArchived}"

datatype MessageDirection = MessageIncoming | MessageOutgoing | MessageDirectionOther string

datatype MessageKind =
    MessageText | MessageSuggestion | MessageQuestionnaire | MessageSystem | MessageKindOther string

datatype MessageStatus =
    MessageObserved | MessageQueued | MessageSent | MessageFailed | MessageCancelled
  | MessageStatusOther string

record MessageOption =
  opt_ID :: string
  opt_Text :: string

record ConversationMessage =
  msg_ID :: MessageID
  msg_ConversationID :: ConversationID
  msg_ExternalID :: string
  msg_ReplyToID :: MessageID
  msg_Direction :: MessageDirection
  msg_Kind :: MessageKind
  msg_Status :: MessageStatus
  msg_Text :: string
  msg_Options :: "MessageOption list"
  msg_OccurredAt :: time

fun validate_options :: "nat \<Rightarrow> MessageOption list \<Rightarrow> error option" where
  "validate_options n [] = None"
| "validate_options n (x # xs) =
     (if TrimSpace (opt_ID x) = [] \<or> TrimSpace (opt_Text x) = []
      then Some (Err (''conversation message option '' @ FormatNat n @ '' requires id and text''))
      else validate_options (Suc n) xs)"

definition validate_direction :: "ConversationMessage \<Rightarrow> error option" where
  "validate_direction message =
     (case msg_Direction message of
        MessageIncoming \<Rightarrow>
          if msg_Status message \<noteq> MessageObserved
          then Some (Err ''incoming conversation message must be observed'') else None
      | MessageOutgoing \<Rightarrow>
          if msg_Status message \<notin> {MessageQueued, MessageSent, MessageFailed, MessageCancelled}
          then Some (Err ''outgoing conversation message has invalid status'') else None
      | MessageDirectionOther _ \<Rightarrow> Some (Err ''conversation message has invalid direction''))"

definition Message_Validate :: "ConversationMessage \<Rightarrow> error option" where
  "Message_Validate message =
     (if msg_ID message = [] \<or> msg_ConversationID message = []
      then Some (Err ''conversation message requires id and conversation id'')
      else if IsZero (msg_OccurredAt message) then Some (Err ''conversation message requires occurred_at'')
      else case validate_direction message of Some e \<Rightarrow> Some e | None \<Rightarrow>
      if msg_Kind message \<notin> {MessageText, MessageSuggestion, MessageQuestionnaire, MessageSystem}
      then Some (Err ''conversation message has invalid kind'')
      else if TrimSpace (msg_Text message) = [] \<and> msg_Options message = []
      then Some (Err ''conversation message requires text or options'')
      else validate_options 0 (msg_Options message))"

record MessageObservation =
  mob_ExternalID :: string
  mob_Direction :: MessageDirection
  mob_Kind :: MessageKind
  mob_Text :: string
  mob_Options :: "MessageOption list"
  mob_OccurredAt :: time

text \<open>The message of an observation is returned with the error of its validation.\<close>

definition Observation_Message ::
  "MessageObservation \<Rightarrow> MessageID \<Rightarrow> ConversationID \<Rightarrow> error option \<times> ConversationMessage" where
  "Observation_Message observation i conversationID =
     (let message = \<lparr>msg_ID = i, msg_ConversationID = conversationID, msg_ExternalID = mob_ExternalID observation,
            msg_ReplyToID = [], msg_Direction = mob_Direction observation, msg_Kind = mob_Kind observation,
            msg_Status = (if mob_Direction observation = MessageOutgoing then MessageSent else MessageObserved),
            msg_Text = mob_Text observation, msg_Options = mob_Options observation,
            msg_OccurredAt = mob_OccurredAt observation\<rparr>
      in (Message_Validate message, message))"

record ConversationObservation =
  cob_ExternalID :: string
  cob_Status :: ConversationStatus
  cob_UnreadCount :: int
  cob_LastMessage :: "MessageObservation option"

definition ConversationObservation_Validate :: "ConversationObservation \<Rightarrow> error option" where
  "ConversationObservation_Validate observation =
     (if TrimSpace (cob_ExternalID observation) = []
      then Some (Err ''conversation observation requires external id'')
      else if cob_UnreadCount observation < 0
      then Some (Err ''conversation observation unread count must not be negative'')
      else if \<not> known_conversation_status (cob_Status observation)
      then Some (Err ''conversation observation has invalid status'')
      else case cob_LastMessage observation of
        None \<Rightarrow> None
      | Some m \<Rightarrow> fst (Observation_Message m ''observation'' ''conversation''))"

section \<open>Conversations\<close>

record Conversation =
  conv_EmployerID :: string
  conv_ID :: ConversationID
  conv_Platform :: Platform
  conv_ProfileID :: ProfileID
  conv_ExternalID :: string
  conv_ApplicationID :: ApplicationID
  conv_VacancyTitle :: string
  conv_Employer :: string
  conv_VacancyURL :: string
  conv_UnreadCount :: int
  conv_Status :: ConversationStatus
  conv_LastMessageID :: MessageID
  conv_LastMessageAt :: "time option"
  conv_LastIncomingAt :: "time option"
  conv_LastOutgoingAt :: "time option"
  conv_LastReadAt :: "time option"
  conv_CreatedAt :: time
  conv_UpdatedAt :: time
  conv_Revision :: "64 word"

definition Conversation_Validate :: "Conversation \<Rightarrow> error option" where
  "Conversation_Validate conversation =
     (if conv_ID conversation = [] \<or> conv_Platform conversation = [] \<or> conv_ProfileID conversation = []
         \<or> TrimSpace (conv_ExternalID conversation) = []
      then Some (Err ''conversation requires id, platform, profile and external id'')
      else if \<not> known_conversation_status (conv_Status conversation)
      then Some (Err ''invalid conversation status'')
      else if conv_UnreadCount conversation < 0
      then Some (Err ''conversation unread count must not be negative'')
      else if IsZero (conv_CreatedAt conversation) \<or> conv_UpdatedAt conversation < conv_CreatedAt conversation
              \<or> conv_Revision conversation < 1
      then Some (Err ''conversation requires valid timestamps and revision'')
      else None)"

definition NewConversation ::
  "ConversationID \<Rightarrow> Platform \<Rightarrow> ProfileID \<Rightarrow> string \<Rightarrow> time \<Rightarrow> error + Conversation" where
  "NewConversation i platform profileID externalID now =
     (if i = [] \<or> platform = [] \<or> profileID = [] \<or> TrimSpace externalID = []
      then Inl (Err ''conversation requires id, platform, profile and external id'')
      else if IsZero now then Inl (Err ''conversation requires current time'')
      else Inr \<lparr>conv_EmployerID = [], conv_ID = i, conv_Platform = platform, conv_ProfileID = profileID,
        conv_ExternalID = externalID, conv_ApplicationID = [], conv_VacancyTitle = [], conv_Employer = [],
        conv_VacancyURL = [], conv_UnreadCount = 0, conv_Status = ConversationActive, conv_LastMessageID = [],
        conv_LastMessageAt = None, conv_LastIncomingAt = None, conv_LastOutgoingAt = None,
        conv_LastReadAt = None, conv_CreatedAt = now, conv_UpdatedAt = now, conv_Revision = 1\<rparr>)"

text \<open>\<open>UpdatedAt = now; Revision++\<close>, the end of every change.\<close>

definition conv_touch :: "time \<Rightarrow> Conversation \<Rightarrow> Conversation" where
  "conv_touch now conversation =
     conversation\<lparr>conv_UpdatedAt := now, conv_Revision := conv_Revision conversation + 1\<rparr>"

record ConversationPresentation =
  cp_Status :: ConversationStatus
  cp_EmployerID :: string
  cp_VacancyTitle :: string
  cp_Employer :: string
  cp_VacancyURL :: string

definition normalized :: "ConversationPresentation \<Rightarrow> ConversationPresentation" where
  "normalized p = p\<lparr>cp_VacancyTitle := TrimSpace (cp_VacancyTitle p), cp_Employer := TrimSpace (cp_Employer p),
     cp_EmployerID := TrimSpace (cp_EmployerID p), cp_VacancyURL := TrimSpace (cp_VacancyURL p)\<rparr>"

text \<open>A text of the presentation replaces the stored one unless it is empty.\<close>

definition presented :: "string \<Rightarrow> string \<Rightarrow> string" where
  "presented new old = (if new \<noteq> [] \<and> new \<noteq> old then new else old)"

definition present_fields :: "ConversationPresentation \<Rightarrow> Conversation \<Rightarrow> Conversation" where
  "present_fields p c =
     c\<lparr>conv_Status := (if cp_Status p \<noteq> NoConversationStatus \<and> cp_Status p \<noteq> conv_Status c
                        then cp_Status p else conv_Status c),
       conv_VacancyTitle := presented (cp_VacancyTitle p) (conv_VacancyTitle c),
       conv_Employer := presented (cp_Employer p) (conv_Employer c),
       conv_EmployerID := presented (cp_EmployerID p) (conv_EmployerID c),
       conv_VacancyURL := presented (cp_VacancyURL p) (conv_VacancyURL c)\<rparr>"

text \<open>The flag \<open>changed\<close> is set exactly when a field gets another value.\<close>

definition ObservePresentation ::
  "ConversationPresentation \<Rightarrow> time \<Rightarrow> Conversation \<Rightarrow> error + bool \<times> Conversation" where
  "ObservePresentation presentation now conversation =
     (if IsZero now \<or> now < conv_UpdatedAt conversation
      then Inl (Err ''conversation presentation time must not move backwards'')
      else let p = normalized presentation in
      if cp_Status p \<noteq> NoConversationStatus \<and> \<not> known_conversation_status (cp_Status p)
      then Inl (Err ''invalid conversation presentation status'')
      else let updated = present_fields p conversation in
      if updated = conversation then Inr (False, conversation)
      else Inr (True, conv_touch now updated))"

definition stale_observation :: "string \<Rightarrow> error" where
  "stale_observation what = ErrWrap what (ErrSentinel ErrConversationObservationStale)"

definition after_option :: "time \<Rightarrow> time option \<Rightarrow> bool" where
  "after_option t old = (case old of None \<Rightarrow> True | Some o' \<Rightarrow> t > o')"

text \<open>The newest incoming message that is known, stored or reported by the catalog.\<close>

definition newest_incoming :: "time option \<Rightarrow> Conversation \<Rightarrow> time option" where
  "newest_incoming observedIncomingAt conversation =
     (case observedIncomingAt of
        Some t \<Rightarrow> if after_option t (conv_LastIncomingAt conversation) then Some t
                  else conv_LastIncomingAt conversation
      | None \<Rightarrow> conv_LastIncomingAt conversation)"

text \<open>The counter is dropped when everything known was read.\<close>

definition effective_unread :: "int \<Rightarrow> time option \<Rightarrow> Conversation \<Rightarrow> int" where
  "effective_unread unreadCount observedIncomingAt conversation =
     (case conv_LastReadAt conversation of
        None \<Rightarrow> unreadCount
      | Some readAt \<Rightarrow>
          if unreadCount > 0 \<and> (case newest_incoming observedIncomingAt conversation of
               None \<Rightarrow> True | Some t \<Rightarrow> \<not> t > readAt)
          then 0 else unreadCount)"

definition ObserveCatalogState ::
  "ConversationStatus \<Rightarrow> int \<Rightarrow> time option \<Rightarrow> time \<Rightarrow> Conversation \<Rightarrow> error + bool \<times> Conversation" where
  "ObserveCatalogState status unreadCount observedIncomingAt now conversation =
     (if \<not> known_conversation_status status then Inl (Err ''invalid conversation status'')
      else if unreadCount < 0 then Inl (Err ''conversation unread count must not be negative'')
      else if IsZero now then Inl (Err ''conversation catalog observation requires current time'')
      else if now < conv_UpdatedAt conversation then Inl (stale_observation ''conversation catalog observation'')
      else let unread = effective_unread unreadCount observedIncomingAt conversation in
      if conv_Status conversation = status \<and> conv_UnreadCount conversation = unread
      then Inr (False, conversation)
      else Inr (True, conv_touch now (conversation\<lparr>conv_Status := status, conv_UnreadCount := unread\<rparr>)))"

definition MarkRead :: "time \<Rightarrow> Conversation \<Rightarrow> error + bool \<times> Conversation" where
  "MarkRead now conversation =
     (let hadUnread = conv_UnreadCount conversation > 0 in
      case ObserveCatalogState (conv_Status conversation) 0 None now conversation of
        Inl e \<Rightarrow> Inl e
      | Inr (changed, c) \<Rightarrow>
          if \<not> hadUnread \<and> conv_LastReadAt c \<noteq> None then Inr (changed, c)
          else if \<not> after_option now (conv_LastReadAt c) then Inr (changed, c)
          else let c' = c\<lparr>conv_LastReadAt := Some now\<rparr>
               in Inr (True, if changed then c' else conv_touch now c'))"

text \<open>A message that is not the last known one moves the marks it is newer than.\<close>

definition observe_marks :: "ConversationMessage \<Rightarrow> Conversation \<Rightarrow> Conversation" where
  "observe_marks message c =
     (let t = msg_OccurredAt message;
          c1 = (if (case conv_LastMessageAt c of None \<Rightarrow> True | Some newest \<Rightarrow> \<not> t < newest)
                then c\<lparr>conv_LastMessageID := msg_ID message, conv_LastMessageAt := Some t\<rparr> else c)
      in if msg_Direction message = MessageIncoming
         then (if after_option t (conv_LastIncomingAt c1) then c1\<lparr>conv_LastIncomingAt := Some t\<rparr> else c1)
         else if msg_Status message = MessageSent
         then (if after_option t (conv_LastOutgoingAt c1) then c1\<lparr>conv_LastOutgoingAt := Some t\<rparr> else c1)
         else c1)"

definition Observe :: "ConversationMessage \<Rightarrow> time \<Rightarrow> Conversation \<Rightarrow> error + bool \<times> Conversation" where
  "Observe message now conversation =
     (case Message_Validate message of Some e \<Rightarrow> Inl e | None \<Rightarrow>
      if msg_ConversationID message \<noteq> conv_ID conversation
      then Inl (Err ''message belongs to another conversation'')
      else if IsZero now then Inl (Err ''conversation observation requires current time'')
      else if now < conv_UpdatedAt conversation then Inl (stale_observation ''conversation observation'')
      else if conv_LastMessageID conversation = msg_ID message then Inr (False, conversation)
      else Inr (True, conv_touch now (observe_marks message conversation)))"

definition SetStatus :: "ConversationStatus \<Rightarrow> time \<Rightarrow> Conversation \<Rightarrow> error + Conversation" where
  "SetStatus status now conversation =
     (if \<not> known_conversation_status status then Inl (Err ''invalid conversation status'')
      else if IsZero now \<or> now < conv_UpdatedAt conversation
      then Inl (Err ''conversation status time must not move backwards'')
      else if conv_Status conversation = status then Inr conversation
      else Inr (conv_touch now (conversation\<lparr>conv_Status := status\<rparr>)))"

end
