(* ===== verification/FollowUp.thy ===== *)
theory FollowUp
  imports Conversation
begin

text \<open>
  \<open>core/conversation.go\<close>, follow-ups: a reminder that is scheduled for an instant in a
  conversation, queued once it is due, and then sent, cancelled, failed or expired.
\<close>

record MessageContent =
  mc_Text :: string
  mc_TemplateTag :: string
  mc_OperatorTag :: string

definition MessageContent_Validate :: "MessageContent \<Rightarrow> error option" where
  "MessageContent_Validate content =
     (if length (filter (\<lambda>v. TrimSpace v \<noteq> []) [mc_Text content, mc_TemplateTag content, mc_OperatorTag content]) \<noteq> 1
      then Some (Err ''message content requires exactly one of text, template or operator'') else None)"

datatype FollowUpStatus =
    FollowUpScheduled | FollowUpQueued | FollowUpSent | FollowUpCancelled | FollowUpFailed | FollowUpExpired
  | FollowUpStatusOther string

fun follow_up_status_text :: "FollowUpStatus \<Rightarrow> string" where
  "follow_up_status_text FollowUpScheduled = ''scheduled''"
| "follow_up_status_text FollowUpQueued = ''queued''"
| "follow_up_status_text FollowUpSent = ''sent''"
| "follow_up_status_text FollowUpCancelled = ''cancelled''"
| "follow_up_status_text FollowUpFailed = ''failed''"
| "follow_up_status_text FollowUpExpired = ''expired''"
| "follow_up_status_text (FollowUpStatusOther s) = s"

datatype FollowUpSelectionStrategy =
    FollowUpSelectOldestUnanswered | FollowUpSelectNewestUnanswered | FollowUpSelectRandom
  | FollowUpSelectLongestSilence | FollowUpSelectOther string

definition Strategy_Validate :: "FollowUpSelectionStrategy \<Rightarrow> error option" where
  "Strategy_Validate strategy =
     (case strategy of
        FollowUpSelectOther s \<Rightarrow> Some (Err (''invalid follow-up selection strategy '' @ quoted s))
      | _ \<Rightarrow> None)"

datatype FollowUpCancelReason =
    FollowUpIncomingReceived | FollowUpConversationInactive | FollowUpApplicationTerminal
  | FollowUpSuperseded | FollowUpUserRequested | FollowUpPolicyDenied | FollowUpReasonOther string

definition NoReason :: FollowUpCancelReason where
  "NoReason = FollowUpReasonOther []"

record FollowUpPolicy =
  fp_CancelOnIncoming :: bool
  fp_RequireActiveConversation :: bool
  fp_MaxFollowUps :: int
  fp_Cooldown :: duration

definition FollowUpPolicy_Validate :: "FollowUpPolicy \<Rightarrow> error option" where
  "FollowUpPolicy_Validate policy =
     (if fp_MaxFollowUps policy < 1 then Some (Err ''follow-up policy requires a positive max_follow_ups'')
      else if fp_Cooldown policy < 0 then Some (Err ''follow-up policy cooldown must not be negative'')
      else None)"

record FollowUp =
  fu_ID :: FollowUpID
  fu_ConversationID :: ConversationID
  fu_ProfileID :: ProfileID
  fu_Platform :: Platform
  fu_AnchorMessageID :: MessageID
  fu_AnchorAt :: time
  fu_RunAt :: time
  fu_Deadline :: "time option"
  fu_Content :: MessageContent
  fu_Policy :: FollowUpPolicy
  fu_Status :: FollowUpStatus
  fu_IdempotencyKey :: string
  fu_SentMessageID :: MessageID
  fu_CancelReason :: FollowUpCancelReason
  fu_FailureMessage :: string
  fu_CreatedAt :: time
  fu_UpdatedAt :: time
  fu_Revision :: "64 word"

record NewFollowUpParams =
  nfp_ID :: FollowUpID
  nfp_ConversationID :: ConversationID
  nfp_ProfileID :: ProfileID
  nfp_Platform :: Platform
  nfp_AnchorMessageID :: MessageID
  nfp_AnchorAt :: time
  nfp_RunAt :: time
  nfp_Deadline :: "time option"
  nfp_Content :: MessageContent
  nfp_Policy :: FollowUpPolicy
  nfp_IdempotencyKey :: string

text \<open>A deadline that is not after an instant.\<close>

definition deadline_passed :: "time option \<Rightarrow> time \<Rightarrow> bool" where
  "deadline_passed deadline t = (case deadline of None \<Rightarrow> False | Some d \<Rightarrow> \<not> d > t)"

definition FollowUp_Validate :: "FollowUp \<Rightarrow> error option" where
  "FollowUp_Validate f =
     (if fu_ID f = [] \<or> fu_ConversationID f = [] \<or> fu_ProfileID f = [] \<or> fu_Platform f = []
         \<or> TrimSpace (fu_IdempotencyKey f) = []
      then Some (Err ''follow-up requires id, conversation, profile, platform and idempotency key'')
      else if IsZero (fu_AnchorAt f) \<or> IsZero (fu_CreatedAt f) \<or> fu_RunAt f < fu_AnchorAt f
              \<or> fu_RunAt f < fu_CreatedAt f \<or> fu_UpdatedAt f < fu_CreatedAt f \<or> fu_Revision f < 1
      then Some (Err ''follow-up requires valid timestamps and revision'')
      else if deadline_passed (fu_Deadline f) (fu_RunAt f)
      then Some (Err ''follow-up deadline must be after run time'')
      else case MessageContent_Validate (fu_Content f) of Some e \<Rightarrow> Some e | None \<Rightarrow>
      case FollowUpPolicy_Validate (fu_Policy f) of Some e \<Rightarrow> Some e | None \<Rightarrow>
      if fu_Status f \<notin> {FollowUpScheduled, FollowUpQueued, FollowUpSent, FollowUpCancelled, FollowUpFailed, FollowUpExpired}
      then Some (Err ''invalid follow-up status'')
      else if fu_Status f = FollowUpSent \<and> fu_SentMessageID f = []
      then Some (Err ''sent follow-up requires sent message id'')
      else if fu_Status f = FollowUpCancelled \<and> fu_CancelReason f = NoReason
      then Some (Err ''cancelled follow-up requires cancellation reason'')
      else if fu_Status f = FollowUpFailed \<and> TrimSpace (fu_FailureMessage f) = []
      then Some (Err ''failed follow-up requires failure message'')
      else None)"

definition NewFollowUp :: "NewFollowUpParams \<Rightarrow> time \<Rightarrow> error option \<times> FollowUp option" where
  "NewFollowUp params now =
     (if nfp_ID params = [] \<or> nfp_ConversationID params = [] \<or> nfp_ProfileID params = []
         \<or> nfp_Platform params = [] \<or> TrimSpace (nfp_IdempotencyKey params) = []
      then (Some (Err ''follow-up requires id, conversation, profile, platform and idempotency key''), None)
      else if IsZero now \<or> IsZero (nfp_AnchorAt params) \<or> IsZero (nfp_RunAt params)
      then (Some (Err ''follow-up requires current, anchor and run times''), None)
      else if nfp_RunAt params < now \<or> nfp_RunAt params < nfp_AnchorAt params
      then (Some (Err ''follow-up run time must not precede creation or anchor''), None)
      else if deadline_passed (nfp_Deadline params) (nfp_RunAt params)
      then (Some (Err ''follow-up deadline must be after run time''), None)
      else case MessageContent_Validate (nfp_Content params) of Some e \<Rightarrow> (Some e, None) | None \<Rightarrow>
      case FollowUpPolicy_Validate (nfp_Policy params) of Some e \<Rightarrow> (Some e, None) | None \<Rightarrow>
      let f = \<lparr>fu_ID = nfp_ID params, fu_ConversationID = nfp_ConversationID params,
            fu_ProfileID = nfp_ProfileID params, fu_Platform = nfp_Platform params,
            fu_AnchorMessageID = nfp_AnchorMessageID params, fu_AnchorAt = nfp_AnchorAt params,
            fu_RunAt = nfp_RunAt params, fu_Deadline = nfp_Deadline params, fu_Content = nfp_Content params,
            fu_Policy = nfp_Policy params, fu_Status = FollowUpScheduled,
            fu_IdempotencyKey = nfp_IdempotencyKey params, fu_SentMessageID = [], fu_CancelReason = NoReason,
            fu_FailureMessage = [], fu_CreatedAt = now, fu_UpdatedAt = now, fu_Revision = 1\<rparr>
      in (FollowUp_Validate f, Some f))"

text \<open>The guard that runs again immediately before a send.\<close>

definition CancellationFor :: "FollowUp \<Rightarrow> Conversation \<Rightarrow> error + FollowUpCancelReason \<times> bool" where
  "CancellationFor f conversation =
     (if conv_ID conversation \<noteq> fu_ConversationID f \<or> conv_ProfileID conversation \<noteq> fu_ProfileID f
         \<or> conv_Platform conversation \<noteq> fu_Platform f
      then Inl (Err ''follow-up and conversation identity mismatch'')
      else if fp_RequireActiveConversation (fu_Policy f) \<and> conv_Status conversation \<noteq> ConversationActive
      then Inr (FollowUpConversationInactive, True)
      else if fp_CancelOnIncoming (fu_Policy f)
              \<and> (case conv_LastIncomingAt conversation of None \<Rightarrow> False | Some t \<Rightarrow> t > fu_AnchorAt f)
      then Inr (FollowUpIncomingReceived, True)
      else Inr (NoReason, False))"

definition followUpAllowed :: "FollowUpStatus \<Rightarrow> FollowUpStatus \<Rightarrow> bool" where
  "followUpAllowed from to \<longleftrightarrow>
     (from = FollowUpScheduled \<and> to \<in> {FollowUpQueued, FollowUpCancelled, FollowUpExpired})
     \<or> (from = FollowUpQueued \<and> to \<in> {FollowUpSent, FollowUpCancelled, FollowUpFailed, FollowUpExpired})"

definition FollowUp_transition :: "FollowUpStatus \<Rightarrow> time \<Rightarrow> FollowUp \<Rightarrow> error + FollowUp" where
  "FollowUp_transition to now f =
     (if IsZero now \<or> now < fu_UpdatedAt f
      then Inl (Err ''follow-up transition time must not move backwards'')
      else if \<not> followUpAllowed (fu_Status f) to
      then Inl (Err (''follow-up transition '' @ follow_up_status_text (fu_Status f) @ '' -> ''
             @ follow_up_status_text to @ '' is not allowed''))
      else Inr (f\<lparr>fu_Status := to, fu_UpdatedAt := now, fu_Revision := fu_Revision f + 1\<rparr>))"

definition FollowUp_Queue :: "time \<Rightarrow> FollowUp \<Rightarrow> error + FollowUp" where
  "FollowUp_Queue now f =
     (if now < fu_RunAt f then Inl (Err ''follow-up is not due'')
      else if deadline_passed (fu_Deadline f) now then Inl (Err ''follow-up deadline has expired'')
      else FollowUp_transition FollowUpQueued now f)"

definition MarkSent :: "MessageID \<Rightarrow> time \<Rightarrow> FollowUp \<Rightarrow> error + FollowUp" where
  "MarkSent messageID now f =
     (if messageID = [] then Inl (Err ''sent follow-up requires message id'')
      else case FollowUp_transition FollowUpSent now f of
        Inl e \<Rightarrow> Inl e | Inr f' \<Rightarrow> Inr (f'\<lparr>fu_SentMessageID := messageID\<rparr>))"

definition FollowUp_Cancel :: "FollowUpCancelReason \<Rightarrow> time \<Rightarrow> FollowUp \<Rightarrow> error + FollowUp" where
  "FollowUp_Cancel reason now f =
     (if reason \<notin> {FollowUpIncomingReceived, FollowUpConversationInactive, FollowUpApplicationTerminal,
           FollowUpSuperseded, FollowUpUserRequested, FollowUpPolicyDenied}
      then Inl (Err ''follow-up cancellation requires a valid reason'')
      else case FollowUp_transition FollowUpCancelled now f of
        Inl e \<Rightarrow> Inl e | Inr f' \<Rightarrow> Inr (f'\<lparr>fu_CancelReason := reason\<rparr>))"

definition MarkFailed :: "string \<Rightarrow> time \<Rightarrow> FollowUp \<Rightarrow> error + FollowUp" where
  "MarkFailed message now f =
     (if TrimSpace message = [] then Inl (Err ''failed follow-up requires failure message'')
      else case FollowUp_transition FollowUpFailed now f of
        Inl e \<Rightarrow> Inl e | Inr f' \<Rightarrow> Inr (f'\<lparr>fu_FailureMessage := message\<rparr>))"

definition FollowUp_Expire :: "time \<Rightarrow> FollowUp \<Rightarrow> error + FollowUp" where
  "FollowUp_Expire now f = FollowUp_transition FollowUpExpired now f"

definition Reschedule :: "time \<Rightarrow> time option \<Rightarrow> 64 word \<Rightarrow> time \<Rightarrow> FollowUp \<Rightarrow> error + FollowUp" where
  "Reschedule runAt deadline expectedRevision now f =
     (if fu_Status f \<noteq> FollowUpScheduled then Inl (Err ''only a scheduled follow-up can be rescheduled'')
      else if fu_Revision f \<noteq> expectedRevision then Inl (Err ''follow-up revision conflict'')
      else if IsZero now \<or> now < fu_UpdatedAt f \<or> runAt < now
      then Inl (Err ''invalid follow-up reschedule time'')
      else if deadline_passed deadline runAt then Inl (Err ''follow-up deadline must be after run time'')
      else Inr (f\<lparr>fu_RunAt := runAt, fu_Deadline := deadline, fu_UpdatedAt := now,
             fu_Revision := fu_Revision f + 1\<rparr>))"

end
