(* ===== verification/ApplicationStore.thy ===== *)
theory ApplicationStore
  imports Application
begin

text \<open>
  \<open>storage/memory/repository.go\<close>, the maps of vacancies, discoveries and applications. Each
  operation takes the maps it touches and returns the one it changes.
\<close>

type_synonym Vacancies = "(VacancyKey \<times> Vacancy) list"
type_synonym Applications = "(ApplicationKey \<times> Application) list"
type_synonym Tombstones = "(ApplicationKey \<times> ApplicationTombstone) list"
type_synonym PlatformStates = "(ApplicationID \<times> ApplicationPlatformState) list"
type_synonym discoveryKey = "VacancyKey \<times> SearchID \<times> ProfileID"
type_synonym Discoveries = "(discoveryKey \<times> VacancyDiscovery) list"

section \<open>Vacancies\<close>

definition UpsertVacancy :: "ctx \<Rightarrow> Vacancy \<Rightarrow> Vacancies \<Rightarrow> (error + bool) \<times> Vacancies" where
  "UpsertVacancy ctx vacancy vacancies =
     (case ctx of Some e \<Rightarrow> (Inl e, vacancies) | None \<Rightarrow>
      case Vacancy_Validate vacancy of Some e \<Rightarrow> (Inl e, vacancies) | None \<Rightarrow>
      case map_of vacancies (Vacancy_Key vacancy) of
        Some existing \<Rightarrow>
          if vac_ObservedAt existing > vac_ObservedAt vacancy then (Inr False, vacancies)
          else (Inr False, AList.update (Vacancy_Key vacancy) vacancy vacancies)
      | None \<Rightarrow> (Inr True, AList.update (Vacancy_Key vacancy) vacancy vacancies))"

definition GetVacancy :: "ctx \<Rightarrow> VacancyKey \<Rightarrow> Vacancies \<Rightarrow> error + Vacancy" where
  "GetVacancy ctx key vacancies =
     (case ctx of Some e \<Rightarrow> Inl e | None \<Rightarrow>
      case VacancyKey_Validate key of Some e \<Rightarrow> Inl e | None \<Rightarrow>
      case map_of vacancies key of None \<Rightarrow> Inl (Err ''vacancy not found'') | Some v \<Rightarrow> Inr v)"

definition RecordDiscovery :: "ctx \<Rightarrow> VacancyDiscovery \<Rightarrow> Discoveries \<Rightarrow> (error + bool) \<times> Discoveries" where
  "RecordDiscovery ctx discovery discoveries =
     (case ctx of Some e \<Rightarrow> (Inl e, discoveries) | None \<Rightarrow>
      case VacancyDiscovery_Validate discovery of Some e \<Rightarrow> (Inl e, discoveries) | None \<Rightarrow>
      let key = (vd_VacancyKey discovery, vd_SearchID discovery, vd_ProfileID discovery) in
      if map_of discoveries key \<noteq> None then (Inr False, discoveries)
      else (Inr True, AList.update key discovery discoveries))"

section \<open>Applications\<close>

definition CreateApplication ::
  "ctx \<Rightarrow> Application \<Rightarrow> Tombstones \<Rightarrow> Applications \<Rightarrow> (error + Application \<times> bool) \<times> Applications" where
  "CreateApplication ctx candidate tombstones apps =
     (case ctx of Some e \<Rightarrow> (Inl e, apps) | None \<Rightarrow>
      if app_ID candidate = [] then (Inl (Err ''application requires id''), apps)
      else case ApplicationKey_Validate (app_Key candidate) of Some e \<Rightarrow> (Inl e, apps) | None \<Rightarrow>
      if app_Status candidate \<noteq> ApplicationNew \<or> IsZero (app_CreatedAt candidate) \<or> IsZero (app_UpdatedAt candidate)
      then (Inl (Err ''application repository accepts only initialized new applications''), apps)
      else if map_of tombstones (app_Key candidate) \<noteq> None then (Inl (ErrSentinel ErrApplicationRemoved), apps)
      else case map_of apps (app_Key candidate) of
        Some stored \<Rightarrow> (Inr (stored, False), apps)
      | None \<Rightarrow> (Inr (candidate, True), AList.update (app_Key candidate) candidate apps))"

definition GetApplication :: "ctx \<Rightarrow> ApplicationKey \<Rightarrow> Applications \<Rightarrow> error + Application" where
  "GetApplication ctx key apps =
     (case ctx of Some e \<Rightarrow> Inl e | None \<Rightarrow>
      case ApplicationKey_Validate key of Some e \<Rightarrow> Inl e | None \<Rightarrow>
      case map_of apps key of None \<Rightarrow> Inl (Err ''application not found'') | Some a \<Rightarrow> Inr a)"

definition SaveApplication ::
  "ctx \<Rightarrow> Application \<Rightarrow> ApplicationStatus \<Rightarrow> Applications \<Rightarrow> error option \<times> Applications" where
  "SaveApplication ctx candidate expectedStatus apps =
     (case ctx of Some e \<Rightarrow> (Some e, apps) | None \<Rightarrow>
      if app_ID candidate = [] \<or> expectedStatus = ApplicationStatusOther []
      then (Some (Err ''application save requires id and expected status''), apps)
      else case ApplicationKey_Validate (app_Key candidate) of Some e \<Rightarrow> (Some e, apps) | None \<Rightarrow>
      case map_of apps (app_Key candidate) of
        None \<Rightarrow> (Some (ErrSentinel ErrRevisionConflict), apps)
      | Some stored \<Rightarrow>
          if app_ID stored \<noteq> app_ID candidate \<or> app_Status stored \<noteq> expectedStatus
          then (Some (ErrSentinel ErrRevisionConflict), apps)
          else (None, AList.update (app_Key candidate) candidate apps))"

text \<open>The loop returns the first application with the identifier that it meets.\<close>

definition applicationsByID :: "ApplicationID \<Rightarrow> Applications \<Rightarrow> Application option" where
  "applicationsByID i apps = find (\<lambda>a. app_ID a = i) (map snd apps)"

definition ApplicationByID :: "ctx \<Rightarrow> ApplicationID \<Rightarrow> Applications \<Rightarrow> error + Application" where
  "ApplicationByID ctx i apps =
     (case ctx of Some e \<Rightarrow> Inl e | None \<Rightarrow>
      if i = [] then Inl (Err ''application id is required'')
      else case applicationsByID i apps of None \<Rightarrow> Inl (Err ''application not found'') | Some a \<Rightarrow> Inr a)"

record ApplicationFilter =
  af_ProfileID :: ProfileID
  af_Status :: ApplicationStatus
  af_Limit :: int

definition ListApplications :: "ctx \<Rightarrow> ApplicationFilter \<Rightarrow> Applications \<Rightarrow> error + Application list" where
  "ListApplications ctx f apps =
     (case ctx of Some e \<Rightarrow> Inl e | None \<Rightarrow>
      if af_Limit f < 1 \<or> af_Limit f > 500 then Inl (Err ''application limit must be between 1 and 500'')
      else Inr (take (nat (af_Limit f)) (sort_Slice
        (\<lambda>a b. if app_UpdatedAt a \<noteq> app_UpdatedAt b then app_UpdatedAt a > app_UpdatedAt b else app_ID a > app_ID b)
        (filter (\<lambda>a. (af_ProfileID f = [] \<or> ak_ProfileID (app_Key a) = af_ProfileID f)
           \<and> (af_Status f = ApplicationStatusOther [] \<or> app_Status a = af_Status f)) (map snd apps)))))"

definition submitted_order :: "Application \<Rightarrow> Application \<Rightarrow> bool" where
  "submitted_order a b =
     (case (app_SubmittedAt a, app_SubmittedAt b) of
        (None, None) \<Rightarrow> app_ID a < app_ID b
      | (None, Some _) \<Rightarrow> True
      | (Some _, None) \<Rightarrow> False
      | (Some s, Some t) \<Rightarrow> if s = t then app_ID a < app_ID b else s < t)"

definition ListApplicationsForRetention :: "ctx \<Rightarrow> ProfileID \<Rightarrow> Applications \<Rightarrow> error + Application list" where
  "ListApplicationsForRetention ctx profileID apps =
     (case ctx of Some e \<Rightarrow> Inl e | None \<Rightarrow>
      if profileID = [] then Inl (Err ''application retention requires profile'')
      else Inr (sort_Slice submitted_order
        (filter (\<lambda>a. ak_ProfileID (app_Key a) = profileID \<and> app_Status a = ApplicationSubmitted) (map snd apps))))"

definition ListStaleValidationApplications :: "ctx \<Rightarrow> ProfileID \<Rightarrow> Applications \<Rightarrow> error + Application list" where
  "ListStaleValidationApplications ctx profileID apps =
     (case ctx of Some e \<Rightarrow> Inl e | None \<Rightarrow>
      if profileID = [] then Inl (Err ''application retention requires profile'')
      else Inr (sort_Slice
        (\<lambda>a b. if app_UpdatedAt a \<noteq> app_UpdatedAt b then app_UpdatedAt a < app_UpdatedAt b else app_ID a < app_ID b)
        (filter (\<lambda>a. ak_ProfileID (app_Key a) = profileID
           \<and> app_Status a \<in> {ApplicationWaitingValidation, ApplicationSkipped}) (map snd apps))))"

section \<open>States observed on the platform\<close>

definition SaveApplicationPlatformState ::
  "ctx \<Rightarrow> ApplicationPlatformState \<Rightarrow> Applications \<Rightarrow> PlatformStates \<Rightarrow> error option \<times> PlatformStates" where
  "SaveApplicationPlatformState ctx candidate apps states =
     (case ctx of Some e \<Rightarrow> (Some e, states) | None \<Rightarrow>
      case ApplicationPlatformState_Validate candidate of Some e \<Rightarrow> (Some e, states) | None \<Rightarrow>
      if applicationsByID (aps_ApplicationID candidate) apps = None then (Some (Err ''application not found''), states)
      else if (case map_of states (aps_ApplicationID candidate) of
                 Some existing \<Rightarrow> aps_ObservedAt existing > aps_ObservedAt candidate | None \<Rightarrow> False)
      then (None, states)
      else (None, AList.update (aps_ApplicationID candidate) candidate states))"

definition GetApplicationPlatformState ::
  "ctx \<Rightarrow> ApplicationID \<Rightarrow> PlatformStates \<Rightarrow> error + ApplicationPlatformState" where
  "GetApplicationPlatformState ctx i states =
     (case ctx of Some e \<Rightarrow> Inl e | None \<Rightarrow>
      case map_of states i of None \<Rightarrow> Inl (Err ''application platform state not found'') | Some s \<Rightarrow> Inr s)"

end
