(* ===== verification/ConversationStore.thy ===== *)
theory ConversationStore
  imports FollowUp GoCrypto ApplicationStore
begin

text \<open>
  \<open>storage/memory/conversation.go\<close>: the repository's maps of conversations, their index by
  the platform's identifiers, the messages of each conversation, and the follow-ups with their
  idempotency keys. \<open>strings.ToLower\<close> follows Unicode tables; it is the argument
  \<open>lower\<close>.
\<close>

section \<open>State\<close>

type_synonym external_key = "Platform \<times> ProfileID \<times> string"
type_synonym Messages = "(MessageID \<times> ConversationMessage) list"

record Chats =
  ch_conversations :: "(ConversationID \<times> Conversation) list"
  ch_external :: "(external_key \<times> ConversationID) list"
  ch_messages :: "(ConversationID \<times> Messages) list"
  ch_followUps :: "(FollowUpID \<times> FollowUp) list"
  ch_followUpKeys :: "(string \<times> FollowUpID) list"

definition no_chats :: Chats where
  "no_chats = \<lparr>ch_conversations = [], ch_external = [], ch_messages = [], ch_followUps = [], ch_followUpKeys = []\<rparr>"

text \<open>What reading a missing key of a Go map yields.\<close>

definition zero_Conversation :: Conversation where
  "zero_Conversation = \<lparr>conv_EmployerID = [], conv_ID = [], conv_Platform = [], conv_ProfileID = [],
     conv_ExternalID = [], conv_ApplicationID = [], conv_VacancyTitle = [], conv_Employer = [],
     conv_VacancyURL = [], conv_UnreadCount = 0, conv_Status = NoConversationStatus, conv_LastMessageID = [],
     conv_LastMessageAt = None, conv_LastIncomingAt = None, conv_LastOutgoingAt = None,
     conv_LastReadAt = None, conv_CreatedAt = 0, conv_UpdatedAt = 0, conv_Revision = 0\<rparr>"

definition zero_FollowUp :: FollowUp where
  "zero_FollowUp = \<lparr>fu_ID = [], fu_ConversationID = [], fu_ProfileID = [], fu_Platform = [], fu_AnchorMessageID = [],
     fu_AnchorAt = 0, fu_RunAt = 0, fu_Deadline = None,
     fu_Content = \<lparr>mc_Text = [], mc_TemplateTag = [], mc_OperatorTag = []\<rparr>,
     fu_Policy = \<lparr>fp_CancelOnIncoming = False, fp_RequireActiveConversation = False, fp_MaxFollowUps = 0, fp_Cooldown = 0\<rparr>,
     fu_Status = FollowUpStatusOther [], fu_IdempotencyKey = [], fu_SentMessageID = [], fu_CancelReason = NoReason,
     fu_FailureMessage = [], fu_CreatedAt = 0, fu_UpdatedAt = 0, fu_Revision = 0\<rparr>"

definition external_of :: "Conversation \<Rightarrow> external_key" where
  "external_of c = (conv_Platform c, conv_ProfileID c, conv_ExternalID c)"

definition messages_of :: "ConversationID \<Rightarrow> Chats \<Rightarrow> Messages" where
  "messages_of i chats = (case map_of (ch_messages chats) i of None \<Rightarrow> [] | Some ms \<Rightarrow> ms)"

section \<open>Comparing\<close>

definition sameConversationIdentity :: "Conversation \<Rightarrow> Conversation \<Rightarrow> bool" where
  "sameConversationIdentity a b \<longleftrightarrow> conv_ID a = conv_ID b \<and> conv_Platform a = conv_Platform b
     \<and> conv_ProfileID a = conv_ProfileID b \<and> conv_ExternalID a = conv_ExternalID b
     \<and> conv_ApplicationID a = conv_ApplicationID b"

definition sameConversationTimeline :: "Conversation \<Rightarrow> Conversation \<Rightarrow> bool" where
  "sameConversationTimeline a b \<longleftrightarrow> conv_CreatedAt a = conv_CreatedAt b \<and> conv_LastMessageID a = conv_LastMessageID b
     \<and> conv_LastMessageAt a = conv_LastMessageAt b \<and> conv_LastIncomingAt a = conv_LastIncomingAt b
     \<and> conv_LastOutgoingAt a = conv_LastOutgoingAt b"

definition sameMessageReply :: "MessageID \<Rightarrow> MessageID \<Rightarrow> bool" where
  "sameMessageReply a b \<longleftrightarrow> a = b \<or> a = [] \<or> b = []"

text \<open>\<open>Truncate(time.Millisecond)\<close> counts from the zero instant.\<close>

definition sameMessageTime :: "time \<Rightarrow> time \<Rightarrow> bool" where
  "sameMessageTime a b \<longleftrightarrow> a div 1000000 = b div 1000000"

definition sameMessagePayload :: "ConversationMessage \<Rightarrow> ConversationMessage \<Rightarrow> bool" where
  "sameMessagePayload a b \<longleftrightarrow> msg_ConversationID a = msg_ConversationID b \<and> msg_ExternalID a = msg_ExternalID b
     \<and> sameMessageReply (msg_ReplyToID a) (msg_ReplyToID b) \<and> msg_Direction a = msg_Direction b
     \<and> msg_Kind a = msg_Kind b \<and> msg_Status a = msg_Status b \<and> msg_Text a = msg_Text b
     \<and> sameMessageTime (msg_OccurredAt a) (msg_OccurredAt b) \<and> msg_Options a = msg_Options b"

definition sameMessage :: "ConversationMessage \<Rightarrow> ConversationMessage \<Rightarrow> bool" where
  "sameMessage a b \<longleftrightarrow> msg_ID a = msg_ID b \<and> sameMessagePayload a b"

definition sameFollowUpRequest :: "FollowUp \<Rightarrow> FollowUp \<Rightarrow> bool" where
  "sameFollowUpRequest a b \<longleftrightarrow> fu_ConversationID a = fu_ConversationID b \<and> fu_ProfileID a = fu_ProfileID b
     \<and> fu_Platform a = fu_Platform b \<and> fu_AnchorMessageID a = fu_AnchorMessageID b \<and> fu_AnchorAt a = fu_AnchorAt b
     \<and> fu_RunAt a = fu_RunAt b \<and> fu_Deadline a = fu_Deadline b \<and> fu_Content a = fu_Content b \<and> fu_Policy a = fu_Policy b"

definition sameFollowUpIdentity :: "FollowUp \<Rightarrow> FollowUp \<Rightarrow> bool" where
  "sameFollowUpIdentity a b \<longleftrightarrow> fu_ID a = fu_ID b \<and> fu_ConversationID a = fu_ConversationID b
     \<and> fu_ProfileID a = fu_ProfileID b \<and> fu_Platform a = fu_Platform b \<and> fu_IdempotencyKey a = fu_IdempotencyKey b
     \<and> fu_CreatedAt a = fu_CreatedAt b"

section \<open>Conversations\<close>

definition CreateConversation :: "ctx \<Rightarrow> Conversation \<Rightarrow> Chats \<Rightarrow> (error + Conversation \<times> bool) \<times> Chats" where
  "CreateConversation ctx candidate chats =
     (case ctx of Some e \<Rightarrow> (Inl e, chats) | None \<Rightarrow>
      case Conversation_Validate candidate of Some e \<Rightarrow> (Inl e, chats) | None \<Rightarrow>
      if conv_Status candidate \<noteq> ConversationActive \<or> conv_Revision candidate \<noteq> 1
      then (Inl (Err ''conversation repository accepts only initialized active conversations''), chats)
      else case map_of (ch_conversations chats) (conv_ID candidate) of
        Some stored \<Rightarrow>
          if \<not> sameConversationIdentity stored candidate
          then (Inl (Err ''conversation id conflicts with a different conversation''), chats)
          else (Inr (stored, False), chats)
      | None \<Rightarrow>
          (case map_of (ch_external chats) (external_of candidate) of
             Some existingID \<Rightarrow>
               (let stored = (case map_of (ch_conversations chats) existingID of Some c \<Rightarrow> c | None \<Rightarrow> zero_Conversation)
                in if conv_ApplicationID candidate \<noteq> [] \<and> conv_ApplicationID stored \<noteq> conv_ApplicationID candidate
                   then (Inl (Err ''conversation external id conflicts with a different application''), chats)
                   else (Inr (stored, False), chats))
           | None \<Rightarrow>
               (Inr (candidate, True),
                chats\<lparr>ch_conversations := AList.update (conv_ID candidate) candidate (ch_conversations chats),
                      ch_external := AList.update (external_of candidate) (conv_ID candidate) (ch_external chats)\<rparr>)))"

definition GetConversation :: "ctx \<Rightarrow> ConversationID \<Rightarrow> Chats \<Rightarrow> error + Conversation" where
  "GetConversation ctx i chats =
     (case ctx of Some e \<Rightarrow> Inl e | None \<Rightarrow>
      if i = [] then Inl (Err ''conversation id is required'')
      else case map_of (ch_conversations chats) i of
        None \<Rightarrow> Inl (ErrSentinel ErrConversationNotFound) | Some c \<Rightarrow> Inr c)"

definition SaveConversation :: "ctx \<Rightarrow> Conversation \<Rightarrow> 64 word \<Rightarrow> Chats \<Rightarrow> error option \<times> Chats" where
  "SaveConversation ctx candidate expectedRevision chats =
     (case ctx of Some e \<Rightarrow> (Some e, chats) | None \<Rightarrow>
      case Conversation_Validate candidate of Some e \<Rightarrow> (Some e, chats) | None \<Rightarrow>
      if conv_Revision candidate \<noteq> expectedRevision + 1
      then (Some (Err ''conversation candidate must advance revision exactly once''), chats)
      else case map_of (ch_conversations chats) (conv_ID candidate) of
        None \<Rightarrow> (Some (ErrSentinel ErrRevisionConflict), chats)
      | Some stored \<Rightarrow>
          if conv_Revision stored \<noteq> expectedRevision then (Some (ErrSentinel ErrRevisionConflict), chats)
          else if \<not> sameConversationIdentity stored candidate \<or> \<not> sameConversationTimeline stored candidate
          then (Some (Err ''conversation immutable identity or timeline changed''), chats)
          else (None, chats\<lparr>ch_conversations := AList.update (conv_ID candidate) candidate (ch_conversations chats)\<rparr>))"

definition AttachConversationApplication ::
  "ctx \<Rightarrow> ConversationID \<Rightarrow> ApplicationID \<Rightarrow> Chats \<Rightarrow> (error + bool) \<times> Chats" where
  "AttachConversationApplication ctx i applicationID chats =
     (case ctx of Some e \<Rightarrow> (Inl e, chats) | None \<Rightarrow>
      case map_of (ch_conversations chats) i of None \<Rightarrow> (Inr False, chats) | Some c \<Rightarrow>
      if conv_ApplicationID c \<noteq> [] then (Inr False, chats)
      else (Inr True, chats\<lparr>ch_conversations := AList.update i
              (c\<lparr>conv_ApplicationID := applicationID, conv_Revision := conv_Revision c + 1\<rparr>) (ch_conversations chats)\<rparr>))"

definition ApplicationConversations :: "ctx \<Rightarrow> ApplicationID \<Rightarrow> Chats \<Rightarrow> error + Conversation list" where
  "ApplicationConversations ctx applicationID chats =
     (case ctx of Some e \<Rightarrow> Inl e | None \<Rightarrow>
      Inr (sort_Slice (\<lambda>a b. conv_ID a < conv_ID b)
        (filter (\<lambda>c. conv_ApplicationID c = applicationID) (map snd (ch_conversations chats)))))"

text \<open>The loop visits the conversations in the order of the list; an error ends it.\<close>

fun mark_read_loop ::
  "ProfileID \<Rightarrow> time \<Rightarrow> (ConversationID \<times> Conversation) list \<Rightarrow> nat \<Rightarrow> Chats \<Rightarrow> (nat \<times> error option) \<times> Chats" where
  "mark_read_loop profileID now [] marked chats = ((marked, None), chats)"
| "mark_read_loop profileID now ((i, c) # rest) marked chats =
     (if profileID \<noteq> [] \<and> conv_ProfileID c \<noteq> profileID \<or> conv_UnreadCount c = 0
      then mark_read_loop profileID now rest marked chats
      else case MarkRead now c of
        Inl e \<Rightarrow> ((marked, Some e), chats)
      | Inr (changed, c') \<Rightarrow>
          if changed
          then mark_read_loop profileID now rest (Suc marked)
                 (chats\<lparr>ch_conversations := AList.update i c' (ch_conversations chats)\<rparr>)
          else mark_read_loop profileID now rest marked chats)"

definition MarkConversationsReadLocally ::
  "ctx \<Rightarrow> ProfileID \<Rightarrow> time \<Rightarrow> Chats \<Rightarrow> (nat \<times> error option) \<times> Chats" where
  "MarkConversationsReadLocally ctx profileID now chats =
     (case ctx of Some e \<Rightarrow> ((0, Some e), chats)
      | None \<Rightarrow> mark_read_loop profileID now (ch_conversations chats) 0 chats)"

text \<open>A conversation is dropped with its messages and its follow-ups.\<close>

definition drop_conversation :: "ConversationID \<Rightarrow> Chats \<Rightarrow> Chats" where
  "drop_conversation i chats =
     chats\<lparr>ch_conversations := AList.delete i (ch_conversations chats),
           ch_messages := AList.delete i (ch_messages chats),
           ch_followUps := filter (\<lambda>kf. fu_ConversationID (snd kf) \<noteq> i) (ch_followUps chats)\<rparr>"

definition orphaned :: "ProfileID \<Rightarrow> Applications \<Rightarrow> Conversation \<Rightarrow> bool" where
  "orphaned profileID apps c \<longleftrightarrow> conv_ProfileID c = profileID \<and> conv_ApplicationID c \<noteq> []
     \<and> conv_ApplicationID c \<notin> app_ID ` snd ` set apps"

definition PurgeOrphanConversations :: "ctx \<Rightarrow> ProfileID \<Rightarrow> Applications \<Rightarrow> Chats \<Rightarrow> (error + nat) \<times> Chats" where
  "PurgeOrphanConversations ctx profileID apps chats =
     (case ctx of Some e \<Rightarrow> (Inl e, chats) | None \<Rightarrow>
      let gone = filter (\<lambda>kc. orphaned profileID apps (snd kc)) (ch_conversations chats)
      in (Inr (length gone), fold (\<lambda>kc. drop_conversation (fst kc)) gone chats))"

section \<open>Messages\<close>

text \<open>
  The map of a conversation's messages is made before the message is looked at. \<open>Observe\<close>
  changes a copy, which replaces the stored conversation even when it reports no change.
\<close>

definition AppendConversationMessage ::
  "ctx \<Rightarrow> ConversationMessage \<Rightarrow> time \<Rightarrow> Chats \<Rightarrow> (error + Conversation \<times> bool) \<times> Chats" where
  "AppendConversationMessage ctx message observedAt chats =
     (case ctx of Some e \<Rightarrow> (Inl e, chats) | None \<Rightarrow>
      case Message_Validate message of Some e \<Rightarrow> (Inl e, chats) | None \<Rightarrow>
      case map_of (ch_conversations chats) (msg_ConversationID message) of
        None \<Rightarrow> (Inl (Err ''conversation not found''), chats)
      | Some conversation \<Rightarrow>
          (let messages = messages_of (msg_ConversationID message) chats;
               chats = chats\<lparr>ch_messages := AList.update (msg_ConversationID message) messages (ch_messages chats)\<rparr>
           in case map_of messages (msg_ID message) of
                Some stored \<Rightarrow>
                  if \<not> sameMessage stored message
                  then (Inl (Err ''message id conflicts with a different message''), chats)
                  else (Inr (conversation, False), chats)
              | None \<Rightarrow>
                  (case (if msg_ExternalID message = [] then None
                         else find (\<lambda>m. msg_ExternalID m = msg_ExternalID message) (map snd messages)) of
                     Some stored \<Rightarrow>
                       if \<not> sameMessagePayload stored message
                       then (Inl (ErrSentinel ErrConversationMessageConflict), chats)
                       else (Inr (conversation, False), chats)
                   | None \<Rightarrow>
                       (case Observe message observedAt conversation of
                          Inl e \<Rightarrow> (Inl e, chats)
                        | Inr (_, c) \<Rightarrow>
                            (Inr (c, True), chats\<lparr>
                               ch_messages := AList.update (msg_ConversationID message)
                                 (AList.update (msg_ID message) message messages) (ch_messages chats),
                               ch_conversations := AList.update (conv_ID c) c (ch_conversations chats)\<rparr>)))))"

definition ConversationMessages :: "ctx \<Rightarrow> ConversationID \<Rightarrow> Chats \<Rightarrow> error + ConversationMessage list" where
  "ConversationMessages ctx i chats =
     (case ctx of Some e \<Rightarrow> Inl e | None \<Rightarrow>
      if map_of (ch_conversations chats) i = None then Inl (Err ''conversation not found'')
      else Inr (sort_Slice
        (\<lambda>a b. if msg_OccurredAt a \<noteq> msg_OccurredAt b then msg_OccurredAt a < msg_OccurredAt b else msg_ID a < msg_ID b)
        (map snd (messages_of i chats))))"

section \<open>Questionnaires\<close>

text \<open>The refusal the platform writes, in lower case.\<close>

definition refusal_text :: string where
  "refusal_text = from_hex (''d0bdd0b520d0b3d0bed182d0bed0b2d18b20''
     @ ''d0bfd180d0b8d0b3d0bbd0b0d181d0b8d182d18c'')"

definition closes_questionnaire :: "(string \<Rightarrow> string) \<Rightarrow> ConversationMessage \<Rightarrow> bool" where
  "closes_questionnaire lower m \<longleftrightarrow>
     msg_Kind m = MessageSystem \<and> Contains (msg_Text m) ''PARTICIPANT_LEFT''
     \<or> msg_Direction m = MessageIncoming \<and> msg_Kind m = MessageText \<and> Contains (lower (msg_Text m)) refusal_text"

text \<open>The latest instant of the messages with a property, or the zero instant.\<close>

definition latest :: "(ConversationMessage \<Rightarrow> bool) \<Rightarrow> ConversationMessage list \<Rightarrow> time" where
  "latest P ms = fold (\<lambda>m t. if P m \<and> msg_OccurredAt m > t then msg_OccurredAt m else t) ms 0"

definition delivered :: "ConversationMessage \<Rightarrow> bool" where
  "delivered m \<longleftrightarrow> msg_Direction m = MessageOutgoing \<and> (msg_Status m = MessageSent \<or> msg_Status m = MessageQueued)"

definition openQuestionnaire :: "(string \<Rightarrow> string) \<Rightarrow> Chats \<Rightarrow> Conversation \<Rightarrow> bool" where
  "openQuestionnaire lower chats conversation =
     (if conv_Status conversation \<noteq> ConversationActive then False
      else let messages = map snd (messages_of (conv_ID conversation) chats);
               lastLeft = latest (closes_questionnaire lower) messages;
               lastOpener = latest (\<lambda>m. msg_Direction m = MessageIncoming \<and> msg_Kind m = MessageQuestionnaire
                 \<and> msg_OccurredAt m > lastLeft
                 \<and> \<not> list_ex (\<lambda>reply. delivered reply \<and> msg_OccurredAt reply > msg_OccurredAt m) messages) messages
           in \<not> IsZero lastOpener)"

definition OpenQuestionnaireConversationIDs ::
  "(string \<Rightarrow> string) \<Rightarrow> ctx \<Rightarrow> Chats \<Rightarrow> error + ConversationID list" where
  "OpenQuestionnaireConversationIDs lower ctx chats =
     (case ctx of Some e \<Rightarrow> Inl e | None \<Rightarrow>
      Inr (sort_Slice (<) (map fst (filter (\<lambda>kc. openQuestionnaire lower chats (snd kc)) (ch_conversations chats)))))"

text \<open>The latest prompt of a conversation that nothing was sent after, or the zero instant.\<close>

definition awaiting_since :: "Messages \<Rightarrow> time" where
  "awaiting_since messages =
     (let ms = map snd messages; lastOutgoing = latest delivered ms
      in latest (\<lambda>m. msg_Direction m = MessageIncoming \<and> msg_Kind m = MessageQuestionnaire \<and> msg_Options m \<noteq> []
           \<and> msg_OccurredAt m > lastOutgoing) ms)"

definition ConversationsAwaitingQuestionnaire ::
  "ctx \<Rightarrow> ProfileID \<Rightarrow> time \<Rightarrow> int \<Rightarrow> Chats \<Rightarrow> error + ConversationID list" where
  "ConversationsAwaitingQuestionnaire ctx profileID since limit chats =
     (case ctx of Some e \<Rightarrow> Inl e | None \<Rightarrow>
      if profileID = [] then Inl (Err ''awaiting questionnaire requires a profile'')
      else if limit \<le> 0 then Inr []
      else let items = map (\<lambda>im. (fst im, awaiting_since (snd im)))
             (filter (\<lambda>im. (case map_of (ch_conversations chats) (fst im) of
                None \<Rightarrow> False | Some c \<Rightarrow> conv_ProfileID c = profileID)) (ch_messages chats))
           in Inr (map fst (take (nat limit) (sort_Slice (\<lambda>a b. if snd a \<noteq> snd b then snd a > snd b else fst a < fst b)
                (filter (\<lambda>ia. \<not> IsZero (snd ia) \<and> \<not> snd ia < since) items)))))"

section \<open>Lists\<close>

record ConversationFilter =
  cf_Platform :: Platform
  cf_ProfileID :: ProfileID
  cf_Status :: ConversationStatus
  cf_Query :: string
  cf_UnreadOnly :: bool
  cf_QuestionnaireOnly :: bool
  cf_LinkedOnly :: bool
  cf_Limit :: int
  cf_Offset :: int

record ConversationCounts =
  cc_Total :: int
  cc_Unread :: int
  cc_Active :: int

definition conversationMatchesFilter ::
  "(string \<Rightarrow> string) \<Rightarrow> Chats \<Rightarrow> Conversation \<Rightarrow> ConversationFilter \<Rightarrow> bool" where
  "conversationMatchesFilter lower chats c f =
     (if cf_Platform f \<noteq> [] \<and> conv_Platform c \<noteq> cf_Platform f
         \<or> cf_ProfileID f \<noteq> [] \<and> conv_ProfileID c \<noteq> cf_ProfileID f
         \<or> cf_Status f \<noteq> NoConversationStatus \<and> conv_Status c \<noteq> cf_Status f then False
      else if cf_LinkedOnly f \<and> conv_ApplicationID c = [] then False
      else if cf_UnreadOnly f \<and> conv_UnreadCount c = 0 then False
      else if cf_QuestionnaireOnly f \<and> \<not> openQuestionnaire lower chats c then False
      else let query = lower (TrimSpace (cf_Query f)) in
      query = [] \<or> list_ex (\<lambda>v. Contains (lower v) query) [conv_VacancyTitle c, conv_Employer c, conv_ExternalID c])"

definition ListConversations ::
  "(string \<Rightarrow> string) \<Rightarrow> ctx \<Rightarrow> ConversationFilter \<Rightarrow> Chats \<Rightarrow> error + Conversation list" where
  "ListConversations lower ctx f chats =
     (case ctx of Some e \<Rightarrow> Inl e | None \<Rightarrow>
      let result = sort_Slice
        (\<lambda>a b. if conv_UpdatedAt a \<noteq> conv_UpdatedAt b then conv_UpdatedAt a > conv_UpdatedAt b else conv_ID a < conv_ID b)
        (filter (\<lambda>c. conversationMatchesFilter lower chats c f) (map snd (ch_conversations chats)))
      in if cf_Offset f > 0 \<and> cf_Offset f \<ge> int (length result) then Inr []
         else let result = (if cf_Offset f > 0 then drop (nat (cf_Offset f)) result else result)
         in Inr (if cf_Limit f > 0 \<and> cf_Limit f < int (length result) then take (nat (cf_Limit f)) result else result))"

definition CountConversations ::
  "(string \<Rightarrow> string) \<Rightarrow> ctx \<Rightarrow> ConversationFilter \<Rightarrow> Chats \<Rightarrow> error + ConversationCounts" where
  "CountConversations lower ctx f chats =
     (case ctx of Some e \<Rightarrow> Inl e | None \<Rightarrow>
      Inr (fold (\<lambda>c counts. if \<not> conversationMatchesFilter lower chats c f then counts
          else counts\<lparr>cc_Total := cc_Total counts + 1, cc_Unread := cc_Unread counts + conv_UnreadCount c,
            cc_Active := (if conv_Status c = ConversationActive then cc_Active counts + 1 else cc_Active counts)\<rparr>)
        (map snd (ch_conversations chats)) \<lparr>cc_Total = 0, cc_Unread = 0, cc_Active = 0\<rparr>))"

section \<open>Follow-ups\<close>

definition CreateFollowUp :: "ctx \<Rightarrow> FollowUp \<Rightarrow> Chats \<Rightarrow> (error + FollowUp \<times> bool) \<times> Chats" where
  "CreateFollowUp ctx candidate chats =
     (case ctx of Some e \<Rightarrow> (Inl e, chats) | None \<Rightarrow>
      case FollowUp_Validate candidate of Some e \<Rightarrow> (Inl e, chats) | None \<Rightarrow>
      if fu_Status candidate \<noteq> FollowUpScheduled \<or> fu_Revision candidate \<noteq> 1
      then (Inl (Err ''follow-up repository accepts only initialized scheduled follow-ups''), chats)
      else if (case map_of (ch_conversations chats) (fu_ConversationID candidate) of None \<Rightarrow> True
               | Some c \<Rightarrow> conv_ProfileID c \<noteq> fu_ProfileID candidate \<or> conv_Platform c \<noteq> fu_Platform candidate)
      then (Inl (Err ''follow-up references an unknown or mismatched conversation''), chats)
      else case map_of (ch_followUps chats) (fu_ID candidate) of
        Some stored \<Rightarrow>
          if fu_IdempotencyKey stored \<noteq> fu_IdempotencyKey candidate \<or> \<not> sameFollowUpRequest stored candidate
          then (Inl (Err ''follow-up id conflicts with a different timer''), chats)
          else (Inr (stored, False), chats)
      | None \<Rightarrow>
          (case map_of (ch_followUpKeys chats) (fu_IdempotencyKey candidate) of
             Some existingID \<Rightarrow>
               (let stored = (case map_of (ch_followUps chats) existingID of Some f \<Rightarrow> f | None \<Rightarrow> zero_FollowUp)
                in if \<not> sameFollowUpRequest stored candidate
                   then (Inl (Err ''follow-up idempotency key conflicts with a different timer''), chats)
                   else (Inr (stored, False), chats))
           | None \<Rightarrow>
               (Inr (candidate, True),
                chats\<lparr>ch_followUps := AList.update (fu_ID candidate) candidate (ch_followUps chats),
                      ch_followUpKeys := AList.update (fu_IdempotencyKey candidate) (fu_ID candidate) (ch_followUpKeys chats)\<rparr>)))"

definition GetFollowUp :: "ctx \<Rightarrow> FollowUpID \<Rightarrow> Chats \<Rightarrow> error + FollowUp" where
  "GetFollowUp ctx i chats =
     (case ctx of Some e \<Rightarrow> Inl e | None \<Rightarrow>
      case map_of (ch_followUps chats) i of None \<Rightarrow> Inl (Err ''follow-up not found'') | Some f \<Rightarrow> Inr f)"

definition SaveFollowUp :: "ctx \<Rightarrow> FollowUp \<Rightarrow> 64 word \<Rightarrow> Chats \<Rightarrow> error option \<times> Chats" where
  "SaveFollowUp ctx candidate expectedRevision chats =
     (case ctx of Some e \<Rightarrow> (Some e, chats) | None \<Rightarrow>
      case FollowUp_Validate candidate of Some e \<Rightarrow> (Some e, chats) | None \<Rightarrow>
      if fu_Revision candidate \<noteq> expectedRevision + 1
      then (Some (Err ''follow-up candidate must advance revision exactly once''), chats)
      else case map_of (ch_followUps chats) (fu_ID candidate) of
        None \<Rightarrow> (Some (ErrSentinel ErrRevisionConflict), chats)
      | Some stored \<Rightarrow>
          if fu_Revision stored \<noteq> expectedRevision then (Some (ErrSentinel ErrRevisionConflict), chats)
          else if \<not> sameFollowUpIdentity stored candidate
          then (Some (Err ''follow-up immutable identity changed''), chats)
          else (None, chats\<lparr>ch_followUps := AList.update (fu_ID candidate) candidate (ch_followUps chats)\<rparr>))"

record FollowUpFilter =
  ff_ConversationID :: ConversationID
  ff_ProfileID :: ProfileID
  ff_Status :: FollowUpStatus
  ff_DueBefore :: "time option"

definition ListFollowUps :: "ctx \<Rightarrow> FollowUpFilter \<Rightarrow> Chats \<Rightarrow> error + FollowUp list" where
  "ListFollowUps ctx flt chats =
     (case ctx of Some e \<Rightarrow> Inl e | None \<Rightarrow>
      Inr (sort_Slice (\<lambda>a b. if fu_RunAt a \<noteq> fu_RunAt b then fu_RunAt a < fu_RunAt b else fu_ID a < fu_ID b)
        (filter (\<lambda>f. \<not> (ff_ConversationID flt \<noteq> [] \<and> fu_ConversationID f \<noteq> ff_ConversationID flt
            \<or> ff_ProfileID flt \<noteq> [] \<and> fu_ProfileID f \<noteq> ff_ProfileID flt
            \<or> ff_Status flt \<noteq> FollowUpStatusOther [] \<and> fu_Status f \<noteq> ff_Status flt
            \<or> (case ff_DueBefore flt of None \<Rightarrow> False | Some d \<Rightarrow> fu_RunAt f > d)))
          (map snd (ch_followUps chats)))))"

end
