(* ===== verification/Conversation_Props.thy ===== *)
theory Conversation_Props
  imports FollowUp Texts
begin

text \<open>
  Conversations: what is known of one only grows, whatever is observed in whatever order, and
  what was read stays read. Follow-ups: one that was sent was due and in time when it was queued,
  and nothing moves it after that.
\<close>

section \<open>Operations on a conversation\<close>

datatype conversation_op =
    CoPresent ConversationPresentation time
  | CoCatalog ConversationStatus int "time option" time
  | CoRead time
  | CoObserve ConversationMessage time
  | CoStatus ConversationStatus time

text \<open>An operation with whether it changed the record; \<open>SetStatus\<close> reports no flag.\<close>

fun apply_conversation_op :: "conversation_op \<Rightarrow> Conversation \<Rightarrow> error + bool \<times> Conversation" where
  "apply_conversation_op (CoPresent p now) c = ObservePresentation p now c"
| "apply_conversation_op (CoCatalog status unread incoming now) c = ObserveCatalogState status unread incoming now c"
| "apply_conversation_op (CoRead now) c = MarkRead now c"
| "apply_conversation_op (CoObserve message now) c = Observe message now c"
| "apply_conversation_op (CoStatus status now) c =
     (case SetStatus status now c of Inl e \<Rightarrow> Inl e | Inr c' \<Rightarrow> Inr (conv_Status c \<noteq> status, c'))"

text \<open>An instant that is known stays known, or a later one is.\<close>

definition mark_le :: "time option \<Rightarrow> time option \<Rightarrow> bool" where
  "mark_le old new = (case old of None \<Rightarrow> True | Some a \<Rightarrow> (\<exists>b. new = Some b \<and> a \<le> b))"

lemma mark_le_refl [simp]: "mark_le m m"
  by (cases m) (auto simp: mark_le_def)

lemma mark_le_trans: "mark_le a b \<Longrightarrow> mark_le b c \<Longrightarrow> mark_le a c"
  by (force simp: mark_le_def split: option.splits)

lemma mark_le_None [simp]: "mark_le None m"
  by (simp add: mark_le_def)

lemma mark_le_after: "after_option t old \<Longrightarrow> mark_le old (Some t)"
  by (auto simp: mark_le_def after_option_def split: option.splits)

definition same_conversation :: "Conversation \<Rightarrow> Conversation \<Rightarrow> bool" where
  "same_conversation c c' \<longleftrightarrow> conv_ID c' = conv_ID c \<and> conv_Platform c' = conv_Platform c
     \<and> conv_ProfileID c' = conv_ProfileID c \<and> conv_ExternalID c' = conv_ExternalID c
     \<and> conv_ApplicationID c' = conv_ApplicationID c \<and> conv_CreatedAt c' = conv_CreatedAt c"

definition conversation_grows :: "Conversation \<Rightarrow> Conversation \<Rightarrow> bool" where
  "conversation_grows c c' \<longleftrightarrow> same_conversation c c' \<and> conv_UpdatedAt c \<le> conv_UpdatedAt c'
     \<and> mark_le (conv_LastMessageAt c) (conv_LastMessageAt c')
     \<and> mark_le (conv_LastIncomingAt c) (conv_LastIncomingAt c')
     \<and> mark_le (conv_LastOutgoingAt c) (conv_LastOutgoingAt c')
     \<and> mark_le (conv_LastReadAt c) (conv_LastReadAt c')"

lemma conversation_grows_refl [simp]: "conversation_grows c c"
  by (simp add: conversation_grows_def same_conversation_def)

lemma conversation_grows_trans: "conversation_grows a b \<Longrightarrow> conversation_grows b c \<Longrightarrow> conversation_grows a c"
  by (auto simp: conversation_grows_def same_conversation_def intro: mark_le_trans)

text \<open>The kept part of validity, without the revision, which the operations move.\<close>

definition conv_base :: "Conversation \<Rightarrow> bool" where
  "conv_base c \<longleftrightarrow> conv_ID c \<noteq> [] \<and> conv_Platform c \<noteq> [] \<and> conv_ProfileID c \<noteq> []
     \<and> TrimSpace (conv_ExternalID c) \<noteq> [] \<and> known_conversation_status (conv_Status c)
     \<and> 0 \<le> conv_UnreadCount c \<and> conv_CreatedAt c \<noteq> 0 \<and> conv_CreatedAt c \<le> conv_UpdatedAt c"

lemma Conversation_Validate_None: "Conversation_Validate c = None \<longleftrightarrow> conv_base c \<and> conv_Revision c \<noteq> 0"
proof -
  have one: "(r :: 64 word) < 1 \<longleftrightarrow> r = 0" for r by (simp add: word_less_1)
  show ?thesis
    unfolding Conversation_Validate_def guards_None conv_base_def IsZero_def one by auto
qed

text \<open>One step: the record grows and stays valid, and the flag says whether its revision moved.\<close>

definition conv_moved :: "bool \<Rightarrow> Conversation \<Rightarrow> Conversation \<Rightarrow> bool" where
  "conv_moved changed c c' \<longleftrightarrow> conv_base c' \<and> conversation_grows c c'
     \<and> conv_Revision c' = conv_Revision c + of_bool changed \<and> (\<not> changed \<longrightarrow> c' = c)"

lemma conv_moved_refl: "conv_base c \<Longrightarrow> conv_moved False c c"
  by (simp add: conv_moved_def)

lemma conv_touch_moved:
  assumes "conv_base d" "conversation_grows c d" "conv_Revision d = conv_Revision c"
    "conv_UpdatedAt d = conv_UpdatedAt c" "conv_UpdatedAt c \<le> now"
  shows "conv_moved True c (conv_touch now d)"
  using assms by (auto simp: conv_moved_def conv_touch_def conv_base_def conversation_grows_def
      same_conversation_def)

lemma ObservePresentation_moved:
  assumes "conv_base c" "ObservePresentation p now c = Inr (changed, c')"
  shows "conv_moved changed c c'"
proof -
  let ?d = "present_fields (normalized p) c"
  from assms(2) consider "\<not> changed" "c' = c"
    | "changed" "c' = conv_touch now ?d" "conv_UpdatedAt c \<le> now"
      "cp_Status p = NoConversationStatus \<or> known_conversation_status (cp_Status p)"
    by (auto simp: ObservePresentation_def normalized_def Let_def split: if_splits)
  then show ?thesis
  proof cases
    case 1
    then show ?thesis using conv_moved_refl [OF assms(1)] by simp
  next
    case 2
    have "conv_moved True c (conv_touch now ?d)"
      by (rule conv_touch_moved)
        (use assms(1) 2(3,4) in \<open>auto simp: conv_base_def conversation_grows_def same_conversation_def
          present_fields_def normalized_def\<close>)
    with 2 show ?thesis by simp
  qed
qed

lemma effective_unread_nonneg: "0 \<le> n \<Longrightarrow> 0 \<le> effective_unread n t c"
  by (simp add: effective_unread_def split: option.splits)

lemma ObserveCatalogState_cases:
  assumes "ObserveCatalogState status unread incoming now c = Inr (changed, c')"
  shows "known_conversation_status status \<and> 0 \<le> unread \<and> now \<noteq> 0 \<and> conv_UpdatedAt c \<le> now
    \<and> (changed \<longleftrightarrow> conv_Status c \<noteq> status \<or> conv_UnreadCount c \<noteq> effective_unread unread incoming c)
    \<and> c' = (if changed then conv_touch now (c\<lparr>conv_Status := status,
         conv_UnreadCount := effective_unread unread incoming c\<rparr>) else c)"
  using assms by (auto simp: ObserveCatalogState_def IsZero_def Let_def split: if_splits)

lemma ObserveCatalogState_moved:
  assumes "conv_base c" "ObserveCatalogState status unread incoming now c = Inr (changed, c')"
  shows "conv_moved changed c c'"
proof -
  note s = ObserveCatalogState_cases [OF assms(2)]
  have "conv_moved True c (conv_touch now (c\<lparr>conv_Status := status,
         conv_UnreadCount := effective_unread unread incoming c\<rparr>))"
    by (rule conv_touch_moved)
      (use assms(1) s effective_unread_nonneg in \<open>auto simp: conv_base_def conversation_grows_def
        same_conversation_def\<close>)
  then show ?thesis using s assms(1) conv_moved_refl by (cases changed) auto
qed

lemma MarkRead_moved:
  assumes "conv_base c" "MarkRead now c = Inr (changed, c')"
  shows "conv_moved changed c c'"
proof -
  obtain b d where d: "ObserveCatalogState (conv_Status c) 0 None now c = Inr (b, d)"
    using assms(2) by (auto simp: MarkRead_def Let_def split: sum.splits)
  note m = ObserveCatalogState_moved [OF assms(1) d] and s = ObserveCatalogState_cases [OF d]
  have eq: "Inr (changed, c') = (if \<not> conv_UnreadCount c > 0 \<and> conv_LastReadAt d \<noteq> None then Inr (b, d)
      else if \<not> after_option now (conv_LastReadAt d) then Inr (b, d)
      else (Inr (True, let c' = d\<lparr>conv_LastReadAt := Some now\<rparr> in if b then c' else conv_touch now c')
        :: error + bool \<times> Conversation))"
    using assms(2) [symmetric] unfolding MarkRead_def Let_def d sum.case prod.case .
  then consider "changed = b" "c' = d"
    | "changed" "after_option now (conv_LastReadAt d)"
      "c' = (if b then d\<lparr>conv_LastReadAt := Some now\<rparr> else conv_touch now (d\<lparr>conv_LastReadAt := Some now\<rparr>))"
    by (simp add: Let_def split: if_split_asm)
  then show ?thesis
  proof cases
    case 2
    have same: "conv_LastReadAt d = conv_LastReadAt c" using s by (auto simp: conv_touch_def)
    note rd = mark_le_after [OF 2(2)]
    show ?thesis
    proof (cases b)
      case True
      with 2 m rd same show ?thesis
        by (auto simp: conv_moved_def conv_base_def conversation_grows_def same_conversation_def)
    next
      case False
      then have "d = c" using m by (simp add: conv_moved_def)
      have "conv_moved True c (conv_touch now (c\<lparr>conv_LastReadAt := Some now\<rparr>))"
        by (rule conv_touch_moved)
          (use assms(1) s rd \<open>d = c\<close> in \<open>auto simp: conv_base_def conversation_grows_def same_conversation_def\<close>)
      with False 2 \<open>d = c\<close> show ?thesis by simp
    qed
  qed (use m in simp)
qed

lemma observe_marks_grows:
  "conversation_grows c (observe_marks message c) \<and> conv_Revision (observe_marks message c) = conv_Revision c
    \<and> conv_UpdatedAt (observe_marks message c) = conv_UpdatedAt c
    \<and> (conv_base c \<longrightarrow> conv_base (observe_marks message c))"
proof -
  have last: "\<not> t < a \<Longrightarrow> mark_le (Some a) (Some t)" for t a by (simp add: mark_le_def)
  show ?thesis
    by (auto simp: observe_marks_def Let_def conversation_grows_def same_conversation_def conv_base_def
        intro: last mark_le_after split: option.splits)
qed

lemma Observe_moved:
  assumes "conv_base c" "Observe message now c = Inr (changed, c')"
  shows "conv_moved changed c c'"
proof -
  have "conv_UpdatedAt c \<le> now \<Longrightarrow> conv_moved True c (conv_touch now (observe_marks message c))"
    by (rule conv_touch_moved) (use assms(1) observe_marks_grows [of c message] in auto)
  then show ?thesis
    using assms conv_moved_refl by (auto simp: Observe_def split: option.splits if_splits)
qed

lemma SetStatus_moved:
  assumes "conv_base c" "SetStatus status now c = Inr c'"
  shows "conv_moved (conv_Status c \<noteq> status) c c'"
proof -
  have "conv_UpdatedAt c \<le> now \<Longrightarrow> known_conversation_status status
      \<Longrightarrow> conv_moved True c (conv_touch now (c\<lparr>conv_Status := status\<rparr>))"
    by (rule conv_touch_moved) (use assms(1) in \<open>auto simp: conv_base_def conversation_grows_def same_conversation_def\<close>)
  then show ?thesis
    using assms conv_moved_refl by (auto simp: SetStatus_def split: if_splits)
qed

lemma apply_conversation_op_moved:
  assumes "conv_base c" "apply_conversation_op x c = Inr (changed, c')"
  shows "conv_moved changed c c'"
  using assms by (cases x) (auto intro: ObservePresentation_moved ObserveCatalogState_moved MarkRead_moved
      Observe_moved SetStatus_moved split: sum.splits)

text \<open>A run that goes on after errors, with the number of the operations that changed the record.\<close>

fun conversation_run :: "conversation_op list \<Rightarrow> Conversation \<Rightarrow> nat \<times> Conversation" where
  "conversation_run [] c = (0, c)"
| "conversation_run (x # xs) c =
     (case apply_conversation_op x c of
        Inl e \<Rightarrow> conversation_run xs c
      | Inr (changed, c') \<Rightarrow> (case conversation_run xs c' of (n, d) \<Rightarrow> (of_bool changed + n, d)))"

lemma conversation_run_sound:
  assumes "conv_base c" and "conversation_run xs c = (n, d)"
  shows "conv_base d \<and> conversation_grows c d \<and> conv_Revision d = conv_Revision c + of_nat n \<and> n \<le> length xs"
  using assms
proof (induction xs arbitrary: c n)
  case (Cons x xs)
  show ?case
  proof (cases "apply_conversation_op x c")
    case (Inl e)
    with Cons.IH [OF Cons.prems(1)] Cons.prems(2) show ?thesis by fastforce
  next
    case (Inr r)
    obtain b c' where r: "r = (b, c')" by (cases r)
    note m = apply_conversation_op_moved [OF Cons.prems(1) Inr [unfolded r]]
    obtain k where k: "conversation_run xs c' = (k, d)" "n = of_bool b + k"
      using Cons.prems(2) Inr r by (auto split: prod.splits)
    from m have "conv_base c'" by (simp add: conv_moved_def)
    from Cons.IH [OF this k(1)] m k(2) show ?thesis
      by (auto simp: conv_moved_def intro: conversation_grows_trans)
  qed
qed simp

lemma NewConversation_base:
  "NewConversation i platform profileID externalID now = Inr c \<Longrightarrow> conv_base c \<and> conv_Revision c = 1"
  by (auto simp: NewConversation_def conv_base_def known_conversation_status_def IsZero_def split: if_splits)

section \<open>Operations on a follow-up\<close>

interpretation follow_ups: status_machine followUpAllowed fu_Status fu_UpdatedAt FollowUp_transition
  by unfold_locales (auto simp: FollowUp_transition_def split: if_splits)

datatype follow_up_op =
    FoQueue time
  | FoSent MessageID time
  | FoCancel FollowUpCancelReason time
  | FoFail string time
  | FoExpire time
  | FoReschedule time "time option" "64 word" time

fun apply_follow_up_op :: "follow_up_op \<Rightarrow> FollowUp \<Rightarrow> error + FollowUp" where
  "apply_follow_up_op (FoQueue now) = FollowUp_Queue now"
| "apply_follow_up_op (FoSent messageID now) = MarkSent messageID now"
| "apply_follow_up_op (FoCancel reason now) = FollowUp_Cancel reason now"
| "apply_follow_up_op (FoFail message now) = MarkFailed message now"
| "apply_follow_up_op (FoExpire now) = FollowUp_Expire now"
| "apply_follow_up_op (FoReschedule runAt deadline revision now) = Reschedule runAt deadline revision now"

abbreviation follow_up_run :: "follow_up_op list \<Rightarrow> FollowUp \<Rightarrow> FollowUp" where
  "follow_up_run \<equiv> keep_going apply_follow_up_op"

definition follow_up_final :: "FollowUpStatus set" where
  "follow_up_final = {FollowUpSent, FollowUpCancelled, FollowUpFailed, FollowUpExpired}"

text \<open>What no operation changes, and the order of the stamps.\<close>

definition same_follow_up :: "FollowUp \<Rightarrow> FollowUp \<Rightarrow> bool" where
  "same_follow_up f g \<longleftrightarrow> fu_ID g = fu_ID f \<and> fu_ConversationID g = fu_ConversationID f
     \<and> fu_ProfileID g = fu_ProfileID f \<and> fu_Platform g = fu_Platform f
     \<and> fu_AnchorMessageID g = fu_AnchorMessageID f \<and> fu_AnchorAt g = fu_AnchorAt f
     \<and> fu_Content g = fu_Content f \<and> fu_Policy g = fu_Policy f
     \<and> fu_IdempotencyKey g = fu_IdempotencyKey f \<and> fu_CreatedAt g = fu_CreatedAt f
     \<and> fu_UpdatedAt f \<le> fu_UpdatedAt g"

lemma same_follow_up_refl: "same_follow_up f f"
  by (simp add: same_follow_up_def)

lemma same_follow_up_trans: "same_follow_up f g \<Longrightarrow> same_follow_up g h \<Longrightarrow> same_follow_up f h"
  by (auto simp: same_follow_up_def)

lemmas follow_up_op_defs = FollowUp_Queue_def MarkSent_def FollowUp_Cancel_def MarkFailed_def FollowUp_Expire_def
  Reschedule_def FollowUp_transition_def

lemma apply_follow_up_op_same: "apply_follow_up_op x f = Inr g \<Longrightarrow> same_follow_up f g"
  by (cases x) (auto simp: follow_up_op_defs same_follow_up_def split: if_splits)

text \<open>Each step moves along the table, or reschedules and stays.\<close>

lemma apply_follow_up_op_status:
  "apply_follow_up_op x f = Inr g \<Longrightarrow>
     followUpAllowed (fu_Status f) (fu_Status g)
     \<or> (fu_Status f = FollowUpScheduled \<and> fu_Status g = FollowUpScheduled)"
  by (cases x) (auto simp: follow_up_op_defs split: if_splits)

lemma final_stuck: "fu_Status f \<in> follow_up_final \<Longrightarrow> \<exists>e. apply_follow_up_op x f = Inl e"
  by (cases "apply_follow_up_op x f")
    (auto dest!: apply_follow_up_op_status simp: followUpAllowed_def follow_up_final_def)

lemma final_run: "fu_Status f \<in> follow_up_final \<Longrightarrow> follow_up_run xs f = f"
proof (induction xs)
  case (Cons x xs)
  obtain e where "apply_follow_up_op x f = Inl e" using final_stuck [OF Cons.prems] by blast
  with Cons show ?case by simp
qed simp

text \<open>Past the scheduled status, the run time and the deadline stay; only queueing leaves it for a send.\<close>

lemma queued_step:
  assumes "apply_follow_up_op x f = Inr g" "fu_Status g \<in> {FollowUpQueued, FollowUpSent, FollowUpFailed}"
  shows "(\<exists>now. x = FoQueue now \<and> fu_Status f = FollowUpScheduled \<and> fu_RunAt g \<le> now
      \<and> \<not> deadline_passed (fu_Deadline g) now \<and> fu_RunAt g = fu_RunAt f \<and> fu_Deadline g = fu_Deadline f)
    \<or> (fu_Status f = FollowUpQueued \<and> fu_RunAt g = fu_RunAt f \<and> fu_Deadline g = fu_Deadline f)"
  using assms by (cases x) (auto simp: follow_up_op_defs followUpAllowed_def split: if_splits)

lemma queued_was_due:
  assumes "fu_Status f = FollowUpScheduled"
    and "fu_Status (follow_up_run xs f) \<in> {FollowUpQueued, FollowUpSent, FollowUpFailed}"
  shows "\<exists>ys now zs. xs = ys @ FoQueue now # zs \<and> fu_Status (follow_up_run ys f) = FollowUpScheduled
    \<and> fu_RunAt (follow_up_run xs f) \<le> now \<and> \<not> deadline_passed (fu_Deadline (follow_up_run xs f)) now"
  using assms(2)
proof (induction xs rule: rev_induct)
  case (snoc x xs)
  let ?m = "follow_up_run xs f"
  have run: "follow_up_run (xs @ [x]) f = (case apply_follow_up_op x ?m of Inl _ \<Rightarrow> ?m | Inr g \<Rightarrow> g)"
    by (simp add: keep_going_append split: sum.splits)
  have later: ?case if h: "fu_Status ?m \<in> {FollowUpQueued, FollowUpSent, FollowUpFailed}"
    "fu_RunAt (follow_up_run (xs @ [x]) f) = fu_RunAt ?m" "fu_Deadline (follow_up_run (xs @ [x]) f) = fu_Deadline ?m"
  proof -
    obtain ys now zs where "xs = ys @ FoQueue now # zs" "fu_Status (follow_up_run ys f) = FollowUpScheduled"
      "fu_RunAt ?m \<le> now" "\<not> deadline_passed (fu_Deadline ?m) now"
      using snoc.IH [OF h(1)] by blast
    with h(2,3) show ?thesis by (intro exI [of _ ys] exI [of _ now] exI [of _ "zs @ [x]"]) simp
  qed
  show ?case
  proof (cases "apply_follow_up_op x ?m")
    case (Inl e)
    with run snoc.prems show ?thesis by (intro later) simp_all
  next
    case (Inr g)
    with run snoc.prems have "fu_Status g \<in> {FollowUpQueued, FollowUpSent, FollowUpFailed}" by simp
    from queued_step [OF Inr this] show ?thesis
    proof (elim disjE exE conjE)
      fix now assume "x = FoQueue now" "fu_Status ?m = FollowUpScheduled" "fu_RunAt g \<le> now"
        "\<not> deadline_passed (fu_Deadline g) now"
      then show ?thesis
        using Inr run by (intro exI [of _ xs] exI [of _ now] exI [of _ "[]"]) simp
    next
      assume "fu_Status ?m = FollowUpQueued" "fu_RunAt g = fu_RunAt ?m" "fu_Deadline g = fu_Deadline ?m"
      with Inr run show ?thesis by (intro later) simp_all
    qed
  qed
qed (use assms(1) in simp)

lemma run_same: "same_follow_up f (follow_up_run xs f)"
  by (rule keep_going_rel) (auto intro: same_follow_up_refl same_follow_up_trans apply_follow_up_op_same)

lemma sent_has_message:
  assumes "fu_Status f \<noteq> FollowUpSent"
  shows "fu_Status (follow_up_run xs f) = FollowUpSent \<longrightarrow> fu_SentMessageID (follow_up_run xs f) \<noteq> []"
proof (rule keep_going_invariant [where P = "\<lambda>f. fu_Status f = FollowUpSent \<longrightarrow> fu_SentMessageID f \<noteq> []"])
  fix x r r' assume "fu_Status r = FollowUpSent \<longrightarrow> fu_SentMessageID r \<noteq> []" "apply_follow_up_op x r = Inr r'"
  then show "fu_Status r' = FollowUpSent \<longrightarrow> fu_SentMessageID r' \<noteq> []"
    by (cases x) (auto simp: follow_up_op_defs split: if_splits)
qed (use assms in simp)

lemma NewFollowUp_scheduled: "NewFollowUp params now = (None, Some f) \<Longrightarrow> fu_Status f = FollowUpScheduled"
  by (auto simp: NewFollowUp_def Let_def split: if_splits option.splits)

section \<open>Properties\<close>

text \<open>
  C34. A conversation, whatever is observed, read or set in whatever order, errors in between:
  it stays valid and keeps its identity, its stamp never goes back, the newest instants it knows
  of (last message, last incoming, last outgoing, last read) are never forgotten for an earlier
  one, and its revision counts exactly the operations that reported a change.
\<close>

theorem conversation_life:
  assumes "NewConversation i platform profileID externalID now = Inr c" and "length xs < 2 ^ 64 - 1"
    and "conversation_run xs c = (n, d)"
  shows "Conversation_Validate d = None \<and> conversation_grows c d \<and> unat (conv_Revision d) = 1 + n \<and> n \<le> length xs"
proof -
  note new = NewConversation_base [OF assms(1)]
  note run = conversation_run_sound [OF new [THEN conjunct1] assms(3)]
  have "1 + n < 2 ^ 64" using run assms(2) by linarith
  then have "unat (conv_Revision d) = 1 + n"
    using run new by (simp add: unat_word_ariths unat_of_nat take_bit_eq_mod)
  moreover from this have "conv_Revision d \<noteq> 0" by auto
  ultimately show ?thesis using run by (simp add: Conversation_Validate_None)
qed

definition sample_conversation :: Conversation where
  "sample_conversation = \<lparr>conv_EmployerID = [], conv_ID = ''c1'', conv_Platform = ''hh'', conv_ProfileID = ''p1'',
     conv_ExternalID = ''77'', conv_ApplicationID = [], conv_VacancyTitle = [], conv_Employer = [],
     conv_VacancyURL = [], conv_UnreadCount = 0, conv_Status = ConversationActive, conv_LastMessageID = [],
     conv_LastMessageAt = None, conv_LastIncomingAt = None, conv_LastOutgoingAt = None, conv_LastReadAt = None,
     conv_CreatedAt = 10, conv_UpdatedAt = 10, conv_Revision = 1\<rparr>"

definition sample_incoming :: ConversationMessage where
  "sample_incoming = \<lparr>msg_ID = ''m1'', msg_ConversationID = ''c1'', msg_ExternalID = ''e1'', msg_ReplyToID = [],
     msg_Direction = MessageIncoming, msg_Kind = MessageText, msg_Status = MessageObserved, msg_Text = ''hello'',
     msg_Options = [], msg_OccurredAt = 15\<rparr>"

lemmas conversation_eval = known_conversation_status_def TrimSpace_id space_heads_def space_lasts_def Let_def

lemma sample_conversation_new: "NewConversation ''c1'' ''hh'' ''p1'' ''77'' 10 = Inr sample_conversation"
  by (simp add: NewConversation_def sample_conversation_def conversation_eval)

text \<open>A message arrives, the catalog counts it, it is read, and the catalog still counts it.\<close>

definition sample_conversation_ops :: "conversation_op list" where
  "sample_conversation_ops = [CoObserve sample_incoming 20, CoCatalog ConversationActive 1 None 21, CoRead 22,
     CoCatalog ConversationActive 1 None 23, CoStatus ConversationClosed 5]"

lemma sample_conversation_run:
  "conversation_run sample_conversation_ops sample_conversation =
     (3, sample_conversation\<lparr>conv_LastMessageID := ''m1'', conv_LastMessageAt := Some 15,
        conv_LastIncomingAt := Some 15, conv_LastReadAt := Some 22, conv_UpdatedAt := 22, conv_Revision := 4\<rparr>)"
proof -
  have m: "Message_Validate sample_incoming = None"
    by (simp add: Message_Validate_def sample_incoming_def validate_direction_def conversation_eval)
  show ?thesis
    by (simp add: sample_conversation_ops_def Observe_def m)
      (simp add: sample_conversation_def sample_incoming_def observe_marks_def after_option_def
        conv_touch_def ObserveCatalogState_def effective_unread_def newest_incoming_def MarkRead_def
        SetStatus_def stale_observation_def conversation_eval)
qed

theorem conversation_life_witness:
  "Conversation_Validate (sample_conversation\<lparr>conv_LastMessageID := ''m1'', conv_LastMessageAt := Some 15,
        conv_LastIncomingAt := Some 15, conv_LastReadAt := Some 22, conv_UpdatedAt := 22, conv_Revision := 4\<rparr>) = None"
  using conversation_life [OF sample_conversation_new _ sample_conversation_run]
  by (simp add: sample_conversation_ops_def)

text \<open>
  What was read stays read. After a read at an instant, and as long as no incoming message
  later than it is known or reported, no observation of the catalog makes the conversation count
  as unread again, however often the platform still counts old items; as soon as the catalog
  reports a later incoming message, its count is taken over.
\<close>

theorem read_stays_read:
  assumes "conv_base c" and "conv_LastReadAt c = Some readAt"
    and "ObserveCatalogState status unread incoming now c = Inr (changed, c')"
  shows "((\<forall>t. newest_incoming incoming c = Some t \<longrightarrow> t \<le> readAt) \<longrightarrow> conv_UnreadCount c' = 0)
    \<and> (\<forall>t. incoming = Some t \<and> t > readAt \<longrightarrow> conv_UnreadCount c' = unread)"
proof -
  note s = ObserveCatalogState_cases [OF assms(3)]
  have count: "conv_UnreadCount c' = effective_unread unread incoming c"
    using s by (cases changed) (auto simp: conv_touch_def)
  have "effective_unread unread incoming c = 0"
    if "\<forall>t. newest_incoming incoming c = Some t \<longrightarrow> t \<le> readAt"
    using that s assms(2) by (auto simp: effective_unread_def not_less split: option.splits)
  moreover have "effective_unread unread incoming c = unread" if h: "incoming = Some t" "t > readAt" for t
  proof -
    have "\<exists>u. newest_incoming incoming c = Some u \<and> t \<le> u"
      using h(1)
      by (cases "conv_LastIncomingAt c") (auto simp: newest_incoming_def after_option_def not_less split: if_splits)
    then obtain u where "newest_incoming incoming c = Some u" "t \<le> u" by blast
    with h(2) assms(2) show ?thesis by (simp add: effective_unread_def)
  qed
  ultimately show ?thesis unfolding count by (intro conjI impI allI) auto
qed

theorem read_stays_read_witness:
  "conv_UnreadCount (snd (conversation_run sample_conversation_ops sample_conversation)) = 0"
proof -
  let ?c = "sample_conversation\<lparr>conv_LastMessageID := ''m1'', conv_LastMessageAt := Some 15,
        conv_LastIncomingAt := Some 15, conv_LastReadAt := Some 22, conv_UpdatedAt := 22, conv_Revision := 4\<rparr>"
  have base: "conv_base ?c" by (simp add: conv_base_def sample_conversation_def conversation_eval)
  have again: "ObserveCatalogState ConversationActive 1 None 23 ?c = Inr (False, ?c)"
    by (simp add: ObserveCatalogState_def effective_unread_def newest_incoming_def sample_conversation_def
        conversation_eval)
  from read_stays_read [OF base _ again, of 22] show ?thesis
    unfolding sample_conversation_run by (simp add: newest_incoming_def)
qed

text \<open>
  C37. A follow-up, whatever is tried on it in whatever order: it keeps its conversation, anchor,
  content, policy and key; one that was sent carries its message and was queued at an instant
  when it was due and its deadline had not passed; and once it is sent, cancelled, failed or
  expired nothing changes it any more.
\<close>

theorem follow_up_life:
  assumes "NewFollowUp params now = (None, Some f)" and "g = follow_up_run xs f"
  shows "same_follow_up f g
    \<and> (fu_Status g = FollowUpSent \<longrightarrow> fu_SentMessageID g \<noteq> []
        \<and> (\<exists>ys t zs. xs = ys @ FoQueue t # zs \<and> fu_Status (follow_up_run ys f) = FollowUpScheduled
             \<and> fu_RunAt g \<le> t \<and> \<not> deadline_passed (fu_Deadline g) t))
    \<and> (fu_Status g \<in> follow_up_final \<longrightarrow> (\<forall>zs. follow_up_run zs g = g))"
proof -
  note start = NewFollowUp_scheduled [OF assms(1)]
  have "fu_Status f \<noteq> FollowUpSent" using start by simp
  with queued_was_due [OF start, of xs] sent_has_message [of f xs] final_run run_same [of f xs] assms(2)
  show ?thesis by auto
qed

definition sample_follow_up_params :: NewFollowUpParams where
  "sample_follow_up_params = \<lparr>nfp_ID = ''f1'', nfp_ConversationID = ''c1'', nfp_ProfileID = ''p1'',
     nfp_Platform = ''hh'', nfp_AnchorMessageID = ''m1'', nfp_AnchorAt = 15, nfp_RunAt = 40, nfp_Deadline = Some 60,
     nfp_Content = \<lparr>mc_Text = ''hi'', mc_TemplateTag = [], mc_OperatorTag = []\<rparr>,
     nfp_Policy = \<lparr>fp_CancelOnIncoming = True, fp_RequireActiveConversation = True, fp_MaxFollowUps = 1, fp_Cooldown = 0\<rparr>,
     nfp_IdempotencyKey = ''k1''\<rparr>"

definition sample_follow_up :: FollowUp where
  "sample_follow_up = \<lparr>fu_ID = ''f1'', fu_ConversationID = ''c1'', fu_ProfileID = ''p1'',
     fu_Platform = ''hh'', fu_AnchorMessageID = ''m1'', fu_AnchorAt = 15, fu_RunAt = 40, fu_Deadline = Some 60,
     fu_Content = \<lparr>mc_Text = ''hi'', mc_TemplateTag = [], mc_OperatorTag = []\<rparr>,
     fu_Policy = \<lparr>fp_CancelOnIncoming = True, fp_RequireActiveConversation = True, fp_MaxFollowUps = 1, fp_Cooldown = 0\<rparr>,
     fu_Status = FollowUpScheduled, fu_IdempotencyKey = ''k1'', fu_SentMessageID = [], fu_CancelReason = NoReason,
     fu_FailureMessage = [], fu_CreatedAt = 20, fu_UpdatedAt = 20, fu_Revision = 1\<rparr>"

lemma TrimSpace_empty [simp]: "TrimSpace [] = []"
  by (rule TrimSpace_id) (simp_all add: space_heads_def space_lasts_def)

lemmas follow_up_eval = MessageContent_Validate_def FollowUpPolicy_Validate_def deadline_passed_def NoReason_def
  IsZero_def TrimSpace_id space_heads_def space_lasts_def Let_def

lemma sample_follow_up_new: "NewFollowUp sample_follow_up_params 20 = (None, Some sample_follow_up)"
  by (simp add: NewFollowUp_def FollowUp_Validate_def sample_follow_up_params_def sample_follow_up_def follow_up_eval)

text \<open>It is sent at 41: the attempt at 30 is too early, and cancelling it afterwards is refused.\<close>

theorem follow_up_life_witness:
  "\<exists>ys t zs. [FoQueue 30, FoQueue 40, FoSent ''m2'' 41] = ys @ FoQueue t # zs
     \<and> fu_Status (follow_up_run ys sample_follow_up) = FollowUpScheduled
     \<and> fu_RunAt sample_follow_up \<le> t \<and> \<not> deadline_passed (fu_Deadline sample_follow_up) t"
proof -
  have run: "follow_up_run [FoQueue 30, FoQueue 40, FoSent ''m2'' 41] sample_follow_up =
      sample_follow_up\<lparr>fu_Status := FollowUpSent, fu_SentMessageID := ''m2'', fu_UpdatedAt := 41, fu_Revision := 3\<rparr>"
    by (simp add: follow_up_op_defs followUpAllowed_def sample_follow_up_def follow_up_eval)
  show ?thesis
    using follow_up_life [OF sample_follow_up_new refl, of "[FoQueue 30, FoQueue 40, FoSent ''m2'' 41]"]
    unfolding run by simp
qed

text \<open>
  Rescheduling compares the run time with the current time only: a follow-up anchored in the
  future can be moved before its anchor, and then fails its own validation.
\<close>

lemma reschedule_before_anchor:
  "\<exists>f g. FollowUp_Validate f = None \<and> Reschedule 30 None 1 25 f = Inr g \<and> FollowUp_Validate g \<noteq> None"
proof -
  let ?f = "sample_follow_up\<lparr>fu_AnchorAt := 35\<rparr>"
  have "FollowUp_Validate ?f = None"
    by (simp add: FollowUp_Validate_def sample_follow_up_def follow_up_eval)
  moreover have "Reschedule 30 None 1 25 ?f = Inr (?f\<lparr>fu_RunAt := 30, fu_Deadline := None, fu_UpdatedAt := 25, fu_Revision := 2\<rparr>)"
    by (simp add: Reschedule_def sample_follow_up_def follow_up_eval)
  moreover have "FollowUp_Validate (?f\<lparr>fu_RunAt := 30, fu_Deadline := None, fu_UpdatedAt := 25, fu_Revision := 2\<rparr>) \<noteq> None"
    by (simp add: FollowUp_Validate_def sample_follow_up_def follow_up_eval)
  ultimately show ?thesis by blast
qed

end
