(* ===== verification/ConversationStore_Props.thy ===== *)
theory ConversationStore_Props
  imports ConversationStore Conversation_Props
begin

text \<open>
  The store of conversations over all its runs: its indexes lead where they say, every message is
  stored once and is covered by its conversation's timeline, a message that is reported again
  changes nothing, and no save overwrites another writer's. Dropping a conversation leaves its
  index entries behind, which a later creation runs into.
\<close>

section \<open>The invariant\<close>

definition external_ok :: "Chats \<Rightarrow> bool" where
  "external_ok s \<longleftrightarrow> distinct_keys (ch_conversations s) \<and> (\<forall>i c. map_of (ch_conversations s) i = Some c \<longrightarrow> conv_ID c = i \<and> map_of (ch_external s) (external_of c) = Some i)"

definition messages_ok :: "ConversationID \<Rightarrow> Messages \<Rightarrow> bool" where
  "messages_ok i ms \<longleftrightarrow> distinct_keys ms
     \<and> (\<forall>k m. map_of ms k = Some m \<longrightarrow> k \<noteq> [] \<and> msg_ID m = k \<and> msg_ConversationID m = i)
     \<and> (\<forall>k k' m m'. map_of ms k = Some m \<longrightarrow> map_of ms k' = Some m' \<longrightarrow> msg_ExternalID m \<noteq> []
          \<longrightarrow> msg_ExternalID m = msg_ExternalID m' \<longrightarrow> k = k')"

text \<open>A mark that is at least an instant.\<close>

definition reaches :: "time option \<Rightarrow> time \<Rightarrow> bool" where
  "reaches mark t \<longleftrightarrow> (case mark of None \<Rightarrow> False | Some u \<Rightarrow> t \<le> u)"

definition covers :: "Conversation \<Rightarrow> ConversationMessage \<Rightarrow> bool" where
  "covers c m \<longleftrightarrow> reaches (conv_LastMessageAt c) (msg_OccurredAt m)
     \<and> (msg_Direction m = MessageIncoming \<longrightarrow> reaches (conv_LastIncomingAt c) (msg_OccurredAt m))
     \<and> (msg_Direction m = MessageOutgoing \<and> msg_Status m = MessageSent \<longrightarrow> reaches (conv_LastOutgoingAt c) (msg_OccurredAt m))"

text \<open>The last message of a conversation is stored, and its instant is the one kept.\<close>

definition last_marked :: "Conversation \<Rightarrow> Messages \<Rightarrow> bool" where
  "last_marked c ms \<longleftrightarrow> (case conv_LastMessageAt c of None \<Rightarrow> conv_LastMessageID c = [] \<and> ms = []
     | Some t \<Rightarrow> (\<exists>m. map_of ms (conv_LastMessageID c) = Some m \<and> msg_OccurredAt m = t))"

definition timeline_ok :: "Chats \<Rightarrow> bool" where
  "timeline_ok s \<longleftrightarrow> (\<forall>i ms. map_of (ch_messages s) i = Some ms \<longrightarrow> map_of (ch_conversations s) i \<noteq> None \<and> messages_ok i ms)
     \<and> (\<forall>i c. map_of (ch_conversations s) i = Some c \<longrightarrow>
          last_marked c (messages_of i s) \<and> (\<forall>k m. map_of (messages_of i s) k = Some m \<longrightarrow> covers c m))"

definition followUps_ok :: "Chats \<Rightarrow> bool" where
  "followUps_ok s \<longleftrightarrow> distinct_keys (ch_followUps s)
     \<and> (\<forall>i f. map_of (ch_followUps s) i = Some f \<longrightarrow> fu_ID f = i \<and> map_of (ch_followUpKeys s) (fu_IdempotencyKey f) = Some i
          \<and> map_of (ch_conversations s) (fu_ConversationID f) \<noteq> None)"

definition chats_ok :: "Chats \<Rightarrow> bool" where
  "chats_ok s \<longleftrightarrow> external_ok s \<and> timeline_ok s \<and> followUps_ok s"

lemma no_chats_ok: "chats_ok no_chats"
  by (simp add: chats_ok_def external_ok_def timeline_ok_def followUps_ok_def no_chats_def)

lemma messages_of_simps [simp]:
  "messages_of i (s\<lparr>ch_conversations := cs\<rparr>) = messages_of i s" "messages_of i (s\<lparr>ch_external := es\<rparr>) = messages_of i s"
  "messages_of i (s\<lparr>ch_followUps := fs\<rparr>) = messages_of i s" "messages_of i (s\<lparr>ch_followUpKeys := ks\<rparr>) = messages_of i s"
  "messages_of i (s\<lparr>ch_messages := AList.update j ms (ch_messages s)\<rparr>) = (if i = j then ms else messages_of i s)"
  by (simp_all add: messages_of_def cong: option.case_cong)

lemma messages_of_ok: "timeline_ok s \<Longrightarrow> messages_ok i (messages_of i s)"
  by (auto simp: timeline_ok_def messages_of_def messages_ok_def split: option.splits)

lemma no_messages:
  assumes "timeline_ok s" and "map_of (ch_conversations s) i = None"
  shows "messages_of i s = []"
proof (cases "map_of (ch_messages s) i")
  case (Some ms)
  with assms(1) have "map_of (ch_conversations s) i \<noteq> None" unfolding timeline_ok_def by blast
  with assms(2) show ?thesis by simp
qed (simp add: messages_of_def)

lemma timeline_messages:
  "timeline_ok s \<Longrightarrow> map_of (ch_messages s) i = Some ms \<Longrightarrow> map_of (ch_conversations s) i \<noteq> None \<and> messages_ok i ms"
  unfolding timeline_ok_def by blast

lemma timeline_marks:
  assumes "timeline_ok s" and "map_of (ch_conversations s) i = Some c"
  shows "last_marked c (messages_of i s)" and "map_of (messages_of i s) k = Some m \<Longrightarrow> covers c m"
  using assms unfolding timeline_ok_def by blast+

lemma Validate_ID: "Conversation_Validate c = None \<Longrightarrow> conv_ID c \<noteq> []"
  by (auto simp: Conversation_Validate_def split: if_splits)

lemma external_leads:
  assumes "external_ok s" and "map_of (ch_conversations s) i = Some c"
  shows "conv_ID c = i" and "map_of (ch_external s) (external_of c) = Some i"
  using assms unfolding external_ok_def by metis+

section \<open>The operations keep it\<close>

lemma external_ok_put:
  assumes ok: "external_ok s" and c: "map_of (ch_conversations s) i = Some c" and "conv_ID c' = i" and "external_of c' = external_of c"
    and s': "ch_conversations s' = AList.update i c' (ch_conversations s)" "ch_external s' = ch_external s"
  shows "external_ok s'"
  unfolding external_ok_def
proof (intro conjI allI impI)
  show "distinct_keys (ch_conversations s')" using ok by (auto simp: external_ok_def s')
next
  fix j b assume "map_of (ch_conversations s') j = Some b"
  then show "conv_ID b = j" and "map_of (ch_external s') (external_of b) = Some j"
    using external_leads [OF ok, of j b] external_leads [OF ok c] assms(3,4)
    by (auto simp: s' update_conv' split: if_splits)
qed

lemma put_conversation_ok:
  assumes "chats_ok s" and "map_of (ch_conversations s) i = Some c" and "conv_ID c' = i" and "external_of c' = external_of c"
    and "conv_LastMessageID c' = conv_LastMessageID c" and "conv_LastMessageAt c' = conv_LastMessageAt c"
    and "conv_LastIncomingAt c' = conv_LastIncomingAt c" and "conv_LastOutgoingAt c' = conv_LastOutgoingAt c"
  shows "chats_ok (s\<lparr>ch_conversations := AList.update i c' (ch_conversations s)\<rparr>)"
proof -
  have cover: "covers c' m = covers c m" for m using assms(6-8) by (simp add: covers_def)
  have mark: "last_marked c' ms = last_marked c ms" for ms unfolding last_marked_def assms(5,6) ..
  note ok = assms(1)[unfolded chats_ok_def]
  let ?s = "s\<lparr>ch_conversations := AList.update i c' (ch_conversations s)\<rparr>"
  have "external_ok ?s"
    by (rule external_ok_put [OF conjunct1 [OF ok] assms(2-4)]) simp_all
  moreover have "timeline_ok ?s"
    using ok assms(2,5) unfolding timeline_ok_def by (auto simp: cover mark)
  moreover have "followUps_ok ?s"
    using ok unfolding followUps_ok_def by auto
  ultimately show ?thesis by (simp add: chats_ok_def)
qed

lemma create_ok:
  assumes "chats_ok s" and "conv_LastMessageID c = []" and "conv_LastMessageAt c = None"
  shows "chats_ok (snd (CreateConversation ctx c s))"
proof -
  have "chats_ok (s\<lparr>ch_conversations := AList.update (conv_ID c) c (ch_conversations s),
      ch_external := AList.update (external_of c) (conv_ID c) (ch_external s)\<rparr>)"
    if fresh: "map_of (ch_conversations s) (conv_ID c) = None" "map_of (ch_external s) (external_of c) = None"
  proof -
    note ok = assms(1)[unfolded chats_ok_def]
    let ?s = "s\<lparr>ch_conversations := AList.update (conv_ID c) c (ch_conversations s),
      ch_external := AList.update (external_of c) (conv_ID c) (ch_external s)\<rparr>"
    have none: "messages_of (conv_ID c) s = []" using no_messages [OF _ fresh(1)] ok by blast
    have "external_ok ?s"
    proof -
      have 1: "external_of b \<noteq> external_of c" if "map_of (ch_conversations s) j = Some b" for j b
        using external_leads(2) [OF conjunct1 [OF ok] that] fresh(2) by auto
      have 2: "conv_ID b = j \<and> map_of (ch_external s) (external_of b) = Some j"
        if "map_of (ch_conversations s) j = Some b" for j b
        using external_leads [OF conjunct1 [OF ok] that] by blast
      show ?thesis unfolding external_ok_def
      proof (intro conjI allI impI)
        show "distinct_keys (ch_conversations ?s)" using ok by (auto simp: external_ok_def)
      next
        fix j b assume "map_of (ch_conversations ?s) j = Some b"
        then show "conv_ID b = j" and "map_of (ch_external ?s) (external_of b) = Some j"
          using 1 [of j b] 2 [of j b] by (auto split: if_splits)
      qed
    qed
    moreover have "timeline_ok ?s"
      using ok assms(2,3) unfolding timeline_ok_def by (auto simp: none last_marked_def)
    moreover have "followUps_ok ?s"
      using ok unfolding followUps_ok_def by auto
    ultimately show ?thesis by (simp add: chats_ok_def)
  qed
  then show ?thesis
    using assms(1) by (auto simp: CreateConversation_def Let_def split: option.splits)
qed

lemma save_conversation_ok:
  assumes "chats_ok s"
  shows "chats_ok (snd (SaveConversation ctx c n s))"
proof -
  have "chats_ok (s\<lparr>ch_conversations := AList.update (conv_ID c) c (ch_conversations s)\<rparr>)"
    if "map_of (ch_conversations s) (conv_ID c) = Some b" "sameConversationIdentity b c" "sameConversationTimeline b c" for b
    by (rule put_conversation_ok [OF assms that(1)])
      (use that(2,3) in \<open>simp_all add: sameConversationIdentity_def sameConversationTimeline_def external_of_def\<close>)
  then show ?thesis
    using assms by (auto simp: SaveConversation_def split: option.splits)
qed

lemma attach_ok: "chats_ok s \<Longrightarrow> chats_ok (snd (AttachConversationApplication ctx i a s))"
proof -
  assume ok: "chats_ok s"
  then have "conv_ID c = i" if "map_of (ch_conversations s) i = Some c" for c
    using that by (auto simp: chats_ok_def external_ok_def)
  then show ?thesis
    using ok by (auto simp: AttachConversationApplication_def external_of_def
        intro!: put_conversation_ok split: option.splits)
qed

text \<open>A read changes neither the identity nor the timeline of a conversation.\<close>

lemma MarkRead_fields:
  assumes "MarkRead now c = Inr (changed, c')"
  shows "conv_ID c' = conv_ID c \<and> external_of c' = external_of c \<and> conv_LastMessageID c' = conv_LastMessageID c
    \<and> conv_LastMessageAt c' = conv_LastMessageAt c \<and> conv_LastIncomingAt c' = conv_LastIncomingAt c
    \<and> conv_LastOutgoingAt c' = conv_LastOutgoingAt c"
  using assms by (auto simp: MarkRead_def ObserveCatalogState_def external_of_def conv_touch_def Let_def
      split: if_splits sum.splits)

lemma mark_read_loop_ok:
  assumes "chats_ok s" and "distinct_keys rest" and "\<And>i c. (i, c) \<in> set rest \<Longrightarrow> map_of (ch_conversations s) i = Some c"
  shows "chats_ok (snd (mark_read_loop p now rest n s))"
  using assms
proof (induction p now rest n s rule: mark_read_loop.induct)
  case (2 p now i c rest n s)
  have "map_of (ch_conversations s) i = Some c" using "2.prems"(3) by simp
  moreover have "conv_ID c = i" using "2.prems"(1) external_leads(1) calculation by (auto simp: chats_ok_def)
  ultimately have put: "chats_ok (s\<lparr>ch_conversations := AList.update i c' (ch_conversations s)\<rparr>)"
    if "MarkRead now c = Inr (changed, c')" for changed c'
    using MarkRead_fields [OF that] by (intro put_conversation_ok [OF "2.prems"(1)]) auto
  have d: "distinct_keys rest" and no: "(i, b) \<notin> set rest" for b using "2.prems"(2) by (auto simp: image_iff)
  have keep: "map_of (ch_conversations s) j = Some b" if "(j, b) \<in> set rest" for j b
    using "2.prems"(3) that by simp
  have other: "map_of (ch_conversations (s\<lparr>ch_conversations := AList.update i c' (ch_conversations s)\<rparr>)) j = Some b"
    if "(j, b) \<in> set rest" for j b c'
    using keep [OF that] that no by (auto simp: update_conv')
  show ?case
  proof (cases "p \<noteq> [] \<and> conv_ProfileID c \<noteq> p \<or> conv_UnreadCount c = 0")
    case True
    from "2.IH"(1) [OF True "2.prems"(1) d keep] True show ?thesis by simp
  next
    case False
    show ?thesis
    proof (cases "MarkRead now c")
      case (Inl e)
      with False "2.prems"(1) show ?thesis by auto
    next
      case (Inr r)
      obtain changed c' where r: "r = (changed, c')" by (cases r)
      note IH = "2.IH"(2,3) [OF False Inr r [symmetric]]
      show ?thesis
      proof (cases changed)
        case True
        with IH(1) [OF True put [OF Inr [unfolded r]] d other] False Inr r show ?thesis by auto
      next
        case no: False
        with IH(2) [OF no "2.prems"(1) d keep] False Inr r show ?thesis by auto
      qed
    qed
  qed
qed simp

lemma mark_read_ok: "chats_ok s \<Longrightarrow> chats_ok (snd (MarkConversationsReadLocally ctx p now s))"
proof -
  assume ok: "chats_ok s"
  then have d: "distinct_keys (ch_conversations s)" by (simp add: chats_ok_def external_ok_def)
  show ?thesis
    using mark_read_loop_ok [OF ok d in_set_map_of [OF d, THEN iffD1]] ok
    by (simp add: MarkConversationsReadLocally_def split: option.split)
qed

text \<open>The marks after a message cover it and everything they covered.\<close>

lemma observe_marks_covers:
  "covers (observe_marks m c) m \<and> (covers c m' \<longrightarrow> covers (observe_marks m c) m')"
  by (auto simp: covers_def reaches_def observe_marks_def after_option_def Let_def split: option.splits)

lemma observe_marks_last:
  assumes "last_marked c ms" and "map_of ms (msg_ID m) = None"
  shows "last_marked (observe_marks m c) (AList.update (msg_ID m) m ms)"
  using assms by (auto simp: last_marked_def observe_marks_def update_conv' Let_def split: option.splits)

lemma conv_touch_fields [simp]:
  "covers (conv_touch now c) m = covers c m" "last_marked (conv_touch now c) ms = last_marked c ms"
  "conv_ID (conv_touch now c) = conv_ID c" "external_of (conv_touch now c) = external_of c"
  by (simp_all add: conv_touch_def covers_def last_marked_def external_of_def split: option.split)

lemma observe_marks_same [simp]:
  "conv_ID (observe_marks m c) = conv_ID c" "external_of (observe_marks m c) = external_of c"
  by (simp_all add: observe_marks_def external_of_def Let_def split: option.splits)

text \<open>A message whose id and external id are new.\<close>

lemma messages_ok_insert:
  assumes "messages_ok i ms" and "msg_ID m \<noteq> []" and "msg_ConversationID m = i" and "map_of ms (msg_ID m) = None"
    and "msg_ExternalID m = [] \<or> find (\<lambda>b. msg_ExternalID b = msg_ExternalID m) (map snd ms) = None"
  shows "messages_ok i (AList.update (msg_ID m) m ms)"
proof -
  have d: "distinct_keys ms" using assms(1) by (simp add: messages_ok_def)
  have old: "k \<noteq> [] \<and> msg_ID b = k \<and> msg_ConversationID b = i" if "map_of ms k = Some b" for k b
    using assms(1) that unfolding messages_ok_def by metis
  have uniq: "k = k'" if "map_of ms k = Some b" "map_of ms k' = Some b'" "msg_ExternalID b \<noteq> []"
    "msg_ExternalID b = msg_ExternalID b'" for k k' b b'
    using assms(1) that unfolding messages_ok_def by metis
  have fresh: "msg_ExternalID b \<noteq> msg_ExternalID m" if "map_of ms k = Some b" "msg_ExternalID b \<noteq> []" for k b
    using assms(5) that map_of_SomeD [OF that(1)] by (auto simp: find_None_iff)
  show ?thesis unfolding messages_ok_def
  proof (intro conjI allI impI)
    fix k k' b b'
    assume "map_of (AList.update (msg_ID m) m ms) k = Some b" "map_of (AList.update (msg_ID m) m ms) k' = Some b'"
      "msg_ExternalID b \<noteq> []" "msg_ExternalID b = msg_ExternalID b'"
    then show "k = k'" using uniq fresh [of k b] fresh [of k' b'] by (auto simp: update_conv' split: if_splits)
  qed (use d old assms(2,3) in \<open>auto simp: update_conv' split: if_splits\<close>)
qed

lemma append_ok:
  assumes "chats_ok s"
  shows "chats_ok (snd (AppendConversationMessage ctx m now s))"
proof -
  note ok = assms[unfolded chats_ok_def]
  let ?i = "msg_ConversationID m"
  let ?ms = "messages_of ?i s"
  have mok: "messages_ok ?i ?ms" using messages_of_ok ok by blast
  have kept: "chats_ok (s\<lparr>ch_messages := AList.update ?i ?ms (ch_messages s)\<rparr>)"
    if c: "map_of (ch_conversations s) ?i = Some c" for c
  proof -
    let ?s = "s\<lparr>ch_messages := AList.update ?i ?ms (ch_messages s)\<rparr>"
    have "external_ok ?s" using ok unfolding external_ok_def by simp
    moreover have "followUps_ok ?s" using ok unfolding followUps_ok_def by simp
    moreover have "timeline_ok ?s"
      unfolding timeline_ok_def
    proof (intro conjI allI impI)
      fix j ms assume "map_of (ch_messages ?s) j = Some ms"
      then show "map_of (ch_conversations ?s) j \<noteq> None" "messages_ok j ms"
        using timeline_messages [OF conjunct1 [OF conjunct2 [OF ok]], of j ms] c mok
        by (auto simp: update_conv' split: if_splits)
    next
      fix j b assume "map_of (ch_conversations ?s) j = Some b"
      then have b: "map_of (ch_conversations s) j = Some b" by simp
      note * = timeline_marks [OF conjunct1 [OF conjunct2 [OF ok]] b]
      have "messages_of j ?s = messages_of j s" by simp
      then show "last_marked b (messages_of j ?s)"
        and "\<And>k m. map_of (messages_of j ?s) k = Some m \<Longrightarrow> covers b m"
        using * by auto
    qed
    ultimately show ?thesis by (simp add: chats_ok_def)
  qed
  have added: "chats_ok (s\<lparr>ch_messages := AList.update ?i (AList.update (msg_ID m) m ?ms) (AList.update ?i ?ms (ch_messages s)),
      ch_conversations := AList.update (conv_ID c') c' (ch_conversations s)\<rparr>)"
    if c: "map_of (ch_conversations s) ?i = Some c" and v: "Message_Validate m = None" and new: "map_of ?ms (msg_ID m) = None"
      and ext: "msg_ExternalID m = [] \<or> find (\<lambda>b. msg_ExternalID b = msg_ExternalID m) (map snd ?ms) = None"
      and ob: "Observe m now c = Inr (changed, c')" for c changed c'
  proof -
    let ?s = "s\<lparr>ch_messages := AList.update ?i (AList.update (msg_ID m) m ?ms) (AList.update ?i ?ms (ch_messages s)),
      ch_conversations := AList.update (conv_ID c') c' (ch_conversations s)\<rparr>"
    have id: "msg_ID m \<noteq> []" using v by (auto simp: Message_Validate_def split: if_splits)
    note marks = timeline_marks [OF conjunct1 [OF conjunct2 [OF ok]] c]
    have "conv_LastMessageID c \<noteq> msg_ID m"
      using marks(1) new id by (auto simp: last_marked_def split: option.splits)
    then have c': "c' = conv_touch now (observe_marks m c)"
      using ob by (auto simp: Observe_def split: option.splits if_splits)
    have i: "conv_ID c' = ?i" and e: "external_of c' = external_of c"
      using external_leads(1) [OF conjunct1 [OF ok] c] by (simp_all add: c')
    have "external_ok ?s"
      by (rule external_ok_put [OF conjunct1 [OF ok] c i e]) (simp_all add: i)
    moreover have "followUps_ok ?s" using ok unfolding followUps_ok_def by auto
    moreover have "timeline_ok ?s"
      unfolding timeline_ok_def
    proof (intro conjI allI impI)
      fix j ms assume "map_of (ch_messages ?s) j = Some ms"
      then show "map_of (ch_conversations ?s) j \<noteq> None" "messages_ok j ms"
        using timeline_messages [OF conjunct1 [OF conjunct2 [OF ok]], of j ms] i
          messages_ok_insert [OF mok id refl new ext]
        by (auto simp: update_conv' split: if_splits)
    next
      fix j b assume b: "map_of (ch_conversations ?s) j = Some b"
      have ms: "messages_of j ?s = (if j = ?i then AList.update (msg_ID m) m ?ms else messages_of j s)"
        by (simp add: messages_of_def)
      show "last_marked b (messages_of j ?s)"
        and "\<And>k m. map_of (messages_of j ?s) k = Some m \<Longrightarrow> covers b m"
      proof (atomize (full), cases "j = ?i")
        case True
        with b i have "b = c'" by simp
        with True ms show "last_marked b (messages_of j ?s) \<and> (\<forall>k m. map_of (messages_of j ?s) k = Some m \<longrightarrow> covers b m)"
          using marks observe_marks_last [OF marks(1) new] observe_marks_covers [of m c]
          by (auto simp: c' update_conv' split: if_splits)
      next
        case False
        with b i have "map_of (ch_conversations s) j = Some b" by simp
        from timeline_marks [OF conjunct1 [OF conjunct2 [OF ok]] this] False ms
        show "last_marked b (messages_of j ?s) \<and> (\<forall>k m. map_of (messages_of j ?s) k = Some m \<longrightarrow> covers b m)"
          by auto
      qed
    qed
    ultimately show ?thesis by (simp add: chats_ok_def)
  qed
  show ?thesis
    using assms kept added
    by (auto simp: AppendConversationMessage_def Let_def split: option.split sum.split prod.split)
qed

lemma followUps_leads:
  assumes "followUps_ok s" and "map_of (ch_followUps s) i = Some f"
  shows "fu_ID f = i" and "map_of (ch_followUpKeys s) (fu_IdempotencyKey f) = Some i"
    and "map_of (ch_conversations s) (fu_ConversationID f) \<noteq> None"
  using assms unfolding followUps_ok_def by metis+

lemma create_follow_up_ok:
  assumes "chats_ok s"
  shows "chats_ok (snd (CreateFollowUp ctx f s))"
proof -
  note ok = assms[unfolded chats_ok_def]
  note fok = conjunct2 [OF conjunct2 [OF ok]]
  have "chats_ok (s\<lparr>ch_followUps := AList.update (fu_ID f) f (ch_followUps s),
      ch_followUpKeys := AList.update (fu_IdempotencyKey f) (fu_ID f) (ch_followUpKeys s)\<rparr>)"
    if fresh: "map_of (ch_followUps s) (fu_ID f) = None" "map_of (ch_followUpKeys s) (fu_IdempotencyKey f) = None"
      and conv: "map_of (ch_conversations s) (fu_ConversationID f) = Some c" for c
  proof -
    let ?s = "s\<lparr>ch_followUps := AList.update (fu_ID f) f (ch_followUps s),
      ch_followUpKeys := AList.update (fu_IdempotencyKey f) (fu_ID f) (ch_followUpKeys s)\<rparr>"
    have "followUps_ok ?s"
      unfolding followUps_ok_def
    proof (intro conjI allI impI)
      show "distinct_keys (ch_followUps ?s)" using fok by (simp add: followUps_ok_def)
    next
      fix j g assume "map_of (ch_followUps ?s) j = Some g"
      then show "fu_ID g = j" "map_of (ch_followUpKeys ?s) (fu_IdempotencyKey g) = Some j"
        "map_of (ch_conversations ?s) (fu_ConversationID g) \<noteq> None"
        using followUps_leads [OF fok, of j g] fresh(2) conv by (auto simp: update_conv' split: if_splits)
    qed
    moreover have "external_ok ?s" using ok unfolding external_ok_def by simp
    moreover have "timeline_ok ?s" using ok unfolding timeline_ok_def by simp
    ultimately show ?thesis by (simp add: chats_ok_def)
  qed
  then show ?thesis
    using assms by (auto simp: CreateFollowUp_def Let_def split: option.split)
qed

lemma save_follow_up_ok:
  assumes "chats_ok s"
  shows "chats_ok (snd (SaveFollowUp ctx f n s))"
proof -
  note ok = assms[unfolded chats_ok_def]
  note fok = conjunct2 [OF conjunct2 [OF ok]]
  have "chats_ok (s\<lparr>ch_followUps := AList.update (fu_ID f) f (ch_followUps s)\<rparr>)"
    if old: "map_of (ch_followUps s) (fu_ID f) = Some g" and same: "sameFollowUpIdentity g f" for g
  proof -
    let ?s = "s\<lparr>ch_followUps := AList.update (fu_ID f) f (ch_followUps s)\<rparr>"
    have "fu_IdempotencyKey f = fu_IdempotencyKey g" "fu_ConversationID f = fu_ConversationID g"
      using same by (simp_all add: sameFollowUpIdentity_def)
    note keys = followUps_leads(2,3) [OF fok old, folded this]
    have "followUps_ok ?s"
      unfolding followUps_ok_def
    proof (intro conjI allI impI)
      show "distinct_keys (ch_followUps ?s)" using fok by (simp add: followUps_ok_def)
    next
      fix j h assume "map_of (ch_followUps ?s) j = Some h"
      then show "fu_ID h = j" "map_of (ch_followUpKeys ?s) (fu_IdempotencyKey h) = Some j"
        "map_of (ch_conversations ?s) (fu_ConversationID h) \<noteq> None"
        using followUps_leads [OF fok, of j h] keys by (auto simp: update_conv' split: if_splits)
    qed
    moreover have "external_ok ?s" using ok unfolding external_ok_def by simp
    moreover have "timeline_ok ?s" using ok unfolding timeline_ok_def by simp
    ultimately show ?thesis by (simp add: chats_ok_def)
  qed
  then show ?thesis
    using assms by (auto simp: SaveFollowUp_def split: option.split)
qed

text \<open>Dropping a conversation takes its messages and its follow-ups along.\<close>

lemma drop_ok:
  assumes "chats_ok s"
  shows "chats_ok (drop_conversation i s)"
proof -
  note ok = assms[unfolded chats_ok_def]
  let ?s = "drop_conversation i s"
  have conv: "map_of (ch_conversations ?s) j = (if j = i then None else map_of (ch_conversations s) j)" for j
    by (simp add: drop_conversation_def delete_conv')
  have ms: "map_of (ch_messages ?s) j = (if j = i then None else map_of (ch_messages s) j)" for j
    by (simp add: drop_conversation_def delete_conv')
  have "external_ok ?s"
    using ok unfolding external_ok_def conv by (auto simp: drop_conversation_def distinct_delete)
  moreover have "timeline_ok ?s"
  proof -
    have "messages_of j ?s = messages_of j s" if "j \<noteq> i" for j using that by (simp add: messages_of_def ms)
    then show ?thesis using ok unfolding timeline_ok_def conv ms by simp
  qed
  moreover have "followUps_ok ?s"
    unfolding followUps_ok_def
  proof (intro conjI allI impI)
    have d: "distinct_keys (ch_followUps s)" using ok by (simp add: followUps_ok_def)
    then show d': "distinct_keys (ch_followUps ?s)" by (simp add: drop_conversation_def distinct_map_filter)
    fix j f assume f: "map_of (ch_followUps ?s) j = Some f"
    then have "(j, f) \<in> set (ch_followUps s)" and other: "fu_ConversationID f \<noteq> i"
      using map_of_SomeD [OF f] by (auto simp: drop_conversation_def)
    then have "map_of (ch_followUps s) j = Some f" using d by simp
    from followUps_leads [OF conjunct2 [OF conjunct2 [OF ok]] this] other
    show "fu_ID f = j" "map_of (ch_followUpKeys ?s) (fu_IdempotencyKey f) = Some j"
      "map_of (ch_conversations ?s) (fu_ConversationID f) \<noteq> None"
      unfolding conv by (simp_all add: drop_conversation_def)
  qed
  ultimately show ?thesis by (simp add: chats_ok_def)
qed

lemma purge_ok: "chats_ok s \<Longrightarrow> chats_ok (snd (PurgeOrphanConversations ctx p apps s))"
proof -
  assume ok: "chats_ok s"
  have "chats_ok (fold (\<lambda>kc. drop_conversation (fst kc)) xs w)" if "chats_ok w" for xs :: "(ConversationID \<times> Conversation) list" and w
    using that by (induction xs arbitrary: w) (simp_all add: drop_ok)
  with ok show ?thesis by (simp add: PurgeOrphanConversations_def Let_def split: option.split)
qed

section \<open>Runs of the store\<close>

text \<open>
  Every operation that changes the store, with any arguments, failing or not. The one condition is
  on what is created: a conversation with no last message yet, as \<open>NewConversation\<close> makes
  it and its only caller passes it on. (\<open>CreateConversation\<close> itself would store a candidate
  that names a last message no one has stored.)
\<close>

inductive chats_run :: "Chats \<Rightarrow> bool" where
  start: "chats_run no_chats"
| created: "chats_run s \<Longrightarrow> conv_LastMessageID c = [] \<Longrightarrow> conv_LastMessageAt c = None
    \<Longrightarrow> chats_run (snd (CreateConversation ctx c s))"
| purged: "chats_run s \<Longrightarrow> chats_run (snd (PurgeOrphanConversations ctx p apps s))"
| saved: "chats_run s \<Longrightarrow> chats_run (snd (SaveConversation ctx c n s))"
| attached: "chats_run s \<Longrightarrow> chats_run (snd (AttachConversationApplication ctx i a s))"
| read: "chats_run s \<Longrightarrow> chats_run (snd (MarkConversationsReadLocally ctx p now s))"
| appended: "chats_run s \<Longrightarrow> chats_run (snd (AppendConversationMessage ctx m now s))"
| timed: "chats_run s \<Longrightarrow> chats_run (snd (CreateFollowUp ctx f s))"
| moved: "chats_run s \<Longrightarrow> chats_run (snd (SaveFollowUp ctx f n s))"

lemma chats_run_ok: "chats_run s \<Longrightarrow> chats_ok s"
  by (induction rule: chats_run.induct)
    (simp_all add: no_chats_ok create_ok save_conversation_ok attach_ok mark_read_ok append_ok
      create_follow_up_ok save_follow_up_ok purge_ok)

lemmas chats_external = chats_run_ok [unfolded chats_ok_def, THEN conjunct1]
lemmas chats_timeline = chats_run_ok [unfolded chats_ok_def, THEN conjunct2, THEN conjunct1]
lemmas chats_followUps = chats_run_ok [unfolded chats_ok_def, THEN conjunct2, THEN conjunct2]

section \<open>Saves\<close>

lemma revision_advances: "(r :: 64 word) \<noteq> 0 \<Longrightarrow> r = n + 1 \<Longrightarrow> n < r"
  using unatSuc [of n] by (simp add: word_less_nat_alt add.commute)

lemma FollowUp_Validate_revision: "FollowUp_Validate f = None \<Longrightarrow> fu_Revision f \<noteq> 0"
  by (auto simp: FollowUp_Validate_def split: if_splits)

interpretation conversations: revisioned_store "\<lambda>s. map_of (ch_conversations s)" conv_ID conv_Revision "SaveConversation None"
proof (unfold_locales, goal_cases)
  case (1 c n w w')
  then show ?case by (auto simp: SaveConversation_def update_conv' fun_eq_iff split: option.splits if_splits)
next
  case (2 c n w e w')
  then show ?case by (auto simp: SaveConversation_def split: option.splits if_splits)
next
  case (3 c n w w')
  then have "Conversation_Validate c = None" "conv_Revision c = n + 1"
    by (auto simp: SaveConversation_def split: option.splits if_splits)
  then show ?case using revision_advances [of "conv_Revision c" n] Conversation_Validate_None by blast
qed

interpretation follow_ups: revisioned_store "\<lambda>s. map_of (ch_followUps s)" fu_ID fu_Revision "SaveFollowUp None"
proof (unfold_locales, goal_cases)
  case (1 c n w w')
  then show ?case by (auto simp: SaveFollowUp_def update_conv' fun_eq_iff split: option.splits if_splits)
next
  case (2 c n w e w')
  then show ?case by (auto simp: SaveFollowUp_def split: option.splits if_splits)
next
  case (3 c n w w')
  then have "FollowUp_Validate c = None" "fu_Revision c = n + 1"
    by (auto simp: SaveFollowUp_def split: option.splits if_splits)
  then show ?case using revision_advances FollowUp_Validate_revision by blast
qed

section \<open>A message that was added\<close>

lemma appended:
  assumes "chats_run s" and "AppendConversationMessage None m now s = (Inr (c, True), s')"
  shows "map_of (ch_conversations s') (msg_ConversationID m) = Some c"
    and "map_of (ch_messages s') (msg_ConversationID m) = Some (messages_of (msg_ConversationID m) s')"
    and "map_of (messages_of (msg_ConversationID m) s') (msg_ID m) = Some m"
    and "messages_ok (msg_ConversationID m) (messages_of (msg_ConversationID m) s')"
proof -
  have run: "chats_run s'" using chats_run.appended [OF assms(1), of None m now] assms(2) by simp
  obtain d where d: "map_of (ch_conversations s) (msg_ConversationID m) = Some d"
    using assms(2) by (auto simp: AppendConversationMessage_def split: option.splits)
  have id: "conv_ID c = msg_ConversationID m" if "Observe m now d = Inr (b, c)" for b
    using that by (auto simp: Observe_def conv_touch_def split: option.splits if_splits)
  let ?ms = "messages_of (msg_ConversationID m) s"
  let ?found = "if msg_ExternalID m = [] then None
      else find (\<lambda>b. msg_ExternalID b = msg_ExternalID m) (map snd ?ms)"
  have v: "Message_Validate m = None"
    using assms(2) by (auto simp: AppendConversationMessage_def split: option.splits)
  have new: "map_of ?ms (msg_ID m) = None"
  proof (rule ccontr)
    assume "map_of ?ms (msg_ID m) \<noteq> None"
    then obtain x where x: "map_of ?ms (msg_ID m) = Some x" by blast
    from assms(2) show False
      by (simp only: AppendConversationMessage_def Let_def v d x option.case) (simp split: if_splits)
  qed
  obtain f where f: "?found = f" by blast
  note eq = assms(2) [unfolded AppendConversationMessage_def Let_def v d new f option.case]
  have f': "f = None" using eq by (cases f) (simp_all split: if_splits)
  obtain b where b: "Observe m now d = Inr (b, c)"
    and s': "s' = s\<lparr>ch_messages := AList.update (msg_ConversationID m) (AList.update (msg_ID m) m ?ms)
          (AList.update (msg_ConversationID m) ?ms (ch_messages s)),
        ch_conversations := AList.update (conv_ID c) c (ch_conversations s)\<rparr>"
    using eq by (cases "Observe m now d") (auto simp: f')
  show "map_of (ch_conversations s') (msg_ConversationID m) = Some c"
    "map_of (ch_messages s') (msg_ConversationID m) = Some (messages_of (msg_ConversationID m) s')"
    "map_of (messages_of (msg_ConversationID m) s') (msg_ID m) = Some m"
    by (simp_all add: s' id [OF b] messages_of_def)
  show "messages_ok (msg_ConversationID m) (messages_of (msg_ConversationID m) s')"
    by (rule messages_of_ok [OF chats_timeline [OF run]])
qed

section \<open>Properties\<close>

text \<open>One conversation, created and then told of one message.\<close>

definition sample_opened :: Chats where
  "sample_opened = \<lparr>ch_conversations = [(''c1'', sample_conversation)], ch_external = [((''hh'', ''p1'', ''77''), ''c1'')],
     ch_messages = [], ch_followUps = [], ch_followUpKeys = []\<rparr>"

definition sample_observed :: Conversation where
  "sample_observed = sample_conversation\<lparr>conv_LastMessageID := ''m1'', conv_LastMessageAt := Some 15,
     conv_LastIncomingAt := Some 15, conv_UpdatedAt := 20, conv_Revision := 2\<rparr>"

definition sample_chats :: Chats where
  "sample_chats = \<lparr>ch_conversations = [(''c1'', sample_observed)], ch_external = [((''hh'', ''p1'', ''77''), ''c1'')],
     ch_messages = [(''c1'', [(''m1'', sample_incoming)])], ch_followUps = [], ch_followUpKeys = []\<rparr>"

lemma sample_conversation_valid: "Conversation_Validate sample_conversation = None"
  by (simp add: Conversation_Validate_None conv_base_def sample_conversation_def conversation_eval)

lemma sample_incoming_valid: "Message_Validate sample_incoming = None"
  by (simp add: Message_Validate_def sample_incoming_def validate_direction_def conversation_eval)

lemma sample_create: "CreateConversation None sample_conversation no_chats = (Inr (sample_conversation, True), sample_opened)"
  unfolding CreateConversation_def sample_conversation_valid
  by (simp add: no_chats_def sample_opened_def sample_conversation_def external_of_def)

lemma sample_opened_run: "chats_run sample_opened"
  using chats_run.created [OF chats_run.start, of sample_conversation None] sample_create
  by (simp add: sample_conversation_def)

lemma sample_append:
  "AppendConversationMessage None sample_incoming 20 sample_opened = (Inr (sample_observed, True), sample_chats)"
proof -
  have "Observe sample_incoming 20 sample_conversation = Inr (True, sample_observed)"
    unfolding Observe_def sample_incoming_valid
    by (simp add: sample_conversation_def sample_incoming_def sample_observed_def observe_marks_def after_option_def
        conv_touch_def IsZero_def)
  then show ?thesis
    unfolding AppendConversationMessage_def sample_incoming_valid
    by (simp add: sample_opened_def sample_chats_def messages_of_def)
      (simp add: sample_incoming_def sample_observed_def sample_conversation_def)
qed

lemma sample_chats_run: "chats_run sample_chats"
  using chats_run.appended [OF sample_opened_run, of None sample_incoming 20] sample_append by simp

text \<open>
  C35. The stored timeline of a conversation. After any sequence of the store's operations (the
  creations, saves, links, reads, messages, follow-ups and purges, with any arguments), provided
  only that no conversation was created with a last message already named, which
  \<open>NewConversation\<close> never does: every message stored under a conversation belongs to it, none
  is later than the conversation's last message, that last message is itself stored with exactly
  the instant the conversation shows, and the platform's identifier of a message occurs once.
\<close>

theorem last_message_is_latest:
  assumes "chats_run s" and "map_of (ch_conversations s) i = Some c" and "ConversationMessages None i s = Inr ms"
  shows "(\<forall>m\<in>set ms. msg_ConversationID m = i \<and> map_of (messages_of i s) (msg_ID m) = Some m
        \<and> (\<exists>t. conv_LastMessageAt c = Some t \<and> msg_OccurredAt m \<le> t))
    \<and> (\<forall>t. conv_LastMessageAt c = Some t \<longrightarrow> (\<exists>m\<in>set ms. msg_ID m = conv_LastMessageID c \<and> msg_OccurredAt m = t))
    \<and> (\<forall>m\<in>set ms. \<forall>m'\<in>set ms. msg_ExternalID m \<noteq> [] \<and> msg_ExternalID m' = msg_ExternalID m \<longrightarrow> m' = m)"
proof -
  have set: "set ms = snd ` set (messages_of i s)"
    using assms(2,3) by (force simp: ConversationMessages_def)
  note mok = messages_of_ok [OF chats_timeline [OF assms(1)], of i]
  have d: "distinct_keys (messages_of i s)" using mok by (simp add: messages_ok_def)
  have mem: "m \<in> set ms \<longleftrightarrow> (\<exists>k. map_of (messages_of i s) k = Some m)" for m
    using in_set_map_of [OF d] by (force simp: set)
  have ids: "msg_ID m = k \<and> msg_ConversationID m = i" if "map_of (messages_of i s) k = Some m" for k m
    using mok that unfolding messages_ok_def by metis
  have uniq: "k = k'" if "map_of (messages_of i s) k = Some m" "map_of (messages_of i s) k' = Some m'" "msg_ExternalID m \<noteq> []"
    "msg_ExternalID m = msg_ExternalID m'" for k k' m m'
    using mok that unfolding messages_ok_def by metis
  note marks = timeline_marks [OF chats_timeline [OF assms(1)] assms(2)]
  have 1: "msg_ConversationID m = i \<and> map_of (messages_of i s) (msg_ID m) = Some m
        \<and> (\<exists>t. conv_LastMessageAt c = Some t \<and> msg_OccurredAt m \<le> t)" if m: "m \<in> set ms" for m
  proof -
    obtain k where k: "map_of (messages_of i s) k = Some m" using m mem by blast
    with ids [OF k] marks(2) [OF k] show ?thesis by (auto simp: covers_def reaches_def split: option.splits)
  qed
  have 2: "\<exists>m\<in>set ms. msg_ID m = conv_LastMessageID c \<and> msg_OccurredAt m = t" if "conv_LastMessageAt c = Some t" for t
    using marks(1) that ids mem by (fastforce simp: last_marked_def)
  have 3: "m' = m" if "m \<in> set ms" "m' \<in> set ms" "msg_ExternalID m \<noteq> []" "msg_ExternalID m' = msg_ExternalID m" for m m'
    using that uniq by (fastforce simp: mem)
  show ?thesis using 1 2 3 by blast
qed

theorem last_message_is_latest_witness:
  "\<exists>m\<in>set [sample_incoming]. msg_ID m = conv_LastMessageID sample_observed \<and> msg_OccurredAt m = 15"
proof -
  have "map_of (ch_conversations sample_chats) ''c1'' = Some sample_observed" by (simp add: sample_chats_def)
  moreover have "ConversationMessages None ''c1'' sample_chats = Inr [sample_incoming]"
    by (simp add: ConversationMessages_def sample_chats_def messages_of_def sort_Slice_def)
  moreover have "conv_LastMessageAt sample_observed = Some 15" by (simp add: sample_observed_def)
  ultimately show ?thesis using last_message_is_latest [OF sample_chats_run, of "''c1''"] by blast
qed

text \<open>
  A message is stored once. After a message was added, reporting it again, under its own id or
  under a fresh id with the platform's identifier, is answered with the conversation as it is,
  and the store stays exactly the same.
\<close>

theorem message_repeat_changes_nothing:
  assumes "chats_run s" and "AppendConversationMessage None m now s = (Inr (c, True), s')"
    and "Message_Validate m' = None" and "sameMessagePayload m m'"
    and "msg_ID m' = msg_ID m \<or> msg_ExternalID m \<noteq> [] \<and> map_of (messages_of (msg_ConversationID m) s') (msg_ID m') = None"
  shows "AppendConversationMessage None m' now' s' = (Inr (c, False), s')"
proof -
  let ?i = "msg_ConversationID m"
  note s' = appended [OF assms(1,2)]
  have same: "msg_ConversationID m' = ?i" "msg_ExternalID m' = msg_ExternalID m"
    using assms(4) by (simp_all add: sameMessagePayload_def)
  have kept: "s'\<lparr>ch_messages := AList.update ?i (messages_of ?i s') (ch_messages s')\<rparr> = s'"
    by (simp add: update_triv [OF s'(2)])
  consider (id) "msg_ID m' = msg_ID m" | (ext) "msg_ExternalID m \<noteq> []" "map_of (messages_of ?i s') (msg_ID m') = None"
    using assms(5) by (elim disjE conjE)
  then show ?thesis
  proof cases
    case id
    with s' same kept assms(3,4) show ?thesis
      by (simp add: AppendConversationMessage_def sameMessage_def)
  next
    case ext
    obtain b where b: "find (\<lambda>b. msg_ExternalID b = msg_ExternalID m) (map snd (messages_of ?i s')) = Some b"
      using map_of_SomeD [OF s'(3)] by (cases "find (\<lambda>b. msg_ExternalID b = msg_ExternalID m) (map snd (messages_of ?i s'))")
        (auto simp: find_None_iff)
    then have "b \<in> snd ` set (messages_of ?i s')" and same_ext: "msg_ExternalID b = msg_ExternalID m"
      by (auto simp: find_Some_iff)
    then obtain k where "(k, b) \<in> set (messages_of ?i s')" by auto
    moreover have "distinct_keys (messages_of ?i s')" using s'(4) unfolding messages_ok_def by blast
    ultimately have k: "map_of (messages_of ?i s') k = Some b" using in_set_map_of by metis
    have "k = msg_ID m"
      using s'(4) k s'(3) ext(1) same_ext unfolding messages_ok_def by metis
    with k s'(3) have "b = m" by simp
    with b have b': "find (\<lambda>b. msg_ExternalID b = msg_ExternalID m) (map snd (messages_of ?i s')) = Some m" by simp
    show ?thesis
      by (simp only: AppendConversationMessage_def Let_def option.case assms(3) same s'(1) ext(2) b' ext(1) kept
          if_False assms(4) not_True_eq_False)
  qed
qed

theorem message_repeat_changes_nothing_witness:
  "AppendConversationMessage None (sample_incoming\<lparr>msg_ID := ''m9''\<rparr>) 30 sample_chats
     = (Inr (sample_observed, False), sample_chats)"
proof (rule message_repeat_changes_nothing [OF sample_opened_run sample_append])
  show "Message_Validate (sample_incoming\<lparr>msg_ID := ''m9''\<rparr>) = None"
    by (simp add: Message_Validate_def sample_incoming_def validate_direction_def conversation_eval)
qed (simp_all add: sameMessagePayload_def sameMessageReply_def sameMessageTime_def sample_incoming_def
    sample_chats_def messages_of_def)

text \<open>
  A conversation is created once. Right after its creation, whoever asks to create
  the conversation of a profile that the platform already reported is answered with the stored
  one, and the store stays as it is.
\<close>

theorem conversation_created_once:
  assumes "chats_run s" and "CreateConversation None c s = (Inr (c', True), s')"
    and "Conversation_Validate d = None" and "conv_Status d = ConversationActive" and "conv_Revision d = 1"
    and "external_of d = external_of c" and "conv_ApplicationID d = conv_ApplicationID c"
    and "conv_ID d = conv_ID c \<or> map_of (ch_conversations s) (conv_ID d) = None"
  shows "c' = c \<and> CreateConversation None d s' = (Inr (c, False), s')"
proof -
  have s': "c' = c" "s' = s\<lparr>ch_conversations := AList.update (conv_ID c) c (ch_conversations s),
      ch_external := AList.update (external_of c) (conv_ID c) (ch_external s)\<rparr>"
    using assms(2) by (auto simp: CreateConversation_def Let_def split: option.splits if_splits)
  show ?thesis
  proof (cases "conv_ID d = conv_ID c")
    case True
    with assms(3-7) s' show ?thesis
      by (simp add: CreateConversation_def sameConversationIdentity_def external_of_def)
  next
    case False
    with assms(3-8) s' show ?thesis by (simp add: CreateConversation_def update_conv')
  qed
qed

theorem conversation_created_once_witness:
  "CreateConversation None (sample_conversation\<lparr>conv_ID := ''c2''\<rparr>) sample_opened
     = (Inr (sample_conversation, False), sample_opened)"
proof -
  have "Conversation_Validate (sample_conversation\<lparr>conv_ID := ''c2''\<rparr>) = None"
    by (simp add: Conversation_Validate_None conv_base_def sample_conversation_def conversation_eval)
  then show ?thesis
    using conversation_created_once [OF chats_run.start sample_create, of "sample_conversation\<lparr>conv_ID := ''c2''\<rparr>"]
    by (simp add: no_chats_def sample_conversation_def external_of_def)
qed

text \<open>
  C36. What a purge leaves behind. When retention drops the conversation of a removed application,
  its entry in the index of the platform's identifiers stays: a later creation of a conversation
  for the same chat, under a new id, stores nothing. Without an application it succeeds and
  answers with an empty conversation; with one it fails as a conflict.
\<close>

theorem purged_conversation_lost:
  assumes "chats_run s" and "map_of (ch_conversations s) i = Some c" and "orphaned p apps c"
    and "PurgeOrphanConversations None p apps s = (Inr n, s')"
    and "Conversation_Validate d = None" and "conv_Status d = ConversationActive" and "conv_Revision d = 1"
    and "external_of d = external_of c" and "map_of (ch_conversations s) (conv_ID d) = None"
  shows "map_of (ch_conversations s') i = None
    \<and> CreateConversation None d s' =
        ((if conv_ApplicationID d = [] then Inr (zero_Conversation, False)
          else Inl (Err ''conversation external id conflicts with a different application'')), s')"
proof -
  let ?gone = "filter (\<lambda>kc. orphaned p apps (snd kc)) (ch_conversations s)"
  have s': "s' = fold (\<lambda>kc. drop_conversation (fst kc)) ?gone s"
    using assms(4) by (simp add: PurgeOrphanConversations_def Let_def)
  have drop: "map_of (ch_conversations (fold (\<lambda>kc. drop_conversation (fst kc)) xs w)) j =
      (if j \<in> fst ` set xs then None else map_of (ch_conversations w) j)
    \<and> ch_external (fold (\<lambda>kc. drop_conversation (fst kc)) xs w) = ch_external w"
    for xs :: "(ConversationID \<times> Conversation) list" and w j
    by (induction xs arbitrary: w) (auto simp: drop_conversation_def delete_conv')
  have "(i, c) \<in> set ?gone" using map_of_SomeD [OF assms(2)] assms(3) by simp
  then have gone: "i \<in> fst ` set ?gone" by force
  have ext: "map_of (ch_external s') (external_of d) = Some i"
    using drop [of ?gone s i] external_leads(2) [OF chats_external [OF assms(1)] assms(2)] assms(8) by (simp add: s')
  have none: "map_of (ch_conversations s') i = None" using drop [of ?gone s i] gone by (simp add: s')
  have new: "map_of (ch_conversations s') (conv_ID d) = None"
    using drop [of ?gone s "conv_ID d"] assms(9) by (simp add: s')
  show ?thesis
    using none assms(5-7) by (simp add: CreateConversation_def ext new zero_Conversation_def)
qed

text \<open>The application of the only conversation is gone.\<close>

definition sample_linked :: Conversation where
  "sample_linked = sample_conversation\<lparr>conv_ApplicationID := ''ap1''\<rparr>"

lemma sample_linked_run: "chats_run (sample_opened\<lparr>ch_conversations := [(''c1'', sample_linked)]\<rparr>)"
proof -
  have "Conversation_Validate sample_linked = None"
    by (simp add: Conversation_Validate_None conv_base_def sample_linked_def sample_conversation_def conversation_eval)
  then have "CreateConversation None sample_linked no_chats =
      (Inr (sample_linked, True), sample_opened\<lparr>ch_conversations := [(''c1'', sample_linked)]\<rparr>)"
    by (simp add: CreateConversation_def no_chats_def sample_opened_def sample_linked_def sample_conversation_def
        external_of_def)
  then show ?thesis
    using chats_run.created [OF chats_run.start, of sample_linked None]
    by (simp add: sample_linked_def sample_conversation_def)
qed

theorem purged_conversation_lost_witness:
  "CreateConversation None (sample_conversation\<lparr>conv_ID := ''c2''\<rparr>)
     (snd (PurgeOrphanConversations None ''p1'' [] (sample_opened\<lparr>ch_conversations := [(''c1'', sample_linked)]\<rparr>)))
     = (Inr (zero_Conversation, False),
        snd (PurgeOrphanConversations None ''p1'' [] (sample_opened\<lparr>ch_conversations := [(''c1'', sample_linked)]\<rparr>)))"
proof -
  let ?s = "sample_opened\<lparr>ch_conversations := [(''c1'', sample_linked)]\<rparr>"
  let ?d = "sample_conversation\<lparr>conv_ID := ''c2''\<rparr>"
  have "orphaned ''p1'' [] sample_linked" by (simp add: orphaned_def sample_linked_def sample_conversation_def)
  moreover have "PurgeOrphanConversations None ''p1'' [] ?s =
      (Inr 1, snd (PurgeOrphanConversations None ''p1'' [] ?s))"
    by (simp add: PurgeOrphanConversations_def orphaned_def sample_linked_def sample_conversation_def)
  moreover have "Conversation_Validate ?d = None"
    by (simp add: Conversation_Validate_None conv_base_def sample_conversation_def conversation_eval)
  moreover have "conv_Status ?d = ConversationActive" "conv_Revision ?d = 1" "conv_ApplicationID ?d = []"
    "external_of ?d = external_of sample_linked" "map_of (ch_conversations ?s) ''c1'' = Some sample_linked"
    "map_of (ch_conversations ?s) (conv_ID ?d) = None"
    by (simp_all add: sample_linked_def sample_conversation_def external_of_def)
  ultimately show ?thesis
    using purged_conversation_lost [OF sample_linked_run, of "''c1''" sample_linked "''p1''" "[]" 1 _ ?d] by simp
qed

end
