(* ===== verification/Revisions_Props.thy ===== *)
theory Revisions_Props
  imports Campaign_Props AuthSession_Props ConversationStore_Props
begin

text \<open>
  The three stores guarded by a revision, side by side: what a writer knows when its save
  succeeds, by the contract \<open>revisioned_store\<close> that each of them meets.
\<close>

text \<open>
  C15. No update is lost, in the stores of campaigns, of search runs, of logins, of conversations
  and of follow-ups: whatever other writers saved since a writer read a record, if its save with
  the revision it read succeeds, then the record it replaces is exactly the one it read.
\<close>

theorem saves_never_lost:
  assumes "map_of campaigns (camp_ID c) = Some camp"
    and "SaveApplicationCampaign None c (camp_Revision camp) (campaigns.saves xs campaigns) = (None, campaigns')"
    and "map_of runs (run_SearchID r) = Some run"
    and "SaveSearchRun None r (run_Revision run) (searches.saves ys runs) = (None, runs')"
    and "map_of sessions (au_ID s) = Some session"
    and "SaveAuthSession None s (au_Revision session) (auth_sessions.saves zs sessions) = (None, sessions')"
    and "map_of (ch_conversations chats) (conv_ID v) = Some conversation"
    and "SaveConversation None v (conv_Revision conversation) (conversations.saves us chats) = (None, chats')"
    and "map_of (ch_followUps chats) (fu_ID f) = Some timer"
    and "SaveFollowUp None f (fu_Revision timer) (follow_ups.saves vs chats) = (None, chats'')"
  shows "map_of (campaigns.saves xs campaigns) (camp_ID c) = Some camp
    \<and> map_of (searches.saves ys runs) (run_SearchID r) = Some run
    \<and> map_of (auth_sessions.saves zs sessions) (au_ID s) = Some session
    \<and> map_of (ch_conversations (conversations.saves us chats)) (conv_ID v) = Some conversation
    \<and> map_of (ch_followUps (follow_ups.saves vs chats)) (fu_ID f) = Some timer"
  using campaigns.save_replaces_read [OF assms(1,2)] searches.save_replaces_read [OF assms(3,4)]
    auth_sessions.save_replaces_read [OF assms(5,6)] conversations.save_replaces_read [OF assms(7,8)]
    follow_ups.save_replaces_read [OF assms(9,10)] by blast

text \<open>Another campaign is saved between the read and the save of each writer.\<close>

definition sample_waited :: ApplicationCampaign where
  "sample_waited = sample_running\<lparr>camp_Revision := 2, camp_UpdatedAt := 2\<rparr>"

definition sample_other :: ApplicationCampaign where
  "sample_other = sample_running\<lparr>camp_ID := ''c2''\<rparr>"

lemma sample_campaign_saves:
  "campaigns.saves [(sample_other\<lparr>camp_Revision := 2\<rparr>, 1)] [(''c1'', sample_running), (''c2'', sample_other)]
     = [(''c1'', sample_running), (''c2'', sample_other\<lparr>camp_Revision := 2\<rparr>)]"
  by (simp add: SaveApplicationCampaign_def sample_other_def sample_running_def sameCampaignDefinition_def
      campaign_eval)

lemma sample_campaign_saved:
  "SaveApplicationCampaign None sample_waited 1
     [(''c1'', sample_running), (''c2'', sample_other\<lparr>camp_Revision := 2\<rparr>)]
     = (None, [(''c1'', sample_waited), (''c2'', sample_other\<lparr>camp_Revision := 2\<rparr>)])"
  by (simp add: SaveApplicationCampaign_def sample_waited_def sample_running_def sameCampaignDefinition_def
      campaign_eval)

lemma sample_search_saved:
  "SaveSearchRun None (sample_search\<lparr>run_Revision := 5\<rparr>) 4 [(''s1'', sample_search)]
     = (None, [(''s1'', sample_search\<lparr>run_Revision := 5\<rparr>)])"
proof -
  have "json_Valid ''{}''" by code_simp
  then show ?thesis
    by (simp add: SaveSearchRun_def SearchRun_Validate_def sample_search_def TrimSpace_id space_heads_def
        space_lasts_def)
qed

lemma sample_session_saved:
  "SaveAuthSession None (sample_session\<lparr>au_Revision := 2\<rparr>) 1 [(''a1'', sample_session)]
     = (None, [(''a1'', sample_session\<lparr>au_Revision := 2\<rparr>)])"
  by (simp add: SaveAuthSession_def sample_session_def AuthSession_Validate_def validate_status_def
      sameAuthSessionInputs_def word_le_nat_alt)

text \<open>A conversation with a follow-up, each saved by one writer.\<close>

definition sample_timed :: Chats where
  "sample_timed = sample_opened\<lparr>ch_followUps := [(''f1'', sample_follow_up)], ch_followUpKeys := [(''k1'', ''f1'')]\<rparr>"

lemma sample_conversation_saved:
  "SaveConversation None (sample_conversation\<lparr>conv_Revision := 2\<rparr>) 1 sample_timed
     = (None, sample_timed\<lparr>ch_conversations := [(''c1'', sample_conversation\<lparr>conv_Revision := 2\<rparr>)]\<rparr>)"
proof -
  have "Conversation_Validate (sample_conversation\<lparr>conv_Revision := 2\<rparr>) = None"
    using sample_conversation_valid by (simp add: Conversation_Validate_None conv_base_def)
  then show ?thesis
    by (simp add: SaveConversation_def sameConversationIdentity_def sameConversationTimeline_def sample_timed_def
        sample_opened_def sample_conversation_def)
qed

lemma sample_follow_up_saved:
  "SaveFollowUp None (sample_follow_up\<lparr>fu_Revision := 2\<rparr>) 1 sample_timed
     = (None, sample_timed\<lparr>ch_followUps := [(''f1'', sample_follow_up\<lparr>fu_Revision := 2\<rparr>)]\<rparr>)"
  by (simp add: SaveFollowUp_def FollowUp_Validate_def sameFollowUpIdentity_def sample_timed_def sample_follow_up_def
      follow_up_eval)

theorem saves_never_lost_witness:
  "map_of (campaigns.saves [(sample_other\<lparr>camp_Revision := 2\<rparr>, 1)]
     [(''c1'', sample_running), (''c2'', sample_other)]) ''c1'' = Some sample_running"
proof -
  have "camp_ID sample_waited = ''c1''" "camp_Revision sample_running = 1"
    "run_SearchID (sample_search\<lparr>run_Revision := 5\<rparr>) = ''s1''" "run_Revision sample_search = 4"
    "au_ID (sample_session\<lparr>au_Revision := 2\<rparr>) = ''a1''" "au_Revision sample_session = 1"
    "conv_ID (sample_conversation\<lparr>conv_Revision := 2\<rparr>) = ''c1''" "conv_Revision sample_conversation = 1"
    "fu_ID (sample_follow_up\<lparr>fu_Revision := 2\<rparr>) = ''f1''" "fu_Revision sample_follow_up = 1"
    "map_of (ch_conversations sample_timed) ''c1'' = Some sample_conversation"
    "map_of (ch_followUps sample_timed) ''f1'' = Some sample_follow_up"
    by (simp_all add: sample_waited_def sample_running_def sample_search_def sample_session_def sample_timed_def
        sample_opened_def sample_conversation_def sample_follow_up_def)
  with saves_never_lost [of "[(''c1'', sample_running), (''c2'', sample_other)]" sample_waited sample_running
      "[(sample_other\<lparr>camp_Revision := 2\<rparr>, 1)]" _ "[(''s1'', sample_search)]"
      "sample_search\<lparr>run_Revision := 5\<rparr>" sample_search "[]" _ "[(''a1'', sample_session)]"
      "sample_session\<lparr>au_Revision := 2\<rparr>" sample_session "[]" _ sample_timed
      "sample_conversation\<lparr>conv_Revision := 2\<rparr>" sample_conversation "[]" _
      "sample_follow_up\<lparr>fu_Revision := 2\<rparr>" sample_follow_up "[]"]
    sample_campaign_saves sample_campaign_saved sample_search_saved sample_session_saved
    sample_conversation_saved sample_follow_up_saved
  show ?thesis by simp
qed

end
