(* ===== verification/Activity.thy ===== *)
theory Activity
  imports Application
begin

text \<open>
  \<open>core/profile_activity.go\<close>, \<open>storage/memory/profile_activity.go\<close> and
  \<open>worker/profile_activity.go\<close>: the record of an applicant's actions and the snapshots of
  the platform's activity counters. An identifier is a digest of what happened, so an action is
  kept once. The state is a map from identifiers.
\<close>

section \<open>Data\<close>

datatype ProfileActivityKind =
    ActivityVacancyInspected | ActivityApplicationSubmitted | ActivityConversationMessageSent
  | ActivityResumeTouched | ActivityKindOther string

fun activity_kind_text :: "ProfileActivityKind \<Rightarrow> string" where
  "activity_kind_text ActivityVacancyInspected = ''vacancy.inspected''"
| "activity_kind_text ActivityApplicationSubmitted = ''application.submitted''"
| "activity_kind_text ActivityConversationMessageSent = ''conversation.message_sent''"
| "activity_kind_text ActivityResumeTouched = ''resume.touched''"
| "activity_kind_text (ActivityKindOther s) = s"

record ProfileActivityRecord =
  pa_ID :: string
  pa_Platform :: Platform
  pa_ProfileID :: ProfileID
  pa_ResumeID :: string
  pa_Kind :: ProfileActivityKind
  pa_SourceID :: string
  pa_OccurredAt :: time

record ProfileActivitySnapshot =
  ps_ID :: string
  ps_Platform :: Platform
  ps_ProfileID :: ProfileID
  ps_ResumeID :: string
  ps_SourceID :: string
  ps_Score :: "int option"
  ps_ScoreHidden :: bool
  ps_PeriodDays :: "int option"
  ps_SearchShows :: "int option"
  ps_Views :: "int option"
  ps_NewViews :: "int option"
  ps_Invitations :: "int option"
  ps_NewInvitations :: "int option"
  ps_ResponseStreak :: "int option"
  ps_ResponsesRequired :: "int option"
  ps_ObservedAt :: time

text \<open>The fields of an identity, each followed by a zero byte except the last one, and digested.\<close>

fun zero_separated :: "string list \<Rightarrow> string" where
  "zero_separated [] = []"
| "zero_separated [x] = x"
| "zero_separated (x # y # zs) = x @ CHR 0x00 # zero_separated (y # zs)"

definition identity_digest :: "string list \<Rightarrow> string" where
  "identity_digest parts = hex_EncodeToString (take 16 (sha256_Sum256 (zero_separated parts)))"

definition NewProfileActivityRecord ::
  "Platform \<Rightarrow> ProfileID \<Rightarrow> string \<Rightarrow> ProfileActivityKind \<Rightarrow> string \<Rightarrow> time \<Rightarrow> error + ProfileActivityRecord" where
  "NewProfileActivityRecord platform profileID resumeID kind sourceID occurredAt =
     (let platform' = TrimSpace platform; profileID' = TrimSpace profileID; resumeID' = TrimSpace resumeID;
          sourceID' = TrimSpace sourceID
      in if platform' = [] \<or> profileID' = [] \<or> sourceID' = []
         then Inl (Err ''profile activity requires platform, profile and source id'')
         else if IsZero occurredAt then Inl (Err ''profile activity requires occurred_at'')
         else if kind \<notin> {ActivityVacancyInspected, ActivityApplicationSubmitted,
                 ActivityConversationMessageSent, ActivityResumeTouched}
         then Inl (Err ''profile activity has invalid kind'')
         else if kind = ActivityResumeTouched \<and> resumeID' = []
         then Inl (Err ''resume touch activity requires resume id'')
         else Inr \<lparr>pa_ID = ''activity-'' @ identity_digest [platform', profileID', activity_kind_text kind, sourceID'],
           pa_Platform = platform', pa_ProfileID = profileID', pa_ResumeID = resumeID', pa_Kind = kind,
           pa_SourceID = sourceID', pa_OccurredAt = occurredAt\<rparr>)"

definition ActivityRecord_Validate :: "ProfileActivityRecord \<Rightarrow> error option" where
  "ActivityRecord_Validate r =
     (if pa_ID r = [] then Some (Err ''profile activity requires id'')
      else case NewProfileActivityRecord (pa_Platform r) (pa_ProfileID r) (pa_ResumeID r) (pa_Kind r)
             (pa_SourceID r) (pa_OccurredAt r) of
        Inl e \<Rightarrow> Some e
      | Inr expected \<Rightarrow>
          if pa_ID expected \<noteq> pa_ID r then Some (Err ''profile activity id does not match its identity'') else None)"

definition NewProfileActivitySnapshot ::
  "Platform \<Rightarrow> ProfileID \<Rightarrow> string \<Rightarrow> string \<Rightarrow> time \<Rightarrow> error + ProfileActivitySnapshot" where
  "NewProfileActivitySnapshot platform profileID resumeID sourceID observedAt =
     (let platform' = TrimSpace platform; profileID' = TrimSpace profileID; resumeID' = TrimSpace resumeID;
          sourceID' = TrimSpace sourceID
      in if platform' = [] \<or> profileID' = [] \<or> resumeID' = [] \<or> sourceID' = []
         then Inl (Err ''profile activity snapshot requires platform, profile, resume and source id'')
         else if IsZero observedAt then Inl (Err ''profile activity snapshot requires observed_at'')
         else Inr \<lparr>ps_ID = ''activity-snapshot-'' @ identity_digest [platform', profileID', resumeID', sourceID'],
           ps_Platform = platform', ps_ProfileID = profileID', ps_ResumeID = resumeID', ps_SourceID = sourceID',
           ps_Score = None, ps_ScoreHidden = False, ps_PeriodDays = None, ps_SearchShows = None, ps_Views = None,
           ps_NewViews = None, ps_Invitations = None, ps_NewInvitations = None, ps_ResponseStreak = None,
           ps_ResponsesRequired = None, ps_ObservedAt = observedAt\<rparr>)"

definition snapshot_counters :: "ProfileActivitySnapshot \<Rightarrow> int option list" where
  "snapshot_counters s = [ps_Score s, ps_PeriodDays s, ps_SearchShows s, ps_Views s, ps_NewViews s,
     ps_Invitations s, ps_NewInvitations s, ps_ResponseStreak s, ps_ResponsesRequired s]"

definition ActivitySnapshot_Validate :: "ProfileActivitySnapshot \<Rightarrow> error option" where
  "ActivitySnapshot_Validate s =
     (if ps_ID s = [] then Some (Err ''profile activity snapshot requires id'')
      else case NewProfileActivitySnapshot (ps_Platform s) (ps_ProfileID s) (ps_ResumeID s) (ps_SourceID s)
             (ps_ObservedAt s) of
        Inl e \<Rightarrow> Some e
      | Inr expected \<Rightarrow>
          if ps_ID expected \<noteq> ps_ID s then Some (Err ''profile activity snapshot id does not match its identity'')
          else if list_ex (\<lambda>c. case c of Some n \<Rightarrow> n < 0 | None \<Rightarrow> False) (snapshot_counters s)
          then Some (Err ''profile activity snapshot counters cannot be negative'') else None)"

section \<open>The store\<close>

type_synonym Activities = "(string \<times> ProfileActivityRecord) list"
type_synonym Snapshots = "(string \<times> ProfileActivitySnapshot) list"

definition RecordProfileActivity ::
  "ctx \<Rightarrow> ProfileActivityRecord \<Rightarrow> Activities \<Rightarrow> (error + bool) \<times> Activities" where
  "RecordProfileActivity ctx candidate activities =
     (case ctx of Some e \<Rightarrow> (Inl e, activities) | None \<Rightarrow>
      case ActivityRecord_Validate candidate of Some e \<Rightarrow> (Inl e, activities) | None \<Rightarrow>
      case map_of activities (pa_ID candidate) of
        Some stored \<Rightarrow>
          if pa_Platform stored \<noteq> pa_Platform candidate \<or> pa_ProfileID stored \<noteq> pa_ProfileID candidate
             \<or> pa_ResumeID stored \<noteq> pa_ResumeID candidate \<or> pa_Kind stored \<noteq> pa_Kind candidate
             \<or> pa_SourceID stored \<noteq> pa_SourceID candidate
          then (Inl (Err ''profile activity id conflicts with different identity''), activities)
          else (Inr False, activities)
      | None \<Rightarrow> (Inr True, AList.update (pa_ID candidate) candidate activities))"

record ProfileActivityFilter =
  paf_Platform :: Platform
  paf_ProfileID :: ProfileID
  paf_Kind :: ProfileActivityKind

definition NoActivityKind :: ProfileActivityKind where
  "NoActivityKind = ActivityKindOther []"

definition profileActivityMatches :: "ProfileActivityRecord \<Rightarrow> ProfileActivityFilter \<Rightarrow> bool" where
  "profileActivityMatches r f \<longleftrightarrow> (paf_Platform f = [] \<or> pa_Platform r = paf_Platform f)
     \<and> (paf_ProfileID f = [] \<or> pa_ProfileID r = paf_ProfileID f)
     \<and> (paf_Kind f = NoActivityKind \<or> pa_Kind r = paf_Kind f)"

definition newest_first :: "ProfileActivityRecord \<Rightarrow> ProfileActivityRecord \<Rightarrow> bool" where
  "newest_first a b = (if pa_OccurredAt a \<noteq> pa_OccurredAt b then pa_OccurredAt a > pa_OccurredAt b
     else pa_ID a < pa_ID b)"

definition ListProfileActivity ::
  "ctx \<Rightarrow> ProfileActivityFilter \<Rightarrow> Activities \<Rightarrow> error + ProfileActivityRecord list" where
  "ListProfileActivity ctx f activities =
     (case ctx of Some e \<Rightarrow> Inl e | None \<Rightarrow>
      Inr (sort_Slice newest_first (filter (\<lambda>r. profileActivityMatches r f) (map snd activities))))"

record ProfileActivityCount =
  pac_Platform :: Platform
  pac_ProfileID :: ProfileID
  pac_Kind :: ProfileActivityKind
  pac_Count :: int
  pac_LastOccurredAt :: time

type_synonym count_key = "Platform \<times> ProfileID \<times> ProfileActivityKind"

definition count_key :: "ProfileActivityRecord \<Rightarrow> count_key" where
  "count_key r = (pa_Platform r, pa_ProfileID r, pa_Kind r)"

definition add_count ::
  "ProfileActivityRecord \<Rightarrow> (count_key \<times> ProfileActivityCount) list \<Rightarrow> (count_key \<times> ProfileActivityCount) list" where
  "add_count r counts =
     (let old = (case map_of counts (count_key r) of Some c \<Rightarrow> (pac_Count c, pac_LastOccurredAt c) | None \<Rightarrow> (0, 0))
      in AList.update (count_key r)
           \<lparr>pac_Platform = pa_Platform r, pac_ProfileID = pa_ProfileID r, pac_Kind = pa_Kind r,
            pac_Count = fst old + 1,
            pac_LastOccurredAt = (if pa_OccurredAt r > snd old then pa_OccurredAt r else snd old)\<rparr> counts)"

definition count_order :: "ProfileActivityCount \<Rightarrow> ProfileActivityCount \<Rightarrow> bool" where
  "count_order a b = (if pac_ProfileID a \<noteq> pac_ProfileID b then pac_ProfileID a < pac_ProfileID b
     else if pac_Platform a \<noteq> pac_Platform b then pac_Platform a < pac_Platform b
     else activity_kind_text (pac_Kind a) < activity_kind_text (pac_Kind b))"

definition ProfileActivityCounts ::
  "ctx \<Rightarrow> ProfileActivityFilter \<Rightarrow> Activities \<Rightarrow> error + ProfileActivityCount list" where
  "ProfileActivityCounts ctx f activities =
     (case ListProfileActivity ctx f activities of Inl e \<Rightarrow> Inl e | Inr records \<Rightarrow>
      Inr (sort_Slice count_order (map snd (fold add_count records []))))"

definition RecordProfileActivitySnapshot ::
  "ctx \<Rightarrow> ProfileActivitySnapshot \<Rightarrow> Snapshots \<Rightarrow> (error + bool) \<times> Snapshots" where
  "RecordProfileActivitySnapshot ctx candidate snapshots =
     (case ctx of Some e \<Rightarrow> (Inl e, snapshots) | None \<Rightarrow>
      case ActivitySnapshot_Validate candidate of Some e \<Rightarrow> (Inl e, snapshots) | None \<Rightarrow>
      case map_of snapshots (ps_ID candidate) of
        Some stored \<Rightarrow>
          if ps_Platform stored \<noteq> ps_Platform candidate \<or> ps_ProfileID stored \<noteq> ps_ProfileID candidate
             \<or> ps_ResumeID stored \<noteq> ps_ResumeID candidate \<or> ps_SourceID stored \<noteq> ps_SourceID candidate
          then (Inl (Err ''profile activity snapshot id conflicts with different identity''), snapshots)
          else (Inr False, snapshots)
      | None \<Rightarrow> (Inr True, AList.update (ps_ID candidate) candidate snapshots))"

record ProfileActivitySnapshotFilter =
  psf_Platform :: Platform
  psf_ProfileID :: ProfileID
  psf_ResumeID :: string
  psf_Limit :: int

definition snapshotMatches :: "ProfileActivitySnapshot \<Rightarrow> ProfileActivitySnapshotFilter \<Rightarrow> bool" where
  "snapshotMatches s f \<longleftrightarrow> (psf_Platform f = [] \<or> ps_Platform s = psf_Platform f)
     \<and> (psf_ProfileID f = [] \<or> ps_ProfileID s = psf_ProfileID f)
     \<and> (psf_ResumeID f = [] \<or> ps_ResumeID s = psf_ResumeID f)"

definition ListProfileActivitySnapshots ::
  "ctx \<Rightarrow> ProfileActivitySnapshotFilter \<Rightarrow> Snapshots \<Rightarrow> error + ProfileActivitySnapshot list" where
  "ListProfileActivitySnapshots ctx f snapshots =
     (case ctx of Some e \<Rightarrow> Inl e | None \<Rightarrow>
      if psf_Limit f < 0 then Inl (Err ''profile activity snapshot limit cannot be negative'')
      else let result = sort_Slice (\<lambda>a b. if ps_ObservedAt a \<noteq> ps_ObservedAt b then ps_ObservedAt a > ps_ObservedAt b
                          else ps_ID a < ps_ID b) (filter (\<lambda>s. snapshotMatches s f) (map snd snapshots))
           in Inr (if psf_Limit f > 0 \<and> int (length result) > psf_Limit f
                   then take (nat (psf_Limit f)) result else result))"

section \<open>Recording from a worker\<close>

definition recordProfileActivity ::
  "ctx \<Rightarrow> Platform \<Rightarrow> ProfileID \<Rightarrow> string \<Rightarrow> ProfileActivityKind \<Rightarrow> string \<Rightarrow> time \<Rightarrow> Activities \<Rightarrow>
   error option \<times> Activities" where
  "recordProfileActivity ctx platform profileID resumeID kind sourceID occurredAt activities =
     (case NewProfileActivityRecord platform profileID resumeID kind sourceID occurredAt of
        Inl e \<Rightarrow> (Some e, activities)
      | Inr record' \<Rightarrow>
          (case RecordProfileActivity ctx record' activities of
             (Inl e, activities') \<Rightarrow> (Some (ErrWrap (''record profile activity '' @ activity_kind_text kind) e), activities')
           | (Inr _, activities') \<Rightarrow> (None, activities')))"

end
