(* ===== verification/GoUtf8.thy ===== *)
theory GoUtf8
  imports Texts
begin

text \<open>
  \<open>unicode/utf8\<close> on Go strings: the runes of a byte sequence, validity, the number of
  runes, the replacement of invalid bytes and the encoding of a code point.
\<close>

section \<open>Well-formed sequences\<close>

definition in_bytes :: "char \<Rightarrow> char \<Rightarrow> char \<Rightarrow> bool" where
  "in_bytes lo hi c \<longleftrightarrow> lo \<le> c \<and> c \<le> hi"

definition cont_byte :: "char \<Rightarrow> bool" where
  "cont_byte c \<longleftrightarrow> in_bytes (CHR 0x80) (CHR 0xBF) c"

text \<open>The range of the second byte depends on the first: no surrogates, no overlong forms.\<close>

definition second_byte :: "char \<Rightarrow> char \<Rightarrow> bool" where
  "second_byte a c \<longleftrightarrow>
     (if a = CHR 0xE0 then in_bytes (CHR 0xA0) (CHR 0xBF) c
      else if a = CHR 0xED then in_bytes (CHR 0x80) (CHR 0x9F) c
      else if a = CHR 0xF0 then in_bytes (CHR 0x90) (CHR 0xBF) c
      else if a = CHR 0xF4 then in_bytes (CHR 0x80) (CHR 0x8F) c
      else cont_byte c)"

definition rune_need :: "char \<Rightarrow> nat option" where
  "rune_need a =
     (if a < CHR 0x80 then Some 0
      else if in_bytes (CHR 0xC2) (CHR 0xDF) a then Some 1
      else if in_bytes (CHR 0xE0) (CHR 0xEF) a then Some 2
      else if in_bytes (CHR 0xF0) (CHR 0xF4) a then Some 3
      else None)"

text \<open>The continuation bytes of the rune that starts with \<open>a\<close>, if they follow.\<close>

definition rune_tail :: "char \<Rightarrow> string \<Rightarrow> string option" where
  "rune_tail a s =
     (case rune_need a of
        None \<Rightarrow> None
      | Some n \<Rightarrow>
          if n \<le> length s \<and> (n = 0 \<or> second_byte a (hd s)) \<and> list_all cont_byte (take (n - 1) (tl s))
          then Some (take n s) else None)"

text \<open>A string as runes; an invalid byte is a rune of its own, marked \<open>None\<close>.\<close>

function runes :: "string \<Rightarrow> string option list" where
  "runes [] = []"
| "runes (a # s) =
     (case rune_tail a s of
        Some t \<Rightarrow> Some (a # t) # runes (drop (length t) s)
      | None \<Rightarrow> None # runes s)"
  by pat_completeness auto

termination
  by (relation "measure length") (auto simp: rune_tail_def split: option.splits if_splits)

definition utf8_ValidString :: "string \<Rightarrow> bool" where
  "utf8_ValidString s \<longleftrightarrow> list_all (\<lambda>r. r \<noteq> None) (runes s)"

definition RuneCount :: "string \<Rightarrow> nat" where
  "RuneCount s = length (runes s)"

definition rune_error :: string where
  "rune_error = [CHR 0xEF, CHR 0xBF, CHR 0xBD]"

definition rune_bytes :: "string option \<Rightarrow> string" where
  "rune_bytes r = (case r of Some bs \<Rightarrow> bs | None \<Rightarrow> rune_error)"

text \<open>\<open>strings.ToValidUTF8\<close> byte by byte, as decoding a rune at a time does it.\<close>

definition to_valid :: "string \<Rightarrow> string" where
  "to_valid s = concat (map rune_bytes (runes s))"

text \<open>\<open>utf8.AppendRune\<close> of a code point; surrogates and values out of range are replaced.\<close>

definition encode_rune :: "nat \<Rightarrow> string" where
  "encode_rune n =
     (if n < 0x80 then [char_of n]
      else if n < 0x800 then [char_of (0xC0 + n div 64), char_of (0x80 + n mod 64)]
      else if 0xD800 \<le> n \<and> n \<le> 0xDFFF \<or> 0x10FFFF < n then rune_error
      else if n < 0x10000
      then [char_of (0xE0 + n div 4096), char_of (0x80 + n div 64 mod 64), char_of (0x80 + n mod 64)]
      else [char_of (0xF0 + n div 262144), char_of (0x80 + n div 4096 mod 64), char_of (0x80 + n div 64 mod 64),
            char_of (0x80 + n mod 64)])"

section \<open>Facts\<close>

lemma rune_tail_take: "rune_tail a s = Some t \<Longrightarrow> t @ drop (length t) s = s"
  by (auto simp: rune_tail_def split: option.splits if_splits)

lemma runes_concat_valid:
  assumes "utf8_ValidString s"
  shows "concat (map rune_bytes (runes s)) = s"
  using assms unfolding utf8_ValidString_def
proof (induction s rule: runes.induct)
  case (2 a s)
  then show ?case
    by (auto split: option.splits simp: rune_bytes_def dest: rune_tail_take)
qed simp

lemma to_valid_id: "utf8_ValidString s \<Longrightarrow> to_valid s = s"
  by (simp add: to_valid_def runes_concat_valid)

lemma runes_ascii: "a < CHR 0x80 \<Longrightarrow> runes (a # s) = Some [a] # runes s"
  by (simp add: rune_tail_def rune_need_def)

lemma to_valid_ascii: "list_all (\<lambda>a. a < CHR 0x80) s \<Longrightarrow> to_valid s = s"
proof (induction s)
  case (Cons a s)
  then show ?case by (simp add: to_valid_def runes_ascii rune_bytes_def del: runes.simps(2))
qed (simp add: to_valid_def)

lemma utf8_ascii: "list_all (\<lambda>a. a < CHR 0x80) s \<Longrightarrow> utf8_ValidString s"
proof (induction s)
  case (Cons a s)
  then show ?case by (simp add: utf8_ValidString_def runes_ascii del: runes.simps(2))
qed (simp add: utf8_ValidString_def)

end
