(* ===== verification/GoJsonValue.thy ===== *)
theory GoJsonValue
  imports GoUtf8 GoJson GoCrypto
begin

text \<open>
  \<open>encoding/json\<close> on values: what \<open>Decode\<close> and \<open>Unmarshal\<close> read from a
  text and what \<open>Marshal\<close> writes. Numbers keep their text (\<open>UseNumber\<close>). A decoded
  object first keeps its members in the order of the text, duplicates included, as the decoder
  meets them; \<open>any_value\<close> makes it the Go map a decoder into \<open>any\<close> builds, in
  which the last duplicate wins. A map is written with its keys sorted, so it is kept sorted.
\<close>

datatype json =
    JNull | JBool bool | JNumber string | JString string
  | JArray "json list" | JObject "(string \<times> json) list"

section \<open>Strings\<close>

definition simple_escapes :: "(char \<times> char) list" where
  "simple_escapes = [(CHR 0x22, CHR 0x22), (CHR 0x5C, CHR 0x5C), (CHR ''/'', CHR ''/''), (CHR ''b'', CHR 0x08),
     (CHR ''f'', CHR 0x0C), (CHR ''n'', CHR 0x0A), (CHR ''r'', CHR 0x0D), (CHR ''t'', CHR 0x09)]"

fun getu4 :: "string \<Rightarrow> (nat \<times> string) option" where
  "getu4 (a # b # c # d # s) =
     (case (hex_value a, hex_value b, hex_value c, hex_value d) of
        (Some w, Some x, Some y, Some z) \<Rightarrow> Some (((w * 16 + x) * 16 + y) * 16 + z, s)
      | _ \<Rightarrow> None)"
| "getu4 _ = None"

definition high_surrogate :: "nat \<Rightarrow> bool" where
  "high_surrogate r \<longleftrightarrow> 0xD800 \<le> r \<and> r < 0xDC00"

definition low_surrogate :: "nat \<Rightarrow> bool" where
  "low_surrogate r \<longleftrightarrow> 0xDC00 \<le> r \<and> r < 0xE000"

text \<open>After a backslash and \<open>u\<close>: a surrogate without its partner is replaced.\<close>

definition unescape_u :: "string \<Rightarrow> (string \<times> string) option" where
  "unescape_u s =
     (case getu4 s of None \<Rightarrow> None | Some (r, s1) \<Rightarrow>
      if \<not> high_surrogate r \<and> \<not> low_surrogate r then Some (encode_rune r, s1)
      else case (case s1 of a # b # s2 \<Rightarrow> if a = CHR 0x5C \<and> b = CHR ''u'' then getu4 s2 else None | _ \<Rightarrow> None) of
        None \<Rightarrow> Some (rune_error, s1)
      | Some (r2, s3) \<Rightarrow>
          if high_surrogate r \<and> low_surrogate r2
          then Some (encode_rune (0x10000 + (r - 0xD800) * 1024 + (r2 - 0xDC00)), s3)
          else Some (rune_error, s1))"

text \<open>One step in a string: the closing quote (\<open>None\<close>), or the bytes that are read.\<close>

fun next_char :: "string \<Rightarrow> (string option \<times> string) option" where
  "next_char [] = None"
| "next_char (c # s) =
     (if c = CHR 0x22 then Some (None, s)
      else if c = CHR 0x5C
      then (case s of [] \<Rightarrow> None | e # s' \<Rightarrow>
              if e = CHR ''u'' then map_option (\<lambda>(bs, r). (Some bs, r)) (unescape_u s')
              else map_option (\<lambda>x. (Some [x], s')) (map_of simple_escapes e))
      else if c < CHR 0x20 then None
      else Some (Some [c], s))"

fun parse_chars :: "nat \<Rightarrow> string \<Rightarrow> (string \<times> string) option" where
  "parse_chars 0 s = None"
| "parse_chars (Suc n) s =
     (case next_char s of
        None \<Rightarrow> None
      | Some (None, r) \<Rightarrow> Some ([], r)
      | Some (Some bs, r) \<Rightarrow> map_option (\<lambda>(t, r'). (bs @ t, r')) (parse_chars n r))"

definition parse_string :: "string \<Rightarrow> (string \<times> string) option" where
  "parse_string s = map_option (\<lambda>(t, r). (to_valid t, r)) (parse_chars (Suc (length s)) s)"

definition u_escape :: "char \<Rightarrow> string" where
  "u_escape c = [CHR 0x5C, CHR ''u'', CHR ''0'', CHR ''0'', hex_digit (of_char c div 16), hex_digit (of_char c mod 16)]"

definition short_escape :: "char \<Rightarrow> char option" where
  "short_escape c = map_of [(CHR 0x22, CHR 0x22), (CHR 0x5C, CHR 0x5C), (CHR 0x08, CHR ''b''), (CHR 0x0C, CHR ''f''),
     (CHR 0x0A, CHR ''n''), (CHR 0x0D, CHR ''r''), (CHR 0x09, CHR ''t'')] c"

definition escape_ascii :: "char \<Rightarrow> string" where
  "escape_ascii c =
     (case short_escape c of
        Some e \<Rightarrow> [CHR 0x5C, e]
      | None \<Rightarrow> if c < CHR 0x20 \<or> c \<in> {CHR ''<'', CHR ''>'', CHR ''&''} then u_escape c else [c])"

fun escape_rune :: "string option \<Rightarrow> string" where
  "escape_rune None = CHR 0x5C # ''ufffd''"
| "escape_rune (Some [c]) = escape_ascii c"
| "escape_rune (Some bs) =
     (if bs = [CHR 0xE2, CHR 0x80, CHR 0xA8] then CHR 0x5C # ''u2028''
      else if bs = [CHR 0xE2, CHR 0x80, CHR 0xA9] then CHR 0x5C # ''u2029'' else bs)"

definition json_quote :: "string \<Rightarrow> string" where
  "json_quote s = CHR 0x22 # concat (map escape_rune (runes s)) @ [CHR 0x22]"

section \<open>Numbers\<close>

definition parse_int :: "string \<Rightarrow> (string \<times> string) option" where
  "parse_int s =
     (let ds = takeWhile json_digit s
      in if ds = [] then None
         else if hd ds = CHR ''0'' then Some (''0'', tl s)
         else Some (ds, dropWhile json_digit s))"

definition parse_frac :: "string \<Rightarrow> (string \<times> string) option" where
  "parse_frac s =
     (case s of
        c # r \<Rightarrow>
          if c = CHR ''.''
          then (if takeWhile json_digit r = [] then None
                else Some (c # takeWhile json_digit r, dropWhile json_digit r))
          else Some ([], s)
      | [] \<Rightarrow> Some ([], s))"

definition exp_sign :: "string \<Rightarrow> string" where
  "exp_sign r = (case r of c # _ \<Rightarrow> if c = CHR ''+'' \<or> c = CHR ''-'' then [c] else [] | [] \<Rightarrow> [])"

definition parse_exp :: "string \<Rightarrow> (string \<times> string) option" where
  "parse_exp s =
     (case s of
        c # r \<Rightarrow>
          if c = CHR ''e'' \<or> c = CHR ''E''
          then (let sign = exp_sign r; r' = drop (length sign) r
                in if takeWhile json_digit r' = [] then None
                   else Some (c # sign @ takeWhile json_digit r', dropWhile json_digit r'))
          else Some ([], s)
      | [] \<Rightarrow> Some ([], s))"

definition num_sign :: "string \<Rightarrow> string" where
  "num_sign s = (case s of c # _ \<Rightarrow> if c = CHR ''-'' then [c] else [] | [] \<Rightarrow> [])"

definition parse_number :: "string \<Rightarrow> (string \<times> string) option" where
  "parse_number s =
     (case parse_int (drop (length (num_sign s)) s) of None \<Rightarrow> None | Some (i, r) \<Rightarrow>
      case parse_frac r of None \<Rightarrow> None | Some (f, r') \<Rightarrow>
      case parse_exp r' of None \<Rightarrow> None | Some (e, r'') \<Rightarrow> Some (num_sign s @ i @ f @ e, r''))"

section \<open>Values\<close>

definition skip_ws :: "string \<Rightarrow> string" where
  "skip_ws s = dropWhile json_space s"

definition parse_literal :: "string \<Rightarrow> json \<Rightarrow> string \<Rightarrow> (json \<times> string) option" where
  "parse_literal l v s = map_option (\<lambda>r. (v, r)) (strip_prefix l s)"

text \<open>The decoder by recursive descent; the first argument bounds the steps, the second is the depth.\<close>

fun parse_value :: "nat \<Rightarrow> nat \<Rightarrow> string \<Rightarrow> (json \<times> string) option"
  and parse_members :: "nat \<Rightarrow> nat \<Rightarrow> string \<Rightarrow> ((string \<times> json) list \<times> string) option"
  and parse_elements :: "nat \<Rightarrow> nat \<Rightarrow> string \<Rightarrow> (json list \<times> string) option" where
  "parse_value 0 d s = None"
| "parse_value (Suc n) d s =
     (case skip_ws s of [] \<Rightarrow> None | c # r \<Rightarrow>
      if c = CHR ''{''
      then (if maxNestingDepth \<le> d then None
            else if take 1 (skip_ws r) = ''}'' then Some (JObject [], tl (skip_ws r))
            else map_option (\<lambda>(ms, r'). (JObject ms, r')) (parse_members n (Suc d) r))
      else if c = CHR ''[''
      then (if maxNestingDepth \<le> d then None
            else if take 1 (skip_ws r) = '']'' then Some (JArray [], tl (skip_ws r))
            else map_option (\<lambda>(vs, r'). (JArray vs, r')) (parse_elements n (Suc d) r))
      else if c = CHR 0x22 then map_option (\<lambda>(t, r'). (JString t, r')) (parse_string r)
      else if c = CHR ''t'' then parse_literal ''rue'' (JBool True) r
      else if c = CHR ''f'' then parse_literal ''alse'' (JBool False) r
      else if c = CHR ''n'' then parse_literal ''ull'' JNull r
      else map_option (\<lambda>(t, r'). (JNumber t, r')) (parse_number (c # r)))"
| "parse_members 0 d s = None"
| "parse_members (Suc n) d s =
     (case skip_ws s of [] \<Rightarrow> None | c # r \<Rightarrow>
      if c \<noteq> CHR 0x22 then None
      else case parse_string r of None \<Rightarrow> None | Some (k, r1) \<Rightarrow>
      if take 1 (skip_ws r1) \<noteq> '':'' then None
      else case parse_value n d (tl (skip_ws r1)) of None \<Rightarrow> None | Some (v, r2) \<Rightarrow>
      if take 1 (skip_ws r2) = ''}'' then Some ([(k, v)], tl (skip_ws r2))
      else if take 1 (skip_ws r2) = '',''
      then map_option (\<lambda>(ms, r'). ((k, v) # ms, r')) (parse_members n d (tl (skip_ws r2)))
      else None)"
| "parse_elements 0 d s = None"
| "parse_elements (Suc n) d s =
     (case parse_value n d s of None \<Rightarrow> None | Some (v, r2) \<Rightarrow>
      if take 1 (skip_ws r2) = '']'' then Some ([v], tl (skip_ws r2))
      else if take 1 (skip_ws r2) = '',''
      then map_option (\<lambda>(vs, r'). (v # vs, r')) (parse_elements n d (tl (skip_ws r2)))
      else None)"

text \<open>A text with one value and nothing but white space after it.\<close>

definition json_parse :: "string \<Rightarrow> json option" where
  "json_parse s =
     (case parse_value (Suc (2 * length s)) 0 s of
        None \<Rightarrow> None | Some (v, r) \<Rightarrow> if skip_ws r = [] then Some v else None)"

definition object_map :: "(string \<times> json) list \<Rightarrow> (string \<times> json) list" where
  "object_map ms = sort_key fst (fold (\<lambda>(k, v). AList.update k v) ms [])"

fun any_value :: "json \<Rightarrow> json" where
  "any_value (JArray vs) = JArray (map any_value vs)"
| "any_value (JObject ms) = JObject (object_map (map (\<lambda>(k, v). (k, any_value v)) ms))"
| "any_value v = v"

fun join_with :: "string \<Rightarrow> string list \<Rightarrow> string" where
  "join_with sep [] = []"
| "join_with sep [x] = x"
| "join_with sep (x # y # zs) = x @ sep @ join_with sep (y # zs)"

fun json_Marshal :: "json \<Rightarrow> string" where
  "json_Marshal JNull = ''null''"
| "json_Marshal (JBool b) = (if b then ''true'' else ''false'')"
| "json_Marshal (JNumber t) = t"
| "json_Marshal (JString t) = json_quote t"
| "json_Marshal (JArray vs) = ''['' @ join_with '','' (map json_Marshal vs) @ '']''"
| "json_Marshal (JObject ms) =
     ''{'' @ join_with '','' (map (\<lambda>(k, t). json_quote k @ '':'' @ t)
        (sort_key fst (map (\<lambda>(k, v). (k, json_Marshal v)) ms))) @ ''}''"


text \<open>A struct is written field by field, in the order of its declaration: members keep their order.\<close>

fun raw_Marshal :: "json \<Rightarrow> string" where
  "raw_Marshal JNull = ''null''"
| "raw_Marshal (JBool b) = (if b then ''true'' else ''false'')"
| "raw_Marshal (JNumber t) = t"
| "raw_Marshal (JString t) = json_quote t"
| "raw_Marshal (JArray vs) = ''['' @ join_with '','' (map raw_Marshal vs) @ '']''"
| "raw_Marshal (JObject ms) =
     ''{'' @ join_with '','' (map (\<lambda>m. json_quote (fst m) @ '':'' @ raw_Marshal (snd m)) ms) @ ''}''"

section \<open>Decoding into a struct\<close>

text \<open>
  A key selects the field of the same name, or of a name that is equal under case folding: of
  the runes that are not ASCII only U+017F and U+212A fold to ASCII letters. A null leaves a
  field as it is; a value of another type is an error, after which nothing of the result is used.
\<close>

fun json_fold :: "string \<Rightarrow> string" where
  "json_fold [] = []"
| "json_fold (c # s) =
     (if c = CHR 0xC5 \<and> take 1 s = [CHR 0xBF] then CHR ''S'' # json_fold (drop 1 s)
      else if c = CHR 0xE2 \<and> take 2 s = [CHR 0x84, CHR 0xAA] then CHR ''K'' # json_fold (drop 2 s)
      else (if CHR ''a'' \<le> c \<and> c \<le> CHR ''z'' then char_of (of_char c - 32 :: nat) else c) # json_fold s)"

type_synonym 'r json_fields = "(string \<times> (json \<Rightarrow> 'r \<Rightarrow> 'r option)) list"

definition json_field :: "'r json_fields \<Rightarrow> string \<Rightarrow> (json \<Rightarrow> 'r \<Rightarrow> 'r option) option" where
  "json_field fields k =
     (case map_of fields k of
        Some f \<Rightarrow> Some f
      | None \<Rightarrow> map_option snd (find (\<lambda>f. json_fold (fst f) = json_fold k) fields))"

fun decode_members :: "'r json_fields \<Rightarrow> (string \<times> json) list \<Rightarrow> 'r \<Rightarrow> 'r option" where
  "decode_members fields [] r = Some r"
| "decode_members fields ((k, v) # ms) r =
     (case json_field fields k of
        None \<Rightarrow> decode_members fields ms r
      | Some f \<Rightarrow> (case f v r of None \<Rightarrow> None | Some r' \<Rightarrow> decode_members fields ms r'))"

definition decode_struct :: "'r json_fields \<Rightarrow> json \<Rightarrow> 'r \<Rightarrow> 'r option" where
  "decode_struct fields v r =
     (case v of JNull \<Rightarrow> Some r | JObject ms \<Rightarrow> decode_members fields ms r | _ \<Rightarrow> None)"

definition string_field :: "(string \<Rightarrow> 'r \<Rightarrow> 'r) \<Rightarrow> json \<Rightarrow> 'r \<Rightarrow> 'r option" where
  "string_field put v r = (case v of JString t \<Rightarrow> Some (put t r) | JNull \<Rightarrow> Some r | _ \<Rightarrow> None)"

definition struct_field :: "'s json_fields \<Rightarrow> ('r \<Rightarrow> 's) \<Rightarrow> ('s \<Rightarrow> 'r \<Rightarrow> 'r) \<Rightarrow> json \<Rightarrow> 'r \<Rightarrow> 'r option" where
  "struct_field fields get put v r = map_option (\<lambda>x. put x r) (decode_struct fields v (get r))"

end
