(* ===== verification/Plans.thy ===== *)
theory Plans
  imports Budget Activity ApplicationStore GoJsonValue
begin

text \<open>
  \<open>operator/application.go\<close> (the result of a preparation) and the first part of
  \<open>worker/application.go\<close>: how applications of a profile are planned, and the registry of
  what the profile's adapter can do. What lies behind an adapter, an operator or the clock is a
  function on an outside world of any type \<open>'x\<close>, which it may change.
\<close>

section \<open>Preparations\<close>

datatype ApplicationOutcome = OutcomeApply | OutcomeSkip | OutcomeReview | OutcomeOther string

fun outcome_text :: "ApplicationOutcome \<Rightarrow> string" where
  "outcome_text OutcomeApply = ''apply''"
| "outcome_text OutcomeSkip = ''skip''"
| "outcome_text OutcomeReview = ''review''"
| "outcome_text (OutcomeOther s) = s"

record ApplicationPreparation =
  prep_Outcome :: ApplicationOutcome
  prep_Code :: string
  prep_Reason :: string
  prep_Message :: string
  prep_Provenance :: Provenance

definition preparation :: "ApplicationOutcome \<Rightarrow> string \<Rightarrow> string \<Rightarrow> ApplicationPreparation" where
  "preparation outcome code reason = \<lparr>prep_Outcome = outcome, prep_Code = code, prep_Reason = reason,
     prep_Message = [], prep_Provenance = zero_Provenance\<rparr>"

definition zero_Preparation :: ApplicationPreparation where
  "zero_Preparation = preparation (OutcomeOther []) [] []"

definition maximumApplicationMessageRunes :: nat where
  "maximumApplicationMessageRunes = 10000"

definition Preparation_Validate :: "ApplicationPreparation \<Rightarrow> error option" where
  "Preparation_Validate p =
     (if prep_Outcome p \<notin> {OutcomeApply, OutcomeSkip, OutcomeReview}
      then Some (Err (''unknown application outcome '' @ quoted (outcome_text (prep_Outcome p))))
      else if TrimSpace (prep_Code p) = [] \<or> TrimSpace (prep_Reason p) = []
      then Some (Err ''application preparation requires code and reason'')
      else if \<not> utf8_ValidString (prep_Message p) \<or> RuneCount (prep_Message p) > maximumApplicationMessageRunes
      then Some (Err ''application message must be valid UTF-8 and at most 10000 characters'')
      else if prep_Outcome p \<noteq> OutcomeApply \<and> TrimSpace (prep_Message p) \<noteq> []
      then Some (Err ''skipped or reviewed application must not contain a message'')
      else if prep_Outcome p \<noteq> OutcomeApply \<and> \<not> Provenance_IsZero (prep_Provenance p)
      then Some (Err ''skipped or reviewed application must not contain preparation provenance'')
      else case Provenance_Validate (prep_Provenance p) of Some e \<Rightarrow> Some e | None \<Rightarrow>
      if \<not> Provenance_IsZero (prep_Provenance p)
         \<and> pv_OutputDigest (prep_Provenance p) \<noteq> applicationPreparationTextDigest (TrimSpace (prep_Message p))
      then Some (Err ''application preparation provenance output digest does not match message'')
      else None)"

section \<open>Plans\<close>

text \<open>
  The preparer is an interface. The tailoring plan is handed to the coordinator unseen, so its
  type is a parameter. A time zone is what \<open>time.LoadLocation\<close> finds for its name: for an
  instant, the start of its local day and the start of the next one.
\<close>

type_synonym 'x Preparer = "Application \<Rightarrow> Vacancy \<Rightarrow> 'x \<Rightarrow> (error + ApplicationPreparation) \<times> 'x"
type_synonym zones = "string \<Rightarrow> error + (time \<Rightarrow> time \<times> time)"

record ('x, 'p) ApplicationPlan =
  plan_ResumeID :: string
  plan_Message :: string
  plan_Preparer :: "'x Preparer option"
  plan_Mode :: ApplicationExecutionMode
  plan_DailyLimit :: int
  plan_SubmitJitterMin :: duration
  plan_SubmitJitterMax :: duration
  plan_Timezone :: string
  plan_Tailoring :: "'p option"
  plan_SkipValidation :: bool

definition Plan_Validate :: "zones \<Rightarrow> ('x, 'p) ApplicationPlan \<Rightarrow> error option" where
  "Plan_Validate zones plan =
     (case ApplicationExecutionMode_Validate (plan_Mode plan) of Some e \<Rightarrow> Some e | None \<Rightarrow>
      if plan_Mode plan \<noteq> ExecutionDryRun \<and> plan_ResumeID plan = []
      then Some (Err ''application plan requires a resume outside dry-run mode'')
      else if plan_Mode plan = ExecutionSubmit \<and> plan_DailyLimit plan < 1
      then Some (Err ''live application plan requires a positive daily limit'')
      else if plan_Mode plan = ExecutionSubmit
              \<and> (plan_SubmitJitterMin plan \<le> 0 \<or> plan_SubmitJitterMax plan < plan_SubmitJitterMin plan)
      then Some (Err ''live application plan requires 0 < submit jitter min <= max'')
      else if plan_Timezone plan = [] then Some (Err ''application plan requires a timezone'')
      else case zones (plan_Timezone plan) of Inl e \<Rightarrow> Some e | Inr _ \<Rightarrow> None)"

text \<open>\<open>StaticApplicationPlans\<close> and \<open>LiveApplicationPlans\<close>: a map from profiles.\<close>

type_synonym ('x, 'p) Plans = "(ProfileID \<times> ('x, 'p) ApplicationPlan) list"

definition no_plan_error :: "Application \<Rightarrow> string \<Rightarrow> OperationError" where
  "no_plan_error application message = OperationError ErrorValidationRequired ''applications.prepare''
     (vk_Platform (ak_Vacancy (app_Key application))) message None [] None"

definition StaticPlans_Resolve ::
  "zones \<Rightarrow> ('x, 'p) Plans \<Rightarrow> Application \<Rightarrow> error + ('x, 'p) ApplicationPlan" where
  "StaticPlans_Resolve zones plans application =
     (case map_of plans (ak_ProfileID (app_Key application)) of
        None \<Rightarrow> Inl (ErrOperation (no_plan_error application ''profile requires an application plan''))
      | Some plan \<Rightarrow>
          (case Plan_Validate zones plan of
             Some e \<Rightarrow> Inl (ErrOperation (no_plan_error application (Error_text e)))
           | None \<Rightarrow> Inr plan))"

definition LivePlans_Set :: "ProfileID \<Rightarrow> ('x, 'p) ApplicationPlan \<Rightarrow> ('x, 'p) Plans \<Rightarrow> ('x, 'p) Plans" where
  "LivePlans_Set profileID plan plans = (if profileID = [] then plans else AList.update profileID plan plans)"

definition LivePlans_Len :: "('x, 'p) Plans \<Rightarrow> nat" where
  "LivePlans_Len plans = length plans"

definition LivePlans_Resolve ::
  "zones \<Rightarrow> ('x, 'p) Plans \<Rightarrow> Application \<Rightarrow> error + ('x, 'p) ApplicationPlan" where
  "LivePlans_Resolve zones plans application =
     (case map_of plans (ak_ProfileID (app_Key application)) of
        None \<Rightarrow> Inl (ErrOperation (no_plan_error application ''profile requires an application plan''))
      | Some plan \<Rightarrow>
          (case Plan_Validate zones plan of Some e \<Rightarrow> Inl e | None \<Rightarrow> Inr plan))"

section \<open>Transports\<close>

record ApplicationSubmitCommand =
  cmd_ProfileID :: ProfileID
  cmd_Vacancy :: VacancyKey
  cmd_VacancyData :: "Vacancy option"
  cmd_ResumeID :: string
  cmd_Message :: string
  cmd_IdempotencyKey :: string

record ApplicationSubmitResult =
  res_ExternalNegotiationID :: string
  res_Applied :: bool
  res_AlreadyApplied :: bool

record ApplicationReconcileCommand =
  rcmd_ProfileID :: ProfileID
  rcmd_Vacancy :: VacancyKey
  rcmd_ResumeID :: string

record ApplicationReconcileResult =
  rres_Applied :: bool
  rres_ExternalNegotiationID :: string

record SuitableResume =
  sr_ID :: string
  sr_Title :: string

datatype BrowserState = BrowserWaitingCaptcha | BrowserDone | BrowserReview | BrowserStateOther string

record BrowserOutcome =
  bo_State :: BrowserState
  bo_Message :: string

type_synonym 'x VacancyReader = "ProfileID \<Rightarrow> VacancyKey \<Rightarrow> 'x \<Rightarrow> (error + Vacancy) \<times> 'x"
type_synonym 'x SuitableResumeReader = "ProfileID \<Rightarrow> VacancyKey \<Rightarrow> 'x \<Rightarrow> (error + SuitableResume list) \<times> 'x"
type_synonym 'x BrowserSubmitter = "ProfileID \<Rightarrow> string \<Rightarrow> string \<Rightarrow> 'x \<Rightarrow> (error + BrowserOutcome) \<times> 'x"

text \<open>
  A transport submits; the interfaces it may implement beside that, which the code finds by a
  type assertion, are optional components.
\<close>

record 'x Transport =
  tr_Submit :: "ApplicationSubmitCommand \<Rightarrow> 'x \<Rightarrow> (error + ApplicationSubmitResult) \<times> 'x"
  tr_Reconcile :: "(ApplicationReconcileCommand \<Rightarrow> 'x \<Rightarrow> (error + ApplicationReconcileResult) \<times> 'x) option"
  tr_SkipPreflight :: "(ProfileID \<Rightarrow> bool) option"
  tr_VacancyReader :: "'x VacancyReader option"
  tr_SuitableResumes :: "'x SuitableResumeReader option"

record 'x Registry =
  reg_transports :: "(ProfileID \<times> 'x Transport) list"
  reg_vacancyReaders :: "(ProfileID \<times> 'x VacancyReader) list"
  reg_suitableResumeReaders :: "(ProfileID \<times> 'x SuitableResumeReader) list"
  reg_browserSubmitters :: "(ProfileID \<times> 'x BrowserSubmitter) list"

definition NewRegistry :: "'x Registry" where
  "NewRegistry = \<lparr>reg_transports = [], reg_vacancyReaders = [], reg_suitableResumeReaders = [],
     reg_browserSubmitters = []\<rparr>"

definition put_some :: "'k \<Rightarrow> 'v option \<Rightarrow> ('k \<times> 'v) list \<Rightarrow> ('k \<times> 'v) list" where
  "put_some k v m = (case v of None \<Rightarrow> m | Some x \<Rightarrow> AList.update k x m)"

definition already_registered :: "string \<Rightarrow> ProfileID \<Rightarrow> error" where
  "already_registered what profileID = Err (what @ '' for profile '' @ profileID @ '' is already registered'')"

definition RegisterTransport :: "ProfileID \<Rightarrow> 'x Transport \<Rightarrow> 'x Registry \<Rightarrow> error option \<times> 'x Registry" where
  "RegisterTransport profileID transport registry =
     (if profileID = [] then (Some (Err ''application transport registration requires profile and transport''), registry)
      else if map_of (reg_transports registry) profileID \<noteq> None
      then (Some (already_registered ''application transport'' profileID), registry)
      else (None, registry\<lparr>
        reg_transports := AList.update profileID transport (reg_transports registry),
        reg_vacancyReaders := put_some profileID (tr_VacancyReader transport) (reg_vacancyReaders registry),
        reg_suitableResumeReaders := put_some profileID (tr_SuitableResumes transport) (reg_suitableResumeReaders registry)\<rparr>))"

definition RegisterVacancyReader ::
  "ProfileID \<Rightarrow> 'x VacancyReader \<Rightarrow> 'x Registry \<Rightarrow> error option \<times> 'x Registry" where
  "RegisterVacancyReader profileID reader registry =
     (if profileID = [] then (Some (Err ''vacancy reader registration requires profile and reader''), registry)
      else if map_of (reg_vacancyReaders registry) profileID \<noteq> None
      then (Some (already_registered ''vacancy reader'' profileID), registry)
      else (None, registry\<lparr>reg_vacancyReaders := AList.update profileID reader (reg_vacancyReaders registry)\<rparr>))"

definition RegisterBrowserSubmitter ::
  "ProfileID \<Rightarrow> 'x BrowserSubmitter \<Rightarrow> 'x Registry \<Rightarrow> error option \<times> 'x Registry" where
  "RegisterBrowserSubmitter profileID submitter registry =
     (if profileID = [] then (Some (Err ''browser submitter registration requires profile and submitter''), registry)
      else if map_of (reg_browserSubmitters registry) profileID \<noteq> None
      then (Some (already_registered ''browser submitter'' profileID), registry)
      else (None, registry\<lparr>reg_browserSubmitters := AList.update profileID submitter (reg_browserSubmitters registry)\<rparr>))"

definition ResolveBrowserSubmitter :: "'x Registry \<Rightarrow> ProfileID \<Rightarrow> 'x BrowserSubmitter option" where
  "ResolveBrowserSubmitter registry profileID = map_of (reg_browserSubmitters registry) profileID"

definition route_error :: "ErrorCategory \<Rightarrow> string \<Rightarrow> string \<Rightarrow> error" where
  "route_error category operation message = ErrOperation (OperationError category operation [] message None [] None)"

definition ResolveTransport :: "'x Registry \<Rightarrow> ProfileID \<Rightarrow> error + 'x Transport" where
  "ResolveTransport registry profileID =
     (case map_of (reg_transports registry) profileID of
        None \<Rightarrow> Inl (route_error ErrorPermanentFailure ''applications.route'' ''no application transport for profile'')
      | Some t \<Rightarrow> Inr t)"

definition ResolveVacancyReader :: "'x Registry \<Rightarrow> ProfileID \<Rightarrow> error + 'x VacancyReader" where
  "ResolveVacancyReader registry profileID =
     (case map_of (reg_vacancyReaders registry) profileID of
        None \<Rightarrow> Inl (route_error ErrorUnsupported ''vacancies.read'' ''profile has no full vacancy reader'')
      | Some r \<Rightarrow> Inr r)"

definition ResolveSuitableResumeReader :: "'x Registry \<Rightarrow> ProfileID \<Rightarrow> error + 'x SuitableResumeReader" where
  "ResolveSuitableResumeReader registry profileID =
     (case map_of (reg_suitableResumeReaders registry) profileID of
        None \<Rightarrow> Inl (route_error ErrorUnsupported ''vacancies.suitable_resumes'' ''profile has no suitable resume reader'')
      | Some r \<Rightarrow> Inr r)"

definition Registry_Count :: "'x Registry \<Rightarrow> nat" where
  "Registry_Count registry = length (reg_transports registry)"

definition VacancyReaderCount :: "'x Registry \<Rightarrow> nat" where
  "VacancyReaderCount registry = length (reg_vacancyReaders registry)"

section \<open>Preflight on the vacancy\<close>

definition attribute :: "Vacancy \<Rightarrow> string \<Rightarrow> attribute option" where
  "attribute vacancy key = map_of (vac_Attributes vacancy) key"

definition vacancyAttributeBool :: "Vacancy \<Rightarrow> string \<Rightarrow> bool" where
  "vacancyAttributeBool vacancy key = (case attribute vacancy key of Some (AttrBool b) \<Rightarrow> b | _ \<Rightarrow> False)"

definition vacancyHasNonEmptyAttribute :: "Vacancy \<Rightarrow> string \<Rightarrow> bool" where
  "vacancyHasNonEmptyAttribute vacancy key =
     (case attribute vacancy key of
        None \<Rightarrow> False
      | Some AttrNil \<Rightarrow> False
      | Some (AttrText s) \<Rightarrow> TrimSpace s \<noteq> []
      | Some (AttrMap m) \<Rightarrow> m \<noteq> []
      | Some (AttrItems vs) \<Rightarrow> vs \<noteq> []
      | Some _ \<Rightarrow> True)"

definition vacancyHasString :: "Vacancy \<Rightarrow> string \<Rightarrow> string \<Rightarrow> bool" where
  "vacancyHasString vacancy key expected =
     (case attribute vacancy key of
        Some (AttrTexts vs) \<Rightarrow> expected \<in> set vs
      | Some (AttrItems vs) \<Rightarrow> AttrText expected \<in> set vs
      | _ \<Rightarrow> False)"

definition skipValidationDecisionCode :: "string \<Rightarrow> bool" where
  "skipValidationDecisionCode code \<longleftrightarrow>
     TrimSpace code \<in> {''questionnaire_required'', ''vacancy_test_required'', ''platform_validation_required''}"

text \<open>The decision, if the vacancy alone gives one.\<close>

definition applicationPlatformPreflight :: "Vacancy \<Rightarrow> bool \<Rightarrow> ApplicationPreparation option" where
  "applicationPlatformPreflight vacancy testContinues =
     (if vac_State vacancy \<noteq> VacancyStateOpen \<or> vacancyAttributeBool vacancy ''closed_for_applicants''
      then Some (preparation OutcomeSkip ''vacancy_closed'' ''vacancy is archived or closed for applicants'')
      else if vacancyHasString vacancy ''relations'' ''got_response''
      then Some (preparation OutcomeSkip ''already_applied'' ''applicant relation got_response already exists'')
      else if \<not> testContinues \<and> (vacancyAttributeBool vacancy ''has_test'' \<or> vacancyHasNonEmptyAttribute vacancy ''test'')
      then Some (preparation OutcomeReview ''vacancy_test_required'' ''vacancy requires a test or questionnaire'')
      else None)"

section \<open>Tests of a vacancy\<close>

datatype TestAttemptStatus = TestAttemptSubmitted | TestAttemptPassed | TestAttemptFailed | TestAttemptOther string

record TestAttempt =
  ta_Platform :: Platform
  ta_ProfileID :: ProfileID
  ta_ExternalID :: string
  ta_TestDefinitionID :: string
  ta_Status :: TestAttemptStatus
  ta_AttemptFingerprint :: string
  ta_Attempts :: "64 word"
  ta_ObservedAt :: time
  ta_UpdatedAt :: time

definition TestAttempt_Passed :: "TestAttempt \<Rightarrow> bool" where
  "TestAttempt_Passed attempt \<longleftrightarrow> ta_Status attempt = TestAttemptPassed"

definition TestAttempt_Continues :: "TestAttempt \<Rightarrow> bool" where
  "TestAttempt_Continues attempt \<longleftrightarrow> ta_Status attempt \<noteq> TestAttemptFailed"

end
