(* ===== verification/Submission.thy ===== *)
theory Submission
  imports Plans Pacing
begin

text \<open>
  \<open>worker/application.go\<close>, the handler of \<open>application.submit\<close>: it prepares an
  application, takes a slot of the budget and of the pacing, submits, and settles the outcome.
  The world holds the repository's maps and the outside world \<open>'x\<close>; the handler's
  interfaces are functions on \<open>'x\<close>. The context is part of the outside world, so every
  access to the repository sees whether it was cancelled meanwhile. \<open>hw_calls\<close> is not in
  the code: it remembers every submission with the maps of that moment.
\<close>

section \<open>The world\<close>

datatype call = DirectCall ApplicationSubmitCommand | BrowserCall ProfileID string string

record call_record =
  call_What :: call
  call_Key :: ApplicationKey
  call_Apps :: Applications
  call_Budgets :: Budgets
  call_Paces :: Paces

record 'x World =
  hw_apps :: Applications
  hw_vacancies :: Vacancies
  hw_budgets :: Budgets
  hw_paces :: Paces
  hw_activities :: Activities
  hw_calls :: "call_record list"
  hw_ext :: 'x

record ('x, 'p) Coordinator =
  co_Apply :: "Application \<Rightarrow> Vacancy \<Rightarrow> 'p \<Rightarrow> string \<Rightarrow> 'x \<Rightarrow> error option \<times> 'x"
  co_BeginSubmit :: "ApplicationID \<Rightarrow> 'x \<Rightarrow> error option \<times> 'x"
  co_Restore :: "ApplicationID \<Rightarrow> 'x \<Rightarrow> error option \<times> 'x"

record ('x, 'p) Handler =
  ah_Err :: "'x \<Rightarrow> error option"
  ah_Now :: "'x \<Rightarrow> time \<times> 'x"
  ah_registry :: "'x Registry"
  ah_plans :: "Application \<Rightarrow> 'x \<Rightarrow> (error + ('x, 'p) ApplicationPlan) \<times> 'x"
  ah_zones :: zones
  ah_jitter :: "duration \<Rightarrow> duration \<Rightarrow> 'x \<Rightarrow> duration \<times> 'x"
  ah_wait :: "duration \<Rightarrow> 'x \<Rightarrow> error option \<times> 'x"
  ah_tailoring :: "('x, 'p) Coordinator option"
  ah_testAttempts :: "(Platform \<Rightarrow> ProfileID \<Rightarrow> string \<Rightarrow> 'x \<Rightarrow> (error + TestAttempt option) \<times> 'x) option"
  ah_testChain :: "(ProfileID \<Rightarrow> Platform \<Rightarrow> string \<Rightarrow> string \<Rightarrow> 'x \<Rightarrow> error option \<times> 'x) option"

text \<open>\<open>if err := f(); err != nil { return err }\<close>, and then the rest.\<close>

definition and_then :: "error option \<times> 'w \<Rightarrow> ('w \<Rightarrow> error option \<times> 'w) \<Rightarrow> error option \<times> 'w" where
  "and_then r k = (case r of (Some e, w) \<Rightarrow> (Some e, w) | (None, w) \<Rightarrow> k w)"

definition app_platform :: "Application \<Rightarrow> Platform" where
  "app_platform application = vk_Platform (ak_Vacancy (app_Key application))"

definition app_profile :: "Application \<Rightarrow> ProfileID" where
  "app_profile application = ak_ProfileID (app_Key application)"

definition on_ext :: "('x \<Rightarrow> 'r \<times> 'x) \<Rightarrow> 'x World \<Rightarrow> 'r \<times> 'x World" where
  "on_ext f w = (case f (hw_ext w) of (r, x) \<Rightarrow> (r, w\<lparr>hw_ext := x\<rparr>))"

definition ctx_of :: "('x, 'p) Handler \<Rightarrow> 'x World \<Rightarrow> ctx" where
  "ctx_of h w = ah_Err h (hw_ext w)"

definition save :: "('x, 'p) Handler \<Rightarrow> Application \<Rightarrow> ApplicationStatus \<Rightarrow> 'x World \<Rightarrow> error option \<times> 'x World" where
  "save h application expected w =
     (case SaveApplication (ctx_of h w) application expected (hw_apps w) of (e, apps) \<Rightarrow> (e, w\<lparr>hw_apps := apps\<rparr>))"

text \<open>A transition of the application, and then the rest with the changed application.\<close>

definition with_transition ::
  "ApplicationStatus \<Rightarrow> time \<Rightarrow> Application \<Rightarrow> 'w \<Rightarrow> (Application \<Rightarrow> error option \<times> 'w) \<Rightarrow> error option \<times> 'w" where
  "with_transition to now application w k =
     (case Application_Transition to now application of Inl e \<Rightarrow> (Some e, w) | Inr a \<Rightarrow> k a)"

section \<open>Budget, activity and tailoring\<close>

definition normalizeBudgetError :: "string \<Rightarrow> Platform \<Rightarrow> error option \<Rightarrow> error option" where
  "normalizeBudgetError operation platform err =
     (case err of None \<Rightarrow> None | Some e \<Rightarrow>
      case errors_As e of
        Some oe \<Rightarrow>
          if OperationError_Validate oe = None then Some (ErrOperation oe)
          else Some (ErrOperation (OperationError ErrorTemporaryFailure operation platform
                 (''application budget storage is temporarily unavailable: '' @ Error_text e) None [] (Some e)))
      | None \<Rightarrow> Some (ErrOperation (OperationError ErrorTemporaryFailure operation platform
                 (''application budget storage is temporarily unavailable: '' @ Error_text e) None [] (Some e))))"

definition applicationBudgetWindow :: "zones \<Rightarrow> string \<Rightarrow> time \<Rightarrow> error + time \<times> time" where
  "applicationBudgetWindow zones timezone now =
     (case zones timezone of Inl e \<Rightarrow> Inl e | Inr local_day \<Rightarrow> Inr (local_day now))"

definition reserveBudget ::
  "('x, 'p) Handler \<Rightarrow> Application \<Rightarrow> ('x, 'p) ApplicationPlan \<Rightarrow> time \<Rightarrow> 'x World \<Rightarrow> error option \<times> 'x World" where
  "reserveBudget h application plan now w =
     (case applicationBudgetWindow (ah_zones h) (plan_Timezone plan) now of Inl e \<Rightarrow> (Some e, w)
      | Inr (windowStart, windowEnd) \<Rightarrow>
          (case ReserveApplicationBudget (ctx_of h w)
             \<lparr>rp_ApplicationID = app_ID application, rp_ProfileID = app_profile application,
              rp_Platform = app_platform application, rp_WindowStart = windowStart, rp_WindowEnd = windowEnd,
              rp_Limit = plan_DailyLimit plan, rp_Now = now\<rparr> (hw_budgets w) of
             (r, budgets) \<Rightarrow>
               (normalizeBudgetError ''applications.budget.reserve'' (app_platform application)
                  (case r of Inl e \<Rightarrow> Some e | Inr _ \<Rightarrow> None), w\<lparr>hw_budgets := budgets\<rparr>)))"

definition commitBudget :: "('x, 'p) Handler \<Rightarrow> Application \<Rightarrow> time \<Rightarrow> 'x World \<Rightarrow> error option \<times> 'x World" where
  "commitBudget h application now w =
     (case CommitApplicationBudget (ctx_of h w) (app_ID application) now (hw_budgets w) of (e, budgets) \<Rightarrow>
        (normalizeBudgetError ''applications.budget.commit'' (app_platform application) e, w\<lparr>hw_budgets := budgets\<rparr>))"

definition releaseBudget :: "('x, 'p) Handler \<Rightarrow> Application \<Rightarrow> time \<Rightarrow> 'x World \<Rightarrow> error option \<times> 'x World" where
  "releaseBudget h application now w =
     (case ReleaseApplicationBudget (ctx_of h w) (app_ID application) now (hw_budgets w) of (e, budgets) \<Rightarrow>
        (normalizeBudgetError ''applications.budget.release'' (app_platform application) e, w\<lparr>hw_budgets := budgets\<rparr>))"

definition record_activity ::
  "('x, 'p) Handler \<Rightarrow> Platform \<Rightarrow> ProfileID \<Rightarrow> string \<Rightarrow> ProfileActivityKind \<Rightarrow> string \<Rightarrow> time \<Rightarrow> 'x World \<Rightarrow>
   error option \<times> 'x World" where
  "record_activity h platform profileID resumeID kind sourceID occurredAt w =
     (case recordProfileActivity (ctx_of h w) platform profileID resumeID kind sourceID occurredAt (hw_activities w) of
        (e, activities) \<Rightarrow> (e, w\<lparr>hw_activities := activities\<rparr>))"

definition recordSubmitted :: "('x, 'p) Handler \<Rightarrow> Application \<Rightarrow> 'x World \<Rightarrow> error option \<times> 'x World" where
  "recordSubmitted h application w =
     (case app_SubmittedAt application of
        None \<Rightarrow> (Some (Err ''submitted application has no submission time''), w)
      | Some at \<Rightarrow> record_activity h (app_platform application) (app_profile application)
          (app_PreparedResumeID application) ActivityApplicationSubmitted (app_ID application) at w)"

definition preparedResumeID :: "Application \<Rightarrow> ('x, 'p) ApplicationPlan \<Rightarrow> string" where
  "preparedResumeID application plan =
     (if app_PreparedResumeID application \<noteq> [] then app_PreparedResumeID application else plan_ResumeID plan)"

definition applyTailoring ::
  "('x, 'p) Handler \<Rightarrow> Application \<Rightarrow> ('x, 'p) ApplicationPlan \<Rightarrow> 'x World \<Rightarrow> error option \<times> 'x World" where
  "applyTailoring h application plan w =
     (case (ah_tailoring h, plan_Tailoring plan) of
        (Some coordinator, Some tailoring) \<Rightarrow>
          (case GetVacancy (ctx_of h w) (ak_Vacancy (app_Key application)) (hw_vacancies w) of
             Inl e \<Rightarrow> (Some e, w)
           | Inr vacancy \<Rightarrow>
               on_ext (co_Apply coordinator application vacancy tailoring (preparedResumeID application plan)) w)
      | _ \<Rightarrow> (None, w))"

definition beginTailoringSubmit ::
  "('x, 'p) Handler \<Rightarrow> Application \<Rightarrow> ('x, 'p) ApplicationPlan \<Rightarrow> 'x World \<Rightarrow> error option \<times> 'x World" where
  "beginTailoringSubmit h application plan w =
     (case (ah_tailoring h, plan_Tailoring plan) of
        (Some coordinator, Some _) \<Rightarrow> on_ext (co_BeginSubmit coordinator (app_ID application)) w
      | _ \<Rightarrow> (None, w))"

definition restoreTailoring :: "('x, 'p) Handler \<Rightarrow> Application \<Rightarrow> 'x World \<Rightarrow> error option \<times> 'x World" where
  "restoreTailoring h application w =
     (case ah_tailoring h of
        None \<Rightarrow> (None, w)
      | Some coordinator \<Rightarrow> on_ext (co_Restore coordinator (app_ID application)) w)"

text \<open>The ends that several branches share: a submitted application, and one whose slot is free again.\<close>

definition settle_submitted :: "('x, 'p) Handler \<Rightarrow> Application \<Rightarrow> time \<Rightarrow> 'x World \<Rightarrow> error option \<times> 'x World" where
  "settle_submitted h application now w =
     and_then (commitBudget h application now w) (\<lambda>w. and_then (recordSubmitted h application w)
       (restoreTailoring h application))"

definition settle_released :: "('x, 'p) Handler \<Rightarrow> Application \<Rightarrow> time \<Rightarrow> 'x World \<Rightarrow> error option \<times> 'x World" where
  "settle_released h application now w =
     and_then (releaseBudget h application now w) (restoreTailoring h application)"

section \<open>Pacing\<close>

definition maxPacingWaitAttempts :: nat where
  "maxPacingWaitAttempts = 5"

definition maxPacingWait :: duration where
  "maxPacingWait = 2 * Minute"

text \<open>
  The loop with \<open>n\<close> attempts left: \<open>Inl\<close> what it returned, or \<open>Inr\<close> the slot and
  the clock with which it was left. The slot is the zero instant when the attempts ran out.
\<close>

fun pacing_loop ::
  "('x, 'p) Handler \<Rightarrow> Application \<Rightarrow> ('x, 'p) ApplicationPlan \<Rightarrow> time \<Rightarrow> nat \<Rightarrow> time \<Rightarrow> 'x World \<Rightarrow>
   (error option + time \<times> time) \<times> 'x World" where
  "pacing_loop h application plan deadline 0 now w = (Inr (0, now), w)"
| "pacing_loop h application plan deadline (Suc n) now w =
     (case on_ext (ah_jitter h (plan_SubmitJitterMin plan) (plan_SubmitJitterMax plan)) w of (interval, w) \<Rightarrow>
      case AcquireApplicationPace (ctx_of h w)
          \<lparr>pp_ApplicationID = app_ID application, pp_ProfileID = app_profile application,
           pp_Platform = app_platform application, pp_Interval = interval, pp_Now = now\<rparr> (hw_paces w) of
        (r, paces) \<Rightarrow>
          (let w = w\<lparr>hw_paces := paces\<rparr> in
           case r of
             Inl e \<Rightarrow> (Inl (Some (ErrOperation (OperationError ErrorTemporaryFailure ''applications.pacing.acquire''
                (app_platform application) ''application pacing storage is temporarily unavailable'' None [] (Some e)))), w)
           | Inr (reservation, allowed) \<Rightarrow>
               if allowed then (Inl None, w)
               else if pr_ScheduledAt reservation > deadline then (Inr (pr_ScheduledAt reservation, now), w)
               else let wait = time_Sub (pr_ScheduledAt reservation) now in
                 case on_ext (ah_wait h (if wait \<le> 0 then Second else wait)) w of
                   (Some e, w) \<Rightarrow> (Inl (Some e), w)
                 | (None, w) \<Rightarrow>
                     (case on_ext (ah_Now h) w of (now', w) \<Rightarrow>
                        pacing_loop h application plan deadline n now' w)))"

definition acquirePacing ::
  "('x, 'p) Handler \<Rightarrow> Application \<Rightarrow> ('x, 'p) ApplicationPlan \<Rightarrow> time \<Rightarrow> 'x World \<Rightarrow> error option \<times> 'x World" where
  "acquirePacing h application plan now w =
     (case pacing_loop h application plan (now + maxPacingWait) maxPacingWaitAttempts now w of
        (Inl r, w) \<Rightarrow> (r, w)
      | (Inr (retryAt, now'), w) \<Rightarrow>
          (Some (ErrOperation (OperationError ErrorRateLimited ''applications.pacing.wait'' (app_platform application)
             ''application submit is waiting for its pacing slot''
             (Some (if IsZero retryAt then now' + maxPacingWait else retryAt)) [(''pacing'', ''true'')] None)), w))"

section \<open>Preparing\<close>

definition meta :: "OperationError \<Rightarrow> string \<Rightarrow> string" where
  "meta oe key = (case map_of (oe_Metadata oe) key of Some v \<Rightarrow> v | None \<Rightarrow> [])"

definition transport_skips_preflight :: "('x, 'p) Handler \<Rightarrow> ProfileID \<Rightarrow> bool" where
  "transport_skips_preflight h profileID =
     (case ResolveTransport (ah_registry h) profileID of
        Inl _ \<Rightarrow> False
      | Inr transport \<Rightarrow> (case tr_SkipPreflight transport of Some f \<Rightarrow> f profileID | None \<Rightarrow> False))"

text \<open>A decision, or none and the resume to use.\<close>

definition applicationResumePreflight ::
  "('x, 'p) Handler \<Rightarrow> Application \<Rightarrow> string \<Rightarrow> 'x World \<Rightarrow>
   (error + ApplicationPreparation option \<times> string) \<times> 'x World" where
  "applicationResumePreflight h application resumeID w =
     (if transport_skips_preflight h (app_profile application)
      then (if TrimSpace resumeID = []
            then (Inr (Some (preparation OutcomeReview ''resume_not_suitable''
                    ''profile application has no resume configured''), []), w)
            else (Inr (None, resumeID), w))
      else case ResolveSuitableResumeReader (ah_registry h) (app_profile application) of Inl e \<Rightarrow> (Inl e, w)
      | Inr reader \<Rightarrow>
        case on_ext (reader (app_profile application) (ak_Vacancy (app_Key application))) w of
        (Inl e, w) \<Rightarrow>
          if ErrorIsCategory e ErrorValidationRequired \<or> ErrorIsCategory e ErrorConfirmationRequired
          then (case errors_As e of
                  None \<Rightarrow> (Inr (Some (preparation OutcomeReview ''platform_validation_required'' (Error_text e)), []), w)
                | Some oe \<Rightarrow> (Inr (Some (preparation OutcomeReview
                    (if TrimSpace (meta oe ''code'') \<noteq> [] then TrimSpace (meta oe ''code'')
                     else ''platform_validation_required'')
                    (if TrimSpace (oe_Message oe) \<noteq> [] then oe_Message oe else Error_text e)), []), w))
          else (Inl e, w)
      | (Inr resumes, w) \<Rightarrow>
          if \<exists>resume \<in> set resumes. sr_ID resume = resumeID then (Inr (None, resumeID), w)
          else if resumes \<noteq> [] then (Inr (None, sr_ID (hd resumes)), w)
          else (Inr (Some (preparation OutcomeReview ''resume_not_suitable''
                 ''HH has no resume available for this vacancy''), []), w))"

definition reader_error :: "Application \<Rightarrow> string \<Rightarrow> error option \<Rightarrow> error" where
  "reader_error application message cause = ErrOperation (OperationError ErrorPermanentFailure ''vacancies.read''
     (app_platform application) message None [] cause)"

definition loadFullVacancy :: "('x, 'p) Handler \<Rightarrow> Application \<Rightarrow> 'x World \<Rightarrow> (error + Vacancy) \<times> 'x World" where
  "loadFullVacancy h application w =
     (case ResolveVacancyReader (ah_registry h) (app_profile application) of Inl e \<Rightarrow> (Inl e, w) | Inr reader \<Rightarrow>
      case on_ext (reader (app_profile application) (ak_Vacancy (app_Key application))) w of
        (Inl e, w) \<Rightarrow> (Inl e, w)
      | (Inr vacancy, w) \<Rightarrow>
          if Vacancy_Key vacancy \<noteq> ak_Vacancy (app_Key application)
          then (Inl (reader_error application ''vacancy reader returned another vacancy'' None), w)
          else case Vacancy_Validate vacancy of
            Some e \<Rightarrow> (Inl (reader_error application ''vacancy reader returned an invalid vacancy'' (Some e)), w)
          | None \<Rightarrow>
              (case UpsertVacancy (ctx_of h w) vacancy (hw_vacancies w) of
                 (Inl e, vacancies) \<Rightarrow>
                   (Inl (ErrWrap (''store full vacancy '' @ VacancyKey_String (Vacancy_Key vacancy)) e),
                    w\<lparr>hw_vacancies := vacancies\<rparr>)
               | (Inr _, vacancies) \<Rightarrow>
                   (case record_activity h (vac_Platform vacancy) (app_profile application) [] ActivityVacancyInspected
                           (app_ID application) (vac_ObservedAt vacancy) (w\<lparr>hw_vacancies := vacancies\<rparr>) of
                      (Some e, w) \<Rightarrow> (Inl e, w)
                    | (None, w) \<Rightarrow> (Inr vacancy, w))))"

definition testContinues :: "('x, 'p) Handler \<Rightarrow> Application \<Rightarrow> 'x World \<Rightarrow> (error + bool) \<times> 'x World" where
  "testContinues h application w =
     (case ah_testAttempts h of None \<Rightarrow> (Inr False, w) | Some latest \<Rightarrow>
      case on_ext (latest (app_platform application) (app_profile application)
                     (vk_ExternalID (ak_Vacancy (app_Key application)))) w of
        (Inl e, w) \<Rightarrow> (Inl e, w)
      | (Inr None, w) \<Rightarrow> (Inr False, w)
      | (Inr (Some attempt), w) \<Rightarrow> (Inr (TestAttempt_Continues attempt), w))"

definition enqueueTestCapture ::
  "('x, 'p) Handler \<Rightarrow> Application \<Rightarrow> string \<Rightarrow> 'x World \<Rightarrow> error option \<times> 'x World" where
  "enqueueTestCapture h application source w =
     (case ah_testChain h of None \<Rightarrow> (None, w) | Some enqueue \<Rightarrow>
      on_ext (enqueue (app_profile application) (app_platform application)
        (vk_ExternalID (ak_Vacancy (app_Key application))) source) w)"

text \<open>The texts that the platform's users read are UTF-8, written here byte by byte.\<close>

definition reason_vacancy_closed :: string where
  "reason_vacancy_closed = ''HH '' @ from_hex (''d181d0bed0bed0b1d189d0b8d0bb2c20d187d182d0be20d0b2d0b0d0bad0b0d0bdd181d0b8d18f20''
     @ ''d0b7d0b0d0bad180d18bd182d0b020d0b8d0bbd0b820d0bdd0b5d0b4d0bed181d182d183d0bfd0bdd0b0'')"

definition reason_already_applied :: string where
  "reason_already_applied = from_hex (''d09dd0b020d0b2d0b0d0bad0b0d0bdd181d0b8d18e20d183d0b6d0b520d0b1d18bd0bb20''
     @ ''d0bed182d0bfd180d0b0d0b2d0bbd0b5d0bd20d0bed182d0bad0bbd0b8d0ba'')"

definition reason_not_allowed :: string where
  "reason_not_allowed = ''HH '' @ from_hex (''d0bdd0b520d180d0b0d0b7d180d0b5d188d0b0d0b5d18220d0bed182d0bad0bbd0b8d0ba3a20''
     @ ''d0b2d0b0d0bad0b0d0bdd181d0b8d18f20d0b220d0b0d180d185d0b8d0b2d0b520d0b8d0bbd0b820d0bdd0b5d0b4d0bed181d182d183d0bfd0bdd0b0'')"

definition reason_skipped_validation :: string where
  "reason_skipped_validation = from_hex (''d0b2d0b0d0bad0b0d0bdd181d0b8d18f20d182d180d0b5d0b1d183d0b5d18220d0b0d0bdd0bad0b5d182d18320''
     @ ''d0b8d0bbd0b820d182d0b5d181d1823b20d0bfd180d0bed0bfd183d189d0b5d0bdd0be20d0bfd0be20'') @ ''validation_action''"

definition reason_captcha :: string where
  "reason_captcha = ''HH '' @ from_hex (''d0bfd180d0bed181d0b8d18220d0bfd180d0bed0b9d182d0b820d0bad0b0d0bfd187d1833b20d0bed182d0bad180d0bed0b9d182d0b520''
     @ ''d0bfd180d0bed0b2d0b5d180d0bad18320d0b220'') @ ''dashboard''"

definition with_decision :: "string \<Rightarrow> string \<Rightarrow> Application \<Rightarrow> Application" where
  "with_decision code reason application = application\<lparr>app_DecisionCode := code, app_DecisionReason := reason\<rparr>"

text \<open>A skip that frees the budget: transition, save, release, restore.\<close>

definition skip_and_settle ::
  "('x, 'p) Handler \<Rightarrow> Application \<Rightarrow> ApplicationStatus \<Rightarrow> ApplicationStatus \<Rightarrow> time \<Rightarrow> 'x World \<Rightarrow> error option \<times> 'x World" where
  "skip_and_settle h application to expected now w =
     with_transition to now application w (\<lambda>a.
       and_then (save h a expected w) (settle_released h a now))"

text \<open>What becomes of the application when its vacancy cannot be loaded.\<close>

definition vacancy_failed ::
  "('x, 'p) Handler \<Rightarrow> ApplicationStatus \<Rightarrow> time \<Rightarrow> Application \<Rightarrow> error \<Rightarrow> 'x World \<Rightarrow> error option \<times> 'x World" where
  "vacancy_failed h expected now application err w =
     (case errors_As err of None \<Rightarrow> (Some err, w) | Some oe \<Rightarrow>
      if OperationError_Validate oe \<noteq> None then (Some err, w)
      else if meta oe ''code'' = ''vacancy_closed''
      then skip_and_settle h (with_decision ''vacancy_closed'' reason_vacancy_closed application)
             ApplicationSkipped expected now w
      else if ErrorIsCategory err ErrorPermanentFailure
      then (case Application_Fail (Some oe) now application of Inl e \<Rightarrow> (Some e, w) | Inr a \<Rightarrow>
              and_then (save h a expected w) (\<lambda>w. (Some err, w)))
      else (Some err, w))"

text \<open>The preparation: by the vacancy, by the resumes, or by the preparer.\<close>

definition plain_preparation :: "('x, 'p) ApplicationPlan \<Rightarrow> ApplicationPreparation" where
  "plain_preparation plan = \<lparr>prep_Outcome = OutcomeApply, prep_Code = ''qualified'',
     prep_Reason = ''vacancy passed platform preflight'', prep_Message = plan_Message plan,
     prep_Provenance = zero_Provenance\<rparr>"

definition require_letter :: "Vacancy \<Rightarrow> ApplicationPreparation \<Rightarrow> ApplicationPreparation" where
  "require_letter vacancy p =
     (if prep_Outcome p = OutcomeApply \<and> vacancyAttributeBool vacancy ''response_letter_required''
         \<and> TrimSpace (prep_Message p) = []
      then preparation OutcomeReview ''cover_letter_required'' ''vacancy requires a non-empty cover letter''
      else p)"

definition resume_stage ::
  "('x, 'p) Handler \<Rightarrow> ('x, 'p) ApplicationPlan \<Rightarrow> Application \<Rightarrow> 'x World \<Rightarrow>
   (error + ApplicationPreparation option \<times> string) \<times> 'x World" where
  "resume_stage h plan application w =
     (if plan_Mode plan \<noteq> ExecutionDryRun \<and> plan_ResumeID plan \<noteq> []
      then applicationResumePreflight h application (plan_ResumeID plan) w
      else (Inr (None, []), w))"

definition decide ::
  "('x, 'p) Handler \<Rightarrow> ('x, 'p) ApplicationPlan \<Rightarrow> Application \<Rightarrow> Vacancy \<Rightarrow> 'x World \<Rightarrow>
   (error + ApplicationPreparation \<times> string) \<times> 'x World" where
  "decide h plan application vacancy w =
     (case testContinues h application w of (Inl e, w) \<Rightarrow> (Inl e, w) | (Inr continues, w) \<Rightarrow>
      case applicationPlatformPreflight vacancy continues of Some p \<Rightarrow> (Inr (p, []), w) | None \<Rightarrow>
      case resume_stage h plan application w of
        (Inl e, w) \<Rightarrow> (Inl e, w)
      | (Inr (Some p, resumeID), w) \<Rightarrow> (Inr (p, resumeID), w)
      | (Inr (None, resumeID), w) \<Rightarrow>
          (case plan_Preparer plan of
             None \<Rightarrow> (Inr (require_letter vacancy (plain_preparation plan), resumeID), w)
           | Some prepare \<Rightarrow>
               (case on_ext (prepare application vacancy) w of
                  (Inl e, w) \<Rightarrow> (Inl e, w)
                | (Inr p, w) \<Rightarrow> (Inr (require_letter vacancy p, resumeID), w))))"

text \<open>\<open>Inl\<close> what the handler returned, \<open>Inr\<close> the application to go on with.\<close>

definition settle_preparation ::
  "('x, 'p) Handler \<Rightarrow> ('x, 'p) ApplicationPlan \<Rightarrow> ApplicationStatus \<Rightarrow> time \<Rightarrow> Application \<Rightarrow>
   ApplicationPreparation \<Rightarrow> 'x World \<Rightarrow> (error option + Application) \<times> 'x World" where
  "settle_preparation h plan expected now a p w =
     (if prep_Outcome p = OutcomeSkip \<or> prep_Outcome p = OutcomeReview \<and> plan_SkipValidation plan
            \<and> skipValidationDecisionCode (prep_Code p)
      then (case with_transition ApplicationSkipped now a w (\<lambda>a. save h a expected w) of (r, w) \<Rightarrow> (Inl r, w))
      else if prep_Outcome p = OutcomeReview
      then (case with_transition ApplicationWaitingValidation now a w (\<lambda>a.
              and_then (save h a expected w) (\<lambda>w.
                if prep_Code p \<in> {''vacancy_test_required'', ''questionnaire_required''}
                then enqueueTestCapture h a ''application-review'' w else (None, w))) of
              (r, w) \<Rightarrow> (Inl r, w))
      else (Inr a, w))"

definition prepare ::
  "('x, 'p) Handler \<Rightarrow> ('x, 'p) ApplicationPlan \<Rightarrow> ApplicationStatus \<Rightarrow> time \<Rightarrow> Application \<Rightarrow> 'x World \<Rightarrow>
   (error option + Application) \<times> 'x World" where
  "prepare h plan expected now application w =
     (case loadFullVacancy h application w of
        (Inl e, w) \<Rightarrow> (case vacancy_failed h expected now application e w of (r, w) \<Rightarrow> (Inl r, w))
      | (Inr vacancy, w) \<Rightarrow>
          (case decide h plan application vacancy w of
             (Inl e, w) \<Rightarrow> (Inl (Some e), w)
           | (Inr (p, resumeID), w) \<Rightarrow>
               (case Preparation_Validate p of
                  Some e \<Rightarrow> (Inl (Some (ErrOperation (OperationError ErrorValidationRequired ''applications.prepare''
                     (app_platform application) (Error_text e) None [] (Some e)))), w)
                | None \<Rightarrow>
                    (case RecordPreparationWithProvenance (prep_Code p) (prep_Reason p) resumeID (prep_Message p)
                            (prep_Provenance p) now application of
                       Inl e \<Rightarrow> (Inl (Some e), w)
                     | Inr a \<Rightarrow> settle_preparation h plan expected now a p w))))"

section \<open>Outcomes of a submission\<close>

text \<open>The browser's attempt: \<open>None\<close> if it did not handle the submission.\<close>

definition remember :: "call \<Rightarrow> ApplicationKey \<Rightarrow> 'x World \<Rightarrow> 'x World" where
  "remember what key w = w\<lparr>hw_calls := hw_calls w @ [\<lparr>call_What = what, call_Key = key,
     call_Apps = hw_apps w, call_Budgets = hw_budgets w, call_Paces = hw_paces w\<rparr>]\<rparr>"

definition browser_parked :: "Application \<Rightarrow> BrowserOutcome \<Rightarrow> Application" where
  "browser_parked application outcome =
     (if bo_State outcome = BrowserWaitingCaptcha then with_decision ''captcha_required'' reason_captcha application
      else with_decision ''platform_validation_required'' (TrimSpace (bo_Message outcome)) application)"

definition browserFallback ::
  "('x, 'p) Handler \<Rightarrow> Application \<Rightarrow> 'x World \<Rightarrow> error option option \<times> 'x World" where
  "browserFallback h application w =
     (case ResolveBrowserSubmitter (ah_registry h) (app_profile application) of None \<Rightarrow> (None, w) | Some submitter \<Rightarrow>
      let vacancyID = vk_ExternalID (ak_Vacancy (app_Key application));
          w = remember (BrowserCall (app_profile application) vacancyID (app_PreparedMessage application))
                (app_Key application) w
      in case on_ext (submitter (app_profile application) vacancyID (app_PreparedMessage application)) w of
        (Inl _, w) \<Rightarrow> (None, w)
      | (Inr outcome, w) \<Rightarrow>
          (case on_ext (ah_Now h) w of (now, w) \<Rightarrow>
           case (if bo_State outcome = BrowserDone
                 then with_transition ApplicationSubmitted now application w (\<lambda>a.
                        and_then (save h a ApplicationSubmitting w) (settle_submitted h a now))
                 else skip_and_settle h (browser_parked application outcome) ApplicationWaitingValidation
                        ApplicationSubmitting now w) of
             (r, w) \<Rightarrow> (Some r, w)))"

text \<open>The operation error that \<open>finishFailure\<close> works with.\<close>

definition failure_of :: "error \<Rightarrow> OperationError" where
  "failure_of cause =
     (case errors_As cause of
        Some oe \<Rightarrow> if OperationError_Validate oe = None then oe
                   else OperationError ErrorPermanentFailure ''applications.submit'' [] (Error_text cause) None [] None
      | None \<Rightarrow> OperationError ErrorPermanentFailure ''applications.submit'' [] (Error_text cause) None [] None)"

definition with_retry_after :: "time \<Rightarrow> OperationError \<Rightarrow> OperationError" where
  "with_retry_after t oe = OperationError (oe_Category oe) (oe_Operation oe) (oe_Platform oe) (oe_Message oe)
     (Some t) (oe_Metadata oe) (oe_Cause oe)"

definition quota_reset :: "zones \<Rightarrow> ('x, 'p) ApplicationPlan \<Rightarrow> time \<Rightarrow> OperationError \<Rightarrow> error + OperationError" where
  "quota_reset zones plan now oe =
     (if oe_Category oe = ErrorQuotaExceeded \<and> oe_RetryAfter oe = None
      then (case applicationBudgetWindow zones (plan_Timezone plan) now of
              Inl e \<Rightarrow> Inl e | Inr (_, resetAt) \<Rightarrow> Inr (with_retry_after resetAt oe))
      else Inr oe)"

definition decision_code :: "OperationError \<Rightarrow> string" where
  "decision_code oe =
     (if TrimSpace (meta oe ''code'') \<noteq> [] then TrimSpace (meta oe ''code'')
      else if oe_Category oe = ErrorConfirmationRequired then ''captcha_required''
      else ''platform_validation_required'')"

definition park_for_validation ::
  "('x, 'p) Handler \<Rightarrow> ('x, 'p) ApplicationPlan \<Rightarrow> time \<Rightarrow> OperationError \<Rightarrow> Application \<Rightarrow> 'x World \<Rightarrow>
   error option \<times> 'x World" where
  "park_for_validation h plan now oe application w =
     (let code = decision_code oe in
      if plan_SkipValidation plan \<and> skipValidationDecisionCode code
      then skip_and_settle h (with_decision code reason_skipped_validation application)
             ApplicationSkipped ApplicationSubmitting now w
      else with_transition ApplicationWaitingValidation now (application\<lparr>app_DecisionCode := code\<rparr>) w (\<lambda>a.
             and_then (save h a ApplicationSubmitting w) (\<lambda>w.
             and_then (releaseBudget h a now w) (\<lambda>w.
             and_then (if code = ''questionnaire_required'' then enqueueTestCapture h a ''application-submit'' w
                       else (None, w)) (restoreTailoring h a)))))"

definition then_fail :: "OperationError \<Rightarrow> error option \<times> 'w \<Rightarrow> error option \<times> 'w" where
  "then_fail oe r = and_then r (\<lambda>w. (Some (ErrOperation oe), w))"

definition classify ::
  "('x, 'p) Handler \<Rightarrow> ('x, 'p) ApplicationPlan \<Rightarrow> time \<Rightarrow> OperationError \<Rightarrow> Application \<Rightarrow> 'x World \<Rightarrow>
   error option \<times> 'x World" where
  "classify h plan now oe application w =
     (case oe_Category oe of
        ErrorAmbiguousResult \<Rightarrow>
          with_transition ApplicationPendingReconcile now application w (\<lambda>a.
            then_fail oe (save h a ApplicationSubmitting w))
      | ErrorValidationRequired \<Rightarrow> park_for_validation h plan now oe application w
      | ErrorConfirmationRequired \<Rightarrow>
          (case browserFallback h application w of
             (Some r, w) \<Rightarrow> (r, w)
           | (None, w) \<Rightarrow> park_for_validation h plan now oe application w)
      | _ \<Rightarrow>
          if oe_Category oe \<in> {ErrorTemporaryFailure, ErrorRateLimited, ErrorQuotaExceeded, ErrorUnauthorized}
          then (let application = (if oe_Category oe = ErrorQuotaExceeded
                    then application\<lparr>app_FailureCategory := oe_Category oe, app_FailureMessage := oe_Message oe\<rparr>
                    else application)
                in then_fail oe (skip_and_settle h application ApplicationReady ApplicationSubmitting now w))
          else (case Application_Fail (Some oe) now application of
                  Inl e \<Rightarrow> (Some e, w)
                | Inr a \<Rightarrow> then_fail oe (and_then (save h a ApplicationSubmitting w) (settle_released h a now))))"

definition finishFailure ::
  "('x, 'p) Handler \<Rightarrow> Application \<Rightarrow> ('x, 'p) ApplicationPlan \<Rightarrow> error \<Rightarrow> 'x World \<Rightarrow> error option \<times> 'x World" where
  "finishFailure h application plan cause w =
     (case on_ext (ah_Now h) w of (now, w) \<Rightarrow>
      case quota_reset (ah_zones h) plan now (failure_of cause) of Inl e \<Rightarrow> (Some e, w) | Inr oe \<Rightarrow>
      if meta oe ''code'' \<in> {''vacancy_closed'', ''response_impossible''}
      then skip_and_settle h (with_decision ''vacancy_closed'' reason_not_allowed application)
             ApplicationSkipped ApplicationSubmitting now w
      else classify h plan now oe application w)"

definition reconcile_failure :: "Application \<Rightarrow> OperationError" where
  "reconcile_failure application = OperationError ErrorPermanentFailure ''applications.reconcile'' (app_platform application)
     ''HH confirmed that the application was not created'' None [] None"

definition reconcile :: "('x, 'p) Handler \<Rightarrow> Application \<Rightarrow> 'x World \<Rightarrow> error option \<times> 'x World" where
  "reconcile h application w =
     (case on_ext (ah_plans h application) w of (Inl e, w) \<Rightarrow> (Some e, w) | (Inr plan, w) \<Rightarrow>
      case ResolveTransport (ah_registry h) (app_profile application) of Inl e \<Rightarrow> (Some e, w) | Inr transport \<Rightarrow>
      case tr_Reconcile transport of
        None \<Rightarrow> (Some (ErrOperation (OperationError ErrorUnsupported ''applications.reconcile'' (app_platform application)
                  ''application transport cannot reconcile an ambiguous submission'' None [] None)), w)
      | Some reconciler \<Rightarrow>
          (case on_ext (reconciler \<lparr>rcmd_ProfileID = app_profile application,
                  rcmd_Vacancy = ak_Vacancy (app_Key application),
                  rcmd_ResumeID = preparedResumeID application plan\<rparr>) w of
             (Inl e, w) \<Rightarrow> (Some e, w)
           | (Inr result, w) \<Rightarrow>
               (case on_ext (ah_Now h) w of (now, w) \<Rightarrow>
                if rres_Applied result
                then with_transition ApplicationSubmitted now
                       (application\<lparr>app_ExternalNegotiationID := rres_ExternalNegotiationID result\<rparr>) w (\<lambda>a.
                       and_then (save h a ApplicationPendingReconcile w) (settle_submitted h a now))
                else (case Application_Fail (Some (reconcile_failure application)) now application of
                        Inl e \<Rightarrow> (Some e, w)
                      | Inr a \<Rightarrow> and_then (save h a ApplicationPendingReconcile w) (settle_released h a now)))))"

section \<open>Submitting\<close>

text \<open>After \<open>ApplicationSubmitting\<close> was saved.\<close>

definition submit_command ::
  "('x, 'p) Handler \<Rightarrow> Task \<Rightarrow> ('x, 'p) ApplicationPlan \<Rightarrow> Application \<Rightarrow> 'x World \<Rightarrow> ApplicationSubmitCommand" where
  "submit_command h task plan application w =
     \<lparr>cmd_ProfileID = app_profile application, cmd_Vacancy = ak_Vacancy (app_Key application),
      cmd_VacancyData = (case GetVacancy (ctx_of h w) (ak_Vacancy (app_Key application)) (hw_vacancies w) of
         Inl _ \<Rightarrow> None | Inr v \<Rightarrow> Some v),
      cmd_ResumeID = preparedResumeID application plan, cmd_Message = app_PreparedMessage application,
      cmd_IdempotencyKey = task_IdempotencyKey task\<rparr>"

definition finish_submit ::
  "('x, 'p) Handler \<Rightarrow> ('x, 'p) ApplicationPlan \<Rightarrow> Application \<Rightarrow> ApplicationSubmitResult \<Rightarrow> 'x World \<Rightarrow>
   error option \<times> 'x World" where
  "finish_submit h plan application result w =
     (if res_ExternalNegotiationID result = [] \<and> \<not> res_Applied result \<and> \<not> res_AlreadyApplied result
      then finishFailure h application plan (Err ''application transport returned empty negotiation id'') w
      else case on_ext (ah_Now h) w of (now, w) \<Rightarrow>
      if res_AlreadyApplied result
      then with_transition ApplicationSkipped now
             (with_decision ''already_applied'' reason_already_applied application) w (\<lambda>a.
             and_then (save h a ApplicationSubmitting w) (\<lambda>w.
               case on_ext (ah_Now h) w of (now', w) \<Rightarrow> settle_released h a now' w))
      else with_transition ApplicationSubmitted now
             (application\<lparr>app_ExternalNegotiationID := res_ExternalNegotiationID result,
                app_FailureCategory := NoCategory, app_FailureMessage := []\<rparr>) w (\<lambda>a.
             and_then (save h a ApplicationSubmitting w) (\<lambda>w.
               case on_ext (ah_Now h) w of (now', w) \<Rightarrow> settle_submitted h a now' w)))"

definition submit ::
  "('x, 'p) Handler \<Rightarrow> Task \<Rightarrow> ('x, 'p) ApplicationPlan \<Rightarrow> Application \<Rightarrow> 'x World \<Rightarrow> error option \<times> 'x World" where
  "submit h task plan application w =
     (case beginTailoringSubmit h application plan w of
        (Some e, w) \<Rightarrow> finishFailure h application plan e w
      | (None, w) \<Rightarrow>
          (case ResolveTransport (ah_registry h) (app_profile application) of
             Inl e \<Rightarrow> finishFailure h application plan e w
           | Inr transport \<Rightarrow>
               (let command = submit_command h task plan application w;
                    w = remember (DirectCall command) (app_Key application) w
                in case on_ext (tr_Submit transport command) w of
                     (Inl e, w) \<Rightarrow> finishFailure h application plan e w
                   | (Inr result, w) \<Rightarrow> finish_submit h plan application result w)))"

text \<open>The slot was not to be had: save what was prepared, give the budget back if it was taken.\<close>

definition give_back ::
  "('x, 'p) Handler \<Rightarrow> Application \<Rightarrow> ApplicationStatus \<Rightarrow> time \<Rightarrow> error \<Rightarrow> 'x World \<Rightarrow> error option \<times> 'x World" where
  "give_back h application expected now e w =
     and_then (save h application expected w) (\<lambda>w.
       and_then (releaseBudget h application now w) (\<lambda>w. (Some e, w)))"

definition go_live ::
  "('x, 'p) Handler \<Rightarrow> Task \<Rightarrow> ('x, 'p) ApplicationPlan \<Rightarrow> ApplicationStatus \<Rightarrow> time \<Rightarrow> Application \<Rightarrow> 'x World \<Rightarrow>
   error option \<times> 'x World" where
  "go_live h task plan expected now application w =
     (case reserveBudget h application plan now w of
        (Some e, w) \<Rightarrow> and_then (save h application expected w) (\<lambda>w. (Some e, w))
      | (None, w) \<Rightarrow>
     (case acquirePacing h application plan now w of
        (Some e, w) \<Rightarrow> give_back h application expected now e w
      | (None, w) \<Rightarrow>
     (case applyTailoring h application plan w of
        (Some e, w) \<Rightarrow> give_back h application expected now e w
      | (None, w) \<Rightarrow>
          with_transition ApplicationSubmitting now application w (\<lambda>a.
            and_then (save h a expected w) (submit h task plan a)))))"

definition execute_plan ::
  "('x, 'p) Handler \<Rightarrow> Task \<Rightarrow> ('x, 'p) ApplicationPlan \<Rightarrow> ApplicationStatus \<Rightarrow> time \<Rightarrow> Application \<Rightarrow> 'x World \<Rightarrow>
   error option \<times> 'x World" where
  "execute_plan h task plan expected now application w =
     (if plan_Mode plan = ExecutionDryRun
      then with_transition ApplicationDryRun now application w (\<lambda>a. save h a expected w)
      else if plan_Mode plan = ExecutionApproval
      then with_transition ApplicationWaitingApproval now application w (\<lambda>a. save h a expected w)
      else if app_Status application = ApplicationPreparing
      then with_transition ApplicationReady now application w (\<lambda>a. go_live h task plan expected now a w)
      else go_live h task plan expected now application w)"

text \<open>An application that is new, ready, or waits without having been prepared.\<close>

definition proceed_with ::
  "('x, 'p) Handler \<Rightarrow> Task \<Rightarrow> ApplicationStatus \<Rightarrow> time \<Rightarrow> Application \<Rightarrow> 'x World \<Rightarrow> error option \<times> 'x World" where
  "proceed_with h task expected now application w =
     (case on_ext (ah_plans h application) w of
        (Inl e, w) \<Rightarrow>
          if ErrorIsCategory e ErrorValidationRequired \<and> app_Status application = ApplicationPreparing
          then with_transition ApplicationWaitingValidation now application w (\<lambda>a. save h a expected w)
          else (Some e, w)
      | (Inr plan, w) \<Rightarrow>
          if app_PreparedAt application = None
          then (case prepare h plan expected now application w of
                  (Inl r, w) \<Rightarrow> (r, w)
                | (Inr a, w) \<Rightarrow> execute_plan h task plan expected now a w)
          else execute_plan h task plan expected now application w)"

definition proceed :: "('x, 'p) Handler \<Rightarrow> Task \<Rightarrow> Application \<Rightarrow> 'x World \<Rightarrow> error option \<times> 'x World" where
  "proceed h task application w =
     (case on_ext (ah_Now h) w of (now, w) \<Rightarrow>
      if app_Status application \<in> {ApplicationNew, ApplicationWaitingValidation, ApplicationWaitingApproval}
      then with_transition ApplicationPreparing now application w (\<lambda>a.
             proceed_with h task (app_Status application) now a w)
      else proceed_with h task (app_Status application) now application w)"

text \<open>A submission whose outcome was lost with its worker waits to be reconciled.\<close>

definition interrupted :: "('x, 'p) Handler \<Rightarrow> Application \<Rightarrow> 'x World \<Rightarrow> error option \<times> 'x World" where
  "interrupted h application w =
     (case on_ext (ah_Now h) w of (now, w) \<Rightarrow>
      with_transition ApplicationPendingReconcile now application w (\<lambda>a.
        and_then (save h a ApplicationSubmitting w) (\<lambda>w.
          (Some (ErrOperation (OperationError ErrorAmbiguousResult ''applications.submit'' (app_platform application)
             ''application worker restarted while submission outcome was unknown'' None [] None)), w))))"

definition handle_stored :: "('x, 'p) Handler \<Rightarrow> Task \<Rightarrow> Application \<Rightarrow> 'x World \<Rightarrow> error option \<times> 'x World" where
  "handle_stored h task application w =
     (case app_Status application of
        ApplicationSubmitted \<Rightarrow>
          (case on_ext (ah_Now h) w of (now, w) \<Rightarrow> settle_submitted h application now w)
      | ApplicationPendingReconcile \<Rightarrow> reconcile h application w
      | ApplicationFailed \<Rightarrow>
          (case on_ext (ah_Now h) w of (now, w) \<Rightarrow> settle_released h application now w)
      | ApplicationWaitingValidation \<Rightarrow>
          (case on_ext (ah_Now h) w of (now, w) \<Rightarrow>
             and_then (releaseBudget h application now w) (\<lambda>w.
               if app_PreparedAt application \<noteq> None then restoreTailoring h application w
               else proceed h task application w))
      | ApplicationSkipped \<Rightarrow> (None, w)
      | ApplicationDryRun \<Rightarrow> (None, w)
      | ApplicationWaitingApproval \<Rightarrow> (None, w)
      | ApplicationSubmitting \<Rightarrow> interrupted h application w
      | _ \<Rightarrow> proceed h task application w)"

section \<open>The task\<close>

record ApplicationSubmitPayload =
  asp_ApplicationID :: ApplicationID
  asp_Key :: ApplicationKey

definition SubmitPayload_Validate :: "ApplicationSubmitPayload \<Rightarrow> error option" where
  "SubmitPayload_Validate payload =
     (if asp_ApplicationID payload = [] then Some (Err ''application submit payload requires application id'')
      else ApplicationKey_Validate (asp_Key payload))"

text \<open>The payload as JSON, by the field tags of its structs.\<close>

definition vacancy_key_fields :: "VacancyKey json_fields" where
  "vacancy_key_fields = [(''platform'', string_field (\<lambda>t k. k\<lparr>vk_Platform := t\<rparr>)),
     (''external_id'', string_field (\<lambda>t k. k\<lparr>vk_ExternalID := t\<rparr>))]"

definition application_key_fields :: "ApplicationKey json_fields" where
  "application_key_fields = [(''profile_id'', string_field (\<lambda>t k. k\<lparr>ak_ProfileID := t\<rparr>)),
     (''vacancy'', struct_field vacancy_key_fields ak_Vacancy (\<lambda>v k. k\<lparr>ak_Vacancy := v\<rparr>))]"

definition submit_payload_fields :: "ApplicationSubmitPayload json_fields" where
  "submit_payload_fields = [(''application_id'', string_field (\<lambda>t p. p\<lparr>asp_ApplicationID := t\<rparr>)),
     (''key'', struct_field application_key_fields asp_Key (\<lambda>k p. p\<lparr>asp_Key := k\<rparr>))]"

definition zero_SubmitPayload :: ApplicationSubmitPayload where
  "zero_SubmitPayload = \<lparr>asp_ApplicationID = [], asp_Key = \<lparr>ak_ProfileID = [],
     ak_Vacancy = \<lparr>vk_Platform = [], vk_ExternalID = []\<rparr>\<rparr>\<rparr>"

definition decode_submit_payload :: "RawMessage \<Rightarrow> ApplicationSubmitPayload option" where
  "decode_submit_payload raw =
     (case json_parse raw of None \<Rightarrow> None | Some v \<Rightarrow> decode_struct submit_payload_fields v zero_SubmitPayload)"

definition submit_payload_json :: "ApplicationSubmitPayload \<Rightarrow> json" where
  "submit_payload_json payload = JObject [(''application_id'', JString (asp_ApplicationID payload)),
     (''key'', JObject [(''profile_id'', JString (ak_ProfileID (asp_Key payload))),
        (''vacancy'', JObject [(''platform'', JString (vk_Platform (ak_Vacancy (asp_Key payload)))),
           (''external_id'', JString (vk_ExternalID (ak_Vacancy (asp_Key payload))))])])]"

definition encode_submit_payload :: "ApplicationSubmitPayload \<Rightarrow> RawMessage" where
  "encode_submit_payload payload = raw_Marshal (submit_payload_json payload)"

definition Handle :: "('x, 'p) Handler \<Rightarrow> Task \<Rightarrow> 'x World \<Rightarrow> error option \<times> 'x World" where
  "Handle h task w =
     (case decode_submit_payload (task_Payload task) of None \<Rightarrow> (Some (Err ''decode application task''), w)
      | Some payload \<Rightarrow>
      case SubmitPayload_Validate payload of Some e \<Rightarrow> (Some e, w) | None \<Rightarrow>
      case GetApplication (ctx_of h w) (asp_Key payload) (hw_apps w) of Inl e \<Rightarrow> (Some e, w) | Inr application \<Rightarrow>
      if app_ID application \<noteq> asp_ApplicationID payload then (Some (Err ''application task identity mismatch''), w)
      else handle_stored h task application w)"

end
