(* ===== verification/Submission_Inv.thy ===== *)
theory Submission_Inv
  imports Submission Budget_Props Application_Props
begin

text \<open>
  The invariant of the submission handler over all its runs: the maps keep their shape, every
  application that may have reached the platform holds a slot of the budget, and every
  submission was made for an application stored as being submitted, with its slots in hand.
\<close>

section \<open>What the parts leave alone\<close>

definition same_core :: "'x World \<Rightarrow> 'x World \<Rightarrow> bool" where
  "same_core w w' \<longleftrightarrow> hw_apps w' = hw_apps w \<and> hw_budgets w' = hw_budgets w \<and> hw_paces w' = hw_paces w
     \<and> hw_calls w' = hw_calls w"

lemma same_core_refl [simp]: "same_core w w"
  by (simp add: same_core_def)

lemma same_core_trans: "same_core a b \<Longrightarrow> same_core b c \<Longrightarrow> same_core a c"
  by (simp add: same_core_def)

lemma on_ext_core [simp]: "same_core w (snd (on_ext f w))"
  by (simp add: on_ext_def same_core_def split: prod.splits)

lemma on_extE: "on_ext f w = (r, w') \<Longrightarrow> same_core w w'"
  using on_ext_core [of w f] by simp

lemma and_then_core:
  "same_core w (snd r) \<Longrightarrow> (\<And>w'. same_core w w' \<Longrightarrow> same_core w (snd (k w'))) \<Longrightarrow> same_core w (snd (and_then r k))"
  by (cases r) (auto simp: and_then_def split: option.splits)

lemma record_activity_core [simp]: "same_core w (snd (record_activity h p pid rid kind src t w))"
  by (simp add: record_activity_def same_core_def split: prod.splits)

lemma recordSubmitted_core [simp]: "same_core w (snd (recordSubmitted h a w))"
  by (simp add: recordSubmitted_def split: option.splits)

lemma restoreTailoring_core [simp]: "same_core w (snd (restoreTailoring h a w))"
  by (simp add: restoreTailoring_def split: option.splits)

lemma enqueueTestCapture_core [simp]: "same_core w (snd (enqueueTestCapture h a src w))"
  by (simp add: enqueueTestCapture_def split: option.splits)

lemma applyTailoring_core [simp]: "same_core w (snd (applyTailoring h a plan w))"
  by (simp add: applyTailoring_def split: option.splits sum.splits)

lemma beginTailoringSubmit_core [simp]: "same_core w (snd (beginTailoringSubmit h a plan w))"
  by (simp add: beginTailoringSubmit_def split: option.splits)

lemma same_core_vacancies [simp]: "same_core w (w'\<lparr>hw_vacancies := vs\<rparr>) = same_core w w'"
  by (simp add: same_core_def)

lemma record_activityE: "record_activity h p pid rid kind src t w = (r, w') \<Longrightarrow> same_core w w'"
  by (metis record_activity_core snd_conv)

lemma loadFullVacancy_core [simp]: "same_core w (snd (loadFullVacancy h a w))"
proof (cases "ResolveVacancyReader (ah_registry h) (app_profile a)")
  case (Inr reader)
  obtain r1 w1 where 1: "on_ext (reader (app_profile a) (ak_Vacancy (app_Key a))) w = (r1, w1)"
    by (cases "on_ext (reader (app_profile a) (ak_Vacancy (app_Key a))) w")
  note c1 = on_extE [OF 1]
  have c2: "same_core w w2" if "record_activity h p pid rid kind src t (w1\<lparr>hw_vacancies := vs\<rparr>) = (r, w2)"
    for p pid rid kind src t vs r w2
    using record_activityE [OF that] c1 by (auto intro: same_core_trans simp: same_core_def)
  show ?thesis
    using c1 c2 by (simp add: loadFullVacancy_def Inr 1 split: sum.splits option.splits prod.splits)
qed (simp add: loadFullVacancy_def)

lemma testContinues_core [simp]: "same_core w (snd (testContinues h a w))"
  by (auto simp: testContinues_def split: option.splits sum.splits prod.splits dest: on_extE)

lemma applicationResumePreflight_core [simp]: "same_core w (snd (applicationResumePreflight h a rid w))"
  by (auto simp: applicationResumePreflight_def split: option.splits sum.splits prod.splits dest: on_extE)

lemma resume_stage_core [simp]: "same_core w (snd (resume_stage h plan a w))"
  by (simp add: resume_stage_def)

lemma decide_core [simp]: "same_core w (snd (decide h plan a v w))"
proof -
  obtain r1 w1 where 1: "testContinues h a w = (r1, w1)" by (cases "testContinues h a w")
  then have c1: "same_core w w1" by (metis testContinues_core snd_conv)
  obtain r2 w2 where 2: "resume_stage h plan a w1 = (r2, w2)" by (cases "resume_stage h plan a w1")
  then have c2: "same_core w w2" using c1 same_core_trans by (metis resume_stage_core snd_conv)
  have c3: "same_core w w3" if "on_ext f w2 = (r, w3)" for f :: "'a \<Rightarrow> (error + ApplicationPreparation) \<times> 'a" and r w3
    using on_extE [OF that] c2 same_core_trans by blast
  show ?thesis
    using c1 c2 c3 by (auto simp: decide_def 1 2 split: sum.splits option.splits prod.splits)
qed

text \<open>Pacing changes only its own map.\<close>

definition same_but_paces :: "'x World \<Rightarrow> 'x World \<Rightarrow> bool" where
  "same_but_paces w w' \<longleftrightarrow> hw_apps w' = hw_apps w \<and> hw_budgets w' = hw_budgets w \<and> hw_calls w' = hw_calls w"

lemma pacing_loop_frame: "same_but_paces w (snd (pacing_loop h a plan deadline n now w))"
proof (induction n arbitrary: now w)
  case (Suc n)
  show ?case
    using Suc
    by (auto simp: Let_def same_but_paces_def same_core_def split: prod.splits sum.splits option.splits dest!: on_extE)
qed (simp add: same_but_paces_def)

lemma acquirePacing_frame: "same_but_paces w (snd (acquirePacing h a plan now w))"
  using pacing_loop_frame [of w h a plan "now + maxPacingWait" maxPacingWaitAttempts now]
  by (auto simp: acquirePacing_def split: prod.splits sum.splits)

section \<open>The invariant\<close>

text \<open>The statuses of an application that may have reached the platform.\<close>

definition live_status :: "ApplicationStatus \<Rightarrow> bool" where
  "live_status s \<longleftrightarrow> s \<in> {ApplicationSubmitting, ApplicationPendingReconcile, ApplicationSubmitted}"

definition holds_slot :: "Application \<Rightarrow> Budgets \<Rightarrow> bool" where
  "holds_slot a budgets \<longleftrightarrow>
     (case map_of budgets (app_ID a) of None \<Rightarrow> False | Some r \<Rightarrow>
        br_State r \<noteq> BudgetReleased \<and> br_ProfileID r = app_profile a \<and> br_Platform r = app_platform a)"

definition holds_pace :: "Application \<Rightarrow> Paces \<Rightarrow> bool" where
  "holds_pace a paces \<longleftrightarrow> (case map_of paces (app_ID a) of None \<Rightarrow> False | Some p \<Rightarrow> pr_AcquiredAt p \<noteq> None)"

definition is_direct :: "call \<Rightarrow> bool" where
  "is_direct c = (case c of DirectCall _ \<Rightarrow> True | BrowserCall _ _ _ \<Rightarrow> False)"

definition direct_calls :: "ApplicationKey \<Rightarrow> call_record list \<Rightarrow> nat" where
  "direct_calls k calls = length (filter (\<lambda>c. call_Key c = k \<and> is_direct (call_What c)) calls)"

definition apps_ok :: "Applications \<Rightarrow> bool" where
  "apps_ok apps \<longleftrightarrow> distinct_keys apps \<and> (\<forall>k a. map_of apps k = Some a \<longrightarrow> app_Key a = k)
     \<and> (\<forall>k k' a a'. map_of apps k = Some a \<longrightarrow> map_of apps k' = Some a' \<longrightarrow> app_ID a = app_ID a' \<longrightarrow> k = k')"

text \<open>Every application that may have reached the platform holds a slot of its own.\<close>

definition slots_ok :: "Applications \<Rightarrow> Budgets \<Rightarrow> bool" where
  "slots_ok apps budgets \<longleftrightarrow> apps_ok apps \<and> budgets_inv budgets
     \<and> (\<forall>k a. map_of apps k = Some a \<longrightarrow> live_status (app_Status a) \<longrightarrow> holds_slot a budgets)"

text \<open>
  At the moment of the call: stored as being submitted, with its slots in hand, among applications
  that hold theirs.
\<close>

definition call_ok :: "call_record \<Rightarrow> bool" where
  "call_ok c \<longleftrightarrow> slots_ok (call_Apps c) (call_Budgets c) \<and>
     (case map_of (call_Apps c) (call_Key c) of None \<Rightarrow> False | Some b \<Rightarrow>
        app_Status b = ApplicationSubmitting \<and> holds_slot b (call_Budgets c) \<and> holds_pace b (call_Paces c))"

definition world_ok :: "'x World \<Rightarrow> bool" where
  "world_ok w \<longleftrightarrow> apps_ok (hw_apps w) \<and> budgets_inv (hw_budgets w)
     \<and> (\<forall>k a. map_of (hw_apps w) k = Some a \<longrightarrow> live_status (app_Status a) \<longrightarrow> holds_slot a (hw_budgets w))
     \<and> (\<forall>k a. map_of (hw_apps w) k = Some a \<longrightarrow> int (direct_calls k (hw_calls w)) \<le> app_Attempts a)
     \<and> (\<forall>c \<in> set (hw_calls w). map_of (hw_apps w) (call_Key c) \<noteq> None \<and> call_ok c)"

lemma world_okD:
  assumes "world_ok w"
  shows "apps_ok (hw_apps w)" "budgets_inv (hw_budgets w)"
    "map_of (hw_apps w) k = Some a \<Longrightarrow> live_status (app_Status a) \<Longrightarrow> holds_slot a (hw_budgets w)"
    "map_of (hw_apps w) k = Some a \<Longrightarrow> int (direct_calls k (hw_calls w)) \<le> app_Attempts a"
    "c \<in> set (hw_calls w) \<Longrightarrow> map_of (hw_apps w) (call_Key c) \<noteq> None \<and> call_ok c"
    "map_of (hw_apps w) k = Some a \<Longrightarrow> app_Key a = k"
    "map_of (hw_apps w) k = Some a \<Longrightarrow> map_of (hw_apps w) k' = Some a' \<Longrightarrow> app_ID a = app_ID a' \<Longrightarrow> k = k'"
  using assms unfolding world_ok_def apps_ok_def by blast+

lemma world_ok_core: "same_core w w' \<Longrightarrow> world_ok w \<Longrightarrow> world_ok w'"
  by (simp add: same_core_def world_ok_def)

lemma world_ok_but_paces: "same_but_paces w w' \<Longrightarrow> world_ok w \<Longrightarrow> world_ok w'"
  by (simp add: same_but_paces_def world_ok_def)

text \<open>What an application must meet to be stored.\<close>

definition fits :: "Application \<Rightarrow> 'x World \<Rightarrow> bool" where
  "fits a w \<longleftrightarrow> int (direct_calls (app_Key a) (hw_calls w)) \<le> app_Attempts a
     \<and> (live_status (app_Status a) \<longrightarrow> holds_slot a (hw_budgets w))"

definition stored :: "Application \<Rightarrow> 'x World \<Rightarrow> Application option" where
  "stored a w = map_of (hw_apps w) (app_Key a)"

lemma fits_core: "same_core w w' \<Longrightarrow> fits a w \<Longrightarrow> fits a w'"
  by (simp add: same_core_def fits_def)

lemma stored_core: "same_core w w' \<Longrightarrow> stored a w' = stored a w"
  by (simp add: same_core_def stored_def)

lemma save_cases:
  obtains (failed) e where "save h a expected w = (Some e, w)"
  | (saved) b where "save h a expected w = (None, w\<lparr>hw_apps := AList.update (app_Key a) a (hw_apps w)\<rparr>)"
      "stored a w = Some b" "app_ID b = app_ID a" "app_Status b = expected"
proof (cases "save h a expected w")
  case (Pair e w')
  then have *: "SaveApplication (ctx_of h w) a expected (hw_apps w) = (e, hw_apps w')"
    and w': "w' = w\<lparr>hw_apps := hw_apps w'\<rparr>"
    by (auto simp: save_def split: prod.splits)
  show ?thesis
  proof (cases e)
    case None
    with * obtain b where b: "stored a w = Some b" "app_ID b = app_ID a" "app_Status b = expected"
      "hw_apps w' = AList.update (app_Key a) a (hw_apps w)"
      by (auto simp: SaveApplication_def stored_def split: option.splits if_splits)
    show ?thesis using saved [OF _ b(1-3)] Pair None w' b(4) by metis
  next
    case (Some x)
    with * have "hw_apps w' = hw_apps w"
      by (auto simp: SaveApplication_def split: option.splits if_splits)
    then show ?thesis using failed [of x] Pair Some w' by simp
  qed
qed

lemma world_ok_put:
  assumes "world_ok w" and "fits a w" and "stored a w = Some b" and "app_ID b = app_ID a"
  shows "world_ok (w\<lparr>hw_apps := AList.update (app_Key a) a (hw_apps w)\<rparr>)"
proof -
  note ok = world_okD [OF assms(1)]
  have b: "map_of (hw_apps w) (app_Key a) = Some b" using assms(3) by (simp add: stored_def)
  have "apps_ok (AList.update (app_Key a) a (hw_apps w))"
    using ok(1) b assms(4) unfolding apps_ok_def
    by (auto split: if_splits)
  then show ?thesis
    using ok assms(2) unfolding world_ok_def fits_def by auto
qed

lemma save_ok: "world_ok w \<Longrightarrow> fits a w \<Longrightarrow> world_ok (snd (save h a expected w))"
  by (rule save_cases [of h a expected w]) (auto intro: world_ok_put)

lemma save_stored: "save h a expected w = (None, w') \<Longrightarrow> stored a w' = Some a"
  by (rule save_cases [of h a expected w]) (auto simp: stored_def)

lemma save_others: "save h a expected w = (r, w') \<Longrightarrow>
    hw_budgets w' = hw_budgets w \<and> hw_calls w' = hw_calls w \<and> hw_paces w' = hw_paces w"
  by (rule save_cases [of h a expected w]) auto

lemma save_other: "save h a expected w = (r, w') \<Longrightarrow> k \<noteq> app_Key a \<Longrightarrow> map_of (hw_apps w') k = map_of (hw_apps w) k"
  by (rule save_cases [of h a expected w]) auto

section \<open>The budget's operations\<close>

text \<open>An application's slot may be given back when the application is not live.\<close>

definition idle :: "Application \<Rightarrow> 'x World \<Rightarrow> bool" where
  "idle a w \<longleftrightarrow> (case stored a w of None \<Rightarrow> False | Some b \<Rightarrow> app_ID b = app_ID a \<and> \<not> live_status (app_Status b))"

lemma idle_core: "same_core w w' \<Longrightarrow> idle a w' = idle a w"
  by (simp add: idle_def stored_core)

lemma finish_other: "i \<noteq> j \<Longrightarrow> map_of (snd (finishApplicationBudget ctx i target now m)) j = map_of m j"
  by (auto simp: finishApplicationBudget_def split: option.splits)

lemma commit_own:
  "holds_slot a m \<Longrightarrow> holds_slot a (snd (CommitApplicationBudget ctx i now m))"
  by (auto simp: holds_slot_def CommitApplicationBudget_def finishApplicationBudget_def split: option.splits if_splits)

lemma world_ok_budgets:
  assumes "world_ok w" and "budgets_inv m"
    and "\<And>k a. map_of (hw_apps w) k = Some a \<Longrightarrow> live_status (app_Status a) \<Longrightarrow> holds_slot a (hw_budgets w)
           \<Longrightarrow> holds_slot a m"
  shows "world_ok (w\<lparr>hw_budgets := m\<rparr>)"
  using assms unfolding world_ok_def by auto

lemma commitBudget_ok: "world_ok w \<Longrightarrow> world_ok (snd (commitBudget h a now w))"
  unfolding commitBudget_def
  by (auto intro!: world_ok_budgets commit_own finish_budget_inv
      simp: CommitApplicationBudget_def world_okD(2) split: prod.splits)
    (metis CommitApplicationBudget_def commit_own finish_budget_inv snd_conv world_okD(2))+

lemma holds_slot_other:
  assumes "\<And>j. j \<noteq> i \<Longrightarrow> map_of m' j = map_of m j" and "app_ID a \<noteq> i"
  shows "holds_slot a m' = holds_slot a m"
  using assms by (simp add: holds_slot_def)

lemma idle_other:
  assumes "world_ok w" and "idle a w" and "map_of (hw_apps w) k = Some b" and "live_status (app_Status b)"
  shows "app_ID b \<noteq> app_ID a"
proof
  assume eq: "app_ID b = app_ID a"
  from assms(2) obtain c where c: "map_of (hw_apps w) (app_Key a) = Some c" "app_ID c = app_ID a"
    "\<not> live_status (app_Status c)"
    by (auto simp: idle_def stored_def split: option.splits)
  then have "app_Key a = k" using world_okD(7) [OF assms(1) c(1) assms(3)] eq by simp
  with c assms(3,4) show False by simp
qed

lemma releaseBudget_ok:
  assumes "world_ok w" and "idle a w"
  shows "world_ok (snd (releaseBudget h a now w))"
proof -
  obtain e m where m: "ReleaseApplicationBudget (ctx_of h w) (app_ID a) now (hw_budgets w) = (e, m)"
    by (cases "ReleaseApplicationBudget (ctx_of h w) (app_ID a) now (hw_budgets w)")
  have inv: "budgets_inv m"
    using finish_budget_inv [OF world_okD(2) [OF assms(1)]] m unfolding ReleaseApplicationBudget_def by (metis snd_conv)
  have other: "map_of m j = map_of (hw_budgets w) j" if "j \<noteq> app_ID a" for j
    using finish_other m that unfolding ReleaseApplicationBudget_def by (metis snd_conv)
  have "world_ok (w\<lparr>hw_budgets := m\<rparr>)"
    using holds_slot_other [OF other] idle_other [OF assms] by (intro world_ok_budgets [OF assms(1) inv]) blast
  then show ?thesis by (simp add: releaseBudget_def m)
qed

lemma releaseBudget_frame: "releaseBudget h a now w = (r, w') \<Longrightarrow>
    hw_apps w' = hw_apps w \<and> hw_calls w' = hw_calls w \<and> hw_paces w' = hw_paces w"
  by (auto simp: releaseBudget_def split: prod.splits)


section \<open>A handler at work on one application\<close>

text \<open>Only the entry of one key changed, and the new submissions were made for it.\<close>

definition only_key :: "ApplicationKey \<Rightarrow> 'x World \<Rightarrow> 'x World \<Rightarrow> bool" where
  "only_key k w w' \<longleftrightarrow> (\<forall>k'. k' \<noteq> k \<longrightarrow> map_of (hw_apps w') k' = map_of (hw_apps w) k')
     \<and> (\<exists>calls. hw_calls w' = hw_calls w @ calls \<and> (\<forall>c \<in> set calls. call_Key c = k))"

text \<open>
  Started in the world \<open>w0\<close>, the handler holds \<open>a\<close> while the repository has it stored
  with status \<open>s\<close>; and what is true when it returns.
\<close>

definition at :: "'x World \<Rightarrow> ApplicationStatus \<Rightarrow> Application \<Rightarrow> 'x World \<Rightarrow> bool" where
  "at w0 s a w \<longleftrightarrow> world_ok w \<and> only_key (app_Key a) w0 w
     \<and> (\<exists>b. stored a w = Some b \<and> app_ID b = app_ID a \<and> app_Status b = s)
     \<and> int (direct_calls (app_Key a) (hw_calls w)) \<le> app_Attempts a"

definition good :: "'x World \<Rightarrow> ApplicationKey \<Rightarrow> error option \<times> 'x World \<Rightarrow> bool" where
  "good w0 k r \<longleftrightarrow> world_ok (snd r) \<and> only_key k w0 (snd r)"

lemma only_key_refl [simp]: "only_key k w w"
  by (simp add: only_key_def)

lemma at_good: "at w0 s a w \<Longrightarrow> good w0 (app_Key a) (r, w)"
  by (simp add: at_def good_def)

lemma only_key_core: "same_core w w' \<Longrightarrow> only_key k w0 w \<Longrightarrow> only_key k w0 w'"
  by (simp add: only_key_def same_core_def)

lemma at_core: "same_core w w' \<Longrightarrow> at w0 s a w \<Longrightarrow> at w0 s a w'"
  unfolding at_def using world_ok_core only_key_core stored_core by (metis same_core_def)

lemma at_on_ext: "on_ext f w = (r, w') \<Longrightarrow> at w0 s a w \<Longrightarrow> at w0 s a w'"
  by (rule at_core [OF on_extE])

lemma good_and_then:
  "good w0 k r \<Longrightarrow> (\<And>w'. r = (None, w') \<Longrightarrow> good w0 k (f w')) \<Longrightarrow> good w0 k (and_then r f)"
  by (cases r) (auto simp: and_then_def split: option.splits)

lemma at_same:
  assumes "at w0 s a w" and "app_Key a' = app_Key a" "app_ID a' = app_ID a" "app_Attempts a \<le> app_Attempts a'"
  shows "at w0 s a' w"
  using assms by (auto simp: at_def stored_def)

lemma holds_slot_same: "app_ID b = app_ID a \<Longrightarrow> app_Key b = app_Key a \<Longrightarrow> holds_slot b m = holds_slot a m"
  by (simp add: holds_slot_def app_profile_def app_platform_def cong: option.case_cong)

lemma at_slot:
  assumes "at w0 s a w" and "live_status s"
  shows "holds_slot a (hw_budgets w)"
proof -
  from assms obtain b where b: "map_of (hw_apps w) (app_Key a) = Some b" "app_ID b = app_ID a" "app_Status b = s"
    and ok: "world_ok w" by (auto simp: at_def stored_def)
  show ?thesis
    using world_okD(3) [OF ok b(1)] world_okD(6) [OF ok b(1)] b assms(2) holds_slot_same [OF b(2)] by simp
qed

lemma at_idle: "at w0 s a w \<Longrightarrow> \<not> live_status s \<Longrightarrow> idle a w"
  by (auto simp: at_def idle_def split: option.splits)

lemma at_save:
  assumes "at w0 s a w" and "live_status (app_Status a) \<Longrightarrow> holds_slot a (hw_budgets w)"
    and "save h a expected w = (r, w')"
  shows "good w0 (app_Key a) (r, w')" and "r = None \<Longrightarrow> at w0 (app_Status a) a w'"
proof -
  have ok: "world_ok w'"
    using save_ok [of w a h expected] assms by (simp add: at_def fits_def)
  have "hw_calls w' = hw_calls w" and other: "k' \<noteq> app_Key a \<Longrightarrow> map_of (hw_apps w') k' = map_of (hw_apps w) k'" for k'
    using save_others [OF assms(3)] save_other [OF assms(3)] by auto
  then have "only_key (app_Key a) w0 w'" and "hw_calls w' = hw_calls w"
    using assms(1) by (auto simp: at_def only_key_def)
  with ok show "good w0 (app_Key a) (r, w')" and "r = None \<Longrightarrow> at w0 (app_Status a) a w'"
    using assms(1,3) save_stored [of h a expected w w'] by (auto simp: good_def at_def)
qed

lemma at_commit: "at w0 s a w \<Longrightarrow> commitBudget h a' now w = (r, w') \<Longrightarrow> at w0 s a w'"
  using commitBudget_ok [of w h a' now]
  by (auto simp: at_def stored_def only_key_def commitBudget_def split: prod.splits)

lemma at_release:
  assumes "at w0 s a w" and "\<not> live_status s" and "releaseBudget h a now w = (r, w')"
  shows "at w0 s a w'"
  using releaseBudget_ok [OF _ at_idle [OF assms(1,2)], of h now] releaseBudget_frame [OF assms(3)] assms
  by (simp add: at_def stored_def only_key_def)

lemma at_restore: "at w0 s a w \<Longrightarrow> good w0 (app_Key a) (restoreTailoring h a' w)"
  by (metis at_core at_good restoreTailoring_core prod.collapse)

lemma at_recordSubmitted: "at w0 s a w \<Longrightarrow> recordSubmitted h a' w = (r, w') \<Longrightarrow> at w0 s a w'"
  by (metis at_core recordSubmitted_core snd_conv)

lemma at_settle_submitted:
  assumes "at w0 s a w"
  shows "good w0 (app_Key a) (settle_submitted h a' now w)"
proof -
  obtain r1 w1 where 1: "commitBudget h a' now w = (r1, w1)" by fastforce
  obtain r2 w2 where 2: "recordSubmitted h a' w1 = (r2, w2)" by fastforce
  have "at w0 s a w1" and "at w0 s a w2"
    using at_commit [OF assms 1] at_recordSubmitted [OF _ 2] by auto
  then show ?thesis
    using at_good at_restore by (auto simp: settle_submitted_def and_then_def 1 2 split: option.splits)
qed

lemma at_settle_released:
  assumes "at w0 s a w" and "\<not> live_status s"
  shows "good w0 (app_Key a) (settle_released h a now w)"
proof -
  obtain r1 w1 where 1: "releaseBudget h a now w = (r1, w1)" by fastforce
  show ?thesis
    using at_release [OF assms 1] at_good at_restore
    by (auto simp: settle_released_def and_then_def 1 split: option.splits)
qed

section \<open>Transitions, saves and the outcomes\<close>

lemma at_transition:
  assumes "at w0 s a w" and "Application_Transition to now a = Inr a'"
  shows "at w0 s a' w" and "app_Status a' = to" and "app_Key a' = app_Key a" and "app_ID a' = app_ID a"
    and "app_Attempts a' = app_Attempts a + (if to = ApplicationSubmitting then 1 else 0)"
  using Application_Transition_Inr [OF assms(2)] at_same [OF assms(1), of a'] by auto

lemma good_transition:
  assumes "at w0 s a w"
    and "\<And>a'. at w0 s a' w \<Longrightarrow> app_Status a' = to \<Longrightarrow> good w0 (app_Key a') (k a')"
  shows "good w0 (app_Key a) (with_transition to now a w k)"
proof (cases "Application_Transition to now a")
  case (Inr a')
  then show ?thesis
    using assms(2) [of a'] at_transition [OF assms(1) Inr] by (simp add: with_transition_def)
qed (simp add: with_transition_def at_good [OF assms(1)])

lemma good_save_then:
  assumes "at w0 s a w" and "live_status (app_Status a) \<Longrightarrow> holds_slot a (hw_budgets w)"
    and "\<And>w'. at w0 (app_Status a) a w' \<Longrightarrow> good w0 (app_Key a) (k w')"
  shows "good w0 (app_Key a) (and_then (save h a expected w) k)"
proof -
  obtain r w' where r: "save h a expected w = (r, w')" by fastforce
  show ?thesis
    using at_save [OF assms(1,2) r] assms(3) by (auto simp: and_then_def r split: option.splits)
qed

lemma good_save:
  assumes "at w0 s a w" and "live_status (app_Status a) \<Longrightarrow> holds_slot a (hw_budgets w)"
  shows "good w0 (app_Key a) (save h a expected w)"
  using at_save(1) [OF assms] by (metis prod.collapse)

lemma not_live [simp]:
  "\<not> live_status ApplicationSkipped" "\<not> live_status ApplicationReady" "\<not> live_status ApplicationFailed"
  "\<not> live_status ApplicationWaitingValidation" "\<not> live_status ApplicationWaitingApproval"
  "\<not> live_status ApplicationDryRun" "\<not> live_status ApplicationNew" "\<not> live_status ApplicationPreparing"
  "\<not> live_status (ApplicationStatusOther t)"
  "live_status ApplicationSubmitting" "live_status ApplicationSubmitted" "live_status ApplicationPendingReconcile"
  by (simp_all add: live_status_def)

lemma good_skip:
  assumes "at w0 s a w" and "\<not> live_status to"
  shows "good w0 (app_Key a) (skip_and_settle h a to expected now w)"
  unfolding skip_and_settle_def
  using assms by (auto intro!: good_transition good_save_then at_settle_released)

lemma at_changed:
  "at w0 s a w \<Longrightarrow> at w0 s (with_decision code reason a) w"
  "at w0 s a w \<Longrightarrow> at w0 s (browser_parked a outcome) w"
  "at w0 s a w \<Longrightarrow> at w0 s (a\<lparr>app_DecisionCode := code\<rparr>) w"
  "at w0 s a w \<Longrightarrow> at w0 s (a\<lparr>app_FailureCategory := c, app_FailureMessage := m\<rparr>) w"
  "at w0 s a w \<Longrightarrow> at w0 s (a\<lparr>app_ExternalNegotiationID := n\<rparr>) w"
  "at w0 s a w \<Longrightarrow> at w0 s (a\<lparr>app_ExternalNegotiationID := n, app_FailureCategory := c, app_FailureMessage := m\<rparr>) w"
  by (auto elim!: at_same simp: with_decision_def browser_parked_def)

lemma changed_Key [simp]:
  "app_Key (with_decision code reason a) = app_Key a" "app_Key (browser_parked a outcome) = app_Key a"
  by (auto simp: with_decision_def browser_parked_def)

lemma good_skip_changed:
  assumes "at w0 s a w" and "\<not> live_status to"
  shows "good w0 (app_Key a) (skip_and_settle h (with_decision code reason a) to expected now w)"
    and "good w0 (app_Key a) (skip_and_settle h (browser_parked a outcome) to expected now w)"
  using good_skip [OF at_changed(1) [OF assms(1)] assms(2)] good_skip [OF at_changed(2) [OF assms(1)] assms(2)] by simp_all

lemma good_then_fail: "good w0 k r \<Longrightarrow> good w0 k (then_fail oe r)"
  unfolding then_fail_def by (rule good_and_then) (auto simp: good_def)

lemma good_fail:
  assumes "at w0 s a w"
    and "\<And>a'. at w0 s a' w \<Longrightarrow> app_Status a' = ApplicationFailed \<Longrightarrow> good w0 (app_Key a') (k a')"
  shows "good w0 (app_Key a) (case Application_Fail oe now a of Inl e \<Rightarrow> (Some e, w) | Inr a \<Rightarrow> k a)"
proof (cases "Application_Fail oe now a")
  case (Inr a')
  then obtain b o' where b: "Application_Transition ApplicationFailed now a = Inr b"
    and a': "a' = b\<lparr>app_FailureCategory := oe_Category o', app_FailureMessage := oe_Message o'\<rparr>"
    by (auto simp: Application_Fail_def split: option.splits sum.splits)
  note t = at_transition [OF assms(1) b]
  show ?thesis
    using assms(2) [of a'] at_changed(4) [OF t(1)] t a' Inr by simp
qed (simp add: at_good [OF assms(1)])

text \<open>The submission is remembered: the application is stored as being submitted, with its slots.\<close>

lemma at_remember:
  assumes "at w0 ApplicationSubmitting a w" and "holds_pace a (hw_paces w)"
    and "is_direct what \<Longrightarrow> int (direct_calls (app_Key a) (hw_calls w)) + 1 \<le> app_Attempts a"
    and "is_direct what \<Longrightarrow> stored a w = Some a"
  shows "at w0 ApplicationSubmitting a (remember what (app_Key a) w)"
proof -
  from assms(1) obtain b where b: "map_of (hw_apps w) (app_Key a) = Some b" "app_ID b = app_ID a"
    "app_Status b = ApplicationSubmitting" and ok: "world_ok w" by (auto simp: at_def stored_def)
  note W = world_okD [OF ok]
  have bk: "app_Key b = app_Key a" using W(6) b by blast
  have slot: "holds_slot b (hw_budgets w)" using W(3) b by auto
  have pace: "holds_pace b (hw_paces w)" using assms(2) b by (simp add: holds_pace_def)
  have "slots_ok (hw_apps w) (hw_budgets w)" using W(1-3) unfolding slots_ok_def by blast
  then have "world_ok (remember what (app_Key a) w)"
    using W slot pace b assms(3,4) unfolding world_ok_def
    by (auto simp: remember_def call_ok_def direct_calls_def stored_def)
  then show ?thesis
    using assms(1,3) by (auto simp: at_def stored_def only_key_def remember_def direct_calls_def)
qed

section \<open>The outcomes of a submission\<close>

lemma core_paces: "same_core w w' \<Longrightarrow> hw_paces w' = hw_paces w"
  by (simp add: same_core_def)

lemma remember_paces [simp]: "hw_paces (remember what k w) = hw_paces w"
  by (simp add: remember_def)

lemma at_browserFallback:
  assumes "at w0 ApplicationSubmitting a w" and "holds_pace a (hw_paces w)" and "browserFallback h a w = (r, w')"
  shows "case r of None \<Rightarrow> at w0 ApplicationSubmitting a w' | Some e \<Rightarrow> good w0 (app_Key a) (e, w')"
proof (cases "ResolveBrowserSubmitter (ah_registry h) (app_profile a)")
  case (Some submitter)
  define vacancyID where "vacancyID = vk_ExternalID (ak_Vacancy (app_Key a))"
  define w1 where "w1 = remember (BrowserCall (app_profile a) vacancyID (app_PreparedMessage a)) (app_Key a) w"
  have 1: "at w0 ApplicationSubmitting a w1"
    unfolding w1_def by (rule at_remember [OF assms(1,2)]) (simp_all add: is_direct_def)
  obtain r2 w2 where r2: "on_ext (submitter (app_profile a) vacancyID (app_PreparedMessage a)) w1 = (r2, w2)" by fastforce
  note 2 = at_on_ext [OF r2 1]
  obtain now w3 where r3: "on_ext (ah_Now h) w2 = (now, w3)" by fastforce
  note 3 = at_on_ext [OF r3 2]
  have sub: "good w0 (app_Key a) (with_transition ApplicationSubmitted now a w3 (\<lambda>a.
      and_then (save h a ApplicationSubmitting w3) (settle_submitted h a now)))"
    by (intro good_transition [OF 3] good_save_then at_settle_submitted) (auto intro: at_slot)
  have skip: "good w0 (app_Key a) (x, w')"
    if "skip_and_settle h (browser_parked a o') ApplicationWaitingValidation ApplicationSubmitting now w3 = (x, w')" for o' x
    using good_skip_changed(2) [OF 3, of ApplicationWaitingValidation] that by (metis not_live(4))
  show ?thesis
    using assms(3) 2 sub
    by (auto intro: skip simp: browserFallback_def Some Let_def r2 r3
        simp flip: vacancyID_def w1_def split: sum.splits prod.splits if_splits)
qed (use assms in \<open>auto simp: browserFallback_def\<close>)

lemma good_park:
  assumes "at w0 s a w"
  shows "good w0 (app_Key a) (park_for_validation h plan now oe a w)"
proof -
  have rest: "good w0 (app_Key a') (and_then (releaseBudget h a' now w') (\<lambda>w. and_then
      (if code = ''questionnaire_required'' then enqueueTestCapture h a' ''application-submit'' w else (None, w))
      (restoreTailoring h a')))"
    if "at w0 (app_Status a') a' w'" and "app_Status a' = ApplicationWaitingValidation" for a' w' code
  proof -
    have that: "at w0 ApplicationWaitingValidation a' w'" using that by simp
    obtain r1 w1 where 1: "releaseBudget h a' now w' = (r1, w1)" by fastforce
    have a1: "at w0 ApplicationWaitingValidation a' w1" using at_release [OF that _ 1] by simp
    have a2: "at w0 ApplicationWaitingValidation a' (snd (enqueueTestCapture h a' src w1))" for src
      using at_core [OF enqueueTestCapture_core a1] .
    show ?thesis
      using a1 a2 [of "''application-submit''"] at_good at_restore
      by (cases "enqueueTestCapture h a' ''application-submit'' w1")
        (auto simp: and_then_def 1 split: option.splits)
  qed
  have "good w0 (app_Key (a\<lparr>app_DecisionCode := code\<rparr>)) (with_transition ApplicationWaitingValidation now (a\<lparr>app_DecisionCode := code\<rparr>) w (\<lambda>a.
      and_then (save h a ApplicationSubmitting w) (\<lambda>w. and_then (releaseBudget h a now w) (\<lambda>w. and_then
      (if code = ''questionnaire_required'' then enqueueTestCapture h a ''application-submit'' w else (None, w))
      (restoreTailoring h a)))))" for code
    by (intro good_transition [OF at_changed(3) [OF assms]] good_save_then) (erule rest | simp)+
  then show ?thesis
    using good_skip_changed(1) [OF assms not_live(1), where h = h] by (simp add: park_for_validation_def Let_def)
qed

lemma good_classify:
  assumes "at w0 ApplicationSubmitting a w" and "holds_pace a (hw_paces w)"
  shows "good w0 (app_Key a) (classify h plan now oe a w)"
proof -
  have ambiguous: "good w0 (app_Key a) (with_transition ApplicationPendingReconcile now a w (\<lambda>a.
      then_fail oe (save h a ApplicationSubmitting w)))"
    by (intro good_transition [OF assms(1)] good_then_fail good_save) (auto intro: at_slot)
  have failed: "good w0 (app_Key a) (case Application_Fail (Some oe) now a of Inl e \<Rightarrow> (Some e, w)
      | Inr a \<Rightarrow> then_fail oe (and_then (save h a ApplicationSubmitting w) (settle_released h a now)))"
    by (intro good_fail [OF assms(1)] good_then_fail good_save_then at_settle_released) auto
  have retried: "good w0 (app_Key a) (then_fail oe (skip_and_settle h (if q then a\<lparr>app_FailureCategory := c, app_FailureMessage := m\<rparr> else a)
      ApplicationReady ApplicationSubmitting now w))" for q c m
    using good_then_fail [OF good_skip [OF assms(1) not_live(2), where h = h]]
      good_then_fail [OF good_skip [OF at_changed(4) [OF assms(1)] not_live(2), where h = h]] by simp
  obtain r w' where b: "browserFallback h a w = (r, w')" by fastforce
  have fallback: "good w0 (app_Key a) (case browserFallback h a w of (Some r, w) \<Rightarrow> (r, w)
      | (None, w) \<Rightarrow> park_for_validation h plan now oe a w)"
    using at_browserFallback [OF assms b] good_park [of w0 ApplicationSubmitting a w' h] by (auto simp: b split: option.splits)
  note park = good_park [OF assms(1), where h = h]
  show ?thesis
    unfolding classify_def Let_def
    using ambiguous failed retried [of False] retried [of True] fallback park by (cases "oe_Category oe") simp_all
qed

lemma good_finishFailure:
  assumes "at w0 ApplicationSubmitting a w" and "holds_pace a (hw_paces w)"
  shows "good w0 (app_Key a) (finishFailure h a plan cause w)"
proof -
  obtain now w1 where 1: "on_ext (ah_Now h) w = (now, w1)" by fastforce
  note a1 = at_on_ext [OF 1 assms(1)]
  have p1: "holds_pace a (hw_paces w1)" using assms(2) core_paces [OF on_extE [OF 1]] by simp
  show ?thesis
    using a1 good_classify [OF a1 p1, where h = h] good_skip_changed(1) [OF a1 not_live(1), where h = h] at_good [OF a1]
    by (auto simp: finishFailure_def 1 split: sum.splits)
qed

section \<open>Submitting and reconciling\<close>

lemma good_reconcile:
  assumes "at w0 ApplicationPendingReconcile a w"
  shows "good w0 (app_Key a) (reconcile h a w)"
proof -
  have applied: "good w0 (app_Key (a\<lparr>app_ExternalNegotiationID := n\<rparr>)) (with_transition ApplicationSubmitted now (a\<lparr>app_ExternalNegotiationID := n\<rparr>) w' (\<lambda>a.
      and_then (save h a ApplicationPendingReconcile w') (settle_submitted h a now)))"
    if "at w0 ApplicationPendingReconcile a w'" for now n w'
    by (intro good_transition [OF at_changed(5) [OF that]] good_save_then at_settle_submitted) (auto intro: at_slot)
  have refused: "good w0 (app_Key a) (case Application_Fail oe now a of Inl e \<Rightarrow> (Some e, w')
      | Inr a \<Rightarrow> and_then (save h a ApplicationPendingReconcile w') (settle_released h a now))"
    if "at w0 ApplicationPendingReconcile a w'" for oe now w'
    by (intro good_fail [OF that] good_save_then at_settle_released) auto
  have refused: "good w0 (app_Key a) (and_then (save h a' ApplicationPendingReconcile w') (settle_released h a' now))"
    if "at w0 ApplicationPendingReconcile a w'" and "Application_Fail oe now a = Inr a'" for oe now w' a'
    using refused [OF that(1), of now oe] that(2) by simp
  show ?thesis
    using assms at_good
    by (auto simp: reconcile_def intro!: applied [simplified] intro: refused split: sum.splits option.splits prod.splits dest!: at_on_ext)
qed

lemma good_finish_submit:
  assumes "at w0 ApplicationSubmitting a w" and "holds_pace a (hw_paces w)"
  shows "good w0 (app_Key a) (finish_submit h plan a result w)"
proof -
  obtain now w1 where 1: "on_ext (ah_Now h) w = (now, w1)" by fastforce
  note a1 = at_on_ext [OF 1 assms(1)]
  have settled: "good w0 (app_Key a') (case on_ext (ah_Now h) w' of (now, w) \<Rightarrow> settle_submitted h a' now w)"
    "\<not> live_status s \<Longrightarrow> good w0 (app_Key a') (case on_ext (ah_Now h) w' of (now, w) \<Rightarrow> settle_released h a' now w)"
    if "at w0 s a' w'" for s a' w'
    using that by (auto intro: at_settle_submitted at_settle_released dest: at_on_ext split: prod.splits)
  have skipped: "good w0 (app_Key (with_decision c r a)) (with_transition ApplicationSkipped now (with_decision c r a) w1 (\<lambda>a.
      and_then (save h a ApplicationSubmitting w1) (\<lambda>w. case on_ext (ah_Now h) w of (now, w) \<Rightarrow> settle_released h a now w)))" for c r
    by (intro good_transition [OF at_changed(1) [OF a1]] good_save_then) (auto intro!: settled(2))
  have submitted: "good w0 (app_Key (a\<lparr>app_ExternalNegotiationID := n, app_FailureCategory := c, app_FailureMessage := m\<rparr>))
      (with_transition ApplicationSubmitted now (a\<lparr>app_ExternalNegotiationID := n, app_FailureCategory := c, app_FailureMessage := m\<rparr>) w1
      (\<lambda>a. and_then (save h a ApplicationSubmitting w1) (\<lambda>w. case on_ext (ah_Now h) w of (now, w) \<Rightarrow> settle_submitted h a now w)))" for n c m
    by (intro good_transition [OF at_changed(6) [OF a1]] good_save_then) (auto intro!: settled(1) intro: at_slot)
  show ?thesis
    using good_finishFailure [OF assms, where h = h] skipped submitted by (simp add: finish_submit_def 1)
qed

lemma good_submit:
  assumes "at w0 ApplicationSubmitting a w" and "holds_pace a (hw_paces w)" and "stored a w = Some a"
    and "int (direct_calls (app_Key a) (hw_calls w)) + 1 \<le> app_Attempts a"
  shows "good w0 (app_Key a) (submit h task plan a w)"
proof -
  obtain r1 w1 where 1: "beginTailoringSubmit h a plan w = (r1, w1)" by fastforce
  then have core: "same_core w w1" by (metis beginTailoringSubmit_core snd_conv)
  note a1 = at_core [OF core assms(1)]
  have p1: "holds_pace a (hw_paces w1)" and s1: "stored a w1 = Some a"
    and d1: "int (direct_calls (app_Key a) (hw_calls w1)) + 1 \<le> app_Attempts a"
    using assms core stored_core [OF core] by (simp_all add: same_core_def)
  have called: "good w0 (app_Key a) (case on_ext (tr_Submit tr command) (remember (DirectCall command) (app_Key a) w1) of
      (Inl e, w) \<Rightarrow> finishFailure h a plan e w | (Inr result, w) \<Rightarrow> finish_submit h plan a result w)" for tr command
  proof -
    obtain r2 w2 where 2: "on_ext (tr_Submit tr command) (remember (DirectCall command) (app_Key a) w1) = (r2, w2)" by fastforce
    have a2: "at w0 ApplicationSubmitting a w2"
      by (rule at_on_ext [OF 2 at_remember [OF a1 p1]]) (use d1 s1 in simp_all)
    have p2: "holds_pace a (hw_paces w2)" using p1 core_paces [OF on_extE [OF 2]] by simp
    show ?thesis
      using good_finishFailure [OF a2 p2] good_finish_submit [OF a2 p2] by (auto simp: 2 split: sum.splits)
  qed
  show ?thesis
    using good_finishFailure [OF a1 p1, where h = h] called by (auto simp: submit_def 1 Let_def split: option.splits sum.splits)
qed

section \<open>Taking the slots\<close>

lemma reserve_slot_other: "reserve_slot params m = (r, m') \<Longrightarrow> j \<noteq> rp_ApplicationID params \<Longrightarrow> map_of m' j = map_of m j"
  by (auto simp: reserve_slot_def Let_def split: if_splits)

lemma Reserve_other:
  "ReserveApplicationBudget ctx params m = (r, m') \<Longrightarrow> j \<noteq> rp_ApplicationID params \<Longrightarrow> map_of m' j = map_of m j"
  by (auto simp: ReserveApplicationBudget_def Let_def split: option.splits if_splits dest: reserve_slot_other)

lemma reserve_slot_holds: "reserve_slot params m = (Inr r, m') \<Longrightarrow> map_of m' (rp_ApplicationID params) = Some r
    \<and> br_State r \<noteq> BudgetReleased \<and> br_ProfileID r = rp_ProfileID params \<and> br_Platform r = rp_Platform params"
  by (auto simp: reserve_slot_def Let_def split: if_splits)

lemma Reserve_holds:
  "ReserveApplicationBudget ctx params m = (Inr r, m') \<Longrightarrow> map_of m' (rp_ApplicationID params) = Some r
    \<and> br_State r \<noteq> BudgetReleased \<and> br_ProfileID r = rp_ProfileID params \<and> br_Platform r = rp_Platform params"
  by (auto simp: ReserveApplicationBudget_def Let_def split: option.splits if_splits dest: reserve_slot_holds)

lemma normalizeBudgetError_None [simp]: "normalizeBudgetError op platform e = None \<longleftrightarrow> e = None"
  by (auto simp: normalizeBudgetError_def Let_def split: option.splits)

lemma at_reserve:
  assumes "at w0 s a w" and "\<not> live_status s" and "reserveBudget h a plan now w = (r, w')"
  shows "at w0 s a w'" and "r = None \<Longrightarrow> holds_slot a (hw_budgets w')" and "hw_paces w' = hw_paces w"
proof -
  note idle = at_idle [OF assms(1,2)]
  have ok: "world_ok w" using assms(1) by (simp add: at_def)
  define params where "params ws we = \<lparr>rp_ApplicationID = app_ID a, rp_ProfileID = app_profile a,
    rp_Platform = app_platform a, rp_WindowStart = ws, rp_WindowEnd = we, rp_Limit = plan_DailyLimit plan, rp_Now = now\<rparr>" for ws we
  have reserve: "world_ok (w\<lparr>hw_budgets := m\<rparr>)"
    if "ReserveApplicationBudget (ctx_of h w) (params ws we) (hw_budgets w) = (x, m)" for ws we x m
  proof (rule world_ok_budgets [OF ok])
    show "budgets_inv m" using Reserve_inv [OF world_okD(2) [OF ok]] that by (metis snd_conv)
    show "holds_slot b m"
      if b: "map_of (hw_apps w) k = Some b" "live_status (app_Status b)" "holds_slot b (hw_budgets w)" for k b
      using holds_slot_other [OF Reserve_other [OF \<open>ReserveApplicationBudget _ _ _ = _\<close>]] idle_other [OF ok idle b(1,2)] b(3)
      by (simp add: params_def)
  qed
  have holds: "holds_slot a m" if "ReserveApplicationBudget c (params ws we) (hw_budgets w) = (Inr x, m)" for c ws we x m
    using Reserve_holds [OF that] by (simp add: holds_slot_def params_def)
  show "at w0 s a w'" and "r = None \<Longrightarrow> holds_slot a (hw_budgets w')" and "hw_paces w' = hw_paces w"
    using assms(1,3) reserve holds
    by (auto simp: reserveBudget_def at_def stored_def only_key_def simp flip: params_def
        split: sum.splits prod.splits)
qed

lemma Acquire_holds: "AcquireApplicationPace ctx params m = (Inr (r, True), m') \<Longrightarrow> pp_ApplicationID params = app_ID a
    \<Longrightarrow> holds_pace a m'"
  by (auto simp: AcquireApplicationPace_def Let_def holds_pace_def split: option.splits if_splits)

lemma pacing_loop_holds: "pacing_loop h a plan deadline n now w = (Inl None, w') \<Longrightarrow> holds_pace a (hw_paces w')"
proof (induction n arbitrary: now w)
  case (Suc n)
  then show ?case
    by (auto simp: Let_def split: prod.splits sum.splits option.splits if_splits dest!: Acquire_holds [where a = a])
qed simp

lemma at_acquire:
  assumes "at w0 s a w" and "acquirePacing h a plan now w = (r, w')"
  shows "at w0 s a w'" and "hw_budgets w' = hw_budgets w" and "r = None \<Longrightarrow> holds_pace a (hw_paces w')"
proof -
  have same: "same_but_paces w w'" using acquirePacing_frame [of w h a plan now] assms(2) by simp
  show "at w0 s a w'" and "hw_budgets w' = hw_budgets w"
    using assms(1) same world_ok_but_paces [OF same] by (auto simp: at_def stored_def only_key_def same_but_paces_def)
  show "r = None \<Longrightarrow> holds_pace a (hw_paces w')"
    using assms(2) by (auto simp: acquirePacing_def split: prod.splits sum.splits dest: pacing_loop_holds)
qed

section \<open>The handler\<close>

lemma good_give_back:
  assumes "at w0 s a w" and "\<not> live_status (app_Status a)"
  shows "good w0 (app_Key a) (give_back h a expected now e w)"
proof -
  have "good w0 (app_Key a) (and_then (releaseBudget h a now w') (\<lambda>w. (Some e, w)))"
    if "at w0 (app_Status a) a w'" for w'
  proof -
    obtain r1 w1 where 1: "releaseBudget h a now w' = (r1, w1)" by fastforce
    show ?thesis
      using at_good [OF at_release [OF that assms(2) 1]] by (auto simp: and_then_def 1 split: option.splits)
  qed
  then show ?thesis
    unfolding give_back_def using assms by (intro good_save_then [OF assms(1)]) auto
qed

lemma good_enter:
  assumes "at w0 s a w" and "holds_slot a (hw_budgets w)" and "holds_pace a (hw_paces w)"
  shows "good w0 (app_Key a) (with_transition ApplicationSubmitting now a w (\<lambda>a.
    and_then (save h a expected w) (submit h task plan a)))"
proof (cases "Application_Transition ApplicationSubmitting now a")
  case (Inr a')
  note t = at_transition [OF assms(1) Inr]
  have slot: "holds_slot a' (hw_budgets w)" and pace: "holds_pace a' (hw_paces w)"
    using assms(2,3) t holds_slot_same [of a' a] by (simp_all add: holds_pace_def)
  obtain r w' where r: "save h a' expected w = (r, w')" by fastforce
  note saved = at_save [OF t(1) slot r]
  show ?thesis
  proof (cases r)
    case None
    have "int (direct_calls (app_Key a') (hw_calls w')) + 1 \<le> app_Attempts a'"
      using assms(1) t(3,5) save_others [OF r] by (simp add: at_def)
    moreover have "at w0 ApplicationSubmitting a' w'" using saved(2) None t(2) by simp
    moreover have "holds_pace a' (hw_paces w')" using pace save_others [OF r] by simp
    ultimately show ?thesis
      using good_submit [of w0 a' w' h task plan] save_stored [of h a' expected w w'] r None t(3)
      by (simp add: with_transition_def Inr and_then_def)
  qed (use saved(1) t(3) in \<open>simp add: with_transition_def Inr and_then_def r\<close>)
qed (simp add: with_transition_def at_good [OF assms(1)])

lemma good_go_live:
  assumes "at w0 s a w" and "\<not> live_status s" and "\<not> live_status (app_Status a)"
  shows "good w0 (app_Key a) (go_live h task plan expected now a w)"
proof -
  obtain r1 w1 where 1: "reserveBudget h a plan now w = (r1, w1)" by fastforce
  note a1 = at_reserve [OF assms(1,2) 1]
  have quota: "good w0 (app_Key a) (and_then (save h a expected w1) (\<lambda>w. (Some e, w)))" for e
    using assms(3) at_good by (intro good_save_then [OF a1(1)]) auto
  obtain r2 w2 where 2: "acquirePacing h a plan now w1 = (r2, w2)" by fastforce
  note a2 = at_acquire [OF a1(1) 2]
  obtain r3 w3 where 3: "applyTailoring h a plan w2 = (r3, w3)" by fastforce
  then have core: "same_core w2 w3" by (metis applyTailoring_core snd_conv)
  note a3 = at_core [OF core a2(1)]
  have enter: "good w0 (app_Key a) (with_transition ApplicationSubmitting now a w3 (\<lambda>a.
      and_then (save h a expected w3) (submit h task plan a)))" if "r1 = None" "r2 = None"
    using that a1(2) a2(2,3) core by (intro good_enter [OF a3]) (simp_all add: same_core_def)
  show ?thesis
    using quota good_give_back [OF a2(1) assms(3)] good_give_back [OF a3 assms(3)] enter
    by (auto simp: go_live_def 1 2 3 split: option.splits)
qed

lemma good_execute:
  assumes "at w0 s a w" and "\<not> live_status s" and "\<not> live_status (app_Status a)"
  shows "good w0 (app_Key a) (execute_plan h task plan expected now a w)"
proof -
  have stop: "good w0 (app_Key a) (with_transition to now a w (\<lambda>a. save h a expected w))"
    if "\<not> live_status to" for to
    using that by (intro good_transition [OF assms(1)] good_save) auto
  have ready: "good w0 (app_Key a) (with_transition ApplicationReady now a w (\<lambda>a. go_live h task plan expected now a w))"
    by (intro good_transition [OF assms(1)] good_go_live) (use assms(2) in auto)
  show ?thesis
    using stop ready good_go_live [OF assms, where h = h] by (simp add: execute_plan_def)
qed

lemma good_vacancy_failed:
  assumes "at w0 s a w"
  shows "good w0 (app_Key a) (vacancy_failed h expected now a err w)"
proof -
  have failed: "good w0 (app_Key a) (case Application_Fail (Some oe) now a of Inl e \<Rightarrow> (Some e, w)
      | Inr a \<Rightarrow> and_then (save h a expected w) (\<lambda>w. (Some err, w)))" for oe
    by (intro good_fail [OF assms] good_save_then) (auto intro: at_good)
  show ?thesis
    using failed at_good [OF assms] good_skip_changed(1) [OF assms not_live(1), where h = h]
    by (auto simp: vacancy_failed_def split: option.splits)
qed

lemma RecordPreparation_same:
  assumes "RecordPreparationWithProvenance code reason rid m pv now a = Inr a'"
  shows "app_Key a' = app_Key a" "app_ID a' = app_ID a" "app_Attempts a' = app_Attempts a" "app_Status a' = app_Status a"
  using assms by (auto simp: RecordPreparationWithProvenance_def Let_def split: if_splits option.splits)

lemma good_settle_preparation:
  assumes "at w0 s a w" and "settle_preparation h plan expected now a p w = (r, w')"
  shows "case r of Inl e \<Rightarrow> good w0 (app_Key a) (e, w') | Inr a' \<Rightarrow> a' = a \<and> w' = w"
proof -
  have skip: "good w0 (app_Key a) (with_transition ApplicationSkipped now a w (\<lambda>a. save h a expected w))"
    by (intro good_transition [OF assms(1)] good_save) auto
  have capture: "good w0 (app_Key a') (enqueueTestCapture h a' src w1)"
    if "at w0 ApplicationWaitingValidation a' w1" for a' src w1
    using at_core [OF enqueueTestCapture_core that] at_good by (metis prod.collapse)
  have review: "good w0 (app_Key a) (with_transition ApplicationWaitingValidation now a w (\<lambda>a.
      and_then (save h a expected w) (\<lambda>w. if c then enqueueTestCapture h a src w else (None, w))))" for c src
    by (intro good_transition [OF assms(1)] good_save_then) (auto intro: capture at_good)
  show ?thesis
    using assms(2) skip review [of "prep_Code p \<in> {''vacancy_test_required'', ''questionnaire_required''}" "''application-review''"]
    unfolding settle_preparation_def by (auto split: if_splits prod.splits)
qed

lemma good_prepare:
  assumes "at w0 s a w" and "prepare h plan expected now a w = (r, w')"
  shows "case r of Inl e \<Rightarrow> good w0 (app_Key a) (e, w')
    | Inr a' \<Rightarrow> at w0 s a' w' \<and> app_Key a' = app_Key a \<and> app_Status a' = app_Status a"
proof -
  obtain r1 w1 where 1: "loadFullVacancy h a w = (r1, w1)" by fastforce
  then have a1: "at w0 s a w1" using at_core [OF loadFullVacancy_core assms(1)] by (metis snd_conv)
  show ?thesis
  proof (cases r1)
    case (Inl e)
    then show ?thesis
      using assms(2) good_vacancy_failed [OF a1, of h expected now e] by (auto simp: prepare_def 1 split: prod.splits)
  next
    case (Inr vacancy)
    obtain r2 w2 where 2: "decide h plan a vacancy w1 = (r2, w2)" by fastforce
    then have a2: "at w0 s a w2" using at_core [OF decide_core a1] by (metis snd_conv)
    have settle: "case r of Inl e \<Rightarrow> good w0 (app_Key a) (e, w')
        | Inr a' \<Rightarrow> at w0 s a' w' \<and> app_Key a' = app_Key a \<and> app_Status a' = app_Status a"
      if "RecordPreparationWithProvenance c rs rid m pv now a = Inr b" and "settle_preparation h plan expected now b p w2 = (r, w')"
      for c rs rid m pv b p
    proof -
      note same = RecordPreparation_same [OF that(1)]
      have b: "at w0 s b w2" using at_same [OF a2] same by simp
      show ?thesis using good_settle_preparation [OF b that(2)] b same by (auto split: sum.splits)
    qed
    show ?thesis
    proof (cases r)
      case (Inl e)
      then show ?thesis
        using assms(2) settle at_good [OF a2] Inr
        by (auto simp: prepare_def 1 2 split: sum.splits prod.splits option.splits)
    next
      case (Inr a')
      then show ?thesis
        using assms(2) settle \<open>r1 = Inr vacancy\<close>
        by (auto simp: prepare_def 1 2 split: sum.splits prod.splits option.splits)
    qed
  qed
qed

lemma good_proceed_with:
  assumes "at w0 s a w" and "\<not> live_status s" and "\<not> live_status (app_Status a)"
  shows "good w0 (app_Key a) (proceed_with h task expected now a w)"
proof -
  obtain r1 w1 where 1: "on_ext (ah_plans h a) w = (r1, w1)" by fastforce
  note a1 = at_on_ext [OF 1 assms(1)]
  have wait: "good w0 (app_Key a) (with_transition ApplicationWaitingValidation now a w1 (\<lambda>a. save h a expected w1))"
    by (intro good_transition [OF a1] good_save) auto
  show ?thesis
  proof (cases r1)
    case (Inr plan)
    obtain r2 w2 where 2: "prepare h plan expected now a w1 = (r2, w2)" by fastforce
    show ?thesis
      using good_prepare [OF a1 2] good_execute [OF a1 assms(2,3), of h task plan expected now] assms(2,3)
        good_execute [of w0 s _ w2 h task plan expected now]
      by (cases r2) (fastforce simp: proceed_with_def 1 2 Inr)+
  qed (use wait at_good [OF a1] in \<open>auto simp: proceed_with_def 1\<close>)
qed

lemma good_proceed:
  assumes "at w0 (app_Status a) a w" and "\<not> live_status (app_Status a)"
  shows "good w0 (app_Key a) (proceed h task a w)"
proof -
  obtain now w1 where 1: "on_ext (ah_Now h) w = (now, w1)" by fastforce
  note a1 = at_on_ext [OF 1 assms(1)]
  have prepare: "good w0 (app_Key a) (with_transition ApplicationPreparing now a w1 (\<lambda>a'. proceed_with h task (app_Status a) now a' w1))"
    by (intro good_transition [OF a1] good_proceed_with) (use assms(2) in auto)
  show ?thesis
    using prepare good_proceed_with [OF a1 assms(2,2), of h task "app_Status a" now] by (simp add: proceed_def 1)
qed

lemma good_interrupted:
  assumes "at w0 ApplicationSubmitting a w"
  shows "good w0 (app_Key a) (interrupted h a w)"
proof -
  obtain now w1 where 1: "on_ext (ah_Now h) w = (now, w1)" by fastforce
  show ?thesis
    unfolding interrupted_def 1 prod.case
    by (intro good_transition [OF at_on_ext [OF 1 assms]] good_save_then) (auto intro: at_slot at_good)
qed

lemma good_handle_stored:
  assumes "at w0 (app_Status a) a w"
  shows "good w0 (app_Key a) (handle_stored h task a w)"
proof -
  obtain now w1 where 1: "on_ext (ah_Now h) w = (now, w1)" by fastforce
  note a1 = at_on_ext [OF 1 assms]
  have waiting: "good w0 (app_Key a) (and_then (releaseBudget h a now w1) (\<lambda>w.
      if app_PreparedAt a \<noteq> None then restoreTailoring h a w else proceed h task a w))"
    if "app_Status a = ApplicationWaitingValidation"
  proof -
    obtain r2 w2 where 2: "releaseBudget h a now w1 = (r2, w2)" by fastforce
    have a2: "at w0 (app_Status a) a w2" using at_release [OF a1 _ 2] that by simp
    show ?thesis
      using at_good [OF a2] at_restore [OF a2, of h a] good_proceed [OF a2, of h task] that
      by (auto simp: and_then_def 2 split: option.splits)
  qed
  show ?thesis
    using waiting at_settle_submitted [OF a1, of h a now] at_settle_released [OF a1, of h now]
      good_reconcile [of w0 a w h] good_interrupted [of w0 a w h] good_proceed [OF assms, of h task] at_good [OF assms] assms
    by (cases "app_Status a") (simp_all add: handle_stored_def 1)
qed

text \<open>Each run of the handler keeps the invariant and touches the application of its task alone.\<close>

definition task_key :: "Task \<Rightarrow> ApplicationKey option" where
  "task_key task = map_option asp_Key (decode_submit_payload (task_Payload task))"

lemma Handle_cases:
  obtains (nothing) e where "Handle h task w = (Some e, w)"
  | (stored) k a where "task_key task = Some k" "map_of (hw_apps w) k = Some a" "Handle h task w = handle_stored h task a w"
proof (cases "decode_submit_payload (task_Payload task)")
  case (Some payload)
  show ?thesis
  proof (cases "SubmitPayload_Validate payload = None \<and> (\<exists>a. GetApplication (ctx_of h w) (asp_Key payload) (hw_apps w) = Inr a
      \<and> app_ID a = asp_ApplicationID payload)")
    case True
    then obtain a where a: "GetApplication (ctx_of h w) (asp_Key payload) (hw_apps w) = Inr a" by blast
    then have "map_of (hw_apps w) (asp_Key payload) = Some a"
      by (auto simp: GetApplication_def split: option.splits)
    then show ?thesis
      using stored [of "asp_Key payload" a] True a Some by (auto simp: Handle_def task_key_def)
  next
    case False
    then have "\<exists>e. Handle h task w = (Some e, w)"
      using Some by (auto simp: Handle_def split: option.splits sum.splits)
    then obtain e where "Handle h task w = (Some e, w)" ..
    then show ?thesis by (rule nothing)
  qed
qed (use nothing in \<open>simp add: Handle_def\<close>)

lemma Handle_good:
  assumes "world_ok w"
  shows "world_ok (snd (Handle h task w))"
    and "\<exists>k. (task_key task = Some k \<or> snd (Handle h task w) = w) \<and> only_key k w (snd (Handle h task w))"
proof -
  have "world_ok (snd (Handle h task w)) \<and>
    (\<exists>k. (task_key task = Some k \<or> snd (Handle h task w) = w) \<and> only_key k w (snd (Handle h task w)))"
  proof (rule Handle_cases [of h task w])
    fix k a
    assume *: "task_key task = Some k" "map_of (hw_apps w) k = Some a" "Handle h task w = handle_stored h task a w"
    have key: "app_Key a = k" using world_okD(6) [OF assms *(2)] .
    have "at w (app_Status a) a w"
      using assms * key world_okD(4) [OF assms *(2)] by (simp add: at_def stored_def)
    from good_handle_stored [OF this, of h task] show ?thesis
      using * key by (auto simp: good_def)
  qed (use assms in simp)
  then show "world_ok (snd (Handle h task w))"
    and "\<exists>k. (task_key task = Some k \<or> snd (Handle h task w) = w) \<and> only_key k w (snd (Handle h task w))" by auto
qed

text \<open>What settles an application leaves the applications and the calls alone.\<close>

lemma settle_frame:
  "hw_calls (snd (settle_submitted h a now w)) = hw_calls w \<and> hw_apps (snd (settle_submitted h a now w)) = hw_apps w"
  "hw_calls (snd (settle_released h a now w)) = hw_calls w \<and> hw_apps (snd (settle_released h a now w)) = hw_apps w"
proof -
  have c: "hw_calls (snd (commitBudget h a now w)) = hw_calls w \<and> hw_apps (snd (commitBudget h a now w)) = hw_apps w"
    by (simp add: commitBudget_def split: prod.splits)
  have r: "hw_calls (snd (releaseBudget h a now w)) = hw_calls w \<and> hw_apps (snd (releaseBudget h a now w)) = hw_apps w"
    by (simp add: releaseBudget_def split: prod.splits)
  have t: "hw_calls (snd (restoreTailoring h a w)) = hw_calls w \<and> hw_apps (snd (restoreTailoring h a w)) = hw_apps w" for w
    using restoreTailoring_core [of w h a] by (simp add: same_core_def)
  have s: "hw_calls (snd (recordSubmitted h a w)) = hw_calls w \<and> hw_apps (snd (recordSubmitted h a w)) = hw_apps w" for w
    using recordSubmitted_core [of w h a] by (simp add: same_core_def)
  have after: "hw_calls (snd (and_then x f)) = hw_calls w \<and> hw_apps (snd (and_then x f)) = hw_apps w"
    if "hw_calls (snd x) = hw_calls w \<and> hw_apps (snd x) = hw_apps w"
      "\<And>w'. hw_calls (snd (f w')) = hw_calls w' \<and> hw_apps (snd (f w')) = hw_apps w'" for x f and w :: "'a World"
    using that by (cases x) (simp add: and_then_def split: option.splits)
  show "hw_calls (snd (settle_submitted h a now w)) = hw_calls w \<and> hw_apps (snd (settle_submitted h a now w)) = hw_apps w"
    unfolding settle_submitted_def using c s t by (intro after) auto
  show "hw_calls (snd (settle_released h a now w)) = hw_calls w \<and> hw_apps (snd (settle_released h a now w)) = hw_apps w"
    unfolding settle_released_def using r t by (intro after) auto
qed

end
