(* ===== verification/GoJsonValue_Props.thy ===== *)
theory GoJsonValue_Props
  imports GoJsonValue
begin

text \<open>
  Round trips of \<open>encoding/json\<close> on values: what \<open>Marshal\<close> writes is read back
  as the same value, and what the decoder returns is such a value.
\<close>

section \<open>Runes\<close>

definition plain_rune :: "string \<Rightarrow> bool" where
  "plain_rune bs \<longleftrightarrow> (\<exists>c. bs = [c] \<and> c < CHR 0x80) \<or> (2 \<le> length bs \<and> list_all (\<lambda>c. \<not> c < CHR 0x80) bs)"

lemma cont_byte_high: "cont_byte c \<Longrightarrow> \<not> c < CHR 0x80"
  by (auto simp: cont_byte_def in_bytes_def)

lemma second_byte_cont: "second_byte a c \<Longrightarrow> cont_byte c"
  unfolding second_byte_def cont_byte_def in_bytes_def
  by (auto split: if_splits simp: less_eq_char_def)

lemma rune_tail_plain: "rune_tail a s = Some t \<Longrightarrow> plain_rune (a # t)"
proof -
  assume h: "rune_tail a s = Some t"
  then obtain n where n: "rune_need a = Some n" "n \<le> length s" "t = take n s"
    "n = 0 \<or> second_byte a (hd s)" "list_all cont_byte (take (n - 1) (tl s))"
    by (auto simp: rune_tail_def split: option.splits if_splits)
  show ?thesis
  proof (cases "n = 0")
    case True
    with n show ?thesis by (auto simp: plain_rune_def rune_need_def split: if_splits)
  next
    case False
    then obtain b s' where s: "s = b # s'" using n(2) by (cases s) auto
    have "list_all cont_byte t"
      using n s False second_byte_cont by (cases n) auto
    then have "list_all (\<lambda>c. \<not> c < CHR 0x80) t"
      by (rule list.pred_mono_strong) (auto dest: cont_byte_high)
    moreover have "\<not> a < CHR 0x80" using n(1) False by (auto simp: rune_need_def split: if_splits)
    moreover have "1 \<le> length t" using n(2,3) False by simp
    ultimately show ?thesis by (simp add: plain_rune_def)
  qed
qed

lemma runes_plain: "Some bs \<in> set (runes s) \<Longrightarrow> plain_rune bs"
proof (induction s rule: runes.induct)
  case (2 a s)
  then show ?case by (auto split: option.splits dest: rune_tail_plain)
qed simp

lemma rune_tail_append: "rune_tail a s = Some t \<Longrightarrow> rune_tail a (t @ u) = Some t"
proof -
  assume h: "rune_tail a s = Some t"
  then obtain n where n: "rune_need a = Some n" "n \<le> length s" "t = take n s"
    "n = 0 \<or> second_byte a (hd s)" "list_all cont_byte (take (n - 1) (tl s))"
    by (auto simp: rune_tail_def split: option.splits if_splits)
  have "take n (t @ u) = t" "n \<le> length (t @ u)" using n(2,3) by simp_all
  moreover have "n = 0 \<or> hd (t @ u) = hd s"
    using n(2,3) by (cases s; cases n) auto
  moreover have "take (n - 1) (tl (t @ u)) = take (n - 1) (tl s)"
    using n(2,3) by (cases s; cases n) auto
  ultimately show ?thesis using n by (auto simp: rune_tail_def)
qed

lemma runes_Cons_valid: "Some bs \<in> set (runes s) \<Longrightarrow> runes (bs @ u) = Some bs # runes u"
proof (induction s rule: runes.induct)
  case (2 a s)
  then show ?case
  proof (cases "rune_tail a s")
    case None
    with 2 show ?thesis by simp
  next
    case (Some t)
    with 2 have "bs = a # t \<or> Some bs \<in> set (runes (drop (length t) s))" by simp
    then show ?thesis
    proof
      assume "bs = a # t"
      then show ?thesis using rune_tail_append [OF Some] by simp
    next
      assume "Some bs \<in> set (runes (drop (length t) s))"
      with 2 Some show ?thesis by blast
    qed
  qed
qed simp

lemma runes_error: "runes (rune_error @ u) = Some rune_error # runes u"
  by (simp add: rune_error_def rune_tail_def rune_need_def in_bytes_def second_byte_def cont_byte_def
      less_char_def less_eq_char_def)

lemma rune_bytes_simps [simp]: "rune_bytes None = rune_error" "rune_bytes (Some bs) = bs"
  by (simp_all add: rune_bytes_def)

lemma to_valid_valid: "utf8_ValidString (to_valid s)"
proof -
  have "utf8_ValidString (concat (map rune_bytes rs))" if "set rs \<subseteq> set (runes s)" for rs
    using that
  proof (induction rs)
    case Nil
    show ?case by (simp add: utf8_ValidString_def)
  next
    case (Cons r rs)
    let ?u = "concat (map rune_bytes rs)"
    have u: "utf8_ValidString ?u" using Cons by simp
    show ?case
    proof (cases r)
      case None
      then show ?thesis using u runes_error [of ?u] by (simp add: utf8_ValidString_def)
    next
      case (Some bs)
      then have "Some bs \<in> set (runes s)" using Cons.prems by simp
      then show ?thesis using u runes_Cons_valid [of bs s ?u] Some by (simp add: utf8_ValidString_def)
    qed
  qed
  then show ?thesis by (simp add: to_valid_def)
qed

lemma to_valid_idem [simp]: "to_valid (to_valid s) = to_valid s"
  by (rule to_valid_id [OF to_valid_valid])

section \<open>Strings\<close>

lemma parse_chars_more: "parse_chars n s = Some x \<Longrightarrow> n \<le> m \<Longrightarrow> parse_chars m s = Some x"
proof (induction n arbitrary: m s x)
  case (Suc n)
  then obtain m' where m: "m = Suc m'" "n \<le> m'" by (cases m) auto
  from Suc.prems(1) show ?case
    using Suc.IH [OF _ m(2)] unfolding m
    by (auto split: option.splits prod.splits)
qed simp

text \<open>The text \<open>txt\<close> stands for the bytes \<open>bs\<close>, whatever follows it.\<close>

definition reads :: "string \<Rightarrow> string \<Rightarrow> bool" where
  "reads txt bs \<longleftrightarrow> (\<forall>n rest t r. parse_chars n rest = Some (t, r) \<longrightarrow>
     parse_chars (n + length txt) (txt @ rest) = Some (bs @ t, r))"

lemma reads_Nil: "reads [] []"
  by (simp add: reads_def)

lemma reads_append:
  assumes "reads a x" and "reads b y"
  shows "reads (a @ b) (x @ y)"
  unfolding reads_def
proof (intro allI impI)
  fix n rest t r
  assume "parse_chars n rest = Some (t, r)"
  then have "parse_chars (n + length b) (b @ rest) = Some (y @ t, r)" using assms(2) by (simp add: reads_def)
  then have "parse_chars ((n + length b) + length a) (a @ b @ rest) = Some (x @ y @ t, r)"
    using assms(1) by (simp add: reads_def)
  then show "parse_chars (n + length (a @ b)) ((a @ b) @ rest) = Some ((x @ y) @ t, r)"
    by (simp add: ac_simps)
qed

lemma reads_step:
  assumes "\<And>rest. next_char (txt @ rest) = Some (Some bs, rest)" and "txt \<noteq> []"
  shows "reads txt bs"
  unfolding reads_def
proof (intro allI impI)
  fix n rest t r
  assume "parse_chars n rest = Some (t, r)"
  then have "parse_chars (Suc n) (txt @ rest) = Some (bs @ t, r)" using assms(1) by simp
  then show "parse_chars (n + length txt) (txt @ rest) = Some (bs @ t, r)"
    by (rule parse_chars_more) (use assms(2) in \<open>cases txt; simp\<close>)
qed

lemma reads_concat: "list_all (\<lambda>(a, x). reads a x) xs \<Longrightarrow> reads (concat (map fst xs)) (concat (map snd xs))"
  by (induction xs) (auto intro: reads_append reads_Nil)

lemma reads_high: "list_all (\<lambda>c. \<not> c < CHR 0x80) bs \<Longrightarrow> reads bs bs"
proof (induction bs)
  case (Cons c bs)
  then have "reads [c] [c]" by (intro reads_step) (auto simp: less_char_def)
  from reads_append [OF this Cons.IH] Cons.prems show ?case by simp
qed (rule reads_Nil)

lemma next_u_escape:
  assumes "c < CHR 0x80"
  shows "next_char (u_escape c @ rest) = Some (Some [c], rest)"
proof -
  have c: "of_char c < (128 :: nat)" using assms by (simp add: less_char_def)
  have "hex_value (hex_digit (of_char c div 16)) = Some (of_char c div 16)"
    "hex_value (hex_digit (of_char c mod 16)) = Some (of_char c mod 16)"
    by (rule hex_value_digit; use c in simp)+
  moreover have "hex_value (CHR ''0'') = Some 0" by (simp add: hex_value_def)
  ultimately show ?thesis
    using c by (simp add: u_escape_def unescape_u_def high_surrogate_def low_surrogate_def encode_rune_def)
qed

lemma reads_ascii:
  assumes "c < CHR 0x80"
  shows "reads (escape_ascii c) [c]"
proof (cases "short_escape c")
  case (Some e)
  then have "(c, e) \<in> set [(CHR 0x22, CHR 0x22), (CHR 0x5C, CHR 0x5C), (CHR 0x08, CHR ''b''), (CHR 0x0C, CHR ''f''),
     (CHR 0x0A, CHR ''n''), (CHR 0x0D, CHR ''r''), (CHR 0x09, CHR ''t'')]"
    unfolding short_escape_def by (rule map_of_SomeD)
  then show ?thesis
    unfolding escape_ascii_def Some
    by (intro reads_step) (auto simp: simple_escapes_def)
next
  case None
  then have quote: "c \<noteq> CHR 0x22" "c \<noteq> CHR 0x5C" by (auto simp: short_escape_def)
  show ?thesis
  proof (cases "c < CHR 0x20 \<or> c \<in> {CHR ''<'', CHR ''>'', CHR ''&''}")
    case True
    with None have "escape_ascii c = u_escape c" by (simp add: escape_ascii_def)
    moreover have "reads (u_escape c) [c]"
      by (rule reads_step) (simp_all only: next_u_escape [OF assms], simp add: u_escape_def)
    ultimately show ?thesis by simp
  next
    case False
    with None have "escape_ascii c = [c]" by (simp add: escape_ascii_def)
    with False quote show ?thesis by (auto intro: reads_step)
  qed
qed

lemma encode_separators:
  "encode_rune 0x2028 = [CHR 0xE2, CHR 0x80, CHR 0xA8]" "encode_rune 0x2029 = [CHR 0xE2, CHR 0x80, CHR 0xA9]"
  by (simp_all add: encode_rune_def char_of_eq_iff take_bit_eq_mod)

lemma reads_rune:
  assumes "plain_rune bs"
  shows "reads (escape_rune (Some bs)) bs"
  using assms unfolding plain_rune_def
proof
  assume "\<exists>c. bs = [c] \<and> c < CHR 0x80"
  then show ?thesis using reads_ascii by auto
next
  assume h: "2 \<le> length bs \<and> list_all (\<lambda>c. \<not> c < CHR 0x80) bs"
  then obtain a b cs where bs: "bs = a # b # cs" by (cases bs; cases "tl bs") auto
  have "next_char ((CHR 0x5C # ''u2028'') @ rest) = Some (Some [CHR 0xE2, CHR 0x80, CHR 0xA8], rest)" for rest
    by (simp add: unescape_u_def hex_value_def high_surrogate_def low_surrogate_def encode_separators)
  moreover have "next_char ((CHR 0x5C # ''u2029'') @ rest) = Some (Some [CHR 0xE2, CHR 0x80, CHR 0xA9], rest)" for rest
    by (simp add: unescape_u_def hex_value_def high_surrogate_def low_surrogate_def encode_separators)
  ultimately have "reads (CHR 0x5C # ''u2028'') [CHR 0xE2, CHR 0x80, CHR 0xA8]"
    "reads (CHR 0x5C # ''u2029'') [CHR 0xE2, CHR 0x80, CHR 0xA9]"
    by (auto intro!: reads_step)
  with reads_high [of bs] h show ?thesis unfolding bs by simp
qed

lemma json_quote_read:
  assumes "utf8_ValidString s"
  shows "parse_string (tl (json_quote s) @ rest) = Some (s, rest)"
proof -
  let ?xs = "map (\<lambda>r. (escape_rune r, rune_bytes r)) (runes s)"
  have some: "r \<noteq> None" if "r \<in> set (runes s)" for r
    using assms that by (auto simp: utf8_ValidString_def list_all_iff)
  have "reads (escape_rune r) (rune_bytes r)" if r: "r \<in> set (runes s)" for r
    using some [OF r] r runes_plain reads_rune by (cases r) auto
  then have "reads (concat (map fst ?xs)) (concat (map snd ?xs))"
    by (intro reads_concat) (simp add: list_all_iff)
  then have body: "reads (concat (map escape_rune (runes s))) s"
    using runes_concat_valid [OF assms] by (simp add: comp_def)
  let ?b = "concat (map escape_rune (runes s))"
  have "parse_chars (Suc 0) (CHR 0x22 # rest) = Some ([], rest)" by simp
  then have "parse_chars (Suc 0 + length ?b) (?b @ CHR 0x22 # rest) = Some (s, rest)"
    using body unfolding reads_def by (metis append_Nil2)
  then have "parse_chars (Suc (length (?b @ CHR 0x22 # rest))) (?b @ CHR 0x22 # rest) = Some (s, rest)"
    by (rule parse_chars_more) simp
  then show ?thesis
    using assms by (simp add: parse_string_def json_quote_def to_valid_id)
qed

lemma parse_string_valid: "parse_string s = Some (t, r) \<Longrightarrow> utf8_ValidString t"
  by (auto simp: parse_string_def to_valid_valid)


section \<open>Numbers\<close>

text \<open>What may stand after a number: it does not continue it.\<close>

definition num_end :: "string \<Rightarrow> bool" where
  "num_end s \<longleftrightarrow> (case s of [] \<Rightarrow> True | c # _ \<Rightarrow> \<not> json_digit c \<and> c \<notin> {CHR ''.'', CHR ''e'', CHR ''E''})"

definition json_number :: "string \<Rightarrow> bool" where
  "json_number t \<longleftrightarrow> parse_number t = Some (t, [])"

lemma num_end_digit: "num_end u \<Longrightarrow> takeWhile json_digit u = [] \<and> dropWhile json_digit u = u"
  by (cases u) (auto simp: num_end_def)

lemma take_digits: "num_end u \<Longrightarrow> takeWhile json_digit (s @ u) = takeWhile json_digit s"
  using num_end_digit [of u] by (induction s) auto

lemma drop_digits: "num_end u \<Longrightarrow> dropWhile json_digit (s @ u) = dropWhile json_digit s @ u"
  using num_end_digit [of u] by (induction s) auto

lemma parse_int_append:
  assumes "parse_int s = Some (i, r)" and "num_end u"
  shows "parse_int (s @ u) = Some (i, r @ u)"
proof -
  from assms(1) have "s \<noteq> []" by (auto simp: parse_int_def Let_def)
  with assms show ?thesis
    by (auto simp: parse_int_def Let_def take_digits drop_digits split: if_splits)
qed

lemma parse_frac_append:
  assumes "parse_frac s = Some (f, r)" and "num_end u"
  shows "parse_frac (s @ u) = Some (f, r @ u)"
proof (cases s)
  case Nil
  with assms show ?thesis by (cases u) (auto simp: parse_frac_def num_end_def)
next
  case (Cons c s')
  with assms show ?thesis by (auto simp: parse_frac_def take_digits drop_digits split: if_splits)
qed

lemma exp_sign_append: "takeWhile json_digit (drop (length (exp_sign s)) s) \<noteq> [] \<Longrightarrow>
    exp_sign (s @ u) = exp_sign s \<and> drop (length (exp_sign s)) (s @ u) = drop (length (exp_sign s)) s @ u"
  by (cases s) (auto simp: exp_sign_def)

lemma parse_exp_append:
  assumes "parse_exp s = Some (e, r)" and "num_end u"
  shows "parse_exp (s @ u) = Some (e, r @ u)"
proof (cases s)
  case Nil
  with assms show ?thesis by (cases u) (auto simp: parse_exp_def num_end_def)
next
  case (Cons c s')
  with assms show ?thesis
    using exp_sign_append [of s' u]
    by (auto simp: parse_exp_def Let_def take_digits drop_digits split: if_splits)
qed

lemma parse_int_nonempty: "parse_int s = Some (i, r) \<Longrightarrow> s \<noteq> []"
  by (auto simp: parse_int_def Let_def)

lemma num_sign_append: "s \<noteq> [] \<Longrightarrow> num_sign (s @ u) = num_sign s \<and>
    drop (length (num_sign s)) (s @ u) = drop (length (num_sign s)) s @ u"
  by (cases s) (auto simp: num_sign_def)

lemma parse_number_append:
  assumes "parse_number s = Some (t, r)" and "num_end u"
  shows "parse_number (s @ u) = Some (t, r @ u)"
proof -
  from assms(1) obtain i r1 f r2 e where
    p: "parse_int (drop (length (num_sign s)) s) = Some (i, r1)" "parse_frac r1 = Some (f, r2)"
      "parse_exp r2 = Some (e, r)" "t = num_sign s @ i @ f @ e"
    by (auto simp: parse_number_def split: option.splits prod.splits)
  have "s \<noteq> []" using parse_int_nonempty [OF p(1)] by auto
  from num_sign_append [OF this, of u] p show ?thesis
    using parse_int_append [OF p(1) assms(2)] parse_frac_append [OF p(2) assms(2)]
      parse_exp_append [OF p(3) assms(2)] by (simp add: parse_number_def)
qed

lemma number_read:
  "json_number t \<Longrightarrow> num_end u \<Longrightarrow> parse_number (t @ u) = Some (t, u)"
  using parse_number_append [of t t "[]" u] by (simp add: json_number_def)

text \<open>A number starts with a digit or a minus sign.\<close>

lemma json_number_hd:
  assumes "json_number t"
  shows "\<exists>c cs. t = c # cs \<and> (json_digit c \<or> c = CHR ''-'')"
proof -
  obtain i r1 where p: "parse_int (drop (length (num_sign t)) t) = Some (i, r1)"
    using assms by (auto simp: json_number_def parse_number_def split: option.splits)
  show ?thesis
  proof (cases t)
    case Nil
    with p show ?thesis by (auto simp: parse_int_def)
  next
    case (Cons c cs)
    show ?thesis
    proof (cases "c = CHR ''-''")
      case False
      with p Cons show ?thesis by (cases "json_digit c") (auto simp: num_sign_def parse_int_def)
    qed (use Cons in simp)
  qed
qed

text \<open>What is read is a number, and the text is the number followed by the rest.\<close>

lemma takeWhile_takeWhile: "takeWhile P (takeWhile P s) = takeWhile P s"
  by (induction s) (auto dest: set_takeWhileD)

lemma dropWhile_takeWhile: "dropWhile P (takeWhile P s) = []"
  by (induction s) (auto dest: set_takeWhileD)

lemma parse_int_prefix: "parse_int s = Some (i, r) \<Longrightarrow> s = i @ r \<and> parse_int i = Some (i, [])"
proof -
  assume h: "parse_int s = Some (i, r)"
  then obtain c s' where s: "s = c # s'" "json_digit c"
    by (cases s) (auto simp: parse_int_def Let_def split: if_splits)
  show ?thesis
  proof (cases "c = CHR ''0''")
    case True
    then have "json_digit (CHR ''0'')" using s by simp
    with h s True show ?thesis by (auto simp: parse_int_def Let_def)
  next
    case False
    with h s have "i = takeWhile json_digit s" "r = dropWhile json_digit s"
      by (auto simp: parse_int_def Let_def)
    with s False show ?thesis
      by (auto simp: parse_int_def Let_def takeWhile_takeWhile dropWhile_takeWhile)
  qed
qed

lemma parse_frac_prefix: "parse_frac s = Some (f, r) \<Longrightarrow> s = f @ r \<and> parse_frac f = Some (f, [])
    \<and> (f = [] \<or> hd f = CHR ''.'')"
  by (cases s) (auto simp: parse_frac_def takeWhile_takeWhile dropWhile_takeWhile split: if_splits)

lemma exp_sign_prefix: "exp_sign s @ drop (length (exp_sign s)) s = s"
  by (cases s) (auto simp: exp_sign_def)

lemma parse_exp_prefix: "parse_exp s = Some (e, r) \<Longrightarrow> s = e @ r \<and> parse_exp e = Some (e, [])
    \<and> (e = [] \<or> hd e \<in> {CHR ''e'', CHR ''E''})"
proof -
  assume h: "parse_exp s = Some (e, r)"
  show ?thesis
  proof (cases "\<exists>c s'. s = c # s' \<and> c \<in> {CHR ''e'', CHR ''E''}")
    case False
    with h show ?thesis by (cases s) (auto simp: parse_exp_def split: if_splits)
  next
    case True
    then obtain c s' where s: "s = c # s'" "c \<in> {CHR ''e'', CHR ''E''}" by blast
    let ?d = "drop (length (exp_sign s')) s'"
    from h s have e: "e = c # exp_sign s' @ takeWhile json_digit ?d" "r = dropWhile json_digit ?d"
      and ne: "takeWhile json_digit ?d \<noteq> []"
      by (auto simp: parse_exp_def Let_def split: if_splits)
    have "s' = exp_sign s' @ takeWhile json_digit ?d @ dropWhile json_digit ?d"
      using exp_sign_prefix [of s'] by simp
    then have pre: "s = e @ r" using s(1) e by simp
    let ?t = "exp_sign s' @ takeWhile json_digit ?d"
    have "exp_sign ?t = exp_sign s'"
    proof (cases "exp_sign s'")
      case Nil
      then show ?thesis using ne
        by (cases s') (auto simp: exp_sign_def json_digit_def split: if_splits)
    next
      case (Cons a as)
      then show ?thesis by (cases s') (auto simp: exp_sign_def split: if_splits)
    qed
    then have "parse_exp e = Some (e, [])"
      using s(2) ne by (auto simp: parse_exp_def e Let_def takeWhile_takeWhile dropWhile_takeWhile)
    with pre s(2) e show ?thesis by simp
  qed
qed

lemma parse_number_ok:
  assumes "parse_number s = Some (t, r)"
  shows "s = t @ r" "json_number t"
proof -
  from assms obtain i r1 f r2 e where
    p: "parse_int (drop (length (num_sign s)) s) = Some (i, r1)" "parse_frac r1 = Some (f, r2)"
      "parse_exp r2 = Some (e, r)" and t: "t = num_sign s @ i @ f @ e"
    by (auto simp: parse_number_def split: option.splits prod.splits)
  note i = parse_int_prefix [OF p(1)] and f = parse_frac_prefix [OF p(2)] and e = parse_exp_prefix [OF p(3)]
  have "s \<noteq> []" using parse_int_nonempty [OF p(1)] by auto
  then have s: "s = num_sign s @ i @ r1" using i by (cases s) (auto simp: num_sign_def split: if_splits)
  then show "s = t @ r" using f e by (simp add: t)
  have e_end: "parse_frac (f @ e) = Some (f, e)"
  proof (cases "f = []")
    case True
    then show ?thesis using e by (cases e) (auto simp: parse_frac_def)
  next
    case False
    then obtain fs where f': "f = CHR ''.'' # fs" using f by (cases f) auto
    have de: "takeWhile json_digit e = [] \<and> dropWhile json_digit e = e"
      using e by (cases e) (auto simp: json_digit_def)
    have "takeWhile json_digit fs = fs \<and> fs \<noteq> []"
      using f f' by (auto simp: parse_frac_def split: if_splits)
    then have "takeWhile json_digit (fs @ e) = fs \<and> dropWhile json_digit (fs @ e) = e \<and> fs \<noteq> []"
      using de by (metis append.right_neutral dropWhile_append3 takeWhile_append2 takeWhile_eq_all_conv
          dropWhile_append2)
    then show ?thesis by (auto simp: parse_frac_def f')
  qed
  have i_end: "parse_int (i @ f @ e) = Some (i, f @ e)"
  proof -
    have "i \<noteq> []" using i by (auto simp: parse_int_def)
    have de: "takeWhile json_digit (f @ e) = [] \<and> dropWhile json_digit (f @ e) = f @ e"
      using e f by (cases f; cases e) (auto simp: json_digit_def)
    show ?thesis
    proof (cases "hd i = CHR ''0''")
      case True
      with i \<open>i \<noteq> []\<close> show ?thesis
        by (cases i) (auto simp: parse_int_def Let_def split: if_splits)
    next
      case False
      have all: "takeWhile json_digit i = i"
        using i False \<open>i \<noteq> []\<close> by (cases i) (auto simp: parse_int_def Let_def split: if_splits)
      then have "takeWhile json_digit (i @ f @ e) = i \<and> dropWhile json_digit (i @ f @ e) = f @ e"
        using de by (metis append.right_neutral takeWhile_append2 takeWhile_eq_all_conv dropWhile_append2)
      with False \<open>i \<noteq> []\<close> show ?thesis by (simp add: parse_int_def)
    qed
  qed
  have "i \<noteq> []" using i by (auto simp: parse_int_def)
  then have sign: "num_sign t = num_sign s \<and> drop (length (num_sign s)) t = i @ f @ e"
  proof (cases "num_sign s")
    case Nil
    have "hd i \<noteq> CHR ''-''" using i \<open>i \<noteq> []\<close>
      by (cases i) (auto simp: parse_int_def json_digit_def Let_def split: if_splits)
    with Nil \<open>i \<noteq> []\<close> show ?thesis by (cases i) (auto simp: t num_sign_def)
  next
    case (Cons a as)
    then show ?thesis by (cases s) (auto simp: t num_sign_def split: if_splits)
  qed
  show "json_number t"
    unfolding json_number_def parse_number_def using sign i_end e_end e by (simp add: t)
qed

end
