(* ===== verification/GoJsonRoundtrip.thy ===== *)
theory GoJsonRoundtrip
  imports GoJsonValue_Props
begin

text \<open>
  Round trips of \<open>encoding/json\<close> on values. A value that a decoder into \<open>any\<close>
  can return (\<open>json_wf\<close>: maps in key order, valid UTF-8, well-formed numbers, within the
  decoder's depth) is read back from its encoding, and the decoder returns no other value.
\<close>

section \<open>Well-formed values\<close>

fun json_wf :: "json \<Rightarrow> bool" where
  "json_wf (JNumber t) = json_number t"
| "json_wf (JString t) = utf8_ValidString t"
| "json_wf (JArray vs) = (\<forall>v \<in> set vs. json_wf v)"
| "json_wf (JObject ms) = (sorted_wrt (<) (map fst ms) \<and> (\<forall>m \<in> set ms. utf8_ValidString (fst m) \<and> json_wf (snd m)))"
| "json_wf _ = True"

text \<open>Before it becomes a map, an object may have its members in any order.\<close>

fun raw_wf :: "json \<Rightarrow> bool" where
  "raw_wf (JNumber t) = json_number t"
| "raw_wf (JString t) = utf8_ValidString t"
| "raw_wf (JArray vs) = (\<forall>v \<in> set vs. raw_wf v)"
| "raw_wf (JObject ms) = (\<forall>m \<in> set ms. utf8_ValidString (fst m) \<and> raw_wf (snd m))"
| "raw_wf _ = True"

lemma json_wf_raw: "json_wf v \<Longrightarrow> raw_wf v"
proof (induction v)
  case (JObject ms)
  then show ?case by (fastforce simp: snds.simps)
qed auto

fun json_depth :: "json \<Rightarrow> nat" where
  "json_depth (JArray vs) = Suc (foldr max (map json_depth vs) 0)"
| "json_depth (JObject ms) = Suc (foldr max (map (\<lambda>m. json_depth (snd m)) ms) 0)"
| "json_depth _ = 0"

lemma foldr_max_ge: "x \<in> set xs \<Longrightarrow> x \<le> foldr max xs (0 :: nat)"
  by (induction xs) auto

lemma foldr_max_le_iff: "foldr max xs (0 :: nat) \<le> b \<longleftrightarrow> (\<forall>x \<in> set xs. x \<le> b)"
  by (induction xs) auto

lemma depth_array: "json_depth (JArray vs) \<le> b \<longleftrightarrow> 0 < b \<and> (\<forall>v \<in> set vs. json_depth v \<le> b - 1)"
  by (cases b) (auto simp: foldr_max_le_iff)

lemma depth_object: "json_depth (JObject ms) \<le> b \<longleftrightarrow> 0 < b \<and> (\<forall>m \<in> set ms. json_depth (snd m) \<le> b - 1)"
  by (cases b) (auto simp: foldr_max_le_iff)

section \<open>Reading what was written\<close>

lemma skip_ws_Cons: "\<not> json_space c \<Longrightarrow> skip_ws (c # s) = c # s"
  by (simp add: skip_ws_def)

lemma json_quote_Cons: "json_quote s = CHR 0x22 # tl (json_quote s)"
  by (simp add: json_quote_def)

lemma structural_not_space [simp]:
  "\<not> json_space (CHR 0x22)" "\<not> json_space (CHR ''{'')" "\<not> json_space (CHR ''['')" "\<not> json_space (CHR '':'')"
  "\<not> json_space (CHR '','')" "\<not> json_space (CHR ''}'')" "\<not> json_space (CHR '']'')"
  "\<not> json_space (CHR ''t'')" "\<not> json_space (CHR ''f'')" "\<not> json_space (CHR ''n'')" "\<not> json_space (CHR ''-'')"
  by (simp_all add: json_space_def)

lemma digit_not_structural: "json_digit c \<Longrightarrow>
    \<not> json_space c \<and> c \<notin> {CHR 0x22, CHR ''{'', CHR ''['', CHR ''t'', CHR ''f'', CHR ''n'', CHR '']'', CHR ''}''}"
  by (auto simp: json_digit_def json_space_def)

lemma raw_Marshal_hd:
  assumes "raw_wf v"
  shows "\<exists>c cs. raw_Marshal v = c # cs \<and> \<not> json_space c \<and> c \<noteq> CHR '']''"
proof (cases v)
  case (JNumber t)
  then obtain c cs where "t = c # cs" "json_digit c \<or> c = CHR ''-''" using assms json_number_hd by fastforce
  with JNumber digit_not_structural show ?thesis by auto
next
  case (JString t)
  then show ?thesis by (simp add: json_quote_def)
qed auto

lemma num_end_structural [simp]:
  "num_end []" "num_end (CHR '','' # s)" "num_end (CHR '']'' # s)" "num_end (CHR ''}'' # s)"
  by (simp_all add: num_end_def json_digit_def)

definition reads_back :: "json \<Rightarrow> bool" where
  "reads_back v \<longleftrightarrow> (\<forall>n d rest. d + json_depth v \<le> maxNestingDepth \<longrightarrow> num_end rest
     \<longrightarrow> 2 * length (raw_Marshal v) \<le> n \<longrightarrow> parse_value n d (raw_Marshal v @ rest) = Some (v, rest))"

lemma reads_backD: "reads_back v \<Longrightarrow> d + json_depth v \<le> maxNestingDepth \<Longrightarrow> num_end rest \<Longrightarrow>
    2 * length (raw_Marshal v) \<le> n \<Longrightarrow> parse_value n d (raw_Marshal v @ rest) = Some (v, rest)"
  by (simp add: reads_back_def)

lemma elements_read:
  assumes "vs \<noteq> []" and "\<forall>v \<in> set vs. reads_back v \<and> d + json_depth v \<le> maxNestingDepth"
    and "2 * length (join_with '','' (map raw_Marshal vs)) + 1 \<le> n"
  shows "parse_elements n d (join_with '','' (map raw_Marshal vs) @ CHR '']'' # rest) = Some (vs, rest)"
  using assms
proof (induction vs arbitrary: n)
  case (Cons v vs)
  then obtain m where n: "n = Suc m" by (cases n) auto
  show ?case
  proof (cases vs)
    case Nil
    with Cons.prems n have "parse_value m d (raw_Marshal v @ CHR '']'' # rest) = Some (v, CHR '']'' # rest)"
      by (intro reads_backD) auto
    with Nil n show ?thesis by (simp add: skip_ws_Cons)
  next
    case (Cons w ws)
    let ?J = "join_with '','' (map raw_Marshal vs)"
    have J: "join_with '','' (map raw_Marshal (v # vs)) = raw_Marshal v @ CHR '','' # ?J" using Cons by simp
    have "parse_value m d (raw_Marshal v @ CHR '','' # ?J @ CHR '']'' # rest) = Some (v, CHR '','' # ?J @ CHR '']'' # rest)"
      by (rule reads_backD) (use Cons.prems n J in auto)
    moreover have "parse_elements m d (?J @ CHR '']'' # rest) = Some (vs, rest)"
      by (rule Cons.IH) (use Cons.prems n J \<open>vs = w # ws\<close> in auto)
    ultimately show ?thesis unfolding J n by (simp add: skip_ws_Cons)
  qed
qed simp

definition member_text :: "string \<times> json \<Rightarrow> string" where
  "member_text m = json_quote (fst m) @ CHR '':'' # raw_Marshal (snd m)"

lemma members_read:
  assumes "ms \<noteq> []"
    and "\<forall>m \<in> set ms. utf8_ValidString (fst m) \<and> reads_back (snd m) \<and> d + json_depth (snd m) \<le> maxNestingDepth"
    and "2 * length (join_with '','' (map member_text ms)) + 1 \<le> n"
  shows "parse_members n d (join_with '','' (map member_text ms) @ CHR ''}'' # rest) = Some (ms, rest)"
  using assms
proof (induction ms arbitrary: n)
  case (Cons x ms)
  obtain k v where x: "x = (k, v)" by (cases x)
  from Cons obtain m where n: "n = Suc m" by (cases n) auto
  have key: "parse_string (tl (json_quote k) @ u) = Some (k, u)" for u
    using Cons.prems(2) x by (simp add: json_quote_read)
  have open_quote: "skip_ws (json_quote k @ u) = CHR 0x22 # tl (json_quote k) @ u" for u
    using json_quote_Cons [of k] by (metis append_Cons skip_ws_Cons structural_not_space(1))
  show ?case
  proof (cases ms)
    case Nil
    have "parse_value m d (raw_Marshal v @ CHR ''}'' # rest) = Some (v, CHR ''}'' # rest)"
      by (rule reads_backD) (use Cons.prems n Nil x in \<open>auto simp: member_text_def\<close>)
    with Nil n x show ?thesis by (simp add: member_text_def open_quote key skip_ws_Cons)
  next
    case (Cons y ys)
    let ?J = "join_with '','' (map member_text ms)"
    have J: "join_with '','' (map member_text (x # ms)) = member_text x @ CHR '','' # ?J" using Cons by simp
    have "2 * length (member_text x @ CHR '','' # ?J) + 1 \<le> n"
      using Cons.prems(3) by (simp only: J)
    then have len: "2 * length (raw_Marshal v) \<le> m" "2 * length ?J + 1 \<le> m"
      by (simp_all add: n x member_text_def)
    have "parse_value m d (raw_Marshal v @ CHR '','' # ?J @ CHR ''}'' # rest) = Some (v, CHR '','' # ?J @ CHR ''}'' # rest)"
      by (rule reads_backD) (use Cons.prems(2) len x in simp_all)
    moreover have "parse_members m d (?J @ CHR ''}'' # rest) = Some (ms, rest)"
      by (rule Cons.IH) (use Cons.prems(2) len \<open>ms = y # ys\<close> in simp_all)
    ultimately show ?thesis unfolding J n by (simp add: x member_text_def open_quote key skip_ws_Cons)
  qed
qed simp

lemma join_hd: "\<exists>u. join_with sep (x # xs) = x @ u"
  by (cases xs) auto

lemma marshal_reads_back: "raw_wf v \<Longrightarrow> reads_back v"
proof (induction v)
  case (JNumber t)
  show ?case
    unfolding reads_back_def
  proof (intro allI impI)
    fix n d rest
    assume rest: "num_end rest" and n: "2 * length (raw_Marshal (JNumber t)) \<le> n"
    from JNumber have t: "json_number t" by simp
    then obtain c cs where c: "t = c # cs" "json_digit c \<or> c = CHR ''-''" using json_number_hd by blast
    then obtain m where "n = Suc m" using n by (cases n) auto
    then show "parse_value n d (raw_Marshal (JNumber t) @ rest) = Some (JNumber t, rest)"
      using c digit_not_structural [of c] number_read [OF t rest] by (auto simp: skip_ws_Cons)
  qed
next
  case (JString t)
  show ?case
    unfolding reads_back_def
  proof (intro allI impI)
    fix n d rest
    assume "num_end rest" and n: "2 * length (raw_Marshal (JString t)) \<le> n"
    moreover have "json_quote t \<noteq> []" by (simp add: json_quote_def)
    ultimately obtain m where m: "n = Suc m" by (cases n) auto
    have "skip_ws (json_quote t @ rest) = CHR 0x22 # (tl (json_quote t) @ rest)"
      using json_quote_Cons [of t] by (metis append_Cons skip_ws_Cons structural_not_space(1))
    then show "parse_value n d (raw_Marshal (JString t) @ rest) = Some (JString t, rest)"
      using m JString json_quote_read [of t rest] by simp
  qed
next
  case (JArray vs)
  show ?case
    unfolding reads_back_def
  proof (intro allI impI)
    fix n d rest
    assume d: "d + json_depth (JArray vs) \<le> maxNestingDepth" and n: "2 * length (raw_Marshal (JArray vs)) \<le> n"
    then obtain m where m: "n = Suc m" by (cases n) auto
    have d': "d < maxNestingDepth" "\<And>v. v \<in> set vs \<Longrightarrow> Suc d + json_depth v \<le> maxNestingDepth"
      using d depth_array [of vs "maxNestingDepth - d"] by fastforce+
    show "parse_value n d (raw_Marshal (JArray vs) @ rest) = Some (JArray vs, rest)"
    proof (cases vs)
      case Nil
      with m d' show ?thesis by (simp add: skip_ws_Cons)
    next
      case (Cons w ws)
      obtain c cs where c: "raw_Marshal w = c # cs" "\<not> json_space c" "c \<noteq> CHR '']''"
        using raw_Marshal_hd [of w] JArray.prems Cons by auto
      obtain u where u: "join_with '','' (map raw_Marshal vs) = c # cs @ u"
        using join_hd [of "'',''" "raw_Marshal w" "map raw_Marshal ws"] Cons c by auto
      have "parse_elements m (Suc d) (join_with '','' (map raw_Marshal vs) @ CHR '']'' # rest) = Some (vs, rest)"
        by (rule elements_read) (use JArray d' n m Cons in auto)
      with m d' c u show ?thesis by (simp add: skip_ws_Cons)
    qed
  qed
next
  case (JObject ms)
  show ?case
    unfolding reads_back_def
  proof (intro allI impI)
    fix n d rest
    assume d: "d + json_depth (JObject ms) \<le> maxNestingDepth" and n: "2 * length (raw_Marshal (JObject ms)) \<le> n"
    have enc: "raw_Marshal (JObject ms) = CHR ''{'' # join_with '','' (map member_text ms) @ ''}''"
      by (simp add: member_text_def [abs_def])
    obtain m where m: "n = Suc m" using n enc by (cases n) auto
    have d': "d < maxNestingDepth" "\<And>x. x \<in> set ms \<Longrightarrow> Suc d + json_depth (snd x) \<le> maxNestingDepth"
      using d depth_object [of ms "maxNestingDepth - d"] by fastforce+
    show "parse_value n d (raw_Marshal (JObject ms) @ rest) = Some (JObject ms, rest)"
    proof (cases ms)
      case Nil
      with m d' show ?thesis by (simp add: enc skip_ws_Cons)
    next
      case (Cons y ys)
      obtain w where "join_with '','' (map member_text ms) = member_text y @ w"
        using join_hd [of "'',''" "member_text y" "map member_text ys"] Cons by auto
      then obtain u where u: "join_with '','' (map member_text ms) = CHR 0x22 # u"
        by (simp add: member_text_def json_quote_def)
      have rb: "reads_back (snd x)" if "x \<in> set ms" for x
        using JObject.IH [of x "snd x"] JObject.prems that by (cases x) (auto simp: snds.simps)
      have "parse_members m (Suc d) (join_with '','' (map member_text ms) @ CHR ''}'' # rest) = Some (ms, rest)"
        by (rule members_read) (use JObject.prems rb d' n m Cons enc in auto)
      with m d' u show ?thesis unfolding enc by (simp add: skip_ws_Cons)
    qed
  qed
next
  case JNull
  show ?case
    unfolding reads_back_def
  proof (intro allI impI)
    fix n d :: nat and rest
    assume "2 * length (raw_Marshal JNull) \<le> n"
    then obtain m where "n = Suc m" by (cases n) auto
    then show "parse_value n d (raw_Marshal JNull @ rest) = Some (JNull, rest)"
      by (simp add: skip_ws_Cons parse_literal_def)
  qed
next
  case (JBool b)
  show ?case
    unfolding reads_back_def
  proof (intro allI impI)
    fix n d :: nat and rest
    assume "2 * length (raw_Marshal (JBool b)) \<le> n"
    then obtain m where "n = Suc m" by (cases n; cases b) auto
    then show "parse_value n d (raw_Marshal (JBool b) @ rest) = Some (JBool b, rest)"
      by (simp add: skip_ws_Cons parse_literal_def)
  qed
qed

lemma sort_key_sorted: "sorted_wrt (<) (map f xs) \<Longrightarrow> sort_key f xs = xs"
proof (induction xs)
  case (Cons x xs)
  then have "insort_key f x xs = x # xs"
    by (intro insort_is_Cons) (auto simp: less_imp_le)
  with Cons show ?case by simp
qed simp

lemma json_Marshal_raw: "json_wf v \<Longrightarrow> json_Marshal v = raw_Marshal v"
proof (induction v)
  case (JArray vs)
  then have "map json_Marshal vs = map raw_Marshal vs" by auto
  then show ?case by (simp only: json_Marshal.simps raw_Marshal.simps)
next
  case (JObject ms)
  let ?ms = "map (\<lambda>(k, v). (k, json_Marshal v)) ms"
  have "map fst ?ms = map fst ms" by (induction ms) auto
  with JObject.prems have sorted: "sort_key fst ?ms = ?ms" by (intro sort_key_sorted) (simp only: json_wf.simps)
  have "map (\<lambda>m. json_quote (fst m) @ '':'' @ json_Marshal (snd m)) ms
      = map (\<lambda>m. json_quote (fst m) @ '':'' @ raw_Marshal (snd m)) ms"
    using JObject by (fastforce simp: snds.simps)
  then show ?case using sorted by (simp add: comp_def split_beta del: map_eq_conv)
qed auto

lemma json_parse_raw:
  assumes "raw_wf v" and "json_depth v \<le> maxNestingDepth"
  shows "json_parse (raw_Marshal v) = Some v"
proof -
  have "parse_value (Suc (2 * length (raw_Marshal v))) 0 (raw_Marshal v @ []) = Some (v, [])"
    by (rule reads_backD [OF marshal_reads_back [OF assms(1)]]) (use assms(2) in auto)
  then show ?thesis by (simp add: json_parse_def skip_ws_def)
qed

lemma json_parse_Marshal:
  "json_wf v \<Longrightarrow> json_depth v \<le> maxNestingDepth \<Longrightarrow> json_parse (json_Marshal v) = Some v"
  by (simp add: json_Marshal_raw json_parse_raw json_wf_raw)

section \<open>What the decoder returns\<close>

definition read_ok :: "nat \<Rightarrow> json \<Rightarrow> bool" where
  "read_ok d v \<longleftrightarrow> raw_wf v \<and> d + json_depth v \<le> maxNestingDepth"

lemma read_ok_array:
  "d < maxNestingDepth \<Longrightarrow> read_ok d (JArray vs) \<longleftrightarrow> (\<forall>v \<in> set vs. read_ok (Suc d) v)"
  using depth_array [of vs "maxNestingDepth - d"] by (fastforce simp: read_ok_def)

lemma read_ok_object:
  "d < maxNestingDepth \<Longrightarrow>
     read_ok d (JObject ms) \<longleftrightarrow> (\<forall>m \<in> set ms. utf8_ValidString (fst m) \<and> read_ok (Suc d) (snd m))"
  using depth_object [of ms "maxNestingDepth - d"] by (fastforce simp: read_ok_def)

lemma parse_read_ok:
  "parse_value n d s = Some (v, r) \<Longrightarrow> d \<le> maxNestingDepth \<Longrightarrow> read_ok d v"
  "parse_members n d s = Some (ms, r) \<Longrightarrow> d \<le> maxNestingDepth \<Longrightarrow>
     \<forall>m \<in> set ms. utf8_ValidString (fst m) \<and> read_ok d (snd m)"
  "parse_elements n d s = Some (vs, r) \<Longrightarrow> d \<le> maxNestingDepth \<Longrightarrow> \<forall>v \<in> set vs. read_ok d v"
proof (induction n d s and n d s and n d s arbitrary: v r and ms r and vs r
    rule: parse_value_parse_members_parse_elements.induct)
  case (2 n d s)
  then obtain c u where c: "skip_ws s = c # u" by (auto split: list.splits)
  consider (obj) "c = CHR ''{''" | (arr) "c = CHR ''[''" | (other) "c \<noteq> CHR ''{''" "c \<noteq> CHR ''[''" by blast
  then show ?case
  proof cases
    case obj
    with 2 c show ?thesis
      by (auto simp: read_ok_object split: if_splits)
  next
    case arr
    with 2 c show ?thesis
      by (auto simp: read_ok_array split: if_splits)
  next
    case other
    with 2 c show ?thesis
      by (auto simp: read_ok_def parse_literal_def split: if_splits dest: parse_string_valid parse_number_ok)
  qed
next
  case (4 n d s)
  obtain c u where c: "skip_ws s = c # u" "c = CHR 0x22"
    using "4.prems"(1) by (auto split: list.splits if_splits)
  with "4.prems"(1) obtain k r1 where k: "parse_string u = Some (k, r1)" by (auto split: option.splits)
  with "4.prems"(1) c obtain v r2 where v: "parse_value n d (tl (skip_ws r1)) = Some (v, r2)" "take 1 (skip_ws r1) = '':''"
    by (auto split: option.splits if_splits)
  have ok: "utf8_ValidString k \<and> read_ok d v"
    using parse_string_valid [OF k] 4(1) [OF c(1) _ k _ _ v(1)] "4.prems"(2) c v by auto
  show ?case
  proof (cases "take 1 (skip_ws r2) = ''}''")
    case True
    with "4.prems"(1) c k v ok show ?thesis by auto
  next
    case False
    with "4.prems"(1) c k v obtain ms' where ms': "parse_members n d (tl (skip_ws r2)) = Some (ms', r)" "ms = (k, v) # ms'"
      and "take 1 (skip_ws r2) = '',''"
      by (auto split: if_splits)
    with 4(2) [OF c(1) _ k _ _ v(1) _ False] "4.prems"(2) c v ok show ?thesis by auto
  qed
next
  case (6 n d s)
  from "6.prems"(1) obtain v r2 where v: "parse_value n d s = Some (v, r2)" by (auto split: option.splits)
  with 6(1) "6.prems"(2) have ok: "read_ok d v" by blast
  show ?case
  proof (cases "take 1 (skip_ws r2) = '']''")
    case True
    with "6.prems"(1) v ok show ?thesis by auto
  next
    case False
    with "6.prems"(1) v obtain vs' where "parse_elements n d (tl (skip_ws r2)) = Some (vs', r)" "vs = v # vs'"
      "take 1 (skip_ws r2) = '',''"
      by (auto split: if_splits)
    with 6(2) [OF v _ False] "6.prems"(2) ok show ?thesis by auto
  qed
qed simp_all


section \<open>Go maps\<close>

abbreviation put_all :: "(string \<times> json) list \<Rightarrow> (string \<times> json) list \<Rightarrow> (string \<times> json) list" where
  "put_all ms acc \<equiv> fold (\<lambda>(k, v). AList.update k v) ms acc"

lemma put_all_distinct: "distinct_keys acc \<Longrightarrow> distinct_keys (put_all ms acc)"
  by (induction ms arbitrary: acc) auto

lemma set_update_subset: "set (AList.update k v m) \<subseteq> insert (k, v) (set m)"
  by (induction m) auto

lemma put_all_subset: "set (put_all ms acc) \<subseteq> set ms \<union> set acc"
proof (induction ms arbitrary: acc)
  case (Cons x ms)
  obtain k v where x: "x = (k, v)" by (cases x)
  show ?case using Cons [of "AList.update k v acc"] set_update_subset [of k v acc] x by auto
qed simp

lemma put_all_fresh: "distinct_keys (acc @ ms) \<Longrightarrow> put_all ms acc = acc @ ms"
proof (induction ms arbitrary: acc)
  case (Cons x ms)
  obtain k v where x: "x = (k, v)" by (cases x)
  have "k \<notin> fst ` set acc" using Cons.prems x by auto
  then have "AList.update k v acc = acc @ [(k, v)]" by (induction acc) auto
  with Cons x show ?case by simp
qed simp

lemma object_map_sorted: "sorted_wrt (<) (map fst (object_map ms))"
proof -
  have "distinct (map fst (object_map ms))"
    unfolding object_map_def using put_all_distinct [of "[]" ms]
    by (simp add: distinct_map)
  moreover have "sorted (map fst (object_map ms))" unfolding object_map_def by (rule sorted_sort_key)
  ultimately show ?thesis by (simp add: strict_sorted_iff)
qed

lemma object_map_subset: "set (object_map ms) \<subseteq> set ms"
  unfolding object_map_def using put_all_subset [of ms "[]"] by simp

lemma object_map_id:
  assumes "sorted_wrt (<) (map fst ms)"
  shows "object_map ms = ms"
proof -
  have "distinct_keys ms" using assms by (simp add: strict_sorted_iff)
  then show ?thesis
    using put_all_fresh [of "[]" ms] sort_key_sorted [OF assms] by (simp add: object_map_def)
qed

lemma any_value_wf: "raw_wf v \<Longrightarrow> json_wf (any_value v)"
proof (induction v)
  case (JObject ms)
  let ?ms = "map (\<lambda>(k, v). (k, any_value v)) ms"
  have "utf8_ValidString (fst m) \<and> json_wf (snd m)" if m: "m \<in> set ?ms" for m
    using JObject m by (fastforce simp: snds.simps)
  then have "\<forall>m \<in> set (object_map ?ms). utf8_ValidString (fst m) \<and> json_wf (snd m)"
    using object_map_subset [of ?ms] by blast
  then show ?case using object_map_sorted [of ?ms] by (simp only: any_value.simps json_wf.simps)
qed auto

lemma any_value_depth: "json_depth (any_value v) \<le> json_depth v"
proof (induction v)
  case (JArray vs)
  show ?case
    using JArray depth_array [of vs "json_depth (JArray vs)"]
    by (subst any_value.simps, subst depth_array) (auto simp del: json_depth.simps intro: le_trans)
next
  case (JObject ms)
  let ?ms = "map (\<lambda>(k, v). (k, any_value v)) ms" and ?b = "json_depth (JObject ms)"
  have b: "0 < ?b" "\<And>m. m \<in> set ms \<Longrightarrow> json_depth (snd m) \<le> ?b - 1"
    using depth_object [of ms ?b] by auto
  have "json_depth (snd m) \<le> ?b - 1" if m: "m \<in> set ?ms" for m
    using m b(2) JObject by (fastforce simp: snds.simps simp del: json_depth.simps intro: le_trans)
  then have "\<forall>m \<in> set (object_map ?ms). json_depth (snd m) \<le> ?b - 1"
    using object_map_subset [of ?ms] by blast
  then show ?case using b(1) by (simp only: any_value.simps depth_object)
qed auto

lemma any_value_id: "json_wf v \<Longrightarrow> any_value v = v"
proof (induction v)
  case (JArray vs)
  then show ?case by (auto intro: map_idI)
next
  case (JObject ms)
  have "map (\<lambda>(k, v). (k, any_value v)) ms = ms"
    using JObject by (intro map_idI) (fastforce simp: snds.simps)
  with JObject.prems show ?case by (simp add: object_map_id)
qed auto

section \<open>Decoding into any\<close>

definition decode_any :: "string \<Rightarrow> json option" where
  "decode_any s = map_option any_value (json_parse s)"

definition any_ok :: "json \<Rightarrow> bool" where
  "any_ok v \<longleftrightarrow> json_wf v \<and> json_depth v \<le> maxNestingDepth"

lemma decode_any_ok: "decode_any s = Some v \<Longrightarrow> any_ok v"
proof -
  assume "decode_any s = Some v"
  then obtain u r where u: "parse_value (Suc (2 * length s)) 0 s = Some (u, r)" and v: "v = any_value u"
    by (auto simp: decode_any_def json_parse_def split: option.splits if_splits)
  have "read_ok 0 u" by (rule parse_read_ok(1) [OF u]) simp
  then show ?thesis
    using any_value_wf [of u] any_value_depth [of u] by (auto simp: any_ok_def read_ok_def v intro: le_trans)
qed

lemma decode_Marshal: "any_ok v \<Longrightarrow> decode_any (json_Marshal v) = Some v"
  by (simp add: decode_any_def any_ok_def json_parse_Marshal any_value_id)

lemma json_Marshal_inject: "any_ok v \<Longrightarrow> any_ok w \<Longrightarrow> json_Marshal v = json_Marshal w \<longleftrightarrow> v = w"
  by (metis decode_Marshal option.inject)

end
