(* ===== verification/Submission_Run.thy ===== *)
theory Submission_Run
  imports Submission_Inv GoJsonRoundtrip
begin

text \<open>
  The runs of the submission handler among the other operations that store applications, the
  invariant over all of them, and one run worked out: an application is created, prepared,
  given its slots and submitted.
\<close>

section \<open>The payload\<close>

lemma submit_payload_wf:
  assumes "\<forall>t \<in> {asp_ApplicationID p, ak_ProfileID (asp_Key p), vk_Platform (ak_Vacancy (asp_Key p)),
      vk_ExternalID (ak_Vacancy (asp_Key p))}. utf8_ValidString t"
  shows "raw_wf (submit_payload_json p)" and "json_depth (submit_payload_json p) \<le> maxNestingDepth"
proof -
  have "utf8_ValidString t" if "t \<in> {''application_id'', ''key'', ''profile_id'', ''vacancy'', ''platform'', ''external_id''}" for t
    using that by (elim insertE) (simp_all add: utf8_ascii less_char_def)
  then show "raw_wf (submit_payload_json p)" using assms by (simp add: submit_payload_json_def)
qed (simp add: submit_payload_json_def maxNestingDepth_def)

lemma payload_reads_back:
  assumes "\<forall>t \<in> {asp_ApplicationID p, ak_ProfileID (asp_Key p), vk_Platform (ak_Vacancy (asp_Key p)),
      vk_ExternalID (ak_Vacancy (asp_Key p))}. utf8_ValidString t"
  shows "decode_submit_payload (encode_submit_payload p) = Some p"
proof -
  have "json_parse (encode_submit_payload p) = Some (submit_payload_json p)"
    unfolding encode_submit_payload_def by (intro json_parse_raw submit_payload_wf assms)
  then show ?thesis
    by (simp add: decode_submit_payload_def decode_struct_def submit_payload_json_def submit_payload_fields_def
        application_key_fields_def vacancy_key_fields_def json_field_def string_field_def struct_field_def zero_SubmitPayload_def)
qed

section \<open>The application's runs\<close>

text \<open>
  What happens to the repository while the program runs: the handler of submissions works on a
  task, an application is created under a new identifier, one is reset for a retry, and the rest
  of the world changes at will. The handler is one for the whole run; its interfaces are
  functions of the outside world.
\<close>

inductive submission_run :: "('x, 'p) Handler \<Rightarrow> 'x World \<Rightarrow> bool" for h where
  started: "submission_run h \<lparr>hw_apps = [], hw_vacancies = vs, hw_budgets = [], hw_paces = [], hw_activities = acts,
    hw_calls = [], hw_ext = x\<rparr>"
| handled: "submission_run h w \<Longrightarrow> submission_run h (snd (Handle h task w))"
| created: "submission_run h w \<Longrightarrow> NewApplication i key now = Inr a \<Longrightarrow> i \<notin> app_ID ` snd ` set (hw_apps w)
    \<Longrightarrow> submission_run h (w\<lparr>hw_apps := snd (CreateApplication ctx a tombstones (hw_apps w))\<rparr>)"
| retried: "submission_run h w \<Longrightarrow> map_of (hw_apps w) k = Some a \<Longrightarrow> Application_ResetForRetry now a = Inr b
    \<Longrightarrow> submission_run h (w\<lparr>hw_apps := snd (SaveApplication ctx b (app_Status a) (hw_apps w))\<rparr>)"
| changed: "submission_run h w \<Longrightarrow> submission_run h (w\<lparr>hw_vacancies := vs, hw_activities := acts, hw_ext := x\<rparr>)"

lemma world_ok_start: "world_ok \<lparr>hw_apps = [], hw_vacancies = vs, hw_budgets = [], hw_paces = ps, hw_activities = acts,
    hw_calls = [], hw_ext = x\<rparr>"
  by (simp add: world_ok_def apps_ok_def budgets_inv_Nil)

lemma no_calls_before:
  assumes "world_ok w" and "map_of (hw_apps w) k = None"
  shows "direct_calls k (hw_calls w) = 0"
  using world_okD(5) [OF assms(1)] assms(2) by (fastforce simp: direct_calls_def filter_empty_conv)

lemma NewApplication_Inr:
  "NewApplication i key now = Inr a \<Longrightarrow> app_ID a = i \<and> app_Key a = key \<and> app_Status a = ApplicationNew \<and> app_Attempts a = 0"
  by (auto simp: NewApplication_def split: if_splits option.splits)

lemma world_ok_create:
  assumes "world_ok w" and "NewApplication i key now = Inr a" and "i \<notin> app_ID ` snd ` set (hw_apps w)"
  shows "world_ok (w\<lparr>hw_apps := snd (CreateApplication ctx a tombstones (hw_apps w))\<rparr>)"
proof -
  note new = NewApplication_Inr [OF assms(2)] and ok = world_okD [OF assms(1)]
  have other: "app_ID b \<noteq> app_ID a" if "map_of (hw_apps w) k = Some b" for k b
    using assms(3) new map_of_SomeD [OF that] by (metis image_eqI snd_conv)
  have "world_ok (w\<lparr>hw_apps := AList.update key a (hw_apps w)\<rparr>)" if "map_of (hw_apps w) key = None"
  proof -
    have "apps_ok (AList.update key a (hw_apps w))"
      using ok(1) new other other [symmetric] unfolding apps_ok_def by auto
    then show ?thesis
      using ok no_calls_before [OF assms(1) that] new unfolding world_ok_def by auto
  qed
  then show ?thesis
    using assms(1) new by (auto simp: CreateApplication_def split: option.splits)
qed

lemma Reset_Inr:
  assumes "Application_ResetForRetry now a = Inr b"
  shows "app_ID b = app_ID a \<and> app_Key b = app_Key a \<and> app_Status b = ApplicationReady \<and> app_Attempts b = app_Attempts a"
  using assms by (auto simp: Application_ResetForRetry_def split: if_splits sum.splits dest: Application_Transition_Inr)

lemma world_ok_retry:
  assumes "world_ok w" and "map_of (hw_apps w) k = Some a" and "Application_ResetForRetry now a = Inr b"
  shows "world_ok (w\<lparr>hw_apps := snd (SaveApplication ctx b (app_Status a) (hw_apps w))\<rparr>)"
proof -
  note reset = Reset_Inr [OF assms(3)] and key = world_okD(6) [OF assms(1,2)]
  have "world_ok (w\<lparr>hw_apps := AList.update (app_Key b) b (hw_apps w)\<rparr>)"
    using world_ok_put [OF assms(1), of b a] world_okD(4) [OF assms(1,2)] assms(2) reset key
    by (simp add: fits_def stored_def)
  then show ?thesis
    using assms(1) by (auto simp: SaveApplication_def split: option.splits)
qed

lemma submission_run_ok: "submission_run h w \<Longrightarrow> world_ok w"
proof (induction rule: submission_run.induct)
  case (changed w vs acts x)
  then show ?case by (simp add: world_ok_def)
qed (simp_all add: world_ok_start Handle_good world_ok_create world_ok_retry)

section \<open>A run worked out\<close>

definition sample_vacancy :: Vacancy where
  "sample_vacancy = \<lparr>vac_Platform = ''hh'', vac_ExternalID = ''42'', vac_URL = [], vac_Title = ''Engineer'', vac_Employer = [],
     vac_State = VacancyStateOpen, vac_PublishedAt = None, vac_ObservedAt = 90, vac_Attributes = []\<rparr>"

definition sample_transport :: "(error + ApplicationSubmitResult) \<Rightarrow> int Transport" where
  "sample_transport outcome = \<lparr>tr_Submit = \<lambda>command x. (outcome, x), tr_Reconcile = None, tr_SkipPreflight = Some (\<lambda>profileID. True),
     tr_VacancyReader = Some (\<lambda>profileID key x. (Inr sample_vacancy, x)), tr_SuitableResumes = None\<rparr>"

definition sample_submit_plan :: "(int, unit) ApplicationPlan" where
  "sample_submit_plan = \<lparr>plan_ResumeID = ''r1'', plan_Message = [], plan_Preparer = None, plan_Mode = ExecutionSubmit,
     plan_DailyLimit = 1, plan_SubmitJitterMin = 1, plan_SubmitJitterMax = 1, plan_Timezone = ''UTC'',
     plan_Tailoring = None, plan_SkipValidation = False\<rparr>"

text \<open>The outside world is a clock.\<close>

definition sample_handler :: "(error + ApplicationSubmitResult) \<Rightarrow> (int, unit) Handler" where
  "sample_handler outcome = \<lparr>ah_Err = \<lambda>x. None, ah_Now = \<lambda>x. (x, x + 1),
     ah_registry = snd (RegisterTransport ''main'' (sample_transport outcome) NewRegistry),
     ah_plans = \<lambda>application x. (Inr sample_submit_plan, x), ah_zones = \<lambda>name. Inr (\<lambda>t. (1, 1000)),
     ah_jitter = \<lambda>least most x. (least, x), ah_wait = \<lambda>d x. (None, x), ah_tailoring = None,
     ah_testAttempts = None, ah_testChain = None\<rparr>"

lemma sample_a1 [simp]: "TrimSpace ''a1'' = ''a1''" "TrimSpace ''r1'' = ''r1''"
  by (simp_all add: TrimSpace_id space_heads_def space_lasts_def)

lemma sample_route [simp]:
  "ResolveTransport (ah_registry (sample_handler o')) ''main'' = Inr (sample_transport o')"
  "ResolveVacancyReader (ah_registry (sample_handler o')) ''main'' = Inr (\<lambda>profileID key x. (Inr sample_vacancy, x))"
  "ResolveBrowserSubmitter (ah_registry (sample_handler o')) ''main'' = None"
  by (simp_all add: sample_handler_def RegisterTransport_def NewRegistry_def sample_transport_def put_some_def
      ResolveTransport_def ResolveVacancyReader_def ResolveBrowserSubmitter_def)

lemma sample_parts [simp]:
  "ah_Err (sample_handler o') x = None" "ah_Now (sample_handler o') x = (x, x + 1)" "ah_plans (sample_handler o') a x = (Inr sample_submit_plan, x)"
  "ah_zones (sample_handler o') z = Inr (\<lambda>t. (1, 1000))" "ah_jitter (sample_handler o') d e x = (d, x)" "ah_tailoring (sample_handler o') = None"
  "ah_testAttempts (sample_handler o') = None" "ah_testChain (sample_handler o') = None"
  by (simp_all add: sample_handler_def)

lemma sample_vacancy_Key [simp]: "Vacancy_Key sample_vacancy = ak_Vacancy sample_key" "vac_Platform sample_vacancy = ''hh''"
   "vac_ObservedAt sample_vacancy = 90" "Vacancy_Validate sample_vacancy = None"
   "ak_ProfileID sample_key = ''main''" "vk_Platform (ak_Vacancy sample_key) = ''hh''"
  by (simp_all add: Vacancy_Key_def sample_vacancy_def sample_key_def Vacancy_Validate_def VacancyKey_Validate_def)

lemma sample_record: "\<exists>acts. recordProfileActivity None ''hh'' ''main'' [] ActivityVacancyInspected ''a1'' 90 [] = (None, acts)"
proof -
  have trim: "TrimSpace [] = []" by (simp add: TrimSpace_def)
  show ?thesis
    by (simp add: recordProfileActivity_def NewProfileActivityRecord_def RecordProfileActivity_def ActivityRecord_Validate_def
        trim Let_def)
qed

definition sample_preparing :: Application where
  "sample_preparing = sample_application\<lparr>app_Status := ApplicationPreparing\<rparr>"

lemma sample_preparing_sel [simp]: "app_Key sample_preparing = sample_key" "app_ID sample_preparing = ''a1''"
  "app_Status sample_preparing = ApplicationPreparing" "app_UpdatedAt sample_preparing = 100" "app_PreparedAt sample_preparing = None"
  by (simp_all add: sample_preparing_def sample_application_def)

lemma sample_load:
  assumes "hw_vacancies w = []" and "hw_activities w = []"
  shows "\<exists>acts. loadFullVacancy (sample_handler o') sample_preparing w =
    (Inr sample_vacancy, w\<lparr>hw_vacancies := [(ak_Vacancy sample_key, sample_vacancy)], hw_activities := acts\<rparr>)"
proof -
  obtain acts where "recordProfileActivity None ''hh'' ''main'' [] ActivityVacancyInspected ''a1'' 90 [] = (None, acts)"
    using sample_record by blast
  then show ?thesis
    using assms by (intro exI [of _ acts]) (simp add: loadFullVacancy_def app_profile_def on_ext_def UpsertVacancy_def ctx_of_def record_activity_def)
qed

definition sample_prepared :: Application where
  "sample_prepared = sample_preparing\<lparr>app_DecisionCode := ''qualified'',
     app_DecisionReason := ''vacancy passed platform preflight'', app_PreparedResumeID := ''r1'', app_PreparedAt := Some 100,
     app_UpdatedAt := 100\<rparr>"

lemma sample_transport_sel [simp]: "tr_SkipPreflight (sample_transport o') = Some (\<lambda>profileID. True)"
  "tr_Submit (sample_transport o') command x = (o', x)"
  by (simp_all add: sample_transport_def)

lemma sample_plan_sel [simp]: "plan_ResumeID sample_submit_plan = ''r1''" "plan_Mode sample_submit_plan = ExecutionSubmit"
  "plan_Preparer sample_submit_plan = None" "plan_Message sample_submit_plan = []" "plan_DailyLimit sample_submit_plan = 1"
  "plan_SubmitJitterMin sample_submit_plan = 1" "plan_SubmitJitterMax sample_submit_plan = 1" "plan_Tailoring sample_submit_plan = None"
  "plan_SkipValidation sample_submit_plan = False" "plan_Timezone sample_submit_plan = ''UTC''"
  by (simp_all add: sample_submit_plan_def)

lemma sample_preflight: "applicationPlatformPreflight sample_vacancy False = None"
  "vacancyAttributeBool sample_vacancy k = False"
  by (simp_all add: applicationPlatformPreflight_def sample_vacancy_def vacancyAttributeBool_def attribute_def vacancyHasString_def
      vacancyHasNonEmptyAttribute_def)

lemma sample_decide: "decide (sample_handler o') sample_submit_plan sample_preparing sample_vacancy w
    = (Inr (plain_preparation sample_submit_plan, ''r1''), w)"
  by (simp add: decide_def testContinues_def sample_preflight resume_stage_def applicationResumePreflight_def
      transport_skips_preflight_def app_profile_def plain_preparation_def require_letter_def)

lemma sample_preparation: "Preparation_Validate (plain_preparation sample_submit_plan) = None"
  "RecordPreparationWithProvenance (prep_Code (plain_preparation sample_submit_plan)) (prep_Reason (plain_preparation sample_submit_plan))
     ''r1'' (prep_Message (plain_preparation sample_submit_plan)) (prep_Provenance (plain_preparation sample_submit_plan)) 100 sample_preparing
   = Inr sample_prepared"
proof -
  have trims: "TrimSpace ''qualified'' = ''qualified''" "TrimSpace ''vacancy passed platform preflight'' = ''vacancy passed platform preflight''"
    "TrimSpace [] = []"
    by (simp_all add: TrimSpace_id space_heads_def space_lasts_def)
  show "Preparation_Validate (plain_preparation sample_submit_plan) = None"
    by (simp add: Preparation_Validate_def plain_preparation_def trims utf8_ascii RuneCount_def Provenance_IsZero_def maximumApplicationMessageRunes_def)
  show "RecordPreparationWithProvenance (prep_Code (plain_preparation sample_submit_plan)) (prep_Reason (plain_preparation sample_submit_plan))
     ''r1'' (prep_Message (plain_preparation sample_submit_plan)) (prep_Provenance (plain_preparation sample_submit_plan)) 100 sample_preparing
   = Inr sample_prepared"
    by (simp add: RecordPreparationWithProvenance_def plain_preparation_def trims Let_def Provenance_IsZero_def sample_prepared_def)
      (simp add: sample_preparing_def sample_application_def)
qed

lemma sample_prepare:
  assumes "hw_vacancies w = []" and "hw_activities w = []"
  shows "\<exists>acts. prepare (sample_handler o') sample_submit_plan ApplicationNew 100 sample_preparing w =
    (Inr sample_prepared, w\<lparr>hw_vacancies := [(ak_Vacancy sample_key, sample_vacancy)], hw_activities := acts\<rparr>)"
proof -
  obtain acts where load: "loadFullVacancy (sample_handler o') sample_preparing w =
    (Inr sample_vacancy, w\<lparr>hw_vacancies := [(ak_Vacancy sample_key, sample_vacancy)], hw_activities := acts\<rparr>)"
    using sample_load assms by blast
  show ?thesis
    by (intro exI [of _ acts], simp add: prepare_def load sample_decide sample_preparation settle_preparation_def)
      (simp add: plain_preparation_def)
qed


definition sample_submission :: Task where
  "sample_submission = \<lparr>task_ID = ''t1'', task_Type = TaskApplicationSubmit, task_Status = TaskProcessing,
     task_IdempotencyKey = ''i'', task_Source = [], task_Platform = ''hh'', task_ProfileID = ''main'', task_CorrelationID = [],
     task_Payload = encode_submit_payload \<lparr>asp_ApplicationID = ''a1'', asp_Key = sample_key\<rparr>, task_Priority = 0,
     task_Attempts = 1, task_AvailableAt = 100, task_Deadline = None, task_CreatedAt = 100, task_UpdatedAt = 100,
     task_Failure = None\<rparr>"

lemma sample_payload: "decode_submit_payload (task_Payload sample_submission) = Some \<lparr>asp_ApplicationID = ''a1'', asp_Key = sample_key\<rparr>"
proof -
  have "utf8_ValidString t" if "t \<in> {''a1'', ''main'', ''hh'', ''42''}" for t
    using that by (elim insertE) (simp_all add: utf8_ascii less_char_def)
  then show ?thesis
    using payload_reads_back [of "\<lparr>asp_ApplicationID = ''a1'', asp_Key = sample_key\<rparr>"]
    by (simp add: sample_submission_def sample_key_def)
qed

lemma sample_Handle:
  assumes "map_of (hw_apps w) sample_key = Some a" and "app_ID a = ''a1''"
  shows "Handle (sample_handler o') sample_submission w = handle_stored (sample_handler o') sample_submission a w"
  using assms
  by (simp add: Handle_def sample_payload SubmitPayload_Validate_def sample_key_valid GetApplication_def ctx_of_def)

text \<open>The slots are free, and the application goes live.\<close>

definition sample_slot_taken :: Budgets where
  "sample_slot_taken = [(''a1'', \<lparr>br_ApplicationID = ''a1'', br_ProfileID = ''main'', br_Platform = ''hh'', br_WindowStart = 1,
     br_WindowEnd = 1000, br_Limit = 1, br_State = BudgetReserved, br_CreatedAt = 100, br_UpdatedAt = 100\<rparr>)]"

definition sample_paced :: Paces where
  "sample_paced = [(''a1'', \<lparr>pr_ApplicationID = ''a1'', pr_ProfileID = ''main'', pr_Platform = ''hh'', pr_ScheduledAt = 100,
     pr_Interval = 1, pr_AcquiredAt = Some 100\<rparr>)]"

definition sample_ready :: Application where
  "sample_ready = sample_prepared\<lparr>app_Status := ApplicationReady\<rparr>"

definition sample_submitting :: Application where
  "sample_submitting = sample_prepared\<lparr>app_Status := ApplicationSubmitting, app_Attempts := 1\<rparr>"

lemma sample_states [simp]:
  "app_ID sample_ready = ''a1''" "app_Key sample_ready = sample_key" "app_ID sample_submitting = ''a1''"
  "app_Key sample_submitting = sample_key" "app_Status sample_submitting = ApplicationSubmitting"
  "app_ID sample_application = ''a1''" "app_Key sample_application = sample_key" "app_Status sample_application = ApplicationNew"
  "app_PreparedAt sample_application = None" "app_UpdatedAt sample_submitting = 100" "app_Attempts sample_submitting = 1"
  "app_PreparedResumeID sample_submitting = ''r1''" "app_Status sample_ready = ApplicationReady"
  by (simp_all add: sample_ready_def sample_submitting_def sample_prepared_def sample_preparing_def sample_application_def)

lemma sample_transitions [simp]:
  "Application_Transition ApplicationPreparing 100 sample_application = Inr sample_preparing"
  "Application_Transition ApplicationReady 100 sample_prepared = Inr sample_ready"
  "Application_Transition ApplicationSubmitting 100 sample_ready = Inr sample_submitting"
  by (simp_all add: Application_Transition_def Let_def sample_ready_def sample_submitting_def sample_prepared_def
      sample_preparing_def sample_application_def)

lemma sample_takes_slot:
  assumes "hw_budgets w = []"
  shows "reserveBudget (sample_handler o') sample_ready sample_submit_plan 100 w = (None, w\<lparr>hw_budgets := sample_slot_taken\<rparr>)"
  using assms
  by (simp add: reserveBudget_def applicationBudgetWindow_def ReserveApplicationBudget_def ReserveParams_Validate_def ctx_of_def
      reserve_slot_def budget_used_def app_profile_def app_platform_def normalizeBudgetError_def sample_slot_taken_def Let_def)

lemma sample_takes_pace:
  assumes "hw_paces w = []"
  shows "acquirePacing (sample_handler o') sample_ready sample_submit_plan 100 w = (None, w\<lparr>hw_paces := sample_paced\<rparr>)"
  using assms
  by (simp add: acquirePacing_def maxPacingWaitAttempts_def numeral_eq_Suc on_ext_def ctx_of_def Let_def AcquireApplicationPace_def
      PaceParams_Validate_def new_pace_def applicationPacingTail_def applicationPacingNextAllowed_def later_of_def
      app_profile_def app_platform_def sample_paced_def)

lemma sample_save:
  assumes "map_of (hw_apps w) sample_key = Some b" and "app_ID b = ''a1''" and "app_Status b = s" and "s \<noteq> ApplicationStatusOther []"
    and "app_ID a = ''a1''" and "app_Key a = sample_key"
  shows "save (sample_handler o') a s w = (None, w\<lparr>hw_apps := AList.update sample_key a (hw_apps w)\<rparr>)"
  using assms by (simp add: save_def SaveApplication_def ctx_of_def sample_key_valid)

lemma sample_go_live:
  assumes "hw_budgets w = []" and "hw_paces w = []" and "hw_apps w = [(sample_key, sample_application)]"
  shows "go_live (sample_handler o') sample_submission sample_submit_plan ApplicationNew 100 sample_ready w
    = submit (sample_handler o') sample_submission sample_submit_plan sample_submitting
        (w\<lparr>hw_budgets := sample_slot_taken, hw_paces := sample_paced, hw_apps := [(sample_key, sample_submitting)]\<rparr>)"
  using assms
  by (simp add: go_live_def sample_takes_slot sample_takes_pace applyTailoring_def with_transition_def
      sample_save [where b = sample_application] and_then_def)

lemma sample_goes_live:
  assumes "hw_budgets w = []" and "hw_paces w = []" and "hw_apps w = [(sample_key, sample_application)]"
    and "hw_vacancies w = []" and "hw_activities w = []" and "hw_ext w = 100"
  shows "\<exists>vs acts. Handle (sample_handler o') sample_submission w
    = submit (sample_handler o') sample_submission sample_submit_plan sample_submitting
        (w\<lparr>hw_apps := [(sample_key, sample_submitting)], hw_vacancies := vs, hw_budgets := sample_slot_taken,
           hw_paces := sample_paced, hw_activities := acts, hw_ext := 101\<rparr>)"
proof -
  obtain acts where prepared: "prepare (sample_handler o') sample_submit_plan ApplicationNew 100 sample_preparing (w\<lparr>hw_ext := 101\<rparr>) =
    (Inr sample_prepared, w\<lparr>hw_ext := 101, hw_vacancies := [(ak_Vacancy sample_key, sample_vacancy)], hw_activities := acts\<rparr>)"
    using sample_prepare [of "w\<lparr>hw_ext := 101\<rparr>" o'] assms by auto
  have ready: "app_Status sample_prepared = ApplicationPreparing" by (simp add: sample_prepared_def)
  show ?thesis
    using assms
    by (simp add: sample_Handle handle_stored_def proceed_def on_ext_def with_transition_def proceed_with_def prepared
        execute_plan_def ready sample_go_live)
      (intro exI [of _ "[(ak_Vacancy sample_key, sample_vacancy)]"] exI [of _ acts], cases w, simp)
qed

definition sample_success :: "error + ApplicationSubmitResult" where
  "sample_success = Inr \<lparr>res_ExternalNegotiationID = ''n1'', res_Applied = True, res_AlreadyApplied = False\<rparr>"

definition sample_sent :: Application where
  "sample_sent = sample_submitting\<lparr>app_Status := ApplicationSubmitted, app_UpdatedAt := 101,
     app_ExternalNegotiationID := ''n1'', app_SubmittedAt := Some 101\<rparr>"

lemma sample_submit:
  assumes "hw_apps w = [(sample_key, sample_submitting)]" and "hw_ext w = 101"
  shows "hw_apps (snd (submit (sample_handler sample_success) sample_submission sample_submit_plan sample_submitting w))
      = [(sample_key, sample_sent)]"
    and "length (hw_calls (snd (submit (sample_handler sample_success) sample_submission sample_submit_plan sample_submitting w)))
      = Suc (length (hw_calls w))"
proof -
  have transition: "Application_Transition ApplicationSubmitted 101 (sample_submitting\<lparr>app_ExternalNegotiationID := ''n1'',
      app_FailureCategory := NoCategory, app_FailureMessage := []\<rparr>) = Inr sample_sent"
    by (simp add: Application_Transition_def sample_sent_def sample_submitting_def sample_prepared_def
        sample_preparing_def sample_application_def)
  have keys: "app_ID sample_sent = ''a1''" "app_Key sample_sent = sample_key" by (simp_all add: sample_sent_def)
  obtain command where "submit (sample_handler sample_success) sample_submission sample_submit_plan sample_submitting w
    = (let w' = remember (DirectCall command) sample_key w in
       finish_submit (sample_handler sample_success) sample_submit_plan sample_submitting
         \<lparr>res_ExternalNegotiationID = ''n1'', res_Applied = True, res_AlreadyApplied = False\<rparr> w')"
    by (simp add: submit_def beginTailoringSubmit_def app_profile_def on_ext_def Let_def sample_success_def remember_def)
  then show "hw_apps (snd (submit (sample_handler sample_success) sample_submission sample_submit_plan sample_submitting w))
      = [(sample_key, sample_sent)]"
    and "length (hw_calls (snd (submit (sample_handler sample_success) sample_submission sample_submit_plan sample_submitting w)))
      = Suc (length (hw_calls w))"
    using assms keys
    by (simp_all add: Let_def finish_submit_def on_ext_def remember_def with_transition_def transition and_then_def
        sample_save [where b = sample_submitting] settle_frame)
qed

text \<open>A run in which an application was submitted.\<close>

definition sample_created :: "int World" where
  "sample_created = \<lparr>hw_apps = [(sample_key, sample_application)], hw_vacancies = [], hw_budgets = [], hw_paces = [],
     hw_activities = [], hw_calls = [], hw_ext = 100\<rparr>"

lemma sample_created_run: "submission_run (sample_handler o') sample_created"
proof -
  have "submission_run (sample_handler o') (sample_created\<lparr>hw_apps := []\<rparr>)"
    using started [of "sample_handler o'" "[]" "[]" 100] by (simp add: sample_created_def)
  from created [OF this NewApplication_sample, of None "[]"] show ?thesis
    by (simp add: sample_created_def CreateApplication_def sample_key_valid) (simp add: sample_application_def)
qed

lemma sample_sent_run:
  obtains w where "submission_run (sample_handler sample_success) w" "hw_apps w = [(sample_key, sample_sent)]"
    "length (hw_calls w) = 1"
proof -
  let ?h = "sample_handler sample_success"
  obtain vs acts where run: "Handle ?h sample_submission sample_created = submit ?h sample_submission sample_submit_plan sample_submitting
      (sample_created\<lparr>hw_apps := [(sample_key, sample_submitting)], hw_vacancies := vs, hw_budgets := sample_slot_taken,
         hw_paces := sample_paced, hw_activities := acts, hw_ext := 101\<rparr>)"
    using sample_goes_live [of sample_created sample_success] by (auto simp: sample_created_def)
  show ?thesis
    by (rule that [OF handled [OF sample_created_run, of sample_success sample_submission]]; unfold run, subst sample_submit)
      (simp_all add: sample_created_def)
qed

end
