(* ===== verification/Submission_Props.thy ===== *)
theory Submission_Props
  imports Submission_Run
begin

text \<open>
  The properties of the submission handler: no application is submitted again once its
  submission settled, is in flight or was lost; a submission is made only with the slots of the
  budget and of the pacing in hand; a day's limit holds for all that may have reached the
  platform; dry runs and approvals never submit; and the payload of a task reads back.
\<close>

section \<open>The payload\<close>

text \<open>
  C38. A task's payload reads back. The workflow that enqueues a submission encodes the
  application's identity as JSON, and the handler decodes the same identity from it, whatever the
  texts hold as long as they are valid UTF-8.
\<close>

theorem submit_payload_roundtrip:
  assumes "\<forall>t \<in> {asp_ApplicationID p, ak_ProfileID (asp_Key p), vk_Platform (ak_Vacancy (asp_Key p)),
      vk_ExternalID (ak_Vacancy (asp_Key p))}. utf8_ValidString t"
  shows "decode_submit_payload (encode_submit_payload p) = Some p"
  by (rule payload_reads_back [OF assms])

theorem submit_payload_roundtrip_witness:
  "decode_submit_payload (encode_submit_payload \<lparr>asp_ApplicationID = ''a1'', asp_Key = sample_key\<rparr>)
     = Some \<lparr>asp_ApplicationID = ''a1'', asp_Key = sample_key\<rparr>"
proof (rule submit_payload_roundtrip)
  have "utf8_ValidString t" if "t \<in> {''a1'', ''main'', ''hh'', ''42''}" for t
    using that by (elim insertE) (simp_all add: utf8_ascii less_char_def)
  then show "\<forall>t \<in> {asp_ApplicationID \<lparr>asp_ApplicationID = ''a1'', asp_Key = sample_key\<rparr>,
      ak_ProfileID (asp_Key \<lparr>asp_ApplicationID = ''a1'', asp_Key = sample_key\<rparr>),
      vk_Platform (ak_Vacancy (asp_Key \<lparr>asp_ApplicationID = ''a1'', asp_Key = sample_key\<rparr>)),
      vk_ExternalID (ak_Vacancy (asp_Key \<lparr>asp_ApplicationID = ''a1'', asp_Key = sample_key\<rparr>))}. utf8_ValidString t"
    by (simp add: sample_key_def)
qed

section \<open>Safety\<close>

text \<open>
  C3. No submission without its slots. Whenever the handler submits an application, in any run,
  the repository has it stored as being submitted at that moment, it holds a slot of the daily
  budget that is not released, and the pacing let it pass.
\<close>

theorem submission_holds_slots:
  assumes "submission_run h w" and "c \<in> set (hw_calls w)"
  shows "\<exists>a. map_of (call_Apps c) (call_Key c) = Some a \<and> app_Status a = ApplicationSubmitting
    \<and> holds_slot a (call_Budgets c) \<and> holds_pace a (call_Paces c)"
  using world_okD(5) [OF submission_run_ok [OF assms(1)] assms(2)] by (auto simp: call_ok_def split: option.splits)

theorem submission_holds_slots_witness:
  "\<exists>w c. submission_run (sample_handler sample_success) w \<and> c \<in> set (hw_calls w) \<and>
     (\<exists>a. map_of (call_Apps c) (call_Key c) = Some a \<and> app_Status a = ApplicationSubmitting
        \<and> holds_slot a (call_Budgets c) \<and> holds_pace a (call_Paces c))"
proof -
  obtain w where w: "submission_run (sample_handler sample_success) w" "length (hw_calls w) = 1"
    using sample_sent_run by blast
  then obtain c where "c \<in> set (hw_calls w)" by (cases "hw_calls w") auto
  with submission_holds_slots [OF w(1) this] w(1) show ?thesis by blast
qed

text \<open>
  Submissions are counted. In any run, an application was submitted by its transport at most
  as often as its stored number of attempts says, so that a submission is never made unrecorded.
\<close>

theorem attempts_count_submissions:
  assumes "submission_run h w" and "map_of (hw_apps w) k = Some a"
  shows "int (direct_calls k (hw_calls w)) \<le> app_Attempts a"
  using world_okD(4) [OF submission_run_ok [OF assms(1)] assms(2)] .

theorem attempts_count_submissions_witness:
  "\<exists>w. submission_run (sample_handler sample_success) w \<and> length (hw_calls w) = 1 \<and>
     int (direct_calls sample_key (hw_calls w)) \<le> app_Attempts sample_sent"
proof -
  obtain w where w: "submission_run (sample_handler sample_success) w" "hw_apps w = [(sample_key, sample_sent)]"
    "length (hw_calls w) = 1"
    using sample_sent_run by blast
  have "map_of (hw_apps w) sample_key = Some sample_sent" using w(2) by simp
  from attempts_count_submissions [OF w(1) this] w(1,3) show ?thesis by blast
qed








section \<open>Nothing is submitted twice\<close>

text \<open>The statuses from which the handler alone never submits.\<close>

definition rests :: "ApplicationStatus \<Rightarrow> bool" where
  "rests s \<longleftrightarrow> s \<in> {ApplicationSubmitting, ApplicationPendingReconcile, ApplicationSubmitted, ApplicationFailed,
     ApplicationSkipped, ApplicationDryRun, ApplicationWaitingApproval}"

definition calls_for :: "ApplicationKey \<Rightarrow> 'x World \<Rightarrow> call_record list" where
  "calls_for k w = filter (\<lambda>c. call_Key c = k) (hw_calls w)"

definition keeps_resting :: "ApplicationKey \<Rightarrow> 'x World \<Rightarrow> 'x World \<Rightarrow> bool" where
  "keeps_resting k w w' \<longleftrightarrow> hw_calls w' = hw_calls w
     \<and> (\<exists>b. map_of (hw_apps w') k = Some b \<and> (map_of (hw_apps w) k = Some b \<or> rests (app_Status b)))"

lemma same_calls_apps:
  "hw_calls w' = hw_calls w \<Longrightarrow> hw_apps w' = hw_apps w \<Longrightarrow> map_of (hw_apps w) k \<noteq> None \<Longrightarrow> keeps_resting k w w'"
  by (auto simp: keeps_resting_def)

lemma rests_after_save:
  assumes "map_of (hw_apps w) k \<noteq> None" and "app_Key a = k" and "rests (app_Status a)"
    and "\<And>w'. hw_calls (snd (f w')) = hw_calls w' \<and> hw_apps (snd (f w')) = hw_apps w'"
  shows "keeps_resting k w (snd (and_then (save h a expected w) f))"
proof (rule save_cases [of h a expected w])
  fix b
  let ?w = "w\<lparr>hw_apps := AList.update (app_Key a) a (hw_apps w)\<rparr>"
  assume "save h a expected w = (None, ?w)"
  moreover have "map_of (hw_apps ?w) k = Some a" using assms(2) by simp
  ultimately show ?thesis using assms(3) assms(4) [of ?w] by (simp add: keeps_resting_def and_then_def)
qed (use assms(1) in \<open>auto simp: keeps_resting_def and_then_def\<close>)

lemma rests_core: "same_core w w1 \<Longrightarrow> keeps_resting k w1 w' \<Longrightarrow> keeps_resting k w w'"
  by (simp add: keeps_resting_def same_core_def)

lemma rests_transition:
  assumes "map_of (hw_apps w) k \<noteq> None"
    and "\<And>b. Application_Transition to now a = Inr b \<Longrightarrow> keeps_resting k w (snd (f b))"
  shows "keeps_resting k w (snd (with_transition to now a w f))"
  using assms by (auto simp: with_transition_def keeps_resting_def split: sum.splits)

lemma interrupted_rests:
  assumes "map_of (hw_apps w) k = Some a" and "app_Key a = k"
  shows "keeps_resting k w (snd (interrupted h a w))"
proof -
  obtain now w1 where 1: "on_ext (ah_Now h) w = (now, w1)" by fastforce
  have present: "map_of (hw_apps w1) k \<noteq> None" using on_extE [OF 1] assms(1) by (simp add: same_core_def)
  show ?thesis
    unfolding interrupted_def 1 prod.case
    by (rule rests_core [OF on_extE [OF 1]], rule rests_transition [OF present], rule rests_after_save [OF present])
      (use assms(2) Application_Transition_Inr in \<open>auto simp: rests_def\<close>)
qed

lemma reconcile_rests:
  assumes "map_of (hw_apps w) k = Some a" and "app_Key a = k"
  shows "keeps_resting k w (snd (reconcile h a w))"
proof -
  have here: "same_core w w' \<Longrightarrow> keeps_resting k w (snd (e, w'))" for e :: "error option" and w'
    using assms(1) by (simp add: keeps_resting_def same_core_def)
  have applied: "keeps_resting k w (snd (with_transition ApplicationSubmitted now (a\<lparr>app_ExternalNegotiationID := n\<rparr>) w' (\<lambda>a.
      and_then (save h a ApplicationPendingReconcile w') (settle_submitted h a now))))"
    if "same_core w w'" for now n w'
  proof -
    have present: "map_of (hw_apps w') k \<noteq> None" using that assms(1) by (simp add: same_core_def)
    show ?thesis
      by (rule rests_core [OF that], rule rests_transition [OF present], rule rests_after_save [OF present])
        (use assms(2) Application_Transition_Inr settle_frame in \<open>fastforce simp: rests_def\<close>)+
  qed
  have refused: "keeps_resting k w (snd (and_then (save h b ApplicationPendingReconcile w') (settle_released h b now)))"
    if "same_core w w'" and "Application_Fail oe now a = Inr b" for oe now w' b
  proof -
    have present: "map_of (hw_apps w') k \<noteq> None" using that(1) assms(1) by (simp add: same_core_def)
    have "app_Key b = k \<and> app_Status b = ApplicationFailed"
      using that(2) assms(2) by (auto simp: Application_Fail_def split: option.splits sum.splits dest: Application_Transition_Inr)
    then show ?thesis
      by (intro rests_core [OF that(1)] rests_after_save [OF present]) (auto simp: rests_def settle_frame)
  qed
  obtain r1 w1 where 1: "on_ext (ah_plans h a) w = (r1, w1)" by fastforce
  note core1 = on_extE [OF 1]
  show ?thesis
  proof (cases r1)
    case (Inr plan)
    define command where "command = \<lparr>rcmd_ProfileID = app_profile a, rcmd_Vacancy = ak_Vacancy (app_Key a),
      rcmd_ResumeID = preparedResumeID a plan\<rparr>"
    have asked: "keeps_resting k w (snd (case on_ext (reconciler command) w1 of
        (Inl e, w) \<Rightarrow> (Some e, w)
      | (Inr result, w) \<Rightarrow>
          (case on_ext (ah_Now h) w of (now, w) \<Rightarrow>
            if rres_Applied result
            then with_transition ApplicationSubmitted now
                   (a\<lparr>app_ExternalNegotiationID := rres_ExternalNegotiationID result\<rparr>) w (\<lambda>a.
                   and_then (save h a ApplicationPendingReconcile w) (settle_submitted h a now))
            else (case Application_Fail (Some (reconcile_failure a)) now a of Inl e \<Rightarrow> (Some e, w)
                  | Inr a \<Rightarrow> and_then (save h a ApplicationPendingReconcile w) (settle_released h a now)))))" for reconciler
    proof -
      obtain r2 w2 where 2: "on_ext (reconciler command) w1 = (r2, w2)" by fastforce
      obtain now w3 where 3: "on_ext (ah_Now h) w2 = (now, w3)" by fastforce
      have core2: "same_core w w2" using same_core_trans [OF core1 on_extE [OF 2]] .
      have core3: "same_core w w3" using same_core_trans [OF core2 on_extE [OF 3]] .
      show ?thesis
        using here [OF core2] here [OF core3] applied [OF core3] refused [OF core3]
        by (auto simp: 2 3 split: sum.splits)
    qed
    show ?thesis
      using here [OF core1] asked by (auto simp: reconcile_def 1 Inr command_def split: sum.splits option.splits)
  qed (use here [OF core1] in \<open>simp add: reconcile_def 1\<close>)
qed

lemma handle_stored_rests:
  assumes "map_of (hw_apps w) k = Some a" and "app_Key a = k" and "rests (app_Status a)"
  shows "keeps_resting k w (snd (handle_stored h task a w))"
proof -
  obtain now w1 where 1: "on_ext (ah_Now h) w = (now, w1)" by fastforce
  note core = on_extE [OF 1]
  have "keeps_resting k w (snd (settle_submitted h a now w1))" "keeps_resting k w (snd (settle_released h a now w1))"
    using assms(1) core settle_frame(1) [of h a now w1] settle_frame(2) [of h a now w1]
    by (auto simp: same_core_def intro!: same_calls_apps)
  then show ?thesis
    using assms interrupted_rests [OF assms(1,2), of h] reconcile_rests [OF assms(1,2), of h]
    by (cases "app_Status a") (auto simp: handle_stored_def 1 rests_def keeps_resting_def)
qed

lemma Handle_rests:
  assumes "world_ok w" and "map_of (hw_apps w) k = Some a" and "rests (app_Status a)"
  shows "calls_for k (snd (Handle h task w)) = calls_for k w"
    and "\<exists>b. map_of (hw_apps (snd (Handle h task w))) k = Some b \<and> (b = a \<or> task_key task = Some k) \<and> rests (app_Status b)"
proof -
  have "calls_for k (snd (Handle h task w)) = calls_for k w \<and>
    (\<exists>b. map_of (hw_apps (snd (Handle h task w))) k = Some b \<and> (b = a \<or> task_key task = Some k) \<and> rests (app_Status b))"
  proof (rule Handle_cases [of h task w])
    fix k' a'
    assume *: "task_key task = Some k'" "map_of (hw_apps w) k' = Some a'" "Handle h task w = handle_stored h task a' w"
    show ?thesis
    proof (cases "k' = k")
      case True
      then have a': "a' = a" using * assms(2) by simp
      have "keeps_resting k w (snd (Handle h task w))"
        using handle_stored_rests [OF assms(2) world_okD(6) [OF assms(1,2)] assms(3)] *(3) a' by simp
      then show ?thesis
        using assms(2,3) *(1) True by (auto simp: keeps_resting_def calls_for_def)
    next
      case False
      obtain k2 where k2: "task_key task = Some k2 \<or> snd (Handle h task w) = w" "only_key k2 w (snd (Handle h task w))"
        using Handle_good(2) [OF assms(1)] by blast
      have "only_key k' w (snd (Handle h task w))"
        using k2 *(1) by auto
      with False show ?thesis
        using assms(2,3) by (auto simp: only_key_def calls_for_def filter_empty_conv)
    qed
  qed (use assms in auto)
  then show "calls_for k (snd (Handle h task w)) = calls_for k w"
    and "\<exists>b. map_of (hw_apps (snd (Handle h task w))) k = Some b \<and> (b = a \<or> task_key task = Some k) \<and> rests (app_Status b)"
    by auto
qed

abbreviation handle_all :: "('x, 'p) Handler \<Rightarrow> Task list \<Rightarrow> 'x World \<Rightarrow> 'x World" where
  "handle_all h tasks w \<equiv> fold (\<lambda>task w. snd (Handle h task w)) tasks w"

text \<open>
  C2. Nothing is submitted twice. Once an application is being submitted, waits to be reconciled,
  was submitted, failed, was skipped, was a dry run or waits for an approval, no sequence of tasks,
  redelivered and interleaved in any order, submits it again. This covers the worker that died in
  the middle of a submission: its task's next delivery finds the status and does not submit.
\<close>

theorem no_resubmission:
  assumes "submission_run h w" and "map_of (hw_apps w) k = Some a" and "rests (app_Status a)"
  shows "calls_for k (handle_all h tasks w) = calls_for k w"
proof -
  have "calls_for k (handle_all h tasks w) = calls_for k w"
    if "world_ok w" "\<exists>a. map_of (hw_apps w) k = Some a \<and> rests (app_Status a)" for w
    using that
  proof (induction tasks arbitrary: w)
    case (Cons task tasks)
    then obtain b where b: "map_of (hw_apps w) k = Some b" "rests (app_Status b)" by blast
    note step = Handle_rests [OF Cons.prems(1) b, of h task]
    show ?case
      using Cons.IH [OF Handle_good(1) [OF Cons.prems(1)], of h task] step by auto
  qed simp
  then show ?thesis using submission_run_ok [OF assms(1)] assms(2,3) by blast
qed

theorem no_resubmission_witness:
  "\<exists>w. submission_run (sample_handler sample_success) w \<and> length (hw_calls w) = 1 \<and>
     calls_for sample_key (handle_all (sample_handler sample_success) [sample_submission, sample_submission] w)
       = calls_for sample_key w"
proof -
  obtain w where w: "submission_run (sample_handler sample_success) w" "hw_apps w = [(sample_key, sample_sent)]"
    "length (hw_calls w) = 1"
    using sample_sent_run by blast
  have "map_of (hw_apps w) sample_key = Some sample_sent" and "rests (app_Status sample_sent)"
    using w(2) by (simp_all add: sample_sent_def rests_def)
  from no_resubmission [OF w(1) this, of "[sample_submission, sample_submission]"] w(1,3) show ?thesis by blast
qed

section \<open>Plans that do not submit\<close>

text \<open>
  A dry run or an approval never submits. Carrying out such a plan leaves the submissions,
  the budget and the pacing as they are; all it may do is store the application as a dry run or
  as waiting for its approval.
\<close>

theorem dry_run_never_submits:
  assumes "plan_Mode plan \<in> {ExecutionDryRun, ExecutionApproval}"
  shows "case snd (execute_plan h task plan expected now a w) of w' \<Rightarrow>
    hw_calls w' = hw_calls w \<and> hw_budgets w' = hw_budgets w \<and> hw_paces w' = hw_paces w \<and>
    (hw_apps w' = hw_apps w \<or> (\<exists>b. map_of (hw_apps w') (app_Key a) = Some b
       \<and> app_Status b = (if plan_Mode plan = ExecutionDryRun then ApplicationDryRun else ApplicationWaitingApproval)))"
proof -
  have saved: "case snd (with_transition to now a w (\<lambda>a. save h a expected w)) of w' \<Rightarrow>
      hw_calls w' = hw_calls w \<and> hw_budgets w' = hw_budgets w \<and> hw_paces w' = hw_paces w \<and>
      (hw_apps w' = hw_apps w \<or> (\<exists>b. map_of (hw_apps w') (app_Key a) = Some b \<and> app_Status b = to))" for to
  proof (cases "Application_Transition to now a")
    case (Inr b)
    note t = Application_Transition_Inr [OF Inr]
    show ?thesis
      by (rule save_cases [of h b expected w]) (use t Inr in \<open>auto simp: with_transition_def\<close>)
  qed (simp add: with_transition_def)
  show ?thesis
    using assms saved [of ApplicationDryRun] saved [of ApplicationWaitingApproval]
    by (auto simp: execute_plan_def)
qed

theorem dry_run_never_submits_witness:
  "case snd (execute_plan (sample_handler sample_success) sample_submission (sample_submit_plan\<lparr>plan_Mode := ExecutionDryRun\<rparr>)
      ApplicationNew 100 sample_prepared sample_created) of w' \<Rightarrow>
    hw_calls w' = hw_calls sample_created \<and> hw_budgets w' = hw_budgets sample_created \<and>
    hw_paces w' = hw_paces sample_created \<and>
    (hw_apps w' = hw_apps sample_created \<or> (\<exists>b. map_of (hw_apps w') (app_Key sample_prepared) = Some b
       \<and> app_Status b = ApplicationDryRun))"
  using dry_run_never_submits [of "sample_submit_plan\<lparr>plan_Mode := ExecutionDryRun\<rparr>" "sample_handler sample_success"
      sample_submission ApplicationNew 100 sample_prepared sample_created] by simp

section \<open>What a failure leaves\<close>

text \<open>
  In the world \<open>w\<close> the application is stored with status \<open>s\<close> and its slot in the state
  \<open>b\<close>.
\<close>

definition settled_as :: "Application \<Rightarrow> ApplicationStatus \<Rightarrow> ApplicationBudgetState \<Rightarrow> 'x World \<Rightarrow> bool" where
  "settled_as a s b w \<longleftrightarrow>
     (case map_of (hw_apps w) (app_Key a) of None \<Rightarrow> False | Some c \<Rightarrow> app_ID c = app_ID a \<and> app_Status c = s)
     \<and> (case map_of (hw_budgets w) (app_ID a) of None \<Rightarrow> False | Some r \<Rightarrow> br_State r = b)"

lemma settled_as_core: "same_core w w' \<Longrightarrow> settled_as a s b w' = settled_as a s b w"
  by (simp add: settled_as_def same_core_def)

text \<open>What a failure's handling needs: a live context, a clock that does not go back, a slot in hand.\<close>

definition can_settle :: "('x, 'p) Handler \<Rightarrow> Application \<Rightarrow> time \<Rightarrow> 'x World \<Rightarrow> bool" where
  "can_settle h a now w \<longleftrightarrow> (\<forall>x. ah_Err h x = None) \<and> \<not> IsZero now \<and> app_UpdatedAt a \<le> now
     \<and> app_ID a \<noteq> [] \<and> ApplicationKey_Validate (app_Key a) = None \<and> app_Status a = ApplicationSubmitting
     \<and> settled_as a ApplicationSubmitting BudgetReserved w
     \<and> (case map_of (hw_budgets w) (app_ID a) of None \<Rightarrow> False | Some r \<Rightarrow> br_UpdatedAt r \<le> now)"

lemma saves_as:
  assumes "can_settle h a now w" and "app_ID b = app_ID a" and "app_Key b = app_Key a"
  shows "save h b ApplicationSubmitting w = (None, w\<lparr>hw_apps := AList.update (app_Key a) b (hw_apps w)\<rparr>)"
    and "settled_as a (app_Status b) BudgetReserved (w\<lparr>hw_apps := AList.update (app_Key a) b (hw_apps w)\<rparr>)"
  using assms
  by (auto simp: can_settle_def settled_as_def save_def SaveApplication_def ctx_of_def split: option.splits)

lemma releases_as:
  assumes "can_settle h a now w" and "app_ID b = app_ID a" and "settled_as a s BudgetReserved w'"
    and "hw_budgets w' = hw_budgets w"
  shows "settled_as a s BudgetReleased (snd (releaseBudget h b now w'))"
    and "fst (releaseBudget h b now w') = None"
  using assms
  by (auto simp: can_settle_def settled_as_def releaseBudget_def ReleaseApplicationBudget_def finishApplicationBudget_def
      ctx_of_def split: option.splits prod.splits)

lemma settles_released:
  assumes "can_settle h a now w" and "app_ID b = app_ID a" and "settled_as a s BudgetReserved w'"
    and "hw_budgets w' = hw_budgets w"
  shows "settled_as a s BudgetReleased (snd (settle_released h b now w'))"
proof -
  obtain w1 where 1: "releaseBudget h b now w' = (None, w1)" and "settled_as a s BudgetReleased w1"
    using releases_as [OF assms] by (metis prod.collapse)
  then show ?thesis
    using settled_as_core [OF restoreTailoring_core [of w1 h b]] by (simp add: settle_released_def and_then_def)
qed

lemma can_settle_transition:
  assumes "can_settle h a now w" and "applicationTransitionAllowed ApplicationSubmitting to"
  obtains b where "Application_Transition to now a = Inr b" "app_Status b = to" "app_ID b = app_ID a" "app_Key b = app_Key a"
proof -
  have "\<exists>b. Application_Transition to now a = Inr b"
    using assms by (simp add: can_settle_def Application_Transition_def Let_def)
  then obtain b where b: "Application_Transition to now a = Inr b" ..
  show ?thesis using that [OF b] Application_Transition_Inr [OF b] by blast
qed

lemma skips_as:
  assumes "can_settle h a now w" and "applicationTransitionAllowed ApplicationSubmitting to"
  shows "settled_as a to BudgetReleased (snd (skip_and_settle h a to ApplicationSubmitting now w))"
proof -
  obtain b where b: "Application_Transition to now a = Inr b" "app_Status b = to" "app_ID b = app_ID a" "app_Key b = app_Key a"
    using can_settle_transition [OF assms] .
  let ?w = "w\<lparr>hw_apps := AList.update (app_Key a) b (hw_apps w)\<rparr>"
  have "settled_as a to BudgetReleased (snd (settle_released h b now ?w))"
    using settles_released [OF assms(1) b(3), of to ?w] saves_as(2) [OF assms(1) b(3,4)] b(2) by simp
  then show ?thesis
    by (simp add: skip_and_settle_def with_transition_def b(1) saves_as(1) [OF assms(1) b(3,4)] and_then_def)
qed

lemma can_settle_decided: "can_settle h (a\<lparr>app_DecisionCode := code\<rparr>) now w = can_settle h a now w"
  "can_settle h (a\<lparr>app_FailureCategory := c, app_FailureMessage := m\<rparr>) now w = can_settle h a now w"
  "settled_as (a\<lparr>app_DecisionCode := code\<rparr>) s b w = settled_as a s b w"
  "settled_as (a\<lparr>app_FailureCategory := c, app_FailureMessage := m\<rparr>) s b w = settled_as a s b w"
  by (simp_all add: can_settle_def settled_as_def cong: option.case_cong)

lemma snd_then_fail [simp]: "snd (then_fail oe r) = snd r"
  by (cases r) (simp add: then_fail_def and_then_def split: option.splits)

lemma parks_as:
  assumes "can_settle h a now w" and "\<not> (plan_SkipValidation plan \<and> skipValidationDecisionCode (decision_code oe))"
  shows "settled_as a ApplicationWaitingValidation BudgetReleased (snd (park_for_validation h plan now oe a w))"
proof -
  let ?a = "a\<lparr>app_DecisionCode := decision_code oe\<rparr>"
  have can: "can_settle h ?a now w" using assms(1) by (simp add: can_settle_decided)
  obtain b where b: "Application_Transition ApplicationWaitingValidation now ?a = Inr b" "app_Status b = ApplicationWaitingValidation"
    "app_ID b = app_ID ?a" "app_Key b = app_Key ?a"
    by (rule can_settle_transition [OF can, of ApplicationWaitingValidation]) simp_all
  let ?w = "w\<lparr>hw_apps := AList.update (app_Key a) b (hw_apps w)\<rparr>"
  have saved: "settled_as ?a ApplicationWaitingValidation BudgetReserved ?w"
    using saves_as(2) [OF can b(3,4)] b(2) by simp
  have save: "save h b ApplicationSubmitting w = (None, ?w)"
    using saves_as(1) [OF can b(3,4)] by simp
  obtain w1 where 1: "releaseBudget h b now ?w = (None, w1)" and "settled_as ?a ApplicationWaitingValidation BudgetReleased w1"
    using releases_as [OF can b(3) saved] by (cases "releaseBudget h b now ?w") auto
  then have s1: "settled_as a ApplicationWaitingValidation BudgetReleased w1" by (simp add: can_settle_decided)
  have last_step: "settled_as a ApplicationWaitingValidation BudgetReleased (snd (and_then r (restoreTailoring h b)))"
    if "same_core w1 (snd r)" for r
    using that s1 settled_as_core [OF that] settled_as_core [OF restoreTailoring_core [of "snd r" h b]]
    by (cases r) (auto simp: and_then_def split: option.splits)
  show ?thesis
    unfolding park_for_validation_def Let_def if_not_P [OF assms(2)]
    using last_step
    by (simp add: with_transition_def b(1) save and_then_def [of "(None, _)"] 1)
qed

lemma can_settle_remember [simp]: "can_settle h a now (remember what k w) = can_settle h a now w"
  by (simp add: can_settle_def settled_as_def remember_def)

lemma can_settle_core: "same_core w w' \<Longrightarrow> can_settle h a now w' = can_settle h a now w"
  by (simp add: can_settle_def settled_as_core) (simp add: same_core_def)

lemma can_settle_with_decision:
  "can_settle h (with_decision code reason a) now w = can_settle h a now w"
  "settled_as (with_decision code reason a) s b w = settled_as a s b w"
  by (simp_all add: with_decision_def can_settle_def settled_as_def cong: option.case_cong)

lemma can_settle_later:
  "can_settle h a now w \<Longrightarrow> now \<le> later \<Longrightarrow> \<not> IsZero later \<Longrightarrow> can_settle h a later w"
  by (auto simp: can_settle_def split: option.splits)

lemma settles_submitted:
  assumes "can_settle h a now w" and "app_ID b = app_ID a" and "settled_as a s BudgetReserved w'"
    and "hw_budgets w' = hw_budgets w"
  shows "settled_as a s BudgetCommitted (snd (settle_submitted h b now w'))"
proof -
  have "settled_as a s BudgetCommitted (snd (commitBudget h b now w'))" "fst (commitBudget h b now w') = None"
    using assms
    by (auto simp: can_settle_def settled_as_def commitBudget_def CommitApplicationBudget_def finishApplicationBudget_def
        ctx_of_def normalizeBudgetError_def split: option.splits prod.splits)
  then obtain w1 where 1: "commitBudget h b now w' = (None, w1)" and s1: "settled_as a s BudgetCommitted w1"
    by (metis prod.collapse)
  have "same_core w1 (snd (and_then (recordSubmitted h b w1) (restoreTailoring h b)))"
    by (intro and_then_core) (auto intro: same_core_trans)
  with s1 show ?thesis by (simp add: settle_submitted_def 1 and_then_def [of "(None, _)"] settled_as_core)
qed

text \<open>
  What a failed submission leaves, as a table: by the error's \<open>code\<close>, its category, whether the
  plan skips validations, and what the browser answered (\<open>None\<close> if there is none, or it failed).
\<close>

definition failure_code :: "OperationError \<Rightarrow> string" where
  "failure_code oe =
     (let code = TrimSpace (case map_of (oe_Metadata oe) ''code'' of Some v \<Rightarrow> v | None \<Rightarrow> [])
      in if code \<noteq> [] then code
         else if oe_Category oe = ErrorConfirmationRequired then ''captcha_required'' else ''platform_validation_required'')"

definition parked_as :: "bool \<Rightarrow> OperationError \<Rightarrow> ApplicationStatus \<times> ApplicationBudgetState" where
  "parked_as skip oe =
     (if skip \<and> TrimSpace (failure_code oe) \<in> {''questionnaire_required'', ''vacancy_test_required'', ''platform_validation_required''}
      then (ApplicationSkipped, BudgetReleased) else (ApplicationWaitingValidation, BudgetReleased))"

fun left_by :: "ErrorCategory \<Rightarrow> bool \<Rightarrow> OperationError \<Rightarrow> BrowserState option \<Rightarrow> ApplicationStatus \<times> ApplicationBudgetState" where
  "left_by ErrorAmbiguousResult skip oe browser = (ApplicationPendingReconcile, BudgetReserved)"
| "left_by ErrorValidationRequired skip oe browser = parked_as skip oe"
| "left_by ErrorConfirmationRequired skip oe browser =
     (case browser of
        None \<Rightarrow> parked_as skip oe
      | Some BrowserDone \<Rightarrow> (ApplicationSubmitted, BudgetCommitted)
      | Some _ \<Rightarrow> (ApplicationWaitingValidation, BudgetReleased))"
| "left_by ErrorTemporaryFailure skip oe browser = (ApplicationReady, BudgetReleased)"
| "left_by ErrorRateLimited skip oe browser = (ApplicationReady, BudgetReleased)"
| "left_by ErrorQuotaExceeded skip oe browser = (ApplicationReady, BudgetReleased)"
| "left_by ErrorUnauthorized skip oe browser = (ApplicationReady, BudgetReleased)"
| "left_by _ skip oe browser = (ApplicationFailed, BudgetReleased)"

definition failure_leaves :: "bool \<Rightarrow> OperationError \<Rightarrow> BrowserState option \<Rightarrow> ApplicationStatus \<times> ApplicationBudgetState" where
  "failure_leaves skip oe browser =
     (if map_of (oe_Metadata oe) ''code'' \<in> {Some ''vacancy_closed'', Some ''response_impossible''}
      then (ApplicationSkipped, BudgetReleased) else left_by (oe_Category oe) skip oe browser)"

text \<open>What the browser answers in a world, and the world it leaves.\<close>

definition browser_answer :: "('x, 'p) Handler \<Rightarrow> Application \<Rightarrow> 'x \<Rightarrow> (BrowserState \<times> 'x) option" where
  "browser_answer h a x =
     (case ResolveBrowserSubmitter (ah_registry h) (app_profile a) of None \<Rightarrow> None | Some submitter \<Rightarrow>
      case submitter (app_profile a) (vk_ExternalID (ak_Vacancy (app_Key a))) (app_PreparedMessage a) x of
        (Inl _, _) \<Rightarrow> None | (Inr outcome, x') \<Rightarrow> Some (bo_State outcome, x'))"

text \<open>An error that is no valid operation error counts as a permanent failure.\<close>

definition unclassified :: "error \<Rightarrow> OperationError" where
  "unclassified cause = OperationError ErrorPermanentFailure ''applications.submit'' [] (Error_text cause) None [] None"

definition classified :: "error \<Rightarrow> OperationError" where
  "classified cause =
     (case errors_As cause of
        None \<Rightarrow> unclassified cause
      | Some oe \<Rightarrow> if OperationError_Validate oe = None then oe else unclassified cause)"

lemma failure_of_classified: "failure_of cause = classified cause"
  by (simp add: failure_of_def classified_def unclassified_def split: option.split)

lemma classified_valid: "OperationError_Validate (classified cause) = None"
  by (auto simp: classified_def unclassified_def OperationError_Validate_def split: option.split)

lemma park_settles:
  assumes "can_settle h a now w"
  shows "settled_as a (fst (parked_as (plan_SkipValidation plan) oe)) (snd (parked_as (plan_SkipValidation plan) oe))
    (snd (park_for_validation h plan now oe a w))"
proof -
  have code: "decision_code oe = failure_code oe"
    by (simp add: decision_code_def failure_code_def meta_def Let_def)
  have trim: "skipValidationDecisionCode (failure_code oe) \<longleftrightarrow>
      TrimSpace (failure_code oe) \<in> {''questionnaire_required'', ''vacancy_test_required'', ''platform_validation_required''}"
    by (simp add: skipValidationDecisionCode_def)
  show ?thesis
  proof (cases "plan_SkipValidation plan \<and> skipValidationDecisionCode (failure_code oe)")
    case True
    have "can_settle h (with_decision c r a) now w" for c r using assms by (simp add: can_settle_with_decision)
    from skips_as [OF this, of ApplicationSkipped] True trim show ?thesis
      by (simp add: park_for_validation_def Let_def code parked_as_def can_settle_with_decision)
  next
    case False
    with parks_as [OF assms, of plan oe] trim show ?thesis by (auto simp: parked_as_def code)
  qed
qed

lemma fallback_settles:
  assumes can: "can_settle h a now w" and later: "\<And>state x. browser_answer h a (hw_ext w) = Some (state, x) \<Longrightarrow>
      now \<le> fst (ah_Now h x) \<and> \<not> IsZero (fst (ah_Now h x))"
  shows "case browser_answer h a (hw_ext w) of
      None \<Rightarrow> fst (browserFallback h a w) = None \<and> can_settle h a now (snd (browserFallback h a w))
    | Some (state, x) \<Rightarrow> fst (browserFallback h a w) \<noteq> None \<and>
        settled_as a (if state = BrowserDone then ApplicationSubmitted else ApplicationWaitingValidation)
          (if state = BrowserDone then BudgetCommitted else BudgetReleased) (snd (browserFallback h a w))"
proof (cases "ResolveBrowserSubmitter (ah_registry h) (app_profile a)")
  case None
  then show ?thesis using can by (simp add: browser_answer_def browserFallback_def)
next
  case (Some submitter)
  define vacancyID where "vacancyID = vk_ExternalID (ak_Vacancy (app_Key a))"
  define w2 where "w2 = remember (BrowserCall (app_profile a) vacancyID (app_PreparedMessage a)) (app_Key a) w"
  have ext: "hw_ext w2 = hw_ext w" by (simp add: w2_def remember_def)
  obtain r x where r: "submitter (app_profile a) vacancyID (app_PreparedMessage a) (hw_ext w) = (r, x)" by fastforce
  then have 3: "on_ext (submitter (app_profile a) vacancyID (app_PreparedMessage a)) w2 = (r, w2\<lparr>hw_ext := x\<rparr>)"
    by (simp add: on_ext_def ext)
  have can2: "can_settle h a now (w2\<lparr>hw_ext := x\<rparr>)"
    using can can_settle_core [OF on_extE [OF 3], of h a now] by (simp add: w2_def)
  show ?thesis
  proof (cases r)
    case (Inl e)
    then show ?thesis
      using can2 by (simp add: browser_answer_def browserFallback_def Some Let_def r 3 flip: vacancyID_def w2_def)
  next
    case (Inr outcome)
    obtain now' x' where n: "ah_Now h x = (now', x')" by fastforce
    let ?w = "w2\<lparr>hw_ext := x'\<rparr>"
    have answer: "browser_answer h a (hw_ext w) = Some (bo_State outcome, x)"
      using r by (simp add: browser_answer_def Some Inr flip: vacancyID_def)
    have later': "now \<le> now'" "\<not> IsZero now'" using later [OF answer] n by simp_all
    have 4: "on_ext (ah_Now h) (w2\<lparr>hw_ext := x\<rparr>) = (now', ?w)" by (simp add: on_ext_def n)
    have "can_settle h a now ?w" using can2 can_settle_core [OF on_extE [OF 4], of h a now] by simp
    then have can3: "can_settle h a now' ?w"
      by (rule can_settle_later [OF _ later'])
    show ?thesis
    proof (cases "bo_State outcome = BrowserDone")
      case True
      obtain b where b: "Application_Transition ApplicationSubmitted now' a = Inr b" "app_Status b = ApplicationSubmitted"
        "app_ID b = app_ID a" "app_Key b = app_Key a"
        by (rule can_settle_transition [OF can3, of ApplicationSubmitted]) simp_all
      from settles_submitted [OF can3 b(3) _, of ApplicationSubmitted] saves_as [OF can3 b(3,4)] b(2)
      have "settled_as a ApplicationSubmitted BudgetCommitted (snd (with_transition ApplicationSubmitted now' a ?w (\<lambda>a.
          and_then (save h a ApplicationSubmitting ?w) (settle_submitted h a now'))))"
        by (simp add: with_transition_def b(1) and_then_def)
      then show ?thesis
        by (auto simp: answer True browserFallback_def Some Let_def 3 [unfolded Inr] 4 split: prod.split simp
            flip: vacancyID_def w2_def)
    next
      case False
      have "can_settle h (browser_parked a outcome) now' ?w"
        using can3 by (simp add: browser_parked_def can_settle_with_decision)
      from skips_as [OF this, of ApplicationWaitingValidation] False
      have "settled_as a ApplicationWaitingValidation BudgetReleased (snd (skip_and_settle h (browser_parked a outcome)
          ApplicationWaitingValidation ApplicationSubmitting now' ?w))"
        by (simp add: browser_parked_def can_settle_with_decision split: if_splits)
      then show ?thesis
        by (auto simp: answer False browserFallback_def Some Let_def 3 [unfolded Inr] 4 split: prod.split simp
            flip: vacancyID_def w2_def)
    qed
  qed
qed

text \<open>
  C5. What a failed submission leaves, in every case. Whatever error the transport returns for an
  application that is being submitted, the application and its slot of the budget end as the table
  \<open>failure_leaves\<close> says. A closed or impossible vacancy (by the error's code, before its category)
  is skipped; an ambiguous result waits to be reconciled and keeps its slot, since the platform may
  have accepted it; one that needs validation is parked, or skipped if the plan skips validations and
  its code is one of the three that may be skipped; one that needs a confirmation is submitted if
  the browser got it done, parked if the browser stopped elsewhere, and without a browser's answer
  treated like a validation; a temporary failure, a rate limit, an exhausted quota (with or without
  the platform's instant) and a lost authorization leave it ready; anything else, an error without a
  valid category included, has failed. All but the ambiguous and the completed one give their slot back.
  It is assumed that the context is live, the clock does not go back, the slot is in hand, and the
  plan's time zone is known.
\<close>

theorem failed_submission_settles:
  assumes "can_settle h a now (w\<lparr>hw_ext := x\<rparr>)" and "ah_Now h (hw_ext w) = (now, x)"
    and "ah_zones h (plan_Timezone plan) = Inr local_day"
    and "\<And>state x'. browser_answer h a x = Some (state, x') \<Longrightarrow> now \<le> fst (ah_Now h x') \<and> \<not> IsZero (fst (ah_Now h x'))"
    and "failure_leaves (plan_SkipValidation plan) (classified cause) (map_option fst (browser_answer h a x)) = (status, slot)"
  shows "settled_as a status slot (snd (finishFailure h a plan cause w))"
proof -
  let ?w1 = "w\<lparr>hw_ext := x\<rparr>"
  let ?oe = "classified cause"
  have 1: "on_ext (ah_Now h) w = (now, ?w1)" by (simp add: on_ext_def assms(2))
  note can = assms(1)
  obtain oe where oe: "quota_reset (ah_zones h) plan now ?oe = Inr oe"
      "oe_Category oe = oe_Category ?oe" "oe_Metadata oe = oe_Metadata ?oe"
      "oe_Category oe \<noteq> ErrorQuotaExceeded \<longrightarrow> oe = ?oe"
  proof (cases "oe_Category ?oe = ErrorQuotaExceeded \<and> oe_RetryAfter ?oe = None")
    case True
    obtain s e where "local_day now = (s, e)" by fastforce
    with True assms(3) show ?thesis
      by (intro that [of "with_retry_after e ?oe"]) (simp_all add: quota_reset_def applicationBudgetWindow_def with_retry_after_def)
  next
    case False
    then have "quota_reset (ah_zones h) plan now ?oe = Inr ?oe" by (auto simp: quota_reset_def)
    then show ?thesis by (intro that [of ?oe]) simp_all
  qed
  have code: "meta oe ''code'' \<in> {''vacancy_closed'', ''response_impossible''} \<longleftrightarrow>
      map_of (oe_Metadata ?oe) ''code'' \<in> {Some ''vacancy_closed'', Some ''response_impossible''}"
    by (auto simp: meta_def oe(3) split: option.split)
  show ?thesis
  proof (cases "meta oe ''code'' \<in> {''vacancy_closed'', ''response_impossible''}")
    case True
    have "can_settle h (with_decision c r a) now ?w1" for c r using can by (simp add: can_settle_with_decision)
    from skips_as [OF this, of ApplicationSkipped] assms(5) True code show ?thesis
      by (simp add: finishFailure_def 1 failure_of_classified oe(1) failure_leaves_def can_settle_with_decision)
  next
    case False
    have fin: "finishFailure h a plan cause w = classify h plan now oe a ?w1"
      using False by (simp add: finishFailure_def 1 failure_of_classified oe(1))
    have left: "left_by (oe_Category oe) (plan_SkipValidation plan) ?oe (map_option fst (browser_answer h a x)) = (status, slot)"
      using assms(5) False code oe(2) by (simp add: failure_leaves_def)
    have skipped: "settled_as a ApplicationReady BudgetReleased (snd (skip_and_settle h a ApplicationReady ApplicationSubmitting now ?w1))"
      "settled_as a ApplicationReady BudgetReleased (snd (skip_and_settle h (a\<lparr>app_FailureCategory := c, app_FailureMessage := m\<rparr>)
         ApplicationReady ApplicationSubmitting now ?w1))" for c m
      using skips_as [OF can, of ApplicationReady]
        skips_as [of h "a\<lparr>app_FailureCategory := c, app_FailureMessage := m\<rparr>" now ?w1 ApplicationReady] can
      by (simp_all add: can_settle_decided)
    have ready: "settled_as a status slot (snd (classify h plan now oe a ?w1))"
      if "oe_Category oe \<in> {ErrorTemporaryFailure, ErrorRateLimited, ErrorQuotaExceeded, ErrorUnauthorized}"
      using that left skipped by (elim insertE) (auto simp: classify_def Let_def)
    have failed: "settled_as a ApplicationFailed BudgetReleased (snd (case Application_Fail (Some ?oe) now a of Inl e \<Rightarrow> (Some e, ?w1)
        | Inr a \<Rightarrow> then_fail ?oe (and_then (save h a ApplicationSubmitting ?w1) (settle_released h a now))))"
    proof -
      obtain b where b: "Application_Transition ApplicationFailed now a = Inr b" "app_Status b = ApplicationFailed"
        "app_ID b = app_ID a" "app_Key b = app_Key a"
        by (rule can_settle_transition [OF can, of ApplicationFailed]) simp_all
      define c where "c = b\<lparr>app_FailureCategory := oe_Category ?oe, app_FailureMessage := oe_Message ?oe\<rparr>"
      have c: "app_ID c = app_ID a" "app_Key c = app_Key a" "app_Status c = ApplicationFailed"
        using b by (simp_all add: c_def)
      have "Application_Fail (Some ?oe) now a = Inr c" by (simp add: Application_Fail_def classified_valid b(1) c_def)
      then show ?thesis
        using settles_released [OF can c(1)] saves_as [OF can c(1,2)] c(3) by (simp add: and_then_def)
    qed
    show ?thesis
    proof (cases "oe_Category oe \<in> {ErrorTemporaryFailure, ErrorRateLimited, ErrorQuotaExceeded, ErrorUnauthorized}")
      case True
      then show ?thesis using ready fin by simp
    next
      case no: False
      then have same: "oe = ?oe" using oe(4) by auto
      consider "oe_Category ?oe = ErrorAmbiguousResult" | "oe_Category ?oe = ErrorValidationRequired"
        | "oe_Category ?oe = ErrorConfirmationRequired"
        | "oe_Category ?oe \<notin> {ErrorAmbiguousResult, ErrorValidationRequired, ErrorConfirmationRequired}" by blast
      then show ?thesis
      proof cases
        case 1
        obtain b where b: "Application_Transition ApplicationPendingReconcile now a = Inr b" "app_Status b = ApplicationPendingReconcile"
          "app_ID b = app_ID a" "app_Key b = app_Key a"
          by (rule can_settle_transition [OF can, of ApplicationPendingReconcile]) simp_all
        show ?thesis
          using saves_as [OF can b(3,4)] b(2) left 1 by (simp add: fin same classify_def with_transition_def b(1))
      next
        case 2
        then show ?thesis using park_settles [OF can, of plan ?oe] left by (simp add: fin same classify_def)
      next
        case 3
        have fb: "case browser_answer h a x of
            None \<Rightarrow> fst (browserFallback h a ?w1) = None \<and> can_settle h a now (snd (browserFallback h a ?w1))
          | Some (state, x) \<Rightarrow> fst (browserFallback h a ?w1) \<noteq> None \<and>
              settled_as a (if state = BrowserDone then ApplicationSubmitted else ApplicationWaitingValidation)
                (if state = BrowserDone then BudgetCommitted else BudgetReleased) (snd (browserFallback h a ?w1))"
          using fallback_settles [OF can] assms(4) by simp
        show ?thesis
        proof (cases "browser_answer h a x")
          case None
          with fb obtain w2 where w2: "browserFallback h a ?w1 = (None, w2)" "can_settle h a now w2"
            by (cases "browserFallback h a ?w1") auto
          with park_settles [OF w2(2), of plan ?oe] left 3 None show ?thesis
            by (simp add: fin same classify_def)
        next
          case (Some sx)
          then obtain state x' where s: "browser_answer h a x = Some (state, x')" by (cases sx) auto
          with fb obtain r w2 where w2: "browserFallback h a ?w1 = (Some r, w2)"
            by (cases "browserFallback h a ?w1") auto
          with fb left 3 s show ?thesis
            by (cases state) (simp_all add: fin same classify_def)
        qed
      next
        case 4
        then show ?thesis using failed left no same by (cases "oe_Category ?oe") (simp_all add: fin classify_def)
      qed
    qed
  qed
qed

definition sample_failure :: OperationError where
  "sample_failure = OperationError ErrorTemporaryFailure ''applications.submit'' ''hh'' ''try later'' None [] None"

theorem failed_submission_settles_witness:
  "settled_as sample_submitting ApplicationReady BudgetReleased
     (snd (finishFailure (sample_handler sample_success) sample_submitting sample_submit_plan (ErrOperation sample_failure)
        (sample_created\<lparr>hw_apps := [(sample_key, sample_submitting)], hw_budgets := sample_slot_taken\<rparr>)))"
proof -
  let ?h = "sample_handler sample_success"
  let ?w = "sample_created\<lparr>hw_apps := [(sample_key, sample_submitting)], hw_budgets := sample_slot_taken\<rparr>"
  have 1: "can_settle ?h sample_submitting 100 (?w\<lparr>hw_ext := 101\<rparr>)"
    by (simp add: can_settle_def settled_as_def sample_created_def sample_slot_taken_def sample_key_valid)
  have 2: "ah_Now ?h (hw_ext ?w) = (100, 101)" by (simp add: sample_created_def)
  obtain d where 3: "ah_zones ?h (plan_Timezone sample_submit_plan) = Inr d" by (simp add: sample_handler_def)
  have none: "browser_answer ?h sample_submitting 101 = None"
    by (simp add: browser_answer_def sample_handler_def RegisterTransport_def NewRegistry_def ResolveBrowserSubmitter_def)
  have valid: "classified (ErrOperation sample_failure) = sample_failure"
    by (simp add: classified_def sample_failure_def OperationError_Validate_def)
  have 5: "failure_leaves (plan_SkipValidation sample_submit_plan) (classified (ErrOperation sample_failure))
      (map_option fst (browser_answer ?h sample_submitting 101)) = (ApplicationReady, BudgetReleased)"
    unfolding valid by (simp add: failure_leaves_def sample_failure_def)
  show ?thesis by (rule failed_submission_settles [OF 1 2 3 _ 5]) (simp add: none)
qed

text \<open>
  A browser's error is forgotten. When the platform asks for a confirmation, the handler
  submits again in the browser. Whatever error the browser returns, one that says the outcome is
  unknown included, the application is parked as waiting for validation and its slot is given
  back, as if nothing had been sent; from there a retry submits it once more.
\<close>

theorem browser_error_forgotten:
  assumes "can_settle h a now (snd (on_ext (ah_Now h) w))" and "fst (on_ext (ah_Now h) w) = now"
    and "errors_As cause = Some oe" and "OperationError_Validate oe = None" and "oe_Category oe = ErrorConfirmationRequired"
    and "meta oe ''code'' \<notin> {''vacancy_closed'', ''response_impossible''}" and "\<not> plan_SkipValidation plan"
    and "ResolveBrowserSubmitter (ah_registry h) (app_profile a) = Some submitter"
    and "\<And>profile vacancy message x. \<exists>e x'. submitter profile vacancy message x = (Inl e, x')"
  shows "settled_as a ApplicationWaitingValidation BudgetReleased (snd (finishFailure h a plan cause w))"
proof -
  obtain w1 where 1: "on_ext (ah_Now h) w = (now, w1)" using assms(2) by (cases "on_ext (ah_Now h) w") auto
  have can: "can_settle h a now w1" using assms(1) 1 by simp
  define vacancyID where "vacancyID = vk_ExternalID (ak_Vacancy (app_Key a))"
  define w2 where "w2 = remember (BrowserCall (app_profile a) vacancyID (app_PreparedMessage a)) (app_Key a) w1"
  obtain e x' where "submitter (app_profile a) vacancyID (app_PreparedMessage a) (hw_ext w2) = (Inl e, x')"
    using assms(9) by blast
  then have 3: "on_ext (submitter (app_profile a) vacancyID (app_PreparedMessage a)) w2 = (Inl e, w2\<lparr>hw_ext := x'\<rparr>)"
    by (simp add: on_ext_def)
  have "browserFallback h a w1 = (None, w2\<lparr>hw_ext := x'\<rparr>)"
    by (simp add: browserFallback_def assms(8) Let_def 3 flip: vacancyID_def w2_def)
  moreover have "can_settle h a now (w2\<lparr>hw_ext := x'\<rparr>)"
    using can can_settle_core [OF on_extE [OF 3], of h a now] by (simp add: w2_def)
  moreover have "finishFailure h a plan cause w = classify h plan now oe a w1"
    using assms(3-6) by (auto simp: finishFailure_def 1 failure_of_def quota_reset_def)
  ultimately show ?thesis
    using parks_as [of h a now "w2\<lparr>hw_ext := x'\<rparr>" plan oe] assms(5,7) by (simp add: classify_def)
qed

definition sample_challenge :: OperationError where
  "sample_challenge = OperationError ErrorConfirmationRequired ''applications.submit'' ''hh'' ''captcha'' None [] None"

definition lost_in_browser :: error where
  "lost_in_browser = ErrOperation (OperationError ErrorAmbiguousResult ''applications.submit'' ''hh'' ''connection lost'' None [] None)"

definition sample_browser_handler :: "(int, unit) Handler" where
  "sample_browser_handler = (sample_handler sample_success)\<lparr>ah_registry :=
     snd (RegisterBrowserSubmitter ''main'' (\<lambda>profile vacancy message x. (Inl lost_in_browser, x)) NewRegistry)\<rparr>"

theorem browser_error_forgotten_witness:
  "settled_as sample_submitting ApplicationWaitingValidation BudgetReleased
     (snd (finishFailure sample_browser_handler sample_submitting sample_submit_plan (ErrOperation sample_challenge)
        (sample_created\<lparr>hw_apps := [(sample_key, sample_submitting)], hw_budgets := sample_slot_taken\<rparr>)))"
proof -
  let ?w = "sample_created\<lparr>hw_apps := [(sample_key, sample_submitting)], hw_budgets := sample_slot_taken\<rparr>"
  have now: "ah_Now sample_browser_handler x = (x, x + 1)" "ah_Err sample_browser_handler x = None" for x
    by (simp_all add: sample_browser_handler_def)
  have 1: "can_settle sample_browser_handler sample_submitting 100 (snd (on_ext (ah_Now sample_browser_handler) ?w))"
    by (simp add: can_settle_def settled_as_def on_ext_def now sample_created_def sample_slot_taken_def sample_key_valid)
  have 2: "fst (on_ext (ah_Now sample_browser_handler) ?w) = 100"
    by (simp add: on_ext_def now sample_created_def)
  have 3: "errors_As (ErrOperation sample_challenge) = Some sample_challenge" by simp
  have 4: "OperationError_Validate sample_challenge = None"
    by (simp add: sample_challenge_def OperationError_Validate_def)
  have 5: "ResolveBrowserSubmitter (ah_registry sample_browser_handler) (app_profile sample_submitting)
      = Some (\<lambda>profile vacancy message x. (Inl lost_in_browser, x))"
    by (simp add: sample_browser_handler_def RegisterBrowserSubmitter_def NewRegistry_def ResolveBrowserSubmitter_def app_profile_def)
  show ?thesis
    by (rule browser_error_forgotten [OF 1 2 3 4 _ _ _ 5]) (simp_all add: sample_challenge_def meta_def)
qed

end
