(* ===== verification/GoJsonDepth.thy ===== *)
theory GoJsonDepth
  imports GoJsonRoundtrip
begin

text \<open>
  The decoder's limit on nesting: the encoding of a value that is nested deeper is refused. So
  whatever encoding is read at all is read back as the value that was written.
\<close>

definition too_deep :: "nat \<Rightarrow> json \<Rightarrow> bool" where
  "too_deep d v \<longleftrightarrow> maxNestingDepth < d + json_depth v"

definition refuses :: "json \<Rightarrow> bool" where
  "refuses v \<longleftrightarrow> (\<forall>n d rest. d \<le> maxNestingDepth \<longrightarrow> too_deep d v \<longrightarrow> num_end rest
     \<longrightarrow> 2 * length (raw_Marshal v) \<le> n \<longrightarrow> parse_value n d (raw_Marshal v @ rest) = None)"

lemma refusesD: "refuses v \<Longrightarrow> d \<le> maxNestingDepth \<Longrightarrow> too_deep d v \<Longrightarrow> num_end rest \<Longrightarrow>
    2 * length (raw_Marshal v) \<le> n \<Longrightarrow> parse_value n d (raw_Marshal v @ rest) = None"
  by (simp add: refuses_def)

lemma fits_read: "raw_wf v \<Longrightarrow> \<not> too_deep d v \<Longrightarrow> num_end rest \<Longrightarrow>
    2 * length (raw_Marshal v) \<le> n \<Longrightarrow> parse_value n d (raw_Marshal v @ rest) = Some (v, rest)"
  by (rule reads_backD [OF marshal_reads_back]) (simp_all add: too_deep_def)

lemma elements_refused:
  assumes "\<forall>v\<in>set vs. raw_wf v \<and> refuses v" and "\<exists>v\<in>set vs. too_deep d v" and "d \<le> maxNestingDepth"
    and "2 * length (join_with '','' (map raw_Marshal vs)) + 1 \<le> n"
  shows "parse_elements n d (join_with '','' (map raw_Marshal vs) @ CHR '']'' # rest) = None"
  using assms(1,2,4)
proof (induction vs arbitrary: n)
  case (Cons v vs)
  then obtain m where n: "n = Suc m" by (cases n) auto
  let ?J = "join_with '','' (map raw_Marshal vs)"
  obtain u where u: "join_with '','' (map raw_Marshal (v # vs)) @ CHR '']'' # rest = raw_Marshal v @ u" and ends: "num_end u"
    and len: "2 * length (raw_Marshal v) \<le> m"
    and tail: "vs \<noteq> [] \<Longrightarrow> u = CHR '','' # ?J @ CHR '']'' # rest \<and> 2 * length ?J + 1 \<le> m"
    using Cons.prems(3) n by (cases vs) auto
  show ?case
  proof (cases "too_deep d v")
    case True
    with Cons.prems(1) ends len assms(3) have "parse_value m d (raw_Marshal v @ u) = None" by (auto intro: refusesD)
    then show ?thesis unfolding u n by simp
  next
    case False
    with Cons.prems(2) have ex: "\<exists>v\<in>set vs. too_deep d v" "vs \<noteq> []" by auto
    have "parse_value m d (raw_Marshal v @ u) = Some (v, u)"
      by (rule fits_read) (use Cons.prems(1) False ends len in auto)
    moreover have "parse_elements m d (?J @ CHR '']'' # rest) = None"
      by (rule Cons.IH) (use Cons.prems(1) ex tail in auto)
    ultimately show ?thesis unfolding u n using tail [OF ex(2)] by (simp add: skip_ws_Cons)
  qed
qed simp

lemma members_refused:
  assumes "\<forall>m\<in>set ms. utf8_ValidString (fst m) \<and> raw_wf (snd m) \<and> refuses (snd m)"
    and "\<exists>m\<in>set ms. too_deep d (snd m)" and "d \<le> maxNestingDepth"
    and "2 * length (join_with '','' (map member_text ms)) + 1 \<le> n"
  shows "parse_members n d (join_with '','' (map member_text ms) @ CHR ''}'' # rest) = None"
  using assms(1,2,4)
proof (induction ms arbitrary: n)
  case (Cons x ms)
  obtain k v where x: "x = (k, v)" by (cases x)
  from Cons obtain m where n: "n = Suc m" by (cases n) auto
  have key: "parse_string (tl (json_quote k) @ u) = Some (k, u)" for u
    using Cons.prems(1) x by (simp add: json_quote_read)
  have open_quote: "skip_ws (json_quote k @ u) = CHR 0x22 # tl (json_quote k) @ u" for u
    using json_quote_Cons [of k] by (metis append_Cons skip_ws_Cons structural_not_space(1))
  let ?J = "join_with '','' (map member_text ms)"
  note prem = Cons.prems(3)
  obtain u where u: "join_with '','' (map member_text (x # ms)) @ CHR ''}'' # rest = json_quote k @ CHR '':'' # raw_Marshal v @ u"
    and ends: "num_end u" and len: "2 * length (raw_Marshal v) \<le> m"
    and tail: "ms \<noteq> [] \<Longrightarrow> u = CHR '','' # ?J @ CHR ''}'' # rest \<and> 2 * length ?J + 1 \<le> m"
  proof (cases ms)
    case Nil
    then show thesis using that [of "CHR ''}'' # rest"] Cons.prems(3) n by (simp add: x member_text_def)
  next
    case (Cons y ys)
    then have J: "join_with '','' (map member_text (x # ms)) = member_text x @ CHR '','' # ?J" by simp
    have "2 * length (member_text x @ CHR '','' # ?J) + 1 \<le> n" using prem by (simp only: J)
    then show thesis using that [of "CHR '','' # ?J @ CHR ''}'' # rest"] by (simp only: J) (simp add: n x member_text_def)
  qed
  show ?case
  proof (cases "too_deep d v")
    case True
    with Cons.prems(1) ends len assms(3) have "parse_value m d (raw_Marshal v @ u) = None"
      by (auto simp: x intro: refusesD)
    then show ?thesis unfolding u n by (simp add: open_quote key skip_ws_Cons)
  next
    case False
    with Cons.prems(2) x have ex: "\<exists>m\<in>set ms. too_deep d (snd m)" "ms \<noteq> []" by auto
    have "parse_value m d (raw_Marshal v @ u) = Some (v, u)"
      by (rule fits_read) (use Cons.prems(1) False ends len x in auto)
    moreover have "parse_members m d (?J @ CHR ''}'' # rest) = None"
      by (rule Cons.IH) (use Cons.prems(1) ex tail in auto)
    ultimately show ?thesis unfolding u n using tail [OF ex(2)] by (simp add: open_quote key skip_ws_Cons)
  qed
qed simp

lemma too_deep_array: "d < maxNestingDepth \<Longrightarrow> too_deep d (JArray vs) \<longleftrightarrow> (\<exists>v\<in>set vs. too_deep (Suc d) v)"
  using depth_array [of vs "maxNestingDepth - d"] by (force simp: too_deep_def)

lemma too_deep_object: "d < maxNestingDepth \<Longrightarrow> too_deep d (JObject ms) \<longleftrightarrow> (\<exists>m\<in>set ms. too_deep (Suc d) (snd m))"
  using depth_object [of ms "maxNestingDepth - d"] by (force simp: too_deep_def)

lemma marshal_refused: "raw_wf v \<Longrightarrow> refuses v"
proof (induction v)
  case (JArray vs)
  show ?case
    unfolding refuses_def
  proof (intro allI impI)
    fix n d rest
    assume d: "d \<le> maxNestingDepth" "too_deep d (JArray vs)" and n: "2 * length (raw_Marshal (JArray vs)) \<le> n"
    obtain m where m: "n = Suc m" using n by (cases n) auto
    show "parse_value n d (raw_Marshal (JArray vs) @ rest) = None"
    proof (cases "d = maxNestingDepth")
      case False
      with d have d': "d < maxNestingDepth" "\<exists>v\<in>set vs. too_deep (Suc d) v" by (simp_all add: too_deep_array)
      then obtain w ws where vs: "vs = w # ws" by (cases vs) auto
      obtain c cs where c: "raw_Marshal w = c # cs" "\<not> json_space c" "c \<noteq> CHR '']''"
        using raw_Marshal_hd [of w] JArray.prems vs by auto
      obtain u where u: "join_with '','' (map raw_Marshal vs) = c # cs @ u"
        using join_hd [of "'',''" "raw_Marshal w" "map raw_Marshal ws"] vs c by auto
      have "parse_elements m (Suc d) (join_with '','' (map raw_Marshal vs) @ CHR '']'' # rest) = None"
        by (rule elements_refused) (use JArray d' n m in auto)
      with m d' c u show ?thesis by (simp add: skip_ws_Cons)
    qed (simp add: m skip_ws_Cons)
  qed
next
  case (JObject ms)
  show ?case
    unfolding refuses_def
  proof (intro allI impI)
    fix n d rest
    assume d: "d \<le> maxNestingDepth" "too_deep d (JObject ms)" and n: "2 * length (raw_Marshal (JObject ms)) \<le> n"
    have enc: "raw_Marshal (JObject ms) = CHR ''{'' # join_with '','' (map member_text ms) @ ''}''"
      by (simp add: member_text_def [abs_def])
    obtain m where m: "n = Suc m" using n enc by (cases n) auto
    show "parse_value n d (raw_Marshal (JObject ms) @ rest) = None"
    proof (cases "d = maxNestingDepth")
      case False
      with d have d': "d < maxNestingDepth" "\<exists>x\<in>set ms. too_deep (Suc d) (snd x)" by (simp_all add: too_deep_object)
      then obtain y ys where ms: "ms = y # ys" by (cases ms) auto
      obtain w where "join_with '','' (map member_text ms) = member_text y @ w"
        using join_hd [of "'',''" "member_text y" "map member_text ys"] ms by auto
      then obtain u where u: "join_with '','' (map member_text ms) = CHR 0x22 # u"
        by (simp add: member_text_def json_quote_def)
      have rb: "refuses (snd x)" if "x \<in> set ms" for x
        using JObject.IH [of x "snd x"] JObject.prems that by (cases x) (auto simp: snds.simps)
      have "parse_members m (Suc d) (join_with '','' (map member_text ms) @ CHR ''}'' # rest) = None"
        by (rule members_refused) (use JObject.prems rb d' n m enc in auto)
      with m d' u show ?thesis unfolding enc by (simp add: skip_ws_Cons)
    qed (simp add: enc m skip_ws_Cons)
  qed
qed (simp_all add: refuses_def too_deep_def)

text \<open>What can be read of an encoding is the value that was encoded.\<close>

lemma decode_Marshal_only:
  assumes "json_wf v" and "decode_any (json_Marshal v) = Some u"
  shows "u = v"
proof (cases "json_depth v \<le> maxNestingDepth")
  case True
  with assms decode_Marshal [of v] show ?thesis by (simp add: any_ok_def)
next
  case False
  have "parse_value (Suc (2 * length (raw_Marshal v))) 0 (raw_Marshal v @ []) = None"
    by (rule refusesD [OF marshal_refused [OF json_wf_raw [OF assms(1)]]]) (use False in \<open>simp_all add: too_deep_def\<close>)
  then show ?thesis using assms by (simp add: decode_any_def json_parse_def json_Marshal_raw)
qed

end
