(* ===== verification/ProfileState.thy ===== *)
theory ProfileState
  imports GoJsonDepth GoCrypto Errors Task
begin

text \<open>
  \<open>core/profile_state.go\<close>: desired-state manifests of a profile, observations of its
  state, the plan (proposal) that leads from one to the other, and the record of an applied plan.
  A state is a JSON value as \<open>encoding/json\<close> decodes it into \<open>any\<close> with
  \<open>UseNumber\<close>: numbers keep their text, objects are maps, here lists in key order. Loops over
  a map visit its keys in that order, which decides only which of several errors is returned. An error of
  the JSON decoder is \<open>invalid_json\<close>, whatever its text, and in
  \<open>fmt.Errorf("%w at %s")\<close> the path is written first.
\<close>

section \<open>JSON pointers\<close>

text \<open>\<open>strings.Split\<close> at one byte.\<close>

fun split_byte :: "char \<Rightarrow> string \<Rightarrow> string list" where
  "split_byte b [] = [[]]"
| "split_byte b (c # s) =
     (if c = b then [] # split_byte b s
      else case split_byte b s of [] \<Rightarrow> [[c]] | x # xs \<Rightarrow> (c # x) # xs)"

text \<open>\<open>strings.ReplaceAll\<close> of one byte.\<close>

definition replace_byte :: "char \<Rightarrow> string \<Rightarrow> string \<Rightarrow> string" where
  "replace_byte b new s = concat (map (\<lambda>c. if c = b then new else [c]) s)"

definition escapeJSONPointer :: "string \<Rightarrow> string" where
  "escapeJSONPointer s = replace_byte (CHR ''/'') ''~1'' (replace_byte (CHR ''~'') ''~0'' s)"

fun unescapeJSONPointer :: "string \<Rightarrow> string option" where
  "unescapeJSONPointer [] = Some []"
| "unescapeJSONPointer (c # s) =
     (if c \<noteq> CHR ''~'' then map_option ((#) c) (unescapeJSONPointer s)
      else case s of [] \<Rightarrow> None
      | d # t \<Rightarrow>
          if d = CHR ''0'' then map_option ((#) (CHR ''~'')) (unescapeJSONPointer t)
          else if d = CHR ''1'' then map_option ((#) (CHR ''/'')) (unescapeJSONPointer t)
          else None)"

fun pointer_get :: "string list \<Rightarrow> json \<Rightarrow> json option" where
  "pointer_get [] v = Some v"
| "pointer_get (raw # rest) v =
     (case unescapeJSONPointer raw of None \<Rightarrow> None | Some segment \<Rightarrow>
      case v of JObject ms \<Rightarrow> (case map_of ms segment of None \<Rightarrow> None | Some w \<Rightarrow> pointer_get rest w)
      | _ \<Rightarrow> None)"

definition pointer_segments :: "string \<Rightarrow> string list" where
  "pointer_segments pointer = split_byte (CHR ''/'') (TrimPrefix pointer ''/'')"

definition jsonPointerValue :: "json \<Rightarrow> string \<Rightarrow> json option" where
  "jsonPointerValue root pointer =
     (if pointer = [] then Some root
      else if \<not> HasPrefix pointer ''/'' then None
      else pointer_get (pointer_segments pointer) root)"

text \<open>The assignment through the nested maps, which are shared with the root: the changed root.\<close>

fun pointer_set :: "string list \<Rightarrow> json \<Rightarrow> json \<Rightarrow> json option" where
  "pointer_set [] new v = None"
| "pointer_set (raw # rest) new v =
     (case unescapeJSONPointer raw of None \<Rightarrow> None | Some segment \<Rightarrow>
      case v of
        JObject ms \<Rightarrow>
          (case map_of ms segment of None \<Rightarrow> None | Some w \<Rightarrow>
           if rest = [] then Some (JObject (AList.update segment new ms))
           else map_option (\<lambda>w'. JObject (AList.update segment w' ms)) (pointer_set rest new w))
      | _ \<Rightarrow> None)"

definition setJSONPointerValue :: "json \<Rightarrow> string \<Rightarrow> json \<Rightarrow> json option" where
  "setJSONPointerValue root pointer new =
     (if \<not> HasPrefix pointer ''/'' then None else pointer_set (pointer_segments pointer) new root)"

section \<open>Values\<close>

definition invalid_json :: error where
  "invalid_json = Err ''invalid JSON''"

definition decodeJSONValue :: "RawMessage \<Rightarrow> error + json" where
  "decodeJSONValue raw = (case decode_any raw of None \<Rightarrow> Inl invalid_json | Some v \<Rightarrow> Inr v)"

definition profileStateDigest :: "string \<Rightarrow> string" where
  "profileStateDigest value = ''sha256:'' @ hex_EncodeToString (sha256_Sum256 value)"

definition digestJSONValue :: "json \<Rightarrow> string" where
  "digestJSONValue value = profileStateDigest (json_Marshal value)"

definition jsonValuesEqual :: "json \<Rightarrow> json \<Rightarrow> bool" where
  "jsonValuesEqual left right \<longleftrightarrow> json_Marshal left = json_Marshal right"

text \<open>A value that may be absent is an option; the second one is the desired value.\<close>

definition profileStateValueMatches :: "json option \<Rightarrow> json option \<Rightarrow> bool" where
  "profileStateValueMatches observed desired \<longleftrightarrow>
     (if desired = Some JNull \<and> observed = None then True
      else case (observed, desired) of (Some o', Some d) \<Rightarrow> jsonValuesEqual o' d | _ \<Rightarrow> False)"

fun profileStateValueEmpty :: "json \<Rightarrow> bool" where
  "profileStateValueEmpty JNull = True"
| "profileStateValueEmpty (JString t) = (t = [])"
| "profileStateValueEmpty (JArray vs) = (vs = [])"
| "profileStateValueEmpty (JObject ms) = (ms = [])"
| "profileStateValueEmpty _ = False"

section \<open>Canonical states\<close>

definition maximumProfileStateBytes :: nat where
  "maximumProfileStateBytes = 262144"

definition maximumProfileStateChanges :: nat where
  "maximumProfileStateChanges = 1024"

definition maximumProfileStateDepth :: nat where
  "maximumProfileStateDepth = 32"

definition depth_exceeded :: "string \<Rightarrow> error" where
  "depth_exceeded path = Err (''profile state '' @ path @ '' exceeds maximum nesting depth '' @ FormatNat maximumProfileStateDepth)"

fun is_object :: "json \<Rightarrow> bool" where
  "is_object (JObject ms) = True"
| "is_object _ = False"

text \<open>The number of the fields below an object, after the checks of their names and of the depth.\<close>

fun validateAndCountObject :: "(string \<times> json) list \<Rightarrow> string \<Rightarrow> nat \<Rightarrow> error + nat"
  and count_field :: "json \<Rightarrow> string \<Rightarrow> nat \<Rightarrow> error + nat"
  and validateNested :: "json \<Rightarrow> string \<Rightarrow> nat \<Rightarrow> error option"
  and nested_elements :: "json list \<Rightarrow> nat \<Rightarrow> string \<Rightarrow> nat \<Rightarrow> error option" where
  "validateAndCountObject [] path depth =
     (if maximumProfileStateDepth < depth then Inl (depth_exceeded path) else Inr 0)"
| "validateAndCountObject ((key, child) # ms) path depth =
     (if maximumProfileStateDepth < depth then Inl (depth_exceeded path)
      else if TrimSpace key = [] then Inl (Err (''profile state '' @ path @ '' contains an empty field name''))
      else if key = ''processor''
      then Inl (Err (''profile state '' @ path @ '' contains an unresolved processor reference''))
      else case count_field child (path @ ''.'' @ key) (depth + 1) of Inl e \<Rightarrow> Inl e | Inr n \<Rightarrow>
      case validateAndCountObject ms path depth of Inl e \<Rightarrow> Inl e | Inr m \<Rightarrow> Inr (n + m))"
| "count_field (JObject ms) path depth = validateAndCountObject ms path depth"
| "count_field (JArray vs) path depth =
     (if maximumProfileStateDepth < depth then Inl (depth_exceeded path)
      else case nested_elements vs 0 path (depth + 1) of Some e \<Rightarrow> Inl e | None \<Rightarrow> Inr 1)"
| "count_field v path depth = (if maximumProfileStateDepth < depth then Inl (depth_exceeded path) else Inr 1)"
| "validateNested (JObject ms) path depth =
     (if maximumProfileStateDepth < depth then Some (depth_exceeded path)
      else case validateAndCountObject ms path depth of Inl e \<Rightarrow> Some e | Inr _ \<Rightarrow> None)"
| "validateNested (JArray vs) path depth =
     (if maximumProfileStateDepth < depth then Some (depth_exceeded path)
      else nested_elements vs 0 path (depth + 1))"
| "validateNested v path depth = (if maximumProfileStateDepth < depth then Some (depth_exceeded path) else None)"
| "nested_elements [] i path depth = None"
| "nested_elements (v # vs) i path depth =
     (case validateNested v (path @ ''['' @ FormatNat i @ '']'') depth of
        Some e \<Rightarrow> Some e | None \<Rightarrow> nested_elements vs (Suc i) path depth)"

text \<open>The root object holds at most the objects \<open>profile\<close> and \<open>resumes\<close>.\<close>

fun count_resumes :: "(string \<times> json) list \<Rightarrow> error + nat" where
  "count_resumes [] = Inr 0"
| "count_resumes ((resumeID, value) # rest) =
     (if TrimSpace resumeID = [] then Inl (Err ''profile state contains an empty resume id'')
      else case value of
        JObject resume \<Rightarrow>
          (case validateAndCountObject resume (''resume '' @ resumeID) 1 of Inl e \<Rightarrow> Inl e | Inr n \<Rightarrow>
           case count_resumes rest of Inl e \<Rightarrow> Inl e | Inr m \<Rightarrow> Inr (n + m))
      | _ \<Rightarrow> Inl (Err (''profile state resume '' @ quoted resumeID @ '' must be an object'')))"

definition count_profile :: "(string \<times> json) list \<Rightarrow> error + nat" where
  "count_profile root =
     (case map_of root ''profile'' of
        None \<Rightarrow> Inr 0
      | Some (JObject profile) \<Rightarrow> validateAndCountObject profile ''profile'' 1
      | Some _ \<Rightarrow> Inl (Err ''profile state profile must be an object''))"

definition count_leaves :: "(string \<times> json) list \<Rightarrow> error + nat" where
  "count_leaves root =
     (case count_profile root of Inl e \<Rightarrow> Inl e | Inr n \<Rightarrow>
      case map_of root ''resumes'' of
        None \<Rightarrow> Inr n
      | Some (JObject resumes) \<Rightarrow> (case count_resumes resumes of Inl e \<Rightarrow> Inl e | Inr m \<Rightarrow> Inr (n + m))
      | Some _ \<Rightarrow> Inl (Err ''profile state resumes must be an object''))"

definition canonicalProfileState :: "RawMessage \<Rightarrow> error + RawMessage \<times> nat" where
  "canonicalProfileState raw =
     (if raw = [] \<or> maximumProfileStateBytes < length raw
      then Inl (Err (''profile state must contain between 1 and '' @ FormatNat maximumProfileStateBytes @ '' bytes''))
      else case decodeJSONValue raw of
        Inl e \<Rightarrow> Inl (ErrWrap ''decode profile state'' e)
      | Inr (JObject root) \<Rightarrow>
          (case find (\<lambda>m. fst m \<noteq> ''profile'' \<and> fst m \<noteq> ''resumes'') root of
             Some m \<Rightarrow> Inl (Err (''profile state contains unsupported root field '' @ quoted (fst m)))
           | None \<Rightarrow>
               (case count_leaves root of Inl e \<Rightarrow> Inl e | Inr n \<Rightarrow> Inr (json_Marshal (JObject root), n)))
      | Inr _ \<Rightarrow> Inl (Err ''profile state must be a JSON object''))"

text \<open>The JSON pointers of the leaves below a value.\<close>

fun collectDeclaredPaths :: "string \<Rightarrow> json \<Rightarrow> string list" where
  "collectDeclaredPaths path (JObject ms) =
     concat (map snd (sort_key fst
       (map (\<lambda>(key, v). (key, collectDeclaredPaths (path @ ''/'' @ escapeJSONPointer key) v)) ms)))"
| "collectDeclaredPaths path v = [path]"

section \<open>Resources\<close>

definition OwnershipDeclaredFields :: string where
  "OwnershipDeclaredFields = ''declared_fields''"

record ProfileStateResource =
  rsc_Tag :: string
  rsc_ProfileID :: ProfileID
  rsc_Ownership :: string
  rsc_State :: RawMessage
  rsc_ManifestDigest :: string

record ProfileStateValueOverride =
  ovr_Path :: string
  ovr_Value :: RawMessage

definition profileStateManifestDigest :: "ProfileStateResource \<Rightarrow> string" where
  "profileStateManifestDigest resource = profileStateDigest
     (rsc_Tag resource @ [CHR 0x00] @ rsc_ProfileID resource @ [CHR 0x00] @ rsc_Ownership resource @ [CHR 0x00]
      @ rsc_State resource)"

definition Resource_Validate :: "ProfileStateResource \<Rightarrow> error option" where
  "Resource_Validate resource =
     (if TrimSpace (rsc_Tag resource) = [] \<or> rsc_ProfileID resource = []
      then Some (Err ''profile state resource requires tag and profile id'')
      else if rsc_Ownership resource \<noteq> OwnershipDeclaredFields
      then Some (Err (''profile state resource ownership must be '' @ quoted OwnershipDeclaredFields))
      else case canonicalProfileState (rsc_State resource) of Inl e \<Rightarrow> Some e | Inr (canonical, leaves) \<Rightarrow>
      if leaves = 0 then Some (Err ''profile state resource must declare at least one field'')
      else if canonical \<noteq> rsc_State resource
      then Some (Err ''profile state resource must contain canonical JSON'')
      else if rsc_ManifestDigest resource = [] \<or> rsc_ManifestDigest resource \<noteq> profileStateManifestDigest resource
      then Some (Err ''profile state resource manifest digest does not match its contents'')
      else None)"

definition NewProfileStateResource ::
  "string \<Rightarrow> ProfileID \<Rightarrow> string \<Rightarrow> RawMessage \<Rightarrow> error + ProfileStateResource" where
  "NewProfileStateResource tag profileID ownership state =
     (case canonicalProfileState state of Inl e \<Rightarrow> Inl e | Inr (canonical, leaves) \<Rightarrow>
      if leaves = 0 then Inl (Err ''profile state resource must declare at least one field'')
      else let resource = \<lparr>rsc_Tag = TrimSpace tag, rsc_ProfileID = profileID, rsc_Ownership = TrimSpace ownership,
                 rsc_State = canonical, rsc_ManifestDigest = []\<rparr>;
               resource = resource\<lparr>rsc_ManifestDigest := profileStateManifestDigest resource\<rparr>
           in case Resource_Validate resource of Some e \<Rightarrow> Inl e | None \<Rightarrow> Inr resource)"

definition Resource_DeclaredPaths :: "ProfileStateResource \<Rightarrow> error + string list" where
  "Resource_DeclaredPaths resource =
     (case Resource_Validate resource of Some e \<Rightarrow> Inl e | None \<Rightarrow>
      case decodeJSONValue (rsc_State resource) of Inl e \<Rightarrow> Inl e | Inr value \<Rightarrow>
      Inr (sort (collectDeclaredPaths [] value)))"

text \<open>\<open>sort.SearchStrings\<close> on a sorted list: the first index whose text is not smaller.\<close>

definition SearchStrings :: "string list \<Rightarrow> string \<Rightarrow> nat" where
  "SearchStrings xs x = length (takeWhile (\<lambda>y. y < x) xs)"

text \<open>\<open>None\<close> stands for the answer \<open>false\<close>.\<close>

definition Resource_ValueAt :: "ProfileStateResource \<Rightarrow> string \<Rightarrow> error + RawMessage option" where
  "Resource_ValueAt resource path =
     (case Resource_DeclaredPaths resource of Inl e \<Rightarrow> Inl e | Inr paths \<Rightarrow>
      let index = SearchStrings paths path in
      if index = length paths \<or> paths ! index \<noteq> path then Inr None
      else case decodeJSONValue (rsc_State resource) of Inl e \<Rightarrow> Inl e | Inr value \<Rightarrow>
      Inr (map_option json_Marshal (jsonPointerValue value path)))"

fun apply_overrides ::
  "string list \<Rightarrow> string list \<Rightarrow> ProfileStateValueOverride list \<Rightarrow> json \<Rightarrow> error + json" where
  "apply_overrides declared seen [] state = Inr state"
| "apply_overrides declared seen (override # rest) state =
     (let path = ovr_Path override in
      if path \<notin> set declared
      then Inl (Err (''profile state override path '' @ quoted path @ '' is not a declared leaf''))
      else if path \<in> set seen then Inl (Err (''duplicate profile state override path '' @ quoted path))
      else case decodeJSONValue (ovr_Value override) of
        Inl e \<Rightarrow> Inl (ErrWrap (''decode profile state override '' @ quoted path) e)
      | Inr value \<Rightarrow>
          if is_object value
          then Inl (Err (''profile state override '' @ quoted path @ '' cannot replace a leaf with an object''))
          else case setJSONPointerValue state path value of
            None \<Rightarrow> Inl (Err (''profile state override path '' @ quoted path @ '' cannot be replaced''))
          | Some state' \<Rightarrow> apply_overrides declared (path # seen) rest state')"

definition WithOverrides ::
  "ProfileStateValueOverride list \<Rightarrow> ProfileStateResource \<Rightarrow> error + ProfileStateResource" where
  "WithOverrides overrides resource =
     (case Resource_Validate resource of Some e \<Rightarrow> Inl e | None \<Rightarrow>
      if overrides = [] then Inl (Err ''profile state override requires at least one value'')
      else case Resource_DeclaredPaths resource of Inl e \<Rightarrow> Inl e | Inr declaredPaths \<Rightarrow>
      case decodeJSONValue (rsc_State resource) of Inl e \<Rightarrow> Inl e | Inr state \<Rightarrow>
      case apply_overrides declaredPaths [] overrides state of Inl e \<Rightarrow> Inl e | Inr state' \<Rightarrow>
      case NewProfileStateResource (rsc_Tag resource) (rsc_ProfileID resource) (rsc_Ownership resource)
             (json_Marshal state') of Inl e \<Rightarrow> Inl e | Inr derived \<Rightarrow>
      case Resource_DeclaredPaths derived of Inl e \<Rightarrow> Inl e | Inr derivedPaths \<Rightarrow>
      if derivedPaths \<noteq> declaredPaths
      then Inl (Err ''profile state override changed declared ownership'')
      else Inr derived)"

section \<open>Observations\<close>

record ProfileStateObservation =
  pso_ProfileID :: ProfileID
  pso_State :: RawMessage
  pso_StateDigest :: string
  pso_RemoteRevision :: string
  pso_ObservedAt :: time

definition StateObservation_Validate :: "ProfileStateObservation \<Rightarrow> error option" where
  "StateObservation_Validate observation =
     (if pso_ProfileID observation = [] \<or> IsZero (pso_ObservedAt observation)
      then Some (Err ''profile state observation requires profile id and observed time'')
      else case canonicalProfileState (pso_State observation) of Inl e \<Rightarrow> Some e | Inr (canonical, _) \<Rightarrow>
      if canonical \<noteq> pso_State observation
      then Some (Err ''profile state observation must contain canonical JSON'')
      else if pso_StateDigest observation = []
              \<or> pso_StateDigest observation \<noteq> profileStateDigest (pso_State observation)
      then Some (Err ''profile state observation digest does not match its contents'')
      else None)"

definition NewProfileStateObservation ::
  "ProfileID \<Rightarrow> RawMessage \<Rightarrow> string \<Rightarrow> time \<Rightarrow> error + ProfileStateObservation" where
  "NewProfileStateObservation profileID state remoteRevision observedAt =
     (case canonicalProfileState state of Inl e \<Rightarrow> Inl e | Inr (canonical, _) \<Rightarrow>
      let observation = \<lparr>pso_ProfileID = profileID, pso_State = canonical,
            pso_StateDigest = profileStateDigest canonical, pso_RemoteRevision = TrimSpace remoteRevision,
            pso_ObservedAt = observedAt\<rparr>
      in case StateObservation_Validate observation of Some e \<Rightarrow> Inl e | None \<Rightarrow> Inr observation)"

definition no_pointer :: "string \<Rightarrow> error" where
  "no_pointer path = Err (''profile state path '' @ quoted path @ '' is not a JSON Pointer'')"

definition StateObservation_ValueAt :: "ProfileStateObservation \<Rightarrow> string \<Rightarrow> error + RawMessage option" where
  "StateObservation_ValueAt observation path =
     (case StateObservation_Validate observation of Some e \<Rightarrow> Inl e | None \<Rightarrow>
      if \<not> HasPrefix path ''/'' then Inl (no_pointer path)
      else case decodeJSONValue (pso_State observation) of Inl e \<Rightarrow> Inl e | Inr state \<Rightarrow>
      Inr (map_option json_Marshal (jsonPointerValue state path)))"

fun paths_empty :: "json \<Rightarrow> string list \<Rightarrow> error + bool" where
  "paths_empty state [] = Inr True"
| "paths_empty state (path # rest) =
     (if \<not> HasPrefix path ''/'' then Inl (no_pointer path)
      else case jsonPointerValue state path of
        Some value \<Rightarrow> if profileStateValueEmpty value then paths_empty state rest else Inr False
      | None \<Rightarrow> paths_empty state rest)"

definition PathsEmpty :: "string list \<Rightarrow> ProfileStateObservation \<Rightarrow> error + bool" where
  "PathsEmpty paths observation =
     (case StateObservation_Validate observation of Some e \<Rightarrow> Inl e | None \<Rightarrow>
      if paths = [] then Inl (Err ''profile state empty check requires at least one path'')
      else case decodeJSONValue (pso_State observation) of Inl e \<Rightarrow> Inl e | Inr state \<Rightarrow>
      paths_empty state paths)"

end
