(* ===== verification/ProfilePlan.thy ===== *)
theory ProfilePlan
  imports ProfileState
begin

text \<open>
  The second half of \<open>core/profile_state.go\<close>: the changes that lead from an observed state to
  a resource's desired state, the proposal that holds them, what of it is left to apply, and the
  record of an applied proposal; and their stores in \<open>storage/memory/profile_state.go\<close>.
\<close>

type_synonym ProfileStateProposalID = string

section \<open>Changes\<close>

record ProfileStateChange =
  chg_Path :: string
  chg_Operation :: string
  chg_BeforePresent :: bool
  chg_BeforeDigest :: string
  chg_AfterDigest :: string

definition members_of :: "json option \<Rightarrow> (string \<times> json) list" where
  "members_of v = (case v of Some (JObject ms) \<Rightarrow> ms | _ \<Rightarrow> [])"

definition change_of :: "string \<Rightarrow> json option \<Rightarrow> json \<Rightarrow> ProfileStateChange" where
  "change_of path observed desired =
     \<lparr>chg_Path = path, chg_Operation = (if desired = JNull then ''clear'' else ''set''),
      chg_BeforePresent = (observed \<noteq> None),
      chg_BeforeDigest = (case observed of None \<Rightarrow> [] | Some v \<Rightarrow> digestJSONValue v),
      chg_AfterDigest = digestJSONValue desired\<rparr>"

text \<open>A leaf: no change where the values agree, or where nothing is to be cleared.\<close>

definition diff_leaf :: "string \<Rightarrow> json option \<Rightarrow> json \<Rightarrow> ProfileStateChange list" where
  "diff_leaf path observed desired =
     (if (case observed of None \<Rightarrow> False | Some v \<Rightarrow> jsonValuesEqual v desired) then []
      else if desired = JNull \<and> (observed = None \<or> observed = Some JNull) then []
      else [change_of path observed desired])"

text \<open>An observed value that is not there is \<open>None\<close>.\<close>

fun diffDeclaredValue :: "string \<Rightarrow> json option \<Rightarrow> json \<Rightarrow> ProfileStateChange list" where
  "diffDeclaredValue path observed (JObject ms) =
     concat (map snd (sort_key fst
       (map (\<lambda>(key, v). (key, diffDeclaredValue (path @ ''/'' @ escapeJSONPointer key)
          (map_of (members_of observed) key) v)) ms)))"
| "diffDeclaredValue path observed desired = diff_leaf path observed desired"

definition diffProfileState :: "RawMessage \<Rightarrow> RawMessage \<Rightarrow> error + ProfileStateChange list" where
  "diffProfileState observedRaw desiredRaw =
     (case decodeJSONValue observedRaw of Inl e \<Rightarrow> Inl e | Inr observed \<Rightarrow>
      case decodeJSONValue desiredRaw of Inl e \<Rightarrow> Inl e | Inr desired \<Rightarrow>
      let changes = diffDeclaredValue [] (Some observed) desired in
      if maximumProfileStateChanges < length changes
      then Inl (Err (''profile state diff exceeds '' @ FormatNat maximumProfileStateChanges @ '' changes''))
      else Inr (sort_Slice (\<lambda>a b. chg_Path a < chg_Path b) changes))"

text \<open>Changes in strictly increasing order of their paths, each complete; the text names their owner.\<close>

fun validate_changes :: "string \<Rightarrow> string \<Rightarrow> ProfileStateChange list \<Rightarrow> error option" where
  "validate_changes owner previous [] = None"
| "validate_changes owner previous (change # rest) =
     (if chg_Path change = [] \<or> chg_Path change \<le> previous
         \<or> chg_Operation change \<noteq> ''set'' \<and> chg_Operation change \<noteq> ''clear'' \<or> chg_AfterDigest change = []
      then Some (Err (''profile state '' @ owner @ '' contains invalid or unsorted changes''))
      else if chg_BeforePresent change \<noteq> (chg_BeforeDigest change \<noteq> [])
      then Some (Err (''profile state '' @ owner @ '' change presence does not match before digest''))
      else validate_changes owner (chg_Path change) rest)"

section \<open>Proposals\<close>

datatype ProfileStateProposalStatus = ProposalPlanned | ProposalNoChanges | ProposalStatusOther string

fun proposal_status_text :: "ProfileStateProposalStatus \<Rightarrow> string" where
  "proposal_status_text ProposalPlanned = ''planned''"
| "proposal_status_text ProposalNoChanges = ''no_changes''"
| "proposal_status_text (ProposalStatusOther s) = s"

record ProfileStateProposal =
  psp_ID :: ProfileStateProposalID
  psp_ResourceTag :: string
  psp_ProfileID :: ProfileID
  psp_Ownership :: string
  psp_Status :: ProfileStateProposalStatus
  psp_IdempotencyKey :: string
  psp_ManifestDigest :: string
  psp_ObservedDigest :: string
  psp_DesiredDigest :: string
  psp_RemoteRevision :: string
  psp_DesiredState :: RawMessage
  psp_Changes :: "ProfileStateChange list"
  psp_ObservationTime :: time
  psp_Revision :: "64 word"
  psp_CreatedAt :: time
  psp_UpdatedAt :: time

definition profileStateProposalKey :: "ProfileStateProposal \<Rightarrow> string" where
  "profileStateProposalKey p = ''profile-state-plan:'' @ hex_EncodeToString (sha256_Sum256
     (psp_ResourceTag p @ [CHR 0x00] @ psp_ProfileID p @ [CHR 0x00] @ psp_ManifestDigest p @ [CHR 0x00]
      @ psp_ObservedDigest p @ [CHR 0x00] @ psp_RemoteRevision p))"

definition canonical_desired :: "RawMessage \<Rightarrow> bool" where
  "canonical_desired state \<longleftrightarrow> (case canonicalProfileState state of Inl _ \<Rightarrow> False
     | Inr (canonical, leaves) \<Rightarrow> leaves \<noteq> 0 \<and> canonical = state)"

definition Proposal_Validate :: "ProfileStateProposal \<Rightarrow> error option" where
  "Proposal_Validate p =
     (if psp_ID p = [] \<or> TrimSpace (psp_ResourceTag p) = [] \<or> psp_ProfileID p = []
      then Some (Err ''profile state proposal requires id, resource tag and profile id'')
      else if psp_Ownership p \<noteq> OwnershipDeclaredFields
      then Some (Err (''profile state proposal ownership must be '' @ quoted OwnershipDeclaredFields))
      else if psp_ManifestDigest p = [] \<or> psp_ObservedDigest p = [] \<or> psp_DesiredDigest p = []
      then Some (Err ''profile state proposal requires manifest, observed and desired digests'')
      else if \<not> canonical_desired (psp_DesiredState p)
      then Some (Err ''profile state proposal requires canonical desired state'')
      else if psp_DesiredDigest p \<noteq> profileStateDigest (psp_DesiredState p)
      then Some (Err ''profile state proposal desired digest does not match its contents'')
      else if maximumProfileStateChanges < length (psp_Changes p)
      then Some (Err (''profile state proposal exceeds '' @ FormatNat maximumProfileStateChanges @ '' changes''))
      else if psp_Status p = ProposalNoChanges \<and> psp_Changes p \<noteq> []
              \<or> psp_Status p = ProposalPlanned \<and> psp_Changes p = []
      then Some (Err ''profile state proposal status does not match its changes'')
      else if psp_Status p \<noteq> ProposalPlanned \<and> psp_Status p \<noteq> ProposalNoChanges
      then Some (Err (''unsupported profile state proposal status '' @ quoted (proposal_status_text (psp_Status p))))
      else case validate_changes ''proposal'' [] (psp_Changes p) of Some e \<Rightarrow> Some e | None \<Rightarrow>
      if IsZero (psp_ObservationTime p) \<or> psp_Revision p \<noteq> 1 \<or> IsZero (psp_CreatedAt p)
         \<or> psp_UpdatedAt p \<noteq> psp_CreatedAt p
      then Some (Err ''profile state proposal requires immutable revision-one timestamps'')
      else if psp_IdempotencyKey p = [] \<or> psp_IdempotencyKey p \<noteq> profileStateProposalKey p
      then Some (Err ''profile state proposal idempotency key does not match its inputs'')
      else None)"

definition NewProfileStateProposal ::
  "ProfileStateProposalID \<Rightarrow> ProfileStateResource \<Rightarrow> ProfileStateObservation \<Rightarrow> time
    \<Rightarrow> error + ProfileStateProposal" where
  "NewProfileStateProposal i resource observation now =
     (if i = [] \<or> IsZero now then Inl (Err ''profile state proposal requires id and current time'')
      else case Resource_Validate resource of Some e \<Rightarrow> Inl (ErrWrap ''profile state proposal resource'' e) | None \<Rightarrow>
      case StateObservation_Validate observation of
        Some e \<Rightarrow> Inl (ErrWrap ''profile state proposal observation'' e) | None \<Rightarrow>
      if rsc_ProfileID resource \<noteq> pso_ProfileID observation
      then Inl (Err ''profile state proposal resource and observation profiles differ'')
      else case diffProfileState (pso_State observation) (rsc_State resource) of Inl e \<Rightarrow> Inl e | Inr changes \<Rightarrow>
      let proposal = \<lparr>psp_ID = i, psp_ResourceTag = rsc_Tag resource, psp_ProfileID = rsc_ProfileID resource,
            psp_Ownership = rsc_Ownership resource,
            psp_Status = (if changes = [] then ProposalNoChanges else ProposalPlanned), psp_IdempotencyKey = [],
            psp_ManifestDigest = rsc_ManifestDigest resource, psp_ObservedDigest = pso_StateDigest observation,
            psp_DesiredDigest = profileStateDigest (rsc_State resource),
            psp_RemoteRevision = pso_RemoteRevision observation, psp_DesiredState = rsc_State resource,
            psp_Changes = changes, psp_ObservationTime = pso_ObservedAt observation, psp_Revision = 1,
            psp_CreatedAt = now, psp_UpdatedAt = now\<rparr>;
          proposal = proposal\<lparr>psp_IdempotencyKey := profileStateProposalKey proposal\<rparr>
      in case Proposal_Validate proposal of Some e \<Rightarrow> Inl e | None \<Rightarrow> Inr proposal)"

definition Proposal_DeclaredPaths :: "ProfileStateProposal \<Rightarrow> error + string list" where
  "Proposal_DeclaredPaths p =
     (case Proposal_Validate p of Some e \<Rightarrow> Inl e | None \<Rightarrow>
      case decodeJSONValue (psp_DesiredState p) of Inl e \<Rightarrow> Inl e | Inr value \<Rightarrow>
      Inr (sort (collectDeclaredPaths [] value)))"

section \<open>What is left to apply\<close>

definition state_changed :: "string \<Rightarrow> error" where
  "state_changed path = ErrWrap ('' at '' @ path) (ErrSentinel ErrProfileStateChanged)"

text \<open>A changed field is still as it was when the plan was made.\<close>

definition before_matches :: "ProfileStateChange \<Rightarrow> json option \<Rightarrow> bool" where
  "before_matches change observed \<longleftrightarrow> (observed \<noteq> None) = chg_BeforePresent change
     \<and> (case observed of None \<Rightarrow> True | Some v \<Rightarrow> digestJSONValue v = chg_BeforeDigest change)"

fun pending_changes ::
  "(string \<times> ProfileStateChange) list \<Rightarrow> json \<Rightarrow> json \<Rightarrow> string list \<Rightarrow> error + ProfileStateChange list" where
  "pending_changes changes desired observed [] = Inr []"
| "pending_changes changes desired observed (path # rest) =
     (case jsonPointerValue desired path of
        None \<Rightarrow> Inl (Err ''profile state proposal declared path is missing from desired state'')
      | Some value \<Rightarrow>
          let current = jsonPointerValue observed path in
          (case map_of changes path of
             None \<Rightarrow>
               if \<not> profileStateValueMatches current (Some value) then Inl (state_changed path)
               else pending_changes changes desired observed rest
           | Some change \<Rightarrow>
               if profileStateValueMatches current (Some value) then pending_changes changes desired observed rest
               else if \<not> before_matches change current then Inl (state_changed path)
               else (case pending_changes changes desired observed rest of
                       Inl e \<Rightarrow> Inl e | Inr pending \<Rightarrow> Inr (change # pending))))"

definition ChangesToApply :: "ProfileStateObservation \<Rightarrow> ProfileStateProposal \<Rightarrow> error + ProfileStateChange list" where
  "ChangesToApply observation p =
     (case Proposal_Validate p of Some e \<Rightarrow> Inl e | None \<Rightarrow>
      case StateObservation_Validate observation of Some e \<Rightarrow> Inl e | None \<Rightarrow>
      if psp_ProfileID p \<noteq> pso_ProfileID observation
      then Inl (Err ''profile state proposal and observation profiles differ'')
      else case decodeJSONValue (psp_DesiredState p) of Inl e \<Rightarrow> Inl e | Inr desired \<Rightarrow>
      case decodeJSONValue (pso_State observation) of Inl e \<Rightarrow> Inl e | Inr observed \<Rightarrow>
      let changes = fold (\<lambda>change. AList.update (chg_Path change) change) (psp_Changes p) [] in
      case Proposal_DeclaredPaths p of Inl e \<Rightarrow> Inl e | Inr paths \<Rightarrow>
      pending_changes changes desired observed paths)"

section \<open>Applied proposals\<close>

record ProfileStateRevision =
  psr_ProposalID :: ProfileStateProposalID
  psr_ResourceTag :: string
  psr_ProfileID :: ProfileID
  psr_ManifestDigest :: string
  psr_ObservedDigest :: string
  psr_DesiredDigest :: string
  psr_RemoteRevision :: string
  psr_Changes :: "ProfileStateChange list"
  psr_Source :: string
  psr_AppliedAt :: time

definition Revision_Validate :: "ProfileStateRevision \<Rightarrow> error option" where
  "Revision_Validate r =
     (if psr_ProposalID r = [] \<or> TrimSpace (psr_ResourceTag r) = [] \<or> psr_ProfileID r = []
      then Some (Err ''profile state revision requires proposal, resource tag and profile'')
      else if psr_ManifestDigest r = [] \<or> psr_ObservedDigest r = [] \<or> psr_DesiredDigest r = []
      then Some (Err ''profile state revision requires manifest, observed and desired digests'')
      else if TrimSpace (psr_Source r) = [] \<or> IsZero (psr_AppliedAt r)
      then Some (Err ''profile state revision requires source and applied time'')
      else if psr_Changes r = [] \<or> maximumProfileStateChanges < length (psr_Changes r)
      then Some (Err ''profile state revision requires a bounded non-empty change set'')
      else validate_changes ''revision'' [] (psr_Changes r))"

definition NewProfileStateRevision ::
  "ProfileStateProposal \<Rightarrow> string \<Rightarrow> time \<Rightarrow> error + ProfileStateRevision" where
  "NewProfileStateRevision p source appliedAt =
     (case Proposal_Validate p of Some e \<Rightarrow> Inl (ErrWrap ''profile state revision proposal'' e) | None \<Rightarrow>
      if psp_Status p \<noteq> ProposalPlanned \<or> psp_Changes p = []
      then Inl (Err ''profile state revision requires a proposal with changes'')
      else if TrimSpace source = [] \<or> IsZero appliedAt
      then Inl (Err ''profile state revision requires source and applied time'')
      else let revision = \<lparr>psr_ProposalID = psp_ID p, psr_ResourceTag = psp_ResourceTag p,
                 psr_ProfileID = psp_ProfileID p, psr_ManifestDigest = psp_ManifestDigest p,
                 psr_ObservedDigest = psp_ObservedDigest p, psr_DesiredDigest = psp_DesiredDigest p,
                 psr_RemoteRevision = psp_RemoteRevision p, psr_Changes = psp_Changes p,
                 psr_Source = TrimSpace source, psr_AppliedAt = appliedAt\<rparr>
           in case Revision_Validate revision of Some e \<Rightarrow> Inl e | None \<Rightarrow> Inr revision)"

section \<open>The store\<close>

record ProfileStates =
  ps_proposals :: "(ProfileStateProposalID \<times> ProfileStateProposal) list"
  ps_keys :: "(string \<times> ProfileStateProposalID) list"
  ps_revisions :: "(ProfileStateProposalID \<times> ProfileStateRevision) list"

definition zero_Proposal :: ProfileStateProposal where
  "zero_Proposal = \<lparr>psp_ID = [], psp_ResourceTag = [], psp_ProfileID = [], psp_Ownership = [],
     psp_Status = ProposalStatusOther [], psp_IdempotencyKey = [], psp_ManifestDigest = [], psp_ObservedDigest = [],
     psp_DesiredDigest = [], psp_RemoteRevision = [], psp_DesiredState = [], psp_Changes = [],
     psp_ObservationTime = 0, psp_Revision = 0, psp_CreatedAt = 0, psp_UpdatedAt = 0\<rparr>"

definition sameProfileStateProposalInputs :: "ProfileStateProposal \<Rightarrow> ProfileStateProposal \<Rightarrow> bool" where
  "sameProfileStateProposalInputs a b \<longleftrightarrow> psp_ResourceTag a = psp_ResourceTag b \<and> psp_ProfileID a = psp_ProfileID b
     \<and> psp_Ownership a = psp_Ownership b \<and> psp_Status a = psp_Status b \<and> psp_IdempotencyKey a = psp_IdempotencyKey b
     \<and> psp_ManifestDigest a = psp_ManifestDigest b \<and> psp_ObservedDigest a = psp_ObservedDigest b
     \<and> psp_DesiredDigest a = psp_DesiredDigest b \<and> psp_RemoteRevision a = psp_RemoteRevision b
     \<and> psp_DesiredState a = psp_DesiredState b \<and> psp_Changes a = psp_Changes b"

definition sameProfileStateProposal :: "ProfileStateProposal \<Rightarrow> ProfileStateProposal \<Rightarrow> bool" where
  "sameProfileStateProposal a b \<longleftrightarrow> psp_ID a = psp_ID b \<and> sameProfileStateProposalInputs a b"

definition CreateProfileStateProposal ::
  "ctx \<Rightarrow> ProfileStateProposal \<Rightarrow> ProfileStates \<Rightarrow> (error + ProfileStateProposal \<times> bool) \<times> ProfileStates" where
  "CreateProfileStateProposal ctx candidate s =
     (case ctx of Some e \<Rightarrow> (Inl e, s) | None \<Rightarrow>
      case Proposal_Validate candidate of Some e \<Rightarrow> (Inl e, s) | None \<Rightarrow>
      case map_of (ps_proposals s) (psp_ID candidate) of
        Some stored \<Rightarrow>
          if \<not> sameProfileStateProposal stored candidate
          then (Inl (Err ''profile state proposal id conflicts with different contents''), s)
          else (Inr (stored, False), s)
      | None \<Rightarrow>
          (case map_of (ps_keys s) (psp_IdempotencyKey candidate) of
             Some i \<Rightarrow>
               (let stored = (case map_of (ps_proposals s) i of Some p \<Rightarrow> p | None \<Rightarrow> zero_Proposal)
                in if \<not> sameProfileStateProposalInputs stored candidate
                   then (Inl (Err ''profile state proposal idempotency key conflicts with different inputs''), s)
                   else (Inr (stored, False), s))
           | None \<Rightarrow>
               (Inr (candidate, True),
                s\<lparr>ps_proposals := AList.update (psp_ID candidate) candidate (ps_proposals s),
                  ps_keys := AList.update (psp_IdempotencyKey candidate) (psp_ID candidate) (ps_keys s)\<rparr>)))"

definition GetProfileStateProposal :: "ctx \<Rightarrow> ProfileStateProposalID \<Rightarrow> ProfileStates \<Rightarrow> error + ProfileStateProposal" where
  "GetProfileStateProposal ctx i s =
     (case ctx of Some e \<Rightarrow> Inl e | None \<Rightarrow>
      if i = [] then Inl (Err ''profile state proposal requires id'')
      else case map_of (ps_proposals s) i of
        None \<Rightarrow> Inl (Err ''profile state proposal not found'') | Some p \<Rightarrow> Inr p)"

record ProfileStateProposalFilter =
  psf_ResourceTag :: string
  psf_ProfileID :: ProfileID
  psf_Status :: ProfileStateProposalStatus

definition ListProfileStateProposals ::
  "ctx \<Rightarrow> ProfileStateProposalFilter \<Rightarrow> ProfileStates \<Rightarrow> error + ProfileStateProposal list" where
  "ListProfileStateProposals ctx f s =
     (case ctx of Some e \<Rightarrow> Inl e | None \<Rightarrow>
      Inr (sort_Slice
        (\<lambda>a b. if psp_CreatedAt a \<noteq> psp_CreatedAt b then psp_CreatedAt a > psp_CreatedAt b else psp_ID a < psp_ID b)
        (filter (\<lambda>p. \<not> (psf_ResourceTag f \<noteq> [] \<and> psp_ResourceTag p \<noteq> psf_ResourceTag f
            \<or> psf_ProfileID f \<noteq> [] \<and> psp_ProfileID p \<noteq> psf_ProfileID f
            \<or> psf_Status f \<noteq> ProposalStatusOther [] \<and> psp_Status p \<noteq> psf_Status f))
          (map snd (ps_proposals s)))))"

text \<open>The instant of the application is not compared: a repeated record keeps the first one.\<close>

definition sameProfileStateRevisionInputs :: "ProfileStateRevision \<Rightarrow> ProfileStateRevision \<Rightarrow> bool" where
  "sameProfileStateRevisionInputs a b \<longleftrightarrow> psr_ResourceTag a = psr_ResourceTag b \<and> psr_ProfileID a = psr_ProfileID b
     \<and> psr_ManifestDigest a = psr_ManifestDigest b \<and> psr_ObservedDigest a = psr_ObservedDigest b
     \<and> psr_DesiredDigest a = psr_DesiredDigest b \<and> psr_RemoteRevision a = psr_RemoteRevision b
     \<and> psr_Source a = psr_Source b \<and> psr_Changes a = psr_Changes b"

definition CreateProfileStateRevision ::
  "ctx \<Rightarrow> ProfileStateRevision \<Rightarrow> ProfileStates \<Rightarrow> (error + ProfileStateRevision \<times> bool) \<times> ProfileStates" where
  "CreateProfileStateRevision ctx candidate s =
     (case ctx of Some e \<Rightarrow> (Inl e, s) | None \<Rightarrow>
      case Revision_Validate candidate of Some e \<Rightarrow> (Inl e, s) | None \<Rightarrow>
      case map_of (ps_revisions s) (psr_ProposalID candidate) of
        Some stored \<Rightarrow>
          if \<not> sameProfileStateRevisionInputs stored candidate
          then (Inl (Err ''profile state revision conflicts with existing contents''), s)
          else (Inr (stored, False), s)
      | None \<Rightarrow>
          (Inr (candidate, True),
           s\<lparr>ps_revisions := AList.update (psr_ProposalID candidate) candidate (ps_revisions s)\<rparr>))"

record ProfileStateRevisionFilter =
  psrf_ResourceTag :: string
  psrf_ProfileID :: ProfileID
  psrf_Limit :: int

definition ListProfileStateRevisions ::
  "ctx \<Rightarrow> ProfileStateRevisionFilter \<Rightarrow> ProfileStates \<Rightarrow> error + ProfileStateRevision list" where
  "ListProfileStateRevisions ctx f s =
     (case ctx of Some e \<Rightarrow> Inl e | None \<Rightarrow>
      let result = sort_Slice
        (\<lambda>a b. if psr_AppliedAt a \<noteq> psr_AppliedAt b then psr_AppliedAt a > psr_AppliedAt b
               else psr_ProposalID a < psr_ProposalID b)
        (filter (\<lambda>r. \<not> (psrf_ResourceTag f \<noteq> [] \<and> psr_ResourceTag r \<noteq> psrf_ResourceTag f
            \<or> psrf_ProfileID f \<noteq> [] \<and> psr_ProfileID r \<noteq> psrf_ProfileID f)) (map snd (ps_revisions s)))
      in Inr (if psrf_Limit f > 0 \<and> int (length result) > psrf_Limit f then take (nat (psrf_Limit f)) result else result))"

end
