(* ===== verification/ProfileApply.thy ===== *)
theory ProfileApply
  imports ProfilePlan Broker GoJsonValue
begin

text \<open>
  \<open>workflow/profile_state.go\<close> (the planner), \<open>workflow/profile_state_apply.go\<close> (the
  commands that put a plan into the queue) and \<open>worker/profile_state.go\<close> (the handler that has a
  writer apply it and records what was confirmed). Readers and writers of profiles are adapters:
  functions on an outside world. The clock and the identifiers are arguments.
\<close>

section \<open>Payloads\<close>

record ProfileStateApplyPayload =
  psa_ProposalID :: ProfileStateProposalID

definition ApplyPayload_Validate :: "ProfileStateApplyPayload \<Rightarrow> error option" where
  "ApplyPayload_Validate payload =
     (if psa_ProposalID payload = [] then Some (Err ''profile state apply payload requires proposal'') else None)"

definition apply_payload_fields :: "ProfileStateApplyPayload json_fields" where
  "apply_payload_fields = [(''proposal_id'', string_field (\<lambda>t p. p\<lparr>psa_ProposalID := t\<rparr>))]"

definition decode_apply_payload :: "RawMessage \<Rightarrow> ProfileStateApplyPayload option" where
  "decode_apply_payload raw =
     (case json_parse raw of None \<Rightarrow> None | Some v \<Rightarrow> decode_struct apply_payload_fields v \<lparr>psa_ProposalID = []\<rparr>)"

definition encode_apply_payload :: "ProfileStateApplyPayload \<Rightarrow> RawMessage" where
  "encode_apply_payload payload = raw_Marshal (JObject [(''proposal_id'', JString (psa_ProposalID payload))])"

definition ProfileStateApplyIdempotencyKey :: "ProfileStateProposal \<Rightarrow> error + string" where
  "ProfileStateApplyIdempotencyKey p =
     (case Proposal_Validate p of Some e \<Rightarrow> Inl e | None \<Rightarrow>
      Inr (''profile_state.apply:'' @ hex_EncodeToString (sha256_Sum256 (psp_ID p @ [CHR 0x00] @ psp_DesiredDigest p))))"

section \<open>The planner\<close>

type_synonym Resources = "(string \<times> ProfileStateResource) list"

fun index_resources :: "ProfileStateResource list \<Rightarrow> Resources \<Rightarrow> error + Resources" where
  "index_resources [] indexed = Inr indexed"
| "index_resources (resource # rest) indexed =
     (case Resource_Validate resource of
        Some e \<Rightarrow> Inl (ErrWrap (''profile state resource '' @ quoted (rsc_Tag resource)) e)
      | None \<Rightarrow>
          if map_of indexed (rsc_Tag resource) \<noteq> None
          then Inl (Err (''duplicate profile state resource '' @ quoted (rsc_Tag resource)))
          else index_resources rest (AList.update (rsc_Tag resource) resource indexed))"

definition NewProfileStatePlanner :: "ProfileStateResource list \<Rightarrow> error + Resources" where
  "NewProfileStatePlanner resources = index_resources resources []"

definition planner_Resources :: "Resources \<Rightarrow> ProfileStateResource list" where
  "planner_Resources planner = sort_Slice (\<lambda>a b. rsc_Tag a < rsc_Tag b) (map snd planner)"

definition planner_Resource :: "Resources \<Rightarrow> string \<Rightarrow> ProfileStateResource option" where
  "planner_Resource planner tag = map_of planner (TrimSpace tag)"

definition not_registered :: "string \<Rightarrow> error" where
  "not_registered tag = Err (''profile state resource '' @ quoted tag @ '' is not registered'')"

text \<open>\<open>newID\<close> is what the generator answers.\<close>

definition planResource ::
  "ctx \<Rightarrow> error + string \<Rightarrow> time \<Rightarrow> ProfileStateResource \<Rightarrow> ProfileStateObservation \<Rightarrow> ProfileStates
    \<Rightarrow> (error + ProfileStateProposal \<times> bool) \<times> ProfileStates" where
  "planResource ctx newID now resource observation s =
     (if pso_ProfileID observation \<noteq> rsc_ProfileID resource
      then (Inl (Err ''profile state observation belongs to another profile''), s)
      else case newID of Inl e \<Rightarrow> (Inl e, s) | Inr i \<Rightarrow>
      case NewProfileStateProposal i resource observation now of Inl e \<Rightarrow> (Inl e, s) | Inr proposal \<Rightarrow>
      CreateProfileStateProposal ctx proposal s)"

definition Plan ::
  "ctx \<Rightarrow> error + string \<Rightarrow> time \<Rightarrow> Resources \<Rightarrow> string \<Rightarrow> ProfileStateObservation \<Rightarrow> ProfileStates
    \<Rightarrow> (error + ProfileStateProposal \<times> bool) \<times> ProfileStates" where
  "Plan ctx newID now planner tag observation s =
     (case planner_Resource planner tag of None \<Rightarrow> (Inl (not_registered tag), s)
      | Some resource \<Rightarrow> planResource ctx newID now resource observation s)"

type_synonym 'x ProfileStateReader =
  "ctx \<Rightarrow> ProfileID \<Rightarrow> string list \<Rightarrow> 'x \<Rightarrow> (error + ProfileStateObservation) \<times> 'x"

definition readAndPlanResource ::
  "ctx \<Rightarrow> error + string \<Rightarrow> time \<Rightarrow> 'x ProfileStateReader \<Rightarrow> ProfileStateResource \<Rightarrow> ProfileStates \<times> 'x
    \<Rightarrow> (error + ProfileStateProposal \<times> bool) \<times> ProfileStates \<times> 'x" where
  "readAndPlanResource ctx newID now reader resource sx =
     (case sx of (s, x) \<Rightarrow>
      case Resource_DeclaredPaths resource of Inl e \<Rightarrow> (Inl e, s, x) | Inr paths \<Rightarrow>
      case reader ctx (rsc_ProfileID resource) paths x of
        (Inl e, x') \<Rightarrow> (Inl e, s, x')
      | (Inr observation, x') \<Rightarrow>
          (case planResource ctx newID now resource observation s of (r, s') \<Rightarrow> (r, s', x')))"

definition ReadAndPlan ::
  "ctx \<Rightarrow> error + string \<Rightarrow> time \<Rightarrow> Resources \<Rightarrow> string \<Rightarrow> 'x ProfileStateReader \<Rightarrow> ProfileStates \<times> 'x
    \<Rightarrow> (error + ProfileStateProposal \<times> bool) \<times> ProfileStates \<times> 'x" where
  "ReadAndPlan ctx newID now planner tag reader sx =
     (case planner_Resource planner tag of None \<Rightarrow> (Inl (not_registered tag), sx)
      | Some resource \<Rightarrow> readAndPlanResource ctx newID now reader resource sx)"

definition ReadAndPlanResource ::
  "ctx \<Rightarrow> error + string \<Rightarrow> time \<Rightarrow> ProfileStateResource \<Rightarrow> 'x ProfileStateReader \<Rightarrow> ProfileStates \<times> 'x
    \<Rightarrow> (error + ProfileStateProposal \<times> bool) \<times> ProfileStates \<times> 'x" where
  "ReadAndPlanResource ctx newID now resource reader sx =
     (case Resource_Validate resource of Some e \<Rightarrow> (Inl e, sx)
      | None \<Rightarrow> readAndPlanResource ctx newID now reader resource sx)"

definition ReadAndPlanWithOverrides ::
  "ctx \<Rightarrow> error + string \<Rightarrow> time \<Rightarrow> Resources \<Rightarrow> string \<Rightarrow> ProfileStateValueOverride list
    \<Rightarrow> 'x ProfileStateReader \<Rightarrow> ProfileStates \<times> 'x
    \<Rightarrow> (error + ProfileStateProposal \<times> bool) \<times> ProfileStates \<times> 'x" where
  "ReadAndPlanWithOverrides ctx newID now planner tag overrides reader sx =
     (case planner_Resource planner tag of None \<Rightarrow> (Inl (not_registered tag), sx)
      | Some resource \<Rightarrow>
          (case WithOverrides overrides resource of Inl e \<Rightarrow> (Inl e, sx)
           | Inr derived \<Rightarrow> readAndPlanResource ctx newID now reader derived sx))"

section \<open>Commands\<close>

definition no_changes_error :: error where
  "no_changes_error = Err ''profile state proposal has no changes''"

definition controlTarget ::
  "ctx \<Rightarrow> ProfileStateProposalID \<Rightarrow> ProfileStates \<Rightarrow> error + ProfileStateProposal \<times> string" where
  "controlTarget ctx proposalID s =
     (if proposalID = [] then Inl (Err ''profile state task control requires workflow and proposal'')
      else case GetProfileStateProposal ctx proposalID s of Inl e \<Rightarrow> Inl e | Inr proposal \<Rightarrow>
      if psp_Status proposal \<noteq> ProposalPlanned then Inl no_changes_error
      else case ProfileStateApplyIdempotencyKey proposal of Inl e \<Rightarrow> Inl e | Inr key \<Rightarrow> Inr (proposal, key))"

text \<open>Both commands check the task they got back only after the queue was changed.\<close>

definition control_task ::
  "(string \<Rightarrow> Queue \<Rightarrow> (error + Task) \<times> Queue) \<Rightarrow> string \<Rightarrow> ctx \<Rightarrow> ProfileStateProposalID
    \<Rightarrow> ProfileStates \<Rightarrow> Queue \<Rightarrow> (error + Task) \<times> Queue" where
  "control_task act mismatch ctx proposalID s q =
     (case controlTarget ctx proposalID s of Inl e \<Rightarrow> (Inl e, q) | Inr (proposal, key) \<Rightarrow>
      case act key q of (Inl e, q') \<Rightarrow> (Inl e, q') | (Inr task, q') \<Rightarrow>
      if task_Type task \<noteq> TaskProfileStateApply \<or> task_ProfileID task \<noteq> psp_ProfileID proposal
      then (Inl (Err mismatch), q')
      else (Inr task, q'))"

definition apply_Retry ::
  "ctx \<Rightarrow> time \<Rightarrow> ProfileStateProposalID \<Rightarrow> ProfileStates \<Rightarrow> Queue \<Rightarrow> (error + Task) \<times> Queue" where
  "apply_Retry ctx now = control_task (\<lambda>key. RestartFailedTask ctx key now)
     ''profile state retry resolved another task'' ctx"

definition apply_Dismiss ::
  "ctx \<Rightarrow> time \<Rightarrow> ProfileStateProposalID \<Rightarrow> ProfileStates \<Rightarrow> Queue \<Rightarrow> (error + Task) \<times> Queue" where
  "apply_Dismiss ctx now = control_task (\<lambda>key. DismissFailedTask ctx key now)
     ''profile state dismissal resolved another task'' ctx"

definition apply_Enqueue ::
  "ctx \<Rightarrow> error + string \<Rightarrow> time \<Rightarrow> (ProfileID \<times> Platform) list \<Rightarrow> ProfileStateProposalID \<Rightarrow> string
    \<Rightarrow> ProfileStates \<Rightarrow> Queue \<Rightarrow> (error + Task \<times> bool) \<times> Queue" where
  "apply_Enqueue ctx newID now platforms proposalID source s q =
     (if proposalID = [] \<or> TrimSpace source = []
      then (Inl (Err ''profile state apply requires proposal and source''), q)
      else case GetProfileStateProposal ctx proposalID s of Inl e \<Rightarrow> (Inl e, q) | Inr proposal \<Rightarrow>
      if psp_Status proposal = ProposalNoChanges then (Inl no_changes_error, q)
      else case map_of platforms (psp_ProfileID proposal) of
        None \<Rightarrow> (Inl (Err ''profile state writer is unavailable''), q)
      | Some platform \<Rightarrow>
      case ProfileStateApplyIdempotencyKey proposal of Inl e \<Rightarrow> (Inl e, q) | Inr key \<Rightarrow>
      case newID of Inl e \<Rightarrow> (Inl e, q) | Inr i \<Rightarrow>
      case NewTask \<lparr>ntp_ID = i, ntp_Type = TaskProfileStateApply, ntp_IdempotencyKey = key,
             ntp_Source = TrimSpace source, ntp_Platform = platform, ntp_ProfileID = psp_ProfileID proposal,
             ntp_CorrelationID = psp_ID proposal,
             ntp_Payload = encode_apply_payload \<lparr>psa_ProposalID = psp_ID proposal\<rparr>,
             ntp_Priority = TaskPriorityMax, ntp_AvailableAt = 0, ntp_Deadline = None\<rparr> now of
        Inl e \<Rightarrow> (Inl e, q)
      | Inr task \<Rightarrow>
          (case Enqueue ctx task q of
             (Inl e, q') \<Rightarrow> (Inl e, q')
           | (Inr created, q') \<Rightarrow>
               if created then (Inr (task, True), q')
               else (case TaskByIdempotencyKey ctx key q' of Inl e \<Rightarrow> (Inl e, q') | Inr stored \<Rightarrow> (Inr (stored, False), q'))))"

section \<open>The handler\<close>

type_synonym 'x ProfileStateWriter =
  "ctx \<Rightarrow> ProfileStateProposal \<Rightarrow> 'x \<Rightarrow> (error + ProfileStateObservation) \<times> 'x"

definition Resolve_writer :: "(ProfileID \<times> 'x ProfileStateWriter) list \<Rightarrow> ProfileID \<Rightarrow> error + 'x ProfileStateWriter" where
  "Resolve_writer writers profileID =
     (case map_of writers profileID of
        None \<Rightarrow> Inl (ErrOperation (OperationError ErrorPermanentFailure ''profile_state.route'' []
          ''no profile state writer for profile'' None [] None))
      | Some writer \<Rightarrow> Inr writer)"

definition Register_writer ::
  "ProfileID \<Rightarrow> 'x ProfileStateWriter \<Rightarrow> (ProfileID \<times> 'x ProfileStateWriter) list
    \<Rightarrow> error option \<times> (ProfileID \<times> 'x ProfileStateWriter) list" where
  "Register_writer profileID writer writers =
     (if profileID = [] then (Some (Err ''profile state writer registration requires profile and writer''), writers)
      else if map_of writers profileID \<noteq> None
      then (Some (Err (''profile state writer for profile '' @ profileID @ '' is already registered'')), writers)
      else (None, AList.update profileID writer writers))"

text \<open>What the handler does with what the writer returned.\<close>

definition confirm_applied ::
  "ctx \<Rightarrow> time \<Rightarrow> string \<Rightarrow> ProfileStateProposal \<Rightarrow> ProfileStateObservation \<Rightarrow> ProfileStates \<Rightarrow> error option \<times> ProfileStates" where
  "confirm_applied ctx now source proposal observation s =
     (case StateObservation_Validate observation of
        Some e \<Rightarrow> (Some (ErrWrap ''profile state writer returned invalid observation'' e), s)
      | None \<Rightarrow>
      if pso_ProfileID observation \<noteq> psp_ProfileID proposal
      then (Some (Err ''profile state writer returned another profile''), s)
      else case ChangesToApply observation proposal of Inl e \<Rightarrow> (Some e, s) | Inr pending \<Rightarrow>
      if pending \<noteq> []
      then (Some (ErrOperation (OperationError ErrorAmbiguousResult ''profile_state.apply'' []
             ''profile state writer returned an unverified result'' None [] None)), s)
      else case NewProfileStateRevision proposal source now of Inl e \<Rightarrow> (Some e, s) | Inr revision \<Rightarrow>
      case CreateProfileStateRevision ctx revision s of
        (Inl e, s') \<Rightarrow> (Some e, s') | (Inr _, s') \<Rightarrow> (None, s'))"

definition apply_Handle ::
  "ctx \<Rightarrow> time \<Rightarrow> (ProfileID \<times> 'x ProfileStateWriter) list \<Rightarrow> Task \<Rightarrow> ProfileStates \<times> 'x
    \<Rightarrow> error option \<times> ProfileStates \<times> 'x" where
  "apply_Handle ctx now writers task sx =
     (case sx of (s, x) \<Rightarrow>
      if task_Type task \<noteq> TaskProfileStateApply
      then (Some (Err ''profile state apply handler received another task type''), s, x)
      else case decode_apply_payload (task_Payload task) of
        None \<Rightarrow> (Some (ErrWrap ''decode profile state apply task'' invalid_json), s, x)
      | Some payload \<Rightarrow>
      case ApplyPayload_Validate payload of Some e \<Rightarrow> (Some e, s, x) | None \<Rightarrow>
      case GetProfileStateProposal ctx (psa_ProposalID payload) s of Inl e \<Rightarrow> (Some e, s, x) | Inr proposal \<Rightarrow>
      if psp_ProfileID proposal \<noteq> task_ProfileID task
      then (Some (Err ''profile state apply task profile mismatch''), s, x)
      else if psp_Status proposal \<noteq> ProposalPlanned
      then (Some (Err ''profile state apply task requires a proposal with changes''), s, x)
      else case Resolve_writer writers (psp_ProfileID proposal) of Inl e \<Rightarrow> (Some e, s, x) | Inr writer \<Rightarrow>
      case writer ctx proposal x of
        (Inl e, x') \<Rightarrow> (Some e, s, x')
      | (Inr observation, x') \<Rightarrow>
          (case confirm_applied ctx now (task_Source task) proposal observation s of (r, s') \<Rightarrow> (r, s', x')))"

end
