(* ===== verification/ProfileState_Props.thy ===== *)
theory ProfileState_Props
  imports ProfilePlan
begin

text \<open>
  Profile states: pointers are read back, the canonical form is one and has the shape that is
  checked, the declared paths are the leaves, an override changes the leaves it names and nothing
  else, and a plan is the set of leaves that differ, of which a retry applies what is left.
\<close>

section \<open>Pointers\<close>

lemma escape_Cons:
  "escapeJSONPointer [] = []"
  "escapeJSONPointer (c # s) =
     (if c = CHR ''~'' then ''~0'' else if c = CHR ''/'' then ''~1'' else [c]) @ escapeJSONPointer s"
  by (auto simp: escapeJSONPointer_def replace_byte_def)

lemma unescape_escape [simp]: "unescapeJSONPointer (escapeJSONPointer s) = Some s"
  by (induction s) (auto simp: escape_Cons)

lemma escape_no_slash: "CHR ''/'' \<notin> set (escapeJSONPointer s)"
  by (induction s) (auto simp: escape_Cons)

lemma split_byte_ne [simp]: "split_byte b s \<noteq> []"
  by (induction s) (auto split: list.split)

lemma split_byte_none: "b \<notin> set s \<Longrightarrow> split_byte b s = [s]"
  by (induction s) auto

lemma split_byte_append: "b \<notin> set s \<Longrightarrow> split_byte b (s @ b # t) = s # split_byte b t"
  by (induction s) (auto split: list.split)

text \<open>The pointer of a list of keys.\<close>

definition pointer_of :: "string list \<Rightarrow> string" where
  "pointer_of ks = concat (map (\<lambda>k. CHR ''/'' # escapeJSONPointer k) ks)"

lemma pointer_of_simps [simp]:
  "pointer_of [] = []" "pointer_of (k # ks) = CHR ''/'' # escapeJSONPointer k @ pointer_of ks"
  by (simp_all add: pointer_of_def)

lemma pointer_of_Nil_iff [simp]: "pointer_of ks = [] \<longleftrightarrow> ks = []"
  by (cases ks) auto

lemma split_pointer: "split_byte (CHR ''/'') (escapeJSONPointer k @ pointer_of ks) = map escapeJSONPointer (k # ks)"
proof (induction ks arbitrary: k)
  case Nil
  show ?case by (simp add: split_byte_none escape_no_slash)
next
  case (Cons k' ks)
  show ?case using split_byte_append [OF escape_no_slash, of k "escapeJSONPointer k' @ pointer_of ks"] Cons.IH [of k']
    by simp
qed

lemma pointer_segments_of: "ks \<noteq> [] \<Longrightarrow> pointer_segments (pointer_of ks) = map escapeJSONPointer ks"
proof -
  assume "ks \<noteq> []"
  then obtain k ks' where ks: "ks = k # ks'" by (cases ks) auto
  have "TrimPrefix (''/'' @ escapeJSONPointer k @ pointer_of ks') ''/'' = escapeJSONPointer k @ pointer_of ks'"
    by (rule TrimPrefix_append)
  then show ?thesis using split_pointer [of k ks'] by (simp add: pointer_segments_def ks)
qed

lemma pointer_of_inject: "pointer_of ks = pointer_of js \<Longrightarrow> ks = js"
proof -
  assume eq: "pointer_of ks = pointer_of js"
  have inj: "map escapeJSONPointer ks = map escapeJSONPointer js \<Longrightarrow> ks = js"
    by (metis (no_types, lifting) ext option.inject list.inj_map injI inj_map_eq_map unescape_escape)
  show ?thesis
  proof (cases "ks = [] \<or> js = []")
    case True
    with eq show ?thesis using pointer_of_Nil_iff [of ks] pointer_of_Nil_iff [of js] by auto
  next
    case False
    with eq show ?thesis using pointer_segments_of [of ks] pointer_segments_of [of js] inj by simp
  qed
qed

text \<open>Reading and changing a value by keys.\<close>

fun keys_get :: "string list \<Rightarrow> json \<Rightarrow> json option" where
  "keys_get [] v = Some v"
| "keys_get (k # ks) v = (case map_of (members_of (Some v)) k of None \<Rightarrow> None | Some w \<Rightarrow> keys_get ks w)"

fun keys_set :: "string list \<Rightarrow> json \<Rightarrow> json \<Rightarrow> json option" where
  "keys_set [] new v = None"
| "keys_set (k # ks) new v =
     (case map_of (members_of (Some v)) k of None \<Rightarrow> None | Some w \<Rightarrow>
      if ks = [] then Some (JObject (AList.update k new (members_of (Some v))))
      else map_option (\<lambda>w'. JObject (AList.update k w' (members_of (Some v)))) (keys_set ks new w))"

lemma members_of_simps [simp]:
  "members_of (Some (JObject ms)) = ms" "members_of None = []"
  "\<not> is_object v \<Longrightarrow> members_of (Some v) = []"
  by (auto simp: members_of_def split: json.split)

lemma pointer_get_escape: "pointer_get (map escapeJSONPointer ks) v = keys_get ks v"
  by (induction ks arbitrary: v) (auto simp: members_of_def split: json.split option.split)

lemma pointer_set_escape: "pointer_set (map escapeJSONPointer ks) new v = keys_set ks new v"
  by (induction ks arbitrary: v) (auto simp: members_of_def split: json.split option.split)

lemma HasPrefix_slash [simp]: "HasPrefix (CHR ''/'' # s) ''/''"
  using HasPrefix_append [of "''/''" s] by simp

lemma pointer_value [simp]: "jsonPointerValue v (pointer_of ks) = keys_get ks v"
proof (cases ks)
  case (Cons k ks')
  then have "ks \<noteq> []" by simp
  from pointer_segments_of [OF this] show ?thesis
    using Cons by (simp add: jsonPointerValue_def pointer_get_escape del: keys_get.simps flip: list.map)
qed (simp add: jsonPointerValue_def)

lemma pointer_set_value: "ks \<noteq> [] \<Longrightarrow> setJSONPointerValue v (pointer_of ks) new = keys_set ks new v"
  using pointer_segments_of [of ks] by (cases ks) (simp_all add: setJSONPointerValue_def pointer_set_escape flip: list.map)

section \<open>Leaves\<close>

fun leaf_keys :: "json \<Rightarrow> string list list" where
  "leaf_keys (JObject ms) = concat (map (\<lambda>(k, v). map ((#) k) (leaf_keys v)) ms)"
| "leaf_keys v = [[]]"

lemma leaf_keys_leaf: "\<not> is_object v \<Longrightarrow> leaf_keys v = [[]]"
  by (cases v) auto

lemma concat_sort_members:
  assumes "sorted_wrt (<) (map fst ms)"
  shows "concat (map snd (sort_key fst (map (\<lambda>(k, v). (k :: string, f k v)) ms))) = concat (map (\<lambda>(k, v). f k v) ms)"
proof -
  have "sort_key fst (map (\<lambda>(k, v). (k, f k v)) ms) = map (\<lambda>(k, v). (k, f k v)) ms"
    by (rule sort_key_sorted) (use assms in \<open>simp add: comp_def case_prod_beta\<close>)
  then show ?thesis by (simp add: comp_def case_prod_unfold)
qed

lemma json_wf_members:
  assumes "json_wf (JObject ms)" shows "sorted_wrt (<) (map fst ms)" "distinct_keys ms"
    "(k, v) \<in> set ms \<Longrightarrow> json_wf v" "map_of ms k = Some v \<Longrightarrow> json_wf v"
proof -
  show s: "sorted_wrt (<) (map fst ms)" using assms by simp
  show "distinct_keys ms" using s by (simp add: strict_sorted_iff)
  show 1: "json_wf v" if "(k, v) \<in> set ms" for k v using assms that by fastforce
  show "map_of ms k = Some v \<Longrightarrow> json_wf v" using 1 map_of_SomeD by metis
qed

lemma declared_paths_leaves:
  "json_wf v \<Longrightarrow> collectDeclaredPaths path v = map (\<lambda>ks. path @ pointer_of ks) (leaf_keys v)"
proof (induction path v rule: collectDeclaredPaths.induct)
  case (1 path ms)
  note wf = json_wf_members [OF "1.prems"]
  have "collectDeclaredPaths path (JObject ms) =
      concat (map (\<lambda>(k, v). collectDeclaredPaths (path @ ''/'' @ escapeJSONPointer k) v) ms)"
    unfolding collectDeclaredPaths.simps by (rule concat_sort_members [OF wf(1)])
  also have "\<dots> = concat (map (\<lambda>(k, v). map (\<lambda>ks. path @ pointer_of (k # ks)) (leaf_keys v)) ms)"
    using "1.IH" wf(3) by (intro arg_cong [where f = concat] map_cong) auto
  finally show ?case by (simp add: map_concat comp_def case_prod_unfold)
qed simp_all

lemma leaf_get:
  assumes "json_wf v" and "ks \<in> set (leaf_keys v)"
  shows "\<exists>w. keys_get ks v = Some w \<and> \<not> is_object w \<and> json_wf w"
  using assms
proof (induction v arbitrary: ks)
  case (JObject ms)
  note wf = json_wf_members [OF JObject.prems(1)]
  from JObject.prems(2) obtain k v js where ks: "ks = k # js" "(k, v) \<in> set ms" "js \<in> set (leaf_keys v)" by auto
  have "map_of ms k = Some v" using in_set_map_of [OF wf(2)] ks(2) by blast
  moreover have "\<exists>w. keys_get js v = Some w \<and> \<not> is_object w \<and> json_wf w"
    by (rule JObject.IH [OF ks(2) _ wf(3) [OF ks(2)] ks(3)]) simp
  ultimately show ?case by (simp add: ks(1))
qed auto

lemma get_leaf:
  assumes "keys_get ks v = Some w" and "\<not> is_object w"
  shows "ks \<in> set (leaf_keys v)"
  using assms
proof (induction ks arbitrary: v)
  case Nil
  then show ?case by (simp add: leaf_keys_leaf)
next
  case (Cons k ks)
  then obtain u where u: "map_of (members_of (Some v)) k = Some u" "keys_get ks u = Some w"
    by (auto split: option.splits)
  then obtain ms where v: "v = JObject ms" by (cases v) (auto simp: members_of_def)
  from Cons.IH [OF u(2) Cons.prems(2)] u(1) v show ?case by (force dest: map_of_SomeD)
qed

lemma distinct_leaf_keys: "json_wf v \<Longrightarrow> distinct (leaf_keys v)"
proof (induction v)
  case (JObject ms)
  note wf = json_wf_members [OF JObject.prems]
  have d: "distinct (leaf_keys v)" if "(k, v) \<in> set ms" for k v
    by (rule JObject.IH [OF that _ wf(3) [OF that]]) simp
  from wf(2) d show ?case
  proof (induction ms)
    case (Cons m ms)
    obtain k v where m: "m = (k, v)" by (cases m)
    have "distinct (map ((#) k) (leaf_keys v))" using Cons.prems(2) [of k v] by (simp add: m distinct_map)
    moreover have "set (map ((#) k) (leaf_keys v)) \<inter> set (leaf_keys (JObject ms)) = {}"
      using Cons.prems(1) by (force simp: m)
    moreover have "distinct (leaf_keys (JObject ms))" using Cons.IH Cons.prems by auto
    ultimately show ?case by (simp add: m)
  qed simp
qed auto

section \<open>The canonical form\<close>

text \<open>The shape that is checked; the number is the nesting that is left.\<close>

fun field_typed :: "nat \<Rightarrow> json \<Rightarrow> bool" where
  "field_typed d (JObject ms) \<longleftrightarrow>
     0 < d \<and> (\<forall>m\<in>set ms. TrimSpace (fst m) \<noteq> [] \<and> fst m \<noteq> ''processor'' \<and> field_typed (d - 1) (snd m))"
| "field_typed d (JArray vs) \<longleftrightarrow> 0 < d \<and> (\<forall>v\<in>set vs. field_typed (d - 1) v)"
| "field_typed d v \<longleftrightarrow> 0 < d"

definition state_typed :: "json \<Rightarrow> bool" where
  "state_typed v \<longleftrightarrow> is_object v
     \<and> (\<forall>m\<in>set (members_of (Some v)). is_object (snd m)
       \<and> (fst m = ''profile'' \<and> field_typed 32 (snd m)
          \<or> fst m = ''resumes'' \<and> (\<forall>r\<in>set (members_of (Some (snd m))).
              TrimSpace (fst r) \<noteq> [] \<and> is_object (snd r) \<and> field_typed 32 (snd r))))"

lemma validate_typed:
  "validateAndCountObject ms path depth = Inr n \<Longrightarrow> depth \<le> 33 \<Longrightarrow>
     field_typed (33 - depth) (JObject ms) \<and> n = length (leaf_keys (JObject ms))"
  "count_field v path depth = Inr n \<Longrightarrow> depth \<le> 33 \<Longrightarrow> field_typed (33 - depth) v \<and> n = length (leaf_keys v)"
  "validateNested v path depth = None \<Longrightarrow> depth \<le> 33 \<Longrightarrow> field_typed (33 - depth) v"
  "nested_elements vs i path depth = None \<Longrightarrow> depth \<le> 33 \<Longrightarrow> \<forall>v\<in>set vs. field_typed (33 - depth) v"
proof (induction ms path depth and v path depth and v path depth and vs i path depth
    arbitrary: n and n rule: validateAndCountObject_count_field_validateNested_nested_elements.induct)
  case (1 path depth)
  then show ?case by (auto simp: maximumProfileStateDepth_def split: if_splits)
next
  case (2 key child ms path depth)
  then obtain a b where ok: "\<not> maximumProfileStateDepth < depth" "TrimSpace key \<noteq> []" "key \<noteq> ''processor''"
    and a: "count_field child (path @ ''.'' @ key) (depth + 1) = Inr a"
    and b: "validateAndCountObject ms path depth = Inr b" and n: "n = a + b"
    by (auto split: if_splits sum.splits)
  have "field_typed (33 - (depth + 1)) child \<and> a = length (leaf_keys child)"
    by (rule "2.IH"(1) [OF ok a]) (use ok(1) in \<open>simp add: maximumProfileStateDepth_def\<close>)
  moreover have "field_typed (33 - depth) (JObject ms) \<and> b = length (leaf_keys (JObject ms))"
    by (rule "2.IH"(2) [OF ok a b "2.prems"(2)])
  ultimately show ?case using ok by (simp add: n)
qed (auto simp: maximumProfileStateDepth_def split: if_splits sum.splits option.splits)

lemma count_resumes_typed:
  "count_resumes resumes = Inr n \<Longrightarrow> n = length (leaf_keys (JObject resumes))
     \<and> (\<forall>r\<in>set resumes. TrimSpace (fst r) \<noteq> [] \<and> is_object (snd r) \<and> field_typed 32 (snd r))"
proof (induction resumes arbitrary: n rule: count_resumes.induct)
  case (2 resumeID v rest)
  from "2.prems" obtain resume a b where ok: "TrimSpace resumeID \<noteq> []" and v: "v = JObject resume"
    and a: "validateAndCountObject resume (''resume '' @ resumeID) 1 = Inr a"
    and b: "count_resumes rest = Inr b" and n: "n = a + b"
    by (auto split: if_splits json.splits sum.splits)
  from validate_typed(1) [OF a] have "field_typed 32 v \<and> a = length (leaf_keys v)" by (simp add: v del: field_typed.simps leaf_keys.simps)
  with "2.IH" [OF ok v a b] ok v n show ?case by simp
qed simp

text \<open>The leaves below a member of a map, as a sum over its members.\<close>

lemma length_leaves: "length (leaf_keys (JObject ms)) = (\<Sum>m\<leftarrow>ms. length (leaf_keys (snd m)))"
  by (simp add: length_concat comp_def case_prod_unfold)

lemma count_leaves_typed:
  assumes "count_leaves root = Inr n" and "json_wf (JObject root)"
    and "find (\<lambda>m. fst m \<noteq> ''profile'' \<and> fst m \<noteq> ''resumes'') root = None"
  shows "state_typed (JObject root) \<and> n = length (leaf_keys (JObject root))"
proof -
  note d = json_wf_members(2) [OF assms(2)]
  have keys: "fst m = ''profile'' \<or> fst m = ''resumes''" if "m \<in> set root" for m
    using assms(3) that by (cases m) (auto simp: find_None_iff)
  obtain a where a: "count_profile root = Inr a" using assms(1) by (auto simp: count_leaves_def split: sum.splits)
  have prof: "is_object v \<and> field_typed 32 v \<and> a = length (leaf_keys v)" if "map_of root ''profile'' = Some v" for v
    using a that validate_typed(1) [of _ "''profile''" 1 a]
    by (cases v) (auto simp: count_profile_def simp del: leaf_keys.simps)
  have no_prof: "a = 0" if "map_of root ''profile'' = None" using a that by (simp add: count_profile_def)
  have res: "\<exists>resumes. v = JObject resumes \<and> n = a + length (leaf_keys v)
      \<and> (\<forall>r\<in>set resumes. TrimSpace (fst r) \<noteq> [] \<and> is_object (snd r) \<and> field_typed 32 (snd r))"
    if "map_of root ''resumes'' = Some v" for v
    using assms(1) a that count_resumes_typed
    by (cases v) (fastforce simp: count_leaves_def simp del: leaf_keys.simps split: sum.splits)+
  have no_res: "n = a" if "map_of root ''resumes'' = None" using assms(1) a that by (simp add: count_leaves_def)
  have "state_typed (JObject root)"
    unfolding state_typed_def
  proof (intro conjI ballI)
    fix m assume "m \<in> set (members_of (Some (JObject root)))"
    then have m: "m \<in> set root" by simp
    then have "map_of root (fst m) = Some (snd m)" using in_set_map_of [OF d, of "fst m" "snd m"] by simp
    with prof [of "snd m"] res [of "snd m"]
    have p: "fst m = ''profile'' \<Longrightarrow> is_object (snd m) \<and> field_typed 32 (snd m)"
      and r: "fst m = ''resumes'' \<Longrightarrow> \<exists>resumes. snd m = JObject resumes
        \<and> (\<forall>r\<in>set resumes. TrimSpace (fst r) \<noteq> [] \<and> is_object (snd r) \<and> field_typed 32 (snd r))"
      by metis+
    show "is_object (snd m)" using keys [OF m] p r by auto
    show "fst m = ''profile'' \<and> field_typed 32 (snd m)
          \<or> fst m = ''resumes'' \<and> (\<forall>r\<in>set (members_of (Some (snd m))).
              TrimSpace (fst r) \<noteq> [] \<and> is_object (snd r) \<and> field_typed 32 (snd r))"
    proof (cases "fst m = ''profile''")
      case False
      then have "fst m = ''resumes''" using keys [OF m] by simp
      then obtain resumes where "snd m = JObject resumes"
        "\<forall>r\<in>set resumes. TrimSpace (fst r) \<noteq> [] \<and> is_object (snd r) \<and> field_typed 32 (snd r)"
        using r by metis
      then show ?thesis using \<open>fst m = ''resumes''\<close> by simp
    qed (use p in simp)
  qed simp
  moreover have "n = length (leaf_keys (JObject root))"
  proof -
    have less: "\<not> ''resumes'' < ''profile''" "\<not> ''profile'' < ''profile''" "\<not> ''resumes'' < ''resumes''" by code_simp+
    note s = json_wf_members(1) [OF assms(2)]
    consider "root = []" | m where "root = [m]" "fst m = ''profile'' \<or> fst m = ''resumes''"
      | m m' where "root = [m, m']" "fst m = ''profile''" "fst m' = ''resumes''"
    proof (cases root)
      case (Cons m ms)
      show thesis
      proof (cases ms)
        case (Cons m' ms')
        with \<open>root = m # ms\<close> keys [of m] keys [of m'] s less have *: "fst m = ''profile''" "fst m' = ''resumes''" by auto
        have "ms' = []"
        proof (cases ms')
          case (Cons m'' l)
          with \<open>root = m # ms\<close> \<open>ms = m' # ms'\<close> keys [of m''] s less * show ?thesis by auto
        qed
        with * \<open>root = m # ms\<close> \<open>ms = m' # ms'\<close> that(3) show thesis by simp
      qed (use \<open>root = m # ms\<close> keys [of m] that(2) in simp)
    qed (use that in simp)
    then show ?thesis
    proof cases
      case 1
      with no_prof no_res show ?thesis by simp
    next
      case 2
      then show ?thesis using prof [of "snd m"] res [of "snd m"] no_prof no_res
        by (cases m) (auto simp: length_leaves simp del: leaf_keys.simps)
    next
      case 3
      then show ?thesis using prof [of "snd m"] res [of "snd m'"]
        by (cases m; cases m') (auto simp: length_leaves simp del: leaf_keys.simps)
    qed
  qed
  ultimately show ?thesis by blast
qed

lemma canonical_cases:
  assumes "canonicalProfileState raw = Inr (c, n)"
  obtains v where "decodeJSONValue raw = Inr v" "any_ok v" "c = json_Marshal v" "state_typed v" "n = length (leaf_keys v)"
proof -
  obtain root where d: "decodeJSONValue raw = Inr (JObject root)"
    and f: "find (\<lambda>m. fst m \<noteq> ''profile'' \<and> fst m \<noteq> ''resumes'') root = None"
    and l: "count_leaves root = Inr n" and c: "c = json_Marshal (JObject root)"
    using assms by (auto simp: canonicalProfileState_def split: if_splits sum.splits json.splits option.splits)
  have "any_ok (JObject root)" using d decode_any_ok by (simp add: decodeJSONValue_def split: option.splits)
  moreover from this have "json_wf (JObject root)" by (simp add: any_ok_def)
  ultimately show ?thesis using that d c count_leaves_typed [OF l _ f] by blast
qed

lemma decode_canonical: "any_ok v \<Longrightarrow> decodeJSONValue (json_Marshal v) = Inr v"
  by (simp add: decodeJSONValue_def decode_Marshal)

lemma paths_of: "any_ok v \<Longrightarrow> collectDeclaredPaths [] v = map pointer_of (leaf_keys v)"
  using declared_paths_leaves [of v "[]"] by (simp add: any_ok_def)

lemma typed_root: "state_typed v \<Longrightarrow> \<exists>root. v = JObject root"
  by (cases v) (auto simp: state_typed_def)

lemma canonical_again:
  assumes "canonicalProfileState raw = Inr (c, n)" and "length c \<le> maximumProfileStateBytes"
  shows "canonicalProfileState c = Inr (c, n)"
proof -
  obtain v where v: "decodeJSONValue raw = Inr v" "any_ok v" "c = json_Marshal v" "state_typed v"
    by (rule canonical_cases [OF assms(1)])
  obtain root where root: "v = JObject root" using typed_root [OF v(4)] by blast
  have "c \<noteq> []" by (simp add: v(3) root)
  with assms v(1) decode_canonical [OF v(2)] show ?thesis
    by (simp add: canonicalProfileState_def v(3) root split: if_splits)
qed

section \<open>Valid resources\<close>

text \<open>A valid resource holds the text of a typed value with at least one leaf.\<close>

definition holds_state :: "RawMessage \<Rightarrow> json \<Rightarrow> bool" where
  "holds_state state v \<longleftrightarrow> state = json_Marshal v \<and> any_ok v \<and> state_typed v"

lemma holds_decode: "holds_state state v \<Longrightarrow> decodeJSONValue state = Inr v"
  by (simp add: holds_state_def decode_canonical)

lemma holds_paths: "holds_state state v \<Longrightarrow> collectDeclaredPaths [] v = map pointer_of (leaf_keys v)"
  by (simp add: holds_state_def paths_of)

lemma holds_canonical:
  assumes "canonicalProfileState state = Inr (state, n)"
  shows "\<exists>v. holds_state state v \<and> n = length (leaf_keys v)"
  using canonical_cases [OF assms] unfolding holds_state_def by metis

lemma Resource_valid:
  assumes "Resource_Validate r = None"
  shows "\<exists>v. holds_state (rsc_State r) v \<and> leaf_keys v \<noteq> []"
proof -
  obtain n where "canonicalProfileState (rsc_State r) = Inr (rsc_State r, n)" "n \<noteq> 0"
    using assms by (auto simp: Resource_Validate_def split: if_splits sum.splits)
  with holds_canonical show ?thesis by fastforce
qed

lemma Resource_paths:
  assumes "Resource_Validate r = None" and "holds_state (rsc_State r) v"
  shows "Resource_DeclaredPaths r = Inr (sort (map pointer_of (leaf_keys v)))"
  using assms by (simp add: Resource_DeclaredPaths_def holds_decode holds_paths)

lemma SearchStrings_found:
  assumes "sorted xs"
  shows "SearchStrings xs x = length xs \<or> xs ! SearchStrings xs x \<noteq> x \<longleftrightarrow> x \<notin> set xs"
  using assms by (induction xs) (auto simp: SearchStrings_def)

lemma pointer_leaf:
  assumes "any_ok v"
  shows "p \<in> pointer_of ` set (leaf_keys v) \<longleftrightarrow> (\<exists>ks w. p = pointer_of ks \<and> keys_get ks v = Some w \<and> \<not> is_object w)"
  using assms leaf_get [of v] get_leaf [of _ v] unfolding any_ok_def by blast

lemma Resource_value:
  assumes "Resource_Validate r = None" and "holds_state (rsc_State r) v"
  shows "Resource_ValueAt r p = Inr (if p \<in> pointer_of ` set (leaf_keys v)
    then Some (json_Marshal (the (jsonPointerValue v p))) else None)"
proof -
  let ?paths = "sort (map pointer_of (leaf_keys v))"
  have "\<exists>w. jsonPointerValue v p = Some w" if "p \<in> pointer_of ` set (leaf_keys v)"
    using that assms(2) leaf_get [of v] unfolding holds_state_def any_ok_def by fastforce
  moreover have "decodeJSONValue (rsc_State r) = Inr v" by (rule holds_decode [OF assms(2)])
  ultimately show ?thesis
    using SearchStrings_found [of ?paths p] Resource_paths [OF assms]
    by (auto simp: Resource_ValueAt_def Let_def)
qed

section \<open>Overrides\<close>

lemma update_as_map:
  "distinct_keys ms \<Longrightarrow> map_of ms k = Some w \<Longrightarrow>
     AList.update k w' ms = map (\<lambda>m. if fst m = k then (k, w') else m) ms"
proof (induction ms)
  case (Cons m ms)
  obtain j u where m: "m = (j, u)" by (cases m)
  have "map (\<lambda>m. if fst m = k then (k, w') else m) ms = ms" if "k \<notin> fst ` set ms"
    using that by (intro map_idI) auto
  with Cons m show ?case by auto
qed simp

lemma replace_member:
  assumes "json_wf (JObject ms)" and "map_of ms k = Some w" and "json_wf w'" and "leaf_keys w' = leaf_keys w"
  shows "json_wf (JObject (AList.update k w' ms)) \<and> leaf_keys (JObject (AList.update k w' ms)) = leaf_keys (JObject ms)"
proof -
  note wf = json_wf_members [OF assms(1)]
  note up = update_as_map [OF wf(2) assms(2)]
  have fst: "map fst (AList.update k w' ms) = map fst ms" by (simp add: up comp_def if_distrib cong: if_cong)
  have w: "snd m = w" if "m \<in> set ms" "fst m = k" for m
    using that assms(2) in_set_map_of [OF wf(2), of k "snd m"] by (cases m) auto
  have "json_wf (JObject (AList.update k w' ms))"
    unfolding json_wf.simps fst using assms(1,3) by (auto simp: up)
  moreover have "leaf_keys (JObject (AList.update k w' ms)) = leaf_keys (JObject ms)"
    using w assms(4) by (auto simp: up comp_def intro!: arg_cong [where f = concat] map_cong split: prod.split)
  ultimately show ?thesis by blast
qed

lemma set_leaf:
  assumes "json_wf v" and "ks \<in> set (leaf_keys v)" and "ks \<noteq> []" and "json_wf new" and "\<not> is_object new"
  shows "\<exists>v'. keys_set ks new v = Some v' \<and> json_wf v' \<and> leaf_keys v' = leaf_keys v
    \<and> (\<forall>js\<in>set (leaf_keys v). keys_get js v' = (if js = ks then Some new else keys_get js v))"
  using assms(1-3)
proof (induction ks arbitrary: v)
  case (Cons k ks)
  then obtain ms where v: "v = JObject ms" by (cases v) auto
  note wf = json_wf_members [OF Cons.prems(1) [unfolded v]]
  from Cons.prems(2) v obtain w where "(k, w) \<in> set ms" and ks: "ks \<in> set (leaf_keys w)" by auto
  then have w: "map_of ms k = Some w" using in_set_map_of [OF wf(2)] by blast
  obtain w' where w': "keys_set (k # ks) new v = Some (JObject (AList.update k w' ms))" "json_wf w'"
    "leaf_keys w' = leaf_keys w"
    and get: "\<forall>js\<in>set (leaf_keys w). keys_get js w' = (if js = ks then Some new else keys_get js w)"
  proof (cases "ks = []")
    case True
    then have "\<not> is_object w" using ks leaf_get [OF wf(4) [OF w] ks] by simp
    then show thesis using that [of new] True w assms(4,5) by (simp add: v leaf_keys_leaf)
  next
    case False
    from Cons.IH [OF wf(4) [OF w] ks False] show thesis using that False w by (auto simp: v)
  qed
  have "keys_get js (JObject (AList.update k w' ms)) = (if js = k # ks then Some new else keys_get js v)"
    if js: "js \<in> set (leaf_keys v)" for js
  proof -
    obtain j u js' where j: "js = j # js'" "(j, u) \<in> set ms" "js' \<in> set (leaf_keys u)" using js v by auto
    then have "map_of ms j = Some u" using in_set_map_of [OF wf(2)] by blast
    with j get w show ?thesis by (auto simp: v update_conv')
  qed
  with w' replace_member [OF Cons.prems(1) [unfolded v] w w'(2,3)] show ?case unfolding v by blast
qed simp

definition override_value :: "ProfileStateValueOverride \<Rightarrow> json" where
  "override_value override = (case decodeJSONValue (ovr_Value override) of Inr v \<Rightarrow> v | Inl _ \<Rightarrow> JNull)"

definition override_values :: "ProfileStateValueOverride list \<Rightarrow> string \<Rightarrow> json option" where
  "override_values overrides = map_of (map (\<lambda>o'. (ovr_Path o', override_value o')) overrides)"

lemma override_values_simps [simp]:
  "override_values [] p = None"
  "override_values (x # xs) p = (if p = ovr_Path x then Some (override_value x) else override_values xs p)"
  by (simp_all add: override_values_def)

lemma apply_overrides_fresh:
  "apply_overrides declared seen overrides v = Inr v' \<Longrightarrow> p \<in> set seen \<Longrightarrow> override_values overrides p = None"
  by (induction declared seen overrides v arbitrary: p rule: apply_overrides.induct)
    (auto simp: Let_def split: if_splits sum.splits option.splits)

lemma apply_overrides_undeclared:
  "apply_overrides declared seen overrides v = Inr v' \<Longrightarrow> p \<notin> set declared \<Longrightarrow> override_values overrides p = None"
  by (induction declared seen overrides v rule: apply_overrides.induct)
    (auto simp: Let_def split: if_splits sum.splits option.splits)

lemma apply_overrides_update:
  assumes "apply_overrides declared seen overrides v = Inr v'" and "json_wf v" and "is_object v"
    and "set declared = pointer_of ` set (leaf_keys v)"
  shows "json_wf v' \<and> is_object v' \<and> leaf_keys v' = leaf_keys v
    \<and> (\<forall>ks\<in>set (leaf_keys v). keys_get ks v' =
        (case override_values overrides (pointer_of ks) of Some u \<Rightarrow> Some u | None \<Rightarrow> keys_get ks v))"
  using assms
proof (induction declared seen overrides v rule: apply_overrides.induct)
  case (2 declared seen x rest v)
  from "2.prems"(1) obtain new v1 where x: "ovr_Path x \<in> set declared" "ovr_Path x \<notin> set seen"
    and new: "decodeJSONValue (ovr_Value x) = Inr new" "\<not> is_object new"
    and v1: "setJSONPointerValue v (ovr_Path x) new = Some v1"
    and rest: "apply_overrides declared (ovr_Path x # seen) rest v1 = Inr v'"
    by (auto simp: Let_def split: if_splits sum.splits option.splits)
  have val: "override_value x = new" by (simp add: override_value_def new)
  obtain ks where ks: "ovr_Path x = pointer_of ks" "ks \<in> set (leaf_keys v)" using x(1) "2.prems"(4) by auto
  have ne: "ks \<noteq> []" using ks(2) "2.prems"(3) by (cases v) auto
  have wf: "json_wf new" using new(1) decode_any_ok by (auto simp: decodeJSONValue_def any_ok_def split: option.splits)
  from set_leaf [OF "2.prems"(2) ks(2) ne wf new(2)] v1 pointer_set_value [OF ne, of v new]
  have v1': "keys_set ks new v = Some v1" "json_wf v1" "leaf_keys v1 = leaf_keys v"
    "\<forall>js\<in>set (leaf_keys v). keys_get js v1 = (if js = ks then Some new else keys_get js v)"
    by (auto simp: ks(1))
  have obj: "is_object v1" using v1'(1) ne by (cases ks) (auto split: option.splits if_splits)
  have IH: "json_wf v' \<and> is_object v' \<and> leaf_keys v' = leaf_keys v1
    \<and> (\<forall>ks\<in>set (leaf_keys v1). keys_get ks v' =
        (case override_values rest (pointer_of ks) of Some u \<Rightarrow> Some u | None \<Rightarrow> keys_get ks v1))"
    by (rule "2.IH" [OF refl _ _ new(1) _ v1 rest v1'(2) obj]) (use x new "2.prems"(4) v1'(3) in auto)
  have "override_values rest (pointer_of ks) = None"
    using apply_overrides_fresh [OF rest, of "ovr_Path x"] ks(1) by simp
  then show ?case
    using IH v1' pointer_of_inject [of _ ks] by (auto simp: ks(1) val split: option.splits)
qed auto

text \<open>What a resource declares at each path: its abstract content.\<close>

definition resource_view :: "ProfileStateResource \<Rightarrow> string \<Rightarrow> RawMessage option" where
  "resource_view r p = (case Resource_ValueAt r p of Inr t \<Rightarrow> t | Inl _ \<Rightarrow> None)"

lemma resource_view_leaf:
  assumes "Resource_Validate r = None" and "holds_state (rsc_State r) v"
  shows "resource_view r (pointer_of ks) = (if ks \<in> set (leaf_keys v) then map_option json_Marshal (keys_get ks v) else None)"
proof -
  have mem: "pointer_of ks \<in> pointer_of ` set (leaf_keys v) \<longleftrightarrow> ks \<in> set (leaf_keys v)"
    using pointer_of_inject by blast
  have "\<exists>w. keys_get ks v = Some w" if "ks \<in> set (leaf_keys v)"
    using leaf_get [OF _ that] assms(2) by (auto simp: holds_state_def any_ok_def)
  then show ?thesis by (auto simp: resource_view_def Resource_value [OF assms] mem)
qed

lemma resource_view_other:
  assumes "Resource_Validate r = None" and "holds_state (rsc_State r) v" and "p \<notin> pointer_of ` set (leaf_keys v)"
  shows "resource_view r p = None"
  by (simp add: resource_view_def Resource_value [OF assms(1,2)] assms(3))

lemma New_resource:
  assumes "NewProfileStateResource tag profile own (json_Marshal v) = Inr r" and "json_wf v"
  shows "Resource_Validate r = None \<and> holds_state (rsc_State r) v \<and> rsc_ProfileID r = profile"
proof -
  from assms(1) obtain c n where c: "canonicalProfileState (json_Marshal v) = Inr (c, n)" "rsc_State r = c"
    "Resource_Validate r = None" "rsc_ProfileID r = profile"
    by (auto simp: NewProfileStateResource_def Let_def split: sum.splits if_splits option.splits)
  obtain u where u: "decodeJSONValue (json_Marshal v) = Inr u" "any_ok u" "c = json_Marshal u" "state_typed u"
    by (rule canonical_cases [OF c(1)])
  have "u = v" using u(1) decode_Marshal_only [OF assms(2)] by (auto simp: decodeJSONValue_def split: option.splits)
  with u c show ?thesis by (simp add: holds_state_def)
qed

section \<open>Changes\<close>

lemma concat_leaves:
  "concat (map g (leaf_keys (JObject ms))) = concat (map (\<lambda>(k, v). concat (map (\<lambda>ks. g (k # ks)) (leaf_keys v))) ms)"
  by (induction ms) (auto simp: comp_def)

lemma bind_get_Nil: "Option.bind v (keys_get []) = v"
  by (cases v) auto

lemma diff_of_leaves:
  assumes "json_wf v"
  shows "diffDeclaredValue path observed v = concat (map (\<lambda>ks. diff_leaf (path @ pointer_of ks)
      (Option.bind observed (keys_get ks)) (the (keys_get ks v))) (leaf_keys v))"
  using assms
proof (induction path observed v rule: diffDeclaredValue.induct)
  case (1 path observed ms)
  note wf = json_wf_members [OF "1.prems"]
  have "diffDeclaredValue path observed (JObject ms) = concat (map (\<lambda>(k, v).
      diffDeclaredValue (path @ ''/'' @ escapeJSONPointer k) (map_of (members_of observed) k) v) ms)"
    unfolding diffDeclaredValue.simps by (rule concat_sort_members [OF wf(1)])
  also have "\<dots> = concat (map (\<lambda>(k, v). concat (map (\<lambda>ks. diff_leaf (path @ pointer_of (k # ks))
      (Option.bind observed (keys_get (k # ks))) (the (keys_get (k # ks) (JObject ms)))) (leaf_keys v))) ms)"
  proof (intro arg_cong [where f = concat] map_cong refl, clarify)
    fix k v assume kv: "(k, v) \<in> set ms"
    then have m: "map_of ms k = Some v" using in_set_map_of [OF wf(2)] by blast
    have o': "Option.bind observed (keys_get (k # ks)) = Option.bind (map_of (members_of observed) k) (keys_get ks)" for ks
      by (cases observed) (auto split: option.split)
    show "diffDeclaredValue (path @ ''/'' @ escapeJSONPointer k) (map_of (members_of observed) k) v =
      concat (map (\<lambda>ks. diff_leaf (path @ pointer_of (k # ks))
      (Option.bind observed (keys_get (k # ks))) (the (keys_get (k # ks) (JObject ms)))) (leaf_keys v))"
      using "1.IH" [OF kv refl wf(3) [OF kv]] m by (simp add: o' del: keys_get.simps) simp
  qed
  finally show ?case unfolding concat_leaves .
qed (simp_all add: bind_get_Nil)

lemma diff_leaf_matches:
  "diff_leaf p observed desired = (if profileStateValueMatches observed (Some desired) then [] else [change_of p observed desired])"
  by (auto simp: diff_leaf_def profileStateValueMatches_def jsonValuesEqual_def split: option.splits)

lemma concat_filter: "concat (map (\<lambda>x. if P x then [] else [f x]) xs) = map f (filter (\<lambda>x. \<not> P x) xs)"
  by (induction xs) auto

lemma change_of_path [simp]: "chg_Path (change_of p observed desired) = p"
  by (simp add: change_of_def)

text \<open>Sorting by a key that identifies gives the only list in the order of the keys.\<close>

lemma sort_Slice_key:
  assumes "inj_on f (set xs)" and "distinct xs" and "sorted (map f ys)" and "distinct ys" and "set ys = set xs"
  shows "sort_Slice (\<lambda>a b. f a < (f b :: 'b :: linorder)) xs = ys"
proof (rule map_sorted_distinct_set_unique [of f])
  have m: "mset (sort_Slice (\<lambda>a b. f a < f b) xs) = mset xs" by simp
  then have d: "distinct (sort_Slice (\<lambda>a b. f a < f b) xs)" using assms(2) mset_eq_imp_distinct_iff by metis
  show "inj_on f (set (sort_Slice (\<lambda>a b. f a < f b) xs) \<union> set ys)" using assms(1,5) by simp
  show "distinct (map f (sort_Slice (\<lambda>a b. f a < f b) xs))" using d assms(1) by (simp add: distinct_map)
  show "distinct (map f ys)" using assms(1,4,5) by (simp add: distinct_map)
  have "sorted_wrt (\<lambda>a b. \<not> f b < f a) (sort_Slice (\<lambda>a b. f a < f b) xs)"
    by (rule sorted_sort_Slice) auto
  then show "sorted (map f (sort_Slice (\<lambda>a b. f a < f b) xs))" by (simp add: sorted_wrt_map not_less)
  show "sorted (map f ys)" by (rule assms(3))
  show "set (sort_Slice (\<lambda>a b. f a < f b) xs) = set ys" using assms(5) by simp
qed

text \<open>The changes that lead from one value to the other, leaf by leaf.\<close>

definition changes_between :: "json \<Rightarrow> json \<Rightarrow> ProfileStateChange list" where
  "changes_between observed desired =
     map (\<lambda>p. change_of p (jsonPointerValue observed p) (the (jsonPointerValue desired p)))
       (filter (\<lambda>p. \<not> profileStateValueMatches (jsonPointerValue observed p) (jsonPointerValue desired p))
         (sort (collectDeclaredPaths [] desired)))"

lemma diff_pointwise:
  assumes "diffProfileState o' d = Inr changes" and "decodeJSONValue o' = Inr ov" and "decodeJSONValue d = Inr dv"
  shows "changes = changes_between ov dv"
proof -
  have dok: "any_ok dv" using assms(3) decode_any_ok by (auto simp: decodeJSONValue_def split: option.splits)
  then have wf: "json_wf dv" by (simp add: any_ok_def)
  let ?differs = "\<lambda>ks. \<not> profileStateValueMatches (keys_get ks ov) (Some (the (keys_get ks dv)))"
  let ?xs = "map (\<lambda>ks. change_of (pointer_of ks) (keys_get ks ov) (the (keys_get ks dv))) (filter ?differs (leaf_keys dv))"
  have xs: "diffDeclaredValue [] (Some ov) dv = ?xs"
    by (simp add: diff_of_leaves [OF wf] diff_leaf_matches concat_filter)
  have some: "keys_get ks dv = Some (the (keys_get ks dv))" if "ks \<in> set (leaf_keys dv)" for ks
    using leaf_get [OF wf that] by auto
  have mem: "set (changes_between ov dv) = set ?xs"
  proof -
    have 1: "{p \<in> pointer_of ` L. P p} = pointer_of ` {ks \<in> L. P (pointer_of ks)}" for L P by auto
    have 2: "{ks \<in> set (leaf_keys dv). \<not> profileStateValueMatches (keys_get ks ov) (keys_get ks dv)}
      = {ks \<in> set (leaf_keys dv). ?differs ks}"
      using some by auto
    show ?thesis by (simp add: changes_between_def paths_of [OF dok] 1 2 image_image)
  qed
  have dist: "distinct (leaf_keys dv)" by (rule distinct_leaf_keys [OF wf])
  have inj: "inj_on chg_Path (set ?xs)" by (auto simp: inj_on_def dest: pointer_of_inject)
  have "distinct ?xs" using dist by (auto simp: distinct_map inj_on_def dest!: arg_cong [where f = chg_Path] pointer_of_inject)
  moreover have "map chg_Path (changes_between ov dv) = filter (\<lambda>p. \<not> profileStateValueMatches
      (jsonPointerValue ov p) (jsonPointerValue dv p)) (sort (collectDeclaredPaths [] dv))"
    by (simp add: changes_between_def comp_def)
  then have "sorted (map chg_Path (changes_between ov dv))" by (simp add: sorted_wrt_filter)
  moreover have "distinct (changes_between ov dv)"
    using dist by (auto simp: changes_between_def paths_of [OF dok] distinct_map inj_on_def pointer_of_inject
        dest!: arg_cong [where f = chg_Path])
  ultimately have "sort_Slice (\<lambda>a b. chg_Path a < chg_Path b) ?xs = changes_between ov dv"
    using sort_Slice_key [OF inj] mem by blast
  then show ?thesis using assms by (simp add: diffProfileState_def xs split: if_splits)
qed

lemma changes_map:
  "distinct (map chg_Path cs) \<Longrightarrow> map_of (fold (\<lambda>c. AList.update (chg_Path c) c) cs acc) q =
     (case find (\<lambda>c. chg_Path c = q) cs of Some c \<Rightarrow> Some c | None \<Rightarrow> map_of acc q)"
proof (induction cs arbitrary: acc)
  case (Cons c cs)
  have "find (\<lambda>c. chg_Path c = q) cs = None" if q: "chg_Path c = q"
    unfolding find_None_iff
  proof
    assume "\<exists>x. x \<in> set cs \<and> chg_Path x = q"
    then have "q \<in> chg_Path ` set cs" by auto
    with Cons.prems q show False by auto
  qed
  with Cons show ?case by (auto simp: update_conv' split: option.split)
qed simp

lemma before_matches_change:
  "before_matches (change_of q old desired) new \<longleftrightarrow> map_option digestJSONValue new = map_option digestJSONValue old"
  by (auto simp: before_matches_def change_of_def split: option.splits)

text \<open>What a field must not be when a plan is applied: neither as desired nor as it was.\<close>

definition third_state :: "json \<Rightarrow> json \<Rightarrow> json \<Rightarrow> string \<Rightarrow> bool" where
  "third_state old new desired q \<longleftrightarrow> \<not> profileStateValueMatches (jsonPointerValue new q) (jsonPointerValue desired q)
     \<and> (profileStateValueMatches (jsonPointerValue old q) (jsonPointerValue desired q)
        \<or> map_option digestJSONValue (jsonPointerValue new q) \<noteq> map_option digestJSONValue (jsonPointerValue old q))"

lemma pending_spec:
  assumes "\<forall>q\<in>set paths. jsonPointerValue desired q \<noteq> None"
    and "\<forall>q\<in>set paths. map_of changes q = (if profileStateValueMatches (jsonPointerValue old q) (jsonPointerValue desired q)
        then None else Some (change_of q (jsonPointerValue old q) (the (jsonPointerValue desired q))))"
  shows "pending_changes changes desired new paths = (case find (third_state old new desired) paths of
      Some q \<Rightarrow> Inl (state_changed q)
    | None \<Rightarrow> Inr (map (\<lambda>q. change_of q (jsonPointerValue old q) (the (jsonPointerValue desired q)))
        (filter (\<lambda>q. \<not> profileStateValueMatches (jsonPointerValue new q) (jsonPointerValue desired q)) paths)))"
  using assms
  by (induction paths)
    (auto simp: third_state_def before_matches_change Let_def split: option.split sum.split)

lemma NewProposal_parts:
  assumes "NewProfileStateProposal i r observation now = Inr p"
  shows "Proposal_Validate p = None \<and> Resource_Validate r = None \<and> StateObservation_Validate observation = None
    \<and> diffProfileState (pso_State observation) (rsc_State r) = Inr (psp_Changes p)
    \<and> psp_DesiredState p = rsc_State r \<and> psp_ProfileID p = pso_ProfileID observation"
  using assms by (auto simp: NewProfileStateProposal_def Let_def split: if_splits option.splits sum.splits)

lemma ChangesToApply_spec:
  assumes "NewProfileStateProposal i r observation now = Inr p"
    and "StateObservation_Validate later = None" and "pso_ProfileID later = pso_ProfileID observation"
    and "decodeJSONValue (pso_State observation) = Inr old" and "decodeJSONValue (pso_State later) = Inr new"
    and "decodeJSONValue (rsc_State r) = Inr desired"
  shows "ChangesToApply later p =
    (case find (third_state old new desired) (sort (collectDeclaredPaths [] desired)) of
       Some q \<Rightarrow> Inl (state_changed q)
     | None \<Rightarrow> Inr (filter (\<lambda>c. \<not> profileStateValueMatches (jsonPointerValue new (chg_Path c))
          (jsonPointerValue desired (chg_Path c))) (psp_Changes p)))"
proof -
  note parts = NewProposal_parts [OF assms(1)]
  obtain v where v: "holds_state (rsc_State r) v" using Resource_valid parts by blast
  then have eq: "v = desired" using holds_decode assms(6) by fastforce
  note cs = diff_pointwise [OF _ assms(4,6), of "psp_Changes p"]
  have cs: "psp_Changes p = changes_between old desired"
    using parts diff_pointwise [OF _ assms(4,6)] by blast
  let ?paths = "sort (collectDeclaredPaths [] desired)"
  let ?change = "\<lambda>q. change_of q (jsonPointerValue old q) (the (jsonPointerValue desired q))"
  let ?differs = "\<lambda>q. \<not> profileStateValueMatches (jsonPointerValue old q) (jsonPointerValue desired q)"
  have paths: "Proposal_DeclaredPaths p = Inr ?paths"
    using parts by (simp add: Proposal_DeclaredPaths_def assms(6))
  have decl: "collectDeclaredPaths [] desired = map pointer_of (leaf_keys desired)" using holds_paths v eq by blast
  have wf: "json_wf desired" using v eq by (simp add: holds_state_def any_ok_def)
  have present: "\<forall>q\<in>set ?paths. jsonPointerValue desired q \<noteq> None"
    using leaf_get [OF wf] by (fastforce simp: decl)
  have dist: "distinct ?paths" using distinct_leaf_keys [OF wf] by (auto simp: decl distinct_map inj_on_def pointer_of_inject)
  have "distinct (map chg_Path (psp_Changes p))" using dist by (simp add: cs changes_between_def comp_def)
  note mp = changes_map [OF this, of "[]"]
  have "map_of (fold (\<lambda>c. AList.update (chg_Path c) c) (psp_Changes p) []) q = (if ?differs q then Some (?change q) else None)"
    if "q \<in> set ?paths" for q
  proof -
    have "find (\<lambda>c. chg_Path c = q) (map ?change (filter ?differs qs)) = (if q \<in> set qs \<and> ?differs q then Some (?change q) else None)" for qs
      by (induction qs) auto
    then show ?thesis unfolding mp unfolding cs changes_between_def using that by simp
  qed
  then have "ChangesToApply later p = (case find (third_state old new desired) ?paths of
      Some q \<Rightarrow> Inl (state_changed q)
    | None \<Rightarrow> Inr (map ?change (filter (\<lambda>q. \<not> profileStateValueMatches (jsonPointerValue new q) (jsonPointerValue desired q)) ?paths)))"
    using parts assms(2,3,5,6) paths pending_spec [OF present, of _ old new]
    by (simp add: ChangesToApply_def Let_def)
  moreover have "map ?change (filter (\<lambda>q. \<not> profileStateValueMatches (jsonPointerValue new q) (jsonPointerValue desired q)) ?paths) =
     filter (\<lambda>c. \<not> profileStateValueMatches (jsonPointerValue new (chg_Path c)) (jsonPointerValue desired (chg_Path c)))
       (psp_Changes p)" if "find (third_state old new desired) ?paths = None"
  proof -
    have "\<not> third_state old new desired q" if "q \<in> set ?paths" for q
      using \<open>find (third_state old new desired) ?paths = None\<close> that by (auto simp: find_None_iff)
    then have "filter (\<lambda>q. \<not> profileStateValueMatches (jsonPointerValue new q) (jsonPointerValue desired q)) ?paths
        = filter (\<lambda>q. \<not> profileStateValueMatches (jsonPointerValue new q) (jsonPointerValue desired q) \<and> ?differs q) ?paths"
      by (intro filter_cong refl) (auto simp: third_state_def)
    then show ?thesis by (simp add: cs changes_between_def filter_map comp_def conj_commute)
  qed
  ultimately show ?thesis by (auto split: option.split)
qed

section \<open>Properties\<close>

text \<open>
  C25. The canonical form of a state is typed and is its own canonical form. What
  \<open>canonicalProfileState\<close> accepts decodes to an object with at most the fields profile and
  resumes, whose objects nest at most 32 deep, have no blank name and no unresolved processor, and
  the count it returns is the number of the paths that are declared; the text it returns is
  accepted again, unchanged, unless escaping has made it longer than the bound.
\<close>

theorem canonical_state_typed:
  assumes "canonicalProfileState raw = Inr (c, n)"
  shows "\<exists>v. decodeJSONValue raw = Inr v \<and> decodeJSONValue c = Inr v \<and> state_typed v
    \<and> n = length (collectDeclaredPaths [] v) \<and> distinct (collectDeclaredPaths [] v)
    \<and> (length c \<le> maximumProfileStateBytes \<longrightarrow> canonicalProfileState c = Inr (c, n))"
proof -
  obtain v where v: "decodeJSONValue raw = Inr v" "any_ok v" "c = json_Marshal v" "state_typed v" "n = length (leaf_keys v)"
    by (rule canonical_cases [OF assms])
  have "distinct (map pointer_of (leaf_keys v))"
    using distinct_leaf_keys [of v] v(2) by (auto simp: distinct_map inj_on_def any_ok_def pointer_of_inject)
  with v decode_canonical [OF v(2)] paths_of [OF v(2)] canonical_again [OF assms] show ?thesis by auto
qed

text \<open>
  C23. An override is an update. A resource with overrides is valid, declares the very same paths, and
  its content, as a map from paths to values, is the content of its source updated at the
  overridden paths with the overriding values, and nowhere else.
\<close>

theorem overrides_refine_update:
  assumes "WithOverrides overrides r = Inr r'"
  shows "resource_view r' = resource_view r ++ (\<lambda>p. map_option json_Marshal (override_values overrides p))
    \<and> Resource_DeclaredPaths r' = Resource_DeclaredPaths r \<and> Resource_Validate r' = None
    \<and> rsc_ProfileID r' = rsc_ProfileID r"
proof -
  from assms have valid: "Resource_Validate r = None" by (auto simp: WithOverrides_def split: option.splits)
  then obtain v where v: "holds_state (rsc_State r) v" using Resource_valid by blast
  note wf = v [unfolded holds_state_def any_ok_def]
  obtain v' where ov: "apply_overrides (sort (map pointer_of (leaf_keys v))) [] overrides v = Inr v'"
    and new: "NewProfileStateResource (rsc_Tag r) (rsc_ProfileID r) (rsc_Ownership r) (json_Marshal v') = Inr r'"
    using assms by (auto simp: WithOverrides_def valid Resource_paths [OF valid v] holds_decode [OF v]
        split: if_splits sum.splits)
  have "is_object v" using typed_root [of v] wf by auto
  with apply_overrides_update [OF ov] wf
  have v': "json_wf v'" "leaf_keys v' = leaf_keys v"
    "\<And>ks. ks \<in> set (leaf_keys v) \<Longrightarrow> keys_get ks v' =
        (case override_values overrides (pointer_of ks) of Some u \<Rightarrow> Some u | None \<Rightarrow> keys_get ks v)"
    by auto
  note r' = New_resource [OF new v'(1)]
  have "resource_view r' p = (resource_view r ++ (\<lambda>p. map_option json_Marshal (override_values overrides p))) p" for p
  proof (cases "p \<in> pointer_of ` set (leaf_keys v)")
    case True
    then obtain ks where "p = pointer_of ks" "ks \<in> set (leaf_keys v)" by auto
    then show ?thesis using v' r' by (auto simp: resource_view_leaf [OF valid v] resource_view_leaf map_add_def split: option.split)
  next
    case False
    have "override_values overrides p = None"
      using ov False by (intro apply_overrides_undeclared [OF ov]) auto
    with False show ?thesis using resource_view_other [OF valid v] resource_view_other [of r' v'] r' v'(2)
      by (simp add: map_add_def)
  qed
  then show ?thesis using r' Resource_paths [OF valid v] Resource_paths [of r' v'] v'(2) by auto
qed

text \<open>
  C24. A plan is what differs. The changes of a diff are, in the order of their paths, exactly the
  declared fields whose observed value does not match the desired one, each looked up by its
  pointer; the diff itself walks the two values together and never follows a pointer.
\<close>

theorem diff_is_pointwise:
  assumes "diffProfileState observedRaw desiredRaw = Inr changes"
    and "decodeJSONValue observedRaw = Inr observed" and "decodeJSONValue desiredRaw = Inr desired"
  shows "changes = map (\<lambda>p. change_of p (jsonPointerValue observed p) (the (jsonPointerValue desired p)))
       (filter (\<lambda>p. \<not> profileStateValueMatches (jsonPointerValue observed p) (jsonPointerValue desired p))
         (sort (collectDeclaredPaths [] desired)))"
  using diff_pointwise [OF assms] by (simp add: changes_between_def)

text \<open>
  C16. A retry applies the rest of a plan. Applied to any later observation, a plan is refused exactly
  at the first declared field in a third state, neither as desired nor, by its digest, as it was
  when the plan was made; otherwise what is to be applied is exactly the part of the plan that is
  not yet as desired. So after a partial application the plan goes on where it stopped.
\<close>

theorem plan_applies_rest:
  assumes "NewProfileStateProposal i r observation now = Inr p"
    and "StateObservation_Validate later = None" and "pso_ProfileID later = pso_ProfileID observation"
    and "decodeJSONValue (pso_State observation) = Inr old" and "decodeJSONValue (pso_State later) = Inr new"
    and "decodeJSONValue (rsc_State r) = Inr desired"
  shows "ChangesToApply later p =
    (case find (third_state old new desired) (sort (collectDeclaredPaths [] desired)) of
       Some q \<Rightarrow> Inl (state_changed q)
     | None \<Rightarrow> Inr (filter (\<lambda>c. \<not> profileStateValueMatches (jsonPointerValue new (chg_Path c))
          (jsonPointerValue desired (chg_Path c))) (psp_Changes p)))"
  using ChangesToApply_spec [OF assms] .

section \<open>Two fields of a profile\<close>

definition sample_fields :: "string \<Rightarrow> json \<Rightarrow> json" where
  "sample_fields a b = JObject [(''profile'', JObject [(''a'', JString a), (''b'', b)])]"

definition sample_text :: "string \<Rightarrow> json \<Rightarrow> string" where
  "sample_text a b = json_Marshal (sample_fields a b)"

lemma sample_canonical:
  assumes "any_ok (sample_fields a b)" and "length (sample_text a b) \<le> 100" and "\<not> is_object b" and "\<not> (\<exists>vs. b = JArray vs)"
  shows "canonicalProfileState (sample_text a b) = Inr (sample_text a b, 2) \<and> sample_text a b \<noteq> []
    \<and> decodeJSONValue (sample_text a b) = Inr (sample_fields a b) \<and> holds_state (sample_text a b) (sample_fields a b)"
proof -
  have d: "decodeJSONValue (sample_text a b) = Inr (sample_fields a b)"
    unfolding sample_text_def by (rule decode_canonical [OF assms(1)])
  have "count_field b p (Suc (Suc 0)) = Inr (Suc 0)" for p
    using assms(3,4) by (cases b) (auto simp: maximumProfileStateDepth_def)
  then have l: "count_leaves [(''profile'', JObject [(''a'', JString a), (''b'', b)])] = Inr 2"
    by (simp add: count_leaves_def count_profile_def maximumProfileStateDepth_def TrimSpace_id space_heads_def space_lasts_def)
  have ne: "sample_text a b \<noteq> []" by (simp add: sample_text_def sample_fields_def)
  have c: "canonicalProfileState (sample_text a b) = Inr (sample_text a b, 2)"
    using assms(2) ne unfolding canonicalProfileState_def d
    by (simp add: sample_fields_def maximumProfileStateBytes_def l) (simp add: sample_text_def sample_fields_def)
  with ne d holds_canonical [OF c] show ?thesis using holds_decode by fastforce
qed

lemma sample_fields_ok: "any_ok (sample_fields ''x'' JNull)" "any_ok (sample_fields ''w'' (JString ''y''))"
  "any_ok (sample_fields ''x'' (JString ''y''))" "any_ok (sample_fields ''z'' JNull)"
  by code_simp+

lemma sample_fields_short: "length (sample_text ''x'' JNull) \<le> 100" "length (sample_text ''w'' (JString ''y'')) \<le> 100"
  "length (sample_text ''x'' (JString ''y'')) \<le> 100" "length (sample_text ''z'' JNull) \<le> 100"
  by code_simp+

lemmas sample_state = sample_canonical [OF sample_fields_ok(1) sample_fields_short(1)]
  sample_canonical [OF sample_fields_ok(2) sample_fields_short(2)]
  sample_canonical [OF sample_fields_ok(3) sample_fields_short(3)]
  sample_canonical [OF sample_fields_ok(4) sample_fields_short(4)]

lemma sample_paths: "sort (collectDeclaredPaths [] (sample_fields ''x'' JNull)) = [''/profile/a'', ''/profile/b'']"
  "sort (collectDeclaredPaths [] (sample_fields ''z'' JNull)) = [''/profile/a'', ''/profile/b'']"
  by code_simp+

lemma sample_values:
  "jsonPointerValue (sample_fields a b) ''/profile/a'' = Some (JString a)" "jsonPointerValue (sample_fields a b) ''/profile/b'' = Some b"
proof -
  have p: "''/profile/a'' = pointer_of [''profile'', ''a'']" "''/profile/b'' = pointer_of [''profile'', ''b'']"
    by (simp_all add: escape_Cons)
  show "jsonPointerValue (sample_fields a b) ''/profile/a'' = Some (JString a)" "jsonPointerValue (sample_fields a b) ''/profile/b'' = Some b"
    unfolding p pointer_value by (simp_all add: sample_fields_def)
qed

theorem canonical_state_typed_witness:
  "canonicalProfileState (sample_text ''x'' JNull) = Inr (sample_text ''x'' JNull, 2)
   \<and> (\<exists>v. decodeJSONValue (sample_text ''x'' JNull) = Inr v \<and> state_typed v \<and> length (collectDeclaredPaths [] v) = 2)"
proof -
  have c: "canonicalProfileState (sample_text ''x'' JNull) = Inr (sample_text ''x'' JNull, 2)" using sample_state(1) by simp
  from canonical_state_typed [OF c] c show ?thesis by metis
qed

theorem diff_is_pointwise_witness:
  "\<exists>changes. diffProfileState (sample_text ''w'' (JString ''y'')) (sample_text ''x'' JNull) = Inr changes
     \<and> map chg_Path changes = [''/profile/a'', ''/profile/b'']"
proof -
  have ne: "\<not> jsonValuesEqual (JString ''w'') (JString ''x'')" "\<not> jsonValuesEqual (JString ''y'') JNull"
    by code_simp+
  obtain changes where c: "diffProfileState (sample_text ''w'' (JString ''y'')) (sample_text ''x'' JNull) = Inr changes"
    using sample_state(1,2)
    by (simp add: diffProfileState_def) (simp add: sample_fields_def diff_leaf_def maximumProfileStateChanges_def ne)
  from diff_is_pointwise [OF c, of "sample_fields ''w'' (JString ''y'')" "sample_fields ''x'' JNull"] sample_state(1,2)
  have "changes = map (\<lambda>p. change_of p (jsonPointerValue (sample_fields ''w'' (JString ''y'')) p) (the (jsonPointerValue (sample_fields ''x'' JNull) p)))
      [''/profile/a'', ''/profile/b'']"
    unfolding sample_paths by (simp add: sample_values profileStateValueMatches_def ne)
  with c show ?thesis by simp
qed

text \<open>A resource, and a plan made when both fields were different.\<close>

definition sample_resource :: "string \<Rightarrow> ProfileStateResource" where
  "sample_resource state = (let r = \<lparr>rsc_Tag = ''main'', rsc_ProfileID = ''p1'', rsc_Ownership = OwnershipDeclaredFields,
     rsc_State = state, rsc_ManifestDigest = []\<rparr> in r\<lparr>rsc_ManifestDigest := profileStateManifestDigest r\<rparr>)"

lemma sample_resource_new:
  assumes "canonicalProfileState state = Inr (state, 2)"
  shows "Resource_Validate (sample_resource state) = None"
    "NewProfileStateResource ''main'' ''p1'' OwnershipDeclaredFields state = Inr (sample_resource state)"
proof -
  have own: "TrimSpace OwnershipDeclaredFields = OwnershipDeclaredFields" "TrimSpace ''main'' = ''main''"
    by (simp_all add: OwnershipDeclaredFields_def TrimSpace_id space_heads_def space_lasts_def)
  show v: "Resource_Validate (sample_resource state) = None"
    using assms by (simp add: Resource_Validate_def sample_resource_def Let_def own profileStateManifestDigest_def
        profileStateDigest_def)
  show "NewProfileStateResource ''main'' ''p1'' OwnershipDeclaredFields state = Inr (sample_resource state)"
    using assms v by (simp add: NewProfileStateResource_def own) (simp add: sample_resource_def Let_def)
qed

definition sample_override :: ProfileStateValueOverride where
  "sample_override = \<lparr>ovr_Path = ''/profile/a'', ovr_Value = json_Marshal (JString ''z'')\<rparr>"

theorem overrides_refine_update_witness:
  "resource_view (sample_resource (sample_text ''z'' JNull)) ''/profile/a'' = Some (json_Marshal (JString ''z''))
   \<and> Resource_DeclaredPaths (sample_resource (sample_text ''z'' JNull)) = Resource_DeclaredPaths (sample_resource (sample_text ''x'' JNull))"
proof -
  note c = sample_state(1) [simplified] sample_state(4) [simplified]
  have "any_ok (JString ''z'')" by code_simp
  then have z: "decodeJSONValue (json_Marshal (JString ''z'')) = Inr (JString ''z'')" by (rule decode_canonical)
  have state: "rsc_State (sample_resource s) = s" "rsc_Tag (sample_resource s) = ''main''"
    "rsc_ProfileID (sample_resource s) = ''p1''" "rsc_Ownership (sample_resource s) = OwnershipDeclaredFields" for s
    by (simp_all add: sample_resource_def Let_def)
  have paths: "Resource_DeclaredPaths (sample_resource (sample_text ''x'' JNull)) = Inr [''/profile/a'', ''/profile/b'']"
    "Resource_DeclaredPaths (sample_resource (sample_text ''z'' JNull)) = Inr [''/profile/a'', ''/profile/b'']"
    using c sample_resource_new(1) sample_paths by (simp_all add: Resource_DeclaredPaths_def state)
  have "setJSONPointerValue (sample_fields ''x'' JNull) ''/profile/a'' (JString ''z'') = Some (sample_fields ''z'' JNull)"
    by code_simp
  then have "WithOverrides [sample_override] (sample_resource (sample_text ''x'' JNull)) = Inr (sample_resource (sample_text ''z'' JNull))"
    using c sample_resource_new z
    by (simp add: WithOverrides_def paths state sample_override_def flip: sample_text_def)
  from overrides_refine_update [OF this] show ?thesis
    using z by (simp add: map_add_def sample_override_def override_value_def)
qed

definition sample_observation :: "string \<Rightarrow> ProfileStateObservation" where
  "sample_observation state = \<lparr>pso_ProfileID = ''p1'', pso_State = state, pso_StateDigest = profileStateDigest state,
     pso_RemoteRevision = [], pso_ObservedAt = 5\<rparr>"

lemma sample_observation_simps [simp]:
  "pso_State (sample_observation s) = s" "pso_ProfileID (sample_observation s) = ''p1''"
  "pso_StateDigest (sample_observation s) = profileStateDigest s" "pso_ObservedAt (sample_observation s) = 5"
  by (simp_all add: sample_observation_def)

lemma sample_observation_valid:
  "canonicalProfileState state = Inr (state, 2) \<Longrightarrow> StateObservation_Validate (sample_observation state) = None"
  by (simp add: StateObservation_Validate_def sample_observation_def profileStateDigest_def)

lemma sample_plan:
  "\<exists>p. NewProfileStateProposal ''plan'' (sample_resource (sample_text ''x'' JNull))
      (sample_observation (sample_text ''w'' (JString ''y''))) 7 = Inr p
    \<and> psp_Changes p = [change_of ''/profile/a'' (Some (JString ''w'')) (JString ''x''),
        change_of ''/profile/b'' (Some (JString ''y'')) JNull]
    \<and> psp_ID p = ''plan'' \<and> psp_Status p = ProposalPlanned"
proof -
  let ?r = "sample_resource (sample_text ''x'' JNull)"
  let ?old = "sample_text ''w'' (JString ''y'')" and ?new = "sample_text ''x'' (JString ''y'')"
  note c = sample_state(1-3) [simplified]
  have ne: "\<not> jsonValuesEqual (JString ''w'') (JString ''x'')" "\<not> jsonValuesEqual (JString ''y'') JNull"
    by code_simp+
  have state: "rsc_State (sample_resource s) = s" "rsc_Tag (sample_resource s) = ''main''"
    "rsc_ProfileID (sample_resource s) = ''p1''" "rsc_Ownership (sample_resource s) = OwnershipDeclaredFields" for s
    by (simp_all add: sample_resource_def Let_def)
  let ?changes = "[change_of ''/profile/a'' (Some (JString ''w'')) (JString ''x''), change_of ''/profile/b'' (Some (JString ''y'')) JNull]"
  have less: "\<not> ''/profile/b'' < ''/profile/a''" "''/profile/a'' < ''/profile/b''" "[] < ''/profile/a''" by code_simp+
  have diff: "diffProfileState ?old (sample_text ''x'' JNull) = Inr ?changes"
    using c
    by (simp add: diffProfileState_def)
      (simp add: sample_fields_def diff_leaf_def maximumProfileStateChanges_def ne escape_Cons sort_Slice_def less)
  have digests: "profileStateDigest t \<noteq> []" "digestJSONValue v \<noteq> []" for t v
    by (simp_all add: digestJSONValue_def profileStateDigest_def)
  have m: "rsc_ManifestDigest ?r \<noteq> []" by (simp add: sample_resource_def Let_def profileStateManifestDigest_def profileStateDigest_def)
  have valid: "validate_changes ''proposal'' [] ?changes = None"
    by (simp add: change_of_def digests less less_imp_not_less)
  show ?thesis
    using c diff valid m digests sample_resource_new(1) sample_observation_valid
    by (simp add: NewProfileStateProposal_def Proposal_Validate_def canonical_desired_def state Let_def
        profileStateProposalKey_def maximumProfileStateChanges_def TrimSpace_id space_heads_def space_lasts_def)
qed

text \<open>The first field was applied, the second is still to be cleared.\<close>

theorem plan_applies_rest_witness:
  "\<exists>p. NewProfileStateProposal ''plan'' (sample_resource (sample_text ''x'' JNull))
      (sample_observation (sample_text ''w'' (JString ''y''))) 7 = Inr p
    \<and> (\<exists>c. ChangesToApply (sample_observation (sample_text ''x'' (JString ''y''))) p = Inr [c] \<and> chg_Path c = ''/profile/b'')"
proof -
  let ?r = "sample_resource (sample_text ''x'' JNull)"
  let ?old = "sample_text ''w'' (JString ''y'')" and ?new = "sample_text ''x'' (JString ''y'')"
  note c = sample_state(1-3) [simplified]
  have ne: "\<not> jsonValuesEqual (JString ''w'') (JString ''x'')" "\<not> jsonValuesEqual (JString ''y'') JNull"
    by code_simp+
  have same: "jsonValuesEqual v v" for v by (simp add: jsonValuesEqual_def)
  have state: "rsc_State (sample_resource s) = s" for s by (simp add: sample_resource_def Let_def)
  let ?changes = "[change_of ''/profile/a'' (Some (JString ''w'')) (JString ''x''), change_of ''/profile/b'' (Some (JString ''y'')) JNull]"
  obtain p where p: "NewProfileStateProposal ''plan'' ?r (sample_observation ?old) 7 = Inr p" "psp_Changes p = ?changes"
    using sample_plan by blast
  from plan_applies_rest [OF p(1), of "sample_observation ?new" "sample_fields ''w'' (JString ''y'')"
      "sample_fields ''x'' (JString ''y'')" "sample_fields ''x'' JNull"] c
  have "ChangesToApply (sample_observation ?new) p = Inr [change_of ''/profile/b'' (Some (JString ''y'')) JNull]"
    unfolding sample_paths
    by (simp add: sample_observation_valid state p(2) sample_values third_state_def profileStateValueMatches_def ne same)
  with p(1) show ?thesis by auto
qed

end
