(* ===== verification/ProfileApply_Props.thy ===== *)
theory ProfileApply_Props
  imports ProfileApply ProfileState_Props
begin

text \<open>
  What a successful application of a plan means: the writer's own observation shows every declared
  field as desired, the plan is recorded as applied, and planning again finds nothing to change.
\<close>

lemma pending_none:
  "pending_changes changes desired observed paths = Inr [] \<Longrightarrow> q \<in> set paths
     \<Longrightarrow> profileStateValueMatches (jsonPointerValue observed q) (jsonPointerValue desired q)"
  by (induction paths) (auto simp: Let_def split: option.splits if_splits sum.splits)

lemma ChangesToApply_none:
  assumes "ChangesToApply observation p = Inr []"
    and "decodeJSONValue (psp_DesiredState p) = Inr desired" and "decodeJSONValue (pso_State observation) = Inr observed"
    and "q \<in> set (collectDeclaredPaths [] desired)"
  shows "profileStateValueMatches (jsonPointerValue observed q) (jsonPointerValue desired q)"
proof (rule pending_none)
  have v: "Proposal_Validate p = None" using assms(1) by (auto simp: ChangesToApply_def split: option.splits)
  then have "Proposal_DeclaredPaths p = Inr (sort (collectDeclaredPaths [] desired))"
    by (simp add: Proposal_DeclaredPaths_def assms(2))
  then show "pending_changes (fold (\<lambda>change. AList.update (chg_Path change) change) (psp_Changes p) []) desired observed
      (sort (collectDeclaredPaths [] desired)) = Inr []"
    using assms(1-3) v by (auto simp: ChangesToApply_def Let_def split: option.splits if_splits)
  show "q \<in> set (sort (collectDeclaredPaths [] desired))" using assms(4) by simp
qed

lemma confirm_applied_ok:
  assumes "confirm_applied ctx now source p observation s = (None, s')"
  shows "ChangesToApply observation p = Inr [] \<and> StateObservation_Validate observation = None
    \<and> pso_ProfileID observation = psp_ProfileID p
    \<and> (\<exists>r. map_of (ps_revisions s') (psp_ID p) = Some r \<and> psr_Changes r = psp_Changes p
        \<and> psr_DesiredDigest r = psp_DesiredDigest p)"
proof -
  obtain r c where *: "StateObservation_Validate observation = None" "pso_ProfileID observation = psp_ProfileID p"
    "ChangesToApply observation p = Inr []" "NewProfileStateRevision p source now = Inr r"
    "CreateProfileStateRevision ctx r s = (Inr c, s')"
    using assms by (auto simp: confirm_applied_def split: option.splits if_splits sum.splits prod.splits)
  have r: "psr_ProposalID r = psp_ID p" "psr_Changes r = psp_Changes p" "psr_DesiredDigest r = psp_DesiredDigest p"
    using *(4) by (auto simp: NewProfileStateRevision_def Let_def split: option.splits if_splits)
  have "\<exists>r'. map_of (ps_revisions s') (psp_ID p) = Some r' \<and> psr_Changes r' = psr_Changes r
      \<and> psr_DesiredDigest r' = psr_DesiredDigest r"
    using *(5) r(1) by (auto simp: CreateProfileStateRevision_def sameProfileStateRevisionInputs_def
        split: option.splits if_splits)
  with * r show ?thesis by auto
qed

lemma apply_Handle_ok:
  assumes "apply_Handle ctx now writers task (s, x) = (None, s', x')"
  shows "\<exists>i p writer observation. decode_apply_payload (task_Payload task) = Some \<lparr>psa_ProposalID = i\<rparr>
    \<and> map_of (ps_proposals s) i = Some p \<and> map_of writers (psp_ProfileID p) = Some writer
    \<and> writer ctx p x = (Inr observation, x') \<and> confirm_applied ctx now (task_Source task) p observation s = (None, s')"
proof -
  obtain payload p writer observation where *: "decode_apply_payload (task_Payload task) = Some payload"
    "GetProfileStateProposal ctx (psa_ProposalID payload) s = Inr p" "map_of writers (psp_ProfileID p) = Some writer"
    "writer ctx p x = (Inr observation, x')" "confirm_applied ctx now (task_Source task) p observation s = (None, s')"
    using assms by (auto simp: apply_Handle_def Resolve_writer_def split: if_splits option.splits sum.splits prod.splits)
  have "map_of (ps_proposals s) (psa_ProposalID payload) = Some p"
    using *(2) by (auto simp: GetProfileStateProposal_def split: option.splits if_splits)
  moreover have "payload = \<lparr>psa_ProposalID = psa_ProposalID payload\<rparr>" by simp
  ultimately show ?thesis using * by metis
qed

text \<open>
  C17. A plan counts as applied only when it was seen applied. If the handler succeeds, it applied the
  stored proposal its task names; the observation the writer returned shows every declared field
  as desired, whatever the writer did; and the record of the applied proposal holds its changes.
\<close>

theorem applied_is_verified:
  assumes "apply_Handle ctx now writers task (s, x) = (None, s', x')"
    and "decode_apply_payload (task_Payload task) = Some \<lparr>psa_ProposalID = i\<rparr>"
    and "map_of (ps_proposals s) i = Some p" and "psp_ID p = i"
    and "decodeJSONValue (psp_DesiredState p) = Inr desired"
  shows "\<exists>writer observation observed. map_of writers (psp_ProfileID p) = Some writer
    \<and> writer ctx p x = (Inr observation, x') \<and> decodeJSONValue (pso_State observation) = Inr observed
    \<and> (\<forall>q\<in>set (collectDeclaredPaths [] desired).
        profileStateValueMatches (jsonPointerValue observed q) (jsonPointerValue desired q))
    \<and> (\<exists>r. map_of (ps_revisions s') i = Some r \<and> psr_Changes r = psp_Changes p)"
proof -
  obtain writer observation where w: "map_of writers (psp_ProfileID p) = Some writer"
    "writer ctx p x = (Inr observation, x')" "confirm_applied ctx now (task_Source task) p observation s = (None, s')"
    using apply_Handle_ok [OF assms(1)] assms(2,3) by auto
  note ok = confirm_applied_ok [OF w(3)]
  obtain observed where o': "decodeJSONValue (pso_State observation) = Inr observed"
    using ok by (auto simp: ChangesToApply_def split: option.splits if_splits sum.splits)
  show ?thesis using w ok o' ChangesToApply_none [OF _ assms(5) o'] assms(4) by blast
qed

text \<open>
  C26. Applying a plan converges. When a plan made for a resource was applied, planning the same
  resource against the observation that confirmed it finds no change.
\<close>

theorem applied_plan_converges:
  assumes "NewProfileStateProposal i r observation now = Inr p"
    and "confirm_applied ctx now' source p later s = (None, s')"
    and "NewProfileStateProposal j r later now'' = Inr p'"
  shows "psp_Status p' = ProposalNoChanges \<and> psp_Changes p' = []"
proof -
  note parts = NewProposal_parts [OF assms(1)] and parts' = NewProposal_parts [OF assms(3)]
  note ok = confirm_applied_ok [OF assms(2)]
  obtain observed desired where d: "decodeJSONValue (pso_State later) = Inr observed" "decodeJSONValue (rsc_State r) = Inr desired"
    using parts' by (auto simp: diffProfileState_def split: sum.splits)
  have "psp_Changes p' = changes_between observed desired"
    using diff_pointwise [OF _ d, of "psp_Changes p'"] parts' by blast
  also have "\<dots> = []"
    using ChangesToApply_none [of later p desired observed] ok parts d
    by (auto simp: changes_between_def filter_empty_conv)
  finally have "psp_Changes p' = []" .
  moreover have "psp_Status p' = (if psp_Changes p' = [] then ProposalNoChanges else ProposalPlanned)"
    using assms(3) by (auto simp: NewProfileStateProposal_def Let_def split: if_splits option.splits sum.splits)
  ultimately show ?thesis by simp
qed

section \<open>A plan that is applied\<close>

lemma validate_changes_owner:
  "validate_changes a previous cs = None \<Longrightarrow> validate_changes b previous cs = None"
  by (induction a previous cs rule: validate_changes.induct) (auto split: if_splits)

lemma Proposal_valid:
  "Proposal_Validate p = None \<Longrightarrow> psp_ID p \<noteq> [] \<and> TrimSpace (psp_ResourceTag p) \<noteq> [] \<and> psp_ProfileID p \<noteq> []
     \<and> psp_ManifestDigest p \<noteq> [] \<and> psp_ObservedDigest p \<noteq> [] \<and> psp_DesiredDigest p \<noteq> []
     \<and> length (psp_Changes p) \<le> maximumProfileStateChanges \<and> (psp_Status p = ProposalPlanned \<longrightarrow> psp_Changes p \<noteq> [])
     \<and> validate_changes ''proposal'' [] (psp_Changes p) = None"
  unfolding Proposal_Validate_def guards_None by auto

lemma revision_of_plan:
  assumes "Proposal_Validate p = None" and "psp_Status p = ProposalPlanned" and "TrimSpace source \<noteq> []" and "\<not> IsZero now"
  shows "\<exists>r. NewProfileStateRevision p source now = Inr r"
proof -
  note v = Proposal_valid [OF assms(1)]
  then have "validate_changes ''revision'' [] (psp_Changes p) = None" using validate_changes_owner by blast
  with v assms show ?thesis by (simp add: NewProfileStateRevision_def Revision_Validate_def not_less Let_def)
qed

definition sample_states :: "ProfileStateProposal \<Rightarrow> ProfileStates" where
  "sample_states p = \<lparr>ps_proposals = [(''plan'', p)], ps_keys = [(psp_IdempotencyKey p, ''plan'')], ps_revisions = []\<rparr>"

text \<open>The writer reports that both fields are as desired.\<close>

definition sample_writers :: "(ProfileID \<times> nat ProfileStateWriter) list" where
  "sample_writers = [(''p1'', \<lambda>ctx p x. (Inr (sample_observation (sample_text ''x'' JNull)), x + 1))]"

definition sample_apply_task :: Task where
  "sample_apply_task = zero_Task\<lparr>task_ID := ''t1'', task_Type := TaskProfileStateApply, task_Source := ''api'',
     task_ProfileID := ''p1'', task_Payload := encode_apply_payload \<lparr>psa_ProposalID = ''plan''\<rparr>\<rparr>"

lemma sample_confirm:
  assumes "NewProfileStateProposal ''plan'' (sample_resource (sample_text ''x'' JNull))
      (sample_observation (sample_text ''w'' (JString ''y''))) 7 = Inr p" and "psp_ID p = ''plan''" and "psp_Status p = ProposalPlanned"
  shows "\<exists>s'. confirm_applied None 9 ''api'' p (sample_observation (sample_text ''x'' JNull)) (sample_states p) = (None, s')"
proof -
  note c = sample_state(1,2) [simplified] and parts = NewProposal_parts [OF assms(1)]
  have same: "jsonValuesEqual v v" for v by (simp add: jsonValuesEqual_def)
  have state: "rsc_State (sample_resource s) = s" for s by (simp add: sample_resource_def Let_def)
  have "third_state (sample_fields ''w'' (JString ''y'')) (sample_fields ''x'' JNull) (sample_fields ''x'' JNull) q = False"
    if "q \<in> {''/profile/a'', ''/profile/b''}" for q
    using that by (auto simp: third_state_def sample_values profileStateValueMatches_def same)
  moreover have "\<forall>c\<in>set (psp_Changes p). chg_Path c \<in> {''/profile/a'', ''/profile/b''}"
    using sample_plan assms(1) by auto
  then have "filter (\<lambda>c. \<not> profileStateValueMatches (jsonPointerValue (sample_fields ''x'' JNull) (chg_Path c))
          (jsonPointerValue (sample_fields ''x'' JNull) (chg_Path c))) (psp_Changes p) = []"
    by (auto simp: filter_empty_conv sample_values profileStateValueMatches_def same)
  ultimately have "ChangesToApply (sample_observation (sample_text ''x'' JNull)) p = Inr []"
    using ChangesToApply_spec [OF assms(1), of "sample_observation (sample_text ''x'' JNull)"
        "sample_fields ''w'' (JString ''y'')" "sample_fields ''x'' JNull" "sample_fields ''x'' JNull"] c
    by (simp add: sample_observation_valid state sample_paths)
  moreover have "psp_ProfileID p = ''p1''" using parts by simp
  moreover obtain r where "NewProfileStateRevision p ''api'' 9 = Inr r"
    using revision_of_plan [of p "''api''" 9] parts assms(3) by (auto simp: TrimSpace_id space_heads_def space_lasts_def)
  moreover from this have "Revision_Validate r = None"
    by (auto simp: NewProfileStateRevision_def Let_def split: option.splits if_splits)
  ultimately show ?thesis
    using c by (simp add: confirm_applied_def sample_observation_valid CreateProfileStateRevision_def sample_states_def)
qed

theorem applied_is_verified_witness:
  "\<exists>p s'. apply_Handle None 9 sample_writers sample_apply_task (sample_states p, 0) = (None, s', 1)
    \<and> (\<exists>r. map_of (ps_revisions s') ''plan'' = Some r \<and> map chg_Path (psr_Changes r) = [''/profile/a'', ''/profile/b''])"
proof -
  obtain p where p: "NewProfileStateProposal ''plan'' (sample_resource (sample_text ''x'' JNull))
      (sample_observation (sample_text ''w'' (JString ''y''))) 7 = Inr p" "psp_ID p = ''plan''" "psp_Status p = ProposalPlanned"
    "map chg_Path (psp_Changes p) = [''/profile/a'', ''/profile/b'']"
    using sample_plan by auto
  note parts = NewProposal_parts [OF p(1)]
  obtain s' where s': "confirm_applied None 9 ''api'' p (sample_observation (sample_text ''x'' JNull)) (sample_states p) = (None, s')"
    using sample_confirm [OF p(1-3)] by blast
  have payload: "decode_apply_payload (encode_apply_payload \<lparr>psa_ProposalID = ''plan''\<rparr>) = Some \<lparr>psa_ProposalID = ''plan''\<rparr>"
    by code_simp
  have task: "task_Payload sample_apply_task = encode_apply_payload \<lparr>psa_ProposalID = ''plan''\<rparr>"
    "task_Type sample_apply_task = TaskProfileStateApply" "task_ProfileID sample_apply_task = ''p1''"
    "task_Source sample_apply_task = ''api''"
    by (simp_all add: sample_apply_task_def)
  have stored: "map_of (ps_proposals (sample_states p)) ''plan'' = Some p" by (simp add: sample_states_def)
  have h: "apply_Handle None 9 sample_writers sample_apply_task (sample_states p, 0) = (None, s', 1)"
    using s' parts p(3) by (simp add: apply_Handle_def task payload ApplyPayload_Validate_def GetProfileStateProposal_def
        stored Resolve_writer_def sample_writers_def)
  have "rsc_State (sample_resource s) = s" for s by (simp add: sample_resource_def Let_def)
  then have "decodeJSONValue (psp_DesiredState p) = Inr (sample_fields ''x'' JNull)"
    using parts sample_state(1) by simp
  from applied_is_verified [OF h, of "''plan''" p, OF _ stored p(2) this] payload task(1) h p(4) show ?thesis by fastforce
qed

theorem applied_plan_converges_witness:
  "\<exists>p p'. NewProfileStateProposal ''plan'' (sample_resource (sample_text ''x'' JNull))
      (sample_observation (sample_text ''w'' (JString ''y''))) 7 = Inr p \<and> psp_Status p = ProposalPlanned
    \<and> NewProfileStateProposal ''next'' (sample_resource (sample_text ''x'' JNull))
      (sample_observation (sample_text ''x'' JNull)) 10 = Inr p' \<and> psp_Status p' = ProposalNoChanges"
proof -
  obtain p where p: "NewProfileStateProposal ''plan'' (sample_resource (sample_text ''x'' JNull))
      (sample_observation (sample_text ''w'' (JString ''y''))) 7 = Inr p" "psp_ID p = ''plan''" "psp_Status p = ProposalPlanned"
    using sample_plan by auto
  obtain s' where s': "confirm_applied None 9 ''api'' p (sample_observation (sample_text ''x'' JNull)) (sample_states p) = (None, s')"
    using sample_confirm [OF p(1-3)] by blast
  note c = sample_state(1) [simplified]
  have same: "jsonValuesEqual v v" for v by (simp add: jsonValuesEqual_def)
  have diff: "diffProfileState (sample_text ''x'' JNull) (sample_text ''x'' JNull) = Inr []"
    using c by (simp add: diffProfileState_def) (simp add: sample_fields_def diff_leaf_def same sort_Slice_def)
  have digest: "profileStateDigest t \<noteq> []" for t by (simp add: profileStateDigest_def)
  have state: "rsc_State (sample_resource s) = s" "rsc_Tag (sample_resource s) = ''main''"
    "rsc_ProfileID (sample_resource s) = ''p1''" "rsc_Ownership (sample_resource s) = OwnershipDeclaredFields"
    "rsc_ManifestDigest (sample_resource s) \<noteq> []" for s
    by (simp_all add: sample_resource_def Let_def profileStateManifestDigest_def profileStateDigest_def)
  obtain p' where p': "NewProfileStateProposal ''next'' (sample_resource (sample_text ''x'' JNull))
      (sample_observation (sample_text ''x'' JNull)) 10 = Inr p'"
    using c diff digest sample_resource_new(1) sample_observation_valid
    by (simp add: NewProfileStateProposal_def Proposal_Validate_def canonical_desired_def state Let_def
        profileStateProposalKey_def TrimSpace_id space_heads_def space_lasts_def)
  from applied_plan_converges [OF p(1) s' p'] p p' show ?thesis by blast
qed

end
