(* ===== verification/EmployerGroups.thy ===== *)
theory EmployerGroups
  imports Plans
begin

text \<open>
  \<open>operator/employer.go\<close>: groups of employers, each given by identities and by included
  groups, and the groups a vacancy belongs to. Both the check for cycles and the matching recurse
  along the includes; the first argument of \<open>visit_group\<close> and \<open>match_group\<close> is the depth of
  the call stack that is left, and \<open>None\<close> is a stack that overflows. The lower case of a rune
  follows Unicode tables; it is the argument \<open>lower\<close>.
\<close>

section \<open>Identities\<close>

text \<open>\<open>strings.Fields\<close>, as lists of runes; \<open>strings.Map\<close> replaces what is not UTF-8.\<close>

definition rune_space :: "string option \<Rightarrow> bool" where
  "rune_space r \<longleftrightarrow> (case r of None \<Rightarrow> False | Some bs \<Rightarrow> bs \<in> set white_space)"

fun rune_words :: "string option list \<Rightarrow> string option list list" where
  "rune_words [] = []"
| "rune_words (r # rs) =
     (if rune_space r then rune_words rs
      else if rs = [] \<or> rune_space (hd rs) then [r] # rune_words rs
      else case rune_words rs of [] \<Rightarrow> [[r]] | w # ws \<Rightarrow> (r # w) # ws)"

fun join_words :: "string option list list \<Rightarrow> string option list" where
  "join_words [] = []"
| "join_words [w] = w"
| "join_words (w # ws) = w @ Some '' '' # join_words ws"

definition normalizeEmployerName :: "(string \<Rightarrow> string) \<Rightarrow> string \<Rightarrow> string" where
  "normalizeEmployerName lower value = concat (map
     (\<lambda>r. if rune_space r then '' '' else case r of None \<Rightarrow> rune_error | Some bs \<Rightarrow> lower bs)
     (join_words (rune_words (runes value))))"

definition vacancyEmployerID :: "Vacancy \<Rightarrow> string" where
  "vacancyEmployerID vacancy =
     (case attribute vacancy ''employer_id'' of
        Some (AttrText s) \<Rightarrow> TrimSpace s
      | Some (AttrNumber s) \<Rightarrow> TrimSpace s
      | _ \<Rightarrow> [])"

section \<open>Configuration\<close>

record EmployerGroupRuleConfig =
  egr_Platform :: Platform
  egr_EmployerID :: string
  egr_Name :: string

record EmployerGroupConfig =
  egc_Tag :: string
  egc_Rules :: "EmployerGroupRuleConfig list"
  egc_Include :: "string list"

record compiledEmployerGroup =
  grp_tag :: string
  grp_rules :: "EmployerGroupRuleConfig list"
  grp_include :: "string list"

record EmployerGroupMatcher =
  egm_order :: "string list"
  egm_groups :: "(string \<times> compiledEmployerGroup) list"

definition group_error :: "string \<Rightarrow> string \<Rightarrow> error" where
  "group_error tag rest = Err (''employer group '' @ quoted tag @ rest)"

definition compileEmployerGroupRule ::
  "(string \<Rightarrow> string) \<Rightarrow> string \<Rightarrow> EmployerGroupRuleConfig \<Rightarrow> error + EmployerGroupRuleConfig \<times> string" where
  "compileEmployerGroupRule lower groupTag configured =
     (let platform = TrimSpace (egr_Platform configured);
          employerID = TrimSpace (egr_EmployerID configured);
          name = normalizeEmployerName lower (egr_Name configured)
      in if (employerID = []) = (name = [])
         then Inl (group_error groupTag '' identity requires exactly one of employer_id or name'')
         else if employerID \<noteq> [] \<and> platform = []
         then Inl (group_error groupTag ('' employer_id '' @ quoted employerID @ '' requires platform''))
         else Inr (\<lparr>egr_Platform = platform, egr_EmployerID = employerID, egr_Name = name\<rparr>,
                platform @ [CHR 0x00] @ employerID @ [CHR 0x00] @ name))"

fun compile_rules ::
  "(string \<Rightarrow> string) \<Rightarrow> string \<Rightarrow> string list \<Rightarrow> EmployerGroupRuleConfig list
    \<Rightarrow> error + EmployerGroupRuleConfig list" where
  "compile_rules lower tag seen [] = Inr []"
| "compile_rules lower tag seen (configured # rest) =
     (case compileEmployerGroupRule lower tag configured of Inl e \<Rightarrow> Inl e | Inr (rule, key) \<Rightarrow>
      if key \<in> set seen then Inl (group_error tag ('' contains duplicate identity '' @ quoted key))
      else case compile_rules lower tag (key # seen) rest of Inl e \<Rightarrow> Inl e | Inr rules \<Rightarrow> Inr (rule # rules))"

fun compile_includes :: "string \<Rightarrow> string list \<Rightarrow> string list \<Rightarrow> error + string list" where
  "compile_includes tag seen [] = Inr []"
| "compile_includes tag seen (value # rest) =
     (let included = TrimSpace value in
      if included = [] then Inl (group_error tag '' contains an empty include'')
      else if included \<in> set seen then Inl (group_error tag ('' contains duplicate include '' @ quoted included))
      else case compile_includes tag (included # seen) rest of Inl e \<Rightarrow> Inl e | Inr includes \<Rightarrow> Inr (included # includes))"

definition compile_group :: "(string \<Rightarrow> string) \<Rightarrow> string \<Rightarrow> EmployerGroupConfig \<Rightarrow> error + compiledEmployerGroup" where
  "compile_group lower tag config =
     (case compile_rules lower tag [] (egc_Rules config) of Inl e \<Rightarrow> Inl e | Inr rules \<Rightarrow>
      case compile_includes tag [] (egc_Include config) of Inl e \<Rightarrow> Inl e | Inr includes \<Rightarrow>
      if rules = [] \<and> includes = [] then Inl (group_error tag '' requires an identity or included group'')
      else Inr \<lparr>grp_tag = tag, grp_rules = rules, grp_include = includes\<rparr>)"

fun compile_groups ::
  "(string \<Rightarrow> string) \<Rightarrow> EmployerGroupConfig list \<Rightarrow> EmployerGroupMatcher \<Rightarrow> error + EmployerGroupMatcher" where
  "compile_groups lower [] m = Inr m"
| "compile_groups lower (config # rest) m =
     (let tag = TrimSpace (egc_Tag config) in
      if tag = [] then Inl (Err ''employer group requires tag'')
      else if map_of (egm_groups m) tag \<noteq> None then Inl (Err (''duplicate employer group tag '' @ quoted tag))
      else case compile_group lower tag config of Inl e \<Rightarrow> Inl e | Inr grp \<Rightarrow>
      compile_groups lower rest (m\<lparr>egm_order := egm_order m @ [tag], egm_groups := AList.update tag grp (egm_groups m)\<rparr>))"

text \<open>Reading a tag that is not there yields the zero group, which includes nothing.\<close>

definition group_includes :: "EmployerGroupMatcher \<Rightarrow> string \<Rightarrow> string list" where
  "group_includes m tag = (case map_of (egm_groups m) tag of None \<Rightarrow> [] | Some grp \<Rightarrow> grp_include grp)"

fun unknown_include :: "EmployerGroupMatcher \<Rightarrow> string list \<Rightarrow> error option" where
  "unknown_include m [] = None"
| "unknown_include m (tag # rest) =
     (case find (\<lambda>included. map_of (egm_groups m) included = None) (group_includes m tag) of
        Some included \<Rightarrow> Some (group_error tag ('' includes unknown group '' @ quoted included))
      | None \<Rightarrow> unknown_include m rest)"

section \<open>No cycles\<close>

text \<open>The tags that are being visited are the stack; the finished ones are kept beside it.\<close>

definition cycle_error :: "string list \<Rightarrow> string \<Rightarrow> error" where
  "cycle_error stack tag =
     Err (''employer group include cycle: '' @ join_with '' -> '' (dropWhile (\<lambda>v. v \<noteq> tag) stack @ [tag]))"

fun visit_group ::
  "nat \<Rightarrow> EmployerGroupMatcher \<Rightarrow> string list \<Rightarrow> string \<Rightarrow> string list \<Rightarrow> (error + string list) option"
and visit_groups ::
  "nat \<Rightarrow> EmployerGroupMatcher \<Rightarrow> string list \<Rightarrow> string list \<Rightarrow> string list \<Rightarrow> (error + string list) option" where
  "visit_group 0 m stack tag finished = None"
| "visit_group (Suc n) m stack tag finished =
     (if tag \<in> set stack then Some (Inl (cycle_error stack tag))
      else if tag \<in> set finished then Some (Inr finished)
      else case visit_groups n m (stack @ [tag]) (group_includes m tag) finished of
        None \<Rightarrow> None | Some (Inl e) \<Rightarrow> Some (Inl e) | Some (Inr finished') \<Rightarrow> Some (Inr (tag # finished')))"
| "visit_groups n m stack [] finished = Some (Inr finished)"
| "visit_groups n m stack (tag # rest) finished =
     (case visit_group n m stack tag finished of
        None \<Rightarrow> None | Some (Inl e) \<Rightarrow> Some (Inl e)
      | Some (Inr finished') \<Rightarrow> visit_groups n m stack rest finished')"

definition validateAcyclic :: "nat \<Rightarrow> EmployerGroupMatcher \<Rightarrow> error option option" where
  "validateAcyclic n m = (case visit_groups n m [] (egm_order m) [] of
     None \<Rightarrow> None | Some (Inl e) \<Rightarrow> Some (Some e) | Some (Inr _) \<Rightarrow> Some None)"

definition NewEmployerGroupMatcher ::
  "nat \<Rightarrow> (string \<Rightarrow> string) \<Rightarrow> EmployerGroupConfig list \<Rightarrow> (error + EmployerGroupMatcher) option" where
  "NewEmployerGroupMatcher n lower configs =
     (case compile_groups lower configs \<lparr>egm_order = [], egm_groups = []\<rparr> of Inl e \<Rightarrow> Some (Inl e) | Inr m \<Rightarrow>
      case unknown_include m (egm_order m) of Some e \<Rightarrow> Some (Inl e) | None \<Rightarrow>
      case validateAcyclic n m of None \<Rightarrow> None | Some (Some e) \<Rightarrow> Some (Inl e) | Some None \<Rightarrow> Some (Inr m))"

section \<open>Matching\<close>

record EmployerGroupEvidence =
  ege_GroupTag :: string
  ege_Kind :: string
  ege_Platform :: Platform
  ege_Value :: string
  ege_Via :: string

type_synonym evidence_cache = "(string \<times> EmployerGroupEvidence option) list"

definition rule_by_id :: "Vacancy \<Rightarrow> EmployerGroupRuleConfig \<Rightarrow> bool" where
  "rule_by_id vacancy rule \<longleftrightarrow> egr_EmployerID rule \<noteq> [] \<and> vac_Platform vacancy = egr_Platform rule
     \<and> vacancyEmployerID vacancy = egr_EmployerID rule"

definition rule_by_name :: "(string \<Rightarrow> string) \<Rightarrow> Vacancy \<Rightarrow> EmployerGroupRuleConfig \<Rightarrow> bool" where
  "rule_by_name lower vacancy rule \<longleftrightarrow> egr_Name rule \<noteq> []
     \<and> (egr_Platform rule = [] \<or> vac_Platform vacancy = egr_Platform rule)
     \<and> normalizeEmployerName lower (vac_Employer vacancy) = egr_Name rule"

text \<open>What the identities of a group say.\<close>

definition identity_evidence ::
  "(string \<Rightarrow> string) \<Rightarrow> Vacancy \<Rightarrow> string \<Rightarrow> compiledEmployerGroup \<Rightarrow> EmployerGroupEvidence option" where
  "identity_evidence lower vacancy tag grp =
     (if \<exists>rule\<in>set (grp_rules grp). rule_by_id vacancy rule
      then Some \<lparr>ege_GroupTag = tag, ege_Kind = ''employer_id'', ege_Platform = vac_Platform vacancy,
             ege_Value = vacancyEmployerID vacancy, ege_Via = []\<rparr>
      else if \<exists>rule\<in>set (grp_rules grp). rule_by_name lower vacancy rule
      then Some \<lparr>ege_GroupTag = tag, ege_Kind = ''name'', ege_Platform = vac_Platform vacancy,
             ege_Value = vac_Employer vacancy, ege_Via = []\<rparr>
      else None)"

definition included_evidence :: "Vacancy \<Rightarrow> string \<Rightarrow> string \<Rightarrow> EmployerGroupEvidence" where
  "included_evidence vacancy tag via =
     \<lparr>ege_GroupTag = tag, ege_Kind = ''included_group'', ege_Platform = vac_Platform vacancy, ege_Value = [],
      ege_Via = via\<rparr>"

text \<open>The groups that were decided before are in the cache; \<open>match_included\<close> is the loop over the includes.\<close>

fun match_group ::
  "nat \<Rightarrow> (string \<Rightarrow> string) \<Rightarrow> EmployerGroupMatcher \<Rightarrow> Vacancy \<Rightarrow> string \<Rightarrow> evidence_cache
    \<Rightarrow> (EmployerGroupEvidence option \<times> evidence_cache) option"
and match_included ::
  "nat \<Rightarrow> (string \<Rightarrow> string) \<Rightarrow> EmployerGroupMatcher \<Rightarrow> Vacancy \<Rightarrow> string list \<Rightarrow> evidence_cache
    \<Rightarrow> (EmployerGroupEvidence option \<times> evidence_cache) option" where
  "match_group 0 lower m vacancy tag cache = None"
| "match_group (Suc n) lower m vacancy tag cache =
     (case map_of cache tag of Some cached \<Rightarrow> Some (cached, cache) | None \<Rightarrow>
      case map_of (egm_groups m) tag of
        None \<Rightarrow> Some (None, AList.update tag None cache)
      | Some grp \<Rightarrow>
      case identity_evidence lower vacancy tag grp of
        Some evidence \<Rightarrow> Some (Some evidence, AList.update tag (Some evidence) cache)
      | None \<Rightarrow>
      case match_included n lower m vacancy (grp_include grp) cache of
        None \<Rightarrow> None
      | Some (child, cache') \<Rightarrow>
          let evidence = map_option (\<lambda>c. included_evidence vacancy tag (ege_GroupTag c)) child
          in Some (evidence, AList.update tag evidence cache'))"
| "match_included n lower m vacancy [] cache = Some (None, cache)"
| "match_included n lower m vacancy (included # rest) cache =
     (case match_group n lower m vacancy included cache of
        None \<Rightarrow> None
      | Some (Some child, cache') \<Rightarrow> Some (Some child, cache')
      | Some (None, cache') \<Rightarrow> match_included n lower m vacancy rest cache')"

record EmployerGroupMatch =
  egx_GroupTag :: string
  egx_Evidence :: EmployerGroupEvidence

fun match_all ::
  "nat \<Rightarrow> (string \<Rightarrow> string) \<Rightarrow> EmployerGroupMatcher \<Rightarrow> Vacancy \<Rightarrow> string list \<Rightarrow> evidence_cache
    \<Rightarrow> EmployerGroupMatch list option" where
  "match_all n lower m vacancy [] cache = Some []"
| "match_all n lower m vacancy (tag # rest) cache =
     (case match_group n lower m vacancy tag cache of None \<Rightarrow> None | Some (evidence, cache') \<Rightarrow>
      case match_all n lower m vacancy rest cache' of None \<Rightarrow> None | Some matches \<Rightarrow>
      Some (case evidence of None \<Rightarrow> matches
            | Some e \<Rightarrow> \<lparr>egx_GroupTag = tag, egx_Evidence = e\<rparr> # matches))"

definition Match :: "nat \<Rightarrow> (string \<Rightarrow> string) \<Rightarrow> EmployerGroupMatcher \<Rightarrow> Vacancy \<Rightarrow> EmployerGroupMatch list option" where
  "Match n lower m vacancy = match_all n lower m vacancy (egm_order m) []"

fun match_any ::
  "nat \<Rightarrow> (string \<Rightarrow> string) \<Rightarrow> EmployerGroupMatcher \<Rightarrow> Vacancy \<Rightarrow> string list \<Rightarrow> evidence_cache
    \<Rightarrow> EmployerGroupMatch option option" where
  "match_any n lower m vacancy [] cache = Some None"
| "match_any n lower m vacancy (value # rest) cache =
     (let tag = TrimSpace value in
      case match_group n lower m vacancy tag cache of
        None \<Rightarrow> None
      | Some (Some e, cache') \<Rightarrow> Some (Some \<lparr>egx_GroupTag = tag, egx_Evidence = e\<rparr>)
      | Some (None, cache') \<Rightarrow> match_any n lower m vacancy rest cache')"

definition MatchAny ::
  "nat \<Rightarrow> (string \<Rightarrow> string) \<Rightarrow> EmployerGroupMatcher \<Rightarrow> Vacancy \<Rightarrow> string list \<Rightarrow> EmployerGroupMatch option option" where
  "MatchAny n lower m vacancy tags = match_any n lower m vacancy tags []"

definition HasGroup :: "EmployerGroupMatcher \<Rightarrow> string \<Rightarrow> bool" where
  "HasGroup m tag \<longleftrightarrow> map_of (egm_groups m) (TrimSpace tag) \<noteq> None"

end
