(* ===== verification/EmployerGroups_Props.thy ===== *)
theory EmployerGroups_Props
  imports EmployerGroups
begin

text \<open>
  Employer groups: the check for cycles and the matching return within a stack as deep as the
  number of groups, an accepted configuration is one without cycles, and the cached matching is the
  reachability of an identity along the includes.
\<close>

section \<open>The shape of a compiled matcher\<close>

lemma compile_groups_order:
  assumes "compile_groups lower configs m = Inr m'" "set (egm_order m) = dom (map_of (egm_groups m))"
  shows "set (egm_order m') = dom (map_of (egm_groups m'))" "length (egm_order m') = length (egm_order m) + length configs"
  using assms
  by (induction lower configs m rule: compile_groups.induct) (auto simp: Let_def split: if_splits sum.splits)

lemma unknown_include_None:
  "unknown_include m tags = None \<longleftrightarrow> (\<forall>tag\<in>set tags. set (group_includes m tag) \<subseteq> dom (map_of (egm_groups m)))"
proof (induction m tags rule: unknown_include.induct)
  case (2 m tag rest)
  have "find (\<lambda>i. map_of (egm_groups m) i = None) (group_includes m tag) = None
      \<longleftrightarrow> set (group_includes m tag) \<subseteq> dom (map_of (egm_groups m))"
    by (auto simp: find_None_iff)
  with 2 show ?case by (cases "find (\<lambda>i. map_of (egm_groups m) i = None) (group_includes m tag)") auto
qed simp

definition known :: "EmployerGroupMatcher \<Rightarrow> string set" where
  "known m = dom (map_of (egm_groups m))"

definition closed :: "EmployerGroupMatcher \<Rightarrow> bool" where
  "closed m \<longleftrightarrow> set (egm_order m) = known m \<and> (\<forall>tag\<in>known m. set (group_includes m tag) \<subseteq> known m)"

lemma compiled_closed:
  assumes "compile_groups lower configs \<lparr>egm_order = [], egm_groups = []\<rparr> = Inr m" "unknown_include m (egm_order m) = None"
  shows "closed m" "card (known m) \<le> length configs"
proof -
  from compile_groups_order [OF assms(1)] have o: "set (egm_order m) = known m" "length (egm_order m) = length configs"
    by (simp_all add: known_def)
  then show "closed m" using assms(2) by (auto simp: closed_def unknown_include_None known_def)
  show "card (known m) \<le> length configs" using o card_length [of "egm_order m"] by simp
qed

lemma finite_known: "finite (known m)"
  by (simp add: known_def finite_dom_map_of)

section \<open>The check for cycles\<close>

lemma visit_returns:
  "closed m \<Longrightarrow> tag \<in> known m \<Longrightarrow> set stack \<subseteq> known m \<Longrightarrow> distinct stack \<Longrightarrow> card (known m) < n + length stack
      \<Longrightarrow> visit_group n m stack tag finished \<noteq> None"
  "closed m \<Longrightarrow> set tags \<subseteq> known m \<Longrightarrow> set stack \<subseteq> known m \<Longrightarrow> distinct stack \<Longrightarrow> card (known m) < n + length stack
      \<Longrightarrow> visit_groups n m stack tags finished \<noteq> None"
proof (induction n m stack tag finished and n m stack tags finished rule: visit_group_visit_groups.induct)
  case (1 m stack tag finished)
  have "length stack \<le> card (known m)"
    using card_mono [OF finite_known 1(3)] distinct_card [OF 1(4)] by simp
  then show ?case using 1(5) by simp
next
  case (2 n m stack tag finished)
  show ?case
  proof (cases "tag \<in> set stack \<or> tag \<in> set finished")
    case False
    have "set (group_includes m tag) \<subseteq> known m" using 2(2,3) unfolding closed_def by blast
    then have "visit_groups n m (stack @ [tag]) (group_includes m tag) finished \<noteq> None"
      using False 2(2-6) by (intro 2(1)) simp_all
    then show ?thesis using False by (auto split: sum.split)
  qed auto
qed (auto split: sum.split)

text \<open>The finished groups are in an order in which a group comes before what it includes.\<close>

fun topological :: "EmployerGroupMatcher \<Rightarrow> string list \<Rightarrow> bool" where
  "topological m [] = True"
| "topological m (tag # rest) \<longleftrightarrow> set (group_includes m tag) \<subseteq> set rest \<and> tag \<notin> set rest \<and> topological m rest"

lemma visit_topological:
  "visit_group n m stack tag finished = Some (Inr finished') \<Longrightarrow> topological m finished
    \<Longrightarrow> set stack \<inter> set finished = {}
    \<Longrightarrow> topological m finished' \<and> set finished \<subseteq> set finished' \<and> tag \<in> set finished' \<and> set stack \<inter> set finished' = {}"
  "visit_groups n m stack tags finished = Some (Inr finished') \<Longrightarrow> topological m finished
    \<Longrightarrow> set stack \<inter> set finished = {}
    \<Longrightarrow> topological m finished' \<and> set finished \<subseteq> set finished' \<and> set tags \<subseteq> set finished' \<and> set stack \<inter> set finished' = {}"
proof (induction n m stack tag finished and n m stack tags finished arbitrary: finished' and finished'
    rule: visit_group_visit_groups.induct)
  case (2 n m stack tag finished)
  show ?case
  proof (cases "tag \<in> set finished \<or> tag \<in> set stack")
    case True
    then show ?thesis using 2 by (auto split: if_splits)
  next
    case False
    then obtain mid where "visit_groups n m (stack @ [tag]) (group_includes m tag) finished = Some (Inr mid)"
      "finished' = tag # mid"
      using 2(2) by (auto split: option.splits sum.splits)
    with 2(1) [OF _ _ this(1)] False 2(3,4) show ?thesis by auto
  qed
next
  case (4 n m stack tag rest finished)
  then obtain mid where mid: "visit_group n m stack tag finished = Some (Inr mid)"
    "visit_groups n m stack rest mid = Some (Inr finished')"
    by (auto split: option.splits sum.splits)
  from 4(1) [OF mid(1) 4(4,5)] 4(2) [OF mid(1) _ mid(2)] show ?case by auto
qed auto

text \<open>The includes as a relation: an include chain that is refused closes a cycle.\<close>

definition includes_rel :: "EmployerGroupMatcher \<Rightarrow> (string \<times> string) set" where
  "includes_rel m = {(tag, included). included \<in> set (group_includes m tag)}"

lemma topological_rank:
  "topological m order \<Longrightarrow> tag \<in> set order \<Longrightarrow> (tag, t) \<in> (includes_rel m)\<^sup>+ \<Longrightarrow> tag \<noteq> t \<and> t \<in> set order"
proof (induction m order arbitrary: tag t rule: topological.induct)
  case (2 m first rest)
  have inner: "(tag, t) \<in> (includes_rel m)\<^sup>+ \<Longrightarrow> tag \<in> set rest \<Longrightarrow> tag \<noteq> t \<and> t \<in> set rest" for tag t
    using 2 by simp
  show ?case
  proof (cases "tag \<in> set rest")
    case True
    then show ?thesis using inner 2(4) by auto
  next
    case False
    then have "tag = first" using 2(3) by simp
    with 2(4) obtain u where "u \<in> set (group_includes m first)" "u = t \<or> (u, t) \<in> (includes_rel m)\<^sup>+"
      by (auto simp: includes_rel_def elim: converse_tranclE)
    then have "t \<in> set rest" using inner [of u t] 2(2) by auto
    with False \<open>tag = first\<close> show ?thesis by auto
  qed
qed simp

fun chain :: "EmployerGroupMatcher \<Rightarrow> string list \<Rightarrow> bool" where
  "chain m (a # b # rest) \<longleftrightarrow> b \<in> set (group_includes m a) \<and> chain m (b # rest)"
| "chain m _ = True"

lemma chain_snoc: "chain m (xs @ [a]) \<Longrightarrow> b \<in> set (group_includes m a) \<Longrightarrow> chain m (xs @ [a, b])"
  by (induction m xs rule: chain.induct) auto

lemma chain_cycle: "chain m (xs @ a # ys @ [b]) \<Longrightarrow> (a, b) \<in> (includes_rel m)\<^sup>+"
proof (induction ys arbitrary: xs a)
  case Nil
  then have "b \<in> set (group_includes m a)" by (induction m xs rule: chain.induct) auto
  then show ?case by (auto simp: includes_rel_def)
next
  case (Cons y ys)
  then have "y \<in> set (group_includes m a)" by (induction m xs rule: chain.induct) auto
  moreover have "(y, b) \<in> (includes_rel m)\<^sup>+" using Cons.IH [of "xs @ [a]" y] Cons.prems by simp
  ultimately show ?case by (auto simp: includes_rel_def intro: trancl_into_trancl2)
qed

lemma visit_error:
  "visit_group n m stack tag finished = Some (Inl e) \<Longrightarrow> chain m (stack @ [tag]) \<Longrightarrow> \<not> acyclic (includes_rel m)"
  "visit_groups n m stack tags finished = Some (Inl e) \<Longrightarrow> \<forall>tag\<in>set tags. chain m (stack @ [tag]) \<Longrightarrow> \<not> acyclic (includes_rel m)"
proof (induction n m stack tag finished and n m stack tags finished rule: visit_group_visit_groups.induct)
  case (2 n m stack tag finished)
  show ?case
  proof (cases "tag \<in> set stack")
    case True
    then obtain xs ys where "stack = xs @ tag # ys" by (auto simp: in_set_conv_decomp)
    with 2(3) have "(tag, tag) \<in> (includes_rel m)\<^sup>+" using chain_cycle [of m xs tag ys tag] by simp
    then show ?thesis by (auto simp: acyclic_def)
  next
    case False
    then have "visit_groups n m (stack @ [tag]) (group_includes m tag) finished = Some (Inl e)" "tag \<notin> set finished"
      using 2(2) by (auto split: option.splits sum.splits if_splits)
    with False 2(1,3) chain_snoc [of m stack tag] show ?thesis by simp
  qed
qed (auto split: option.splits sum.splits)

text \<open>What is reported depends on the depth of the stack only in that it must not overflow.\<close>

lemma visit_deeper:
  "visit_group n m stack tag finished = Some r \<Longrightarrow> n \<le> n' \<Longrightarrow> visit_group n' m stack tag finished = Some r"
  "visit_groups n m stack tags finished = Some r \<Longrightarrow> n \<le> n' \<Longrightarrow> visit_groups n' m stack tags finished = Some r"
proof (induction n m stack tag finished and n m stack tags finished arbitrary: r n' and r n'
    rule: visit_group_visit_groups.induct)
  case (2 n m stack tag finished)
  from 2(3) obtain k where k: "n' = Suc k" "n \<le> k" by (cases n') auto
  show ?case
  proof (cases "tag \<in> set stack \<or> tag \<in> set finished")
    case True
    then show ?thesis using 2(2) k by auto
  next
    case False
    then obtain q where q: "visit_groups n m (stack @ [tag]) (group_includes m tag) finished = Some q"
      using 2(2) by (auto split: option.splits)
    then have "visit_groups k m (stack @ [tag]) (group_includes m tag) finished = Some q"
      using 2(1) False k(2) by blast
    with q False 2(2) k(1) show ?thesis by simp
  qed
next
  case (4 n m stack tag rest finished)
  from 4(3) obtain q where q: "visit_group n m stack tag finished = Some q"
    by (cases "visit_group n m stack tag finished") auto
  from 4(1) [OF q 4(4)] have q': "visit_group n' m stack tag finished = Some q" .
  show ?case
  proof (cases q)
    case (Inl e)
    then show ?thesis using q q' 4(3) by auto
  next
    case (Inr f)
    then have "visit_groups n m stack rest f = Some r" using q 4(3) by simp
    from 4(2) [OF _ _ this 4(4)] q Inr have "visit_groups n' m stack rest f = Some r" by simp
    then show ?thesis using q' Inr by simp
  qed
qed auto

section \<open>Matching\<close>

lemma match_included_returns:
  "(\<And>tag cache. tag \<in> set tags \<Longrightarrow> match_group n lower m vacancy tag cache \<noteq> None)
    \<Longrightarrow> match_included n lower m vacancy tags cache \<noteq> None"
proof (induction tags arbitrary: cache)
  case (Cons tag rest)
  obtain e cache' where "match_group n lower m vacancy tag cache = Some (e, cache')"
    using Cons.prems [of tag cache] by auto
  then show ?case using Cons by (cases e) auto
qed simp

lemma match_returns:
  "topological m order \<Longrightarrow> tag \<in> set order \<or> map_of (egm_groups m) tag = None \<Longrightarrow> length order < n
    \<Longrightarrow> match_group n lower m vacancy tag cache \<noteq> None"
proof (induction m order arbitrary: tag cache n rule: topological.induct)
  case (1 m)
  then obtain k where "n = Suc k" by (cases n) auto
  with 1 show ?case by (auto split: option.split)
next
  case (2 m first rest)
  then obtain k where k: "n = Suc k" "length rest < k" by (cases n) auto
  show ?case
  proof (cases "map_of (egm_groups m) tag = None \<or> tag \<in> set rest")
    case True
    then show ?thesis using 2 by auto
  next
    case False
    then obtain g where g: "map_of (egm_groups m) tag = Some g" "tag = first" using 2(3) by auto
    then have "set (grp_include g) \<subseteq> set rest" using 2(2) by (simp add: group_includes_def)
    then have "match_included k lower m vacancy (grp_include g) cache \<noteq> None"
      using 2(1,2) k(2) by (intro match_included_returns) auto
    then show ?thesis using g(1) k(1) by (auto simp: Let_def split: option.split)
  qed
qed

lemma match_deeper:
  "match_group n lower m vacancy tag cache = Some r \<Longrightarrow> n \<le> n' \<Longrightarrow> match_group n' lower m vacancy tag cache = Some r"
  "match_included n lower m vacancy tags cache = Some r \<Longrightarrow> n \<le> n'
    \<Longrightarrow> match_included n' lower m vacancy tags cache = Some r"
proof (induction n lower m vacancy tag cache and n lower m vacancy tags cache arbitrary: r n' and r n'
    rule: match_group_match_included.induct)
  case (2 n lower m vacancy tag cache)
  from 2(3) obtain k where k: "n' = Suc k" "n \<le> k" by (cases n') auto
  show ?case
  proof (cases "\<exists>g. map_of cache tag = None \<and> map_of (egm_groups m) tag = Some g
      \<and> identity_evidence lower vacancy tag g = None")
    case False
    then show ?thesis using 2(2) k(1) by (auto split: option.splits)
  next
    case True
    then obtain g where g: "map_of cache tag = None" "map_of (egm_groups m) tag = Some g"
      "identity_evidence lower vacancy tag g = None" by blast
    then obtain q where q: "match_included n lower m vacancy (grp_include g) cache = Some q"
      using 2(2) by (cases "match_included n lower m vacancy (grp_include g) cache") auto
    from 2(1) [OF g q k(2)] show ?thesis using g q 2(2) k(1) by simp
  qed
next
  case (4 n lower m vacancy included rest cache)
  from 4(3) obtain e cache' where q: "match_group n lower m vacancy included cache = Some (e, cache')"
    by (cases "match_group n lower m vacancy included cache") auto
  from 4(1) [OF q 4(4)] have q': "match_group n' lower m vacancy included cache = Some (e, cache')" .
  show ?case
  proof (cases e)
    case None
    then have "match_included n lower m vacancy rest cache' = Some r" using q 4(3) by simp
    from 4(2) [OF _ _ _ this 4(4)] q None show ?thesis using q' by simp
  next
    case (Some child)
    then show ?thesis using q q' 4(3) by auto
  qed
qed auto

text \<open>Membership: an identity matches, or an included group matches.\<close>

inductive in_group :: "(string \<Rightarrow> string) \<Rightarrow> EmployerGroupMatcher \<Rightarrow> Vacancy \<Rightarrow> string \<Rightarrow> bool"
  for lower m vacancy where
  identity: "map_of (egm_groups m) tag = Some g
    \<Longrightarrow> \<exists>rule\<in>set (grp_rules g). rule_by_id vacancy rule \<or> rule_by_name lower vacancy rule \<Longrightarrow> in_group lower m vacancy tag"
| included: "included \<in> set (group_includes m tag) \<Longrightarrow> in_group lower m vacancy included \<Longrightarrow> in_group lower m vacancy tag"

text \<open>The evidence: the identity, else the first included group the vacancy belongs to.\<close>

definition evidence_of ::
  "(string \<Rightarrow> string) \<Rightarrow> EmployerGroupMatcher \<Rightarrow> Vacancy \<Rightarrow> string \<Rightarrow> EmployerGroupEvidence option" where
  "evidence_of lower m vacancy tag =
     (case map_of (egm_groups m) tag of None \<Rightarrow> None | Some g \<Rightarrow>
      case identity_evidence lower vacancy tag g of Some e \<Rightarrow> Some e | None \<Rightarrow>
      map_option (included_evidence vacancy tag) (find (in_group lower m vacancy) (grp_include g)))"

lemma identity_evidence_None:
  "identity_evidence lower vacancy tag g = None
    \<longleftrightarrow> \<not> (\<exists>rule\<in>set (grp_rules g). rule_by_id vacancy rule \<or> rule_by_name lower vacancy rule)"
  by (auto simp: identity_evidence_def)

lemma evidence_of_iff: "evidence_of lower m vacancy tag \<noteq> None \<longleftrightarrow> in_group lower m vacancy tag"
proof (cases "map_of (egm_groups m) tag")
  case None
  then show ?thesis by (auto simp: evidence_of_def group_includes_def elim: in_group.cases)
next
  case (Some g)
  have "find (in_group lower m vacancy) (grp_include g) \<noteq> None
      \<longleftrightarrow> (\<exists>i\<in>set (group_includes m tag). in_group lower m vacancy i)"
    using Some by (auto simp: find_None_iff group_includes_def)
  moreover have "in_group lower m vacancy tag \<longleftrightarrow>
      (\<exists>rule\<in>set (grp_rules g). rule_by_id vacancy rule \<or> rule_by_name lower vacancy rule)
      \<or> (\<exists>i\<in>set (group_includes m tag). in_group lower m vacancy i)"
    using Some by (subst in_group.simps) auto
  ultimately show ?thesis using Some identity_evidence_None [of lower vacancy tag g]
    by (auto simp: evidence_of_def split: option.split)
qed

lemma evidence_tag: "evidence_of lower m vacancy tag = Some e \<Longrightarrow> ege_GroupTag e = tag"
  by (auto simp: evidence_of_def identity_evidence_def included_evidence_def split: option.splits if_splits)

definition cache_ok :: "(string \<Rightarrow> string) \<Rightarrow> EmployerGroupMatcher \<Rightarrow> Vacancy \<Rightarrow> evidence_cache \<Rightarrow> bool" where
  "cache_ok lower m vacancy cache \<longleftrightarrow> (\<forall>tag e. map_of cache tag = Some e \<longrightarrow> e = evidence_of lower m vacancy tag)"

lemma cache_ok_update:
  "cache_ok lower m vacancy cache \<Longrightarrow> e = evidence_of lower m vacancy tag
    \<Longrightarrow> cache_ok lower m vacancy (AList.update tag e cache)"
  by (simp add: cache_ok_def)

lemma match_evidence:
  "match_group n lower m vacancy tag cache = Some (e, cache') \<Longrightarrow> cache_ok lower m vacancy cache
    \<Longrightarrow> e = evidence_of lower m vacancy tag \<and> cache_ok lower m vacancy cache'"
  "match_included n lower m vacancy tags cache = Some (e, cache') \<Longrightarrow> cache_ok lower m vacancy cache
    \<Longrightarrow> e = Option.bind (find (in_group lower m vacancy) tags) (evidence_of lower m vacancy) \<and> cache_ok lower m vacancy cache'"
proof (induction n lower m vacancy tag cache and n lower m vacancy tags cache arbitrary: e cache' and e cache'
    rule: match_group_match_included.induct)
  case (2 n lower m vacancy tag cache)
  show ?case
  proof (cases "\<exists>g. map_of cache tag = None \<and> map_of (egm_groups m) tag = Some g
      \<and> identity_evidence lower vacancy tag g = None")
    case False
    show ?thesis
    proof (cases "map_of cache tag")
      case (Some c)
      then have "c = evidence_of lower m vacancy tag" using 2(3) unfolding cache_ok_def by blast
      moreover have "e = c" "cache' = cache" using Some 2(2) by simp_all
      ultimately show ?thesis using 2(3) by simp
    next
      case None
      have "e = evidence_of lower m vacancy tag \<and> cache' = AList.update tag e cache"
      proof (cases "map_of (egm_groups m) tag")
        case no: None
        then show ?thesis using None 2(2) by (simp add: evidence_of_def)
      next
        case (Some g)
        with False None obtain ev where ev: "identity_evidence lower vacancy tag g = Some ev" by auto
        have "e = Some ev \<and> cache' = AList.update tag (Some ev) cache" using Some None ev 2(2) by auto
        then show ?thesis using Some ev by (simp add: evidence_of_def)
      qed
      then show ?thesis using cache_ok_update [OF 2(3)] by simp
    qed
  next
    case True
    then obtain g where g: "map_of cache tag = None" "map_of (egm_groups m) tag = Some g"
      "identity_evidence lower vacancy tag g = None" by blast
    then obtain child mid where q: "match_included n lower m vacancy (grp_include g) cache = Some (child, mid)"
      using 2(2) by (cases "match_included n lower m vacancy (grp_include g) cache") auto
    from 2(1) [OF g q 2(3)]
    have c: "child = Option.bind (find (in_group lower m vacancy) (grp_include g)) (evidence_of lower m vacancy)"
      and mid: "cache_ok lower m vacancy mid" by auto
    have e: "e = evidence_of lower m vacancy tag"
    proof (cases "find (in_group lower m vacancy) (grp_include g)")
      case None
      then show ?thesis using c g q 2(2) by (simp add: evidence_of_def)
    next
      case (Some i)
      then have "in_group lower m vacancy i" by (auto simp: find_Some_iff)
      then obtain ei where "evidence_of lower m vacancy i = Some ei" using evidence_of_iff by blast
      with Some show ?thesis using c g q 2(2) evidence_tag [of lower m vacancy i]
        by (auto simp: evidence_of_def Let_def)
    qed
    moreover have "cache' = AList.update tag e mid" using g q 2(2) by (auto simp: Let_def)
    ultimately show ?thesis using cache_ok_update [OF mid e] by simp
  qed
next
  case (4 n lower m vacancy included rest cache)
  from 4(3) obtain d mid where q: "match_group n lower m vacancy included cache = Some (d, mid)"
    by (cases "match_group n lower m vacancy included cache") auto
  from 4(1) [OF q 4(4)] have d: "d = evidence_of lower m vacancy included" "cache_ok lower m vacancy mid" by auto
  show ?case
  proof (cases d)
    case None
    then have r: "match_included n lower m vacancy rest mid = Some (e, cache')" using q 4(3) by simp
    have "\<not> in_group lower m vacancy included" using None d(1) evidence_of_iff by metis
    with 4(2) [OF _ _ _ r d(2)] q None show ?thesis by simp
  next
    case (Some child)
    then have "in_group lower m vacancy included" using d(1) evidence_of_iff by (metis option.distinct(1))
    then have "find (in_group lower m vacancy) (included # rest) = Some included" by simp
    moreover have "e = d" "cache' = mid" using Some q 4(3) by auto
    ultimately show ?thesis using d by simp
  qed
qed auto

definition match_of :: "(string \<Rightarrow> string) \<Rightarrow> EmployerGroupMatcher \<Rightarrow> Vacancy \<Rightarrow> string \<Rightarrow> EmployerGroupMatch" where
  "match_of lower m vacancy tag = \<lparr>egx_GroupTag = tag, egx_Evidence = the (evidence_of lower m vacancy tag)\<rparr>"

lemma match_all_evidence:
  "match_all n lower m vacancy tags cache = Some ms \<Longrightarrow> cache_ok lower m vacancy cache
    \<Longrightarrow> ms = map (match_of lower m vacancy) (filter (in_group lower m vacancy) tags)"
proof (induction n lower m vacancy tags cache arbitrary: ms rule: match_all.induct)
  case (2 n lower m vacancy tag rest cache)
  from 2(2) obtain e mid where q: "match_group n lower m vacancy tag cache = Some (e, mid)"
    by (cases "match_group n lower m vacancy tag cache") auto
  then obtain ms' where r: "match_all n lower m vacancy rest mid = Some ms'"
    using 2(2) by (cases "match_all n lower m vacancy rest mid") auto
  have e: "e = evidence_of lower m vacancy tag" "cache_ok lower m vacancy mid" using match_evidence(1) [OF q 2(3)] by auto
  from 2(1) [OF q refl r e(2)] show ?case
    using q r 2(2) e(1) evidence_of_iff [of lower m vacancy tag] by (cases e) (auto simp: match_of_def)
qed simp

lemma match_any_evidence:
  "match_any n lower m vacancy tags cache = Some x \<Longrightarrow> cache_ok lower m vacancy cache
    \<Longrightarrow> x = map_option (match_of lower m vacancy) (find (in_group lower m vacancy) (map TrimSpace tags))"
proof (induction n lower m vacancy tags cache arbitrary: x rule: match_any.induct)
  case (2 n lower m vacancy tag rest cache)
  from 2(2) obtain e mid where q: "match_group n lower m vacancy (TrimSpace tag) cache = Some (e, mid)"
    by (cases "match_group n lower m vacancy (TrimSpace tag) cache") (auto simp: Let_def)
  have e: "e = evidence_of lower m vacancy (TrimSpace tag)" "cache_ok lower m vacancy mid"
    using match_evidence(1) [OF q 2(3)] by auto
  show ?case
  proof (cases e)
    case None
    then have r: "match_any n lower m vacancy rest mid = Some x" using q 2(2) by (simp add: Let_def)
    have "\<not> in_group lower m vacancy (TrimSpace tag)" using None e(1) evidence_of_iff by metis
    with 2(1) [OF refl _ _ _ r e(2)] q None show ?thesis by simp
  next
    case (Some c)
    then have "in_group lower m vacancy (TrimSpace tag)" using e(1) evidence_of_iff by (metis option.distinct(1))
    moreover have "x = Some \<lparr>egx_GroupTag = TrimSpace tag, egx_Evidence = c\<rparr>" using Some q 2(2) by (simp add: Let_def)
    moreover have "the (evidence_of lower m vacancy (TrimSpace tag)) = c" using Some e(1) by (metis option.sel)
    ultimately show ?thesis by (simp add: match_of_def)
  qed
qed simp

lemma match_all_returns:
  assumes "\<And>tag cache. tag \<in> set tags \<Longrightarrow> match_group n lower m vacancy tag cache \<noteq> None"
  shows "match_all n lower m vacancy tags cache \<noteq> None"
  using assms
proof (induction tags arbitrary: cache)
  case (Cons tag rest)
  obtain e mid where "match_group n lower m vacancy tag cache = Some (e, mid)" using Cons.prems [of tag cache] by auto
  moreover obtain ms where "match_all n lower m vacancy rest mid = Some ms"
    using Cons.IH [of mid] Cons.prems by auto
  ultimately show ?case by simp
qed simp

lemma match_any_returns:
  assumes "\<And>tag cache. match_group n lower m vacancy tag cache \<noteq> None"
  shows "match_any n lower m vacancy tags cache \<noteq> None"
proof (induction tags arbitrary: cache)
  case (Cons tag rest)
  obtain e mid where "match_group n lower m vacancy (TrimSpace tag) cache = Some (e, mid)"
    using assms [of "TrimSpace tag" cache] by auto
  then show ?case using Cons by (cases e) (simp_all add: Let_def)
qed simp

section \<open>Accepted configurations\<close>

definition compiled :: "(string \<Rightarrow> string) \<Rightarrow> EmployerGroupConfig list \<Rightarrow> EmployerGroupMatcher \<Rightarrow> bool" where
  "compiled lower configs m \<longleftrightarrow> compile_groups lower configs \<lparr>egm_order = [], egm_groups = []\<rparr> = Inr m
     \<and> unknown_include m (egm_order m) = None"

lemma New_cases:
  "NewEmployerGroupMatcher n lower configs = Some (Inr m)
    \<longleftrightarrow> compiled lower configs m \<and> (\<exists>finished. visit_groups n m [] (egm_order m) [] = Some (Inr finished))"
  by (auto simp: NewEmployerGroupMatcher_def validateAcyclic_def compiled_def split: option.splits sum.splits)

lemma topological_short: "topological m order \<Longrightarrow> set order \<subseteq> known m \<Longrightarrow> length order \<le> card (known m)"
proof -
  assume t: "topological m order" and k: "set order \<subseteq> known m"
  from t have "distinct order" by (induction m order rule: topological.induct) auto
  then show ?thesis using card_mono [OF finite_known k] distinct_card by metis
qed

lemma visit_known:
  "visit_group n m stack tag finished = Some (Inr finished') \<Longrightarrow> closed m \<Longrightarrow> tag \<in> known m \<Longrightarrow> set finished \<subseteq> known m
    \<Longrightarrow> set finished' \<subseteq> known m"
  "visit_groups n m stack tags finished = Some (Inr finished') \<Longrightarrow> closed m \<Longrightarrow> set tags \<subseteq> known m
    \<Longrightarrow> set finished \<subseteq> known m \<Longrightarrow> set finished' \<subseteq> known m"
proof (induction n m stack tag finished and n m stack tags finished arbitrary: finished' and finished'
    rule: visit_group_visit_groups.induct)
  case (2 n m stack tag finished)
  show ?case
  proof (cases "tag \<in> set finished \<or> tag \<in> set stack")
    case True
    then show ?thesis using 2 by (auto split: if_splits)
  next
    case False
    then obtain mid where mid: "visit_groups n m (stack @ [tag]) (group_includes m tag) finished = Some (Inr mid)"
      "finished' = tag # mid"
      using 2(2) by (auto split: option.splits sum.splits)
    have "set (group_includes m tag) \<subseteq> known m" using 2(3,4) unfolding closed_def by blast
    with 2(1) [OF _ _ mid(1) 2(3) _ 2(5)] False have "set mid \<subseteq> known m" by simp
    then show ?thesis using mid(2) 2(4) by simp
  qed
next
  case (4 n m stack tag rest finished)
  from 4(3) obtain mid where mid: "visit_group n m stack tag finished = Some (Inr mid)"
    "visit_groups n m stack rest mid = Some (Inr finished')"
    by (auto split: option.splits sum.splits)
  from 4(1) [OF mid(1) 4(4)] 4(5,6) have "set mid \<subseteq> known m" by simp
  from 4(2) [OF mid(1) refl mid(2) 4(4) _ this] 4(5) show ?case by simp
qed auto

text \<open>An accepted matcher has an order of its groups in which every group comes before its includes.\<close>

lemma accepted_order:
  assumes "NewEmployerGroupMatcher n lower configs = Some (Inr m)"
  shows "\<exists>order. topological m order \<and> set order = known m \<and> length order \<le> length configs"
proof -
  from assms obtain finished where c: "compiled lower configs m"
    and v: "visit_groups n m [] (egm_order m) [] = Some (Inr finished)" by (auto simp: New_cases)
  have cl: "closed m" "card (known m) \<le> length configs" using compiled_closed c by (auto simp: compiled_def)
  have o: "set (egm_order m) = known m" using cl(1) by (simp add: closed_def)
  from visit_topological(2) [OF v] have t: "topological m finished" "set (egm_order m) \<subseteq> set finished" by auto
  from visit_known(2) [OF v cl(1)] o have "set finished \<subseteq> known m" by simp
  with t o topological_short [OF t(1)] cl(2) show ?thesis by (intro exI [of _ finished]) auto
qed

lemma accepted_match:
  assumes "NewEmployerGroupMatcher n lower configs = Some (Inr m)" "length configs < k"
  shows "Match k lower m vacancy = Some (map (match_of lower m vacancy) (filter (in_group lower m vacancy) (egm_order m)))"
    "MatchAny k lower m vacancy tags
      = Some (map_option (match_of lower m vacancy) (find (in_group lower m vacancy) (map TrimSpace tags)))"
proof -
  from accepted_order [OF assms(1)] obtain order where o: "topological m order" "set order = known m"
    "length order < k" using assms(2) by auto
  have r: "match_group k lower m vacancy tag cache \<noteq> None" for tag cache
    using match_returns [OF o(1) _ o(3), of tag] o(2) unfolding known_def by blast
  have c: "cache_ok lower m vacancy []" by (simp add: cache_ok_def)
  obtain ms where "match_all k lower m vacancy (egm_order m) [] = Some ms" using match_all_returns r by blast
  with match_all_evidence [OF this c] show "Match k lower m vacancy
      = Some (map (match_of lower m vacancy) (filter (in_group lower m vacancy) (egm_order m)))"
    by (simp add: Match_def)
  obtain x where "match_any k lower m vacancy tags [] = Some x" using match_any_returns r by blast
  with match_any_evidence [OF this c] show "MatchAny k lower m vacancy tags
      = Some (map_option (match_of lower m vacancy) (find (in_group lower m vacancy) (map TrimSpace tags)))"
    by (simp add: MatchAny_def)
qed

lemma New_returns:
  assumes "length configs < n" "length configs < k"
  shows "NewEmployerGroupMatcher n lower configs \<noteq> None"
    "NewEmployerGroupMatcher n lower configs = NewEmployerGroupMatcher k lower configs"
proof -
  have v: "\<exists>r. visit_groups (Suc (length configs)) m [] (egm_order m) [] = Some r" if c: "compiled lower configs m" for m
  proof -
    have cl: "closed m" "card (known m) \<le> length configs" using compiled_closed c by (auto simp: compiled_def)
    then show ?thesis using visit_returns(2) [OF cl(1), of "egm_order m" "[]" "Suc (length configs)" "[]"]
      by (auto simp: closed_def)
  qed
  have eq: "\<exists>r. visit_groups n m [] (egm_order m) [] = Some r \<and> visit_groups k m [] (egm_order m) [] = Some r"
    if c: "compiled lower configs m" for m
  proof -
    from v [OF c] obtain r where r: "visit_groups (Suc (length configs)) m [] (egm_order m) [] = Some r" by blast
    from visit_deeper(2) [OF r, of n] visit_deeper(2) [OF r, of k] assms show ?thesis by simp
  qed
  have both: "\<exists>r. NewEmployerGroupMatcher n lower configs = Some r \<and> NewEmployerGroupMatcher k lower configs = Some r"
  proof (cases "\<exists>m. compiled lower configs m")
    case True
    then obtain m where c: "compiled lower configs m" by blast
    from eq [OF c] obtain r where "visit_groups n m [] (egm_order m) [] = Some r"
      "visit_groups k m [] (egm_order m) [] = Some r" by blast
    with c show ?thesis by (cases r) (auto simp: NewEmployerGroupMatcher_def validateAcyclic_def compiled_def)
  next
    case False
    then show ?thesis by (auto simp: NewEmployerGroupMatcher_def compiled_def split: option.split sum.split)
  qed
  then show "NewEmployerGroupMatcher n lower configs \<noteq> None"
    "NewEmployerGroupMatcher n lower configs = NewEmployerGroupMatcher k lower configs" by auto
qed

lemma accepted_acyclic:
  assumes "compiled lower configs m" "length configs < n"
  shows "NewEmployerGroupMatcher n lower configs = Some (Inr m) \<longleftrightarrow> acyclic (includes_rel m)"
proof
  assume a: "NewEmployerGroupMatcher n lower configs = Some (Inr m)"
  from accepted_order [OF a] obtain order where o: "topological m order" "set order = known m" by blast
  show "acyclic (includes_rel m)"
    unfolding acyclic_def
  proof (intro allI notI)
    fix t assume t: "(t, t) \<in> (includes_rel m)\<^sup>+"
    then obtain u where "u \<in> set (group_includes m t)" by (auto simp: includes_rel_def dest: tranclD)
    then have "t \<in> known m" by (cases "map_of (egm_groups m) t") (auto simp: group_includes_def known_def)
    with topological_rank [OF o(1) _ t] o(2) show False by simp
  qed
next
  assume a: "acyclic (includes_rel m)"
  from New_returns(1) [OF assms(2,2)] obtain r where r: "NewEmployerGroupMatcher n lower configs = Some r" by blast
  show "NewEmployerGroupMatcher n lower configs = Some (Inr m)"
  proof (cases "visit_groups n m [] (egm_order m) []")
    case None
    then show ?thesis using assms(1) r by (auto simp: NewEmployerGroupMatcher_def validateAcyclic_def compiled_def)
  next
    case (Some q)
    moreover have "q \<noteq> Inl e" for e using visit_error(2) [of n m "[]" "egm_order m" "[]" e] Some a by auto
    ultimately show ?thesis using assms(1) by (cases q) (auto simp: New_cases)
  qed
qed

section \<open>Properties\<close>

text \<open>
  C27. Building a matcher and matching with it return: for every configuration of the groups, cyclic or not,
  no call nests deeper than the number of groups, so that with any larger stack the answer is there and is the same.
\<close>

theorem employer_groups_return:
  "\<exists>r. \<forall>n > length configs. NewEmployerGroupMatcher n lower configs = Some r
     \<and> (\<forall>m vacancy tags. r = Inr m \<longrightarrow> (\<exists>ms x. \<forall>k > length configs.
          Match k lower m vacancy = Some ms \<and> MatchAny k lower m vacancy tags = Some x))"
proof -
  from New_returns(1) [of configs "Suc (length configs)" "Suc (length configs)" lower]
  obtain r where r: "NewEmployerGroupMatcher (Suc (length configs)) lower configs = Some r" by auto
  then have all: "NewEmployerGroupMatcher n lower configs = Some r" if "length configs < n" for n
    using New_returns(2) [of configs n "Suc (length configs)" lower] that by simp
  moreover have "\<exists>ms x. \<forall>k > length configs. Match k lower m vacancy = Some ms \<and> MatchAny k lower m vacancy tags = Some x"
    if "r = Inr m" for m vacancy tags
    using accepted_match [OF r [unfolded that]] by blast
  ultimately show ?thesis by blast
qed

text \<open>
  C28. A configuration whose identities and includes are well formed is accepted exactly when no group
  includes itself through others; and then the groups a vacancy matches are those with a matching identity or with
  an included group that matches, in the configured order, each with the evidence that is found first.
\<close>

theorem employer_groups_reachability:
  assumes "compiled lower configs m" "length configs < n"
  shows "(NewEmployerGroupMatcher n lower configs = Some (Inr m) \<longleftrightarrow> acyclic (includes_rel m))
    \<and> (acyclic (includes_rel m) \<longrightarrow> Match n lower m vacancy
        = Some (map (match_of lower m vacancy) (filter (in_group lower m vacancy) (egm_order m))))"
  using accepted_acyclic [OF assms] accepted_match(1) [OF _ assms(2)] by blast

section \<open>Witnesses\<close>

definition sample_groups :: "EmployerGroupConfig list" where
  "sample_groups =
     [\<lparr>egc_Tag = ''all'', egc_Rules = [], egc_Include = [''acme'']\<rparr>,
      \<lparr>egc_Tag = ''acme'', egc_Rules = [\<lparr>egr_Platform = ''hh'', egr_EmployerID = ''7'', egr_Name = []\<rparr>],
       egc_Include = []\<rparr>]"

definition sample_matcher :: EmployerGroupMatcher where
  "sample_matcher =
     \<lparr>egm_order = [''all'', ''acme''],
      egm_groups = [(''all'', \<lparr>grp_tag = ''all'', grp_rules = [], grp_include = [''acme'']\<rparr>),
        (''acme'', \<lparr>grp_tag = ''acme'',
           grp_rules = [\<lparr>egr_Platform = ''hh'', egr_EmployerID = ''7'', egr_Name = []\<rparr>], grp_include = []\<rparr>)]\<rparr>"

lemma sample_compiled: "compiled id sample_groups sample_matcher"
  unfolding compiled_def by code_simp

lemma sample_accepted: "NewEmployerGroupMatcher 3 id sample_groups = Some (Inr sample_matcher)"
  by code_simp

definition employer_vacancy :: Vacancy where
  "employer_vacancy = \<lparr>vac_Platform = ''hh'', vac_ExternalID = ''42'', vac_URL = [], vac_Title = ''Engineer'',
     vac_Employer = ''Acme'', vac_State = VacancyStateOpen, vac_PublishedAt = None, vac_ObservedAt = 90,
     vac_Attributes = [(''employer_id'', AttrText ''7'')]\<rparr>"

definition sample_matches :: "EmployerGroupMatch list" where
  "sample_matches =
     [\<lparr>egx_GroupTag = ''all'', egx_Evidence = included_evidence employer_vacancy ''all'' ''acme''\<rparr>,
      \<lparr>egx_GroupTag = ''acme'', egx_Evidence = \<lparr>ege_GroupTag = ''acme'', ege_Kind = ''employer_id'',
         ege_Platform = ''hh'', ege_Value = ''7'', ege_Via = []\<rparr>\<rparr>]"

lemma sample_match: "Match 3 id sample_matcher employer_vacancy = Some sample_matches"
  by code_simp

theorem employer_groups_return_witness:
  "\<exists>x. \<forall>k > 2. Match k id sample_matcher employer_vacancy = Some sample_matches
     \<and> MatchAny k id sample_matcher employer_vacancy [''all''] = Some x"
proof -
  have len: "length sample_groups = 2" by (simp add: sample_groups_def)
  from employer_groups_return [of sample_groups id] obtain r
    where r: "\<forall>n > 2. NewEmployerGroupMatcher n id sample_groups = Some r
      \<and> (\<forall>m vacancy tags. r = Inr m \<longrightarrow> (\<exists>ms x. \<forall>k > 2. Match k id m vacancy = Some ms \<and> MatchAny k id m vacancy tags = Some x))"
    unfolding len by blast
  from r have "NewEmployerGroupMatcher 3 id sample_groups = Some r" by simp
  then have "r = Inr sample_matcher" using sample_accepted by simp
  with r [rule_format, of 3] obtain ms x where m: "\<forall>k > 2. Match k id sample_matcher employer_vacancy = Some ms
      \<and> MatchAny k id sample_matcher employer_vacancy [''all''] = Some x" by fastforce
  from m [rule_format, of 3] have "ms = sample_matches" using sample_match by simp
  with m show ?thesis by blast
qed

theorem employer_groups_reachability_witness:
  "acyclic (includes_rel sample_matcher) \<and> Match 3 id sample_matcher employer_vacancy = Some sample_matches
    \<and> sample_matches = map (match_of id sample_matcher employer_vacancy)
        (filter (in_group id sample_matcher employer_vacancy) [''all'', ''acme''])"
proof -
  have "length sample_groups < 3" by (simp add: sample_groups_def)
  from employer_groups_reachability [OF sample_compiled this, of employer_vacancy] sample_accepted sample_match show ?thesis
    by (simp add: sample_matcher_def)
qed

end
