(* ===== verification/GoTime.thy ===== *)
theory GoTime
  imports Prelude
begin

text \<open>
  What the code uses of the formatting of \<open>time\<close>: \<open>t.UTC().Format(time.RFC3339Nano)\<close>. An
  instant is a number of nanoseconds since the beginning of year 1, so the civil date is counted in
  cycles of 400, 100, 4 and 1 years.
\<close>

definition civil_year :: "int \<Rightarrow> int \<times> int" where
  "civil_year days =
     (let n400 = days div 146097; d400 = days mod 146097;
          n100 = min 3 (d400 div 36524); d100 = d400 - 36524 * n100;
          n4 = d100 div 1461; d4 = d100 mod 1461;
          n1 = min 3 (d4 div 365)
      in (400 * n400 + 100 * n100 + 4 * n4 + n1 + 1, d4 - 365 * n1))"

definition leap_year :: "int \<Rightarrow> bool" where
  "leap_year year \<longleftrightarrow> year mod 4 = 0 \<and> (year mod 100 \<noteq> 0 \<or> year mod 400 = 0)"

definition month_lengths :: "bool \<Rightarrow> int list" where
  "month_lengths leap = [31, if leap then 29 else 28, 31, 30, 31, 30, 31, 31, 30, 31, 30, 31]"

fun month_day :: "int list \<Rightarrow> int \<Rightarrow> int \<Rightarrow> int \<times> int" where
  "month_day [] month yday = (month, yday + 1)"
| "month_day (len # rest) month yday = (if yday < len then (month, yday + 1) else month_day rest (month + 1) (yday - len))"

definition zero_padded :: "nat \<Rightarrow> int \<Rightarrow> string" where
  "zero_padded width n = (let digits = FormatInt n in replicate (width - length digits) (CHR ''0'') @ digits)"

definition trim_zeros :: "string \<Rightarrow> string" where
  "trim_zeros digits = rev (dropWhile (\<lambda>c. c = CHR ''0'') (rev digits))"

definition FormatRFC3339Nano :: "time \<Rightarrow> string" where
  "FormatRFC3339Nano t =
     (let seconds = t div Second; nanos = t mod Second;
          days = seconds div 86400; clock = seconds mod 86400;
          (year, yday) = civil_year days;
          (month, day) = month_day (month_lengths (leap_year year)) 1 yday;
          fraction = trim_zeros (zero_padded 9 nanos)
      in zero_padded 4 year @ ''-'' @ zero_padded 2 month @ ''-'' @ zero_padded 2 day @ ''T''
         @ zero_padded 2 (clock div 3600) @ '':'' @ zero_padded 2 (clock div 60 mod 60) @ '':''
         @ zero_padded 2 (clock mod 60) @ (if fraction = [] then [] else ''.'' @ fraction) @ ''Z'')"

end
