(* ===== verification/Tailoring.thy ===== *)
theory Tailoring
  imports ProfilePlan Application GoJsonValue GoTime
begin

text \<open>
  \<open>core/application_tailoring.go\<close>: the saga that owns one temporary change of a profile for one
  submission. It keeps the state found before (the baseline) and the state that is to be submitted
  with (the tailored state), the proposals that lead to each, and what was confirmed.
\<close>

type_synonym ApplicationTailoringID = string

section \<open>The saga\<close>

datatype ApplicationTailoringStatus =
    TailoringPlanned | TailoringApplying | TailoringApplied | TailoringSubmitting | TailoringRestoring
  | TailoringRestored | TailoringRecoveryRequired | TailoringStatusOther string

fun tailoring_status_text :: "ApplicationTailoringStatus \<Rightarrow> string" where
  "tailoring_status_text TailoringPlanned = ''planned''"
| "tailoring_status_text TailoringApplying = ''applying''"
| "tailoring_status_text TailoringApplied = ''applied''"
| "tailoring_status_text TailoringSubmitting = ''submitting''"
| "tailoring_status_text TailoringRestoring = ''restoring''"
| "tailoring_status_text TailoringRestored = ''restored''"
| "tailoring_status_text TailoringRecoveryRequired = ''recovery_required''"
| "tailoring_status_text (TailoringStatusOther s) = s"

record ApplicationTailoring =
  at_ID :: ApplicationTailoringID
  at_ApplicationID :: ApplicationID
  at_Attempt :: int
  at_Key :: ApplicationKey
  at_ResumeID :: string
  at_Status :: ApplicationTailoringStatus
  at_IdempotencyKey :: string
  at_ProcessorTag :: string
  at_ProcessorVersion :: string
  at_ProcessorInputDigest :: string
  at_AllowedPaths :: "string list"
  at_BaselineDigest :: string
  at_TailoredDigest :: string
  at_BaselineRemoteRevision :: string
  at_BaselineObservedAt :: time
  at_TailoredRemoteRevision :: string
  at_BaselineState :: RawMessage
  at_TailoredState :: RawMessage
  at_ApplyProposalID :: ProfileStateProposalID
  at_RestoreProposalID :: ProfileStateProposalID
  at_RecoveryReason :: string
  at_Revision :: "64 word"
  at_CreatedAt :: time
  at_UpdatedAt :: time

abbreviation at_ProfileID :: "ApplicationTailoring \<Rightarrow> ProfileID" where
  "at_ProfileID t \<equiv> ak_ProfileID (at_Key t)"

definition applicationTailoringKey :: "ApplicationTailoring \<Rightarrow> string" where
  "applicationTailoringKey t = ''application.tailoring:'' @ hex_EncodeToString (sha256_Sum256
     (concat (map (\<lambda>value. value @ [CHR 0x00])
       [at_ApplicationID t, FormatInt (at_Attempt t), at_ProfileID t, VacancyKey_String (ak_Vacancy (at_Key t)),
        at_ResumeID t, at_ProcessorTag t, at_ProcessorVersion t, at_ProcessorInputDigest t,
        at_BaselineDigest t, at_TailoredDigest t, FormatRFC3339Nano (at_BaselineObservedAt t),
        join_with [CHR 0x00] (at_AllowedPaths t)])))"

section \<open>Allowed paths\<close>

text \<open>The paths are walked in order; the number of paths whose values differ is counted.\<close>

fun walk_paths :: "json \<Rightarrow> json \<Rightarrow> string \<Rightarrow> string list \<Rightarrow> nat \<Rightarrow> string list \<Rightarrow> error + nat" where
  "walk_paths baseline tailored previous seen changed [] = Inr changed"
| "walk_paths baseline tailored previous seen changed (path # rest) =
     (if \<not> HasPrefix path ''/'' \<or> path \<le> previous
      then Inl (Err ''application tailoring allowed paths must be sorted unique JSON Pointers'')
      else if path \<in> set seen then Inl (Err ''application tailoring allowed paths must be unique'')
      else case (jsonPointerValue baseline path, jsonPointerValue tailored path) of
        (Some before, Some after) \<Rightarrow>
          walk_paths baseline tailored path (path # seen)
            (if jsonValuesEqual before after then changed else changed + 1) rest
      | _ \<Rightarrow> Inl (Err (''application tailoring path '' @ quoted path @ '' must exist in baseline and target'')))"

definition decoded_or_null :: "RawMessage \<Rightarrow> json" where
  "decoded_or_null raw = (case decodeJSONValue raw of Inl _ \<Rightarrow> JNull | Inr v \<Rightarrow> v)"

definition validateApplicationTailoringPaths :: "RawMessage \<Rightarrow> RawMessage \<Rightarrow> string list \<Rightarrow> error option" where
  "validateApplicationTailoringPaths baselineRaw tailoredRaw paths =
     (if paths = [] then Some (Err ''application tailoring requires allowed paths'')
      else let baseline = decoded_or_null baselineRaw; tailored = decoded_or_null tailoredRaw in
      case walk_paths baseline tailored [] [] 0 paths of Inl e \<Rightarrow> Some e | Inr changed \<Rightarrow>
      if paths \<noteq> sort (collectDeclaredPaths [] baseline) \<or> paths \<noteq> sort (collectDeclaredPaths [] tailored)
      then Some (Err ''application tailoring snapshots must contain exactly the allowed paths'')
      else if changed = 0 then Some (Err ''application tailoring snapshots contain no changed path'')
      else None)"

section \<open>Validation\<close>

text \<open>What each status requires of the proposals and of the reason.\<close>

definition tailoring_status_valid :: "ApplicationTailoring \<Rightarrow> error option" where
  "tailoring_status_valid t =
     (case at_Status t of
        TailoringPlanned \<Rightarrow>
          if at_ApplyProposalID t \<noteq> [] \<or> at_RestoreProposalID t \<noteq> [] \<or> at_TailoredRemoteRevision t \<noteq> []
          then Some (Err ''planned application tailoring cannot contain execution results'') else None
      | TailoringApplying \<Rightarrow>
          if at_ApplyProposalID t = [] \<or> at_RestoreProposalID t \<noteq> [] \<or> at_TailoredRemoteRevision t \<noteq> []
          then Some (Err ''applying application tailoring requires only apply proposal'') else None
      | TailoringRestoring \<Rightarrow>
          if at_ApplyProposalID t = [] \<or> at_RestoreProposalID t = []
          then Some (Err ''restoring application tailoring requires apply and restore proposals'') else None
      | TailoringRestored \<Rightarrow>
          if at_ApplyProposalID t = [] \<or> at_RestoreProposalID t = [] \<or> at_RecoveryReason t \<noteq> []
          then Some (Err ''restored application tailoring requires proposals and no recovery reason'') else None
      | TailoringRecoveryRequired \<Rightarrow>
          if TrimSpace (at_RecoveryReason t) = []
          then Some (Err ''application tailoring recovery requires a reason'') else None
      | TailoringStatusOther s \<Rightarrow> Some (Err (''unknown application tailoring status '' @ quoted s))
      | _ \<Rightarrow>
          if at_ApplyProposalID t = [] \<or> at_RestoreProposalID t \<noteq> []
          then Some (Err ''applied application tailoring requires apply proposal and no restore proposal'') else None)"

definition Tailoring_Validate :: "ApplicationTailoring \<Rightarrow> error option" where
  "Tailoring_Validate t =
     (if at_ID t = [] \<or> at_ApplicationID t = [] \<or> at_Attempt t < 1 \<or> TrimSpace (at_ResumeID t) = []
      then Some (Err ''application tailoring requires id, application attempt and resume'')
      else case ApplicationKey_Validate (at_Key t) of Some e \<Rightarrow> Some e | None \<Rightarrow>
      if TrimSpace (at_ProcessorTag t) = [] \<or> TrimSpace (at_ProcessorVersion t) = []
         \<or> \<not> validApplicationDigest (at_ProcessorInputDigest t)
      then Some (Err ''application tailoring requires processor provenance'')
      else if \<not> canonical_desired (at_BaselineState t)
      then Some (Err ''application tailoring requires canonical baseline state'')
      else if \<not> canonical_desired (at_TailoredState t)
      then Some (Err ''application tailoring requires canonical tailored state'')
      else if at_BaselineDigest t \<noteq> profileStateDigest (at_BaselineState t)
              \<or> at_TailoredDigest t \<noteq> profileStateDigest (at_TailoredState t)
              \<or> at_BaselineDigest t = at_TailoredDigest t
      then Some (Err ''application tailoring state digests do not match snapshots'')
      else if IsZero (at_BaselineObservedAt t) \<or> at_BaselineObservedAt t > at_CreatedAt t
      then Some (Err ''application tailoring requires a baseline observation no later than creation'')
      else case validateApplicationTailoringPaths (at_BaselineState t) (at_TailoredState t) (at_AllowedPaths t) of
        Some e \<Rightarrow> Some e | None \<Rightarrow>
      case tailoring_status_valid t of Some e \<Rightarrow> Some e | None \<Rightarrow>
      if at_Status t \<noteq> TailoringRecoveryRequired \<and> at_RecoveryReason t \<noteq> []
      then Some (Err ''only recovery-required application tailoring may contain a recovery reason'')
      else if at_Revision t = 0 \<or> IsZero (at_CreatedAt t) \<or> IsZero (at_UpdatedAt t) \<or> at_UpdatedAt t < at_CreatedAt t
      then Some (Err ''application tailoring requires revision and valid timestamps'')
      else if at_IdempotencyKey t = [] \<or> at_IdempotencyKey t \<noteq> applicationTailoringKey t
      then Some (Err ''application tailoring idempotency key does not match immutable inputs'')
      else None)"

section \<open>Creation\<close>

record NewApplicationTailoringParams =
  nat_ID :: ApplicationTailoringID
  nat_ApplicationID :: ApplicationID
  nat_Attempt :: int
  nat_Key :: ApplicationKey
  nat_ResumeID :: string
  nat_ProcessorTag :: string
  nat_ProcessorVersion :: string
  nat_ProcessorInputDigest :: string
  nat_AllowedPaths :: "string list"
  nat_Baseline :: ProfileStateObservation
  nat_TailoredState :: RawMessage

definition NewApplicationTailoring :: "NewApplicationTailoringParams \<Rightarrow> time \<Rightarrow> error + ApplicationTailoring" where
  "NewApplicationTailoring params now =
     (case canonicalProfileState (pso_State (nat_Baseline params)) of
        Inl e \<Rightarrow> Inl (ErrWrap ''application tailoring baseline'' e)
      | Inr (baselineState, baselinePaths) \<Rightarrow>
      case canonicalProfileState (nat_TailoredState params) of
        Inl e \<Rightarrow> Inl (ErrWrap ''application tailoring target'' e)
      | Inr (tailoredState, tailoredPaths) \<Rightarrow>
      if baselinePaths = 0 \<or> tailoredPaths = 0
      then Inl (Err ''application tailoring requires non-empty baseline and target states'')
      else let t = \<lparr>at_ID = nat_ID params, at_ApplicationID = nat_ApplicationID params,
              at_Attempt = nat_Attempt params, at_Key = nat_Key params,
              at_ResumeID = TrimSpace (nat_ResumeID params), at_Status = TailoringPlanned, at_IdempotencyKey = [],
              at_ProcessorTag = TrimSpace (nat_ProcessorTag params),
              at_ProcessorVersion = TrimSpace (nat_ProcessorVersion params),
              at_ProcessorInputDigest = nat_ProcessorInputDigest params,
              at_AllowedPaths = sort (nat_AllowedPaths params),
              at_BaselineDigest = pso_StateDigest (nat_Baseline params),
              at_TailoredDigest = profileStateDigest tailoredState,
              at_BaselineRemoteRevision = pso_RemoteRevision (nat_Baseline params),
              at_BaselineObservedAt = pso_ObservedAt (nat_Baseline params), at_TailoredRemoteRevision = [],
              at_BaselineState = baselineState, at_TailoredState = tailoredState,
              at_ApplyProposalID = [], at_RestoreProposalID = [], at_RecoveryReason = [],
              at_Revision = 1, at_CreatedAt = now, at_UpdatedAt = now\<rparr>;
            t = t\<lparr>at_IdempotencyKey := applicationTailoringKey t\<rparr>
      in case Tailoring_Validate t of Some e \<Rightarrow> Inl e | None \<Rightarrow>
      if pso_ProfileID (nat_Baseline params) \<noteq> ak_ProfileID (nat_Key params)
      then Inl (Err ''application tailoring baseline belongs to another profile'')
      else if at_BaselineDigest t = at_TailoredDigest t
      then Inl (Err ''application tailoring requires at least one effective change'')
      else Inr t)"

section \<open>Transitions\<close>

definition tailoring_advance :: "time \<Rightarrow> ApplicationTailoring \<Rightarrow> error option \<times> ApplicationTailoring" where
  "tailoring_advance now t =
     (if IsZero now \<or> now < at_UpdatedAt t
      then (Some (Err ''application tailoring update time must not move backwards''), t)
      else (None, t\<lparr>at_Revision := at_Revision t + 1, at_UpdatedAt := now\<rparr>))"

text \<open>What every transition does once its guard holds: advance, change, validate.\<close>

definition tailoring_step ::
  "time \<Rightarrow> (ApplicationTailoring \<Rightarrow> ApplicationTailoring) \<Rightarrow> ApplicationTailoring
    \<Rightarrow> error option \<times> ApplicationTailoring" where
  "tailoring_step now change t =
     (case tailoring_advance now t of (Some e, t') \<Rightarrow> (Some e, t')
      | (None, t') \<Rightarrow> (Tailoring_Validate (change t'), change t'))"

definition BeginApply ::
  "ProfileStateProposalID \<Rightarrow> time \<Rightarrow> ApplicationTailoring \<Rightarrow> error option \<times> ApplicationTailoring" where
  "BeginApply proposalID now t =
     (if at_Status t \<noteq> TailoringPlanned \<or> proposalID = []
      then (Some (Err ''only planned application tailoring can begin apply''), t)
      else tailoring_step now (\<lambda>t. t\<lparr>at_ApplyProposalID := proposalID, at_Status := TailoringApplying\<rparr>) t)"

definition RecordApplied ::
  "ProfileStateObservation \<Rightarrow> time \<Rightarrow> ApplicationTailoring \<Rightarrow> error option \<times> ApplicationTailoring" where
  "RecordApplied observation now t =
     (if at_Status t \<noteq> TailoringApplying
      then (Some (Err ''only applying application tailoring can record apply''), t)
      else if pso_ProfileID observation \<noteq> at_ProfileID t \<or> pso_StateDigest observation \<noteq> at_TailoredDigest t
      then (Some (Err ''application tailoring apply read-back does not match tailored state''), t)
      else tailoring_step now (\<lambda>t. t\<lparr>at_TailoredRemoteRevision := pso_RemoteRevision observation,
             at_Status := TailoringApplied\<rparr>) t)"

definition BeginSubmit :: "time \<Rightarrow> ApplicationTailoring \<Rightarrow> error option \<times> ApplicationTailoring" where
  "BeginSubmit now t =
     (if at_Status t \<noteq> TailoringApplied
      then (Some (Err ''only applied application tailoring can begin submit''), t)
      else tailoring_step now (\<lambda>t. t\<lparr>at_Status := TailoringSubmitting\<rparr>) t)"

definition BeginRestore ::
  "ProfileStateProposalID \<Rightarrow> time \<Rightarrow> ApplicationTailoring \<Rightarrow> error option \<times> ApplicationTailoring" where
  "BeginRestore proposalID now t =
     (if at_Status t \<noteq> TailoringApplied \<and> at_Status t \<noteq> TailoringSubmitting \<or> proposalID = []
      then (Some (Err ''only applied or submitting application tailoring can begin restore''), t)
      else tailoring_step now (\<lambda>t. t\<lparr>at_RestoreProposalID := proposalID, at_Status := TailoringRestoring\<rparr>) t)"

definition RecordRestored ::
  "ProfileStateObservation \<Rightarrow> time \<Rightarrow> ApplicationTailoring \<Rightarrow> error option \<times> ApplicationTailoring" where
  "RecordRestored observation now t =
     (if at_Status t \<noteq> TailoringRestoring
      then (Some (Err ''only restoring application tailoring can record restore''), t)
      else if pso_ProfileID observation \<noteq> at_ProfileID t \<or> pso_StateDigest observation \<noteq> at_BaselineDigest t
      then (Some (Err ''application tailoring restore read-back does not match baseline state''), t)
      else tailoring_step now (\<lambda>t. t\<lparr>at_Status := TailoringRestored\<rparr>) t)"

definition RequireRecovery :: "string \<Rightarrow> time \<Rightarrow> ApplicationTailoring \<Rightarrow> error option \<times> ApplicationTailoring" where
  "RequireRecovery reason now t =
     (if at_Status t = TailoringRestored
      then (Some (Err ''restored application tailoring cannot require recovery''), t)
      else if TrimSpace reason = [] then (Some (Err ''application tailoring recovery requires a reason''), t)
      else tailoring_step now (\<lambda>t. t\<lparr>at_Status := TailoringRecoveryRequired, at_RecoveryReason := TrimSpace reason\<rparr>) t)"

section \<open>The states as resources\<close>

definition TailoredResource :: "ApplicationTailoring \<Rightarrow> error + ProfileStateResource" where
  "TailoredResource t = NewProfileStateResource (''application-tailoring:'' @ at_ID t @ '':apply'') (at_ProfileID t)
     OwnershipDeclaredFields (at_TailoredState t)"

definition BaselineResource :: "ApplicationTailoring \<Rightarrow> error + ProfileStateResource" where
  "BaselineResource t = NewProfileStateResource (''application-tailoring:'' @ at_ID t @ '':restore'') (at_ProfileID t)
     OwnershipDeclaredFields (at_BaselineState t)"

definition BaselineObservation :: "ApplicationTailoring \<Rightarrow> error + ProfileStateObservation" where
  "BaselineObservation t = NewProfileStateObservation (at_ProfileID t) (at_BaselineState t)
     (at_BaselineRemoteRevision t) (at_BaselineObservedAt t)"

section \<open>What an operator sees of the change\<close>

record ApplicationTailoringChange =
  atc_Path :: string
  atc_Added :: "string list"
  atc_Removed :: "string list"

fun json_texts :: "json list \<Rightarrow> string list option" where
  "json_texts [] = Some []"
| "json_texts (JString s # rest) = map_option ((#) s) (json_texts rest)"
| "json_texts _ = None"

text \<open>A path that is not there is \<open>nil\<close>, which is no array.\<close>

fun jsonStringValues :: "json option \<Rightarrow> string list option" where
  "jsonStringValues (Some (JArray items)) = json_texts items"
| "jsonStringValues _ = None"

definition stringValuesDifference :: "string list \<Rightarrow> string list \<Rightarrow> string list" where
  "stringValuesDifference values other = filter (\<lambda>value. value \<notin> set other) values"

definition redacted_change :: "string \<Rightarrow> json option \<Rightarrow> json option \<Rightarrow> ApplicationTailoringChange" where
  "redacted_change path before after =
     (case (jsonStringValues before, jsonStringValues after) of
        (Some beforeValues, Some afterValues) \<Rightarrow>
          \<lparr>atc_Path = path, atc_Added = stringValuesDifference afterValues beforeValues,
           atc_Removed = stringValuesDifference beforeValues afterValues\<rparr>
      | _ \<Rightarrow> \<lparr>atc_Path = path, atc_Added = [], atc_Removed = []\<rparr>)"

definition values_unchanged :: "json option \<Rightarrow> json option \<Rightarrow> bool" where
  "values_unchanged before after \<longleftrightarrow> (case (before, after) of
     (Some x, Some y) \<Rightarrow> jsonValuesEqual x y | (None, None) \<Rightarrow> True | _ \<Rightarrow> False)"

definition RedactedChanges :: "ApplicationTailoring \<Rightarrow> error + ApplicationTailoringChange list" where
  "RedactedChanges t =
     (case Tailoring_Validate t of Some e \<Rightarrow> Inl e | None \<Rightarrow>
      case decodeJSONValue (at_BaselineState t) of Inl e \<Rightarrow> Inl e | Inr baseline \<Rightarrow>
      case decodeJSONValue (at_TailoredState t) of Inl e \<Rightarrow> Inl e | Inr tailored \<Rightarrow>
      Inr (map (\<lambda>path. redacted_change path (jsonPointerValue baseline path) (jsonPointerValue tailored path))
        (filter (\<lambda>path. \<not> values_unchanged (jsonPointerValue baseline path) (jsonPointerValue tailored path))
          (at_AllowedPaths t))))"

end
