(* ===== verification/TailoringStore.thy ===== *)
theory TailoringStore
  imports Tailoring
begin

text \<open>
  \<open>storage/memory/application_tailoring.go\<close>: the sagas, the saga of each application and the
  saga that holds the lock of each profile. Reading an index that names no saga yields the zero
  record, as in Go.
\<close>

record Tailorings =
  ts_tailorings :: "(ApplicationTailoringID \<times> ApplicationTailoring) list"
  ts_applications :: "(ApplicationID \<times> ApplicationTailoringID) list"
  ts_profiles :: "(ProfileID \<times> ApplicationTailoringID) list"

definition zero_Tailoring :: ApplicationTailoring where
  "zero_Tailoring = \<lparr>at_ID = [], at_ApplicationID = [], at_Attempt = 0,
     at_Key = \<lparr>ak_ProfileID = [], ak_Vacancy = \<lparr>vk_Platform = [], vk_ExternalID = []\<rparr>\<rparr>, at_ResumeID = [],
     at_Status = TailoringStatusOther [], at_IdempotencyKey = [], at_ProcessorTag = [], at_ProcessorVersion = [],
     at_ProcessorInputDigest = [], at_AllowedPaths = [], at_BaselineDigest = [], at_TailoredDigest = [],
     at_BaselineRemoteRevision = [], at_BaselineObservedAt = 0, at_TailoredRemoteRevision = [],
     at_BaselineState = [], at_TailoredState = [], at_ApplyProposalID = [], at_RestoreProposalID = [],
     at_RecoveryReason = [], at_Revision = 0, at_CreatedAt = 0, at_UpdatedAt = 0\<rparr>"

definition stored_tailoring :: "Tailorings \<Rightarrow> ApplicationTailoringID \<Rightarrow> ApplicationTailoring" where
  "stored_tailoring s i = (case map_of (ts_tailorings s) i of Some t \<Rightarrow> t | None \<Rightarrow> zero_Tailoring)"

definition sameApplicationTailoringInputs :: "ApplicationTailoring \<Rightarrow> ApplicationTailoring \<Rightarrow> bool" where
  "sameApplicationTailoringInputs a b \<longleftrightarrow> at_ApplicationID a = at_ApplicationID b \<and> at_Attempt a = at_Attempt b
     \<and> at_Key a = at_Key b \<and> at_ResumeID a = at_ResumeID b \<and> at_IdempotencyKey a = at_IdempotencyKey b
     \<and> at_ProcessorTag a = at_ProcessorTag b \<and> at_ProcessorVersion a = at_ProcessorVersion b
     \<and> at_ProcessorInputDigest a = at_ProcessorInputDigest b \<and> at_AllowedPaths a = at_AllowedPaths b
     \<and> at_BaselineDigest a = at_BaselineDigest b \<and> at_TailoredDigest a = at_TailoredDigest b
     \<and> at_BaselineRemoteRevision a = at_BaselineRemoteRevision b
     \<and> at_BaselineObservedAt a = at_BaselineObservedAt b
     \<and> at_BaselineState a = at_BaselineState b \<and> at_TailoredState a = at_TailoredState b
     \<and> at_CreatedAt a = at_CreatedAt b"

definition CreateApplicationTailoring ::
  "ctx \<Rightarrow> ApplicationTailoring \<Rightarrow> Tailorings \<Rightarrow> (error + ApplicationTailoring \<times> bool) \<times> Tailorings" where
  "CreateApplicationTailoring ctx candidate s =
     (case ctx of Some e \<Rightarrow> (Inl e, s) | None \<Rightarrow>
      case Tailoring_Validate candidate of Some e \<Rightarrow> (Inl e, s) | None \<Rightarrow>
      case map_of (ts_tailorings s) (at_ID candidate) of
        Some stored \<Rightarrow>
          if \<not> sameApplicationTailoringInputs stored candidate
          then (Inl (Err ''application tailoring id conflicts with different contents''), s)
          else (Inr (stored, False), s)
      | None \<Rightarrow>
      case map_of (ts_applications s) (at_ApplicationID candidate) of
        Some i \<Rightarrow>
          if \<not> sameApplicationTailoringInputs (stored_tailoring s i) candidate
          then (Inl (Err ''application already has a different tailoring workflow''), s)
          else (Inr (stored_tailoring s i, False), s)
      | None \<Rightarrow>
      case map_of (ts_profiles s) (at_ProfileID candidate) of
        Some i \<Rightarrow> (Inl (ErrJoin (ErrSentinel ErrProfileMutationLocked) (Err i)), s)
      | None \<Rightarrow>
          (Inr (candidate, True),
           s\<lparr>ts_tailorings := AList.update (at_ID candidate) candidate (ts_tailorings s),
             ts_applications := AList.update (at_ApplicationID candidate) (at_ID candidate) (ts_applications s),
             ts_profiles := AList.update (at_ProfileID candidate) (at_ID candidate) (ts_profiles s)\<rparr>))"

definition tailoring_not_found :: error where
  "tailoring_not_found = ErrSentinel ErrApplicationTailoringNotFound"

definition GetApplicationTailoring ::
  "ctx \<Rightarrow> ApplicationTailoringID \<Rightarrow> Tailorings \<Rightarrow> error + ApplicationTailoring" where
  "GetApplicationTailoring ctx i s =
     (case ctx of Some e \<Rightarrow> Inl e | None \<Rightarrow>
      if i = [] then Inl (Err ''application tailoring requires id'')
      else case map_of (ts_tailorings s) i of None \<Rightarrow> Inl tailoring_not_found | Some t \<Rightarrow> Inr t)"

definition ApplicationTailoringByApplication ::
  "ctx \<Rightarrow> ApplicationID \<Rightarrow> Tailorings \<Rightarrow> error + ApplicationTailoring" where
  "ApplicationTailoringByApplication ctx applicationID s =
     (case ctx of Some e \<Rightarrow> Inl e | None \<Rightarrow>
      if applicationID = [] then Inl (Err ''application tailoring requires application id'')
      else case map_of (ts_applications s) applicationID of
        None \<Rightarrow> Inl tailoring_not_found | Some i \<Rightarrow> Inr (stored_tailoring s i))"

text \<open>A restored saga gives up the locks it holds; every other one takes that of its profile.\<close>

definition release_tailoring :: "ApplicationTailoring \<Rightarrow> Tailorings \<Rightarrow> Tailorings" where
  "release_tailoring candidate s =
     (let s = (if map_of (ts_profiles s) (at_ProfileID candidate) = Some (at_ID candidate)
               then s\<lparr>ts_profiles := AList.delete (at_ProfileID candidate) (ts_profiles s)\<rparr> else s)
      in if map_of (ts_applications s) (at_ApplicationID candidate) = Some (at_ID candidate)
         then s\<lparr>ts_applications := AList.delete (at_ApplicationID candidate) (ts_applications s)\<rparr> else s)"

definition SaveApplicationTailoring ::
  "ctx \<Rightarrow> ApplicationTailoring \<Rightarrow> 64 word \<Rightarrow> Tailorings \<Rightarrow> error option \<times> Tailorings" where
  "SaveApplicationTailoring ctx candidate expectedRevision s =
     (case ctx of Some e \<Rightarrow> (Some e, s) | None \<Rightarrow>
      case Tailoring_Validate candidate of Some e \<Rightarrow> (Some e, s) | None \<Rightarrow>
      case map_of (ts_tailorings s) (at_ID candidate) of
        None \<Rightarrow> (Some tailoring_not_found, s)
      | Some stored \<Rightarrow>
          if at_Revision stored \<noteq> expectedRevision \<or> at_Revision candidate \<noteq> expectedRevision + 1
          then (Some (ErrSentinel ErrRevisionConflict), s)
          else if \<not> sameApplicationTailoringInputs stored candidate
          then (Some (Err ''application tailoring immutable inputs changed''), s)
          else let s = s\<lparr>ts_tailorings := AList.update (at_ID candidate) candidate (ts_tailorings s)\<rparr>
               in (None, if at_Status candidate = TailoringRestored then release_tailoring candidate s
                    else s\<lparr>ts_profiles := AList.update (at_ProfileID candidate) (at_ID candidate) (ts_profiles s)\<rparr>))"

end
