(* ===== verification/ResumeTailoring.thy ===== *)
theory ResumeTailoring
  imports Plans ProfilePlan
begin

text \<open>
  The resume tailoring processors of \<open>operator\<close>: their input and the validation of their plans
  (\<open>resume_tailoring.go\<close>), the deterministic policy that adds the skills of a vacancy
  (\<open>AddVacancySkillsProcessor\<close>), the chain of processors (\<open>resume_tailoring_chain.go\<close>) and
  the one that asks a language model (\<open>resume_tailoring_model.go\<close>). A processor may use the outside
  world \<open>'x\<close>, on which the state of the context depends too. \<open>strings.ToLower\<close> follows Unicode
  tables; it is the argument \<open>lower\<close>.
\<close>

section \<open>Input\<close>

text \<open>A slice that may be \<open>nil\<close> is an option where the code can tell it from an empty one.\<close>

record ResumeTailoringInput =
  rti_Application :: Application
  rti_Vacancy :: Vacancy
  rti_ResumeID :: string
  rti_EmployerGroups :: "string list option"
  rti_CurrentState :: ProfileStateObservation
  rti_AllowedPaths :: "string list"

fun check_allowed_paths :: "string list \<Rightarrow> string list \<Rightarrow> error option" where
  "check_allowed_paths seen [] = None"
| "check_allowed_paths seen (path # rest) =
     (if \<not> HasPrefix path ''/''
      then Some (Err (''resume tailoring allowed path '' @ quoted path @ '' is not a JSON Pointer''))
      else if path \<in> set seen
      then Some (Err (''resume tailoring contains duplicate allowed path '' @ quoted path))
      else check_allowed_paths (path # seen) rest)"

definition TailoringInput_Validate :: "ResumeTailoringInput \<Rightarrow> error option" where
  "TailoringInput_Validate input =
     (if app_ID (rti_Application input) = [] then Some (Err ''resume tailoring requires application id'')
      else case ApplicationKey_Validate (app_Key (rti_Application input)) of Some e \<Rightarrow> Some e | None \<Rightarrow>
      case Vacancy_Validate (rti_Vacancy input) of Some e \<Rightarrow> Some e | None \<Rightarrow>
      if ak_Vacancy (app_Key (rti_Application input)) \<noteq> Vacancy_Key (rti_Vacancy input)
      then Some (Err ''resume tailoring vacancy does not belong to application'')
      else if TrimSpace (rti_ResumeID input) = [] then Some (Err ''resume tailoring requires resume id'')
      else case StateObservation_Validate (rti_CurrentState input) of Some e \<Rightarrow> Some e | None \<Rightarrow>
      if pso_ProfileID (rti_CurrentState input) \<noteq> ak_ProfileID (app_Key (rti_Application input))
      then Some (Err ''resume tailoring observation belongs to another profile'')
      else if rti_AllowedPaths input = [] then Some (Err ''resume tailoring requires at least one allowed path'')
      else check_allowed_paths [] (rti_AllowedPaths input))"

section \<open>Plans\<close>

definition SkillAdd :: string where "SkillAdd = ''add''"
definition SkillKeep :: string where "SkillKeep = ''keep''"
definition SkillRemove :: string where "SkillRemove = ''remove''"

record ResumeTailoringSkillDecision =
  rsd_Value :: string
  rsd_Action :: string
  rsd_Evidence :: string

record ResumeTailoringPlan =
  rtp_ProcessorTag :: string
  rtp_ProcessorVersion :: string
  rtp_InputDigest :: string
  rtp_Overrides :: "ProfileStateValueOverride list"
  rtp_Skills :: "ResumeTailoringSkillDecision list"

definition normalizeResumeSkill :: "(string \<Rightarrow> string) \<Rightarrow> string \<Rightarrow> string" where
  "normalizeResumeSkill lower value = lower (TrimSpace value)"

definition validResumeTailoringDigest :: "string \<Rightarrow> bool" where
  "validResumeTailoringDigest value \<longleftrightarrow> HasPrefix value ''sha256:'' \<and>
     (case hex_DecodeString (TrimPrefix value ''sha256:'') of
        None \<Rightarrow> False | Some decoded \<Rightarrow> length decoded = 32)"

fun check_overrides :: "string list \<Rightarrow> string list \<Rightarrow> ProfileStateValueOverride list \<Rightarrow> error option" where
  "check_overrides allowed seen [] = None"
| "check_overrides allowed seen (override # rest) =
     (if ovr_Path override \<notin> set allowed
      then Some (Err (''resume tailoring plan changes disallowed path '' @ quoted (ovr_Path override)))
      else if ovr_Path override \<in> set seen
      then Some (Err (''resume tailoring plan changes path '' @ quoted (ovr_Path override) @ '' more than once''))
      else if ovr_Value override = [] \<or> \<not> json_Valid (ovr_Value override)
      then Some (Err (''resume tailoring plan contains invalid JSON at '' @ quoted (ovr_Path override)))
      else check_overrides allowed (ovr_Path override # seen) rest)"

fun check_decisions :: "(string \<Rightarrow> string) \<Rightarrow> string list \<Rightarrow> ResumeTailoringSkillDecision list \<Rightarrow> error option" where
  "check_decisions lower seen [] = None"
| "check_decisions lower seen (decision # rest) =
     (let key = normalizeResumeSkill lower (rsd_Value decision) in
      if key = [] \<or> TrimSpace (rsd_Evidence decision) = []
      then Some (Err ''resume tailoring skill decision requires value and evidence'')
      else if rsd_Action decision \<noteq> SkillAdd \<and> rsd_Action decision \<noteq> SkillKeep \<and> rsd_Action decision \<noteq> SkillRemove
      then Some (Err (''resume tailoring skill decision has unsupported action '' @ quoted (rsd_Action decision)))
      else if key \<in> set seen
      then Some (Err (''resume tailoring plan contains duplicate skill decision '' @ quoted (rsd_Value decision)))
      else check_decisions lower (key # seen) rest)"

definition TailoringPlan_Validate ::
  "(string \<Rightarrow> string) \<Rightarrow> ResumeTailoringInput \<Rightarrow> ResumeTailoringPlan \<Rightarrow> error option" where
  "TailoringPlan_Validate lower input plan =
     (case TailoringInput_Validate input of Some e \<Rightarrow> Some e | None \<Rightarrow>
      if TrimSpace (rtp_ProcessorTag plan) = [] \<or> TrimSpace (rtp_ProcessorVersion plan) = []
         \<or> \<not> validResumeTailoringDigest (rtp_InputDigest plan)
      then Some (Err ''resume tailoring plan requires processor provenance and input digest'')
      else case check_overrides (rti_AllowedPaths input) [] (rtp_Overrides plan) of Some e \<Rightarrow> Some e | None \<Rightarrow>
      check_decisions lower [] (rtp_Skills plan))"

type_synonym 'x ResumeTailoringProcessor =
  "('x \<Rightarrow> ctx) \<Rightarrow> ResumeTailoringInput \<Rightarrow> 'x \<Rightarrow> (error + ResumeTailoringPlan) \<times> 'x"

section \<open>Skills\<close>

definition text_of :: "attribute \<Rightarrow> string option" where
  "text_of v = (case v of AttrText s \<Rightarrow> Some s | _ \<Rightarrow> None)"

text \<open>A copy of no strings is \<open>nil\<close>; the copy of a slice of values is made first.\<close>

definition vacancyAttributeStrings :: "Vacancy \<Rightarrow> string \<Rightarrow> string list option" where
  "vacancyAttributeStrings vacancy key =
     (case attribute vacancy key of
        Some (AttrTexts values) \<Rightarrow> if values = [] then None else Some values
      | Some (AttrItems values) \<Rightarrow> Some (List.map_filter text_of values)
      | _ \<Rightarrow> None)"

definition slice :: "'a list option \<Rightarrow> 'a list" where
  "slice xs = (case xs of None \<Rightarrow> [] | Some ys \<Rightarrow> ys)"

definition strings_json :: "string list option \<Rightarrow> json" where
  "strings_json xs = (case xs of None \<Rightarrow> JNull | Some ys \<Rightarrow> JArray (map JString ys))"

definition ResumeSkillsPath :: "string \<Rightarrow> string" where
  "ResumeSkillsPath resumeID = ''/resumes/'' @ escapeJSONPointer (TrimSpace resumeID) @ ''/web/keySkills''"

text \<open>\<open>json.Unmarshal\<close> into a slice of strings: a null item is the empty string.\<close>

fun unmarshal_strings :: "json list \<Rightarrow> string list option" where
  "unmarshal_strings [] = Some []"
| "unmarshal_strings (JString s # rest) = map_option ((#) s) (unmarshal_strings rest)"
| "unmarshal_strings (JNull # rest) = map_option ((#) []) (unmarshal_strings rest)"
| "unmarshal_strings _ = None"

definition observedResumeSkills :: "ProfileStateObservation \<Rightarrow> string \<Rightarrow> error + string list option" where
  "observedResumeSkills observation path =
     (case StateObservation_ValueAt observation path of Inl e \<Rightarrow> Inl e
      | Inr None \<Rightarrow> Inl (Err (''observed resume state does not contain restorable skill path '' @ quoted path))
      | Inr (Some raw) \<Rightarrow>
          if raw = ''null'' then Inr None
          else (case json_parse raw of
              Some (JArray items) \<Rightarrow>
                (case unmarshal_strings items of Some values \<Rightarrow> Inr (Some values)
                 | None \<Rightarrow> Inl (ErrWrap (''observed resume skills at '' @ quoted path @ '' must be a string array'') invalid_json))
            | _ \<Rightarrow> Inl (ErrWrap (''observed resume skills at '' @ quoted path @ '' must be a string array'') invalid_json)))"

definition resumeTailoringInputDigest :: "ResumeTailoringInput \<Rightarrow> string \<Rightarrow> string list option \<Rightarrow> string" where
  "resumeTailoringInputDigest input skillPath current =
     ''sha256:'' @ hex_EncodeToString (sha256_Sum256 (raw_Marshal (JObject
       [(''application_id'', JString (app_ID (rti_Application input))),
        (''profile_id'', JString (ak_ProfileID (app_Key (rti_Application input)))),
        (''vacancy'', JObject [(''platform'', JString (vac_Platform (rti_Vacancy input))),
           (''external_id'', JString (vac_ExternalID (rti_Vacancy input)))]),
        (''vacancy_skills'', strings_json (vacancyAttributeStrings (rti_Vacancy input) ''key_skills'')),
        (''employer'', JString (vac_Employer (rti_Vacancy input))),
        (''employer_groups'', strings_json (rti_EmployerGroups input)),
        (''resume_id'', JString (rti_ResumeID input)),
        (''state_digest'', JString (pso_StateDigest (rti_CurrentState input))),
        (''skill_path'', JString skillPath),
        (''current_skills'', strings_json current)])))"

section \<open>The deterministic policy\<close>

record AddVacancySkillsProcessor =
  avs_tag :: string
  avs_version :: string
  avs_maximumSkills :: int

definition NewAddVacancySkillsProcessor :: "string \<Rightarrow> string \<Rightarrow> int \<Rightarrow> error + AddVacancySkillsProcessor" where
  "NewAddVacancySkillsProcessor tag version maximumSkills =
     (if TrimSpace tag = [] \<or> TrimSpace version = [] \<or> maximumSkills < 1
      then Inl (Err ''add-vacancy-skills processor requires tag, version and positive skill limit'')
      else Inr \<lparr>avs_tag = TrimSpace tag, avs_version = TrimSpace version, avs_maximumSkills = maximumSkills\<rparr>)"

fun index_skills :: "(string \<Rightarrow> string) \<Rightarrow> string list \<Rightarrow> string list \<Rightarrow> error + string list" where
  "index_skills lower seen [] = Inr seen"
| "index_skills lower seen (skill # rest) =
     (let key = normalizeResumeSkill lower skill in
      if key = [] then Inl (Err ''current resume contains an empty skill'')
      else if key \<in> set seen then Inl (Err (''current resume contains duplicate skill '' @ quoted skill))
      else index_skills lower (key # seen) rest)"

definition containsResumeSkillDecision :: "(string \<Rightarrow> string) \<Rightarrow> ResumeTailoringSkillDecision list \<Rightarrow> string \<Rightarrow> bool" where
  "containsResumeSkillDecision lower decisions normalized \<longleftrightarrow>
     (\<exists>decision\<in>set decisions. normalizeResumeSkill lower (rsd_Value decision) = normalized)"

definition from_vacancy :: "string \<Rightarrow> string \<Rightarrow> ResumeTailoringSkillDecision" where
  "from_vacancy skill action = \<lparr>rsd_Value = skill, rsd_Action = action, rsd_Evidence = ''vacancy.key_skills''\<rparr>"

text \<open>The vacancy's skills in order: what is there is kept, the rest is appended.\<close>

fun add_skills ::
  "(string \<Rightarrow> string) \<Rightarrow> string list \<Rightarrow> string list \<Rightarrow> string list \<Rightarrow> ResumeTailoringSkillDecision list
    \<Rightarrow> string list \<times> ResumeTailoringSkillDecision list" where
  "add_skills lower [] seen combined decisions = (combined, decisions)"
| "add_skills lower (candidate # rest) seen combined decisions =
     (let skill = TrimSpace candidate; key = normalizeResumeSkill lower skill in
      if key = [] then add_skills lower rest seen combined decisions
      else if key \<in> set seen
      then add_skills lower rest seen combined
        (if containsResumeSkillDecision lower decisions key then decisions
         else decisions @ [from_vacancy skill SkillKeep])
      else add_skills lower rest (key # seen) (combined @ [skill]) (decisions @ [from_vacancy skill SkillAdd]))"

definition skills_override :: "string \<Rightarrow> string list \<Rightarrow> ProfileStateValueOverride" where
  "skills_override path skills = \<lparr>ovr_Path = path, ovr_Value = raw_Marshal (JArray (map JString skills))\<rparr>"

definition validated_plan ::
  "(string \<Rightarrow> string) \<Rightarrow> ResumeTailoringInput \<Rightarrow> ResumeTailoringPlan \<Rightarrow> error + ResumeTailoringPlan" where
  "validated_plan lower input plan = guard (TailoringPlan_Validate lower input plan) plan"

definition AddVacancySkills_plan ::
  "(string \<Rightarrow> string) \<Rightarrow> AddVacancySkillsProcessor \<Rightarrow> ResumeTailoringInput \<Rightarrow> error + ResumeTailoringPlan" where
  "AddVacancySkills_plan lower processor input =
     (let path = ResumeSkillsPath (rti_ResumeID input) in
      if path \<notin> set (rti_AllowedPaths input)
      then Inl (Err (''resume tailoring skill path '' @ quoted path @ '' is not allowed''))
      else case observedResumeSkills (rti_CurrentState input) path of Inl e \<Rightarrow> Inl e | Inr observed \<Rightarrow>
      let current = slice observed in
      if int (length current) > avs_maximumSkills processor
      then Inl (Err (''current resume contains '' @ FormatNat (length current) @ '' skills, configured maximum is ''
             @ FormatInt (avs_maximumSkills processor)))
      else case index_skills lower [] current of Inl e \<Rightarrow> Inl e | Inr seen \<Rightarrow>
      let (combined, decisions) =
            add_skills lower (slice (vacancyAttributeStrings (rti_Vacancy input) ''key_skills'')) seen current []
      in if int (length combined) > avs_maximumSkills processor
      then Inl (ErrWrap (''need '' @ FormatNat (length combined) @ '' slots, maximum is ''
             @ FormatInt (avs_maximumSkills processor)) (ErrSentinel ErrResumeTailoringSkillLimit))
      else validated_plan lower input
        \<lparr>rtp_ProcessorTag = avs_tag processor, rtp_ProcessorVersion = avs_version processor,
         rtp_InputDigest = resumeTailoringInputDigest input path observed,
         rtp_Overrides = (if length combined \<noteq> length current then [skills_override path combined] else []),
         rtp_Skills = decisions\<rparr>)"

definition AddVacancySkills_Plan ::
  "(string \<Rightarrow> string) \<Rightarrow> AddVacancySkillsProcessor \<Rightarrow> 'x ResumeTailoringProcessor" where
  "AddVacancySkills_Plan lower processor ctx input x =
     (case TailoringInput_Validate input of Some e \<Rightarrow> (Inl e, x) | None \<Rightarrow>
      case ctx x of Some e \<Rightarrow> (Inl e, x) | None \<Rightarrow>
      (AddVacancySkills_plan lower processor input, x))"

section \<open>The chain\<close>

record 'x ChainResumeTailoringProcessor =
  crt_tag :: string
  crt_version :: string
  crt_processors :: "'x ResumeTailoringProcessor list"

definition NewChainResumeTailoringProcessor ::
  "string \<Rightarrow> string \<Rightarrow> 'x ResumeTailoringProcessor list \<Rightarrow> error + 'x ChainResumeTailoringProcessor" where
  "NewChainResumeTailoringProcessor tag version processors =
     (if TrimSpace tag = [] \<or> TrimSpace version = []
      then Inl (Err ''chain resume tailoring requires tag and version'')
      else if length processors < 2 then Inl (Err ''chain resume tailoring requires at least two processors'')
      else Inr \<lparr>crt_tag = TrimSpace tag, crt_version = TrimSpace version, crt_processors = processors\<rparr>)"

fun merge_overrides ::
  "ProfileStateValueOverride list \<Rightarrow> ProfileStateValueOverride list \<Rightarrow> error + ProfileStateValueOverride list" where
  "merge_overrides overrides [] = Inr overrides"
| "merge_overrides overrides (override # rest) =
     (if ovr_Path override \<in> set (map ovr_Path overrides)
      then Inl (Err (''chain resume tailoring produced duplicate path '' @ quoted (ovr_Path override)))
      else merge_overrides (overrides @ [override]) rest)"

fun chain_plans ::
  "'x ResumeTailoringProcessor list \<Rightarrow> ('x \<Rightarrow> ctx) \<Rightarrow> ResumeTailoringInput
    \<Rightarrow> ProfileStateValueOverride list \<Rightarrow> string list \<Rightarrow> 'x
    \<Rightarrow> (error + ProfileStateValueOverride list \<times> string list) \<times> 'x" where
  "chain_plans [] ctx input overrides digests x = (Inr (overrides, digests), x)"
| "chain_plans (child # rest) ctx input overrides digests x =
     (case child ctx input x of
        (Inl e, x') \<Rightarrow> (Inl (ErrWrap ''chain resume tailoring child failed'' e), x')
      | (Inr plan, x') \<Rightarrow>
          (case merge_overrides overrides (rtp_Overrides plan) of
             Inl e \<Rightarrow> (Inl e, x')
           | Inr merged \<Rightarrow> chain_plans rest ctx input merged (digests @ [rtp_InputDigest plan]) x'))"

definition applicationTextDigest :: "string \<Rightarrow> string" where
  "applicationTextDigest value = ''sha256:'' @ hex_EncodeToString (sha256_Sum256 value)"

definition Chain_Plan ::
  "(string \<Rightarrow> string) \<Rightarrow> 'x ChainResumeTailoringProcessor \<Rightarrow> 'x ResumeTailoringProcessor" where
  "Chain_Plan lower processor ctx input x =
     (case TailoringInput_Validate input of Some e \<Rightarrow> (Inl e, x) | None \<Rightarrow>
      case chain_plans (crt_processors processor) ctx input [] [] x of
        (Inl e, x') \<Rightarrow> (Inl e, x')
      | (Inr (overrides, digests), x') \<Rightarrow>
          (validated_plan lower input
             \<lparr>rtp_ProcessorTag = crt_tag processor, rtp_ProcessorVersion = crt_version processor,
              rtp_InputDigest = applicationTextDigest (join_with [CHR 0x0A] digests),
              rtp_Overrides = overrides, rtp_Skills = []\<rparr>, x'))"

end
