(* ===== verification/ResumeTailoringModel.thy ===== *)
theory ResumeTailoringModel
  imports ResumeTailoring
begin

text \<open>
  \<open>operator/resume_tailoring_model.go\<close>: a language model chooses among the skills; whatever it
  answers is checked against the resume, the vacancy and the limit, and a failure leads to the
  deterministic processor or to no change. \<open>Select\<close> is the model, called under a timeout;
  the failures of models are those of \<open>operator/model.go\<close>.
\<close>

section \<open>Failures of models\<close>

definition ModelFailureTimeout :: string where "ModelFailureTimeout = ''timeout''"
definition ModelFailureRateLimited :: string where "ModelFailureRateLimited = ''rate_limited''"
definition ModelFailureTemporary :: string where "ModelFailureTemporary = ''temporary_failure''"
definition ModelFailurePermanent :: string where "ModelFailurePermanent = ''permanent_failure''"
definition ModelFailureInvalidOutput :: string where "ModelFailureInvalidOutput = ''invalid_output''"

definition ModelError_Validate :: "ModelError \<Rightarrow> error option" where
  "ModelError_Validate e =
     (if me_Kind e \<notin> {ModelFailureTimeout, ModelFailureRateLimited, ModelFailureTemporary, ModelFailurePermanent,
           ModelFailureInvalidOutput}
      then Some (Err (''unknown model failure kind '' @ quoted (me_Kind e)))
      else if TrimSpace (me_Operation e) = [] then Some (Err ''model error requires operation'')
      else if me_StatusCode e < 0 \<or> me_StatusCode e > 999
      then Some (Err ''model error contains invalid status code'')
      else None)"

definition resumeTailoringModelFailureRetryable :: "error \<Rightarrow> bool" where
  "resumeTailoringModelFailureRetryable e \<longleftrightarrow> (case errors_As_model e of None \<Rightarrow> False
     | Some me \<Rightarrow> me_Kind me \<in> {ModelFailureTemporary, ModelFailureRateLimited, ModelFailureTimeout})"

definition ModelFailureKindOf :: "error \<Rightarrow> string" where
  "ModelFailureKindOf e =
     (if errors_Is e DeadlineExceeded then ModelFailureTimeout
      else case errors_As_model e of Some me \<Rightarrow> me_Kind me | None \<Rightarrow> ModelFailureTemporary)"

section \<open>The processor\<close>

record ResumeTailoringModelRequest =
  rtq_Instruction :: string
  rtq_PromptVersion :: string
  rtq_VacancyTitle :: string
  rtq_VacancySkills :: "string list option"
  rtq_CurrentSkills :: "string list option"
  rtq_MaximumSkills :: int

record ResumeTailoringModelDecision =
  rmd_Value :: string
  rmd_Action :: string
  rmd_Evidence :: string

record ResumeTailoringModelResponse =
  rtr_Skills :: "ResumeTailoringModelDecision list"
  rtr_Model :: string
  rtr_ResponseID :: string

type_synonym 'x ResumeTailoringModel =
  "('x \<Rightarrow> ctx) \<Rightarrow> duration \<Rightarrow> ResumeTailoringModelRequest \<Rightarrow> 'x \<Rightarrow> (error + ResumeTailoringModelResponse) \<times> 'x"

record 'x ModelResumeTailoringProcessor =
  mrt_tag :: string
  mrt_promptVersion :: string
  mrt_instruction :: string
  mrt_maximumSkills :: int
  mrt_allowRemovals :: bool
  mrt_timeout :: duration
  mrt_model :: "'x ResumeTailoringModel"
  mrt_fallback :: "'x ResumeTailoringProcessor"

text \<open>A model or fallback that is missing is \<open>None\<close> in the configuration.\<close>

record 'x ModelResumeTailoringConfig =
  mrc_Tag :: string
  mrc_PromptVersion :: string
  mrc_Instruction :: string
  mrc_MaximumSkills :: int
  mrc_AllowRemovals :: bool
  mrc_Timeout :: duration
  mrc_Model :: "'x ResumeTailoringModel option"
  mrc_Fallback :: "'x ResumeTailoringProcessor option"

definition NewModelResumeTailoringProcessor ::
  "'x ModelResumeTailoringConfig \<Rightarrow> error + 'x ModelResumeTailoringProcessor" where
  "NewModelResumeTailoringProcessor config =
     (if TrimSpace (mrc_Tag config) = [] \<or> TrimSpace (mrc_PromptVersion config) = []
         \<or> TrimSpace (mrc_Instruction config) = []
      then Inl (Err ''model resume tailoring requires tag, prompt version and instruction'')
      else if mrc_MaximumSkills config < 1 then Inl (Err ''model resume tailoring requires a positive skill limit'')
      else if mrc_Timeout config \<le> 0 then Inl (Err ''model resume tailoring requires a positive timeout'')
      else case (mrc_Model config, mrc_Fallback config) of
        (Some model, Some fallback) \<Rightarrow>
          Inr \<lparr>mrt_tag = TrimSpace (mrc_Tag config), mrt_promptVersion = TrimSpace (mrc_PromptVersion config),
            mrt_instruction = TrimSpace (mrc_Instruction config), mrt_maximumSkills = mrc_MaximumSkills config,
            mrt_allowRemovals = mrc_AllowRemovals config, mrt_timeout = mrc_Timeout config,
            mrt_model = model, mrt_fallback = fallback\<rparr>
      | _ \<Rightarrow> Inl (Err ''model resume tailoring requires a model and deterministic fallback''))"

definition resumeTailoringModelInstruction :: string where
  "resumeTailoringModelInstruction = join_with [CHR 0x0A]
     [''Select resume skills for one application.'',
      ''Use only skills offered by vacancy.key_skills or already present in resume.skills.'',
      ''Prefer the vacancy skills that are most relevant to this vacancy.'',
      ''Return one decision per considered skill with action '' @ quoted ''add'' @ '' for a new skill, ''
        @ quoted ''keep'' @ '' for an existing one or '' @ quoted ''remove''
        @ '' for an existing skill that is clearly the least relevant to this vacancy.'',
      ''Remove only as many existing skills as needed so that the result fits maximum_skills after the additions; if you add nothing, remove nothing.'',
      ''Every decision must carry a non-empty evidence string naming its source.'']"

section \<open>Decisions\<close>

definition invalid_output :: "string \<Rightarrow> error" where
  "invalid_output message = Err (''model resume tailoring returned invalid output: '' @ message)"

text \<open>What the loop over the decisions keeps.\<close>

record DecisionState =
  ds_seen :: "string list"
  ds_added :: "string list"
  ds_removals :: "ResumeTailoringSkillDecision list"
  ds_combined :: "string list"
  ds_selected :: "ResumeTailoringSkillDecision list"

definition decide ::
  "(string \<Rightarrow> string) \<Rightarrow> bool \<Rightarrow> string list \<Rightarrow> string list \<Rightarrow> ResumeTailoringModelDecision \<Rightarrow> DecisionState
    \<Rightarrow> error + DecisionState" where
  "decide lower allowRemovals currentIndex allowed decision s =
     (let value = TrimSpace (rmd_Value decision); key = normalizeResumeSkill lower value;
          evidence = TrimSpace (rmd_Evidence decision);
          chosen = (\<lambda>action. \<lparr>rsd_Value = value, rsd_Action = action, rsd_Evidence = evidence\<rparr>)
      in if key = [] \<or> evidence = [] then Inl (invalid_output ''decision requires value and evidence'')
         else if key \<in> set (ds_seen s)
         then Inl (invalid_output (''duplicate skill decision '' @ quoted (rmd_Value decision)))
         else let s = s\<lparr>ds_seen := key # ds_seen s\<rparr> in
         if key \<notin> set allowed
         then Inl (invalid_output (''skill '' @ quoted (rmd_Value decision) @ '' is neither a vacancy skill nor a current skill''))
         else if rmd_Action decision = SkillAdd \<or> rmd_Action decision = SkillKeep
         then (if rmd_Action decision = SkillAdd \<and> key \<notin> set currentIndex \<and> key \<notin> set (ds_added s)
               then Inr (s\<lparr>ds_added := key # ds_added s, ds_combined := ds_combined s @ [value],
                      ds_selected := ds_selected s @ [chosen SkillAdd]\<rparr>)
               else Inr (s\<lparr>ds_selected := ds_selected s @ [chosen SkillKeep]\<rparr>))
         else if rmd_Action decision = SkillRemove
         then (if \<not> allowRemovals then Inl (invalid_output ''remove action is not allowed by the skills policy'')
               else if key \<notin> set currentIndex
               then Inl (invalid_output (''skill '' @ quoted (rmd_Value decision) @ '' is not a current resume skill''))
               else Inr (s\<lparr>ds_removals := ds_removals s @ [chosen SkillRemove]\<rparr>))
         else Inl (invalid_output (''unsupported action '' @ quoted (rmd_Action decision))))"

fun decide_all ::
  "(string \<Rightarrow> string) \<Rightarrow> bool \<Rightarrow> string list \<Rightarrow> string list \<Rightarrow> ResumeTailoringModelDecision list \<Rightarrow> DecisionState
    \<Rightarrow> error + DecisionState" where
  "decide_all lower allowRemovals currentIndex allowed [] s = Inr s"
| "decide_all lower allowRemovals currentIndex allowed (decision # rest) s =
     (case decide lower allowRemovals currentIndex allowed decision s of Inl e \<Rightarrow> Inl e
      | Inr s' \<Rightarrow> decide_all lower allowRemovals currentIndex allowed rest s')"

text \<open>As many of the removals as the limit needs are applied, in the model's order.\<close>

definition apply_removals ::
  "(string \<Rightarrow> string) \<Rightarrow> ResumeTailoringSkillDecision list \<Rightarrow> string list \<Rightarrow> string list" where
  "apply_removals lower removals combined =
     filter (\<lambda>skill. normalizeResumeSkill lower skill
        \<notin> set (map (\<lambda>d. normalizeResumeSkill lower (rsd_Value d)) removals)) combined"

definition required_removals :: "int \<Rightarrow> string list \<Rightarrow> nat" where
  "required_removals maximum combined = nat (int (length combined) - maximum)"

definition planFromDecisions ::
  "(string \<Rightarrow> string) \<Rightarrow> 'x ModelResumeTailoringProcessor \<Rightarrow> ResumeTailoringInput \<Rightarrow> string \<Rightarrow> string list option
    \<Rightarrow> ResumeTailoringModelDecision list \<Rightarrow> error + ResumeTailoringPlan" where
  "planFromDecisions lower processor input path observed decisions =
     (if decisions = [] then Inl (invalid_output ''model returned no skill decisions'')
      else let current = slice observed;
             currentIndex = map (normalizeResumeSkill lower) current;
             allowed = currentIndex @ map (normalizeResumeSkill lower)
               (slice (vacancyAttributeStrings (rti_Vacancy input) ''key_skills''))
      in case decide_all lower (mrt_allowRemovals processor) currentIndex allowed decisions
             \<lparr>ds_seen = [], ds_added = [], ds_removals = [], ds_combined = current, ds_selected = []\<rparr> of
        Inl e \<Rightarrow> Inl e
      | Inr s \<Rightarrow>
      let required = required_removals (mrt_maximumSkills processor) (ds_combined s) in
      if required > length (ds_removals s)
      then Inl (invalid_output (''model must remove at least '' @ FormatNat required @ '' skills to fit the additions''))
      else let removed = take required (ds_removals s);
               combined = (if removed \<noteq> [] then apply_removals lower removed (ds_combined s) else ds_combined s)
      in if combined = [] then Inl (invalid_output ''model removed every resume skill'')
         else if int (length combined) > mrt_maximumSkills processor
         then Inl (invalid_output (''selected '' @ FormatNat (length combined) @ '' skills above the limit of ''
                @ FormatInt (mrt_maximumSkills processor)))
         else validated_plan lower input
           \<lparr>rtp_ProcessorTag = mrt_tag processor, rtp_ProcessorVersion = mrt_promptVersion processor,
            rtp_InputDigest = resumeTailoringInputDigest input path observed,
            rtp_Overrides = (if combined \<noteq> current then [skills_override path combined] else []),
            rtp_Skills = ds_selected s @ removed\<rparr>)"

section \<open>Asking the model\<close>

definition emptyPlan :: "'x ModelResumeTailoringProcessor \<Rightarrow> ResumeTailoringInput \<Rightarrow> ResumeTailoringPlan" where
  "emptyPlan processor input =
     (let path = ResumeSkillsPath (rti_ResumeID input);
          current = (case observedResumeSkills (rti_CurrentState input) path of Inl _ \<Rightarrow> None | Inr values \<Rightarrow> values)
      in \<lparr>rtp_ProcessorTag = mrt_tag processor, rtp_ProcessorVersion = mrt_promptVersion processor,
          rtp_InputDigest = resumeTailoringInputDigest input path current, rtp_Overrides = [], rtp_Skills = []\<rparr>)"

text \<open>A copy made with \<open>append([]string(nil), \<dots>)\<close> of no skills is \<open>nil\<close>.\<close>

definition select_request ::
  "'x ModelResumeTailoringProcessor \<Rightarrow> ResumeTailoringInput \<Rightarrow> string list option \<Rightarrow> ResumeTailoringModelRequest" where
  "select_request processor input current =
     \<lparr>rtq_Instruction = resumeTailoringModelInstruction
        @ (if mrt_allowRemovals processor then [] else CHR 0x0A # ''Never remove an existing resume skill.'')
        @ [CHR 0x0A, CHR 0x0A] @ mrt_instruction processor,
      rtq_PromptVersion = mrt_promptVersion processor, rtq_VacancyTitle = vac_Title (rti_Vacancy input),
      rtq_VacancySkills = vacancyAttributeStrings (rti_Vacancy input) ''key_skills'',
      rtq_CurrentSkills = (if slice current = [] then None else current),
      rtq_MaximumSkills = mrt_maximumSkills processor\<rparr>"

definition planWithModel ::
  "(string \<Rightarrow> string) \<Rightarrow> 'x ModelResumeTailoringProcessor \<Rightarrow> 'x ResumeTailoringProcessor" where
  "planWithModel lower processor ctx input x =
     (let path = ResumeSkillsPath (rti_ResumeID input) in
      if path \<notin> set (rti_AllowedPaths input)
      then (Inl (Err (''resume tailoring skill path '' @ quoted path @ '' is not allowed'')), x)
      else case observedResumeSkills (rti_CurrentState input) path of Inl e \<Rightarrow> (Inl e, x) | Inr current \<Rightarrow>
      let ask = mrt_model processor ctx (mrt_timeout processor) (select_request processor input current);
          (response, x') = (case ask x of
              (Inl e, x1) \<Rightarrow> if ctx x1 = None \<and> resumeTailoringModelFailureRetryable e then ask x1 else (Inl e, x1)
            | (Inr r, x1) \<Rightarrow> (Inr r, x1))
      in case response of Inl e \<Rightarrow> (Inl e, x')
         | Inr r \<Rightarrow> (planFromDecisions lower processor input path current (rtr_Skills r), x'))"

definition ModelTailoring_Plan ::
  "(string \<Rightarrow> string) \<Rightarrow> 'x ModelResumeTailoringProcessor \<Rightarrow> 'x ResumeTailoringProcessor" where
  "ModelTailoring_Plan lower processor ctx input x =
     (case TailoringInput_Validate input of Some e \<Rightarrow> (Inl e, x) | None \<Rightarrow>
      case ctx x of Some e \<Rightarrow> (Inl e, x) | None \<Rightarrow>
      case planWithModel lower processor ctx input x of
        (Inr plan, x') \<Rightarrow> (Inr plan, x')
      | (Inl e, x') \<Rightarrow>
          (case ctx x' of Some ce \<Rightarrow> (Inl ce, x') | None \<Rightarrow>
           if resumeTailoringModelFailureRetryable e then (Inr (emptyPlan processor input), x')
           else case mrt_fallback processor ctx input x' of
             (Inr plan, x'') \<Rightarrow> (Inr plan, x'')
           | (Inl fe, x'') \<Rightarrow>
               if errors_Is fe ErrResumeTailoringSkillLimit then (Inr (emptyPlan processor input), x'')
               else (Inl fe, x'')))"

definition containsNormalizedResumeSkill :: "(string \<Rightarrow> string) \<Rightarrow> string list \<Rightarrow> string \<Rightarrow> bool" where
  "containsNormalizedResumeSkill lower values normalized \<longleftrightarrow>
     (\<exists>value\<in>set values. normalizeResumeSkill lower value = normalized)"

end
