(* ===== verification/Actions.thy ===== *)
theory Actions
  imports Errors
begin

text \<open>
  Calls that read and change a world and may fail, in sequence as \<open>if err != nil { return err }\<close>
  writes them: what a call changed before it failed stays.
\<close>

type_synonym ('w, 'a) action = "'w \<Rightarrow> (error + 'a) \<times> 'w"

definition bind_do :: "('w, 'a) action \<Rightarrow> ('a \<Rightarrow> ('w, 'b) action) \<Rightarrow> ('w, 'b) action" where
  "bind_do m k w = (case m w of (Inl e, w') \<Rightarrow> (Inl e, w') | (Inr a, w') \<Rightarrow> k a w')"

definition return_ok :: "'a \<Rightarrow> ('w, 'a) action" where
  "return_ok a w = (Inr a, w)"

definition fail_with :: "error \<Rightarrow> ('w, 'a) action" where
  "fail_with e w = (Inl e, w)"

text \<open>A result that needs no world, and an error that may be absent.\<close>

definition lift_result :: "error + 'a \<Rightarrow> ('w, 'a) action" where
  "lift_result r w = (r, w)"

definition check_act :: "error option \<Rightarrow> ('w, unit) action" where
  "check_act r w = (case r of Some e \<Rightarrow> (Inl e, w) | None \<Rightarrow> (Inr (), w))"

fun each_act :: "('a \<Rightarrow> 'b \<Rightarrow> ('w, 'b) action) \<Rightarrow> 'a list \<Rightarrow> 'b \<Rightarrow> ('w, 'b) action" where
  "each_act f [] b = return_ok b"
| "each_act f (x # xs) b = bind_do (f x b) (each_act f xs)"

lemma bind_Inr: "bind_do m k w = (Inr b, w') \<longleftrightarrow> (\<exists>a w1. m w = (Inr a, w1) \<and> k a w1 = (Inr b, w'))"
  by (auto simp: bind_do_def split: prod.splits sum.splits)

lemma return_Inr: "return_ok a w = (Inr b, w') \<longleftrightarrow> b = a \<and> w' = w"
  by (auto simp: return_ok_def)

lemma fail_Inr: "fail_with e w = (Inr b, w') \<longleftrightarrow> False"
  by (simp add: fail_with_def)

lemma lift_Inr: "lift_result r w = (Inr b, w') \<longleftrightarrow> r = Inr b \<and> w' = w"
  by (auto simp: lift_result_def)

lemma bind_do_cases:
  "bind_do m k w = (r, w'') \<longleftrightarrow>
     (\<exists>e. m w = (Inl e, w'') \<and> r = Inl e) \<or> (\<exists>a w'. m w = (Inr a, w') \<and> k a w' = (r, w''))"
  by (auto simp: bind_do_def split: prod.splits sum.splits)

lemma check_act_iff:
  "check_act x w = (r, w') \<longleftrightarrow> w' = w \<and> r = (case x of Some e \<Rightarrow> Inl e | None \<Rightarrow> Inr ())"
  by (auto simp: check_act_def split: option.splits)

text \<open>What every part of a sequence keeps, the sequence keeps.\<close>

definition keeps :: "('w \<Rightarrow> 'w \<Rightarrow> bool) \<Rightarrow> ('w, 'a) action \<Rightarrow> bool" where
  "keeps R m \<longleftrightarrow> (\<forall>w. R w (snd (m w)))"

lemma keepsD: "keeps R m \<Longrightarrow> R w (snd (m w))"
  by (simp add: keeps_def)

lemma keeps_return: "(\<And>w. R w w) \<Longrightarrow> keeps R (return_ok a)" "(\<And>w. R w w) \<Longrightarrow> keeps R (fail_with e)"
  "(\<And>w. R w w) \<Longrightarrow> keeps R (lift_result r)" "(\<And>w. R w w) \<Longrightarrow> keeps R (check_act x)"
  by (auto simp: keeps_def return_ok_def fail_with_def lift_result_def check_act_def split: option.splits)

lemma keeps_bind:
  assumes "\<And>a b c. R a b \<Longrightarrow> R b c \<Longrightarrow> R a c" and "keeps R m" and "\<And>a. keeps R (k a)"
  shows "keeps R (bind_do m k)"
  unfolding keeps_def
proof
  fix w
  show "R w (snd (bind_do m k w))"
  proof (cases "m w")
    case (Pair r w')
    have "R w w'" using keepsD [OF assms(2), of w] Pair by simp
    moreover have "R w' (snd (k a w'))" for a by (rule keepsD [OF assms(3)])
    ultimately show ?thesis using Pair assms(1) by (cases r) (auto simp: bind_do_def)
  qed
qed

lemma keeps_each:
  assumes "\<And>w. R w w" and "\<And>a b c. R a b \<Longrightarrow> R b c \<Longrightarrow> R a c" and "\<And>x b. keeps R (f x b)"
  shows "keeps R (each_act f xs b)"
  by (induction xs arbitrary: b) (auto intro: keeps_return keeps_bind assms)

end
