(* ===== verification/TailoringRun.thy ===== *)
theory TailoringRun
  imports TailoringStore ResumeTailoringModel EmployerGroups ProfileApply Actions
begin

text \<open>
  \<open>worker/application_tailoring.go\<close>: the coordinator that runs the saga of a temporary change
  of a profile inside the submission of an application. It keeps the sagas and the proposals in the
  repository and uses the outside world \<open>'x\<close> through readers and writers of profiles, the
  processor of the plan, a clock and a generator of identifiers; the context is part of the outside
  world. \<open>sw_writes\<close> is not in the code: it remembers every proposal that was given to a
  writer, with the sagas of that moment.
\<close>

section \<open>The world\<close>

record 'x SagaWorld =
  sw_tailorings :: Tailorings
  sw_states :: ProfileStates
  sw_writes :: "(ProfileStateProposal \<times> Tailorings) list"
  sw_ext :: 'x

record 'x TailoringCoordinator =
  tc_Err :: "'x \<Rightarrow> ctx"
  tc_Now :: "'x \<Rightarrow> time \<times> 'x"
  tc_NewID :: "string \<Rightarrow> 'x \<Rightarrow> (error + string) \<times> 'x"
  tc_readers :: "(ProfileID \<times> 'x ProfileStateReader) list"
  tc_writers :: "(ProfileID \<times> 'x ProfileStateWriter) list"
  tc_lower :: "string \<Rightarrow> string"

type_synonym ('x, 'a) saga = "'x SagaWorld \<Rightarrow> (error + 'a) \<times> 'x SagaWorld"

definition outside :: "('x \<Rightarrow> (error + 'a) \<times> 'x) \<Rightarrow> ('x, 'a) saga" where
  "outside f w = (case f (sw_ext w) of (r, x) \<Rightarrow> (r, w\<lparr>sw_ext := x\<rparr>))"

definition clock_now :: "'x TailoringCoordinator \<Rightarrow> ('x, time) saga" where
  "clock_now c = outside (\<lambda>x. case tc_Now c x of (t, x') \<Rightarrow> (Inr t, x'))"

definition saga_of_application :: "'x TailoringCoordinator \<Rightarrow> ApplicationID \<Rightarrow> ('x, ApplicationTailoring) saga" where
  "saga_of_application c applicationID w =
     (ApplicationTailoringByApplication (tc_Err c (sw_ext w)) applicationID (sw_tailorings w), w)"

definition save_saga :: "'x TailoringCoordinator \<Rightarrow> ApplicationTailoring \<Rightarrow> 64 word \<Rightarrow> ('x, unit) saga" where
  "save_saga c t expected w =
     (case SaveApplicationTailoring (tc_Err c (sw_ext w)) t expected (sw_tailorings w) of
        (Some e, s) \<Rightarrow> (Inl e, w\<lparr>sw_tailorings := s\<rparr>)
      | (None, s) \<Rightarrow> (Inr (), w\<lparr>sw_tailorings := s\<rparr>))"

definition create_saga :: "'x TailoringCoordinator \<Rightarrow> ApplicationTailoring \<Rightarrow> ('x, ApplicationTailoring) saga" where
  "create_saga c t w =
     (case CreateApplicationTailoring (tc_Err c (sw_ext w)) t (sw_tailorings w) of
        (Inl e, s) \<Rightarrow> (Inl e, w\<lparr>sw_tailorings := s\<rparr>)
      | (Inr (stored, _), s) \<Rightarrow> (Inr stored, w\<lparr>sw_tailorings := s\<rparr>))"

definition stored_proposal :: "'x TailoringCoordinator \<Rightarrow> ProfileStateProposalID \<Rightarrow> ('x, ProfileStateProposal) saga" where
  "stored_proposal c i w = (GetProfileStateProposal (tc_Err c (sw_ext w)) i (sw_states w), w)"

definition store_proposal :: "'x TailoringCoordinator \<Rightarrow> ProfileStateProposal \<Rightarrow> ('x, ProfileStateProposal) saga" where
  "store_proposal c p w =
     (case CreateProfileStateProposal (tc_Err c (sw_ext w)) p (sw_states w) of
        (Inl e, s) \<Rightarrow> (Inl e, w\<lparr>sw_states := s\<rparr>)
      | (Inr (stored, _), s) \<Rightarrow> (Inr stored, w\<lparr>sw_states := s\<rparr>))"

text \<open>A transition of the saga that is saved under its previous revision.\<close>

definition advance_saga ::
  "'x TailoringCoordinator \<Rightarrow> (time \<Rightarrow> ApplicationTailoring \<Rightarrow> error option \<times> ApplicationTailoring)
    \<Rightarrow> ApplicationTailoring \<Rightarrow> ('x, ApplicationTailoring) saga" where
  "advance_saga c step t = bind_do (clock_now c) (\<lambda>at. case step at t of
       (Some e, t') \<Rightarrow> fail_with e
     | (None, t') \<Rightarrow> bind_do (save_saga c t' (at_Revision t)) (\<lambda>_. return_ok t'))"

section \<open>Plans\<close>

record 'x TailoringPlan =
  atp_Processor :: "'x ResumeTailoringProcessor option"
  atp_AllowedPaths :: "string list"
  atp_EmployerMatcher :: "EmployerGroupMatcher option"

fun check_plan_paths :: "string list \<Rightarrow> string list \<Rightarrow> error option" where
  "check_plan_paths seen [] = None"
| "check_plan_paths seen (path # rest) =
     (if \<not> HasPrefix path ''/''
      then Some (Err (''application tailoring path '' @ quoted path @ '' is not a JSON Pointer''))
      else if path \<in> set seen
      then Some (Err (''application tailoring contains duplicate path '' @ quoted path))
      else check_plan_paths (path # seen) rest)"

definition AtPlan_Validate :: "'x TailoringPlan \<Rightarrow> error option" where
  "AtPlan_Validate plan =
     (if atp_Processor plan = None \<or> atp_AllowedPaths plan = []
      then Some (Err ''application tailoring plan requires processor and allowed paths'')
      else check_plan_paths [] (atp_AllowedPaths plan))"

text \<open>The stack is deep enough for every accepted matcher.\<close>

definition employerGroups :: "(string \<Rightarrow> string) \<Rightarrow> 'x TailoringPlan \<Rightarrow> Vacancy \<Rightarrow> string list option" where
  "employerGroups lower plan vacancy =
     (case atp_EmployerMatcher plan of None \<Rightarrow> None
      | Some m \<Rightarrow> Some (case Match (Suc (length (egm_order m))) lower m vacancy of
          None \<Rightarrow> [] | Some matches \<Rightarrow> map egx_GroupTag matches))"

section \<open>Reading, proposing and writing\<close>

definition resolve_reader :: "'x TailoringCoordinator \<Rightarrow> ProfileID \<Rightarrow> error + 'x ProfileStateReader" where
  "resolve_reader c profileID =
     (case map_of (tc_readers c) profileID of
        None \<Rightarrow> Inl (ErrOperation (OperationError ErrorUnsupported ''application.tailoring.read'' []
          ''profile has no state reader for application tailoring'' None [] None))
      | Some reader \<Rightarrow> Inr reader)"

definition read_profile :: "'x TailoringCoordinator \<Rightarrow> ProfileID \<Rightarrow> string list \<Rightarrow> ('x, ProfileStateObservation) saga" where
  "read_profile c profileID paths = bind_do (lift_result (resolve_reader c profileID))
     (\<lambda>reader. outside (\<lambda>x. reader (tc_Err c x) profileID paths x))"

definition read_saga :: "'x TailoringCoordinator \<Rightarrow> ApplicationTailoring \<Rightarrow> ('x, ProfileStateObservation) saga" where
  "read_saga c t = read_profile c (at_ProfileID t) (at_AllowedPaths t)"

definition createProposal ::
  "'x TailoringCoordinator \<Rightarrow> ProfileStateResource \<Rightarrow> ProfileStateObservation \<Rightarrow> ('x, ProfileStateProposal) saga" where
  "createProposal c resource observation =
     bind_do (outside (tc_NewID c ''profile-state-proposal'')) (\<lambda>i.
     bind_do (clock_now c) (\<lambda>at.
     bind_do (lift_result (NewProfileStateProposal i resource observation at)) (\<lambda>proposal.
     store_proposal c proposal)))"

definition write_profile ::
  "'x TailoringCoordinator \<Rightarrow> 'x ProfileStateWriter \<Rightarrow> ProfileStateProposal \<Rightarrow> ('x, ProfileStateObservation) saga" where
  "write_profile c writer proposal w =
     outside (\<lambda>x. writer (tc_Err c x) proposal x) (w\<lparr>sw_writes := sw_writes w @ [(proposal, sw_tailorings w)]\<rparr>)"

text \<open>What the coordinator accepts of a writer's answer.\<close>

definition verified :: "ProfileStateProposal \<Rightarrow> ProfileStateObservation \<Rightarrow> error + ProfileStateObservation" where
  "verified proposal observation =
     (case StateObservation_Validate observation of
        Some e \<Rightarrow> Inl (ErrWrap ''profile state writer returned invalid observation'' e)
      | None \<Rightarrow>
      case ChangesToApply observation proposal of Inl e \<Rightarrow> Inl e | Inr pending \<Rightarrow>
      if pending \<noteq> []
      then Inl (ErrOperation (OperationError ErrorAmbiguousResult ''application.tailoring.apply'' []
             ''profile state writer did not verify every tailoring field'' None [] None))
      else Inr observation)"

definition applyProposal :: "'x TailoringCoordinator \<Rightarrow> ProfileStateProposal \<Rightarrow> ('x, ProfileStateObservation) saga" where
  "applyProposal c proposal =
     bind_do (lift_result (Resolve_writer (tc_writers c) (psp_ProfileID proposal))) (\<lambda>writer.
     bind_do (write_profile c writer proposal) (\<lambda>observation. lift_result (verified proposal observation)))"

section \<open>Recovery\<close>

definition recoveryError :: "ApplicationTailoring \<Rightarrow> error" where
  "recoveryError t = ErrOperation (OperationError ErrorPermanentFailure ''application.tailoring.recovery''
     (vk_Platform (ak_Vacancy (at_Key t)))
     ''temporary resume state requires recovery before further applications'' None
     [(''tailoring_id'', at_ID t)] None)"

definition markRecovery :: "'x TailoringCoordinator \<Rightarrow> ApplicationTailoring \<Rightarrow> string \<Rightarrow> ('x, 'a) saga" where
  "markRecovery c t reason = bind_do (advance_saga c (RequireRecovery reason) t) (\<lambda>t'. fail_with (recoveryError t'))"

text \<open>An error of a read or a write: a conflict ends the saga, any other error leaves it to a retry.\<close>

definition handleMutationError ::
  "'x TailoringCoordinator \<Rightarrow> ApplicationTailoring \<Rightarrow> string \<Rightarrow> ('x, 'a) saga \<Rightarrow> ('x, 'a) saga" where
  "handleMutationError c t reason m w =
     (case m w of
        (Inr a, w') \<Rightarrow> (Inr a, w')
      | (Inl e, w') \<Rightarrow>
          if ErrorIsCategory e ErrorConflict \<or> errors_Is e ErrProfileStateChanged
          then markRecovery c t reason w' else (Inl e, w'))"

section \<open>Apply\<close>

definition begin_apply :: "'x TailoringCoordinator \<Rightarrow> ApplicationTailoring \<Rightarrow> ('x, ApplicationTailoring) saga" where
  "begin_apply c t =
     bind_do (lift_result (TailoredResource t)) (\<lambda>resource.
     bind_do (lift_result (BaselineObservation t)) (\<lambda>observation.
     bind_do (createProposal c resource observation) (\<lambda>proposal.
     advance_saga c (BeginApply (psp_ID proposal)) t)))"

definition finish_apply :: "'x TailoringCoordinator \<Rightarrow> ApplicationTailoring \<Rightarrow> ('x, ApplicationTailoring) saga" where
  "finish_apply c t =
     bind_do (stored_proposal c (at_ApplyProposalID t)) (\<lambda>proposal.
     bind_do (handleMutationError c t ''tailoring apply conflicted with current profile state'' (applyProposal c proposal))
       (\<lambda>observation. advance_saga c (RecordApplied observation) t))"

definition driveApply :: "'x TailoringCoordinator \<Rightarrow> ApplicationTailoring \<Rightarrow> ('x, ApplicationTailoring) saga" where
  "driveApply c t =
     (case at_Status t of
        TailoringPlanned \<Rightarrow> bind_do (begin_apply c t) (finish_apply c)
      | TailoringApplying \<Rightarrow> finish_apply c t
      | TailoringApplied \<Rightarrow> return_ok t
      | TailoringSubmitting \<Rightarrow> return_ok t
      | TailoringRecoveryRequired \<Rightarrow> fail_with (recoveryError t)
      | s \<Rightarrow> fail_with (Err (''cannot apply application tailoring in status '' @ quoted (tailoring_status_text s))))"

definition tailoring_params ::
  "string \<Rightarrow> Application \<Rightarrow> string \<Rightarrow> ResumeTailoringPlan \<Rightarrow> string list \<Rightarrow> ProfileStateObservation \<Rightarrow> RawMessage
    \<Rightarrow> NewApplicationTailoringParams" where
  "tailoring_params i application resumeID processorPlan paths observation target =
     \<lparr>nat_ID = i, nat_ApplicationID = app_ID application, nat_Attempt = app_Attempts application + 1,
      nat_Key = app_Key application, nat_ResumeID = resumeID, nat_ProcessorTag = rtp_ProcessorTag processorPlan,
      nat_ProcessorVersion = rtp_ProcessorVersion processorPlan,
      nat_ProcessorInputDigest = rtp_InputDigest processorPlan, nat_AllowedPaths = paths,
      nat_Baseline = observation, nat_TailoredState = target\<rparr>"

text \<open>From the processor's changes to the saga; the clock is not allowed to be behind the observation.\<close>

definition start_saga ::
  "'x TailoringCoordinator \<Rightarrow> Application \<Rightarrow> string \<Rightarrow> string list \<Rightarrow> ProfileStateObservation
    \<Rightarrow> ResumeTailoringPlan \<Rightarrow> ('x, ApplicationTailoring) saga" where
  "start_saga c application resumeID paths observation processorPlan =
     bind_do (lift_result (NewProfileStateResource (''application-tailoring:'' @ app_ID application @ '':baseline'')
       (ak_ProfileID (app_Key application)) OwnershipDeclaredFields (pso_State observation))) (\<lambda>baseline.
     bind_do (lift_result (WithOverrides (rtp_Overrides processorPlan) baseline)) (\<lambda>target.
     bind_do (outside (tc_NewID c ''application-tailoring'')) (\<lambda>i.
     bind_do (clock_now c) (\<lambda>at.
     bind_do (lift_result (NewApplicationTailoring
       (tailoring_params i application resumeID processorPlan paths observation (rsc_State target))
       (max at (pso_ObservedAt observation)))) (\<lambda>candidate.
     create_saga c candidate)))))"

text \<open>\<open>None\<close> is an application that is submitted with the resume as it is.\<close>

definition Apply_new ::
  "'x TailoringCoordinator \<Rightarrow> Application \<Rightarrow> Vacancy \<Rightarrow> 'x TailoringPlan \<Rightarrow> 'x ResumeTailoringProcessor \<Rightarrow> string
    \<Rightarrow> ('x, ApplicationTailoring option) saga" where
  "Apply_new c application vacancy plan processor resumeID =
     bind_do (read_profile c (ak_ProfileID (app_Key application)) (atp_AllowedPaths plan)) (\<lambda>observation.
     let input = \<lparr>rti_Application = application, rti_Vacancy = vacancy, rti_ResumeID = resumeID,
           rti_EmployerGroups = employerGroups (tc_lower c) plan vacancy, rti_CurrentState = observation,
           rti_AllowedPaths = atp_AllowedPaths plan\<rparr>
     in (\<lambda>w. case outside (processor (tc_Err c) input) w of
          (Inl e, w') \<Rightarrow> if errors_Is e ErrResumeTailoringSkillLimit then (Inr None, w') else (Inl e, w')
        | (Inr processorPlan, w') \<Rightarrow>
            (case TailoringPlan_Validate (tc_lower c) input processorPlan of Some e \<Rightarrow> (Inl e, w') | None \<Rightarrow>
             if rtp_Overrides processorPlan = [] then (Inr None, w')
             else bind_do (start_saga c application resumeID (atp_AllowedPaths plan) observation processorPlan)
               (\<lambda>stored. bind_do (driveApply c stored) (\<lambda>t. return_ok (Some t))) w')))"

definition tc_Apply ::
  "'x TailoringCoordinator \<Rightarrow> Application \<Rightarrow> Vacancy \<Rightarrow> 'x TailoringPlan \<Rightarrow> string
    \<Rightarrow> ('x, ApplicationTailoring option) saga" where
  "tc_Apply c application vacancy plan resumeID w =
     (case AtPlan_Validate plan of Some e \<Rightarrow> (Inl e, w) | None \<Rightarrow>
      case atp_Processor plan of None \<Rightarrow> (Inl (Err ''application tailoring plan requires processor and allowed paths''), w)
      | Some processor \<Rightarrow>
      if TrimSpace resumeID = [] then (Inl (Err ''application tailoring requires resume id''), w)
      else case saga_of_application c (app_ID application) w of
        (Inr t, w') \<Rightarrow>
          if at_Attempt t \<noteq> app_Attempts application + 1
          then (Inl (Err ''active application tailoring belongs to another submit attempt''), w')
          else bind_do (driveApply c t) (\<lambda>t. return_ok (Some t)) w'
      | (Inl e, w') \<Rightarrow>
          if \<not> errors_Is e ErrApplicationTailoringNotFound then (Inl e, w')
          else Apply_new c application vacancy plan processor resumeID w')"

section \<open>Submit and restore\<close>

text \<open>Both do nothing for an application without a saga.\<close>

definition if_saga ::
  "'x TailoringCoordinator \<Rightarrow> ApplicationID \<Rightarrow> (ApplicationTailoring \<Rightarrow> ('x, unit) saga) \<Rightarrow> ('x, unit) saga" where
  "if_saga c applicationID k w =
     (case saga_of_application c applicationID w of
        (Inr t, w') \<Rightarrow> k t w'
      | (Inl e, w') \<Rightarrow> if errors_Is e ErrApplicationTailoringNotFound then (Inr (), w') else (Inl e, w'))"

definition tc_BeginSubmit :: "'x TailoringCoordinator \<Rightarrow> ApplicationID \<Rightarrow> ('x, unit) saga" where
  "tc_BeginSubmit c applicationID = if_saga c applicationID (\<lambda>t.
     case at_Status t of
       TailoringSubmitting \<Rightarrow> return_ok ()
     | TailoringRecoveryRequired \<Rightarrow> fail_with (recoveryError t)
     | TailoringApplied \<Rightarrow>
         bind_do (read_saga c t) (\<lambda>observation.
           if pso_StateDigest observation \<noteq> at_TailoredDigest t
           then markRecovery c t ''profile state drifted after tailoring apply''
           else bind_do (advance_saga c BeginSubmit t) (\<lambda>_. return_ok ()))
     | s \<Rightarrow> fail_with (Err (''cannot begin submit with application tailoring in status '' @ quoted (tailoring_status_text s))))"

definition begin_restore :: "'x TailoringCoordinator \<Rightarrow> ApplicationTailoring \<Rightarrow> ('x, ApplicationTailoring) saga" where
  "begin_restore c t =
     bind_do (read_saga c t) (\<lambda>observation.
       if pso_StateDigest observation \<noteq> at_TailoredDigest t \<and> pso_StateDigest observation \<noteq> at_BaselineDigest t
       then markRecovery c t ''profile state drifted before tailoring restore''
       else
         bind_do (lift_result (BaselineResource t)) (\<lambda>resource.
         bind_do (createProposal c resource observation) (\<lambda>proposal.
         advance_saga c (BeginRestore (psp_ID proposal)) t)))"

definition finish_restore :: "'x TailoringCoordinator \<Rightarrow> ApplicationTailoring \<Rightarrow> ('x, unit) saga" where
  "finish_restore c t =
     bind_do (stored_proposal c (at_RestoreProposalID t)) (\<lambda>proposal.
     bind_do (handleMutationError c t ''tailoring restore conflicted with current profile state''
         (if psp_Status proposal = ProposalNoChanges then read_saga c t else applyProposal c proposal))
       (\<lambda>restored. bind_do (advance_saga c (RecordRestored restored) t) (\<lambda>_. return_ok ())))"

definition tc_Restore :: "'x TailoringCoordinator \<Rightarrow> ApplicationID \<Rightarrow> ('x, unit) saga" where
  "tc_Restore c applicationID = if_saga c applicationID (\<lambda>t.
     case at_Status t of
       TailoringRecoveryRequired \<Rightarrow> fail_with (recoveryError t)
     | TailoringApplied \<Rightarrow> bind_do (begin_restore c t) (finish_restore c)
     | TailoringSubmitting \<Rightarrow> bind_do (begin_restore c t) (finish_restore c)
     | TailoringRestoring \<Rightarrow> finish_restore c t
     | TailoringRestored \<Rightarrow> return_ok ()
     | s \<Rightarrow> fail_with (Err (''cannot restore application tailoring in status '' @ quoted (tailoring_status_text s))))"

end
