(* ===== verification/Tailoring_Inv.thy ===== *)
theory Tailoring_Inv
  imports TailoringRun
begin

text \<open>
  What the repository and the coordinator keep of the sagas: the locks name exactly the sagas that
  are not restored, a saga's proposals are stored and lead to its own two states, and every write was
  made for the saga that held the lock of the profile.
\<close>

section \<open>Transitions\<close>

definition same_saga :: "ApplicationTailoring \<Rightarrow> ApplicationTailoring \<Rightarrow> bool" where
  "same_saga t t' \<longleftrightarrow> at_ID t' = at_ID t \<and> sameApplicationTailoringInputs t t'"

text \<open>A transition from \<open>t\<close> to \<open>t'\<close> that can be saved under the revision of \<open>t\<close>.\<close>

definition saga_edge :: "ApplicationTailoring \<Rightarrow> ApplicationTailoring \<Rightarrow> bool" where
  "saga_edge t t' \<longleftrightarrow> same_saga t t' \<and> at_Revision t' = at_Revision t + 1 \<and> Tailoring_Validate t' = None
     \<and> at_Status t \<noteq> TailoringRestored \<and> at_Status t \<noteq> TailoringRecoveryRequired"

lemma tailoring_step_None:
  "tailoring_step at f t = (None, t') \<longleftrightarrow> \<not> IsZero at \<and> at_UpdatedAt t \<le> at
     \<and> t' = f (t\<lparr>at_Revision := at_Revision t + 1, at_UpdatedAt := at\<rparr>) \<and> Tailoring_Validate t' = None"
  by (auto simp: tailoring_step_def tailoring_advance_def split: option.splits if_splits)

lemma BeginApply_None:
  "BeginApply i at t = (None, t') \<Longrightarrow> at_Status t = TailoringPlanned \<and> i \<noteq> [] \<and> saga_edge t t'
    \<and> at_Status t' = TailoringApplying \<and> at_ApplyProposalID t' = i \<and> at_RestoreProposalID t' = at_RestoreProposalID t"
  by (auto simp: BeginApply_def tailoring_step_None saga_edge_def same_saga_def sameApplicationTailoringInputs_def
      split: if_splits)

lemma RecordApplied_None:
  "RecordApplied obs at t = (None, t') \<Longrightarrow> at_Status t = TailoringApplying \<and> saga_edge t t'
    \<and> at_Status t' = TailoringApplied \<and> pso_StateDigest obs = at_TailoredDigest t \<and> pso_ProfileID obs = at_ProfileID t
    \<and> at_ApplyProposalID t' = at_ApplyProposalID t \<and> at_RestoreProposalID t' = at_RestoreProposalID t"
  by (auto simp: RecordApplied_def tailoring_step_None saga_edge_def same_saga_def sameApplicationTailoringInputs_def
      split: if_splits)

lemma BeginSubmit_None:
  "BeginSubmit at t = (None, t') \<Longrightarrow> at_Status t = TailoringApplied \<and> saga_edge t t' \<and> at_Status t' = TailoringSubmitting
    \<and> at_ApplyProposalID t' = at_ApplyProposalID t \<and> at_RestoreProposalID t' = at_RestoreProposalID t"
  by (auto simp: BeginSubmit_def tailoring_step_None saga_edge_def same_saga_def sameApplicationTailoringInputs_def
      split: if_splits)

lemma BeginRestore_None:
  "BeginRestore i at t = (None, t') \<Longrightarrow> at_Status t \<in> {TailoringApplied, TailoringSubmitting} \<and> i \<noteq> [] \<and> saga_edge t t'
    \<and> at_Status t' = TailoringRestoring \<and> at_RestoreProposalID t' = i \<and> at_ApplyProposalID t' = at_ApplyProposalID t"
  by (auto simp: BeginRestore_def tailoring_step_None saga_edge_def same_saga_def sameApplicationTailoringInputs_def
      split: if_splits)

lemma RecordRestored_None:
  "RecordRestored obs at t = (None, t') \<Longrightarrow> at_Status t = TailoringRestoring \<and> saga_edge t t'
    \<and> at_Status t' = TailoringRestored \<and> pso_StateDigest obs = at_BaselineDigest t \<and> pso_ProfileID obs = at_ProfileID t
    \<and> at_ApplyProposalID t' = at_ApplyProposalID t \<and> at_RestoreProposalID t' = at_RestoreProposalID t"
  by (auto simp: RecordRestored_def tailoring_step_None saga_edge_def same_saga_def sameApplicationTailoringInputs_def
      split: if_splits)

lemma RequireRecovery_None:
  "at_Status t \<noteq> TailoringRecoveryRequired \<Longrightarrow> RequireRecovery reason at t = (None, t') \<Longrightarrow> saga_edge t t'
    \<and> at_Status t' = TailoringRecoveryRequired
    \<and> at_ApplyProposalID t' = at_ApplyProposalID t \<and> at_RestoreProposalID t' = at_RestoreProposalID t"
  by (auto simp: RequireRecovery_def tailoring_step_None saga_edge_def same_saga_def sameApplicationTailoringInputs_def
      split: if_splits)

section \<open>The sagas of the repository\<close>

abbreviation saga_at :: "Tailorings \<Rightarrow> ApplicationTailoringID \<Rightarrow> ApplicationTailoring option" where
  "saga_at s i \<equiv> map_of (ts_tailorings s) i"

definition active :: "ApplicationTailoring \<Rightarrow> bool" where
  "active t \<longleftrightarrow> at_Status t \<noteq> TailoringRestored"

definition tailorings_ok :: "Tailorings \<Rightarrow> bool" where
  "tailorings_ok s \<longleftrightarrow>
     (\<forall>i t. saga_at s i = Some t \<longrightarrow> at_ID t = i \<and> Tailoring_Validate t = None)
   \<and> (\<forall>p i. map_of (ts_profiles s) p = Some i \<longleftrightarrow> (\<exists>t. saga_at s i = Some t \<and> at_ProfileID t = p \<and> active t))
   \<and> (\<forall>a i. map_of (ts_applications s) a = Some i \<longleftrightarrow> (\<exists>t. saga_at s i = Some t \<and> at_ApplicationID t = a \<and> active t))"

lemma tailorings_okD:
  assumes "tailorings_ok s"
  shows "saga_at s i = Some t \<Longrightarrow> at_ID t = i" "saga_at s i = Some t \<Longrightarrow> Tailoring_Validate t = None"
    "map_of (ts_profiles s) p = Some i \<longleftrightarrow> (\<exists>t. saga_at s i = Some t \<and> at_ProfileID t = p \<and> active t)"
    "map_of (ts_applications s) a = Some i \<longleftrightarrow> (\<exists>t. saga_at s i = Some t \<and> at_ApplicationID t = a \<and> active t)"
  using assms unfolding tailorings_ok_def by blast+

lemma same_saga_keys:
  "same_saga t t' \<Longrightarrow> at_ID t' = at_ID t \<and> at_ProfileID t' = at_ProfileID t \<and> at_ApplicationID t' = at_ApplicationID t
    \<and> at_TailoredState t' = at_TailoredState t \<and> at_BaselineState t' = at_BaselineState t
    \<and> at_TailoredDigest t' = at_TailoredDigest t \<and> at_BaselineDigest t' = at_BaselineDigest t"
  by (simp add: same_saga_def sameApplicationTailoringInputs_def)

lemma Save_edge:
  assumes ok: "tailorings_ok s" and cur: "saga_at s (at_ID t) = Some t" and edge: "saga_edge t t'"
    and r: "SaveApplicationTailoring ctx t' (at_Revision t) s = (r, s')"
  shows "r \<noteq> None \<and> s' = s \<or> r = None \<and> tailorings_ok s' \<and> (\<forall>i. saga_at s' i = ((saga_at s)(at_ID t \<mapsto> t')) i)"
proof (cases ctx)
  case (Some e)
  then show ?thesis using r by (auto simp: SaveApplicationTailoring_def)
next
  case None
  have e: "at_ID t' = at_ID t" "sameApplicationTailoringInputs t t'" "at_Revision t' = at_Revision t + 1"
    "Tailoring_Validate t' = None" "active t"
    using edge by (auto simp: saga_edge_def same_saga_def active_def)
  have k: "at_ProfileID t' = at_ProfileID t" "at_ApplicationID t' = at_ApplicationID t"
    using edge same_saga_keys by (auto simp: saga_edge_def)
  have lp: "map_of (ts_profiles s) (at_ProfileID t) = Some (at_ID t)"
    and la: "map_of (ts_applications s) (at_ApplicationID t) = Some (at_ID t)"
    using cur e(5) tailorings_okD(3,4) [OF ok] by blast+
  let ?s = "s\<lparr>ts_tailorings := AList.update (at_ID t) t' (ts_tailorings s)\<rparr>"
  have s': "r = None" "s' = (if at_Status t' = TailoringRestored then release_tailoring t' ?s
      else ?s\<lparr>ts_profiles := AList.update (at_ProfileID t) (at_ID t) (ts_profiles s)\<rparr>)"
    using r None cur e k by (auto simp: SaveApplicationTailoring_def Let_def)
  have at: "saga_at s' i = ((saga_at s)(at_ID t \<mapsto> t')) i" for i
    using s'(2) by (simp add: release_tailoring_def Let_def)
  have p: "map_of (ts_profiles s') q = (if q = at_ProfileID t \<and> \<not> active t' then None else map_of (ts_profiles s) q)" for q
    using s'(2) lp k e(1) by (simp add: release_tailoring_def Let_def active_def)
  have a: "map_of (ts_applications s') q = (if q = at_ApplicationID t \<and> \<not> active t' then None else map_of (ts_applications s) q)" for q
    using s'(2) la k e(1) by (simp add: release_tailoring_def Let_def active_def)
  have "tailorings_ok s'"
    unfolding tailorings_ok_def
  proof (intro conjI allI)
    fix i u show "saga_at s' i = Some u \<longrightarrow> at_ID u = i \<and> Tailoring_Validate u = None"
      using at e(1,4) tailorings_okD(1,2) [OF ok] by (auto split: if_splits)
  next
    fix q i show "map_of (ts_profiles s') q = Some i \<longleftrightarrow> (\<exists>u. saga_at s' i = Some u \<and> at_ProfileID u = q \<and> active u)"
      using tailorings_okD(3) [OF ok, of q i] cur k(1) e(5) lp by (auto simp: at p)
  next
    fix q i show "map_of (ts_applications s') q = Some i \<longleftrightarrow> (\<exists>u. saga_at s' i = Some u \<and> at_ApplicationID u = q \<and> active u)"
      using tailorings_okD(4) [OF ok, of q i] cur k(2) e(5) la by (auto simp: at a)
  qed
  with at s'(1) show ?thesis by simp
qed

lemma Create_ok:
  assumes ok: "tailorings_ok s" and r: "CreateApplicationTailoring ctx t s = (Inr (u, created), s')"
    and planned: "at_Status t = TailoringPlanned"
  shows "tailorings_ok s' \<and> saga_at s' (at_ID u) = Some u
    \<and> (s' = s \<or> u = t \<and> saga_at s (at_ID t) = None \<and> (\<forall>i. saga_at s' i = ((saga_at s)(at_ID t \<mapsto> t)) i))"
proof (cases "saga_at s (at_ID t)")
  case (Some stored)
  then have "u = stored" "s' = s"
    using r by (auto simp: CreateApplicationTailoring_def split: option.splits if_splits)
  then show ?thesis using ok Some tailorings_okD(1) [OF ok Some] by simp
next
  case none: None
  show ?thesis
  proof (cases "map_of (ts_applications s) (at_ApplicationID t)")
    case (Some i)
    then have u: "u = stored_tailoring s i" "s' = s"
      using r none by (auto simp: CreateApplicationTailoring_def split: option.splits if_splits)
    from Some obtain v where "saga_at s i = Some v" using tailorings_okD(4) [OF ok] by blast
    with u show ?thesis using ok tailorings_okD(1) [OF ok] by (simp add: stored_tailoring_def)
  next
    case None
    then have nl: "map_of (ts_profiles s) (at_ProfileID t) = None"
      and v: "Tailoring_Validate t = None"
      and u: "u = t" and s': "s' = s\<lparr>ts_tailorings := AList.update (at_ID t) t (ts_tailorings s),
             ts_applications := AList.update (at_ApplicationID t) (at_ID t) (ts_applications s),
             ts_profiles := AList.update (at_ProfileID t) (at_ID t) (ts_profiles s)\<rparr>"
      using r none by (auto simp: CreateApplicationTailoring_def split: option.splits if_splits)
    have at: "saga_at s' i = ((saga_at s)(at_ID t \<mapsto> t)) i" for i using s' by simp
    have act: "active t" using planned by (simp add: active_def)
    have "tailorings_ok s'"
      unfolding tailorings_ok_def
    proof (intro conjI allI)
      fix i x show "saga_at s' i = Some x \<longrightarrow> at_ID x = i \<and> Tailoring_Validate x = None"
        using at v tailorings_okD(1,2) [OF ok] by (auto split: if_splits)
    next
      fix q i
      have "map_of (ts_profiles s') q = ((map_of (ts_profiles s))(at_ProfileID t \<mapsto> at_ID t)) q" using s' by simp
      then show "map_of (ts_profiles s') q = Some i \<longleftrightarrow> (\<exists>x. saga_at s' i = Some x \<and> at_ProfileID x = q \<and> active x)"
        using tailorings_okD(3) [OF ok, of q i] nl none act
        by (auto simp: at dest: tailorings_okD(3) [OF ok, THEN iffD2, OF exI])
    next
      fix q i
      have "map_of (ts_applications s') q = ((map_of (ts_applications s))(at_ApplicationID t \<mapsto> at_ID t)) q" using s' by simp
      then show "map_of (ts_applications s') q = Some i \<longleftrightarrow> (\<exists>x. saga_at s' i = Some x \<and> at_ApplicationID x = q \<and> active x)"
        using tailorings_okD(4) [OF ok, of q i] None none act
        by (auto simp: at dest: tailorings_okD(4) [OF ok, THEN iffD2, OF exI])
    qed
    then show ?thesis using at u none by simp
  qed
qed

lemma Create_error: "CreateApplicationTailoring ctx t s = (Inl e, s') \<Longrightarrow> s' = s"
  by (auto simp: CreateApplicationTailoring_def split: option.splits if_splits)

section \<open>The proposals of the repository\<close>

abbreviation proposal_at :: "ProfileStates \<Rightarrow> ProfileStateProposalID \<Rightarrow> ProfileStateProposal option" where
  "proposal_at ps i \<equiv> map_of (ps_proposals ps) i"

definition proposals_ok :: "ProfileStates \<Rightarrow> bool" where
  "proposals_ok ps \<longleftrightarrow> (\<forall>i p. proposal_at ps i = Some p \<longrightarrow> psp_ID p = i \<and> Proposal_Validate p = None)
     \<and> (\<forall>k i. map_of (ps_keys ps) k = Some i \<longrightarrow> proposal_at ps i \<noteq> None)"

text \<open>The store only grows, and a proposal that is there already stands for the same change.\<close>

lemma Create_proposal:
  assumes ok: "proposals_ok ps" and r: "CreateProfileStateProposal ctx p ps = (r, ps')"
  shows "proposals_ok ps' \<and> (\<forall>i q. proposal_at ps i = Some q \<longrightarrow> proposal_at ps' i = Some q)
    \<and> (\<forall>q b. r = Inr (q, b) \<longrightarrow> proposal_at ps' (psp_ID q) = Some q \<and> psp_ProfileID q = psp_ProfileID p
        \<and> psp_DesiredState q = psp_DesiredState p)"
proof (cases "\<exists>e. r = Inl e")
  case True
  then have "ps' = ps" using r by (auto simp: CreateProfileStateProposal_def Let_def split: option.splits if_splits)
  then show ?thesis using ok True by auto
next
  case False
  then obtain q b where rq: "r = Inr (q, b)" by (cases r) auto
  have v: "Proposal_Validate p = None" and c: "ctx = None"
    using r rq by (auto simp: CreateProfileStateProposal_def split: option.splits)
  show ?thesis
  proof (cases "proposal_at ps (psp_ID p)")
    case (Some stored)
    then have "q = stored" "ps' = ps" "sameProfileStateProposal stored p"
      using r rq v c by (auto simp: CreateProfileStateProposal_def split: if_splits)
    then show ?thesis using ok Some rq
      by (auto simp: proposals_ok_def sameProfileStateProposal_def sameProfileStateProposalInputs_def)
  next
    case none: None
    show ?thesis
    proof (cases "map_of (ps_keys ps) (psp_IdempotencyKey p)")
      case (Some i)
      then have "proposal_at ps i \<noteq> None" using ok unfolding proposals_ok_def by blast
      then obtain stored where st: "proposal_at ps i = Some stored" by blast
      then have "q = stored" "ps' = ps" "sameProfileStateProposalInputs stored p"
        using r rq v c none Some by (auto simp: CreateProfileStateProposal_def Let_def split: if_splits)
      then show ?thesis using ok st rq by (auto simp: proposals_ok_def sameProfileStateProposalInputs_def)
    next
      case None
      then have q: "q = p" and ps': "ps' = ps\<lparr>ps_proposals := AList.update (psp_ID p) p (ps_proposals ps),
           ps_keys := AList.update (psp_IdempotencyKey p) (psp_ID p) (ps_keys ps)\<rparr>"
        using r rq v c none by (auto simp: CreateProfileStateProposal_def)
      have "proposals_ok ps'" using ok v unfolding proposals_ok_def ps' by auto
      then show ?thesis using q rq none ps' by auto
    qed
  qed
qed

section \<open>The invariant\<close>

text \<open>The proposals of a saga lead to its tailored and to its baseline state.\<close>

definition leads_to :: "ProfileStates \<Rightarrow> ProfileStateProposalID \<Rightarrow> ProfileID \<Rightarrow> RawMessage \<Rightarrow> bool" where
  "leads_to ps i profile state \<longleftrightarrow>
     (\<exists>p. proposal_at ps i = Some p \<and> psp_ProfileID p = profile \<and> psp_DesiredState p = state)"

definition linked :: "ProfileStates \<Rightarrow> ApplicationTailoring \<Rightarrow> bool" where
  "linked ps t \<longleftrightarrow> (at_ApplyProposalID t \<noteq> [] \<longrightarrow> leads_to ps (at_ApplyProposalID t) (at_ProfileID t) (at_TailoredState t))
     \<and> (at_RestoreProposalID t \<noteq> [] \<longrightarrow> leads_to ps (at_RestoreProposalID t) (at_ProfileID t) (at_BaselineState t))"

text \<open>A proposal that may be written while the sagas are \<open>s\<close>: that of the saga which holds the profile.\<close>

definition may_write :: "ProfileStateProposal \<Rightarrow> Tailorings \<Rightarrow> bool" where
  "may_write p s \<longleftrightarrow> (\<exists>t. map_of (ts_profiles s) (psp_ProfileID p) = Some (at_ID t) \<and> saga_at s (at_ID t) = Some t
     \<and> (at_Status t = TailoringApplying \<and> psp_ID p = at_ApplyProposalID t \<and> psp_DesiredState p = at_TailoredState t
      \<or> at_Status t = TailoringRestoring \<and> psp_ID p = at_RestoreProposalID t \<and> psp_DesiredState p = at_BaselineState t))"

text \<open>The sagas that require recovery in \<open>s\<close> are still as they were.\<close>

definition frozen :: "Tailorings \<Rightarrow> Tailorings \<Rightarrow> bool" where
  "frozen s s' \<longleftrightarrow> (\<forall>i t. saga_at s i = Some t \<longrightarrow> at_Status t = TailoringRecoveryRequired \<longrightarrow> saga_at s' i = Some t)"

lemma frozen_update:
  assumes "frozen s0 s" "\<And>u. saga_at s i = Some u \<Longrightarrow> at_Status u \<noteq> TailoringRecoveryRequired"
    "\<And>j. saga_at s' j = ((saga_at s)(i \<mapsto> t)) j"
  shows "frozen s0 s'"
  unfolding frozen_def
proof (intro allI impI)
  fix j u assume "saga_at s0 j = Some u" "at_Status u = TailoringRecoveryRequired"
  then have "saga_at s j = Some u" using assms(1) unfolding frozen_def by blast
  moreover then have "j \<noteq> i" using assms(2) \<open>at_Status u = TailoringRecoveryRequired\<close> by auto
  ultimately show "saga_at s' j = Some u" using assms(3) by simp
qed

text \<open>A world that is good, and that has come from \<open>w0\<close>.\<close>

definition saga_ok :: "'x SagaWorld \<Rightarrow> 'x SagaWorld \<Rightarrow> bool" where
  "saga_ok w0 w \<longleftrightarrow> tailorings_ok (sw_tailorings w) \<and> proposals_ok (sw_states w)
     \<and> (\<forall>i t. saga_at (sw_tailorings w) i = Some t \<longrightarrow> linked (sw_states w) t)
     \<and> (\<forall>(p, s) \<in> set (sw_writes w). may_write p s \<and> tailorings_ok s)
     \<and> frozen (sw_tailorings w0) (sw_tailorings w)
     \<and> (\<exists>added. sw_writes w = sw_writes w0 @ added \<and> (\<forall>(p, s) \<in> set added. frozen (sw_tailorings w0) s))"

lemma saga_okD:
  assumes "saga_ok w0 w"
  shows "tailorings_ok (sw_tailorings w)" "proposals_ok (sw_states w)"
    "saga_at (sw_tailorings w) i = Some t \<Longrightarrow> linked (sw_states w) t"
    "(p, s) \<in> set (sw_writes w) \<Longrightarrow> may_write p s \<and> tailorings_ok s"
    "frozen (sw_tailorings w0) (sw_tailorings w)"
    "\<exists>added. sw_writes w = sw_writes w0 @ added \<and> (\<forall>(p, s) \<in> set added. frozen (sw_tailorings w0) s)"
  using assms unfolding saga_ok_def by blast+

lemma saga_ok_ext [simp]: "saga_ok w0 (w\<lparr>sw_ext := x\<rparr>) = saga_ok w0 w"
  by (simp add: saga_ok_def)

section \<open>Triples\<close>

text \<open>
  \<open>triple w0 P m Q E\<close>: from a good world with \<open>P\<close>, the operation ends in a good world, with \<open>Q\<close> where it
  returns and with \<open>E\<close> where it fails.
\<close>

definition triple ::
  "'x SagaWorld \<Rightarrow> ('x SagaWorld \<Rightarrow> bool) \<Rightarrow> ('x, 'a) saga \<Rightarrow> ('a \<Rightarrow> 'x SagaWorld \<Rightarrow> bool) \<Rightarrow> ('x SagaWorld \<Rightarrow> bool) \<Rightarrow> bool" where
  "triple w0 P m Q E \<longleftrightarrow> (\<forall>w r w'. saga_ok w0 w \<longrightarrow> P w \<longrightarrow> m w = (r, w') \<longrightarrow>
     saga_ok w0 w' \<and> (case r of Inl e \<Rightarrow> E w' | Inr a \<Rightarrow> Q a w'))"

lemma tripleI:
  "(\<And>w r w'. saga_ok w0 w \<Longrightarrow> P w \<Longrightarrow> m w = (r, w') \<Longrightarrow> saga_ok w0 w' \<and> (case r of Inl e \<Rightarrow> E w' | Inr a \<Rightarrow> Q a w')) \<Longrightarrow> triple w0 P m Q E"
  by (simp add: triple_def)

lemma tripleD:
  "triple w0 P m Q E \<Longrightarrow> saga_ok w0 w \<Longrightarrow> P w \<Longrightarrow> m w = (r, w')
    \<Longrightarrow> saga_ok w0 w' \<and> (case r of Inl e \<Rightarrow> E w' | Inr a \<Rightarrow> Q a w')"
  by (simp add: triple_def)

lemma triple_bind:
  assumes "triple w0 P m M E" "\<And>a. triple w0 (M a) (k a) Q E"
  shows "triple w0 P (bind_do m k) Q E"
proof (rule tripleI)
  fix w r w' assume ok: "saga_ok w0 w" "P w" and r: "bind_do m k w = (r, w')"
  obtain r1 w1 where m: "m w = (r1, w1)" by fastforce
  note first = tripleD [OF assms(1) ok m]
  show "saga_ok w0 w' \<and> (case r of Inl e \<Rightarrow> E w' | Inr a \<Rightarrow> Q a w')"
  proof (cases r1)
    case (Inl e)
    then show ?thesis using first r m by (auto simp: bind_do_def)
  next
    case (Inr a)
    then have "saga_ok w0 w1" "M a w1" "k a w1 = (r, w')" using first r m by (auto simp: bind_do_def)
    then show ?thesis using tripleD [OF assms(2)] by blast
  qed
qed

lemma triple_return: "(\<And>w. P w \<Longrightarrow> Q a w) \<Longrightarrow> triple w0 P (return_ok a) Q E"
  by (auto simp: triple_def return_ok_def)

lemma triple_fail: "(\<And>w. P w \<Longrightarrow> E w) \<Longrightarrow> triple w0 P (fail_with e) Q E"
  by (auto simp: triple_def fail_with_def)

lemma triple_lift: "(\<And>a w. r = Inr a \<Longrightarrow> P w \<Longrightarrow> Q a w) \<Longrightarrow> (\<And>w. P w \<Longrightarrow> E w) \<Longrightarrow> triple w0 P (lift_result r) Q E"
  by (auto simp: triple_def lift_result_def split: sum.split)

lemma triple_weaken:
  "triple w0 P m Q E \<Longrightarrow> (\<And>w. P' w \<Longrightarrow> P w) \<Longrightarrow> (\<And>a w. Q a w \<Longrightarrow> Q' a w) \<Longrightarrow> (\<And>w. E w \<Longrightarrow> E' w) \<Longrightarrow> triple w0 P' m Q' E'"
  unfolding triple_def by (metis (no_types, lifting) sum.case_eq_if)

lemma triple_if: "(b \<Longrightarrow> triple w0 P m Q E) \<Longrightarrow> (\<not> b \<Longrightarrow> triple w0 P m' Q E) \<Longrightarrow> triple w0 P (if b then m else m') Q E"
  by simp

text \<open>What does not depend on the outside world.\<close>

definition stable :: "('x SagaWorld \<Rightarrow> bool) \<Rightarrow> bool" where
  "stable P \<longleftrightarrow> (\<forall>w x. P w \<longrightarrow> P (w\<lparr>sw_ext := x\<rparr>))"

lemma triple_outside: "stable P \<Longrightarrow> triple w0 P (outside f) (\<lambda>_. P) P"
  by (auto simp: triple_def outside_def stable_def split: prod.splits sum.split)

lemma triple_now: "stable P \<Longrightarrow> triple w0 P (clock_now c) (\<lambda>_. P) P"
  unfolding clock_now_def by (rule triple_outside)

lemma triple_now_any: "stable P \<Longrightarrow> triple w0 P (clock_now c) (\<lambda>_. P) (\<lambda>_. True)"
  by (rule triple_weaken [OF triple_now]) auto

lemma triple_read: "stable P \<Longrightarrow> triple w0 P (read_profile c p paths) (\<lambda>_. P) P"
  unfolding read_profile_def by (rule triple_bind [where M = "\<lambda>_. P"]) (auto intro: triple_outside triple_lift)

definition current :: "ApplicationTailoring \<Rightarrow> 'x SagaWorld \<Rightarrow> bool" where
  "current t w \<longleftrightarrow> saga_at (sw_tailorings w) (at_ID t) = Some t"

definition has_proposal :: "ProfileStateProposal \<Rightarrow> 'x SagaWorld \<Rightarrow> bool" where
  "has_proposal p w \<longleftrightarrow> proposal_at (sw_states w) (psp_ID p) = Some p"

lemma stable_current [simp]: "stable (current t)" "stable (\<lambda>w. current t w \<and> has_proposal p w \<and> B)"
  by (simp_all add: stable_def current_def has_proposal_def)

section \<open>The operations of the repository\<close>

lemma triple_store:
  "triple w0 (current t) (store_proposal c p)
     (\<lambda>q w. current t w \<and> has_proposal q w \<and> psp_ProfileID q = psp_ProfileID p \<and> psp_DesiredState q = psp_DesiredState p)
     (current t)"
proof (rule tripleI)
  fix w r w' assume ok: "saga_ok w0 w" "current t w" and r: "store_proposal c p w = (r, w')"
  obtain r1 ps where c: "CreateProfileStateProposal (tc_Err c (sw_ext w)) p (sw_states w) = (r1, ps)" by fastforce
  note g = Create_proposal [OF saga_okD(2) [OF ok(1)] c]
  have w': "w' = w\<lparr>sw_states := ps\<rparr>" using r c by (auto simp: store_proposal_def split: sum.splits)
  have "linked ps u" if "linked (sw_states w) u" for u
    using that g unfolding linked_def leads_to_def by blast
  then have "saga_ok w0 w'" using ok(1) g unfolding saga_ok_def w' by auto
  moreover have "current t w'" using ok(2) by (simp add: current_def w')
  ultimately show "saga_ok w0 w' \<and> (case r of Inl e \<Rightarrow> current t w' | Inr q \<Rightarrow> current t w' \<and> has_proposal q w'
      \<and> psp_ProfileID q = psp_ProfileID p \<and> psp_DesiredState q = psp_DesiredState p)"
    using r c g w' by (auto simp: store_proposal_def has_proposal_def split: sum.splits)
qed

lemma New_proposal:
  "NewProfileStateProposal i resource observation at = Inr p
    \<Longrightarrow> psp_ProfileID p = rsc_ProfileID resource \<and> psp_DesiredState p = rsc_State resource \<and> Proposal_Validate p = None"
  by (auto simp: NewProfileStateProposal_def Let_def split: if_splits option.splits sum.splits)

lemma triple_createProposal:
  "triple w0 (current t) (createProposal c resource observation)
     (\<lambda>q w. current t w \<and> has_proposal q w \<and> psp_ProfileID q = rsc_ProfileID resource \<and> psp_DesiredState q = rsc_State resource)
     (current t)"
  unfolding createProposal_def
proof (rule triple_bind [OF triple_outside [OF stable_current(1)]])
  fix i show "triple w0 (current t) (bind_do (clock_now c) (\<lambda>at.
      bind_do (lift_result (NewProfileStateProposal i resource observation at)) (store_proposal c)))
     (\<lambda>q w. current t w \<and> has_proposal q w \<and> psp_ProfileID q = rsc_ProfileID resource \<and> psp_DesiredState q = rsc_State resource)
     (current t)"
  proof (rule triple_bind [OF triple_now [OF stable_current(1)]])
    fix at show "triple w0 (current t)
        (bind_do (lift_result (NewProfileStateProposal i resource observation at)) (store_proposal c))
       (\<lambda>q w. current t w \<and> has_proposal q w \<and> psp_ProfileID q = rsc_ProfileID resource \<and> psp_DesiredState q = rsc_State resource)
       (current t)"
    proof (rule triple_bind [where M = "\<lambda>p w. current t w \<and> psp_ProfileID p = rsc_ProfileID resource
          \<and> psp_DesiredState p = rsc_State resource"])
      show "triple w0 (current t) (lift_result (NewProfileStateProposal i resource observation at))
          (\<lambda>p w. current t w \<and> psp_ProfileID p = rsc_ProfileID resource \<and> psp_DesiredState p = rsc_State resource) (current t)"
        by (rule triple_lift) (auto dest: New_proposal)
      fix p show "triple w0 (\<lambda>w. current t w \<and> psp_ProfileID p = rsc_ProfileID resource \<and> psp_DesiredState p = rsc_State resource)
          (store_proposal c p)
          (\<lambda>q w. current t w \<and> has_proposal q w \<and> psp_ProfileID q = rsc_ProfileID resource \<and> psp_DesiredState q = rsc_State resource)
          (current t)"
      proof (cases "psp_ProfileID p = rsc_ProfileID resource \<and> psp_DesiredState p = rsc_State resource")
        case True
        show ?thesis by (rule triple_weaken [OF triple_store]) (use True in auto)
      qed (auto simp: triple_def)
    qed
  qed
qed

text \<open>A transition is saved, and its outcome is current.\<close>

lemma triple_advance:
  assumes step: "\<And>at t'. step at t = (None, t') \<Longrightarrow> saga_edge t t' \<and> R t'"
    and link: "\<And>w t'. P w \<Longrightarrow> saga_ok w0 w \<Longrightarrow> R t' \<Longrightarrow> saga_edge t t' \<Longrightarrow> linked (sw_states w) t'"
    and P: "stable P" "\<And>w. P w \<Longrightarrow> current t w"
  shows "triple w0 P (advance_saga c step t) (\<lambda>t' w. R t' \<and> saga_edge t t' \<and> current t' w) (\<lambda>_. True)"
  unfolding advance_saga_def
proof (rule triple_bind [OF triple_now_any [OF P(1)]])
  fix at
  show "triple w0 P (case step at t of (Some e, t') \<Rightarrow> fail_with e
      | (None, t') \<Rightarrow> bind_do (save_saga c t' (at_Revision t)) (\<lambda>_. return_ok t'))
     (\<lambda>t' w. R t' \<and> saga_edge t t' \<and> current t' w) (\<lambda>_. True)"
  proof (cases "step at t")
    case (Pair r t')
    show ?thesis
    proof (cases r)
      case None
      with Pair step have s: "saga_edge t t'" "R t'" by auto
      have "triple w0 P (save_saga c t' (at_Revision t)) (\<lambda>_ w. current t' w) (\<lambda>_. True)"
      proof (rule tripleI)
        fix w r w' assume ok: "saga_ok w0 w" "P w" and r: "save_saga c t' (at_Revision t) w = (r, w')"
        obtain r1 ts where sv: "SaveApplicationTailoring (tc_Err c (sw_ext w)) t' (at_Revision t) (sw_tailorings w) = (r1, ts)"
          by fastforce
        have w': "w' = w\<lparr>sw_tailorings := ts\<rparr>" "r = (case r1 of Some e \<Rightarrow> Inl e | None \<Rightarrow> Inr ())"
          using r sv by (auto simp: save_saga_def split: option.splits)
        have cur: "saga_at (sw_tailorings w) (at_ID t) = Some t" using P(2) [OF ok(2)] by (simp add: current_def)
        have l: "linked (sw_states w) t'" using link ok s by blast
        from Save_edge [OF saga_okD(1) [OF ok(1)] cur s(1) sv]
        show "saga_ok w0 w' \<and> (case r of Inl e \<Rightarrow> True | Inr a \<Rightarrow> current t' w')"
        proof
          assume "r1 \<noteq> None \<and> ts = sw_tailorings w"
          then show ?thesis using ok(1) w' by auto
        next
          assume g: "r1 = None \<and> tailorings_ok ts \<and> (\<forall>i. saga_at ts i = ((saga_at (sw_tailorings w))(at_ID t \<mapsto> t')) i)"
          moreover have "frozen (sw_tailorings w0) ts"
            by (rule frozen_update [where i = "at_ID t" and t = t', OF saga_okD(5) [OF ok(1)]]) (use cur s(1) g in \<open>auto simp: saga_edge_def\<close>)
          ultimately have "saga_ok w0 w'" using ok(1) l unfolding saga_ok_def w'(1) by auto
          moreover have "at_ID t' = at_ID t" using s(1) by (simp add: saga_edge_def same_saga_def)
          ultimately show ?thesis using g w' by (simp add: current_def)
        qed
      qed
      then have "triple w0 P (bind_do (save_saga c t' (at_Revision t)) (\<lambda>_. return_ok t'))
          (\<lambda>t' w. R t' \<and> saga_edge t t' \<and> current t' w) (\<lambda>_. True)"
        by (rule triple_bind) (rule triple_return, use s in auto)
      then show ?thesis using Pair None by simp
    next
      case (Some e)
      then show ?thesis using Pair by (auto intro: triple_fail)
    qed
  qed
qed

text \<open>Transitions that keep the proposals keep the links.\<close>

lemma linked_same:
  "saga_edge t t' \<Longrightarrow> at_ApplyProposalID t' = at_ApplyProposalID t \<Longrightarrow> at_RestoreProposalID t' = at_RestoreProposalID t
    \<Longrightarrow> linked ps t \<Longrightarrow> linked ps t'"
  using same_saga_keys [of t t'] by (simp add: saga_edge_def linked_def)

lemma current_linked: "saga_ok w0 w \<Longrightarrow> current t w \<Longrightarrow> linked (sw_states w) t"
  using saga_okD(3) unfolding current_def by blast

lemma triple_step:
  assumes "\<And>at t'. step at t = (None, t') \<Longrightarrow> saga_edge t t' \<and> at_ApplyProposalID t' = at_ApplyProposalID t
      \<and> at_RestoreProposalID t' = at_RestoreProposalID t \<and> R t'"
  shows "triple w0 (current t) (advance_saga c step t) (\<lambda>t' w. R t' \<and> saga_edge t t' \<and> current t' w) (\<lambda>_. True)"
proof (rule triple_weaken [OF triple_advance [where P = "current t" and
      R = "\<lambda>t'. at_ApplyProposalID t' = at_ApplyProposalID t \<and> at_RestoreProposalID t' = at_RestoreProposalID t \<and> R t'"]])
  show "saga_edge t t' \<and> at_ApplyProposalID t' = at_ApplyProposalID t \<and> at_RestoreProposalID t' = at_RestoreProposalID t \<and> R t'"
    if "step at t = (None, t')" for at t' using assms [OF that] by blast
qed (auto intro: linked_same current_linked)

lemma triple_recovery:
  assumes "at_Status t \<noteq> TailoringRecoveryRequired"
  shows "triple w0 (current t) (markRecovery c t reason) (\<lambda>_ _. False) (\<lambda>_. True)"
  unfolding markRecovery_def
  by (rule triple_bind [OF triple_step [where R = "\<lambda>_. True"]]) (use assms in \<open>auto dest: RequireRecovery_None intro: triple_fail\<close>)

lemma triple_handle:
  assumes "triple w0 P m Q (current t)" "at_Status t \<noteq> TailoringRecoveryRequired"
  shows "triple w0 P (handleMutationError c t reason m) Q (\<lambda>_. True)"
proof (rule tripleI)
  fix w r w' assume ok: "saga_ok w0 w" "P w" and r: "handleMutationError c t reason m w = (r, w')"
  obtain r1 w1 where m: "m w = (r1, w1)" by fastforce
  note first = tripleD [OF assms(1) ok m]
  show "saga_ok w0 w' \<and> (case r of Inl e \<Rightarrow> True | Inr a \<Rightarrow> Q a w')"
  proof (cases r1)
    case (Inr a)
    then show ?thesis using first r m by (auto simp: handleMutationError_def)
  next
    case (Inl e)
    then have g: "saga_ok w0 w1" "current t w1" using first by auto
    show ?thesis
    proof (cases "ErrorIsCategory e ErrorConflict \<or> errors_Is e ErrProfileStateChanged")
      case True
      then have "markRecovery c t reason w1 = (r, w')" using r m Inl by (auto simp: handleMutationError_def)
      from tripleD [OF triple_recovery [OF assms(2)] g this] show ?thesis by (auto split: sum.splits)
    next
      case False
      then show ?thesis using r m Inl g by (auto simp: handleMutationError_def)
    qed
  qed
qed

section \<open>The coordinator\<close>

abbreviation valid_saga :: "ApplicationTailoring \<Rightarrow> bool" where
  "valid_saga t \<equiv> Tailoring_Validate t = None"

lemma valid_saga_states: "valid_saga t \<Longrightarrow> canonical_desired (at_BaselineState t) \<and> canonical_desired (at_TailoredState t)"
  unfolding Tailoring_Validate_def guards_None by blast

lemma valid_saga_planned:
  "valid_saga t \<Longrightarrow> at_Status t = TailoringPlanned \<Longrightarrow> at_ApplyProposalID t = [] \<and> at_RestoreProposalID t = []"
  unfolding Tailoring_Validate_def guards_None by (auto simp: tailoring_status_valid_def split: if_splits)

lemma New_resource_state:
  "canonical_desired state \<Longrightarrow> NewProfileStateResource tag profile ownership state = Inr r
    \<Longrightarrow> rsc_ProfileID r = profile \<and> rsc_State r = state"
  by (auto simp: NewProfileStateResource_def canonical_desired_def Let_def split: if_splits option.splits sum.splits prod.splits)

lemma resource_of_saga:
  assumes "valid_saga t"
  shows "TailoredResource t = Inr r \<Longrightarrow> rsc_ProfileID r = at_ProfileID t \<and> rsc_State r = at_TailoredState t"
    "BaselineResource t = Inr r \<Longrightarrow> rsc_ProfileID r = at_ProfileID t \<and> rsc_State r = at_BaselineState t"
  using New_resource_state valid_saga_states [OF assms] unfolding TailoredResource_def BaselineResource_def by blast+

text \<open>The stored proposal of a saga that applies or restores may be written.\<close>

definition writes_with :: "ApplicationTailoring \<Rightarrow> ProfileStateProposalID \<Rightarrow> bool" where
  "writes_with t i \<longleftrightarrow> at_Status t = TailoringApplying \<and> i = at_ApplyProposalID t
     \<or> at_Status t = TailoringRestoring \<and> i = at_RestoreProposalID t"

lemma triple_stored:
  assumes "writes_with t i"
  shows "triple w0 (current t) (stored_proposal c i) (\<lambda>p w. current t w \<and> may_write p (sw_tailorings w)) (current t)"
proof (rule tripleI)
  fix w r w' assume ok: "saga_ok w0 w" "current t w" and r: "stored_proposal c i w = (r, w')"
  have w': "w' = w" "r = GetProfileStateProposal (tc_Err c (sw_ext w)) i (sw_states w)"
    using r by (auto simp: stored_proposal_def)
  have "may_write p (sw_tailorings w)" if "r = Inr p" for p
  proof -
    from that w'(2) have i: "i \<noteq> []" and p: "proposal_at (sw_states w) i = Some p"
      by (auto simp: GetProfileStateProposal_def split: option.splits if_splits)
    have id: "psp_ID p = i" using saga_okD(2) [OF ok(1)] p unfolding proposals_ok_def by blast
    have cur: "saga_at (sw_tailorings w) (at_ID t) = Some t" using ok(2) by (simp add: current_def)
    have "active t" using assms by (auto simp: writes_with_def active_def)
    then have lock: "map_of (ts_profiles (sw_tailorings w)) (at_ProfileID t) = Some (at_ID t)"
      using tailorings_okD(3) [OF saga_okD(1) [OF ok(1)]] cur by blast
    have l: "linked (sw_states w) t" by (rule current_linked [OF ok])
    from assms show ?thesis
      unfolding writes_with_def
    proof
      assume a: "at_Status t = TailoringApplying \<and> i = at_ApplyProposalID t"
      with l i p have "psp_ProfileID p = at_ProfileID t" "psp_DesiredState p = at_TailoredState t"
        by (auto simp: linked_def leads_to_def)
      with a id cur lock show ?thesis unfolding may_write_def by auto
    next
      assume a: "at_Status t = TailoringRestoring \<and> i = at_RestoreProposalID t"
      with l i p have "psp_ProfileID p = at_ProfileID t" "psp_DesiredState p = at_BaselineState t"
        by (auto simp: linked_def leads_to_def)
      with a id cur lock show ?thesis unfolding may_write_def by auto
    qed
  qed
  then show "saga_ok w0 w' \<and> (case r of Inl e \<Rightarrow> current t w' | Inr p \<Rightarrow> current t w' \<and> may_write p (sw_tailorings w'))"
    using ok w'(1) by (auto split: sum.split)
qed

lemma triple_write:
  "triple w0 (\<lambda>w. current t w \<and> may_write p (sw_tailorings w)) (write_profile c writer p) (\<lambda>_. current t) (current t)"
proof (rule tripleI)
  fix w r w' assume ok: "saga_ok w0 w" "current t w \<and> may_write p (sw_tailorings w)" and r: "write_profile c writer p w = (r, w')"
  have g: "saga_ok w0 (w\<lparr>sw_writes := sw_writes w @ [(p, sw_tailorings w)]\<rparr>)"
    using ok unfolding saga_ok_def by auto
  obtain x where w': "w' = w\<lparr>sw_writes := sw_writes w @ [(p, sw_tailorings w)], sw_ext := x\<rparr>"
    using r by (auto simp: write_profile_def outside_def split: prod.splits)
  show "saga_ok w0 w' \<and> (case r of Inl e \<Rightarrow> current t w' | Inr a \<Rightarrow> current t w')"
    using g ok(2) w' by (auto simp: current_def split: sum.split)
qed

lemma triple_applyProposal:
  "triple w0 (\<lambda>w. current t w \<and> may_write p (sw_tailorings w)) (applyProposal c p) (\<lambda>_. current t) (current t)"
  unfolding applyProposal_def
  by (rule triple_bind [where M = "\<lambda>_ w. current t w \<and> may_write p (sw_tailorings w)"], rule triple_lift, simp, simp,
      rule triple_bind [OF triple_write], rule triple_lift) auto

lemma triple_begin:
  assumes valid: "valid_saga t" and res: "\<And>r. resource t = Inr r \<Longrightarrow> rsc_ProfileID r = at_ProfileID t \<and> rsc_State r = state"
    and step: "\<And>i at t'. step i at t = (None, t') \<Longrightarrow> saga_edge t t' \<and> R t'
      \<and> (\<forall>ps. linked ps t \<longrightarrow> leads_to ps i (at_ProfileID t) state \<longrightarrow> linked ps t')"
  shows "triple w0 (current t) (bind_do (lift_result (resource t)) (\<lambda>r. bind_do (createProposal c r observation)
      (\<lambda>p. advance_saga c (step (psp_ID p)) t)))
    (\<lambda>t' w. R t' \<and> saga_edge t t' \<and> current t' w) (\<lambda>_. True)"
proof (cases "resource t")
  case (Inl e)
  then show ?thesis by (auto simp: triple_def bind_do_def lift_result_def)
next
  case (Inr r)
  have "triple w0 (current t) (bind_do (createProposal c r observation) (\<lambda>p. advance_saga c (step (psp_ID p)) t))
    (\<lambda>t' w. R t' \<and> saga_edge t t' \<and> current t' w) (\<lambda>_. True)"
  proof (rule triple_bind [where M = "\<lambda>p w. current t w \<and> has_proposal p w \<and> psp_ProfileID p = at_ProfileID t
        \<and> psp_DesiredState p = state"])
    show "triple w0 (current t) (createProposal c r observation)
       (\<lambda>p w. current t w \<and> has_proposal p w \<and> psp_ProfileID p = at_ProfileID t \<and> psp_DesiredState p = state) (\<lambda>_. True)"
      by (rule triple_weaken [OF triple_createProposal]) (use res [OF Inr] in auto)
    fix p :: ProfileStateProposal
    have s: "saga_edge t t' \<and> (R t' \<and> (\<forall>ps. linked ps t \<longrightarrow> leads_to ps (psp_ID p) (at_ProfileID t) state \<longrightarrow> linked ps t'))"
      if "step (psp_ID p) at t = (None, t')" for at t' using step [OF that] by blast
    show "triple w0 (\<lambda>w. current t w \<and> has_proposal p w \<and> psp_ProfileID p = at_ProfileID t \<and> psp_DesiredState p = state)
        (advance_saga c (step (psp_ID p)) t) (\<lambda>t' w. R t' \<and> saga_edge t t' \<and> current t' w) (\<lambda>_. True)"
    proof (rule triple_weaken [OF triple_advance [where P = "\<lambda>w. current t w \<and> has_proposal p w
          \<and> psp_ProfileID p = at_ProfileID t \<and> psp_DesiredState p = state", OF s]])
      fix w :: "'a SagaWorld" and t'
      assume "current t w \<and> has_proposal p w \<and> psp_ProfileID p = at_ProfileID t \<and> psp_DesiredState p = state" "saga_ok w0 w"
        "R t' \<and> (\<forall>ps. linked ps t \<longrightarrow> leads_to ps (psp_ID p) (at_ProfileID t) state \<longrightarrow> linked ps t')"
      then show "linked (sw_states w) t'"
        using current_linked [of w0 w t] by (auto simp: leads_to_def has_proposal_def)
    qed auto
  qed
  then show ?thesis using Inr by (auto simp: triple_def bind_do_def lift_result_def)
qed

lemma triple_begin_apply:
  assumes "valid_saga t"
  shows "triple w0 (current t) (begin_apply c t)
    (\<lambda>t' w. at_Status t' = TailoringApplying \<and> saga_edge t t' \<and> current t' w) (\<lambda>_. True)"
proof (cases "BaselineObservation t")
  case (Inl e)
  then show ?thesis by (auto simp: triple_def begin_apply_def bind_do_def lift_result_def split: sum.splits)
next
  case (Inr observation)
  have "triple w0 (current t) (bind_do (lift_result (TailoredResource t)) (\<lambda>r. bind_do (createProposal c r observation)
      (\<lambda>p. advance_saga c (BeginApply (psp_ID p)) t)))
    (\<lambda>t' w. at_Status t' = TailoringApplying \<and> saga_edge t t' \<and> current t' w) (\<lambda>_. True)"
  proof (rule triple_begin [OF assms resource_of_saga(1) [OF assms]])
    fix i at t' assume s: "BeginApply i at t = (None, t')"
    note e = BeginApply_None [OF s]
    have "linked ps t'" if "linked ps t" "leads_to ps i (at_ProfileID t) (at_TailoredState t)" for ps
      using that e same_saga_keys [of t t'] by (auto simp: linked_def saga_edge_def)
    with e show "saga_edge t t' \<and> at_Status t' = TailoringApplying
        \<and> (\<forall>ps. linked ps t \<longrightarrow> leads_to ps i (at_ProfileID t) (at_TailoredState t) \<longrightarrow> linked ps t')" by blast
  qed
  then show ?thesis using Inr by (simp add: begin_apply_def triple_def bind_do_def lift_result_def cong: sum.case_cong)
qed

lemma triple_finish_apply:
  assumes "at_Status t = TailoringApplying" "at_ApplyProposalID t \<noteq> []"
  shows "triple w0 (current t) (finish_apply c t) (\<lambda>_ _. True) (\<lambda>_. True)"
  unfolding finish_apply_def
proof (rule triple_bind)
  show "triple w0 (current t) (stored_proposal c (at_ApplyProposalID t)) (\<lambda>p w. current t w \<and> may_write p (sw_tailorings w)) (\<lambda>_. True)"
    by (rule triple_weaken [OF triple_stored]) (use assms in \<open>auto simp: writes_with_def\<close>)
  fix p
  show "triple w0 (\<lambda>w. current t w \<and> may_write p (sw_tailorings w))
     (bind_do (handleMutationError c t ''tailoring apply conflicted with current profile state'' (applyProposal c p))
       (\<lambda>observation. advance_saga c (RecordApplied observation) t)) (\<lambda>_ _. True) (\<lambda>_. True)"
    by (rule triple_bind [OF triple_handle [OF triple_applyProposal]], simp add: assms(1),
        rule triple_weaken [OF triple_step [where R = "\<lambda>_. True"]]) (auto dest: RecordApplied_None)
qed

lemma valid_after: "saga_edge t t' \<Longrightarrow> valid_saga t'"
  by (simp add: saga_edge_def)

lemma valid_proposals:
  "valid_saga t \<Longrightarrow> at_Status t = TailoringApplying \<Longrightarrow> at_ApplyProposalID t \<noteq> []"
  "valid_saga t \<Longrightarrow> at_Status t = TailoringRestoring \<Longrightarrow> at_RestoreProposalID t \<noteq> []"
  unfolding Tailoring_Validate_def guards_None by (auto simp: tailoring_status_valid_def split: if_splits)

lemma triple_pure: "(\<And>w. P w \<Longrightarrow> B) \<Longrightarrow> (B \<Longrightarrow> triple w0 P m Q E) \<Longrightarrow> triple w0 P m Q E"
  unfolding triple_def by blast

lemma triple_drive:
  assumes "valid_saga t"
  shows "triple w0 (current t) (driveApply c t) (\<lambda>_ _. True) (\<lambda>_. True)"
proof -
  have "triple w0 (current t) (bind_do (begin_apply c t) (finish_apply c)) (\<lambda>_ _. True) (\<lambda>_. True)"
  proof (rule triple_bind [OF triple_begin_apply [OF assms]])
    fix t'
    show "triple w0 (\<lambda>w. at_Status t' = TailoringApplying \<and> saga_edge t t' \<and> current t' w) (finish_apply c t') (\<lambda>_ _. True) (\<lambda>_. True)"
    proof (rule triple_pure [where B = "at_Status t' = TailoringApplying \<and> saga_edge t t'"])
      assume b: "at_Status t' = TailoringApplying \<and> saga_edge t t'"
      have "triple w0 (current t') (finish_apply c t') (\<lambda>_ _. True) (\<lambda>_. True)"
        by (rule triple_finish_apply) (use b valid_after valid_proposals(1) in auto)
      then show "triple w0 (\<lambda>w. at_Status t' = TailoringApplying \<and> saga_edge t t' \<and> current t' w) (finish_apply c t')
          (\<lambda>_ _. True) (\<lambda>_. True)"
        by (rule triple_weaken) auto
    qed auto
  qed
  moreover have "triple w0 (current t) (finish_apply c t) (\<lambda>_ _. True) (\<lambda>_. True)" if "at_Status t = TailoringApplying"
    using triple_finish_apply [OF that] valid_proposals(1) [OF assms that] by blast
  ultimately show ?thesis
    by (auto simp: driveApply_def intro: triple_return triple_fail split: ApplicationTailoringStatus.split)
qed

lemma triple_step_done:
  assumes "\<And>at t'. step at t = (None, t') \<Longrightarrow> saga_edge t t' \<and> at_ApplyProposalID t' = at_ApplyProposalID t
      \<and> at_RestoreProposalID t' = at_RestoreProposalID t"
  shows "triple w0 (current t) (bind_do (advance_saga c step t) (\<lambda>_. return_ok ())) (\<lambda>_ _. True) (\<lambda>_. True)"
  by (rule triple_bind [OF triple_step [where R = "\<lambda>_. True"]]) (use assms in \<open>auto intro: triple_return\<close>)

lemma triple_finish_restore:
  assumes "at_Status t = TailoringRestoring"
  shows "triple w0 (current t) (finish_restore c t) (\<lambda>_ _. True) (\<lambda>_. True)"
  unfolding finish_restore_def
proof (rule triple_bind)
  show "triple w0 (current t) (stored_proposal c (at_RestoreProposalID t))
      (\<lambda>p w. current t w \<and> may_write p (sw_tailorings w)) (\<lambda>_. True)"
    by (rule triple_weaken [OF triple_stored]) (use assms in \<open>auto simp: writes_with_def\<close>)
  fix p
  have "triple w0 (\<lambda>w. current t w \<and> may_write p (sw_tailorings w)) (read_saga c t) (\<lambda>_. current t) (current t)"
    unfolding read_saga_def by (rule triple_weaken [OF triple_read [OF stable_current(1)]]) auto
  then have "triple w0 (\<lambda>w. current t w \<and> may_write p (sw_tailorings w))
      (if psp_Status p = ProposalNoChanges then read_saga c t else applyProposal c p) (\<lambda>_. current t) (current t)"
    using triple_applyProposal by (rule triple_if)
  then show "triple w0 (\<lambda>w. current t w \<and> may_write p (sw_tailorings w))
     (bind_do (handleMutationError c t ''tailoring restore conflicted with current profile state''
         (if psp_Status p = ProposalNoChanges then read_saga c t else applyProposal c p))
       (\<lambda>restored. bind_do (advance_saga c (RecordRestored restored) t) (\<lambda>_. return_ok ()))) (\<lambda>_ _. True) (\<lambda>_. True)"
    by (rule triple_bind [OF triple_handle triple_step_done]) (use assms in \<open>auto dest: RecordRestored_None\<close>)
qed

lemma triple_begin_restore:
  assumes "valid_saga t" "at_Status t \<noteq> TailoringRecoveryRequired"
  shows "triple w0 (current t) (begin_restore c t)
    (\<lambda>t' w. at_Status t' = TailoringRestoring \<and> saga_edge t t' \<and> current t' w) (\<lambda>_. True)"
  unfolding begin_restore_def
proof (rule triple_bind)
  show "triple w0 (current t) (read_saga c t) (\<lambda>_. current t) (\<lambda>_. True)"
    unfolding read_saga_def by (rule triple_weaken [OF triple_read [OF stable_current(1)]]) auto
  fix observation
  have s: "saga_edge t t' \<and> at_Status t' = TailoringRestoring
        \<and> (\<forall>ps. linked ps t \<longrightarrow> leads_to ps i (at_ProfileID t) (at_BaselineState t) \<longrightarrow> linked ps t')"
    if s: "BeginRestore i at t = (None, t')" for i at t'
  proof -
    note e = BeginRestore_None [OF s]
    have "linked ps t'" if "linked ps t" "leads_to ps i (at_ProfileID t) (at_BaselineState t)" for ps
      using that e same_saga_keys [of t t'] by (auto simp: linked_def saga_edge_def)
    with e show ?thesis by blast
  qed
  show "triple w0 (current t)
     (if pso_StateDigest observation \<noteq> at_TailoredDigest t \<and> pso_StateDigest observation \<noteq> at_BaselineDigest t
      then markRecovery c t ''profile state drifted before tailoring restore''
      else bind_do (lift_result (BaselineResource t)) (\<lambda>resource. bind_do (createProposal c resource observation)
         (\<lambda>proposal. advance_saga c (BeginRestore (psp_ID proposal)) t)))
     (\<lambda>t' w. at_Status t' = TailoringRestoring \<and> saga_edge t t' \<and> current t' w) (\<lambda>_. True)"
    by (rule triple_if, rule triple_weaken [OF triple_recovery [OF assms(2)]])
      (auto intro: triple_begin [OF assms(1) resource_of_saga(2) [OF assms(1)] s])
qed

lemma triple_restore:
  assumes "valid_saga t" "at_Status t \<noteq> TailoringRecoveryRequired"
  shows "triple w0 (current t) (bind_do (begin_restore c t) (finish_restore c)) (\<lambda>_ _. True) (\<lambda>_. True)"
proof (rule triple_bind [OF triple_begin_restore [OF assms]])
  fix t'
  show "triple w0 (\<lambda>w. at_Status t' = TailoringRestoring \<and> saga_edge t t' \<and> current t' w) (finish_restore c t') (\<lambda>_ _. True) (\<lambda>_. True)"
  proof (rule triple_pure [where B = "at_Status t' = TailoringRestoring"])
    assume b: "at_Status t' = TailoringRestoring"
    show "triple w0 (\<lambda>w. at_Status t' = TailoringRestoring \<and> saga_edge t t' \<and> current t' w) (finish_restore c t')
        (\<lambda>_ _. True) (\<lambda>_. True)"
      by (rule triple_weaken [OF triple_finish_restore [OF b]]) auto
  qed auto
qed

text \<open>The saga of an application is stored, and valid.\<close>

lemma by_application:
  assumes "tailorings_ok s" "ApplicationTailoringByApplication ctx a s = Inr t"
  shows "saga_at s (at_ID t) = Some t" "valid_saga t" "active t" "at_ApplicationID t = a"
proof -
  from assms(2) obtain i where i: "map_of (ts_applications s) a = Some i" "t = stored_tailoring s i"
    by (auto simp: ApplicationTailoringByApplication_def split: option.splits if_splits)
  then obtain u where u: "saga_at s i = Some u" "at_ApplicationID u = a" "active u" using tailorings_okD(4) [OF assms(1)] by blast
  with i(2) have "t = u" by (simp add: stored_tailoring_def)
  with u tailorings_okD(1,2) [OF assms(1) u(1)]
  show "saga_at s (at_ID t) = Some t" "valid_saga t" "active t" "at_ApplicationID t = a" by auto
qed

lemma triple_if_saga:
  assumes "\<And>t. valid_saga t \<Longrightarrow> triple w0 (current t) (k t) (\<lambda>_ _. True) (\<lambda>_. True)"
  shows "triple w0 (\<lambda>_. True) (if_saga c a k) (\<lambda>_ _. True) (\<lambda>_. True)"
proof (rule tripleI)
  fix w r w' assume ok: "saga_ok w0 w" and r: "if_saga c a k w = (r, w')"
  show "saga_ok w0 w' \<and> (case r of Inl e \<Rightarrow> True | Inr x \<Rightarrow> True)"
  proof (cases "ApplicationTailoringByApplication (tc_Err c (sw_ext w)) a (sw_tailorings w)")
    case (Inl e)
    then show ?thesis using ok r by (auto simp: if_saga_def saga_of_application_def split: if_splits sum.split)
  next
    case (Inr t)
    note t = by_application [OF saga_okD(1) [OF ok] Inr]
    have "k t w = (r, w')" using r Inr by (simp add: if_saga_def saga_of_application_def)
    from tripleD [OF assms [OF t(2)] ok _ this] t(1) show ?thesis by (simp add: current_def)
  qed
qed

lemma triple_BeginSubmit: "triple w0 (\<lambda>_. True) (tc_BeginSubmit c a) (\<lambda>_ _. True) (\<lambda>_. True)"
  unfolding tc_BeginSubmit_def
proof (rule triple_if_saga)
  fix t assume v: "valid_saga t"
  have "triple w0 (current t) (bind_do (read_saga c t) (\<lambda>observation.
      if pso_StateDigest observation \<noteq> at_TailoredDigest t
      then markRecovery c t ''profile state drifted after tailoring apply''
      else bind_do (advance_saga c BeginSubmit t) (\<lambda>_. return_ok ()))) (\<lambda>_ _. True) (\<lambda>_. True)"
    if st: "at_Status t = TailoringApplied"
  proof (rule triple_bind)
    show "triple w0 (current t) (read_saga c t) (\<lambda>_. current t) (\<lambda>_. True)"
      unfolding read_saga_def by (rule triple_weaken [OF triple_read [OF stable_current(1)]]) auto
    fix observation
    have "triple w0 (current t) (bind_do (advance_saga c BeginSubmit t) (\<lambda>_. return_ok ())) (\<lambda>_ _. True) (\<lambda>_. True)"
      by (rule triple_step_done) (auto dest: BeginSubmit_None)
    moreover have "triple w0 (current t) (markRecovery c t reason) (\<lambda>(_ :: unit) _. True) (\<lambda>_. True)" for reason
      by (rule triple_weaken [OF triple_recovery]) (use st in auto)
    ultimately show "triple w0 (current t) (if pso_StateDigest observation \<noteq> at_TailoredDigest t
      then markRecovery c t ''profile state drifted after tailoring apply''
      else bind_do (advance_saga c BeginSubmit t) (\<lambda>_. return_ok ())) (\<lambda>_ _. True) (\<lambda>_. True)" by simp
  qed
  then show "triple w0 (current t) (case at_Status t of
       TailoringSubmitting \<Rightarrow> return_ok ()
     | TailoringRecoveryRequired \<Rightarrow> fail_with (recoveryError t)
     | TailoringApplied \<Rightarrow>
         bind_do (read_saga c t) (\<lambda>observation.
           if pso_StateDigest observation \<noteq> at_TailoredDigest t
           then markRecovery c t ''profile state drifted after tailoring apply''
           else bind_do (advance_saga c BeginSubmit t) (\<lambda>_. return_ok ()))
     | s \<Rightarrow> fail_with (Err (''cannot begin submit with application tailoring in status '' @ quoted (tailoring_status_text s))))
     (\<lambda>_ _. True) (\<lambda>_. True)"
    by (auto intro: triple_return triple_fail split: ApplicationTailoringStatus.split)
qed

lemma triple_Restore: "triple w0 (\<lambda>_. True) (tc_Restore c a) (\<lambda>_ _. True) (\<lambda>_. True)"
  unfolding tc_Restore_def
  by (rule triple_if_saga)
    (auto intro: triple_return triple_fail triple_restore triple_finish_restore split: ApplicationTailoringStatus.split)

section \<open>Apply\<close>

lemma New_saga:
  "NewApplicationTailoring params at = Inr t \<Longrightarrow> at_Status t = TailoringPlanned \<and> valid_saga t"
  by (auto simp: NewApplicationTailoring_def Let_def split: sum.splits prod.splits if_splits option.splits)

lemma triple_create:
  assumes "at_Status t = TailoringPlanned" "valid_saga t"
  shows "triple w0 (\<lambda>_. True) (create_saga c t) (\<lambda>u w. valid_saga u \<and> current u w) (\<lambda>_. True)"
proof (rule tripleI)
  fix w r w' assume ok: "saga_ok w0 w" and r: "create_saga c t w = (r, w')"
  obtain r1 ts where cr: "CreateApplicationTailoring (tc_Err c (sw_ext w)) t (sw_tailorings w) = (r1, ts)" by fastforce
  have w': "w' = w\<lparr>sw_tailorings := ts\<rparr>" using r cr by (auto simp: create_saga_def split: sum.splits)
  show "saga_ok w0 w' \<and> (case r of Inl e \<Rightarrow> True | Inr u \<Rightarrow> valid_saga u \<and> current u w')"
  proof (cases r1)
    case (Inl e)
    then show ?thesis using r cr ok w' Create_error [of "tc_Err c (sw_ext w)" t "sw_tailorings w" e ts]
      by (auto simp: create_saga_def)
  next
    case (Inr q)
    then obtain u b where q: "r1 = Inr (u, b)" by (cases q) auto
    note g = Create_ok [OF saga_okD(1) [OF ok] cr [unfolded q] assms(1)]
    have l: "linked ps t" for ps using valid_saga_planned [OF assms(2,1)] by (simp add: linked_def)
    have "linked (sw_states w) x" if x: "saga_at ts i = Some x" for i x
    proof (cases "ts = sw_tailorings w")
      case True
      then show ?thesis using x saga_okD(3) [OF ok] by blast
    next
      case False
      then have "saga_at ts i = ((saga_at (sw_tailorings w))(at_ID t \<mapsto> t)) i" using g by blast
      then show ?thesis using x l saga_okD(3) [OF ok] by (cases "i = at_ID t") auto
    qed
    moreover have "frozen (sw_tailorings w0) ts"
    proof (cases "ts = sw_tailorings w")
      case False
      then show ?thesis
        by (intro frozen_update [where i = "at_ID t" and t = t, OF saga_okD(5) [OF ok]]) (use g in auto)
    qed (use saga_okD(5) [OF ok] in simp)
    ultimately have "saga_ok w0 w'" using ok g unfolding saga_ok_def w' by auto
    moreover have "valid_saga u" using g tailorings_okD(2) [of ts "at_ID u" u] by simp
    ultimately show ?thesis using g r cr q w' by (auto simp: create_saga_def current_def)
  qed
qed

lemma triple_start:
  "triple w0 (\<lambda>_. True) (start_saga c application resumeID paths observation plan) (\<lambda>u w. valid_saga u \<and> current u w) (\<lambda>_. True)"
proof -
  have st: "stable (\<lambda>_ :: 'a SagaWorld. True)" by (simp add: stable_def)
  have new: "triple w0 (\<lambda>_. True) (bind_do (lift_result (NewApplicationTailoring params at)) (create_saga c))
      (\<lambda>u w. valid_saga u \<and> current u w) (\<lambda>_. True)" for c :: "'a TailoringCoordinator" and params at
  proof (cases "NewApplicationTailoring params at")
    case (Inl e)
    then show ?thesis by (auto simp: triple_def bind_do_def lift_result_def)
  next
    case (Inr t)
    with New_saga [OF Inr] triple_create [of t w0 c] show ?thesis
      by (simp add: triple_def bind_do_def lift_result_def)
  qed
  show ?thesis
    unfolding start_saga_def
    by (intro triple_bind [where M = "\<lambda>_ _. True"] new triple_lift triple_weaken [OF triple_outside [OF st]]
        triple_now_any [OF st]) auto
qed

lemma triple_Apply_new: "triple w0 (\<lambda>_. True) (Apply_new c application vacancy plan processor resumeID) (\<lambda>_ _. True) (\<lambda>_. True)"
  unfolding Apply_new_def
proof (rule triple_bind)
  have st: "stable (\<lambda>_ :: 'a SagaWorld. True)" by (simp add: stable_def)
  show "triple w0 (\<lambda>_. True) (read_profile c (ak_ProfileID (app_Key application)) (atp_AllowedPaths plan)) (\<lambda>_ _. True) (\<lambda>_. True)"
    by (rule triple_read [OF st])
  fix observation
  let ?input = "\<lparr>rti_Application = application, rti_Vacancy = vacancy, rti_ResumeID = resumeID,
    rti_EmployerGroups = employerGroups (tc_lower c) plan vacancy, rti_CurrentState = observation,
    rti_AllowedPaths = atp_AllowedPaths plan\<rparr>"
  let ?go = "\<lambda>p. bind_do (start_saga c application resumeID (atp_AllowedPaths plan) observation p)
               (\<lambda>stored. bind_do (driveApply c stored) (\<lambda>t. return_ok (Some t)))"
  have go: "triple w0 (\<lambda>_. True) (?go p) (\<lambda>_ _. True) (\<lambda>_. True)" for p
  proof (rule triple_bind [OF triple_start])
    fix u
    show "triple w0 (\<lambda>w. valid_saga u \<and> current u w) (bind_do (driveApply c u) (\<lambda>t. return_ok (Some t))) (\<lambda>_ _. True) (\<lambda>_. True)"
      by (rule triple_pure [where B = "valid_saga u"], simp,
          rule triple_weaken [OF triple_bind [OF triple_drive triple_return]]) auto
  qed
  show "triple w0 (\<lambda>_. True) (let input = ?input in (\<lambda>w. case outside (processor (tc_Err c) input) w of
          (Inl e, w') \<Rightarrow> if errors_Is e ErrResumeTailoringSkillLimit then (Inr None, w') else (Inl e, w')
        | (Inr processorPlan, w') \<Rightarrow>
            (case TailoringPlan_Validate (tc_lower c) input processorPlan of Some e \<Rightarrow> (Inl e, w') | None \<Rightarrow>
             if rtp_Overrides processorPlan = [] then (Inr None, w') else ?go processorPlan w'))) (\<lambda>_ _. True) (\<lambda>_. True)"
    unfolding Let_def
  proof (rule tripleI)
    fix w r w' assume ok: "saga_ok w0 w"
      and r: "(case outside (processor (tc_Err c) ?input) w of
          (Inl e, w') \<Rightarrow> if errors_Is e ErrResumeTailoringSkillLimit then (Inr None, w') else (Inl e, w')
        | (Inr processorPlan, w') \<Rightarrow>
            (case TailoringPlan_Validate (tc_lower c) ?input processorPlan of Some e \<Rightarrow> (Inl e, w') | None \<Rightarrow>
             if rtp_Overrides processorPlan = [] then (Inr None, w') else ?go processorPlan w')) = (r, w')"
    obtain r1 w1 where o: "outside (processor (tc_Err c) ?input) w = (r1, w1)" by fastforce
    from tripleD [OF triple_outside [OF st] ok _ o] have ok1: "saga_ok w0 w1" by simp
    have "saga_ok w0 w'"
    proof (cases "\<exists>p. r1 = Inr p \<and> ?go p w1 = (r, w')")
      case True
      then obtain p where "?go p w1 = (r, w')" by blast
      from tripleD [OF go ok1 _ this] show ?thesis by simp
    next
      case False
      then show ?thesis using r o ok1 by (cases r1) (auto split: if_splits option.splits)
    qed
    then show "saga_ok w0 w' \<and> (case r of Inl e \<Rightarrow> True | Inr a \<Rightarrow> True)" by (simp split: sum.split)
  qed
qed

lemma triple_Apply: "triple w0 (\<lambda>_. True) (tc_Apply c application vacancy plan resumeID) (\<lambda>_ _. True) (\<lambda>_. True)"
proof (rule tripleI)
  fix w r w' assume ok: "saga_ok w0 w" and r: "tc_Apply c application vacancy plan resumeID w = (r, w')"
  have "saga_ok w0 w'"
  proof (cases "ApplicationTailoringByApplication (tc_Err c (sw_ext w)) (app_ID application) (sw_tailorings w)")
    case (Inl e)
    have "saga_ok w0 w'" if "Apply_new c application vacancy plan p resumeID w = (r, w')" for p
      using tripleD [OF triple_Apply_new ok _ that] by simp
    then show ?thesis using r Inl ok
      by (auto simp: tc_Apply_def saga_of_application_def split: option.splits if_splits)
  next
    case (Inr t)
    note t = by_application [OF saga_okD(1) [OF ok] Inr]
    have "saga_ok w0 w'" if "bind_do (driveApply c t) (\<lambda>t. return_ok (Some t)) w = (r, w')"
      using tripleD [OF triple_bind [OF triple_drive [OF t(2)] triple_return] ok _ that] t(1) by (simp add: current_def)
    then show ?thesis using r Inr ok
      by (auto simp: tc_Apply_def saga_of_application_def split: option.splits if_splits)
  qed
  then show "saga_ok w0 w' \<and> (case r of Inl e \<Rightarrow> True | Inr a \<Rightarrow> True)" by (simp split: sum.split)
qed

end
