(* ===== verification/GoCrypto_Eval.thy ===== *)
theory GoCrypto_Eval
  imports GoCrypto
begin

text \<open>
  SHA-256 evaluated by the simplifier. The schedule and the rounds are computed in pieces, each with its
  words written out; two texts, each of one block, are worked out and have different digests.
\<close>

section \<open>Rules\<close>

lemma of_nat_mod_u32: "(of_nat (n mod 4294967296) :: u32) = of_nat n"
  by transfer (simp add: take_bit_eq_mod zmod_int)

lemma reduce_u32: "(4294967296 :: nat) \<le> numeral k \<Longrightarrow> (numeral k :: u32) = of_nat (numeral k mod 4294967296)"
  by (simp only: of_nat_mod_u32 of_nat_numeral)

text \<open>The next word of a schedule, as functions of words that are already numerals.\<close>

definition small0 :: "u32 \<Rightarrow> u32" where
  "small0 a = rotr 7 a XOR rotr 18 a XOR drop_bit 3 a"

definition small1 :: "u32 \<Rightarrow> u32" where
  "small1 b = rotr 17 b XOR rotr 19 b XOR drop_bit 10 b"

definition sum4 :: "u32 \<Rightarrow> u32 \<Rightarrow> u32 \<Rightarrow> u32 \<Rightarrow> u32" where
  "sum4 a b c d = a + b + c + d"

definition next_word :: "u32 list \<Rightarrow> u32" where
  "next_word ws = sum4 (ws ! (length ws - 16)) (small0 (ws ! (length ws - 15))) (ws ! (length ws - 7))
     (small1 (ws ! (length ws - 2)))"

lemma schedule_numeral: "sha256_schedule (numeral k) ws = sha256_schedule (pred_numeral k) (ws @ [next_word ws])"
  by (simp add: numeral_eq_Suc next_word_def Let_def sum4_def small0_def small1_def)

lemma schedule_1: "sha256_schedule (Suc 0) ws = ws @ [next_word ws]"
  by (simp add: next_word_def Let_def sum4_def small0_def small1_def)

lemma schedule_add: "sha256_schedule (m + n) ws = sha256_schedule n (sha256_schedule m ws)"
  by (induction m arbitrary: ws) (simp_all add: Let_def)

lemma schedule_48: "sha256_schedule 48 ws = sha256_schedule 16 (sha256_schedule 16 (sha256_schedule 16 ws))"
  using schedule_add [of 16 32 ws] schedule_add [of 16 16 "sha256_schedule 16 ws"] by simp

lemma chunks_numeral: "chunks (numeral k) n xs = take n xs # chunks (pred_numeral k) n (drop n xs)"
  by (simp add: numeral_eq_Suc)

text \<open>A rotation of a numeral within 32 bits.\<close>

lemma rotr_eval:
  assumes "n \<le> 32"
  shows "rotr n x = drop_bit n x OR push_bit (32 - n) (take_bit n x)"
proof -
  have "push_bit (32 - n) (take_bit n x) = take_bit (32 - n + n) (push_bit (32 - n) x)"
    by (simp add: push_bit_take_bit)
  also have "\<dots> = push_bit (32 - n) x" using assms by (simp add: take_bit_word_eq_self)
  finally show ?thesis by (simp add: rotr_def)
qed

lemmas schedule_eval = schedule_numeral schedule_1 next_word_def sum4_def small0_def small1_def rotr_eval reduce_u32

lemmas round_eval = rotr_eval reduce_u32 Let_def

text \<open>The rounds, eight at a time.\<close>

definition rounds :: "u32 list \<Rightarrow> u32 list \<Rightarrow> u32 list \<Rightarrow> u32 list" where
  "rounds ks ws = fold sha256_round (zip ks ws)"

lemma rounds_append: "length ks = length ws \<Longrightarrow> rounds (ks @ ks') (ws @ ws') hs = rounds ks' ws' (rounds ks ws hs)"
  by (simp add: rounds_def)

abbreviation K0 :: "u32 list" where
  "K0 \<equiv> [1116352408, 1899447441, 3049323471, 3921009573, 961987163, 1508970993, 2453635748,
     2870763221]"

abbreviation K1 :: "u32 list" where
  "K1 \<equiv> [3624381080, 310598401, 607225278, 1426881987, 1925078388, 2162078206, 2614888103, 3248222580]"

abbreviation K2 :: "u32 list" where
  "K2 \<equiv> [3835390401, 4022224774, 264347078, 604807628, 770255983, 1249150122, 1555081692, 1996064986]"

abbreviation K3 :: "u32 list" where
  "K3 \<equiv> [2554220882, 2821834349, 2952996808, 3210313671, 3336571891, 3584528711, 113926993, 338241895]"

abbreviation K4 :: "u32 list" where
  "K4 \<equiv> [666307205, 773529912, 1294757372, 1396182291, 1695183700, 1986661051, 2177026350, 2456956037]"

abbreviation K5 :: "u32 list" where
  "K5 \<equiv> [2730485921, 2820302411, 3259730800, 3345764771, 3516065817, 3600352804, 4094571909,
     275423344]"

abbreviation K6 :: "u32 list" where
  "K6 \<equiv> [430227734, 506948616, 659060556, 883997877, 958139571, 1322822218, 1537002063, 1747873779]"

abbreviation K7 :: "u32 list" where
  "K7 \<equiv> [1955562222, 2024104815, 2227730452, 2361852424, 2428436474, 2756734187, 3204031479,
     3329325298]"

lemma row0: "words_of_row 0x428a2f9871374491b5c0fbcfe9b5dba53956c25b59f111f1923f82a4ab1c5ed5 = K0"
  by (simp add: words_of_row_def reduce_u32)

lemma row1: "words_of_row 0xd807aa9812835b01243185be550c7dc372be5d7480deb1fe9bdc06a7c19bf174 = K1"
  by (simp add: words_of_row_def reduce_u32)

lemma row2: "words_of_row 0xe49b69c1efbe47860fc19dc6240ca1cc2de92c6f4a7484aa5cb0a9dc76f988da = K2"
  by (simp add: words_of_row_def reduce_u32)

lemma row3: "words_of_row 0x983e5152a831c66db00327c8bf597fc7c6e00bf3d5a7914706ca635114292967 = K3"
  by (simp add: words_of_row_def reduce_u32)

lemma row4: "words_of_row 0x27b70a852e1b21384d2c6dfc53380d13650a7354766a0abb81c2c92e92722c85 = K4"
  by (simp add: words_of_row_def reduce_u32)

lemma row5: "words_of_row 0xa2bfe8a1a81a664bc24b8b70c76c51a3d192e819d6990624f40e3585106aa070 = K5"
  by (simp add: words_of_row_def reduce_u32)

lemma row6: "words_of_row 0x19a4c1161e376c082748774c34b0bcb5391c0cb34ed8aa4a5b9cca4f682e6ff3 = K6"
  by (simp add: words_of_row_def reduce_u32)

lemma row7: "words_of_row 0x748f82ee78a5636f84c878148cc7020890befffaa4506cebbef9a3f7c67178f2 = K7"
  by (simp add: words_of_row_def reduce_u32)

lemma sha256_K_rows: "sha256_K = K0 @ K1 @ K2 @ K3 @ K4 @ K5 @ K6 @ K7"
  by (simp only: sha256_K_def list.map row0 row1 row2 row3 row4 row5 row6 row7 concat.simps append_Nil2)

lemma replicate_numeral: "replicate (numeral k) x = x # replicate (pred_numeral k) x"
  by (simp add: numeral_eq_Suc)

lemma upt_8: "[0..<8] = [0, 1, 2, 3, 4, 5, 6, 7]"
  by (simp add: upt_rec)

lemma sha256_H_words: "sha256_H =
    [1779033703, 3144134277, 1013904242, 2773480762, 1359893119, 2600822924, 528734635,
     1541459225]"
  by (simp add: sha256_H_def words_of_row_def reduce_u32)

section \<open>The text with x\<close>

definition bytes_x :: "byte list" where
  "bytes_x = [123, 34, 112, 114, 111, 102, 105, 108, 101, 34, 58, 123, 34, 97, 34, 58, 34, 120, 34, 44,
     34, 98, 34, 58, 110, 117, 108, 108, 125, 125]"

abbreviation X0 :: "u32 list" where
  "X0 \<equiv> [2065854578, 1868982636, 1696742011, 576791098, 578298412, 576856634, 1853189228, 2105376768]"

abbreviation X1 :: "u32 list" where
  "X1 \<equiv> [0, 0, 0, 0, 0, 0, 0, 240]"

abbreviation X2 :: "u32 list" where
  "X2 \<equiv> [3398142616, 3837608927, 1373014028, 2156871794, 2953970234, 4169314952, 524340294,
     1463045781]"

abbreviation X3 :: "u32 list" where
  "X3 \<equiv> [1684627546, 6575227, 483304787, 1355086693, 2122813663, 34275210, 1910259755, 1325431337]"

abbreviation X4 :: "u32 list" where
  "X4 \<equiv> [1722133675, 3832061972, 729895179, 657821225, 3608051644, 2650705042, 2454400490, 908707316]"

abbreviation X5 :: "u32 list" where
  "X5 \<equiv> [525405267, 321080313, 3926437416, 1232404707, 186241643, 4255689530, 3245638955, 3762944300]"

abbreviation X6 :: "u32 list" where
  "X6 \<equiv> [1762310833, 3647155954, 3022897164, 562149045, 3263332045, 1494138318, 2197391203, 255682804]"

abbreviation X7 :: "u32 list" where
  "X7 \<equiv> [250459559, 1205310275, 125033187, 3955198420, 987089717, 628278233, 1764168230, 3929387483]"

lemma schedule_x0: "sha256_schedule 16 (X0 @ X1) = X0 @ X1 @ X2 @ X3"
  by (simp add: schedule_eval)

lemma schedule_x1: "sha256_schedule 16 (X0 @ X1 @ X2 @ X3) = X0 @ X1 @ X2 @ X3 @ X4 @ X5"
  by (simp add: schedule_eval)

lemma schedule_x2: "sha256_schedule 16 (X0 @ X1 @ X2 @ X3 @ X4 @ X5) = X0 @ X1 @ X2 @ X3 @ X4 @ X5 @ X6 @ X7"
  by (simp add: schedule_eval)

lemma rounds_x0: "rounds K0 X0
    [1779033703, 3144134277, 1013904242, 2773480762, 1359893119, 2600822924, 528734635,
     1541459225]
  = [1705485268, 3144161769, 171817650, 1453036810, 2280253558, 3749007049, 3496588641,
     1771559563]"
  by (simp add: rounds_def round_eval)

lemma rounds_x1: "rounds K1 X1
    [1705485268, 3144161769, 171817650, 1453036810, 2280253558, 3749007049, 3496588641,
     1771559563]
  = [3217191904, 4237029465, 615685850, 2437950096, 2127181033, 3795814449, 2240439528,
     3069895070]"
  by (simp add: rounds_def round_eval)

lemma rounds_x2: "rounds K2 X2
    [3217191904, 4237029465, 615685850, 2437950096, 2127181033, 3795814449, 2240439528,
     3069895070]
  = [1501124089, 1221495354, 2300814526, 757433533, 323673499, 1285914581, 3574240493, 3667778643]"
  by (simp add: rounds_def round_eval)

lemma rounds_x3: "rounds K3 X3
    [1501124089, 1221495354, 2300814526, 757433533, 323673499, 1285914581, 3574240493, 3667778643]
  = [3277895828, 403961411, 3391545522, 3041022245, 1861919365, 3279641623, 3126596727,
     1302941593]"
  by (simp add: rounds_def round_eval)

lemma rounds_x4: "rounds K4 X4
    [3277895828, 403961411, 3391545522, 3041022245, 1861919365, 3279641623, 3126596727,
     1302941593]
  = [1275449710, 2238769705, 2201747621, 3112342316, 561163284, 2823926694, 1205212965,
     2142698566]"
  by (simp add: rounds_def round_eval)

lemma rounds_x5: "rounds K5 X5
    [1275449710, 2238769705, 2201747621, 3112342316, 561163284, 2823926694, 1205212965,
     2142698566]
  = [3696754228, 379674006, 3797958242, 2179004461, 2133471585, 1001808549, 4066380271, 166577485]"
  by (simp add: rounds_def round_eval)

lemma rounds_x6: "rounds K6 X6
    [3696754228, 379674006, 3797958242, 2179004461, 2133471585, 1001808549, 4066380271, 166577485]
  = [2292859701, 3511490008, 3031660480, 2801648479, 4078139779, 2240707891, 1188831173,
     3398895665]"
  by (simp add: rounds_def round_eval)

lemma rounds_x7: "rounds K7 X7
    [2292859701, 3511490008, 3031660480, 2801648479, 4078139779, 2240707891, 1188831173,
     3398895665]
  = [302942401, 2934844226, 2522154039, 1405746661, 2680015067, 4116831943, 3290206326, 353995555]"
  by (simp add: rounds_def round_eval)

lemma block_x: "map (\<lambda>c. of_nat (be_nat c)) (chunks 16 4 (sha256_pad bytes_x)) = X0 @ X1"
  by (simp add: bytes_x_def sha256_pad_def be_bytes_def chunks_numeral be_nat_def upt_8 replicate_numeral reduce_u32)

lemma digest_x: "fold sha256_round (zip sha256_K (sha256_schedule 48 (X0 @ X1))) sha256_H
    = [302942401, 2934844226, 2522154039, 1405746661, 2680015067, 4116831943, 3290206326, 353995555]"
proof -
  have ws: "sha256_schedule 48 (X0 @ X1) = X0 @ X1 @ X2 @ X3 @ X4 @ X5 @ X6 @ X7"
    unfolding schedule_48 by (simp only: schedule_x0 schedule_x1 schedule_x2)
  show ?thesis
    unfolding ws sha256_K_rows sha256_H_words rounds_def [symmetric]
    by (simp only: rounds_append list.size rounds_x0 rounds_x1 rounds_x2 rounds_x3 rounds_x4 rounds_x5 rounds_x6 rounds_x7)
qed

section \<open>The text with w\<close>

definition bytes_w :: "byte list" where
  "bytes_w = [123, 34, 112, 114, 111, 102, 105, 108, 101, 34, 58, 123, 34, 97, 34, 58, 34, 119, 34, 44,
     34, 98, 34, 58, 34, 121, 34, 125, 125]"

abbreviation W0 :: "u32 list" where
  "W0 \<equiv> [2065854578, 1868982636, 1696742011, 576791098, 578232876, 576856634, 578364029, 2105540608]"

abbreviation W1 :: "u32 list" where
  "W1 \<equiv> [0, 0, 0, 0, 0, 0, 0, 232]"

abbreviation W2 :: "u32 list" where
  "W2 \<equiv> [3398142616, 3837805535, 1373014028, 3767493566, 2953904698, 914837597, 3543813391,
     2318673631]"

abbreviation W3 :: "u32 list" where
  "W3 \<equiv> [1406345544, 3916251489, 3576249113, 3099038981, 4049726172, 189174711, 578282977, 3118804099]"

abbreviation W4 :: "u32 list" where
  "W4 \<equiv> [1977837137, 2659432929, 2748142648, 2714327392, 615904709, 2000041662, 2035786590, 809278655]"

abbreviation W5 :: "u32 list" where
  "W5 \<equiv> [2799209095, 3536324406, 3293845941, 3190836956, 3288927936, 4071282636, 1420655894,
     128252989]"

abbreviation W6 :: "u32 list" where
  "W6 \<equiv> [2558349586, 1956689547, 3886888293, 2802516359, 1395632502, 130965232, 29748820, 3868797005]"

abbreviation W7 :: "u32 list" where
  "W7 \<equiv> [3700119309, 3774578816, 3921467655, 2625719707, 4122216587, 4249076758, 111486567,
     3781376993]"

lemma schedule_w0: "sha256_schedule 16 (W0 @ W1) = W0 @ W1 @ W2 @ W3"
  by (simp add: schedule_eval)

lemma schedule_w1: "sha256_schedule 16 (W0 @ W1 @ W2 @ W3) = W0 @ W1 @ W2 @ W3 @ W4 @ W5"
  by (simp add: schedule_eval)

lemma schedule_w2: "sha256_schedule 16 (W0 @ W1 @ W2 @ W3 @ W4 @ W5) = W0 @ W1 @ W2 @ W3 @ W4 @ W5 @ W6 @ W7"
  by (simp add: schedule_eval)

lemma rounds_w0: "rounds K0 W0
    [1779033703, 3144134277, 1013904242, 2773480762, 1359893119, 2600822924, 528734635,
     1541459225]
  = [3911655101, 2365382463, 247299738, 1452971274, 790031276, 3489400105, 3504978241, 1771494027]"
  by (simp add: rounds_def round_eval)

lemma rounds_w1: "rounds K1 W1
    [3911655101, 2365382463, 247299738, 1452971274, 790031276, 3489400105, 3504978241, 1771494027]
  = [1548991398, 1686957292, 1853310694, 1353266605, 2659107029, 3796721358, 2028035862,
     3793979741]"
  by (simp add: rounds_def round_eval)

lemma rounds_w2: "rounds K2 W2
    [1548991398, 1686957292, 1853310694, 1353266605, 2659107029, 3796721358, 2028035862,
     3793979741]
  = [2732658704, 3919281822, 4198584990, 2582402362, 1500148566, 3797792607, 3120062135,
     2205982211]"
  by (simp add: rounds_def round_eval)

lemma rounds_w3: "rounds K3 W3
    [2732658704, 3919281822, 4198584990, 2582402362, 1500148566, 3797792607, 3120062135,
     2205982211]
  = [2640780716, 2525341494, 2668282576, 3360419317, 1571007013, 2843970353, 3000620397,
     1794494005]"
  by (simp add: rounds_def round_eval)

lemma rounds_w4: "rounds K4 W4
    [2640780716, 2525341494, 2668282576, 3360419317, 1571007013, 2843970353, 3000620397,
     1794494005]
  = [422834455, 3165680132, 3964779213, 1876250224, 2732169199, 1316930045, 3594441942,
     1908656142]"
  by (simp add: rounds_def round_eval)

lemma rounds_w5: "rounds K5 W5
    [422834455, 3165680132, 3964779213, 1876250224, 2732169199, 1316930045, 3594441942,
     1908656142]
  = [1465560901, 78300426, 3271754067, 422729653, 1122078138, 1393185860, 1337717928, 2949113729]"
  by (simp add: rounds_def round_eval)

lemma rounds_w6: "rounds K6 W6
    [1465560901, 78300426, 3271754067, 422729653, 1122078138, 1393185860, 1337717928, 2949113729]
  = [2975716947, 1416253815, 1677865171, 1620731794, 2698448584, 3316985536, 4113600155,
     4018605103]"
  by (simp add: rounds_def round_eval)

lemma rounds_w7: "rounds K7 W7
    [2975716947, 1416253815, 1677865171, 1620731794, 2698448584, 3316985536, 4113600155,
     4018605103]
  = [2182168956, 1480257717, 2974789188, 3583643619, 1981426493, 3808519927, 3502416675,
     140529736]"
  by (simp add: rounds_def round_eval)

lemma block_w: "map (\<lambda>c. of_nat (be_nat c)) (chunks 16 4 (sha256_pad bytes_w)) = W0 @ W1"
  by (simp add: bytes_w_def sha256_pad_def be_bytes_def chunks_numeral be_nat_def upt_8 replicate_numeral reduce_u32)

lemma digest_w: "fold sha256_round (zip sha256_K (sha256_schedule 48 (W0 @ W1))) sha256_H
    = [2182168956, 1480257717, 2974789188, 3583643619, 1981426493, 3808519927, 3502416675,
     140529736]"
proof -
  have ws: "sha256_schedule 48 (W0 @ W1) = W0 @ W1 @ W2 @ W3 @ W4 @ W5 @ W6 @ W7"
    unfolding schedule_48 by (simp only: schedule_w0 schedule_w1 schedule_w2)
  show ?thesis
    unfolding ws sha256_K_rows sha256_H_words rounds_def [symmetric]
    by (simp only: rounds_append list.size rounds_w0 rounds_w1 rounds_w2 rounds_w3 rounds_w4 rounds_w5 rounds_w6 rounds_w7)
qed

end
