(* ===== verification/Tailoring_Sample.thy ===== *)
theory Tailoring_Sample
  imports Tailoring_Inv ProfileApply_Props Application_Props GoCrypto_Eval
begin

text \<open>
  Sagas worked out: a profile with two fields, whose baseline and tailored states are two texts with
  different digests, and worlds in which such a saga applies, restores or requires recovery.
\<close>

section \<open>Two states with different digests\<close>

abbreviation baseline_text :: string where
  "baseline_text \<equiv> sample_text ''w'' (JString ''y'')"

abbreviation tailored_text :: string where
  "tailored_text \<equiv> sample_text ''x'' JNull"

lemma one_block:
  assumes "length (sha256_pad bs) = 64"
  shows "take 4 (sha256_bytes bs) = be_bytes 4 (unat (hd (sha256_block (sha256_pad bs) sha256_H)))"
proof -
  have "length (sha256_block (sha256_pad bs) sha256_H) = 8" by (simp add: sha256_H_words)
  then obtain w ws where "sha256_block (sha256_pad bs) sha256_H = w # ws" by (cases "sha256_block (sha256_pad bs) sha256_H") auto
  then show ?thesis using assms by (simp add: sha256_bytes_def Let_def)
qed

lemma first_bytes: "take 4 (sha256_bytes bytes_x) = be_bytes 4 2081976104"
  "take 4 (sha256_bytes bytes_w) \<noteq> be_bytes 4 2081976104"
proof -
  have p: "length (sha256_pad bytes_x) = 64" "length (sha256_pad bytes_w) = 64"
    by (simp_all add: sha256_pad_def bytes_x_def bytes_w_def)
  have x: "hd (sha256_block (sha256_pad bytes_x) sha256_H) = 2081976104"
    unfolding sha256_block_def Let_def block_x digest_x by (simp add: sha256_H_words reduce_u32)
  have w: "hd (sha256_block (sha256_pad bytes_w) sha256_H) = 3961202659"
    unfolding sha256_block_def Let_def block_w digest_w by (simp add: sha256_H_words reduce_u32)
  show "take 4 (sha256_bytes bytes_x) = be_bytes 4 2081976104" unfolding one_block [OF p(1)] x by simp
  show "take 4 (sha256_bytes bytes_w) \<noteq> be_bytes 4 2081976104"
    unfolding one_block [OF p(2)] w by (simp add: be_bytes_def upt_rec)
qed

lemma sample_bytes: "string_bytes tailored_text = bytes_x" "string_bytes baseline_text = bytes_w"
proof -
  have "map (of_char :: char \<Rightarrow> nat) tailored_text = [123, 34, 112, 114, 111, 102, 105, 108, 101, 34, 58, 123, 34, 97, 34, 58,
      34, 120, 34, 44, 34, 98, 34, 58, 110, 117, 108, 108, 125, 125]" by code_simp
  then have "map (of_nat :: nat \<Rightarrow> byte) (map of_char tailored_text) = bytes_x" by (simp add: bytes_x_def)
  then show "string_bytes tailored_text = bytes_x" by (simp add: string_bytes_def comp_def)
  have "map (of_char :: char \<Rightarrow> nat) baseline_text = [123, 34, 112, 114, 111, 102, 105, 108, 101, 34, 58, 123, 34, 97, 34, 58,
      34, 119, 34, 44, 34, 98, 34, 58, 34, 121, 34, 125, 125]" by code_simp
  then have "map (of_nat :: nat \<Rightarrow> byte) (map of_char baseline_text) = bytes_w" by (simp add: bytes_w_def)
  then show "string_bytes baseline_text = bytes_w" by (simp add: string_bytes_def comp_def)
qed

lemma sample_digests: "profileStateDigest baseline_text \<noteq> profileStateDigest tailored_text"
  using first_bytes by (auto simp: profileStateDigest_def sha256_Sum256_def sample_bytes hex_Encode_inject)

section \<open>A saga in each status\<close>

definition sample_saga :: "ApplicationTailoringStatus \<Rightarrow> string \<Rightarrow> string \<Rightarrow> string \<Rightarrow> 64 word \<Rightarrow> time \<Rightarrow> ApplicationTailoring" where
  "sample_saga status apply restore reason revision updated = (let t = \<lparr>at_ID = ''s1'', at_ApplicationID = ''a1'', at_Attempt = 1,
     at_Key = \<lparr>ak_ProfileID = ''p1'', ak_Vacancy = \<lparr>vk_Platform = ''hh'', vk_ExternalID = ''42''\<rparr>\<rparr>, at_ResumeID = ''r1'',
     at_Status = status, at_IdempotencyKey = [], at_ProcessorTag = ''skills'', at_ProcessorVersion = ''1'',
     at_ProcessorInputDigest = applicationPreparationTextDigest [], at_AllowedPaths = [''/profile/a'', ''/profile/b''],
     at_BaselineDigest = profileStateDigest baseline_text, at_TailoredDigest = profileStateDigest tailored_text,
     at_BaselineRemoteRevision = [], at_BaselineObservedAt = 5, at_TailoredRemoteRevision = [],
     at_BaselineState = baseline_text, at_TailoredState = tailored_text,
     at_ApplyProposalID = apply, at_RestoreProposalID = restore, at_RecoveryReason = reason, at_Revision = revision,
     at_CreatedAt = 6, at_UpdatedAt = updated\<rparr> in t\<lparr>at_IdempotencyKey := applicationTailoringKey t\<rparr>)"

lemma sample_saga_simps [simp]:
  "at_ID (sample_saga st a r m n u) = ''s1''" "at_ApplicationID (sample_saga st a r m n u) = ''a1''" "at_Attempt (sample_saga st a r m n u) = 1"
  "at_ProfileID (sample_saga st a r m n u) = ''p1''" "at_Status (sample_saga st a r m n u) = st"
  "at_ApplyProposalID (sample_saga st a r m n u) = a" "at_RestoreProposalID (sample_saga st a r m n u) = r"
  "at_RecoveryReason (sample_saga st a r m n u) = m" "at_BaselineState (sample_saga st a r m n u) = baseline_text"
  "at_TailoredState (sample_saga st a r m n u) = tailored_text" "at_Revision (sample_saga st a r m n u) = n"
  "at_BaselineDigest (sample_saga st a r m n u) = profileStateDigest baseline_text"
  "at_TailoredDigest (sample_saga st a r m n u) = profileStateDigest tailored_text" "at_UpdatedAt (sample_saga st a r m n u) = u"
  "at_TailoredRemoteRevision (sample_saga st a r m n u) = []"
  by (simp_all add: sample_saga_def Let_def)

lemma sample_allowed_paths:
  "validateApplicationTailoringPaths baseline_text tailored_text [''/profile/a'', ''/profile/b''] = None"
proof -
  have d: "decoded_or_null baseline_text = sample_fields ''w'' (JString ''y'')" "decoded_or_null tailored_text = sample_fields ''x'' JNull"
    using sample_state(1,2) by (simp_all add: decoded_or_null_def)
  have p: "sort (collectDeclaredPaths [] (sample_fields ''w'' (JString ''y''))) = [''/profile/a'', ''/profile/b'']" by code_simp
  have ne: "\<not> jsonValuesEqual (JString ''w'') (JString ''x'')" "\<not> jsonValuesEqual (JString ''y'') JNull" by code_simp+
  have le: "\<not> ''/profile/a'' \<le> []" "\<not> ''/profile/b'' \<le> ''/profile/a''" by code_simp+
  have "walk_paths (sample_fields ''w'' (JString ''y'')) (sample_fields ''x'' JNull) [] [] 0 [''/profile/a'', ''/profile/b''] = Inr 2"
    using le by (simp add: sample_values ne HasPrefix_def)
  then show ?thesis by (simp add: validateApplicationTailoringPaths_def d p sample_paths Let_def)
qed

lemma sample_saga_valid:
  assumes "tailoring_status_valid (sample_saga st a r m n u) = None" "st \<noteq> TailoringRecoveryRequired \<longrightarrow> m = []" "n \<noteq> 0" "6 \<le> u"
  shows "valid_saga (sample_saga st a r m n u)"
proof -
  have c: "canonical_desired baseline_text" "canonical_desired tailored_text"
    using sample_state(1,2) by (simp_all add: canonical_desired_def)
  have k: "applicationTailoringKey (sample_saga st a r m n u) = at_IdempotencyKey (sample_saga st a r m n u)"
    "at_IdempotencyKey (sample_saga st a r m n u) \<noteq> []"
    by (simp_all add: sample_saga_def Let_def applicationTailoringKey_def)
  have trim: "TrimSpace ''skills'' = ''skills''" "TrimSpace ''1'' = ''1''" "TrimSpace ''r1'' = ''r1''"
    "TrimSpace ''p1'' = ''p1''" "TrimSpace ''hh'' = ''hh''" "TrimSpace ''42'' = ''42''"
    by (simp_all add: TrimSpace_id space_heads_def space_lasts_def)
  have key: "ApplicationKey_Validate (at_Key (sample_saga st a r m n u)) = None"
    by (simp add: sample_saga_def Let_def ApplicationKey_Validate_def VacancyKey_Validate_def trim)
  have fields: "at_ResumeID (sample_saga st a r m n u) = ''r1''" "at_ProcessorTag (sample_saga st a r m n u) = ''skills''"
    "at_ProcessorVersion (sample_saga st a r m n u) = ''1''" "at_BaselineObservedAt (sample_saga st a r m n u) = 5"
    "at_ProcessorInputDigest (sample_saga st a r m n u) = applicationPreparationTextDigest []"
    "at_CreatedAt (sample_saga st a r m n u) = 6" "at_AllowedPaths (sample_saga st a r m n u) = [''/profile/a'', ''/profile/b'']"
    by (simp_all add: sample_saga_def Let_def)
  show ?thesis
    using assms by (simp add: Tailoring_Validate_def fields key c k trim computed_digest_valid sample_digests
        sample_allowed_paths IsZero_def) blast
qed

section \<open>Its proposals\<close>

definition sample_proposal :: ProfileStateProposal where
  "sample_proposal = projr (NewProfileStateProposal ''plan'' (sample_resource tailored_text) (sample_observation baseline_text) 7)"

definition back_proposal :: ProfileStateProposal where
  "back_proposal = projr (NewProfileStateProposal ''back'' (sample_resource baseline_text) (sample_observation baseline_text) 10)"

lemma sample_resource_fields:
  "rsc_State (sample_resource s) = s" "rsc_Tag (sample_resource s) = ''main''" "rsc_ProfileID (sample_resource s) = ''p1''"
  "rsc_Ownership (sample_resource s) = OwnershipDeclaredFields" "rsc_ManifestDigest (sample_resource s) \<noteq> []"
  by (simp_all add: sample_resource_def Let_def profileStateManifestDigest_def profileStateDigest_def)

lemma sample_proposal_new:
  "NewProfileStateProposal ''plan'' (sample_resource tailored_text) (sample_observation baseline_text) 7 = Inr sample_proposal"
  "psp_ID sample_proposal = ''plan''" "psp_Status sample_proposal = ProposalPlanned" "psp_ProfileID sample_proposal = ''p1''"
  "psp_DesiredState sample_proposal = tailored_text" "Proposal_Validate sample_proposal = None"
proof -
  show n: "NewProfileStateProposal ''plan'' (sample_resource tailored_text) (sample_observation baseline_text) 7 = Inr sample_proposal"
    and "psp_ID sample_proposal = ''plan''" "psp_Status sample_proposal = ProposalPlanned"
    using sample_plan by (auto simp: sample_proposal_def)
  show "psp_ProfileID sample_proposal = ''p1''" "psp_DesiredState sample_proposal = tailored_text" "Proposal_Validate sample_proposal = None"
    using New_proposal [OF n] by (simp_all add: sample_resource_fields)
qed

lemma back_proposal_new:
  "psp_ID back_proposal = ''back''" "psp_Status back_proposal = ProposalNoChanges" "psp_ProfileID back_proposal = ''p1''"
  "psp_DesiredState back_proposal = baseline_text" "Proposal_Validate back_proposal = None"
proof -
  note c = sample_state(2) [simplified]
  have same: "jsonValuesEqual v v" for v by (simp add: jsonValuesEqual_def)
  have diff: "diffProfileState baseline_text baseline_text = Inr []"
    using c by (simp add: diffProfileState_def) (simp add: sample_fields_def diff_leaf_def same sort_Slice_def)
  have digest: "profileStateDigest v \<noteq> []" for v by (simp add: profileStateDigest_def)
  have "\<exists>p. NewProfileStateProposal ''back'' (sample_resource baseline_text) (sample_observation baseline_text) 10 = Inr p
      \<and> psp_ID p = ''back'' \<and> psp_Status p = ProposalNoChanges"
    using c diff digest sample_resource_new(1) sample_observation_valid
    by (simp add: NewProfileStateProposal_def Proposal_Validate_def canonical_desired_def sample_resource_fields Let_def
        profileStateProposalKey_def TrimSpace_id space_heads_def space_lasts_def)
  then have n: "NewProfileStateProposal ''back'' (sample_resource baseline_text) (sample_observation baseline_text) 10 = Inr back_proposal"
    and "psp_ID back_proposal = ''back'' \<and> psp_Status back_proposal = ProposalNoChanges" by (auto simp: back_proposal_def)
  then show "psp_ID back_proposal = ''back''" "psp_Status back_proposal = ProposalNoChanges" by simp_all
  show "psp_ProfileID back_proposal = ''p1''" "psp_DesiredState back_proposal = baseline_text" "Proposal_Validate back_proposal = None"
    using New_proposal [OF n] by (simp_all add: sample_resource_fields)
qed

text \<open>Once the tailored state is there, nothing of the plan is left to apply.\<close>

lemma sample_verified: "verified sample_proposal (sample_observation tailored_text) = Inr (sample_observation tailored_text)"
proof -
  note c = sample_state(1,2) [simplified] and n = sample_proposal_new
  have same: "jsonValuesEqual v v" for v by (simp add: jsonValuesEqual_def)
  have "third_state (sample_fields ''w'' (JString ''y'')) (sample_fields ''x'' JNull) (sample_fields ''x'' JNull) q = False"
    if "q \<in> set [''/profile/a'', ''/profile/b'']" for q
    using that by (auto simp: third_state_def sample_values profileStateValueMatches_def same)
  then have "find (third_state (sample_fields ''w'' (JString ''y'')) (sample_fields ''x'' JNull) (sample_fields ''x'' JNull))
      [''/profile/a'', ''/profile/b''] = None" by (simp add: find_None_iff)
  moreover have "psp_Changes sample_proposal = [change_of ''/profile/a'' (Some (JString ''w'')) (JString ''x''),
      change_of ''/profile/b'' (Some (JString ''y'')) JNull]" using sample_plan n(1) by auto
  then have "filter (\<lambda>c. \<not> profileStateValueMatches (jsonPointerValue (sample_fields ''x'' JNull) (chg_Path c))
      (jsonPointerValue (sample_fields ''x'' JNull) (chg_Path c))) (psp_Changes sample_proposal) = []"
    by (auto simp: filter_empty_conv sample_values profileStateValueMatches_def same)
  ultimately have "ChangesToApply (sample_observation tailored_text) sample_proposal = Inr []"
    using ChangesToApply_spec [OF n(1), of "sample_observation tailored_text"
        "sample_fields ''w'' (JString ''y'')" "sample_fields ''x'' JNull" "sample_fields ''x'' JNull"] c
    by (simp add: sample_observation_valid sample_resource_fields sample_paths)
  then show ?thesis using c(1) by (simp add: verified_def sample_observation_valid)
qed

section \<open>Worlds\<close>

definition sample_tailorings :: "ApplicationTailoring \<Rightarrow> Tailorings" where
  "sample_tailorings t = \<lparr>ts_tailorings = [(''s1'', t)], ts_applications = [(''a1'', ''s1'')], ts_profiles = [(''p1'', ''s1'')]\<rparr>"

text \<open>The outside world is a clock.\<close>

definition saga_world :: "ApplicationTailoring \<Rightarrow> int SagaWorld" where
  "saga_world t = \<lparr>sw_tailorings = sample_tailorings t,
     sw_states = \<lparr>ps_proposals = [(''plan'', sample_proposal), (''back'', back_proposal)], ps_keys = [], ps_revisions = []\<rparr>,
     sw_writes = [], sw_ext = 20\<rparr>"

lemma saga_world_ok:
  assumes "valid_saga t" "at_ID t = ''s1''" "at_ApplicationID t = ''a1''" "at_ProfileID t = ''p1''" "active t"
    and "at_ApplyProposalID t = ''plan'' \<and> at_TailoredState t = tailored_text"
    and "at_RestoreProposalID t = [] \<or> at_RestoreProposalID t = ''back'' \<and> at_BaselineState t = baseline_text"
  shows "saga_ok (saga_world t) (saga_world t)"
proof -
  have "tailorings_ok (sample_tailorings t)"
    using assms(1-5) by (auto simp: tailorings_ok_def sample_tailorings_def)
  moreover have "proposals_ok (sw_states (saga_world t))"
    using sample_proposal_new back_proposal_new by (auto simp: proposals_ok_def saga_world_def)
  moreover have "linked (sw_states (saga_world t)) t"
    using assms(4,6,7) sample_proposal_new back_proposal_new by (auto simp: linked_def leads_to_def saga_world_def)
  ultimately show ?thesis
    unfolding saga_ok_def by (auto simp: saga_world_def sample_tailorings_def frozen_def split: if_splits)
qed

text \<open>A coordinator whose reader finds the given state and whose writer applies the plan.\<close>

definition sample_coordinator :: "string \<Rightarrow> int TailoringCoordinator" where
  "sample_coordinator state = \<lparr>tc_Err = \<lambda>_. None, tc_Now = \<lambda>x. (x, x + 1), tc_NewID = \<lambda>kind x. (Inr ''n1'', x),
     tc_readers = [(''p1'', \<lambda>ctx profile paths x. (Inr (sample_observation state), x))],
     tc_writers = [(''p1'', \<lambda>ctx p x. (Inr (sample_observation tailored_text), x))], tc_lower = id\<rparr>"

end
