(* ===== verification/Tailoring_Quiet.thy ===== *)
theory Tailoring_Quiet
  imports Tailoring_Inv
begin

text \<open>
  Where the coordinator stores a saga as applied or submitting: only where it records what the
  profile's writer or reader reported. Every other step, failing or not, is quiet: it stores no saga in
  one of the two statuses that was not stored so before.
\<close>

definition raised :: "ApplicationTailoring \<Rightarrow> bool" where
  "raised t \<longleftrightarrow> at_Status t \<in> {TailoringApplied, TailoringSubmitting}"

definition newly_raised :: "'x SagaWorld \<Rightarrow> 'x SagaWorld \<Rightarrow> ApplicationTailoringID \<Rightarrow> ApplicationTailoring \<Rightarrow> bool" where
  "newly_raised w w' i t \<longleftrightarrow> raised t \<and> saga_at (sw_tailorings w') i = Some t \<and> saga_at (sw_tailorings w) i \<noteq> Some t"

definition none_raised :: "'x SagaWorld \<Rightarrow> 'x SagaWorld \<Rightarrow> bool" where
  "none_raised w w' \<longleftrightarrow> (\<forall>i t. \<not> newly_raised w w' i t)"

lemma none_raised_refl [simp]: "none_raised w w"
  by (simp add: none_raised_def newly_raised_def)

lemma none_raised_trans: "none_raised a b \<Longrightarrow> none_raised b c \<Longrightarrow> none_raised a c"
  by (auto simp: none_raised_def newly_raised_def)

lemma none_raised_same: "sw_tailorings w' = sw_tailorings w \<Longrightarrow> none_raised w w'"
  by (simp add: none_raised_def newly_raised_def)

abbreviation quiet :: "('x, 'a) saga \<Rightarrow> bool" where
  "quiet m \<equiv> keeps none_raised m"

lemma quiet_same: "(\<And>w. sw_tailorings (snd (m w)) = sw_tailorings w) \<Longrightarrow> quiet m"
  by (simp add: keeps_def none_raised_same)

lemma quiet_bind: "quiet m \<Longrightarrow> (\<And>a. quiet (k a)) \<Longrightarrow> quiet (bind_do m k)"
  using keeps_bind [of none_raised m k] none_raised_trans by blast

lemmas quiet_return = keeps_return [where R = none_raised, OF none_raised_refl]

section \<open>The steps\<close>

lemma quiet_outside: "quiet (outside f)"
  by (rule quiet_same) (simp add: outside_def split: prod.split)

lemma quiet_clock: "quiet (clock_now c)"
  by (simp add: clock_now_def quiet_outside)

lemma quiet_proposals: "quiet (stored_proposal c i)" "quiet (store_proposal c p)"
  by (rule quiet_same, simp add: stored_proposal_def store_proposal_def split: prod.split sum.split)+

lemma quiet_read: "quiet (read_profile c p paths)" "quiet (read_saga c t)"
  unfolding read_saga_def read_profile_def
  by (intro quiet_bind quiet_return quiet_outside)+

lemma quiet_createProposal: "quiet (createProposal c resource observation)"
  unfolding createProposal_def by (intro quiet_bind quiet_outside quiet_clock quiet_return quiet_proposals)

lemma quiet_write: "quiet (write_profile c writer p)"
  by (rule quiet_same) (simp add: write_profile_def outside_def split: prod.split)

lemma quiet_applyProposal: "quiet (applyProposal c p)"
  unfolding applyProposal_def by (intro quiet_bind quiet_return quiet_write)

text \<open>A save stores one saga, and a failed one nothing.\<close>

lemma Save_stores:
  assumes "SaveApplicationTailoring ctx t n s = (r, s')" and "saga_at s' i = Some u"
  shows "saga_at s i = Some u \<or> r = None \<and> u = t \<and> i = at_ID t"
  using assms by (auto simp: SaveApplicationTailoring_def release_tailoring_def Let_def update_conv'
      split: option.splits if_splits)

lemma advance_stores:
  assumes "advance_saga c step t w = (r, w')" and "saga_at (sw_tailorings w') i = Some u"
  shows "saga_at (sw_tailorings w) i = Some u
    \<or> r = Inr u \<and> i = at_ID u \<and> (\<exists>at. step at t = (None, u)) \<and> sw_ext w' = snd (tc_Now c (sw_ext w))"
proof -
  obtain at x where now: "tc_Now c (sw_ext w) = (at, x)" by fastforce
  obtain e t' where s: "step at t = (e, t')" by fastforce
  show ?thesis
  proof (cases e)
    case (Some a)
    with assms now s show ?thesis
      by (auto simp: advance_saga_def bind_do_def clock_now_def outside_def fail_with_def)
  next
    case None
    obtain r1 s1 where sv: "SaveApplicationTailoring (tc_Err c x) t' (at_Revision t) (sw_tailorings w) = (r1, s1)"
      by fastforce
    have "w' = w\<lparr>sw_ext := x, sw_tailorings := s1\<rparr>" "r = (case r1 of None \<Rightarrow> Inr t' | Some a \<Rightarrow> Inl a)"
      using assms(1) now s None sv
      by (auto simp: advance_saga_def bind_do_def clock_now_def outside_def save_saga_def return_ok_def
          split: option.splits)
    with Save_stores [OF sv] assms(2) s None now show ?thesis by fastforce
  qed
qed

lemma quiet_advance:
  assumes "\<And>at t'. step at t = (None, t') \<Longrightarrow> \<not> raised t'"
  shows "quiet (advance_saga c step t)"
  unfolding keeps_def none_raised_def newly_raised_def
  using advance_stores [OF prod.collapse [symmetric]] assms by blast

lemma quiet_markRecovery: "quiet (markRecovery c t reason)"
proof -
  have "\<not> raised t'" if "RequireRecovery reason at t = (None, t')" for at t'
    using that by (auto simp: RequireRecovery_def tailoring_step_None raised_def split: if_splits)
  then show ?thesis
    unfolding markRecovery_def by (intro quiet_bind quiet_advance quiet_return) blast
qed

lemma quiet_handle:
  assumes "quiet m"
  shows "quiet (handleMutationError c t reason m)"
  unfolding keeps_def
proof
  fix w
  obtain r w1 where m: "m w = (r, w1)" by fastforce
  have "none_raised w w1" using keepsD [OF assms, of w] m by simp
  moreover have "none_raised w1 (snd (markRecovery c t reason w1))" by (rule keepsD [OF quiet_markRecovery])
  ultimately show "none_raised w (snd (handleMutationError c t reason m w))"
    using none_raised_trans m by (auto simp: handleMutationError_def split: sum.splits)
qed

lemma quiet_begin_apply: "quiet (begin_apply c t)"
  unfolding begin_apply_def
  by (intro quiet_bind quiet_return quiet_createProposal quiet_advance) (auto simp: raised_def dest: BeginApply_None)

lemma quiet_begin_restore: "quiet (begin_restore c t)"
proof -
  have b: "\<not> raised t'" if "BeginRestore i at t = (None, t')" for i at t'
    using BeginRestore_None [OF that] by (simp add: raised_def)
  show ?thesis unfolding begin_restore_def
    by (intro quiet_bind quiet_return quiet_createProposal quiet_advance quiet_read)
      (auto intro!: quiet_bind quiet_return quiet_createProposal quiet_advance quiet_markRecovery b)
qed

lemma quiet_finish_restore: "quiet (finish_restore c t)"
proof -
  have b: "\<not> raised t'" if "RecordRestored obs at t = (None, t')" for obs at t'
    using RecordRestored_None [OF that] by (simp add: raised_def)
  have m: "quiet (if psp_Status p = ProposalNoChanges then read_saga c t else applyProposal c p)" for p
    by (simp add: quiet_read quiet_applyProposal)
  show ?thesis unfolding finish_restore_def
    by (intro quiet_bind quiet_proposals quiet_handle [OF m] quiet_advance quiet_return b)
qed

lemma quiet_if_saga: "(\<And>t. quiet (k t)) \<Longrightarrow> quiet (if_saga c a k)"
  by (auto simp: keeps_def if_saga_def saga_of_application_def split: sum.splits)

lemma quiet_Restore: "quiet (tc_Restore c a)"
  unfolding tc_Restore_def
proof (rule quiet_if_saga)
  fix t
  show "quiet (case at_Status t of
       TailoringRecoveryRequired \<Rightarrow> fail_with (recoveryError t)
     | TailoringApplied \<Rightarrow> bind_do (begin_restore c t) (finish_restore c)
     | TailoringSubmitting \<Rightarrow> bind_do (begin_restore c t) (finish_restore c)
     | TailoringRestoring \<Rightarrow> finish_restore c t
     | TailoringRestored \<Rightarrow> return_ok ()
     | s \<Rightarrow> fail_with (Err (''cannot restore application tailoring in status '' @ quoted (tailoring_status_text s))))"
    by (cases "at_Status t") (auto intro: quiet_bind quiet_begin_restore quiet_finish_restore quiet_return)
qed

section \<open>What the operations raise, they return\<close>

definition returns_raised :: "('x, ApplicationTailoring) saga \<Rightarrow> bool" where
  "returns_raised m \<longleftrightarrow> (\<forall>w i t. newly_raised w (snd (m w)) i t \<longrightarrow> fst (m w) = Inr t \<and> i = at_ID t)"

lemma quiet_returns: "quiet m \<Longrightarrow> returns_raised m"
  by (auto simp: returns_raised_def keeps_def none_raised_def)

lemma returns_bind:
  assumes "quiet m" and "\<And>a. returns_raised (k a)"
  shows "returns_raised (bind_do m k)"
  unfolding returns_raised_def
proof (intro allI impI)
  fix w i t assume new: "newly_raised w (snd (bind_do m k w)) i t"
  obtain r w1 where m: "m w = (r, w1)" by fastforce
  have q: "none_raised w w1" using keepsD [OF assms(1), of w] m by simp
  show "fst (bind_do m k w) = Inr t \<and> i = at_ID t"
  proof (cases r)
    case (Inl e)
    with new m q show ?thesis by (simp add: bind_do_def none_raised_def)
  next
    case (Inr a)
    with new m q have "newly_raised w1 (snd (k a w1)) i t"
      by (auto simp: bind_do_def none_raised_def newly_raised_def)
    with assms(2) [of a] m Inr show ?thesis by (auto simp: bind_do_def returns_raised_def)
  qed
qed

lemma returns_finish_apply: "returns_raised (finish_apply c t)"
proof -
  have "returns_raised (advance_saga c (RecordApplied obs) t)" for obs
    unfolding returns_raised_def newly_raised_def
    using advance_stores [OF prod.collapse [symmetric]] by fastforce
  then show ?thesis unfolding finish_apply_def
    by (intro returns_bind quiet_proposals quiet_handle quiet_applyProposal)
qed

lemma returns_driveApply: "returns_raised (driveApply c t)"
  unfolding driveApply_def
  by (cases "at_Status t") (auto intro: returns_bind quiet_begin_apply returns_finish_apply quiet_returns quiet_return)

lemma returns_Some:
  assumes "newly_raised w (snd (bind_do (driveApply c t) (\<lambda>t. return_ok (Some t)) w)) i u"
  shows "fst (bind_do (driveApply c t) (\<lambda>t. return_ok (Some t)) w) = Inr (Some u) \<and> i = at_ID u"
proof -
  obtain r w1 where m: "driveApply c t w = (r, w1)" by fastforce
  have ret: "newly_raised w w1 i u \<Longrightarrow> r = Inr u \<and> i = at_ID u"
    using returns_driveApply [of c t] m unfolding returns_raised_def by (metis fst_conv snd_conv)
  show ?thesis
  proof (cases r)
    case (Inl e)
    with assms m have "newly_raised w w1 i u" by (simp add: bind_do_def)
    with ret Inl show ?thesis by simp
  next
    case (Inr t')
    with assms m have "newly_raised w w1 i u" by (simp add: bind_do_def return_ok_def)
    with ret Inr m show ?thesis by (simp add: bind_do_def return_ok_def)
  qed
qed

text \<open>A created saga is planned, or it was there before.\<close>

lemma quiet_create_saga:
  assumes "\<not> raised t"
  shows "quiet (create_saga c t)"
  unfolding keeps_def none_raised_def newly_raised_def
  using assms by (auto simp: create_saga_def CreateApplicationTailoring_def Let_def update_conv'
      split: option.splits sum.splits prod.splits if_splits)

lemma quiet_start_saga: "quiet (start_saga c application resumeID paths observation plan)"
proof -
  have "quiet (bind_do (lift_result (NewApplicationTailoring params at)) (create_saga c))" for params at
  proof (cases "NewApplicationTailoring params at")
    case (Inl e)
    then show ?thesis by (simp add: keeps_def bind_do_def lift_result_def)
  next
    case (Inr t)
    with New_saga have "\<not> raised t" by (fastforce simp: raised_def)
    from quiet_create_saga [OF this, of c] Inr show ?thesis by (simp add: keeps_def bind_do_def lift_result_def)
  qed
  note new = this
  show ?thesis unfolding start_saga_def
    by (rule quiet_bind [OF quiet_return(3)], rule quiet_bind [OF quiet_return(3)],
        rule quiet_bind [OF quiet_outside], rule quiet_bind [OF quiet_clock], rule new)
qed

lemma Apply_raises:
  assumes "tc_Apply c application vacancy plan resumeID w = (r, w')" and "newly_raised w w' i t"
  shows "r = Inr (Some t) \<and> i = at_ID t"
proof -
  have new: "r = Inr (Some t) \<and> i = at_ID t"
    if a: "Apply_new c application vacancy plan processor resumeID w = (r, w')" for processor
  proof -
    obtain r1 w1 where rd: "read_profile c (ak_ProfileID (app_Key application)) (atp_AllowedPaths plan) w = (r1, w1)"
      by fastforce
    have q1: "none_raised w w1" using keepsD [OF quiet_read(1), of w] rd by (metis snd_conv)
    show ?thesis
    proof (cases r1)
      case (Inl e)
      with a rd q1 assms(2) show ?thesis by (auto simp: Apply_new_def bind_do_def none_raised_def)
    next
      case (Inr observation)
      let ?input = "\<lparr>rti_Application = application, rti_Vacancy = vacancy, rti_ResumeID = resumeID,
           rti_EmployerGroups = employerGroups (tc_lower c) plan vacancy, rti_CurrentState = observation,
           rti_AllowedPaths = atp_AllowedPaths plan\<rparr>"
      obtain r2 w2 where pr: "outside (processor (tc_Err c) ?input) w1 = (r2, w2)" by fastforce
      have q2: "none_raised w w2"
        using keepsD [OF quiet_outside, of w1] pr none_raised_trans [OF q1] by (metis snd_conv)
      then have stay: "w' \<noteq> w2" using assms(2) by (auto simp: none_raised_def)
      obtain pp where pp: "bind_do (start_saga c application resumeID (atp_AllowedPaths plan) observation pp)
           (\<lambda>stored. bind_do (driveApply c stored) (\<lambda>t. return_ok (Some t))) w2 = (r, w')"
        using a rd Inr pr stay
        by (auto simp: Apply_new_def bind_do_def Let_def split: sum.splits if_splits option.splits)
      obtain r3 w3 where st: "start_saga c application resumeID (atp_AllowedPaths plan) observation pp w2 = (r3, w3)"
        by fastforce
      have q3: "none_raised w w3"
        using keepsD [OF quiet_start_saga, of w2] st none_raised_trans [OF q2] by (metis snd_conv)
      then have "w' \<noteq> w3" using assms(2) by (auto simp: none_raised_def)
      with pp st obtain stored where d: "bind_do (driveApply c stored) (\<lambda>t. return_ok (Some t)) w3 = (r, w')"
        by (cases r3) (auto simp: bind_do_cases)
      have "newly_raised w3 w' i t" using assms(2) q3 by (auto simp: newly_raised_def none_raised_def)
      with returns_Some [of w3 c stored i t] d show ?thesis by simp
    qed
  qed
  have changed: "w' \<noteq> w" using assms(2) by (auto simp: newly_raised_def)
  show ?thesis
  proof (cases "ApplicationTailoringByApplication (tc_Err c (sw_ext w)) (app_ID application) (sw_tailorings w)")
    case (Inl e)
    then obtain processor where "Apply_new c application vacancy plan processor resumeID w = (r, w')"
      using assms(1) changed by (auto simp: tc_Apply_def saga_of_application_def split: option.splits if_splits)
    then show ?thesis by (rule new)
  next
    case (Inr u)
    then have "bind_do (driveApply c u) (\<lambda>t. return_ok (Some t)) w = (r, w')"
      using assms(1) changed by (auto simp: tc_Apply_def saga_of_application_def split: option.splits if_splits)
    with returns_Some [of w c u i t] assms(2) show ?thesis by simp
  qed
qed

text \<open>A submission begins by a read that agrees with the tailored state.\<close>

lemma BeginSubmit_raises:
  assumes "tc_BeginSubmit c a w = (r, w')" and "newly_raised w w' i u"
  shows "\<exists>t observation w1 at. read_saga c t w = (Inr observation, w1)
    \<and> pso_StateDigest observation = at_TailoredDigest t \<and> BeginSubmit at t = (None, u)
    \<and> sw_ext w' = snd (tc_Now c (sw_ext w1))
    \<and> ApplicationTailoringByApplication (tc_Err c (sw_ext w)) a (sw_tailorings w) = Inr t \<and> i = at_ID u"
proof -
  have changed: "\<not> none_raised w w'" using assms(2) by (auto simp: none_raised_def)
  then have "w' \<noteq> w" by auto
  with assms(1) obtain t where t: "ApplicationTailoringByApplication (tc_Err c (sw_ext w)) a (sw_tailorings w) = Inr t"
    by (auto simp: tc_BeginSubmit_def if_saga_def saga_of_application_def split: sum.splits if_splits)
  note r = assms(1) [unfolded tc_BeginSubmit_def if_saga_def saga_of_application_def t prod.case sum.case]
  have "at_Status t = TailoringApplied"
    using r \<open>w' \<noteq> w\<close> by (cases "at_Status t") (simp_all add: return_ok_def fail_with_def)
  with r have k: "bind_do (read_saga c t) (\<lambda>observation.
           if pso_StateDigest observation \<noteq> at_TailoredDigest t
           then markRecovery c t ''profile state drifted after tailoring apply''
           else bind_do (advance_saga c BeginSubmit t) (\<lambda>_. return_ok ())) w = (r, w')"
    by simp
  obtain r1 w1 where rd: "read_saga c t w = (r1, w1)" by fastforce
  have q: "none_raised w w1" using keepsD [OF quiet_read(2), of w] rd by (metis snd_conv)
  with changed have "w' \<noteq> w1" by auto
  with k rd obtain observation where o: "r1 = Inr observation"
    and m: "(if pso_StateDigest observation \<noteq> at_TailoredDigest t
           then markRecovery c t ''profile state drifted after tailoring apply''
           else bind_do (advance_saga c BeginSubmit t) (\<lambda>_. return_ok ())) w1 = (r, w')"
    by (cases r1) (auto simp: bind_do_cases)
  have d: "pso_StateDigest observation = at_TailoredDigest t"
  proof (rule ccontr)
    assume "pso_StateDigest observation \<noteq> at_TailoredDigest t"
    with m have "markRecovery c t ''profile state drifted after tailoring apply'' w1 = (r, w')" by simp
    moreover have "quiet (markRecovery c t ''profile state drifted after tailoring apply'' :: (_, unit) saga)"
      by (rule quiet_markRecovery)
    ultimately have "none_raised w1 w'" using keepsD by (metis snd_conv)
    with q changed none_raised_trans show False by blast
  qed
  obtain r2 w2 where adv: "advance_saga c BeginSubmit t w1 = (r2, w2)" by fastforce
  have "bind_do (advance_saga c BeginSubmit t) (\<lambda>_. return_ok ()) w1 = (r, w')" using m d by simp
  then have w': "w' = w2" by (cases r2) (simp_all add: bind_do_def return_ok_def adv)
  have "saga_at (sw_tailorings w2) i = Some u" "saga_at (sw_tailorings w1) i \<noteq> Some u"
    using assms(2) q by (auto simp: newly_raised_def none_raised_def w')
  with advance_stores [OF adv, of i u] rd o d t w' show ?thesis by blast
qed

end
