(* ===== verification/Tailoring_Props.thy ===== *)
theory Tailoring_Props
  imports Tailoring_Sample Tailoring_Quiet
begin

text \<open>
  What the coordinator promises: it writes a profile only with the proposal of the saga that holds the
  profile, it reports a change or its undoing only after an observation of the wanted state, and a saga
  that requires recovery stops every further write to its profile.
\<close>

section \<open>Runs\<close>

text \<open>A repository whose sagas, indexes and proposals agree.\<close>

definition good_sagas :: "'x SagaWorld \<Rightarrow> bool" where
  "good_sagas w \<longleftrightarrow> saga_ok w w"

text \<open>
  The operations of the coordinator in any order, with the planner storing proposals and revisions and
  the outside world changing between them.
\<close>

inductive saga_run :: "'x SagaWorld \<Rightarrow> 'x SagaWorld \<Rightarrow> bool" for w0 where
  run_start: "saga_run w0 w0"
| run_Apply: "saga_run w0 w \<Longrightarrow> saga_run w0 (snd (tc_Apply c application vacancy plan resumeID w))"
| run_BeginSubmit: "saga_run w0 w \<Longrightarrow> saga_run w0 (snd (tc_BeginSubmit c a w))"
| run_Restore: "saga_run w0 w \<Longrightarrow> saga_run w0 (snd (tc_Restore c a w))"
| run_proposal: "saga_run w0 w \<Longrightarrow> saga_run w0 (w\<lparr>sw_states := snd (CreateProfileStateProposal ctx p (sw_states w))\<rparr>)"
| run_revision: "saga_run w0 w \<Longrightarrow> saga_run w0 (w\<lparr>sw_states := snd (CreateProfileStateRevision ctx r (sw_states w))\<rparr>)"
| run_outside: "saga_run w0 w \<Longrightarrow> saga_run w0 (w\<lparr>sw_ext := x\<rparr>)"

lemma saga_ok_states:
  assumes "saga_ok w0 w" "proposals_ok ps" "\<And>i q. proposal_at (sw_states w) i = Some q \<Longrightarrow> proposal_at ps i = Some q"
  shows "saga_ok w0 (w\<lparr>sw_states := ps\<rparr>)"
proof -
  have "linked ps u" if "linked (sw_states w) u" for u
    using that assms(3) unfolding linked_def leads_to_def by blast
  then show ?thesis using assms(1,2) unfolding saga_ok_def by auto
qed

lemma Create_revision_proposals:
  "ps_proposals (snd (CreateProfileStateRevision ctx r ps)) = ps_proposals ps"
  "ps_keys (snd (CreateProfileStateRevision ctx r ps)) = ps_keys ps"
  by (auto simp: CreateProfileStateRevision_def Let_def split: option.splits if_splits)

lemma saga_run_ok:
  assumes "saga_run w0 w" "good_sagas w0"
  shows "saga_ok w0 w"
  using assms(1)
proof (induction)
  case run_start
  show ?case using assms(2) by (simp add: good_sagas_def)
next
  case (run_Apply w c application vacancy plan resumeID)
  then show ?case using tripleD [OF triple_Apply] by (metis prod.collapse)
next
  case (run_BeginSubmit w c a)
  then show ?case using tripleD [OF triple_BeginSubmit] by (metis prod.collapse)
next
  case (run_Restore w c a)
  then show ?case using tripleD [OF triple_Restore] by (metis prod.collapse)
next
  case (run_proposal w ctx p)
  from Create_proposal [OF saga_okD(2) [OF run_proposal.IH] prod.collapse [symmetric], of ctx p]
  show ?case by (intro saga_ok_states [OF run_proposal.IH]) blast+
next
  case (run_revision w ctx r)
  have "proposals_ok (snd (CreateProfileStateRevision ctx r (sw_states w)))"
    using saga_okD(2) [OF run_revision.IH] unfolding proposals_ok_def Create_revision_proposals .
  then show ?case by (intro saga_ok_states [OF run_revision.IH]) (simp_all add: Create_revision_proposals)
next
  case (run_outside w x)
  then show ?case by simp
qed

section \<open>Inversions\<close>

lemma outside_Inr: "outside f w = (Inr b, w') \<longleftrightarrow> (\<exists>x. f (sw_ext w) = (Inr b, x) \<and> w' = w\<lparr>sw_ext := x\<rparr>)"
  by (auto simp: outside_def split: prod.splits)

lemma recovery_Inr: "markRecovery c t reason w = (Inr b, w') \<longleftrightarrow> False"
  by (simp add: markRecovery_def bind_Inr fail_Inr)

lemma handle_Inr: "handleMutationError c t reason m w = (Inr b, w') \<longleftrightarrow> m w = (Inr b, w')"
  by (auto simp: handleMutationError_def recovery_Inr split: prod.splits sum.splits if_splits)

lemma advance_Inr:
  "advance_saga c step t w = (Inr t', w') \<Longrightarrow> \<exists>at x s. tc_Now c (sw_ext w) = (at, x) \<and> step at t = (None, t')
     \<and> SaveApplicationTailoring (tc_Err c x) t' (at_Revision t) (sw_tailorings w) = (None, s)
     \<and> w' = w\<lparr>sw_ext := x, sw_tailorings := s\<rparr>"
  by (auto simp: advance_saga_def bind_Inr clock_now_def outside_Inr return_Inr fail_Inr save_saga_def
      split: prod.splits option.splits)

lemmas saga_Inr = bind_Inr return_Inr fail_Inr lift_Inr outside_Inr recovery_Inr handle_Inr

section \<open>Locks\<close>

lemma active_locks:
  assumes ok: "tailorings_ok s" and t: "saga_at s i = Some t" "active t"
  shows "map_of (ts_profiles s) (at_ProfileID t) = Some i" "map_of (ts_applications s) (at_ApplicationID t) = Some i"
  using tailorings_okD(3,4) [OF ok] t by blast+

lemma restored_unlocks:
  assumes before: "tailorings_ok s" "saga_at s i = Some t" "active t" and after: "tailorings_ok s'" "saga_at s' i = Some t'"
    and rest: "\<And>j. j \<noteq> i \<Longrightarrow> saga_at s' j = saga_at s j"
    and t': "at_ProfileID t' = at_ProfileID t" "at_ApplicationID t' = at_ApplicationID t" "\<not> active t'"
  shows "map_of (ts_profiles s') (at_ProfileID t') = None" "map_of (ts_applications s') (at_ApplicationID t') = None"
proof -
  note locks = active_locks [OF before]
  have "False" if lock: "map_of (ts_profiles s') (at_ProfileID t') = Some j" for j
  proof -
    from lock obtain u where u: "saga_at s' j = Some u" "at_ProfileID u = at_ProfileID t'" "active u"
      using tailorings_okD(3) [OF after(1)] by blast
    with t' after(2) have "j \<noteq> i" by auto
    with u rest active_locks(1) [OF before(1), of j u] locks(1) t'(1) show False by auto
  qed
  then show "map_of (ts_profiles s') (at_ProfileID t') = None" by fastforce
  have "False" if lock: "map_of (ts_applications s') (at_ApplicationID t') = Some j" for j
  proof -
    from lock obtain u where u: "saga_at s' j = Some u" "at_ApplicationID u = at_ApplicationID t'" "active u"
      using tailorings_okD(4) [OF after(1)] by blast
    with t' after(2) have "j \<noteq> i" by auto
    with u rest active_locks(2) [OF before(1), of j u] locks(2) t'(2) show False by auto
  qed
  then show "map_of (ts_applications s') (at_ApplicationID t') = None" by fastforce
qed

section \<open>What was reported of a profile\<close>

text \<open>The reader or the writer of a profile answered with an observation and left the world \<open>x\<close>.\<close>

definition reported :: "'x TailoringCoordinator \<Rightarrow> ProfileID \<Rightarrow> ProfileStateObservation \<Rightarrow> 'x \<Rightarrow> bool" where
  "reported c profile observation x \<longleftrightarrow>
     (\<exists>reader paths x0. map_of (tc_readers c) profile = Some reader
        \<and> reader (tc_Err c x0) profile paths x0 = (Inr observation, x))
   \<or> (\<exists>writer proposal x0. map_of (tc_writers c) profile = Some writer \<and> psp_ProfileID proposal = profile
        \<and> writer (tc_Err c x0) proposal x0 = (Inr observation, x))"

lemma read_reported:
  assumes "read_saga c t w = (Inr observation, w')"
  shows "\<exists>x. reported c (at_ProfileID t) observation x \<and> w' = w\<lparr>sw_ext := x\<rparr>"
proof -
  from assms obtain reader x where "map_of (tc_readers c) (at_ProfileID t) = Some reader"
    "reader (tc_Err c (sw_ext w)) (at_ProfileID t) (at_AllowedPaths t) (sw_ext w) = (Inr observation, x)" "w' = w\<lparr>sw_ext := x\<rparr>"
    by (auto simp: read_saga_def read_profile_def saga_Inr resolve_reader_def split: option.splits)
  then show ?thesis unfolding reported_def by blast
qed

lemma write_reported:
  assumes "applyProposal c p w = (Inr observation, w')"
  shows "\<exists>x. reported c (psp_ProfileID p) observation x \<and> verified p observation = Inr observation
    \<and> w' = w\<lparr>sw_writes := sw_writes w @ [(p, sw_tailorings w)], sw_ext := x\<rparr>"
proof -
  from assms obtain writer x where "map_of (tc_writers c) (psp_ProfileID p) = Some writer"
    "writer (tc_Err c (sw_ext w)) p (sw_ext w) = (Inr observation, x)" "verified p observation = Inr observation"
    "w' = w\<lparr>sw_writes := sw_writes w @ [(p, sw_tailorings w)], sw_ext := x\<rparr>"
    by (auto simp: applyProposal_def saga_Inr Resolve_writer_def write_profile_def verified_def
        split: option.splits sum.splits if_splits)
  then show ?thesis unfolding reported_def by blast
qed

text \<open>The saga that is stored by the last step, with the observation it was checked against.\<close>

definition unlocked :: "ApplicationTailoring \<Rightarrow> Tailorings \<Rightarrow> bool" where
  "unlocked t s \<longleftrightarrow> map_of (ts_profiles s) (at_ProfileID t) = None \<and> map_of (ts_applications s) (at_ApplicationID t) = None"

definition confirmed ::
  "'x TailoringCoordinator \<Rightarrow> ApplicationTailoring \<Rightarrow> string \<Rightarrow> 'x SagaWorld \<Rightarrow> bool" where
  "confirmed c t digest w \<longleftrightarrow> saga_at (sw_tailorings w) (at_ID t) = Some t
     \<and> (\<exists>observation x. reported c (at_ProfileID t) observation x \<and> pso_ProfileID observation = at_ProfileID t
          \<and> pso_StateDigest observation = digest \<and> sw_ext w = snd (tc_Now c x))"

lemma advance_confirms:
  assumes ok: "saga_ok w0 w" and cur: "current t w" and r: "advance_saga c step t w = (Inr t', w')"
    and obs: "reported c (at_ProfileID t) observation (sw_ext w)"
    and step: "\<And>at. step at t = (None, t') \<Longrightarrow> saga_edge t t' \<and> pso_StateDigest observation = digest
        \<and> pso_ProfileID observation = at_ProfileID t"
  shows "confirmed c t' digest w' \<and> (\<not> active t' \<longrightarrow> unlocked t' (sw_tailorings w'))"
proof -
  from advance_Inr [OF r] obtain at x s where a: "tc_Now c (sw_ext w) = (at, x)" "step at t = (None, t')"
      "SaveApplicationTailoring (tc_Err c x) t' (at_Revision t) (sw_tailorings w) = (None, s)"
      "w' = w\<lparr>sw_ext := x, sw_tailorings := s\<rparr>" by blast
  note e = step [OF a(2)]
  then have id: "at_ID t' = at_ID t" "at_ProfileID t' = at_ProfileID t"
    using same_saga_keys [of t t'] by (auto simp: saga_edge_def)
  have save: "tailorings_ok s \<and> (\<forall>i. saga_at s i = ((saga_at (sw_tailorings w))(at_ID t \<mapsto> t')) i)"
    using Save_edge [OF saga_okD(1) [OF ok] cur [unfolded current_def] conjunct1 [OF e] a(3)] by simp
  have t: "active t" "at_ApplicationID t' = at_ApplicationID t"
    using e same_saga_keys [of t t'] by (auto simp: saga_edge_def active_def)
  have "unlocked t' s" if "\<not> active t'"
    unfolding unlocked_def
    using restored_unlocks [OF saga_okD(1) [OF ok] cur [unfolded current_def] t(1) _ _ _ id(2) t(2) that, of s] save by simp
  moreover have "sw_ext w' = snd (tc_Now c (sw_ext w))" "sw_tailorings w' = s" using a(1,4) by simp_all
  ultimately show ?thesis using e id obs save unfolding confirmed_def by auto
qed

lemma stored_Inr:
  assumes ok: "saga_ok w0 w" and cur: "current t w" and r: "stored_proposal c i w = (Inr p, w')" and wr: "writes_with t i"
  shows "w' = w \<and> may_write p (sw_tailorings w) \<and> psp_ProfileID p = at_ProfileID t"
proof -
  have w': "w' = w" and g: "GetProfileStateProposal (tc_Err c (sw_ext w)) i (sw_states w) = Inr p"
    using r by (auto simp: stored_proposal_def)
  from g have "i \<noteq> []" "proposal_at (sw_states w) i = Some p"
    by (auto simp: GetProfileStateProposal_def split: option.splits if_splits)
  with current_linked [OF ok cur] wr have "psp_ProfileID p = at_ProfileID t"
    by (auto simp: writes_with_def linked_def leads_to_def)
  with tripleD [OF triple_stored [OF wr] ok cur r] w' show ?thesis by simp
qed

lemma finish_apply_confirms:
  assumes ok: "saga_ok w0 w" and cur: "current t w" and st: "at_Status t = TailoringApplying"
    and r: "finish_apply c t w = (Inr t', w')"
  shows "at_Status t' = TailoringApplied \<and> saga_edge t t' \<and> confirmed c t' (at_TailoredDigest t) w'"
proof -
  from r obtain p w1 observation w2 where a: "stored_proposal c (at_ApplyProposalID t) w = (Inr p, w1)"
    "applyProposal c p w1 = (Inr observation, w2)" "advance_saga c (RecordApplied observation) t w2 = (Inr t', w')"
    by (auto simp: finish_apply_def saga_Inr)
  have p: "w1 = w" "may_write p (sw_tailorings w)" "psp_ProfileID p = at_ProfileID t"
    using stored_Inr [OF ok cur a(1)] st by (auto simp: writes_with_def)
  from write_reported [OF a(2)] obtain x where x: "reported c (at_ProfileID t) observation x" "sw_ext w2 = x"
    using p(3) by auto
  have g: "saga_ok w0 w2" "current t w2"
    using tripleD [OF triple_applyProposal [of w0 t p c] ok _ a(2) [unfolded p(1)]] cur p(2) by auto
  have e: "at_Status t' = TailoringApplied \<and> saga_edge t t'"
    using advance_Inr [OF a(3)] RecordApplied_None by blast
  have "confirmed c t' (at_TailoredDigest t) w'"
    using advance_confirms [OF g a(3), of observation "at_TailoredDigest t"] x RecordApplied_None by blast
  with e show ?thesis by blast
qed

lemma finish_restore_confirms:
  assumes ok: "saga_ok w0 w" and cur: "current t w" and st: "at_Status t = TailoringRestoring"
    and r: "finish_restore c t w = (Inr u, w')"
  shows "\<exists>t'. at_Status t' = TailoringRestored \<and> saga_edge t t' \<and> confirmed c t' (at_BaselineDigest t) w'
    \<and> unlocked t' (sw_tailorings w')"
proof -
  from r obtain p w1 observation w2 t' where a: "stored_proposal c (at_RestoreProposalID t) w = (Inr p, w1)"
    "(if psp_Status p = ProposalNoChanges then read_saga c t else applyProposal c p) w1 = (Inr observation, w2)"
    "advance_saga c (RecordRestored observation) t w2 = (Inr t', w')"
    by (auto simp: finish_restore_def saga_Inr)
  have p: "w1 = w" "may_write p (sw_tailorings w)" "psp_ProfileID p = at_ProfileID t"
    using stored_Inr [OF ok cur a(1)] st by (auto simp: writes_with_def)
  have "reported c (at_ProfileID t) observation (sw_ext w2) \<and> saga_ok w0 w2 \<and> current t w2"
  proof (cases "psp_Status p = ProposalNoChanges")
    case True
    then have r: "read_saga c t w = (Inr observation, w2)" using a(2) p(1) by simp
    show ?thesis
      using read_reported [OF r] tripleD [OF triple_read [OF stable_current(1)] ok cur r [unfolded read_saga_def]] by auto
  next
    case False
    then have r: "applyProposal c p w = (Inr observation, w2)" using a(2) p(1) by simp
    show ?thesis
      using write_reported [OF r] tripleD [OF triple_applyProposal [of w0 t p c] ok _ r] cur p(2,3) by auto
  qed
  then have x: "reported c (at_ProfileID t) observation (sw_ext w2)" and g: "saga_ok w0 w2" "current t w2" by auto
  have e: "at_Status t' = TailoringRestored \<and> saga_edge t t'"
    using advance_Inr [OF a(3)] RecordRestored_None by blast
  have "confirmed c t' (at_BaselineDigest t) w' \<and> (\<not> active t' \<longrightarrow> unlocked t' (sw_tailorings w'))"
    using advance_confirms [OF g a(3) x, of "at_BaselineDigest t"] RecordRestored_None by blast
  with e show ?thesis by (auto simp: active_def)
qed

section \<open>The sagas of a run\<close>

text \<open>
  C18. In any run of the coordinator, every proposal that was given to a writer was, at that moment, the
  proposal of the saga that held the lock of the profile: the one that leads to its tailored state while
  it applies, or the one that leads back to its baseline while it restores.
\<close>

theorem writes_of_lock_holder:
  assumes "good_sagas w0" "saga_run w0 w" "(p, s) \<in> set (sw_writes w)"
  shows "\<exists>t. map_of (ts_profiles s) (psp_ProfileID p) = Some (at_ID t) \<and> map_of (ts_tailorings s) (at_ID t) = Some t
    \<and> (at_Status t = TailoringApplying \<and> psp_ID p = at_ApplyProposalID t \<and> psp_DesiredState p = at_TailoredState t
     \<or> at_Status t = TailoringRestoring \<and> psp_ID p = at_RestoreProposalID t \<and> psp_DesiredState p = at_BaselineState t)"
  using conjunct1 [OF saga_okD(4) [OF saga_run_ok [OF assms(2,1)] assms(3)]] unfolding may_write_def .

text \<open>
  C22. In any run two sagas of one profile, or of one application, are never unfinished at the same time, and
  the locks of the profile and of the application name the unfinished saga.
\<close>

theorem one_saga_at_a_time:
  assumes "good_sagas w0" "saga_run w0 w" "map_of (ts_tailorings (sw_tailorings w)) i = Some t" "at_Status t \<noteq> TailoringRestored"
  shows "map_of (ts_profiles (sw_tailorings w)) (at_ProfileID t) = Some i
    \<and> map_of (ts_applications (sw_tailorings w)) (at_ApplicationID t) = Some i
    \<and> (\<forall>j u. map_of (ts_tailorings (sw_tailorings w)) j = Some u \<longrightarrow> at_Status u \<noteq> TailoringRestored \<longrightarrow>
         at_ProfileID u = at_ProfileID t \<or> at_ApplicationID u = at_ApplicationID t \<longrightarrow> j = i)"
proof -
  note ok = saga_okD(1) [OF saga_run_ok [OF assms(2,1)]]
  note locks = active_locks [OF ok]
  have t: "active t" using assms(4) by (simp add: active_def)
  note lt = locks [OF assms(3) t]
  have "j = i" if "saga_at (sw_tailorings w) j = Some u" "at_Status u \<noteq> TailoringRestored"
    "at_ProfileID u = at_ProfileID t \<or> at_ApplicationID u = at_ApplicationID t" for j u
    using locks [OF that(1)] that(2,3) lt by (auto simp: active_def)
  with lt show ?thesis by blast
qed

text \<open>
  C19. A saga that requires recovery stays as it is in any later run, and nothing is written to its profile
  any more.
\<close>

theorem recovery_blocks_profile:
  assumes "good_sagas w0" "map_of (ts_tailorings (sw_tailorings w0)) i = Some t" "at_Status t = TailoringRecoveryRequired"
    "saga_run w0 w"
  shows "map_of (ts_tailorings (sw_tailorings w)) i = Some t
    \<and> (\<exists>added. sw_writes w = sw_writes w0 @ added \<and> (\<forall>(p, s) \<in> set added. psp_ProfileID p \<noteq> at_ProfileID t))"
proof -
  note ok = saga_run_ok [OF assms(4,1)]
  have kept: "saga_at s i = Some t" if "frozen (sw_tailorings w0) s" for s
    using that assms(2,3) unfolding frozen_def by blast
  from saga_okD(6) [OF ok] obtain added
    where added: "sw_writes w = sw_writes w0 @ added" "\<forall>(p, s) \<in> set added. frozen (sw_tailorings w0) s" by blast
  have act: "active t" using assms(3) by (simp add: active_def)
  have "psp_ProfileID p \<noteq> at_ProfileID t" if w: "(p, s) \<in> set added" for p s
  proof
    assume p: "psp_ProfileID p = at_ProfileID t"
    have m: "may_write p s" and s: "tailorings_ok s" using saga_okD(4) [OF ok, of p s] w added(1) by auto
    have "saga_at s i = Some t" using kept added(2) w by blast
    then have "map_of (ts_profiles s) (at_ProfileID t) = Some i" by (rule active_locks(1) [OF s _ act])
    moreover from m obtain u where "map_of (ts_profiles s) (at_ProfileID t) = Some (at_ID u)" "saga_at s (at_ID u) = Some u"
      "at_Status u = TailoringApplying \<or> at_Status u = TailoringRestoring"
      unfolding may_write_def p by blast
    ultimately show False using \<open>saga_at s i = Some t\<close> assms(3) by auto
  qed
  with kept [OF saga_okD(5) [OF ok]] added(1) show ?thesis by blast
qed

section \<open>Confirmations\<close>

text \<open>The error of a context is its own, never the store's \<open>not found\<close>.\<close>

abbreviation context_error :: "ctx \<Rightarrow> bool" where
  "context_error e \<equiv> \<forall>x. e = Some x \<longrightarrow> \<not> errors_Is x ErrApplicationTailoringNotFound"

lemma if_saga_Inr:
  assumes ok: "saga_ok w0 w" and err: "context_error (tc_Err c (sw_ext w))" and r: "if_saga c a k w = (Inr u, w')"
    and a: "map_of (ts_applications (sw_tailorings w)) a = Some i"
  shows "\<exists>t. k t w = (Inr u, w') \<and> current t w \<and> valid_saga t \<and> active t \<and> at_ApplicationID t = a \<and> at_ID t = i"
proof (cases "ApplicationTailoringByApplication (tc_Err c (sw_ext w)) a (sw_tailorings w)")
  case (Inl e)
  then have "errors_Is e ErrApplicationTailoringNotFound" using r by (auto simp: if_saga_def saga_of_application_def split: if_splits)
  moreover have "\<not> errors_Is (Err m) ErrApplicationTailoringNotFound" for m by simp
  ultimately have False using Inl err a
    by (auto simp: ApplicationTailoringByApplication_def split: option.splits if_splits)
  then show ?thesis ..
next
  case (Inr t)
  note t = by_application [OF saga_okD(1) [OF ok] Inr]
  have "at_ID t = i" using active_locks(2) [OF saga_okD(1) [OF ok] t(1,3)] t(4) a by simp
  with t r Inr show ?thesis by (auto simp: if_saga_def saga_of_application_def current_def)
qed

lemma restore_from:
  assumes ok: "saga_ok w0 w" and cur: "current t w" and v: "valid_saga t"
    and st: "at_Status t \<in> {TailoringApplied, TailoringSubmitting, TailoringRestoring}"
    and r: "(if at_Status t = TailoringRestoring then finish_restore c t else bind_do (begin_restore c t) (finish_restore c)) w
        = (Inr u, w')"
  shows "\<exists>t'. at_Status t' = TailoringRestored \<and> same_saga t t' \<and> confirmed c t' (at_BaselineDigest t) w'
    \<and> unlocked t' (sw_tailorings w')"
proof (cases "at_Status t = TailoringRestoring")
  case True
  then show ?thesis using finish_restore_confirms [OF ok cur True, of c u w'] r by (auto simp: saga_edge_def)
next
  case False
  then obtain t1 w1 where a: "begin_restore c t w = (Inr t1, w1)" "finish_restore c t1 w1 = (Inr u, w')"
    using r by (auto simp: saga_Inr)
  have st': "at_Status t \<noteq> TailoringRecoveryRequired" using st by auto
  have b: "saga_ok w0 w1" "at_Status t1 = TailoringRestoring" "saga_edge t t1" "current t1 w1"
    using tripleD [OF triple_begin_restore [OF v st'] ok cur a(1)] by auto
  from finish_restore_confirms [OF b(1,4,2) a(2)] obtain t'
    where t': "at_Status t' = TailoringRestored" "saga_edge t1 t'" "confirmed c t' (at_BaselineDigest t1) w'"
      "unlocked t' (sw_tailorings w')" by blast
  have "same_saga t t'" using b(3) t'(2) by (auto simp: saga_edge_def same_saga_def sameApplicationTailoringInputs_def)
  with t' same_saga_keys [of t t1] b(3) show ?thesis by (auto simp: saga_edge_def)
qed

text \<open>
  C20. A restore that returns without an error has restored the saga of its application: the last answer of the
  profile's reader or writer was an observation with the digest of the baseline, after it only the clock
  was read, the saga is stored as restored, and the locks of the profile and of the application are free.
\<close>

theorem restore_confirmed:
  assumes "good_sagas w" "context_error (tc_Err c (sw_ext w))"
    "map_of (ts_applications (sw_tailorings w)) a = Some i" "tc_Restore c a w = (Inr (), w')"
  shows "\<exists>t observation x. map_of (ts_tailorings (sw_tailorings w')) i = Some t \<and> at_Status t = TailoringRestored
    \<and> reported c (at_ProfileID t) observation x \<and> pso_ProfileID observation = at_ProfileID t
    \<and> pso_StateDigest observation = at_BaselineDigest t \<and> sw_ext w' = snd (tc_Now c x)
    \<and> map_of (ts_profiles (sw_tailorings w')) (at_ProfileID t) = None \<and> map_of (ts_applications (sw_tailorings w')) a = None"
proof -
  have ok: "saga_ok w w" using assms(1) by (simp add: good_sagas_def)
  from if_saga_Inr [OF ok assms(2) assms(4) [unfolded tc_Restore_def] assms(3)] obtain t
    where t: "current t w" "valid_saga t" "active t" "at_ApplicationID t = a" "at_ID t = i"
      and r: "(case at_Status t of
       TailoringRecoveryRequired \<Rightarrow> fail_with (recoveryError t)
     | TailoringApplied \<Rightarrow> bind_do (begin_restore c t) (finish_restore c)
     | TailoringSubmitting \<Rightarrow> bind_do (begin_restore c t) (finish_restore c)
     | TailoringRestoring \<Rightarrow> finish_restore c t
     | TailoringRestored \<Rightarrow> return_ok ()
     | s \<Rightarrow> fail_with (Err (''cannot restore application tailoring in status '' @ quoted (tailoring_status_text s)))) w
     = (Inr (), w')" by blast
  have st: "at_Status t \<in> {TailoringApplied, TailoringSubmitting, TailoringRestoring}"
    using r t(3) by (auto simp: fail_Inr active_def split: ApplicationTailoringStatus.splits)
  have "(if at_Status t = TailoringRestoring then finish_restore c t else bind_do (begin_restore c t) (finish_restore c)) w
      = (Inr (), w')" using r st by auto
  from restore_from [OF ok t(1,2) st this] obtain t'
    where t': "at_Status t' = TailoringRestored" "same_saga t t'" "confirmed c t' (at_BaselineDigest t) w'"
      "unlocked t' (sw_tailorings w')" by blast
  note k = same_saga_keys [OF t'(2)]
  have "saga_at (sw_tailorings w') i = Some t'" using t'(3) k t(5) by (simp add: confirmed_def)
  moreover have "map_of (ts_applications (sw_tailorings w')) a = None" "map_of (ts_profiles (sw_tailorings w')) (at_ProfileID t') = None"
    using t'(4) k t(4) by (simp_all add: unlocked_def)
  moreover have "at_BaselineDigest t' = at_BaselineDigest t" using k by simp
  ultimately show ?thesis using t'(1,3) unfolding confirmed_def by metis
qed

lemma drive_confirms:
  assumes ok: "saga_ok w0 w" and cur: "current t w" and v: "valid_saga t" and r: "driveApply c t w = (Inr t', w')"
  shows "at_Status t' \<in> {TailoringApplied, TailoringSubmitting} \<and> same_saga t t'
    \<and> (t' = t \<and> w' = w \<or> at_Status t' = TailoringApplied \<and> confirmed c t' (at_TailoredDigest t') w')"
proof -
  consider "at_Status t = TailoringPlanned" | "at_Status t = TailoringApplying"
    | "at_Status t \<in> {TailoringApplied, TailoringSubmitting}"
    using r by (auto simp: driveApply_def saga_Inr split: ApplicationTailoringStatus.splits)
  then show ?thesis
  proof cases
    case 1
    then obtain t1 w1 where a: "begin_apply c t w = (Inr t1, w1)" "finish_apply c t1 w1 = (Inr t', w')"
      using r by (auto simp: driveApply_def saga_Inr)
    have b: "saga_ok w0 w1" "at_Status t1 = TailoringApplying" "saga_edge t t1" "current t1 w1"
      using tripleD [OF triple_begin_apply [OF v] ok cur a(1)] by auto
    note f = finish_apply_confirms [OF b(1,4,2) a(2)]
    have "same_saga t t'" using b(3) f by (auto simp: saga_edge_def same_saga_def sameApplicationTailoringInputs_def)
    with f same_saga_keys [of t1 t'] show ?thesis by (auto simp: saga_edge_def)
  next
    case 2
    then have "finish_apply c t w = (Inr t', w')" using r by (simp add: driveApply_def)
    note f = finish_apply_confirms [OF ok cur 2 this]
    with same_saga_keys [of t t'] show ?thesis by (auto simp: saga_edge_def)
  next
    case 3
    then show ?thesis using r by (auto simp: driveApply_def return_Inr same_saga_def sameApplicationTailoringInputs_def)
  qed
qed

lemma create_keeps:
  assumes "saga_ok w0 w" "create_saga c t w = (Inr u, w')" "at_Status t = TailoringPlanned" "at_Status u \<noteq> TailoringPlanned"
  shows "saga_at (sw_tailorings w) (at_ID u) = Some u"
proof -
  obtain r1 ts where cr: "CreateApplicationTailoring (tc_Err c (sw_ext w)) t (sw_tailorings w) = (r1, ts)" by fastforce
  then obtain b where "r1 = Inr (u, b)" using assms(2) by (auto simp: create_saga_def split: sum.splits)
  from Create_ok [OF saga_okD(1) [OF assms(1)] cr [unfolded this] assms(3)] assms(3,4) show ?thesis by auto
qed

lemma start_keeps:
  assumes ok: "saga_ok w0 w" and r: "start_saga c application resumeID paths observation plan w = (Inr u, w')"
  shows "valid_saga u \<and> current u w' \<and> (at_Status u \<noteq> TailoringPlanned \<longrightarrow> saga_at (sw_tailorings w) (at_ID u) = Some u)"
proof -
  have "valid_saga u \<and> current u w'" using tripleD [OF triple_start ok _ r] by simp
  moreover have "\<exists>params at t x. NewApplicationTailoring params at = Inr t \<and> create_saga c t (w\<lparr>sw_ext := x\<rparr>) = (Inr u, w')"
    using r by (clarsimp simp: start_saga_def saga_Inr clock_now_def) blast
  then obtain params at t x where a: "NewApplicationTailoring params at = Inr t" "create_saga c t (w\<lparr>sw_ext := x\<rparr>) = (Inr u, w')"
    by blast
  have "saga_at (sw_tailorings w) (at_ID u) = Some u" if "at_Status u \<noteq> TailoringPlanned"
    using create_keeps [of w0 "w\<lparr>sw_ext := x\<rparr>" c t u w'] ok a that New_saga [OF a(1)] by auto
  ultimately show ?thesis by blast
qed

lemma Apply_new_Inr:
  assumes "Apply_new c application vacancy plan processor resumeID w = (Inr (Some t), w')"
  shows "\<exists>observation processorPlan x u w2. start_saga c application resumeID (atp_AllowedPaths plan) observation processorPlan
      (w\<lparr>sw_ext := x\<rparr>) = (Inr u, w2) \<and> driveApply c u w2 = (Inr t, w')"
proof -
  have "\<exists>x. w' = w\<lparr>sw_ext := x\<rparr>" if "read_profile c p paths w = (Inr a, w')" for p paths a w'
    using that by (auto simp: read_profile_def saga_Inr)
  with assms show ?thesis
    unfolding Apply_new_def bind_Inr Let_def
    by (fastforce simp: outside_def saga_Inr split: prod.splits sum.splits if_splits option.splits)
qed

text \<open>
  The saga that \<open>Apply\<close> returns is stored as applied or submitting, and if it was not stored so
  before, the last answer was an observation of its tailored state.
\<close>

lemma apply_returned:
  assumes "good_sagas w" "tc_Apply c application vacancy plan resumeID w = (Inr (Some t), w')"
  shows "map_of (ts_tailorings (sw_tailorings w')) (at_ID t) = Some t \<and> at_Status t \<in> {TailoringApplied, TailoringSubmitting}
    \<and> (map_of (ts_tailorings (sw_tailorings w)) (at_ID t) = Some t
       \<or> at_Status t = TailoringApplied
          \<and> (\<exists>observation x. reported c (at_ProfileID t) observation x \<and> pso_ProfileID observation = at_ProfileID t
            \<and> pso_StateDigest observation = at_TailoredDigest t \<and> sw_ext w' = snd (tc_Now c x)))"
proof -
  have ok: "saga_ok w w" using assms(1) by (simp add: good_sagas_def)
  obtain u w1 where u: "saga_ok w w1" "current u w1" "valid_saga u" "driveApply c u w1 = (Inr t, w')"
    "at_Status u \<noteq> TailoringPlanned \<Longrightarrow> saga_at (sw_tailorings w) (at_ID u) = Some u"
  proof (cases "ApplicationTailoringByApplication (tc_Err c (sw_ext w)) (app_ID application) (sw_tailorings w)")
    case (Inr u)
    note b = by_application [OF saga_okD(1) [OF ok] Inr]
    have "driveApply c u w = (Inr t, w')"
      using assms(2) Inr by (auto simp: tc_Apply_def saga_of_application_def saga_Inr split: option.splits if_splits)
    then show ?thesis using that ok b by (simp add: current_def)
  next
    case (Inl e)
    then obtain processor where "Apply_new c application vacancy plan processor resumeID w = (Inr (Some t), w')"
      using assms(2) by (auto simp: tc_Apply_def saga_of_application_def split: option.splits if_splits)
    from Apply_new_Inr [OF this] obtain observation processorPlan x u w2
      where a: "start_saga c application resumeID (atp_AllowedPaths plan) observation processorPlan (w\<lparr>sw_ext := x\<rparr>) = (Inr u, w2)"
        "driveApply c u w2 = (Inr t, w')" by blast
    have ok1: "saga_ok w (w\<lparr>sw_ext := x\<rparr>)" using ok by simp
    from start_keeps [OF ok1 a(1)] tripleD [OF triple_start ok1 _ a(1)] a(2) show ?thesis by (intro that) auto
  qed
  note d = drive_confirms [OF u(1-4)]
  show ?thesis
  proof (cases "t = u \<and> w' = w1")
    case True
    then show ?thesis using d u(2,5) by (auto simp: current_def)
  next
    case False
    then show ?thesis using d unfolding confirmed_def by blast
  qed
qed

text \<open>One call of the coordinator, whatever it returns.\<close>

definition saga_call :: "'x TailoringCoordinator \<Rightarrow> 'x SagaWorld \<Rightarrow> 'x SagaWorld \<Rightarrow> bool" where
  "saga_call c w w' \<longleftrightarrow>
     (\<exists>application vacancy plan resumeID. w' = snd (tc_Apply c application vacancy plan resumeID w))
     \<or> (\<exists>a. w' = snd (tc_BeginSubmit c a w)) \<or> (\<exists>a. w' = snd (tc_Restore c a w))"

lemma saga_call_raises:
  assumes "good_sagas w" "saga_call c w w'" "newly_raised w w' i t"
  shows "\<exists>observation x. reported c (at_ProfileID t) observation x \<and> pso_StateDigest observation = at_TailoredDigest t
    \<and> sw_ext w' = snd (tc_Now c x)
    \<and> (at_Status t = TailoringSubmitting \<longrightarrow>
        (\<exists>u. map_of (ts_tailorings (sw_tailorings w)) i = Some u \<and> at_Status u = TailoringApplied \<and> same_saga u t))"
proof -
  have ok: "saga_ok w w" using assms(1) by (simp add: good_sagas_def)
  have new: "saga_at (sw_tailorings w') i = Some t" "saga_at (sw_tailorings w) i \<noteq> Some t"
    using assms(3) by (simp_all add: newly_raised_def)
  consider (applying) application vacancy plan resumeID where "w' = snd (tc_Apply c application vacancy plan resumeID w)"
    | (submitting) a where "w' = snd (tc_BeginSubmit c a w)" | (restoring) a where "w' = snd (tc_Restore c a w)"
    using assms(2) unfolding saga_call_def by blast
  then show ?thesis
  proof cases
    case applying
    then obtain r where r: "tc_Apply c application vacancy plan resumeID w = (r, w')" by (metis prod.collapse)
    from Apply_raises [OF r assms(3)] have i: "r = Inr (Some t)" "i = at_ID t" by blast+
    from apply_returned [OF assms(1) r [unfolded i(1)]] new(2) i(2) show ?thesis by auto
  next
    case submitting
    then obtain r where r: "tc_BeginSubmit c a w = (r, w')" by (metis prod.collapse)
    from BeginSubmit_raises [OF r assms(3)] obtain u observation w1 at
      where u: "read_saga c u w = (Inr observation, w1)" "pso_StateDigest observation = at_TailoredDigest u"
        "BeginSubmit at u = (None, t)" "sw_ext w' = snd (tc_Now c (sw_ext w1))"
        "ApplicationTailoringByApplication (tc_Err c (sw_ext w)) a (sw_tailorings w) = Inr u" "i = at_ID t" by blast
    from read_reported [OF u(1)] obtain x where x: "reported c (at_ProfileID u) observation x" "sw_ext w1 = x" by auto
    have e: "at_Status u = TailoringApplied" "same_saga u t"
      using BeginSubmit_None [OF u(3)] by (auto simp: saga_edge_def)
    note k = same_saga_keys [OF e(2)]
    have "saga_at (sw_tailorings w) i = Some u"
      using by_application(1) [OF saga_okD(1) [OF ok] u(5)] u(6) k by simp
    with x u(2,4) e k show ?thesis by auto
  next
    case restoring
    have "quiet (tc_Restore c a)" by (rule quiet_Restore)
    with restoring assms(3) show ?thesis using keepsD [of none_raised "tc_Restore c a" w] by (auto simp: none_raised_def)
  qed
qed

text \<open>
  C21. An application is submitted with a tailored resume only after the tailored state was observed.
  Take any call of the coordinator (apply, begin submit or restore), whatever it returns, and any saga
  that the repository holds as applied or submitting afterwards and did not hold so before: the last
  answer of the saga's profile, by its reader or writer, was an observation with the digest of the
  tailored state, after which only the clock was read; and a saga becomes submitting only from the
  applied status. What \<open>Apply\<close> returns for submission is the stored saga, in one of the two
  statuses.
\<close>

theorem apply_confirmed:
  assumes "good_sagas w" "saga_call c w w'"
  shows "(\<forall>i t. map_of (ts_tailorings (sw_tailorings w')) i = Some t
        \<and> at_Status t \<in> {TailoringApplied, TailoringSubmitting}
        \<and> map_of (ts_tailorings (sw_tailorings w)) i \<noteq> Some t \<longrightarrow>
      (\<exists>observation x. reported c (at_ProfileID t) observation x
        \<and> pso_StateDigest observation = at_TailoredDigest t \<and> sw_ext w' = snd (tc_Now c x)
        \<and> (at_Status t = TailoringSubmitting \<longrightarrow>
            (\<exists>u. map_of (ts_tailorings (sw_tailorings w)) i = Some u \<and> at_Status u = TailoringApplied \<and> same_saga u t))))
    \<and> (\<forall>application vacancy plan resumeID t. tc_Apply c application vacancy plan resumeID w = (Inr (Some t), w') \<longrightarrow>
        map_of (ts_tailorings (sw_tailorings w')) (at_ID t) = Some t
        \<and> at_Status t \<in> {TailoringApplied, TailoringSubmitting})"
proof (intro conjI allI impI, goal_cases)
  case (1 i t)
  then have "newly_raised w w' i t" by (simp add: newly_raised_def raised_def)
  from saga_call_raises [OF assms this] show ?case .
next
  case (2 application vacancy plan resumeID t)
  from apply_returned [OF assms(1) 2] show ?case by blast
next
  case (3 application vacancy plan resumeID t)
  from apply_returned [OF assms(1) 3] show ?case by blast
qed

text \<open>The submission of an application with a saga begins only after its tailored state was read back.\<close>

theorem submit_confirmed:
  assumes "good_sagas w" "context_error (tc_Err c (sw_ext w))"
    "map_of (ts_applications (sw_tailorings w)) a = Some i" "tc_BeginSubmit c a w = (Inr (), w')"
  shows "\<exists>t. map_of (ts_tailorings (sw_tailorings w')) i = Some t \<and> at_Status t = TailoringSubmitting
    \<and> (w' = w \<or> (\<exists>observation x. reported c (at_ProfileID t) observation x
          \<and> pso_StateDigest observation = at_TailoredDigest t \<and> sw_ext w' = snd (tc_Now c x)))"
proof -
  have ok: "saga_ok w w" using assms(1) by (simp add: good_sagas_def)
  from if_saga_Inr [OF ok assms(2) assms(4) [unfolded tc_BeginSubmit_def] assms(3)] obtain t
    where t: "current t w" "valid_saga t" "active t" "at_ID t = i"
      and r: "(case at_Status t of
       TailoringSubmitting \<Rightarrow> return_ok ()
     | TailoringRecoveryRequired \<Rightarrow> fail_with (recoveryError t)
     | TailoringApplied \<Rightarrow>
         bind_do (read_saga c t) (\<lambda>observation.
           if pso_StateDigest observation \<noteq> at_TailoredDigest t
           then markRecovery c t ''profile state drifted after tailoring apply''
           else bind_do (advance_saga c BeginSubmit t) (\<lambda>_. return_ok ()))
     | s \<Rightarrow> fail_with (Err (''cannot begin submit with application tailoring in status '' @ quoted (tailoring_status_text s)))) w
     = (Inr (), w')" by blast
  consider "at_Status t = TailoringSubmitting" "w' = w" | "at_Status t = TailoringApplied"
    using r by (auto simp: saga_Inr split: ApplicationTailoringStatus.splits)
  then show ?thesis
  proof cases
    case 1
    then show ?thesis using t by (auto simp: current_def)
  next
    case 2
    then obtain observation w1 t' where a: "read_saga c t w = (Inr observation, w1)"
      "pso_StateDigest observation = at_TailoredDigest t" "advance_saga c BeginSubmit t w1 = (Inr t', w')"
      using r by (auto simp: saga_Inr split: if_splits)
    from read_reported [OF a(1)] obtain x where x: "reported c (at_ProfileID t) observation x" "w1 = w\<lparr>sw_ext := x\<rparr>" by blast
    from advance_Inr [OF a(3)] obtain at s where s: "BeginSubmit at t = (None, t')"
      "sw_ext w' = snd (tc_Now c x)" "SaveApplicationTailoring (tc_Err c (sw_ext w')) t' (at_Revision t) (sw_tailorings w) = (None, s)"
      "sw_tailorings w' = s" unfolding x(2) by fastforce
    note e = BeginSubmit_None [OF s(1)]
    have "saga_at s i = Some t'" using Save_edge [OF saga_okD(1) [OF ok] _ _ s(3)] t(1,4) e by (auto simp: current_def)
    moreover have "at_ProfileID t' = at_ProfileID t" "at_TailoredDigest t' = at_TailoredDigest t"
      using e same_saga_keys [of t t'] by (auto simp: saga_edge_def)
    ultimately show ?thesis using e s(2,4) x(1) a(2) by metis
  qed
qed

section \<open>Runs worked out\<close>

abbreviation applying_saga :: ApplicationTailoring where
  "applying_saga \<equiv> sample_saga TailoringApplying ''plan'' [] [] 2 7"

abbreviation applied_saga :: "64 word \<Rightarrow> time \<Rightarrow> ApplicationTailoring" where
  "applied_saga \<equiv> sample_saga TailoringApplied ''plan'' [] []"

abbreviation stuck_saga :: ApplicationTailoring where
  "stuck_saga \<equiv> sample_saga TailoringRecoveryRequired ''plan'' [] ''drift'' 3 8"

abbreviation restoring_saga :: ApplicationTailoring where
  "restoring_saga \<equiv> sample_saga TailoringRestoring ''plan'' ''back'' [] 4 9"

lemma sample_sagas_valid: "valid_saga applying_saga" "n \<noteq> 0 \<Longrightarrow> 6 \<le> u \<Longrightarrow> valid_saga (applied_saga n u)"
  "valid_saga stuck_saga" "valid_saga restoring_saga"
  "n \<noteq> 0 \<Longrightarrow> 6 \<le> u \<Longrightarrow> valid_saga (sample_saga TailoringSubmitting ''plan'' [] [] n u)"
  "n \<noteq> 0 \<Longrightarrow> 6 \<le> u \<Longrightarrow> valid_saga (sample_saga TailoringRestored ''plan'' ''back'' [] n u)"
  by (rule sample_saga_valid; simp add: tailoring_status_valid_def TrimSpace_id space_heads_def space_lasts_def)+

lemma sample_worlds_good: "good_sagas (saga_world applying_saga)" "good_sagas (saga_world (applied_saga 3 8))"
  "good_sagas (saga_world stuck_saga)" "good_sagas (saga_world restoring_saga)"
  unfolding good_sagas_def by (rule saga_world_ok; simp add: sample_sagas_valid active_def)+

definition saga_application :: Application where
  "saga_application = \<lparr>app_ID = ''a1'', app_Key = at_Key applying_saga, app_Status = ApplicationReady, app_Attempts = 0,
     app_ExternalNegotiationID = [], app_FailureCategory = NoCategory, app_FailureMessage = [], app_DecisionCode = [],
     app_DecisionReason = [], app_PreparedResumeID = [], app_PreparedMessage = [],
     app_PreparationProvenance = zero_Provenance, app_CreatedAt = 1, app_UpdatedAt = 1, app_PreparedAt = None,
     app_SubmittedAt = None\<rparr>"

definition saga_vacancy :: Vacancy where
  "saga_vacancy = \<lparr>vac_Platform = ''hh'', vac_ExternalID = ''42'', vac_URL = [], vac_Title = ''Engineer'', vac_Employer = [],
     vac_State = VacancyStateOpen, vac_PublishedAt = None, vac_ObservedAt = 4, vac_Attributes = []\<rparr>"

definition saga_plan :: "int TailoringPlan" where
  "saga_plan = \<lparr>atp_Processor = Some (\<lambda>ctx input x. (Inl (Err ''not asked''), x)),
     atp_AllowedPaths = [''/profile/a'', ''/profile/b''], atp_EmployerMatcher = None\<rparr>"

abbreviation sample_Apply :: "(int, ApplicationTailoring option) saga" where
  "sample_Apply \<equiv> tc_Apply (sample_coordinator tailored_text) saga_application saga_vacancy saga_plan ''r1''"

lemma sample_found:
  "at_ID t = ''s1'' \<Longrightarrow> at_ApplicationID t = ''a1'' \<Longrightarrow>
    ApplicationTailoringByApplication None ''a1'' (sample_tailorings t) = Inr t"
  by (simp add: ApplicationTailoringByApplication_def sample_tailorings_def stored_tailoring_def)

lemma sample_plan_valid: "AtPlan_Validate saga_plan = None" "atp_Processor saga_plan \<noteq> None" "TrimSpace ''r1'' \<noteq> []"
  by (simp_all add: AtPlan_Validate_def saga_plan_def HasPrefix_def TrimSpace_id space_heads_def space_lasts_def)

text \<open>The writer applies the plan, and the saga is applied.\<close>

lemma sample_recorded:
  "RecordApplied (sample_observation tailored_text) 20 applying_saga = (None, applied_saga 3 20)"
proof -
  have "applying_saga\<lparr>at_Revision := 3, at_UpdatedAt := 20, at_TailoredRemoteRevision := [], at_Status := TailoringApplied\<rparr>
      = applied_saga 3 20"
    by (simp add: sample_saga_def Let_def applicationTailoringKey_def)
  then show ?thesis
    by (simp add: RecordApplied_def tailoring_step_def tailoring_advance_def IsZero_def sample_observation_def sample_sagas_valid)
qed

lemma sample_applied:
  "\<exists>w'. sample_Apply (saga_world applying_saga) = (Inr (Some (applied_saga 3 20)), w')
    \<and> sw_writes w' = [(sample_proposal, sample_tailorings applying_saga)]
    \<and> map_of (ts_tailorings (sw_tailorings w')) ''s1'' = Some (applied_saga 3 20)"
proof -
  have f: "app_ID saga_application = ''a1''" "app_Attempts saga_application = 0" by (simp_all add: saga_application_def)
  have same: "sameApplicationTailoringInputs applying_saga (applied_saga 3 20)"
    by (simp add: sameApplicationTailoringInputs_def sample_saga_def Let_def applicationTailoringKey_def)
  show ?thesis
    using sample_plan_valid sample_found [of applying_saga]
    by (auto simp: tc_Apply_def saga_of_application_def f saga_world_def sample_coordinator_def driveApply_def
        finish_apply_def bind_do_def stored_proposal_def GetProfileStateProposal_def handleMutationError_def
        applyProposal_def lift_result_def Resolve_writer_def sample_proposal_new write_profile_def outside_def
        sample_verified advance_saga_def clock_now_def sample_recorded save_saga_def SaveApplicationTailoring_def
        sample_sagas_valid sample_tailorings_def same return_ok_def Let_def)
qed

text \<open>The reader finds the baseline, and the saga is restored.\<close>

lemma sample_restored:
  "\<exists>w'. tc_Restore (sample_coordinator baseline_text) ''a1'' (saga_world restoring_saga) = (Inr (), w')
    \<and> map_of (ts_tailorings (sw_tailorings w')) ''s1'' = Some (sample_saga TailoringRestored ''plan'' ''back'' [] 5 20)"
proof -
  let ?t = "sample_saga TailoringRestored ''plan'' ''back'' [] 5 20"
  have "restoring_saga\<lparr>at_Revision := 5, at_UpdatedAt := 20, at_Status := TailoringRestored\<rparr> = ?t"
    by (simp add: sample_saga_def Let_def applicationTailoringKey_def)
  then have r: "RecordRestored (sample_observation baseline_text) 20 restoring_saga = (None, ?t)"
    by (simp add: RecordRestored_def tailoring_step_def tailoring_advance_def IsZero_def sample_observation_def sample_sagas_valid)
  have same: "sameApplicationTailoringInputs restoring_saga ?t"
    by (simp add: sameApplicationTailoringInputs_def sample_saga_def Let_def applicationTailoringKey_def)
  show ?thesis
    using sample_found [of restoring_saga]
    by (auto simp: tc_Restore_def if_saga_def saga_of_application_def saga_world_def sample_coordinator_def
        finish_restore_def bind_do_def stored_proposal_def GetProfileStateProposal_def handleMutationError_def
        back_proposal_new read_saga_def read_profile_def resolve_reader_def lift_result_def outside_def
        advance_saga_def clock_now_def r save_saga_def SaveApplicationTailoring_def release_tailoring_def
        sample_sagas_valid sample_tailorings_def same return_ok_def Let_def)
qed

text \<open>The tailored state is read back, and the submission begins.\<close>

lemma sample_submitting:
  "\<exists>w'. tc_BeginSubmit (sample_coordinator tailored_text) ''a1'' (saga_world (applied_saga 3 8)) = (Inr (), w')
    \<and> sw_ext w' = 21"
proof -
  let ?t = "sample_saga TailoringSubmitting ''plan'' [] [] 4 20"
  have "(applied_saga 3 8)\<lparr>at_Revision := 4, at_UpdatedAt := 20, at_Status := TailoringSubmitting\<rparr> = ?t"
    by (simp add: sample_saga_def Let_def applicationTailoringKey_def)
  then have r: "BeginSubmit 20 (applied_saga 3 8) = (None, ?t)"
    by (simp add: BeginSubmit_def tailoring_step_def tailoring_advance_def IsZero_def sample_sagas_valid)
  have same: "sameApplicationTailoringInputs (applied_saga 3 8) ?t"
    by (simp add: sameApplicationTailoringInputs_def sample_saga_def Let_def applicationTailoringKey_def)
  show ?thesis
    using sample_found [of "applied_saga 3 8"]
    by (auto simp: tc_BeginSubmit_def if_saga_def saga_of_application_def saga_world_def sample_coordinator_def
        bind_do_def read_saga_def read_profile_def resolve_reader_def lift_result_def outside_def
        advance_saga_def clock_now_def r save_saga_def SaveApplicationTailoring_def
        sample_sagas_valid sample_tailorings_def same return_ok_def Let_def)
qed

lemma sample_application_saga: "map_of (ts_applications (sw_tailorings (saga_world t))) ''a1'' = Some ''s1''"
  "map_of (ts_tailorings (sw_tailorings (saga_world t))) ''s1'' = Some t" "tc_Err (sample_coordinator state) x = None"
  by (simp_all add: saga_world_def sample_tailorings_def sample_coordinator_def)

section \<open>Witnesses\<close>

theorem writes_of_lock_holder_witness:
  "\<exists>t. map_of (ts_profiles (sample_tailorings applying_saga)) (psp_ProfileID sample_proposal) = Some (at_ID t)
    \<and> map_of (ts_tailorings (sample_tailorings applying_saga)) (at_ID t) = Some t
    \<and> (at_Status t = TailoringApplying \<and> psp_ID sample_proposal = at_ApplyProposalID t
        \<and> psp_DesiredState sample_proposal = at_TailoredState t
     \<or> at_Status t = TailoringRestoring \<and> psp_ID sample_proposal = at_RestoreProposalID t
        \<and> psp_DesiredState sample_proposal = at_BaselineState t)"
proof -
  obtain w' where w': "sample_Apply (saga_world applying_saga) = (Inr (Some (applied_saga 3 20)), w')"
    "sw_writes w' = [(sample_proposal, sample_tailorings applying_saga)]" using sample_applied by blast
  have "saga_run (saga_world applying_saga) w'"
    using saga_run.run_Apply [OF saga_run.run_start, of "saga_world applying_saga" "sample_coordinator tailored_text"
        saga_application saga_vacancy saga_plan "''r1''"] w'(1) by simp
  from writes_of_lock_holder [OF sample_worlds_good(1) this] w'(2) show ?thesis by simp
qed

theorem one_saga_at_a_time_witness:
  "\<exists>w. saga_run (saga_world applying_saga) w \<and> map_of (ts_profiles (sw_tailorings w)) ''p1'' = Some ''s1''
    \<and> map_of (ts_tailorings (sw_tailorings w)) ''s1'' = Some (applied_saga 3 20)"
proof -
  obtain w' where w': "sample_Apply (saga_world applying_saga) = (Inr (Some (applied_saga 3 20)), w')"
    "map_of (ts_tailorings (sw_tailorings w')) ''s1'' = Some (applied_saga 3 20)" using sample_applied by (elim exE conjE)
  have r: "saga_run (saga_world applying_saga) w'"
    using saga_run.run_Apply [OF saga_run.run_start, of "saga_world applying_saga" "sample_coordinator tailored_text"
        saga_application saga_vacancy saga_plan "''r1''"] w'(1) by simp
  have "map_of (ts_profiles (sw_tailorings w')) ''p1'' = Some ''s1''"
    using conjunct1 [OF one_saga_at_a_time [OF sample_worlds_good(1) r w'(2)]] by simp
  with r w'(2) show ?thesis by (intro exI conjI)
qed

theorem recovery_blocks_profile_witness:
  "map_of (ts_tailorings (sw_tailorings (snd (sample_Apply (saga_world stuck_saga))))) ''s1'' = Some stuck_saga"
  using recovery_blocks_profile [OF sample_worlds_good(3) sample_application_saga(2), of
      "snd (sample_Apply (saga_world stuck_saga))"] saga_run.run_Apply [OF saga_run.run_start, of "saga_world stuck_saga"]
  by simp

theorem restore_confirmed_witness:
  "\<exists>w'. tc_Restore (sample_coordinator baseline_text) ''a1'' (saga_world restoring_saga) = (Inr (), w')
    \<and> map_of (ts_applications (sw_tailorings w')) ''a1'' = None"
proof -
  obtain w' where w': "tc_Restore (sample_coordinator baseline_text) ''a1'' (saga_world restoring_saga) = (Inr (), w')"
    using sample_restored by blast
  from restore_confirmed [OF sample_worlds_good(4) _ sample_application_saga(1) w'] w' sample_application_saga(3)
  show ?thesis by auto
qed

theorem apply_confirmed_witness:
  "\<exists>w'. sample_Apply (saga_world applying_saga) = (Inr (Some (applied_saga 3 20)), w')
    \<and> (\<exists>observation x. reported (sample_coordinator tailored_text) ''p1'' observation x
         \<and> pso_StateDigest observation = profileStateDigest tailored_text)"
proof -
  obtain w' where w': "sample_Apply (saga_world applying_saga) = (Inr (Some (applied_saga 3 20)), w')"
    "map_of (ts_tailorings (sw_tailorings w')) ''s1'' = Some (applied_saga 3 20)" using sample_applied by (elim exE conjE)
  have "at_Status applying_saga \<noteq> at_Status (applied_saga 3 20)" by simp
  then have "applying_saga \<noteq> applied_saga 3 20" by metis
  then have new: "map_of (ts_tailorings (sw_tailorings (saga_world applying_saga))) ''s1'' \<noteq> Some (applied_saga 3 20)"
    by (simp only: sample_application_saga(2) option.inject simp_thms)
  have "saga_call (sample_coordinator tailored_text) (saga_world applying_saga) w'"
    unfolding saga_call_def using w'(1) by (metis snd_conv)
  note one = apply_confirmed [OF sample_worlds_good(1) this, THEN conjunct1, THEN spec, THEN spec, THEN mp,
      OF conjI [OF w'(2) conjI [OF _ new]]]
  have "at_Status (applied_saga 3 20) \<in> {TailoringApplied, TailoringSubmitting}"
    "at_ProfileID (applied_saga 3 20) = ''p1''" "at_TailoredDigest (applied_saga 3 20) = profileStateDigest tailored_text"
    by simp_all
  with one obtain observation x where "reported (sample_coordinator tailored_text) ''p1'' observation x"
    "pso_StateDigest observation = profileStateDigest tailored_text" by metis
  with w'(1) show ?thesis by (intro exI conjI)
qed

theorem submit_confirmed_witness:
  "\<exists>w'. tc_BeginSubmit (sample_coordinator tailored_text) ''a1'' (saga_world (applied_saga 3 8)) = (Inr (), w')
    \<and> (\<exists>t. map_of (ts_tailorings (sw_tailorings w')) ''s1'' = Some t \<and> at_Status t = TailoringSubmitting)"
proof -
  obtain w' where w': "tc_BeginSubmit (sample_coordinator tailored_text) ''a1'' (saga_world (applied_saga 3 8)) = (Inr (), w')"
    using sample_submitting by blast
  from submit_confirmed [OF sample_worlds_good(2) _ sample_application_saga(1) w'] w' sample_application_saga(3)
  show ?thesis by auto
qed

end
