(* ===== verification/Questionnaire.thy ===== *)
theory Questionnaire
  imports EmployerGroups GoCrypto
begin

text \<open>
  \<open>core/questionnaire.go\<close> and \<open>core/test_definition.go\<close>: questionnaires as a platform
  shows them, blocks of reviewed answers, the strict resolution of a questionnaire by a block, and the
  catalog of tests that grows with each attempt. The lower case of a text follows Unicode tables; it is
  the argument \<open>lower\<close>, and its results are UTF-8.
\<close>

section \<open>Questions\<close>

datatype QuestionKind = QuestionSingle | QuestionMultiple | QuestionText | QuestionCode | QuestionKindOther string

fun question_kind_text :: "QuestionKind \<Rightarrow> string" where
  "question_kind_text QuestionSingle = ''single''"
| "question_kind_text QuestionMultiple = ''multiple''"
| "question_kind_text QuestionText = ''text''"
| "question_kind_text QuestionCode = ''code''"
| "question_kind_text (QuestionKindOther s) = s"

record QuestionOption =
  qo_ID :: string
  qo_Text :: string

record Question =
  qu_ID :: string
  qu_Text :: string
  qu_Kind :: QuestionKind
  qu_Options :: "QuestionOption list"

record Questionnaire =
  qn_Title :: string
  qn_Questions :: "Question list"

definition NormalizeQuestionText :: "(string \<Rightarrow> string) \<Rightarrow> string \<Rightarrow> string" where
  "NormalizeQuestionText lower value =
     concat (map rune_bytes (join_words (rune_words (runes (lower (TrimSpace value))))))"

fun validate_question_options :: "(string \<Rightarrow> string) \<Rightarrow> string \<Rightarrow> string list \<Rightarrow> QuestionOption list \<Rightarrow> error option" where
  "validate_question_options lower q seen [] = None"
| "validate_question_options lower q seen (option # rest) =
     (let key = NormalizeQuestionText lower (qo_Text option) in
      if qo_ID option = [] \<or> key = []
      then Some (Err (''choice question '' @ quoted q @ '' contains an option without runtime id or text''))
      else if key \<in> set seen
      then Some (Err (''question '' @ quoted q @ '' contains duplicate option '' @ quoted (qo_Text option)))
      else validate_question_options lower q (key # seen) rest)"

definition validateQuestion :: "(string \<Rightarrow> string) \<Rightarrow> Question \<Rightarrow> error option" where
  "validateQuestion lower question =
     (if qu_ID question = [] then Some (Err ''question requires runtime id'')
      else if NormalizeQuestionText lower (qu_Text question) = []
      then Some (Err (''question '' @ quoted (qu_ID question) @ '' has empty text''))
      else if qu_Kind question \<in> {QuestionText, QuestionCode}
      then (if qu_Options question \<noteq> []
            then Some (Err (question_kind_text (qu_Kind question) @ '' question '' @ quoted (qu_Text question)
                   @ '' must not contain options'')) else None)
      else if qu_Kind question \<in> {QuestionSingle, QuestionMultiple}
      then (if qu_Options question = []
            then Some (Err (''choice question '' @ quoted (qu_Text question) @ '' requires options''))
            else validate_question_options lower (qu_Text question) [] (qu_Options question))
      else Some (Err (''question '' @ quoted (qu_Text question) @ '' has unsupported kind ''
             @ quoted (question_kind_text (qu_Kind question)))))"

fun validate_questions :: "(string \<Rightarrow> string) \<Rightarrow> string list \<Rightarrow> Question list \<Rightarrow> error option" where
  "validate_questions lower seen [] = None"
| "validate_questions lower seen (question # rest) =
     (case validateQuestion lower question of Some e \<Rightarrow> Some e | None \<Rightarrow>
      let key = NormalizeQuestionText lower (qu_Text question) in
      if key \<in> set seen then Some (Err (''questionnaire contains duplicate question '' @ quoted (qu_Text question)))
      else validate_questions lower (key # seen) rest)"

definition validateQuestionnaire :: "(string \<Rightarrow> string) \<Rightarrow> Questionnaire \<Rightarrow> error option" where
  "validateQuestionnaire lower questionnaire =
     (if qn_Questions questionnaire = [] then Some (Err ''questionnaire requires at least one question'')
      else validate_questions lower [] (qn_Questions questionnaire))"

section \<open>Fingerprints\<close>

definition question_signature :: "(string \<Rightarrow> string) \<Rightarrow> Question \<Rightarrow> string" where
  "question_signature lower question = join_with [CHR 0x1E]
     [question_kind_text (qu_Kind question), NormalizeQuestionText lower (qu_Text question),
      join_with [CHR 0x1F] (sort (map (\<lambda>option. NormalizeQuestionText lower (qo_Text option)) (qu_Options question)))]"

definition QuestionFingerprint :: "(string \<Rightarrow> string) \<Rightarrow> Question \<Rightarrow> error + string" where
  "QuestionFingerprint lower question =
     (case validateQuestion lower question of Some e \<Rightarrow> Inl e | None \<Rightarrow>
      Inr (hex_EncodeToString (sha256_Sum256 (question_signature lower question))))"

fun question_fingerprints :: "(string \<Rightarrow> string) \<Rightarrow> Question list \<Rightarrow> error + string list" where
  "question_fingerprints lower [] = Inr []"
| "question_fingerprints lower (question # rest) =
     (case QuestionFingerprint lower question of Inl e \<Rightarrow> Inl e | Inr f \<Rightarrow>
      case question_fingerprints lower rest of Inl e \<Rightarrow> Inl e | Inr fs \<Rightarrow> Inr (f # fs))"

definition attempt_digest :: "string list \<Rightarrow> string" where
  "attempt_digest manifest = hex_EncodeToString (sha256_Sum256 (join_with [CHR 0x1D] (sort manifest)))"

definition ObservedAttemptFingerprint :: "(string \<Rightarrow> string) \<Rightarrow> Questionnaire \<Rightarrow> error + string" where
  "ObservedAttemptFingerprint lower questionnaire =
     (case validateQuestionnaire lower questionnaire of Some e \<Rightarrow> Inl e | None \<Rightarrow>
      case question_fingerprints lower (qn_Questions questionnaire) of Inl e \<Rightarrow> Inl e | Inr signatures \<Rightarrow>
      Inr (attempt_digest signatures))"

definition QuestionnaireFingerprint :: "(string \<Rightarrow> string) \<Rightarrow> Questionnaire \<Rightarrow> error + string" where
  "QuestionnaireFingerprint lower questionnaire = ObservedAttemptFingerprint lower questionnaire"

definition validateSHA256Fingerprint :: "string \<Rightarrow> error option" where
  "validateSHA256Fingerprint fingerprint =
     (case hex_DecodeString fingerprint of
        Some decoded \<Rightarrow> if length decoded = 32 then None else Some (Err ''fingerprint must be a SHA-256 hex string'')
      | None \<Rightarrow> Some (Err ''fingerprint must be a SHA-256 hex string''))"

section \<open>Answers\<close>

record AnswerProvenance =
  apv_Resolver :: string
  apv_ModelTag :: string
  apv_ProviderModel :: string
  apv_PromptVersion :: string
  apv_ResponseID :: string
  apv_InputDigest :: string
  apv_OutputDigest :: string
  apv_Confidence :: string
  apv_Verified :: bool

definition AnswerProvenance_Validate :: "AnswerProvenance option \<Rightarrow> error option" where
  "AnswerProvenance_Validate provenance =
     (case provenance of None \<Rightarrow> None | Some p \<Rightarrow>
      if apv_Resolver p \<notin> {''model'', ''human'', ''known_answer'', ''study_bank''}
      then Some (Err (''answer provenance has unsupported resolver '' @ quoted (apv_Resolver p)))
      else if apv_Resolver p = ''model'' \<and> (TrimSpace (apv_ModelTag p) = [] \<or> TrimSpace (apv_ProviderModel p) = []
           \<or> TrimSpace (apv_PromptVersion p) = [])
      then Some (Err ''model answer provenance requires model tag, provider model and prompt version'')
      else if apv_Confidence p \<notin> {[], ''high'', ''medium'', ''low''}
      then Some (Err (''answer provenance has unsupported confidence '' @ quoted (apv_Confidence p)))
      else None)"

record StoredAnswer =
  sa_Question :: string
  sa_QuestionFingerprint :: string
  sa_SelectedOptions :: "string list"
  sa_Text :: string
  sa_Provenance :: "AnswerProvenance option"

record QualificationDescriptor =
  qd_FamilyID :: string
  qd_FamilyName :: string
  qd_LevelID :: string
  qd_LevelName :: string
  qd_LevelOrder :: "int option"

definition validateQualificationDescriptor :: "QualificationDescriptor \<Rightarrow> error option" where
  "validateQualificationDescriptor q =
     (if qd_FamilyID q = [] \<or> qd_FamilyName q = [] \<or> qd_LevelID q = [] \<or> qd_LevelName q = []
      then Some (Err ''qualification descriptor requires family and level ids and names'')
      else if (case qd_LevelOrder q of None \<Rightarrow> False | Some order \<Rightarrow> order < 0)
      then Some (Err ''qualification level order must not be negative'')
      else None)"

datatype AnswerBlockKind =
  AnswerBlockQualification | AnswerBlockConversation | AnswerBlockVacancy | AnswerBlockOther string

fun answer_block_kind_text :: "AnswerBlockKind \<Rightarrow> string" where
  "answer_block_kind_text AnswerBlockQualification = ''qualification''"
| "answer_block_kind_text AnswerBlockConversation = ''conversation''"
| "answer_block_kind_text AnswerBlockVacancy = ''vacancy''"
| "answer_block_kind_text (AnswerBlockOther s) = s"

definition QualificationReviewedBlockTag :: "Platform \<Rightarrow> string \<Rightarrow> string \<Rightarrow> string" where
  "QualificationReviewedBlockTag platform familyID levelID = platform @ ''-'' @ familyID @ ''-'' @ levelID @ ''-reviewed''"

record AnswerBlockMatcher =
  abm_Fingerprint :: string
  abm_Topic :: string

record AnswerBlock =
  ab_Tag :: string
  ab_Name :: string
  ab_Kind :: AnswerBlockKind
  ab_Platform :: Platform
  ab_Qualification :: "QualificationDescriptor option"
  ab_Match :: AnswerBlockMatcher
  ab_Answers :: "StoredAnswer list"

record ResolvedAnswer =
  ra_QuestionID :: string
  ra_SelectedOptionIDs :: "string list"
  ra_Text :: string

definition ResolvedAnswer_Validate :: "ResolvedAnswer \<Rightarrow> error option" where
  "ResolvedAnswer_Validate answer =
     (let q = quoted (ra_QuestionID answer) in
      if TrimSpace (ra_QuestionID answer) = [] then Some (Err ''resolved answer requires question id'')
      else if ra_SelectedOptionIDs answer = [] \<and> TrimSpace (ra_Text answer) = []
      then Some (Err (''resolved answer for question '' @ q @ '' requires text or selected options''))
      else if ra_SelectedOptionIDs answer \<noteq> [] \<and> TrimSpace (ra_Text answer) \<noteq> []
      then Some (Err (''resolved answer for question '' @ q @ '' mixes text and selected options''))
      else if \<exists>optionID\<in>set (ra_SelectedOptionIDs answer). TrimSpace optionID = []
      then Some (Err (''resolved answer for question '' @ q @ '' contains an empty option''))
      else None)"

record AnswerPlan =
  apl_AnswerBlockTag :: string
  apl_AnswerBlockName :: string
  apl_AttemptFingerprint :: string
  apl_Answers :: "ResolvedAnswer list"

section \<open>Blocks\<close>

text \<open>What each kind of block may carry.\<close>

definition validate_block_kind :: "AnswerBlock \<Rightarrow> error option" where
  "validate_block_kind block =
     (let topic = abm_Topic (ab_Match block); fingerprint = abm_Fingerprint (ab_Match block) in
      case ab_Kind block of
        AnswerBlockQualification \<Rightarrow>
          if topic \<noteq> [] \<or> fingerprint \<noteq> []
          then Some (Err ''qualification answer block must use qualification and per-question matchers'')
          else (case ab_Qualification block of None \<Rightarrow> None | Some q \<Rightarrow> validateQualificationDescriptor q)
      | AnswerBlockConversation \<Rightarrow>
          if ab_Qualification block \<noteq> None
          then Some (Err ''conversation answer block must not contain qualification metadata'')
          else if fingerprint \<noteq> [] \<and> topic \<noteq> []
          then Some (Err ''conversation answer block must use at most one matcher'') else None
      | AnswerBlockVacancy \<Rightarrow>
          if ab_Qualification block \<noteq> None
          then Some (Err ''vacancy answer block must not contain qualification metadata'')
          else if fingerprint \<noteq> [] \<or> topic \<noteq> []
          then Some (Err ''vacancy answer block must not use matchers'') else None
      | AnswerBlockOther s \<Rightarrow> Some (Err (''answer block has unsupported kind '' @ quoted s)))"

text \<open>The key of an answer is its fingerprint, where it has one.\<close>

definition answer_key :: "(string \<Rightarrow> string) \<Rightarrow> StoredAnswer \<Rightarrow> string" where
  "answer_key lower answer =
     (if sa_QuestionFingerprint answer \<noteq> [] then ''fingerprint:'' @ sa_QuestionFingerprint answer
      else ''text:'' @ NormalizeQuestionText lower (sa_Question answer))"

definition validate_answer :: "(string \<Rightarrow> string) \<Rightarrow> string list \<Rightarrow> StoredAnswer \<Rightarrow> error option" where
  "validate_answer lower seen answer =
     (let at = ''answer for question '' @ quoted (sa_Question answer) in
      if NormalizeQuestionText lower (sa_Question answer) = [] then Some (Err ''answer block contains an empty question'')
      else case (if sa_QuestionFingerprint answer = [] then None
                 else validateSHA256Fingerprint (sa_QuestionFingerprint answer)) of
        Some e \<Rightarrow> Some (ErrWrap at e)
      | None \<Rightarrow>
      if answer_key lower answer \<in> set seen
      then Some (Err (''answer block contains duplicate question '' @ quoted (sa_Question answer)))
      else if sa_Text answer = [] \<and> sa_SelectedOptions answer = [] then Some (Err (at @ '' is empty''))
      else if sa_Text answer \<noteq> [] \<and> sa_SelectedOptions answer \<noteq> []
      then Some (Err (at @ '' mixes text and selected options''))
      else map_option (ErrWrap at) (AnswerProvenance_Validate (sa_Provenance answer)))"

fun validate_answers :: "(string \<Rightarrow> string) \<Rightarrow> string list \<Rightarrow> StoredAnswer list \<Rightarrow> error option" where
  "validate_answers lower seen [] = None"
| "validate_answers lower seen (answer # rest) =
     (case validate_answer lower seen answer of Some e \<Rightarrow> Some e
      | None \<Rightarrow> validate_answers lower (answer_key lower answer # seen) rest)"

definition ValidateAnswerBlock :: "(string \<Rightarrow> string) \<Rightarrow> AnswerBlock \<Rightarrow> error option" where
  "ValidateAnswerBlock lower block =
     (if ab_Tag block = [] \<or> ab_Name block = [] then Some (Err ''answer block requires tag and name'')
      else if ab_Platform block = [] then Some (Err ''answer block requires platform'')
      else case validate_block_kind block of Some e \<Rightarrow> Some e | None \<Rightarrow>
      if ab_Answers block = [] then Some (Err ''answer block requires at least one answer'')
      else case (if abm_Fingerprint (ab_Match block) = [] then None
                 else validateSHA256Fingerprint (abm_Fingerprint (ab_Match block))) of
        Some e \<Rightarrow> Some (ErrWrap ''answer block matcher'' e)
      | None \<Rightarrow> validate_answers lower [] (ab_Answers block))"

section \<open>Resolution\<close>

fun index_options :: "(string \<Rightarrow> string) \<Rightarrow> string \<Rightarrow> (string \<times> string) list \<Rightarrow> QuestionOption list \<Rightarrow> error + (string \<times> string) list" where
  "index_options lower q indexed [] = Inr indexed"
| "index_options lower q indexed (option # rest) =
     (let key = NormalizeQuestionText lower (qo_Text option) in
      if map_of indexed key \<noteq> None
      then Inl (Err (''question '' @ quoted q @ '' contains duplicate option '' @ quoted (qo_Text option)))
      else index_options lower q (indexed @ [(key, qo_ID option)]) rest)"

fun select_options :: "(string \<Rightarrow> string) \<Rightarrow> string \<Rightarrow> (string \<times> string) list \<Rightarrow> string list \<Rightarrow> string list \<Rightarrow> error + string list" where
  "select_options lower q indexed seen [] = Inr []"
| "select_options lower q indexed seen (selectedText # rest) =
     (let key = NormalizeQuestionText lower selectedText in
      if key \<in> set seen
      then Inl (Err (''question '' @ quoted q @ '' selects option '' @ quoted selectedText @ '' more than once''))
      else case map_of indexed key of
        None \<Rightarrow> Inl (Err (''question '' @ quoted q @ '' has no option '' @ quoted selectedText))
      | Some i \<Rightarrow> (case select_options lower q indexed (key # seen) rest of Inl e \<Rightarrow> Inl e | Inr ids \<Rightarrow> Inr (i # ids)))"

definition resolveOptions :: "(string \<Rightarrow> string) \<Rightarrow> Question \<Rightarrow> string list \<Rightarrow> error + string list" where
  "resolveOptions lower question selected =
     (case index_options lower (qu_Text question) [] (qu_Options question) of Inl e \<Rightarrow> Inl e
      | Inr options \<Rightarrow> select_options lower (qu_Text question) options [] selected)"

definition resolveStoredAnswer :: "(string \<Rightarrow> string) \<Rightarrow> Question \<Rightarrow> StoredAnswer \<Rightarrow> error + ResolvedAnswer" where
  "resolveStoredAnswer lower question answer =
     (let q = quoted (qu_Text question);
          resolved = \<lparr>ra_QuestionID = qu_ID question, ra_SelectedOptionIDs = [], ra_Text = []\<rparr>
      in case qu_Kind question of
        QuestionCode \<Rightarrow> Inl (Err (''question '' @ q @ '' is a code task and requires an unsupported handler''))
      | QuestionText \<Rightarrow>
          if sa_Text answer = [] \<or> sa_SelectedOptions answer \<noteq> []
          then Inl (Err (''text question '' @ q @ '' requires text only''))
          else Inr (resolved\<lparr>ra_Text := sa_Text answer\<rparr>)
      | QuestionKindOther s \<Rightarrow> Inl (Err (''question '' @ q @ '' has unsupported kind '' @ quoted s))
      | kind \<Rightarrow>
          if sa_Text answer \<noteq> [] then Inl (Err (''choice question '' @ q @ '' must not contain text answer''))
          else if kind = QuestionSingle \<and> length (sa_SelectedOptions answer) \<noteq> 1
          then Inl (Err (''single-choice question '' @ q @ '' requires exactly one option''))
          else if kind = QuestionMultiple \<and> sa_SelectedOptions answer = []
          then Inl (Err (''multiple-choice question '' @ q @ '' requires at least one option''))
          else case resolveOptions lower question (sa_SelectedOptions answer) of Inl e \<Rightarrow> Inl e
            | Inr ids \<Rightarrow> Inr (resolved\<lparr>ra_SelectedOptionIDs := ids\<rparr>))"

definition ResolveStoredAnswer :: "(string \<Rightarrow> string) \<Rightarrow> Question \<Rightarrow> StoredAnswer \<Rightarrow> error + ResolvedAnswer" where
  "ResolveStoredAnswer lower question answer = resolveStoredAnswer lower question answer"

definition ResolveQuestionAnswer :: "(string \<Rightarrow> string) \<Rightarrow> Question \<Rightarrow> AnswerBlock \<Rightarrow> error + ResolvedAnswer" where
  "ResolveQuestionAnswer lower question block =
     (case ValidateAnswerBlock lower block of Some e \<Rightarrow> Inl e | None \<Rightarrow>
      if ab_Kind block \<noteq> AnswerBlockQualification
      then Inl (Err (''answer block '' @ quoted (ab_Tag block) @ '' is not a qualification block''))
      else case QuestionFingerprint lower question of Inl e \<Rightarrow> Inl e | Inr fingerprint \<Rightarrow>
      case find (\<lambda>answer. sa_QuestionFingerprint answer = fingerprint) (ab_Answers block) of
        Some answer \<Rightarrow> resolveStoredAnswer lower question answer
      | None \<Rightarrow> Inl (Err (''answer block '' @ quoted (ab_Tag block)
             @ '' has no reviewed answer for question fingerprint '' @ fingerprint)))"

text \<open>The answers by the text of their question.\<close>

fun index_answers :: "(string \<Rightarrow> string) \<Rightarrow> (string \<times> StoredAnswer) list \<Rightarrow> StoredAnswer list \<Rightarrow> error + (string \<times> StoredAnswer) list" where
  "index_answers lower stored [] = Inr stored"
| "index_answers lower stored (answer # rest) =
     (let key = NormalizeQuestionText lower (sa_Question answer) in
      if key = [] then Inl (Err ''answer block contains an empty question'')
      else if map_of stored key \<noteq> None
      then Inl (Err (''answer block contains duplicate question '' @ quoted (sa_Question answer)))
      else index_answers lower (stored @ [(key, answer)]) rest)"

fun resolve_questions :: "(string \<Rightarrow> string) \<Rightarrow> (string \<times> StoredAnswer) list \<Rightarrow> Question list \<Rightarrow> error + ResolvedAnswer list" where
  "resolve_questions lower stored [] = Inr []"
| "resolve_questions lower stored (question # rest) =
     (case map_of stored (NormalizeQuestionText lower (qu_Text question)) of
        None \<Rightarrow> Inl (Err (''no stored answer for question '' @ quoted (qu_Text question)))
      | Some answer \<Rightarrow>
      case (if sa_QuestionFingerprint answer = [] then None
            else case QuestionFingerprint lower question of Inl e \<Rightarrow> Some e
              | Inr f \<Rightarrow> if sa_QuestionFingerprint answer \<noteq> f
                         then Some (Err (''stored answer fingerprint mismatch for question '' @ quoted (qu_Text question)))
                         else None) of
        Some e \<Rightarrow> Inl e
      | None \<Rightarrow>
      case resolveStoredAnswer lower question answer of Inl e \<Rightarrow> Inl e | Inr resolved \<Rightarrow>
      case resolve_questions lower stored rest of Inl e \<Rightarrow> Inl e | Inr answers \<Rightarrow> Inr (resolved # answers))"

definition ResolveAnswerBlock :: "(string \<Rightarrow> string) \<Rightarrow> Questionnaire \<Rightarrow> AnswerBlock \<Rightarrow> error + AnswerPlan" where
  "ResolveAnswerBlock lower questionnaire block =
     (case QuestionnaireFingerprint lower questionnaire of Inl e \<Rightarrow> Inl e | Inr fingerprint \<Rightarrow>
      case ValidateAnswerBlock lower block of Some e \<Rightarrow> Inl e | None \<Rightarrow>
      if ab_Kind block \<noteq> AnswerBlockQualification \<and> ab_Kind block \<noteq> AnswerBlockVacancy
      then Inl (Err (''answer block '' @ quoted (ab_Tag block) @ '' is not a qualification or vacancy block''))
      else case index_answers lower [] (ab_Answers block) of Inl e \<Rightarrow> Inl e | Inr stored \<Rightarrow>
      case resolve_questions lower stored (qn_Questions questionnaire) of Inl e \<Rightarrow> Inl e | Inr answers \<Rightarrow>
      let used = map (\<lambda>q. NormalizeQuestionText lower (qu_Text q)) (qn_Questions questionnaire) in
      case find (\<lambda>(key, answer). key \<notin> set used) stored of
        Some (key, answer) \<Rightarrow> Inl (Err (''stored answer references unknown question '' @ quoted (sa_Question answer)))
      | None \<Rightarrow> Inr \<lparr>apl_AnswerBlockTag = ab_Tag block, apl_AnswerBlockName = ab_Name block,
          apl_AttemptFingerprint = fingerprint, apl_Answers = answers\<rparr>)"

fun uncovered :: "(string \<Rightarrow> string) \<Rightarrow> (string \<times> StoredAnswer) list \<Rightarrow> Question list \<Rightarrow> error + Question list" where
  "uncovered lower stored [] = Inr []"
| "uncovered lower stored (question # rest) =
     (case map_of stored (NormalizeQuestionText lower (qu_Text question)) of
        None \<Rightarrow> (case uncovered lower stored rest of Inl e \<Rightarrow> Inl e | Inr qs \<Rightarrow> Inr (question # qs))
      | Some answer \<Rightarrow>
          if sa_QuestionFingerprint answer = [] then uncovered lower stored rest
          else case QuestionFingerprint lower question of Inl e \<Rightarrow> Inl e
            | Inr f \<Rightarrow> if f = sa_QuestionFingerprint answer then uncovered lower stored rest
                else (case uncovered lower stored rest of Inl e \<Rightarrow> Inl e | Inr qs \<Rightarrow> Inr (question # qs)))"

definition UncoveredQuestions :: "(string \<Rightarrow> string) \<Rightarrow> Questionnaire \<Rightarrow> AnswerBlock \<Rightarrow> error + Question list" where
  "UncoveredQuestions lower questionnaire block =
     (case ValidateAnswerBlock lower block of Some e \<Rightarrow> Inl e | None \<Rightarrow>
      case index_answers lower [] (ab_Answers block) of Inl e \<Rightarrow> Inl e | Inr stored \<Rightarrow>
      uncovered lower stored (qn_Questions questionnaire))"

text \<open>A later answer of the same text replaces an earlier one; a missing one is the zero answer.\<close>

definition zero_StoredAnswer :: StoredAnswer where
  "zero_StoredAnswer = \<lparr>sa_Question = [], sa_QuestionFingerprint = [], sa_SelectedOptions = [], sa_Text = [], sa_Provenance = None\<rparr>"

definition answers_by_text :: "(string \<Rightarrow> string) \<Rightarrow> StoredAnswer list \<Rightarrow> (string \<times> StoredAnswer) list" where
  "answers_by_text lower answers =
     fold (\<lambda>answer m. AList.update (NormalizeQuestionText lower (sa_Question answer)) answer m) answers []"

fun resolve_all :: "(string \<Rightarrow> string) \<Rightarrow> (string \<times> StoredAnswer) list \<Rightarrow> Question list \<Rightarrow> error + ResolvedAnswer list" where
  "resolve_all lower stored [] = Inr []"
| "resolve_all lower stored (question # rest) =
     (case ResolveStoredAnswer lower question (case map_of stored (NormalizeQuestionText lower (qu_Text question)) of
          Some answer \<Rightarrow> answer | None \<Rightarrow> zero_StoredAnswer) of Inl e \<Rightarrow> Inl e
      | Inr resolved \<Rightarrow> (case resolve_all lower stored rest of Inl e \<Rightarrow> Inl e | Inr answers \<Rightarrow> Inr (resolved # answers)))"

definition ResolveBlockAnswers :: "(string \<Rightarrow> string) \<Rightarrow> Questionnaire \<Rightarrow> AnswerBlock \<Rightarrow> error + ResolvedAnswer list" where
  "ResolveBlockAnswers lower questionnaire block =
     (case UncoveredQuestions lower questionnaire block of Inl e \<Rightarrow> Inl e | Inr missing \<Rightarrow>
      if missing \<noteq> []
      then Inl (Err (''answer block '' @ quoted (ab_Tag block) @ '' does not cover '' @ FormatNat (length missing) @ '' question(s)''))
      else resolve_all lower (answers_by_text lower (ab_Answers block)) (qn_Questions questionnaire))"

section \<open>The catalog of tests\<close>

record TestQuestion =
  tq_Fingerprint :: string
  tq_Text :: string
  tq_Kind :: QuestionKind
  tq_Options :: "string list"
  tq_FirstSeenAt :: time
  tq_LastSeenAt :: time

type_synonym TestDefinitionID = string

record TestDefinition =
  td_ID :: TestDefinitionID
  td_Platform :: Platform
  td_ExternalID :: string
  td_Title :: string
  td_Qualification :: "QualificationDescriptor option"
  td_Questions :: "TestQuestion list"
  td_LastAttemptFingerprint :: string
  td_ObservedAttempts :: "64 word"
  td_DiscoveredAt :: time
  td_UpdatedAt :: time

fun stored_options :: "nat \<Rightarrow> string list \<Rightarrow> QuestionOption list" where
  "stored_options n [] = []"
| "stored_options n (t # ts) = \<lparr>qo_ID = ''stored-'' @ FormatNat n, qo_Text = t\<rparr> # stored_options (Suc n) ts"

definition validateStoredTestQuestion :: "(string \<Rightarrow> string) \<Rightarrow> TestQuestion \<Rightarrow> error option" where
  "validateStoredTestQuestion lower stored =
     (let at = ''test question '' @ quoted (tq_Text stored) in
      if IsZero (tq_FirstSeenAt stored) \<or> tq_LastSeenAt stored < tq_FirstSeenAt stored
      then Some (Err (at @ '' has invalid timestamps''))
      else case QuestionFingerprint lower \<lparr>qu_ID = ''stored'', qu_Text = tq_Text stored, qu_Kind = tq_Kind stored,
             qu_Options = stored_options 0 (tq_Options stored)\<rparr> of
        Inl e \<Rightarrow> Some (ErrWrap at e)
      | Inr fingerprint \<Rightarrow> if fingerprint \<noteq> tq_Fingerprint stored then Some (Err (at @ '' fingerprint mismatch'')) else None)"

fun validate_test_questions :: "(string \<Rightarrow> string) \<Rightarrow> string list \<Rightarrow> TestQuestion list \<Rightarrow> error option" where
  "validate_test_questions lower seen [] = None"
| "validate_test_questions lower seen (stored # rest) =
     (case validateStoredTestQuestion lower stored of Some e \<Rightarrow> Some e | None \<Rightarrow>
      if tq_Fingerprint stored \<in> set seen
      then Some (Err (''test definition contains duplicate question fingerprint '' @ tq_Fingerprint stored))
      else validate_test_questions lower (tq_Fingerprint stored # seen) rest)"

definition TestDefinition_Validate :: "(string \<Rightarrow> string) \<Rightarrow> TestDefinition \<Rightarrow> error option" where
  "TestDefinition_Validate lower d =
     (if td_ID d = [] \<or> td_Platform d = [] \<or> TrimSpace (td_ExternalID d) = []
      then Some (Err ''test definition requires id, platform and external id'')
      else if IsZero (td_DiscoveredAt d) \<or> td_UpdatedAt d < td_DiscoveredAt d
      then Some (Err ''test definition has invalid timestamps'')
      else case (case td_Qualification d of None \<Rightarrow> None | Some q \<Rightarrow> validateQualificationDescriptor q) of Some e \<Rightarrow> Some e | None \<Rightarrow>
      case (if td_LastAttemptFingerprint d = [] then None else validateSHA256Fingerprint (td_LastAttemptFingerprint d)) of
        Some e \<Rightarrow> Some (ErrWrap ''last attempt'' e)
      | None \<Rightarrow> validate_test_questions lower [] (td_Questions d))"

definition VacancyTestDefinitionID :: "Platform \<Rightarrow> string \<Rightarrow> TestDefinitionID" where
  "VacancyTestDefinitionID platform externalID = platform @ '':vacancy:'' @ TrimSpace externalID"

definition VacancyExternalIDFromTestDefinitionID :: "Platform \<Rightarrow> TestDefinitionID \<Rightarrow> string option" where
  "VacancyExternalIDFromTestDefinitionID platform i =
     (let prefix = platform @ '':vacancy:'' in
      if platform = [] \<or> \<not> HasPrefix i prefix then None
      else let externalID = TrimPrefix i prefix in if TrimSpace externalID = [] then None else Some externalID)"

definition NewProgressiveTestDefinition ::
  "Platform \<Rightarrow> string \<Rightarrow> string \<Rightarrow> QualificationDescriptor option \<Rightarrow> time \<Rightarrow> error + TestDefinition" where
  "NewProgressiveTestDefinition platform externalID title qualification now =
     (if platform = [] \<or> TrimSpace externalID = [] then Inl (Err ''test definition requires platform and external id'')
      else if IsZero now then Inl (Err ''test definition requires current time'')
      else case (case qualification of None \<Rightarrow> None | Some q \<Rightarrow> validateQualificationDescriptor q) of Some e \<Rightarrow> Inl e | None \<Rightarrow>
      Inr \<lparr>td_ID = join_with '':'' ([platform] @ (case qualification of None \<Rightarrow> [] | Some q \<Rightarrow> [qd_FamilyID q, qd_LevelID q])
             @ [externalID]),
           td_Platform = platform, td_ExternalID = externalID, td_Title = title, td_Qualification = qualification,
           td_Questions = [], td_LastAttemptFingerprint = [], td_ObservedAttempts = 0,
           td_DiscoveredAt = now, td_UpdatedAt = now\<rparr>)"

definition new_test_question :: "(string \<Rightarrow> string) \<Rightarrow> string \<Rightarrow> Question \<Rightarrow> time \<Rightarrow> TestQuestion" where
  "new_test_question lower fingerprint question now =
     \<lparr>tq_Fingerprint = fingerprint, tq_Text = qu_Text question, tq_Kind = qu_Kind question,
      tq_Options = sort_Slice (\<lambda>a b. NormalizeQuestionText lower a < NormalizeQuestionText lower b)
        (map qo_Text (qu_Options question)),
      tq_FirstSeenAt = now, tq_LastSeenAt = now\<rparr>"

text \<open>The first stored question of the fingerprint is seen again.\<close>

fun see_again :: "string \<Rightarrow> time \<Rightarrow> TestQuestion list \<Rightarrow> TestQuestion list" where
  "see_again fingerprint now [] = []"
| "see_again fingerprint now (q # qs) =
     (if tq_Fingerprint q = fingerprint then q\<lparr>tq_LastSeenAt := now\<rparr> # qs else q # see_again fingerprint now qs)"

definition ObserveQuestion ::
  "(string \<Rightarrow> string) \<Rightarrow> Question \<Rightarrow> time \<Rightarrow> TestDefinition \<Rightarrow> error + string \<times> bool \<times> TestDefinition" where
  "ObserveQuestion lower question now d =
     (if IsZero now \<or> now < td_UpdatedAt d then Inl (Err ''question observation time must not move backwards'')
      else case QuestionFingerprint lower question of Inl e \<Rightarrow> Inl e | Inr fingerprint \<Rightarrow>
      if fingerprint \<in> set (map tq_Fingerprint (td_Questions d))
      then Inr (fingerprint, False, d\<lparr>td_Questions := see_again fingerprint now (td_Questions d), td_UpdatedAt := now\<rparr>)
      else Inr (fingerprint, True, d\<lparr>td_Questions := sort_Slice (\<lambda>a b. tq_Fingerprint a < tq_Fingerprint b)
             (td_Questions d @ [new_test_question lower fingerprint question now]), td_UpdatedAt := now\<rparr>))"

fun attempt_manifest :: "string list \<Rightarrow> string list \<Rightarrow> string list \<Rightarrow> error + string list" where
  "attempt_manifest known seen [] = Inr []"
| "attempt_manifest known seen (fingerprint # rest) =
     (case validateSHA256Fingerprint fingerprint of Some e \<Rightarrow> Inl e | None \<Rightarrow>
      if fingerprint \<notin> set known
      then Inl (Err (''attempt references unknown question fingerprint '' @ fingerprint))
      else if fingerprint \<in> set seen then attempt_manifest known seen rest
      else case attempt_manifest known (fingerprint # seen) rest of Inl e \<Rightarrow> Inl e | Inr m \<Rightarrow> Inr (fingerprint # m))"

definition CompleteObservedAttempt :: "string list \<Rightarrow> time \<Rightarrow> TestDefinition \<Rightarrow> error + string \<times> TestDefinition" where
  "CompleteObservedAttempt questionFingerprints now d =
     (if questionFingerprints = [] then Inl (Err ''observed attempt requires question fingerprints'')
      else if IsZero now \<or> now < td_UpdatedAt d then Inl (Err ''attempt completion time must not move backwards'')
      else case attempt_manifest (map tq_Fingerprint (td_Questions d)) [] questionFingerprints of Inl e \<Rightarrow> Inl e
      | Inr manifest \<Rightarrow>
      let fingerprint = attempt_digest manifest
      in Inr (fingerprint, d\<lparr>td_LastAttemptFingerprint := fingerprint, td_ObservedAttempts := td_ObservedAttempts d + 1,
             td_UpdatedAt := now\<rparr>))"

fun observe_all :: "(string \<Rightarrow> string) \<Rightarrow> Question list \<Rightarrow> time \<Rightarrow> string list \<Rightarrow> TestDefinition \<Rightarrow> error + string list \<times> TestDefinition" where
  "observe_all lower [] now fingerprints d = Inr (fingerprints, d)"
| "observe_all lower (question # rest) now fingerprints d =
     (case ObserveQuestion lower question now d of Inl e \<Rightarrow> Inl e
      | Inr (fingerprint, _, d') \<Rightarrow> observe_all lower rest now (fingerprints @ [fingerprint]) d')"

definition BuildQualificationTestDefinition ::
  "(string \<Rightarrow> string) \<Rightarrow> Platform \<Rightarrow> Questionnaire \<Rightarrow> QualificationDescriptor option \<Rightarrow> time \<Rightarrow> error + TestDefinition" where
  "BuildQualificationTestDefinition lower platform questionnaire qualification now =
     (case ObservedAttemptFingerprint lower questionnaire of Inl e \<Rightarrow> Inl e | Inr attemptFingerprint \<Rightarrow>
      case NewProgressiveTestDefinition platform (''observed:'' @ attemptFingerprint) (qn_Title questionnaire) qualification now of
        Inl e \<Rightarrow> Inl e
      | Inr d \<Rightarrow>
      case observe_all lower (qn_Questions questionnaire) now [] d of Inl e \<Rightarrow> Inl e | Inr (fingerprints, d') \<Rightarrow>
      case CompleteObservedAttempt fingerprints now d' of Inl e \<Rightarrow> Inl e | Inr (_, d'') \<Rightarrow> Inr d'')"

definition BuildTestDefinition :: "(string \<Rightarrow> string) \<Rightarrow> Platform \<Rightarrow> Questionnaire \<Rightarrow> time \<Rightarrow> error + TestDefinition" where
  "BuildTestDefinition lower platform questionnaire now = BuildQualificationTestDefinition lower platform questionnaire None now"

end
