(* ===== verification/AnswerBlocks.thy ===== *)
theory AnswerBlocks
  imports Questionnaire Conversation ProfileState
begin

text \<open>
  Blocks of reviewed answers: \<open>core/answer_registry.go\<close>, the revisions of a block with their
  digest and their merge in \<open>core/answer_revision.go\<close>, their store
  \<open>storage/memory/answer_revisions.go\<close>, the resolver
  \<open>worker/vacancy_answer_resolver.go\<close> that puts the latest revision on top of a configured block,
  and the answers to prompts in a chat, \<open>core/conversation_answer.go\<close>.
\<close>

section \<open>The registry\<close>

record AnswerBlockRegistry =
  arb_byTag :: "(string \<times> AnswerBlock) list"
  arb_qualificationLevel :: "(string \<times> string) list"
  arb_conversationTopic :: "(string \<times> string) list"
  arb_conversationFingerprint :: "(string \<times> string) list"
  arb_vacancy :: "(Platform \<times> string) list"

definition answerMatcherKey :: "Platform \<Rightarrow> string \<Rightarrow> string" where
  "answerMatcherKey platform matcher = platform @ [CHR 0x00] @ matcher"

definition qualificationLevelKey :: "Platform \<Rightarrow> string \<Rightarrow> string \<Rightarrow> string" where
  "qualificationLevelKey platform familyID levelID = platform @ [CHR 0x00] @ familyID @ [CHR 0x00] @ levelID"

text \<open>An entry of an index that no other block may have.\<close>

definition claim_entry :: "string \<Rightarrow> string \<Rightarrow> string \<Rightarrow> string \<Rightarrow> (string \<times> string) list \<Rightarrow> error + (string \<times> string) list" where
  "claim_entry kind what key tag index =
     (case map_of index key of
        Some existing \<Rightarrow> Inl (Err (kind @ '' blocks '' @ quoted existing @ '' and '' @ quoted tag @ what))
      | None \<Rightarrow> Inr (AList.update key tag index))"

definition register_level :: "AnswerBlock \<Rightarrow> AnswerBlockRegistry \<Rightarrow> error + AnswerBlockRegistry" where
  "register_level block r =
     (case (ab_Kind block, ab_Qualification block) of
        (AnswerBlockQualification, Some q) \<Rightarrow>
          (case claim_entry ''qualification'' '' have the same family and level''
             (qualificationLevelKey (ab_Platform block) (qd_FamilyID q) (qd_LevelID q)) (ab_Tag block) (arb_qualificationLevel r) of
             Inl e \<Rightarrow> Inl e | Inr index \<Rightarrow> Inr (r\<lparr>arb_qualificationLevel := index\<rparr>))
      | _ \<Rightarrow> Inr r)"

definition register_vacancy :: "AnswerBlock \<Rightarrow> AnswerBlockRegistry \<Rightarrow> error + AnswerBlockRegistry" where
  "register_vacancy block r =
     (if ab_Kind block = AnswerBlockVacancy
      then case claim_entry ''vacancy'' '' target the same platform'' (ab_Platform block) (ab_Tag block) (arb_vacancy r) of
             Inl e \<Rightarrow> Inl e | Inr index \<Rightarrow> Inr (r\<lparr>arb_vacancy := index\<rparr>)
      else Inr r)"

definition register_topic :: "(string \<Rightarrow> string) \<Rightarrow> AnswerBlock \<Rightarrow> AnswerBlockRegistry \<Rightarrow> error + AnswerBlockRegistry" where
  "register_topic lower block r =
     (if ab_Kind block = AnswerBlockConversation \<and> abm_Topic (ab_Match block) \<noteq> []
      then case claim_entry ''conversation'' '' have the same topic matcher''
             (answerMatcherKey (ab_Platform block) (NormalizeQuestionText lower (abm_Topic (ab_Match block))))
             (ab_Tag block) (arb_conversationTopic r) of
             Inl e \<Rightarrow> Inl e | Inr index \<Rightarrow> Inr (r\<lparr>arb_conversationTopic := index\<rparr>)
      else Inr r)"

definition register_fingerprint :: "AnswerBlock \<Rightarrow> AnswerBlockRegistry \<Rightarrow> error + AnswerBlockRegistry" where
  "register_fingerprint block r =
     (if ab_Kind block = AnswerBlockConversation \<and> abm_Fingerprint (ab_Match block) \<noteq> []
      then case claim_entry ''conversation'' '' have the same fingerprint matcher''
             (answerMatcherKey (ab_Platform block) (abm_Fingerprint (ab_Match block)))
             (ab_Tag block) (arb_conversationFingerprint r) of
             Inl e \<Rightarrow> Inl e | Inr index \<Rightarrow> Inr (r\<lparr>arb_conversationFingerprint := index\<rparr>)
      else Inr r)"

definition register_block :: "(string \<Rightarrow> string) \<Rightarrow> AnswerBlock \<Rightarrow> AnswerBlockRegistry \<Rightarrow> error + AnswerBlockRegistry" where
  "register_block lower block r =
     (case ValidateAnswerBlock lower block of Some e \<Rightarrow> Inl (ErrWrap (''answer block '' @ quoted (ab_Tag block)) e) | None \<Rightarrow>
      if map_of (arb_byTag r) (ab_Tag block) \<noteq> None then Inl (Err (''duplicate answer block tag '' @ quoted (ab_Tag block)))
      else case register_level block (r\<lparr>arb_byTag := AList.update (ab_Tag block) block (arb_byTag r)\<rparr>) of Inl e \<Rightarrow> Inl e | Inr r1 \<Rightarrow>
      case register_vacancy block r1 of Inl e \<Rightarrow> Inl e | Inr r2 \<Rightarrow>
      case register_topic lower block r2 of Inl e \<Rightarrow> Inl e | Inr r3 \<Rightarrow> register_fingerprint block r3)"

fun register_blocks :: "(string \<Rightarrow> string) \<Rightarrow> AnswerBlock list \<Rightarrow> AnswerBlockRegistry \<Rightarrow> error + AnswerBlockRegistry" where
  "register_blocks lower [] r = Inr r"
| "register_blocks lower (block # rest) r =
     (case register_block lower block r of Inl e \<Rightarrow> Inl e | Inr r' \<Rightarrow> register_blocks lower rest r')"

definition NewAnswerBlockRegistry :: "(string \<Rightarrow> string) \<Rightarrow> AnswerBlock list \<Rightarrow> error + AnswerBlockRegistry" where
  "NewAnswerBlockRegistry lower blocks = register_blocks lower blocks
     \<lparr>arb_byTag = [], arb_qualificationLevel = [], arb_conversationTopic = [], arb_conversationFingerprint = [], arb_vacancy = []\<rparr>"

definition Get_block :: "string \<Rightarrow> AnswerBlockRegistry \<Rightarrow> AnswerBlock option" where
  "Get_block tag r = map_of (arb_byTag r) tag"

definition FindQualificationLevel :: "Platform \<Rightarrow> string \<Rightarrow> string \<Rightarrow> AnswerBlockRegistry \<Rightarrow> AnswerBlock option" where
  "FindQualificationLevel platform familyID levelID r =
     (if platform = [] \<or> familyID = [] \<or> levelID = [] then None
      else case map_of (arb_qualificationLevel r) (qualificationLevelKey platform familyID levelID) of
        None \<Rightarrow> None | Some tag \<Rightarrow> Get_block tag r)"

definition FindVacancy :: "Platform \<Rightarrow> AnswerBlockRegistry \<Rightarrow> AnswerBlock option" where
  "FindVacancy platform r =
     (if platform = [] then None
      else case map_of (arb_vacancy r) platform of None \<Rightarrow> None | Some tag \<Rightarrow> Get_block tag r)"

definition FindConversationTopic :: "(string \<Rightarrow> string) \<Rightarrow> Platform \<Rightarrow> string \<Rightarrow> AnswerBlockRegistry \<Rightarrow> AnswerBlock option" where
  "FindConversationTopic lower platform topic r =
     (if platform = [] \<or> NormalizeQuestionText lower topic = [] then None
      else case map_of (arb_conversationTopic r) (answerMatcherKey platform (NormalizeQuestionText lower topic)) of
        None \<Rightarrow> None | Some tag \<Rightarrow> Get_block tag r)"

definition FindConversationFingerprint :: "Platform \<Rightarrow> string \<Rightarrow> AnswerBlockRegistry \<Rightarrow> AnswerBlock option" where
  "FindConversationFingerprint platform fingerprint r =
     (if platform = [] \<or> fingerprint = [] then None
      else case map_of (arb_conversationFingerprint r) (answerMatcherKey platform fingerprint) of
        None \<Rightarrow> None | Some tag \<Rightarrow> Get_block tag r)"

section \<open>Revisions\<close>

record AnswerBlockRevision =
  abr_BlockTag :: string
  abr_Name :: string
  abr_Kind :: AnswerBlockKind
  abr_Platform :: Platform
  abr_Revision :: "64 word"
  abr_Source :: string
  abr_Answers :: "StoredAnswer list"
  abr_CreatedAt :: time

definition Revision_Block :: "AnswerBlockRevision \<Rightarrow> AnswerBlock" where
  "Revision_Block r = \<lparr>ab_Tag = abr_BlockTag r, ab_Name = abr_Name r, ab_Kind = abr_Kind r, ab_Platform = abr_Platform r,
     ab_Qualification = None, ab_Match = \<lparr>abm_Fingerprint = [], abm_Topic = []\<rparr>, ab_Answers = abr_Answers r\<rparr>"

definition AnswerRevision_Validate :: "(string \<Rightarrow> string) \<Rightarrow> AnswerBlockRevision \<Rightarrow> error option" where
  "AnswerRevision_Validate lower r =
     (if TrimSpace (abr_BlockTag r) = [] \<or> abr_Revision r = 0 \<or> IsZero (abr_CreatedAt r)
      then Some (Err ''answer block revision requires tag, revision and created_at'')
      else if TrimSpace (abr_Source r) = [] then Some (Err ''answer block revision requires source'')
      else ValidateAnswerBlock lower (Revision_Block r))"

text \<open>What the digest of answers covers; empty fields are left out of the JSON.\<close>

definition answer_json :: "(string \<Rightarrow> string) \<Rightarrow> StoredAnswer \<Rightarrow> json" where
  "answer_json lower answer = JObject
     ([(''question'', JString (NormalizeQuestionText lower (sa_Question answer)))]
      @ (if sa_QuestionFingerprint answer = [] then [] else [(''question_fingerprint'', JString (sa_QuestionFingerprint answer))])
      @ (if sa_SelectedOptions answer = [] then [] else [(''selected_options'', JArray (map JString (sort (sa_SelectedOptions answer))))])
      @ (if sa_Text answer = [] then [] else [(''text'', JString (sa_Text answer))]))"

definition answers_json :: "(string \<Rightarrow> string) \<Rightarrow> StoredAnswer list \<Rightarrow> json" where
  "answers_json lower answers = JArray (map (answer_json lower) (sort_Slice
     (\<lambda>a b. NormalizeQuestionText lower (sa_Question a) < NormalizeQuestionText lower (sa_Question b)) answers))"

definition StoredAnswersDigest :: "(string \<Rightarrow> string) \<Rightarrow> StoredAnswer list \<Rightarrow> string" where
  "StoredAnswersDigest lower answers = hex_EncodeToString (sha256_Sum256 (raw_Marshal (answers_json lower answers)))"

text \<open>The position of each question; a later answer of the same text takes the entry.\<close>

fun index_positions :: "(string \<Rightarrow> string) \<Rightarrow> nat \<Rightarrow> (string \<times> nat) list \<Rightarrow> StoredAnswer list \<Rightarrow> (string \<times> nat) list" where
  "index_positions lower n index [] = index"
| "index_positions lower n index (answer # rest) =
     index_positions lower (Suc n) (AList.update (NormalizeQuestionText lower (sa_Question answer)) n index) rest"

fun merge_latest :: "(string \<Rightarrow> string) \<Rightarrow> (string \<times> nat) list \<Rightarrow> StoredAnswer list \<Rightarrow> StoredAnswer list \<Rightarrow> StoredAnswer list" where
  "merge_latest lower index answers [] = answers"
| "merge_latest lower index answers (answer # rest) =
     (let key = NormalizeQuestionText lower (sa_Question answer) in
      case map_of index key of
        Some position \<Rightarrow> merge_latest lower index (answers[position := answer]) rest
      | None \<Rightarrow> merge_latest lower (AList.update key (length answers) index) (answers @ [answer]) rest)"

definition MergeAnswerBlocks :: "(string \<Rightarrow> string) \<Rightarrow> AnswerBlock \<Rightarrow> AnswerBlock \<Rightarrow> error + AnswerBlock" where
  "MergeAnswerBlocks lower base latest =
     (case ValidateAnswerBlock lower base of Some e \<Rightarrow> Inl e | None \<Rightarrow>
      case ValidateAnswerBlock lower latest of Some e \<Rightarrow> Inl e | None \<Rightarrow>
      if ab_Kind base \<noteq> ab_Kind latest \<or> ab_Platform base \<noteq> ab_Platform latest
      then Inl (Err ''answer blocks belong to different kinds or platforms'')
      else Inr (base\<lparr>ab_Answers := merge_latest lower (index_positions lower 0 [] (ab_Answers base)) (ab_Answers base)
             (ab_Answers latest)\<rparr>))"

type_synonym AnswerRevisions = "(string \<times> AnswerBlockRevision list) list"

definition revisions_of :: "AnswerRevisions \<Rightarrow> string \<Rightarrow> AnswerBlockRevision list" where
  "revisions_of s tag = (case map_of s tag of None \<Rightarrow> [] | Some rs \<Rightarrow> rs)"

definition AppendAnswerBlockRevision ::
  "(string \<Rightarrow> string) \<Rightarrow> ctx \<Rightarrow> AnswerBlockRevision \<Rightarrow> AnswerRevisions \<Rightarrow> (error + AnswerBlockRevision) \<times> AnswerRevisions" where
  "AppendAnswerBlockRevision lower ctx candidate s =
     (case ctx of Some e \<Rightarrow> (Inl e, s) | None \<Rightarrow>
      if TrimSpace (abr_BlockTag candidate) = [] \<or> TrimSpace (abr_Source candidate) = [] \<or> IsZero (abr_CreatedAt candidate)
      then (Inl (Err ''answer block revision requires tag, source and created_at''), s)
      else case ValidateAnswerBlock lower (Revision_Block candidate) of Some e \<Rightarrow> (Inl e, s) | None \<Rightarrow>
      let revisions = revisions_of s (abr_BlockTag candidate);
          stored = candidate\<lparr>abr_Revision := of_nat (length revisions) + 1\<rparr>
      in (Inr stored, AList.update (abr_BlockTag candidate) (revisions @ [stored]) s))"

definition LatestAnswerBlockRevision ::
  "ctx \<Rightarrow> string \<Rightarrow> AnswerRevisions \<Rightarrow> error + AnswerBlockRevision option" where
  "LatestAnswerBlockRevision ctx tag s =
     (case ctx of Some e \<Rightarrow> Inl e | None \<Rightarrow>
      if TrimSpace tag = [] then Inl (Err ''answer block revision tag is required'')
      else case revisions_of s (TrimSpace tag) of [] \<Rightarrow> Inr None | rs \<Rightarrow> Inr (Some (List.last rs)))"

section \<open>The resolver\<close>

definition VacancyReviewedBlockTag :: "Platform \<Rightarrow> AnswerBlock option \<Rightarrow> string" where
  "VacancyReviewedBlockTag platform base = (case base of Some b \<Rightarrow> ab_Tag b | None \<Rightarrow> platform @ ''-vacancy-reviewed'')"

text \<open>A configured block with the latest revision of its tag on top.\<close>

definition with_latest :: "(string \<Rightarrow> string) \<Rightarrow> ctx \<Rightarrow> AnswerBlock option \<Rightarrow> string \<Rightarrow> AnswerRevisions \<Rightarrow> error + AnswerBlock option" where
  "with_latest lower ctx base tag s =
     (case LatestAnswerBlockRevision ctx tag s of Inl e \<Rightarrow> Inl e
      | Inr None \<Rightarrow> Inr base
      | Inr (Some r) \<Rightarrow>
          (case base of None \<Rightarrow> Inr (Some (Revision_Block r))
           | Some b \<Rightarrow> (case MergeAnswerBlocks lower b (Revision_Block r) of Inl e \<Rightarrow> Inl e | Inr merged \<Rightarrow> Inr (Some merged))))"

definition resolver_FindVacancy ::
  "(string \<Rightarrow> string) \<Rightarrow> ctx \<Rightarrow> Platform \<Rightarrow> AnswerBlockRegistry \<Rightarrow> AnswerRevisions \<Rightarrow> error + AnswerBlock option" where
  "resolver_FindVacancy lower ctx platform r s =
     (let base = FindVacancy platform r in with_latest lower ctx base (VacancyReviewedBlockTag platform base) s)"

definition resolver_Get ::
  "(string \<Rightarrow> string) \<Rightarrow> ctx \<Rightarrow> string \<Rightarrow> AnswerBlockRegistry \<Rightarrow> AnswerRevisions \<Rightarrow> error + AnswerBlock option" where
  "resolver_Get lower ctx tag r s = with_latest lower ctx (Get_block tag r) tag s"

definition resolver_FindQualificationLevel ::
  "(string \<Rightarrow> string) \<Rightarrow> ctx \<Rightarrow> Platform \<Rightarrow> string \<Rightarrow> string \<Rightarrow> AnswerBlockRegistry \<Rightarrow> AnswerRevisions \<Rightarrow> error + AnswerBlock option" where
  "resolver_FindQualificationLevel lower ctx platform familyID levelID r s =
     (case FindQualificationLevel platform familyID levelID r of
        Some base \<Rightarrow> resolver_Get lower ctx (ab_Tag base) r s
      | None \<Rightarrow> resolver_Get lower ctx (QualificationReviewedBlockTag platform familyID levelID) r s)"

section \<open>Prompts in a chat\<close>

record ConversationAnswerDecision =
  cad_PromptMessageID :: MessageID
  cad_PromptExternalID :: string
  cad_AnswerBlockTag :: string
  cad_Option :: MessageOption

definition last_outgoing :: "ConversationMessage list \<Rightarrow> time" where
  "last_outgoing messages = fold (\<lambda>m t. if msg_Direction m = MessageOutgoing \<and> msg_Status m \<in> {MessageSent, MessageQueued}
       \<and> msg_OccurredAt m > t then msg_OccurredAt m else t) messages 0"

definition prompt_after :: "time \<Rightarrow> ConversationMessage \<Rightarrow> bool" where
  "prompt_after lastOutgoing m \<longleftrightarrow> msg_Direction m = MessageIncoming \<and> msg_Kind m = MessageQuestionnaire
     \<and> msg_Options m \<noteq> [] \<and> msg_OccurredAt m > lastOutgoing"

definition earliest_prompt :: "time \<Rightarrow> ConversationMessage list \<Rightarrow> ConversationMessage option" where
  "earliest_prompt lastOutgoing messages = fold (\<lambda>m prompt.
     if \<not> prompt_after lastOutgoing m then prompt
     else case prompt of None \<Rightarrow> Some m | Some p \<Rightarrow> if msg_OccurredAt m < msg_OccurredAt p then Some m else prompt) messages None"

definition conversationPromptFingerprint :: "(string \<Rightarrow> string) \<Rightarrow> ConversationMessage \<Rightarrow> string option" where
  "conversationPromptFingerprint lower prompt =
     (let i = TrimSpace (msg_ExternalID prompt) in
      case QuestionFingerprint lower \<lparr>qu_ID = (if i = [] then ''conversation-prompt'' else i), qu_Text = msg_Text prompt,
        qu_Kind = QuestionSingle,
        qu_Options = map (\<lambda>x. \<lparr>qo_ID = opt_ID x, qo_Text = opt_Text x\<rparr>) (msg_Options prompt)\<rparr> of
        Inl e \<Rightarrow> None | Inr fingerprint \<Rightarrow> Some fingerprint)"

definition conversationAnswerBlock :: "(string \<Rightarrow> string) \<Rightarrow> Platform \<Rightarrow> ConversationMessage \<Rightarrow> AnswerBlockRegistry \<Rightarrow> AnswerBlock option" where
  "conversationAnswerBlock lower platform prompt r =
     (case FindConversationTopic lower platform (msg_Text prompt) r of Some block \<Rightarrow> Some block
      | None \<Rightarrow> (case conversationPromptFingerprint lower prompt of None \<Rightarrow> None
          | Some fingerprint \<Rightarrow> FindConversationFingerprint platform fingerprint r))"

definition conversationStoredAnswer :: "(string \<Rightarrow> string) \<Rightarrow> AnswerBlock \<Rightarrow> ConversationMessage \<Rightarrow> StoredAnswer option" where
  "conversationStoredAnswer lower block prompt =
     (let key = NormalizeQuestionText lower (msg_Text prompt);
          fingerprint = conversationPromptFingerprint lower prompt
      in case find (\<lambda>answer. NormalizeQuestionText lower (sa_Question answer) = key
             \<and> (sa_QuestionFingerprint answer = [] \<or> fingerprint = Some (sa_QuestionFingerprint answer))) (ab_Answers block) of
        Some answer \<Rightarrow> Some answer
      | None \<Rightarrow> (case fingerprint of None \<Rightarrow> None
          | Some f \<Rightarrow> find (\<lambda>answer. sa_QuestionFingerprint answer = f) (ab_Answers block)))"

text \<open>The one option with the text; no option where several have it.\<close>

definition conversationOption :: "(string \<Rightarrow> string) \<Rightarrow> MessageOption list \<Rightarrow> string \<Rightarrow> MessageOption option" where
  "conversationOption lower options selected =
     (case filter (\<lambda>x. NormalizeQuestionText lower (opt_Text x) = NormalizeQuestionText lower selected) options of
        [x] \<Rightarrow> Some x | _ \<Rightarrow> None)"

definition ResolveKnownConversationAnswer ::
  "(string \<Rightarrow> string) \<Rightarrow> Platform \<Rightarrow> ConversationMessage list \<Rightarrow> AnswerBlockRegistry \<Rightarrow> ConversationAnswerDecision option" where
  "ResolveKnownConversationAnswer lower platform messages r =
     (if platform = [] then None
      else case earliest_prompt (last_outgoing messages) messages of None \<Rightarrow> None | Some prompt \<Rightarrow>
      case conversationAnswerBlock lower platform prompt r of None \<Rightarrow> None | Some block \<Rightarrow>
      case conversationStoredAnswer lower block prompt of None \<Rightarrow> None | Some answer \<Rightarrow>
      if TrimSpace (sa_Text answer) \<noteq> [] \<or> length (sa_SelectedOptions answer) \<noteq> 1 then None
      else case conversationOption lower (msg_Options prompt) (hd (sa_SelectedOptions answer)) of None \<Rightarrow> None | Some x \<Rightarrow>
      Some \<lparr>cad_PromptMessageID = msg_ID prompt, cad_PromptExternalID = msg_ExternalID prompt,
        cad_AnswerBlockTag = ab_Tag block, cad_Option = x\<rparr>)"

end
