(* ===== verification/Reviews.thy ===== *)
theory Reviews
  imports AnswerBlocks
begin

text \<open>
  Runs of a test that wait for a person: \<open>core/review.go\<close>, \<open>core/test_attempt.go\<close> and the
  stores \<open>storage/memory/test_review.go\<close> and \<open>storage/memory/test_attempts.go\<close>. A method that
  changes its session returns the changed session beside its result, as the pointer receiver does,
  on the branches that fail too.
\<close>

section \<open>Sessions, prompts and selections\<close>

type_synonym ReviewSessionID = string
type_synonym ReviewPromptID = string

datatype ReviewSessionStatus =
  ReviewPending | ReviewWaiting | ReviewAnswered | ReviewCompleted | ReviewCancelled | ReviewUnsupported
| ReviewExpired | ReviewStatusOther string

fun review_status_text :: "ReviewSessionStatus \<Rightarrow> string" where
  "review_status_text ReviewPending = ''pending''"
| "review_status_text ReviewWaiting = ''waiting_answer''"
| "review_status_text ReviewAnswered = ''answer_recorded''"
| "review_status_text ReviewCompleted = ''completed''"
| "review_status_text ReviewCancelled = ''cancelled''"
| "review_status_text ReviewUnsupported = ''unsupported''"
| "review_status_text ReviewExpired = ''expired''"
| "review_status_text (ReviewStatusOther s) = s"

datatype AnswerAssessment = AssessmentUnverified | AssessmentAccepted | AssessmentRejected | AssessmentOther string

record ReviewSession =
  rs_ID :: ReviewSessionID
  rs_TestDefinitionID :: TestDefinitionID
  rs_Platform :: Platform
  rs_ProfileID :: ProfileID
  rs_CorrelationID :: CorrelationID
  rs_Status :: ReviewSessionStatus
  rs_Revision :: "64 word"
  rs_CreatedAt :: time
  rs_UpdatedAt :: time
  rs_Questionnaire :: Questionnaire
  rs_AnswerBlockTag :: string

record ReviewPrompt =
  rp_ID :: ReviewPromptID
  rp_SessionID :: ReviewSessionID
  rp_Revision :: "64 word"
  rp_Question :: Question
  rp_Deadline :: "time option"
  rp_CreatedAt :: time

record ReviewSelection =
  sel_PromptID :: ReviewPromptID
  sel_SessionID :: ReviewSessionID
  sel_Revision :: "64 word"
  sel_SelectedOptions :: "string list"
  sel_Text :: string
  sel_Source :: string
  sel_Assessment :: AnswerAssessment
  sel_SelectedAt :: time

definition ReviewSession_Validate :: "(string \<Rightarrow> string) \<Rightarrow> ReviewSession \<Rightarrow> error option" where
  "ReviewSession_Validate lower session =
     (if rs_ID session = [] \<or> rs_TestDefinitionID session = [] \<or> rs_Platform session = []
         \<or> rs_ProfileID session = [] \<or> rs_CorrelationID session = []
      then Some (Err ''review session requires id, test definition, platform, profile and correlation id'')
      else if rs_Revision session = 0 \<or> IsZero (rs_CreatedAt session) \<or> rs_UpdatedAt session < rs_CreatedAt session
      then Some (Err ''review session has invalid revision or timestamps'')
      else case (if qn_Questions (rs_Questionnaire session) = [] then None
                 else validateQuestionnaire lower (rs_Questionnaire session)) of
        Some e \<Rightarrow> Some (ErrWrap ''review session questionnaire'' e)
      | None \<Rightarrow>
      (case rs_Status session of
         ReviewStatusOther s \<Rightarrow> Some (Err (''review session has unsupported status '' @ quoted s))
       | _ \<Rightarrow> None))"

definition ReviewPrompt_Validate :: "(string \<Rightarrow> string) \<Rightarrow> ReviewPrompt \<Rightarrow> error option" where
  "ReviewPrompt_Validate lower prompt =
     (if rp_ID prompt = [] \<or> rp_SessionID prompt = [] \<or> rp_Revision prompt = 0 \<or> IsZero (rp_CreatedAt prompt)
      then Some (Err ''review prompt requires id, session, revision and created_at'')
      else if (case rp_Deadline prompt of None \<Rightarrow> False | Some d \<Rightarrow> \<not> rp_CreatedAt prompt < d)
      then Some (Err ''review prompt deadline must follow created_at'')
      else validateQuestion lower (rp_Question prompt))"

definition ReviewSelection_Validate :: "ReviewSelection \<Rightarrow> error option" where
  "ReviewSelection_Validate selection =
     (if sel_PromptID selection = [] \<or> sel_SessionID selection = [] \<or> sel_Revision selection = 0
         \<or> sel_Source selection = [] \<or> IsZero (sel_SelectedAt selection)
      then Some (Err ''review selection requires prompt, session, revision, source and selected_at'')
      else if sel_Text selection = [] \<and> sel_SelectedOptions selection = []
      then Some (Err ''review selection requires an answer'')
      else if sel_Text selection \<noteq> [] \<and> sel_SelectedOptions selection \<noteq> []
      then Some (Err ''review selection mixes text and selected options'')
      else (case sel_Assessment selection of
              AssessmentOther s \<Rightarrow> Some (Err (''review selection has unsupported assessment '' @ quoted s))
            | _ \<Rightarrow> None))"

definition empty_Questionnaire :: Questionnaire where
  "empty_Questionnaire = \<lparr>qn_Title = [], qn_Questions = []\<rparr>"

definition NewReviewSession ::
  "ReviewSessionID \<Rightarrow> TestDefinition \<Rightarrow> ProfileID \<Rightarrow> CorrelationID \<Rightarrow> time \<Rightarrow> error + ReviewSession" where
  "NewReviewSession i d profileID correlationID now =
     (if i = [] \<or> td_ID d = [] \<or> td_Platform d = [] \<or> profileID = [] \<or> correlationID = []
      then Inl (Err ''review session requires id, test definition, platform, profile and correlation id'')
      else if IsZero now then Inl (Err ''review session requires current time'')
      else Inr \<lparr>rs_ID = i, rs_TestDefinitionID = td_ID d, rs_Platform = td_Platform d, rs_ProfileID = profileID,
             rs_CorrelationID = correlationID, rs_Status = ReviewPending, rs_Revision = 1, rs_CreatedAt = now,
             rs_UpdatedAt = now, rs_Questionnaire = empty_Questionnaire, rs_AnswerBlockTag = []\<rparr>)"

definition WaitForAnswer ::
  "(string \<Rightarrow> string) \<Rightarrow> ReviewPrompt \<Rightarrow> time \<Rightarrow> ReviewSession \<Rightarrow> error option \<times> ReviewSession" where
  "WaitForAnswer lower prompt now session =
     (if rs_Status session \<noteq> ReviewPending \<and> rs_Status session \<noteq> ReviewAnswered
      then (Some (Err (''review session cannot accept prompt in status '' @ quoted (review_status_text (rs_Status session)))), session)
      else if rp_ID prompt = [] \<or> rp_SessionID prompt \<noteq> rs_ID session \<or> rp_Revision prompt \<noteq> rs_Revision session
      then (Some (Err ''review prompt requires id and current session revision''), session)
      else if IsZero (rp_CreatedAt prompt) \<or> IsZero now \<or> now < rs_UpdatedAt session \<or> now < rp_CreatedAt prompt
      then (Some (Err ''review prompt has invalid time''), session)
      else if (case rp_Deadline prompt of None \<Rightarrow> False | Some d \<Rightarrow> \<not> now < d)
      then (Some (Err ''review prompt deadline must be in the future''), session)
      else case validateQuestion lower (rp_Question prompt) of Some e \<Rightarrow> (Some e, session) | None \<Rightarrow>
      if qu_Kind (rp_Question prompt) = QuestionCode
      then (Some (Err ''code questions are not supported''),
            session\<lparr>rs_Status := ReviewUnsupported, rs_UpdatedAt := now\<rparr>)
      else (None, session\<lparr>rs_Status := ReviewWaiting, rs_UpdatedAt := now\<rparr>))"

text \<open>Every selected option is one of the question's, and none is selected twice.\<close>

fun validate_selected :: "(string \<Rightarrow> string) \<Rightarrow> Question \<Rightarrow> string list \<Rightarrow> string list \<Rightarrow> error option" where
  "validate_selected lower question seen [] = None"
| "validate_selected lower question seen (selected # rest) =
     (let key = NormalizeQuestionText lower selected in
      if key \<notin> set (map (\<lambda>option. NormalizeQuestionText lower (qo_Text option)) (qu_Options question))
      then Some (Err (''question '' @ quoted (qu_Text question) @ '' has no option '' @ quoted selected))
      else if key \<in> set seen then Some (Err (''option '' @ quoted selected @ '' is selected more than once''))
      else validate_selected lower question (key # seen) rest)"

definition validateSelection :: "(string \<Rightarrow> string) \<Rightarrow> Question \<Rightarrow> string list \<Rightarrow> string \<Rightarrow> error option" where
  "validateSelection lower question selectedOptions answerText =
     (case (case qu_Kind question of
              QuestionSingle \<Rightarrow> if answerText \<noteq> [] \<or> length selectedOptions \<noteq> 1
                then Some (Err ''single-choice response requires exactly one selected option'') else None
            | QuestionMultiple \<Rightarrow> if answerText \<noteq> [] \<or> selectedOptions = []
                then Some (Err ''multiple-choice response requires selected options'') else None
            | QuestionText \<Rightarrow> if answerText = [] \<or> selectedOptions \<noteq> []
                then Some (Err ''text response requires text only'') else None
            | QuestionCode \<Rightarrow> Some (Err ''code questions are not supported'')
            | QuestionKindOther s \<Rightarrow> Some (Err (''unsupported question kind '' @ quoted s))) of
        Some e \<Rightarrow> Some e | None \<Rightarrow> validate_selected lower question [] selectedOptions)"

definition RecordSelection ::
  "(string \<Rightarrow> string) \<Rightarrow> ReviewPrompt \<Rightarrow> string list \<Rightarrow> string \<Rightarrow> string \<Rightarrow> 64 word \<Rightarrow> time \<Rightarrow> ReviewSession \<Rightarrow>
   (error + ReviewSelection) \<times> ReviewSession" where
  "RecordSelection lower prompt selectedOptions answerText source expectedRevision now session =
     (if rs_Status session = ReviewUnsupported
      then (Inl (Err ''review session contains an unsupported question kind''), session)
      else if rs_Status session \<noteq> ReviewWaiting
      then (Inl (Err (''review session is not waiting for an answer: '' @ quoted (review_status_text (rs_Status session)))), session)
      else if rp_SessionID prompt \<noteq> rs_ID session
      then (Inl (Err ''review prompt belongs to another session''), session)
      else if expectedRevision \<noteq> rs_Revision session \<or> rp_Revision prompt \<noteq> rs_Revision session
      then (Inl (Err (''stale review revision: got '' @ FormatNat (unat expectedRevision) @ '', current ''
             @ FormatNat (unat (rs_Revision session)))), session)
      else if IsZero now \<or> now < rs_UpdatedAt session
      then (Inl (Err ''selection time must not move backwards''), session)
      else if source = [] then (Inl (Err ''review selection requires source''), session)
      else if (case rp_Deadline prompt of None \<Rightarrow> False | Some d \<Rightarrow> \<not> now < d)
      then (Inl (Err ''review prompt has expired''), session\<lparr>rs_Status := ReviewExpired, rs_UpdatedAt := now\<rparr>)
      else if qu_Kind (rp_Question prompt) = QuestionCode
      then (Inl (Err ''code questions are not supported''),
            session\<lparr>rs_Status := ReviewUnsupported, rs_UpdatedAt := now\<rparr>)
      else case validateSelection lower (rp_Question prompt) selectedOptions answerText of
        Some e \<Rightarrow> (Inl e, session)
      | None \<Rightarrow>
          (Inr \<lparr>sel_PromptID = rp_ID prompt, sel_SessionID = rs_ID session, sel_Revision = rs_Revision session,
             sel_SelectedOptions = selectedOptions, sel_Text = answerText, sel_Source = source,
             sel_Assessment = AssessmentUnverified, sel_SelectedAt = now\<rparr>,
           session\<lparr>rs_Revision := rs_Revision session + 1, rs_Status := ReviewAnswered, rs_UpdatedAt := now\<rparr>))"

section \<open>Outcomes of tests\<close>

definition TestAttempt_Validate :: "TestAttempt \<Rightarrow> error option" where
  "TestAttempt_Validate attempt =
     (if ta_Platform attempt = [] \<or> ta_ProfileID attempt = [] \<or> TrimSpace (ta_ExternalID attempt) = []
         \<or> ta_TestDefinitionID attempt = []
      then Some (Err ''test attempt requires platform, profile, external id and definition'')
      else case ta_Status attempt of
        TestAttemptOther s \<Rightarrow> Some (Err (''test attempt has unsupported status '' @ quoted s))
      | _ \<Rightarrow>
      if ta_Attempts attempt = 0 \<or> IsZero (ta_ObservedAt attempt) \<or> ta_UpdatedAt attempt < ta_ObservedAt attempt
      then Some (Err ''test attempt has invalid attempts or timestamps'')
      else if ta_AttemptFingerprint attempt = [] then None
      else validateSHA256Fingerprint (ta_AttemptFingerprint attempt))"

section \<open>The store\<close>

type_synonym testAttemptKey = "Platform \<times> ProfileID \<times> string"

record TestStore =
  tst_tests :: "(TestDefinitionID \<times> TestDefinition) list"
  tst_reviews :: "(ReviewSessionID \<times> ReviewSession) list"
  tst_prompts :: "(ReviewPromptID \<times> ReviewPrompt) list"
  tst_selections :: "(ReviewSessionID \<times> ReviewSelection list) list"
  tst_attempts :: "(testAttemptKey \<times> TestAttempt) list"

definition attempt_key :: "TestAttempt \<Rightarrow> testAttemptKey" where
  "attempt_key attempt = (ta_Platform attempt, ta_ProfileID attempt, ta_ExternalID attempt)"

text \<open>A recorded pass stays; the count and the time of the update never go back.\<close>

definition merge_attempt :: "TestAttempt \<Rightarrow> TestAttempt \<Rightarrow> TestAttempt" where
  "merge_attempt stored attempt =
     (let m1 = (if ta_Status stored = TestAttemptPassed
                then attempt\<lparr>ta_Status := ta_Status stored, ta_AttemptFingerprint := ta_AttemptFingerprint stored,
                             ta_ObservedAt := ta_ObservedAt stored\<rparr>
                else attempt);
          m2 = (if ta_Attempts stored > ta_Attempts m1 then m1\<lparr>ta_Attempts := ta_Attempts stored\<rparr> else m1)
      in if ta_UpdatedAt stored > ta_UpdatedAt m2 then m2\<lparr>ta_UpdatedAt := ta_UpdatedAt stored\<rparr> else m2)"

definition SaveTestAttempt :: "ctx \<Rightarrow> TestAttempt \<Rightarrow> TestStore \<Rightarrow> error option \<times> TestStore" where
  "SaveTestAttempt ctx attempt s =
     (case ctx of Some e \<Rightarrow> (Some e, s) | None \<Rightarrow>
      case TestAttempt_Validate attempt of Some e \<Rightarrow> (Some e, s) | None \<Rightarrow>
      case map_of (tst_attempts s) (attempt_key attempt) of
        None \<Rightarrow> (None, s\<lparr>tst_attempts := AList.update (attempt_key attempt) attempt (tst_attempts s)\<rparr>)
      | Some stored \<Rightarrow>
          let merged = merge_attempt stored attempt in
          case TestAttempt_Validate merged of Some e \<Rightarrow> (Some e, s)
          | None \<Rightarrow> (None, s\<lparr>tst_attempts := AList.update (attempt_key attempt) merged (tst_attempts s)\<rparr>))"

definition LatestTestAttempt :: "ctx \<Rightarrow> Platform \<Rightarrow> ProfileID \<Rightarrow> string \<Rightarrow> TestStore \<Rightarrow> error + TestAttempt option" where
  "LatestTestAttempt ctx platform profileID externalID s =
     (case ctx of Some e \<Rightarrow> Inl e | None \<Rightarrow> Inr (map_of (tst_attempts s) (platform, profileID, externalID)))"

definition qualificationIdentity :: "QualificationDescriptor option \<Rightarrow> string" where
  "qualificationIdentity value =
     (case value of None \<Rightarrow> [] | Some q \<Rightarrow> qd_FamilyID q @ [CHR 0x00] @ qd_LevelID q)"

text \<open>A question seen before keeps its first and its last sight where those reach further.\<close>

definition merge_question :: "(string \<times> TestQuestion) list \<Rightarrow> TestQuestion \<Rightarrow> TestQuestion" where
  "merge_question questions question =
     (case map_of questions (tq_Fingerprint question) of None \<Rightarrow> question
      | Some previous \<Rightarrow>
          let q = (if tq_FirstSeenAt previous < tq_FirstSeenAt question
                   then question\<lparr>tq_FirstSeenAt := tq_FirstSeenAt previous\<rparr> else question)
          in if tq_LastSeenAt previous > tq_LastSeenAt q then q\<lparr>tq_LastSeenAt := tq_LastSeenAt previous\<rparr> else q)"

definition merge_questions :: "TestQuestion list \<Rightarrow> TestQuestion list \<Rightarrow> (string \<times> TestQuestion) list" where
  "merge_questions stored candidate =
     fold (\<lambda>q m. AList.update (tq_Fingerprint q) (merge_question m q) m) candidate
       (fold (\<lambda>q m. AList.update (tq_Fingerprint q) q m) stored [])"

definition merge_definition :: "TestDefinition \<Rightarrow> TestDefinition \<Rightarrow> TestDefinition" where
  "merge_definition stored candidate =
     (let merged = candidate\<lparr>td_Questions := sort_Slice (\<lambda>a b. tq_Fingerprint a < tq_Fingerprint b)
            (map snd (merge_questions (td_Questions stored) (td_Questions candidate)))\<rparr>
      in if td_ObservedAttempts stored > td_ObservedAttempts merged
         then merged\<lparr>td_ObservedAttempts := td_ObservedAttempts stored,
                     td_LastAttemptFingerprint := td_LastAttemptFingerprint stored\<rparr>
         else if td_LastAttemptFingerprint merged = []
         then merged\<lparr>td_LastAttemptFingerprint := td_LastAttemptFingerprint stored\<rparr>
         else merged)"

definition UpsertTestDefinition ::
  "(string \<Rightarrow> string) \<Rightarrow> ctx \<Rightarrow> TestDefinition \<Rightarrow> TestStore \<Rightarrow> (error + bool) \<times> TestStore" where
  "UpsertTestDefinition lower ctx candidate s =
     (case ctx of Some e \<Rightarrow> (Inl e, s) | None \<Rightarrow>
      case TestDefinition_Validate lower candidate of Some e \<Rightarrow> (Inl e, s) | None \<Rightarrow>
      case map_of (tst_tests s) (td_ID candidate) of
        None \<Rightarrow> (Inr True, s\<lparr>tst_tests := AList.update (td_ID candidate) candidate (tst_tests s)\<rparr>)
      | Some stored \<Rightarrow>
          if td_Platform stored \<noteq> td_Platform candidate \<or> td_ExternalID stored \<noteq> td_ExternalID candidate
             \<or> qualificationIdentity (td_Qualification stored) \<noteq> qualificationIdentity (td_Qualification candidate)
          then (Inl (Err ''test definition id conflicts with different platform metadata''), s)
          else if td_UpdatedAt candidate < td_UpdatedAt stored then (Inr False, s)
          else (Inr False, s\<lparr>tst_tests :=
                 AList.update (td_ID candidate) (merge_definition stored candidate) (tst_tests s)\<rparr>))"

definition GetTestDefinition :: "ctx \<Rightarrow> TestDefinitionID \<Rightarrow> TestStore \<Rightarrow> error + TestDefinition" where
  "GetTestDefinition ctx i s =
     (case ctx of Some e \<Rightarrow> Inl e | None \<Rightarrow>
      case map_of (tst_tests s) i of None \<Rightarrow> Inl (Err ''test definition not found'') | Some d \<Rightarrow> Inr d)"

record TestDefinitionFilter =
  tdf_Platform :: Platform
  tdf_FamilyID :: string
  tdf_LevelID :: string

definition test_matches :: "TestDefinitionFilter \<Rightarrow> TestDefinition \<Rightarrow> bool" where
  "test_matches f d \<longleftrightarrow>
     (tdf_Platform f = [] \<or> td_Platform d = tdf_Platform f)
     \<and> (tdf_FamilyID f = [] \<or> map_option qd_FamilyID (td_Qualification d) = Some (tdf_FamilyID f))
     \<and> (tdf_LevelID f = [] \<or> map_option qd_LevelID (td_Qualification d) = Some (tdf_LevelID f))"

definition ListTestDefinitions :: "ctx \<Rightarrow> TestDefinitionFilter \<Rightarrow> TestStore \<Rightarrow> error + TestDefinition list" where
  "ListTestDefinitions ctx f s =
     (case ctx of Some e \<Rightarrow> Inl e | None \<Rightarrow>
      Inr (sort_Slice (\<lambda>a b. td_ID a < td_ID b) (filter (test_matches f) (map snd (tst_tests s)))))"

definition CreateReviewSession ::
  "(string \<Rightarrow> string) \<Rightarrow> ctx \<Rightarrow> ReviewSession \<Rightarrow> TestStore \<Rightarrow> (error + bool) \<times> TestStore" where
  "CreateReviewSession lower ctx candidate s =
     (case ctx of Some e \<Rightarrow> (Inl e, s) | None \<Rightarrow>
      case ReviewSession_Validate lower candidate of Some e \<Rightarrow> (Inl e, s) | None \<Rightarrow>
      if rs_Status candidate \<noteq> ReviewPending \<or> rs_Revision candidate \<noteq> 1
      then (Inl (Err ''review repository accepts only initialized pending sessions''), s)
      else case map_of (tst_reviews s) (rs_ID candidate) of
        Some stored \<Rightarrow>
          if rs_TestDefinitionID stored \<noteq> rs_TestDefinitionID candidate \<or> rs_ProfileID stored \<noteq> rs_ProfileID candidate
             \<or> rs_CorrelationID stored \<noteq> rs_CorrelationID candidate
          then (Inl (Err ''review session id conflicts with a different session''), s)
          else (Inr False, s)
      | None \<Rightarrow>
          if map_of (tst_tests s) (rs_TestDefinitionID candidate) = None
          then (Inl (Err ''review session references unknown test definition''), s)
          else (Inr True, s\<lparr>tst_reviews := AList.update (rs_ID candidate) candidate (tst_reviews s)\<rparr>))"

definition GetReviewSession :: "ctx \<Rightarrow> ReviewSessionID \<Rightarrow> TestStore \<Rightarrow> error + ReviewSession" where
  "GetReviewSession ctx i s =
     (case ctx of Some e \<Rightarrow> Inl e | None \<Rightarrow>
      case map_of (tst_reviews s) i of None \<Rightarrow> Inl (Err ''review session not found'') | Some session \<Rightarrow> Inr session)"

record ReviewSessionFilter =
  rsf_Status :: ReviewSessionStatus
  rsf_ProfileID :: ProfileID
  rsf_Platform :: Platform
  rsf_Query :: string
  rsf_Limit :: int
  rsf_Offset :: int

definition prompt_id :: "ReviewSession \<Rightarrow> ReviewPromptID" where
  "prompt_id session = rs_ID session @ ''-prompt-'' @ FormatNat (unat (rs_Revision session))"

definition reviewSessionMatchesQuery :: "(string \<Rightarrow> string) \<Rightarrow> TestStore \<Rightarrow> ReviewSession \<Rightarrow> string \<Rightarrow> bool" where
  "reviewSessionMatchesQuery lower s session query \<longleftrightarrow>
     Contains (lower (rs_TestDefinitionID session)) query
     \<or> (case map_of (tst_tests s) (rs_TestDefinitionID session) of
          None \<Rightarrow> False | Some d \<Rightarrow> Contains (lower (td_Title d)) query)
     \<or> list_ex (\<lambda>q. Contains (lower (qu_Text q)) query) (qn_Questions (rs_Questionnaire session))
     \<or> (case map_of (tst_prompts s) (prompt_id session) of
          None \<Rightarrow> False | Some p \<Rightarrow> Contains (lower (qu_Text (rp_Question p))) query)"

definition session_listed :: "(string \<Rightarrow> string) \<Rightarrow> TestStore \<Rightarrow> ReviewSessionFilter \<Rightarrow> ReviewSession \<Rightarrow> bool" where
  "session_listed lower s f session \<longleftrightarrow>
     (let query = lower (TrimSpace (rsf_Query f)); every = (review_status_text (rsf_Status f) = []) in
      (every \<or> rs_Status session = rsf_Status f)
      \<and> (rsf_ProfileID f = [] \<or> rs_ProfileID session = rsf_ProfileID f)
      \<and> (rsf_Platform f = [] \<or> rs_Platform session = rsf_Platform f)
      \<and> \<not> (every \<and> rs_Status session = ReviewCancelled)
      \<and> (query = [] \<or> reviewSessionMatchesQuery lower s session query))"

definition ListReviewSessions ::
  "(string \<Rightarrow> string) \<Rightarrow> ctx \<Rightarrow> ReviewSessionFilter \<Rightarrow> TestStore \<Rightarrow> error + ReviewSession list" where
  "ListReviewSessions lower ctx f s =
     (case ctx of Some e \<Rightarrow> Inl e | None \<Rightarrow>
      let result = sort_Slice
        (\<lambda>a b. if rs_UpdatedAt a \<noteq> rs_UpdatedAt b then rs_UpdatedAt a > rs_UpdatedAt b else rs_ID a < rs_ID b)
        (filter (session_listed lower s f) (map snd (tst_reviews s)))
      in if rsf_Offset f > 0 \<and> rsf_Offset f \<ge> int (length result) then Inr []
         else let result = (if rsf_Offset f > 0 then drop (nat (rsf_Offset f)) result else result)
         in Inr (if rsf_Limit f > 0 \<and> rsf_Limit f < int (length result) then take (nat (rsf_Limit f)) result else result))"

definition CancelReviewSession ::
  "(string \<Rightarrow> string) \<Rightarrow> ctx \<Rightarrow> ReviewSession \<Rightarrow> 64 word \<Rightarrow> TestStore \<Rightarrow> error option \<times> TestStore" where
  "CancelReviewSession lower ctx session expectedRevision s =
     (case ctx of Some e \<Rightarrow> (Some e, s) | None \<Rightarrow>
      case ReviewSession_Validate lower session of Some e \<Rightarrow> (Some e, s) | None \<Rightarrow>
      if rs_Status session \<noteq> ReviewCancelled \<or> rs_Revision session \<noteq> expectedRevision + 1
      then (Some (Err ''cancelled review session does not match the expected revision''), s)
      else case map_of (tst_reviews s) (rs_ID session) of
        None \<Rightarrow> (Some (ErrSentinel ErrRevisionConflict), s)
      | Some stored \<Rightarrow>
          if rs_Revision stored \<noteq> expectedRevision then (Some (ErrSentinel ErrRevisionConflict), s)
          else if rs_Status stored \<notin> {ReviewPending, ReviewWaiting, ReviewAnswered}
          then (Some (ErrSentinel ErrRevisionConflict), s)
          else (None, s\<lparr>tst_reviews := AList.update (rs_ID session) session (tst_reviews s)\<rparr>))"

definition GetReviewPrompt :: "ctx \<Rightarrow> ReviewPromptID \<Rightarrow> TestStore \<Rightarrow> error + ReviewPrompt" where
  "GetReviewPrompt ctx i s =
     (case ctx of Some e \<Rightarrow> Inl e | None \<Rightarrow>
      case map_of (tst_prompts s) i of None \<Rightarrow> Inl (Err ''review prompt not found'') | Some prompt \<Rightarrow> Inr prompt)"

definition SaveReviewPrompt ::
  "(string \<Rightarrow> string) \<Rightarrow> ctx \<Rightarrow> ReviewSession \<Rightarrow> ReviewPrompt \<Rightarrow> 64 word \<Rightarrow> TestStore \<Rightarrow> error option \<times> TestStore" where
  "SaveReviewPrompt lower ctx session prompt expectedRevision s =
     (case ctx of Some e \<Rightarrow> (Some e, s) | None \<Rightarrow>
      case ReviewSession_Validate lower session of Some e \<Rightarrow> (Some e, s) | None \<Rightarrow>
      case ReviewPrompt_Validate lower prompt of Some e \<Rightarrow> (Some e, s) | None \<Rightarrow>
      if rs_Status session \<noteq> ReviewWaiting \<or> rs_Revision session \<noteq> expectedRevision
         \<or> rp_SessionID prompt \<noteq> rs_ID session \<or> rp_Revision prompt \<noteq> expectedRevision
      then (Some (Err ''review prompt does not match waiting session revision''), s)
      else case map_of (tst_reviews s) (rs_ID session) of
        None \<Rightarrow> (Some (ErrSentinel ErrRevisionConflict), s)
      | Some stored \<Rightarrow>
          if rs_Revision stored \<noteq> expectedRevision \<or> (rs_Status stored \<noteq> ReviewPending \<and> rs_Status stored \<noteq> ReviewAnswered)
             \<or> map_of (tst_prompts s) (rp_ID prompt) \<noteq> None
          then (Some (ErrSentinel ErrRevisionConflict), s)
          else (None, s\<lparr>tst_prompts := AList.update (rp_ID prompt) prompt (tst_prompts s),
                        tst_reviews := AList.update (rs_ID session) session (tst_reviews s)\<rparr>))"

definition selections_of :: "TestStore \<Rightarrow> ReviewSessionID \<Rightarrow> ReviewSelection list" where
  "selections_of s i = (case map_of (tst_selections s) i of None \<Rightarrow> [] | Some xs \<Rightarrow> xs)"

definition AppendReviewSelection ::
  "(string \<Rightarrow> string) \<Rightarrow> ctx \<Rightarrow> ReviewSession \<Rightarrow> ReviewSelection \<Rightarrow> 64 word \<Rightarrow> TestStore \<Rightarrow> error option \<times> TestStore" where
  "AppendReviewSelection lower ctx session selection expectedRevision s =
     (case ctx of Some e \<Rightarrow> (Some e, s) | None \<Rightarrow>
      case ReviewSession_Validate lower session of Some e \<Rightarrow> (Some e, s) | None \<Rightarrow>
      case ReviewSelection_Validate selection of Some e \<Rightarrow> (Some e, s) | None \<Rightarrow>
      if rs_Status session \<noteq> ReviewAnswered \<or> rs_Revision session \<noteq> expectedRevision + 1
         \<or> sel_SessionID selection \<noteq> rs_ID session \<or> sel_Revision selection \<noteq> expectedRevision
      then (Some (Err ''review selection does not match answered session revision''), s)
      else case (map_of (tst_reviews s) (rs_ID session), map_of (tst_prompts s) (sel_PromptID selection)) of
        (Some stored, Some prompt) \<Rightarrow>
          if rs_Revision stored \<noteq> expectedRevision \<or> rs_Status stored \<noteq> ReviewWaiting
             \<or> rp_SessionID prompt \<noteq> rs_ID session \<or> rp_Revision prompt \<noteq> expectedRevision
          then (Some (ErrSentinel ErrRevisionConflict), s)
          else (None, s\<lparr>tst_selections := AList.update (rs_ID session)
                   (selections_of s (rs_ID session) @ [selection]) (tst_selections s),
                 tst_reviews := AList.update (rs_ID session) session (tst_reviews s)\<rparr>)
      | _ \<Rightarrow> (Some (ErrSentinel ErrRevisionConflict), s))"

definition ReviewSelections :: "ctx \<Rightarrow> ReviewSessionID \<Rightarrow> TestStore \<Rightarrow> error + ReviewSelection list" where
  "ReviewSelections ctx sessionID s =
     (case ctx of Some e \<Rightarrow> Inl e | None \<Rightarrow> Inr (selections_of s sessionID))"

end
