(* ===== verification/Reviews_Inv.thy ===== *)
theory Reviews_Inv
  imports Reviews Campaign_Props
begin

text \<open>
  What the stores of tests keep: tests, sessions, prompts and outcomes stay valid, nothing seen of a
  test is forgotten, the answers of a session are an append-only history with one answer for each
  revision, and a pass is never taken back.
\<close>

section \<open>Merged tests\<close>

lemma map_of_update_iff [simp]:
  "map_of (AList.update k v m) i = (if i = k then Some v else map_of m i)"
  by (simp add: update_conv')

lemma merge_question_fp [simp]: "tq_Fingerprint (merge_question m q) = tq_Fingerprint q"
  by (auto simp: merge_question_def Let_def split: option.splits)

lemma merge_question_content [simp]:
  "tq_Text (merge_question m q) = tq_Text q" "tq_Kind (merge_question m q) = tq_Kind q"
  "tq_Options (merge_question m q) = tq_Options q"
  by (auto simp: merge_question_def Let_def split: option.splits)

lemma merge_question_first:
  "tq_FirstSeenAt (merge_question m q) =
     (case map_of m (tq_Fingerprint q) of None \<Rightarrow> tq_FirstSeenAt q
      | Some p \<Rightarrow> min (tq_FirstSeenAt p) (tq_FirstSeenAt q))"
  by (auto simp: merge_question_def Let_def min_def split: option.splits)

lemma merge_question_last:
  "tq_LastSeenAt (merge_question m q) =
     (case map_of m (tq_Fingerprint q) of None \<Rightarrow> tq_LastSeenAt q
      | Some p \<Rightarrow> max (tq_LastSeenAt p) (tq_LastSeenAt q))"
  by (auto simp: merge_question_def Let_def max_def split: option.splits)

text \<open>An index of questions: each is valid and stands under its fingerprint, each fingerprint once.\<close>

definition question_index :: "(string \<Rightarrow> string) \<Rightarrow> (string \<times> TestQuestion) list \<Rightarrow> bool" where
  "question_index lower m \<longleftrightarrow> distinct (map fst m)
     \<and> (\<forall>(f, q) \<in> set m. tq_Fingerprint q = f \<and> validateStoredTestQuestion lower q = None)"

lemma question_index_Nil [simp]: "question_index lower []"
  by (simp add: question_index_def)

lemma set_AList_update_subset: "set (AList.update k v m) \<subseteq> insert (k, v) (set m)"
  by (induction m) auto

lemma question_index_update:
  assumes "question_index lower m" and "validateStoredTestQuestion lower q = None"
  shows "question_index lower (AList.update (tq_Fingerprint q) q m)"
  using assms set_AList_update_subset [of "tq_Fingerprint q" q m]
  by (fastforce simp: question_index_def distinct_update)

lemma validate_stored_times:
  "validateStoredTestQuestion lower q = None \<Longrightarrow>
   \<not> IsZero (tq_FirstSeenAt q) \<and> tq_FirstSeenAt q \<le> tq_LastSeenAt q"
  by (auto simp: validateStoredTestQuestion_def Let_def split: if_splits)

lemma validate_stored_cong:
  assumes "validateStoredTestQuestion lower q = None"
    and "tq_Fingerprint p = tq_Fingerprint q" "tq_Text p = tq_Text q" "tq_Kind p = tq_Kind q" "tq_Options p = tq_Options q"
    and "\<not> IsZero (tq_FirstSeenAt p)" "tq_FirstSeenAt p \<le> tq_LastSeenAt p"
  shows "validateStoredTestQuestion lower p = None"
  using assms by (auto simp: validateStoredTestQuestion_def Let_def split: if_splits sum.splits)

lemma merge_question_valid:
  assumes m: "question_index lower m" and q: "validateStoredTestQuestion lower q = None"
  shows "validateStoredTestQuestion lower (merge_question m q) = None"
proof (rule validate_stored_cong [OF q])
  show "\<not> IsZero (tq_FirstSeenAt (merge_question m q))"
  proof (cases "map_of m (tq_Fingerprint q)")
    case None
    then show ?thesis using validate_stored_times [OF q] by (simp add: merge_question_first)
  next
    case (Some p)
    then have "validateStoredTestQuestion lower p = None"
      using m by (auto simp: question_index_def dest: map_of_SomeD)
    then show ?thesis
      using validate_stored_times [OF q] Some by (auto simp: merge_question_first min_def dest: validate_stored_times)
  qed
  show "tq_FirstSeenAt (merge_question m q) \<le> tq_LastSeenAt (merge_question m q)"
    using validate_stored_times [OF q]
    by (auto simp: merge_question_first merge_question_last split: option.splits)
qed simp_all

lemma index_stored:
  assumes "\<forall>q \<in> set qs. validateStoredTestQuestion lower q = None" and "question_index lower m"
  shows "question_index lower (fold (\<lambda>q m. AList.update (tq_Fingerprint q) q m) qs m)"
  using assms by (induction qs arbitrary: m) (auto intro: question_index_update)

lemma index_merged:
  assumes "\<forall>q \<in> set qs. validateStoredTestQuestion lower q = None" and "question_index lower m"
  shows "question_index lower (fold (\<lambda>q m. AList.update (tq_Fingerprint q) (merge_question m q) m) qs m)"
  using assms
proof (induction qs arbitrary: m)
  case (Cons q qs)
  have "question_index lower (AList.update (tq_Fingerprint (merge_question m q)) (merge_question m q) m)"
    using Cons.prems by (intro question_index_update merge_question_valid) auto
  then show ?case using Cons by simp
qed simp

lemma validate_test_questions_iff:
  "validate_test_questions lower seen qs = None \<longleftrightarrow>
     (\<forall>q \<in> set qs. validateStoredTestQuestion lower q = None) \<and> distinct (map tq_Fingerprint qs)
     \<and> set (map tq_Fingerprint qs) \<inter> set seen = {}"
  by (induction lower seen qs rule: validate_test_questions.induct) (auto split: option.splits)

lemma question_index_distinct:
  "question_index lower m \<Longrightarrow> distinct (map tq_Fingerprint (map snd m))"
  by (induction m) (force simp: question_index_def)+

lemma distinct_sort_Slice_map: "distinct (map f (sort_Slice lt xs)) \<longleftrightarrow> distinct (map f xs)"
  by (metis mset_eq_imp_distinct_iff mset_map mset_sort_Slice)

text \<open>What the merged questions are: those of both sides, each seen as early and as late as either.\<close>

lemma find_distinct:
  "distinct (map f xs) \<Longrightarrow> x \<in> set xs \<Longrightarrow> find (\<lambda>y. f y = f x) xs = Some x"
  by (induction xs) (auto simp: image_iff)

lemma index_stored_map_of:
  "distinct (map tq_Fingerprint qs) \<Longrightarrow>
   map_of (fold (\<lambda>q m. AList.update (tq_Fingerprint q) q m) qs m) f =
     (case find (\<lambda>q. tq_Fingerprint q = f) qs of Some q \<Rightarrow> Some q | None \<Rightarrow> map_of m f)"
proof (induction qs arbitrary: m)
  case (Cons q qs)
  have none: "find (\<lambda>p. tq_Fingerprint p = tq_Fingerprint q) qs = None"
    using Cons.prems by (force simp: find_None_iff image_iff)
  show ?case
  proof (cases "tq_Fingerprint q = f")
    case True
    then show ?thesis using Cons none by auto
  next
    case False
    then show ?thesis using Cons by (auto split: option.splits)
  qed
qed simp

lemma index_merged_map_of:
  "distinct (map tq_Fingerprint qs) \<Longrightarrow>
   map_of (fold (\<lambda>q m. AList.update (tq_Fingerprint q) (merge_question m q) m) qs m) f =
     (case find (\<lambda>q. tq_Fingerprint q = f) qs of Some q \<Rightarrow> Some (merge_question m q) | None \<Rightarrow> map_of m f)"
proof (induction qs arbitrary: m)
  case (Cons q qs)
  have same: "merge_question (AList.update k v m) r = merge_question m r" if "tq_Fingerprint r \<noteq> k" for k v r
    using that by (simp add: merge_question_def)
  show ?case
  proof (cases "find (\<lambda>q. tq_Fingerprint q = f) qs")
    case None
    then show ?thesis using Cons by simp
  next
    case (Some r)
    then have r: "r \<in> set qs" "tq_Fingerprint r = f" by (auto simp: find_Some_iff)
    then have "tq_Fingerprint q \<noteq> f" using Cons.prems by auto
    then show ?thesis using Cons Some r same by simp
  qed
qed simp

lemma merge_questions_map_of:
  assumes "distinct (map tq_Fingerprint old)" "distinct (map tq_Fingerprint new)"
  shows "map_of (merge_questions old new) f =
    (case find (\<lambda>q. tq_Fingerprint q = f) new of
       None \<Rightarrow> find (\<lambda>q. tq_Fingerprint q = f) old
     | Some q \<Rightarrow> Some (merge_question (fold (\<lambda>q m. AList.update (tq_Fingerprint q) q m) old []) q))"
  unfolding merge_questions_def index_merged_map_of [OF assms(2)]
  by (auto simp: index_stored_map_of [OF assms(1)] split: option.splits)

text \<open>Nothing seen of a test is lost.\<close>

definition seen_at_least :: "TestDefinition \<Rightarrow> TestDefinition \<Rightarrow> bool" where
  "seen_at_least old new \<longleftrightarrow> td_ObservedAttempts old \<le> td_ObservedAttempts new
     \<and> td_UpdatedAt old \<le> td_UpdatedAt new
     \<and> (\<forall>q \<in> set (td_Questions old). \<exists>r \<in> set (td_Questions new). tq_Fingerprint r = tq_Fingerprint q
          \<and> tq_FirstSeenAt r \<le> tq_FirstSeenAt q \<and> tq_LastSeenAt q \<le> tq_LastSeenAt r)"

lemma seen_at_least_refl [simp]: "seen_at_least d d"
  by (auto simp: seen_at_least_def)

lemma seen_at_least_trans:
  assumes ab: "seen_at_least a b" and bc: "seen_at_least b c"
  shows "seen_at_least a c"
  unfolding seen_at_least_def
proof (intro conjI ballI)
  show "td_ObservedAttempts a \<le> td_ObservedAttempts c" "td_UpdatedAt a \<le> td_UpdatedAt c"
    using ab bc by (auto simp: seen_at_least_def)
  fix q assume "q \<in> set (td_Questions a)"
  then obtain r where r: "r \<in> set (td_Questions b)" "tq_Fingerprint r = tq_Fingerprint q"
    "tq_FirstSeenAt r \<le> tq_FirstSeenAt q" "tq_LastSeenAt q \<le> tq_LastSeenAt r"
    using ab by (auto simp: seen_at_least_def)
  then obtain t where "t \<in> set (td_Questions c)" "tq_Fingerprint t = tq_Fingerprint r"
    "tq_FirstSeenAt t \<le> tq_FirstSeenAt r" "tq_LastSeenAt r \<le> tq_LastSeenAt t"
    using bc by (auto simp: seen_at_least_def)
  with r show "\<exists>t \<in> set (td_Questions c). tq_Fingerprint t = tq_Fingerprint q
      \<and> tq_FirstSeenAt t \<le> tq_FirstSeenAt q \<and> tq_LastSeenAt q \<le> tq_LastSeenAt t"
    by force
qed

lemma td_merge [simp]:
  "td_ID (merge_definition old new) = td_ID new" "td_Platform (merge_definition old new) = td_Platform new"
  "td_ExternalID (merge_definition old new) = td_ExternalID new"
  "td_Qualification (merge_definition old new) = td_Qualification new"
  "td_DiscoveredAt (merge_definition old new) = td_DiscoveredAt new"
  "td_UpdatedAt (merge_definition old new) = td_UpdatedAt new"
  "td_Questions (merge_definition old new) = sort_Slice (\<lambda>a b. tq_Fingerprint a < tq_Fingerprint b)
     (map snd (merge_questions (td_Questions old) (td_Questions new)))"
  "td_ObservedAttempts (merge_definition old new) = max (td_ObservedAttempts old) (td_ObservedAttempts new)"
  by (auto simp: merge_definition_def Let_def max_def)

lemma merge_fingerprint:
  "td_LastAttemptFingerprint (merge_definition old new) \<in>
     {td_LastAttemptFingerprint old, td_LastAttemptFingerprint new}"
  by (auto simp: merge_definition_def Let_def)

lemma Validate_questions:
  "TestDefinition_Validate lower d = None \<Longrightarrow> (\<forall>q \<in> set (td_Questions d). validateStoredTestQuestion lower q = None)
     \<and> distinct (map tq_Fingerprint (td_Questions d))"
  by (auto simp: TestDefinition_Validate_def validate_test_questions_iff split: if_splits option.splits)

lemma Validate_last_attempt:
  "TestDefinition_Validate lower d = None \<Longrightarrow> td_LastAttemptFingerprint d = []
     \<or> validateSHA256Fingerprint (td_LastAttemptFingerprint d) = None"
  by (auto simp: TestDefinition_Validate_def split: if_splits option.splits)

lemma merge_index:
  assumes "TestDefinition_Validate lower old = None" "TestDefinition_Validate lower new = None"
  shows "question_index lower (merge_questions (td_Questions old) (td_Questions new))"
  unfolding merge_questions_def
  using Validate_questions [OF assms(1)] Validate_questions [OF assms(2)]
  by (intro index_merged index_stored) auto

lemma merge_valid:
  assumes old: "TestDefinition_Validate lower old = None" and new: "TestDefinition_Validate lower new = None"
  shows "TestDefinition_Validate lower (merge_definition old new) = None"
proof -
  have i: "question_index lower (merge_questions (td_Questions old) (td_Questions new))"
    by (rule merge_index [OF old new])
  have "validate_test_questions lower [] (td_Questions (merge_definition old new)) = None"
    using i question_index_distinct [OF i]
    by (auto simp: validate_test_questions_iff distinct_sort_Slice_map question_index_def simp del: map_map)
  moreover have "td_LastAttemptFingerprint (merge_definition old new) = []
     \<or> validateSHA256Fingerprint (td_LastAttemptFingerprint (merge_definition old new)) = None"
    using merge_fingerprint [of old new] Validate_last_attempt [OF old] Validate_last_attempt [OF new] by auto
  ultimately show ?thesis
    using new by (auto simp: TestDefinition_Validate_def simp del: td_merge(7) split: if_splits option.splits)
qed

lemma merge_seen:
  assumes old: "TestDefinition_Validate lower old = None" and new: "TestDefinition_Validate lower new = None"
    and later: "td_UpdatedAt old \<le> td_UpdatedAt new"
  shows "seen_at_least old (merge_definition old new)"
proof -
  let ?m = "merge_questions (td_Questions old) (td_Questions new)"
  have d: "distinct (map tq_Fingerprint (td_Questions old))" "distinct (map tq_Fingerprint (td_Questions new))"
    using Validate_questions old new by blast+
  have "\<exists>r \<in> snd ` set ?m. tq_Fingerprint r = tq_Fingerprint q
          \<and> tq_FirstSeenAt r \<le> tq_FirstSeenAt q \<and> tq_LastSeenAt q \<le> tq_LastSeenAt r"
    if q: "q \<in> set (td_Questions old)" for q
  proof -
    let ?old = "fold (\<lambda>q m. AList.update (tq_Fingerprint q) q m) (td_Questions old) []"
    have found: "find (\<lambda>p. tq_Fingerprint p = tq_Fingerprint q) (td_Questions old) = Some q"
      by (rule find_distinct [OF d(1) q])
    then have o: "map_of ?old (tq_Fingerprint q) = Some q"
      by (simp add: index_stored_map_of [OF d(1)])
    obtain r where r: "map_of ?m (tq_Fingerprint q) = Some r"
      and "tq_Fingerprint r = tq_Fingerprint q \<and> tq_FirstSeenAt r \<le> tq_FirstSeenAt q \<and> tq_LastSeenAt q \<le> tq_LastSeenAt r"
    proof (cases "find (\<lambda>p. tq_Fingerprint p = tq_Fingerprint q) (td_Questions new)")
      case None
      then show thesis using found that by (simp add: merge_questions_map_of [OF d])
    next
      case (Some p)
      then have p: "tq_Fingerprint p = tq_Fingerprint q" by (auto simp: find_Some_iff)
      then show thesis
        using Some that o by (simp add: merge_questions_map_of [OF d] merge_question_first merge_question_last)
    qed
    then show ?thesis using map_of_SomeD [OF r] by force
  qed
  then show ?thesis using later by (auto simp: seen_at_least_def)
qed

section \<open>Outcomes\<close>

lemma attempt_status: "TestAttempt_Validate a = None \<Longrightarrow> \<not> (\<exists>s. ta_Status a = TestAttemptOther s)"
  by (auto simp: TestAttempt_Validate_def split: if_splits)

lemma attempt_valid_iff:
  "TestAttempt_Validate a = None \<longleftrightarrow>
     ta_Platform a \<noteq> [] \<and> ta_ProfileID a \<noteq> [] \<and> TrimSpace (ta_ExternalID a) \<noteq> [] \<and> ta_TestDefinitionID a \<noteq> []
     \<and> \<not> (\<exists>s. ta_Status a = TestAttemptOther s) \<and> ta_Attempts a \<noteq> 0 \<and> \<not> IsZero (ta_ObservedAt a)
     \<and> ta_ObservedAt a \<le> ta_UpdatedAt a
     \<and> (ta_AttemptFingerprint a = [] \<or> validateSHA256Fingerprint (ta_AttemptFingerprint a) = None)"
  by (cases "ta_Status a") (auto simp: TestAttempt_Validate_def)

lemma merge_attempt_key [simp]: "attempt_key (merge_attempt stored a) = attempt_key a"
  by (simp add: attempt_key_def merge_attempt_def Let_def)

lemma merge_attempt_fields [simp]:
  "ta_Platform (merge_attempt stored a) = ta_Platform a" "ta_ProfileID (merge_attempt stored a) = ta_ProfileID a"
  "ta_ExternalID (merge_attempt stored a) = ta_ExternalID a"
  "ta_TestDefinitionID (merge_attempt stored a) = ta_TestDefinitionID a"
  "ta_Attempts (merge_attempt stored a) = max (ta_Attempts stored) (ta_Attempts a)"
  "ta_UpdatedAt (merge_attempt stored a) = max (ta_UpdatedAt stored) (ta_UpdatedAt a)"
  by (auto simp: merge_attempt_def Let_def max_def)

lemma merge_attempt_outcome:
  "(ta_Status (merge_attempt stored a), ta_AttemptFingerprint (merge_attempt stored a), ta_ObservedAt (merge_attempt stored a)) =
     (if ta_Status stored = TestAttemptPassed
      then (ta_Status stored, ta_AttemptFingerprint stored, ta_ObservedAt stored)
      else (ta_Status a, ta_AttemptFingerprint a, ta_ObservedAt a))"
  by (auto simp: merge_attempt_def Let_def)

text \<open>The merge of two valid outcomes is valid, so the second validation never refuses it.\<close>

lemma merge_attempt_valid:
  assumes "TestAttempt_Validate stored = None" "TestAttempt_Validate a = None"
  shows "TestAttempt_Validate (merge_attempt stored a) = None"
  using assms merge_attempt_outcome [of stored a]
  by (auto simp: attempt_valid_iff max_def split: if_splits)

section \<open>The stores as one machine\<close>

text \<open>One call of a method that changes the stores, with any arguments.\<close>

inductive test_step :: "(string \<Rightarrow> string) \<Rightarrow> TestStore \<Rightarrow> TestStore \<Rightarrow> bool" for lower where
  save_attempt: "test_step lower s (snd (SaveTestAttempt ctx a s))"
| upsert_test: "test_step lower s (snd (UpsertTestDefinition lower ctx d s))"
| create_review: "test_step lower s (snd (CreateReviewSession lower ctx r s))"
| cancel_review: "test_step lower s (snd (CancelReviewSession lower ctx r n s))"
| save_prompt: "test_step lower s (snd (SaveReviewPrompt lower ctx r p n s))"
| append_selection: "test_step lower s (snd (AppendReviewSelection lower ctx r x n s))"

definition empty_TestStore :: TestStore where
  "empty_TestStore = \<lparr>tst_tests = [], tst_reviews = [], tst_prompts = [], tst_selections = [], tst_attempts = []\<rparr>"

inductive test_reachable :: "(string \<Rightarrow> string) \<Rightarrow> TestStore \<Rightarrow> bool" for lower where
  start: "test_reachable lower empty_TestStore"
| step: "test_reachable lower s \<Longrightarrow> test_step lower s s' \<Longrightarrow> test_reachable lower s'"

inductive_cases test_stepE: "test_step lower s s'"

text \<open>What one successful call does, and that a refused call changes nothing.\<close>

lemma SaveTestAttempt_cases:
  "snd (SaveTestAttempt ctx a s) = s \<or>
   (TestAttempt_Validate a = None \<and>
    (\<exists>m. TestAttempt_Validate m = None \<and> snd (SaveTestAttempt ctx a s) = s\<lparr>tst_attempts := AList.update (attempt_key a) m (tst_attempts s)\<rparr>
      \<and> m = (case map_of (tst_attempts s) (attempt_key a) of None \<Rightarrow> a | Some stored \<Rightarrow> merge_attempt stored a)))"
  by (auto simp: SaveTestAttempt_def Let_def split: option.splits)

lemma UpsertTestDefinition_cases:
  "snd (UpsertTestDefinition lower ctx d s) = s \<or>
   (TestDefinition_Validate lower d = None \<and>
    (case map_of (tst_tests s) (td_ID d) of
       None \<Rightarrow> snd (UpsertTestDefinition lower ctx d s) = s\<lparr>tst_tests := AList.update (td_ID d) d (tst_tests s)\<rparr>
     | Some old \<Rightarrow> td_UpdatedAt old \<le> td_UpdatedAt d \<and>
         snd (UpsertTestDefinition lower ctx d s) = s\<lparr>tst_tests := AList.update (td_ID d) (merge_definition old d) (tst_tests s)\<rparr>))"
  by (auto simp: UpsertTestDefinition_def split: option.splits)

lemma CreateReviewSession_cases:
  "snd (CreateReviewSession lower ctx r s) = s \<or>
   (ReviewSession_Validate lower r = None \<and> rs_Revision r = 1 \<and> map_of (tst_reviews s) (rs_ID r) = None \<and>
    snd (CreateReviewSession lower ctx r s) = s\<lparr>tst_reviews := AList.update (rs_ID r) r (tst_reviews s)\<rparr>)"
  by (auto simp: CreateReviewSession_def split: option.splits)

lemma CancelReviewSession_cases:
  "snd (CancelReviewSession lower ctx r n s) = s \<or>
   (ReviewSession_Validate lower r = None \<and> rs_Revision r = n + 1 \<and>
    (\<exists>old. map_of (tst_reviews s) (rs_ID r) = Some old \<and> rs_Revision old = n) \<and>
    snd (CancelReviewSession lower ctx r n s) = s\<lparr>tst_reviews := AList.update (rs_ID r) r (tst_reviews s)\<rparr>)"
  by (auto simp: CancelReviewSession_def split: option.splits)

lemma SaveReviewPrompt_cases:
  "snd (SaveReviewPrompt lower ctx r p n s) = s \<or>
   (ReviewSession_Validate lower r = None \<and> ReviewPrompt_Validate lower p = None \<and> rs_Revision r = n
    \<and> rp_SessionID p = rs_ID r \<and> rp_Revision p = n \<and> map_of (tst_prompts s) (rp_ID p) = None \<and>
    (\<exists>old. map_of (tst_reviews s) (rs_ID r) = Some old \<and> rs_Revision old = n) \<and>
    snd (SaveReviewPrompt lower ctx r p n s) = s\<lparr>tst_prompts := AList.update (rp_ID p) p (tst_prompts s),
       tst_reviews := AList.update (rs_ID r) r (tst_reviews s)\<rparr>)"
  by (auto simp: SaveReviewPrompt_def split: option.splits)

lemma AppendReviewSelection_cases:
  "snd (AppendReviewSelection lower ctx r x n s) = s \<or>
   (ReviewSession_Validate lower r = None \<and> ReviewSelection_Validate x = None \<and> rs_Revision r = n + 1
    \<and> sel_SessionID x = rs_ID r \<and> sel_Revision x = n \<and>
    (\<exists>old. map_of (tst_reviews s) (rs_ID r) = Some old \<and> rs_Revision old = n) \<and>
    (\<exists>p. map_of (tst_prompts s) (sel_PromptID x) = Some p \<and> rp_SessionID p = rs_ID r \<and> rp_Revision p = n) \<and>
    snd (AppendReviewSelection lower ctx r x n s) = s\<lparr>tst_selections := AList.update (rs_ID r)
       (selections_of s (rs_ID r) @ [x]) (tst_selections s), tst_reviews := AList.update (rs_ID r) r (tst_reviews s)\<rparr>)"
  by (auto simp: AppendReviewSelection_def split: option.splits)

section \<open>The invariant\<close>

definition reviews_ok :: "(string \<Rightarrow> string) \<Rightarrow> TestStore \<Rightarrow> bool" where
  "reviews_ok lower s \<longleftrightarrow> (\<forall>i r. map_of (tst_reviews s) i = Some r \<longrightarrow> rs_ID r = i \<and> ReviewSession_Validate lower r = None)
     \<and> (\<forall>i p. map_of (tst_prompts s) i = Some p \<longrightarrow> rp_ID p = i \<and> ReviewPrompt_Validate lower p = None)"

definition answer_of :: "TestStore \<Rightarrow> ReviewSession \<Rightarrow> ReviewSelection \<Rightarrow> bool" where
  "answer_of s r x \<longleftrightarrow> ReviewSelection_Validate x = None \<and> sel_SessionID x = rs_ID r \<and> sel_Revision x < rs_Revision r
     \<and> (\<exists>p. map_of (tst_prompts s) (sel_PromptID x) = Some p \<and> rp_SessionID p = rs_ID r \<and> rp_Revision p = sel_Revision x)"

definition history_ok :: "TestStore \<Rightarrow> ReviewSessionID \<Rightarrow> bool" where
  "history_ok s i \<longleftrightarrow> (case map_of (tst_reviews s) i of None \<Rightarrow> selections_of s i = []
     | Some r \<Rightarrow> (\<forall>x \<in> set (selections_of s i). answer_of s r x)
         \<and> sorted_wrt (\<lambda>x y. sel_Revision x < sel_Revision y) (selections_of s i))"

definition catalog_ok :: "(string \<Rightarrow> string) \<Rightarrow> TestStore \<Rightarrow> bool" where
  "catalog_ok lower s \<longleftrightarrow>
     (\<forall>i d. map_of (tst_tests s) i = Some d \<longrightarrow> td_ID d = i \<and> TestDefinition_Validate lower d = None)
     \<and> (\<forall>k a. map_of (tst_attempts s) k = Some a \<longrightarrow> attempt_key a = k \<and> TestAttempt_Validate a = None)"

definition tests_ok :: "(string \<Rightarrow> string) \<Rightarrow> TestStore \<Rightarrow> bool" where
  "tests_ok lower s \<longleftrightarrow> reviews_ok lower s \<and> catalog_ok lower s \<and> (\<forall>i. history_ok s i)"

lemma session_revision: "ReviewSession_Validate lower r = None \<Longrightarrow> rs_Revision r \<noteq> 0"
  by (auto simp: ReviewSession_Validate_def split: if_splits)


lemma revision_below: "ReviewSession_Validate lower r = None \<Longrightarrow> rs_Revision r = n + 1 \<Longrightarrow> n < rs_Revision r"
  using session_revision revision_grows by metis

lemma answer_of_mono:
  assumes "answer_of s r x" and "rs_ID r' = rs_ID r" "rs_Revision r \<le> rs_Revision r'"
    and "\<And>i p. map_of (tst_prompts s) i = Some p \<Longrightarrow> map_of (tst_prompts s') i = Some p"
  shows "answer_of s' r' x"
  using assms by (fastforce simp: answer_of_def)

text \<open>
  A session replaced by one of the same identity with at least its revision keeps the history, and so
  does a prompt added beside those that are.
\<close>

lemma history_keep:
  assumes h: "history_ok s i"
    and sel: "selections_of s' i = selections_of s i"
    and rev: "\<And>r. map_of (tst_reviews s) i = Some r \<Longrightarrow>
       \<exists>r'. map_of (tst_reviews s') i = Some r' \<and> rs_ID r' = rs_ID r \<and> rs_Revision r \<le> rs_Revision r'"
    and prompts: "\<And>k p. map_of (tst_prompts s) k = Some p \<Longrightarrow> map_of (tst_prompts s') k = Some p"
  shows "history_ok s' i"
proof (cases "map_of (tst_reviews s) i")
  case None
  then show ?thesis using h sel by (auto simp: history_ok_def split: option.splits)
next
  case (Some r)
  then obtain r' where r': "map_of (tst_reviews s') i = Some r'" "rs_ID r' = rs_ID r" "rs_Revision r \<le> rs_Revision r'"
    using rev by blast
  have "\<forall>x \<in> set (selections_of s i). answer_of s' r' x"
    using h Some answer_of_mono [OF _ r'(2,3) prompts] by (auto simp: history_ok_def)
  then show ?thesis using h Some sel r' by (simp add: history_ok_def)
qed

lemma history_append:
  assumes h: "history_ok s i" and r: "map_of (tst_reviews s) i = Some r"
    and r': "map_of (tst_reviews s') i = Some r'" "rs_ID r' = rs_ID r" "rs_Revision r < rs_Revision r'"
    and sel: "selections_of s' i = selections_of s i @ [x]" "sel_Revision x = rs_Revision r"
    and x: "answer_of s' r' x"
    and prompts: "tst_prompts s' = tst_prompts s"
  shows "history_ok s' i"
proof -
  have old: "answer_of s' r' y" "sel_Revision y < sel_Revision x" if "y \<in> set (selections_of s i)" for y
  proof -
    have y: "answer_of s r y" using h r that by (auto simp: history_ok_def)
    show "answer_of s' r' y" by (rule answer_of_mono [OF y r'(2)]) (use r' prompts in auto)
    show "sel_Revision y < sel_Revision x" using y sel(2) by (simp add: answer_of_def)
  qed
  then show ?thesis using h r r' sel x by (auto simp: history_ok_def sorted_wrt_append)
qed

lemma selections_of_same [simp]:
  "selections_of (s\<lparr>tst_reviews := a\<rparr>) i = selections_of s i"
  "selections_of (s\<lparr>tst_prompts := b\<rparr>) i = selections_of s i"
  "selections_of (s\<lparr>tst_tests := c\<rparr>) i = selections_of s i"
  "selections_of (s\<lparr>tst_attempts := d\<rparr>) i = selections_of s i"
  "selections_of (s\<lparr>tst_selections := AList.update k xs (tst_selections s)\<rparr>) i =
     (if i = k then xs else selections_of s i)"
  by (simp_all add: selections_of_def)

lemma history_cong:
  "tst_reviews s' = tst_reviews s \<Longrightarrow> tst_prompts s' = tst_prompts s \<Longrightarrow> tst_selections s' = tst_selections s \<Longrightarrow>
   history_ok s' i = history_ok s i"
  by (simp add: history_ok_def answer_of_def selections_of_def split: option.split)

lemma history_replace:
  assumes ok: "tests_ok lower s" and old: "map_of (tst_reviews s) (rs_ID r) = Some old"
    and rev: "rs_Revision old \<le> rs_Revision r"
    and r: "tst_reviews s' = AList.update (rs_ID r) r (tst_reviews s)"
    and sel: "selections_of s' i = selections_of s i"
    and prompts: "\<And>k p. map_of (tst_prompts s) k = Some p \<Longrightarrow> map_of (tst_prompts s') k = Some p"
  shows "history_ok s' i"
proof (rule history_keep [OF _ sel _ prompts])
  show "history_ok s i" using ok by (simp add: tests_ok_def)
  have "rs_ID old = rs_ID r" using ok old by (simp add: tests_ok_def reviews_ok_def)
  then show "\<exists>r'. map_of (tst_reviews s') i = Some r' \<and> rs_ID r' = rs_ID q \<and> rs_Revision q \<le> rs_Revision r'"
    if "map_of (tst_reviews s) i = Some q" for q
    using that old rev by (cases "i = rs_ID r") (simp_all add: r)
qed

lemma tests_ok_parts:
  "tests_ok lower s \<Longrightarrow> history_ok s i"
  "tests_ok lower s \<Longrightarrow> map_of (tst_reviews s) i = Some r \<Longrightarrow> rs_ID r = i \<and> ReviewSession_Validate lower r = None"
  "tests_ok lower s \<Longrightarrow> map_of (tst_prompts s) j = Some p \<Longrightarrow> rp_ID p = j \<and> ReviewPrompt_Validate lower p = None"
  "tests_ok lower s \<Longrightarrow> map_of (tst_tests s) k = Some d \<Longrightarrow> td_ID d = k \<and> TestDefinition_Validate lower d = None"
  "tests_ok lower s \<Longrightarrow> map_of (tst_attempts s) l = Some a \<Longrightarrow> attempt_key a = l \<and> TestAttempt_Validate a = None"
  unfolding tests_ok_def reviews_ok_def catalog_ok_def by blast+

lemma tests_okI:
  assumes "\<And>i. history_ok s i"
    and "\<And>i r. map_of (tst_reviews s) i = Some r \<Longrightarrow> rs_ID r = i \<and> ReviewSession_Validate lower r = None"
    and "\<And>j p. map_of (tst_prompts s) j = Some p \<Longrightarrow> rp_ID p = j \<and> ReviewPrompt_Validate lower p = None"
    and "\<And>k d. map_of (tst_tests s) k = Some d \<Longrightarrow> td_ID d = k \<and> TestDefinition_Validate lower d = None"
    and "\<And>l a. map_of (tst_attempts s) l = Some a \<Longrightarrow> attempt_key a = l \<and> TestAttempt_Validate a = None"
  shows "tests_ok lower s"
  unfolding tests_ok_def reviews_ok_def catalog_ok_def using assms by blast

lemma empty_tests_ok: "tests_ok lower empty_TestStore"
  by (simp add: tests_ok_def reviews_ok_def catalog_ok_def history_ok_def selections_of_def empty_TestStore_def)

lemma save_attempt_keeps:
  assumes ok: "tests_ok lower s" shows "tests_ok lower (snd (SaveTestAttempt ctx a s))"
  using SaveTestAttempt_cases [of ctx a s]
proof (elim disjE conjE exE)
  assume "snd (SaveTestAttempt ctx a s) = s"
  then show ?thesis using ok by simp
next
  fix m
  assume m: "TestAttempt_Validate m = None"
    and s: "snd (SaveTestAttempt ctx a s) = s\<lparr>tst_attempts := AList.update (attempt_key a) m (tst_attempts s)\<rparr>"
    and merged: "m = (case map_of (tst_attempts s) (attempt_key a) of None \<Rightarrow> a | Some stored \<Rightarrow> merge_attempt stored a)"
  have k: "attempt_key m = attempt_key a" using merged by (simp split: option.splits)
  show ?thesis unfolding s
  proof (rule tests_okI)
    show "history_ok (s\<lparr>tst_attempts := AList.update (attempt_key a) m (tst_attempts s)\<rparr>) i" for i
      using tests_ok_parts(1) [OF ok] history_cong [of "s\<lparr>tst_attempts := AList.update (attempt_key a) m (tst_attempts s)\<rparr>" s i]
      by simp
  qed (use tests_ok_parts(2-5) [OF ok] m k in \<open>simp_all split: if_splits\<close>)
qed

lemma put_test:
  assumes ok: "tests_ok lower s" and x: "TestDefinition_Validate lower x = None"
  shows "tests_ok lower (s\<lparr>tst_tests := AList.update (td_ID x) x (tst_tests s)\<rparr>)"
proof (rule tests_okI)
  show "history_ok (s\<lparr>tst_tests := AList.update (td_ID x) x (tst_tests s)\<rparr>) i" for i
    using tests_ok_parts(1) [OF ok] history_cong [of "s\<lparr>tst_tests := AList.update (td_ID x) x (tst_tests s)\<rparr>" s i]
    by simp
qed (use tests_ok_parts(2-5) [OF ok] x in \<open>simp_all split: if_splits\<close>)

lemma upsert_keeps:
  assumes ok: "tests_ok lower s" shows "tests_ok lower (snd (UpsertTestDefinition lower ctx d s))"
proof (cases "map_of (tst_tests s) (td_ID d)")
  case None
  then show ?thesis using UpsertTestDefinition_cases [of lower ctx d s] ok put_test [OF ok, of d] by auto
next
  case (Some x)
  have "TestDefinition_Validate lower d = None \<Longrightarrow>
      tests_ok lower (s\<lparr>tst_tests := AList.update (td_ID d) (merge_definition x d) (tst_tests s)\<rparr>)"
    using put_test [OF ok, of "merge_definition x d"] merge_valid tests_ok_parts(4) [OF ok Some] by auto
  then show ?thesis using UpsertTestDefinition_cases [of lower ctx d s] Some ok by auto
qed

lemma create_review_keeps:
  assumes ok: "tests_ok lower s" shows "tests_ok lower (snd (CreateReviewSession lower ctx r s))"
  using CreateReviewSession_cases [of lower ctx r s]
proof (elim disjE conjE)
  assume "snd (CreateReviewSession lower ctx r s) = s"
  then show ?thesis using ok by simp
next
  let ?s = "s\<lparr>tst_reviews := AList.update (rs_ID r) r (tst_reviews s)\<rparr>"
  assume r: "ReviewSession_Validate lower r = None" "map_of (tst_reviews s) (rs_ID r) = None"
    and s: "snd (CreateReviewSession lower ctx r s) = ?s"
  show ?thesis unfolding s
  proof (rule tests_okI)
    fix i
    show "history_ok ?s i"
    proof (cases "i = rs_ID r")
      case True
      have "history_ok s (rs_ID r)" by (rule tests_ok_parts(1) [OF ok])
      then have "selections_of s (rs_ID r) = []" using r by (simp add: history_ok_def)
      then show ?thesis using True by (simp add: history_ok_def)
    next
      case False
      then show ?thesis using history_keep [OF tests_ok_parts(1) [OF ok], of ?s i] by simp
    qed
  qed (use tests_ok_parts(2-5) [OF ok] r in \<open>simp_all split: if_splits\<close>)
qed

lemma cancel_keeps:
  assumes ok: "tests_ok lower s" shows "tests_ok lower (snd (CancelReviewSession lower ctx r n s))"
  using CancelReviewSession_cases [of lower ctx r n s]
proof (elim disjE conjE exE)
  assume "snd (CancelReviewSession lower ctx r n s) = s"
  then show ?thesis using ok by simp
next
  let ?s = "s\<lparr>tst_reviews := AList.update (rs_ID r) r (tst_reviews s)\<rparr>"
  fix old
  assume r: "ReviewSession_Validate lower r = None" "rs_Revision r = n + 1"
    and old: "map_of (tst_reviews s) (rs_ID r) = Some old" "rs_Revision old = n"
    and s: "snd (CancelReviewSession lower ctx r n s) = ?s"
  show ?thesis unfolding s
  proof (rule tests_okI)
    show "history_ok ?s i" for i
      by (rule history_replace [OF ok old(1)]) (use revision_below [OF r] old(2) in simp_all)
  qed (use tests_ok_parts(2-5) [OF ok] r in \<open>simp_all split: if_splits\<close>)
qed

lemma prompt_keeps:
  assumes ok: "tests_ok lower s" shows "tests_ok lower (snd (SaveReviewPrompt lower ctx r p n s))"
  using SaveReviewPrompt_cases [of lower ctx r p n s]
proof (elim disjE conjE exE)
  assume "snd (SaveReviewPrompt lower ctx r p n s) = s"
  then show ?thesis using ok by simp
next
  let ?s = "s\<lparr>tst_prompts := AList.update (rp_ID p) p (tst_prompts s),
       tst_reviews := AList.update (rs_ID r) r (tst_reviews s)\<rparr>"
  fix old
  assume r: "ReviewSession_Validate lower r = None" "rs_Revision r = n"
    and p: "ReviewPrompt_Validate lower p = None" "map_of (tst_prompts s) (rp_ID p) = None"
    and old: "map_of (tst_reviews s) (rs_ID r) = Some old" "rs_Revision old = n"
    and s: "snd (SaveReviewPrompt lower ctx r p n s) = ?s"
  show ?thesis unfolding s
  proof (rule tests_okI)
    show "history_ok ?s i" for i
      by (rule history_replace [OF ok old(1)]) (use r p old(2) in auto)
  qed (use tests_ok_parts(2-5) [OF ok] r p in \<open>simp_all split: if_splits\<close>)
qed

lemma selection_keeps:
  assumes ok: "tests_ok lower s" shows "tests_ok lower (snd (AppendReviewSelection lower ctx r x n s))"
  using AppendReviewSelection_cases [of lower ctx r x n s]
proof (elim disjE conjE exE)
  assume "snd (AppendReviewSelection lower ctx r x n s) = s"
  then show ?thesis using ok by simp
next
  let ?s = "s\<lparr>tst_selections := AList.update (rs_ID r) (selections_of s (rs_ID r) @ [x]) (tst_selections s),
       tst_reviews := AList.update (rs_ID r) r (tst_reviews s)\<rparr>"
  fix old p
  assume r: "ReviewSession_Validate lower r = None" "rs_Revision r = n + 1"
    and x: "ReviewSelection_Validate x = None" "sel_SessionID x = rs_ID r" "sel_Revision x = n"
    and old: "map_of (tst_reviews s) (rs_ID r) = Some old" "rs_Revision old = n"
    and p: "map_of (tst_prompts s) (sel_PromptID x) = Some p" "rp_SessionID p = rs_ID r" "rp_Revision p = n"
    and s: "snd (AppendReviewSelection lower ctx r x n s) = ?s"
  have less: "n < rs_Revision r" by (rule revision_below [OF r])
  have sel: "selections_of ?s i = (if i = rs_ID r then selections_of s (rs_ID r) @ [x] else selections_of s i)" for i
    by (simp add: selections_of_def)
  have new: "answer_of ?s r x" using x p less by (simp add: answer_of_def)
  show ?thesis unfolding s
  proof (rule tests_okI)
    fix i
    show "history_ok ?s i"
    proof (cases "i = rs_ID r")
      case True
      have "rs_ID r = rs_ID old" using tests_ok_parts(2) [OF ok old(1)] by simp
      then show ?thesis
        using history_append [OF tests_ok_parts(1) [OF ok] old(1), of ?s r x] new less sel [of i] True x(3) old(2)
        by simp
    next
      case False
      show ?thesis by (rule history_keep [OF tests_ok_parts(1) [OF ok]]) (use sel [of i] False in simp_all)
    qed
  qed (use tests_ok_parts(2-5) [OF ok] r in \<open>simp_all split: if_splits\<close>)
qed

lemma test_step_keeps: "test_step lower s s' \<Longrightarrow> tests_ok lower s \<Longrightarrow> tests_ok lower s'"
  by (elim test_stepE)
    (simp_all add: save_attempt_keeps upsert_keeps create_review_keeps cancel_keeps prompt_keeps selection_keeps)

lemma reachable_tests_ok: "test_reachable lower s \<Longrightarrow> tests_ok lower s"
  by (induction rule: test_reachable.induct) (auto intro: empty_tests_ok test_step_keeps)

end
