(* ===== verification/Questionnaire_Props.thy ===== *)
theory Questionnaire_Props
  imports AnswerBlocks
begin

text \<open>
  What the resolution of questionnaires promises: the strict and the lenient way give the same answers,
  each answer takes the question at its place and options of that question only, the fingerprint of an
  attempt does not depend on orders or on runtime ids, and a merge of blocks is an update of a map.
\<close>

section \<open>Fingerprints\<close>

lemma validate_questions_all:
  "validate_questions lower seen qs = None \<Longrightarrow> q \<in> set qs \<Longrightarrow> validateQuestion lower q = None"
  by (induction lower seen qs rule: validate_questions.induct) (auto simp: Let_def split: option.splits if_splits)

lemma validateQuestionnaire_all:
  "validateQuestionnaire lower qn = None \<Longrightarrow> q \<in> set (qn_Questions qn) \<Longrightarrow> validateQuestion lower q = None"
  by (auto simp: validateQuestionnaire_def dest: validate_questions_all split: if_splits)

definition signature_hash :: "(string \<Rightarrow> string) \<Rightarrow> Question \<Rightarrow> string" where
  "signature_hash lower q = hex_EncodeToString (sha256_Sum256 (question_signature lower q))"

lemma question_fingerprints_valid:
  "\<forall>q \<in> set qs. validateQuestion lower q = None \<Longrightarrow> question_fingerprints lower qs = Inr (map (signature_hash lower) qs)"
  by (induction qs) (simp_all add: QuestionFingerprint_def signature_hash_def)

lemma QuestionFingerprint_hash: "QuestionFingerprint lower q = Inr f \<Longrightarrow> f = signature_hash lower q"
  by (simp add: QuestionFingerprint_def signature_hash_def split: option.splits)

text \<open>What of a question its fingerprint covers; the runtime ids are not in it, nor is the order of the options.\<close>

definition question_content :: "(string \<Rightarrow> string) \<Rightarrow> Question \<Rightarrow> QuestionKind \<times> string \<times> string multiset" where
  "question_content lower q = (qu_Kind q, NormalizeQuestionText lower (qu_Text q),
     mset (map (\<lambda>option. NormalizeQuestionText lower (qo_Text option)) (qu_Options q)))"

lemma signature_content: "question_content lower p = question_content lower q \<Longrightarrow> signature_hash lower p = signature_hash lower q"
proof -
  assume a: "question_content lower p = question_content lower q"
  then have "sort (map (\<lambda>option. NormalizeQuestionText lower (qo_Text option)) (qu_Options p))
      = sort (map (\<lambda>option. NormalizeQuestionText lower (qo_Text option)) (qu_Options q))"
    by (intro properties_for_sort) (simp_all add: question_content_def)
  then show ?thesis using a by (simp add: question_content_def signature_hash_def question_signature_def)
qed

lemma hashes_content:
  assumes "mset (map (question_content lower) ps) = mset (map (question_content lower) qs)"
  shows "mset (map (signature_hash lower) ps) = mset (map (signature_hash lower) qs)"
proof -
  let ?h = "\<lambda>c. signature_hash lower (SOME q. question_content lower q = c)"
  have h: "?h (question_content lower q) = signature_hash lower q" for q
    by (rule signature_content) (rule someI, rule refl)
  have "image_mset ?h (mset (map (question_content lower) ps)) = image_mset ?h (mset (map (question_content lower) qs))"
    using assms by simp
  then show ?thesis by (simp add: image_mset.compositionality comp_def h)
qed

lemma attempt_digest_perm: "mset ms = mset ns \<Longrightarrow> attempt_digest ms = attempt_digest ns"
  unfolding attempt_digest_def by (metis properties_for_sort sorted_sort mset_sort)

lemma ObservedAttempt_valid:
  "validateQuestionnaire lower p = None \<Longrightarrow>
   ObservedAttemptFingerprint lower p = Inr (attempt_digest (map (signature_hash lower) (qn_Questions p)))"
  using validateQuestionnaire_all by (simp add: ObservedAttemptFingerprint_def question_fingerprints_valid)

section \<open>Resolution\<close>

lemma index_answers_map:
  "index_answers lower stored answers = Inr m \<Longrightarrow>
   map_of m = map_of stored ++ map_of (map (\<lambda>a. (NormalizeQuestionText lower (sa_Question a), a)) answers)
   \<and> (\<forall>a \<in> set answers. map_of stored (NormalizeQuestionText lower (sa_Question a)) = None)
   \<and> distinct (map (\<lambda>a. NormalizeQuestionText lower (sa_Question a)) answers)"
proof (induction lower stored answers arbitrary: m rule: index_answers.induct)
  case (1 lower stored)
  then show ?case by simp
next
  case (2 lower stored a rest)
  let ?k = "NormalizeQuestionText lower (sa_Question a)"
  have a: "?k \<noteq> []" "map_of stored ?k = None" and rest: "index_answers lower (stored @ [(?k, a)]) rest = Inr m"
    using "2.prems" by (simp_all add: Let_def split: if_splits)
  have ih: "map_of m = map_of (stored @ [(?k, a)]) ++ map_of (map (\<lambda>a. (NormalizeQuestionText lower (sa_Question a), a)) rest)
     \<and> (\<forall>x \<in> set rest. map_of (stored @ [(?k, a)]) (NormalizeQuestionText lower (sa_Question x)) = None)
     \<and> distinct (map (\<lambda>a. NormalizeQuestionText lower (sa_Question a)) rest)"
    using "2.IH" [OF refl a(1) _ rest] a by simp
  have no: "?k \<notin> (\<lambda>x. NormalizeQuestionText lower (sa_Question x)) ` set rest"
    using ih by (auto simp: map_add_def split: option.splits)
  then have none: "map_of (map (\<lambda>a. (NormalizeQuestionText lower (sa_Question a), a)) rest) ?k = None"
    by (force simp: map_of_eq_None_iff)
  have "map_of m = map_of stored ++ map_of (map (\<lambda>a. (NormalizeQuestionText lower (sa_Question a), a)) (a # rest))"
    using ih none a(2) by (auto simp: fun_eq_iff map_add_def split: option.splits)
  then show ?case using ih a no by (auto simp: map_add_def split: option.splits)
qed

lemma answers_by_text_map:
  "map_of (answers_by_text lower answers) =
     foldl (\<lambda>f a. f(NormalizeQuestionText lower (sa_Question a) \<mapsto> a)) Map.empty answers"
proof -
  have "map_of (fold (\<lambda>answer m. AList.update (NormalizeQuestionText lower (sa_Question answer)) answer m) answers m)
      = foldl (\<lambda>f a. f(NormalizeQuestionText lower (sa_Question a) \<mapsto> a)) (map_of m) answers" for m
    by (induction answers arbitrary: m) (simp_all add: update_conv')
  from this [of "[]"] show ?thesis by (simp add: answers_by_text_def)
qed

lemma foldl_map_of:
  "distinct (map k xs) \<Longrightarrow> foldl (\<lambda>f a. f(k a \<mapsto> a)) f xs = f ++ map_of (map (\<lambda>a. (k a, a)) xs)"
proof (induction xs arbitrary: f)
  case (Cons x xs)
  have "map_of (map (\<lambda>a. (k a, a)) xs) (k x) = None"
    using Cons.prems by (force simp: map_of_eq_None_iff)
  then show ?case using Cons by (auto simp: fun_eq_iff map_add_def split: option.splits)
qed simp

lemma index_by_text:
  "index_answers lower [] answers = Inr m \<Longrightarrow> map_of (answers_by_text lower answers) = map_of m"
  using index_answers_map [of lower "[]" answers m] by (simp add: answers_by_text_map foldl_map_of)

lemma resolve_questions_uncovered:
  "resolve_questions lower stored qs = Inr answers \<Longrightarrow> uncovered lower stored qs = Inr []"
  by (induction lower stored qs arbitrary: answers rule: resolve_questions.induct)
    (auto split: option.splits sum.splits if_splits)

lemma resolve_questions_all:
  "resolve_questions lower stored qs = Inr answers \<Longrightarrow> map_of m = map_of stored \<Longrightarrow> resolve_all lower m qs = Inr answers"
  by (induction lower stored qs arbitrary: answers rule: resolve_questions.induct)
    (auto simp: ResolveStoredAnswer_def split: option.splits sum.splits if_splits)

text \<open>An answer that fits a question: its id, and options of its own or a text.\<close>

definition answers_question :: "Question \<Rightarrow> ResolvedAnswer \<Rightarrow> bool" where
  "answers_question q a \<longleftrightarrow> ra_QuestionID a = qu_ID q \<and>
     (case qu_Kind q of
        QuestionSingle \<Rightarrow> ra_Text a = [] \<and> (\<exists>i. ra_SelectedOptionIDs a = [i] \<and> i \<in> qo_ID ` set (qu_Options q))
      | QuestionMultiple \<Rightarrow> ra_Text a = [] \<and> ra_SelectedOptionIDs a \<noteq> [] \<and> set (ra_SelectedOptionIDs a) \<subseteq> qo_ID ` set (qu_Options q)
      | QuestionText \<Rightarrow> ra_SelectedOptionIDs a = [] \<and> ra_Text a \<noteq> []
      | _ \<Rightarrow> False)"

lemma index_options_ids:
  "index_options lower q indexed options = Inr m \<Longrightarrow> snd ` set m \<subseteq> snd ` set indexed \<union> qo_ID ` set options"
proof (induction lower q indexed options arbitrary: m rule: index_options.induct)
  case (2 lower q indexed option rest)
  let ?k = "NormalizeQuestionText lower (qo_Text option)"
  have none: "\<not> map_of indexed ?k \<noteq> None" and m: "index_options lower q (indexed @ [(?k, qo_ID option)]) rest = Inr m"
    using "2.prems" by (auto simp: Let_def split: if_splits)
  show ?case using "2.IH" [OF refl none m] by auto
qed simp

lemma select_options_ids:
  "select_options lower q m seen selected = Inr ids \<Longrightarrow> length ids = length selected \<and> set ids \<subseteq> snd ` set m"
proof (induction lower q m seen selected arbitrary: ids rule: select_options.induct)
  case (2 lower q m seen s rest)
  let ?k = "NormalizeQuestionText lower s"
  obtain i js where i: "map_of m ?k = Some i" "?k \<notin> set seen" and js: "select_options lower q m (?k # seen) rest = Inr js"
    and ids: "ids = i # js"
    using "2.prems" by (auto simp: Let_def split: if_splits option.splits sum.splits)
  have "i \<in> snd ` set m" using map_of_SomeD [OF i(1)] by force
  then show ?case using "2.IH" [OF refl i(2,1) js] ids by simp
qed simp

lemma resolveOptions_ids:
  "resolveOptions lower q selected = Inr ids \<Longrightarrow> length ids = length selected \<and> set ids \<subseteq> qo_ID ` set (qu_Options q)"
proof -
  assume "resolveOptions lower q selected = Inr ids"
  then obtain m where m: "index_options lower (qu_Text q) [] (qu_Options q) = Inr m"
    and ids: "select_options lower (qu_Text q) m [] selected = Inr ids"
    by (auto simp: resolveOptions_def split: sum.splits)
  show ?thesis using index_options_ids [OF m] select_options_ids [OF ids] by auto
qed

lemma resolveStoredAnswer_fits: "resolveStoredAnswer lower q a = Inr r \<Longrightarrow> answers_question q r"
  by (cases "qu_Kind q")
    (auto simp: resolveStoredAnswer_def answers_question_def Let_def length_Suc_conv
       dest!: resolveOptions_ids split: if_splits sum.splits)

lemma resolve_questions_fit:
  "resolve_questions lower stored qs = Inr answers \<Longrightarrow> list_all2 answers_question qs answers"
  by (induction lower stored qs arbitrary: answers rule: resolve_questions.induct)
    (auto dest: resolveStoredAnswer_fits split: option.splits sum.splits if_splits)

lemma ResolveAnswerBlock_parts:
  assumes "ResolveAnswerBlock lower qn block = Inr plan"
  obtains stored where "ValidateAnswerBlock lower block = None"
    and "index_answers lower [] (ab_Answers block) = Inr stored"
    and "resolve_questions lower stored (qn_Questions qn) = Inr (apl_Answers plan)"
    and "QuestionnaireFingerprint lower qn = Inr (apl_AttemptFingerprint plan)"
  using assms by (auto simp: ResolveAnswerBlock_def Let_def split: sum.splits option.splits if_splits prod.splits)

section \<open>Merged blocks\<close>

definition by_text :: "(string \<Rightarrow> string) \<Rightarrow> StoredAnswer list \<Rightarrow> string \<rightharpoonup> StoredAnswer" where
  "by_text lower answers = map_of (map (\<lambda>a. (NormalizeQuestionText lower (sa_Question a), a)) answers)"

definition texts_of :: "(string \<Rightarrow> string) \<Rightarrow> StoredAnswer list \<Rightarrow> string list" where
  "texts_of lower answers = map (\<lambda>a. NormalizeQuestionText lower (sa_Question a)) answers"

definition positions :: "(string \<Rightarrow> string) \<Rightarrow> (string \<times> nat) list \<Rightarrow> StoredAnswer list \<Rightarrow> bool" where
  "positions lower index answers \<longleftrightarrow> distinct (texts_of lower answers)
     \<and> (\<forall>k p. map_of index k = Some p \<longleftrightarrow> p < length answers \<and> texts_of lower answers ! p = k)"

lemma length_texts_of [simp]: "length (texts_of lower answers) = length answers"
  by (simp add: texts_of_def)

lemma texts_of_simps [simp]:
  "texts_of lower [] = []" "texts_of lower (xs @ ys) = texts_of lower xs @ texts_of lower ys"
  "texts_of lower (a # xs) = NormalizeQuestionText lower (sa_Question a) # texts_of lower xs"
  by (simp_all add: texts_of_def)

lemma positions_Nil: "positions lower [] []"
  by (simp add: positions_def)

lemma positions_snoc:
  assumes "positions lower index answers" and "NormalizeQuestionText lower (sa_Question a) \<notin> set (texts_of lower answers)"
  shows "positions lower (AList.update (NormalizeQuestionText lower (sa_Question a)) (length answers) index) (answers @ [a])"
  using assms by (auto simp: positions_def update_conv' nth_append less_Suc_eq in_set_conv_nth)

lemma positions_index:
  "positions lower index seen \<Longrightarrow> distinct (texts_of lower (seen @ rest)) \<Longrightarrow>
   positions lower (index_positions lower (length seen) index rest) (seen @ rest)"
proof (induction rest arbitrary: index seen)
  case (Cons a rest)
  have p: "positions lower (AList.update (NormalizeQuestionText lower (sa_Question a)) (length seen) index) (seen @ [a])"
    using Cons.prems by (intro positions_snoc) auto
  show ?case using Cons.IH [OF p] Cons.prems by simp
qed simp

lemma positions_None:
  "positions lower index answers \<Longrightarrow> map_of index k = None \<longleftrightarrow> k \<notin> set (texts_of lower answers)"
proof -
  assume "positions lower index answers"
  then have iff: "map_of index k = Some p \<longleftrightarrow> p < length answers \<and> texts_of lower answers ! p = k" for p
    by (simp add: positions_def)
  have "(\<exists>p. map_of index k = Some p) \<longleftrightarrow> k \<in> set (texts_of lower answers)"
    unfolding iff by (simp add: in_set_conv_nth)
  then show ?thesis by (cases "map_of index k") auto
qed

lemma by_text_replace:
  "distinct (texts_of lower answers) \<Longrightarrow> p < length answers \<Longrightarrow>
   texts_of lower answers ! p = NormalizeQuestionText lower (sa_Question a) \<Longrightarrow>
   by_text lower (answers[p := a]) = (by_text lower answers)(NormalizeQuestionText lower (sa_Question a) \<mapsto> a)"
proof (induction answers arbitrary: p)
  case (Cons x xs)
  show ?case
  proof (cases p)
    case 0
    then show ?thesis using Cons.prems by (auto simp: by_text_def)
  next
    case (Suc j)
    then have "NormalizeQuestionText lower (sa_Question a) \<in> set (texts_of lower xs)"
      using Cons.prems by (metis Suc_less_eq length_Cons length_texts_of nth_Cons_Suc nth_mem texts_of_simps(3))
    then have "NormalizeQuestionText lower (sa_Question a) \<noteq> NormalizeQuestionText lower (sa_Question x)"
      using Cons.prems(1) by auto
    then show ?thesis using Suc Cons by (auto simp: by_text_def fun_eq_iff)
  qed
qed simp

lemma texts_of_replace:
  "p < length answers \<Longrightarrow> texts_of lower answers ! p = NormalizeQuestionText lower (sa_Question a) \<Longrightarrow>
   texts_of lower (answers[p := a]) = texts_of lower answers"
  by (simp add: texts_of_def map_update list_update_same_conv)

lemma by_text_snoc:
  "NormalizeQuestionText lower (sa_Question a) \<notin> set (texts_of lower answers) \<Longrightarrow>
   by_text lower (answers @ [a]) = (by_text lower answers)(NormalizeQuestionText lower (sa_Question a) \<mapsto> a)"
  by (induction answers) (auto simp: by_text_def fun_eq_iff)

lemma merge_latest_map:
  "positions lower index answers \<Longrightarrow>
   distinct (texts_of lower (merge_latest lower index answers latest))
   \<and> by_text lower (merge_latest lower index answers latest)
       = foldl (\<lambda>f a. f(NormalizeQuestionText lower (sa_Question a) \<mapsto> a)) (by_text lower answers) latest
   \<and> (\<exists>added. texts_of lower (merge_latest lower index answers latest) = texts_of lower answers @ added)"
proof (induction latest arbitrary: index answers)
  case Nil
  then show ?case by (simp add: positions_def)
next
  case (Cons a latest)
  let ?k = "NormalizeQuestionText lower (sa_Question a)"
  show ?case
  proof (cases "map_of index ?k")
    case None
    then have new: "?k \<notin> set (texts_of lower answers)" using positions_None [OF Cons.prems] by simp
    show ?thesis
      using Cons.IH [OF positions_snoc [OF Cons.prems new]] None by (auto simp: Let_def by_text_snoc [OF new])
  next
    case (Some p)
    then have p: "p < length answers" "texts_of lower answers ! p = ?k" and d: "distinct (texts_of lower answers)"
      using Cons.prems by (auto simp: positions_def)
    have "positions lower index (answers[p := a])"
      using Cons.prems texts_of_replace [OF p] by (simp add: positions_def)
    then show ?thesis
      using Cons.IH [of index "answers[p := a]"] Some texts_of_replace [OF p] by_text_replace [OF d p]
      by (auto simp: Let_def)
  qed
qed


section \<open>The properties\<close>

text \<open>
  C32. What the strict resolution accepts, the lenient one resolves in the same way: the answers come in the
  order of the questions, each under the id of its question, a choice with options of that question
  only, and a text with text only.
\<close>

theorem strict_resolution:
  assumes "ResolveAnswerBlock lower questionnaire block = Inr plan"
  shows "ResolveBlockAnswers lower questionnaire block = Inr (apl_Answers plan)
    \<and> list_all2 answers_question (qn_Questions questionnaire) (apl_Answers plan)"
proof -
  obtain stored where v: "ValidateAnswerBlock lower block = None"
    and i: "index_answers lower [] (ab_Answers block) = Inr stored"
    and r: "resolve_questions lower stored (qn_Questions questionnaire) = Inr (apl_Answers plan)"
    using assms by (rule ResolveAnswerBlock_parts)
  have "UncoveredQuestions lower questionnaire block = Inr []"
    using v i resolve_questions_uncovered [OF r] by (simp add: UncoveredQuestions_def)
  then have "ResolveBlockAnswers lower questionnaire block = Inr (apl_Answers plan)"
    using resolve_questions_all [OF r index_by_text [OF i]] by (simp add: ResolveBlockAnswers_def)
  then show ?thesis using resolve_questions_fit [OF r] by simp
qed

text \<open>
  Two observations of a questionnaire with the same questions have the same fingerprint, whatever the
  order of the questions and of their options and whatever ids the platform gave them in this run.
\<close>

theorem attempt_fingerprint_content:
  assumes "validateQuestionnaire lower p = None" and "validateQuestionnaire lower q = None"
    and "mset (map (question_content lower) (qn_Questions p)) = mset (map (question_content lower) (qn_Questions q))"
  shows "ObservedAttemptFingerprint lower p = ObservedAttemptFingerprint lower q
    \<and> (\<exists>f. ObservedAttemptFingerprint lower p = Inr f)"
  using assms by (simp add: ObservedAttempt_valid attempt_digest_perm [OF hashes_content [OF assms(3)]])

text \<open>
  C33. Where a text stands once in each block, the merge is the update of a map from texts to answers: the
  later block wins, nothing else of the base is lost, its answers keep their places and the tag, the
  name and the kind stay those of the base.
\<close>

theorem merge_is_update:
  assumes "distinct (texts_of lower (ab_Answers base))" and "distinct (texts_of lower (ab_Answers latest))"
    and "MergeAnswerBlocks lower base latest = Inr merged"
  shows "by_text lower (ab_Answers merged) = by_text lower (ab_Answers base) ++ by_text lower (ab_Answers latest)
    \<and> distinct (texts_of lower (ab_Answers merged))
    \<and> take (length (ab_Answers base)) (texts_of lower (ab_Answers merged)) = texts_of lower (ab_Answers base)
    \<and> ab_Tag merged = ab_Tag base \<and> ab_Name merged = ab_Name base \<and> ab_Kind merged = ab_Kind base"
proof -
  let ?i = "index_positions lower 0 [] (ab_Answers base)"
  have m: "merged = base\<lparr>ab_Answers := merge_latest lower ?i (ab_Answers base) (ab_Answers latest)\<rparr>"
    using assms(3) by (auto simp: MergeAnswerBlocks_def split: option.splits if_splits)
  have "positions lower ?i (ab_Answers base)"
    using positions_index [OF positions_Nil, of lower "ab_Answers base"] assms(1) by simp
  from merge_latest_map [OF this, of "ab_Answers latest"] show ?thesis
    using foldl_map_of [OF assms(2) [unfolded texts_of_def], of "by_text lower (ab_Answers base)"]
    by (auto simp: m by_text_def)
qed

section \<open>Samples\<close>

definition sample_choice :: Question where
  "sample_choice = \<lparr>qu_ID = ''q1'', qu_Text = ''Level?'', qu_Kind = QuestionSingle,
     qu_Options = [\<lparr>qo_ID = ''a'', qo_Text = ''low''\<rparr>, \<lparr>qo_ID = ''b'', qo_Text = ''high''\<rparr>]\<rparr>"

definition sample_free :: Question where
  "sample_free = \<lparr>qu_ID = ''q2'', qu_Text = ''City?'', qu_Kind = QuestionText, qu_Options = []\<rparr>"

definition sample_questionnaire :: Questionnaire where
  "sample_questionnaire = \<lparr>qn_Title = ''t'', qn_Questions = [sample_choice, sample_free]\<rparr>"

definition sample_turned :: Questionnaire where
  "sample_turned = \<lparr>qn_Title = ''u'', qn_Questions = [sample_free\<lparr>qu_ID := ''x''\<rparr>,
     sample_choice\<lparr>qu_Options := [\<lparr>qo_ID = ''8'', qo_Text = ''high''\<rparr>, \<lparr>qo_ID = ''9'', qo_Text = ''low''\<rparr>]\<rparr>]\<rparr>"

definition stored_answer :: "string \<Rightarrow> string list \<Rightarrow> string \<Rightarrow> StoredAnswer" where
  "stored_answer q selected t = \<lparr>sa_Question = q, sa_QuestionFingerprint = [], sa_SelectedOptions = selected, sa_Text = t,
     sa_Provenance = None\<rparr>"

definition vacancy_block :: "StoredAnswer list \<Rightarrow> AnswerBlock" where
  "vacancy_block answers = \<lparr>ab_Tag = ''b'', ab_Name = ''B'', ab_Kind = AnswerBlockVacancy, ab_Platform = ''hh'',
     ab_Qualification = None, ab_Match = \<lparr>abm_Fingerprint = [], abm_Topic = []\<rparr>, ab_Answers = answers\<rparr>"

definition sample_block :: AnswerBlock where
  "sample_block = vacancy_block [stored_answer ''City?'' [] ''Kazan'', stored_answer ''Level?'' [''high''] []]"

lemma sample_questionnaire_valid:
  "validateQuestionnaire (\<lambda>s. s) sample_questionnaire = None" "validateQuestionnaire (\<lambda>s. s) sample_turned = None"
  by code_simp+

lemma sample_resolved:
  "ResolveAnswerBlock (\<lambda>s. s) sample_questionnaire sample_block = Inr
     \<lparr>apl_AnswerBlockTag = ''b'', apl_AnswerBlockName = ''B'',
      apl_AttemptFingerprint = attempt_digest (map (signature_hash (\<lambda>s. s)) [sample_choice, sample_free]),
      apl_Answers = [\<lparr>ra_QuestionID = ''q1'', ra_SelectedOptionIDs = [''b''], ra_Text = []\<rparr>,
        \<lparr>ra_QuestionID = ''q2'', ra_SelectedOptionIDs = [], ra_Text = ''Kazan''\<rparr>]\<rparr>"
proof -
  have f: "QuestionnaireFingerprint (\<lambda>s. s) sample_questionnaire
      = Inr (attempt_digest (map (signature_hash (\<lambda>s. s)) [sample_choice, sample_free]))"
    using sample_questionnaire_valid(1)
    by (simp add: QuestionnaireFingerprint_def ObservedAttempt_valid) (simp add: sample_questionnaire_def)
  have v: "ValidateAnswerBlock (\<lambda>s. s) sample_block = None" "ab_Kind sample_block = AnswerBlockVacancy"
    "ab_Tag sample_block = ''b''" "ab_Name sample_block = ''B''"
    by code_simp+
  have i: "index_answers (\<lambda>s. s) [] (ab_Answers sample_block) = Inr
      [(''City?'', stored_answer ''City?'' [] ''Kazan''), (''Level?'', stored_answer ''Level?'' [''high''] [])]"
    by code_simp
  have r: "resolve_questions (\<lambda>s. s)
      [(''City?'', stored_answer ''City?'' [] ''Kazan''), (''Level?'', stored_answer ''Level?'' [''high''] [])]
      (qn_Questions sample_questionnaire) = Inr [\<lparr>ra_QuestionID = ''q1'', ra_SelectedOptionIDs = [''b''], ra_Text = []\<rparr>,
        \<lparr>ra_QuestionID = ''q2'', ra_SelectedOptionIDs = [], ra_Text = ''Kazan''\<rparr>]"
    by code_simp
  have u: "find (\<lambda>(key, answer). key \<notin> set (map (\<lambda>q. NormalizeQuestionText (\<lambda>s. s) (qu_Text q)) (qn_Questions sample_questionnaire)))
      [(''City?'', stored_answer ''City?'' [] ''Kazan''), (''Level?'', stored_answer ''Level?'' [''high''] [])] = None"
    by code_simp
  show ?thesis unfolding ResolveAnswerBlock_def f sum.case v i r option.case Let_def u by simp
qed

theorem strict_resolution_witness:
  "ResolveBlockAnswers (\<lambda>s. s) sample_questionnaire sample_block = Inr
     [\<lparr>ra_QuestionID = ''q1'', ra_SelectedOptionIDs = [''b''], ra_Text = []\<rparr>,
      \<lparr>ra_QuestionID = ''q2'', ra_SelectedOptionIDs = [], ra_Text = ''Kazan''\<rparr>]"
  using strict_resolution [OF sample_resolved] by simp

theorem attempt_fingerprint_content_witness:
  "ObservedAttemptFingerprint (\<lambda>s. s) sample_questionnaire = ObservedAttemptFingerprint (\<lambda>s. s) sample_turned"
proof -
  have "mset (map (question_content (\<lambda>s. s)) (qn_Questions sample_questionnaire))
      = mset (map (question_content (\<lambda>s. s)) (qn_Questions sample_turned))"
    by (simp add: sample_questionnaire_def sample_turned_def sample_choice_def sample_free_def question_content_def)
  then show ?thesis using attempt_fingerprint_content [OF sample_questionnaire_valid] by simp
qed

definition later_block :: AnswerBlock where
  "later_block = vacancy_block [stored_answer ''Level?'' [''low''] [], stored_answer ''Name?'' [] ''Ann'']"

theorem merge_is_update_witness:
  "\<exists>merged. MergeAnswerBlocks (\<lambda>s. s) sample_block later_block = Inr merged
     \<and> by_text (\<lambda>s. s) (ab_Answers merged) = by_text (\<lambda>s. s) (ab_Answers sample_block) ++ by_text (\<lambda>s. s) (ab_Answers later_block)"
proof -
  have m: "MergeAnswerBlocks (\<lambda>s. s) sample_block later_block = Inr (vacancy_block
      [stored_answer ''City?'' [] ''Kazan'', stored_answer ''Level?'' [''low''] [], stored_answer ''Name?'' [] ''Ann''])"
    by code_simp
  have d: "distinct (texts_of (\<lambda>s. s) (ab_Answers sample_block))" "distinct (texts_of (\<lambda>s. s) (ab_Answers later_block))"
    by code_simp+
  show ?thesis using merge_is_update [OF d m] m by blast
qed

section \<open>What the checks of blocks leave open\<close>

definition print_a :: string where "print_a = replicate 64 CHR ''a''"
definition print_b :: string where "print_b = replicate 64 CHR ''b''"

definition two_variants :: AnswerBlock where
  "two_variants = vacancy_block [(stored_answer ''Level?'' [''low''] [])\<lparr>sa_QuestionFingerprint := print_a\<rparr>,
     (stored_answer ''Level?'' [''high''] [])\<lparr>sa_QuestionFingerprint := print_b\<rparr>]"

definition one_variant :: AnswerBlock where
  "one_variant = vacancy_block [(stored_answer ''Level?'' [''mid''] [])\<lparr>sa_QuestionFingerprint := print_a\<rparr>]"

text \<open>
  A block may answer one text in two variants, told apart by their fingerprints. The merge knows texts
  only: a new answer of the first variant takes the place of the second, whose answer is lost, and the
  result has two answers of one fingerprint, which the validation refuses.
\<close>

lemma merge_loses_variant:
  "ValidateAnswerBlock (\<lambda>s. s) two_variants = None" "ValidateAnswerBlock (\<lambda>s. s) one_variant = None"
  "\<exists>merged. MergeAnswerBlocks (\<lambda>s. s) two_variants one_variant = Inr merged
     \<and> map sa_QuestionFingerprint (ab_Answers merged) = [print_a, print_a]
     \<and> ValidateAnswerBlock (\<lambda>s. s) merged \<noteq> None"
proof -
  show "ValidateAnswerBlock (\<lambda>s. s) two_variants = None" "ValidateAnswerBlock (\<lambda>s. s) one_variant = None"
    by code_simp+
  have "MergeAnswerBlocks (\<lambda>s. s) two_variants one_variant = Inr (vacancy_block
      [(stored_answer ''Level?'' [''low''] [])\<lparr>sa_QuestionFingerprint := print_a\<rparr>,
       (stored_answer ''Level?'' [''mid''] [])\<lparr>sa_QuestionFingerprint := print_a\<rparr>])"
    by code_simp
  moreover have "ValidateAnswerBlock (\<lambda>s. s) (vacancy_block
      [(stored_answer ''Level?'' [''low''] [])\<lparr>sa_QuestionFingerprint := print_a\<rparr>,
       (stored_answer ''Level?'' [''mid''] [])\<lparr>sa_QuestionFingerprint := print_a\<rparr>]) \<noteq> None"
    by code_simp
  ultimately show "\<exists>merged. MergeAnswerBlocks (\<lambda>s. s) two_variants one_variant = Inr merged
     \<and> map sa_QuestionFingerprint (ab_Answers merged) = [print_a, print_a]
     \<and> ValidateAnswerBlock (\<lambda>s. s) merged \<noteq> None"
    by (simp add: vacancy_block_def stored_answer_def)
qed

text \<open>A block the validation accepts can still be one that no questionnaire resolves by.\<close>

lemma two_variants_unresolvable:
  "ResolveAnswerBlock lower questionnaire two_variants = Inr plan \<Longrightarrow> lower = (\<lambda>s. s) \<Longrightarrow> False"
proof -
  assume r: "ResolveAnswerBlock lower questionnaire two_variants = Inr plan" and l: "lower = (\<lambda>s. s)"
  obtain stored where "index_answers lower [] (ab_Answers two_variants) = Inr stored"
    using r by (rule ResolveAnswerBlock_parts)
  moreover have "\<exists>e. index_answers (\<lambda>s. s) [] (ab_Answers two_variants) = Inl e"
    by (intro exI) code_simp
  ultimately show False using l by auto
qed

text \<open>
  The digest of answers sorts them by their text alone, so two answers of one text in another order have
  another digest, although it is meant to be independent of the order.
\<close>

lemma digest_order:
  "answers_json (\<lambda>s. s) (ab_Answers two_variants) \<noteq> answers_json (\<lambda>s. s) (rev (ab_Answers two_variants))"
  by code_simp

end
