(* ===== verification/Reviews_Props.thy ===== *)
theory Reviews_Props
  imports Reviews_Inv Questionnaire_Props
begin

text \<open>
  The properties of the stores of tests: the history of a session, the catalog that only grows, the pass
  that stays, and the answer that the store takes.
\<close>

section \<open>Histories\<close>

text \<open>
  C29. In every store that calls of its methods lead to, the answers of a session stand in the order of their
  revisions, one for each revision, all before the revision of the session, and each is a valid answer to
  a prompt that the store holds for that session at that revision.
\<close>

theorem review_history:
  assumes "test_reachable lower s" and "map_of (tst_reviews s) i = Some r"
  shows "sorted_wrt (\<lambda>x y. sel_Revision x < sel_Revision y) (selections_of s i)
    \<and> (\<forall>x \<in> set (selections_of s i). ReviewSelection_Validate x = None \<and> sel_SessionID x = i
        \<and> sel_Revision x < rs_Revision r
        \<and> (\<exists>p. map_of (tst_prompts s) (sel_PromptID x) = Some p \<and> rp_SessionID p = i \<and> rp_Revision p = sel_Revision x))"
proof -
  have ok: "tests_ok lower s" by (rule reachable_tests_ok [OF assms(1)])
  then have "rs_ID r = i" using tests_ok_parts(2) [OF ok assms(2)] by simp
  then show ?thesis using tests_ok_parts(1) [OF ok, of i] assms(2) by (simp add: history_ok_def answer_of_def)
qed

text \<open>No call takes an answer back: it adds at most one, and prompts stay as they are.\<close>

lemma selections_append_only:
  assumes "test_step lower s s'"
  shows "(\<exists>xs. selections_of s' i = selections_of s i @ xs \<and> length xs \<le> 1)
    \<and> (\<forall>k p. map_of (tst_prompts s) k = Some p \<longrightarrow> map_of (tst_prompts s') k = Some p)"
  using assms
proof cases
  case (save_attempt ctx a)
  then show ?thesis using SaveTestAttempt_cases [of ctx a s] by auto
next
  case (upsert_test ctx d)
  then show ?thesis using UpsertTestDefinition_cases [of lower ctx d s] by (auto split: option.splits)
next
  case (create_review ctx r)
  then show ?thesis using CreateReviewSession_cases [of lower ctx r s] by auto
next
  case (cancel_review ctx r n)
  then show ?thesis using CancelReviewSession_cases [of lower ctx r n s] by auto
next
  case (save_prompt ctx r p n)
  then show ?thesis using SaveReviewPrompt_cases [of lower ctx r p n s] by auto
next
  case (append_selection ctx r x n)
  then show ?thesis using AppendReviewSelection_cases [of lower ctx r x n s] by (auto simp: selections_of_def)
qed

section \<open>The catalog\<close>

text \<open>
  C30. Nothing a test was seen to ask is forgotten: a later store has every question of an earlier one, seen
  as early and as late, the count of attempts and the time of the last update never go back, and what is
  stored stays valid.
\<close>

theorem catalog_grows:
  assumes "test_reachable lower s" and "(test_step lower)\<^sup>*\<^sup>* s s'" and "map_of (tst_tests s) i = Some d"
  shows "\<exists>d'. map_of (tst_tests s') i = Some d' \<and> seen_at_least d d' \<and> TestDefinition_Validate lower d' = None"
proof -
  have one: "\<exists>e'. map_of (tst_tests b) i = Some e' \<and> seen_at_least e e'"
    if ok: "tests_ok lower a" and st: "test_step lower a b" and e: "map_of (tst_tests a) i = Some e" for a b e
    using st
  proof cases
    case (upsert_test ctx d)
    have old: "TestDefinition_Validate lower x = None" if "map_of (tst_tests a) j = Some x" for j x
      using tests_ok_parts(4) [OF ok that] by simp
    show ?thesis
      using UpsertTestDefinition_cases [of lower ctx d a] e old upsert_test merge_seen [of lower]
      by (cases "map_of (tst_tests a) (td_ID d)") (auto simp del: td_merge(7))
  next
    case (save_attempt ctx x)
    then show ?thesis using e SaveTestAttempt_cases [of ctx x a] by auto
  next
    case (create_review ctx r)
    then show ?thesis using e CreateReviewSession_cases [of lower ctx r a] by auto
  next
    case (cancel_review ctx r n)
    then show ?thesis using e CancelReviewSession_cases [of lower ctx r n a] by auto
  next
    case (save_prompt ctx r p n)
    then show ?thesis using e SaveReviewPrompt_cases [of lower ctx r p n a] by auto
  next
    case (append_selection ctx r x n)
    then show ?thesis using e AppendReviewSelection_cases [of lower ctx r x n a] by auto
  qed
  have "tests_ok lower s' \<and> (\<exists>d'. map_of (tst_tests s') i = Some d' \<and> seen_at_least d d')"
    using assms(2)
  proof induction
    case base
    then show ?case using assms(3) reachable_tests_ok [OF assms(1)] by simp
  next
    case (step b c)
    then show ?case using one [of b c] test_step_keeps seen_at_least_trans by blast
  qed
  then show ?thesis using tests_ok_parts(4) by blast
qed

section \<open>Outcomes\<close>

text \<open>
  Once a test is passed it stays passed, with the fingerprint and the time it was passed at, whatever is
  reported later; the count of attempts and the time of the last report never go back.
\<close>

theorem pass_stays:
  assumes "(test_step lower)\<^sup>*\<^sup>* s s'" and "map_of (tst_attempts s) k = Some a"
  shows "\<exists>a'. map_of (tst_attempts s') k = Some a' \<and> ta_Attempts a \<le> ta_Attempts a' \<and> ta_UpdatedAt a \<le> ta_UpdatedAt a'
    \<and> (TestAttempt_Passed a \<longrightarrow> TestAttempt_Passed a' \<and> ta_ObservedAt a' = ta_ObservedAt a
        \<and> ta_AttemptFingerprint a' = ta_AttemptFingerprint a)"
  using assms(1)
proof induction
  case base
  then show ?case using assms(2) by simp
next
  case (step b c)
  then obtain x where x: "map_of (tst_attempts b) k = Some x" "ta_Attempts a \<le> ta_Attempts x" "ta_UpdatedAt a \<le> ta_UpdatedAt x"
    "TestAttempt_Passed a \<longrightarrow> TestAttempt_Passed x \<and> ta_ObservedAt x = ta_ObservedAt a
        \<and> ta_AttemptFingerprint x = ta_AttemptFingerprint a"
    by blast
  show ?case
    using step(2)
  proof cases
    case (save_attempt ctx y)
    show ?thesis
    proof (cases "k = attempt_key y \<and> snd (SaveTestAttempt ctx y b) \<noteq> b")
      case True
      then have "map_of (tst_attempts c) k = Some (merge_attempt x y)"
        using save_attempt SaveTestAttempt_cases [of ctx y b] x(1) by auto
      moreover have "TestAttempt_Passed x \<longrightarrow> TestAttempt_Passed (merge_attempt x y)
          \<and> ta_ObservedAt (merge_attempt x y) = ta_ObservedAt x
          \<and> ta_AttemptFingerprint (merge_attempt x y) = ta_AttemptFingerprint x"
        using merge_attempt_outcome [of x y] by (auto simp: TestAttempt_Passed_def split: if_splits)
      ultimately show ?thesis using x by (auto simp: le_max_iff_disj)
    next
      case False
      then have "map_of (tst_attempts c) k = Some x"
        using save_attempt SaveTestAttempt_cases [of ctx y b] x(1) by auto
      then show ?thesis using x by blast
    qed
  next
    case (upsert_test ctx d)
    then have "tst_attempts c = tst_attempts b"
      using UpsertTestDefinition_cases [of lower ctx d b] by (auto split: option.splits)
    then show ?thesis using x by simp
  next
    case (create_review ctx r)
    then have "tst_attempts c = tst_attempts b" using CreateReviewSession_cases [of lower ctx r b] by auto
    then show ?thesis using x by simp
  next
    case (cancel_review ctx r n)
    then have "tst_attempts c = tst_attempts b" using CancelReviewSession_cases [of lower ctx r n b] by auto
    then show ?thesis using x by simp
  next
    case (save_prompt ctx r p n)
    then have "tst_attempts c = tst_attempts b" using SaveReviewPrompt_cases [of lower ctx r p n b] by auto
    then show ?thesis using x by simp
  next
    case (append_selection ctx r y n)
    then have "tst_attempts c = tst_attempts b" using AppendReviewSelection_cases [of lower ctx r y n b] by auto
    then show ?thesis using x by simp
  qed
qed

text \<open>A valid outcome is never refused: the merge of valid outcomes is valid.\<close>

lemma save_attempt_accepted:
  assumes "test_reachable lower s" and "TestAttempt_Validate a = None"
  shows "fst (SaveTestAttempt None a s) = None"
  using assms(2) merge_attempt_valid tests_ok_parts(5) [OF reachable_tests_ok [OF assms(1)]]
  by (auto simp: SaveTestAttempt_def Let_def split: option.splits)

section \<open>Answers\<close>

lemma validateSelection_answer:
  "validateSelection lower q selected answer = None \<Longrightarrow> (answer = [] \<longleftrightarrow> selected \<noteq> [])"
  by (auto simp: validateSelection_def split: QuestionKind.splits if_splits option.splits)

lemma RecordSelection_cases:
  assumes "RecordSelection lower p selected answer source n t r = (Inr x, r')"
  shows "rs_Status r = ReviewWaiting \<and> rp_SessionID p = rs_ID r \<and> n = rs_Revision r \<and> rp_Revision p = rs_Revision r
    \<and> \<not> IsZero t \<and> rs_UpdatedAt r \<le> t \<and> source \<noteq> [] \<and> validateSelection lower (rp_Question p) selected answer = None
    \<and> (\<forall>d. rp_Deadline p = Some d \<longrightarrow> t < d)
    \<and> x = \<lparr>sel_PromptID = rp_ID p, sel_SessionID = rs_ID r, sel_Revision = rs_Revision r,
             sel_SelectedOptions = selected, sel_Text = answer, sel_Source = source,
             sel_Assessment = AssessmentUnverified, sel_SelectedAt = t\<rparr>
    \<and> r' = r\<lparr>rs_Revision := rs_Revision r + 1, rs_Status := ReviewAnswered, rs_UpdatedAt := t\<rparr>"
  using assms by (auto simp: RecordSelection_def split: if_splits option.splits)

lemma answered_valid:
  assumes "ReviewSession_Validate lower r = None" and "rs_Revision r + 1 \<noteq> 0" and "rs_UpdatedAt r \<le> t"
  shows "ReviewSession_Validate lower (r\<lparr>rs_Revision := rs_Revision r + 1, rs_Status := ReviewAnswered, rs_UpdatedAt := t\<rparr>) = None"
  using assms by (auto simp: ReviewSession_Validate_def split: if_splits option.splits)

text \<open>
  C31. An answer recorded against the stored session and its stored prompt is taken by the store: the session
  moves on by one revision and the answer is the last of its history. (The revision is a 64-bit counter;
  the last one cannot be advanced.)
\<close>

theorem recorded_answer_stored:
  assumes "test_reachable lower s" and "map_of (tst_reviews s) i = Some r"
    and "map_of (tst_prompts s) (rp_ID p) = Some p"
    and "RecordSelection lower p selected answer source n t r = (Inr x, r')"
    and "rs_Revision r \<noteq> -1"
  shows "\<exists>s'. AppendReviewSelection lower None r' x n s = (None, s') \<and> map_of (tst_reviews s') i = Some r'
    \<and> selections_of s' i = selections_of s i @ [x] \<and> rs_Revision r' = n + 1"
proof -
  have ok: "tests_ok lower s" by (rule reachable_tests_ok [OF assms(1)])
  note r = tests_ok_parts(2) [OF ok assms(2)] and p = tests_ok_parts(3) [OF ok assms(3)]
  note c = RecordSelection_cases [OF assms(4)]
  have nz: "rs_Revision r + 1 \<noteq> 0" using next_revision_nonzero [OF assms(5)] .
  have r': "ReviewSession_Validate lower r' = None" using answered_valid [of lower r t] r c nz by simp
  have "rp_ID p \<noteq> []" "rp_SessionID p \<noteq> []" "rp_Revision p \<noteq> 0"
    using p by (auto simp: ReviewPrompt_Validate_def split: if_splits)
  then have x: "ReviewSelection_Validate x = None"
    using c validateSelection_answer [of lower "rp_Question p" selected answer] by (auto simp: ReviewSelection_Validate_def)
  show ?thesis
    using c r r' x assms(2,3) by (simp add: AppendReviewSelection_def selections_of_def)
qed


section \<open>Samples\<close>

definition empty_test :: TestDefinition where
  "empty_test = \<lparr>td_ID = ''t'', td_Platform = ''hh'', td_ExternalID = ''x'', td_Title = ''T'', td_Qualification = None,
     td_Questions = [], td_LastAttemptFingerprint = [], td_ObservedAttempts = 0, td_DiscoveredAt = 10, td_UpdatedAt = 10\<rparr>"

definition pending_review :: ReviewSession where
  "pending_review = \<lparr>rs_ID = ''r'', rs_TestDefinitionID = ''t'', rs_Platform = ''hh'', rs_ProfileID = ''p'',
     rs_CorrelationID = ''c'', rs_Status = ReviewPending, rs_Revision = 1, rs_CreatedAt = 10, rs_UpdatedAt = 10,
     rs_Questionnaire = empty_Questionnaire, rs_AnswerBlockTag = []\<rparr>"

definition waiting_review :: ReviewSession where
  "waiting_review = pending_review\<lparr>rs_Status := ReviewWaiting, rs_UpdatedAt := 11\<rparr>"

definition first_prompt :: ReviewPrompt where
  "first_prompt = \<lparr>rp_ID = ''r-prompt-1'', rp_SessionID = ''r'', rp_Revision = 1, rp_Question = sample_choice,
     rp_Deadline = None, rp_CreatedAt = 11\<rparr>"

definition test_store :: TestStore where
  "test_store = empty_TestStore\<lparr>tst_tests := [(''t'', empty_test)]\<rparr>"

definition asked_store :: TestStore where
  "asked_store = test_store\<lparr>tst_reviews := [(''r'', waiting_review)], tst_prompts := [(''r-prompt-1'', first_prompt)]\<rparr>"

lemma reach_step: "test_reachable lower s \<Longrightarrow> test_step lower s s' \<Longrightarrow> s' = t \<Longrightarrow> test_reachable lower t"
  using test_reachable.step by blast

lemma test_store_reachable: "test_reachable (\<lambda>s. s) test_store"
  by (rule reach_step [OF test_reachable.start upsert_test [of _ _ None empty_test]]) code_simp

lemma asked_store_reachable: "test_reachable (\<lambda>s. s) asked_store"
proof -
  have "test_reachable (\<lambda>s. s) (test_store\<lparr>tst_reviews := [(''r'', pending_review)]\<rparr>)"
    by (rule reach_step [OF test_store_reachable create_review [of _ _ None pending_review]]) code_simp
  then show ?thesis
    by (rule reach_step [OF _ save_prompt [of _ _ None waiting_review first_prompt 1]]) code_simp
qed

definition first_selection :: ReviewSelection where
  "first_selection = \<lparr>sel_PromptID = ''r-prompt-1'', sel_SessionID = ''r'', sel_Revision = 1, sel_SelectedOptions = [''high''],
     sel_Text = [], sel_Source = ''cli'', sel_Assessment = AssessmentUnverified, sel_SelectedAt = 12\<rparr>"

definition answered_review :: ReviewSession where
  "answered_review = pending_review\<lparr>rs_Status := ReviewAnswered, rs_Revision := 2, rs_UpdatedAt := 12\<rparr>"

theorem recorded_answer_stored_witness:
  "\<exists>s'. AppendReviewSelection (\<lambda>s. s) None answered_review first_selection 1 asked_store = (None, s')
     \<and> selections_of s' ''r'' = [first_selection]"
proof -
  have r: "map_of (tst_reviews asked_store) ''r'' = Some waiting_review" by code_simp
  have p: "map_of (tst_prompts asked_store) (rp_ID first_prompt) = Some first_prompt" by code_simp
  have c: "RecordSelection (\<lambda>s. s) first_prompt [''high''] [] ''cli'' 1 12 waiting_review = (Inr first_selection, answered_review)"
    by code_simp
  have n: "rs_Revision waiting_review \<noteq> -1" by (simp add: waiting_review_def pending_review_def)
  have e: "selections_of asked_store ''r'' = []" by code_simp
  show ?thesis using recorded_answer_stored [OF asked_store_reachable r p c n] e by auto
qed

definition answered_store :: TestStore where
  "answered_store = asked_store\<lparr>tst_reviews := [(''r'', answered_review)], tst_selections := [(''r'', [first_selection])]\<rparr>"

theorem review_history_witness:
  "\<exists>p. map_of (tst_prompts answered_store) (sel_PromptID first_selection) = Some p \<and> rp_Revision p = 1"
proof -
  have s: "test_reachable (\<lambda>s. s) answered_store"
    by (rule reach_step [OF asked_store_reachable append_selection [of _ _ None answered_review first_selection 1]]) code_simp
  have r: "map_of (tst_reviews answered_store) ''r'' = Some answered_review" by code_simp
  have x: "first_selection \<in> set (selections_of answered_store ''r'')" by code_simp
  have n: "sel_Revision first_selection = 1" by (simp add: first_selection_def)
  show ?thesis using review_history [OF s r] x n by metis
qed

text \<open>A test that is seen again, with a question that it has not asked before.\<close>

definition seen_question :: TestQuestion where
  "seen_question = \<lparr>tq_Fingerprint = signature_hash (\<lambda>s. s) sample_free, tq_Text = ''City?'', tq_Kind = QuestionText,
     tq_Options = [], tq_FirstSeenAt = 20, tq_LastSeenAt = 20\<rparr>"

lemma seen_question_valid: "validateStoredTestQuestion (\<lambda>s. s) seen_question = None"
proof -
  let ?q = "\<lparr>qu_ID = ''stored'', qu_Text = ''City?'', qu_Kind = QuestionText, qu_Options = []\<rparr>"
  have "validateQuestion (\<lambda>s. s) ?q = None" by code_simp
  moreover have "signature_hash (\<lambda>s. s) ?q = signature_hash (\<lambda>s. s) sample_free"
    by (rule signature_content) (simp add: question_content_def sample_free_def)
  ultimately show ?thesis
    by (simp add: validateStoredTestQuestion_def seen_question_def QuestionFingerprint_def signature_hash_def IsZero_def)
qed

definition asked_test :: TestDefinition where
  "asked_test = empty_test\<lparr>td_Questions := [seen_question], td_ObservedAttempts := 1, td_UpdatedAt := 20\<rparr>"

lemma asked_test_valid: "TestDefinition_Validate (\<lambda>s. s) asked_test = None"
proof -
  have "TrimSpace ''x'' \<noteq> []" by code_simp
  then show ?thesis using seen_question_valid
    by (simp add: TestDefinition_Validate_def asked_test_def empty_test_def IsZero_def)
qed

definition later_test :: TestDefinition where
  "later_test = empty_test\<lparr>td_UpdatedAt := 30\<rparr>"

theorem catalog_grows_witness:
  "\<exists>d'. map_of (tst_tests (snd (UpsertTestDefinition (\<lambda>s. s) None later_test
       (snd (UpsertTestDefinition (\<lambda>s. s) None asked_test empty_TestStore))))) ''t'' = Some d' \<and> seen_at_least asked_test d'"
proof -
  let ?s = "snd (UpsertTestDefinition (\<lambda>s. s) None asked_test empty_TestStore)"
  have s: "test_reachable (\<lambda>s. s) ?s" by (rule test_reachable.step [OF test_reachable.start upsert_test])
  have d: "map_of (tst_tests ?s) ''t'' = Some asked_test"
    using asked_test_valid by (simp add: UpsertTestDefinition_def empty_TestStore_def) (simp add: asked_test_def empty_test_def)
  have st: "(test_step (\<lambda>s. s))\<^sup>*\<^sup>* ?s (snd (UpsertTestDefinition (\<lambda>s. s) None later_test ?s))"
    by (rule r_into_rtranclp) (rule upsert_test)
  show ?thesis using catalog_grows [OF s st d] by blast
qed

definition passed_attempt :: TestAttempt where
  "passed_attempt = \<lparr>ta_Platform = ''hh'', ta_ProfileID = ''p'', ta_ExternalID = ''x'', ta_TestDefinitionID = ''t'',
     ta_Status = TestAttemptPassed, ta_AttemptFingerprint = [], ta_Attempts = 2, ta_ObservedAt = 10, ta_UpdatedAt = 10\<rparr>"

definition failed_attempt :: TestAttempt where
  "failed_attempt = passed_attempt\<lparr>ta_Status := TestAttemptFailed, ta_Attempts := 1, ta_ObservedAt := 20, ta_UpdatedAt := 20\<rparr>"

theorem pass_stays_witness:
  "\<exists>a. map_of (tst_attempts (snd (SaveTestAttempt None failed_attempt (snd (SaveTestAttempt None passed_attempt empty_TestStore)))))
        (''hh'', ''p'', ''x'') = Some a \<and> TestAttempt_Passed a"
proof -
  let ?s = "snd (SaveTestAttempt None passed_attempt empty_TestStore)"
  have a: "map_of (tst_attempts ?s) (''hh'', ''p'', ''x'') = Some passed_attempt" by code_simp
  have st: "(test_step (\<lambda>s. s))\<^sup>*\<^sup>* ?s (snd (SaveTestAttempt None failed_attempt ?s))"
    by (rule r_into_rtranclp) (rule save_attempt)
  have "TestAttempt_Passed passed_attempt" by code_simp
  then show ?thesis using pass_stays [OF st a] by blast
qed

end
