(* ===== verification/Spec2Isabelle.thy ===== *)
theory Spec2Isabelle
  imports Broker_Props Worker_Props Scheduler_Props Application_Props Budget_Props Pacing_Props
    Campaign_Props AuthSession_Props Revisions_Props Conversation_Props Submission_Props
    ConversationStore_Props ProfileApply_Props EmployerGroups_Props Tailoring_Props
    Reviews_Props
begin

text \<open>
  A verification development for the job agent: a Go service that searches vacancies, spreads
  them over profiles, prepares and sends applications and keeps its work in durable tasks. The
  development models the service's own core: its domain records with their state machines
  (\<open>core/\<close>), the task queue (\<open>broker/\<close>), the worker that executes tasks
  (\<open>worker/worker.go\<close>), the scheduler that creates them (\<open>scheduler/\<close>), and the
  in-memory repository (\<open>storage/memory/\<close>).

  \<^bold>\<open>How the parts interact.\<close> The scheduler asks its store for due schedules and
  enqueues one task per occurrence. A worker claims a task under a lease, runs its handler,
  extends the lease on a heartbeat, and completes, retries or fails the task. Handlers move the
  domain records and keep them in the repository: applications take a slot of the daily budget
  and of the pacing of their profile, campaigns and searches advance a cursor that is guarded by
  a revision, and logins wait for their challenges. The handler of \<open>application.submit\<close> is
  where these meet: it prepares an application, takes its slots, submits it through a platform's
  transport, and settles what came of it.

  \<^bold>\<open>Conventions.\<close> A Go struct is a record, a method a function of its receiver. A
  string enumeration is a datatype with one constructor for every other text. An instant is an
  integer, nanoseconds since year 1 in UTC, so \<open>IsZero\<close> is equality with 0. A context is
  what \<open>ctx.Err()\<close> returns, an optional error, as first argument. Errors are values:
  \<open>error + 'a\<close> for a result, \<open>error option\<close> for a check; a method that validates
  its receiver after it has changed it returns its error beside the changed record. A Go map is
  an association list with distinct keys, whose order stands for the order of an iteration; a
  mutex makes an operation one step. A revision is a 64-bit word. Randomness, identifiers, the
  cron parser and the handlers are arguments of the definitions that use them. Nil receivers are
  not modelled.

  \<^bold>\<open>The theories.\<close>
  \<^item> Prelude, Texts: instants, sorting (\<open>sort.Slice\<close>), \<open>strings\<close> and
    \<open>strconv\<close>; GoUtf8: runes; GoJson: \<open>json.Valid\<close>; GoJsonValue, GoJsonValue_Props and
    GoJsonRoundtrip: reading and writing of JSON values, and that they are inverse; GoCrypto:
    SHA-256 and hexadecimal texts.
  \<^item> Actions: calls that change a world and may fail, in sequence, and what a sequence keeps.
  \<^item> Errors: \<open>core/errors.go\<close>. Interfaces: the contracts shared by components, as
    locales; each component interprets them on its own definitions.
  \<^item> Task: \<open>core/task.go\<close>.
  \<^item> Broker: \<open>broker/queue.go\<close> and \<open>broker/memory/queue.go\<close>. Broker_Inv: the
    invariant of its three maps over all runs; Broker_Order: the order of claims and the
    blocking rule; Broker_Facts: what steps keep; Broker_Ready: the contract of a claim (ready
    tasks, blocked lanes, who goes first) over the stored tasks and leases alone, and that the
    scan of the code meets it; Broker_Props: the properties.
  \<^item> Worker: \<open>worker/worker.go\<close> over any consumer that meets the contract
    \<open>task_consumer\<close>; Worker_Queue shows that the memory queue meets it; Worker_Props.
  \<^item> Scheduler and Scheduler_Props: \<open>scheduler/scheduler.go\<close> over any queue that
    meets \<open>schedule_queue\<close>, which the memory queue does.
  \<^item> Application and Application_Props: \<open>core/application.go\<close>, platform state,
    removal, vacancies and search pages.
  \<^item> Budget, Pacing with their Props: \<open>core/application_budget.go\<close>,
    \<open>core/application_pacing.go\<close> and their stores.
  \<^item> Campaign and Campaign_Props: \<open>core/search_run.go\<close>,
    \<open>core/application_campaign.go\<close> and their stores.
  \<^item> AuthSession and AuthSession_Props: \<open>core/auth_session.go\<close> and its store.
  \<^item> Conversation, FollowUp and Conversation_Props: \<open>core/conversation.go\<close>.
    ConversationStore and its Props: \<open>storage/memory/conversation.go\<close>, its indexes and
    timelines over all runs, and what a purge leaves behind.
  \<^item> ApplicationStore: vacancies, discoveries, applications and observed states in
    \<open>storage/memory/repository.go\<close>. Activity: \<open>core/profile_activity.go\<close> with
    its store.
  \<^item> GoJsonDepth: the decoder's limit on nesting. ProfileState, ProfilePlan and ProfileState_Props:
    \<open>core/profile_state.go\<close> with its store: the canonical form, JSON pointers, overrides as map
    updates, plans as the set of fields that differ, and what a retry of a plan applies.
    ProfileApply and its Props: the planner, the commands and the handler that has a plan applied.
  \<^item> EmployerGroups and its Props: \<open>operator/employer.go\<close>, that its recursions return
    and match by reachability. ResumeTailoring and ResumeTailoringModel:
    \<open>operator/resume_tailoring.go\<close>, its chain and its model processor. GoTime: the texts
    of instants. Tailoring, TailoringStore and TailoringRun: the saga of a temporary resume,
    \<open>core/application_tailoring.go\<close>, its store and
    \<open>worker/application_tailoring.go\<close>. Tailoring_Inv: what every step of the coordinator
    keeps of the stores and of the history of its writes; Tailoring_Quiet: which steps can store a
    saga as applied or submitting; Tailoring_Sample: a saga worked out, with
    GoCrypto_Eval, where SHA-256 is evaluated on its two states; Tailoring_Props: one saga per
    profile, what may be written, what an answer was checked against, and that recovery blocks.
  \<^item> Questionnaire: \<open>core/questionnaire.go\<close> and \<open>core/test_definition.go\<close>.
    AnswerBlocks: the registry, the revisions and the merge of blocks of reviewed answers, their
    store, \<open>worker/vacancy_answer_resolver.go\<close> and \<open>core/conversation_answer.go\<close>.
    Reviews: \<open>core/review.go\<close>, \<open>core/test_attempt.go\<close> and their stores.
    Questionnaire_Props: both ways to resolve agree, fingerprints ignore orders and runtime ids, a
    merge is the update of a map. Reviews_Inv: what every call keeps of the stores of tests;
    Reviews_Props: the history of a session, the catalog that only grows, the pass that stays.
  \<^item> Plans and Submission: \<open>worker/application.go\<close> with what it takes from
    \<open>operator/application.go\<close>, \<open>adapter/adapter.go\<close> and \<open>core/command.go\<close>.
    The world of the handler holds the repository's maps, the outside world as a parameter, and a
    history of the submissions, which the code does not have. Submission_Inv: the invariant that
    every part of the handler keeps; Submission_Run: all runs, and one worked out;
    Submission_Props: no submission twice, none without its slots, the day's limit at every
    call, and what every failure leaves, as a table.
  \<^item> Revisions_Props: the stores guarded by a revision, by one contract.

  \<^bold>\<open>Bounds and fuel.\<close> \<open>Worker.Run\<close> is a loop that ends only by an error: it
  takes the rounds as a list. \<open>TrimSpace\<close> takes as many rounds as the text has bytes,
  which is enough because each drops one. The reader of JSON takes twice the length of its
  input, which GoJsonRoundtrip shows to be enough. The two recursions over included employer groups
  take the depth of the call stack, and any depth above the number of groups is enough. The wait for a pacing slot is tried five times, as in the code. The delay of a retry doubles below an hour, so its
  loop ends. Properties of whole runs of a record with a revision bound the number of
  operations by $2^{64}-1$, where the revision would wrap around.

  \<^bold>\<open>Not modelled.\<close> SQLite storage (statements run by an external engine), the
  platform adapters and the browser (network), the preparation by rules, templates and language models, the HTTP API, the
  dashboard, the configuration and the process wiring; of the core: most payloads of
  commands, qualifications and profile drafts, and of the memory repository what belongs to them.
\<close>

end
